(* ===== verification/Harbor_Prelude.thy ===== *)
theory Harbor_Prelude
  imports Complex_Main "HOL-Library.Word" "HOL-Library.Sublist" "HOL-Library.Char_ord"
    "HOL-Library.List_Lexorder" "HOL-Library.Product_Lexorder" "HOL-Library.Option_ord"
begin

text \<open>
  Shared vocabulary of the development.

  \<^item> Rust strings. A Rust \<^verbatim>\<open>String\<close> is modelled by the list of its UTF-8 bytes (type
    \<^typ>\<open>string\<close>), so \<^verbatim>\<open>len\<close>, \<^verbatim>\<open>is_empty\<close>, \<^verbatim>\<open>==\<close>, \<^verbatim>\<open>cmp\<close>, \<^verbatim>\<open>contains\<close>, \<^verbatim>\<open>starts_with\<close>,
    \<^verbatim>\<open>ends_with\<close>, \<^verbatim>\<open>strip_suffix\<close>, \<^verbatim>\<open>to_ascii_lowercase\<close> and the ASCII character classes are the byte
    functions the standard library runs. \<^verbatim>\<open>trim\<close> removes the encodings of every Unicode
    White_Space scalar, one to three bytes each. The Unicode \<^verbatim>\<open>to_lowercase\<close> is modelled on
    the ASCII letters; the bytes of other scalars are left as they are.
  \<^item> \<^verbatim>\<open>serde_json::Value\<close>: the datatype \<open>json\<close>. An object is a \<^verbatim>\<open>BTreeMap\<close>, that is an
    association list in key order.
  \<^item> \<^verbatim>\<open>HashMap\<close>: an association list with distinct keys, whose order stands for the
    iteration order the standard library leaves open.
  \<^item> \<^verbatim>\<open>Result\<close>: the sum type, \<open>Inl\<close> for \<^verbatim>\<open>Err\<close>.
\<close>

section \<open>Collections of rewrite rules\<close>

named_theorems str_defs \<open>definitions of the Rust string functions, for evaluation\<close>
named_theorems op_defs \<open>definitions of the operations of a component\<close>

type_synonym u8 = "8 word"
type_synonym u16 = "16 word"
type_synonym u32 = "32 word"
type_synonym u64 = "64 word"

section \<open>Results\<close>

abbreviation Err :: "'e \<Rightarrow> 'e + 'a" where "Err \<equiv> Inl"
abbreviation Ok :: "'a \<Rightarrow> 'e + 'a" where "Ok \<equiv> Inr"

text \<open>The operator \<^verbatim>\<open>?\<close>: an error returns at once.\<close>

definition and_then :: "'e + 'a \<Rightarrow> ('a \<Rightarrow> 'e + 'b) \<Rightarrow> 'e + 'b" where
  "and_then r f = (case r of Inl e \<Rightarrow> Inl e | Inr x \<Rightarrow> f x)"

definition ensure :: "bool \<Rightarrow> string \<Rightarrow> string + unit" where
  "ensure b msg = (if b then Ok () else Err msg)"

definition is_ok :: "'e + 'a \<Rightarrow> bool" where
  "is_ok r = (case r of Inl _ \<Rightarrow> False | Inr _ \<Rightarrow> True)"

definition unwrap_or :: "'a option \<Rightarrow> 'a \<Rightarrow> 'a" where
  "unwrap_or x d = (case x of None \<Rightarrow> d | Some y \<Rightarrow> y)"

definition is_some :: "'a option \<Rightarrow> bool" where
  "is_some x = (case x of None \<Rightarrow> False | Some _ \<Rightarrow> True)"

definition or_else :: "'a option \<Rightarrow> 'a option \<Rightarrow> 'a option" where
  "or_else x y = (case x of None \<Rightarrow> y | Some _ \<Rightarrow> x)"

definition opt_filter :: "('a \<Rightarrow> bool) \<Rightarrow> 'a option \<Rightarrow> 'a option" where
  "opt_filter p x = (case x of None \<Rightarrow> None | Some y \<Rightarrow> if p y then Some y else None)"

lemma and_then_simps [simp]:
  "and_then (Inl e) f = Inl e" "and_then (Inr x) f = f x"
  by (simp_all add: and_then_def)

lemma and_then_Inr_iff:
  "and_then r f = Inr y \<longleftrightarrow> (\<exists>x. r = Inr x \<and> f x = Inr y)"
  by (cases r) auto

lemma and_then_Inl_iff:
  "and_then r f = Inl e \<longleftrightarrow> r = Inl e \<or> (\<exists>x. r = Inr x \<and> f x = Inl e)"
  by (cases r) auto

lemma is_ok_simps [simp]: "\<not> is_ok (Inl e)" "is_ok (Inr x)"
  by (simp_all add: is_ok_def)

lemma is_ok_iff: "is_ok r \<longleftrightarrow> (\<exists>x. r = Inr x)"
  by (cases r) auto

lemma unwrap_or_simps [simp]: "unwrap_or None d = d" "unwrap_or (Some x) d = x"
  by (simp_all add: unwrap_or_def)

lemma is_some_simps [simp]: "\<not> is_some None" "is_some (Some x)"
  by (simp_all add: is_some_def)

lemma is_some_iff: "is_some x \<longleftrightarrow> (\<exists>y. x = Some y)"
  by (cases x) auto

lemma or_else_simps [simp]: "or_else None y = y" "or_else (Some x) y = Some x"
  by (simp_all add: or_else_def)

lemma opt_filter_simps [simp]:
  "opt_filter p None = None" "opt_filter p (Some x) = (if p x then Some x else None)"
  by (simp_all add: opt_filter_def)

lemma option_ext: "(\<And>v. x = Some v \<longleftrightarrow> y = Some v) \<Longrightarrow> x = y"
  by (metis not_None_eq)

lemma opt_filter_Some_iff: "opt_filter p x = Some y \<longleftrightarrow> x = Some y \<and> p y"
  by (cases x) auto

section \<open>Lists\<close>

lemma length_filter_eq_iff: "length (filter p xs) = length xs \<longleftrightarrow> list_all p xs"
proof (induction xs)
  case (Cons x xs)
  have "length (filter p xs) \<noteq> Suc (length xs)"
    using length_filter_le [of p xs] by linarith
  with Cons show ?case by auto
qed simp

section \<open>Rust strings\<close>

subsection \<open>Character classes\<close>

definition is_ascii_lowercase :: "char \<Rightarrow> bool" where
  [str_defs]: "is_ascii_lowercase c \<longleftrightarrow> CHR ''a'' \<le> c \<and> c \<le> CHR ''z''"

definition is_ascii_uppercase :: "char \<Rightarrow> bool" where
  [str_defs]: "is_ascii_uppercase c \<longleftrightarrow> CHR ''A'' \<le> c \<and> c \<le> CHR ''Z''"

definition is_ascii_digit :: "char \<Rightarrow> bool" where
  [str_defs]: "is_ascii_digit c \<longleftrightarrow> CHR ''0'' \<le> c \<and> c \<le> CHR ''9''"

definition is_ascii_alphanumeric :: "char \<Rightarrow> bool" where
  [str_defs]: "is_ascii_alphanumeric c \<longleftrightarrow>
     is_ascii_lowercase c \<or> is_ascii_uppercase c \<or> is_ascii_digit c"

definition ascii_lower :: "char \<Rightarrow> char" where
  [str_defs]: "ascii_lower c =
     (if is_ascii_uppercase c then char_of (of_char c + (32::nat)) else c)"

definition to_ascii_lowercase :: "string \<Rightarrow> string" where
  [str_defs]: "to_ascii_lowercase s = map ascii_lower s"

text \<open>\<^verbatim>\<open>str::to_lowercase\<close>, on the ASCII letters.\<close>

definition to_lowercase :: "string \<Rightarrow> string" where
  [str_defs]: "to_lowercase s = map ascii_lower s"

definition eq_ignore_ascii_case :: "string \<Rightarrow> string \<Rightarrow> bool" where
  [str_defs]: "eq_ignore_ascii_case s t \<longleftrightarrow> to_ascii_lowercase s = to_ascii_lowercase t"


lemma ascii_lower_idem [simp]: "ascii_lower (ascii_lower c) = ascii_lower c"
proof (cases "is_ascii_uppercase c")
  case True
  then have "of_char c \<le> (90::nat)" "65 \<le> (of_char c :: nat)"
    by (auto simp: is_ascii_uppercase_def less_eq_char_def)
  then have "\<not> is_ascii_uppercase (char_of (of_char c + (32::nat)))"
    by (auto simp: is_ascii_uppercase_def less_eq_char_def)
  then show ?thesis
    using True by (simp add: ascii_lower_def)
next
  case False
  then show ?thesis by (simp add: ascii_lower_def)
qed

lemma to_ascii_lowercase_idem [simp]:
  "to_ascii_lowercase (to_ascii_lowercase s) = to_ascii_lowercase s"
  by (simp add: to_ascii_lowercase_def)

lemma to_lowercase_idem [simp]: "to_lowercase (to_lowercase s) = to_lowercase s"
  by (simp add: to_lowercase_def)

lemma to_ascii_lowercase_Nil_iff [simp]: "to_ascii_lowercase s = [] \<longleftrightarrow> s = []"
  by (simp add: to_ascii_lowercase_def)

subsection \<open>Trimming\<close>

text \<open>
  The Unicode scalars with property White_Space are U+0009 to U+000D, U+0020, U+0085,
  U+00A0, U+1680, U+2000 to U+200A, U+2028, U+2029, U+202F, U+205F and U+3000. Their UTF-8
  encodings have one, two or three bytes.
\<close>

definition ws1 :: "char \<Rightarrow> bool" where
  [str_defs]: "ws1 a \<longleftrightarrow> a = CHR 0x20 \<or> (CHR 0x09 \<le> a \<and> a \<le> CHR 0x0D)"

definition ws2 :: "char \<Rightarrow> char \<Rightarrow> bool" where
  [str_defs]: "ws2 a b \<longleftrightarrow> a = CHR 0xC2 \<and> (b = CHR 0x85 \<or> b = CHR 0xA0)"

definition ws3 :: "char \<Rightarrow> char \<Rightarrow> char \<Rightarrow> bool" where
  [str_defs]: "ws3 a b c \<longleftrightarrow>
     (a = CHR 0xE1 \<and> b = CHR 0x9A \<and> c = CHR 0x80) \<or>
     (a = CHR 0xE2 \<and> b = CHR 0x80 \<and>
        ((CHR 0x80 \<le> c \<and> c \<le> CHR 0x8A) \<or> c = CHR 0xA8 \<or> c = CHR 0xA9 \<or> c = CHR 0xAF)) \<or>
     (a = CHR 0xE2 \<and> b = CHR 0x81 \<and> c = CHR 0x9F) \<or>
     (a = CHR 0xE3 \<and> b = CHR 0x80 \<and> c = CHR 0x80)"

text \<open>One leading white-space scalar; one trailing one, on the reversed bytes.\<close>

fun strip_ws :: "string \<Rightarrow> string option" where
  "strip_ws (a # b # c # s) =
     (if ws1 a then Some (b # c # s) else if ws2 a b then Some (c # s)
      else if ws3 a b c then Some s else None)"
| "strip_ws [a, b] = (if ws1 a then Some [b] else if ws2 a b then Some [] else None)"
| "strip_ws [a] = (if ws1 a then Some [] else None)"
| "strip_ws [] = None"

fun strip_ws_rev :: "string \<Rightarrow> string option" where
  "strip_ws_rev (c # b # a # s) =
     (if ws1 c then Some (b # a # s) else if ws2 b c then Some (a # s)
      else if ws3 a b c then Some s else None)"
| "strip_ws_rev [c, b] = (if ws1 c then Some [b] else if ws2 b c then Some [] else None)"
| "strip_ws_rev [c] = (if ws1 c then Some [] else None)"
| "strip_ws_rev [] = None"

lemma strip_ws_length: "strip_ws s = Some t \<Longrightarrow> length t < length s"
  by (induction s rule: strip_ws.induct) (auto split: if_splits)

lemma strip_ws_rev_length: "strip_ws_rev s = Some t \<Longrightarrow> length t < length s"
  by (induction s rule: strip_ws_rev.induct) (auto split: if_splits)

function trim_start :: "string \<Rightarrow> string" where
  "trim_start s = (case strip_ws s of None \<Rightarrow> s | Some t \<Rightarrow> trim_start t)"
  by pat_completeness auto
termination
  by (relation "measure length") (auto dest: strip_ws_length)

function trim_rev :: "string \<Rightarrow> string" where
  "trim_rev s = (case strip_ws_rev s of None \<Rightarrow> s | Some t \<Rightarrow> trim_rev t)"
  by pat_completeness auto
termination
  by (relation "measure length") (auto dest: strip_ws_rev_length)

declare trim_start.simps [simp del] trim_rev.simps [simp del]

definition trim_end :: "string \<Rightarrow> string" where
  "trim_end s = rev (trim_rev (rev s))"

definition trim :: "string \<Rightarrow> string" where
  "trim s = trim_end (trim_start s)"

text \<open>\<^verbatim>\<open>s.trim().is_empty()\<close>\<close>

definition blank :: "string \<Rightarrow> bool" where
  "blank s \<longleftrightarrow> trim s = []"

text \<open>The trimmed text, if it is not empty (\<^verbatim>\<open>hub.rs\<close>).\<close>

definition non_empty_opt :: "string \<Rightarrow> string option" where
  "non_empty_opt value = (let t = trim value in if t = [] then None else Some t)"

lemma strip_ws_suffix: "strip_ws s = Some t \<Longrightarrow> suffix t s"
  by (induction s rule: strip_ws.induct) (auto split: if_splits simp: suffix_def)

lemma strip_ws_rev_suffix: "strip_ws_rev s = Some t \<Longrightarrow> suffix t s"
  by (induction s rule: strip_ws_rev.induct) (auto split: if_splits simp: suffix_def)

lemma trim_start_suffix: "suffix (trim_start s) s"
proof (induction s rule: trim_start.induct)
  case (1 s)
  then show ?case
    by (cases "strip_ws s")
      (auto simp: trim_start.simps [of s] dest: strip_ws_suffix intro: suffix_order.trans)
qed

lemma trim_rev_suffix: "suffix (trim_rev s) s"
proof (induction s rule: trim_rev.induct)
  case (1 s)
  then show ?case
    by (cases "strip_ws_rev s")
      (auto simp: trim_rev.simps [of s] dest: strip_ws_rev_suffix intro: suffix_order.trans)
qed

lemma trim_end_prefix: "prefix (trim_end s) s"
  using trim_rev_suffix [of "rev s"] by (simp add: trim_end_def suffix_to_prefix)

lemma strip_ws_trim_start: "strip_ws (trim_start s) = None"
proof (induction s rule: trim_start.induct)
  case (1 s)
  then show ?case by (cases "strip_ws s") (auto simp: trim_start.simps [of s])
qed

lemma strip_ws_rev_trim_rev: "strip_ws_rev (trim_rev s) = None"
proof (induction s rule: trim_rev.induct)
  case (1 s)
  then show ?case by (cases "strip_ws_rev s") (auto simp: trim_rev.simps [of s])
qed

lemma trim_start_fixed: "strip_ws s = None \<Longrightarrow> trim_start s = s"
  by (simp add: trim_start.simps)

lemma trim_rev_fixed: "strip_ws_rev s = None \<Longrightarrow> trim_rev s = s"
  by (simp add: trim_rev.simps)

lemma strip_ws_append: "strip_ws s = Some t \<Longrightarrow> strip_ws (s @ u) = Some (t @ u)"
proof (induction s rule: strip_ws.induct)
  case (2 a b)
  then show ?case by (cases u) (auto split: if_splits)
next
  case (3 a)
  then show ?case by (cases u rule: strip_ws.cases) (auto split: if_splits)
qed (auto split: if_splits)

lemma strip_ws_prefix_None:
  assumes "strip_ws s = None" and "prefix p s"
  shows "strip_ws p = None"
proof (rule ccontr)
  assume "strip_ws p \<noteq> None"
  then obtain t where t: "strip_ws p = Some t" by auto
  from assms(2) obtain u where "s = p @ u" by (auto simp: prefix_def)
  with strip_ws_append [OF t, of u] assms(1) show False by simp
qed

lemma trim_idem [simp]: "trim (trim s) = trim s"
proof -
  have 1: "strip_ws (trim s) = None"
    unfolding trim_def
    by (rule strip_ws_prefix_None [OF strip_ws_trim_start trim_end_prefix])
  have 2: "strip_ws_rev (rev (trim s)) = None"
    by (simp add: trim_def trim_end_def strip_ws_rev_trim_rev)
  show ?thesis
    by (subst trim_def) (simp add: trim_end_def trim_start_fixed [OF 1] trim_rev_fixed [OF 2])
qed

text \<open>Text without surrounding space stays so when a slash is put in front of it.\<close>

lemma trim_fixed_iff: "trim s = s \<longleftrightarrow> strip_ws s = None \<and> strip_ws_rev (rev s) = None"
proof
  assume s: "trim s = s"
  have "strip_ws (trim s) = None" "strip_ws_rev (rev (trim s)) = None"
    using strip_ws_prefix_None [OF strip_ws_trim_start trim_end_prefix]
    by (simp_all add: trim_def trim_end_def strip_ws_rev_trim_rev)
  then show "strip_ws s = None \<and> strip_ws_rev (rev s) = None" by (simp add: s)
next
  assume "strip_ws s = None \<and> strip_ws_rev (rev s) = None"
  then show "trim s = s" by (simp add: trim_def trim_end_def trim_start_fixed trim_rev_fixed)
qed

lemma slash_not_space [simp]:
  "\<not> ws1 (CHR ''/'')" "\<not> ws2 (CHR ''/'') b" "\<not> ws3 (CHR ''/'') b c"
  unfolding ws1_def ws2_def ws3_def by code_simp+

lemma trim_slash: "trim s = s \<Longrightarrow> trim (CHR ''/'' # s) = CHR ''/'' # s"
proof -
  have 1: "strip_ws (CHR ''/'' # s) = None"
    by (cases s rule: strip_ws.cases) auto
  have 2: "strip_ws_rev r = None \<Longrightarrow> strip_ws_rev (r @ [CHR ''/'']) = None" for r
    by (induction r rule: strip_ws_rev.induct) (auto split: if_splits)
  assume "trim s = s"
  then show ?thesis using 1 2 [of "rev s"] by (simp add: trim_fixed_iff)
qed

lemma trim_Nil [simp]: "trim [] = []"
  by (simp add: trim_def trim_end_def trim_start.simps trim_rev.simps)

lemma upper_bounds:
  assumes "is_ascii_uppercase c"
  shows "(of_char c :: nat) < 128" "(of_char (ascii_lower c) :: nat) < 128" "\<not> ws1 c" "\<not> ws1 (ascii_lower c)"
proof -
  have n: "of_char c \<le> (90::nat)" "65 \<le> (of_char c :: nat)"
    using assms by (auto simp: is_ascii_uppercase_def less_eq_char_def)
  then have l: "of_char (ascii_lower c) = of_char c + (32::nat)"
    using assms by (simp add: ascii_lower_def)
  show "(of_char c :: nat) < 128" "(of_char (ascii_lower c) :: nat) < 128" using n l by simp_all
  have "\<not> ws1 x" if "33 \<le> (of_char x :: nat)" for x using that by (auto simp: ws1_def less_eq_char_def)
  then show "\<not> ws1 c" "\<not> ws1 (ascii_lower c)" using n l by simp_all
qed

lemma ascii_no_ws:
  assumes "(of_char x :: nat) < 128"
  shows "\<not> ws2 x b" "\<not> ws2 a x" "\<not> ws3 x b c" "\<not> ws3 a x c" "\<not> ws3 a b x"
  using assms by (auto simp: ws2_def ws3_def less_eq_char_def)

lemma ascii_lower_ws:
  "ws1 (ascii_lower a) = ws1 a" "ws2 (ascii_lower a) (ascii_lower b) = ws2 a b"
  "ws3 (ascii_lower a) (ascii_lower b) (ascii_lower c) = ws3 a b c"
proof -
  have same: "\<not> is_ascii_uppercase x \<Longrightarrow> ascii_lower x = x" for x by (simp add: ascii_lower_def)
  note u = upper_bounds and n = ascii_no_ws
  show "ws1 (ascii_lower a) = ws1 a" using u same by (cases "is_ascii_uppercase a") auto
  show "ws2 (ascii_lower a) (ascii_lower b) = ws2 a b"
    using u(1,2) n same by (cases "is_ascii_uppercase a"; cases "is_ascii_uppercase b") simp_all
  show "ws3 (ascii_lower a) (ascii_lower b) (ascii_lower c) = ws3 a b c"
    using u(1,2) n same by (cases "is_ascii_uppercase a"; cases "is_ascii_uppercase b"; cases "is_ascii_uppercase c") simp_all
qed

lemma strip_ws_lower: "strip_ws (map ascii_lower s) = map_option (map ascii_lower) (strip_ws s)"
  by (induction s rule: strip_ws.induct) (simp_all add: ascii_lower_ws)

lemma strip_ws_rev_lower: "strip_ws_rev (map ascii_lower s) = map_option (map ascii_lower) (strip_ws_rev s)"
  by (induction s rule: strip_ws_rev.induct) (simp_all add: ascii_lower_ws)

lemma trim_start_lower: "trim_start (map ascii_lower s) = map ascii_lower (trim_start s)"
proof (induction s rule: trim_start.induct)
  case (1 s)
  then show ?case by (cases "strip_ws s") (simp_all add: trim_start.simps [of s] trim_start.simps [of "map ascii_lower s"] strip_ws_lower)
qed

lemma trim_rev_lower: "trim_rev (map ascii_lower s) = map ascii_lower (trim_rev s)"
proof (induction s rule: trim_rev.induct)
  case (1 s)
  then show ?case by (cases "strip_ws_rev s") (simp_all add: trim_rev.simps [of s] trim_rev.simps [of "map ascii_lower s"] strip_ws_rev_lower)
qed

lemma trim_to_lowercase: "trim (to_lowercase s) = to_lowercase (trim s)" "trim (to_ascii_lowercase s) = to_ascii_lowercase (trim s)"
  by (simp_all add: trim_def trim_end_def to_lowercase_def to_ascii_lowercase_def trim_start_lower trim_rev_lower rev_map)
lemma blank_trim [simp]: "blank (trim s) \<longleftrightarrow> blank s"
  by (simp add: blank_def)

lemma blank_Nil [simp]: "blank []"
  by (simp add: blank_def)

lemmas trim_eval = blank_def trim_def trim_end_def trim_start.simps trim_rev.simps


subsection \<open>Searching and replacing\<close>

text \<open>\<^verbatim>\<open>s.contains(t)\<close>, \<^verbatim>\<open>s.starts_with(t)\<close>, \<^verbatim>\<open>s.ends_with(t)\<close>: on well-formed UTF-8 a byte match is a
  scalar match.\<close>

fun str_contains :: "string \<Rightarrow> string \<Rightarrow> bool" where
  "str_contains [] t = (t = [])"
| "str_contains (c # s) t = (prefix t (c # s) \<or> str_contains s t)"

definition starts_with :: "string \<Rightarrow> string \<Rightarrow> bool" where
  [str_defs]: "starts_with s t = prefix t s"

definition ends_with :: "string \<Rightarrow> string \<Rightarrow> bool" where
  [str_defs]: "ends_with s t = prefix (rev t) (rev s)"

text \<open>\<^verbatim>\<open>s.strip_suffix(c)\<close> for an ASCII character, \<^verbatim>\<open>s.replace(c, t)\<close>.\<close>

definition strip_suffix_char :: "string \<Rightarrow> char \<Rightarrow> string option" where
  [str_defs]: "strip_suffix_char s c =
     (if s \<noteq> [] \<and> last s = c then Some (butlast s) else None)"

definition replace_char :: "string \<Rightarrow> char \<Rightarrow> string \<Rightarrow> string" where
  [str_defs]: "replace_char s c t = concat (map (\<lambda>x. if x = c then t else [x]) s)"

lemma str_contains_iff: "str_contains s t \<longleftrightarrow> sublist t s"
  by (induction s) (auto simp: sublist_Cons_right)

lemma str_contains_refl [simp]: "str_contains s s"
  by (cases s) auto

lemma str_contains_Nil [simp]: "str_contains s []"
  by (cases s) auto

lemma ends_with_iff: "ends_with s t \<longleftrightarrow> suffix t s"
  by (simp add: ends_with_def suffix_to_prefix)

lemma strip_suffix_char_Some_iff: "strip_suffix_char s c = Some p \<longleftrightarrow> s = p @ [c]"
proof
  show "s = p @ [c]" if "strip_suffix_char s c = Some p"
    using that by (auto simp: strip_suffix_char_def split: if_splits)
qed (simp add: strip_suffix_char_def)

subsection \<open>Decimal rendering\<close>

definition digit_char :: "nat \<Rightarrow> char" where
  "digit_char n = char_of (48 + n)"

fun show_nat :: "nat \<Rightarrow> string" where
  "show_nat n = (if n < 10 then [digit_char n] else show_nat (n div 10) @ [digit_char (n mod 10)])"

declare show_nat.simps [simp del]

definition show_u64 :: "u64 \<Rightarrow> string" where
  "show_u64 w = show_nat (unat w)"

definition digit_value :: "char \<Rightarrow> nat" where
  "digit_value c = of_char c - 48"

definition read_nat :: "string \<Rightarrow> nat" where
  "read_nat s = foldl (\<lambda>n c. 10 * n + digit_value c) 0 s"

lemma digit_value_digit_char: "n < 10 \<Longrightarrow> digit_value (digit_char n) = n"
  by (simp add: digit_value_def digit_char_def)

lemma read_nat_snoc: "read_nat (s @ [c]) = 10 * read_nat s + digit_value c"
  by (simp add: read_nat_def)

lemma read_show_nat [simp]: "read_nat (show_nat n) = n"
proof (induction n rule: show_nat.induct)
  case (1 n)
  show ?case
  proof (cases "n < 10")
    case True
    then show ?thesis
      by (subst show_nat.simps) (simp add: read_nat_def digit_value_digit_char)
  next
    case False
    with "1.IH" have "read_nat (show_nat (n div 10)) = n div 10" by simp
    with False show ?thesis
      by (subst show_nat.simps) (simp add: read_nat_snoc digit_value_digit_char)
  qed
qed

lemma show_nat_inject [simp]: "show_nat m = show_nat n \<longleftrightarrow> m = n"
  by (metis read_show_nat)

text \<open>\<^verbatim>\<open>str::parse::<usize>\<close>: an optional plus sign, at least one digit, below \<open>2 ^ 64\<close>.\<close>

definition parse_unsigned :: "string \<Rightarrow> nat option" where
  "parse_unsigned s =
     (let digits = (case s of c # t \<Rightarrow> if c = CHR ''+'' then t else s | [] \<Rightarrow> s) in
      if digits \<noteq> [] \<and> list_all is_ascii_digit digits \<and> read_nat digits < 2 ^ 64
      then Some (read_nat digits) else None)"

text \<open>Saturating arithmetic on 64 bits.\<close>

definition saturating_sub :: "u64 \<Rightarrow> u64 \<Rightarrow> u64" where
  "saturating_sub a b = (if b \<le> a then a - b else 0)"

definition saturating_mul :: "u64 \<Rightarrow> u64 \<Rightarrow> u64" where
  "saturating_mul a b = (if unat a * unat b < 2 ^ 64 then a * b else - 1)"

section \<open>Association lists as maps\<close>

text \<open>
  \<^verbatim>\<open>HashMap\<close>: \<open>hm_\<close> operations, a fresh key goes last (any position would do). \<^verbatim>\<open>BTreeMap\<close>:
  \<open>bm_\<close> operations, the keys stay in ascending order.
\<close>

type_synonym 'v hash_map = "(string \<times> 'v) list"
type_synonym 'v btree_map = "(string \<times> 'v) list"

definition hm_get :: "'v hash_map \<Rightarrow> string \<Rightarrow> 'v option" where
  "hm_get m k = map_of m k"

fun hm_insert :: "string \<Rightarrow> 'v \<Rightarrow> 'v hash_map \<Rightarrow> 'v hash_map" where
  "hm_insert k v [] = [(k, v)]"
| "hm_insert k v ((k', v') # m) =
     (if k = k' then (k, v) # m else (k', v') # hm_insert k v m)"

definition hm_remove :: "string \<Rightarrow> 'v hash_map \<Rightarrow> 'v hash_map" where
  "hm_remove k m = filter (\<lambda>e. fst e \<noteq> k) m"

definition hm_retain :: "(string \<Rightarrow> 'v \<Rightarrow> bool) \<Rightarrow> 'v hash_map \<Rightarrow> 'v hash_map" where
  "hm_retain p m = filter (\<lambda>e. p (fst e) (snd e)) m"

definition hm_values :: "'v hash_map \<Rightarrow> 'v list" where
  "hm_values m = map snd m"

definition hm_contains_key :: "'v hash_map \<Rightarrow> string \<Rightarrow> bool" where
  "hm_contains_key m k \<longleftrightarrow> k \<in> fst ` set m"

definition hm_inv :: "'v hash_map \<Rightarrow> bool" where
  "hm_inv m \<longleftrightarrow> distinct (map fst m)"

fun bm_insert :: "string \<Rightarrow> 'v \<Rightarrow> 'v btree_map \<Rightarrow> 'v btree_map" where
  "bm_insert k v [] = [(k, v)]"
| "bm_insert k v ((k', v') # m) =
     (if k = k' then (k, v) # m else if k < k' then (k, v) # (k', v') # m
      else (k', v') # bm_insert k v m)"

definition bm_inv :: "'v btree_map \<Rightarrow> bool" where
  "bm_inv m \<longleftrightarrow> sorted_wrt (<) (map fst m)"

text \<open>What a client may rely on, whatever the representation.\<close>

locale string_map =
  fixes empty :: "'m"
    and get :: "'m \<Rightarrow> string \<Rightarrow> 'v option"
    and insert :: "string \<Rightarrow> 'v \<Rightarrow> 'm \<Rightarrow> 'm"
    and remove :: "string \<Rightarrow> 'm \<Rightarrow> 'm"
    and invar :: "'m \<Rightarrow> bool"
  assumes get_empty: "get empty k = None"
    and get_insert: "invar m \<Longrightarrow> get (insert k v m) k' = (if k' = k then Some v else get m k')"
    and get_remove: "invar m \<Longrightarrow> get (remove k m) k' = (if k' = k then None else get m k')"
    and invar_empty: "invar empty"
    and invar_insert: "invar m \<Longrightarrow> invar (insert k v m)"
    and invar_remove: "invar m \<Longrightarrow> invar (remove k m)"
begin

lemma get_insert_same: "invar m \<Longrightarrow> get (insert k v m) k = Some v"
  by (simp add: get_insert)

lemma get_insert_other: "invar m \<Longrightarrow> k' \<noteq> k \<Longrightarrow> get (insert k v m) k' = get m k'"
  by (simp add: get_insert)

lemma get_remove_insert:
  "invar m \<Longrightarrow> get (remove k (insert k v m)) k' = (if k' = k then None else get m k')"
  by (simp add: get_remove get_insert invar_insert)

lemma get_insert_twice:
  "invar m \<Longrightarrow> get (insert k w (insert k v m)) k' = get (insert k w m) k'"
  by (simp add: get_insert invar_insert)

lemma get_insert_commute:
  "invar m \<Longrightarrow> j \<noteq> k \<Longrightarrow> get (insert j w (insert k v m)) i = get (insert k v (insert j w m)) i"
  by (auto simp: get_insert invar_insert)

end

lemma set_fst_hm_insert: "fst ` set (hm_insert k v m) = insert k (fst ` set m)"
  by (induction k v m rule: hm_insert.induct) auto

lemma hm_inv_insert [simp]: "hm_inv m \<Longrightarrow> hm_inv (hm_insert k v m)"
  unfolding hm_inv_def
proof (induction k v m rule: hm_insert.induct)
  case (2 k v k' v' m)
  then show ?case using set_fst_hm_insert [of k v m] by auto
qed simp

lemma hm_get_insert: "hm_get (hm_insert k v m) k' = (if k' = k then Some v else hm_get m k')"
  unfolding hm_get_def by (induction k v m rule: hm_insert.induct) auto

lemma hm_get_filter_fst:
  "map_of (filter (\<lambda>e. p (fst e)) m) k = (if p k then map_of m k else None)"
  by (induction m) auto

lemma hm_get_remove: "hm_get (hm_remove k m) k' = (if k' = k then None else hm_get m k')"
  unfolding hm_get_def hm_remove_def by (subst hm_get_filter_fst) simp

lemma hm_inv_filter: "hm_inv m \<Longrightarrow> hm_inv (filter p m)"
  by (simp add: hm_inv_def distinct_map_filter)

lemma hm_inv_remove [simp]: "hm_inv m \<Longrightarrow> hm_inv (hm_remove k m)"
  by (simp add: hm_remove_def hm_inv_filter)

lemma hm_inv_retain [simp]: "hm_inv m \<Longrightarrow> hm_inv (hm_retain p m)"
  by (simp add: hm_retain_def hm_inv_filter)

lemma hm_inv_Nil [simp]: "hm_inv []"
  by (simp add: hm_inv_def)

lemma hm_get_Nil [simp]: "hm_get [] k = None"
  by (simp add: hm_get_def)

lemma hm_get_eq_Some_iff: "hm_inv m \<Longrightarrow> hm_get m k = Some v \<longleftrightarrow> (k, v) \<in> set m"
  by (simp add: hm_get_def hm_inv_def)

lemma hm_get_retain:
  assumes "hm_inv m"
  shows "hm_get (hm_retain p m) k = opt_filter (p k) (hm_get m k)"
proof -
  have "hm_get (hm_retain p m) k = Some v \<longleftrightarrow> opt_filter (p k) (hm_get m k) = Some v" for v
    using assms hm_inv_retain [OF assms, of p]
    by (auto simp: hm_get_eq_Some_iff opt_filter_Some_iff hm_retain_def)
  then show ?thesis by (rule option_ext)
qed

lemma hm_values_in_iff: "hm_inv m \<Longrightarrow> v \<in> set (hm_values m) \<longleftrightarrow> (\<exists>k. hm_get m k = Some v)"
  by (auto simp: hm_values_def hm_get_eq_Some_iff image_iff intro: bexI [where x = "(_, v)"])

lemma hm_contains_key_iff: "hm_contains_key m k \<longleftrightarrow> hm_get m k \<noteq> None"
  by (auto simp: hm_contains_key_def hm_get_def map_of_eq_None_iff)

interpretation hm: string_map "[]" hm_get hm_insert hm_remove hm_inv
  by unfold_locales (auto simp: hm_get_insert hm_get_remove)

lemma set_fst_bm_insert: "fst ` set (bm_insert k v m) = insert k (fst ` set m)"
  by (induction k v m rule: bm_insert.induct) auto

lemma bm_inv_insert [simp]: "bm_inv m \<Longrightarrow> bm_inv (bm_insert k v m)"
  unfolding bm_inv_def
proof (induction k v m rule: bm_insert.induct)
  case (2 k v k' v' m)
  then show ?case
    using set_fst_bm_insert [of k v m] by (auto intro: less_trans)
qed simp

lemma bm_get_insert: "hm_get (bm_insert k v m) k' = (if k' = k then Some v else hm_get m k')"
  unfolding hm_get_def by (induction k v m rule: bm_insert.induct) auto

lemma bm_inv_filter: "bm_inv m \<Longrightarrow> bm_inv (filter p m)"
  by (simp add: bm_inv_def sorted_wrt_map sorted_wrt_filter)

lemma bm_inv_remove [simp]: "bm_inv m \<Longrightarrow> bm_inv (hm_remove k m)"
  by (simp add: hm_remove_def bm_inv_filter)

lemma bm_inv_Nil [simp]: "bm_inv []"
  by (simp add: bm_inv_def)

interpretation bm: string_map "[]" hm_get bm_insert hm_remove bm_inv
  by unfold_locales (auto simp: bm_get_insert hm_get_remove)

section \<open>JSON values\<close>

datatype json =
    JNull
  | JBool bool
  | JInt int
  | JFloat rat
  | JStr string
  | JArr "json list"
  | JObj "(string \<times> json) list"

text \<open>\<^verbatim>\<open>json!({...})\<close> inserts its members one after the other.\<close>

definition jobj :: "(string \<times> json) list \<Rightarrow> json" where
  "jobj kvs = JObj (fold (\<lambda>kv. bm_insert (fst kv) (snd kv)) kvs [])"

fun json_get :: "json \<Rightarrow> string \<Rightarrow> json option" where
  "json_get (JObj m) k = hm_get m k"
| "json_get _ k = None"

fun as_str :: "json \<Rightarrow> string option" where
  "as_str (JStr s) = Some s"
| "as_str _ = None"

fun as_bool :: "json \<Rightarrow> bool option" where
  "as_bool (JBool b) = Some b"
| "as_bool _ = None"

fun as_array :: "json \<Rightarrow> json list option" where
  "as_array (JArr xs) = Some xs"
| "as_array _ = None"

fun as_object :: "json \<Rightarrow> (string \<times> json) list option" where
  "as_object (JObj m) = Some m"
| "as_object _ = None"

fun jopt_str :: "string option \<Rightarrow> json" where
  "jopt_str None = JNull"
| "jopt_str (Some s) = JStr s"

subsection \<open>Objects rebuilt member by member\<close>

lemma set_bm_insert: "set (bm_insert k v m) \<subseteq> insert (k, v) (set m)"
  by (induction k v m rule: bm_insert.induct) auto

lemma bm_insert_last: "\<forall>e \<in> set m. fst e < k \<Longrightarrow> bm_insert k v m = m @ [(k, v)]"
  by (induction k v m rule: bm_insert.induct) auto

lemma set_fold_bm_insert:
  "set (fold (\<lambda>kv. bm_insert (fst kv) (snd kv)) kvs m) \<subseteq> set kvs \<union> set m"
proof (induction kvs arbitrary: m)
  case (Cons kv kvs)
  then show ?case using Cons.IH [of "bm_insert (fst kv) (snd kv) m"] set_bm_insert [of "fst kv" "snd kv" m] by auto
qed simp

lemma bm_inv_fold [simp]: "bm_inv m \<Longrightarrow> bm_inv (fold (\<lambda>kv. bm_insert (fst kv) (snd kv)) kvs m)"
  by (induction kvs arbitrary: m) simp_all

lemma fold_bm_insert_sorted:
  "bm_inv (m @ kvs) \<Longrightarrow> fold (\<lambda>kv. bm_insert (fst kv) (snd kv)) kvs m = m @ kvs"
proof (induction kvs arbitrary: m)
  case (Cons kv kvs)
  then have "bm_insert (fst kv) (snd kv) m = m @ [kv]"
    by (subst bm_insert_last) (auto simp: bm_inv_def sorted_wrt_append)
  then show ?case using Cons by simp
qed simp

lemma jobj_sorted: "bm_inv m \<Longrightarrow> jobj m = JObj m"
  by (simp add: jobj_def fold_bm_insert_sorted [of "[]", simplified])

lemma jobj_JObj: obtains m where "jobj kvs = JObj m" "bm_inv m" "set m \<subseteq> set kvs"
proof
  show "jobj kvs = JObj (fold (\<lambda>kv. bm_insert (fst kv) (snd kv)) kvs [])" by (simp add: jobj_def)
qed (use set_fold_bm_insert [of kvs "[]"] in simp_all)

lemma bm_insert_same: "bm_inv m \<Longrightarrow> hm_get m k = Some v \<Longrightarrow> bm_insert k v m = m"
proof (induction k v m rule: bm_insert.induct)
  case (2 k v k' v' m)
  then show ?case
    by (auto simp: bm_inv_def hm_get_def dest!: map_of_SomeD split: if_splits)
qed (simp add: hm_get_def)

lemma bm_insert_twice: "bm_insert k w (bm_insert k v m) = bm_insert k w m"
  by (induction k v m rule: bm_insert.induct) auto

section \<open>Paths and sets\<close>

text \<open>\<^verbatim>\<open>PathBuf::join\<close>: an absolute second path replaces the first.\<close>

definition path_join :: "string \<Rightarrow> string \<Rightarrow> string" where
  "path_join dir name =
     (if starts_with name ''/'' then name else if dir = [] then name
      else if ends_with dir ''/'' then dir @ name else dir @ ''/'' @ name)"

text \<open>\<^verbatim>\<open>BTreeSet\<close>: ascending, without duplicates.\<close>

definition btree_set :: "string list \<Rightarrow> string list" where
  "btree_set xs = sort (remdups xs)"

lemma set_btree_set [simp]: "set (btree_set xs) = set xs"
  by (simp add: btree_set_def)

lemma btree_set_idem [simp]: "btree_set (btree_set xs) = btree_set xs"
  by (simp add: btree_set_def distinct_remdups_id sorted_sort_id)

lemma btree_set_cong: "set xs = set ys \<Longrightarrow> btree_set xs = btree_set ys"
  unfolding btree_set_def by (intro sorted_distinct_set_unique) simp_all

section \<open>Machine words\<close>

lemma unat_ucast_u32: "unat (ucast (x :: u32) :: u64) = unat x"
  by transfer (simp add: take_bit_int_less_exp min_def)

lemma unat_mult_small: "unat (a :: u64) * unat b < 2 ^ 64 \<Longrightarrow> unat (a * b) = unat a * unat b"
  using unat_mult_lem [of a b] by simp

text \<open>\<^verbatim>\<open>{:02x}\<close>.\<close>

definition lower_hex :: "nat \<Rightarrow> char" where
  "lower_hex n = (if n < 10 then char_of (48 + n) else char_of (87 + n))"

definition hex_byte :: "u8 \<Rightarrow> string" where
  "hex_byte b = [lower_hex (unat b div 16), lower_hex (unat b mod 16)]"

section \<open>Sorting by a comparator\<close>

text \<open>\<^verbatim>\<open>slice::sort_by\<close>: a stable sort by "not greater than" of the comparator.\<close>

fun insert_by :: "('a \<Rightarrow> 'a \<Rightarrow> bool) \<Rightarrow> 'a \<Rightarrow> 'a list \<Rightarrow> 'a list" where
  "insert_by le x [] = [x]"
| "insert_by le x (y # ys) = (if le x y then x # y # ys else y # insert_by le x ys)"

definition sort_by :: "('a \<Rightarrow> 'a \<Rightarrow> bool) \<Rightarrow> 'a list \<Rightarrow> 'a list" where
  "sort_by le xs = foldr (insert_by le) xs []"

definition ascending :: "('a \<Rightarrow> 'b::linorder) \<Rightarrow> 'a \<Rightarrow> 'a \<Rightarrow> bool" where
  "ascending k x y \<longleftrightarrow> k x \<le> k y"

definition descending :: "('a \<Rightarrow> 'b::linorder) \<Rightarrow> 'a \<Rightarrow> 'a \<Rightarrow> bool" where
  "descending k x y \<longleftrightarrow> k y \<le> k x"

lemma set_insert_by [simp]: "set (insert_by le x ys) = insert x (set ys)"
  by (induction le x ys rule: insert_by.induct) auto

lemma set_sort_by [simp]: "set (sort_by le xs) = set xs"
  by (induction xs) (simp_all add: sort_by_def)

lemma length_insert_by [simp]: "length (insert_by le x ys) = Suc (length ys)"
  by (induction le x ys rule: insert_by.induct) auto

lemma length_sort_by [simp]: "length (sort_by le xs) = length xs"
  by (induction xs) (simp_all add: sort_by_def)

lemma distinct_insert_by [simp]: "distinct (insert_by le x ys) \<longleftrightarrow> x \<notin> set ys \<and> distinct ys"
  by (induction le x ys rule: insert_by.induct) auto

lemma distinct_sort_by [simp]: "distinct (sort_by le xs) = distinct xs"
proof (induction xs)
  case (Cons x xs)
  then show ?case using set_sort_by [of le xs] by (simp add: sort_by_def)
qed (simp add: sort_by_def)

lemma sorted_insert_by:
  assumes tot: "\<And>x y. le x y \<or> le y x" and trans: "\<And>x y z. le x y \<Longrightarrow> le y z \<Longrightarrow> le x z"
  shows "sorted_wrt le ys \<Longrightarrow> sorted_wrt le (insert_by le x ys)"
proof (induction ys)
  case (Cons y ys)
  then have y: "\<forall>z \<in> set ys. le y z" and s: "sorted_wrt le (insert_by le x ys)" by simp_all
  show ?case
  proof (cases "le x y")
    case True
    then have "\<forall>z \<in> set ys. le x z" using y trans by blast
    with True Cons.prems show ?thesis by simp
  next
    case False
    then have "le y x" using tot by blast
    with False y s show ?thesis by simp
  qed
qed simp

lemma sorted_sort_by:
  assumes "\<And>x y. le x y \<or> le y x" "\<And>x y z. le x y \<Longrightarrow> le y z \<Longrightarrow> le x z"
  shows "sorted_wrt le (sort_by le xs)"
  by (induction xs) (simp_all add: sort_by_def sorted_insert_by assms)

lemma sorted_sort_by_key:
  "sorted_wrt (ascending k) (sort_by (ascending k) xs)"
  "sorted_wrt (descending k) (sort_by (descending k) xs)"
  by (rule sorted_sort_by; auto simp: ascending_def descending_def)+

lemma sort_by_canonical:
  assumes "distinct xs" "distinct ys" "set xs = set ys" "inj_on k (set xs)"
  shows "sort_by (ascending k) xs = sort_by (ascending k) ys" "sort_by (descending k) xs = sort_by (descending k) ys"
proof -
  have uniq: "zs = ws" if "map k zs = map k ws" "set zs = set xs" "set ws = set xs" for zs ws
    using that assms(4) by (auto intro: map_inj_on)
  have d: "distinct (map k (sort_by le xs))" "distinct (map k (sort_by le ys))" for le
    using assms by (simp_all add: distinct_map)
  have "sorted (map k (sort_by (ascending k) zs))" "sorted (rev (map k (sort_by (descending k) zs)))" for zs
    using sorted_sort_by_key [of k zs]
    by (simp_all add: sorted_map sorted_wrt_rev ascending_def [abs_def] descending_def [abs_def] rev_map)
  then have "map k (sort_by (ascending k) xs) = map k (sort_by (ascending k) ys)"
    and "rev (map k (sort_by (descending k) xs)) = rev (map k (sort_by (descending k) ys))"
    using d assms(3) by (intro sorted_distinct_set_unique; simp)+
  then show "sort_by (ascending k) xs = sort_by (ascending k) ys" "sort_by (descending k) xs = sort_by (descending k) ys"
    using assms(3) by (auto intro: uniq)
qed

lemma sorted_wrt_take_drop: "sorted_wrt P xs \<Longrightarrow> x \<in> set (take n xs) \<Longrightarrow> y \<in> set (drop n xs) \<Longrightarrow> P x y"
  using sorted_wrt_append [of P "take n xs" "drop n xs"] by simp

section \<open>Vectors searched by a key\<close>

text \<open>\<^verbatim>\<open>iter_mut().find(p)\<close> followed by a change of what was found.\<close>

fun update_first :: "('a \<Rightarrow> bool) \<Rightarrow> ('a \<Rightarrow> 'a) \<Rightarrow> 'a list \<Rightarrow> 'a list" where
  "update_first p g [] = []"
| "update_first p g (x # xs) = (if p x then g x # xs else x # update_first p g xs)"

text \<open>The element found under a key is changed, or a new element is pushed.\<close>

definition vec_upsert :: "('a \<Rightarrow> string) \<Rightarrow> string \<Rightarrow> ('a \<Rightarrow> 'a) \<Rightarrow> 'a \<Rightarrow> 'a list \<Rightarrow> 'a list" where
  "vec_upsert key k g x xs = (if list_ex (\<lambda>e. key e = k) xs then update_first (\<lambda>e. key e = k) g xs else xs @ [x])"

lemma length_update_first [simp]: "length (update_first p g xs) = length xs"
  by (induction xs) auto

lemma update_first_ids:
  assumes "\<And>e. key (g e) = key e"
  shows "map key (update_first (\<lambda>e. key e = i) g es) = map key es"
  by (induction es) (simp_all add: assms)

lemma update_first_find:
  assumes "\<And>e. key (g e) = key e"
  shows "find (\<lambda>e. key e = j) (update_first (\<lambda>e. key e = i) g es) =
    (if j = i then map_option g (find (\<lambda>e. key e = i) es) else find (\<lambda>e. key e = j) es)"
  by (induction es) (auto simp: assms)

lemma update_first_const: "update_first (\<lambda>e. key e = i) (\<lambda>_. x) es =
    update_first (\<lambda>e. key e = i) (\<lambda>e. if key e = i then x else e) es"
  by (induction es) auto

lemma find_append: "find p (xs @ ys) = or_else (find p xs) (find p ys)"
  by (induction xs) auto

lemma find_append_single: "find p (xs @ [x]) = (case find p xs of None \<Rightarrow> if p x then Some x else None | Some y \<Rightarrow> Some y)"
  by (induction xs) auto

lemma list_ex_find: "list_ex p xs \<longleftrightarrow> find p xs \<noteq> None"
  by (induction xs) auto

locale keyed_vec =
  fixes key :: "'a \<Rightarrow> string" and k :: string and change :: "'a \<Rightarrow> 'a" and fresh :: 'a
  assumes key_change: "key (change e) = key e"
    and key_fresh: "key fresh = k"
begin

lemma upsert_ids: "map key (vec_upsert key k change fresh xs) = map key xs @ (if k \<in> key ` set xs then [] else [k])"
proof -
  have "list_ex (\<lambda>e. key e = k) xs \<longleftrightarrow> k \<in> key ` set xs" unfolding list_ex_iff image_iff by metis
  then show ?thesis by (simp add: vec_upsert_def update_first_ids [of key change, OF key_change] key_fresh)
qed

lemma upsert_id_set: "key ` set (vec_upsert key k change fresh xs) = insert k (key ` set xs)"
proof -
  have "key ` set (vec_upsert key k change fresh xs) = set (map key (vec_upsert key k change fresh xs))" by simp
  then show ?thesis by (simp only: upsert_ids) auto
qed

lemma upsert_distinct: "distinct (map key (vec_upsert key k change fresh xs)) = distinct (map key xs)"
  by (simp only: upsert_ids) auto

lemma upsert_find_same:
  "find (\<lambda>e. key e = k) (vec_upsert key k change fresh xs) =
     Some (case find (\<lambda>e. key e = k) xs of None \<Rightarrow> fresh | Some e \<Rightarrow> change e)"
  by (simp add: vec_upsert_def update_first_find [of key change, OF key_change] list_ex_find find_append_single key_fresh
      split: option.split)

lemma upsert_find_other:
  "j \<noteq> k \<Longrightarrow> find (\<lambda>e. key e = j) (vec_upsert key k change fresh xs) = find (\<lambda>e. key e = j) xs"
  by (simp add: vec_upsert_def update_first_find [of key change, OF key_change] find_append_single key_fresh split: option.split)

lemma upsert_others: "filter (\<lambda>e. key e \<noteq> k) (vec_upsert key k change fresh xs) = filter (\<lambda>e. key e \<noteq> k) xs"
proof -
  have "filter (\<lambda>e. key e \<noteq> k) (update_first (\<lambda>e. key e = k) change xs) = filter (\<lambda>e. key e \<noteq> k) xs"
    by (induction xs) (auto simp: key_change)
  then show ?thesis by (simp add: vec_upsert_def key_fresh)
qed

end

section \<open>Invariants of step relations\<close>

text \<open>
  A predicate kept by every step of a machine holds in every state reachable from one where it holds.
\<close>

locale step_invariant =
  fixes step :: "'s \<Rightarrow> 's \<Rightarrow> bool" and inv :: "'s \<Rightarrow> bool"
  assumes inv_step: "inv s \<Longrightarrow> step s s' \<Longrightarrow> inv s'"
begin

lemma inv_steps: "step\<^sup>*\<^sup>* s s' \<Longrightarrow> inv s \<Longrightarrow> inv s'"
  by (induction rule: rtranclp_induct) (auto intro: inv_step)

end

text \<open>A second predicate that is kept by the steps taken from states that satisfy the first.\<close>

locale relative_invariant = step_invariant +
  fixes inv2 :: "'s \<Rightarrow> bool"
  assumes inv2_step: "inv s \<Longrightarrow> inv2 s \<Longrightarrow> step s s' \<Longrightarrow> inv2 s'"

sublocale relative_invariant \<subseteq> both: step_invariant step "\<lambda>s. inv s \<and> inv2 s"
  by unfold_locales (auto intro: inv_step inv2_step)

end
