(* ===== verification/Contracts.thy ===== *)
theory Contracts
  imports Harbor_Prelude
begin

text \<open>
  The data of the orchestrator, from \<^verbatim>\<open>src/src/orchestrator/contracts.rs\<close>: risk levels, step
  statuses, execution routes, actions, execution results, task plans and task results. The
  serialised forms (\<open>action_to_value\<close>, \<open>result_to_value\<close>) list the fields in the order of the
  derived serialiser, with the names the \<^verbatim>\<open>serde\<close> attributes give.
\<close>

datatype risk_level = Low | Medium | High | Critical

datatype step_status =
    StepPending | StepApproved | StepExecuting | StepSuccess | StepFailed | StepSkipped | StepBlocked

datatype route = MiddlewareApi | Midcli | Browser | Mcp

text \<open>The order of the risk levels is the order of their declaration.\<close>

fun risk_rank :: "risk_level \<Rightarrow> nat" where
  "risk_rank Low = 0"
| "risk_rank Medium = 1"
| "risk_rank High = 2"
| "risk_rank Critical = 3"

instantiation risk_level :: linorder
begin

definition less_eq_risk_level :: "risk_level \<Rightarrow> risk_level \<Rightarrow> bool" where
  "less_eq_risk_level a b \<longleftrightarrow> risk_rank a \<le> risk_rank b"

definition less_risk_level :: "risk_level \<Rightarrow> risk_level \<Rightarrow> bool" where
  "less_risk_level a b \<longleftrightarrow> risk_rank a < risk_rank b"

instance
proof
  fix a b c :: risk_level
  show "a < b \<longleftrightarrow> a \<le> b \<and> \<not> b \<le> a"
    by (auto simp: less_risk_level_def less_eq_risk_level_def)
  show "a \<le> a" by (simp add: less_eq_risk_level_def)
  show "a \<le> c" if "a \<le> b" "b \<le> c" using that by (simp add: less_eq_risk_level_def)
  show "a = b" if "a \<le> b" "b \<le> a"
    using that by (cases a; cases b) (simp_all add: less_eq_risk_level_def)
  show "a \<le> b \<or> b \<le> a" by (auto simp: less_eq_risk_level_def)
qed

end

lemma risk_Low_least [simp]: "Low \<le> r"
  by (simp add: less_eq_risk_level_def)

lemma risk_ge_High_iff: "High \<le> r \<longleftrightarrow> r = High \<or> r = Critical"
  by (cases r) (simp_all add: less_eq_risk_level_def)

fun route_as_str :: "route \<Rightarrow> string" where
  "route_as_str MiddlewareApi = ''middleware_api''"
| "route_as_str Midcli = ''midcli''"
| "route_as_str Browser = ''browser''"
| "route_as_str Mcp = ''mcp''"

definition ROUTE_PRIORITY :: "route list" where
  "ROUTE_PRIORITY = [MiddlewareApi, Midcli, Browser, Mcp]"

text \<open>\<^verbatim>\<open>format!("{:?}", level)\<close> and the derived \<^verbatim>\<open>SCREAMING_SNAKE_CASE\<close> names.\<close>

fun risk_debug :: "risk_level \<Rightarrow> string" where
  "risk_debug Low = ''Low''"
| "risk_debug Medium = ''Medium''"
| "risk_debug High = ''High''"
| "risk_debug Critical = ''Critical''"

fun risk_upper :: "risk_level \<Rightarrow> string" where
  "risk_upper Low = ''LOW''"
| "risk_upper Medium = ''MEDIUM''"
| "risk_upper High = ''HIGH''"
| "risk_upper Critical = ''CRITICAL''"

fun status_upper :: "step_status \<Rightarrow> string" where
  "status_upper StepPending = ''PENDING''"
| "status_upper StepApproved = ''APPROVED''"
| "status_upper StepExecuting = ''EXECUTING''"
| "status_upper StepSuccess = ''SUCCESS''"
| "status_upper StepFailed = ''FAILED''"
| "status_upper StepSkipped = ''SKIPPED''"
| "status_upper StepBlocked = ''BLOCKED''"

record action =
  act_domain :: string
  act_operation :: string
  act_resource :: json
  act_args :: json
  act_risk_level :: risk_level
  act_requires_approval :: bool
  act_dry_run :: bool

record execution_result =
  er_task_id :: string
  er_step_id :: string
  er_executor_used :: string
  er_fallback_used :: bool
  er_status :: step_status
  er_duration_ms :: u64
  er_error_code :: "string option"
  er_error_message :: "string option"
  er_audit_ref :: string
  er_result_payload :: json

record task_plan =
  tp_task_id :: string
  tp_goal :: string
  tp_steps :: "action list"

record task_result =
  tr_task_id :: string
  tr_results :: "execution_result list"

definition action_to_value :: "action \<Rightarrow> json" where
  "action_to_value a = jobj
     [(''domain'', JStr (act_domain a)),
      (''operation'', JStr (act_operation a)),
      (''resource'', act_resource a),
      (''args'', act_args a),
      (''risk_level'', JStr (risk_upper (act_risk_level a))),
      (''requires_approval'', JBool (act_requires_approval a)),
      (''dry_run'', JBool (act_dry_run a))]"

definition result_to_value :: "execution_result \<Rightarrow> json" where
  "result_to_value r = jobj
     [(''task_id'', JStr (er_task_id r)),
      (''step_id'', JStr (er_step_id r)),
      (''executor_used'', JStr (er_executor_used r)),
      (''fallback_used'', JBool (er_fallback_used r)),
      (''status'', JStr (status_upper (er_status r))),
      (''duration_ms'', JInt (uint (er_duration_ms r))),
      (''error_code'', jopt_str (er_error_code r)),
      (''error_message'', jopt_str (er_error_message r)),
      (''audit_ref'', JStr (er_audit_ref r)),
      (''result_payload'', er_result_payload r)]"

definition result_ok :: "execution_result \<Rightarrow> bool" where
  "result_ok r \<longleftrightarrow> er_status r = StepSuccess"

text \<open>\<^verbatim>\<open>Action::normalize\<close>\<close>

definition normalize_action :: "action \<Rightarrow> action" where
  "normalize_action a =
     (if act_risk_level a \<in> {High, Critical} then a\<lparr>act_requires_approval := True\<rparr> else a)"

text \<open>\<^verbatim>\<open>TaskPlan::from_json_str\<close>: \<open>parse\<close> is \<^verbatim>\<open>serde_json::from_str\<close>.\<close>

definition from_json_str :: "(string \<Rightarrow> 'e + task_plan) \<Rightarrow> string \<Rightarrow> 'e + task_plan" where
  "from_json_str parse input =
     and_then (parse input)
       (\<lambda>plan. Ok (plan\<lparr>tp_steps := map normalize_action (tp_steps plan)\<rparr>))"

definition plan_add :: "task_plan \<Rightarrow> action \<Rightarrow> task_plan" where
  "plan_add plan a = plan\<lparr>tp_steps := tp_steps plan @ [normalize_action a]\<rparr>"

definition task_result_new :: "string \<Rightarrow> task_result" where
  "task_result_new tid = \<lparr>tr_task_id = tid, tr_results = []\<rparr>"

definition task_result_ok :: "task_result \<Rightarrow> bool" where
  "task_result_ok t \<longleftrightarrow> list_all result_ok (tr_results t)"

definition count_status :: "step_status \<Rightarrow> execution_result list \<Rightarrow> nat" where
  "count_status s rs = length (filter (\<lambda>r. er_status r = s) rs)"

definition task_summary :: "task_result \<Rightarrow> json" where
  "task_summary t = jobj
     [(''task_id'', JStr (tr_task_id t)),
      (''total_steps'', JInt (int (length (tr_results t)))),
      (''succeeded'', JInt (int (count_status StepSuccess (tr_results t)))),
      (''failed'', JInt (int (count_status StepFailed (tr_results t)))),
      (''blocked'', JInt (int (count_status StepBlocked (tr_results t)))),
      (''ok'', JBool (task_result_ok t))]"

lemma normalize_action_idem [simp]: "normalize_action (normalize_action a) = normalize_action a"
  by (simp add: normalize_action_def)

lemma normalize_action_fields [simp]:
  "act_domain (normalize_action a) = act_domain a"
  "act_operation (normalize_action a) = act_operation a"
  "act_resource (normalize_action a) = act_resource a"
  "act_args (normalize_action a) = act_args a"
  "act_risk_level (normalize_action a) = act_risk_level a"
  "act_dry_run (normalize_action a) = act_dry_run a"
  by (simp_all add: normalize_action_def)

lemma task_result_ok_iff_count:
  "task_result_ok t \<longleftrightarrow> count_status StepSuccess (tr_results t) = length (tr_results t)"
  by (simp add: task_result_ok_def count_status_def length_filter_eq_iff result_ok_def list_all_iff)

end
