(* ===== verification/Policy.thy ===== *)
theory Policy
  imports Contracts
begin

text \<open>
  The policy gate, from \<^verbatim>\<open>src/src/orchestrator/policy.rs\<close>: operation and service-name checks, risk
  defaults and the approval gate that \<^verbatim>\<open>Runtime::execute_plan\<close> runs before every action.
\<close>

record approval_context =
  ac_token :: "string option"
  ac_required_token :: "string option"
  ac_approver_id :: "string option"

record policy_violation =
  pv_code :: string
  pv_message :: string

definition SUPPORTED_SERVICE_OPS :: "string list" where
  "SUPPORTED_SERVICE_OPS = [''status'', ''start'', ''stop'', ''restart'', ''enable'']"

definition SUPPORTED_FILE_OPS :: "string list" where
  "SUPPORTED_FILE_OPS =
     [''search'', ''copy'', ''move'', ''archive'', ''list'', ''stat'', ''read_text'']"

definition check_operation :: "action \<Rightarrow> policy_violation + unit" where
  "check_operation a =
     (if act_domain a = ''service'' then
        (if act_operation a \<in> set SUPPORTED_SERVICE_OPS then Ok ()
         else Err \<lparr>pv_code = ''UNSUPPORTED_OPERATION'',
                   pv_message = ''Unsupported service operation: '' @ act_operation a\<rparr>)
      else if act_domain a = ''files'' then
        (if act_operation a \<in> set SUPPORTED_FILE_OPS then Ok ()
         else Err \<lparr>pv_code = ''UNSUPPORTED_OPERATION'',
                   pv_message = ''Unsupported file operation: '' @ act_operation a\<rparr>)
      else Ok ())"

definition service_name_char :: "char \<Rightarrow> bool" where
  "service_name_char c \<longleftrightarrow>
     is_ascii_lowercase c \<or> is_ascii_digit c \<or> c = CHR ''_'' \<or> c = CHR ''-''"

definition check_service_name :: "action \<Rightarrow> policy_violation + unit" where
  "check_service_name a =
     (if act_domain a \<noteq> ''service'' then Ok ()
      else case Option.bind (json_get (act_resource a) ''service_name'') as_str of
        None \<Rightarrow> Err \<lparr>pv_code = ''INVALID_SERVICE_NAME'', pv_message = ''service_name is required''\<rparr>
      | Some n \<Rightarrow>
          if n = [] \<or> length n > 64 then
            Err \<lparr>pv_code = ''INVALID_SERVICE_NAME'', pv_message = ''Invalid service name: '' @ n\<rparr>
          else if \<not> list_all service_name_char n then
            Err \<lparr>pv_code = ''INVALID_SERVICE_NAME'', pv_message = ''Invalid service name: '' @ n\<rparr>
          else Ok ())"

definition default_requires_approval :: "action \<Rightarrow> bool" where
  "default_requires_approval a \<longleftrightarrow>
     to_lowercase (trim (act_domain a)) = ''camera'' \<and>
     to_lowercase (trim (act_operation a)) = ''connect''"

definition default_risk_level :: "action \<Rightarrow> risk_level" where
  "default_risk_level a =
     (let d = to_lowercase (trim (act_domain a)); p = to_lowercase (trim (act_operation a)) in
      if d = ''service'' \<and> p = ''status'' then Low
      else if d = ''service'' \<and> p \<in> {''start'', ''enable''} then Medium
      else if d = ''service'' \<and> p \<in> {''stop'', ''restart''} then High
      else if d = ''files'' \<and> p \<in> {''search'', ''list'', ''stat'', ''read_text''} then Low
      else if d = ''files'' \<and> p = ''copy'' then
        (if unwrap_or (Option.bind (json_get (act_args a) ''overwrite'') as_bool) False
         then High else Medium)
      else if d = ''files'' \<and> p = ''move'' then High
      else if d = ''files'' \<and> p = ''archive'' then Medium
      else if d = ''camera'' \<and> p = ''connect'' then Medium
      else Low)"

definition effective_risk_level :: "action \<Rightarrow> risk_level" where
  "effective_risk_level a =
     (case act_risk_level a of Low \<Rightarrow> default_risk_level a | other \<Rightarrow> other)"

definition action_requires_approval :: "action \<Rightarrow> bool" where
  "action_requires_approval a \<longleftrightarrow>
     act_requires_approval a \<or> effective_risk_level a \<in> {High, Critical} \<or>
     default_requires_approval a"

definition apply_governance_defaults :: "action \<Rightarrow> action" where
  "apply_governance_defaults a =
     (let a1 = a\<lparr>act_risk_level := effective_risk_level a\<rparr>;
          a2 = normalize_action a1
      in a2\<lparr>act_requires_approval := action_requires_approval a2\<rparr>)"

definition approval_required_message :: "action \<Rightarrow> string" where
  "approval_required_message a =
     act_domain a @ ''.'' @ act_operation a @ '' (risk='' @ risk_debug (effective_risk_level a)
       @ '') requires approval''"

definition check_risk_gate :: "action \<Rightarrow> approval_context option \<Rightarrow> policy_violation + unit" where
  "check_risk_gate a approval =
     (if \<not> action_requires_approval a then Ok ()
      else case approval of
        None \<Rightarrow> Err \<lparr>pv_code = ''APPROVAL_REQUIRED'', pv_message = approval_required_message a\<rparr>
      | Some ctx \<Rightarrow>
          (case ac_token ctx of
             None \<Rightarrow> Err \<lparr>pv_code = ''APPROVAL_REQUIRED'', pv_message = approval_required_message a\<rparr>
           | Some token \<Rightarrow>
               (case ac_required_token ctx of
                  None \<Rightarrow> Ok ()
                | Some required \<Rightarrow>
                    if token \<noteq> required then
                      Err \<lparr>pv_code = ''APPROVAL_TOKEN_MISMATCH'',
                           pv_message = ''Approval token does not match for ''
                             @ act_domain a @ ''.'' @ act_operation a\<rparr>
                    else Ok ())))"

definition enforce :: "action \<Rightarrow> approval_context option \<Rightarrow> policy_violation + unit" where
  "enforce a approval =
     and_then (check_operation a) (\<lambda>_.
     and_then (check_service_name a) (\<lambda>_.
     and_then (check_risk_gate a approval) (\<lambda>_. Ok ())))"


section \<open>What the gate promises\<close>

text \<open>The declarative reading of the three checks.\<close>

definition supported_operation :: "action \<Rightarrow> bool" where
  "supported_operation a \<longleftrightarrow>
     (act_domain a = ''service'' \<longrightarrow> act_operation a \<in> set SUPPORTED_SERVICE_OPS) \<and>
     (act_domain a = ''files'' \<longrightarrow> act_operation a \<in> set SUPPORTED_FILE_OPS)"

definition valid_service_target :: "action \<Rightarrow> bool" where
  "valid_service_target a \<longleftrightarrow>
     (act_domain a = ''service'' \<longrightarrow>
       (\<exists>n. json_get (act_resource a) ''service_name'' = Some (JStr n) \<and>
            0 < length n \<and> length n \<le> 64 \<and> (\<forall>c \<in> set n. service_name_char c)))"

definition approval_granted :: "action \<Rightarrow> approval_context option \<Rightarrow> bool" where
  "approval_granted a approval \<longleftrightarrow>
     (action_requires_approval a \<longrightarrow>
       (\<exists>ctx t. approval = Some ctx \<and> ac_token ctx = Some t \<and> ac_required_token ctx \<in> {None, Some t}))"

lemma as_str_Some_iff: "as_str v = Some s \<longleftrightarrow> v = JStr s"
  by (cases v) auto

lemma check_operation_ok_iff: "check_operation a = Ok () \<longleftrightarrow> supported_operation a"
  by (auto simp: check_operation_def supported_operation_def)

lemma check_service_name_ok_iff: "check_service_name a = Ok () \<longleftrightarrow> valid_service_target a"
proof (cases "Option.bind (json_get (act_resource a) ''service_name'') as_str")
  case None
  then show ?thesis
    by (auto simp: check_service_name_def valid_service_target_def as_str_Some_iff)
next
  case (Some n)
  then have "json_get (act_resource a) ''service_name'' = Some (JStr n)"
    by (auto simp: bind_eq_Some_conv as_str_Some_iff)
  with Some show ?thesis
    by (auto simp: check_service_name_def valid_service_target_def list_all_iff)
qed

lemma check_risk_gate_ok_iff: "check_risk_gate a ctx = Ok () \<longleftrightarrow> approval_granted a ctx"
  by (auto simp: check_risk_gate_def approval_granted_def split: option.splits if_splits)

lemma high_risk_requires_approval:
  "High \<le> effective_risk_level a \<or> default_requires_approval a \<Longrightarrow> action_requires_approval a"
  by (auto simp: action_requires_approval_def risk_ge_High_iff)

lemmas gate_ok_iffs = check_operation_ok_iff check_service_name_ok_iff check_risk_gate_ok_iff

lemma enforce_ok_approval: "enforce a ctx = Ok () \<Longrightarrow> approval_granted a ctx"
  by (simp add: enforce_def and_then_Inr_iff gate_ok_iffs)

text \<open>
  C23. The gate lets an action through exactly when its operation is on the list of its domain, a
  service action names a valid service, and an action that requires approval comes with a token
  that equals the required token where one is set.
\<close>

theorem enforce_ok_iff:
  "enforce a ctx = Ok () \<longleftrightarrow>
     supported_operation a \<and> valid_service_target a \<and> approval_granted a ctx"
  by (simp add: enforce_def and_then_Inr_iff gate_ok_iffs)

text \<open>
  No action whose effective risk is high or critical, and no camera connection, passes the gate
  without an approval token, whatever risk level and approval flag the caller declared.
\<close>

theorem high_risk_needs_token:
  assumes "enforce a ctx = Ok ()" and "High \<le> effective_risk_level a \<or> default_requires_approval a"
  shows "\<exists>c t. ctx = Some c \<and> ac_token c = Some t \<and> ac_required_token c \<in> {None, Some t}"
  using enforce_ok_approval [OF assms(1)] high_risk_requires_approval [OF assms(2)]
  by (auto simp: approval_granted_def)

definition restart_ssh :: action where
  "restart_ssh = \<lparr>act_domain = ''service'', act_operation = ''restart'',
     act_resource = jobj [(''service_name'', JStr ''ssh'')], act_args = jobj [],
     act_risk_level = Low, act_requires_approval = False, act_dry_run = False\<rparr>"

definition admin_approval :: approval_context where
  "admin_approval = \<lparr>ac_token = Some ''approved'', ac_required_token = Some ''approved'',
     ac_approver_id = Some ''admin''\<rparr>"

lemma restart_ssh_risk: "effective_risk_level restart_ssh = High"
  by code_simp

lemma restart_ssh_passes: "enforce restart_ssh (Some admin_approval) = Ok ()"
  by code_simp

theorem high_risk_needs_token_witness:
  "\<exists>c t. Some admin_approval = Some c \<and> ac_token c = Some t \<and> ac_required_token c \<in> {None, Some t}"
  by (rule high_risk_needs_token [OF restart_ssh_passes]) (simp add: restart_ssh_risk)

section \<open>Governance defaults\<close>

lemma default_risk_level_update [simp]:
  "default_risk_level (a\<lparr>act_risk_level := r\<rparr>) = default_risk_level a"
  "default_risk_level (a\<lparr>act_requires_approval := b\<rparr>) = default_risk_level a"
  "default_risk_level (normalize_action a) = default_risk_level a"
  by (simp_all add: default_risk_level_def)

lemma default_requires_approval_update [simp]:
  "default_requires_approval (a\<lparr>act_risk_level := r\<rparr>) = default_requires_approval a"
  "default_requires_approval (a\<lparr>act_requires_approval := b\<rparr>) = default_requires_approval a"
  "default_requires_approval (normalize_action a) = default_requires_approval a"
  by (simp_all add: default_requires_approval_def)

lemma apply_governance_defaults_fields [simp]:
  "act_domain (apply_governance_defaults a) = act_domain a"
  "act_operation (apply_governance_defaults a) = act_operation a"
  "act_resource (apply_governance_defaults a) = act_resource a"
  "act_args (apply_governance_defaults a) = act_args a"
  "act_dry_run (apply_governance_defaults a) = act_dry_run a"
  "act_risk_level (apply_governance_defaults a) = effective_risk_level a"
  by (simp_all add: apply_governance_defaults_def Let_def)

lemma default_risk_level_governed [simp]:
  "default_risk_level (apply_governance_defaults a) = default_risk_level a"
  "default_requires_approval (apply_governance_defaults a) = default_requires_approval a"
  by (simp_all add: default_risk_level_def default_requires_approval_def)

lemma effective_risk_level_governed [simp]:
  "effective_risk_level (apply_governance_defaults a) = effective_risk_level a"
  unfolding effective_risk_level_def [of "apply_governance_defaults a"]
  by (simp add: effective_risk_level_def split: risk_level.splits)

lemma effective_risk_level_normalized [simp]:
  "effective_risk_level (normalize_action a) = effective_risk_level a"
  by (simp add: effective_risk_level_def split: risk_level.splits)

lemma effective_risk_level_idem [simp]:
  "effective_risk_level (a\<lparr>act_risk_level := effective_risk_level a\<rparr>) = effective_risk_level a"
  unfolding effective_risk_level_def by (simp split: risk_level.splits)

lemma governed_requires_approval:
  "act_requires_approval (apply_governance_defaults a) \<longleftrightarrow> action_requires_approval a"
  by (auto simp: apply_governance_defaults_def Let_def action_requires_approval_def
      normalize_action_def)

lemma action_requires_approval_governed [simp]:
  "action_requires_approval (apply_governance_defaults a) \<longleftrightarrow> action_requires_approval a"
  unfolding action_requires_approval_def [of "apply_governance_defaults a"]
  by (auto simp: governed_requires_approval action_requires_approval_def)

text \<open>
  Filling in the governance defaults, as the planner does, raises the risk level or keeps it,
  sets the approval flag exactly when the gate will ask for approval, is idempotent, and leaves the
  gate's answer for every approval context as it was.
\<close>

theorem governance_defaults_sound:
  "act_risk_level a \<le> act_risk_level (apply_governance_defaults a) \<and>
   (act_requires_approval (apply_governance_defaults a) \<longleftrightarrow> action_requires_approval a) \<and>
   apply_governance_defaults (apply_governance_defaults a) = apply_governance_defaults a \<and>
   enforce (apply_governance_defaults a) ctx = enforce a ctx"
proof (intro conjI)
  show "act_risk_level a \<le> act_risk_level (apply_governance_defaults a)"
    by (simp add: effective_risk_level_def split: risk_level.splits)
  show "act_requires_approval (apply_governance_defaults a) \<longleftrightarrow> action_requires_approval a"
    by (rule governed_requires_approval)
  let ?b = "apply_governance_defaults a"
  have "act_requires_approval (apply_governance_defaults ?b) = act_requires_approval ?b"
    by (simp add: governed_requires_approval)
  then show "apply_governance_defaults ?b = ?b"
    by (simp add: action.equality)
  have "check_operation ?b = check_operation a" "check_service_name ?b = check_service_name a"
    by (simp_all add: check_operation_def check_service_name_def)
  moreover have "check_risk_gate ?b ctx = check_risk_gate a ctx"
    by (simp add: check_risk_gate_def approval_required_message_def split: option.split)
  ultimately show "enforce ?b ctx = enforce a ctx"
    by (simp add: enforce_def)
qed

section \<open>Spellings of a domain\<close>

text \<open>
  The operation list and the service-name check apply to the exact spellings \<^verbatim>\<open>service\<close> and
  \<^verbatim>\<open>files\<close>, while the risk defaults trim the domain and fold its case: for every other spelling the
  gate is the risk gate alone. A domain spelled \<^verbatim>\<open>Service\<close> with an operation outside the list passes
  without approval, where the lower-case spelling is refused.
\<close>

theorem other_spelling_only_risk_gate:
  assumes "act_domain a \<notin> {''service'', ''files''}"
  shows "enforce a ctx = check_risk_gate a ctx"
proof -
  have "check_operation a = Ok ()" "check_service_name a = Ok ()"
    using assms by (auto simp: check_operation_def check_service_name_def)
  then show ?thesis
    by (cases "check_risk_gate a ctx") (auto simp: enforce_def)
qed

definition wipe_service :: "string \<Rightarrow> action" where
  "wipe_service d = restart_ssh\<lparr>act_domain := d, act_operation := ''wipe''\<rparr>"

theorem other_spelling_only_risk_gate_witness:
  "to_lowercase (trim (act_domain (wipe_service ''Service''))) = ''service'' \<and>
   enforce (wipe_service ''Service'') None = Ok () \<and>
   enforce (wipe_service ''service'') None =
     Err \<lparr>pv_code = ''UNSUPPORTED_OPERATION'', pv_message = ''Unsupported service operation: wipe''\<rparr>"
proof (intro conjI)
  show "to_lowercase (trim (act_domain (wipe_service ''Service''))) = ''service''"
    by code_simp
  have "\<not> action_requires_approval (wipe_service ''Service'')"
    by code_simp
  then show "enforce (wipe_service ''Service'') None = Ok ()"
    by (subst other_spelling_only_risk_gate)
      (simp_all add: check_risk_gate_def, simp add: wipe_service_def)
  show "enforce (wipe_service ''service'') None =
      Err \<lparr>pv_code = ''UNSUPPORTED_OPERATION'', pv_message = ''Unsupported service operation: wipe''\<rparr>"
    by (simp add: enforce_def check_operation_def wipe_service_def SUPPORTED_SERVICE_OPS_def)
qed

end
