(* ===== verification/Router.thy ===== *)
theory Router
  imports Policy
begin

text \<open>
  The executor router (\<^verbatim>\<open>src/src/orchestrator/router.rs\<close>) and the planner that names its routes
  (\<^verbatim>\<open>src/src/planner/mod.rs\<close>). Executors are trait objects: a record of functions, over a world \<open>'w\<close>
  that their side effects change, so that what is executed, and in which order, is visible in the
  world a call returns.
\<close>

record 'w executor =
  ex_route :: route
  ex_supports :: "action \<Rightarrow> bool"
  ex_is_available :: "'w \<Rightarrow> bool"
  ex_execute :: "'w \<Rightarrow> action \<Rightarrow> string \<Rightarrow> string \<Rightarrow> (string + execution_result) \<times> 'w"

type_synonym 'w router = "route \<rightharpoonup> 'w executor list"

definition router_new :: "'w router" where
  "router_new = Map.empty"

definition router_register :: "'w router \<Rightarrow> 'w executor \<Rightarrow> 'w router" where
  "router_register R e = R(ex_route e \<mapsto> unwrap_or (R (ex_route e)) [] @ [e])"

definition allowed_routes :: "action \<Rightarrow> route list" where
  "allowed_routes a =
     (if act_domain a \<in> {''service'', ''files''}
      then filter (\<lambda>r. r = MiddlewareApi \<or> r = Midcli) ROUTE_PRIORITY
      else ROUTE_PRIORITY)"

text \<open>
  The inner loop over the executors of one route, with the last error so far, and the outer loop
  over the routes. \<open>Inr\<close>: an executor succeeded; \<open>Inl\<close>: the loop ran out, with the last error.
\<close>

fun try_executors ::
  "'w executor list \<Rightarrow> action \<Rightarrow> string \<Rightarrow> string \<Rightarrow> string option \<Rightarrow> 'w
   \<Rightarrow> (string option + execution_result) \<times> 'w" where
  "try_executors [] a tid sid last_error w = (Inl last_error, w)"
| "try_executors (e # es) a tid sid last_error w =
     (if \<not> ex_supports e a then try_executors es a tid sid last_error w
      else if \<not> ex_is_available e w then try_executors es a tid sid last_error w
      else (case ex_execute e w a tid sid of
              (Inr result, w') \<Rightarrow> (Inr result, w')
            | (Inl err, w') \<Rightarrow> try_executors es a tid sid (Some err) w'))"

definition fill_result :: "route \<Rightarrow> bool \<Rightarrow> execution_result \<Rightarrow> execution_result" where
  "fill_result route fallback_used result =
     (let r1 = result\<lparr>er_fallback_used := fallback_used\<rparr>
      in if er_executor_used r1 = [] then r1\<lparr>er_executor_used := route_as_str route\<rparr> else r1)"

definition no_executor_result :: "string \<Rightarrow> string \<Rightarrow> bool \<Rightarrow> string option \<Rightarrow> execution_result" where
  "no_executor_result tid sid fallback_used last_error =
     \<lparr>er_task_id = tid, er_step_id = sid, er_executor_used = ''none'',
      er_fallback_used = fallback_used, er_status = StepFailed, er_duration_ms = 0,
      er_error_code = Some ''NO_EXECUTOR_AVAILABLE'',
      er_error_message = Some (unwrap_or last_error ''No executor available for this action''),
      er_audit_ref = [], er_result_payload = jobj []\<rparr>"

fun try_routes ::
  "'w router \<Rightarrow> nat \<Rightarrow> route list \<Rightarrow> action \<Rightarrow> string \<Rightarrow> string \<Rightarrow> string option \<Rightarrow> bool \<Rightarrow> 'w
   \<Rightarrow> execution_result \<times> 'w" where
  "try_routes R idx [] a tid sid last_error fallback_used w =
     (no_executor_result tid sid fallback_used last_error, w)"
| "try_routes R idx (route # routes) a tid sid last_error fallback_used w =
     (case R route of
        None \<Rightarrow> try_routes R (Suc idx) routes a tid sid last_error fallback_used w
      | Some es \<Rightarrow>
          let fb = (if idx > 0 then True else fallback_used) in
          (case try_executors es a tid sid last_error w of
             (Inr result, w') \<Rightarrow> (fill_result route fb result, w')
           | (Inl err, w') \<Rightarrow> try_routes R (Suc idx) routes a tid sid err fb w'))"

definition router_execute ::
  "'w router \<Rightarrow> action \<Rightarrow> string \<Rightarrow> string \<Rightarrow> 'w \<Rightarrow> execution_result \<times> 'w" where
  "router_execute R a tid sid w = try_routes R 0 (allowed_routes a) a tid sid None False w"

section \<open>The planner\<close>

record planner_intent =
  pi_domain :: string
  pi_operation :: string
  pi_resource :: json
  pi_args :: json

record planned_step =
  ps_action :: action
  ps_route_candidates :: "route list"

definition plan_task :: "planner_intent \<Rightarrow> planned_step list" where
  "plan_task i =
     (let a = apply_governance_defaults
        \<lparr>act_domain = pi_domain i, act_operation = pi_operation i, act_resource = pi_resource i,
         act_args = pi_args i, act_risk_level = Low, act_requires_approval = False,
         act_dry_run = False\<rparr>;
          rs = (if act_domain a \<in> {''service'', ''files''} then [MiddlewareApi, Midcli]
                else [MiddlewareApi, Midcli, Browser, Mcp])
      in [\<lparr>ps_action = a, ps_route_candidates = rs\<rparr>])"

section \<open>The order in which executors are tried\<close>

text \<open>
  The abstract reading: all executors of the allowed routes in one list, each with its route and
  whether that route is a fallback; the first that supports the action, is available and succeeds
  gives the result.
\<close>

definition route_candidates :: "'w router \<Rightarrow> nat \<Rightarrow> route list \<Rightarrow> (route \<times> bool \<times> 'w executor) list" where
  "route_candidates R idx routes =
     concat (map (\<lambda>(i, r). map (\<lambda>e. (r, 0 < i, e)) (unwrap_or (R r) [])) (enumerate idx routes))"

fun first_success ::
  "(route \<times> bool \<times> 'w executor) list \<Rightarrow> action \<Rightarrow> string \<Rightarrow> string \<Rightarrow> string option \<Rightarrow> 'w
   \<Rightarrow> (string option + execution_result) \<times> 'w" where
  "first_success [] a tid sid last_error w = (Inl last_error, w)"
| "first_success ((r, fb, e) # cs) a tid sid last_error w =
     (if ex_supports e a \<and> ex_is_available e w then
        (case ex_execute e w a tid sid of
           (Inr result, w') \<Rightarrow> (Inr (fill_result r fb result), w')
         | (Inl err, w') \<Rightarrow> first_success cs a tid sid (Some err) w')
      else first_success cs a tid sid last_error w)"

definition fallback_registered :: "'w router \<Rightarrow> nat \<Rightarrow> route list \<Rightarrow> bool" where
  "fallback_registered R idx routes \<longleftrightarrow>
     (\<exists>(i, r) \<in> set (enumerate idx routes). 0 < i \<and> R r \<noteq> None)"

definition abs_router_execute ::
  "'w router \<Rightarrow> action \<Rightarrow> string \<Rightarrow> string \<Rightarrow> 'w \<Rightarrow> execution_result \<times> 'w" where
  "abs_router_execute R a tid sid w =
     (case first_success (route_candidates R 0 (allowed_routes a)) a tid sid None w of
        (Inr result, w') \<Rightarrow> (result, w')
      | (Inl err, w') \<Rightarrow>
          (no_executor_result tid sid (fallback_registered R 0 (allowed_routes a)) err, w'))"

lemma first_success_append:
  "first_success (cs @ ds) a tid sid err w =
     (case first_success cs a tid sid err w of
        (Inr result, w') \<Rightarrow> (Inr result, w')
      | (Inl err', w') \<Rightarrow> first_success ds a tid sid err' w')"
  by (induction cs a tid sid err w rule: first_success.induct)
    (auto split: prod.splits sum.splits)

lemma first_success_route:
  "first_success (map (\<lambda>e. (r, fb, e)) es) a tid sid err w =
     map_prod (map_sum id (fill_result r fb)) id (try_executors es a tid sid err w)"
  by (induction es a tid sid err w rule: try_executors.induct)
    (auto split: prod.splits sum.splits)

lemma route_candidates_Nil [simp]: "route_candidates R idx [] = []"
  by (simp add: route_candidates_def)

lemma route_candidates_Cons:
  "route_candidates R idx (r # rs) =
     map (\<lambda>e. (r, 0 < idx, e)) (unwrap_or (R r) []) @ route_candidates R (Suc idx) rs"
  by (simp add: route_candidates_def)

lemma fallback_registered_simps:
  "\<not> fallback_registered R idx []"
  "fallback_registered R idx (r # rs) \<longleftrightarrow>
     0 < idx \<and> R r \<noteq> None \<or> fallback_registered R (Suc idx) rs"
  by (auto simp: fallback_registered_def)

lemma try_routes_first_success:
  assumes "fb \<longrightarrow> 0 < idx"
  shows "try_routes R idx routes a tid sid err fb w =
     (case first_success (route_candidates R idx routes) a tid sid err w of
        (Inr result, w') \<Rightarrow> (result, w')
      | (Inl err', w') \<Rightarrow>
          (no_executor_result tid sid (fb \<or> fallback_registered R idx routes) err', w'))"
  using assms
proof (induction routes arbitrary: idx err fb w)
  case Nil
  then show ?case by (simp add: fallback_registered_simps)
next
  case (Cons r routes)
  show ?case
  proof (cases "R r")
    case None
    with Cons show ?thesis
      by (simp add: route_candidates_Cons fallback_registered_simps split: prod.split sum.split)
  next
    case (Some es)
    obtain res w' where res: "try_executors es a tid sid err w = (res, w')"
      by (cases "try_executors es a tid sid err w")
    let ?fb = "if 0 < idx then True else fb"
    have fb: "?fb = (0 < idx)" using Cons.prems by auto
    show ?thesis
    proof (cases res)
      case (Inr result)
      with Some res fb show ?thesis
        by (simp add: route_candidates_Cons first_success_append first_success_route)
    next
      case (Inl err')
      have "?fb \<longrightarrow> 0 < Suc idx" by simp
      from Cons.IH [OF this, of err' w'] Some res Inl fb show ?thesis
        by (simp add: route_candidates_Cons first_success_append first_success_route
            fallback_registered_simps split: prod.split sum.split)
    qed
  qed
qed

text \<open>
  The router implements first success: the nested loops over routes and executors give the
  result of the first executor, in route priority and registration order, that supports the action,
  is available and succeeds, marked as a fallback exactly when its route is not the first of the
  allowed routes; and if none does, the failure result with the last error.
\<close>

theorem router_refines_first_success:
  "router_execute R a tid sid w = abs_router_execute R a tid sid w"
  by (simp add: router_execute_def abs_router_execute_def try_routes_first_success
      split: prod.split sum.split)

lemma try_routes_cong:
  "(\<And>r. r \<in> set routes \<Longrightarrow> R r = R' r) \<Longrightarrow>
   try_routes R idx routes a tid sid err fb w = try_routes R' idx routes a tid sid err fb w"
proof (induction routes arbitrary: idx err fb w)
  case (Cons r routes)
  then show ?case
    by (simp add: Let_def split: option.split prod.split sum.split)
qed simp

text \<open>
  HarborOS system actions stay on the HarborOS routes: for the domains \<^verbatim>\<open>service\<close> and \<^verbatim>\<open>files\<close>
  the result and the effects do not depend on which browser or MCP executors are registered.
\<close>

theorem system_actions_ignore_browser_and_mcp:
  assumes "act_domain a \<in> {''service'', ''files''}"
  shows "router_execute (R(Browser := b, Mcp := m)) a tid sid w = router_execute R a tid sid w"
proof -
  have "set (allowed_routes a) \<subseteq> {MiddlewareApi, Midcli}"
    using assms by (auto simp: allowed_routes_def)
  then show ?thesis
    unfolding router_execute_def by (intro try_routes_cong) auto
qed

definition failing_executor :: "route \<Rightarrow> nat executor" where
  "failing_executor r = \<lparr>ex_route = r, ex_supports = (\<lambda>_. True), ex_is_available = (\<lambda>_. True),
     ex_execute = (\<lambda>w a tid sid. (Inl ''boom'', w + 1))\<rparr>"

theorem system_actions_ignore_browser_and_mcp_witness:
  "router_execute (router_new(Browser := Some [failing_executor Browser], Mcp := None))
     restart_ssh ''t1'' ''s1'' 0 = router_execute router_new restart_ssh ''t1'' ''s1'' 0"
  by (rule system_actions_ignore_browser_and_mcp) (simp add: restart_ssh_def)

text \<open>
  The planner and the router agree: the planner makes one step whose route candidates are the
  routes the router will try for that step's action, and whose action carries the governance
  defaults.
\<close>

theorem planner_matches_router:
  "\<exists>a. plan_task i = [\<lparr>ps_action = a, ps_route_candidates = allowed_routes a\<rparr>] \<and>
       act_domain a = pi_domain i \<and> act_operation a = pi_operation i \<and>
       act_risk_level a = default_risk_level a \<and>
       (act_requires_approval a \<longleftrightarrow> action_requires_approval a)"
proof -
  let ?raw = "\<lparr>act_domain = pi_domain i, act_operation = pi_operation i,
     act_resource = pi_resource i, act_args = pi_args i, act_risk_level = Low,
     act_requires_approval = False, act_dry_run = False\<rparr>"
  let ?a = "apply_governance_defaults ?raw"
  have "plan_task i = [\<lparr>ps_action = ?a, ps_route_candidates = allowed_routes ?a\<rparr>]"
    by (simp add: plan_task_def Let_def allowed_routes_def ROUTE_PRIORITY_def)
  moreover have "act_risk_level ?a = default_risk_level ?a"
    by (simp add: effective_risk_level_def)
  moreover have "act_requires_approval ?a \<longleftrightarrow> action_requires_approval ?a"
    by (simp add: governed_requires_approval)
  ultimately show ?thesis by (intro exI [of _ ?a]) simp
qed

end
