(* ===== verification/Plan_Runtime.thy ===== *)
theory Plan_Runtime
  imports Router
begin

text \<open>
  The audit log (\<^verbatim>\<open>src/src/orchestrator/audit.rs\<close>) and the plan runtime (\<^verbatim>\<open>src/src/orchestrator/runtime.rs\<close>)
  that joins the gate, the router and the log. \<open>uuids n\<close> is the text of the UUID drawn for the n-th
  event of the log.
\<close>

record audit_event =
  ev_audit_ref :: string
  ev_task_id :: string
  ev_step_id :: string
  ev_domain :: string
  ev_operation :: string
  ev_route_selected :: string
  ev_fallback_used :: bool
  ev_risk_level :: string
  ev_status :: string
  ev_duration_ms :: u64
  ev_error_code :: "string option"
  ev_error_message :: "string option"
  ev_dry_run :: bool
  ev_inputs :: json
  ev_outputs :: json

type_synonym audit_log = "audit_event list"

definition start_event :: "string \<Rightarrow> string \<Rightarrow> string \<Rightarrow> action \<Rightarrow> audit_event" where
  "start_event uuid tid sid a =
     \<lparr>ev_audit_ref = take 12 uuid, ev_task_id = tid, ev_step_id = sid,
      ev_domain = act_domain a, ev_operation = act_operation a, ev_route_selected = [],
      ev_fallback_used = False, ev_risk_level = risk_upper (act_risk_level a),
      ev_status = ''PENDING'', ev_duration_ms = 0, ev_error_code = None,
      ev_error_message = None, ev_dry_run = act_dry_run a,
      ev_inputs = action_to_value a, ev_outputs = jobj []\<rparr>"

definition record_start ::
  "string \<Rightarrow> audit_log \<Rightarrow> string \<Rightarrow> string \<Rightarrow> action \<Rightarrow> nat \<times> audit_log" where
  "record_start uuid lg tid sid a =
     (let events = lg @ [start_event uuid tid sid a] in (length events - 1, events))"

text \<open>Indexing outside the log panics: \<open>None\<close>.\<close>

definition audit_ref_for :: "audit_log \<Rightarrow> nat \<Rightarrow> string option" where
  "audit_ref_for lg i = (if i < length lg then Some (ev_audit_ref (lg ! i)) else None)"

definition complete_event :: "execution_result \<Rightarrow> audit_event \<Rightarrow> audit_event" where
  "complete_event r e = e\<lparr>ev_route_selected := er_executor_used r,
     ev_fallback_used := er_fallback_used r, ev_status := status_upper (er_status r),
     ev_duration_ms := er_duration_ms r, ev_error_code := er_error_code r,
     ev_error_message := er_error_message r, ev_outputs := result_to_value r\<rparr>"

definition record_complete :: "audit_log \<Rightarrow> nat \<Rightarrow> execution_result \<Rightarrow> audit_log" where
  "record_complete lg i r =
     (if i < length lg then lg[i := complete_event r (lg ! i)] else lg)"

definition block_event :: "string \<Rightarrow> string \<Rightarrow> audit_event \<Rightarrow> audit_event" where
  "block_event code message e = e\<lparr>ev_status := status_upper StepBlocked,
     ev_error_code := Some code, ev_error_message := Some message\<rparr>"

definition record_policy_block :: "audit_log \<Rightarrow> nat \<Rightarrow> string \<Rightarrow> string \<Rightarrow> audit_log" where
  "record_policy_block lg i code message =
     (if i < length lg then lg[i := block_event code message (lg ! i)] else lg)"

section \<open>The runtime\<close>

record 'w plan_runtime =
  rt_router :: "'w router"
  rt_audit :: audit_log
  rt_approval :: "approval_context option"

definition runtime_new :: "'w router \<Rightarrow> approval_context option \<Rightarrow> 'w plan_runtime" where
  "runtime_new R approval = \<lparr>rt_router = R, rt_audit = [], rt_approval = approval\<rparr>"

definition step_id_of :: "nat \<Rightarrow> string" where
  "step_id_of idx = ''s'' @ show_nat (idx + 1)"

definition blocked_result ::
  "string \<Rightarrow> string \<Rightarrow> policy_violation \<Rightarrow> string \<Rightarrow> execution_result" where
  "blocked_result tid sid pv aref =
     \<lparr>er_task_id = tid, er_step_id = sid, er_executor_used = ''none'', er_fallback_used = False,
      er_status = StepBlocked, er_duration_ms = 0, er_error_code = Some (pv_code pv),
      er_error_message = Some (pv_message pv), er_audit_ref = aref, er_result_payload = jobj []\<rparr>"

definition dry_run_result :: "string \<Rightarrow> string \<Rightarrow> action \<Rightarrow> string \<Rightarrow> execution_result" where
  "dry_run_result tid sid a aref =
     \<lparr>er_task_id = tid, er_step_id = sid, er_executor_used = ''dry_run'', er_fallback_used = False,
      er_status = StepSuccess, er_duration_ms = 0, er_error_code = None, er_error_message = None,
      er_audit_ref = aref, er_result_payload = action_to_value a\<rparr>"

text \<open>One round of the loop of \<^verbatim>\<open>execute_plan\<close>: the result, the log and the world after it.\<close>

definition execute_step ::
  "(nat \<Rightarrow> string) \<Rightarrow> 'w router \<Rightarrow> approval_context option \<Rightarrow> string \<Rightarrow> nat \<Rightarrow> action
   \<Rightarrow> audit_log \<Rightarrow> 'w \<Rightarrow> execution_result \<times> audit_log \<times> 'w" where
  "execute_step uuids R approval tid idx a lg w =
     (let sid = step_id_of idx;
          (event_id, log1) = record_start (uuids (length lg)) lg tid sid a;
          aref = the (audit_ref_for log1 event_id)
      in case enforce a approval of
           Inl pv \<Rightarrow>
             (blocked_result tid sid pv aref,
              record_policy_block log1 event_id (pv_code pv) (pv_message pv), w)
         | Inr _ \<Rightarrow>
             if act_dry_run a then
               (let result = dry_run_result tid sid a aref
                in (result, record_complete log1 event_id result, w))
             else
               (let (result0, w') = router_execute R a tid sid w;
                    result = result0\<lparr>er_audit_ref := aref\<rparr>
                in (result, record_complete log1 event_id result, w')))"

fun execute_steps ::
  "(nat \<Rightarrow> string) \<Rightarrow> 'w router \<Rightarrow> approval_context option \<Rightarrow> string \<Rightarrow> nat \<Rightarrow> action list
   \<Rightarrow> audit_log \<Rightarrow> 'w \<Rightarrow> execution_result list \<times> audit_log \<times> 'w" where
  "execute_steps uuids R approval tid idx [] lg w = ([], lg, w)"
| "execute_steps uuids R approval tid idx (a # as) lg w =
     (let (r, log1, w1) = execute_step uuids R approval tid idx a lg w;
          (rs, log2, w2) = execute_steps uuids R approval tid (Suc idx) as log1 w1
      in (r # rs, log2, w2))"

definition execute_plan ::
  "(nat \<Rightarrow> string) \<Rightarrow> 'w plan_runtime \<Rightarrow> task_plan \<Rightarrow> 'w \<Rightarrow> task_result \<times> 'w plan_runtime \<times> 'w" where
  "execute_plan uuids rt plan w =
     (let (rs, lg, w') = execute_steps uuids (rt_router rt) (rt_approval rt) (tp_task_id plan) 0
                            (tp_steps plan) (rt_audit rt) w
      in ((task_result_new (tp_task_id plan))\<lparr>tr_results := rs\<rparr>, rt\<lparr>rt_audit := lg\<rparr>, w'))"

section \<open>Effects of a plan\<close>

text \<open>The actions that reach the router, and the world that only they change.\<close>

definition admitted :: "approval_context option \<Rightarrow> action \<Rightarrow> bool" where
  "admitted approval a \<longleftrightarrow> enforce a approval = Ok () \<and> \<not> act_dry_run a"

definition effect_of :: "'w router \<Rightarrow> string \<Rightarrow> 'w \<Rightarrow> nat \<times> action \<Rightarrow> 'w" where
  "effect_of R tid w ia = snd (router_execute R (snd ia) tid (step_id_of (fst ia)) w)"

definition admitted_effects ::
  "'w router \<Rightarrow> approval_context option \<Rightarrow> string \<Rightarrow> nat \<Rightarrow> action list \<Rightarrow> 'w \<Rightarrow> 'w" where
  "admitted_effects R approval tid idx as w =
     foldl (effect_of R tid) w (filter (admitted approval \<circ> snd) (enumerate idx as))"

lemma enforce_cases:
  obtains (blocked) pv where "enforce a approval = Err pv" | (passed) "enforce a approval = Ok ()"
  by (cases "enforce a approval") auto

lemma record_start_eq: "record_start u lg tid sid a = (length lg, lg @ [start_event u tid sid a])"
  by (simp add: record_start_def)

lemma audit_ref_for_snoc: "audit_ref_for (lg @ [e]) (length lg) = Some (ev_audit_ref e)"
  by (simp add: audit_ref_for_def)

lemma record_complete_snoc: "record_complete (lg @ [e]) (length lg) r = lg @ [complete_event r e]"
  by (simp add: record_complete_def)

lemma record_policy_block_snoc:
  "record_policy_block (lg @ [e]) (length lg) c m = lg @ [block_event c m e]"
  by (simp add: record_policy_block_def)

lemmas audit_snoc = record_start_eq audit_ref_for_snoc record_complete_snoc record_policy_block_snoc

lemma execute_step_world:
  "snd (snd (execute_step uuids R approval tid idx a lg w)) =
     (if admitted approval a then effect_of R tid w (idx, a) else w)"
  by (cases a approval rule: enforce_cases)
    (auto simp: execute_step_def Let_def admitted_def effect_of_def split: prod.splits)

lemma execute_steps_world:
  "snd (snd (execute_steps uuids R approval tid idx as lg w)) =
     admitted_effects R approval tid idx as w"
proof (induction as arbitrary: idx lg w)
  case Nil
  then show ?case by (simp add: admitted_effects_def)
next
  case (Cons a as)
  obtain r log1 w1 where s: "execute_step uuids R approval tid idx a lg w = (r, log1, w1)"
    by (cases "execute_step uuids R approval tid idx a lg w")
  have "w1 = (if admitted approval a then effect_of R tid w (idx, a) else w)"
    using execute_step_world [of uuids R approval tid idx a lg w] s by simp
  with s Cons.IH [of "Suc idx" log1 w1] show ?case
    by (auto simp: admitted_effects_def split: prod.splits)
qed

text \<open>
  C2. A plan changes the world only through the actions the policy gate lets through and that are
  not dry runs: the world after \<^verbatim>\<open>execute_plan\<close> is the world after routing exactly those actions, in
  plan order, each under its own step id.
\<close>

theorem plan_effects_are_admitted_effects:
  "snd (snd (execute_plan uuids rt plan w)) =
     admitted_effects (rt_router rt) (rt_approval rt) (tp_task_id plan) 0 (tp_steps plan) w"
  using execute_steps_world [of uuids "rt_router rt" "rt_approval rt" "tp_task_id plan" 0
      "tp_steps plan" "rt_audit rt" w]
  by (auto simp: execute_plan_def split: prod.splits)

lemma execute_step_result_blocked:
  "enforce a approval = Err pv \<Longrightarrow>
   er_status (fst (execute_step uuids R approval tid idx a lg w)) = StepBlocked"
  by (simp add: execute_step_def blocked_result_def Let_def split: prod.splits)

lemma execute_steps_blocked:
  assumes "i < length as" and "enforce (as ! i) approval = Err pv"
  shows "er_status (fst (execute_steps uuids R approval tid idx as lg w) ! i) = StepBlocked"
  using assms
proof (induction as arbitrary: i idx lg w)
  case (Cons a as)
  obtain r log1 w1 where s: "execute_step uuids R approval tid idx a lg w = (r, log1, w1)"
    by (cases "execute_step uuids R approval tid idx a lg w")
  show ?case
  proof (cases i)
    case 0
    with Cons.prems s show ?thesis
      using execute_step_result_blocked [of a approval pv uuids R tid idx lg w]
      by (auto split: prod.splits)
  next
    case (Suc j)
    with Cons.prems s show ?thesis
      using Cons.IH [of j "Suc idx" log1 w1] by (auto split: prod.splits)
  qed
qed simp

lemma length_execute_steps:
  "length (fst (execute_steps uuids R approval tid idx as lg w)) = length as"
  by (induction as arbitrary: idx lg w) (auto split: prod.splits, metis fst_conv)

lemma high_risk_not_ok_without_context:
  "High \<le> effective_risk_level a \<Longrightarrow> \<not> is_ok (enforce a None)"
  using enforce_ok_approval [of a None] high_risk_requires_approval [of a]
  by (auto simp: is_ok_iff approval_granted_def)

lemma unapproved_admitted_is_low_risk: "admitted None a \<Longrightarrow> effective_risk_level a < High"
  using high_risk_not_ok_without_context [of a] by (auto simp: admitted_def not_less [symmetric])

text \<open>
  C1. Without an approval context a plan performs no effect of a high-risk action, whatever other
  actions it has and whatever executors are registered: the world after it is the world after
  routing only its actions of effective risk below high (those the gate admits and that are no dry
  runs), in plan order, and every step whose action has high or critical effective risk is
  reported as blocked at its own place.
\<close>

theorem unapproved_high_risk_plan_is_inert:
  assumes "rt_approval rt = None"
    and "execute_plan uuids rt plan w = (result, rt', w')"
  shows "w' = foldl (effect_of (rt_router rt) (tp_task_id plan)) w
                (filter (\<lambda>(i, a). effective_risk_level a < High \<and> admitted None a)
                   (enumerate 0 (tp_steps plan))) \<and>
         length (tr_results result) = length (tp_steps plan) \<and>
         (\<forall>i < length (tp_steps plan). High \<le> effective_risk_level (tp_steps plan ! i) \<longrightarrow>
            er_status (tr_results result ! i) = StepBlocked)"
proof -
  let ?run = "execute_steps uuids (rt_router rt) None (tp_task_id plan) 0 (tp_steps plan)
    (rt_audit rt) w"
  have r: "tr_results result = fst ?run" "w' = snd (snd ?run)"
    using assms by (auto simp: execute_plan_def task_result_new_def split: prod.splits)
  have "filter (admitted None \<circ> snd) (enumerate 0 (tp_steps plan)) =
      filter (\<lambda>(i, a). effective_risk_level a < High \<and> admitted None a)
        (enumerate 0 (tp_steps plan))"
    by (rule filter_cong) (auto dest: unapproved_admitted_is_low_risk)
  then have "w' = foldl (effect_of (rt_router rt) (tp_task_id plan)) w
      (filter (\<lambda>(i, a). effective_risk_level a < High \<and> admitted None a)
        (enumerate 0 (tp_steps plan)))"
    by (simp add: r execute_steps_world admitted_effects_def)
  moreover have "er_status (tr_results result ! i) = StepBlocked"
    if "i < length (tp_steps plan)" and h: "High \<le> effective_risk_level (tp_steps plan ! i)" for i
    using high_risk_not_ok_without_context [OF h] execute_steps_blocked [OF that(1)]
    by (cases "enforce (tp_steps plan ! i) None") (auto simp: r)
  ultimately show ?thesis by (simp add: r length_execute_steps)
qed

definition restart_plan :: task_plan where
  "restart_plan = \<lparr>tp_task_id = ''t1'', tp_goal = ''test'', tp_steps = [restart_ssh]\<rparr>"

text \<open>A plan that asks for the status of a service, restarts it and asks again.\<close>

definition mixed_plan :: task_plan where
  "mixed_plan = (let status = restart_ssh\<lparr>act_operation := ''status''\<rparr>
     in restart_plan\<lparr>tp_steps := [status, restart_ssh, status]\<rparr>)"

lemma mixed_plan_low_steps:
  "filter (\<lambda>(i, a). effective_risk_level a < High \<and> admitted None a)
     (enumerate 0 (tp_steps mixed_plan)) =
   [(0, restart_ssh\<lparr>act_operation := ''status''\<rparr>), (2, restart_ssh\<lparr>act_operation := ''status''\<rparr>)]"
  by code_simp

lemma status_effect:
  "effect_of [MiddlewareApi \<mapsto> [failing_executor MiddlewareApi]] tid w
     (i, restart_ssh\<lparr>act_operation := ''status''\<rparr>) = Suc w"
  by (simp add: effect_of_def router_execute_def allowed_routes_def restart_ssh_def
      failing_executor_def ROUTE_PRIORITY_def Let_def)

theorem unapproved_high_risk_plan_is_inert_witness:
  "case execute_plan (\<lambda>_. ''0123456789abcdef'')
      (runtime_new [MiddlewareApi \<mapsto> [failing_executor MiddlewareApi]] None) mixed_plan 7
   of (result, rt', w') \<Rightarrow> w' = (9::nat) \<and> er_status (tr_results result ! 1) = StepBlocked"
proof -
  let ?rt = "runtime_new [MiddlewareApi \<mapsto> [failing_executor MiddlewareApi]] None"
  obtain result rt' w' where e: "execute_plan (\<lambda>_. ''0123456789abcdef'') ?rt mixed_plan 7
      = (result, rt', w')"
    by (metis prod_cases3)
  have "rt_approval ?rt = None" by (simp add: runtime_new_def)
  note u = unapproved_high_risk_plan_is_inert [OF this e]
  have "w' = 9"
    using u mixed_plan_low_steps
    by (simp add: runtime_new_def status_effect)
  moreover have "1 < length (tp_steps mixed_plan)" "High \<le> effective_risk_level (tp_steps mixed_plan ! 1)"
    by (simp_all add: mixed_plan_def restart_plan_def restart_ssh_risk Let_def)
  ultimately show ?thesis using u e by auto
qed

section \<open>The audit trail\<close>

text \<open>One event describes one step and its result.\<close>

definition audited :: "string \<Rightarrow> nat \<Rightarrow> action \<Rightarrow> execution_result \<Rightarrow> audit_event \<Rightarrow> bool" where
  "audited tid idx a r e \<longleftrightarrow>
     ev_task_id e = tid \<and> ev_step_id e = step_id_of idx \<and>
     ev_domain e = act_domain a \<and> ev_operation e = act_operation a \<and>
     ev_risk_level e = risk_upper (act_risk_level a) \<and> ev_dry_run e = act_dry_run a \<and>
     ev_audit_ref e = er_audit_ref r \<and> ev_status e = status_upper (er_status r) \<and>
     ev_error_code e = er_error_code r \<and> ev_error_message e = er_error_message r"

fun audited_all ::
  "string \<Rightarrow> nat \<Rightarrow> action list \<Rightarrow> execution_result list \<Rightarrow> audit_event list \<Rightarrow> bool" where
  "audited_all tid idx [] [] [] = True"
| "audited_all tid idx (a # as) (r # rs) (e # es) =
     (audited tid idx a r e \<and> audited_all tid (Suc idx) as rs es)"
| "audited_all tid idx _ _ _ = False"

lemma audited_complete:
  "er_audit_ref r = take 12 u \<Longrightarrow>
   audited tid idx a r (complete_event r (start_event u tid (step_id_of idx) a))"
  by (simp add: audited_def complete_event_def start_event_def)

lemma audited_block:
  "audited tid idx a (blocked_result tid (step_id_of idx) pv (take 12 u))
     (block_event (pv_code pv) (pv_message pv) (start_event u tid (step_id_of idx) a))"
  by (simp add: audited_def block_event_def start_event_def blocked_result_def)

lemma start_event_ref [simp]: "ev_audit_ref (start_event u tid sid a) = take 12 u"
  by (simp add: start_event_def)

lemma execute_step_audit:
  assumes "execute_step uuids R approval tid idx a lg w = (r, lg1, w1)"
  shows "\<exists>e. lg1 = lg @ [e] \<and> audited tid idx a r e"
proof (cases a approval rule: enforce_cases)
  case (blocked pv)
  with assms show ?thesis
    by (auto simp: execute_step_def Let_def audit_snoc audited_block)
next
  case passed
  then show ?thesis
  proof (cases "act_dry_run a")
    case True
    have "audited tid idx a (dry_run_result tid (step_id_of idx) a (take 12 u))
        (complete_event (dry_run_result tid (step_id_of idx) a (take 12 u))
          (start_event u tid (step_id_of idx) a))" for u
      by (rule audited_complete) (simp add: dry_run_result_def)
    with True passed assms show ?thesis
      by (auto simp: execute_step_def Let_def audit_snoc)
  next
    case False
    with passed assms show ?thesis
      by (auto simp: execute_step_def Let_def audit_snoc split: prod.splits
          intro!: audited_complete)
  qed
qed

lemma execute_steps_audit:
  "execute_steps uuids R approval tid idx as lg w = (rs, lg1, w1) \<Longrightarrow>
   \<exists>es. lg1 = lg @ es \<and> audited_all tid idx as rs es"
proof (induction as arbitrary: idx lg w rs)
  case (Cons a as)
  obtain r lg2 w2 where s: "execute_step uuids R approval tid idx a lg w = (r, lg2, w2)"
    by (cases "execute_step uuids R approval tid idx a lg w")
  then obtain e where e: "lg2 = lg @ [e]" "audited tid idx a r e"
    using execute_step_audit [OF s] by auto
  obtain rs' where rs': "execute_steps uuids R approval tid (Suc idx) as lg2 w2 = (rs', lg1, w1)"
    and "rs = r # rs'"
    using Cons.prems s by (auto split: prod.splits)
  moreover obtain es where "lg1 = lg2 @ es" "audited_all tid (Suc idx) as rs' es"
    using Cons.IH [OF rs'] by auto
  ultimately show ?case using e by (intro exI [of _ "e # es"]) simp
qed simp

text \<open>
  The audit log is append-only and complete: executing a plan keeps every earlier event and
  appends one event per step, in order, which carries the step's task id, step id, domain,
  operation, risk level and dry-run flag, and the audit reference, status, error code and error
  message of the result the caller gets.
\<close>

theorem plan_audit_is_complete:
  assumes "execute_plan uuids rt plan w = (result, rt', w')"
  shows "\<exists>es. rt_audit rt' = rt_audit rt @ es \<and>
              audited_all (tp_task_id plan) 0 (tp_steps plan) (tr_results result) es"
proof -
  obtain rs lg v where e: "execute_steps uuids (rt_router rt) (rt_approval rt) (tp_task_id plan) 0
      (tp_steps plan) (rt_audit rt) w = (rs, lg, v)"
    by (metis prod_cases3)
  from execute_steps_audit [OF this] assms e show ?thesis
    by (auto simp: execute_plan_def)
qed

theorem plan_audit_is_complete_witness:
  "\<exists>result rt' w' es. execute_plan (\<lambda>_. ''0123456789abcdef'') (runtime_new router_new None)
       restart_plan (0::nat) = (result, rt', w') \<and>
     rt_audit rt' = rt_audit (runtime_new router_new None :: nat plan_runtime) @ es \<and>
     audited_all ''t1'' 0 [restart_ssh] (tr_results result) es"
proof -
  obtain result rt' w' where e: "execute_plan (\<lambda>_. ''0123456789abcdef'')
      (runtime_new router_new None) restart_plan (0::nat) = (result, rt', w')"
    by (metis prod_cases3)
  from plan_audit_is_complete [OF e] obtain es where
    "rt_audit rt' = rt_audit (runtime_new router_new None :: nat plan_runtime) @ es"
    "audited_all ''t1'' 0 [restart_ssh] (tr_results result) es"
    by (auto simp: restart_plan_def)
  with e show ?thesis by blast
qed

end
