(* ===== verification/Tool_Loop.thy ===== *)
theory Tool_Loop
  imports Harbor_Prelude
begin

text \<open>
  The bounded tool-call loop, from \<^verbatim>\<open>src/src/orchestrator/tool_loop.rs\<close>. The resolver (an
  \<^verbatim>\<open>FnMut\<close> closure) and the tools (trait objects) act on a world \<open>'w\<close>. The clock is an input:
  \<open>elapsed i\<close> is what \<^verbatim>\<open>start.elapsed()\<close> reads in milliseconds at the budget check of round \<open>i\<close>, \<open>spent i\<close>
  the measured duration of the tool call of that round and \<open>total_ms\<close> the reading at the end.
\<close>

datatype tool_call = Invoke string json | FinalAnswer string

record tool_output =
  to_tool :: string
  to_ok :: bool
  to_data :: json
  to_error :: "string option"
  to_duration_ms :: u64

record loop_step =
  ls_iteration :: nat
  ls_call :: tool_call
  ls_output :: "tool_output option"

record tool_loop_trace =
  tt_finished :: bool
  tt_iterations_used :: nat
  tt_total_duration_ms :: u64
  tt_steps :: "loop_step list"
  tt_final_answer :: "string option"

record 'w tool =
  tool_name :: string
  tool_description :: string
  tool_parameters_schema :: json
  tool_invoke :: "'w \<Rightarrow> json \<Rightarrow> tool_output \<times> 'w"

type_synonym 'w tool_registry = "'w tool hash_map"

definition registry_register :: "'w tool_registry \<Rightarrow> 'w tool \<Rightarrow> 'w tool_registry" where
  "registry_register reg t = hm_insert (tool_name t) t reg"

definition registry_get :: "'w tool_registry \<Rightarrow> string \<Rightarrow> 'w tool option" where
  "registry_get reg name = hm_get reg name"

definition list_schemas :: "'w tool_registry \<Rightarrow> json list" where
  "list_schemas reg = map (\<lambda>t. jobj [(''name'', JStr (tool_name t)),
     (''description'', JStr (tool_description t)),
     (''parameters'', tool_parameters_schema t)]) (hm_values reg)"

record tool_loop_config =
  tl_max_iterations :: nat
  tl_timeout_ms :: u64

definition default_tool_loop_config :: tool_loop_config where
  "default_tool_loop_config = \<lparr>tl_max_iterations = 8, tl_timeout_ms = 30000\<rparr>"

definition unknown_tool_output :: "string \<Rightarrow> tool_output" where
  "unknown_tool_output tool = \<lparr>to_tool = tool, to_ok = False, to_data = JNull,
     to_error = Some (''unknown tool: '' @ tool), to_duration_ms = 0\<rparr>"

definition dispatch ::
  "'w tool_registry \<Rightarrow> u64 \<Rightarrow> string \<Rightarrow> json \<Rightarrow> 'w \<Rightarrow> tool_output \<times> 'w" where
  "dispatch reg ms tool args w =
     (case registry_get reg tool of
        Some t \<Rightarrow> (let (out, w') = tool_invoke t w args in (out\<lparr>to_duration_ms := ms\<rparr>, w'))
      | None \<Rightarrow> (unknown_tool_output tool, w))"

text \<open>The rounds \<open>iteration .. max_iterations - 1\<close>, \<open>n\<close> of them left.\<close>

fun run_rounds ::
  "'w tool_registry \<Rightarrow> u64 \<Rightarrow> (nat \<Rightarrow> u64) \<Rightarrow> (nat \<Rightarrow> u64) \<Rightarrow> ('w \<Rightarrow> loop_step list \<Rightarrow> tool_call \<times> 'w)
   \<Rightarrow> nat \<Rightarrow> nat \<Rightarrow> loop_step list \<Rightarrow> 'w \<Rightarrow> loop_step list \<times> string option \<times> 'w" where
  "run_rounds reg timeout elapsed spent resolve 0 iteration steps w = (steps, None, w)"
| "run_rounds reg timeout elapsed spent resolve (Suc n) iteration steps w =
     (if elapsed iteration \<ge> timeout then (steps, None, w)
      else
        let (call, w1) = resolve w steps in
        (case call of
           FinalAnswer answer \<Rightarrow>
             (steps @ [\<lparr>ls_iteration = iteration, ls_call = call, ls_output = None\<rparr>], Some answer, w1)
         | Invoke tool args \<Rightarrow>
             (let (out, w2) = dispatch reg (spent iteration) tool args w1
              in run_rounds reg timeout elapsed spent resolve n (Suc iteration)
                   (steps @ [\<lparr>ls_iteration = iteration, ls_call = call, ls_output = Some out\<rparr>]) w2)))"

definition tool_loop_run ::
  "'w tool_registry \<Rightarrow> tool_loop_config \<Rightarrow> (nat \<Rightarrow> u64) \<Rightarrow> (nat \<Rightarrow> u64) \<Rightarrow> u64
   \<Rightarrow> ('w \<Rightarrow> loop_step list \<Rightarrow> tool_call \<times> 'w) \<Rightarrow> 'w \<Rightarrow> tool_loop_trace \<times> 'w" where
  "tool_loop_run reg cfg elapsed spent total_ms resolve w =
     (let (steps, final_answer, w') =
            run_rounds reg (tl_timeout_ms cfg) elapsed spent resolve (tl_max_iterations cfg) 0 [] w
      in (\<lparr>tt_finished = is_some final_answer, tt_iterations_used = length steps,
           tt_total_duration_ms = total_ms, tt_steps = steps, tt_final_answer = final_answer\<rparr>, w'))"

section \<open>The shape of a trace\<close>

text \<open>An intermediate step is a tool call with its output, numbered by its position.\<close>

definition call_step :: "nat \<Rightarrow> loop_step \<Rightarrow> bool" where
  "call_step i s \<longleftrightarrow>
     ls_iteration s = i \<and> (\<exists>tool args. ls_call s = Invoke tool args) \<and> ls_output s \<noteq> None"

definition answer_step :: "nat \<Rightarrow> string \<Rightarrow> loop_step \<Rightarrow> bool" where
  "answer_step i ans s \<longleftrightarrow> ls_iteration s = i \<and> ls_call s = FinalAnswer ans \<and> ls_output s = None"

definition calls_only :: "loop_step list \<Rightarrow> bool" where
  "calls_only steps \<longleftrightarrow> (\<forall>i < length steps. call_step i (steps ! i))"

definition trace_shape :: "loop_step list \<Rightarrow> string option \<Rightarrow> bool" where
  "trace_shape steps ans =
     (case ans of
        None \<Rightarrow> calls_only steps
      | Some a \<Rightarrow> steps \<noteq> [] \<and> calls_only (butlast steps) \<and>
          answer_step (length steps - 1) a (last steps))"

lemma calls_only_snoc:
  "calls_only steps \<Longrightarrow> call_step (length steps) s \<Longrightarrow> calls_only (steps @ [s])"
  by (auto simp: calls_only_def nth_append less_Suc_eq)

lemma run_rounds_shape:
  assumes "run_rounds reg timeout elapsed spent resolve n iteration steps w = (steps', ans, w')"
    and "calls_only steps" and "length steps = iteration"
  shows "trace_shape steps' ans \<and> length steps' \<le> iteration + n"
  using assms
proof (induction n arbitrary: iteration steps w)
  case 0
  then show ?case by (auto simp: trace_shape_def)
next
  case (Suc n)
  obtain call w1 where r: "resolve w steps = (call, w1)" by (cases "resolve w steps")
  show ?case
  proof (cases "elapsed iteration \<ge> timeout")
    case True
    with Suc.prems show ?thesis by (auto simp: trace_shape_def)
  next
    case False
    show ?thesis
    proof (cases call)
      case (FinalAnswer a)
      with Suc.prems r False show ?thesis by (auto simp: trace_shape_def answer_step_def)
    next
      case (Invoke tool args)
      obtain out w2 where d: "dispatch reg (spent iteration) tool args w1 = (out, w2)"
        by (cases "dispatch reg (spent iteration) tool args w1")
      let ?s = "\<lparr>ls_iteration = iteration, ls_call = call, ls_output = Some out\<rparr>"
      have "run_rounds reg timeout elapsed spent resolve n (Suc iteration) (steps @ [?s]) w2
          = (steps', ans, w')"
        using Suc.prems(1) r d False Invoke by simp
      moreover have "calls_only (steps @ [?s])"
        using Suc.prems Invoke by (intro calls_only_snoc) (auto simp: call_step_def)
      ultimately have "trace_shape steps' ans \<and> length steps' \<le> Suc iteration + n"
        using Suc.prems(3) by (intro Suc.IH) auto
      then show ?thesis by simp
    qed
  qed
qed

text \<open>
  The loop stops: for every resolver, tools and clock it returns a trace of at most
  \<^verbatim>\<open>max_iterations\<close> steps. Step \<open>i\<close> is numbered \<open>i\<close>; every step but the last is a tool call with a
  recorded output; the trace is marked finished exactly when the last step is the final answer it
  reports.
\<close>

theorem tool_loop_trace_well_formed:
  "let t = fst (tool_loop_run reg cfg elapsed spent total_ms resolve w) in
   tt_iterations_used t = length (tt_steps t) \<and> tt_iterations_used t \<le> tl_max_iterations cfg \<and>
   (tt_finished t \<longleftrightarrow> tt_final_answer t \<noteq> None) \<and> trace_shape (tt_steps t) (tt_final_answer t)"
proof -
  obtain steps ans w' where r: "run_rounds reg (tl_timeout_ms cfg) elapsed spent resolve
      (tl_max_iterations cfg) 0 [] w = (steps, ans, w')"
    by (metis prod_cases3)
  have "trace_shape steps ans \<and> length steps \<le> 0 + tl_max_iterations cfg"
    by (rule run_rounds_shape [OF r]) (simp_all add: calls_only_def)
  with r show ?thesis by (auto simp: tool_loop_run_def Let_def is_some_iff)
qed

lemma run_rounds_exhausts:
  assumes "\<And>w s. \<exists>tool args. fst (resolve w s) = Invoke tool args" and "\<And>i. elapsed i < timeout"
  shows "\<exists>steps' w'. run_rounds reg timeout elapsed spent resolve n iteration steps w
      = (steps', None, w') \<and> length steps' = length steps + n"
proof (induction n arbitrary: iteration steps w)
  case (Suc n)
  obtain tool args w1 where r: "resolve w steps = (Invoke tool args, w1)"
    using assms(1) [of w steps] by (metis fst_conv surj_pair)
  obtain out w2 where d: "dispatch reg (spent iteration) tool args w1 = (out, w2)"
    by (cases "dispatch reg (spent iteration) tool args w1")
  have "\<not> timeout \<le> elapsed iteration" using assms(2) [of iteration] by simp
  with r d Suc.IH [of "Suc iteration" "steps @ [_]" w2] show ?case by auto
qed simp

text \<open>
  C40. The iteration budget is used in full: a resolver that only ever calls tools, within the time
  budget, gives an unfinished trace of exactly \<^verbatim>\<open>max_iterations\<close> steps.
\<close>

theorem tool_loop_exhausts_budget:
  assumes "\<And>w s. \<exists>tool args. fst (resolve w s) = Invoke tool args"
    and "\<And>i. elapsed i < tl_timeout_ms cfg"
  shows "let t = fst (tool_loop_run reg cfg elapsed spent total_ms resolve w) in
     \<not> tt_finished t \<and> tt_iterations_used t = tl_max_iterations cfg"
proof -
  obtain steps w' where "run_rounds reg (tl_timeout_ms cfg) elapsed spent resolve
      (tl_max_iterations cfg) 0 [] w = (steps, None, w') \<and> length steps = 0 + tl_max_iterations cfg"
    using run_rounds_exhausts [of resolve elapsed "tl_timeout_ms cfg", OF assms,
        where reg = reg and spent = spent and w = w
        and n = "tl_max_iterations cfg" and iteration = 0 and steps = "[]"] by auto
  then show ?thesis by (simp add: tool_loop_run_def)
qed

theorem tool_loop_exhausts_budget_witness:
  "let t = fst (tool_loop_run [] default_tool_loop_config (\<lambda>_. 0) (\<lambda>_. 0) 0
        (\<lambda>w s. (Invoke ''nope'' JNull, w + 1)) (0::nat)) in
     \<not> tt_finished t \<and> tt_iterations_used t = tl_max_iterations default_tool_loop_config"
  by (rule tool_loop_exhausts_budget) (auto simp: default_tool_loop_config_def)

end
