(* ===== verification/Approval.thy ===== *)
theory Approval
  imports Contracts
begin

text \<open>
  The supervised-mode approval manager, from \<^verbatim>\<open>src/src/orchestrator/approval.rs\<close>: the decision whether
  a tool call needs a human, the session allowlist and the log of decisions. A \<^verbatim>\<open>HashSet\<close> is a set.
\<close>

datatype autonomy_level = ReadOnly | Supervised | Full

record autonomy_config =
  cfg_level :: autonomy_level
  cfg_auto_approve :: "string list"
  cfg_always_ask :: "string list"
  cfg_non_cli_excluded :: "string list"

definition default_autonomy_config :: autonomy_config where
  "default_autonomy_config =
     \<lparr>cfg_level = Supervised, cfg_auto_approve = [], cfg_always_ask = [], cfg_non_cli_excluded = []\<rparr>"

datatype approval_response = RespYes | RespNo | RespAlways

record approval_log_entry =
  le_tool_name :: string
  le_arguments_summary :: string
  le_decision :: approval_response
  le_channel :: string

record approval_manager =
  am_auto_approve :: "string set"
  am_always_ask :: "string set"
  am_autonomy_level :: autonomy_level
  am_non_interactive :: bool
  am_session_allowlist :: "string set"
  am_audit_log :: "approval_log_entry list"

definition from_config :: "autonomy_config \<Rightarrow> approval_manager" where
  "from_config c = \<lparr>am_auto_approve = set (cfg_auto_approve c), am_always_ask = set (cfg_always_ask c),
     am_autonomy_level = cfg_level c, am_non_interactive = False,
     am_session_allowlist = {}, am_audit_log = []\<rparr>"

definition for_non_interactive :: "autonomy_config \<Rightarrow> approval_manager" where
  "for_non_interactive c =
     \<lparr>am_auto_approve = set (cfg_auto_approve c), am_always_ask = set (cfg_always_ask c),
      am_autonomy_level = cfg_level c, am_non_interactive = True,
      am_session_allowlist = {}, am_audit_log = []\<rparr>"

definition needs_approval :: "approval_manager \<Rightarrow> string \<Rightarrow> bool" where
  "needs_approval m tool =
     (if am_autonomy_level m = Full then False
      else if am_autonomy_level m = ReadOnly then False
      else if ''*'' \<in> am_always_ask m \<or> tool \<in> am_always_ask m then True
      else if am_non_interactive m \<and> tool = ''shell'' then False
      else if ''*'' \<in> am_auto_approve m \<or> tool \<in> am_auto_approve m then False
      else if tool \<in> am_session_allowlist m then False
      else True)"

definition risk_allowed :: "approval_manager \<Rightarrow> risk_level \<Rightarrow> bool" where
  "risk_allowed m risk =
     (case am_autonomy_level m of ReadOnly \<Rightarrow> risk = Low | Supervised \<Rightarrow> True | Full \<Rightarrow> True)"

definition record_decision ::
  "approval_manager \<Rightarrow> string \<Rightarrow> string \<Rightarrow> approval_response \<Rightarrow> string \<Rightarrow> approval_manager" where
  "record_decision m tool summary decision channel =
     (let m1 = (if decision = RespAlways
                then m\<lparr>am_session_allowlist := insert tool (am_session_allowlist m)\<rparr> else m)
      in m1\<lparr>am_audit_log := am_audit_log m1 @
             [\<lparr>le_tool_name = tool, le_arguments_summary = summary, le_decision = decision,
               le_channel = channel\<rparr>]\<rparr>)"

text \<open>A session is a sequence of decisions, recorded one after the other.\<close>

definition record_entry :: "approval_manager \<Rightarrow> approval_log_entry \<Rightarrow> approval_manager" where
  "record_entry m e =
     record_decision m (le_tool_name e) (le_arguments_summary e) (le_decision e) (le_channel e)"

definition run_session :: "approval_manager \<Rightarrow> approval_log_entry list \<Rightarrow> approval_manager" where
  "run_session m es = foldl record_entry m es"

definition always_tools :: "approval_log_entry list \<Rightarrow> string set" where
  "always_tools es = le_tool_name ` {e \<in> set es. le_decision e = RespAlways}"

lemma always_tools_simps [simp]:
  "always_tools [] = {}"
  "always_tools (e # es) =
     (if le_decision e = RespAlways then insert (le_tool_name e) (always_tools es)
      else always_tools es)"
  by (auto simp: always_tools_def)

lemma record_entry_fields [simp]:
  "am_auto_approve (record_entry m e) = am_auto_approve m"
  "am_always_ask (record_entry m e) = am_always_ask m"
  "am_autonomy_level (record_entry m e) = am_autonomy_level m"
  "am_non_interactive (record_entry m e) = am_non_interactive m"
  "am_audit_log (record_entry m e) = am_audit_log m @ [e]"
  "am_session_allowlist (record_entry m e) = am_session_allowlist m \<union> always_tools [e]"
  by (simp_all add: record_entry_def record_decision_def Let_def)

lemma run_session_fields [simp]:
  "am_auto_approve (run_session m es) = am_auto_approve m"
  "am_always_ask (run_session m es) = am_always_ask m"
  "am_autonomy_level (run_session m es) = am_autonomy_level m"
  "am_non_interactive (run_session m es) = am_non_interactive m"
  "am_audit_log (run_session m es) = am_audit_log m @ es"
  "am_session_allowlist (run_session m es) = am_session_allowlist m \<union> always_tools es"
  unfolding run_session_def
  by (induction es arbitrary: m) auto

definition new_manager :: "bool \<Rightarrow> autonomy_config \<Rightarrow> approval_manager" where
  "new_manager non_interactive c = (if non_interactive then for_non_interactive c else from_config c)"

text \<open>
  In a session started from a configuration, the log holds every decision in order, the
  allowlist holds exactly the tools some decision answered Always, and a tool needs approval
  exactly in supervised mode, when it is on the ask list (or the list is the wildcard), or it is
  covered by neither the shell exception of a non-interactive manager, the auto-approve list, nor
  an Always decision of this session.
\<close>

theorem session_decides_by_log:
  "let m = run_session (new_manager ni c) es in
   am_audit_log m = es \<and> am_session_allowlist m = always_tools es \<and>
   (needs_approval m tool \<longleftrightarrow>
      cfg_level c = Supervised \<and>
      ((\<exists>t \<in> {''*'', tool}. t \<in> set (cfg_always_ask c)) \<or>
       \<not> (ni \<and> tool = ''shell'') \<and> {''*'', tool} \<inter> set (cfg_auto_approve c) = {} \<and>
       tool \<notin> always_tools es))"
  by (cases "cfg_level c")
    (auto simp: Let_def needs_approval_def new_manager_def from_config_def for_non_interactive_def)

text \<open>
  Recording decisions never makes a tool need approval that did not need it before, and a tool
  on the ask list still needs approval after any sequence of decisions in supervised mode, Always
  answers included.
\<close>

theorem session_only_relaxes:
  "{t. needs_approval (run_session m es) t} \<subseteq> {t. needs_approval m t} \<and>
   {t. am_autonomy_level m = Supervised \<and> t \<in> am_always_ask m}
     \<subseteq> {t. needs_approval (run_session m es) t}"
proof (intro conjI subsetI)
  show "t \<in> {t. needs_approval m t}" if "t \<in> {t. needs_approval (run_session m es) t}" for t
    using that by (auto simp: needs_approval_def split: if_splits)
  show "t \<in> {t. needs_approval (run_session m es) t}"
    if "t \<in> {t. am_autonomy_level m = Supervised \<and> t \<in> am_always_ask m}" for t
    using that by (simp add: needs_approval_def)
qed

end
