(* ===== verification/Scheduler.thy ===== *)
theory Scheduler
  imports Harbor_Prelude
begin

unbundle bit_operations_syntax

text \<open>
  The lease scheduler of the A100 clusters, from \<^verbatim>\<open>src/src/runtime/ai_resource_scheduler.rs\<close>. The fixed
  arrays indexed by \<^verbatim>\<open>index()\<close> are functions from the enumeration. Instants are milliseconds of one
  monotonic clock. The mutex makes each stretch between two waits on the condition variable one
  atomic operation: \<open>acquire_enter\<close> up to the first wait, \<open>acquire_poll\<close> one round of the waiting
  loop after a wake-up, \<open>release\<close> and \<open>quarantine\<close>. The counters are \<^verbatim>\<open>u64\<close> and wrap.
\<close>

section \<open>Workloads, clusters and resources\<close>

datatype ai_workload = Yolo | Llm | CatRecordingVerifier | Vlm

datatype ai_cluster = ClusterZero | ClusterOne

datatype ai_resource =
    A100Cluster0 | A100Cluster1 | SpacemitOnnxRuntimeCluster0 | SpacemitOnnxRuntimeCluster1

fun workload_as_str :: "ai_workload \<Rightarrow> string" where
  "workload_as_str Yolo = ''yolo''"
| "workload_as_str Llm = ''llm''"
| "workload_as_str CatRecordingVerifier = ''cat_recording_verifier''"
| "workload_as_str Vlm = ''vlm''"

fun workload_cluster :: "ai_workload \<Rightarrow> ai_cluster" where
  "workload_cluster Yolo = ClusterZero"
| "workload_cluster Llm = ClusterOne"
| "workload_cluster CatRecordingVerifier = ClusterOne"
| "workload_cluster Vlm = ClusterOne"

fun required_resources :: "ai_workload \<Rightarrow> ai_resource list" where
  "required_resources Yolo = [A100Cluster0, SpacemitOnnxRuntimeCluster0]"
| "required_resources CatRecordingVerifier = [A100Cluster1, SpacemitOnnxRuntimeCluster1]"
| "required_resources Llm = [A100Cluster1]"
| "required_resources Vlm = [A100Cluster1]"

fun workload_priority :: "ai_workload \<Rightarrow> u8" where
  "workload_priority Yolo = 0"
| "workload_priority Llm = 0"
| "workload_priority CatRecordingVerifier = 5"
| "workload_priority Vlm = 10"

definition ALL_RESOURCES :: "ai_resource list" where
  "ALL_RESOURCES =
     [A100Cluster0, A100Cluster1, SpacemitOnnxRuntimeCluster0, SpacemitOnnxRuntimeCluster1]"

fun resource_as_str :: "ai_resource \<Rightarrow> string" where
  "resource_as_str A100Cluster0 = ''a100_cluster_0''"
| "resource_as_str A100Cluster1 = ''a100_cluster_1''"
| "resource_as_str SpacemitOnnxRuntimeCluster0 = ''spacemit_onnx_runtime_cluster_0''"
| "resource_as_str SpacemitOnnxRuntimeCluster1 = ''spacemit_onnx_runtime_cluster_1''"

fun resource_index :: "ai_resource \<Rightarrow> nat" where
  "resource_index A100Cluster0 = 0"
| "resource_index A100Cluster1 = 1"
| "resource_index SpacemitOnnxRuntimeCluster0 = 2"
| "resource_index SpacemitOnnxRuntimeCluster1 = 3"

definition mask_of :: "ai_resource \<Rightarrow> u8" where
  "mask_of r = push_bit (resource_index r) 1"

definition resource_mask :: "ai_workload \<Rightarrow> u8" where
  "resource_mask w = foldl (\<lambda>m r. m OR mask_of r) 0 (required_resources w)"

fun from_cluster :: "ai_cluster \<Rightarrow> ai_resource" where
  "from_cluster ClusterZero = A100Cluster0"
| "from_cluster ClusterOne = A100Cluster1"

fun cluster_other :: "ai_cluster \<Rightarrow> ai_cluster" where
  "cluster_other ClusterZero = ClusterOne"
| "cluster_other ClusterOne = ClusterZero"

fun cluster_as_str :: "ai_cluster \<Rightarrow> string" where
  "cluster_as_str ClusterZero = ''a100_cluster_0''"
| "cluster_as_str ClusterOne = ''a100_cluster_1''"

fun core_ids :: "ai_cluster \<Rightarrow> u8 list" where
  "core_ids ClusterZero = [8, 9, 10, 11]"
| "core_ids ClusterOne = [12, 13, 14, 15]"

section \<open>Errors\<close>

datatype ai_lease_error_kind = QueueFull | WaitTimeout | Quarantined

record ai_lease_error =
  le_kind :: ai_lease_error_kind
  le_workload :: ai_workload
  le_cluster :: ai_cluster

fun lease_error_code :: "ai_lease_error_kind \<Rightarrow> string" where
  "lease_error_code QueueFull = ''ai_resource_queue_full''"
| "lease_error_code WaitTimeout = ''ai_resource_wait_timeout''"
| "lease_error_code Quarantined = ''ai_resource_quarantined''"

definition lease_error_display :: "ai_lease_error \<Rightarrow> string" where
  "lease_error_display e = lease_error_code (le_kind e) @ '' for '' @ workload_as_str (le_workload e)
     @ '' on '' @ cluster_as_str (le_cluster e)"

datatype quarantine_reason = ProcessExitUnconfirmed | InferenceTimeout | RuntimeFailure

fun quarantine_reason_as_str :: "quarantine_reason \<Rightarrow> string" where
  "quarantine_reason_as_str ProcessExitUnconfirmed = ''process_exit_unconfirmed''"
| "quarantine_reason_as_str InferenceTimeout = ''inference_timeout''"
| "quarantine_reason_as_str RuntimeFailure = ''runtime_failure''"

section \<open>State\<close>

record lease_holder =
  lh_lease_id :: u64
  lh_workload :: ai_workload
  lh_acquired_at :: nat

record lease_waiter =
  lw_ticket :: u64
  lw_workload :: ai_workload
  lw_priority :: u8
  lw_resource_mask :: u8
  lw_enqueued_at :: nat

record resource_metrics =
  rm_acquired_total :: u64
  rm_released_total :: u64
  rm_lease_quarantined_total :: u64
  rm_queued_total :: u64
  rm_queue_full_total :: u64
  rm_timed_out_total :: u64
  rm_total_wait_ms :: u64
  rm_max_wait_ms :: u64

record workload_metrics =
  wm_requested_total :: u64
  wm_acquired_total :: u64
  wm_released_total :: u64
  wm_cross_cluster_parallel_acquired_total :: u64
  wm_quarantine_rejected_total :: u64
  wm_queued_total :: u64
  wm_queue_full_total :: u64
  wm_timed_out_total :: u64
  wm_total_wait_ms :: u64
  wm_max_wait_ms :: u64

record resource_state =
  rs_holder :: "lease_holder option"
  rs_quarantine_reason :: "quarantine_reason option"
  rs_metrics :: resource_metrics

record scheduler_state =
  ss_next_ticket :: u64
  ss_next_lease_id :: u64
  ss_resources :: "ai_resource \<Rightarrow> resource_state"
  ss_waiters :: "lease_waiter list"
  ss_workloads :: "ai_workload \<Rightarrow> workload_metrics"

record ai_resource_lease =
  al_resource_mask :: u8
  al_workload :: ai_workload
  al_lease_id :: u64

record scheduler_config =
  sc_queue_capacity :: nat
  sc_wait_timeout_ms :: nat

definition scheduler_state_default :: scheduler_state where
  "scheduler_state_default =
     \<lparr>ss_next_ticket = 0, ss_next_lease_id = 0,
      ss_resources = (\<lambda>_. \<lparr>rs_holder = None, rs_quarantine_reason = None,
        rs_metrics = \<lparr>rm_acquired_total = 0, rm_released_total = 0, rm_lease_quarantined_total = 0,
          rm_queued_total = 0, rm_queue_full_total = 0, rm_timed_out_total = 0,
          rm_total_wait_ms = 0, rm_max_wait_ms = 0\<rparr>\<rparr>),
      ss_waiters = [],
      ss_workloads = (\<lambda>_. \<lparr>wm_requested_total = 0, wm_acquired_total = 0, wm_released_total = 0,
        wm_cross_cluster_parallel_acquired_total = 0, wm_quarantine_rejected_total = 0,
        wm_queued_total = 0, wm_queue_full_total = 0, wm_timed_out_total = 0,
        wm_total_wait_ms = 0, wm_max_wait_ms = 0\<rparr>)\<rparr>"

definition MAX_LEASE_QUEUE_CAPACITY :: nat where "MAX_LEASE_QUEUE_CAPACITY = 64"
definition MAX_LEASE_WAIT_TIMEOUT_MS :: nat where "MAX_LEASE_WAIT_TIMEOUT_MS = 300000"
definition DEFAULT_LEASE_QUEUE_CAPACITY :: nat where "DEFAULT_LEASE_QUEUE_CAPACITY = 8"
definition DEFAULT_LEASE_WAIT_TIMEOUT_MS :: nat where "DEFAULT_LEASE_WAIT_TIMEOUT_MS = 60000"

definition clamp :: "nat \<Rightarrow> nat \<Rightarrow> nat \<Rightarrow> nat" where
  "clamp lo hi x = max lo (min hi x)"

definition scheduler_new :: "nat \<Rightarrow> nat \<Rightarrow> scheduler_config" where
  "scheduler_new queue_capacity wait_timeout =
     \<lparr>sc_queue_capacity = clamp 1 MAX_LEASE_QUEUE_CAPACITY queue_capacity,
      sc_wait_timeout_ms = min wait_timeout MAX_LEASE_WAIT_TIMEOUT_MS\<rparr>"

definition bounded_env :: "(string \<Rightarrow> string option) \<Rightarrow> string \<Rightarrow> nat \<Rightarrow> nat \<Rightarrow> nat \<Rightarrow> nat" where
  "bounded_env env name dflt minimum maximum =
     unwrap_or (map_option (clamp minimum maximum)
       (Option.bind (env name) (\<lambda>v. parse_unsigned (trim v)))) dflt"

definition from_environment :: "(string \<Rightarrow> string option) \<Rightarrow> scheduler_config" where
  "from_environment env = scheduler_new
     (bounded_env env ''HARBOR_AI_RESOURCE_LEASE_QUEUE_CAPACITY'' DEFAULT_LEASE_QUEUE_CAPACITY
        1 MAX_LEASE_QUEUE_CAPACITY)
     (bounded_env env ''HARBOR_AI_RESOURCE_LEASE_WAIT_TIMEOUT_MS'' DEFAULT_LEASE_WAIT_TIMEOUT_MS
        1 MAX_LEASE_WAIT_TIMEOUT_MS)"

section \<open>Predicates of the lock-protected state\<close>

definition in_mask :: "u8 \<Rightarrow> ai_resource \<Rightarrow> bool" where
  "in_mask m r \<longleftrightarrow> m AND mask_of r \<noteq> 0"

definition resources_in_mask :: "u8 \<Rightarrow> ai_resource list" where
  "resources_in_mask m = filter (in_mask m) ALL_RESOURCES"

definition resources_are_free :: "scheduler_state \<Rightarrow> u8 \<Rightarrow> bool" where
  "resources_are_free s m = list_all (\<lambda>r. rs_holder (ss_resources s r) = None \<and>
     rs_quarantine_reason (ss_resources s r) = None) (resources_in_mask m)"

definition required_resources_are_quarantined :: "scheduler_state \<Rightarrow> ai_workload \<Rightarrow> bool" where
  "required_resources_are_quarantined s w =
     list_ex (\<lambda>r. rs_quarantine_reason (ss_resources s r) \<noteq> None) (required_resources w)"

definition resources_overlap :: "u8 \<Rightarrow> u8 \<Rightarrow> bool" where
  "resources_overlap l r \<longleftrightarrow> l AND r \<noteq> 0"

definition u64_max :: u64 where "u64_max = - 1"

definition can_grant_new_request :: "scheduler_state \<Rightarrow> ai_workload \<Rightarrow> bool" where
  "can_grant_new_request s w \<longleftrightarrow>
     resources_are_free s (resource_mask w) \<and>
     \<not> list_ex (\<lambda>x. resources_overlap (lw_resource_mask x) (resource_mask w) \<and>
           resources_are_free s (lw_resource_mask x) \<and>
           (lw_priority x, lw_ticket x) \<le> (workload_priority w, u64_max)) (ss_waiters s)"

definition waiter_can_be_granted :: "scheduler_state \<Rightarrow> u64 \<Rightarrow> bool" where
  "waiter_can_be_granted s ticket =
     (case find (\<lambda>x. lw_ticket x = ticket) (ss_waiters s) of
        None \<Rightarrow> False
      | Some x \<Rightarrow>
          resources_are_free s (lw_resource_mask x) \<and>
          \<not> list_ex (\<lambda>y. lw_ticket y \<noteq> lw_ticket x \<and>
                resources_overlap (lw_resource_mask y) (lw_resource_mask x) \<and>
                resources_are_free s (lw_resource_mask y) \<and>
                (lw_priority y, lw_ticket y) < (lw_priority x, lw_ticket x)) (ss_waiters s))"

definition queued_count_for_resource :: "lease_waiter list \<Rightarrow> ai_resource \<Rightarrow> nat" where
  "queued_count_for_resource ws r = length (filter (\<lambda>x. in_mask (lw_resource_mask x) r) ws)"

fun remove_waiter :: "lease_waiter list \<Rightarrow> u64 \<Rightarrow> lease_waiter list" where
  "remove_waiter [] ticket = []"
| "remove_waiter (x # xs) ticket =
     (if lw_ticket x = ticket then xs else x # remove_waiter xs ticket)"

section \<open>Operations\<close>

text \<open>\<^verbatim>\<open>Instant::elapsed\<close> saturates at zero; the milliseconds are clipped to \<^verbatim>\<open>u64\<close>.\<close>

definition duration_millis :: "nat \<Rightarrow> u64" where
  "duration_millis d = (if d < 2 ^ 64 then of_nat d else u64_max)"

definition saturating_add :: "u64 \<Rightarrow> u64 \<Rightarrow> u64" where
  "saturating_add a b = (if unat a + unat b < 2 ^ 64 then a + b else u64_max)"

definition upd_resource ::
  "(resource_state \<Rightarrow> resource_state) \<Rightarrow> ai_resource \<Rightarrow> scheduler_state \<Rightarrow> scheduler_state" where
  "upd_resource f r s = s\<lparr>ss_resources := (ss_resources s)(r := f (ss_resources s r))\<rparr>"

definition upd_metrics ::
  "(resource_metrics \<Rightarrow> resource_metrics) \<Rightarrow> ai_resource \<Rightarrow> scheduler_state \<Rightarrow> scheduler_state" where
  "upd_metrics f = upd_resource (\<lambda>x. x\<lparr>rs_metrics := f (rs_metrics x)\<rparr>)"

definition upd_workload ::
  "(workload_metrics \<Rightarrow> workload_metrics) \<Rightarrow> ai_workload \<Rightarrow> scheduler_state \<Rightarrow> scheduler_state" where
  "upd_workload f w s = s\<lparr>ss_workloads := (ss_workloads s)(w := f (ss_workloads s w))\<rparr>"

definition next_id :: "u64 \<Rightarrow> u64" where
  "next_id n = max (n + 1) 1"

text \<open>The clock readings of one critical section.\<close>

record readings =
  rd_enqueued :: nat
  rd_deadline_base :: nat
  rd_elapsed :: nat
  rd_acquired :: nat
  rd_check :: nat

definition hold_resource ::
  "u64 \<Rightarrow> ai_workload \<Rightarrow> nat \<Rightarrow> u64 \<Rightarrow> resource_state \<Rightarrow> resource_state" where
  "hold_resource lease_id w acquired_at waited_ms x =
     x\<lparr>rs_holder := Some \<lparr>lh_lease_id = lease_id, lh_workload = w, lh_acquired_at = acquired_at\<rparr>,
       rs_metrics := (rs_metrics x)\<lparr>rm_acquired_total := rm_acquired_total (rs_metrics x) + 1,
         rm_total_wait_ms := saturating_add (rm_total_wait_ms (rs_metrics x)) waited_ms,
         rm_max_wait_ms := max (rm_max_wait_ms (rs_metrics x)) waited_ms\<rparr>\<rparr>"

definition grant ::
  "readings \<Rightarrow> scheduler_state \<Rightarrow> ai_workload \<Rightarrow> u8 \<Rightarrow> u64 \<Rightarrow> ai_resource_lease \<times> scheduler_state" where
  "grant clk s w msk waited_ms =
     (let lease_id = next_id (ss_next_lease_id s);
          s1 = s\<lparr>ss_next_lease_id := lease_id\<rparr>;
          other_cluster_busy =
            rs_holder (ss_resources s1 (from_cluster (cluster_other (workload_cluster w)))) \<noteq> None;
          s2 = fold (upd_resource (hold_resource lease_id w (rd_acquired clk) waited_ms))
                 (resources_in_mask msk) s1;
          s3 = upd_workload (\<lambda>m. m\<lparr>wm_acquired_total := wm_acquired_total m + 1,
                 wm_cross_cluster_parallel_acquired_total :=
                   wm_cross_cluster_parallel_acquired_total m + (if other_cluster_busy then 1 else 0),
                 wm_total_wait_ms := saturating_add (wm_total_wait_ms m) waited_ms,
                 wm_max_wait_ms := max (wm_max_wait_ms m) waited_ms\<rparr>) w s2
      in (\<lparr>al_resource_mask = msk, al_workload = w, al_lease_id = lease_id\<rparr>, s3))"

datatype acquire_outcome =
    Granted ai_resource_lease
  | Rejected ai_lease_error
  | Parked u64 nat

definition lease_error :: "ai_lease_error_kind \<Rightarrow> ai_workload \<Rightarrow> ai_lease_error" where
  "lease_error k w = \<lparr>le_kind = k, le_workload = w, le_cluster = workload_cluster w\<rparr>"

text \<open>One round of the waiting loop of \<^verbatim>\<open>acquire\<close>; \<open>Parked\<close> is another wait on the condition variable.\<close>

definition acquire_poll ::
  "readings \<Rightarrow> ai_workload \<Rightarrow> u64 \<Rightarrow> nat \<Rightarrow> scheduler_state \<Rightarrow> acquire_outcome \<times> scheduler_state" where
  "acquire_poll clk w ticket deadline s =
     (if required_resources_are_quarantined s w then
        (Rejected (lease_error Quarantined w),
         upd_workload (\<lambda>m. m\<lparr>wm_quarantine_rejected_total := wm_quarantine_rejected_total m + 1\<rparr>) w
           (s\<lparr>ss_waiters := remove_waiter (ss_waiters s) ticket\<rparr>))
      else if waiter_can_be_granted s ticket then
        (case find (\<lambda>x. lw_ticket x = ticket) (ss_waiters s) of
           None \<Rightarrow> (Parked ticket deadline, s)
         | Some x \<Rightarrow>
             map_prod Granted id
               (grant clk (s\<lparr>ss_waiters := remove_waiter (ss_waiters s) ticket\<rparr>) w (lw_resource_mask x)
                 (duration_millis (rd_elapsed clk - lw_enqueued_at x))))
      else if rd_check clk \<ge> deadline then
        (Rejected (lease_error WaitTimeout w),
         upd_workload (\<lambda>m. m\<lparr>wm_timed_out_total := wm_timed_out_total m + 1\<rparr>) w
           (fold (upd_metrics (\<lambda>m. m\<lparr>rm_timed_out_total := rm_timed_out_total m + 1\<rparr>))
             (required_resources w)
             (s\<lparr>ss_waiters := remove_waiter (ss_waiters s) ticket\<rparr>)))
      else (Parked ticket deadline, s))"

text \<open>\<^verbatim>\<open>acquire\<close> up to its first wait.\<close>

definition acquire_enter ::
  "scheduler_config \<Rightarrow> readings \<Rightarrow> ai_workload \<Rightarrow> scheduler_state \<Rightarrow> acquire_outcome \<times> scheduler_state" where
  "acquire_enter cfg clk w s0 =
     (let s = upd_workload (\<lambda>m. m\<lparr>wm_requested_total := wm_requested_total m + 1\<rparr>) w s0 in
      if required_resources_are_quarantined s w then
        (Rejected (lease_error Quarantined w),
         upd_workload (\<lambda>m. m\<lparr>wm_quarantine_rejected_total := wm_quarantine_rejected_total m + 1\<rparr>) w s)
      else if can_grant_new_request s w then
        map_prod Granted id (grant clk s w (resource_mask w) 0)
      else if list_ex (\<lambda>r. queued_count_for_resource (ss_waiters s) r \<ge> sc_queue_capacity cfg)
                (required_resources w) then
        (Rejected (lease_error QueueFull w),
         upd_workload (\<lambda>m. m\<lparr>wm_queue_full_total := wm_queue_full_total m + 1\<rparr>) w
           (fold (upd_metrics (\<lambda>m. m\<lparr>rm_queue_full_total := rm_queue_full_total m + 1\<rparr>))
             (required_resources w) s))
      else
        let ticket = next_id (ss_next_ticket s);
            waiter = \<lparr>lw_ticket = ticket, lw_workload = w, lw_priority = workload_priority w,
              lw_resource_mask = resource_mask w, lw_enqueued_at = rd_enqueued clk\<rparr>;
            s1 = s\<lparr>ss_next_ticket := ticket, ss_waiters := ss_waiters s @ [waiter]\<rparr>;
            s2 = fold (upd_metrics (\<lambda>m. m\<lparr>rm_queued_total := rm_queued_total m + 1\<rparr>))
                   (required_resources w) s1;
            s3 = upd_workload (\<lambda>m. m\<lparr>wm_queued_total := wm_queued_total m + 1\<rparr>) w s2
        in acquire_poll clk w ticket (rd_deadline_base clk + sc_wait_timeout_ms cfg) s3)"

definition held_by :: "scheduler_state \<Rightarrow> u64 \<Rightarrow> ai_resource \<Rightarrow> bool" where
  "held_by s lease_id r \<longleftrightarrow>
     (case rs_holder (ss_resources s r) of None \<Rightarrow> False | Some h \<Rightarrow> lh_lease_id h = lease_id)"

definition release :: "scheduler_state \<Rightarrow> ai_resource_lease \<Rightarrow> scheduler_state" where
  "release s l =
     (let owned = filter (held_by s (al_lease_id l)) (resources_in_mask (al_resource_mask l));
          s1 = fold (upd_resource (\<lambda>x. x\<lparr>rs_holder := None, rs_metrics := (rs_metrics x)
                  \<lparr>rm_released_total := rm_released_total (rs_metrics x) + 1\<rparr>\<rparr>)) owned s
      in if owned \<noteq> []
         then upd_workload (\<lambda>m. m\<lparr>wm_released_total := wm_released_total m + 1\<rparr>) (al_workload l) s1
         else s1)"

definition quarantine ::
  "scheduler_state \<Rightarrow> ai_resource_lease \<Rightarrow> quarantine_reason \<Rightarrow> scheduler_state" where
  "quarantine s l reason =
     (let owned = filter (held_by s (al_lease_id l)) (resources_in_mask (al_resource_mask l))
      in fold (upd_resource (\<lambda>x. x\<lparr>rs_quarantine_reason := Some reason, rs_metrics := (rs_metrics x)
           \<lparr>rm_lease_quarantined_total := rm_lease_quarantined_total (rs_metrics x) + 1\<rparr>\<rparr>)) owned s)"

section \<open>Snapshots\<close>

definition holder_snapshot :: "nat \<Rightarrow> lease_holder \<Rightarrow> json" where
  "holder_snapshot now h = jobj
     [(''workload'', JStr (workload_as_str (lh_workload h))),
      (''lease_age_ms'', JInt (uint (duration_millis (now - lh_acquired_at h))))]"

fun opt_json :: "json option \<Rightarrow> json" where
  "opt_json None = JNull"
| "opt_json (Some j) = j"

definition waiting_by_workload :: "scheduler_state \<Rightarrow> ai_resource \<Rightarrow> json" where
  "waiting_by_workload s r = jobj (map (\<lambda>w. (workload_as_str w,
     JInt (int (length (filter (\<lambda>x. lw_workload x = w \<and> in_mask (lw_resource_mask x) r) (ss_waiters s))))))
     [Yolo, Llm, CatRecordingVerifier, Vlm])"

definition resource_fields :: "nat \<Rightarrow> scheduler_state \<Rightarrow> ai_resource \<Rightarrow> (string \<times> json) list" where
  "resource_fields now s r =
     (let x = ss_resources s r; m = rs_metrics x; holder = map_option (holder_snapshot now) (rs_holder x) in
      [(''busy'', JBool (holder \<noteq> None)),
       (''holder'', opt_json holder),
       (''quarantined'', JBool (rs_quarantine_reason x \<noteq> None)),
       (''quarantine_reason'', jopt_str (map_option quarantine_reason_as_str (rs_quarantine_reason x))),
       (''queue_depth'', JInt (int (queued_count_for_resource (ss_waiters s) r))),
       (''waiting_by_workload'', waiting_by_workload s r),
       (''acquired_total'', JInt (uint (rm_acquired_total m))),
       (''released_total'', JInt (uint (rm_released_total m))),
       (''lease_quarantined_total'', JInt (uint (rm_lease_quarantined_total m))),
       (''queued_total'', JInt (uint (rm_queued_total m))),
       (''queue_full_total'', JInt (uint (rm_queue_full_total m))),
       (''timed_out_total'', JInt (uint (rm_timed_out_total m))),
       (''total_wait_ms'', JInt (uint (rm_total_wait_ms m))),
       (''max_wait_ms'', JInt (uint (rm_max_wait_ms m)))])"

definition cluster_snapshot :: "nat \<Rightarrow> scheduler_state \<Rightarrow> ai_cluster \<Rightarrow> json" where
  "cluster_snapshot now s c = jobj
     ([(''cluster_id'', JStr (cluster_as_str c)),
       (''core_ids'', JArr (map (\<lambda>i. JInt (uint i)) (core_ids c)))]
      @ resource_fields now s (from_cluster c))"

definition resource_domain_snapshot :: "nat \<Rightarrow> scheduler_state \<Rightarrow> ai_resource \<Rightarrow> json" where
  "resource_domain_snapshot now s r =
     jobj ((''resource_id'', JStr (resource_as_str r)) # resource_fields now s r)"

definition workload_snapshot :: "scheduler_config \<Rightarrow> scheduler_state \<Rightarrow> ai_workload \<Rightarrow> json" where
  "workload_snapshot cfg s w =
     (let m = ss_workloads s w; c = workload_cluster w; cr = from_cluster c;
          cs = ss_resources s cr in
      jobj
      [(''workload'', JStr (workload_as_str w)),
       (''cluster_id'', JStr (cluster_as_str c)),
       (''core_ids'', JArr (map (\<lambda>i. JInt (uint i)) (core_ids c))),
       (''busy'', JBool (rs_holder cs \<noteq> None)),
       (''holder_workload'', jopt_str (map_option (workload_as_str \<circ> lh_workload) (rs_holder cs))),
       (''queue_depth'', JInt (int (queued_count_for_resource (ss_waiters s) cr))),
       (''required_resource_ids'', JArr (map (JStr \<circ> resource_as_str) (required_resources w))),
       (''blocked_resource_ids'', JArr (map (JStr \<circ> resource_as_str)
          (filter (\<lambda>r. rs_holder (ss_resources s r) \<noteq> None) (required_resources w)))),
       (''atomic_resource_lease'', JBool (length (required_resources w) > 1)),
       (''mode'', JStr ''bounded_priority_fifo_lease''),
       (''queue_capacity'', JInt (int (sc_queue_capacity cfg))),
       (''wait_timeout_ms'', JInt (uint (duration_millis (sc_wait_timeout_ms cfg)))),
       (''started_total'', JInt (uint (wm_acquired_total m))),
       (''completed_total'', JInt (uint (wm_released_total m))),
       (''busy_total'', JInt (uint (wm_queued_total m + wm_queue_full_total m
          + wm_quarantine_rejected_total m))),
       (''failed_total'', JInt (uint (wm_queue_full_total m + wm_timed_out_total m
          + wm_quarantine_rejected_total m))),
       (''requested_total'', JInt (uint (wm_requested_total m))),
       (''cross_cluster_parallel_acquired_total'',
          JInt (uint (wm_cross_cluster_parallel_acquired_total m))),
       (''quarantine_rejected_total'', JInt (uint (wm_quarantine_rejected_total m))),
       (''queued_total'', JInt (uint (wm_queued_total m))),
       (''queue_full_total'', JInt (uint (wm_queue_full_total m))),
       (''timed_out_total'', JInt (uint (wm_timed_out_total m))),
       (''total_wait_ms'', JInt (uint (wm_total_wait_ms m))),
       (''max_wait_ms'', JInt (uint (wm_max_wait_ms m))),
       (''cpu_fallback_enabled'', JBool False),
       (''metadata_only'', JBool True),
       (''secret_scan'', JStr ''clean'')])"

definition snapshot :: "scheduler_config \<Rightarrow> nat \<Rightarrow> scheduler_state \<Rightarrow> json" where
  "snapshot cfg now s = jobj
     [(''kind'', JStr ''k3_ai_resource_scheduler_v2''),
      (''mode'', JStr ''bounded_priority_fifo_lease''),
      (''atomic_multi_resource_leases'', JBool True),
      (''queue_capacity_per_cluster'', JInt (int (sc_queue_capacity cfg))),
      (''queue_capacity_per_resource'', JInt (int (sc_queue_capacity cfg))),
      (''wait_timeout_ms'', JInt (uint (duration_millis (sc_wait_timeout_ms cfg)))),
      (''cpu_fallback_enabled'', JBool False),
      (''clusters'', JArr [cluster_snapshot now s ClusterZero, cluster_snapshot now s ClusterOne]),
      (''resource_domains'', jobj
        [(''spacemit_onnx_runtime_cluster_0'',
            resource_domain_snapshot now s SpacemitOnnxRuntimeCluster0),
         (''spacemit_onnx_runtime_cluster_1'',
            resource_domain_snapshot now s SpacemitOnnxRuntimeCluster1)]),
      (''workloads'', jobj (map (\<lambda>w. (workload_as_str w, workload_snapshot cfg s w))
         [Yolo, Llm, CatRecordingVerifier, Vlm])),
      (''metadata_only'', JBool True),
      (''secret_scan'', JStr ''clean'')]"

section \<open>Masks\<close>

lemma ALL_RESOURCES_all [simp]: "set ALL_RESOURCES = UNIV" "distinct ALL_RESOURCES"
proof -
  show "set ALL_RESOURCES = UNIV" using ai_resource.exhaust by (auto simp: ALL_RESOURCES_def)
qed (simp add: ALL_RESOURCES_def)

lemma set_resources_in_mask [simp]: "set (resources_in_mask m) = {r. in_mask m r}"
  by (simp add: resources_in_mask_def)

lemma distinct_resources_in_mask [simp]: "distinct (resources_in_mask m)"
  by (simp add: resources_in_mask_def)

lemma distinct_required_resources [simp]: "distinct (required_resources w)"
  by (cases w) simp_all

lemma in_resource_mask [simp]: "in_mask (resource_mask w) r \<longleftrightarrow> r \<in> set (required_resources w)"
  by (cases w; cases r) (simp_all add: in_mask_def resource_mask_def mask_of_def)

lemma resources_in_resource_mask [simp]: "resources_in_mask (resource_mask w) = required_resources w"
  by (cases w) (simp_all add: resources_in_mask_def ALL_RESOURCES_def)

lemma resources_are_free_iff:
  "resources_are_free s m \<longleftrightarrow> (\<forall>r. in_mask m r \<longrightarrow>
     rs_holder (ss_resources s r) = None \<and> rs_quarantine_reason (ss_resources s r) = None)"
  by (auto simp: resources_are_free_def list_all_iff)

lemma overlap_resource_mask [simp]:
  "resources_overlap (resource_mask v) (resource_mask w) \<longleftrightarrow> workload_cluster v = workload_cluster w"
  by (cases v; cases w) (simp_all add: resources_overlap_def resource_mask_def mask_of_def)

lemma cluster_resource_required [simp]:
  "from_cluster (workload_cluster w) \<in> set (required_resources w)"
  by (cases w) simp_all

section \<open>Updates of the state\<close>

lemma upd_resource_simps [simp]:
  "ss_waiters (upd_resource f r s) = ss_waiters s"
  "ss_workloads (upd_resource f r s) = ss_workloads s"
  "ss_next_ticket (upd_resource f r s) = ss_next_ticket s"
  "ss_next_lease_id (upd_resource f r s) = ss_next_lease_id s"
  "ss_resources (upd_resource f r s) r' = (if r' = r then f (ss_resources s r) else ss_resources s r')"
  by (simp_all add: upd_resource_def)

lemma upd_workload_simps [simp]:
  "ss_waiters (upd_workload f w s) = ss_waiters s"
  "ss_resources (upd_workload f w s) = ss_resources s"
  "ss_next_ticket (upd_workload f w s) = ss_next_ticket s"
  "ss_next_lease_id (upd_workload f w s) = ss_next_lease_id s"
  "ss_workloads (upd_workload f w s) v = (if v = w then f (ss_workloads s w) else ss_workloads s v)"
  by (simp_all add: upd_workload_def)

lemma fold_upd_resource_simps [simp]:
  "ss_waiters (fold (upd_resource f) rs s) = ss_waiters s"
  "ss_workloads (fold (upd_resource f) rs s) = ss_workloads s"
  "ss_next_ticket (fold (upd_resource f) rs s) = ss_next_ticket s"
  "ss_next_lease_id (fold (upd_resource f) rs s) = ss_next_lease_id s"
  by (induction rs arbitrary: s) simp_all

lemma fold_upd_resource_at [simp]:
  "distinct rs \<Longrightarrow> ss_resources (fold (upd_resource f) rs s) r
     = (if r \<in> set rs then f (ss_resources s r) else ss_resources s r)"
  by (induction rs arbitrary: s) auto

text \<open>The part of a resource that decides who may use it.\<close>

definition occupancy :: "scheduler_state \<Rightarrow> ai_resource \<Rightarrow> u64 option \<times> quarantine_reason option" where
  "occupancy s r = (map_option lh_lease_id (rs_holder (ss_resources s r)),
     rs_quarantine_reason (ss_resources s r))"

lemma fold_upd_metrics_simps [simp]:
  "ss_waiters (fold (upd_metrics f) rs s) = ss_waiters s"
  "ss_workloads (fold (upd_metrics f) rs s) = ss_workloads s"
  "rs_holder (ss_resources (fold (upd_metrics f) rs s) r) = rs_holder (ss_resources s r)"
  "rs_quarantine_reason (ss_resources (fold (upd_metrics f) rs s) r)
     = rs_quarantine_reason (ss_resources s r)"
  "ss_next_ticket (fold (upd_metrics f) rs s) = ss_next_ticket s"
  by (induction rs arbitrary: s) (simp_all add: upd_metrics_def)

lemma grant_simps [simp]:
  "ss_waiters (snd (grant clk s w m d)) = ss_waiters s"
  "ss_next_ticket (snd (grant clk s w m d)) = ss_next_ticket s"
  "rs_quarantine_reason (ss_resources (snd (grant clk s w m d)) r) = rs_quarantine_reason (ss_resources s r)"
  "rs_holder (ss_resources (snd (grant clk s w m d)) r) =
     (if in_mask m r then Some \<lparr>lh_lease_id = next_id (ss_next_lease_id s), lh_workload = w,
        lh_acquired_at = rd_acquired clk\<rparr> else rs_holder (ss_resources s r))"
  "fst (grant clk s w m d) =
     \<lparr>al_resource_mask = m, al_workload = w, al_lease_id = next_id (ss_next_lease_id s)\<rparr>"
  by (simp_all add: grant_def Let_def hold_resource_def)

end
