(* ===== verification/Scheduler_Queue.thy ===== *)
theory Scheduler_Queue
  imports Scheduler_System "HOL-Library.Multiset"
begin

text \<open>
  The waiting queue of the scheduler of \<^verbatim>\<open>src/src/runtime/ai_resource_scheduler.rs\<close>: its bound, the order
  in which waiters are served, and that a waiter whose resources are free is served. Tickets wrap
  at \<open>2 ^ 64\<close>; the results on order are for systems that have issued fewer tickets than that.
\<close>

section \<open>The queue bound\<close>

lemma queued_count_simps [simp]:
  "queued_count_for_resource [] r = 0"
  "queued_count_for_resource (x # ws) r =
     (if in_mask (lw_resource_mask x) r then 1 else 0) + queued_count_for_resource ws r"
  "queued_count_for_resource (ws @ ws') r =
     queued_count_for_resource ws r + queued_count_for_resource ws' r"
  by (simp_all add: queued_count_for_resource_def)

lemma queued_count_remove_waiter:
  "queued_count_for_resource (remove_waiter ws t) r \<le> queued_count_for_resource ws r"
  by (induction ws t rule: remove_waiter.induct) auto

definition queue_inv :: "scheduler_config \<Rightarrow> sched_system \<Rightarrow> bool" where
  "queue_inv cfg sys \<longleftrightarrow> waiters_wf (ss_waiters (sy_state sys)) \<and>
     (\<forall>r. queued_count_for_resource (ss_waiters (sy_state sys)) r \<le> sc_queue_capacity cfg)"

lemma poll_waiters_eq:
  "ss_waiters (snd (acquire_poll clk w t d s)) =
     (if is_parked (fst (acquire_poll clk w t d s)) then ss_waiters s
      else remove_waiter (ss_waiters s) t)"
  by (simp add: acquire_poll_def split: option.split)

lemma poll_queue_bound:
  "queued_count_for_resource (ss_waiters s) r \<le> n \<Longrightarrow>
   queued_count_for_resource (ss_waiters (snd (acquire_poll clk w t d s))) r \<le> n"
  using queued_count_remove_waiter [of "ss_waiters s" t r] by (simp add: poll_waiters_eq)

lemma enter_queue_bound:
  assumes "queued_count_for_resource (ss_waiters s) r \<le> sc_queue_capacity cfg"
  shows "queued_count_for_resource (ss_waiters (snd (acquire_enter cfg clk w s))) r \<le> sc_queue_capacity cfg"
proof -
  have "queued_count_for_resource (ss_waiters s @ [new_waiter clk w (count_request w s)]) r
      \<le> sc_queue_capacity cfg" if "\<not> queue_is_full cfg w (ss_waiters s)"
    using assms that by (auto simp: queue_is_full_def list_ex_iff new_waiter_def)
  then show ?thesis
    using assms by (auto simp: acquire_enter_unfold Let_def intro: poll_queue_bound)
qed

lemma queue_inv_step: "queue_inv cfg sys \<Longrightarrow> sched_step cfg sys sys' \<Longrightarrow> queue_inv cfg sys'"
  by (erule sched_step_cases)
    (simp_all add: queue_inv_def sys_enter_def sys_wake_def sys_drop_def sys_quarantine_def Let_def
       release_at quarantine_at enter_queue_bound poll_queue_bound)

interpretation queue: step_invariant "sched_step cfg" "queue_inv cfg"
  by unfold_locales (rule queue_inv_step)

lemma queue_inv_init: "queue_inv cfg system_init"
  by (simp add: queue_inv_def system_init_def scheduler_state_default_def waiters_wf_def)

lemma waiters_split_by_cluster:
  "waiters_wf ws \<Longrightarrow> length ws = queued_count_for_resource ws A100Cluster0
     + queued_count_for_resource ws A100Cluster1"
proof (induction ws)
  case (Cons x ws)
  then show ?case by (cases "lw_workload x") (auto simp: waiters_wf_def)
qed simp

lemma bounded_env_le: "dflt \<le> hi \<Longrightarrow> lo \<le> hi \<Longrightarrow> bounded_env env name dflt lo hi \<le> hi"
  by (auto simp: bounded_env_def clamp_def unwrap_or_def split: option.splits)

text \<open>
  The waiting queue is bounded whatever the environment variables say. A scheduler configured
  from the environment has a queue capacity between 1 and 64 and a wait limit of at most five
  minutes, and in every reachable state each resource has at most that capacity of queued requests
  and the whole queue at most twice as many.
\<close>

theorem queue_is_bounded:
  fixes env
  defines "cfg \<equiv> from_environment env"
  assumes "sched_reachable cfg sys"
  shows "1 \<le> sc_queue_capacity cfg \<and> sc_queue_capacity cfg \<le> 64 \<and> sc_wait_timeout_ms cfg \<le> 300000 \<and>
    queued_count_for_resource (ss_waiters (sy_state sys)) r \<le> sc_queue_capacity cfg \<and>
    length (ss_waiters (sy_state sys)) \<le> 2 * sc_queue_capacity cfg"
proof -
  have inv: "queue_inv cfg sys" using queue.inv_steps [OF assms(2) queue_inv_init] .
  then have "length (ss_waiters (sy_state sys)) \<le> sc_queue_capacity cfg + sc_queue_capacity cfg"
    unfolding queue_inv_def by (metis waiters_split_by_cluster add_mono)
  then show ?thesis
    using inv by (simp add: cfg_def from_environment_def scheduler_new_def clamp_def queue_inv_def
        MAX_LEASE_QUEUE_CAPACITY_def MAX_LEASE_WAIT_TIMEOUT_MS_def)
qed

definition env_small :: "string \<Rightarrow> string option" where
  "env_small name =
     (if name = ''HARBOR_AI_RESOURCE_LEASE_QUEUE_CAPACITY'' then Some '' 999 '' else None)"

theorem queue_is_bounded_witness:
  "queued_count_for_resource (ss_waiters (sy_state
     (sys_enter (from_environment env_small) (clock 1) Yolo system_init))) A100Cluster0
     \<le> sc_queue_capacity (from_environment env_small)
   \<and> sc_queue_capacity (from_environment env_small) = 64"
proof
  show "queued_count_for_resource (ss_waiters (sy_state
     (sys_enter (from_environment env_small) (clock 1) Yolo system_init))) A100Cluster0
     \<le> sc_queue_capacity (from_environment env_small)"
    using queue_is_bounded [OF steps_enter [OF rtranclp.rtrancl_refl]] by blast
  have "trim '' 999 '' = ''999''" "list_all is_ascii_digit ''999''" "read_nat ''999'' = 999"
    by code_simp+
  then show "sc_queue_capacity (from_environment env_small) = 64"
    by (simp add: from_environment_def scheduler_new_def bounded_env_def parse_unsigned_def
        env_small_def clamp_def MAX_LEASE_QUEUE_CAPACITY_def)
qed

section \<open>Tickets\<close>

abbreviation ticket_of :: "lease_waiter \<Rightarrow> u64 \<times> ai_workload" where
  "ticket_of x \<equiv> (lw_ticket x, lw_workload x)"

abbreviation parked_key :: "parked_thread \<Rightarrow> u64 \<times> ai_workload" where
  "parked_key p \<equiv> (pt_ticket p, pt_workload p)"

text \<open>The tickets in the queue are distinct, were issued in order, and belong to the parked threads.\<close>

definition tickets_ok :: "sched_system \<Rightarrow> bool" where
  "tickets_ok sys \<longleftrightarrow>
     ss_next_ticket (sy_state sys) = of_nat (sy_tickets sys) \<and>
     distinct (map lw_ticket (ss_waiters (sy_state sys))) \<and>
     (\<forall>x \<in> set (ss_waiters (sy_state sys)). lw_ticket x \<le> ss_next_ticket (sy_state sys)) \<and>
     mset (map ticket_of (ss_waiters (sy_state sys))) = mset (map parked_key (sy_parked sys))"

definition ticket_inv :: "sched_system \<Rightarrow> bool" where
  "ticket_inv sys \<longleftrightarrow> (sy_tickets sys < 2 ^ 64 \<longrightarrow> tickets_ok sys)"

lemma next_id_of_nat:
  assumes "Suc n < 2 ^ 64"
  shows "next_id (of_nat n) = of_nat (Suc n) \<and> (of_nat n :: u64) < of_nat (Suc n)"
proof -
  have u: "unat (of_nat (Suc n) :: u64) = Suc n" "unat (of_nat n :: u64) = n"
    using assms by (simp_all add: unat_of_nat take_bit_nat_eq_self del: of_nat_Suc)
  then have "(1 :: u64) \<le> of_nat (Suc n)" "(of_nat n :: u64) < of_nat (Suc n)"
    unfolding word_le_nat_alt word_less_nat_alt by simp_all
  moreover have "(of_nat n :: u64) + 1 = of_nat (Suc n)" by simp
  ultimately show ?thesis unfolding next_id_def by (metis max.absorb1)
qed

lemma next_id_neq: "next_id n \<noteq> n"
  by (auto simp: next_id_def max_def) (simp add: word_le_nat_alt)

lemma remove_waiter_absent: "t \<notin> lw_ticket ` set ws \<Longrightarrow> remove_waiter ws t = ws"
  by (induction ws t rule: remove_waiter.induct) auto

lemma remove_waiter_append_fresh:
  "t \<notin> lw_ticket ` set ws \<Longrightarrow> lw_ticket x = t \<Longrightarrow> remove_waiter (ws @ [x]) t = ws"
  by (induction ws t rule: remove_waiter.induct) auto

lemma remove_waiter_mset:
  "distinct (map lw_ticket ws) \<Longrightarrow> (t, w) \<in> ticket_of ` set ws \<Longrightarrow>
   mset (map ticket_of ws) = add_mset (t, w) (mset (map ticket_of (remove_waiter ws t)))"
  by (induction ws t rule: remove_waiter.induct) (auto simp: rev_image_eqI)

lemma distinct_remove_waiter:
  "distinct (map lw_ticket ws) \<Longrightarrow> distinct (map lw_ticket (remove_waiter ws t))"
proof (induction ws t rule: remove_waiter.induct)
  case (2 x xs t)
  then show ?case using set_remove_waiter [of xs t] by auto
qed simp

lemma place_tickets [simp]: "sy_tickets (place w res sys) = sy_tickets sys"
  by (simp add: place_def split: acquire_outcome.split)

lemma place_parked:
  "sy_parked (place w res sys) = (case fst res of
     Parked t d \<Rightarrow> \<lparr>pt_ticket = t, pt_workload = w, pt_deadline = d\<rparr> # sy_parked sys | _ \<Rightarrow> sy_parked sys)"
  by (simp add: place_def split: acquire_outcome.split)

lemma poll_parked: "fst (acquire_poll clk w t d s) = Parked t' d' \<Longrightarrow> t' = t \<and> d' = d \<and> snd (acquire_poll clk w t d s) = s"
  by (auto simp: acquire_poll_def split: option.splits if_splits)

lemma poll_next_ticket [simp]: "ss_next_ticket (snd (acquire_poll clk w t d s)) = ss_next_ticket s"
  by (simp add: acquire_poll_def split: option.split)

text \<open>A request that does not queue leaves the queue alone; one that queues polls at once.\<close>

lemma enter_cases:
  obtains (direct) "\<not> is_parked (fst (acquire_enter cfg clk w s))"
      "ss_waiters (snd (acquire_enter cfg clk w s)) = ss_waiters s"
      "ss_next_ticket (snd (acquire_enter cfg clk w s)) = ss_next_ticket s"
    | (queued) d where "acquire_enter cfg clk w s =
      acquire_poll clk w (next_id (ss_next_ticket s)) d (enqueue clk w (count_request w s))"
proof -
  consider "\<not> required_resources_are_quarantined (count_request w s) w \<and>
      \<not> can_grant_new_request (count_request w s) w \<and> \<not> queue_is_full cfg w (ss_waiters s)"
    | "required_resources_are_quarantined (count_request w s) w \<or>
      can_grant_new_request (count_request w s) w \<or> queue_is_full cfg w (ss_waiters s)"
    by blast
  then show thesis
  proof cases
    case 1
    then show ?thesis by (intro queued) (simp add: acquire_enter_unfold Let_def)
  next
    case 2
    then show ?thesis by (intro direct) (auto simp: acquire_enter_unfold Let_def)
  qed
qed

lemma ticket_inv_enter:
  assumes "ticket_inv sys" shows "ticket_inv (sys_enter cfg clk w sys)"
proof (cases rule: enter_cases [of cfg clk w "sy_state sys"])
  case direct
  then show ?thesis using assms
    by (auto simp: ticket_inv_def tickets_ok_def sys_enter_def Let_def place_parked split: acquire_outcome.split)
next
  case (queued d)
  let ?s = "sy_state sys" and ?n = "sy_tickets sys"
  let ?t = "next_id (ss_next_ticket ?s)" and ?x = "new_waiter clk w (count_request w ?s)"
  let ?out = "fst (acquire_enter cfg clk w ?s)"
  show ?thesis unfolding ticket_inv_def
  proof
    assume "sy_tickets (sys_enter cfg clk w sys) < 2 ^ 64"
    then have lt: "Suc ?n < 2 ^ 64"
      by (simp add: sys_enter_def Let_def queued next_id_neq)
    then have old: "tickets_ok sys" using assms by (simp add: ticket_inv_def)
    then have t: "?t = of_nat (Suc ?n)" "ss_next_ticket ?s < ?t"
      using next_id_of_nat [OF lt] by (simp_all add: tickets_ok_def)
    then have fresh: "?t \<notin> lw_ticket ` set (ss_waiters ?s)"
      using old by (auto simp: tickets_ok_def)
    have ws: "ss_waiters (snd (acquire_enter cfg clk w ?s)) =
        (if is_parked ?out then ss_waiters ?s @ [?x] else ss_waiters ?s)"
      using fresh by (simp add: queued poll_waiters_eq remove_waiter_append_fresh new_waiter_def)
    have parked: "sy_parked (sys_enter cfg clk w sys) =
        (if is_parked ?out then \<lparr>pt_ticket = ?t, pt_workload = w, pt_deadline = d\<rparr> # sy_parked sys
         else sy_parked sys)"
      using queued by (auto simp: sys_enter_def Let_def place_parked split: acquire_outcome.split dest: poll_parked)
    show "tickets_ok (sys_enter cfg clk w sys)"
      using old t fresh parked ws
      by (auto simp: tickets_ok_def sys_enter_def Let_def queued next_id_neq new_waiter_def
          intro: order.strict_implies_order order_trans)
  qed
qed

lemma mset_map_remove1:
  "x \<in> set xs \<Longrightarrow> mset (map f xs) = add_mset (f x) (mset (map f (remove1 x xs)))"
  by (induction xs) (auto simp: add_mset_commute)

lemma ticket_inv_wake:
  assumes inv: "ticket_inv sys" and p: "p \<in> set (sy_parked sys)"
  shows "ticket_inv (sys_wake clk p sys)"
  unfolding ticket_inv_def
proof
  let ?s = "sy_state sys"
  let ?res = "acquire_poll clk (pt_workload p) (pt_ticket p) (pt_deadline p) ?s"
  assume "sy_tickets (sys_wake clk p sys) < 2 ^ 64"
  then have old: "tickets_ok sys" using inv by (simp add: ticket_inv_def sys_wake_def)
  then have "parked_key p \<in># mset (map ticket_of (ss_waiters ?s))"
    using p by (auto simp: tickets_ok_def)
  then have removed: "mset (map ticket_of (ss_waiters ?s)) =
      add_mset (parked_key p) (mset (map ticket_of (remove_waiter (ss_waiters ?s) (pt_ticket p))))"
    using old by (intro remove_waiter_mset) (auto simp: tickets_ok_def)
  have rest: "mset (map parked_key (sy_parked sys)) =
      add_mset (parked_key p) (mset (map parked_key (remove1 p (sy_parked sys))))"
    using p by (rule mset_map_remove1)
  show "tickets_ok (sys_wake clk p sys)"
  proof (cases "is_parked (fst ?res)")
    case True
    then obtain t d where pk: "fst ?res = Parked t d" by (cases "fst ?res") auto
    note same = poll_parked [OF pk]
    then show ?thesis using old rest pk
      by (auto simp: tickets_ok_def sys_wake_def place_parked)
  next
    case False
    then have "sy_parked (sys_wake clk p sys) = remove1 p (sy_parked sys)"
      by (auto simp: sys_wake_def place_parked split: acquire_outcome.split)
    moreover have "ss_waiters (sy_state (sys_wake clk p sys)) = remove_waiter (ss_waiters ?s) (pt_ticket p)"
      using False by (simp add: sys_wake_def poll_waiters_eq)
    ultimately show ?thesis
      using old removed rest set_remove_waiter [of "ss_waiters ?s" "pt_ticket p"]
      by (auto simp: tickets_ok_def distinct_remove_waiter sys_wake_def)
  qed
qed

lemma ticket_inv_step: "ticket_inv sys \<Longrightarrow> sched_step cfg sys sys' \<Longrightarrow> ticket_inv sys'"
  by (erule sched_step_cases)
    (simp_all add: ticket_inv_enter ticket_inv_wake, auto simp: ticket_inv_def tickets_ok_def
       sys_drop_def sys_quarantine_def release_at quarantine_at)

interpretation tickets: step_invariant "sched_step cfg" ticket_inv
  by unfold_locales (rule ticket_inv_step)

lemma ticket_inv_init: "ticket_inv system_init"
  by (simp add: ticket_inv_def tickets_ok_def system_init_def scheduler_state_default_def)

lemma reachable_facts:
  assumes "sched_reachable cfg sys"
  shows "lease_inv sys" "queue_inv cfg sys" "waiters_wf (ss_waiters (sy_state sys))"
    "sy_tickets sys < 2 ^ 64 \<Longrightarrow> tickets_ok sys"
  using lease.inv_steps [OF assms lease_inv_init] queue.inv_steps [OF assms queue_inv_init]
    tickets.inv_steps [OF assms ticket_inv_init]
  by (auto simp: queue_inv_def ticket_inv_def)

section \<open>Service order\<close>

text \<open>What a waiter needs to be served, in terms of its workload.\<close>

definition rank :: "lease_waiter \<Rightarrow> u8 \<times> u64" where
  "rank x = (workload_priority (lw_workload x), lw_ticket x)"

definition can_run :: "scheduler_state \<Rightarrow> ai_workload \<Rightarrow> bool" where
  "can_run s w = list_all (\<lambda>r. hol s r = None \<and> quar s r = None) (required_resources w)"

lemma free_eq_can_run: "resources_are_free s (resource_mask w) = can_run s w"
  by (simp add: resources_are_free_def can_run_def)

lemma find_ticket:
  "distinct (map lw_ticket ws) \<Longrightarrow> x \<in> set ws \<Longrightarrow> find (\<lambda>y. lw_ticket y = lw_ticket x) ws = Some x"
  by (induction ws) (auto simp: rev_image_eqI)

lemma grantable_iff:
  assumes "waiters_wf (ss_waiters s)" "distinct (map lw_ticket (ss_waiters s))" "x \<in> set (ss_waiters s)"
  shows "waiter_can_be_granted s (lw_ticket x) \<longleftrightarrow> can_run s (lw_workload x) \<and>
    (\<forall>y \<in> set (ss_waiters s). workload_cluster (lw_workload y) = workload_cluster (lw_workload x) \<and>
       can_run s (lw_workload y) \<longrightarrow> rank x \<le> rank y)"
proof -
  have f: "find (\<lambda>y. lw_ticket y = lw_ticket x) (ss_waiters s) = Some x"
    using assms(2,3) by (rule find_ticket)
  have wf: "y \<in> set (ss_waiters s) \<Longrightarrow> lw_resource_mask y = resource_mask (lw_workload y) \<and>
      lw_priority y = workload_priority (lw_workload y)" for y
    using assms(1) by (simp add: waiters_wf_def list_all_iff)
  have eq: "y \<in> set (ss_waiters s) \<Longrightarrow> lw_ticket y = lw_ticket x \<Longrightarrow> y = x" for y
    using assms(2,3) by (metis distinct_map inj_onD)
  show ?thesis
    unfolding waiter_can_be_granted_def f
    using assms(3) wf eq
    by (auto simp: list_ex_iff free_eq_can_run rank_def not_less)
qed

lemma can_run_not_quarantined: "can_run s w \<Longrightarrow> \<not> required_resources_are_quarantined s w"
  by (auto simp: can_run_def required_resources_are_quarantined_def list_all_iff list_ex_iff)

lemma poll_granted_iff:
  "is_granted (fst (acquire_poll clk w t d s)) \<longleftrightarrow>
     \<not> required_resources_are_quarantined s w \<and> waiter_can_be_granted s t"
  by (auto simp: acquire_poll_def waiter_can_be_granted_def split: option.splits)

lemma parked_waiter:
  assumes "tickets_ok sys" "p \<in> set (sy_parked sys)"
  obtains x where "x \<in> set (ss_waiters (sy_state sys))" "lw_ticket x = pt_ticket p"
    "lw_workload x = pt_workload p"
proof -
  have "parked_key p \<in># mset (map ticket_of (ss_waiters (sy_state sys)))"
    using assms by (auto simp: tickets_ok_def)
  then show thesis using that by auto
qed

lemma waiter_parked:
  assumes "tickets_ok sys" "x \<in> set (ss_waiters (sy_state sys))"
  obtains p where "p \<in> set (sy_parked sys)" "pt_ticket p = lw_ticket x" "pt_workload p = lw_workload x"
proof -
  have "ticket_of x \<in># mset (map parked_key (sy_parked sys))"
  proof -
    have "mset (map ticket_of (ss_waiters (sy_state sys))) = mset (map parked_key (sy_parked sys))"
      using assms(1) by (simp add: tickets_ok_def)
    moreover have "ticket_of x \<in># mset (map ticket_of (ss_waiters (sy_state sys)))"
      using assms(2) by simp
    ultimately show ?thesis by (simp only:)
  qed
  then show thesis using that by auto
qed

text \<open>The parked thread \<open>p\<close> is served when it next looks at the state.\<close>

definition served :: "sched_system \<Rightarrow> parked_thread \<Rightarrow> bool" where
  "served sys p \<longleftrightarrow> \<not> required_resources_are_quarantined (sy_state sys) (pt_workload p) \<and>
     waiter_can_be_granted (sy_state sys) (pt_ticket p)"

definition parked_rank :: "parked_thread \<Rightarrow> u8 \<times> u64" where
  "parked_rank p = (workload_priority (pt_workload p), pt_ticket p)"

lemma served_iff:
  assumes wf: "waiters_wf (ss_waiters (sy_state sys))" and ok: "tickets_ok sys"
    and p: "p \<in> set (sy_parked sys)"
  shows "served sys p \<longleftrightarrow> can_run (sy_state sys) (pt_workload p) \<and>
    (\<forall>q \<in> set (sy_parked sys). workload_cluster (pt_workload q) = workload_cluster (pt_workload p) \<and>
       can_run (sy_state sys) (pt_workload q) \<longrightarrow> parked_rank p \<le> parked_rank q)"
proof -
  let ?s = "sy_state sys"
  obtain x where x: "x \<in> set (ss_waiters ?s)" "lw_ticket x = pt_ticket p" "lw_workload x = pt_workload p"
    using parked_waiter [OF ok p] .
  have "waiter_can_be_granted ?s (pt_ticket p) \<longleftrightarrow> can_run ?s (pt_workload p) \<and>
    (\<forall>y \<in> set (ss_waiters ?s). workload_cluster (lw_workload y) = workload_cluster (pt_workload p) \<and>
       can_run ?s (lw_workload y) \<longrightarrow> parked_rank p \<le> rank y)"
    using grantable_iff [OF wf _ x(1)] ok x by (simp add: tickets_ok_def rank_def parked_rank_def)
  moreover have "(\<forall>y \<in> set (ss_waiters ?s). P (lw_workload y) (rank y)) \<longleftrightarrow>
      (\<forall>q \<in> set (sy_parked sys). P (pt_workload q) (parked_rank q))" for P
    unfolding rank_def parked_rank_def by (metis parked_waiter [OF ok] waiter_parked [OF ok])
  from this [of "\<lambda>w k. workload_cluster w = workload_cluster (pt_workload p) \<and> can_run ?s w \<longrightarrow>
      parked_rank p \<le> k"]
  have "(\<forall>y \<in> set (ss_waiters ?s). workload_cluster (lw_workload y) = workload_cluster (pt_workload p) \<and>
       can_run ?s (lw_workload y) \<longrightarrow> parked_rank p \<le> rank y) \<longleftrightarrow>
      (\<forall>q \<in> set (sy_parked sys). workload_cluster (pt_workload q) = workload_cluster (pt_workload p) \<and>
       can_run ?s (pt_workload q) \<longrightarrow> parked_rank p \<le> parked_rank q)" .
  ultimately show ?thesis
    unfolding served_def using can_run_not_quarantined [of ?s "pt_workload p"] by argo
qed

text \<open>
  Service is by priority, then in order of arrival. In a reachable state that has issued fewer
  than \<open>2 ^ 64\<close> tickets, a parked thread that looks at the state takes its lease exactly when all
  the resources of its workload are free and not quarantined and no other parked thread of the same
  cluster that could also run has a smaller (priority, ticket) pair.
\<close>

theorem waiters_served_in_rank_order:
  assumes "sched_reachable cfg sys" "sy_tickets sys < 2 ^ 64" "p \<in> set (sy_parked sys)"
  shows "is_granted (fst (acquire_poll clk (pt_workload p) (pt_ticket p) (pt_deadline p) (sy_state sys))) \<longleftrightarrow>
    can_run (sy_state sys) (pt_workload p) \<and>
    (\<forall>q \<in> set (sy_parked sys). workload_cluster (pt_workload q) = workload_cluster (pt_workload p) \<and>
       can_run (sy_state sys) (pt_workload q) \<longrightarrow>
       (workload_priority (pt_workload p), pt_ticket p) \<le> (workload_priority (pt_workload q), pt_ticket q))"
  using served_iff [OF reachable_facts(3) [OF assms(1)] reachable_facts(4) [OF assms(1,2)] assms(3)]
  unfolding poll_granted_iff served_def parked_rank_def .

text \<open>
  C36. Progress. In a reachable state with fewer than \<open>2 ^ 64\<close> tickets issued, if the resources of
  some parked thread are all free, then some thread parked for the same cluster is granted its lease
  as soon as it looks at the state, whatever the clock says: a free resource is never withheld.
\<close>

theorem free_resources_are_granted:
  assumes "sched_reachable cfg sys" "sy_tickets sys < 2 ^ 64" "p \<in> set (sy_parked sys)"
    "can_run (sy_state sys) (pt_workload p)"
  shows "\<exists>q \<in> set (sy_parked sys). workload_cluster (pt_workload q) = workload_cluster (pt_workload p) \<and>
    (\<forall>clk. is_granted (fst (acquire_poll clk (pt_workload q) (pt_ticket q) (pt_deadline q) (sy_state sys))))"
proof -
  let ?Q = "{q \<in> set (sy_parked sys). workload_cluster (pt_workload q) = workload_cluster (pt_workload p) \<and>
     can_run (sy_state sys) (pt_workload q)}"
  have "finite (parked_rank ` ?Q)" "parked_rank ` ?Q \<noteq> {}" using assms(3,4) by auto
  then have "Min (parked_rank ` ?Q) \<in> parked_rank ` ?Q" "\<And>q. q \<in> ?Q \<Longrightarrow> Min (parked_rank ` ?Q) \<le> parked_rank q"
    by simp_all
  then obtain q where q: "q \<in> ?Q" "\<And>q'. q' \<in> ?Q \<Longrightarrow> parked_rank q \<le> parked_rank q'"
    by fastforce
  then have "served sys q"
    using served_iff [OF reachable_facts(3) [OF assms(1)] reachable_facts(4) [OF assms(1,2)], of q] by auto
  then show ?thesis using q by (auto simp: poll_granted_iff served_def intro!: bexI [of _ q])
qed

text \<open>The run continues: the cat verifier drops its lease while the VLM request is parked.\<close>

definition run_freed :: sched_system where
  "run_freed = sys_drop \<lparr>al_resource_mask = 10, al_workload = CatRecordingVerifier, al_lease_id = 2\<rparr> run_busy"

lemma run_freed_reachable: "sched_reachable run_config run_freed"
  unfolding run_freed_def
  by (rule rtranclp.intros(2) [OF run_busy_reachable]) (simp add: step_drop run_busy_leases)

definition run_parked :: parked_thread where
  "run_parked = \<lparr>pt_ticket = 1, pt_workload = Vlm, pt_deadline = 53\<rparr>"

lemma run_freed_facts:
  "sy_parked run_freed = [run_parked]" "sy_tickets run_freed = 1" "can_run (sy_state run_freed) Vlm"
  by (simp_all add: run_freed_def run_busy_def run_config_def run_parked_def sched_run_defs Let_def
      resources_in_mask_def ALL_RESOURCES_def release_def can_run_def)

theorem waiters_served_in_rank_order_witness:
  "is_granted (fst (acquire_poll (clock 9) Vlm 1 53 (sy_state run_freed)))"
  using waiters_served_in_rank_order [OF run_freed_reachable, of run_parked "clock 9"]
  by (simp add: run_freed_facts) (simp add: run_parked_def run_freed_facts)

theorem free_resources_are_granted_witness:
  "\<exists>q \<in> set (sy_parked run_freed). \<forall>clk.
     is_granted (fst (acquire_poll clk (pt_workload q) (pt_ticket q) (pt_deadline q) (sy_state run_freed)))"
proof -
  have "pt_workload run_parked = Vlm" by (simp add: run_parked_def)
  then show ?thesis
    using free_resources_are_granted [OF run_freed_reachable, of run_parked] by (auto simp: run_freed_facts)
qed

section \<open>Wake-ups\<close>

lemma effect_can_run:
  assumes eff: "lease_effect s out s'" and q: "can_run s' w"
  shows "can_run s w"
    and "can_run s v \<Longrightarrow> workload_cluster v = workload_cluster w \<Longrightarrow> can_run s' v"
    and "out = Granted l \<Longrightarrow> al_resource_mask l = resource_mask v \<Longrightarrow> workload_cluster v \<noteq> workload_cluster w"
proof -
  have apart: "workload_cluster v \<noteq> workload_cluster w"
    if "out = Granted l" "al_resource_mask l = resource_mask v" for l v
  proof
    assume "workload_cluster v = workload_cluster w"
    then have "from_cluster (workload_cluster w) \<in> set (required_resources v)"
      by (metis cluster_resource_required)
    then have "hol s' (from_cluster (workload_cluster w)) \<noteq> None"
      using eff that by (auto split: if_splits)
    then show False using q by (auto simp: can_run_def list_all_iff)
  qed
  then show "out = Granted l \<Longrightarrow> al_resource_mask l = resource_mask v \<Longrightarrow>
      workload_cluster v \<noteq> workload_cluster w" .
  show "can_run s w"
    using eff q by (cases out) (auto simp: can_run_def list_all_iff resources_are_free_iff split: if_splits)
  show "can_run s v \<Longrightarrow> workload_cluster v = workload_cluster w \<Longrightarrow> can_run s' v"
  proof (cases out)
    case (Granted l)
    then obtain u where u: "al_resource_mask l = resource_mask u" using eff by auto
    assume "can_run s v" "workload_cluster v = workload_cluster w"
    moreover from this have "set (required_resources u) \<inter> set (required_resources v) = {}"
      using apart [OF Granted u] by (cases u; cases v; cases w) simp_all
    then have "r \<in> set (required_resources v) \<Longrightarrow> hol s' r = hol s r \<and> quar s' r = quar s r" for r
      using eff Granted u by (auto split: if_splits)
    ultimately show ?thesis by (simp add: can_run_def list_all_iff)
  qed (use eff in \<open>auto simp: can_run_def list_all_iff\<close>)
qed

lemma poll_granted_mask:
  assumes "waiters_wf (ss_waiters (sy_state sys))" "tickets_ok sys" "p \<in> set (sy_parked sys)"
    "fst (acquire_poll clk (pt_workload p) (pt_ticket p) d (sy_state sys)) = Granted l"
  shows "al_resource_mask l = resource_mask (pt_workload p)"
proof -
  obtain x where x: "x \<in> set (ss_waiters (sy_state sys))" "lw_ticket x = pt_ticket p"
      "lw_workload x = pt_workload p"
    using parked_waiter [OF assms(2,3)] .
  moreover have "find (\<lambda>y. lw_ticket y = pt_ticket p) (ss_waiters (sy_state sys)) = Some x"
    using find_ticket [OF _ x(1)] assms(2) x(2) by (simp add: tickets_ok_def)
  ultimately show ?thesis
    using assms(1,4) by (auto simp: acquire_poll_def waiters_wf_def list_all_iff split: if_splits)
qed

text \<open>The critical sections that end without \<^verbatim>\<open>notify_all\<close>: entering, and a wake-up that grants or parks again.\<close>

definition silent_step :: "scheduler_config \<Rightarrow> sched_system \<Rightarrow> sched_system \<Rightarrow> bool" where
  "silent_step cfg sys sys' \<longleftrightarrow>
     (\<exists>clk w. sys' = sys_enter cfg clk w sys) \<or>
     (\<exists>clk p. p \<in> set (sy_parked sys) \<and> sys' = sys_wake clk p sys \<and>
        (let out = fst (acquire_poll clk (pt_workload p) (pt_ticket p) (pt_deadline p) (sy_state sys))
         in is_granted out \<or> is_parked out))"

lemma silent_step_is_step: "silent_step cfg sys sys' \<Longrightarrow> sched_step cfg sys sys'"
  by (auto simp: silent_step_def intro: step_enter step_wake)

lemma served_before:
  assumes facts: "waiters_wf (ss_waiters (sy_state sys))" "tickets_ok sys"
      "waiters_wf (ss_waiters (sy_state sys'))" "tickets_ok sys'"
    and eff: "lease_effect (sy_state sys) out (sy_state sys')"
    and q: "q \<in> set (sy_parked sys)" "q \<in> set (sy_parked sys')" "served sys' q"
    and kept: "\<And>p. p \<in> set (sy_parked sys) \<Longrightarrow> workload_cluster (pt_workload p) = workload_cluster (pt_workload q)
      \<Longrightarrow> p \<in> set (sy_parked sys')"
  shows "served sys q"
proof -
  have run: "can_run (sy_state sys') (pt_workload q)"
    and best: "\<And>p. p \<in> set (sy_parked sys') \<Longrightarrow> workload_cluster (pt_workload p) = workload_cluster (pt_workload q)
      \<Longrightarrow> can_run (sy_state sys') (pt_workload p) \<Longrightarrow> parked_rank q \<le> parked_rank p"
    using q(3) served_iff [OF facts(3,4) q(2)] by auto
  show ?thesis
    using served_iff [OF facts(1,2) q(1)] effect_can_run(1,2) [OF eff run] best kept by blast
qed

lemma silent_wake:
  assumes facts: "waiters_wf (ss_waiters (sy_state sys))" "tickets_ok sys"
      "waiters_wf (ss_waiters (sy_state (sys_wake clk p sys)))" "tickets_ok (sys_wake clk p sys)"
    and p: "p \<in> set (sy_parked sys)"
    and out: "fst (acquire_poll clk (pt_workload p) (pt_ticket p) (pt_deadline p) (sy_state sys)) = out"
      "is_granted out \<or> is_parked out"
    and q: "q \<in> set (sy_parked (sys_wake clk p sys))" "served (sys_wake clk p sys) q"
  shows "q \<in> set (sy_parked sys) \<and> served sys q"
proof (cases out)
  case (Granted l)
  let ?sys = "sys_wake clk p sys"
  have eff: "lease_effect (sy_state sys) (Granted l) (sy_state ?sys)"
    using poll_effect [OF facts(1)] out(1) Granted by (metis place_state sys_wake_def)
  have parked: "sy_parked ?sys = remove1 p (sy_parked sys)"
    using out(1) Granted by (simp add: sys_wake_def place_parked)
  have "can_run (sy_state ?sys) (pt_workload q)"
    using q served_iff [OF facts(3,4) q(1)] by simp
  then have "workload_cluster (pt_workload p) \<noteq> workload_cluster (pt_workload q)"
    using effect_can_run(3) [OF eff] poll_granted_mask [OF facts(1,2) p] out(1) Granted by metis
  then have "p' \<in> set (sy_parked ?sys)"
    if "p' \<in> set (sy_parked sys)" "workload_cluster (pt_workload p') = workload_cluster (pt_workload q)" for p'
    using that parked by (metis in_set_remove1)
  moreover have "q \<in> set (sy_parked sys)" using q(1) parked set_remove1_subset by fastforce
  ultimately show ?thesis using served_before [OF facts eff _ q] by blast
next
  case (Parked t d)
  then have "sy_parked (sys_wake clk p sys) = p # remove1 p (sy_parked sys)"
      "sy_state (sys_wake clk p sys) = sy_state sys"
    using poll_parked [of clk "pt_workload p" "pt_ticket p" "pt_deadline p" "sy_state sys" t d] out(1)
    by (simp_all add: sys_wake_def place_parked)
  then show ?thesis using p q set_remove1_subset [of p "sy_parked sys"] by (auto simp: served_def)
qed (use out in auto)

lemma silent_enter:
  assumes facts: "waiters_wf (ss_waiters (sy_state sys))" "tickets_ok sys"
      "waiters_wf (ss_waiters (sy_state (sys_enter cfg clk w sys)))" "tickets_ok (sys_enter cfg clk w sys)"
    and q: "q \<in> set (sy_parked (sys_enter cfg clk w sys))" "served (sys_enter cfg clk w sys) q"
  shows "q \<in> set (sy_parked sys) \<and> served sys q"
proof -
  let ?sys = "sys_enter cfg clk w sys" and ?res = "acquire_enter cfg clk w (sy_state sys)"
  have eff: "lease_effect (sy_state sys) (fst ?res) (sy_state ?sys)"
    using enter_effect [OF facts(1)] by (simp add: sys_enter_def Let_def)
  have "q \<in> set (sy_parked sys)"
  proof (rule ccontr)
    assume new: "q \<notin> set (sy_parked sys)"
    then obtain t d where pk: "fst ?res = Parked t d"
        "q = \<lparr>pt_ticket = t, pt_workload = w, pt_deadline = d\<rparr>"
      using q(1) by (auto simp: sys_enter_def Let_def place_parked split: acquire_outcome.splits)
    show False
    proof (cases rule: enter_cases [of cfg clk w "sy_state sys"])
      case (queued d')
      let ?e = "enqueue clk w (count_request w (sy_state sys))"
      have "fst (acquire_poll clk w (next_id (ss_next_ticket (sy_state sys))) d' ?e) = Parked t d"
        using pk(1) queued by simp
      from poll_parked [OF this] have "\<not> is_granted (fst (acquire_poll clk w t d' ?e))" "sy_state ?sys = ?e"
        using pk(1) queued by (auto simp: sys_enter_def Let_def)
      then show False using q(2) pk(2) by (simp add: poll_granted_iff served_def)
    qed (use pk in simp)
  qed
  moreover have "set (sy_parked sys) \<subseteq> set (sy_parked ?sys)"
    by (auto simp: sys_enter_def Let_def place_parked split: acquire_outcome.split)
  ultimately show ?thesis using served_before [OF facts eff _ q] by blast
qed

text \<open>
  No wake-up is lost. Threads sleep on the condition variable, and only refusals inside the waiting
  loop, releases and quarantines notify. The other critical sections (entering \<^verbatim>\<open>acquire\<close>, and a
  wake-up that takes its lease or goes back to sleep) never make a sleeping thread servable: a
  thread that could take its lease after such a section was asleep and servable before it.
\<close>

theorem no_lost_wakeup:
  assumes "sched_reachable cfg sys" "silent_step cfg sys sys'" "sy_tickets sys' < 2 ^ 64"
    and "q \<in> set (sy_parked sys')" "served sys' q"
  shows "q \<in> set (sy_parked sys) \<and> served sys q"
proof -
  have r': "sched_reachable cfg sys'"
    using assms(1) silent_step_is_step [OF assms(2)] by (rule rtranclp.rtrancl_into_rtrancl)
  have "sy_tickets sys \<le> sy_tickets sys'"
    using assms(2) by (auto simp: silent_step_def sys_enter_def sys_wake_def Let_def)
  then have t: "sy_tickets sys < 2 ^ 64" using assms(3) by linarith
  note facts = reachable_facts(3) [OF assms(1)] reachable_facts(4) [OF assms(1) t]
    reachable_facts(3) [OF r'] reachable_facts(4) [OF r' assms(3)]
  show ?thesis
    using assms(2) facts assms(4,5) silent_enter silent_wake unfolding silent_step_def Let_def by metis
qed

text \<open>In the run, a second vision request finds the queue full while the first waits for its wake-up.\<close>

lemma run_freed_state:
  "ss_waiters (sy_state run_freed) = [\<lparr>lw_ticket = 1, lw_workload = Vlm, lw_priority = 10, lw_resource_mask = 2, lw_enqueued_at = 3\<rparr>]"
  "hol (sy_state run_freed) A100Cluster1 = None" "quar (sy_state run_freed) A100Cluster1 = None"
  by (simp_all add: run_freed_def run_busy_def run_config_def sched_run_defs Let_def
      resources_in_mask_def ALL_RESOURCES_def release_def)

lemma run_entered_state:
  "ss_waiters (sy_state (sys_enter run_config (clock 10) Vlm run_freed)) = ss_waiters (sy_state run_freed)"
  "hol (sy_state (sys_enter run_config (clock 10) Vlm run_freed)) r = hol (sy_state run_freed) r"
  "quar (sy_state (sys_enter run_config (clock 10) Vlm run_freed)) r = quar (sy_state run_freed) r"
proof -
  have "acquire_enter run_config (clock 10) Vlm (sy_state run_freed) = (Rejected (lease_error QueueFull Vlm),
      upd_workload (\<lambda>m. m\<lparr>wm_queue_full_total := wm_queue_full_total m + 1\<rparr>) Vlm
        (fold (upd_metrics (\<lambda>m. m\<lparr>rm_queue_full_total := rm_queue_full_total m + 1\<rparr>)) (required_resources Vlm)
          (count_request Vlm (sy_state run_freed))))"
    by (simp add: acquire_enter_unfold count_request_def required_resources_are_quarantined_def run_freed_state
        can_grant_new_request_def resources_overlap_def resources_are_free_def resources_in_mask_def ALL_RESOURCES_def
        queue_is_full_def queued_count_for_resource_def run_config_def scheduler_new_def clamp_def
        MAX_LEASE_QUEUE_CAPACITY_def u64_max_def less_eq_prod_def)
  then show "ss_waiters (sy_state (sys_enter run_config (clock 10) Vlm run_freed)) = ss_waiters (sy_state run_freed)"
    "hol (sy_state (sys_enter run_config (clock 10) Vlm run_freed)) r = hol (sy_state run_freed) r"
    "quar (sy_state (sys_enter run_config (clock 10) Vlm run_freed)) r = quar (sy_state run_freed) r"
    by (simp_all add: sys_enter_def place_def count_request_def Let_def upd_metrics_def)
qed

lemma run_entered_served: "served (sys_enter run_config (clock 10) Vlm run_freed) run_parked"
  by (simp add: served_def run_parked_def required_resources_are_quarantined_def waiter_can_be_granted_def
      run_entered_state run_freed_state resources_are_free_def resources_in_mask_def ALL_RESOURCES_def)

theorem no_lost_wakeup_witness: "served run_freed run_parked"
proof -
  let ?sys = "sys_enter run_config (clock 10) Vlm run_freed"
  have "silent_step run_config run_freed ?sys" by (auto simp: silent_step_def)
  moreover have "sy_tickets ?sys \<le> 2" by (simp add: sys_enter_def Let_def run_freed_facts)
  moreover have "run_parked \<in> set (sy_parked ?sys)"
    by (simp add: sys_enter_def Let_def place_parked run_freed_facts split: acquire_outcome.split)
  ultimately show ?thesis
    using no_lost_wakeup [OF run_freed_reachable _ _ _ run_entered_served] by simp
qed

text \<open>
  Waiting is bounded. A thread that looks at the state at or after its deadline leaves the queue
  (with a lease, or refused for a quarantine or a time-out), its waiter record is removed, and the
  deadline a request parks with is its own clock reading plus the configured limit.
\<close>

theorem wait_ends_at_deadline:
  "(d \<le> rd_check clk \<longrightarrow> \<not> is_parked (fst (acquire_poll clk w t d s)) \<and>
      ss_waiters (snd (acquire_poll clk w t d s)) = remove_waiter (ss_waiters s) t) \<and>
   (fst (acquire_enter cfg clk w s) = Parked t' d' \<longrightarrow>
      d' = rd_deadline_base clk + sc_wait_timeout_ms cfg \<and> rd_check clk < d')"
proof -
  have *: "fst (acquire_poll clk w t d s) = Parked t' d' \<Longrightarrow> d' = d \<and> rd_check clk < d" for t d s
    by (auto simp: acquire_poll_def waiter_can_be_granted_def split: option.splits if_splits)
  then have "d \<le> rd_check clk \<Longrightarrow> \<not> is_parked (fst (acquire_poll clk w t d s))"
    by (auto simp: acquire_poll_def waiter_can_be_granted_def split: option.splits)
  then show ?thesis
    using * by (auto simp: poll_waiters_eq acquire_enter_unfold Let_def split: if_splits)
qed

theorem wait_ends_at_deadline_witness:
  "\<not> is_parked (fst (acquire_poll (clock 60) Vlm 1 53 (sy_state run_busy)))"
  using wait_ends_at_deadline [of 53 "clock 60" Vlm 1 "sy_state run_busy"] by (simp add: clock_def)

end
