(* ===== verification/Access.thy ===== *)
theory Access
  imports Harbor_Prelude
begin

text \<open>
  Permission bindings (\<^verbatim>\<open>src/src/control_plane/access.rs\<close>), users and memberships
  (\<^verbatim>\<open>src/src/control_plane/users.rs\<close>, \<^verbatim>\<open>auth.rs\<close>), the access decision of \<^verbatim>\<open>src/src/runtime/access_control.rs\<close>
  and the default permission table of \<^verbatim>\<open>src/src/runtime/admin_console.rs\<close>. The messages of the error paths
  are in Chinese; the model keeps the cause and its data as a value of \<open>access_error\<close>.
\<close>

section \<open>Permission bindings\<close>

datatype scope_kind = ScopePlatform | ScopeWorkspace | ScopeRoom | ScopeResource

datatype permission_effect = Allow | Deny

record permission_binding =
  pb_permission_binding_id :: string
  pb_workspace_id :: string
  pb_role_kind :: string
  pb_scope_kind :: scope_kind
  pb_resource_pattern :: string
  pb_action_pattern :: string
  pb_effect :: permission_effect
  pb_constraints :: json

definition normalize_token :: "string \<Rightarrow> string" where
  "normalize_token v =
     replace_char (replace_char (to_lowercase (trim v)) (CHR ''-'') ''_'') (CHR '' '') ''_''"

definition pattern_matches :: "string \<Rightarrow> string \<Rightarrow> bool" where
  "pattern_matches pattern v =
     (let p = normalize_token pattern in
      if p = [] \<or> p = ''*'' then True
      else case strip_suffix_char p (CHR ''*'') of
             Some pre \<Rightarrow> starts_with v pre
           | None \<Rightarrow> p = v)"

definition binding_applies :: "string \<Rightarrow> string \<Rightarrow> string \<Rightarrow> string \<Rightarrow> permission_binding \<Rightarrow> bool" where
  "binding_applies workspace_id role_kind resource act b \<longleftrightarrow>
     normalize_token (pb_workspace_id b) = workspace_id \<and>
     normalize_token (pb_role_kind b) = role_kind \<and>
     pattern_matches (pb_resource_pattern b) resource \<and>
     pattern_matches (pb_action_pattern b) act"

fun scan_effects :: "permission_effect list \<Rightarrow> bool \<Rightarrow> bool" where
  "scan_effects [] allowed = allowed"
| "scan_effects (Allow # es) allowed = scan_effects es True"
| "scan_effects (Deny # es) allowed = False"

definition action_allowed ::
  "permission_binding list \<Rightarrow> string \<Rightarrow> string \<Rightarrow> string \<Rightarrow> string \<Rightarrow> bool" where
  "action_allowed bindings workspace_id role_kind resource act =
     scan_effects (map pb_effect (filter
       (binding_applies (normalize_token workspace_id) (normalize_token role_kind)
          (normalize_token resource) (normalize_token act)) bindings)) False"

section \<open>Users, workspaces and identities\<close>

datatype role_kind = Owner | Admin | Operator | Member | Viewer | Guest

datatype workspace_type = Home | Lab | Managed

datatype workspace_status = WsActive | WsSuspended | WsArchived

record workspace =
  ws_workspace_id :: string
  ws_workspace_type :: workspace_type
  ws_display_name :: string
  ws_timezone :: string
  ws_locale :: string
  ws_owner_user_id :: string
  ws_status :: workspace_status
  ws_settings :: json

datatype user_status = UserActive | UserInvited | UserDisabled

record user_account =
  ua_user_id :: string
  ua_display_name :: string
  ua_email :: "string option"
  ua_phone :: "string option"
  ua_status :: user_status
  ua_default_workspace_id :: "string option"
  ua_preferences :: json

datatype membership_status = MembershipActive | MembershipPending | MembershipRevoked

record membership =
  mb_membership_id :: string
  mb_workspace_id :: string
  mb_user_id :: string
  mb_role_kind :: role_kind
  mb_status :: membership_status
  mb_granted_by_user_id :: "string option"
  mb_granted_at :: "string option"

datatype room_zone_type = LivingRoom | Bedroom | Entrance | Kitchen | Outdoor | Office | OtherZone

record room =
  rm_room_id :: string
  rm_workspace_id :: string
  rm_name :: string
  rm_floor :: "string option"
  rm_zone_type :: room_zone_type
  rm_aliases :: "string list"

datatype auth_source = AuthLocal | AuthHarborOs | AuthImChannel

record identity_binding =
  ib_identity_id :: string
  ib_user_id :: string
  ib_auth_source :: auth_source
  ib_provider_key :: string
  ib_external_user_id :: string
  ib_external_union_id :: "string option"
  ib_external_chat_id :: "string option"
  ib_profile_snapshot :: json
  ib_last_seen_at :: "string option"

text \<open>The part of \<^verbatim>\<open>AdminPlatformState\<close> the decision reads.\<close>

record platform_state =
  ps_workspaces :: "workspace list"
  ps_users :: "user_account list"
  ps_memberships :: "membership list"
  ps_identity_bindings :: "identity_binding list"
  ps_permission_bindings :: "permission_binding list"

section \<open>The access decision\<close>

record access_identity_hints =
  ah_user_id :: "string option"
  ah_open_id :: "string option"
  ah_harboros_user_id :: "string option"

text \<open>\<^verbatim>\<open>as_deref().map(str::trim).filter(|v| !v.is_empty())\<close>.\<close>

definition trimmed_hint :: "string option \<Rightarrow> string option" where
  "trimmed_hint h = Option.bind h (\<lambda>v. if trim v = [] then None else Some (trim v))"

definition hints_is_empty :: "access_identity_hints \<Rightarrow> bool" where
  "hints_is_empty h \<longleftrightarrow> trimmed_hint (ah_user_id h) = None \<and> trimmed_hint (ah_open_id h) = None \<and>
     trimmed_hint (ah_harboros_user_id h) = None"

datatype access_action = AdminReadState | AdminManage | CameraView | CameraOperate | ApprovalReview

fun permission_key :: "access_action \<Rightarrow> string" where
  "permission_key AdminReadState = ''admin.read_state''"
| "permission_key AdminManage = ''admin.manage''"
| "permission_key CameraView = ''camera.view''"
| "permission_key CameraOperate = ''camera.operate''"
| "permission_key ApprovalReview = ''approval.review''"

record access_principal =
  ap_workspace_id :: string
  ap_user_id :: string
  ap_display_name :: string
  ap_role_kind :: role_kind

datatype access_error =
    NoWorkspace
  | UnknownOpenId string
  | MissingIdentity
  | NotAMember string
  | NotInActiveWorkspace string
  | ActionNotAllowed access_action role_kind

fun role_kind_key :: "role_kind \<Rightarrow> string" where
  "role_kind_key Owner = ''owner''"
| "role_kind_key Admin = ''admin''"
| "role_kind_key Operator = ''operator''"
| "role_kind_key Member = ''member''"
| "role_kind_key Viewer = ''viewer''"
| "role_kind_key Guest = ''guest''"

definition active_workspace :: "platform_state \<Rightarrow> access_error + workspace" where
  "active_workspace st =
     (case find (\<lambda>w. ws_status w = WsActive) (ps_workspaces st) of
        Some w \<Rightarrow> Ok w
      | None \<Rightarrow> (case ps_workspaces st of w # _ \<Rightarrow> Ok w | [] \<Rightarrow> Err NoWorkspace))"

definition resolve_user_id ::
  "platform_state \<Rightarrow> workspace \<Rightarrow> access_identity_hints \<Rightarrow> bool \<Rightarrow> access_error + string" where
  "resolve_user_id st w hints allow_local_owner_fallback =
     (case trimmed_hint (ah_user_id hints) of
        Some user_id \<Rightarrow> Ok user_id
      | None \<Rightarrow>
          (case trimmed_hint (ah_open_id hints) of
             Some open_id \<Rightarrow>
               (case find (\<lambda>b. ib_external_user_id b = open_id) (ps_identity_bindings st) of
                  Some b \<Rightarrow> Ok (ib_user_id b)
                | None \<Rightarrow> Err (UnknownOpenId open_id))
           | None \<Rightarrow>
               (case trimmed_hint (ah_harboros_user_id hints) of
                  Some user_id \<Rightarrow> Ok user_id
                | None \<Rightarrow> if allow_local_owner_fallback then Ok (ws_owner_user_id w)
                          else Err MissingIdentity)))"

definition display_name_for_user :: "user_account list \<Rightarrow> string \<Rightarrow> string" where
  "display_name_for_user users user_id =
     unwrap_or (map_option ua_display_name (find (\<lambda>u. ua_user_id u = user_id) users)) user_id"

definition authorize_access ::
  "platform_state \<Rightarrow> access_identity_hints \<Rightarrow> access_action \<Rightarrow> string \<Rightarrow> bool
    \<Rightarrow> access_error + access_principal" where
  "authorize_access st hints act resource allow_local_owner_fallback =
     and_then (active_workspace st) (\<lambda>w.
     and_then (resolve_user_id st w hints allow_local_owner_fallback) (\<lambda>user_id.
       case find (\<lambda>m. mb_workspace_id m = ws_workspace_id w \<and> mb_user_id m = user_id \<and>
                mb_status m = MembershipActive) (ps_memberships st) of
         None \<Rightarrow> Err (NotAMember (ws_display_name w))
       | Some m \<Rightarrow>
           if \<not> action_allowed (ps_permission_bindings st) (ws_workspace_id w)
                  (role_kind_key (mb_role_kind m)) resource (permission_key act)
           then Err (ActionNotAllowed act (mb_role_kind m))
           else Ok \<lparr>ap_workspace_id = ws_workspace_id w, ap_user_id = mb_user_id m,
                  ap_display_name = display_name_for_user (ps_users st) (mb_user_id m),
                  ap_role_kind = mb_role_kind m\<rparr>))"

definition authorize_authenticated_principal ::
  "platform_state \<Rightarrow> access_principal \<Rightarrow> access_action \<Rightarrow> string \<Rightarrow> access_error + access_principal" where
  "authorize_authenticated_principal st p act resource =
     and_then (active_workspace st) (\<lambda>w.
       if ap_workspace_id p \<noteq> ws_workspace_id w then Err (NotInActiveWorkspace (ws_display_name w))
       else if \<not> action_allowed (ps_permission_bindings st) (ws_workspace_id w)
                  (role_kind_key (ap_role_kind p)) resource (permission_key act)
       then Err (ActionNotAllowed act (ap_role_kind p))
       else Ok p)"

section \<open>The default permission table\<close>

definition allow_workspace_permission ::
  "string \<Rightarrow> role_kind \<Rightarrow> string \<Rightarrow> string \<Rightarrow> permission_binding" where
  "allow_workspace_permission workspace_id role resource_pattern action_pattern =
     \<lparr>pb_permission_binding_id = ''perm-'' @ workspace_id @ ''-'' @ role_kind_key role @ ''-''
        @ replace_char (replace_char action_pattern (CHR ''.'') ''_'') (CHR ''*'') ''all'',
      pb_workspace_id = workspace_id, pb_role_kind = role_kind_key role,
      pb_scope_kind = ScopeWorkspace, pb_resource_pattern = resource_pattern,
      pb_action_pattern = action_pattern, pb_effect = Allow, pb_constraints = jobj []\<rparr>"

definition build_permission_bindings :: "workspace \<Rightarrow> permission_binding list" where
  "build_permission_bindings w =
     (let i = ws_workspace_id w in
      [allow_workspace_permission i Owner ''*'' ''*'',
       allow_workspace_permission i Admin ''*'' ''admin.*'',
       allow_workspace_permission i Admin ''*'' ''camera.*'',
       allow_workspace_permission i Admin ''*'' ''approval.*'',
       allow_workspace_permission i Operator ''*'' ''admin.read_state'',
       allow_workspace_permission i Operator ''*'' ''camera.view'',
       allow_workspace_permission i Operator ''*'' ''camera.operate'',
       allow_workspace_permission i Member ''*'' ''camera.view'',
       allow_workspace_permission i Viewer ''*'' ''camera.view''])"

fun upsert_permission_binding ::
  "permission_binding list \<Rightarrow> permission_binding \<Rightarrow> permission_binding list" where
  "upsert_permission_binding [] b = [b]"
| "upsert_permission_binding (x # xs) b =
     (if pb_permission_binding_id x = pb_permission_binding_id b then b # xs
      else x # upsert_permission_binding xs b)"

section \<open>Correctness of the binding scan\<close>

lemma scan_effects_iff: "scan_effects es allowed \<longleftrightarrow> Deny \<notin> set es \<and> (allowed \<or> Allow \<in> set es)"
  by (induction es allowed rule: scan_effects.induct) auto

definition applies_to :: "permission_binding \<Rightarrow> string \<Rightarrow> string \<Rightarrow> string \<Rightarrow> string \<Rightarrow> bool" where
  "applies_to b workspace_id role resource act \<longleftrightarrow>
     normalize_token (pb_workspace_id b) = normalize_token workspace_id \<and>
     normalize_token (pb_role_kind b) = normalize_token role \<and>
     pattern_matches (pb_resource_pattern b) (normalize_token resource) \<and>
     pattern_matches (pb_action_pattern b) (normalize_token act)"

lemma action_allowed_char:
  "action_allowed bs workspace_id role resource act \<longleftrightarrow>
     (\<exists>b \<in> set bs. pb_effect b = Allow \<and> applies_to b workspace_id role resource act) \<and>
     \<not> (\<exists>b \<in> set bs. pb_effect b = Deny \<and> applies_to b workspace_id role resource act)"
  by (force simp: action_allowed_def scan_effects_iff binding_applies_def applies_to_def image_iff)

text \<open>
  Deny overrides. An action is allowed exactly when some binding that applies to the workspace,
  role, resource and action allows it and no binding that applies denies it; so the answer does not
  depend on the order or the multiplicity of the bindings.
\<close>

theorem deny_overrides:
  "action_allowed bs workspace_id role resource act \<longleftrightarrow>
     (\<exists>b \<in> set bs. pb_effect b = Allow \<and>
        normalize_token (pb_workspace_id b) = normalize_token workspace_id \<and>
        normalize_token (pb_role_kind b) = normalize_token role \<and>
        pattern_matches (pb_resource_pattern b) (normalize_token resource) \<and>
        pattern_matches (pb_action_pattern b) (normalize_token act)) \<and>
     \<not> (\<exists>b \<in> set bs. pb_effect b = Deny \<and>
        normalize_token (pb_workspace_id b) = normalize_token workspace_id \<and>
        normalize_token (pb_role_kind b) = normalize_token role \<and>
        pattern_matches (pb_resource_pattern b) (normalize_token resource) \<and>
        pattern_matches (pb_action_pattern b) (normalize_token act))"
  unfolding action_allowed_char applies_to_def by (rule refl)

section \<open>The default table\<close>

lemma normalize_role [simp]: "normalize_token (role_kind_key r) = role_kind_key r"
  by (cases r; simp; code_simp)

lemma normalize_permission [simp]: "normalize_token (permission_key a) = permission_key a"
  by (cases a; simp; code_simp)

lemma role_kind_key_inject [simp]: "role_kind_key r = role_kind_key r' \<longleftrightarrow> r = r'"
  by (cases r; cases r'; simp)

lemma pattern_star [simp]: "pattern_matches ''*'' v"
proof -
  have "normalize_token ''*'' = ''*''" by code_simp
  then show ?thesis by (simp add: pattern_matches_def)
qed

lemma pattern_default [simp]:
  "pattern_matches ''admin.*'' (permission_key a) \<longleftrightarrow> a = AdminReadState \<or> a = AdminManage"
  "pattern_matches ''camera.*'' (permission_key a) \<longleftrightarrow> a = CameraView \<or> a = CameraOperate"
  "pattern_matches ''approval.*'' (permission_key a) \<longleftrightarrow> a = ApprovalReview"
  "pattern_matches ''admin.read_state'' (permission_key a) \<longleftrightarrow> a = AdminReadState"
  "pattern_matches ''camera.view'' (permission_key a) \<longleftrightarrow> a = CameraView"
  "pattern_matches ''camera.operate'' (permission_key a) \<longleftrightarrow> a = CameraOperate"
  by (cases a; simp; code_simp)+

fun default_grants :: "role_kind \<Rightarrow> access_action \<Rightarrow> bool" where
  "default_grants Owner a = True"
| "default_grants Admin a = True"
| "default_grants Operator a = (a \<in> {AdminReadState, CameraView, CameraOperate})"
| "default_grants Member a = (a = CameraView)"
| "default_grants Viewer a = (a = CameraView)"
| "default_grants Guest a = False"

text \<open>
  The default permission table. Whatever the workspace id and the resource, the bindings a new
  workspace gets let owners and administrators do everything, operators read the console state and
  view and operate cameras, members and viewers only view cameras, and guests do nothing.
\<close>

theorem default_permission_matrix:
  "action_allowed (build_permission_bindings w) (ws_workspace_id w) (role_kind_key r) resource (permission_key a)
     = default_grants r a"
proof -
  have "action_allowed (build_permission_bindings w) (ws_workspace_id w) (role_kind_key r) resource
      (permission_key a) \<longleftrightarrow>
      (r = Owner) \<or> (r = Admin \<and> (a = AdminReadState \<or> a = AdminManage)) \<or>
      (r = Admin \<and> (a = CameraView \<or> a = CameraOperate)) \<or> (r = Admin \<and> a = ApprovalReview) \<or>
      (r = Operator \<and> a = AdminReadState) \<or> (r = Operator \<and> a = CameraView) \<or>
      (r = Operator \<and> a = CameraOperate) \<or> (r = Member \<and> a = CameraView) \<or> (r = Viewer \<and> a = CameraView)"
    unfolding action_allowed_char
    by (simp add: build_permission_bindings_def Let_def allow_workspace_permission_def applies_to_def
        del: role_kind_key.simps) blast
  then show ?thesis by (cases r; cases a) simp_all
qed

section \<open>The access decision is sound\<close>

lemma find_SomeD2: "find P xs = Some x \<Longrightarrow> x \<in> set xs \<and> P x"
  by (metis find_Some_iff nth_mem)

text \<open>
  Who a request comes from. The user id of the request counts first, then the account that the first
  identity binding gives to its messaging id, then its HarborOS user id, each without the white space
  around it and only when something is left; a request with none of them comes from the owner of the
  workspace, where that is permitted.
\<close>

definition says_nothing :: "string option \<Rightarrow> bool" where
  "says_nothing h \<longleftrightarrow> (case h of None \<Rightarrow> True | Some v \<Rightarrow> trim v = [])"

inductive requested_by :: "platform_state \<Rightarrow> workspace \<Rightarrow> access_identity_hints \<Rightarrow> bool \<Rightarrow> string \<Rightarrow> bool"
  for st w hints fb where
  by_user_id: "ah_user_id hints = Some v \<Longrightarrow> trim v \<noteq> [] \<Longrightarrow> requested_by st w hints fb (trim v)"
| by_open_id: "says_nothing (ah_user_id hints) \<Longrightarrow> ah_open_id hints = Some v \<Longrightarrow> trim v \<noteq> [] \<Longrightarrow>
    ps_identity_bindings st = before @ b # later \<Longrightarrow> trim v \<notin> ib_external_user_id ` set before \<Longrightarrow>
    ib_external_user_id b = trim v \<Longrightarrow> requested_by st w hints fb (ib_user_id b)"
| by_harboros_id: "says_nothing (ah_user_id hints) \<Longrightarrow> says_nothing (ah_open_id hints) \<Longrightarrow>
    ah_harboros_user_id hints = Some v \<Longrightarrow> trim v \<noteq> [] \<Longrightarrow> requested_by st w hints fb (trim v)"
| by_owner: "says_nothing (ah_user_id hints) \<Longrightarrow> says_nothing (ah_open_id hints) \<Longrightarrow>
    says_nothing (ah_harboros_user_id hints) \<Longrightarrow> fb \<Longrightarrow> requested_by st w hints fb (ws_owner_user_id w)"

lemma trimmed_hint_None: "trimmed_hint h = None \<longleftrightarrow> says_nothing h"
  by (simp add: trimmed_hint_def says_nothing_def split: option.split bind_splits)

lemma trimmed_hint_Some: "trimmed_hint h = Some u \<longleftrightarrow> (\<exists>v. h = Some v \<and> u = trim v \<and> trim v \<noteq> [])"
  by (auto simp: trimmed_hint_def split: bind_splits)

lemma find_skips: "\<forall>y \<in> set before. \<not> P y \<Longrightarrow> P x \<Longrightarrow> find P (before @ x # later) = Some x"
  by (induction before) simp_all

lemma find_splits:
  assumes "find P xs = Some x"
  obtains before later where "xs = before @ x # later" "P x" "\<forall>y \<in> set before. \<not> P y"
proof -
  have "list_ex P xs" using assms by (auto simp: find_None_iff list_ex_iff dest: find_SomeD2)
  then obtain before y later where s: "xs = before @ y # later" "P y" "\<forall>z \<in> set before. \<not> P z"
    using split_list_first_prop [of xs P] unfolding list_ex_iff by blast
  then have "find P xs = Some y" by (simp add: find_skips)
  with assms s that show thesis by simp
qed

lemma resolve_user_id_iff: "resolve_user_id st w hints fb = Ok u \<longleftrightarrow> requested_by st w hints fb u"
proof
  assume u: "resolve_user_id st w hints fb = Ok u"
  consider v where "ah_user_id hints = Some v" "trim v \<noteq> []" "u = trim v"
    | v b where "says_nothing (ah_user_id hints)" "ah_open_id hints = Some v" "trim v \<noteq> []"
        "find (\<lambda>b. ib_external_user_id b = trim v) (ps_identity_bindings st) = Some b" "u = ib_user_id b"
    | v where "says_nothing (ah_user_id hints)" "says_nothing (ah_open_id hints)"
        "ah_harboros_user_id hints = Some v" "trim v \<noteq> []" "u = trim v"
    | "says_nothing (ah_user_id hints)" "says_nothing (ah_open_id hints)" "says_nothing (ah_harboros_user_id hints)"
        "fb" "u = ws_owner_user_id w"
    using u by (auto simp: resolve_user_id_def trimmed_hint_None trimmed_hint_Some split: option.splits if_splits)
  then show "requested_by st w hints fb u"
  proof cases
    case (2 v b)
    from 2(4) obtain before later where "ps_identity_bindings st = before @ b # later" "ib_external_user_id b = trim v"
        "\<forall>y \<in> set before. ib_external_user_id y \<noteq> trim v"
      by (rule find_splits)
    then show ?thesis unfolding 2(5) by (intro by_open_id [OF 2(1-3)]) auto
  qed (auto intro: requested_by.intros)
next
  have first: "find (\<lambda>b. ib_external_user_id b = x) (before @ b # later) = Some b"
    if "x \<notin> ib_external_user_id ` set before" "ib_external_user_id b = x" for x before b later
    using that by (intro find_skips ballI notI) (metis imageI, simp)
  assume "requested_by st w hints fb u"
  then show "resolve_user_id st w hints fb = Ok u"
  proof cases
    case (by_user_id v)
    then have "trimmed_hint (ah_user_id hints) = Some u" by (auto simp: trimmed_hint_Some)
    then show ?thesis by (simp add: resolve_user_id_def)
  next
    case (by_open_id v before b later)
    then have "trimmed_hint (ah_user_id hints) = None" "trimmed_hint (ah_open_id hints) = Some (trim v)"
      by (auto simp: trimmed_hint_None trimmed_hint_Some)
    then show ?thesis using first [OF by_open_id(6,7)] by_open_id by (simp add: resolve_user_id_def)
  next
    case (by_harboros_id v)
    then have "trimmed_hint (ah_user_id hints) = None" "trimmed_hint (ah_open_id hints) = None"
        "trimmed_hint (ah_harboros_user_id hints) = Some u"
      by (auto simp: trimmed_hint_None trimmed_hint_Some)
    then show ?thesis by (simp add: resolve_user_id_def)
  next
    case by_owner
    then show ?thesis by (simp add: resolve_user_id_def trimmed_hint_None [THEN iffD2])
  qed
qed

lemma authorize_access_OkD:
  assumes "authorize_access st hints act resource fb = Ok p"
  obtains w m where "active_workspace st = Ok w" "ap_workspace_id p = ws_workspace_id w" "requested_by st w hints fb (ap_user_id p)"
    "find (\<lambda>m. mb_workspace_id m = ws_workspace_id w \<and> mb_user_id m = ap_user_id p \<and> mb_status m = MembershipActive)
       (ps_memberships st) = Some m"
    "ap_role_kind p = mb_role_kind m" "ap_display_name p = display_name_for_user (ps_users st) (ap_user_id p)"
    "action_allowed (ps_permission_bindings st) (ws_workspace_id w) (role_kind_key (mb_role_kind m)) resource (permission_key act)"
proof -
  from assms obtain w where w: "active_workspace st = Ok w"
    by (auto simp: authorize_access_def and_then_Inr_iff)
  with assms obtain u where u: "resolve_user_id st w hints fb = Ok u"
    by (auto simp: authorize_access_def and_then_Inr_iff)
  with assms w obtain m where m: "find (\<lambda>m. mb_workspace_id m = ws_workspace_id w \<and> mb_user_id m = u \<and>
      mb_status m = MembershipActive) (ps_memberships st) = Some m"
    by (auto simp: authorize_access_def split: option.splits)
  have "mb_user_id m = u" using find_SomeD2 [OF m] by simp
  then show thesis
    using that [OF w, of m] assms w u m
    by (auto simp: authorize_access_def resolve_user_id_iff [symmetric] split: if_splits)
qed

text \<open>
  C26. A request is authorised exactly for the user it comes from, and only when that user is entitled
  to the action: the decision succeeds with a principal exactly when the principal is the user the request
  comes from, as a member of the workspace in force (the first active one, or the first of all when
  none is active), with the role of the first active membership of that user there and the user's
  display name, and some binding allows the action on the resource to this role and no binding denies
  it. Such a principal presented as already authenticated gets the same answer.
\<close>

theorem authorized_principal_is_entitled:
  "(authorize_access st hints act resource fb = Ok p \<longleftrightarrow>
     (\<exists>w m. active_workspace st = Ok w \<and> ap_workspace_id p = ws_workspace_id w \<and>
        requested_by st w hints fb (ap_user_id p) \<and>
        find (\<lambda>m. mb_workspace_id m = ws_workspace_id w \<and> mb_user_id m = ap_user_id p \<and> mb_status m = MembershipActive)
          (ps_memberships st) = Some m \<and>
        ap_role_kind p = mb_role_kind m \<and> ap_display_name p = display_name_for_user (ps_users st) (ap_user_id p) \<and>
        (\<exists>b \<in> set (ps_permission_bindings st). pb_effect b = Allow \<and>
           applies_to b (ws_workspace_id w) (role_kind_key (mb_role_kind m)) resource (permission_key act)) \<and>
        \<not> (\<exists>b \<in> set (ps_permission_bindings st). pb_effect b = Deny \<and>
           applies_to b (ws_workspace_id w) (role_kind_key (mb_role_kind m)) resource (permission_key act)))) \<and>
   (if authorize_access st hints act resource fb = Ok p
    then authorize_authenticated_principal st p act resource = Ok p else True)"
proof -
  have "authorize_access st hints act resource fb = Ok p \<longleftrightarrow>
     (\<exists>w m. active_workspace st = Ok w \<and> ap_workspace_id p = ws_workspace_id w \<and>
        requested_by st w hints fb (ap_user_id p) \<and>
        find (\<lambda>m. mb_workspace_id m = ws_workspace_id w \<and> mb_user_id m = ap_user_id p \<and> mb_status m = MembershipActive)
          (ps_memberships st) = Some m \<and>
        ap_role_kind p = mb_role_kind m \<and> ap_display_name p = display_name_for_user (ps_users st) (ap_user_id p) \<and>
        action_allowed (ps_permission_bindings st) (ws_workspace_id w) (role_kind_key (mb_role_kind m)) resource (permission_key act))"
    (is "?ok \<longleftrightarrow> ?rhs")
  proof
    assume ?ok
    then show ?rhs by (rule authorize_access_OkD) blast
  next
    assume ?rhs
    then obtain w m where wm: "active_workspace st = Ok w" "ap_workspace_id p = ws_workspace_id w"
        "resolve_user_id st w hints fb = Ok (ap_user_id p)"
        "find (\<lambda>m. mb_workspace_id m = ws_workspace_id w \<and> mb_user_id m = ap_user_id p \<and> mb_status m = MembershipActive)
           (ps_memberships st) = Some m"
        "ap_role_kind p = mb_role_kind m" "ap_display_name p = display_name_for_user (ps_users st) (ap_user_id p)"
        "action_allowed (ps_permission_bindings st) (ws_workspace_id w) (role_kind_key (mb_role_kind m)) resource (permission_key act)"
      unfolding resolve_user_id_iff by blast
    with find_SomeD2 [OF wm(4)] show ?ok by (simp add: authorize_access_def)
  qed
  moreover have "authorize_authenticated_principal st p act resource = Ok p" if "authorize_access st hints act resource fb = Ok p"
    using that by (rule authorize_access_OkD) (simp add: authorize_authenticated_principal_def)
  ultimately show ?thesis unfolding action_allowed_char by simp
qed

text \<open>A home with an owner and one operator bound to an instant-messaging account.\<close>

definition home_workspace :: workspace where
  "home_workspace = \<lparr>ws_workspace_id = ''home-1'', ws_workspace_type = Home, ws_display_name = ''Home'',
     ws_timezone = ''UTC'', ws_locale = ''en'', ws_owner_user_id = ''alice'', ws_status = WsActive,
     ws_settings = JNull\<rparr>"

definition member_of_home :: "string \<Rightarrow> role_kind \<Rightarrow> membership" where
  "member_of_home u r = \<lparr>mb_membership_id = u, mb_workspace_id = ''home-1'', mb_user_id = u, mb_role_kind = r,
     mb_status = MembershipActive, mb_granted_by_user_id = None, mb_granted_at = None\<rparr>"

definition home_platform :: platform_state where
  "home_platform = \<lparr>ps_workspaces = [home_workspace], ps_users = [],
     ps_memberships = [member_of_home ''alice'' Owner, member_of_home ''bob'' Operator],
     ps_identity_bindings = [\<lparr>ib_identity_id = ''i'', ib_user_id = ''bob'', ib_auth_source = AuthImChannel,
       ib_provider_key = ''im'', ib_external_user_id = ''ou_7'', ib_external_union_id = None,
       ib_external_chat_id = None, ib_profile_snapshot = JNull, ib_last_seen_at = None\<rparr>],
     ps_permission_bindings = build_permission_bindings home_workspace\<rparr>"

definition bob_hints :: access_identity_hints where
  "bob_hints = \<lparr>ah_user_id = None, ah_open_id = Some '' ou_7 '', ah_harboros_user_id = None\<rparr>"

definition bob_principal :: access_principal where
  "bob_principal = \<lparr>ap_workspace_id = ''home-1'', ap_user_id = ''bob'', ap_display_name = ''bob'',
     ap_role_kind = Operator\<rparr>"

lemma bob_authorized:
  "authorize_access home_platform bob_hints CameraOperate ''camera:front'' False = Ok bob_principal"
  by code_simp

theorem authorized_principal_is_entitled_witness:
  "authorize_authenticated_principal home_platform bob_principal CameraOperate ''camera:front'' = Ok bob_principal"
  using authorized_principal_is_entitled [of home_platform bob_hints CameraOperate "''camera:front''" False bob_principal] bob_authorized by simp

text \<open>
  The decision does not look at the status of the accounts, nor, with one workspace, at the status of
  the workspace: changing the status of any accounts (to disabled, say) and of the only workspace
  (to suspended or archived, say) changes no answer.
\<close>

theorem access_ignores_account_and_workspace_status:
  "authorize_access (st\<lparr>ps_workspaces := [w\<lparr>ws_status := status\<rparr>],
       ps_users := map (\<lambda>u. u\<lparr>ua_status := f u\<rparr>) users\<rparr>) hints act resource fb
   = authorize_access (st\<lparr>ps_workspaces := [w], ps_users := users\<rparr>) hints act resource fb"
proof -
  have names: "display_name_for_user (map (\<lambda>u. u\<lparr>ua_status := f u\<rparr>) users) i = display_name_for_user users i" for i
    by (induction users) (simp_all add: display_name_for_user_def)
  have only: "active_workspace (st\<lparr>ps_workspaces := [v], ps_users := us\<rparr>) = Ok v" for v us
    by (simp add: active_workspace_def)
  have user: "resolve_user_id (st\<lparr>ps_workspaces := vs, ps_users := us\<rparr>) (w\<lparr>ws_status := x\<rparr>) hints fb =
      resolve_user_id st w hints fb" for vs us x
    by (simp add: resolve_user_id_def cong: option.case_cong if_cong)
  show ?thesis
    using user [of users "[w]" "ws_status w"]
    by (simp add: authorize_access_def only user names cong: option.case_cong if_cong)
qed

end
