(* ===== verification/Service_Auth.thy ===== *)
theory Service_Auth
  imports Harbor_Prelude
begin

text \<open>
  Directional service credentials, from \<^verbatim>\<open>src/src/service_auth.rs\<close>. The process environment and the file
  system are arguments: \<open>env\<close> is \<^verbatim>\<open>env::var(..).ok()\<close> and \<open>read_to_string\<close> the content of a file or the
  text of the I/O error. The comparison of the crate \<^verbatim>\<open>constant_time_eq\<close> is the argument \<open>ct_eq\<close>.
\<close>

section \<open>Constants\<close>

definition GATE_TO_BEACON_TOKEN_ENV :: string where
  "GATE_TO_BEACON_TOKEN_ENV = ''HARBOR_GATE_TO_BEACON_TOKEN''"
definition GATE_TO_BEACON_TOKEN_FILE_ENV :: string where
  "GATE_TO_BEACON_TOKEN_FILE_ENV = ''HARBOR_GATE_TO_BEACON_TOKEN_FILE''"
definition GATE_TO_BEACON_TOKEN_PREVIOUS_ENV :: string where
  "GATE_TO_BEACON_TOKEN_PREVIOUS_ENV = ''HARBOR_GATE_TO_BEACON_TOKEN_PREVIOUS''"
definition GATE_TO_BEACON_TOKEN_PREVIOUS_FILE_ENV :: string where
  "GATE_TO_BEACON_TOKEN_PREVIOUS_FILE_ENV = ''HARBOR_GATE_TO_BEACON_TOKEN_PREVIOUS_FILE''"
definition BEACON_TO_GATE_TOKEN_ENV :: string where
  "BEACON_TO_GATE_TOKEN_ENV = ''HARBOR_BEACON_TO_GATE_TOKEN''"
definition BEACON_TO_GATE_TOKEN_FILE_ENV :: string where
  "BEACON_TO_GATE_TOKEN_FILE_ENV = ''HARBOR_BEACON_TO_GATE_TOKEN_FILE''"
definition MODEL_API_TOKEN_ENV :: string where
  "MODEL_API_TOKEN_ENV = ''HARBOR_MODEL_API_TOKEN''"
definition MIN_TOKEN_LEN :: nat where "MIN_TOKEN_LEN = 32"
definition CREDENTIALS_DIRECTORY_ENV :: string where
  "CREDENTIALS_DIRECTORY_ENV = ''CREDENTIALS_DIRECTORY''"
definition LEGACY_GATE_TO_BEACON_TOKEN_ENVS :: "string list" where
  "LEGACY_GATE_TO_BEACON_TOKEN_ENVS = [''HARBORBEACON_WEB_API_TOKEN'']"
definition LEGACY_BEACON_TO_GATE_TOKEN_ENVS :: "string list" where
  "LEGACY_BEACON_TO_GATE_TOKEN_ENVS =
     [''HARBORGATE_BEARER_TOKEN'', ''HARBOR_IM_GATEWAY_BEARER_TOKEN'', ''IM_AGENT_SERVICE_TOKEN'']"

section \<open>Sources of a credential\<close>

type_synonym environment = "string \<Rightarrow> string option"
type_synonym file_reader = "string \<Rightarrow> string + string"

record verifier_tokens =
  vt_current :: string
  vt_previous :: "string option"

definition token_byte :: "char \<Rightarrow> bool" where
  "token_byte c \<longleftrightarrow> is_ascii_alphanumeric c \<or> c = CHR ''_'' \<or> c = CHR ''-''"

definition validate_configured_token :: "string \<Rightarrow> string \<Rightarrow> string + string" where
  "validate_configured_token v source =
     (if length v < MIN_TOKEN_LEN \<or> \<not> list_all token_byte v then Err (source @ '' is invalid'')
      else Ok v)"

definition token_from_env :: "environment \<Rightarrow> string \<Rightarrow> string option" where
  "token_from_env env key =
     Option.bind (map_option trim (env key)) (\<lambda>v. if v = [] then None else Some v)"

definition configured_file_path :: "environment \<Rightarrow> string \<Rightarrow> string option" where
  "configured_file_path env file_env =
     Option.bind (map_option trim (env file_env)) (\<lambda>v. if v = [] then None else Some v)"

definition credential_file_path_from_values :: "string \<Rightarrow> string \<Rightarrow> string \<Rightarrow> string option" where
  "credential_file_path_from_values credentials_directory configured_file credential_name =
     (if trim credentials_directory \<noteq> [] then Some (path_join (trim credentials_directory) credential_name)
      else if trim configured_file \<noteq> [] then Some (trim configured_file)
      else None)"

definition credential_name_of :: "string \<Rightarrow> string option" where
  "credential_name_of file_env =
     (if file_env = GATE_TO_BEACON_TOKEN_FILE_ENV then Some ''gate-to-beacon-accept-current''
      else if file_env = GATE_TO_BEACON_TOKEN_PREVIOUS_FILE_ENV then Some ''gate-to-beacon-accept-previous''
      else if file_env = BEACON_TO_GATE_TOKEN_FILE_ENV then Some ''beacon-to-gate-send''
      else None)"

definition credential_file_path :: "environment \<Rightarrow> string \<Rightarrow> string option" where
  "credential_file_path env file_env =
     (case credential_name_of file_env of
        None \<Rightarrow> configured_file_path env file_env
      | Some credential_name \<Rightarrow> credential_file_path_from_values
          (unwrap_or (env CREDENTIALS_DIRECTORY_ENV) []) (unwrap_or (env file_env) []) credential_name)"

definition read_credential :: "file_reader \<Rightarrow> string \<Rightarrow> string \<Rightarrow> string + string" where
  "read_credential read_to_string file_env path =
     (case read_to_string path of
        Inl e \<Rightarrow> Err (''failed to read service credential configured by '' @ file_env @ '': '' @ e)
      | Inr content \<Rightarrow> Ok (trim content))"

definition token_from_file_env ::
  "environment \<Rightarrow> file_reader \<Rightarrow> string \<Rightarrow> string + string option" where
  "token_from_file_env env read_to_string file_env =
     (case credential_file_path env file_env of
        None \<Rightarrow> Ok None
      | Some path \<Rightarrow> and_then (read_credential read_to_string file_env path) (\<lambda>v.
          if v = [] then Err (''service credential configured by '' @ file_env @ '' is empty'')
          else Ok (Some v)))"

fun first_legacy :: "environment \<Rightarrow> string list \<Rightarrow> (string \<times> string) option" where
  "first_legacy env [] = None"
| "first_legacy env (k # ks) =
     (case token_from_env env k of Some v \<Rightarrow> Some (k, v) | None \<Rightarrow> first_legacy env ks)"

definition required_token ::
  "environment \<Rightarrow> file_reader \<Rightarrow> string \<Rightarrow> string \<Rightarrow> string list \<Rightarrow> string + string" where
  "required_token env read_to_string file_env primary_env legacy_envs =
     and_then (token_from_file_env env read_to_string file_env) (\<lambda>from_file.
       case from_file of
         Some v \<Rightarrow> validate_configured_token v file_env
       | None \<Rightarrow>
           (case token_from_env env primary_env of
              Some v \<Rightarrow> validate_configured_token v primary_env
            | None \<Rightarrow>
                (case first_legacy env legacy_envs of
                   Some (k, v) \<Rightarrow> validate_configured_token v k
                 | None \<Rightarrow> Err (''missing required service credential '' @ primary_env))))"

definition validated_unless_empty :: "string \<Rightarrow> string \<Rightarrow> string + string option" where
  "validated_unless_empty v file_env =
     (if v = [] then Ok None else and_then (validate_configured_token v file_env) (\<lambda>t. Ok (Some t)))"

definition optional_token ::
  "environment \<Rightarrow> file_reader \<Rightarrow> string \<Rightarrow> string \<Rightarrow> string + string option" where
  "optional_token env read_to_string file_env primary_env =
     (case credential_file_path env file_env of
        Some path \<Rightarrow> and_then (read_credential read_to_string file_env path)
          (\<lambda>v. validated_unless_empty v file_env)
      | None \<Rightarrow>
          (case token_from_env env primary_env of
             Some v \<Rightarrow> and_then (validate_configured_token v primary_env) (\<lambda>t. Ok (Some t))
           | None \<Rightarrow> Ok None))"

definition required_file_token :: "environment \<Rightarrow> file_reader \<Rightarrow> string \<Rightarrow> string + string" where
  "required_file_token env read_to_string file_env =
     and_then (token_from_file_env env read_to_string file_env) (\<lambda>from_file.
       case from_file of
         None \<Rightarrow> Err (''missing required service credential file setting '' @ file_env)
       | Some v \<Rightarrow> validate_configured_token v file_env)"

definition optional_file_token :: "environment \<Rightarrow> file_reader \<Rightarrow> string \<Rightarrow> string + string option" where
  "optional_file_token env read_to_string file_env =
     (case credential_file_path env file_env of
        None \<Rightarrow> Err (''missing required service credential file setting '' @ file_env)
      | Some path \<Rightarrow> and_then (read_credential read_to_string file_env path)
          (\<lambda>v. validated_unless_empty v file_env))"

section \<open>Verifiers and senders\<close>

definition current_only :: "string \<Rightarrow> string + verifier_tokens" where
  "current_only current = and_then (validate_configured_token current ''bearer token'')
     (\<lambda>t. Ok \<lparr>vt_current = t, vt_previous = None\<rparr>)"

definition token_matches :: "(string \<Rightarrow> string \<Rightarrow> bool) \<Rightarrow> verifier_tokens \<Rightarrow> string \<Rightarrow> bool" where
  "token_matches ct_eq tokens actual =
     (let current_matches = ct_eq actual (vt_current tokens);
          previous_matches = unwrap_or (map_option (ct_eq actual) (vt_previous tokens)) False
      in vt_current tokens \<noteq> [] \<and> (current_matches \<or> previous_matches))"

definition gate_to_beacon_file_verifier_tokens ::
  "environment \<Rightarrow> file_reader \<Rightarrow> string + verifier_tokens" where
  "gate_to_beacon_file_verifier_tokens env read_to_string =
     and_then (required_file_token env read_to_string GATE_TO_BEACON_TOKEN_FILE_ENV) (\<lambda>current.
     and_then (optional_file_token env read_to_string GATE_TO_BEACON_TOKEN_PREVIOUS_FILE_ENV) (\<lambda>previous.
       Ok \<lparr>vt_current = current, vt_previous = previous\<rparr>))"

definition model_api_verifier_token :: "environment \<Rightarrow> string + verifier_tokens" where
  "model_api_verifier_token env =
     (case token_from_env env MODEL_API_TOKEN_ENV of
        None \<Rightarrow> Err (MODEL_API_TOKEN_ENV @ '' is not configured'')
      | Some t \<Rightarrow> and_then (validate_configured_token t MODEL_API_TOKEN_ENV)
          (\<lambda>t. Ok \<lparr>vt_current = t, vt_previous = None\<rparr>))"

definition gate_to_beacon_verifier_tokens ::
  "environment \<Rightarrow> file_reader \<Rightarrow> string + verifier_tokens" where
  "gate_to_beacon_verifier_tokens env read_to_string =
     and_then (required_token env read_to_string GATE_TO_BEACON_TOKEN_FILE_ENV GATE_TO_BEACON_TOKEN_ENV
       LEGACY_GATE_TO_BEACON_TOKEN_ENVS) (\<lambda>current.
     and_then (optional_token env read_to_string GATE_TO_BEACON_TOKEN_PREVIOUS_FILE_ENV
       GATE_TO_BEACON_TOKEN_PREVIOUS_ENV) (\<lambda>previous.
       Ok \<lparr>vt_current = current, vt_previous = previous\<rparr>))"

definition beacon_to_gate_sender_token :: "environment \<Rightarrow> file_reader \<Rightarrow> string + string" where
  "beacon_to_gate_sender_token env read_to_string =
     required_token env read_to_string BEACON_TO_GATE_TOKEN_FILE_ENV BEACON_TO_GATE_TOKEN_ENV
       LEGACY_BEACON_TO_GATE_TOKEN_ENVS"

definition validate_required_service_auth :: "environment \<Rightarrow> file_reader \<Rightarrow> string + unit" where
  "validate_required_service_auth env read_to_string =
     and_then (gate_to_beacon_verifier_tokens env read_to_string) (\<lambda>_.
     and_then (beacon_to_gate_sender_token env read_to_string) (\<lambda>_. Ok ()))"

section \<open>Strength of the accepted tokens\<close>

definition strong_token :: "string \<Rightarrow> bool" where
  "strong_token t \<longleftrightarrow> 32 \<le> length t \<and> (\<forall>c \<in> set t. is_ascii_alphanumeric c \<or> c = CHR ''_'' \<or> c = CHR ''-'')"

lemma validate_ok_iff: "validate_configured_token v src = Ok t \<longleftrightarrow> t = v \<and> strong_token v"
  by (auto simp: validate_configured_token_def strong_token_def MIN_TOKEN_LEN_def list_all_iff token_byte_def)

lemma strong_token_nonempty: "strong_token t \<Longrightarrow> t \<noteq> []"
  by (auto simp: strong_token_def)

lemma required_token_strong: "required_token env rd f p ls = Ok t \<Longrightarrow> strong_token t"
  by (auto simp: required_token_def and_then_Inr_iff validate_ok_iff split: option.splits prod.splits)

lemma validated_unless_empty_strong: "validated_unless_empty v f = Ok (Some t) \<Longrightarrow> strong_token t"
  by (auto simp: validated_unless_empty_def and_then_Inr_iff validate_ok_iff split: if_splits)

lemma optional_token_strong: "optional_token env rd f p = Ok (Some t) \<Longrightarrow> strong_token t"
  by (auto simp: optional_token_def and_then_Inr_iff validate_ok_iff validated_unless_empty_strong split: option.splits)

lemma required_file_token_strong: "required_file_token env rd f = Ok t \<Longrightarrow> strong_token t"
  by (auto simp: required_file_token_def and_then_Inr_iff validate_ok_iff split: option.splits)

lemma optional_file_token_strong: "optional_file_token env rd f = Ok (Some t) \<Longrightarrow> strong_token t"
  by (auto simp: optional_file_token_def and_then_Inr_iff validated_unless_empty_strong split: option.splits)

definition verifier_strong :: "verifier_tokens \<Rightarrow> bool" where
  "verifier_strong v \<longleftrightarrow> strong_token (vt_current v) \<and> (\<forall>t. vt_previous v = Some t \<longrightarrow> strong_token t)"

lemmas strong_intros = required_token_strong optional_token_strong required_file_token_strong
  optional_file_token_strong

lemma verifiers_strong:
  "gate_to_beacon_verifier_tokens env rd = Ok v \<Longrightarrow> verifier_strong v"
  "gate_to_beacon_file_verifier_tokens env rd = Ok v \<Longrightarrow> verifier_strong v"
  "model_api_verifier_token env = Ok v \<Longrightarrow> verifier_strong v"
  "current_only t = Ok v \<Longrightarrow> verifier_strong v"
  by (auto simp: gate_to_beacon_verifier_tokens_def gate_to_beacon_file_verifier_tokens_def
      model_api_verifier_token_def current_only_def verifier_strong_def and_then_Inr_iff validate_ok_iff
      intro: strong_intros split: option.splits)

text \<open>
  C27. Only strong bearer tokens open the service boundary. Given that the comparison decides equality of
  byte strings, a verifier obtained from any of the configurations (environment and files, files
  only, the model API variable, a literal) accepts a presented token exactly when it equals the current or the
  previous configured token, and every token it accepts has at least 32 characters, all letters,
  digits, underscores or hyphens; the empty token is never accepted.
\<close>

theorem verifier_accepts_only_strong_tokens:
  assumes ct_eq_decides: "\<And>a b. ct_eq a b \<longleftrightarrow> a = b"
    and "gate_to_beacon_verifier_tokens env rd = Ok v \<or> gate_to_beacon_file_verifier_tokens env rd = Ok v \<or>
      model_api_verifier_token env = Ok v \<or> current_only literal = Ok v"
  shows "(token_matches ct_eq v actual \<longleftrightarrow> actual = vt_current v \<or> vt_previous v = Some actual) \<and>
    (token_matches ct_eq v actual \<longrightarrow> 32 \<le> length actual \<and>
      (\<forall>c \<in> set actual. is_ascii_alphanumeric c \<or> c = CHR ''_'' \<or> c = CHR ''-''))"
proof -
  have strong: "verifier_strong v" using assms(2) verifiers_strong by blast
  then have "vt_current v \<noteq> []" by (auto simp: verifier_strong_def strong_token_nonempty)
  then have m: "token_matches ct_eq v actual \<longleftrightarrow> actual = vt_current v \<or> vt_previous v = Some actual"
    by (cases "vt_previous v") (auto simp: token_matches_def Let_def ct_eq_decides)
  moreover have "strong_token actual" if "token_matches ct_eq v actual"
    using that strong m by (auto simp: verifier_strong_def)
  ultimately show ?thesis by (auto simp: strong_token_def)
qed

definition sample_token :: string where
  "sample_token = ''gate_current_0123456789abcdef0123456789abcdef''"

definition token_env :: environment where
  "token_env k = (if k = ''HARBOR_GATE_TO_BEACON_TOKEN'' then Some ('' '' @ sample_token) else None)"

definition no_files :: file_reader where
  "no_files path = Inl ''not found''"

lemma token_env_verifier:
  "gate_to_beacon_verifier_tokens token_env no_files = Ok \<lparr>vt_current = sample_token, vt_previous = None\<rparr>"
  by code_simp

theorem verifier_accepts_only_strong_tokens_witness:
  "token_matches (=) \<lparr>vt_current = sample_token, vt_previous = None\<rparr> sample_token \<and>
   \<not> token_matches (=) \<lparr>vt_current = sample_token, vt_previous = None\<rparr> []"
  using verifier_accepts_only_strong_tokens [of "(=)" token_env no_files
      "\<lparr>vt_current = sample_token, vt_previous = None\<rparr>" "[]" sample_token]
    verifier_accepts_only_strong_tokens [of "(=)" token_env no_files
      "\<lparr>vt_current = sample_token, vt_previous = None\<rparr>" "[]" "[]"]
  by (simp add: token_env_verifier) (simp add: sample_token_def)

text \<open>
  A configured credential file is authoritative. When a file path is configured for a required
  credential, the token comes from that file or the configuration fails: an unreadable, empty or
  weak file is an error and is never replaced by the environment variable or a deprecated one. With no
  file path, the primary variable wins over the deprecated ones.
\<close>

theorem credential_file_is_authoritative:
  "(case credential_file_path env file_env of
      Some path \<Rightarrow> required_token env rd file_env primary legacy =
        (case rd path of
           Inl e \<Rightarrow> Err (''failed to read service credential configured by '' @ file_env @ '': '' @ e)
         | Inr content \<Rightarrow>
             if trim content = [] then Err (''service credential configured by '' @ file_env @ '' is empty'')
             else validate_configured_token (trim content) file_env)
    | None \<Rightarrow> (case token_from_env env primary of
        Some v \<Rightarrow> required_token env rd file_env primary legacy = validate_configured_token v primary
      | None \<Rightarrow> (case first_legacy env legacy of
          Some (k, v) \<Rightarrow> required_token env rd file_env primary legacy = validate_configured_token v k
        | None \<Rightarrow> \<not> is_ok (required_token env rd file_env primary legacy))))"
  by (auto simp: required_token_def token_from_file_env_def read_credential_def is_ok_iff
      split: option.split sum.split)

end
