(* ===== verification/Control_Audit.thy ===== *)
theory Control_Audit
  imports Harbor_Prelude
begin

text \<open>
  The control plane's audit stream, from \<^verbatim>\<open>src/src/control_plane/audit.rs\<close>: redaction of snapshots, the bounded
  stream, paging and summaries. UUIDs and the clock are arguments: the \<open>i\<close>-th record handled by a
  call takes its generated id and its time stamp from \<open>gen i\<close>.
\<close>

definition MAX_ADMIN_AUDIT_RECORDS :: nat where "MAX_ADMIN_AUDIT_RECORDS = 500"

datatype audit_actor_kind = ActorUser | ActorSystem | ActorModel | ActorProvider

record audit_record =
  ar_audit_id :: string
  ar_workspace_id :: string
  ar_entity_kind :: string
  ar_entity_id :: string
  ar_action :: string
  ar_actor_kind :: audit_actor_kind
  ar_actor_id :: string
  ar_request_snapshot :: json
  ar_result_snapshot :: json
  ar_created_at :: "string option"

record audit_record_query =
  aq_limit :: "nat option"
  aq_cursor :: "nat option"
  aq_entity_kind :: "string option"
  aq_entity_id :: "string option"
  aq_action :: "string option"

record audit_record_page =
  pg_records :: "audit_record list"
  pg_total :: nat
  pg_limit :: nat
  pg_cursor :: "string option"
  pg_next_cursor :: "string option"
  pg_metadata_only :: bool
  pg_secret_scan :: string

record audit_summary =
  as_total :: nat
  as_window :: string
  as_by_entity_kind :: "nat btree_map"
  as_by_action :: "nat btree_map"
  as_by_actor_kind :: "nat btree_map"
  as_metadata_only :: bool
  as_secret_scan :: string

fun actor_kind_key :: "audit_actor_kind \<Rightarrow> string" where
  "actor_kind_key ActorUser = ''user''"
| "actor_kind_key ActorSystem = ''system''"
| "actor_kind_key ActorModel = ''model''"
| "actor_kind_key ActorProvider = ''provider''"

section \<open>Redaction\<close>

definition sensitive_audit_key :: "string \<Rightarrow> bool" where
  "sensitive_audit_key key \<longleftrightarrow>
     str_contains key ''secret'' \<or> str_contains key ''token'' \<or> str_contains key ''password'' \<or>
     str_contains key ''api_key'' \<or> str_contains key ''authorization'' \<or> str_contains key ''credential'' \<or>
     key = ''raw_path'' \<or> key = ''path'' \<or> ends_with key ''_path'' \<or>
     key = ''url'' \<or> ends_with key ''_url'' \<or> key = ''uri'' \<or> ends_with key ''_uri'' \<or>
     str_contains key ''session''"

definition backslash :: char where "backslash = char_of (92 :: nat)"

definition sensitive_audit_text :: "string \<Rightarrow> bool" where
  "sensitive_audit_text lower \<longleftrightarrow>
     str_contains lower ''rtsp://'' \<or> str_contains lower ''token='' \<or> str_contains lower ''secret='' \<or>
     str_contains lower ''api_key'' \<or> str_contains lower ''bearer '' \<or>
     str_contains lower [backslash, backslash] \<or> str_contains lower (''c:'' @ [backslash]) \<or>
     str_contains lower ''/mnt/'' \<or> str_contains lower ''.harborbeacon/''"

definition redact_audit_string :: "string \<Rightarrow> string" where
  "redact_audit_string v =
     (if sensitive_audit_text (to_ascii_lowercase v) then ''[redacted]'' else v)"

definition redact_entry :: "string \<times> json \<Rightarrow> string \<times> json" where
  "redact_entry kv =
     (let normalized = to_ascii_lowercase (trim (fst kv)) in
      if normalized = ''route_key'' then (''opaque_delivery_route_present'', JBool True)
      else if sensitive_audit_key normalized then (fst kv, JStr ''[redacted]'')
      else kv)"

fun redact_audit_value :: "json \<Rightarrow> json" where
  "redact_audit_value (JObj m) = jobj (map (\<lambda>kv. redact_entry (fst kv, redact_audit_value (snd kv))) m)"
| "redact_audit_value (JArr vs) = JArr (map redact_audit_value vs)"
| "redact_audit_value (JStr s) = JStr (redact_audit_string s)"
| "redact_audit_value v = v"

definition mark_metadata_only :: "json \<Rightarrow> json" where
  "mark_metadata_only v =
     (let obj = (case v of JObj m \<Rightarrow> m | _ \<Rightarrow> [(''value'', v)]) in
      JObj (bm_insert ''secret_scan'' (JStr ''clean'')
        (bm_insert ''redacted'' (JBool True) (bm_insert ''metadata_only'' (JBool True) obj))))"

section \<open>Records and the bounded stream\<close>

definition non_empty :: "string \<Rightarrow> string option" where
  "non_empty v = (if trim v = [] then None else Some (trim v))"

definition trim_or_default :: "string \<Rightarrow> string \<Rightarrow> string" where
  "trim_or_default v d = unwrap_or (non_empty (trim v)) d"

definition trim_or_generated :: "string \<Rightarrow> string \<Rightarrow> string \<Rightarrow> string" where
  "trim_or_generated uuid v prefix_id = unwrap_or (non_empty (trim v)) (prefix_id @ ''-'' @ uuid)"

definition sanitize_audit_record :: "string \<times> string \<Rightarrow> audit_record \<Rightarrow> audit_record" where
  "sanitize_audit_record fresh r =
     \<lparr>ar_audit_id = trim_or_generated (fst fresh) (ar_audit_id r) ''audit'',
      ar_workspace_id = trim_or_default (ar_workspace_id r) ''home-1'',
      ar_entity_kind = trim_or_default (ar_entity_kind r) ''unknown'',
      ar_entity_id = trim_or_default (ar_entity_id r) ''unknown'',
      ar_action = trim_or_default (ar_action r) ''unknown'',
      ar_actor_kind = ar_actor_kind r,
      ar_actor_id = trim_or_default (ar_actor_id r) ''system'',
      ar_request_snapshot = mark_metadata_only (redact_audit_value (ar_request_snapshot r)),
      ar_result_snapshot = mark_metadata_only (redact_audit_value (ar_result_snapshot r)),
      ar_created_at = or_else (Option.bind (ar_created_at r) (\<lambda>v. non_empty (trim v))) (Some (snd fresh))\<rparr>"

definition build_metadata_audit_record ::
  "string \<times> string \<Rightarrow> string \<Rightarrow> string \<Rightarrow> string \<Rightarrow> string \<Rightarrow> audit_actor_kind \<Rightarrow> string \<Rightarrow> json \<Rightarrow> json
    \<Rightarrow> audit_record" where
  "build_metadata_audit_record fresh workspace_id entity_kind entity_id act actor_kind actor_id request result =
     \<lparr>ar_audit_id = ''audit-'' @ fst fresh, ar_workspace_id = workspace_id, ar_entity_kind = entity_kind,
      ar_entity_id = entity_id, ar_action = act, ar_actor_kind = actor_kind, ar_actor_id = actor_id,
      ar_request_snapshot = mark_metadata_only (redact_audit_value request),
      ar_result_snapshot = mark_metadata_only (redact_audit_value result),
      ar_created_at = Some (snd fresh)\<rparr>"

definition sanitize_all :: "(nat \<Rightarrow> string \<times> string) \<Rightarrow> audit_record list \<Rightarrow> audit_record list" where
  "sanitize_all gen rs = map (\<lambda>i. sanitize_audit_record (gen i) (rs ! i)) [0..<length rs]"

definition sanitize_audit_stream :: "(nat \<Rightarrow> string \<times> string) \<Rightarrow> audit_record list \<Rightarrow> audit_record list" where
  "sanitize_audit_stream gen rs =
     sanitize_all gen (drop (length rs - MAX_ADMIN_AUDIT_RECORDS) rs)"

definition append_bounded_audit_record ::
  "(nat \<Rightarrow> string \<times> string) \<Rightarrow> audit_record list \<Rightarrow> audit_record \<Rightarrow> audit_record list" where
  "append_bounded_audit_record gen rs r =
     sanitize_audit_stream gen (rs @ [sanitize_audit_record (gen (length rs)) r])"

section \<open>Queries\<close>

definition opt_eq :: "string option \<Rightarrow> string \<Rightarrow> bool" where
  "opt_eq q v = (case q of None \<Rightarrow> True | Some x \<Rightarrow> v = x)"

definition audit_record_matches :: "audit_record_query \<Rightarrow> audit_record \<Rightarrow> bool" where
  "audit_record_matches q r \<longleftrightarrow> opt_eq (aq_entity_kind q) (ar_entity_kind r) \<and>
     opt_eq (aq_entity_id q) (ar_entity_id r) \<and> opt_eq (aq_action q) (ar_action r)"

definition query_audit_records ::
  "(nat \<Rightarrow> string \<times> string) \<Rightarrow> audit_record list \<Rightarrow> audit_record_query \<Rightarrow> audit_record_page" where
  "query_audit_records gen rs q =
     (let limit = max 1 (min 200 (unwrap_or (aq_limit q) 50));
          cursor = unwrap_or (aq_cursor q) 0;
          filtered = filter (audit_record_matches q) (rev rs);
          page = sanitize_all gen (take limit (drop cursor filtered));
          next_offset = cursor + length page
      in \<lparr>pg_records = page, pg_total = length filtered, pg_limit = limit,
          pg_cursor = (if cursor > 0 then Some (show_nat cursor) else None),
          pg_next_cursor = (if next_offset < length filtered then Some (show_nat next_offset) else None),
          pg_metadata_only = True, pg_secret_scan = ''clean''\<rparr>)"

definition bump :: "string \<Rightarrow> nat btree_map \<Rightarrow> nat btree_map" where
  "bump k m = bm_insert k (unwrap_or (hm_get m k) 0 + 1) m"

definition build_audit_summary :: "audit_record list \<Rightarrow> string \<Rightarrow> audit_summary" where
  "build_audit_summary rs window =
     \<lparr>as_total = length rs, as_window = window,
      as_by_entity_kind = fold (\<lambda>r. bump (ar_entity_kind r)) rs [],
      as_by_action = fold (\<lambda>r. bump (ar_action r)) rs [],
      as_by_actor_kind = fold (\<lambda>r. bump (actor_kind_key (ar_actor_kind r))) rs [],
      as_metadata_only = True, as_secret_scan = ''clean''\<rparr>"

section \<open>Redaction leaves nothing sensitive\<close>

definition norm_key :: "string \<Rightarrow> string" where
  "norm_key k = to_ascii_lowercase (trim k)"

definition clean_member :: "(json \<Rightarrow> bool) \<Rightarrow> string \<times> json \<Rightarrow> bool" where
  "clean_member ok kv \<longleftrightarrow> norm_key (fst kv) \<noteq> ''route_key'' \<and>
     (sensitive_audit_key (norm_key (fst kv)) \<longrightarrow> snd kv = JStr ''[redacted]'') \<and> ok (snd kv)"

fun clean :: "json \<Rightarrow> bool" where
  "clean (JObj m) \<longleftrightarrow> (\<forall>kv \<in> set m. norm_key (fst kv) \<noteq> ''route_key'' \<and>
     (sensitive_audit_key (norm_key (fst kv)) \<longrightarrow> snd kv = JStr ''[redacted]'') \<and> clean (snd kv))"
| "clean (JArr vs) \<longleftrightarrow> (\<forall>v \<in> set vs. clean v)"
| "clean (JStr s) \<longleftrightarrow> \<not> sensitive_audit_text (to_ascii_lowercase s)"
| "clean _ \<longleftrightarrow> True"

lemma clean_JObj: "clean (JObj m) \<longleftrightarrow> (\<forall>kv \<in> set m. clean_member clean kv)"
  by (simp add: clean_member_def)

lemma redacted_text_clean [simp]: "\<not> sensitive_audit_text (to_ascii_lowercase ''[redacted]'')"
  by code_simp

lemma marker_keys [simp]:
  "norm_key ''opaque_delivery_route_present'' \<noteq> ''route_key''"
  "\<not> sensitive_audit_key (norm_key ''opaque_delivery_route_present'')"
  "norm_key ''metadata_only'' \<noteq> ''route_key''"
  "\<not> sensitive_audit_key (norm_key ''metadata_only'')"
  "norm_key ''redacted'' \<noteq> ''route_key''"
  "\<not> sensitive_audit_key (norm_key ''redacted'')"
  "norm_key ''value'' \<noteq> ''route_key''"
  "\<not> sensitive_audit_key (norm_key ''value'')"
  "norm_key ''secret_scan'' \<noteq> ''route_key''"
  "sensitive_audit_key (norm_key ''secret_scan'')"
  by code_simp+

lemma redact_entry_clean: "clean (snd kv) \<Longrightarrow> clean_member clean (redact_entry kv)"
  by (auto simp: redact_entry_def clean_member_def Let_def simp flip: norm_key_def)

lemma redact_clean: "clean (redact_audit_value v)"
proof (induction v rule: redact_audit_value.induct)
  case (1 m)
  obtain m' where m': "redact_audit_value (JObj m) = JObj m'" "set m' \<subseteq>
      set (map (\<lambda>kv. redact_entry (fst kv, redact_audit_value (snd kv))) m)"
    by (metis jobj_JObj redact_audit_value.simps(1))
  show ?case unfolding m'(1) clean_JObj
  proof
    fix kv assume "kv \<in> set m'"
    then obtain x where "x \<in> set m" "kv = redact_entry (fst x, redact_audit_value (snd x))" using m'(2) by auto
    then show "clean_member clean kv" using redact_entry_clean 1 by simp
  qed
qed (auto simp: redact_audit_string_def)

text \<open>A clean value with sorted objects is a fixed point of the redaction.\<close>

fun sorted_objects :: "json \<Rightarrow> bool" where
  "sorted_objects (JObj m) \<longleftrightarrow> bm_inv m \<and> (\<forall>kv \<in> set m. sorted_objects (snd kv))"
| "sorted_objects (JArr vs) \<longleftrightarrow> (\<forall>v \<in> set vs. sorted_objects v)"
| "sorted_objects _ \<longleftrightarrow> True"

lemma redact_entry_sorted: "sorted_objects (snd kv) \<Longrightarrow> sorted_objects (snd (redact_entry kv))"
  by (simp add: redact_entry_def Let_def)

lemma redact_sorted: "sorted_objects (redact_audit_value v)"
proof (induction v rule: redact_audit_value.induct)
  case (1 m)
  obtain m' where m': "redact_audit_value (JObj m) = JObj m'" "bm_inv m'" "set m' \<subseteq>
      set (map (\<lambda>kv. redact_entry (fst kv, redact_audit_value (snd kv))) m)"
    by (metis jobj_JObj redact_audit_value.simps(1))
  have "sorted_objects (snd kv)" if "kv \<in> set m'" for kv
    using that m'(3) 1 redact_entry_sorted by fastforce
  then show ?case using m' by simp
qed auto

lemma redact_entry_fixed: "clean_member clean kv \<Longrightarrow> redact_entry kv = kv"
  by (cases kv) (auto simp: redact_entry_def clean_member_def Let_def simp flip: norm_key_def)

lemma redact_fixed: "clean v \<Longrightarrow> sorted_objects v \<Longrightarrow> redact_audit_value v = v"
proof (induction v rule: redact_audit_value.induct)
  case (1 m)
  have "map (\<lambda>kv. redact_entry (fst kv, redact_audit_value (snd kv))) m = m"
    using 1 by (intro map_idI) (auto simp: clean_JObj clean_member_def intro!: redact_entry_fixed)
  then show ?case using 1 by (simp add: jobj_sorted)
next
  case (2 vs)
  then show ?case by (simp add: map_idI)
qed (simp_all add: redact_audit_string_def)

text \<open>
  C34. Audit redaction is complete and stable. Whatever JSON value is given, at every depth of the redacted
  value: no member is named \<^verbatim>\<open>route_key\<close> (in any case, with any surrounding space), every member with a sensitive
  name holds the text \<^verbatim>\<open>[redacted]\<close>, and no string contains one of the sensitive fragments;
  redacting again changes nothing.
\<close>

theorem redaction_complete_and_idempotent:
  "clean (redact_audit_value v) \<and> redact_audit_value (redact_audit_value v) = redact_audit_value v"
  by (simp add: redact_clean redact_sorted redact_fixed)

section \<open>Snapshots and records\<close>

text \<open>What a stored snapshot looks like: a sorted object with the three markers, clean apart from them.\<close>

definition stored_snapshot :: "json \<Rightarrow> bool" where
  "stored_snapshot j \<longleftrightarrow> (\<exists>m. j = JObj m \<and> sorted_objects j \<and>
     hm_get m ''metadata_only'' = Some (JBool True) \<and> hm_get m ''redacted'' = Some (JBool True) \<and>
     hm_get m ''secret_scan'' = Some (JStr ''clean'') \<and>
     (\<forall>kv \<in> set m. fst kv = ''secret_scan'' \<or> clean_member clean kv))"

lemma clean_marked_member: "clean_member clean (''metadata_only'', JBool b)" "clean_member clean (''redacted'', JBool b)"
  by (simp_all add: clean_member_def)

lemma mark_stored:
  assumes m: "bm_inv m" "\<And>kv. kv \<in> set m \<Longrightarrow> sorted_objects (snd kv)"
    "\<And>kv. kv \<in> set m \<Longrightarrow> fst kv = ''secret_scan'' \<or> clean_member clean kv"
  shows "stored_snapshot (mark_metadata_only (JObj m))"
proof -
  let ?m1 = "bm_insert ''metadata_only'' (JBool True) m"
  let ?m2 = "bm_insert ''redacted'' (JBool True) ?m1"
  let ?m3 = "bm_insert ''secret_scan'' (JStr ''clean'') ?m2"
  have "set ?m3 \<subseteq> {(''secret_scan'', JStr ''clean''), (''redacted'', JBool True), (''metadata_only'', JBool True)} \<union> set m"
    using set_bm_insert [of "''secret_scan''" "JStr ''clean''" ?m2] set_bm_insert [of "''redacted''" "JBool True" ?m1]
      set_bm_insert [of "''metadata_only''" "JBool True" m] by blast
  then have "kv \<in> set ?m3 \<Longrightarrow> sorted_objects (snd kv) \<and> (fst kv = ''secret_scan'' \<or> clean_member clean kv)" for kv
    using m(2,3) [of kv] by (auto simp: clean_marked_member dest!: subsetD [of "set ?m3"])
  moreover have "mark_metadata_only (JObj m) = JObj ?m3" by (simp add: mark_metadata_only_def)
  ultimately show ?thesis
    unfolding stored_snapshot_def using m(1) by (auto simp: bm_get_insert)
qed

lemma snapshot_stored: "stored_snapshot (mark_metadata_only (redact_audit_value v))"
proof -
  have wrap: "stored_snapshot (mark_metadata_only j)" if "clean j" "sorted_objects j" "\<forall>m. j \<noteq> JObj m" for j
  proof -
    have "mark_metadata_only j = mark_metadata_only (JObj [(''value'', j)])"
      using that(3) by (cases j) (simp_all add: mark_metadata_only_def)
    moreover have "stored_snapshot (mark_metadata_only (JObj [(''value'', j)]))"
      using that by (intro mark_stored) (simp_all add: bm_inv_def clean_member_def)
    ultimately show ?thesis by simp
  qed
  show ?thesis
  proof (cases "\<exists>m. redact_audit_value v = JObj m")
    case True
    then obtain m where m: "redact_audit_value v = JObj m" by blast
    then show ?thesis
      using redact_clean [of v] redact_sorted [of v] by (auto simp: clean_member_def intro!: mark_stored)
  next
    case False
    then show ?thesis using wrap redact_clean redact_sorted by blast
  qed
qed

lemma snapshot_fixed: "stored_snapshot j \<Longrightarrow> mark_metadata_only (redact_audit_value j) = j"
proof -
  assume "stored_snapshot j"
  then obtain m where m: "j = JObj m" "sorted_objects j" "hm_get m ''metadata_only'' = Some (JBool True)"
      "hm_get m ''redacted'' = Some (JBool True)" "hm_get m ''secret_scan'' = Some (JStr ''clean'')"
      "\<forall>kv \<in> set m. fst kv = ''secret_scan'' \<or> clean_member clean kv"
    by (auto simp: stored_snapshot_def)
  let ?f = "\<lambda>kv. if fst kv = ''secret_scan'' then (fst kv, JStr ''[redacted]'') else kv"
  have each: "redact_entry (fst kv, redact_audit_value (snd kv)) = ?f kv" if "kv \<in> set m" for kv
  proof (cases "fst kv = ''secret_scan''")
    case True
    then show ?thesis by (simp add: redact_entry_def Let_def flip: norm_key_def)
  next
    case False
    then have "clean_member clean kv" using that m(6) by blast
    moreover from this have "redact_audit_value (snd kv) = snd kv"
      using that m(1,2) by (intro redact_fixed) (auto simp: clean_member_def)
    ultimately show ?thesis using False by (simp add: redact_entry_fixed)
  qed
  have inv: "bm_inv m" using m(1,2) by simp
  have keys: "map fst (map ?f m) = map fst m" by (simp add: comp_def if_distrib cong: if_cong)
  have idm: "\<forall>e \<in> set n. fst e \<noteq> ''secret_scan'' \<Longrightarrow> map ?f n = n" for n
    by (rule map_idI) simp
  have upd: "bm_inv n \<Longrightarrow> bm_insert ''secret_scan'' w (map ?f n) = bm_insert ''secret_scan'' w n" for w n
  proof (induction n)
    case (Cons e n)
    then have "fst e = ''secret_scan'' \<or> ''secret_scan'' < fst e \<Longrightarrow> map ?f n = n"
      by (intro idm) (auto simp: bm_inv_def)
    moreover have "bm_inv n" using Cons.prems by (simp add: bm_inv_def)
    ultimately show ?case using Cons.IH by (cases e) auto
  qed simp
  have other: "k \<noteq> ''secret_scan'' \<Longrightarrow> hm_get (map ?f m) k = hm_get m k" for k
    unfolding hm_get_def by (induction m) auto
  have inv': "bm_inv (map ?f m)" unfolding bm_inv_def keys using inv by (simp only: bm_inv_def)
  have "redact_audit_value j = jobj (map ?f m)" using each by (simp add: m(1) cong: map_cong)
  then have obj: "redact_audit_value j = JObj (map ?f m)" by (simp only: jobj_sorted [OF inv'])
  have "bm_insert ''redacted'' (JBool True) (bm_insert ''metadata_only'' (JBool True) (map ?f m)) = map ?f m"
    using m(3,4) inv' other by (simp add: bm_insert_same)
  then have "mark_metadata_only (redact_audit_value j) = JObj (bm_insert ''secret_scan'' (JStr ''clean'') (map ?f m))"
    unfolding obj by (simp add: mark_metadata_only_def)
  also have "\<dots> = j" unfolding upd [OF inv] using m(1,5) inv by (simp add: bm_insert_same)
  finally show ?thesis .
qed

definition stored_record :: "audit_record \<Rightarrow> bool" where
  "stored_record r \<longleftrightarrow>
     (\<forall>t \<in> {ar_audit_id r, ar_workspace_id r, ar_entity_kind r, ar_entity_id r, ar_action r, ar_actor_id r}.
        t \<noteq> [] \<and> trim t = t) \<and>
     (\<exists>t. ar_created_at r = Some t \<and> t \<noteq> [] \<and> trim t = t) \<and>
     stored_snapshot (ar_request_snapshot r) \<and> stored_snapshot (ar_result_snapshot r)"

lemma trim_or_default_fixed: "t \<noteq> [] \<Longrightarrow> trim t = t \<Longrightarrow> trim_or_default t d = t"
  by (simp add: trim_or_default_def non_empty_def unwrap_or_def)

lemma trim_or_generated_fixed: "t \<noteq> [] \<Longrightarrow> trim t = t \<Longrightarrow> trim_or_generated u t d = t"
  by (simp add: trim_or_generated_def non_empty_def unwrap_or_def)

lemma sanitize_stored_fixed: "stored_record r \<Longrightarrow> sanitize_audit_record fresh r = r"
  by (auto simp: stored_record_def sanitize_audit_record_def trim_or_default_fixed trim_or_generated_fixed
      snapshot_fixed non_empty_def or_else_def)

lemma trim_or_default_ok: "d \<noteq> [] \<Longrightarrow> trim d = d \<Longrightarrow> trim_or_default t d \<noteq> [] \<and> trim (trim_or_default t d) = trim_or_default t d"
  by (simp add: trim_or_default_def non_empty_def unwrap_or_def trim_idem)

text \<open>What the gen of ids and time stamps gives: non-empty text without surrounding space.\<close>

definition fresh_ok :: "string \<times> string \<Rightarrow> bool" where
  "fresh_ok f \<longleftrightarrow> trim (''audit-'' @ fst f) = ''audit-'' @ fst f \<and> snd f \<noteq> [] \<and> trim (snd f) = snd f"

lemma default_texts [simp]:
  "trim ''home-1'' = ''home-1''" "trim ''unknown'' = ''unknown''" "trim ''system'' = ''system''"
  by code_simp+

lemma created_at_ok:
  assumes "n \<noteq> []" "trim n = n"
  shows "\<exists>t. or_else (Option.bind c (\<lambda>v. non_empty (trim v))) (Some n) = Some t \<and> t \<noteq> [] \<and> trim t = t"
  using assms by (cases c) (simp_all add: or_else_def non_empty_def trim_idem)

lemma sanitize_stored: "fresh_ok f \<Longrightarrow> stored_record (sanitize_audit_record f r)"
  using trim_or_default_ok [of "''home-1''"] trim_or_default_ok [of "''unknown''"] trim_or_default_ok [of "''system''"]
  using created_at_ok [of "snd f" "ar_created_at r"]
  by (simp add: stored_record_def sanitize_audit_record_def snapshot_stored fresh_ok_def)
    (simp add: trim_or_generated_def non_empty_def unwrap_or_def trim_idem)

lemma sanitize_all_stored: "\<forall>r \<in> set rs. stored_record r \<Longrightarrow> sanitize_all gen rs = rs"
  unfolding sanitize_all_def by (rule nth_equalityI) (simp_all add: sanitize_stored_fixed)

lemma append_bounded_stored:
  assumes "\<And>i. fresh_ok (gen i)" "\<forall>r \<in> set rs. stored_record r"
  shows "append_bounded_audit_record gen rs r =
    drop (Suc (length rs) - 500) (rs @ [sanitize_audit_record (gen (length rs)) r])"
proof -
  let ?rs = "rs @ [sanitize_audit_record (gen (length rs)) r]"
  have "\<forall>x \<in> set (drop (length ?rs - MAX_ADMIN_AUDIT_RECORDS) ?rs). stored_record x"
    using assms(2) sanitize_stored [OF assms(1)] by (auto dest!: in_set_dropD)
  then show ?thesis
    by (simp add: append_bounded_audit_record_def sanitize_audit_stream_def sanitize_all_stored
        MAX_ADMIN_AUDIT_RECORDS_def del: drop_append)
qed

text \<open>A stream filled by appending, each append with its own gen.\<close>

fun append_all ::
  "audit_record list \<Rightarrow> ((nat \<Rightarrow> string \<times> string) \<times> audit_record) list \<Rightarrow> audit_record list" where
  "append_all st [] = st"
| "append_all st ((gen, r) # ops) = append_all (append_bounded_audit_record gen st r) ops"

definition latest :: "nat \<Rightarrow> 'a list \<Rightarrow> 'a list" where
  "latest n xs = drop (length xs - n) xs"

lemma latest_append: "latest n (latest n xs @ ys) = latest n (xs @ ys)"
  by (cases "length xs \<le> n") (simp_all add: latest_def add.commute)

lemma append_all_stored:
  assumes "\<forall>e \<in> set ops. \<forall>i. fresh_ok (fst e i)" "\<forall>r \<in> set st. stored_record r" "length st \<le> 500"
  shows "\<exists>rs. append_all st ops = latest 500 (st @ rs) \<and> length rs = length ops \<and> (\<forall>r \<in> set rs. stored_record r) \<and>
    (\<forall>i < length ops. \<exists>f. rs ! i = sanitize_audit_record f (snd (ops ! i)))"
  using assms
proof (induction st ops rule: append_all.induct)
  case (1 st)
  then show ?case by (intro exI [of _ "[]"]) (simp add: latest_def)
next
  case (2 st gen r ops)
  let ?r = "sanitize_audit_record (gen (length st)) r"
  let ?st = "append_bounded_audit_record gen st r"
  have st: "?st = latest 500 (st @ [?r])"
    using 2 by (subst append_bounded_stored) (simp_all add: latest_def add.commute)
  have r: "stored_record ?r" using 2 by (simp add: sanitize_stored)
  have "\<forall>x \<in> set ?st. stored_record x" "length ?st \<le> 500"
    using 2(3) r unfolding st by (auto simp: latest_def dest!: in_set_dropD)
  then obtain rs where rs: "append_all ?st ops = latest 500 (?st @ rs)" "length rs = length ops"
      "\<forall>r \<in> set rs. stored_record r" "\<forall>i < length ops. \<exists>f. rs ! i = sanitize_audit_record f (snd (ops ! i))"
    using 2 by auto
  have "append_all st ((gen, r) # ops) = latest 500 (st @ ?r # rs)"
    using rs(1) st latest_append [of 500 "st @ [?r]" rs] by simp
  moreover have "\<exists>f. (?r # rs) ! i = sanitize_audit_record f (snd (((gen, r) # ops) ! i))"
    if "i < Suc (length ops)" for i
    using that rs(4) by (cases i) (simp_all del: split_paired_Ex, blast)
  ultimately show ?case using rs r by (intro exI [of _ "?r # rs"]) simp
qed

text \<open>
  The audit stream keeps the latest 500 records, sanitised. Appending any sequence of records to the
  empty stream leaves exactly the last 500 of them (all, when there are fewer), in order, each in its
  sanitised form: non-blank trimmed identifiers and snapshots that carry the metadata markers and
  are redacted. The ids and time stamps supplied are required to be non-empty text without
  surrounding space.
\<close>

theorem audit_stream_keeps_latest:
  assumes "\<forall>e \<in> set ops. \<forall>i. fresh_ok (fst e i)"
  shows "length (append_all [] ops) = min 500 (length ops) \<and>
    (\<forall>r \<in> set (append_all [] ops). stored_record r) \<and>
    (\<forall>j < length (append_all [] ops). \<exists>f. append_all [] ops ! j =
       sanitize_audit_record f (snd (ops ! (length ops - length (append_all [] ops) + j))))"
proof -
  obtain rs where rs: "append_all [] ops = latest 500 rs" "length rs = length ops"
      "\<forall>r \<in> set rs. stored_record r" "\<forall>i < length ops. \<exists>f. rs ! i = sanitize_audit_record f (snd (ops ! i))"
    using append_all_stored [OF assms, of "[]"] by auto
  have len: "length (append_all [] ops) = min 500 (length ops)" by (simp add: rs(1,2) latest_def)
  have idx: "append_all [] ops ! j = rs ! (length ops - length (append_all [] ops) + j)"
    "length ops - length (append_all [] ops) + j < length ops"
    if "j < length (append_all [] ops)" for j
  proof -
    have "length ops - length (append_all [] ops) = length ops - 500" using len by linarith
    then show "append_all [] ops ! j = rs ! (length ops - length (append_all [] ops) + j)"
      using rs(2) by (simp add: rs(1) latest_def)
    show "length ops - length (append_all [] ops) + j < length ops" using that len by linarith
  qed
  have "\<forall>r \<in> set (append_all [] ops). stored_record r"
    using rs(1,3) by (auto simp: latest_def dest!: in_set_dropD)
  then show ?thesis using len idx rs(4) by simp
qed

definition sample_audit_record :: audit_record where
  "sample_audit_record = \<lparr>ar_audit_id = '' '', ar_workspace_id = [], ar_entity_kind = ''camera'',
     ar_entity_id = '' cam-1'', ar_action = ''view'', ar_actor_kind = ActorUser, ar_actor_id = ''u'',
     ar_request_snapshot = JObj [(''Route_Key'', JStr ''gw''), (''rtsp_url'', JStr ''rtsp://x'')],
     ar_result_snapshot = JStr ''Bearer abc'', ar_created_at = None\<rparr>"

definition sample_supply :: "nat \<Rightarrow> string \<times> string" where
  "sample_supply i = (''f00d'', ''1700000000'')"

lemma sample_supply_ok: "fresh_ok (sample_supply i)"
  unfolding sample_supply_def by code_simp

theorem audit_stream_keeps_latest_witness:
  "length (append_all [] [(sample_supply, sample_audit_record)]) = 1 \<and>
   list_all stored_record (append_all [] [(sample_supply, sample_audit_record)])"
  using audit_stream_keeps_latest [of "[(sample_supply, sample_audit_record)]"]
  by (simp add: sample_supply_ok list_all_iff del: append_all.simps)

section \<open>Paging and summaries\<close>

fun walk_pages ::
  "nat \<Rightarrow> (nat \<Rightarrow> string \<times> string) \<Rightarrow> audit_record list \<Rightarrow> audit_record_query \<Rightarrow> audit_record list" where
  "walk_pages 0 gen rs q = []"
| "walk_pages (Suc n) gen rs q =
     (let p = query_audit_records gen rs q in
      pg_records p @ (case pg_next_cursor p of
        None \<Rightarrow> [] | Some c \<Rightarrow> walk_pages n gen rs (q\<lparr>aq_cursor := Some (read_nat c)\<rparr>)))"

lemma walk_pages_from:
  assumes "\<forall>r \<in> set rs. stored_record r"
  shows "length (filter (audit_record_matches q) rs) - c < n \<Longrightarrow>
    walk_pages n gen rs (q\<lparr>aq_cursor := Some c\<rparr>) = drop c (filter (audit_record_matches q) (rev rs))"
proof (induction n arbitrary: c)
  case (Suc n)
  let ?m = "audit_record_matches q"
  let ?fs = "filter ?m (rev rs)"
  define k where "k = max 1 (min 200 (unwrap_or (aq_limit q) 50))"
  then have k1: "1 \<le> k" by simp
  have m: "audit_record_matches (q\<lparr>aq_cursor := x\<rparr>) = ?m" for x
    by (rule ext) (simp add: audit_record_matches_def)
  have len: "length ?fs = length (filter ?m rs)" by (simp add: rev_filter [symmetric])
  have page: "sanitize_all gen (take k (drop c ?fs)) = take k (drop c ?fs)"
    using assms by (intro sanitize_all_stored) (auto dest!: in_set_takeD in_set_dropD)
  have lim: "max 1 (min 200 (unwrap_or (aq_limit (q\<lparr>aq_cursor := x\<rparr>)) 50)) = k" for x by (simp add: k_def)
  note query = query_audit_records_def [of gen rs "q\<lparr>aq_cursor := Some c\<rparr>", unfolded lim Let_def m]
  show ?case
  proof (cases "c + k < length ?fs")
    case True
    then have "walk_pages n gen rs (q\<lparr>aq_cursor := Some (c + k)\<rparr>) = drop (c + k) ?fs"
      using Suc k1 by (intro Suc.IH) (simp add: len)
    moreover have "take k (drop c ?fs) @ drop (c + k) ?fs = drop c ?fs"
      by (metis append_take_drop_id drop_drop add.commute)
    moreover have "length (take k (drop c ?fs)) = k" using True by simp
    ultimately show ?thesis
      using True by (simp add: query page)
  next
    case False
    then have all: "take k (drop c ?fs) = drop c ?fs" by simp
    then show ?thesis using page by (simp add: query)
  qed
qed simp

text \<open>
  Paging loses and repeats nothing. Following the cursors from the first page of a stored stream, with
  any limit and any filters, yields exactly the matching records, newest first, each once; as many
  requests as there are matching records plus one are enough.
\<close>

theorem paging_enumerates_matches:
  assumes "\<forall>r \<in> set rs. stored_record r" "length (filter (audit_record_matches q) rs) < n"
  shows "walk_pages n gen rs (q\<lparr>aq_cursor := Some 0\<rparr>) = filter (audit_record_matches q) (rev rs)"
  using walk_pages_from [OF assms(1), of q 0 n] assms(2) by simp

definition sample_query :: audit_record_query where
  "sample_query = \<lparr>aq_limit = Some 1, aq_cursor = None, aq_entity_kind = Some ''camera'', aq_entity_id = None,
     aq_action = None\<rparr>"

theorem paging_enumerates_matches_witness:
  "let r = sanitize_audit_record (sample_supply 0) sample_audit_record in
   walk_pages 3 sample_supply [r, r] (sample_query\<lparr>aq_cursor := Some 0\<rparr>) = [r, r]"
proof -
  let ?r = "sanitize_audit_record (sample_supply 0) sample_audit_record"
  have "stored_record ?r" by (simp add: sanitize_stored sample_supply_ok)
  moreover have "audit_record_matches sample_query ?r" by code_simp
  ultimately show ?thesis
    using paging_enumerates_matches [of "[?r, ?r]" sample_query 3 sample_supply] by (simp add: Let_def)
qed

lemma hm_get_fold_bump:
  "unwrap_or (hm_get (fold (\<lambda>r. bump (f r)) rs m) k) 0 =
     unwrap_or (hm_get m k) 0 + length (filter (\<lambda>r. f r = k) rs)"
  by (induction rs arbitrary: m) (auto simp: bump_def bm_get_insert unwrap_or_def split: option.splits)

text \<open>
  Audit summaries count. For every entity kind, action and actor kind, the summary holds the number of
  records with it (zero when it has no entry), and each of the three tables adds up the same records.
\<close>

theorem audit_summary_counts:
  "unwrap_or (hm_get (as_by_entity_kind (build_audit_summary rs w)) k) 0
     = length (filter (\<lambda>r. ar_entity_kind r = k) rs) \<and>
   unwrap_or (hm_get (as_by_action (build_audit_summary rs w)) k) 0
     = length (filter (\<lambda>r. ar_action r = k) rs) \<and>
   unwrap_or (hm_get (as_by_actor_kind (build_audit_summary rs w)) (actor_kind_key a)) 0
     = length (filter (\<lambda>r. ar_actor_kind r = a) rs) \<and>
   as_total (build_audit_summary rs w) = length rs"
proof -
  have "actor_kind_key x = actor_kind_key a \<longleftrightarrow> x = a" for x by (cases x; cases a) simp_all
  then show ?thesis by (simp add: build_audit_summary_def hm_get_fold_bump)
qed

end
