(* ===== verification/Model_Routing.thy ===== *)
theory Model_Routing
  imports Harbor_Prelude
begin

text \<open>
  Model endpoints and route policies (\<^verbatim>\<open>src/src/control_plane/models.rs\<close>) and the routing projection
  (\<^verbatim>\<open>src/src/control_plane/routing.rs\<close>): which endpoint a policy selects, what the projection reports, and the
  readiness of each capability. The stable sort by a comparator chained with \<^verbatim>\<open>then\<close> is
  \<^verbatim>\<open>sort_key\<close> on the triple of keys.
\<close>

section \<open>Models and policies\<close>

datatype model_kind = KLlm | KVlm | KOcr | KAsr | KDetector | KEmbedder | KReranker

fun model_kind_as_str :: "model_kind \<Rightarrow> string" where
  "model_kind_as_str KLlm = ''llm''"
| "model_kind_as_str KVlm = ''vlm''"
| "model_kind_as_str KOcr = ''ocr''"
| "model_kind_as_str KAsr = ''asr''"
| "model_kind_as_str KDetector = ''detector''"
| "model_kind_as_str KEmbedder = ''embedder''"
| "model_kind_as_str KReranker = ''reranker''"

datatype model_endpoint_kind = EpLocal | EpSidecar | EpCloud

fun endpoint_kind_as_str :: "model_endpoint_kind \<Rightarrow> string" where
  "endpoint_kind_as_str EpLocal = ''local''"
| "endpoint_kind_as_str EpSidecar = ''sidecar''"
| "endpoint_kind_as_str EpCloud = ''cloud''"

datatype model_endpoint_status = EpActive | EpDegraded | EpDisabled

fun endpoint_status_as_str :: "model_endpoint_status \<Rightarrow> string" where
  "endpoint_status_as_str EpActive = ''active''"
| "endpoint_status_as_str EpDegraded = ''degraded''"
| "endpoint_status_as_str EpDisabled = ''disabled''"

record model_endpoint =
  me_model_endpoint_id :: string
  me_workspace_id :: "string option"
  me_provider_account_id :: "string option"
  me_model_kind :: model_kind
  me_endpoint_kind :: model_endpoint_kind
  me_provider_key :: string
  me_model_name :: string
  me_capability_tags :: "string list"
  me_cost_policy :: json
  me_status :: model_endpoint_status
  me_metadata :: json

datatype privacy_level = StrictLocal | AllowRedactedCloud | AllowCloud

record model_route_policy =
  mr_route_policy_id :: string
  mr_workspace_id :: string
  mr_domain_scope :: string
  mr_modality :: string
  mr_privacy_level :: privacy_level
  mr_local_preferred :: bool
  mr_max_cost_per_run :: "rat option"
  mr_fallback_order :: "string list"
  mr_status :: string
  mr_metadata :: json

section \<open>Projections\<close>

record routing_runtime_projection =
  rr_runtime_id :: string
  rr_status :: string
  rr_enabled :: bool
  rr_capabilities :: "string list"

record domain_route_projection =
  dr_domain_id :: string
  dr_display_name :: string
  dr_owner_lane :: string
  dr_preferred_order :: "string list"
  dr_boundary :: string
  dr_status :: string

record endpoint_kind_counts =
  ec_local :: nat
  ec_sidecar :: nat
  ec_cloud :: nat
  ec_disabled :: nat

record model_route_policy_projection =
  mp_route_policy_id :: string
  mp_domain_scope :: string
  mp_modality :: string
  mp_privacy_level :: privacy_level
  mp_local_preferred :: bool
  mp_fallback_order :: "string list"
  mp_status :: string
  mp_cloud_allowed :: bool
  mp_cloud_fallback_allowed :: bool
  mp_endpoint_counts :: endpoint_kind_counts
  mp_selected_endpoint_id :: "string option"
  mp_selected_endpoint_kind :: "string option"
  mp_blockers :: "string list"

record routing_capability_projection =
  rc_capability_id :: string
  rc_route_policy_id :: string
  rc_readiness :: string
  rc_local_only :: bool
  rc_selected_endpoint_id :: "string option"
  rc_blockers :: "string list"

record routing_boundary_projection =
  rb_boundary_id :: string
  rb_owner_lane :: string
  rb_status :: string
  rb_note :: string

record routing_status =
  rst_kind :: string
  rst_generated_at :: string
  rst_metadata_only :: bool
  rst_scope :: string
  rst_execution_routes :: "domain_route_projection list"
  rst_model_route_policies :: "model_route_policy_projection list"
  rst_capability_readiness :: "routing_capability_projection list"
  rst_runtimes :: "routing_runtime_projection list"
  rst_boundaries :: "routing_boundary_projection list"
  rst_fallback_blockers :: "string list"
  rst_secret_scan :: string

section \<open>Selection\<close>

definition modality_matches :: "string \<Rightarrow> string \<Rightarrow> bool" where
  "modality_matches kind modality \<longleftrightarrow>
     eq_ignore_ascii_case kind modality \<or>
     (eq_ignore_ascii_case modality ''text'' \<and> eq_ignore_ascii_case kind ''llm'') \<or>
     (eq_ignore_ascii_case modality ''multimodal'' \<and> (kind = ''llm'' \<or> kind = ''vlm''))"

definition endpoint_matches_policy :: "model_endpoint \<Rightarrow> model_route_policy \<Rightarrow> bool" where
  "endpoint_matches_policy e p =
     (let policy_key = replace_char (mr_route_policy_id p) (CHR ''.'') ''_'' in
      if list_ex (\<lambda>tag. eq_ignore_ascii_case tag (mr_route_policy_id p) \<or> tag = policy_key)
           (me_capability_tags e) then True
      else case Option.bind (json_get (mr_metadata p) ''capability'') as_str of
             Some capability \<Rightarrow> list_ex (\<lambda>tag. eq_ignore_ascii_case tag capability) (me_capability_tags e)
           | None \<Rightarrow> modality_matches (model_kind_as_str (me_model_kind e)) (mr_modality p))"

definition normalized_fallback_order :: "model_route_policy \<Rightarrow> string list" where
  "normalized_fallback_order p =
     (if mr_fallback_order p = [] then [''local'', ''sidecar'', ''cloud'']
      else filter (\<lambda>v. v \<noteq> []) (map (\<lambda>v. to_ascii_lowercase (trim v)) (mr_fallback_order p)))"

fun position :: "('a \<Rightarrow> bool) \<Rightarrow> 'a list \<Rightarrow> nat option" where
  "position P [] = None"
| "position P (x # xs) = (if P x then Some 0 else map_option Suc (position P xs))"

definition endpoint_order :: "string list \<Rightarrow> model_endpoint \<Rightarrow> nat" where
  "endpoint_order fallback_order e =
     unwrap_or (position (\<lambda>kind. kind = endpoint_kind_as_str (me_endpoint_kind e)) fallback_order)
       (length fallback_order)"

fun endpoint_status_order :: "model_endpoint_status \<Rightarrow> nat" where
  "endpoint_status_order EpActive = 0"
| "endpoint_status_order EpDegraded = 1"
| "endpoint_status_order EpDisabled = 2"

definition candidate_key :: "string list \<Rightarrow> model_endpoint \<Rightarrow> nat \<times> nat \<times> string" where
  "candidate_key fallback_order e =
     (endpoint_order fallback_order e, endpoint_status_order (me_status e), me_model_endpoint_id e)"

definition model_route_candidates :: "model_route_policy \<Rightarrow> model_endpoint list \<Rightarrow> model_endpoint list" where
  "model_route_candidates p endpoints =
     (let cloud_allowed = mr_privacy_level p \<noteq> StrictLocal;
          candidates = filter (\<lambda>e. endpoint_matches_policy e p)
            (filter (\<lambda>e. cloud_allowed \<or> me_endpoint_kind e \<noteq> EpCloud)
              (filter (\<lambda>e. me_status e \<noteq> EpDisabled) endpoints))
      in sort_key (candidate_key (normalized_fallback_order p)) candidates)"

definition count_endpoint :: "model_endpoint \<Rightarrow> endpoint_kind_counts \<Rightarrow> endpoint_kind_counts" where
  "count_endpoint e c =
     (if me_status e = EpDisabled then c\<lparr>ec_disabled := ec_disabled c + 1\<rparr>
      else case me_endpoint_kind e of
             EpLocal \<Rightarrow> c\<lparr>ec_local := ec_local c + 1\<rparr>
           | EpSidecar \<Rightarrow> c\<lparr>ec_sidecar := ec_sidecar c + 1\<rparr>
           | EpCloud \<Rightarrow> c\<lparr>ec_cloud := ec_cloud c + 1\<rparr>)"

definition endpoint_kind_counts_of :: "model_route_policy \<Rightarrow> model_endpoint list \<Rightarrow> endpoint_kind_counts" where
  "endpoint_kind_counts_of p endpoints =
     fold count_endpoint (filter (\<lambda>e. endpoint_matches_policy e p) endpoints)
       \<lparr>ec_local = 0, ec_sidecar = 0, ec_cloud = 0, ec_disabled = 0\<rparr>"

definition project_model_route_policy ::
  "model_endpoint list \<Rightarrow> model_route_policy \<Rightarrow> model_route_policy_projection" where
  "project_model_route_policy endpoints p =
     (let cloud_allowed = mr_privacy_level p \<noteq> StrictLocal;
          cloud_fallback_allowed = cloud_allowed \<and>
            list_ex (\<lambda>kind. eq_ignore_ascii_case kind ''cloud'') (mr_fallback_order p);
          candidates = model_route_candidates p endpoints;
          selected = (case candidates of [] \<Rightarrow> None | e # _ \<Rightarrow> Some e);
          blockers =
            (if candidates = []
             then [''route_policy='' @ mr_route_policy_id p @ '' has no enabled endpoint candidates''] else [])
            @ (if mr_route_policy_id p = ''semantic.router'' \<and> cloud_fallback_allowed
               then [''semantic.router must remain local-only''] else [])
      in \<lparr>mp_route_policy_id = mr_route_policy_id p, mp_domain_scope = mr_domain_scope p,
          mp_modality = mr_modality p, mp_privacy_level = mr_privacy_level p,
          mp_local_preferred = mr_local_preferred p, mp_fallback_order = normalized_fallback_order p,
          mp_status = mr_status p, mp_cloud_allowed = cloud_allowed,
          mp_cloud_fallback_allowed = cloud_fallback_allowed,
          mp_endpoint_counts = endpoint_kind_counts_of p endpoints,
          mp_selected_endpoint_id = map_option me_model_endpoint_id selected,
          mp_selected_endpoint_kind = map_option (endpoint_kind_as_str \<circ> me_endpoint_kind) selected,
          mp_blockers = blockers\<rparr>)"

section \<open>Readiness and the status document\<close>

definition capability_id_for_policy :: "model_route_policy_projection \<Rightarrow> string" where
  "capability_id_for_policy p =
     (let i = mp_route_policy_id p in
      if i = ''semantic.router'' then ''semantic_router''
      else if i = ''retrieval.answer'' then ''retrieval_answer''
      else if i = ''retrieval.embed'' then ''retrieval_embed''
      else if i = ''retrieval.ocr'' then ''retrieval_ocr''
      else if i = ''retrieval.vision_summary'' then ''retrieval_vision_summary''
      else replace_char i (CHR ''.'') ''_'')"

definition capability_readiness_of :: "model_route_policy_projection \<Rightarrow> routing_capability_projection" where
  "capability_readiness_of p =
     \<lparr>rc_capability_id = capability_id_for_policy p, rc_route_policy_id = mp_route_policy_id p,
      rc_readiness =
        (if mp_selected_endpoint_id p \<noteq> None \<and> mp_blockers p = [] then ''ready''
         else if mp_selected_endpoint_id p \<noteq> None then ''degraded'' else ''blocked''),
      rc_local_only = (\<not> mp_cloud_allowed p \<or> \<not> mp_cloud_fallback_allowed p),
      rc_selected_endpoint_id = mp_selected_endpoint_id p, rc_blockers = mp_blockers p\<rparr>"

definition build_capability_readiness ::
  "model_route_policy_projection list \<Rightarrow> routing_capability_projection list" where
  "build_capability_readiness ps = map capability_readiness_of ps"

definition default_execution_routes :: "domain_route_projection list" where
  "default_execution_routes =
     [\<lparr>dr_domain_id = ''harboros_system'', dr_display_name = ''HarborOS System Domain'',
       dr_owner_lane = ''harbor-hos-control'',
       dr_preferred_order = [''middleware_api'', ''midcli'', ''browser'', ''mcp''],
       dr_boundary = ''system control stays separate from AIoT device-native control'',
       dr_status = ''active''\<rparr>,
      \<lparr>dr_domain_id = ''home_device'', dr_display_name = ''Home Device Domain'', dr_owner_lane = ''harbor-aiot'',
       dr_preferred_order = [''native_adapter'', ''lan_bridge'', ''harboros_connector'', ''cloud_or_mcp''],
       dr_boundary = ''device-native work does not default to HarborOS CLI'', dr_status = ''active''\<rparr>]"

definition default_routing_boundaries :: "routing_boundary_projection list" where
  "default_routing_boundaries =
     [\<lparr>rb_boundary_id = ''im_gateway_route_registry'', rb_owner_lane = ''harbor-im-gateway'',
       rb_status = ''external'',
       rb_note = ''Beacon treats transport route handles as opaque delivery metadata.''\<rparr>,
      \<lparr>rb_boundary_id = ''beacon_business_routing'', rb_owner_lane = ''harbor-framework'',
       rb_status = ''beacon_owned'',
       rb_note = ''Planner, model route policy, approval, artifact, and audit truth stay in Beacon.''\<rparr>]"

definition build_routing_status ::
  "model_endpoint list \<Rightarrow> model_route_policy list \<Rightarrow> routing_runtime_projection list \<Rightarrow> string \<Rightarrow> routing_status" where
  "build_routing_status endpoints policies runtimes generated_at =
     (let projections = map (project_model_route_policy endpoints) policies in
      \<lparr>rst_kind = ''harborbeacon.routing_status.v1'', rst_generated_at = generated_at,
       rst_metadata_only = True, rst_scope = ''beacon_internal_orchestration'',
       rst_execution_routes = default_execution_routes, rst_model_route_policies = projections,
       rst_capability_readiness = build_capability_readiness projections, rst_runtimes = runtimes,
       rst_boundaries = default_routing_boundaries,
       rst_fallback_blockers = concat (map mp_blockers projections), rst_secret_scan = ''clean''\<rparr>)"

section \<open>What is selected\<close>

text \<open>The endpoints a policy may use at all.\<close>

definition eligible :: "model_route_policy \<Rightarrow> model_endpoint \<Rightarrow> bool" where
  "eligible p e \<longleftrightarrow> me_status e \<noteq> EpDisabled \<and>
     (mr_privacy_level p = StrictLocal \<longrightarrow> me_endpoint_kind e \<noteq> EpCloud) \<and> endpoint_matches_policy e p"

lemma candidates_eq:
  "model_route_candidates p es = sort_key (candidate_key (normalized_fallback_order p)) (filter (eligible p) es)"
  by (auto simp: model_route_candidates_def Let_def eligible_def intro!: arg_cong2 [where f = sort_key] filter_cong)

lemma set_candidates: "set (model_route_candidates p es) = {e \<in> set es. eligible p e}"
  by (auto simp: candidates_eq)

lemma sort_key_hd_least: "sort_key f xs = y # ys \<Longrightarrow> x \<in> set xs \<Longrightarrow> f y \<le> f x"
  using sorted_sort_key [of f xs] set_sort [of f xs] by auto

text \<open>
  A route policy selects the best endpoint it may use. If no endpoint is eligible (enabled, of a kind the
  privacy level admits, and matching the policy), nothing is selected and the projection names a blocker;
  otherwise the selected endpoint is eligible and no eligible endpoint has a smaller key, that is, an
  earlier kind in the fallback order, then a better status, then a smaller id. In particular a strictly
  local policy never selects a cloud endpoint.
\<close>

theorem selected_endpoint_is_best_eligible:
  "case mp_selected_endpoint_id (project_model_route_policy es p) of
     None \<Rightarrow> (\<forall>e \<in> set es. \<not> eligible p e) \<and> mp_blockers (project_model_route_policy es p) \<noteq> []
   | Some i \<Rightarrow> \<exists>e \<in> set es. me_model_endpoint_id e = i \<and> eligible p e \<and>
       mp_selected_endpoint_kind (project_model_route_policy es p) = Some (endpoint_kind_as_str (me_endpoint_kind e)) \<and>
       (mr_privacy_level p = StrictLocal \<longrightarrow> me_endpoint_kind e \<noteq> EpCloud) \<and>
       (\<forall>x \<in> set es. eligible p x \<longrightarrow>
          candidate_key (normalized_fallback_order p) e \<le> candidate_key (normalized_fallback_order p) x)"
proof (cases "model_route_candidates p es")
  case Nil
  then have "\<forall>e \<in> set es. \<not> eligible p e" using set_candidates [of p es] by auto
  then show ?thesis using Nil by (simp add: project_model_route_policy_def Let_def)
next
  case (Cons e rest)
  have e: "e \<in> set es" "eligible p e" using set_candidates [of p es] Cons by auto
  have least: "candidate_key (normalized_fallback_order p) e \<le> candidate_key (normalized_fallback_order p) x"
    if "x \<in> set es" "eligible p x" for x
    using sort_key_hd_least [of "candidate_key (normalized_fallback_order p)" "filter (eligible p) es" e rest x]
      Cons that by (simp add: candidates_eq)
  show ?thesis
    using Cons e least by (auto simp: project_model_route_policy_def Let_def eligible_def intro!: bexI [of _ e])
qed

definition cloud_endpoint :: model_endpoint where
  "cloud_endpoint = \<lparr>me_model_endpoint_id = ''ep-cloud'', me_workspace_id = None, me_provider_account_id = None,
     me_model_kind = KLlm, me_endpoint_kind = EpCloud, me_provider_key = ''p'', me_model_name = ''m'',
     me_capability_tags = [], me_cost_policy = JNull, me_status = EpActive, me_metadata = JNull\<rparr>"

definition local_endpoint :: model_endpoint where
  "local_endpoint = cloud_endpoint\<lparr>me_model_endpoint_id := ''ep-local'', me_endpoint_kind := EpLocal,
     me_status := EpDegraded\<rparr>"

definition text_policy :: "privacy_level \<Rightarrow> model_route_policy" where
  "text_policy lvl = \<lparr>mr_route_policy_id = ''retrieval.answer'', mr_workspace_id = ''home-1'', mr_domain_scope = ''retrieval'',
     mr_modality = ''Text'', mr_privacy_level = lvl, mr_local_preferred = True, mr_max_cost_per_run = None,
     mr_fallback_order = [], mr_status = ''active'', mr_metadata = JNull\<rparr>"

lemma text_policy_selects_local:
  "mp_selected_endpoint_id (project_model_route_policy [cloud_endpoint, local_endpoint] (text_policy StrictLocal))
     = Some ''ep-local''"
  by code_simp

theorem selected_endpoint_is_best_eligible_witness:
  "\<exists>e \<in> set [cloud_endpoint, local_endpoint]. me_model_endpoint_id e = ''ep-local'' \<and>
     eligible (text_policy StrictLocal) e \<and> me_endpoint_kind e \<noteq> EpCloud"
proof -
  have "mr_privacy_level (text_policy StrictLocal) = StrictLocal" by (simp add: text_policy_def)
  then show ?thesis
    using selected_endpoint_is_best_eligible [of "[cloud_endpoint, local_endpoint]" "text_policy StrictLocal"]
    unfolding text_policy_selects_local option.case by blast
qed

text \<open>
  The projection's local-only flag is about the written fallback order, not about the selection: for a
  policy that admits the cloud and leaves the fallback order empty, an eligible cloud endpoint that is
  the only one is selected, while the capability is reported as ready and local-only.
\<close>

theorem local_only_flag_can_hide_cloud_selection:
  assumes "mr_privacy_level p \<noteq> StrictLocal" "mr_fallback_order p = []" "mr_route_policy_id p \<noteq> ''semantic.router''"
    "eligible p e" "me_endpoint_kind e = EpCloud"
  shows "mp_selected_endpoint_kind (project_model_route_policy [e] p) = Some ''cloud'' \<and>
    rc_local_only (capability_readiness_of (project_model_route_policy [e] p)) \<and>
    rc_readiness (capability_readiness_of (project_model_route_policy [e] p)) = ''ready''"
  using assms by (simp add: project_model_route_policy_def capability_readiness_of_def Let_def candidates_eq)

lemma cloud_endpoint_eligible: "eligible (text_policy AllowCloud) cloud_endpoint"
  by code_simp

theorem local_only_flag_can_hide_cloud_selection_witness:
  "mp_selected_endpoint_kind (project_model_route_policy [cloud_endpoint] (text_policy AllowCloud)) = Some ''cloud'' \<and>
   rc_local_only (capability_readiness_of (project_model_route_policy [cloud_endpoint] (text_policy AllowCloud)))"
  using local_only_flag_can_hide_cloud_selection [of "text_policy AllowCloud" cloud_endpoint] cloud_endpoint_eligible
  by (simp add: text_policy_def cloud_endpoint_def)

end
