(* ===== verification/Dvr.thy ===== *)
theory Dvr
  imports Harbor_Prelude
begin

text \<open>
  DVR recording settings and the capacity estimate, from \<^verbatim>\<open>src/src/runtime/dvr.rs\<close>. Settings are \<^verbatim>\<open>u32\<close> and
  \<^verbatim>\<open>u64\<close> machine words and the estimate is computed in wrapping and saturating word arithmetic.
\<close>

record dvr_recording_settings =
  dv_recording_root :: string
  dv_media_library_root :: string
  dv_retention_days :: u32
  dv_segment_seconds :: u32
  dv_continuous_recording_enabled :: bool
  dv_low_bitrate_stream_preferred :: bool
  dv_continuous_bitrate_mbps :: u32
  dv_high_res_event_clips_enabled :: bool
  dv_high_res_event_clip_seconds :: u32
  dv_continuous_stream_path_hint :: string
  dv_high_res_stream_path_hint :: string
  dv_disk_budget_gb :: "u64 option"
  dv_keyframe_count :: u32
  dv_keyframe_interval_seconds :: u32
  dv_enabled_device_ids :: "string list"

record dvr_capacity_estimate =
  dc_camera_count :: nat
  dc_enabled_camera_count :: nat
  dc_retention_days :: u32
  dc_bitrate_mbps :: u32
  dc_estimated_bytes_per_camera :: u64
  dc_estimated_bytes_enabled_total :: u64
  dc_disk_budget_bytes :: "u64 option"
  dc_disk_budget_warning :: "string option"

record dvr_recording_status =
  ds_device_id :: string
  ds_status :: string
  ds_started_at :: "string option"
  ds_updated_at :: "string option"
  ds_stream_kind :: string
  ds_last_segment_path :: "string option"
  ds_live_mjpeg_url :: "string option"
  ds_message :: string

record dvr_recording_status_response =
  dq_generated_at :: string
  dq_settings :: dvr_recording_settings
  dq_capacity :: dvr_capacity_estimate
  dq_statuses :: "dvr_recording_status list"
  dq_root_exists :: bool
  dq_root_writable :: bool

definition HARBORLINK_DVR_ROOT :: string where
  "HARBORLINK_DVR_ROOT = ''/mnt/software/harborlink/camera-dvr''"

definition default_recording_root :: string where
  "default_recording_root = HARBORLINK_DVR_ROOT"

definition default_media_library_root :: string where
  "default_media_library_root = HARBORLINK_DVR_ROOT @ ''/library''"

definition default_dvr_settings :: dvr_recording_settings where
  "default_dvr_settings =
     \<lparr>dv_recording_root = default_recording_root, dv_media_library_root = default_media_library_root,
      dv_retention_days = 7, dv_segment_seconds = 300, dv_continuous_recording_enabled = True,
      dv_low_bitrate_stream_preferred = True, dv_continuous_bitrate_mbps = 2,
      dv_high_res_event_clips_enabled = True, dv_high_res_event_clip_seconds = 30,
      dv_continuous_stream_path_hint = ''/stream2'', dv_high_res_stream_path_hint = ''/stream1'',
      dv_disk_budget_gb = None, dv_keyframe_count = 5, dv_keyframe_interval_seconds = 60,
      dv_enabled_device_ids = []\<rparr>"

section \<open>Normalisation\<close>

definition wclamp :: "'a::len word \<Rightarrow> 'a word \<Rightarrow> 'a word \<Rightarrow> 'a word" where
  "wclamp lo hi x = max lo (min hi x)"

definition normalize_rtsp_path_hint :: "string \<Rightarrow> string \<Rightarrow> string" where
  "normalize_rtsp_path_hint v fallback =
     (if trim v = [] then fallback
      else if starts_with (trim v) ''/'' then trim v
      else ''/'' @ trim v)"

fun dedupe_from :: "string list \<Rightarrow> string list \<Rightarrow> string list" where
  "dedupe_from seen [] = []"
| "dedupe_from seen (v # vs) =
     (if trim v = [] \<or> trim v \<in> set seen then dedupe_from seen vs
      else trim v # dedupe_from (trim v # seen) vs)"

definition dedupe_non_empty :: "string list \<Rightarrow> string list" where
  "dedupe_non_empty vs = dedupe_from [] vs"

definition sanitize_dvr_recording_settings :: "dvr_recording_settings \<Rightarrow> dvr_recording_settings" where
  "sanitize_dvr_recording_settings s = s
     \<lparr>dv_recording_root := default_recording_root,
      dv_media_library_root := default_media_library_root,
      dv_retention_days := wclamp 1 365 (dv_retention_days s),
      dv_segment_seconds := wclamp 30 3600 (dv_segment_seconds s),
      dv_continuous_bitrate_mbps := wclamp 1 20 (dv_continuous_bitrate_mbps s),
      dv_high_res_event_clip_seconds := wclamp 3 600 (dv_high_res_event_clip_seconds s),
      dv_continuous_stream_path_hint := normalize_rtsp_path_hint (dv_continuous_stream_path_hint s) ''/stream2'',
      dv_high_res_stream_path_hint := normalize_rtsp_path_hint (dv_high_res_stream_path_hint s) ''/stream1'',
      dv_disk_budget_gb := Option.bind (dv_disk_budget_gb s) (\<lambda>v. if v > 0 then Some v else None),
      dv_keyframe_count := wclamp 1 12 (dv_keyframe_count s),
      dv_keyframe_interval_seconds := wclamp 1 3600 (dv_keyframe_interval_seconds s),
      dv_enabled_device_ids := dedupe_non_empty (dv_enabled_device_ids s)\<rparr>"

section \<open>Capacity\<close>

definition bytes_to_decimal_gb :: "u64 \<Rightarrow> u64" where
  "bytes_to_decimal_gb b = b div 1000000000"

text \<open>\<^verbatim>\<open>camera_count\<close> and the lengths are \<^verbatim>\<open>usize\<close>; the cast of a length to \<^verbatim>\<open>u64\<close> is \<open>of_nat\<close>.\<close>

definition dvr_capacity_estimate_of :: "dvr_recording_settings \<Rightarrow> nat \<Rightarrow> dvr_capacity_estimate" where
  "dvr_capacity_estimate_of settings camera_count =
     (let s = sanitize_dvr_recording_settings settings;
          enabled_camera_count = length (dv_enabled_device_ids s);
          seconds = ucast (dv_retention_days s) * 24 * 60 * 60;
          per_camera = ucast (dv_continuous_bitrate_mbps s) * 1000000 * seconds div 8;
          enabled_total = saturating_mul per_camera (of_nat enabled_camera_count);
          budget_bytes = map_option (\<lambda>gb. saturating_mul gb 1000000000) (dv_disk_budget_gb s);
          warning = Option.bind budget_bytes (\<lambda>budget.
            if enabled_camera_count > 0 \<and> enabled_total > budget
            then Some (''Estimated DVR usage '' @ show_u64 (bytes_to_decimal_gb enabled_total)
              @ '' GB exceeds configured disk budget '' @ show_u64 (bytes_to_decimal_gb budget) @ '' GB.'')
            else None)
      in \<lparr>dc_camera_count = camera_count, dc_enabled_camera_count = enabled_camera_count,
          dc_retention_days = dv_retention_days s, dc_bitrate_mbps = dv_continuous_bitrate_mbps s,
          dc_estimated_bytes_per_camera = per_camera, dc_estimated_bytes_enabled_total = enabled_total,
          dc_disk_budget_bytes = budget_bytes, dc_disk_budget_warning = warning\<rparr>)"

definition build_status_response ::
  "u64 \<Rightarrow> dvr_recording_settings \<Rightarrow> dvr_recording_status list \<Rightarrow> nat \<Rightarrow> dvr_recording_status_response" where
  "build_status_response now_unix_secs settings statuses camera_count =
     (let s = sanitize_dvr_recording_settings settings;
          contract_available = list_all (\<lambda>st. ds_status st \<noteq> ''degraded'') statuses
      in \<lparr>dq_generated_at = show_u64 now_unix_secs, dq_settings = s,
          dq_capacity = dvr_capacity_estimate_of s camera_count, dq_statuses = statuses,
          dq_root_exists = contract_available, dq_root_writable = contract_available\<rparr>)"

section \<open>Sanitised settings\<close>

definition settings_ok :: "dvr_recording_settings \<Rightarrow> bool" where
  "settings_ok s \<longleftrightarrow>
     dv_recording_root s = HARBORLINK_DVR_ROOT \<and>
     1 \<le> dv_retention_days s \<and> dv_retention_days s \<le> 365 \<and>
     30 \<le> dv_segment_seconds s \<and> dv_segment_seconds s \<le> 3600 \<and>
     1 \<le> dv_continuous_bitrate_mbps s \<and> dv_continuous_bitrate_mbps s \<le> 20 \<and>
     3 \<le> dv_high_res_event_clip_seconds s \<and> dv_high_res_event_clip_seconds s \<le> 600 \<and>
     1 \<le> dv_keyframe_count s \<and> dv_keyframe_count s \<le> 12 \<and>
     1 \<le> dv_keyframe_interval_seconds s \<and> dv_keyframe_interval_seconds s \<le> 3600 \<and>
     prefix ''/'' (dv_continuous_stream_path_hint s) \<and> prefix ''/'' (dv_high_res_stream_path_hint s) \<and>
     dv_disk_budget_gb s \<noteq> Some 0 \<and>
     distinct (dv_enabled_device_ids s) \<and> (\<forall>d \<in> set (dv_enabled_device_ids s). d \<noteq> [] \<and> trim d = d)"

lemma wclamp_between: "lo \<le> hi \<Longrightarrow> lo \<le> wclamp lo hi x \<and> wclamp lo hi x \<le> hi"
  by (simp add: wclamp_def)

lemma wclamp_idem: "lo \<le> hi \<Longrightarrow> wclamp lo hi (wclamp lo hi x) = wclamp lo hi x"
  by (auto simp: wclamp_def max_def min_def)

lemma hint_idem:
  assumes "trim fb = fb" "prefix ''/'' fb"
  shows "normalize_rtsp_path_hint (normalize_rtsp_path_hint v fb) fb = normalize_rtsp_path_hint v fb"
proof -
  have "trim (normalize_rtsp_path_hint v fb) = normalize_rtsp_path_hint v fb"
    using assms trim_slash [OF trim_idem, of v] by (simp add: normalize_rtsp_path_hint_def)
  moreover have "prefix ''/'' (normalize_rtsp_path_hint v fb)"
    using assms by (simp add: normalize_rtsp_path_hint_def starts_with_def)
  ultimately show ?thesis
    unfolding normalize_rtsp_path_hint_def [of "normalize_rtsp_path_hint v fb"] by (auto simp: starts_with_def)
qed

lemma set_dedupe_from: "set (dedupe_from seen vs) = {trim v | v. v \<in> set vs \<and> trim v \<noteq> []} - set seen"
  by (induction seen vs rule: dedupe_from.induct) auto

lemma distinct_dedupe_from: "distinct (dedupe_from seen vs)"
  by (induction seen vs rule: dedupe_from.induct) (simp_all add: set_dedupe_from)

lemma dedupe_from_props:
  "distinct (dedupe_from seen vs)" "set (dedupe_from seen vs) \<inter> set seen = {}"
  "d \<in> set (dedupe_from seen vs) \<Longrightarrow> d \<noteq> [] \<and> trim d = d"
  by (auto simp: set_dedupe_from distinct_dedupe_from)

lemma dedupe_from_fixed:
  "distinct vs \<Longrightarrow> set vs \<inter> set seen = {} \<Longrightarrow> (\<And>d. d \<in> set vs \<Longrightarrow> d \<noteq> [] \<and> trim d = d) \<Longrightarrow>
   dedupe_from seen vs = vs"
proof (induction vs arbitrary: seen)
  case (Cons v vs)
  then have "trim v = v" "v \<noteq> []" "v \<notin> set seen" by auto
  moreover have "dedupe_from (v # seen) vs = vs" using Cons.prems by (intro Cons.IH) auto
  ultimately show ?case by simp
qed simp

lemma hints_fixed [simp]: "trim ''/stream1'' = ''/stream1''" "trim ''/stream2'' = ''/stream2''"
  by code_simp+

lemma sanitize_settings_ok: "settings_ok (sanitize_dvr_recording_settings s)"
  using dedupe_from_props(3) [of _ "[]" "dv_enabled_device_ids s"]
  by (auto simp: distinct_dedupe_from settings_ok_def sanitize_dvr_recording_settings_def wclamp_between default_recording_root_def
      normalize_rtsp_path_hint_def starts_with_def dedupe_non_empty_def split: bind_splits if_splits)

lemma sanitize_settings_idem:
  "sanitize_dvr_recording_settings (sanitize_dvr_recording_settings s) = sanitize_dvr_recording_settings s"
proof -
  have "dedupe_from [] (dedupe_from [] vs) = dedupe_from [] vs" for vs
    by (rule dedupe_from_fixed) (simp_all add: dedupe_from_props)
  then show ?thesis
    by (simp add: sanitize_dvr_recording_settings_def wclamp_idem hint_idem dedupe_non_empty_def
        split: bind_splits)
qed

text \<open>
  Sanitised recording settings are in range and stable. Whatever was configured, the sanitised settings
  point at the HarborLink root, have every number in its documented range, absolute stream paths, no zero disk
  budget and a duplicate-free list of trimmed, non-empty device ids that names exactly the non-blank
  configured ids; sanitising again changes nothing.
\<close>

theorem dvr_settings_sanitised:
  "settings_ok (sanitize_dvr_recording_settings s) \<and>
   set (dv_enabled_device_ids (sanitize_dvr_recording_settings s))
     = {trim v | v. v \<in> set (dv_enabled_device_ids s) \<and> trim v \<noteq> []} \<and>
   sanitize_dvr_recording_settings (sanitize_dvr_recording_settings s) = sanitize_dvr_recording_settings s"
  using sanitize_settings_ok [of s] sanitize_settings_idem [of s] set_dedupe_from [of "[]" "dv_enabled_device_ids s"]
  by (simp add: sanitize_dvr_recording_settings_def dedupe_non_empty_def)

section \<open>The estimate does not wrap\<close>

lemma per_camera_value:
  fixes d r :: u32
  assumes "unat d \<le> 365" "unat r \<le> 20"
  shows "unat (ucast r * 1000000 * (ucast d * 24 * 60 * 60) div 8 :: u64)
    = unat r * 1000000 * (unat d * 86400) div 8"
proof -
  have d: "unat (ucast d * 24 * 60 * 60 :: u64) = unat d * 86400"
    using assms(1) by (simp add: unat_mult_small unat_ucast_u32)
  have r: "unat (ucast r * 1000000 :: u64) = unat r * 1000000"
    using assms(2) by (simp add: unat_mult_small unat_ucast_u32)
  have "unat r * 1000000 * (unat d * 86400) \<le> (20 * 1000000) * (365 * 86400)"
    using assms by (intro mult_mono) simp_all
  then have "unat (ucast r * 1000000 * (ucast d * 24 * 60 * 60) :: u64) = unat r * 1000000 * (unat d * 86400)"
    using d r by (subst unat_mult_small) (simp_all only: d r, simp)
  moreover have "unat (x div 8 :: u64) = unat x div 8" for x
    by (simp add: unat_div_distrib)
  ultimately show ?thesis by (simp only:)
qed

lemma unat_max: "unat (- 1 :: u64) = 2 ^ 64 - 1"
  unfolding unat_eq_nat_uint uint_word_ariths(4) by simp

text \<open>
  The capacity estimate is exact. For any settings and camera count, the bytes per camera equal the
  natural-number value bitrate times 1000000 bits times the retention in seconds, divided by 8: no
  intermediate product overflows 64 bits. The total over the enabled cameras is exact too as long as
  it is below \<open>2 ^ 64\<close>, and the largest 64-bit number otherwise.
\<close>

theorem capacity_estimate_is_exact:
  fixes settings camera_count
  defines "s \<equiv> sanitize_dvr_recording_settings settings"
    and "e \<equiv> dvr_capacity_estimate_of settings camera_count"
  shows "unat (dc_estimated_bytes_per_camera e)
      = unat (dv_continuous_bitrate_mbps s) * 1000000 * (unat (dv_retention_days s) * 86400) div 8 \<and>
    unat (dc_estimated_bytes_enabled_total e)
      = min (unat (dc_estimated_bytes_per_camera e) * (length (dv_enabled_device_ids s) mod 2 ^ 64)) (2 ^ 64 - 1)"
proof
  have "dv_retention_days s \<le> 365" "dv_continuous_bitrate_mbps s \<le> 20"
    using sanitize_settings_ok [of settings] by (simp_all add: s_def settings_ok_def)
  then have b: "unat (dv_retention_days s) \<le> 365" "unat (dv_continuous_bitrate_mbps s) \<le> 20"
    by (simp_all add: word_le_nat_alt)
  show "unat (dc_estimated_bytes_per_camera e)
      = unat (dv_continuous_bitrate_mbps s) * 1000000 * (unat (dv_retention_days s) * 86400) div 8"
    using per_camera_value [OF b] by (simp add: e_def dvr_capacity_estimate_of_def Let_def s_def)
  have sat: "unat (saturating_mul a b) = min (unat a * unat b) (2 ^ 64 - 1)" for a b
    by (simp add: saturating_mul_def unat_mult_small unat_max)
  have "unat (of_nat n :: u64) = n mod 2 ^ 64" for n
    by (simp add: unat_of_nat take_bit_eq_mod)
  then show "unat (dc_estimated_bytes_enabled_total e)
      = min (unat (dc_estimated_bytes_per_camera e) * (length (dv_enabled_device_ids s) mod 2 ^ 64)) (2 ^ 64 - 1)"
    by (simp add: e_def dvr_capacity_estimate_of_def Let_def s_def sat)
qed

end
