(* ===== verification/Workflow_Compiler.thy ===== *)
theory Workflow_Compiler
  imports Policy
begin

text \<open>
  The shadow workflow compiler, from \<^verbatim>\<open>src/src/orchestrator/workflow_compiler.rs\<close>: the validation of a
  workflow specification, the matching of a text against its nodes, and the evaluation reports. The JSON
  parser and SHA-256 are arguments. The accuracy of a report is the exact ratio the code rounds to a
  double. Scores are \<^verbatim>\<open>u8\<close>; the saturating operations are written out.
\<close>

section \<open>Data\<close>

record workflow_node =
  wn_id :: string
  wn_candidate_kind :: string
  wn_phrases :: "string list"
  wn_keywords_any :: "string list"
  wn_keywords_all :: "string list"
  wn_read_only :: bool
  wn_action :: "action option"
  wn_confidence :: u8
  wn_reason :: string

record workflow_spec =
  wsp_id :: string
  wsp_version :: string
  wsp_summary :: string
  wsp_min_confidence :: u8
  wsp_deny_phrases :: "string list"
  wsp_nodes :: "workflow_node list"

record workflow_candidate =
  wc_workflow_id :: string
  wc_node_id :: string
  wc_candidate_kind :: string
  wc_confidence :: u8
  wc_reason :: string
  wc_read_only :: bool
  wc_action :: "action option"

record workflow_eval_case =
  ev_id :: string
  ev_input :: string
  ev_expected_candidate_kind :: "string option"
  ev_min_confidence :: u8

record workflow_eval_case_result =
  vr_id :: string
  vr_input :: string
  vr_expected_candidate_kind :: "string option"
  vr_candidate_kind :: "string option"
  vr_confidence :: "u8 option"
  vr_correct :: bool
  vr_low_confidence_rejection :: bool
  vr_unsafe_action :: bool
  vr_reason :: string

record workflow_eval_report =
  wr_workflow_id :: string
  wr_total_cases :: nat
  wr_correct_cases :: nat
  wr_accuracy :: rat
  wr_low_confidence_rejections :: nat
  wr_unauthorized_action_count :: nat
  wr_passed :: bool
  wr_cases :: "workflow_eval_case_result list"

record workflow_shadow_evidence_case =
  se_case_id :: string
  se_input_sha256_12 :: string
  se_input_redacted :: bool
  se_current_plan_kind :: "string option"
  se_compiler_candidate_kind :: "string option"
  se_compiler_confidence :: "u8 option"
  se_matched_current_plan :: bool
  se_read_only :: bool
  se_unsafe_action :: bool
  se_low_confidence_rejection :: bool
  se_outcome :: string

record workflow_shadow_evidence_report =
  sr_kind :: string
  sr_workflow_id :: string
  sr_source :: string
  sr_redacted :: bool
  sr_total_cases :: nat
  sr_matched_current_plan_cases :: nat
  sr_low_confidence_rejections :: nat
  sr_unauthorized_action_count :: nat
  sr_passed :: bool
  sr_cases :: "workflow_shadow_evidence_case list"

definition WORKFLOW_COMPILER_MIN_CONFIDENCE :: u8 where "WORKFLOW_COMPILER_MIN_CONFIDENCE = 60"

definition ALLOWED_GENERAL_MESSAGE_CANDIDATES :: "string list" where
  "ALLOWED_GENERAL_MESSAGE_CANDIDATES =
     [''capability_summary'', ''clarify'', ''conversation_continue'', ''conversation_boundary'',
      ''conversation_repair'', ''conversation_cancel'', ''conversation_clarify_continue'',
      ''camera_replay_recent_clip'', ''camera_snapshot'', ''camera_record_clip'', ''knowledge_search'',
      ''rag_answer'', ''ha_service_action'', ''vision_event_summary'', ''vision_event_notify_latest'',
      ''vlm_describe_latest_event'', ''vlm_describe_event'', ''family_memory_summary'', ''system_readiness'',
      ''evt_readiness'', ''evt_preflight'', ''evt_evidence_bundle'', ''family_timeline_summary'',
      ''family_timeline_query'', ''guardian_rule_proposal'', ''guardian_rule_list'', ''guardian_rule_enable'',
      ''guardian_rule_pause'', ''guardian_status'', ''family_memory_confirm'', ''family_memory_favorite'',
      ''family_memory_hide'']"

section \<open>Matching\<close>

text \<open>
  Lower-casing, then dropping every white-space scalar and the characters \<^verbatim>\<open>: - _ / \\<close> and the full-width
  colon U+FF1A (bytes EF BC 9A). Lead bytes and continuation bytes of UTF-8 are disjoint, so the scan by
  bytes meets exactly the scalars.
\<close>

definition dropped_ascii :: "char \<Rightarrow> bool" where
  "dropped_ascii c \<longleftrightarrow> c \<in> {CHR '':'', CHR ''-'', CHR ''_'', CHR ''/'', CHR 0x5C}"

function keep_scalars :: "string \<Rightarrow> string" where
  "keep_scalars s =
     (case strip_ws s of
        Some t \<Rightarrow> keep_scalars t
      | None \<Rightarrow>
          (case s of
             [] \<Rightarrow> []
           | c # t \<Rightarrow>
               if dropped_ascii c then keep_scalars t
               else if take 3 s = [CHR 0xEF, CHR 0xBC, CHR 0x9A] then keep_scalars (drop 3 s)
               else c # keep_scalars t))"
  by pat_completeness auto
termination
  by (relation "measure length") (auto dest: strip_ws_length)

declare keep_scalars.simps [simp del]

definition normalize_workflow_text :: "string \<Rightarrow> string" where
  "normalize_workflow_text s = keep_scalars (to_lowercase (trim s))"

definition u8_saturating_add :: "u8 \<Rightarrow> u8 \<Rightarrow> u8" where
  "u8_saturating_add a b = (if unat a + unat b < 256 then a + b else 255)"

definition u8_saturating_sub :: "u8 \<Rightarrow> u8 \<Rightarrow> u8" where
  "u8_saturating_sub a b = (if b \<le> a then a - b else 0)"

definition phrase_score :: "workflow_node \<Rightarrow> string \<Rightarrow> string \<Rightarrow> u8 \<Rightarrow> u8" where
  "phrase_score node normalized phrase score =
     (let p = normalize_workflow_text phrase in
      if p = [] then score
      else if normalized = p then max score (min (u8_saturating_add (wn_confidence node) 5) 100)
      else if str_contains normalized p then max score (wn_confidence node)
      else score)"

definition node_score :: "workflow_node \<Rightarrow> string \<Rightarrow> u8 option" where
  "node_score node normalized =
     (let score = fold (phrase_score node normalized) (wn_phrases node) 0;
          has_all = wn_keywords_all node \<noteq> [];
          has_any = wn_keywords_any node \<noteq> [];
          all_match = has_all \<and>
            list_all (\<lambda>k. str_contains normalized (normalize_workflow_text k)) (wn_keywords_all node);
          any_match = has_any \<and>
            list_ex (\<lambda>k. str_contains normalized (normalize_workflow_text k)) (wn_keywords_any node);
          score' =
            (if has_all \<and> has_any \<and> all_match \<and> any_match
               then max score (u8_saturating_sub (wn_confidence node) 5)
             else if has_all \<and> \<not> has_any \<and> all_match
               then max score (u8_saturating_sub (wn_confidence node) 5)
             else if \<not> has_all \<and> has_any \<and> any_match
               then max score (u8_saturating_sub (wn_confidence node) 15)
             else score)
      in if score' > 0 then Some score' else None)"

fun best_from :: "string \<Rightarrow> workflow_node list \<Rightarrow> (workflow_node \<times> u8) option \<Rightarrow> (workflow_node \<times> u8) option" where
  "best_from normalized [] best = best"
| "best_from normalized (node # nodes) best =
     (case node_score node normalized of
        None \<Rightarrow> best_from normalized nodes best
      | Some score \<Rightarrow> best_from normalized nodes
          (case best of
             None \<Rightarrow> Some (node, score)
           | Some (b, best_score) \<Rightarrow> if score > best_score then Some (node, score) else best))"

definition best_node_match :: "workflow_spec \<Rightarrow> string \<Rightarrow> (workflow_node \<times> u8) option" where
  "best_node_match spec normalized = best_from normalized (wsp_nodes spec) None"

definition deny_phrase_matches :: "string \<Rightarrow> string list \<Rightarrow> bool" where
  "deny_phrase_matches normalized phrases =
     list_ex (\<lambda>phrase. normalize_workflow_text phrase \<noteq> [] \<and>
       str_contains normalized (normalize_workflow_text phrase)) phrases"

definition workflow_action_is_read_only :: "action \<Rightarrow> bool" where
  "workflow_action_is_read_only a \<longleftrightarrow>
     act_risk_level a = Low \<and> \<not> act_requires_approval a \<and>
     (to_ascii_lowercase (trim (act_domain a)), to_ascii_lowercase (trim (act_operation a))) \<in>
       {(''service'', ''status''), (''files'', ''search''), (''files'', ''list''), (''files'', ''stat''),
        (''files'', ''read_text''), (''diagnostics'', ''read'')}"

definition unsafe_action_opt :: "action option \<Rightarrow> bool" where
  "unsafe_action_opt act = (case act of None \<Rightarrow> False | Some a \<Rightarrow> \<not> workflow_action_is_read_only a)"

definition has_unsafe_action :: "workflow_candidate \<Rightarrow> bool" where
  "has_unsafe_action c = unsafe_action_opt (wc_action c)"

definition compile_workflow_candidate :: "workflow_spec \<Rightarrow> string \<Rightarrow> workflow_candidate option" where
  "compile_workflow_candidate spec raw_text =
     (let normalized = normalize_workflow_text raw_text in
      if normalized = [] \<or> deny_phrase_matches normalized (wsp_deny_phrases spec) then None
      else case best_node_match spec normalized of
             None \<Rightarrow> None
           | Some (node, score) \<Rightarrow>
               if score < wsp_min_confidence spec then None
               else Some \<lparr>wc_workflow_id = wsp_id spec, wc_node_id = wn_id node,
                 wc_candidate_kind = wn_candidate_kind node, wc_confidence = min score 100,
                 wc_reason = wn_reason node,
                 wc_read_only = (wn_read_only node \<and> \<not> unsafe_action_opt (wn_action node)),
                 wc_action = wn_action node\<rparr>)"

section \<open>Validation\<close>

fun validate_nodes :: "string list \<Rightarrow> workflow_node list \<Rightarrow> string + unit" where
  "validate_nodes ids [] = Ok ()"
| "validate_nodes ids (node # nodes) =
     (if trim (wn_id node) = [] then Err ''INVALID_WORKFLOW_SPEC: node id is required''
      else if wn_id node \<in> set ids then Err (''INVALID_WORKFLOW_SPEC: duplicate node id '' @ wn_id node)
      else if wn_candidate_kind node \<notin> set ALLOWED_GENERAL_MESSAGE_CANDIDATES
        then Err (''INVALID_WORKFLOW_SPEC: unsupported candidate kind '' @ wn_candidate_kind node)
      else if wn_phrases node = [] \<and> wn_keywords_any node = [] \<and> wn_keywords_all node = []
        then Err (''INVALID_WORKFLOW_SPEC: node '' @ wn_id node @ '' has no match criteria'')
      else if unsafe_action_opt (wn_action node)
        then Err (''UNSAFE_WORKFLOW_ACTION: node '' @ wn_id node @ '' contains a non-read-only action'')
      else validate_nodes (wn_id node # ids) nodes)"

definition validate_workflow_spec :: "workflow_spec \<Rightarrow> string + workflow_spec" where
  "validate_workflow_spec spec =
     (if trim (wsp_id spec) = [] then Err ''INVALID_WORKFLOW_SPEC: id is required''
      else if wsp_nodes spec = [] then Err ''INVALID_WORKFLOW_SPEC: at least one node is required''
      else and_then (validate_nodes [] (wsp_nodes spec)) (\<lambda>_. Ok spec))"

definition parse_workflow_spec :: "(string \<Rightarrow> string + workflow_spec) \<Rightarrow> string \<Rightarrow> string + workflow_spec" where
  "parse_workflow_spec from_str input =
     (case from_str input of
        Inl e \<Rightarrow> Err (''INVALID_WORKFLOW_SPEC_JSON: '' @ e)
      | Inr spec \<Rightarrow> validate_workflow_spec spec)"

section \<open>Evaluation\<close>

definition best_score_of :: "workflow_spec \<Rightarrow> string \<Rightarrow> u8 option" where
  "best_score_of spec input =
     (let normalized = normalize_workflow_text input in
      if deny_phrase_matches normalized (wsp_deny_phrases spec) then None
      else map_option snd (best_node_match spec normalized))"

definition low_confidence_rejected :: "workflow_spec \<Rightarrow> workflow_eval_case \<Rightarrow> bool" where
  "low_confidence_rejected spec c \<longleftrightarrow>
     ev_expected_candidate_kind c \<noteq> None \<and> compile_workflow_candidate spec (ev_input c) = None \<and>
     (case best_score_of spec (ev_input c) of None \<Rightarrow> False | Some score \<Rightarrow> score < wsp_min_confidence spec)"

definition evaluate_case :: "workflow_spec \<Rightarrow> workflow_eval_case \<Rightarrow> workflow_eval_case_result" where
  "evaluate_case spec c =
     (let candidate = compile_workflow_candidate spec (ev_input c);
          unsafe = (case candidate of None \<Rightarrow> False | Some k \<Rightarrow> has_unsafe_action k);
          kind = map_option wc_candidate_kind candidate;
          confidence = map_option wc_confidence candidate;
          correct = (case (ev_expected_candidate_kind c, kind) of
              (Some expected, Some actual) \<Rightarrow>
                expected = actual \<and> unwrap_or confidence 0 \<ge> ev_min_confidence c
            | (None, None) \<Rightarrow> True
            | _ \<Rightarrow> False) \<and> \<not> unsafe
      in \<lparr>vr_id = ev_id c, vr_input = ev_input c, vr_expected_candidate_kind = ev_expected_candidate_kind c,
          vr_candidate_kind = kind, vr_confidence = confidence, vr_correct = correct,
          vr_low_confidence_rejection = low_confidence_rejected spec c, vr_unsafe_action = unsafe,
          vr_reason = unwrap_or (map_option wc_reason candidate) ''no workflow candidate''\<rparr>)"

definition evaluate_workflow :: "workflow_spec \<Rightarrow> workflow_eval_case list \<Rightarrow> workflow_eval_report" where
  "evaluate_workflow spec cases =
     (let results = map (evaluate_case spec) cases;
          correct_cases = length (filter vr_correct results);
          low_confidence_rejections = length (filter vr_low_confidence_rejection results);
          unauthorized = length (filter vr_unsafe_action results)
      in \<lparr>wr_workflow_id = wsp_id spec, wr_total_cases = length cases, wr_correct_cases = correct_cases,
          wr_accuracy = (if cases = [] then 1 else of_nat correct_cases / of_nat (length cases)),
          wr_low_confidence_rejections = low_confidence_rejections,
          wr_unauthorized_action_count = unauthorized,
          wr_passed = (correct_cases = length cases \<and> unauthorized = 0), wr_cases = results\<rparr>)"

definition hex_digit :: "nat \<Rightarrow> char" where
  "hex_digit n = (if n < 10 then char_of (48 + n) else char_of (87 + n))"

definition short_sha256 :: "(string \<Rightarrow> u8 list) \<Rightarrow> string \<Rightarrow> string" where
  "short_sha256 digest input =
     concat (map (\<lambda>b. [hex_digit (unat b div 16), hex_digit (unat b mod 16)]) (take 6 (digest input)))"

definition evidence_case ::
  "(string \<Rightarrow> u8 list) \<Rightarrow> workflow_spec \<Rightarrow> workflow_eval_case \<Rightarrow> workflow_shadow_evidence_case" where
  "evidence_case digest spec c =
     (let candidate = compile_workflow_candidate spec (ev_input c);
          kind = map_option wc_candidate_kind candidate;
          matched = (case (ev_expected_candidate_kind c, kind) of
              (Some expected, Some actual) \<Rightarrow> expected = actual
            | (None, None) \<Rightarrow> True
            | _ \<Rightarrow> False);
          unsafe = (case candidate of None \<Rightarrow> False | Some k \<Rightarrow> has_unsafe_action k);
          low = low_confidence_rejected spec c
      in \<lparr>se_case_id = ev_id c, se_input_sha256_12 = short_sha256 digest (ev_input c),
          se_input_redacted = True, se_current_plan_kind = ev_expected_candidate_kind c,
          se_compiler_candidate_kind = kind, se_compiler_confidence = map_option wc_confidence candidate,
          se_matched_current_plan = matched,
          se_read_only = unwrap_or (map_option wc_read_only candidate) True,
          se_unsafe_action = unsafe, se_low_confidence_rejection = low,
          se_outcome = (if unsafe then ''unsafe_action'' else if matched then ''matched_current_plan''
            else if low then ''low_confidence_rejection'' else ''mismatch'')\<rparr>)"

definition build_workflow_shadow_evidence_report ::
  "(string \<Rightarrow> u8 list) \<Rightarrow> workflow_spec \<Rightarrow> workflow_eval_case list \<Rightarrow> workflow_shadow_evidence_report" where
  "build_workflow_shadow_evidence_report digest spec cases =
     (let r = evaluate_workflow spec cases
      in \<lparr>sr_kind = ''workflow_compiler_shadow_evidence_v1'', sr_workflow_id = wsp_id spec,
          sr_source = ''embedded_system_diagnostics_eval_cases'', sr_redacted = True,
          sr_total_cases = wr_total_cases r, sr_matched_current_plan_cases = wr_correct_cases r,
          sr_low_confidence_rejections = wr_low_confidence_rejections r,
          sr_unauthorized_action_count = wr_unauthorized_action_count r, sr_passed = wr_passed r,
          sr_cases = map (evidence_case digest spec) cases\<rparr>)"

definition eval_case :: "string \<Rightarrow> string \<Rightarrow> string option \<Rightarrow> workflow_eval_case" where
  "eval_case i input expected =
     \<lparr>ev_id = i, ev_input = input, ev_expected_candidate_kind = expected,
      ev_min_confidence = WORKFLOW_COMPILER_MIN_CONFIDENCE\<rparr>"

section \<open>The embedded system-diagnostics workflow\<close>

text \<open>The document embedded as a JSON literal, as the parsed record; text outside ASCII in UTF-8 bytes.\<close>

definition deny_phrases_text :: "string list" where
  "deny_phrases_text =
     [[CHR 0xE9, CHR 0x87, CHR 0x8D, CHR 0xE5, CHR 0x90, CHR 0xAF],
      [CHR 0xE5, CHR 0x90, CHR 0xAF, CHR 0xE5, CHR 0x8A, CHR 0xA8],
      [CHR 0xE5, CHR 0x81, CHR 0x9C, CHR 0xE6, CHR 0xAD, CHR 0xA2],
      [CHR 0xE5, CHR 0x90, CHR 0xAF, CHR 0xE5, CHR 0x8A, CHR 0xA8, CHR 0xE6, CHR 0x9C, CHR 0x8D, CHR 0xE5, CHR 0x8A, CHR 0xA1],
      [CHR 0xE5, CHR 0x81, CHR 0x9C, CHR 0xE6, CHR 0xAD, CHR 0xA2, CHR 0xE6, CHR 0x9C, CHR 0x8D, CHR 0xE5, CHR 0x8A, CHR 0xA1],
      [CHR 0xE5, CHR 0x88, CHR 0xA0, CHR 0xE9, CHR 0x99, CHR 0xA4],
      [CHR 0xE7, CHR 0xA7, CHR 0xBB, CHR 0xE5, CHR 0x8A, CHR 0xA8, CHR 0xE6, CHR 0x96, CHR 0x87, CHR 0xE4, CHR 0xBB, CHR 0xB6],
      [CHR 0xE5, CHR 0xA4, CHR 0x8D, CHR 0xE5, CHR 0x88, CHR 0xB6, CHR 0xE6, CHR 0x96, CHR 0x87, CHR 0xE4, CHR 0xBB, CHR 0xB6],
      [CHR 0xE5, CHR 0x86, CHR 0x99, CHR 0xE5, CHR 0x85, CHR 0xA5],
      [CHR 0xE8, CHR 0xBF, CHR 0x9E, CHR 0xE6, CHR 0x8E, CHR 0xA5, CHR 0xE6, CHR 0x91, CHR 0x84, CHR 0xE5, CHR 0x83, CHR 0x8F, CHR 0xE5, CHR 0xA4, CHR 0xB4],
      [CHR 0xE6, CHR 0x8E, CHR 0xA5, CHR 0xE5, CHR 0x85, CHR 0xA5, CHR 0xE6, CHR 0x91, CHR 0x84, CHR 0xE5, CHR 0x83, CHR 0x8F, CHR 0xE5, CHR 0xA4, CHR 0xB4],
      [CHR 0xE5, CHR 0xBC, CHR 0x80, CHR 0xE7, CHR 0x81, CHR 0xAF],
      [CHR 0xE5, CHR 0x85, CHR 0xB3, CHR 0xE7, CHR 0x81, CHR 0xAF],
      [CHR 0xE5, CHR 0xA4, CHR 0xA9, CHR 0xE6, CHR 0xB0, CHR 0x94],
      [CHR 0xE6, CHR 0x96, CHR 0xB0, CHR 0xE9, CHR 0x97, CHR 0xBB],
      [CHR 0xE8, CHR 0x82, CHR 0xA1, CHR 0xE7, CHR 0xA5, CHR 0xA8],
      [CHR 0xE8, CHR 0xA1, CHR 0x8C, CHR 0xE6, CHR 0x83, CHR 0x85],
      [CHR 0xE9, CHR 0x97, CHR 0xA8, CHR 0xE9, CHR 0x94, CHR 0x81],
      [CHR 0xE5, CHR 0xBC, CHR 0x80, CHR 0xE9, CHR 0x94, CHR 0x81],
      [CHR 0xE8, CHR 0xA7, CHR 0xA3, CHR 0xE9, CHR 0x94, CHR 0x81], ''restart'', ''stop service'',
      ''start service'', ''delete'', ''remove'', ''move file'', ''copy file'', ''write file'',
      ''connect camera'', ''weather'', ''news'', ''stock'', ''unlock'', ''lock'']"

definition node_evt_preflight :: workflow_node where
  "node_evt_preflight =
     \<lparr>wn_id = ''evt_preflight'', wn_candidate_kind = ''evt_preflight'',
      wn_phrases = [''EVT'' @ [CHR 0xE9, CHR 0xA2, CHR 0x84, CHR 0xE6, CHR 0xA3, CHR 0x80],
                    [CHR 0xE5, CHR 0x8E, CHR 0x8B, CHR 0xE6, CHR 0xB5, CHR 0x8B, CHR 0xE9, CHR 0xA2, CHR 0x84, CHR 0xE6, CHR 0xA3, CHR 0x80],
                    [CHR 0xE5, CHR 0x81, CHR 0x9A, CHR 0xE4, CHR 0xB8, CHR 0x80, CHR 0xE4, CHR 0xB8, CHR 0x8B] @ ''EVT'' @ [CHR 0xE9, CHR 0xA2, CHR 0x84, CHR 0xE6, CHR 0xA3, CHR 0x80],
                    [CHR 0xE8, CHR 0xBF, CHR 0x90, CHR 0xE8, CHR 0xA1, CHR 0x8C] @ ''EVTpreflight'', ''preflight'',
                    ''stress preflight'', ''pre-stress check''],
      wn_keywords_any = [],
      wn_keywords_all = [[CHR 0xE9, CHR 0xA2, CHR 0x84, CHR 0xE6, CHR 0xA3, CHR 0x80]],
      wn_read_only = True, wn_action = None, wn_confidence = 96,
      wn_reason = ''system diagnostics workflow matched an EVT preflight request''\<rparr>"

definition node_evt_evidence_bundle :: workflow_node where
  "node_evt_evidence_bundle =
     \<lparr>wn_id = ''evt_evidence_bundle'', wn_candidate_kind = ''evt_evidence_bundle'',
      wn_phrases = [[CHR 0xE7, CHR 0x94, CHR 0x9F, CHR 0xE6, CHR 0x88, CHR 0x90, CHR 0xE5, CHR 0x8E, CHR 0x8B, CHR 0xE6, CHR 0xB5, CHR 0x8B, CHR 0xE8, CHR 0xAF, CHR 0x81, CHR 0xE6, CHR 0x8D, CHR 0xAE],
                    [CHR 0xE7, CHR 0x94, CHR 0x9F, CHR 0xE6, CHR 0x88, CHR 0x90] @ ''EVT'' @ [CHR 0xE8, CHR 0xAF, CHR 0x81, CHR 0xE6, CHR 0x8D, CHR 0xAE],
                    ''EVT'' @ [CHR 0xE8, CHR 0xAF, CHR 0x81, CHR 0xE6, CHR 0x8D, CHR 0xAE, CHR 0xE5, CHR 0x8C, CHR 0x85],
                    [CHR 0xE5, CHR 0x8E, CHR 0x8B, CHR 0xE6, CHR 0xB5, CHR 0x8B, CHR 0xE8, CHR 0xAF, CHR 0x81, CHR 0xE6, CHR 0x8D, CHR 0xAE, CHR 0xE5, CHR 0x8C, CHR 0x85],
                    ''evidence bundle''],
      wn_keywords_any = [],
      wn_keywords_all = [[CHR 0xE8, CHR 0xAF, CHR 0x81, CHR 0xE6, CHR 0x8D, CHR 0xAE]],
      wn_read_only = True, wn_action = None, wn_confidence = 95,
      wn_reason = ''system diagnostics workflow matched an EVT evidence bundle request''\<rparr>"

definition node_evt_readiness :: workflow_node where
  "node_evt_readiness =
     \<lparr>wn_id = ''evt_readiness'', wn_candidate_kind = ''evt_readiness'',
      wn_phrases = [''EVT'' @ [CHR 0xE5, CHR 0xB0, CHR 0xB1, CHR 0xE7, CHR 0xBB, CHR 0xAA],
                    ''EVT'' @ [CHR 0xE7, CHR 0x8A, CHR 0xB6, CHR 0xE6, CHR 0x80, CHR 0x81],
                    ''EVT'' @ [CHR 0xE5, CHR 0xA5, CHR 0xBD, CHR 0xE4, CHR 0xBA, CHR 0x86, CHR 0xE5, CHR 0x90, CHR 0x97],
                    [CHR 0xE5, CHR 0x8E, CHR 0x8B, CHR 0xE6, CHR 0xB5, CHR 0x8B, CHR 0xE5, CHR 0x89, CHR 0x8D, CHR 0xE7, CHR 0x8A, CHR 0xB6, CHR 0xE6, CHR 0x80, CHR 0x81],
                    [CHR 0xE5, CHR 0x8E, CHR 0x8B, CHR 0xE6, CHR 0xB5, CHR 0x8B, CHR 0xE7, CHR 0x8A, CHR 0xB6, CHR 0xE6, CHR 0x80, CHR 0x81],
                    [CHR 0xE5, CHR 0x8E, CHR 0x8B, CHR 0xE6, CHR 0xB5, CHR 0x8B] @ ''ready'' @ [CHR 0xE4, CHR 0xBA, CHR 0x86, CHR 0xE5, CHR 0x90, CHR 0x97],
                    ''K3'' @ [CHR 0xE5, CHR 0x8E, CHR 0x8B, CHR 0xE6, CHR 0xB5, CHR 0x8B] @ ''readiness'', ''K3 readiness'',
                    ''stress readiness''],
      wn_keywords_any = [''EVT'', ''evt'', [CHR 0xE5, CHR 0x8E, CHR 0x8B, CHR 0xE6, CHR 0xB5, CHR 0x8B], ''stress''],
      wn_keywords_all = [[CHR 0xE7, CHR 0x8A, CHR 0xB6, CHR 0xE6, CHR 0x80, CHR 0x81]],
      wn_read_only = True, wn_action = None, wn_confidence = 94,
      wn_reason = ''system diagnostics workflow matched an EVT readiness request''\<rparr>"

definition node_weixin_status :: workflow_node where
  "node_weixin_status =
     \<lparr>wn_id = ''weixin_status'', wn_candidate_kind = ''system_readiness'',
      wn_phrases = [[CHR 0xE5, CHR 0xBE, CHR 0xAE, CHR 0xE4, CHR 0xBF, CHR 0xA1, CHR 0xE7, CHR 0x8A, CHR 0xB6, CHR 0xE6, CHR 0x80, CHR 0x81],
                    [CHR 0xE5, CHR 0xBE, CHR 0xAE, CHR 0xE4, CHR 0xBF, CHR 0xA1, CHR 0xE9, CHR 0x80, CHR 0x9A, CHR 0xE4, CHR 0xBA, CHR 0x86, CHR 0xE5, CHR 0x90, CHR 0x97],
                    [CHR 0xE5, CHR 0xBE, CHR 0xAE, CHR 0xE4, CHR 0xBF, CHR 0xA1, CHR 0xE8, CHR 0xBF, CHR 0x9E, CHR 0xE4, CHR 0xBA, CHR 0x86, CHR 0xE5, CHR 0x90, CHR 0x97],
                    [CHR 0xE5, CHR 0xBE, CHR 0xAE, CHR 0xE4, CHR 0xBF, CHR 0xA1, CHR 0xE8, CHR 0x83, CHR 0xBD, CHR 0xE7, CHR 0x94, CHR 0xA8, CHR 0xE5, CHR 0x90, CHR 0x97],
                    ''WeChat status'', ''Weixin status'', ''weixin connected''],
      wn_keywords_any = [],
      wn_keywords_all = [[CHR 0xE5, CHR 0xBE, CHR 0xAE, CHR 0xE4, CHR 0xBF, CHR 0xA1]],
      wn_read_only = True, wn_action = None, wn_confidence = 91,
      wn_reason = ''system diagnostics workflow matched a Weixin status request''\<rparr>"

definition node_home_assistant_status :: workflow_node where
  "node_home_assistant_status =
     \<lparr>wn_id = ''home_assistant_status'', wn_candidate_kind = ''system_readiness'',
      wn_phrases = [''HA'' @ [CHR 0xE7, CHR 0x8A, CHR 0xB6, CHR 0xE6, CHR 0x80, CHR 0x81],
                    ''HA'' @ [CHR 0xE6, CHR 0xAD, CHR 0xA3, CHR 0xE5, CHR 0xB8, CHR 0xB8, CHR 0xE5, CHR 0x90, CHR 0x97],
                    ''HA'' @ [CHR 0xE5, CHR 0xAE, CHR 0x9E, CHR 0xE4, CHR 0xBD, CHR 0x93, CHR 0xE5, CHR 0x90, CHR 0x8C, CHR 0xE6, CHR 0xAD, CHR 0xA5, CHR 0xE4, CHR 0xBA, CHR 0x86, CHR 0xE5, CHR 0x90, CHR 0x97],
                    ''Home Assistant'' @ [CHR 0xE7, CHR 0x8A, CHR 0xB6, CHR 0xE6, CHR 0x80, CHR 0x81],
                    ''Home Assistant ready'', ''home assistant health''],
      wn_keywords_any = [''HA'', ''homeassistant''],
      wn_keywords_all = [],
      wn_read_only = True, wn_action = None, wn_confidence = 90,
      wn_reason = ''system diagnostics workflow matched a Home Assistant status request''\<rparr>"

definition node_semantic_router_status :: workflow_node where
  "node_semantic_router_status =
     \<lparr>wn_id = ''semantic_router_status'', wn_candidate_kind = ''system_readiness'',
      wn_phrases = [''semantic router'' @ [CHR 0xE7, CHR 0x8A, CHR 0xB6, CHR 0xE6, CHR 0x80, CHR 0x81],
                    ''semantic-router health'',
                    [CHR 0xE8, CHR 0xAF, CHR 0xAD, CHR 0xE4, CHR 0xB9, CHR 0x89, CHR 0xE8, CHR 0xB7, CHR 0xAF, CHR 0xE7, CHR 0x94, CHR 0xB1, CHR 0xE7, CHR 0x8A, CHR 0xB6, CHR 0xE6, CHR 0x80, CHR 0x81],
                    [CHR 0xE8, CHR 0xAF, CHR 0xAD, CHR 0xE4, CHR 0xB9, CHR 0x89, CHR 0xE8, CHR 0xB7, CHR 0xAF, CHR 0xE7, CHR 0x94, CHR 0xB1, CHR 0xE6, CHR 0xAD, CHR 0xA3, CHR 0xE5, CHR 0xB8, CHR 0xB8, CHR 0xE5, CHR 0x90, CHR 0x97],
                    ''semantic router ready''],
      wn_keywords_any = [''semanticrouter'',
                         [CHR 0xE8, CHR 0xAF, CHR 0xAD, CHR 0xE4, CHR 0xB9, CHR 0x89, CHR 0xE8, CHR 0xB7, CHR 0xAF, CHR 0xE7, CHR 0x94, CHR 0xB1]],
      wn_keywords_all = [],
      wn_read_only = True, wn_action = None, wn_confidence = 89,
      wn_reason = ''system diagnostics workflow matched a semantic router status request''\<rparr>"

definition node_system_readiness :: workflow_node where
  "node_system_readiness =
     \<lparr>wn_id = ''system_readiness'', wn_candidate_kind = ''system_readiness'',
      wn_phrases = [[CHR 0xE7, CHR 0x8A, CHR 0xB6, CHR 0xE6, CHR 0x80, CHR 0x81],
                    [CHR 0xE8, CHR 0xAF, CHR 0x8A, CHR 0xE6, CHR 0x96, CHR 0xAD],
                    [CHR 0xE7, CHR 0xB3, CHR 0xBB, CHR 0xE7, CHR 0xBB, CHR 0x9F, CHR 0xE7, CHR 0x8A, CHR 0xB6, CHR 0xE6, CHR 0x80, CHR 0x81],
                    [CHR 0xE5, CHR 0xBD, CHR 0x93, CHR 0xE5, CHR 0x89, CHR 0x8D, CHR 0xE7, CHR 0x8A, CHR 0xB6, CHR 0xE6, CHR 0x80, CHR 0x81],
                    [CHR 0xE5, CHR 0x81, CHR 0xA5, CHR 0xE5, CHR 0xBA, CHR 0xB7, CHR 0xE7, CHR 0x8A, CHR 0xB6, CHR 0xE6, CHR 0x80, CHR 0x81],
                    [CHR 0xE7, CHR 0x8E, CHR 0xB0, CHR 0xE5, CHR 0x9C, CHR 0xA8] @ ''K3'' @ [CHR 0xE5, CHR 0xA5, CHR 0xBD, CHR 0xE4, CHR 0xBA, CHR 0x86, CHR 0xE5, CHR 0x90, CHR 0x97],
                    ''K3'' @ [CHR 0xE5, CHR 0xA5, CHR 0xBD, CHR 0xE4, CHR 0xBA, CHR 0x86, CHR 0xE6, CHR 0xB2, CHR 0xA1],
                    ''Harbor'' @ [CHR 0xE7, CHR 0x8A, CHR 0xB6, CHR 0xE6, CHR 0x80, CHR 0x81],
                    [CHR 0xE7, CHR 0xBD, CHR 0x91, CHR 0xE5, CHR 0x85, CHR 0xB3, CHR 0xE7, CHR 0x8A, CHR 0xB6, CHR 0xE6, CHR 0x80, CHR 0x81],
                    [CHR 0xE9, CHR 0xBB, CHR 0x98, CHR 0xE8, CHR 0xAE, CHR 0xA4, CHR 0xE9, CHR 0x80, CHR 0x9A, CHR 0xE7, CHR 0x9F, CHR 0xA5, CHR 0xE7, CHR 0x9B, CHR 0xAE, CHR 0xE6, CHR 0xA0, CHR 0x87, CHR 0xE7, CHR 0x8A, CHR 0xB6, CHR 0xE6, CHR 0x80, CHR 0x81],
                    ''readiness'', ''diagnostics'', ''health status'', ''gateway status''],
      wn_keywords_any = [[CHR 0xE7, CHR 0x8A, CHR 0xB6, CHR 0xE6, CHR 0x80, CHR 0x81],
                         [CHR 0xE8, CHR 0xAF, CHR 0x8A, CHR 0xE6, CHR 0x96, CHR 0xAD],
                         [CHR 0xE5, CHR 0x81, CHR 0xA5, CHR 0xE5, CHR 0xBA, CHR 0xB7], ''ready'', ''readiness'', ''diagnostics'',
                         ''health'', ''K3'', ''k3'', ''gateway'', [CHR 0xE7, CHR 0xBD, CHR 0x91, CHR 0xE5, CHR 0x85, CHR 0xB3],
                         [CHR 0xE9, CHR 0x80, CHR 0x9A, CHR 0xE7, CHR 0x9F, CHR 0xA5, CHR 0xE7, CHR 0x9B, CHR 0xAE, CHR 0xE6, CHR 0xA0, CHR 0x87]],
      wn_keywords_all = [],
      wn_read_only = True, wn_action = None, wn_confidence = 84,
      wn_reason = ''system diagnostics workflow matched a general system readiness request''\<rparr>"

definition system_diagnostics_document :: workflow_spec where
  "system_diagnostics_document =
     \<lparr>wsp_id = ''system_diagnostics_v1'', wsp_version = ''1.0.0'',
      wsp_summary = ''Shadow workflow for HarborBeacon system diagnostics and readiness routing.'',
      wsp_min_confidence = 60, wsp_deny_phrases = deny_phrases_text,
      wsp_nodes = [node_evt_preflight, node_evt_evidence_bundle, node_evt_readiness, node_weixin_status,
                   node_home_assistant_status, node_semantic_router_status, node_system_readiness]\<rparr>"

definition system_diagnostics_eval_cases :: "workflow_eval_case list" where
  "system_diagnostics_eval_cases =
     [eval_case ''status'' ([CHR 0xE7, CHR 0x8A, CHR 0xB6, CHR 0xE6, CHR 0x80, CHR 0x81]) (Some ''system_readiness''),
      eval_case ''diagnostics'' ([CHR 0xE8, CHR 0xAF, CHR 0x8A, CHR 0xE6, CHR 0x96, CHR 0xAD]) (Some ''system_readiness''),
      eval_case ''system_status'' ([CHR 0xE7, CHR 0xB3, CHR 0xBB, CHR 0xE7, CHR 0xBB, CHR 0x9F, CHR 0xE7, CHR 0x8A, CHR 0xB6, CHR 0xE6, CHR 0x80, CHR 0x81]) (Some ''system_readiness''),
      eval_case ''current_status'' ([CHR 0xE5, CHR 0xBD, CHR 0x93, CHR 0xE5, CHR 0x89, CHR 0x8D, CHR 0xE7, CHR 0x8A, CHR 0xB6, CHR 0xE6, CHR 0x80, CHR 0x81]) (Some ''system_readiness''),
      eval_case ''health_status'' ([CHR 0xE5, CHR 0x81, CHR 0xA5, CHR 0xE5, CHR 0xBA, CHR 0xB7, CHR 0xE7, CHR 0x8A, CHR 0xB6, CHR 0xE6, CHR 0x80, CHR 0x81]) (Some ''system_readiness''),
      eval_case ''system_health'' ([CHR 0xE7, CHR 0xB3, CHR 0xBB, CHR 0xE7, CHR 0xBB, CHR 0x9F, CHR 0xE5, CHR 0x81, CHR 0xA5, CHR 0xE5, CHR 0xBA, CHR 0xB7, CHR 0xE6, CHR 0x80, CHR 0x8E, CHR 0xE4, CHR 0xB9, CHR 0x88, CHR 0xE6, CHR 0xA0, CHR 0xB7]) (Some ''system_readiness''),
      eval_case ''k3_ready'' ([CHR 0xE7, CHR 0x8E, CHR 0xB0, CHR 0xE5, CHR 0x9C, CHR 0xA8] @ '' K3 '' @ [CHR 0xE5, CHR 0xA5, CHR 0xBD, CHR 0xE4, CHR 0xBA, CHR 0x86, CHR 0xE5, CHR 0x90, CHR 0x97]) (Some ''system_readiness''),
      eval_case ''k3_status'' (''K3 '' @ [CHR 0xE7, CHR 0x8A, CHR 0xB6, CHR 0xE6, CHR 0x80, CHR 0x81, CHR 0xE6, CHR 0x80, CHR 0x8E, CHR 0xE4, CHR 0xB9, CHR 0x88, CHR 0xE6, CHR 0xA0, CHR 0xB7]) (Some ''system_readiness''),
      eval_case ''k3_health'' (''K3 '' @ [CHR 0xE5, CHR 0xBD, CHR 0x93, CHR 0xE5, CHR 0x89, CHR 0x8D, CHR 0xE5, CHR 0x81, CHR 0xA5, CHR 0xE5, CHR 0xBA, CHR 0xB7, CHR 0xE7, CHR 0x8A, CHR 0xB6, CHR 0xE6, CHR 0x80, CHR 0x81]) (Some ''system_readiness''),
      eval_case ''k3_ok'' (''K3'' @ [CHR 0xE5, CHR 0xA5, CHR 0xBD, CHR 0xE4, CHR 0xBA, CHR 0x86, CHR 0xE6, CHR 0xB2, CHR 0xA1]) (Some ''system_readiness''),
      eval_case ''harbor_status'' (''Harbor '' @ [CHR 0xE7, CHR 0x8A, CHR 0xB6, CHR 0xE6, CHR 0x80, CHR 0x81]) (Some ''system_readiness''),
      eval_case ''harbor_diagnostics'' (''Harbor '' @ [CHR 0xE7, CHR 0xB3, CHR 0xBB, CHR 0xE7, CHR 0xBB, CHR 0x9F, CHR 0xE8, CHR 0xAF, CHR 0x8A, CHR 0xE6, CHR 0x96, CHR 0xAD]) (Some ''system_readiness''),
      eval_case ''gateway_status'' ([CHR 0xE7, CHR 0xBD, CHR 0x91, CHR 0xE5, CHR 0x85, CHR 0xB3, CHR 0xE7, CHR 0x8A, CHR 0xB6, CHR 0xE6, CHR 0x80, CHR 0x81]) (Some ''system_readiness''),
      eval_case ''gateway_ok'' ([CHR 0xE7, CHR 0xBD, CHR 0x91, CHR 0xE5, CHR 0x85, CHR 0xB3, CHR 0xE9, CHR 0x80, CHR 0x9A, CHR 0xE4, CHR 0xBA, CHR 0x86, CHR 0xE5, CHR 0x90, CHR 0x97]) (Some ''system_readiness''),
      eval_case ''gateway_english'' (''gateway status'') (Some ''system_readiness''),
      eval_case ''default_target_status'' ([CHR 0xE9, CHR 0xBB, CHR 0x98, CHR 0xE8, CHR 0xAE, CHR 0xA4, CHR 0xE9, CHR 0x80, CHR 0x9A, CHR 0xE7, CHR 0x9F, CHR 0xA5, CHR 0xE7, CHR 0x9B, CHR 0xAE, CHR 0xE6, CHR 0xA0, CHR 0x87, CHR 0xE7, CHR 0x8A, CHR 0xB6, CHR 0xE6, CHR 0x80, CHR 0x81]) (Some ''system_readiness''),
      eval_case ''weixin_status'' ([CHR 0xE5, CHR 0xBE, CHR 0xAE, CHR 0xE4, CHR 0xBF, CHR 0xA1, CHR 0xE9, CHR 0x80, CHR 0x9A, CHR 0xE4, CHR 0xBA, CHR 0x86, CHR 0xE5, CHR 0x90, CHR 0x97]) (Some ''system_readiness''),
      eval_case ''weixin_state'' ([CHR 0xE5, CHR 0xBE, CHR 0xAE, CHR 0xE4, CHR 0xBF, CHR 0xA1, CHR 0xE7, CHR 0x8A, CHR 0xB6, CHR 0xE6, CHR 0x80, CHR 0x81]) (Some ''system_readiness''),
      eval_case ''weixin_connected'' ([CHR 0xE5, CHR 0xBE, CHR 0xAE, CHR 0xE4, CHR 0xBF, CHR 0xA1, CHR 0xE8, CHR 0xBF, CHR 0x9E, CHR 0xE4, CHR 0xBA, CHR 0x86, CHR 0xE5, CHR 0x90, CHR 0x97]) (Some ''system_readiness''),
      eval_case ''weixin_available'' ([CHR 0xE5, CHR 0xBE, CHR 0xAE, CHR 0xE4, CHR 0xBF, CHR 0xA1, CHR 0xE8, CHR 0x83, CHR 0xBD, CHR 0xE7, CHR 0x94, CHR 0xA8, CHR 0xE5, CHR 0x90, CHR 0x97]) (Some ''system_readiness''),
      eval_case ''weixin_robot'' ([CHR 0xE5, CHR 0xBE, CHR 0xAE, CHR 0xE4, CHR 0xBF, CHR 0xA1, CHR 0xE6, CHR 0x9C, CHR 0xBA, CHR 0xE5, CHR 0x99, CHR 0xA8, CHR 0xE4, CHR 0xBA, CHR 0xBA, CHR 0xE6, CHR 0xAD, CHR 0xA3, CHR 0xE5, CHR 0xB8, CHR 0xB8, CHR 0xE5, CHR 0x90, CHR 0x97]) (Some ''system_readiness''),
      eval_case ''wechat_status'' (''WeChat status'') (Some ''system_readiness''),
      eval_case ''weixin_status_en'' (''Weixin status'') (Some ''system_readiness''),
      eval_case ''weixin_connected_en'' (''weixin connected?'') (Some ''system_readiness''),
      eval_case ''ha_status'' (''HA '' @ [CHR 0xE6, CHR 0xAD, CHR 0xA3, CHR 0xE5, CHR 0xB8, CHR 0xB8, CHR 0xE5, CHR 0x90, CHR 0x97]) (Some ''system_readiness''),
      eval_case ''ha_state'' (''HA '' @ [CHR 0xE7, CHR 0x8A, CHR 0xB6, CHR 0xE6, CHR 0x80, CHR 0x81]) (Some ''system_readiness''),
      eval_case ''ha_entity_sync'' (''HA '' @ [CHR 0xE5, CHR 0xAE, CHR 0x9E, CHR 0xE4, CHR 0xBD, CHR 0x93, CHR 0xE5, CHR 0x90, CHR 0x8C, CHR 0xE6, CHR 0xAD, CHR 0xA5, CHR 0xE4, CHR 0xBA, CHR 0x86, CHR 0xE5, CHR 0x90, CHR 0x97]) (Some ''system_readiness''),
      eval_case ''home_assistant_status'' (''Home Assistant '' @ [CHR 0xE7, CHR 0x8A, CHR 0xB6, CHR 0xE6, CHR 0x80, CHR 0x81]) (Some ''system_readiness''),
      eval_case ''home_assistant_ready'' (''Home Assistant ready?'') (Some ''system_readiness''),
      eval_case ''home_assistant_health'' (''home assistant health'') (Some ''system_readiness''),
      eval_case ''homeassistant_ready'' (''homeassistant ready'') (Some ''system_readiness''),
      eval_case ''ha_short_ready'' (''HA ready '' @ [CHR 0xE4, CHR 0xBA, CHR 0x86, CHR 0xE5, CHR 0x90, CHR 0x97]) (Some ''system_readiness''),
      eval_case ''semantic_router_status'' (''semantic router '' @ [CHR 0xE7, CHR 0x8A, CHR 0xB6, CHR 0xE6, CHR 0x80, CHR 0x81, CHR 0xE6, CHR 0x80, CHR 0x8E, CHR 0xE4, CHR 0xB9, CHR 0x88, CHR 0xE6, CHR 0xA0, CHR 0xB7]) (Some ''system_readiness''),
      eval_case ''semantic_router_ready'' (''semantic router ready'') (Some ''system_readiness''),
      eval_case ''semantic_router_health'' (''semantic-router health'') (Some ''system_readiness''),
      eval_case ''semantic_router_cn_status'' ([CHR 0xE8, CHR 0xAF, CHR 0xAD, CHR 0xE4, CHR 0xB9, CHR 0x89, CHR 0xE8, CHR 0xB7, CHR 0xAF, CHR 0xE7, CHR 0x94, CHR 0xB1, CHR 0xE7, CHR 0x8A, CHR 0xB6, CHR 0xE6, CHR 0x80, CHR 0x81]) (Some ''system_readiness''),
      eval_case ''semantic_router_cn_ok'' ([CHR 0xE8, CHR 0xAF, CHR 0xAD, CHR 0xE4, CHR 0xB9, CHR 0x89, CHR 0xE8, CHR 0xB7, CHR 0xAF, CHR 0xE7, CHR 0x94, CHR 0xB1, CHR 0xE6, CHR 0xAD, CHR 0xA3, CHR 0xE5, CHR 0xB8, CHR 0xB8, CHR 0xE5, CHR 0x90, CHR 0x97]) (Some ''system_readiness''),
      eval_case ''semantic_router_policy'' (''semantic router '' @ [CHR 0xE7, CHR 0x9A, CHR 0x84, CHR 0xE6, CHR 0x9C, CHR 0xAC, CHR 0xE5, CHR 0x9C, CHR 0xB0, CHR 0xE7, CHR 0x8A, CHR 0xB6, CHR 0xE6, CHR 0x80, CHR 0x81]) (Some ''system_readiness''),
      eval_case ''evt_ready'' ([CHR 0xE5, CHR 0x8E, CHR 0x8B, CHR 0xE6, CHR 0xB5, CHR 0x8B, CHR 0xE5, CHR 0x89, CHR 0x8D, CHR 0xE7, CHR 0x8A, CHR 0xB6, CHR 0xE6, CHR 0x80, CHR 0x81, CHR 0xE6, CHR 0x80, CHR 0x8E, CHR 0xE4, CHR 0xB9, CHR 0x88, CHR 0xE6, CHR 0xA0, CHR 0xB7]) (Some ''evt_readiness''),
      eval_case ''evt_status'' (''EVT '' @ [CHR 0xE7, CHR 0x8A, CHR 0xB6, CHR 0xE6, CHR 0x80, CHR 0x81]) (Some ''evt_readiness''),
      eval_case ''evt_ok'' (''EVT '' @ [CHR 0xE5, CHR 0xA5, CHR 0xBD, CHR 0xE4, CHR 0xBA, CHR 0x86, CHR 0xE5, CHR 0x90, CHR 0x97]) (Some ''evt_readiness''),
      eval_case ''evt_readiness'' (''EVT '' @ [CHR 0xE5, CHR 0xB0, CHR 0xB1, CHR 0xE7, CHR 0xBB, CHR 0xAA, CHR 0xE4, CHR 0xBA, CHR 0x86, CHR 0xE5, CHR 0x90, CHR 0x97]) (Some ''evt_readiness''),
      eval_case ''stress_status'' ([CHR 0xE5, CHR 0x8E, CHR 0x8B, CHR 0xE6, CHR 0xB5, CHR 0x8B, CHR 0xE7, CHR 0x8A, CHR 0xB6, CHR 0xE6, CHR 0x80, CHR 0x81]) (Some ''evt_readiness''),
      eval_case ''stress_ready'' ([CHR 0xE5, CHR 0x8E, CHR 0x8B, CHR 0xE6, CHR 0xB5, CHR 0x8B] @ '' ready '' @ [CHR 0xE4, CHR 0xBA, CHR 0x86, CHR 0xE5, CHR 0x90, CHR 0x97]) (Some ''evt_readiness''),
      eval_case ''k3_stress_readiness'' (''K3 '' @ [CHR 0xE5, CHR 0x8E, CHR 0x8B, CHR 0xE6, CHR 0xB5, CHR 0x8B] @ '' readiness'') (Some ''evt_readiness''),
      eval_case ''stress_readiness_en'' (''stress readiness'') (Some ''evt_readiness''),
      eval_case ''evt_preflight'' ([CHR 0xE5, CHR 0xB8, CHR 0xAE, CHR 0xE6, CHR 0x88, CHR 0x91, CHR 0xE5, CHR 0x81, CHR 0x9A, CHR 0xE4, CHR 0xB8, CHR 0x80, CHR 0xE4, CHR 0xB8, CHR 0x8B] @ '' EVT '' @ [CHR 0xE9, CHR 0xA2, CHR 0x84, CHR 0xE6, CHR 0xA3, CHR 0x80]) (Some ''evt_preflight''),
      eval_case ''stress_preflight'' ([CHR 0xE5, CHR 0x81, CHR 0x9A, CHR 0xE4, CHR 0xB8, CHR 0x80, CHR 0xE4, CHR 0xB8, CHR 0x8B, CHR 0xE5, CHR 0x8E, CHR 0x8B, CHR 0xE6, CHR 0xB5, CHR 0x8B, CHR 0xE9, CHR 0xA2, CHR 0x84, CHR 0xE6, CHR 0xA3, CHR 0x80]) (Some ''evt_preflight''),
      eval_case ''run_evt_preflight'' ([CHR 0xE8, CHR 0xBF, CHR 0x90, CHR 0xE8, CHR 0xA1, CHR 0x8C] @ '' EVT preflight'') (Some ''evt_preflight''),
      eval_case ''preflight'' (''preflight'') (Some ''evt_preflight''),
      eval_case ''pre_stress_check'' (''pre-stress check'') (Some ''evt_preflight''),
      eval_case ''evt_evidence'' ([CHR 0xE7, CHR 0x94, CHR 0x9F, CHR 0xE6, CHR 0x88, CHR 0x90, CHR 0xE5, CHR 0x8E, CHR 0x8B, CHR 0xE6, CHR 0xB5, CHR 0x8B, CHR 0xE8, CHR 0xAF, CHR 0x81, CHR 0xE6, CHR 0x8D, CHR 0xAE, CHR 0xE5, CHR 0x8C, CHR 0x85]) (Some ''evt_evidence_bundle''),
      eval_case ''evt_evidence_bundle'' (''EVT '' @ [CHR 0xE8, CHR 0xAF, CHR 0x81, CHR 0xE6, CHR 0x8D, CHR 0xAE, CHR 0xE5, CHR 0x8C, CHR 0x85]) (Some ''evt_evidence_bundle''),
      eval_case ''stress_evidence'' ([CHR 0xE7, CHR 0x94, CHR 0x9F, CHR 0xE6, CHR 0x88, CHR 0x90, CHR 0xE5, CHR 0x8E, CHR 0x8B, CHR 0xE6, CHR 0xB5, CHR 0x8B, CHR 0xE8, CHR 0xAF, CHR 0x81, CHR 0xE6, CHR 0x8D, CHR 0xAE]) (Some ''evt_evidence_bundle''),
      eval_case ''evt_evidence_cn'' ([CHR 0xE7, CHR 0x94, CHR 0x9F, CHR 0xE6, CHR 0x88, CHR 0x90] @ '' EVT '' @ [CHR 0xE8, CHR 0xAF, CHR 0x81, CHR 0xE6, CHR 0x8D, CHR 0xAE]) (Some ''evt_evidence_bundle''),
      eval_case ''evidence_bundle_en'' (''evidence bundle'') (Some ''evt_evidence_bundle''),
      eval_case ''restart_ssh'' ([CHR 0xE9, CHR 0x87, CHR 0x8D, CHR 0xE5, CHR 0x90, CHR 0xAF] @ '' SSH'') None,
      eval_case ''restart_beacon_service'' ([CHR 0xE5, CHR 0xB8, CHR 0xAE, CHR 0xE6, CHR 0x88, CHR 0x91, CHR 0xE9, CHR 0x87, CHR 0x8D, CHR 0xE5, CHR 0x90, CHR 0xAF] @ '' harboros-beacon.service'') None,
      eval_case ''start_service'' ([CHR 0xE5, CHR 0x90, CHR 0xAF, CHR 0xE5, CHR 0x8A, CHR 0xA8, CHR 0xE6, CHR 0x9C, CHR 0x8D, CHR 0xE5, CHR 0x8A, CHR 0xA1]) None,
      eval_case ''stop_service'' ([CHR 0xE5, CHR 0x81, CHR 0x9C, CHR 0xE6, CHR 0xAD, CHR 0xA2] @ '' semantic router service'') None,
      eval_case ''connect_camera'' ([CHR 0xE8, CHR 0xBF, CHR 0x9E, CHR 0xE6, CHR 0x8E, CHR 0xA5, CHR 0xE6, CHR 0x91, CHR 0x84, CHR 0xE5, CHR 0x83, CHR 0x8F, CHR 0xE5, CHR 0xA4, CHR 0xB4]) None,
      eval_case ''add_camera'' ([CHR 0xE6, CHR 0x8E, CHR 0xA5, CHR 0xE5, CHR 0x85, CHR 0xA5, CHR 0xE6, CHR 0x91, CHR 0x84, CHR 0xE5, CHR 0x83, CHR 0x8F, CHR 0xE5, CHR 0xA4, CHR 0xB4]) None,
      eval_case ''delete_file'' ([CHR 0xE5, CHR 0x88, CHR 0xA0, CHR 0xE9, CHR 0x99, CHR 0xA4, CHR 0xE8, CHR 0xBF, CHR 0x99, CHR 0xE4, CHR 0xB8, CHR 0xAA, CHR 0xE6, CHR 0x96, CHR 0x87, CHR 0xE4, CHR 0xBB, CHR 0xB6]) None,
      eval_case ''move_file'' ([CHR 0xE7, CHR 0xA7, CHR 0xBB, CHR 0xE5, CHR 0x8A, CHR 0xA8, CHR 0xE8, CHR 0xBF, CHR 0x99, CHR 0xE4, CHR 0xB8, CHR 0xAA, CHR 0xE6, CHR 0x96, CHR 0x87, CHR 0xE4, CHR 0xBB, CHR 0xB6]) None,
      eval_case ''copy_file'' ([CHR 0xE5, CHR 0xA4, CHR 0x8D, CHR 0xE5, CHR 0x88, CHR 0xB6, CHR 0xE6, CHR 0x96, CHR 0x87, CHR 0xE4, CHR 0xBB, CHR 0xB6]) None,
      eval_case ''write_config'' ([CHR 0xE5, CHR 0x86, CHR 0x99, CHR 0xE5, CHR 0x85, CHR 0xA5, CHR 0xE9, CHR 0x85, CHR 0x8D, CHR 0xE7, CHR 0xBD, CHR 0xAE]) None,
      eval_case ''turn_on_light'' ([CHR 0xE5, CHR 0xBC, CHR 0x80, CHR 0xE7, CHR 0x81, CHR 0xAF]) None,
      eval_case ''turn_off_light'' ([CHR 0xE5, CHR 0x85, CHR 0xB3, CHR 0xE7, CHR 0x81, CHR 0xAF]) None,
      eval_case ''weather_status'' ([CHR 0xE5, CHR 0xA4, CHR 0xA9, CHR 0xE6, CHR 0xB0, CHR 0x94, CHR 0xE7, CHR 0x8A, CHR 0xB6, CHR 0xE6, CHR 0x80, CHR 0x81, CHR 0xE6, CHR 0x80, CHR 0x8E, CHR 0xE4, CHR 0xB9, CHR 0x88, CHR 0xE6, CHR 0xA0, CHR 0xB7]) None,
      eval_case ''news'' ([CHR 0xE4, CHR 0xBB, CHR 0x8A, CHR 0xE5, CHR 0xA4, CHR 0xA9, CHR 0xE6, CHR 0x96, CHR 0xB0, CHR 0xE9, CHR 0x97, CHR 0xBB]) None,
      eval_case ''stock'' ([CHR 0xE8, CHR 0x82, CHR 0xA1, CHR 0xE7, CHR 0xA5, CHR 0xA8, CHR 0xE8, CHR 0xA1, CHR 0x8C, CHR 0xE6, CHR 0x83, CHR 0x85]) None,
      eval_case ''unlock_door'' ([CHR 0xE8, CHR 0xA7, CHR 0xA3, CHR 0xE9, CHR 0x94, CHR 0x81, CHR 0xE9, CHR 0x97, CHR 0xA8, CHR 0xE9, CHR 0x94, CHR 0x81]) None,
      eval_case ''knowledge_search'' ([CHR 0xE6, CHR 0x9F, CHR 0xA5, CHR 0xE4, CHR 0xB8, CHR 0x80, CHR 0xE4, CHR 0xB8, CHR 0x8B, CHR 0xE6, CHR 0xA8, CHR 0xB1, CHR 0xE8, CHR 0x8A, CHR 0xB1, CHR 0xE8, CHR 0xAE, CHR 0xA1, CHR 0xE5, CHR 0x88, CHR 0x92]) None,
      eval_case ''camera_snapshot'' ([CHR 0xE7, CHR 0x9C, CHR 0x8B, CHR 0xE4, CHR 0xB8, CHR 0x80, CHR 0xE4, CHR 0xB8, CHR 0x8B, CHR 0xE9, CHR 0x97, CHR 0xA8, CHR 0xE5, CHR 0x8F, CHR 0xA3, CHR 0xE6, CHR 0x91, CHR 0x84, CHR 0xE5, CHR 0x83, CHR 0x8F, CHR 0xE5, CHR 0xA4, CHR 0xB4]) None]"

section \<open>Validated specifications are safe\<close>

definition node_ok :: "workflow_node \<Rightarrow> bool" where
  "node_ok n \<longleftrightarrow> wn_candidate_kind n \<in> set ALLOWED_GENERAL_MESSAGE_CANDIDATES \<and> \<not> unsafe_action_opt (wn_action n) \<and>
     trim (wn_id n) \<noteq> [] \<and> (wn_phrases n \<noteq> [] \<or> wn_keywords_any n \<noteq> [] \<or> wn_keywords_all n \<noteq> [])"

lemma validate_nodes_ok_iff:
  "validate_nodes ids ns = Ok () \<longleftrightarrow>
     (\<forall>n \<in> set ns. node_ok n) \<and> distinct (map wn_id ns) \<and> set (map wn_id ns) \<inter> set ids = {}"
  by (induction ids ns rule: validate_nodes.induct) (auto simp: node_ok_def)

lemma validate_ok_iff_spec:
  "validate_workflow_spec spec = Ok spec' \<longleftrightarrow> spec' = spec \<and> trim (wsp_id spec) \<noteq> [] \<and> wsp_nodes spec \<noteq> [] \<and>
     (\<forall>n \<in> set (wsp_nodes spec). node_ok n) \<and> distinct (map wn_id (wsp_nodes spec))"
  by (auto simp: validate_workflow_spec_def and_then_Inr_iff validate_nodes_ok_iff)

text \<open>The best match is the first node with the largest score.\<close>

lemma best_from_spec:
  "best_from t ns best = Some (n, k) \<Longrightarrow>
     (best = Some (n, k) \<or> (n \<in> set ns \<and> node_score n t = Some k)) \<and>
     (\<forall>m \<in> set ns. \<forall>j. node_score m t = Some j \<longrightarrow> j \<le> k) \<and> (\<forall>b j. best = Some (b, j) \<longrightarrow> j \<le> k)"
proof (induction t ns best rule: best_from.induct)
  case (2 t node nodes best)
  show ?case
  proof (cases "node_score node t")
    case None
    then show ?thesis using 2 by auto
  next
    case (Some s)
    let ?b = "case best of None \<Rightarrow> Some (node, s) | Some (b, bs) \<Rightarrow> if s > bs then Some (node, s) else best"
    obtain b j where b: "?b = Some (b, j)" "s \<le> j" "\<forall>x y. best = Some (x, y) \<longrightarrow> y \<le> j"
      "best = Some (b, j) \<or> (b = node \<and> j = s)"
    proof (cases best)
      case None
      then show thesis using that by simp
    next
      case (Some x)
      then show thesis using that [of node s] that [of "fst x" "snd x"]
        by (cases x; cases "snd x < s") auto
    qed
    have "best_from t nodes ?b = Some (n, k)" using 2(3) Some by simp
    note ih = "2.IH"(2) [OF Some this]
    then have jk: "j \<le> k" using b(1) by blast
    then have "s \<le> k" "\<forall>x y. best = Some (x, y) \<longrightarrow> y \<le> k" using b(2,3) by (auto intro: order_trans)
    moreover have "best = Some (n, k) \<or> (n \<in> set (node # nodes) \<and> node_score n t = Some k)"
      using ih b(1,4) Some by auto
    ultimately show ?thesis using ih Some by auto
  qed
qed auto

lemma best_from_None: "best_from t ns best = None \<longleftrightarrow> best = None \<and> (\<forall>n \<in> set ns. node_score n t = None)"
  by (induction t ns best rule: best_from.induct) (auto split: option.split)

lemma best_node_matchD:
  assumes "best_node_match spec t = Some (n, k)"
  shows "n \<in> set (wsp_nodes spec)" "node_score n t = Some k"
    "m \<in> set (wsp_nodes spec) \<Longrightarrow> node_score m t = Some j \<Longrightarrow> j \<le> k"
  using best_from_spec [of t "wsp_nodes spec" None n k] assms by (auto simp: best_node_match_def)

lemma compile_SomeD:
  assumes "compile_workflow_candidate spec text = Some c"
  obtains n k where "best_node_match spec (normalize_workflow_text text) = Some (n, k)"
    "\<not> deny_phrase_matches (normalize_workflow_text text) (wsp_deny_phrases spec)"
    "normalize_workflow_text text \<noteq> []" "wsp_min_confidence spec \<le> k"
    "c = \<lparr>wc_workflow_id = wsp_id spec, wc_node_id = wn_id n, wc_candidate_kind = wn_candidate_kind n,
      wc_confidence = min k 100, wc_reason = wn_reason n,
      wc_read_only = (wn_read_only n \<and> \<not> unsafe_action_opt (wn_action n)), wc_action = wn_action n\<rparr>"
  using assms that by (auto simp: compile_workflow_candidate_def Let_def split: if_splits option.splits)

lemma candidate_not_unsafe:
  assumes "validate_workflow_spec spec0 = Ok spec" "compile_workflow_candidate spec t = Some k"
  shows "\<not> has_unsafe_action k"
proof -
  from assms(2) obtain n j where "best_node_match spec (normalize_workflow_text t) = Some (n, j)"
      "wc_action k = wn_action n"
    by (rule compile_SomeD) simp
  then show ?thesis
    using assms(1) best_node_matchD(1) by (auto simp: validate_ok_iff_spec node_ok_def has_unsafe_action_def)
qed

lemma read_only_low:
  assumes "workflow_action_is_read_only a"
  shows "effective_risk_level a = Low \<and> \<not> action_requires_approval a"
proof -
  let ?d = "to_ascii_lowercase (trim (act_domain a))" and ?p = "to_ascii_lowercase (trim (act_operation a))"
  have lower: "to_lowercase = to_ascii_lowercase" by (rule ext) (simp add: to_lowercase_def to_ascii_lowercase_def)
  have low: "act_risk_level a = Low" "\<not> act_requires_approval a"
    using assms by (simp_all add: workflow_action_is_read_only_def)
  have "(?d, ?p) \<in> {(''service'', ''status''), (''files'', ''search''), (''files'', ''list''), (''files'', ''stat''),
      (''files'', ''read_text''), (''diagnostics'', ''read'')}"
    using assms unfolding workflow_action_is_read_only_def by blast
  then consider "?d = ''service''" "?p = ''status''" | "?d = ''files''" "?p = ''search''" | "?d = ''files''" "?p = ''list''"
    | "?d = ''files''" "?p = ''stat''" | "?d = ''files''" "?p = ''read_text''" | "?d = ''diagnostics''" "?p = ''read''"
    by blast
  then have "default_risk_level a = Low \<and> \<not> default_requires_approval a"
    by cases (simp_all add: default_risk_level_def default_requires_approval_def lower)
  then show ?thesis using low by (simp add: effective_risk_level_def action_requires_approval_def)
qed

text \<open>
  C39. A validated workflow never proposes an unsafe action. For every specification the validator accepts and
  every text: a compiled candidate comes from a node of the specification whose score is the largest, with the kind, the
  action and the read-only mark of this node; its kind is allowed; its action, if it has one, is one of the six reading operations on
  services, files and diagnostics, which the policy gate takes for low risk and lets through without approval; its confidence is at most 100 and,
  unless the threshold itself is above 100, at least the threshold; and a text in which a deny phrase occurs
  (after normalisation) compiles to nothing. A candidate without an action need not be marked read-only.
\<close>

theorem compiled_candidate_is_safe:
  assumes "validate_workflow_spec spec0 = Ok spec" "compile_workflow_candidate spec text = Some c"
  shows "(\<exists>n k. n \<in> set (wsp_nodes spec) \<and> wc_node_id c = wn_id n \<and> wc_candidate_kind c = wn_candidate_kind n \<and>
      wc_action c = wn_action n \<and> wc_read_only c = wn_read_only n \<and>
      node_score n (normalize_workflow_text text) = Some k \<and> wc_confidence c = min k 100 \<and>
      (\<forall>m \<in> set (wsp_nodes spec). \<forall>j. node_score m (normalize_workflow_text text) = Some j \<longrightarrow> j \<le> k)) \<and>
    wc_candidate_kind c \<in> set ALLOWED_GENERAL_MESSAGE_CANDIDATES \<and>
    (case wc_action c of None \<Rightarrow> True | Some a \<Rightarrow>
      (to_ascii_lowercase (trim (act_domain a)), to_ascii_lowercase (trim (act_operation a))) \<in>
        {(''service'', ''status''), (''files'', ''search''), (''files'', ''list''), (''files'', ''stat''),
         (''files'', ''read_text''), (''diagnostics'', ''read'')} \<and>
      effective_risk_level a = Low \<and> \<not> action_requires_approval a) \<and>
    min (wsp_min_confidence spec) 100 \<le> wc_confidence c \<and> wc_confidence c \<le> 100 \<and>
    (\<forall>d \<in> set (wsp_deny_phrases spec). normalize_workflow_text d = [] \<or>
       \<not> sublist (normalize_workflow_text d) (normalize_workflow_text text))"
proof -
  obtain n k where nk: "best_node_match spec (normalize_workflow_text text) = Some (n, k)"
    "\<not> deny_phrase_matches (normalize_workflow_text text) (wsp_deny_phrases spec)"
    "wsp_min_confidence spec \<le> k"
    "c = \<lparr>wc_workflow_id = wsp_id spec, wc_node_id = wn_id n, wc_candidate_kind = wn_candidate_kind n,
      wc_confidence = min k 100, wc_reason = wn_reason n,
      wc_read_only = (wn_read_only n \<and> \<not> unsafe_action_opt (wn_action n)), wc_action = wn_action n\<rparr>"
    using assms(2) by (rule compile_SomeD)
  note n = best_node_matchD [OF nk(1)]
  have ok: "node_ok n" using assms(1) n(1) by (auto simp: validate_ok_iff_spec)
  then have "wc_candidate_kind c \<in> set ALLOWED_GENERAL_MESSAGE_CANDIDATES"
    by (simp add: nk(4) node_ok_def)
  moreover have "case wc_action c of None \<Rightarrow> True | Some a \<Rightarrow>
      (to_ascii_lowercase (trim (act_domain a)), to_ascii_lowercase (trim (act_operation a))) \<in>
        {(''service'', ''status''), (''files'', ''search''), (''files'', ''list''), (''files'', ''stat''),
         (''files'', ''read_text''), (''diagnostics'', ''read'')} \<and>
      effective_risk_level a = Low \<and> \<not> action_requires_approval a"
  proof (cases "wn_action n")
    case (Some a)
    then have "workflow_action_is_read_only a" using ok by (simp add: node_ok_def unsafe_action_opt_def)
    then show ?thesis using read_only_low [of a] Some by (simp add: nk(4) workflow_action_is_read_only_def)
  qed (simp add: nk(4))
  moreover have "wc_read_only c = wn_read_only n" using ok by (simp add: nk(4) node_ok_def)
  moreover have "\<forall>d \<in> set (wsp_deny_phrases spec). normalize_workflow_text d = [] \<or>
      \<not> sublist (normalize_workflow_text d) (normalize_workflow_text text)"
    using nk(2) by (auto simp: deny_phrase_matches_def list_ex_iff str_contains_iff)
  moreover have "min (wsp_min_confidence spec) 100 \<le> wc_confidence c" using nk(3) by (simp add: nk(4) min.coboundedI1)
  moreover have "\<exists>n k. n \<in> set (wsp_nodes spec) \<and> wc_node_id c = wn_id n \<and> wc_candidate_kind c = wn_candidate_kind n \<and>
      wc_action c = wn_action n \<and> wc_read_only c = wn_read_only n \<and>
      node_score n (normalize_workflow_text text) = Some k \<and> wc_confidence c = min k 100 \<and>
      (\<forall>m \<in> set (wsp_nodes spec). \<forall>j. node_score m (normalize_workflow_text text) = Some j \<longrightarrow> j \<le> k)"
    using n calculation(3) by (intro exI [of _ n] exI [of _ k]) (simp add: nk(4))
  ultimately show ?thesis by (simp add: nk(4))
qed

text \<open>
  The compiler's read-only actions are below the policy gate's threshold. An action the compiler treats as
  read-only is one the policy gate derives no approval duty for, so the gate's answer for it is the
  same with and without an approval context.
\<close>

theorem read_only_actions_need_no_approval:
  assumes "workflow_action_is_read_only a"
  shows "\<not> action_requires_approval a \<and> effective_risk_level a = Low \<and> enforce a ctx = enforce a None"
  using read_only_low [OF assms] by (simp add: enforce_def check_risk_gate_def)

definition status_action :: action where
  "status_action = \<lparr>act_domain = '' Service'', act_operation = ''status'', act_resource = JNull, act_args = JNull,
     act_risk_level = Low, act_requires_approval = False, act_dry_run = False\<rparr>"

lemma status_action_read_only: "workflow_action_is_read_only status_action"
  by code_simp

theorem read_only_actions_need_no_approval_witness:
  "enforce status_action None = enforce status_action (Some admin_approval)"
  using read_only_actions_need_no_approval [OF status_action_read_only, of "Some admin_approval"] by simp

lemma evaluation_of_validated:
  assumes "validate_workflow_spec spec0 = Ok spec"
  shows "wr_unauthorized_action_count (evaluate_workflow spec cases) = 0"
    "wr_passed (evaluate_workflow spec cases) \<longleftrightarrow> (\<forall>c \<in> set cases. vr_correct (evaluate_case spec c))"
proof -
  have "\<not> vr_unsafe_action (evaluate_case spec c)" for c
    using candidate_not_unsafe [OF assms] by (auto simp: evaluate_case_def Let_def split: option.split)
  then show "wr_unauthorized_action_count (evaluate_workflow spec cases) = 0"
    "wr_passed (evaluate_workflow spec cases) \<longleftrightarrow> (\<forall>c \<in> set cases. vr_correct (evaluate_case spec c))"
    by (auto simp: evaluate_workflow_def Let_def filter_empty_conv length_filter_eq_iff list_all_iff)
qed

text \<open>
  Evaluation reports of a validated workflow are clean. Whatever the cases, the evaluation counts no
  unauthorised action, it passes exactly when every case is correct, and the number of correct cases is at
  most the number of cases that the shadow evidence marks as matching the current plan; the evidence has
  one redacted entry per case.
\<close>

theorem validated_workflow_evaluation:
  assumes "validate_workflow_spec spec0 = Ok spec"
  shows "wr_unauthorized_action_count (evaluate_workflow spec cases) = 0 \<and>
    (wr_passed (evaluate_workflow spec cases) \<longleftrightarrow> (\<forall>c \<in> set cases. vr_correct (evaluate_case spec c))) \<and>
    sr_matched_current_plan_cases (build_workflow_shadow_evidence_report digest spec cases)
      \<le> length (filter se_matched_current_plan (sr_cases (build_workflow_shadow_evidence_report digest spec cases))) \<and>
    map se_case_id (sr_cases (build_workflow_shadow_evidence_report digest spec cases)) = map ev_id cases"
proof -
  have sub: "vr_correct (evaluate_case spec c) \<Longrightarrow> se_matched_current_plan (evidence_case digest spec c)" for c
    by (auto simp: evaluate_case_def evidence_case_def Let_def split: option.splits)
  have "length (filter vr_correct (map (evaluate_case spec) cs)) \<le>
      length (filter se_matched_current_plan (map (evidence_case digest spec) cs))" for cs
    using sub by (induction cs) (auto simp: le_SucI)
  then show ?thesis
    using evaluation_of_validated [OF assms]
    by (simp add: evaluate_workflow_def build_workflow_shadow_evidence_report_def Let_def evidence_case_def)
qed

section \<open>A small workflow\<close>

definition ping_spec :: workflow_spec where
  "ping_spec = \<lparr>wsp_id = ''ping'', wsp_version = ''1'', wsp_summary = [], wsp_min_confidence = 60,
     wsp_deny_phrases = [''re-start''], wsp_nodes =
       [\<lparr>wn_id = ''n1'', wn_candidate_kind = ''system_readiness'', wn_phrases = [''Gateway Status''], wn_keywords_any = [],
         wn_keywords_all = [], wn_read_only = True, wn_action = Some status_action, wn_confidence = 84,
         wn_reason = ''r''\<rparr>]\<rparr>"

definition ping_candidate :: workflow_candidate where
  "ping_candidate = \<lparr>wc_workflow_id = ''ping'', wc_node_id = ''n1'', wc_candidate_kind = ''system_readiness'',
     wc_confidence = 89, wc_reason = ''r'', wc_read_only = True, wc_action = Some status_action\<rparr>"

lemma ping_validates: "validate_workflow_spec ping_spec = Ok ping_spec"
  by code_simp

lemma ping_compiles: "compile_workflow_candidate ping_spec '' gateway-status '' = Some ping_candidate"
  by code_simp

theorem compiled_candidate_is_safe_witness:
  "wc_candidate_kind ping_candidate \<in> set ALLOWED_GENERAL_MESSAGE_CANDIDATES \<and> wc_confidence ping_candidate \<le> 100 \<and>
   effective_risk_level status_action = Low"
  using compiled_candidate_is_safe [OF ping_validates ping_compiles] by (simp add: ping_candidate_def)

text \<open>
  The validator looks at the actions of the nodes only: a node without an action may name a kind that acts, and its
  candidate is then not marked read-only.
\<close>

definition acting_spec :: workflow_spec where
  "acting_spec = ping_spec\<lparr>wsp_nodes := [\<lparr>wn_id = ''n1'', wn_candidate_kind = ''ha_service_action'', wn_phrases = [''Gateway Status''],
     wn_keywords_any = [], wn_keywords_all = [], wn_read_only = False, wn_action = None, wn_confidence = 84, wn_reason = ''r''\<rparr>]\<rparr>"

lemma acting_kind_validates:
  "validate_workflow_spec acting_spec = Ok acting_spec"
  "map_option (\<lambda>c. (wc_candidate_kind c, wc_read_only c)) (compile_workflow_candidate acting_spec ''gateway status'') =
   Some (''ha_service_action'', False)"
  by code_simp+

theorem validated_workflow_evaluation_witness:
  "wr_unauthorized_action_count (evaluate_workflow ping_spec [eval_case ''a'' '' gateway-status '' None]) = 0"
  using validated_workflow_evaluation [OF ping_validates] by blast

end
