(* ===== verification/Workflow_Evaluation.thy ===== *)
theory Workflow_Evaluation
  imports Workflow_Compiler
begin

text \<open>
  The evaluation suite of the embedded system-diagnostics workflow
  (\<^verbatim>\<open>src/src/orchestrator/workflow_compiler.rs\<close>), run on the model. To evaluate it, the phrases and keywords of the
  specification are normalised once: \<open>quick\<close> matches against normalised phrases and is proved equal to
  the compiler.
\<close>

section \<open>Matching against normalised phrases\<close>

type_synonym prepared_node = "string \<times> u8 \<times> string list \<times> string list \<times> string list"

definition prepare_node :: "workflow_node \<Rightarrow> prepared_node" where
  "prepare_node n = (wn_candidate_kind n, wn_confidence n, map normalize_workflow_text (wn_phrases n),
     map normalize_workflow_text (wn_keywords_any n), map normalize_workflow_text (wn_keywords_all n))"

definition quick_phrase :: "u8 \<Rightarrow> string \<Rightarrow> string \<Rightarrow> u8 \<Rightarrow> u8" where
  "quick_phrase conf t p score =
     (if p = [] then score
      else if t = p then max score (min (u8_saturating_add conf 5) 100)
      else if str_contains t p then max score conf
      else score)"

fun quick_score :: "string \<Rightarrow> prepared_node \<Rightarrow> u8 option" where
  "quick_score t (kind, conf, phrases, any_of, all_of) =
     (let score = fold (quick_phrase conf t) phrases 0;
          score' =
            (if all_of = [] then
               (if any_of = [] then score
                else if list_ex (str_contains t) any_of then max score (u8_saturating_sub conf 15) else score)
             else if list_all (str_contains t) all_of \<and> (any_of = [] \<or> list_ex (str_contains t) any_of)
             then max score (u8_saturating_sub conf 5) else score)
      in if score' > 0 then Some score' else None)"

fun quick_best :: "string \<Rightarrow> prepared_node list \<Rightarrow> (string \<times> u8) option \<Rightarrow> (string \<times> u8) option" where
  "quick_best t [] best = best"
| "quick_best t (n # ns) best =
     (case quick_score t n of
        None \<Rightarrow> quick_best t ns best
      | Some score \<Rightarrow> quick_best t ns
          (case best of
             None \<Rightarrow> Some (fst n, score)
           | Some (b, bs) \<Rightarrow> if score > bs then Some (fst n, score) else best))"

definition quick :: "u8 \<Rightarrow> string list \<Rightarrow> prepared_node list \<Rightarrow> string \<Rightarrow> (string \<times> u8) option" where
  "quick min_confidence deny nodes t =
     (if t = [] \<or> list_ex (\<lambda>d. d \<noteq> [] \<and> str_contains t d) deny then None
      else case quick_best t nodes None of
             None \<Rightarrow> None
           | Some (kind, score) \<Rightarrow> if score < min_confidence then None else Some (kind, min score 100))"

lemma quick_score_eq: "quick_score t (prepare_node n) = node_score n t"
proof -
  have "fold (quick_phrase conf t) (map normalize_workflow_text ps) k = fold (phrase_score n t) ps k"
    if "conf = wn_confidence n" for ps k conf
    using that by (induction ps arbitrary: k) (simp_all add: quick_phrase_def phrase_score_def Let_def)
  then show ?thesis
    by (simp add: prepare_node_def node_score_def Let_def list_all_iff list_ex_iff)
qed

lemma quick_best_eq:
  "quick_best t (map prepare_node ns) (map_option (map_prod wn_candidate_kind id) best)
     = map_option (map_prod wn_candidate_kind id) (best_from t ns best)"
proof (induction t ns best rule: best_from.induct)
  case (2 t n ns best)
  have "fst (prepare_node n) = wn_candidate_kind n" by (simp add: prepare_node_def)
  then show ?case
    using 2 by (cases "node_score n t"; cases best) (auto simp: quick_score_eq split: if_splits)
qed simp

lemma quick_eq:
  "map_option (\<lambda>c. (wc_candidate_kind c, wc_confidence c)) (compile_workflow_candidate spec raw)
     = quick (wsp_min_confidence spec) (map normalize_workflow_text (wsp_deny_phrases spec))
         (map prepare_node (wsp_nodes spec)) (normalize_workflow_text raw)"
proof -
  have deny: "list_ex (\<lambda>d. d \<noteq> [] \<and> str_contains t d) (map normalize_workflow_text ds) = deny_phrase_matches t ds" for t ds
    by (simp add: deny_phrase_matches_def list_ex_iff)
  show ?thesis
    using quick_best_eq [of "normalize_workflow_text raw" "wsp_nodes spec" None]
    by (auto simp: quick_def deny compile_workflow_candidate_def best_node_match_def Let_def split: option.split)
qed

definition quick_correct :: "u8 \<Rightarrow> string list \<Rightarrow> prepared_node list \<Rightarrow> workflow_eval_case \<Rightarrow> bool" where
  "quick_correct min_confidence deny nodes c =
     (case (ev_expected_candidate_kind c, quick min_confidence deny nodes (normalize_workflow_text (ev_input c))) of
        (Some expected, Some (kind, conf)) \<Rightarrow> expected = kind \<and> conf \<ge> ev_min_confidence c
      | (None, None) \<Rightarrow> True
      | _ \<Rightarrow> False)"

lemma quick_correct_eq:
  assumes "validate_workflow_spec spec = Ok spec"
  shows "vr_correct (evaluate_case spec c) = quick_correct (wsp_min_confidence spec)
    (map normalize_workflow_text (wsp_deny_phrases spec)) (map prepare_node (wsp_nodes spec)) c"
proof (cases "compile_workflow_candidate spec (ev_input c)")
  case None
  then have "quick (wsp_min_confidence spec) (map normalize_workflow_text (wsp_deny_phrases spec))
      (map prepare_node (wsp_nodes spec)) (normalize_workflow_text (ev_input c)) = None"
    using quick_eq [of spec "ev_input c"] by simp
  then show ?thesis using None by (simp add: evaluate_case_def quick_correct_def Let_def split: option.split)
next
  case (Some k)
  then have q: "quick (wsp_min_confidence spec) (map normalize_workflow_text (wsp_deny_phrases spec))
      (map prepare_node (wsp_nodes spec)) (normalize_workflow_text (ev_input c)) = Some (wc_candidate_kind k, wc_confidence k)"
    using quick_eq [of spec "ev_input c"] by simp
  have "\<not> has_unsafe_action k" using candidate_not_unsafe [OF assms Some] .
  then show ?thesis using Some q by (simp add: evaluate_case_def quick_correct_def Let_def unwrap_or_def split: option.split)
qed

section \<open>The embedded workflow\<close>

definition prepared_deny_phrases :: "string list" where
  "prepared_deny_phrases =
     [[CHR 0xE9, CHR 0x87, CHR 0x8D, CHR 0xE5, CHR 0x90, CHR 0xAF],
      [CHR 0xE5, CHR 0x90, CHR 0xAF, CHR 0xE5, CHR 0x8A, CHR 0xA8],
      [CHR 0xE5, CHR 0x81, CHR 0x9C, CHR 0xE6, CHR 0xAD, CHR 0xA2],
      [CHR 0xE5, CHR 0x90, CHR 0xAF, CHR 0xE5, CHR 0x8A, CHR 0xA8, CHR 0xE6, CHR 0x9C, CHR 0x8D, CHR 0xE5, CHR 0x8A, CHR 0xA1],
      [CHR 0xE5, CHR 0x81, CHR 0x9C, CHR 0xE6, CHR 0xAD, CHR 0xA2, CHR 0xE6, CHR 0x9C, CHR 0x8D, CHR 0xE5, CHR 0x8A, CHR 0xA1],
      [CHR 0xE5, CHR 0x88, CHR 0xA0, CHR 0xE9, CHR 0x99, CHR 0xA4],
      [CHR 0xE7, CHR 0xA7, CHR 0xBB, CHR 0xE5, CHR 0x8A, CHR 0xA8, CHR 0xE6, CHR 0x96, CHR 0x87, CHR 0xE4, CHR 0xBB, CHR 0xB6],
      [CHR 0xE5, CHR 0xA4, CHR 0x8D, CHR 0xE5, CHR 0x88, CHR 0xB6, CHR 0xE6, CHR 0x96, CHR 0x87, CHR 0xE4, CHR 0xBB, CHR 0xB6],
      [CHR 0xE5, CHR 0x86, CHR 0x99, CHR 0xE5, CHR 0x85, CHR 0xA5],
      [CHR 0xE8, CHR 0xBF, CHR 0x9E, CHR 0xE6, CHR 0x8E, CHR 0xA5, CHR 0xE6, CHR 0x91, CHR 0x84, CHR 0xE5, CHR 0x83, CHR 0x8F, CHR 0xE5, CHR 0xA4, CHR 0xB4],
      [CHR 0xE6, CHR 0x8E, CHR 0xA5, CHR 0xE5, CHR 0x85, CHR 0xA5, CHR 0xE6, CHR 0x91, CHR 0x84, CHR 0xE5, CHR 0x83, CHR 0x8F, CHR 0xE5, CHR 0xA4, CHR 0xB4],
      [CHR 0xE5, CHR 0xBC, CHR 0x80, CHR 0xE7, CHR 0x81, CHR 0xAF],
      [CHR 0xE5, CHR 0x85, CHR 0xB3, CHR 0xE7, CHR 0x81, CHR 0xAF],
      [CHR 0xE5, CHR 0xA4, CHR 0xA9, CHR 0xE6, CHR 0xB0, CHR 0x94],
      [CHR 0xE6, CHR 0x96, CHR 0xB0, CHR 0xE9, CHR 0x97, CHR 0xBB],
      [CHR 0xE8, CHR 0x82, CHR 0xA1, CHR 0xE7, CHR 0xA5, CHR 0xA8],
      [CHR 0xE8, CHR 0xA1, CHR 0x8C, CHR 0xE6, CHR 0x83, CHR 0x85],
      [CHR 0xE9, CHR 0x97, CHR 0xA8, CHR 0xE9, CHR 0x94, CHR 0x81],
      [CHR 0xE5, CHR 0xBC, CHR 0x80, CHR 0xE9, CHR 0x94, CHR 0x81],
      [CHR 0xE8, CHR 0xA7, CHR 0xA3, CHR 0xE9, CHR 0x94, CHR 0x81], ''restart'', ''stopservice'',
      ''startservice'', ''delete'', ''remove'', ''movefile'', ''copyfile'', ''writefile'', ''connectcamera'',
      ''weather'', ''news'', ''stock'', ''unlock'', ''lock'']"

definition prepared_nodes :: "prepared_node list" where
  "prepared_nodes =
     [(''evt_preflight'', 96,
         [''evt'' @ [CHR 0xE9, CHR 0xA2, CHR 0x84, CHR 0xE6, CHR 0xA3, CHR 0x80],
          [CHR 0xE5, CHR 0x8E, CHR 0x8B, CHR 0xE6, CHR 0xB5, CHR 0x8B, CHR 0xE9, CHR 0xA2, CHR 0x84, CHR 0xE6, CHR 0xA3, CHR 0x80],
          [CHR 0xE5, CHR 0x81, CHR 0x9A, CHR 0xE4, CHR 0xB8, CHR 0x80, CHR 0xE4, CHR 0xB8, CHR 0x8B] @ ''evt'' @ [CHR 0xE9, CHR 0xA2, CHR 0x84, CHR 0xE6, CHR 0xA3, CHR 0x80],
          [CHR 0xE8, CHR 0xBF, CHR 0x90, CHR 0xE8, CHR 0xA1, CHR 0x8C] @ ''evtpreflight'', ''preflight'',
          ''stresspreflight'', ''prestresscheck''],
         [],
         [[CHR 0xE9, CHR 0xA2, CHR 0x84, CHR 0xE6, CHR 0xA3, CHR 0x80]]),
      (''evt_evidence_bundle'', 95,
         [[CHR 0xE7, CHR 0x94, CHR 0x9F, CHR 0xE6, CHR 0x88, CHR 0x90, CHR 0xE5, CHR 0x8E, CHR 0x8B, CHR 0xE6, CHR 0xB5, CHR 0x8B, CHR 0xE8, CHR 0xAF, CHR 0x81, CHR 0xE6, CHR 0x8D, CHR 0xAE],
          [CHR 0xE7, CHR 0x94, CHR 0x9F, CHR 0xE6, CHR 0x88, CHR 0x90] @ ''evt'' @ [CHR 0xE8, CHR 0xAF, CHR 0x81, CHR 0xE6, CHR 0x8D, CHR 0xAE],
          ''evt'' @ [CHR 0xE8, CHR 0xAF, CHR 0x81, CHR 0xE6, CHR 0x8D, CHR 0xAE, CHR 0xE5, CHR 0x8C, CHR 0x85],
          [CHR 0xE5, CHR 0x8E, CHR 0x8B, CHR 0xE6, CHR 0xB5, CHR 0x8B, CHR 0xE8, CHR 0xAF, CHR 0x81, CHR 0xE6, CHR 0x8D, CHR 0xAE, CHR 0xE5, CHR 0x8C, CHR 0x85],
          ''evidencebundle''],
         [],
         [[CHR 0xE8, CHR 0xAF, CHR 0x81, CHR 0xE6, CHR 0x8D, CHR 0xAE]]),
      (''evt_readiness'', 94,
         [''evt'' @ [CHR 0xE5, CHR 0xB0, CHR 0xB1, CHR 0xE7, CHR 0xBB, CHR 0xAA],
          ''evt'' @ [CHR 0xE7, CHR 0x8A, CHR 0xB6, CHR 0xE6, CHR 0x80, CHR 0x81],
          ''evt'' @ [CHR 0xE5, CHR 0xA5, CHR 0xBD, CHR 0xE4, CHR 0xBA, CHR 0x86, CHR 0xE5, CHR 0x90, CHR 0x97],
          [CHR 0xE5, CHR 0x8E, CHR 0x8B, CHR 0xE6, CHR 0xB5, CHR 0x8B, CHR 0xE5, CHR 0x89, CHR 0x8D, CHR 0xE7, CHR 0x8A, CHR 0xB6, CHR 0xE6, CHR 0x80, CHR 0x81],
          [CHR 0xE5, CHR 0x8E, CHR 0x8B, CHR 0xE6, CHR 0xB5, CHR 0x8B, CHR 0xE7, CHR 0x8A, CHR 0xB6, CHR 0xE6, CHR 0x80, CHR 0x81],
          [CHR 0xE5, CHR 0x8E, CHR 0x8B, CHR 0xE6, CHR 0xB5, CHR 0x8B] @ ''ready'' @ [CHR 0xE4, CHR 0xBA, CHR 0x86, CHR 0xE5, CHR 0x90, CHR 0x97],
          ''k3'' @ [CHR 0xE5, CHR 0x8E, CHR 0x8B, CHR 0xE6, CHR 0xB5, CHR 0x8B] @ ''readiness'', ''k3readiness'',
          ''stressreadiness''],
         [''evt'', ''evt'', [CHR 0xE5, CHR 0x8E, CHR 0x8B, CHR 0xE6, CHR 0xB5, CHR 0x8B], ''stress''],
         [[CHR 0xE7, CHR 0x8A, CHR 0xB6, CHR 0xE6, CHR 0x80, CHR 0x81]]),
      (''system_readiness'', 91,
         [[CHR 0xE5, CHR 0xBE, CHR 0xAE, CHR 0xE4, CHR 0xBF, CHR 0xA1, CHR 0xE7, CHR 0x8A, CHR 0xB6, CHR 0xE6, CHR 0x80, CHR 0x81],
          [CHR 0xE5, CHR 0xBE, CHR 0xAE, CHR 0xE4, CHR 0xBF, CHR 0xA1, CHR 0xE9, CHR 0x80, CHR 0x9A, CHR 0xE4, CHR 0xBA, CHR 0x86, CHR 0xE5, CHR 0x90, CHR 0x97],
          [CHR 0xE5, CHR 0xBE, CHR 0xAE, CHR 0xE4, CHR 0xBF, CHR 0xA1, CHR 0xE8, CHR 0xBF, CHR 0x9E, CHR 0xE4, CHR 0xBA, CHR 0x86, CHR 0xE5, CHR 0x90, CHR 0x97],
          [CHR 0xE5, CHR 0xBE, CHR 0xAE, CHR 0xE4, CHR 0xBF, CHR 0xA1, CHR 0xE8, CHR 0x83, CHR 0xBD, CHR 0xE7, CHR 0x94, CHR 0xA8, CHR 0xE5, CHR 0x90, CHR 0x97],
          ''wechatstatus'', ''weixinstatus'', ''weixinconnected''],
         [],
         [[CHR 0xE5, CHR 0xBE, CHR 0xAE, CHR 0xE4, CHR 0xBF, CHR 0xA1]]),
      (''system_readiness'', 90,
         [''ha'' @ [CHR 0xE7, CHR 0x8A, CHR 0xB6, CHR 0xE6, CHR 0x80, CHR 0x81],
          ''ha'' @ [CHR 0xE6, CHR 0xAD, CHR 0xA3, CHR 0xE5, CHR 0xB8, CHR 0xB8, CHR 0xE5, CHR 0x90, CHR 0x97],
          ''ha'' @ [CHR 0xE5, CHR 0xAE, CHR 0x9E, CHR 0xE4, CHR 0xBD, CHR 0x93, CHR 0xE5, CHR 0x90, CHR 0x8C, CHR 0xE6, CHR 0xAD, CHR 0xA5, CHR 0xE4, CHR 0xBA, CHR 0x86, CHR 0xE5, CHR 0x90, CHR 0x97],
          ''homeassistant'' @ [CHR 0xE7, CHR 0x8A, CHR 0xB6, CHR 0xE6, CHR 0x80, CHR 0x81],
          ''homeassistantready'', ''homeassistanthealth''],
         [''ha'', ''homeassistant''],
         []),
      (''system_readiness'', 89,
         [''semanticrouter'' @ [CHR 0xE7, CHR 0x8A, CHR 0xB6, CHR 0xE6, CHR 0x80, CHR 0x81],
          ''semanticrouterhealth'',
          [CHR 0xE8, CHR 0xAF, CHR 0xAD, CHR 0xE4, CHR 0xB9, CHR 0x89, CHR 0xE8, CHR 0xB7, CHR 0xAF, CHR 0xE7, CHR 0x94, CHR 0xB1, CHR 0xE7, CHR 0x8A, CHR 0xB6, CHR 0xE6, CHR 0x80, CHR 0x81],
          [CHR 0xE8, CHR 0xAF, CHR 0xAD, CHR 0xE4, CHR 0xB9, CHR 0x89, CHR 0xE8, CHR 0xB7, CHR 0xAF, CHR 0xE7, CHR 0x94, CHR 0xB1, CHR 0xE6, CHR 0xAD, CHR 0xA3, CHR 0xE5, CHR 0xB8, CHR 0xB8, CHR 0xE5, CHR 0x90, CHR 0x97],
          ''semanticrouterready''],
         [''semanticrouter'',
          [CHR 0xE8, CHR 0xAF, CHR 0xAD, CHR 0xE4, CHR 0xB9, CHR 0x89, CHR 0xE8, CHR 0xB7, CHR 0xAF, CHR 0xE7, CHR 0x94, CHR 0xB1]],
         []),
      (''system_readiness'', 84,
         [[CHR 0xE7, CHR 0x8A, CHR 0xB6, CHR 0xE6, CHR 0x80, CHR 0x81],
          [CHR 0xE8, CHR 0xAF, CHR 0x8A, CHR 0xE6, CHR 0x96, CHR 0xAD],
          [CHR 0xE7, CHR 0xB3, CHR 0xBB, CHR 0xE7, CHR 0xBB, CHR 0x9F, CHR 0xE7, CHR 0x8A, CHR 0xB6, CHR 0xE6, CHR 0x80, CHR 0x81],
          [CHR 0xE5, CHR 0xBD, CHR 0x93, CHR 0xE5, CHR 0x89, CHR 0x8D, CHR 0xE7, CHR 0x8A, CHR 0xB6, CHR 0xE6, CHR 0x80, CHR 0x81],
          [CHR 0xE5, CHR 0x81, CHR 0xA5, CHR 0xE5, CHR 0xBA, CHR 0xB7, CHR 0xE7, CHR 0x8A, CHR 0xB6, CHR 0xE6, CHR 0x80, CHR 0x81],
          [CHR 0xE7, CHR 0x8E, CHR 0xB0, CHR 0xE5, CHR 0x9C, CHR 0xA8] @ ''k3'' @ [CHR 0xE5, CHR 0xA5, CHR 0xBD, CHR 0xE4, CHR 0xBA, CHR 0x86, CHR 0xE5, CHR 0x90, CHR 0x97],
          ''k3'' @ [CHR 0xE5, CHR 0xA5, CHR 0xBD, CHR 0xE4, CHR 0xBA, CHR 0x86, CHR 0xE6, CHR 0xB2, CHR 0xA1],
          ''harbor'' @ [CHR 0xE7, CHR 0x8A, CHR 0xB6, CHR 0xE6, CHR 0x80, CHR 0x81],
          [CHR 0xE7, CHR 0xBD, CHR 0x91, CHR 0xE5, CHR 0x85, CHR 0xB3, CHR 0xE7, CHR 0x8A, CHR 0xB6, CHR 0xE6, CHR 0x80, CHR 0x81],
          [CHR 0xE9, CHR 0xBB, CHR 0x98, CHR 0xE8, CHR 0xAE, CHR 0xA4, CHR 0xE9, CHR 0x80, CHR 0x9A, CHR 0xE7, CHR 0x9F, CHR 0xA5, CHR 0xE7, CHR 0x9B, CHR 0xAE, CHR 0xE6, CHR 0xA0, CHR 0x87, CHR 0xE7, CHR 0x8A, CHR 0xB6, CHR 0xE6, CHR 0x80, CHR 0x81],
          ''readiness'', ''diagnostics'', ''healthstatus'', ''gatewaystatus''],
         [[CHR 0xE7, CHR 0x8A, CHR 0xB6, CHR 0xE6, CHR 0x80, CHR 0x81],
          [CHR 0xE8, CHR 0xAF, CHR 0x8A, CHR 0xE6, CHR 0x96, CHR 0xAD],
          [CHR 0xE5, CHR 0x81, CHR 0xA5, CHR 0xE5, CHR 0xBA, CHR 0xB7], ''ready'', ''readiness'', ''diagnostics'',
          ''health'', ''k3'', ''k3'', ''gateway'', [CHR 0xE7, CHR 0xBD, CHR 0x91, CHR 0xE5, CHR 0x85, CHR 0xB3],
          [CHR 0xE9, CHR 0x80, CHR 0x9A, CHR 0xE7, CHR 0x9F, CHR 0xA5, CHR 0xE7, CHR 0x9B, CHR 0xAE, CHR 0xE6, CHR 0xA0, CHR 0x87]],
         [])]"

lemma prepared_document:
  "map normalize_workflow_text (wsp_deny_phrases system_diagnostics_document) = prepared_deny_phrases"
  "map prepare_node (wsp_nodes system_diagnostics_document) = prepared_nodes"
  "wsp_min_confidence system_diagnostics_document = 60"
  by code_simp+

lemma document_validates:
  "validate_workflow_spec system_diagnostics_document = Ok system_diagnostics_document"
  by code_simp

text \<open>The suite in four parts.\<close>

lemma suite_parts:
  "list_all (quick_correct 60 prepared_deny_phrases prepared_nodes) (take 20 system_diagnostics_eval_cases)"
  "list_all (quick_correct 60 prepared_deny_phrases prepared_nodes) (take 20 (drop 20 system_diagnostics_eval_cases))"
  "list_all (quick_correct 60 prepared_deny_phrases prepared_nodes) (take 20 (drop 40 system_diagnostics_eval_cases))"
  "list_all (quick_correct 60 prepared_deny_phrases prepared_nodes) (drop 60 system_diagnostics_eval_cases)"
  by code_simp+

lemma split_in_four: "xs = take 20 xs @ take 20 (drop 20 xs) @ take 20 (drop 40 xs) @ drop 60 xs"
  using append_take_drop_id [of 20 xs] append_take_drop_id [of 20 "drop 20 xs"]
    append_take_drop_id [of 20 "drop 40 xs"] by simp

lemma list_all_in_four:
  assumes "list_all P (take 20 xs)" "list_all P (take 20 (drop 20 xs))" "list_all P (take 20 (drop 40 xs))"
    "list_all P (drop 60 xs)"
  shows "list_all P xs"
proof -
  have "list_all P (take 20 xs @ take 20 (drop 20 xs) @ take 20 (drop 40 xs) @ drop 60 xs)"
    using assms by (simp only: list_all_append)
  then show ?thesis by (simp only: split_in_four [symmetric])
qed

lemma suite_correct:
  "c \<in> set system_diagnostics_eval_cases \<Longrightarrow> vr_correct (evaluate_case system_diagnostics_document c)"
proof -
  assume "c \<in> set system_diagnostics_eval_cases"
  then have "quick_correct 60 prepared_deny_phrases prepared_nodes c"
    using list_all_in_four [OF suite_parts] unfolding list_all_iff by (rule bspec [rotated])
  then show ?thesis unfolding quick_correct_eq [OF document_validates] prepared_document .
qed

text \<open>
  The embedded workflow passes its own evaluation suite. The system-diagnostics specification that the
  program embeds validates, and the evaluation over the 74 embedded cases (which include the requests it
  must refuse: restarts, camera connections, file changes, locks, weather) is passed with no unauthorised
  action.
\<close>

theorem embedded_workflow_passes_suite:
  "validate_workflow_spec system_diagnostics_document = Ok system_diagnostics_document \<and>
   length system_diagnostics_eval_cases = 74 \<and>
   wr_passed (evaluate_workflow system_diagnostics_document system_diagnostics_eval_cases) \<and>
   wr_unauthorized_action_count (evaluate_workflow system_diagnostics_document system_diagnostics_eval_cases) = 0"
proof -
  have "length system_diagnostics_eval_cases = 74" by code_simp
  then show ?thesis
    using document_validates suite_correct evaluation_of_validated [OF document_validates] by blast
qed

end
