(* ===== verification/Conversation_State.thy ===== *)
theory Conversation_State
  imports Harbor_Prelude
begin

text \<open>
  The conversation state of multi-step tasks, from the first and last parts of
  \<^verbatim>\<open>src/src/runtime/task_session.rs\<close>: pending selections and continuations, the migration of the old fields, and the
  envelope in which a session stores the state. The conversions between Rust values and JSON that \<^verbatim>\<open>serde\<close>
  derives are the functions of a record \<open>conv_codec\<close>; a conversion that fails is \<open>Inl\<close>. The laws used of
  them are stated where they are used.
\<close>

section \<open>Data\<close>

definition CAMERA_CONNECT_OPERATION :: string where "CAMERA_CONNECT_OPERATION = ''camera.connect''"
definition CAMERA_RECORD_CLIP_CONFIRMATION_OPERATION :: string where
  "CAMERA_RECORD_CLIP_CONFIRMATION_OPERATION = ''camera.record_clip_confirmation''"
definition GENERAL_MESSAGE_LOOP_OPERATION :: string where
  "GENERAL_MESSAGE_LOOP_OPERATION = ''general.message_loop''"

record pending_task_candidate =
  pc_candidate_id :: string
  pc_name :: string
  pc_ip :: string
  pc_room :: "string option"
  pc_port :: u16
  pc_rtsp_paths :: "string list"
  pc_requires_auth :: bool
  pc_vendor :: "string option"
  pc_model :: "string option"

record pending_task_connect =
  px_resume_token :: string
  px_name :: string
  px_ip :: string
  px_room :: "string option"
  px_port :: u16
  px_snapshot_url :: "string option"
  px_rtsp_paths :: "string list"
  px_requires_auth :: bool
  px_vendor :: "string option"
  px_model :: "string option"

record pending_task_clip_confirmation =
  pk_resume_token :: string
  pk_clip_media_asset_id :: string
  pk_clip_path :: string
  pk_clip_mime_type :: string
  pk_cover_path :: string
  pk_display_name :: string

record recent_clip_playback_state =
  rp_clip_media_asset_id :: string
  rp_clip_path :: string
  rp_clip_mime_type :: string
  rp_cover_path :: string
  rp_display_name :: string
  rp_captured_at_epoch_ms :: "128 word"

record recent_family_memory_event_state =
  rf_event_id :: string
  rf_camera_id :: string
  rf_event_type :: string
  rf_summary :: string
  rf_referenced_at_epoch_ms :: "128 word"

record recent_cat_activity_query_state =
  rq_camera_hint :: "string option"
  rq_time_scope :: string
  rq_issued_artifact_ids :: "string list"
  rq_last_batch_artifact_ids :: "string list"
  rq_updated_at_epoch_ms :: "128 word"

record pending_task_home_assistant_candidate =
  hc_entity_id :: string
  hc_domain :: string
  hc_display_name :: string
  hc_state :: string
  hc_area_id :: "string option"
  hc_device_class :: "string option"

record pending_task_home_assistant_clarification =
  ha_domain :: string
  ha_service :: string
  ha_entity_hint :: "string option"
  ha_candidates :: "pending_task_home_assistant_candidate list"

record pending_task_general_message_loop =
  pl_resume_token :: string
  pl_original_goal :: string
  pl_latest_user_intent_text :: string
  pl_last_clarification_prompt :: string
  pl_selected_candidate_action :: "string option"
  pl_camera_hint :: "string option"
  pl_query :: "string option"
  pl_home_assistant :: "pending_task_home_assistant_clarification option"

record pending_task_selection_item =
  si_item_id :: string
  si_payload :: json

record pending_task_selection_state =
  sl_operation :: string
  sl_items :: "pending_task_selection_item list"

record pending_task_resume_state =
  pr_operation :: string
  pr_resume_token :: string
  pr_payload :: json

record task_conversation_state =
  tc_key :: string
  tc_pending_selection :: "pending_task_selection_state option"
  tc_pending_resume :: "pending_task_resume_state option"
  tc_pending_candidates :: "pending_task_candidate list"
  tc_pending_connect :: "pending_task_connect option"
  tc_recent_clip_playback :: "recent_clip_playback_state option"
  tc_recent_family_memory_event :: "recent_family_memory_event_state option"
  tc_recent_cat_activity_query :: "recent_cat_activity_query_state option"
  tc_last_scan_cidr :: string

definition empty_conversation :: task_conversation_state where
  "empty_conversation = \<lparr>tc_key = [], tc_pending_selection = None, tc_pending_resume = None,
     tc_pending_candidates = [], tc_pending_connect = None, tc_recent_clip_playback = None,
     tc_recent_family_memory_event = None, tc_recent_cat_activity_query = None, tc_last_scan_cidr = []\<rparr>"

record task_session_state_envelope =
  en_schema_version :: u32
  en_namespace :: string
  en_flow_type :: string
  en_flow_state :: json

record conversation_session =
  cs_session_id :: string
  cs_workspace_id :: string
  cs_channel :: string
  cs_surface :: string
  cs_conversation_id :: string
  cs_user_id :: string
  cs_route_key :: string
  cs_last_message_id :: string
  cs_chat_type :: string
  cs_state :: json
  cs_resume_token :: "string option"
  cs_expires_at :: "string option"

record conv_codec =
  cc_candidate_to :: "pending_task_candidate \<Rightarrow> string + json"
  cc_candidate_from :: "json \<Rightarrow> string + pending_task_candidate"
  cc_connect_to :: "pending_task_connect \<Rightarrow> string + json"
  cc_connect_from :: "json \<Rightarrow> string + pending_task_connect"
  cc_clip_to :: "pending_task_clip_confirmation \<Rightarrow> string + json"
  cc_clip_from :: "json \<Rightarrow> string + pending_task_clip_confirmation"
  cc_loop_to :: "pending_task_general_message_loop \<Rightarrow> string + json"
  cc_loop_from :: "json \<Rightarrow> string + pending_task_general_message_loop"
  cc_state_to :: "task_conversation_state \<Rightarrow> string + json"
  cc_state_from :: "json \<Rightarrow> string + task_conversation_state"
  cc_envelope_to :: "task_session_state_envelope \<Rightarrow> string + json"
  cc_envelope_from :: "json \<Rightarrow> string + task_session_state_envelope"

definition ok_or_null :: "string + json \<Rightarrow> json" where
  "ok_or_null r = (case r of Inr j \<Rightarrow> j | Inl _ \<Rightarrow> JNull)"

fun ok_value :: "string + 'a \<Rightarrow> 'a option" where
  "ok_value (Inr v) = Some v"
| "ok_value (Inl e) = None"

section \<open>Pending selections and continuations\<close>

definition pending_selection_from_camera_candidates ::
  "conv_codec \<Rightarrow> pending_task_candidate list \<Rightarrow> pending_task_selection_state" where
  "pending_selection_from_camera_candidates cc candidates =
     \<lparr>sl_operation = CAMERA_CONNECT_OPERATION,
      sl_items = map (\<lambda>c. \<lparr>si_item_id = pc_candidate_id c, si_payload = ok_or_null (cc_candidate_to cc c)\<rparr>)
        candidates\<rparr>"

definition camera_candidates_from_selection ::
  "conv_codec \<Rightarrow> pending_task_selection_state option \<Rightarrow> pending_task_candidate list option" where
  "camera_candidates_from_selection cc selection =
     Option.bind selection (\<lambda>s.
       if sl_operation s \<noteq> CAMERA_CONNECT_OPERATION then None
       else Some (List.map_filter (\<lambda>item. ok_value (cc_candidate_from cc (si_payload item))) (sl_items s)))"

definition pending_resume_from_camera_connect ::
  "conv_codec \<Rightarrow> pending_task_connect \<Rightarrow> pending_task_resume_state" where
  "pending_resume_from_camera_connect cc p =
     \<lparr>pr_operation = CAMERA_CONNECT_OPERATION, pr_resume_token = px_resume_token p,
      pr_payload = ok_or_null (cc_connect_to cc p)\<rparr>"

definition pending_resume_from_clip_confirmation ::
  "conv_codec \<Rightarrow> pending_task_clip_confirmation \<Rightarrow> pending_task_resume_state" where
  "pending_resume_from_clip_confirmation cc p =
     \<lparr>pr_operation = CAMERA_RECORD_CLIP_CONFIRMATION_OPERATION, pr_resume_token = pk_resume_token p,
      pr_payload = ok_or_null (cc_clip_to cc p)\<rparr>"

definition pending_resume_from_general_message_loop ::
  "conv_codec \<Rightarrow> pending_task_general_message_loop \<Rightarrow> pending_task_resume_state" where
  "pending_resume_from_general_message_loop cc p =
     \<lparr>pr_operation = GENERAL_MESSAGE_LOOP_OPERATION, pr_resume_token = pl_resume_token p,
      pr_payload = ok_or_null (cc_loop_to cc p)\<rparr>"

definition pending_connect_from_resume ::
  "conv_codec \<Rightarrow> pending_task_resume_state option \<Rightarrow> pending_task_connect option" where
  "pending_connect_from_resume cc resume =
     Option.bind resume (\<lambda>r.
       if pr_operation r \<noteq> CAMERA_CONNECT_OPERATION then None
       else map_option (\<lambda>p. if blank (px_resume_token p) then p\<lparr>px_resume_token := pr_resume_token r\<rparr> else p)
              (ok_value (cc_connect_from cc (pr_payload r))))"

definition pending_clip_confirmation_from_resume ::
  "conv_codec \<Rightarrow> pending_task_resume_state option \<Rightarrow> pending_task_clip_confirmation option" where
  "pending_clip_confirmation_from_resume cc resume =
     Option.bind resume (\<lambda>r.
       if pr_operation r \<noteq> CAMERA_RECORD_CLIP_CONFIRMATION_OPERATION then None
       else map_option (\<lambda>p. if blank (pk_resume_token p) then p\<lparr>pk_resume_token := pr_resume_token r\<rparr> else p)
              (ok_value (cc_clip_from cc (pr_payload r))))"

definition pending_general_message_loop_from_resume ::
  "conv_codec \<Rightarrow> pending_task_resume_state option \<Rightarrow> pending_task_general_message_loop option" where
  "pending_general_message_loop_from_resume cc resume =
     Option.bind resume (\<lambda>r.
       if pr_operation r \<noteq> GENERAL_MESSAGE_LOOP_OPERATION then None
       else map_option (\<lambda>p. if blank (pl_resume_token p) then p\<lparr>pl_resume_token := pr_resume_token r\<rparr> else p)
              (ok_value (cc_loop_from cc (pr_payload r))))"

definition camera_pending_candidates ::
  "conv_codec \<Rightarrow> task_conversation_state \<Rightarrow> pending_task_candidate list" where
  "camera_pending_candidates cc s =
     unwrap_or (camera_candidates_from_selection cc (tc_pending_selection s)) (tc_pending_candidates s)"

definition set_camera_pending_candidates ::
  "conv_codec \<Rightarrow> pending_task_candidate list \<Rightarrow> task_conversation_state \<Rightarrow> task_conversation_state" where
  "set_camera_pending_candidates cc candidates s =
     s\<lparr>tc_pending_selection := (if candidates = [] then None
          else Some (pending_selection_from_camera_candidates cc candidates)),
       tc_pending_candidates := []\<rparr>"

definition retain_camera_pending_candidates ::
  "conv_codec \<Rightarrow> (pending_task_candidate \<Rightarrow> bool) \<Rightarrow> task_conversation_state \<Rightarrow> task_conversation_state" where
  "retain_camera_pending_candidates cc keep s =
     set_camera_pending_candidates cc (filter keep (camera_pending_candidates cc s)) s"

definition camera_pending_connect ::
  "conv_codec \<Rightarrow> task_conversation_state \<Rightarrow> pending_task_connect option" where
  "camera_pending_connect cc s =
     or_else (pending_connect_from_resume cc (tc_pending_resume s)) (tc_pending_connect s)"

definition set_camera_pending_connect ::
  "conv_codec \<Rightarrow> pending_task_connect option \<Rightarrow> task_conversation_state \<Rightarrow> task_conversation_state" where
  "set_camera_pending_connect cc p s =
     s\<lparr>tc_pending_resume := map_option (pending_resume_from_camera_connect cc) p, tc_pending_connect := None\<rparr>"

definition clip_pending_confirmation ::
  "conv_codec \<Rightarrow> task_conversation_state \<Rightarrow> pending_task_clip_confirmation option" where
  "clip_pending_confirmation cc s = pending_clip_confirmation_from_resume cc (tc_pending_resume s)"

definition resume_operation_is :: "string \<Rightarrow> task_conversation_state \<Rightarrow> bool" where
  "resume_operation_is operation s =
     (case tc_pending_resume s of None \<Rightarrow> False | Some r \<Rightarrow> pr_operation r = operation)"

definition set_clip_pending_confirmation ::
  "conv_codec \<Rightarrow> pending_task_clip_confirmation option \<Rightarrow> task_conversation_state \<Rightarrow> task_conversation_state" where
  "set_clip_pending_confirmation cc p s =
     (if p \<noteq> None \<or> resume_operation_is CAMERA_RECORD_CLIP_CONFIRMATION_OPERATION s
      then s\<lparr>tc_pending_resume := map_option (pending_resume_from_clip_confirmation cc) p\<rparr> else s)"

definition general_message_loop ::
  "conv_codec \<Rightarrow> task_conversation_state \<Rightarrow> pending_task_general_message_loop option" where
  "general_message_loop cc s = pending_general_message_loop_from_resume cc (tc_pending_resume s)"

definition set_general_message_loop ::
  "conv_codec \<Rightarrow> pending_task_general_message_loop option \<Rightarrow> task_conversation_state \<Rightarrow> task_conversation_state" where
  "set_general_message_loop cc p s =
     (if p \<noteq> None \<or> resume_operation_is GENERAL_MESSAGE_LOOP_OPERATION s
      then s\<lparr>tc_pending_resume := map_option (pending_resume_from_general_message_loop cc) p\<rparr> else s)"

definition set_recent_clip_playback ::
  "recent_clip_playback_state option \<Rightarrow> task_conversation_state \<Rightarrow> task_conversation_state" where
  "set_recent_clip_playback recent s = s\<lparr>tc_recent_clip_playback := recent\<rparr>"

definition set_recent_family_memory_event ::
  "recent_family_memory_event_state option \<Rightarrow> task_conversation_state \<Rightarrow> task_conversation_state" where
  "set_recent_family_memory_event recent s = s\<lparr>tc_recent_family_memory_event := recent\<rparr>"

definition set_recent_cat_activity_query ::
  "recent_cat_activity_query_state option \<Rightarrow> task_conversation_state \<Rightarrow> task_conversation_state" where
  "set_recent_cat_activity_query recent s = s\<lparr>tc_recent_cat_activity_query := recent\<rparr>"

definition normalize_task_conversation_state ::
  "conv_codec \<Rightarrow> task_conversation_state \<Rightarrow> task_conversation_state" where
  "normalize_task_conversation_state cc s =
     (let s1 = (if tc_pending_selection s = None \<and> tc_pending_candidates s \<noteq> []
                then s\<lparr>tc_pending_selection :=
                       Some (pending_selection_from_camera_candidates cc (tc_pending_candidates s))\<rparr>
                else s);
          s2 = (case tc_pending_resume s1 of
                  Some _ \<Rightarrow> s1
                | None \<Rightarrow> (case tc_pending_connect s1 of
                    Some p \<Rightarrow> s1\<lparr>tc_pending_resume := Some (pending_resume_from_camera_connect cc p)\<rparr>
                  | None \<Rightarrow> s1))
      in s2\<lparr>tc_pending_candidates := [], tc_pending_connect := None\<rparr>)"

section \<open>The session envelope\<close>

definition non_empty_string :: "string option \<Rightarrow> string option" where
  "non_empty_string v = Option.bind v (\<lambda>x. if trim x = [] then None else Some (trim x))"

definition backfill_conversation_key ::
  "conversation_session \<Rightarrow> string option \<Rightarrow> task_conversation_state \<Rightarrow> task_conversation_state" where
  "backfill_conversation_key session key_hint s =
     (if blank (tc_key s) then
        s\<lparr>tc_key := unwrap_or
            (or_else (or_else (or_else (non_empty_string key_hint)
               (non_empty_string (Some (cs_conversation_id session))))
               (non_empty_string (Some (cs_session_id session))))
               (non_empty_string (Some (cs_user_id session)))) []\<rparr>
      else s)"

definition conversation_state_from_session ::
  "conv_codec \<Rightarrow> conversation_session \<Rightarrow> string option \<Rightarrow> task_conversation_state option" where
  "conversation_state_from_session cc session key_hint =
     (if cs_state session = JNull then None
      else
        let finish = (\<lambda>s. normalize_task_conversation_state cc (backfill_conversation_key session key_hint s));
            enveloped = (case cc_envelope_from cc (cs_state session) of
                Inl _ \<Rightarrow> None
              | Inr e \<Rightarrow> if en_flow_state e = JNull then None else ok_value (cc_state_from cc (en_flow_state e)))
        in case enveloped of
             Some s \<Rightarrow> Some (finish s)
           | None \<Rightarrow> map_option finish (ok_value (cc_state_from cc (cs_state session))))"

definition json_remove :: "string \<Rightarrow> json \<Rightarrow> json" where
  "json_remove k j = (case j of JObj m \<Rightarrow> JObj (hm_remove k m) | _ \<Rightarrow> j)"

definition key_recoverable :: "conversation_session \<Rightarrow> string \<Rightarrow> bool" where
  "key_recoverable session key \<longleftrightarrow>
     non_empty_string (Some (cs_conversation_id session)) = Some key \<or>
     non_empty_string (Some (cs_session_id session)) = Some key \<or>
     non_empty_string (Some (cs_user_id session)) = Some key"

definition envelope_from_conversation_state ::
  "conv_codec \<Rightarrow> task_conversation_state \<Rightarrow> conversation_session option \<Rightarrow> string + task_session_state_envelope" where
  "envelope_from_conversation_state cc s session =
     (let stored = normalize_task_conversation_state cc s in
      case cc_state_to cc stored of
        Inl e \<Rightarrow> Err (''failed to serialize Task conversation flow state: '' @ e)
      | Inr flow_state \<Rightarrow>
          let flow_state' =
            (if blank (tc_key stored) then json_remove ''key'' flow_state
             else case session of
               None \<Rightarrow> flow_state
             | Some ses \<Rightarrow> if key_recoverable ses (tc_key stored) then json_remove ''key'' flow_state else flow_state)
          in Ok \<lparr>en_schema_version = 1, en_namespace = ''task_api'', en_flow_type = ''camera_onboarding'',
               en_flow_state = flow_state'\<rparr>)"

definition session_state_value_from_conversation ::
  "conv_codec \<Rightarrow> task_conversation_state \<Rightarrow> conversation_session option \<Rightarrow> string + json" where
  "session_state_value_from_conversation cc s session =
     and_then (envelope_from_conversation_state cc s session) (\<lambda>e.
       case cc_envelope_to cc e of
         Inl err \<Rightarrow> Err (''failed to serialize Task conversation session state: '' @ err)
       | Inr j \<Rightarrow> Ok j)"

section \<open>What is used of the derived conversions\<close>

text \<open>
  For the values at hand: converting to JSON and back gives the value; a state is an object with a member
  \<^verbatim>\<open>key\<close> which reads as the empty string when it is absent (\<^verbatim>\<open>serde(default)\<close>); an envelope is not \<^verbatim>\<open>null\<close>.
\<close>

definition candidate_codec_ok :: "conv_codec \<Rightarrow> pending_task_candidate \<Rightarrow> bool" where
  "candidate_codec_ok cc c \<longleftrightarrow> (\<exists>j. cc_candidate_to cc c = Ok j \<and> cc_candidate_from cc j = Ok c)"

definition connect_codec_ok :: "conv_codec \<Rightarrow> pending_task_connect \<Rightarrow> bool" where
  "connect_codec_ok cc p \<longleftrightarrow> (\<exists>j. cc_connect_to cc p = Ok j \<and> cc_connect_from cc j = Ok p)"

definition clip_codec_ok :: "conv_codec \<Rightarrow> pending_task_clip_confirmation \<Rightarrow> bool" where
  "clip_codec_ok cc p \<longleftrightarrow> (\<exists>j. cc_clip_to cc p = Ok j \<and> cc_clip_from cc j = Ok p)"

definition loop_codec_ok :: "conv_codec \<Rightarrow> pending_task_general_message_loop \<Rightarrow> bool" where
  "loop_codec_ok cc p \<longleftrightarrow> (\<exists>j. cc_loop_to cc p = Ok j \<and> cc_loop_from cc j = Ok p)"

definition state_codec_ok :: "conv_codec \<Rightarrow> task_conversation_state \<Rightarrow> bool" where
  "state_codec_ok cc st =
     (case cc_state_to cc st of
        Inl _ \<Rightarrow> True
      | Inr j \<Rightarrow> (\<exists>m. j = JObj m) \<and> cc_state_from cc j = Ok st \<and>
          cc_state_from cc (json_remove ''key'' j) = Ok (st\<lparr>tc_key := []\<rparr>))"

definition envelope_codec_ok :: "conv_codec \<Rightarrow> task_session_state_envelope \<Rightarrow> bool" where
  "envelope_codec_ok cc e =
     (case cc_envelope_to cc e of Inl _ \<Rightarrow> True | Inr v \<Rightarrow> v \<noteq> JNull \<and> cc_envelope_from cc v = Ok e)"

section \<open>Setting and reading back\<close>

lemma operations_distinct [simp]:
  "CAMERA_CONNECT_OPERATION \<noteq> CAMERA_RECORD_CLIP_CONFIRMATION_OPERATION"
  "CAMERA_CONNECT_OPERATION \<noteq> GENERAL_MESSAGE_LOOP_OPERATION"
  "CAMERA_RECORD_CLIP_CONFIRMATION_OPERATION \<noteq> GENERAL_MESSAGE_LOOP_OPERATION"
  "CAMERA_RECORD_CLIP_CONFIRMATION_OPERATION \<noteq> CAMERA_CONNECT_OPERATION"
  "GENERAL_MESSAGE_LOOP_OPERATION \<noteq> CAMERA_CONNECT_OPERATION"
  "GENERAL_MESSAGE_LOOP_OPERATION \<noteq> CAMERA_RECORD_CLIP_CONFIRMATION_OPERATION"
  by (simp_all add: CAMERA_CONNECT_OPERATION_def CAMERA_RECORD_CLIP_CONFIRMATION_OPERATION_def
      GENERAL_MESSAGE_LOOP_OPERATION_def)

lemma candidates_round_trip:
  "\<forall>c \<in> set cs. candidate_codec_ok cc c \<Longrightarrow>
   camera_candidates_from_selection cc (Some (pending_selection_from_camera_candidates cc cs)) = Some cs"
  by (induction cs)
    (auto simp: camera_candidates_from_selection_def pending_selection_from_camera_candidates_def
      candidate_codec_ok_def ok_or_null_def map_filter_simps)

lemma connect_round_trip:
  "connect_codec_ok cc p \<Longrightarrow>
   pending_connect_from_resume cc (Some (pending_resume_from_camera_connect cc p)) = Some p"
  by (auto simp: pending_connect_from_resume_def pending_resume_from_camera_connect_def connect_codec_ok_def
      ok_or_null_def)

text \<open>
  A pending step is read back as it was set, and setting one replaces any other. With conversions that
  invert on the values set: the candidates, the camera connection, the clip confirmation and the message loop
  read back as stored; after one of the three continuations is set the other two read as absent; and
  clearing the clip confirmation or the message loop leaves a continuation of another kind untouched.
\<close>

theorem pending_steps_read_back:
  assumes "\<forall>c \<in> set cs. candidate_codec_ok cc c" "connect_codec_ok cc p" "clip_codec_ok cc k" "loop_codec_ok cc m"
  shows "camera_pending_candidates cc (set_camera_pending_candidates cc cs s) = cs \<and>
    camera_pending_connect cc (set_camera_pending_connect cc (Some p) s) = Some p \<and>
    clip_pending_confirmation cc (set_clip_pending_confirmation cc (Some k) s) = Some k \<and>
    general_message_loop cc (set_general_message_loop cc (Some m) s) = Some m \<and>
    clip_pending_confirmation cc (set_camera_pending_connect cc (Some p) s) = None \<and>
    general_message_loop cc (set_camera_pending_connect cc (Some p) s) = None \<and>
    general_message_loop cc (set_clip_pending_confirmation cc (Some k) s) = None \<and>
    clip_pending_confirmation cc (set_general_message_loop cc (Some m) s) = None \<and>
    set_clip_pending_confirmation cc None (set_general_message_loop cc (Some m) s)
      = set_general_message_loop cc (Some m) s \<and>
    set_general_message_loop cc None (set_camera_pending_connect cc (Some p) s)
      = set_camera_pending_connect cc (Some p) s"
proof -
  have cands: "camera_pending_candidates cc (set_camera_pending_candidates cc cs s) = cs"
    using candidates_round_trip [OF assms(1)]
    by (simp add: camera_pending_candidates_def set_camera_pending_candidates_def)
      (simp add: camera_candidates_from_selection_def)
  have conn: "camera_pending_connect cc (set_camera_pending_connect cc (Some p) s) = Some p"
    using connect_round_trip [OF assms(2)]
    by (simp add: camera_pending_connect_def set_camera_pending_connect_def or_else_def)
  have clip: "clip_pending_confirmation cc (set_clip_pending_confirmation cc (Some k) s) = Some k"
    using assms(3) by (auto simp: clip_pending_confirmation_def set_clip_pending_confirmation_def clip_codec_ok_def
        pending_clip_confirmation_from_resume_def pending_resume_from_clip_confirmation_def ok_or_null_def)
  have loop: "general_message_loop cc (set_general_message_loop cc (Some m) s) = Some m"
    using assms(4) by (auto simp: general_message_loop_def set_general_message_loop_def loop_codec_ok_def
        pending_general_message_loop_from_resume_def pending_resume_from_general_message_loop_def ok_or_null_def)
  show ?thesis
    using cands conn clip loop
    by (simp add: clip_pending_confirmation_def general_message_loop_def set_camera_pending_connect_def
        set_clip_pending_confirmation_def set_general_message_loop_def pending_clip_confirmation_from_resume_def
        pending_general_message_loop_from_resume_def pending_resume_from_camera_connect_def
        pending_resume_from_clip_confirmation_def pending_resume_from_general_message_loop_def resume_operation_is_def)
qed

section \<open>Migration of the old fields\<close>

lemma normalize_fields [simp]:
  "tc_key (normalize_task_conversation_state cc s) = tc_key s"
  "tc_pending_candidates (normalize_task_conversation_state cc s) = []"
  "tc_pending_connect (normalize_task_conversation_state cc s) = None"
  by (simp_all add: normalize_task_conversation_state_def Let_def split: option.split)

lemma normalize_selection_resume:
  "tc_pending_selection (normalize_task_conversation_state cc s) =
     (if tc_pending_selection s = None \<and> tc_pending_candidates s \<noteq> []
      then Some (pending_selection_from_camera_candidates cc (tc_pending_candidates s)) else tc_pending_selection s)"
  "tc_pending_resume (normalize_task_conversation_state cc s) =
     or_else (tc_pending_resume s) (map_option (pending_resume_from_camera_connect cc) (tc_pending_connect s))"
  by (simp_all add: normalize_task_conversation_state_def Let_def or_else_def split: option.split)

lemma normalize_migrated:
  "tc_pending_candidates s = [] \<Longrightarrow> tc_pending_connect s = None \<Longrightarrow> normalize_task_conversation_state cc s = s"
  by (simp add: normalize_task_conversation_state_def Let_def split: option.split)

lemma normalize_idem [simp]:
  "normalize_task_conversation_state cc (normalize_task_conversation_state cc s) = normalize_task_conversation_state cc s"
  by (rule normalize_migrated) simp_all

text \<open>
  Migrating a stored conversation keeps its meaning. Normalisation is idempotent, leaves the old fields
  empty and keeps the key; and when the old fields are not shadowed by new ones, the pending candidates and the
  pending camera connection read the same before and after.
\<close>

theorem normalization_preserves_pending:
  assumes "\<forall>c \<in> set (tc_pending_candidates s). candidate_codec_ok cc c"
    "\<forall>p. tc_pending_connect s = Some p \<longrightarrow> connect_codec_ok cc p"
    "tc_pending_selection s = None \<or> tc_pending_candidates s = []"
    "tc_pending_resume s = None \<or> tc_pending_connect s = None"
  shows "camera_pending_candidates cc (normalize_task_conversation_state cc s) = camera_pending_candidates cc s \<and>
    camera_pending_connect cc (normalize_task_conversation_state cc s) = camera_pending_connect cc s \<and>
    normalize_task_conversation_state cc (normalize_task_conversation_state cc s)
      = normalize_task_conversation_state cc s \<and>
    tc_key (normalize_task_conversation_state cc s) = tc_key s"
proof -
  have "camera_pending_candidates cc (normalize_task_conversation_state cc s) = camera_pending_candidates cc s"
    using assms(3) candidates_round_trip [OF assms(1)]
    by (auto simp: camera_pending_candidates_def normalize_selection_resume)
      (auto simp: camera_candidates_from_selection_def)
  moreover have "camera_pending_connect cc (normalize_task_conversation_state cc s) = camera_pending_connect cc s"
    using assms(2,4) connect_round_trip [of cc]
    by (cases "tc_pending_connect s")
      (auto simp: camera_pending_connect_def normalize_selection_resume or_else_def pending_connect_from_resume_def
        split: option.splits)
  ultimately show ?thesis by simp
qed

section \<open>The session round trip\<close>

lemma non_empty_string_fixed: "trim k = k \<Longrightarrow> k \<noteq> [] \<Longrightarrow> non_empty_string (Some k) = Some k"
  by (simp add: non_empty_string_def)

lemma session_value_OkD:
  assumes "session_state_value_from_conversation cc s (Some ses) = Ok v"
  obtains j e where "cc_state_to cc (normalize_task_conversation_state cc s) = Ok j"
    "envelope_from_conversation_state cc s (Some ses) = Ok e"
    "en_flow_state e = (if blank (tc_key s) \<or> key_recoverable ses (tc_key s) then json_remove ''key'' j else j)"
    "cc_envelope_to cc e = Ok v"
proof -
  from assms obtain e where e: "envelope_from_conversation_state cc s (Some ses) = Ok e" "cc_envelope_to cc e = Ok v"
  proof (cases "envelope_from_conversation_state cc s (Some ses)")
    case (Inr e)
    then show thesis using assms that
      by (cases "cc_envelope_to cc e") (simp_all add: session_state_value_from_conversation_def)
  qed (simp add: session_state_value_from_conversation_def)
  moreover from e(1) obtain j where "cc_state_to cc (normalize_task_conversation_state cc s) = Ok j"
    by (auto simp: envelope_from_conversation_state_def Let_def split: sum.splits)
  ultimately show thesis
    using that by (auto simp: envelope_from_conversation_state_def Let_def)
qed

lemma json_remove_obj: "\<exists>m. j = JObj m \<Longrightarrow> json_remove k j \<noteq> JNull"
  by (auto simp: json_remove_def)

lemma session_read_back:
  assumes v: "session_state_value_from_conversation cc s (Some ses) = Ok v"
    and laws: "state_codec_ok cc (normalize_task_conversation_state cc s)"
      "\<And>e. envelope_from_conversation_state cc s (Some ses) = Ok e \<Longrightarrow> envelope_codec_ok cc e"
    and k: "\<not> blank (tc_key s)"
  shows "conversation_state_from_session cc (ses'\<lparr>cs_state := v\<rparr>) hint = Some (normalize_task_conversation_state cc
    (backfill_conversation_key ses' hint
      (if key_recoverable ses (tc_key s) then (normalize_task_conversation_state cc s)\<lparr>tc_key := []\<rparr>
       else normalize_task_conversation_state cc s)))"
proof -
  obtain j e where je: "cc_state_to cc (normalize_task_conversation_state cc s) = Ok j"
    "envelope_from_conversation_state cc s (Some ses) = Ok e"
    "en_flow_state e = (if key_recoverable ses (tc_key s) then json_remove ''key'' j else j)"
    "cc_envelope_to cc e = Ok v"
    using session_value_OkD [OF v] k by metis
  have st: "\<exists>m. j = JObj m" "cc_state_from cc j = Ok (normalize_task_conversation_state cc s)"
    "cc_state_from cc (json_remove ''key'' j) = Ok ((normalize_task_conversation_state cc s)\<lparr>tc_key := []\<rparr>)"
    using laws(1) je(1) by (simp_all add: state_codec_ok_def)
  have en: "v \<noteq> JNull" "cc_envelope_from cc v = Ok e"
    using laws(2) [OF je(2)] je(4) by (simp_all add: envelope_codec_ok_def)
  have "en_flow_state e \<noteq> JNull" using st(1) json_remove_obj [OF st(1)] by (auto simp: je(3))
  moreover have "backfill_conversation_key (ses'\<lparr>cs_state := v\<rparr>) hint x = backfill_conversation_key ses' hint x" for x
    by (simp add: backfill_conversation_key_def)
  ultimately show ?thesis
    using en st by (simp add: conversation_state_from_session_def Let_def je(3))
qed

text \<open>
  A conversation saved with its session comes back. For a state whose key is non-blank text without
  surrounding space, when the conversions succeed, reading the saved session with the same key as hint gives the
  normalised state, key included, whether or not the key was left out of the stored envelope.
\<close>

lemma session_state_round_trip:
  assumes "session_state_value_from_conversation cc s (Some ses) = Ok v"
    and "state_codec_ok cc (normalize_task_conversation_state cc s)"
    and "\<forall>e. envelope_from_conversation_state cc s (Some ses) = Ok e \<longrightarrow> envelope_codec_ok cc e"
    and "trim (tc_key s) = tc_key s" "tc_key s \<noteq> []"
  shows "conversation_state_from_session cc (ses\<lparr>cs_state := v\<rparr>) (Some (tc_key s))
    = Some (normalize_task_conversation_state cc s)"
proof -
  have nb: "\<not> blank (tc_key s)" using assms(4,5) by (simp add: blank_def)
  have hint: "non_empty_string (Some (tc_key s)) = Some (tc_key s)"
    using assms(4,5) by (rule non_empty_string_fixed)
  let ?n = "normalize_task_conversation_state cc s"
  have "backfill_conversation_key ses (Some (tc_key s)) (?n\<lparr>tc_key := []\<rparr>) = ?n"
    by (simp add: backfill_conversation_key_def hint or_else_def unwrap_or_def)
  moreover have "backfill_conversation_key ses (Some (tc_key s)) ?n = ?n"
    using nb by (simp add: backfill_conversation_key_def)
  ultimately show ?thesis
    using session_read_back [OF assms(1,2) _ nb, of ses "Some (tc_key s)"] assms(3) by simp
qed

text \<open>
  Without a hint the key can change. If the key of the saved state is the session's user id and the
  session has a different, non-blank conversation id, the key is left out of the envelope and reading the
  session back without a hint gives the state under the conversation id.
\<close>

theorem session_key_changes_without_hint:
  assumes "session_state_value_from_conversation cc s (Some ses) = Ok v"
    and "state_codec_ok cc (normalize_task_conversation_state cc s)"
    and "\<forall>e. envelope_from_conversation_state cc s (Some ses) = Ok e \<longrightarrow> envelope_codec_ok cc e"
    and "trim (tc_key s) = tc_key s" "tc_key s \<noteq> []"
    and "cs_user_id ses = tc_key s" "non_empty_string (Some (cs_conversation_id ses)) = Some c" "c \<noteq> tc_key s"
  shows "\<exists>s'. conversation_state_from_session cc (ses\<lparr>cs_state := v\<rparr>) None = Some s' \<and> tc_key s' = c \<and> tc_key s' \<noteq> tc_key s"
proof -
  have nb: "\<not> blank (tc_key s)" using assms(4,5) by (simp add: blank_def)
  have "key_recoverable ses (tc_key s)"
    using assms(4-6) by (simp add: key_recoverable_def non_empty_string_def)
  then show ?thesis
    using session_read_back [OF assms(1,2) _ nb, of ses None] assms(3,7,8)
    by (simp add: backfill_conversation_key_def or_else_def unwrap_or_def non_empty_string_def [of None])
qed

section \<open>A concrete codec\<close>

text \<open>Conversions that are exact on conversations with nothing pending, and on one value of each other kind.\<close>

definition demo_candidate :: pending_task_candidate where
  "demo_candidate = \<lparr>pc_candidate_id = ''c1'', pc_name = ''Door'', pc_ip = ''10.0.0.5'', pc_room = None, pc_port = 554,
     pc_rtsp_paths = [], pc_requires_auth = False, pc_vendor = None, pc_model = None\<rparr>"

definition demo_connect :: pending_task_connect where
  "demo_connect = \<lparr>px_resume_token = ''rt'', px_name = ''Door'', px_ip = ''10.0.0.5'', px_room = None, px_port = 554,
     px_snapshot_url = None, px_rtsp_paths = [], px_requires_auth = True, px_vendor = None, px_model = None\<rparr>"

definition demo_clip :: pending_task_clip_confirmation where
  "demo_clip = \<lparr>pk_resume_token = ''rc'', pk_clip_media_asset_id = ''a'', pk_clip_path = ''p'', pk_clip_mime_type = ''m'',
     pk_cover_path = ''v'', pk_display_name = ''d''\<rparr>"

definition demo_loop :: pending_task_general_message_loop where
  "demo_loop = \<lparr>pl_resume_token = ''rl'', pl_original_goal = ''g'', pl_latest_user_intent_text = ''i'',
     pl_last_clarification_prompt = ''q'', pl_selected_candidate_action = None, pl_camera_hint = None, pl_query = None,
     pl_home_assistant = None\<rparr>"

definition demo_state_from :: "json \<Rightarrow> string + task_conversation_state" where
  "demo_state_from j = (case j of JObj m \<Rightarrow> Ok (empty_conversation\<lparr>tc_key :=
     (case hm_get m ''key'' of Some (JStr k) \<Rightarrow> k | _ \<Rightarrow> [])\<rparr>) | _ \<Rightarrow> Err ''expected an object'')"

definition demo_codec :: conv_codec where
  "demo_codec = \<lparr>cc_candidate_to = (\<lambda>_. Ok (JStr ''c1'')), cc_candidate_from = (\<lambda>_. Ok demo_candidate),
     cc_connect_to = (\<lambda>_. Ok (JStr ''rt'')), cc_connect_from = (\<lambda>_. Ok demo_connect),
     cc_clip_to = (\<lambda>_. Ok (JStr ''rc'')), cc_clip_from = (\<lambda>_. Ok demo_clip),
     cc_loop_to = (\<lambda>_. Ok (JStr ''rl'')), cc_loop_from = (\<lambda>_. Ok demo_loop),
     cc_state_to = (\<lambda>s. Ok (JObj [(''key'', JStr (tc_key s))])), cc_state_from = demo_state_from,
     cc_envelope_to = (\<lambda>e. Ok (JArr [JInt (uint (en_schema_version e)), JStr (en_namespace e), JStr (en_flow_type e),
       en_flow_state e])),
     cc_envelope_from = (\<lambda>j. case j of JArr [JInt n, JStr a, JStr b, f] \<Rightarrow>
       Ok \<lparr>en_schema_version = word_of_int n, en_namespace = a, en_flow_type = b, en_flow_state = f\<rparr>
       | _ \<Rightarrow> Err ''expected an envelope'')\<rparr>"

lemma demo_codec_laws:
  "candidate_codec_ok demo_codec demo_candidate" "connect_codec_ok demo_codec demo_connect"
  "clip_codec_ok demo_codec demo_clip" "loop_codec_ok demo_codec demo_loop"
  "envelope_codec_ok demo_codec e" "state_codec_ok demo_codec (empty_conversation\<lparr>tc_key := k\<rparr>)"
  by (simp_all add: demo_codec_def candidate_codec_ok_def connect_codec_ok_def clip_codec_ok_def loop_codec_ok_def
      envelope_codec_ok_def state_codec_ok_def demo_state_from_def json_remove_def hm_get_def hm_remove_def)

theorem pending_steps_read_back_witness:
  "camera_pending_connect demo_codec (set_camera_pending_connect demo_codec (Some demo_connect) empty_conversation)
     = Some demo_connect"
  using pending_steps_read_back [of "[demo_candidate]" demo_codec demo_connect demo_clip demo_loop empty_conversation]
    demo_codec_laws(1-4) by simp

definition demo_legacy :: task_conversation_state where
  "demo_legacy = empty_conversation\<lparr>tc_pending_candidates := [demo_candidate], tc_pending_connect := Some demo_connect\<rparr>"

theorem normalization_preserves_pending_witness:
  "camera_pending_candidates demo_codec (normalize_task_conversation_state demo_codec demo_legacy)
     = camera_pending_candidates demo_codec demo_legacy"
  using normalization_preserves_pending [of demo_legacy demo_codec] demo_codec_laws(1,2)
  by (simp add: demo_legacy_def empty_conversation_def)

definition demo_session :: conversation_session where
  "demo_session = \<lparr>cs_session_id = ''s1'', cs_workspace_id = ''home-1'', cs_channel = ''im'', cs_surface = ''chat'',
     cs_conversation_id = ''chat-1'', cs_user_id = ''alice'', cs_route_key = [], cs_last_message_id = [],
     cs_chat_type = ''p2p'', cs_state = JNull, cs_resume_token = None, cs_expires_at = None\<rparr>"

definition demo_conversation :: task_conversation_state where
  "demo_conversation = empty_conversation\<lparr>tc_key := ''alice''\<rparr>"

definition demo_value :: json where
  "demo_value = JArr [JInt 1, JStr ''task_api'', JStr ''camera_onboarding'', JObj []]"

lemma demo_value_stored:
  "session_state_value_from_conversation demo_codec demo_conversation (Some demo_session) = Ok demo_value"
  "normalize_task_conversation_state demo_codec demo_conversation = demo_conversation"
  "trim (tc_key demo_conversation) = tc_key demo_conversation"
  "non_empty_string (Some (cs_conversation_id demo_session)) = Some ''chat-1''"
  by code_simp+

theorem session_key_changes_without_hint_witness:
  "\<exists>s'. conversation_state_from_session demo_codec (demo_session\<lparr>cs_state := demo_value\<rparr>) None = Some s' \<and> tc_key s' = ''chat-1''"
  using session_key_changes_without_hint [OF demo_value_stored(1), of "''chat-1''"] demo_codec_laws(5,6)
    demo_value_stored(2-4)
  by (auto simp: demo_conversation_def demo_session_def)

end
