(* ===== verification/Task_Records.thy ===== *)
theory Task_Records
  imports Contracts Conversation_State
begin

text \<open>
  The records that the task store keeps, from \<^verbatim>\<open>src/src/control_plane/tasks.rs\<close>, \<^verbatim>\<open>approvals.rs\<close>,
  \<^verbatim>\<open>events.rs\<close> and \<^verbatim>\<open>media.rs\<close>, with the helpers of camera profiles and recording policies in
  \<^verbatim>\<open>media.rs\<close>. The session record and the conversation state are in \<open>Conversation_State\<close>.
\<close>

section \<open>Tasks, steps and artifacts\<close>

datatype task_run_status = RunQueued | RunRunning | RunNeedsInput | RunBlocked | RunCompleted | RunFailed

record task_run =
  tr_task_id :: string
  tr_workspace_id :: string
  tr_session_id :: string
  tr_source_channel :: string
  tr_domain :: string
  tr_action :: string
  tr_intent_text :: string
  tr_entity_refs :: json
  tr_args :: json
  tr_autonomy_level :: string
  tr_status :: task_run_status
  tr_risk_level :: risk_level
  tr_requires_approval :: bool
  tr_started_at :: "string option"
  tr_completed_at :: "string option"
  tr_metadata :: json

datatype execution_route = ErLocal | ErCloud | ErMiddlewareApi | ErMidcli | ErBrowser | ErMcp

datatype task_step_run_status = SrPending | SrApproved | SrExecuting | SrSuccess | SrFailed | SrSkipped | SrBlocked

record task_step_run =
  ts_step_id :: string
  ts_task_id :: string
  ts_trace_id :: string
  ts_route_key :: string
  ts_domain :: string
  ts_operation :: string
  ts_route :: execution_route
  ts_executor_used :: string
  ts_status :: task_step_run_status
  ts_input_payload :: json
  ts_output_payload :: json
  ts_error_code :: "string option"
  ts_error_message :: "string option"
  ts_audit_ref :: "string option"
  ts_started_at :: "string option"
  ts_ended_at :: "string option"

datatype artifact_kind = ArtText | ArtImage | ArtVideo | ArtLink | ArtCard | ArtJson

record artifact_record =
  ar_artifact_id :: string
  ar_task_id :: string
  ar_trace_id :: string
  ar_step_id :: "string option"
  ar_route_key :: string
  ar_artifact_kind :: artifact_kind
  ar_label :: string
  ar_mime_type :: string
  ar_media_asset_id :: "string option"
  ar_path :: "string option"
  ar_url :: "string option"
  ar_metadata :: json

section \<open>Approvals and events\<close>

datatype approval_status = ApPending | ApApproved | ApRejected | ApExpired | ApCancelled

record approval_ticket =
  at_approval_id :: string
  at_task_id :: string
  at_trace_id :: string
  at_route_key :: string
  at_policy_ref :: string
  at_requester_user_id :: string
  at_approver_user_id :: "string option"
  at_status :: approval_status
  at_reason :: string
  at_requested_at :: "string option"
  at_decided_at :: "string option"

datatype event_source_kind = SrcDevice | SrcMedia | SrcTask | SrcAutomation | SrcSystem | SrcInference

datatype event_severity = SevInfo | SevWarning | SevError | SevCritical

record event_record =
  ev_event_id :: string
  ev_workspace_id :: string
  ev_source_kind :: event_source_kind
  ev_source_id :: string
  ev_event_type :: string
  ev_severity :: event_severity
  ev_payload :: json
  ev_correlation_id :: "string option"
  ev_causation_id :: "string option"
  ev_occurred_at :: "string option"
  ev_ingested_at :: "string option"

section \<open>Media\<close>

record camera_profile =
  cp_device_id :: string
  cp_default_stream_profile_id :: "string option"
  cp_audio_supported :: bool
  cp_ptz_supported :: bool
  cp_privacy_supported :: bool
  cp_playback_supported :: bool
  cp_recording_policy_id :: "string option"
  cp_vendor_features :: json

definition vendor_feature_str :: "camera_profile \<Rightarrow> string \<Rightarrow> string option" where
  "vendor_feature_str c key = Option.bind (json_get (cp_vendor_features c) key) as_str"

text \<open>\<^verbatim>\<open>pointer("/native_snapshot/url")\<close> descends through objects by these two names.\<close>

definition native_snapshot_url :: "camera_profile \<Rightarrow> string option" where
  "native_snapshot_url c =
     or_else (vendor_feature_str c ''native_snapshot_url'')
       (Option.bind (Option.bind (json_get (cp_vendor_features c) ''native_snapshot'') (\<lambda>j. json_get j ''url'')) as_str)"

definition normalize_rtsp_candidate :: "string \<Rightarrow> string option" where
  "normalize_rtsp_candidate value =
     (let trimmed = trim value in
      if trimmed = [] then None
      else Some (if starts_with trimmed ''/'' then trimmed else ''/'' @ trimmed))"

fun push_new :: "string list \<Rightarrow> string list \<Rightarrow> string list" where
  "push_new acc [] = acc"
| "push_new acc (c # cs) = push_new (if c \<in> set acc then acc else acc @ [c]) cs"

definition rtsp_path_candidates :: "camera_profile \<Rightarrow> string list" where
  "rtsp_path_candidates c =
     (case Option.bind (json_get (cp_vendor_features c) ''rtsp_path_candidates'') as_array of
        None \<Rightarrow> []
      | Some entries \<Rightarrow>
          push_new [] (List.map_filter normalize_rtsp_candidate (List.map_filter as_str entries)))"

datatype recording_trigger_mode = TrigContinuous | TrigEvent | TrigManual | TrigSchedule

datatype storage_target_kind = TargetNas | TargetLocalDisk | TargetHarborOsPool | TargetObjectStorage

record recording_policy =
  rc_recording_policy_id :: string
  rc_workspace_id :: string
  rc_device_id :: "string option"
  rc_trigger_mode :: recording_trigger_mode
  rc_pre_event_seconds :: u32
  rc_post_event_seconds :: u32
  rc_clip_length_seconds :: u32
  rc_retention_days :: u32
  rc_storage_target :: storage_target_kind
  rc_metadata :: json

definition metadata_str :: "recording_policy \<Rightarrow> string \<Rightarrow> string option" where
  "metadata_str p key = Option.bind (json_get (rc_metadata p) key) as_str"

fun as_u64 :: "json \<Rightarrow> int option" where
  "as_u64 (JInt n) = (if 0 \<le> n \<and> n < 2 ^ 64 then Some n else None)"
| "as_u64 _ = None"

definition metadata_u32 :: "recording_policy \<Rightarrow> string \<Rightarrow> u32 option" where
  "metadata_u32 p key =
     Option.bind (Option.bind (json_get (rc_metadata p) key) as_u64)
       (\<lambda>n. if n < 2 ^ 32 then Some (word_of_int n) else None)"

definition capture_subdirectory :: "recording_policy \<Rightarrow> string option" where
  "capture_subdirectory p = or_else (metadata_str p ''capture_subdirectory'') (metadata_str p ''capture_folder_path'')"

definition keyframe_count_hint :: "recording_policy \<Rightarrow> u32 option" where
  "keyframe_count_hint p = or_else (metadata_u32 p ''keyframe_count'') (metadata_u32 p ''keyframe_sample_count'')"

definition keyframe_interval_seconds_hint :: "recording_policy \<Rightarrow> u32 option" where
  "keyframe_interval_seconds_hint p =
     or_else (metadata_u32 p ''keyframe_interval_seconds'') (metadata_u32 p ''keyframe_interval'')"

definition clip_length_seconds_hint :: "recording_policy \<Rightarrow> u32 option" where
  "clip_length_seconds_hint p =
     (if 0 < rc_clip_length_seconds p then Some (rc_clip_length_seconds p)
      else metadata_u32 p ''clip_length_seconds'')"

datatype media_asset_kind = AssetSnapshot | AssetClip | AssetRecording | AssetReplay | AssetDerived | AssetReport

record media_asset =
  ma_asset_id :: string
  ma_workspace_id :: string
  ma_device_id :: "string option"
  ma_asset_kind :: media_asset_kind
  ma_storage_target :: storage_target_kind
  ma_storage_uri :: string
  ma_mime_type :: string
  ma_byte_size :: u64
  ma_checksum :: "string option"
  ma_captured_at :: "string option"
  ma_started_at :: "string option"
  ma_ended_at :: "string option"
  ma_derived_from_asset_id :: "string option"
  ma_tags :: "string list"
  ma_metadata :: json

datatype media_session_kind = SessLiveView | SessReplay | SessShare | SessProxy

datatype media_delivery_mode = DelLocalPlayer | DelWebrtc | DelHls | DelDownload

datatype media_session_status = MsOpening | MsActive | MsClosed | MsFailed

record media_session =
  ms_media_session_id :: string
  ms_device_id :: string
  ms_stream_profile_id :: string
  ms_session_kind :: media_session_kind
  ms_delivery_mode :: media_delivery_mode
  ms_opened_by_user_id :: "string option"
  ms_status :: media_session_status
  ms_share_link_id :: "string option"
  ms_started_at :: "string option"
  ms_ended_at :: "string option"
  ms_metadata :: json

datatype share_access_scope = ScopePublicLink | ScopeWorkspaceOnly | ScopeInviteOnly

record share_link =
  sh_share_link_id :: string
  sh_media_session_id :: string
  sh_token_hash :: string
  sh_access_scope :: share_access_scope
  sh_expires_at :: "string option"
  sh_revoked_at :: "string option"

section \<open>RTSP path candidates and numeric hints\<close>

lemma set_push_new: "set (push_new acc cs) = set acc \<union> set cs"
  by (induction acc cs rule: push_new.induct) auto

lemma distinct_push_new: "distinct acc \<Longrightarrow> distinct (push_new acc cs)"
  by (induction acc cs rule: push_new.induct) auto

lemma normalize_rtsp_candidate_absolute:
  "normalize_rtsp_candidate v = Some p \<Longrightarrow> starts_with p ''/'' \<and> trim p = p \<and> normalize_rtsp_candidate p = Some p"
  by (auto simp: normalize_rtsp_candidate_def Let_def starts_with_def trim_slash split: if_splits)

text \<open>
  The RTSP paths offered for a camera are usable as they are: each is absolute, has no surrounding space,
  is unchanged by a second normalisation and occurs once; and they are exactly the normalised non-blank
  string entries of the vendor features.
\<close>

theorem rtsp_candidates_normalised:
  "distinct (rtsp_path_candidates c) \<and>
   list_all (\<lambda>p. starts_with p ''/'' \<and> trim p = p \<and> normalize_rtsp_candidate p = Some p) (rtsp_path_candidates c) \<and>
   set (rtsp_path_candidates c) =
     {p. \<exists>entries v. Option.bind (json_get (cp_vendor_features c) ''rtsp_path_candidates'') as_array = Some entries \<and>
        JStr v \<in> set entries \<and> normalize_rtsp_candidate v = Some p}"
proof -
  have str: "as_str j = Some v \<longleftrightarrow> j = JStr v" for j v by (cases j) auto
  have mem: "p \<in> set (rtsp_path_candidates c) \<longleftrightarrow>
      (\<exists>entries v. Option.bind (json_get (cp_vendor_features c) ''rtsp_path_candidates'') as_array = Some entries \<and>
        JStr v \<in> set entries \<and> normalize_rtsp_candidate v = Some p)" for p
    by (cases "Option.bind (json_get (cp_vendor_features c) ''rtsp_path_candidates'') as_array")
      (force simp: rtsp_path_candidates_def set_push_new map_filter_def str)+
  moreover have "distinct (rtsp_path_candidates c)"
    by (simp add: rtsp_path_candidates_def distinct_push_new split: option.split)
  ultimately show ?thesis
    using normalize_rtsp_candidate_absolute by (auto simp: list_all_iff)
qed

lemma metadata_u32_Some_iff:
  "metadata_u32 p key = Some w \<longleftrightarrow> json_get (rc_metadata p) key = Some (JInt (uint w))"
proof -
  have "as_u64 j = Some n \<longleftrightarrow> j = JInt n \<and> 0 \<le> n \<and> n < 2 ^ 64" for j n by (cases j) auto
  moreover have "(0 \<le> n \<and> n < 2 ^ 32 \<and> word_of_int n = w) \<longleftrightarrow> n = uint w" for n
    using uint_bounded [of w] uint_ge_0 [of w] by (auto simp: take_bit_int_eq_self uint_word_of_int)
  ultimately show ?thesis
    using uint_bounded [of w]
    by (cases "json_get (rc_metadata p) key")
      (auto simp: metadata_u32_def bind_eq_Some_conv uint_word_of_int take_bit_int_eq_self)
qed

end
