(* ===== verification/Task_Store.thy ===== *)
theory Task_Store
  imports Task_Records
begin

text \<open>
  The store of tasks and conversations, \<^verbatim>\<open>TaskConversationStore\<close> of
  \<^verbatim>\<open>src/src/runtime/task_session.rs\<close>. The store is one JSON file; every operation reads the whole file,
  changes its tables and writes it back. The state of the model is the content of that file, \<open>None\<close> when it does not
  exist. The file system and \<^verbatim>\<open>serde_json\<close> are the functions of a record \<open>store_env\<close>: what a read, the creation of
  the directory and a write report, and the two conversions of the file. A write that fails says what it left
  behind. Tables are hash maps, whose iteration order is the order of the association list that decoding
  returned. The environment does not change during one call.
\<close>

section \<open>The file and its environment\<close>

record task_conversation_file =
  tf_conversations :: "task_conversation_state hash_map"
  tf_sessions :: "conversation_session hash_map"
  tf_task_runs :: "task_run hash_map"
  tf_task_steps :: "task_step_run hash_map"
  tf_artifacts :: "artifact_record hash_map"
  tf_media_assets :: "media_asset hash_map"
  tf_approvals :: "approval_ticket hash_map"
  tf_events :: "event_record hash_map"
  tf_media_sessions :: "media_session hash_map"
  tf_share_links :: "share_link hash_map"

definition empty_file :: task_conversation_file where
  "empty_file = \<lparr>tf_conversations = [], tf_sessions = [], tf_task_runs = [], tf_task_steps = [], tf_artifacts = [],
     tf_media_assets = [], tf_approvals = [], tf_events = [], tf_media_sessions = [], tf_share_links = []\<rparr>"

type_synonym disk = "string option"

record store_env =
  se_codec :: conv_codec
  se_read_error :: "string option"
  se_decode :: "string \<Rightarrow> string + task_conversation_file"
  se_mkdir_error :: "string option"
  se_encode :: "task_conversation_file \<Rightarrow> string + string"
  se_write_error :: "string \<Rightarrow> disk \<Rightarrow> (string \<times> disk) option"

datatype store_error =
    BlankField string
  | ShareLinkMismatch
  | ReadFailed string
  | ParseFailed string
  | CreateDirFailed string
  | SerializeFailed string
  | WriteFailed string
  | StateSerializeFailed string

type_synonym 'a store_op = "disk \<Rightarrow> (store_error + 'a) \<times> disk"

definition load_file :: "store_env \<Rightarrow> disk \<Rightarrow> store_error + task_conversation_file" where
  "load_file env d =
     (case d of
        None \<Rightarrow> Ok empty_file
      | Some content \<Rightarrow>
          (case se_read_error env of
             Some e \<Rightarrow> Err (ReadFailed e)
           | None \<Rightarrow> (case se_decode env content of Inl e \<Rightarrow> Err (ParseFailed e) | Inr f \<Rightarrow> Ok f)))"

definition save_file :: "store_env \<Rightarrow> task_conversation_file \<Rightarrow> unit store_op" where
  "save_file env f d =
     (case se_mkdir_error env of
        Some e \<Rightarrow> (Err (CreateDirFailed e), d)
      | None \<Rightarrow>
          (case se_encode env f of
             Inl e \<Rightarrow> (Err (SerializeFailed e), d)
           | Inr payload \<Rightarrow>
               (case se_write_error env payload d of
                  Some (e, left) \<Rightarrow> (Err (WriteFailed e), left)
                | None \<Rightarrow> (Ok (), Some payload))))"

text \<open>The two shapes of the operations: reading the file, and reading it and going on with a change.\<close>

definition with_file :: "store_env \<Rightarrow> (task_conversation_file \<Rightarrow> 'a store_op) \<Rightarrow> 'a store_op" where
  "with_file env k d = (case load_file env d of Inl e \<Rightarrow> (Err e, d) | Inr f \<Rightarrow> k f d)"

definition returning :: "'a \<Rightarrow> 'a store_op" where
  "returning v d = (Ok v, d)"

definition failing :: "store_error \<Rightarrow> 'a store_op" where
  "failing e d = (Err e, d)"

definition save_returning :: "store_env \<Rightarrow> task_conversation_file \<Rightarrow> 'a \<Rightarrow> 'a store_op" where
  "save_returning env f v d = (case save_file env f d of (Inl e, d') \<Rightarrow> (Err e, d') | (Inr _, d') \<Rightarrow> (Ok v, d'))"

section \<open>Conversations\<close>

definition persisted_task_conversation_state ::
  "conv_codec \<Rightarrow> task_conversation_state \<Rightarrow> task_conversation_state" where
  "persisted_task_conversation_state cc s = normalize_task_conversation_state cc s"

definition store_load :: "store_env \<Rightarrow> string \<Rightarrow> task_conversation_state store_op" where
  "store_load env key = with_file env (\<lambda>f. returning (normalize_task_conversation_state (se_codec env)
     (unwrap_or (hm_get (tf_conversations f) key) (empty_conversation\<lparr>tc_key := key\<rparr>))))"

definition store_save :: "store_env \<Rightarrow> task_conversation_state \<Rightarrow> unit store_op" where
  "store_save env s =
     (if blank (tc_key s) then failing (BlankField ''conversation key'')
      else with_file env (\<lambda>f.
        let stored = persisted_task_conversation_state (se_codec env) s in
        save_file env (f\<lparr>tf_conversations := hm_insert (tc_key stored) stored (tf_conversations f)\<rparr>)))"

definition store_clear :: "store_env \<Rightarrow> string \<Rightarrow> unit store_op" where
  "store_clear env key = with_file env (\<lambda>f.
     save_file env (f\<lparr>tf_conversations := hm_remove key (tf_conversations f)\<rparr>))"

definition load_for_session ::
  "store_env \<Rightarrow> string \<Rightarrow> string option \<Rightarrow> task_conversation_state option store_op" where
  "load_for_session env session_id key_hint = with_file env (\<lambda>f.
     case Option.bind (hm_get (tf_sessions f) session_id)
            (\<lambda>session. conversation_state_from_session (se_codec env) session key_hint) of
       Some s \<Rightarrow> returning (Some s)
     | None \<Rightarrow>
         (case non_empty_string key_hint of
            None \<Rightarrow> returning None
          | Some key \<Rightarrow> returning (map_option
              (\<lambda>s. normalize_task_conversation_state (se_codec env) (if blank (tc_key s) then s\<lparr>tc_key := key\<rparr> else s))
              (hm_get (tf_conversations f) key))))"

definition save_for_session ::
  "store_env \<Rightarrow> conversation_session \<Rightarrow> task_conversation_state \<Rightarrow> unit store_op" where
  "save_for_session env session s =
     (if blank (cs_session_id session) then failing (BlankField ''session_id'')
      else if blank (tc_key s) then failing (BlankField ''conversation key'')
      else with_file env (\<lambda>f.
        let stored = persisted_task_conversation_state (se_codec env) s in
        case envelope_from_conversation_state (se_codec env) stored (Some session) of
          Inl e \<Rightarrow> failing (StateSerializeFailed e)
        | Inr envelope \<Rightarrow>
            (case cc_envelope_to (se_codec env) envelope of
               Inl e \<Rightarrow> failing (StateSerializeFailed e)
             | Inr value \<Rightarrow> save_file env
                 (f\<lparr>tf_sessions := hm_insert (cs_session_id session) (session\<lparr>cs_state := value\<rparr>) (tf_sessions f),
                    tf_conversations := hm_insert (tc_key stored) stored (tf_conversations f)\<rparr>))))"

text \<open>\<^verbatim>\<open>get_mut\<close> followed by assignments is a change of the value stored under the key, if there is one.\<close>

definition hm_modify :: "string \<Rightarrow> ('v \<Rightarrow> 'v) \<Rightarrow> 'v hash_map \<Rightarrow> 'v hash_map" where
  "hm_modify k g m = map (\<lambda>e. if fst e = k then (fst e, g (snd e)) else e) m"

definition clear_for_session :: "store_env \<Rightarrow> string \<Rightarrow> string option \<Rightarrow> unit store_op" where
  "clear_for_session env session_id key_hint = with_file env (\<lambda>f.
     let f1 = f\<lparr>tf_sessions := hm_modify session_id (\<lambda>s. s\<lparr>cs_state := JNull, cs_resume_token := None\<rparr>) (tf_sessions f)\<rparr>;
         f2 = (case non_empty_string key_hint of
                 None \<Rightarrow> f1
               | Some key \<Rightarrow> f1\<lparr>tf_conversations := hm_remove key (tf_conversations f1)\<rparr>)
     in save_file env f2)"

section \<open>Sessions\<close>

definition load_session :: "store_env \<Rightarrow> string \<Rightarrow> conversation_session option store_op" where
  "load_session env session_id = with_file env (\<lambda>f. returning (hm_get (tf_sessions f) session_id))"

definition save_session :: "store_env \<Rightarrow> conversation_session \<Rightarrow> unit store_op" where
  "save_session env session =
     (if blank (cs_session_id session) then failing (BlankField ''session_id'')
      else with_file env (\<lambda>f.
        save_file env (f\<lparr>tf_sessions := hm_insert (cs_session_id session) session (tf_sessions f)\<rparr>)))"

text \<open>The latest start among the runs of a session; \<open>None\<close> comes before every start.\<close>

fun max_option :: "string list \<Rightarrow> string option" where
  "max_option [] = None"
| "max_option (x # xs) = Some (fold max xs x)"

definition latest_start :: "task_conversation_file \<Rightarrow> string \<Rightarrow> string option" where
  "latest_start f session_id =
     max_option (List.map_filter tr_started_at
       (filter (\<lambda>run. tr_session_id run = session_id) (hm_values (tf_task_runs f))))"

definition sessions_for_user_surface ::
  "store_env \<Rightarrow> string \<Rightarrow> string \<Rightarrow> conversation_session list store_op" where
  "sessions_for_user_surface env user_id surface = with_file env (\<lambda>f. returning
     (sort_by (descending (\<lambda>s. (latest_start f (cs_session_id s), cs_session_id s)))
       (filter (\<lambda>s. cs_user_id s = user_id \<and> cs_surface s = surface) (hm_values (tf_sessions f)))))"

definition task_ids_of :: "task_conversation_file \<Rightarrow> string \<Rightarrow> string list" where
  "task_ids_of f session_id =
     map tr_task_id (filter (\<lambda>run. tr_session_id run = session_id) (hm_values (tf_task_runs f)))"

definition step_ids_of :: "task_conversation_file \<Rightarrow> string list \<Rightarrow> string list" where
  "step_ids_of f task_ids =
     map ts_step_id (filter (\<lambda>step. ts_task_id step \<in> set task_ids) (hm_values (tf_task_steps f)))"

definition names_any :: "string list \<Rightarrow> string option \<Rightarrow> bool" where
  "names_any ids x = (case x of None \<Rightarrow> False | Some i \<Rightarrow> i \<in> set ids)"

definition drop_session :: "string \<Rightarrow> task_conversation_file \<Rightarrow> task_conversation_file" where
  "drop_session session_id f =
     (let task_ids = task_ids_of f session_id;
          step_ids = step_ids_of f task_ids in
      f\<lparr>tf_sessions := hm_remove session_id (tf_sessions f),
        tf_task_runs := hm_retain (\<lambda>task_id _. task_id \<notin> set task_ids) (tf_task_runs f),
        tf_task_steps := hm_retain (\<lambda>step_id _. step_id \<notin> set step_ids) (tf_task_steps f),
        tf_artifacts := hm_retain (\<lambda>_ artifact. ar_task_id artifact \<notin> set task_ids) (tf_artifacts f),
        tf_events := hm_retain (\<lambda>_ event.
          ev_source_id event \<notin> set task_ids \<and> ev_source_id event \<notin> set step_ids \<and>
          \<not> names_any (task_ids @ step_ids) (ev_correlation_id event) \<and>
          \<not> names_any (task_ids @ step_ids) (ev_causation_id event)) (tf_events f)\<rparr>)"

definition delete_session_with_tasks :: "store_env \<Rightarrow> string \<Rightarrow> bool store_op" where
  "delete_session_with_tasks env session_id =
     (if blank session_id then returning False
      else with_file env (\<lambda>f.
        if hm_get (tf_sessions f) session_id = None then returning False
        else save_returning env (drop_session session_id f) True))"

fun prune_loop :: "store_env \<Rightarrow> conversation_session list \<Rightarrow> string list \<Rightarrow> string list store_op" where
  "prune_loop env [] removed d = (Ok removed, d)"
| "prune_loop env (s # ss) removed d =
     (case delete_session_with_tasks env (cs_session_id s) d of
        (Inl e, d') \<Rightarrow> (Err e, d')
      | (Inr gone, d') \<Rightarrow> prune_loop env ss (if gone then removed @ [cs_session_id s] else removed) d')"

definition prune_sessions_for_user_surface ::
  "store_env \<Rightarrow> string \<Rightarrow> string \<Rightarrow> nat \<Rightarrow> string list store_op" where
  "prune_sessions_for_user_surface env user_id surface limit d =
     (case sessions_for_user_surface env user_id surface d of
        (Inl e, d') \<Rightarrow> (Err e, d')
      | (Inr sessions, d') \<Rightarrow> prune_loop env (drop (max limit 1) sessions) [] d')"

section \<open>Runs and steps\<close>

definition load_task_run :: "store_env \<Rightarrow> string \<Rightarrow> task_run option store_op" where
  "load_task_run env task_id = with_file env (\<lambda>f. returning (hm_get (tf_task_runs f) task_id))"

definition save_task_run :: "store_env \<Rightarrow> task_run \<Rightarrow> unit store_op" where
  "save_task_run env run =
     (if blank (tr_task_id run) then failing (BlankField ''task_id'')
      else with_file env (\<lambda>f. save_file env (f\<lparr>tf_task_runs := hm_insert (tr_task_id run) run (tf_task_runs f)\<rparr>)))"

definition recent_task_runs_for_session :: "store_env \<Rightarrow> string \<Rightarrow> nat \<Rightarrow> task_run list store_op" where
  "recent_task_runs_for_session env session_id limit =
     (if blank session_id \<or> limit = 0 then returning []
      else with_file env (\<lambda>f. returning (take limit
        (sort_by (descending (\<lambda>run. (tr_started_at run, tr_task_id run)))
          (filter (\<lambda>run. tr_session_id run = session_id) (hm_values (tf_task_runs f)))))))"

definition load_task_step :: "store_env \<Rightarrow> string \<Rightarrow> task_step_run option store_op" where
  "load_task_step env step_id = with_file env (\<lambda>f. returning (hm_get (tf_task_steps f) step_id))"

text \<open>\<^verbatim>\<open>split_off(len - limit)\<close> keeps the last \<open>limit\<close> entries.\<close>

definition keep_last :: "nat \<Rightarrow> 'a list \<Rightarrow> 'a list" where
  "keep_last limit xs = (if limit < length xs then drop (length xs - limit) xs else xs)"

definition recent_task_steps :: "store_env \<Rightarrow> nat \<Rightarrow> task_step_run list store_op" where
  "recent_task_steps env limit =
     (if limit = 0 then returning []
      else with_file env (\<lambda>f. returning (keep_last limit
        (sort_by (ascending (\<lambda>step. (ts_ended_at step, ts_started_at step, ts_step_id step)))
          (hm_values (tf_task_steps f))))))"

definition save_task_step :: "store_env \<Rightarrow> task_step_run \<Rightarrow> unit store_op" where
  "save_task_step env step =
     (if blank (ts_step_id step) then failing (BlankField ''step_id'')
      else with_file env (\<lambda>f. save_file env (f\<lparr>tf_task_steps := hm_insert (ts_step_id step) step (tf_task_steps f)\<rparr>)))"

section \<open>Media and share links\<close>

definition load_media_asset :: "store_env \<Rightarrow> string \<Rightarrow> media_asset option store_op" where
  "load_media_asset env asset_id = with_file env (\<lambda>f. returning (hm_get (tf_media_assets f) asset_id))"

definition list_media_assets :: "store_env \<Rightarrow> media_asset list store_op" where
  "list_media_assets env = with_file env (\<lambda>f. returning
     (sort_by (ascending (\<lambda>a. (ma_captured_at a, ma_asset_id a))) (hm_values (tf_media_assets f))))"

definition save_media_asset :: "store_env \<Rightarrow> media_asset \<Rightarrow> unit store_op" where
  "save_media_asset env asset =
     (if blank (ma_asset_id asset) then failing (BlankField ''asset_id'')
      else with_file env (\<lambda>f.
        save_file env (f\<lparr>tf_media_assets := hm_insert (ma_asset_id asset) asset (tf_media_assets f)\<rparr>)))"

definition load_media_session :: "store_env \<Rightarrow> string \<Rightarrow> media_session option store_op" where
  "load_media_session env media_session_id =
     with_file env (\<lambda>f. returning (hm_get (tf_media_sessions f) media_session_id))"

definition list_media_sessions :: "store_env \<Rightarrow> media_session list store_op" where
  "list_media_sessions env = with_file env (\<lambda>f. returning
     (sort_by (ascending (\<lambda>m. (ms_started_at m, ms_media_session_id m))) (hm_values (tf_media_sessions f))))"

definition save_media_session :: "store_env \<Rightarrow> media_session \<Rightarrow> unit store_op" where
  "save_media_session env m =
     (if blank (ms_media_session_id m) then failing (BlankField ''media_session_id'')
      else with_file env (\<lambda>f.
        save_file env (f\<lparr>tf_media_sessions := hm_insert (ms_media_session_id m) m (tf_media_sessions f)\<rparr>)))"

definition closed_session :: "string option \<Rightarrow> media_session \<Rightarrow> media_session" where
  "closed_session ended_at m =
     (let m1 = m\<lparr>ms_status := MsClosed\<rparr> in if ended_at \<noteq> None then m1\<lparr>ms_ended_at := ended_at\<rparr> else m1)"

definition close_media_session ::
  "store_env \<Rightarrow> string \<Rightarrow> string option \<Rightarrow> media_session option store_op" where
  "close_media_session env media_session_id ended_at = with_file env (\<lambda>f.
     case hm_get (tf_media_sessions f) media_session_id of
       None \<Rightarrow> returning None
     | Some m \<Rightarrow> save_returning env
         (f\<lparr>tf_media_sessions := hm_modify media_session_id (closed_session ended_at) (tf_media_sessions f)\<rparr>)
         (Some (closed_session ended_at m)))"

definition load_share_link :: "store_env \<Rightarrow> string \<Rightarrow> share_link option store_op" where
  "load_share_link env share_link_id =
     with_file env (\<lambda>f. returning (hm_get (tf_share_links f) share_link_id))"

definition list_share_links :: "store_env \<Rightarrow> share_link list store_op" where
  "list_share_links env = with_file env (\<lambda>f. returning
     (sort_by (ascending (\<lambda>l. (sh_expires_at l, sh_share_link_id l))) (hm_values (tf_share_links f))))"

definition find_share_link_by_token_hash :: "store_env \<Rightarrow> string \<Rightarrow> share_link option store_op" where
  "find_share_link_by_token_hash env token_hash = with_file env (\<lambda>f. returning
     (find (\<lambda>l. sh_token_hash l = token_hash) (hm_values (tf_share_links f))))"

definition save_share_link :: "store_env \<Rightarrow> share_link \<Rightarrow> unit store_op" where
  "save_share_link env l =
     (if blank (sh_share_link_id l) then failing (BlankField ''share_link_id'')
      else with_file env (\<lambda>f.
        save_file env (f\<lparr>tf_share_links := hm_insert (sh_share_link_id l) l (tf_share_links f)\<rparr>)))"

definition save_share_link_bundle :: "store_env \<Rightarrow> media_session \<Rightarrow> share_link \<Rightarrow> unit store_op" where
  "save_share_link_bundle env m l =
     (if blank (ms_media_session_id m) then failing (BlankField ''media_session_id'')
      else if blank (sh_share_link_id l) then failing (BlankField ''share_link_id'')
      else if sh_media_session_id l \<noteq> ms_media_session_id m then failing ShareLinkMismatch
      else with_file env (\<lambda>f. save_file env
        (f\<lparr>tf_media_sessions := hm_insert (ms_media_session_id m) m (tf_media_sessions f),
           tf_share_links := hm_insert (sh_share_link_id l) l (tf_share_links f)\<rparr>)))"

definition revoked_link :: "string option \<Rightarrow> share_link \<Rightarrow> share_link" where
  "revoked_link revoked_at l = (if revoked_at \<noteq> None then l\<lparr>sh_revoked_at := revoked_at\<rparr> else l)"

definition revoke_share_link :: "store_env \<Rightarrow> string \<Rightarrow> string option \<Rightarrow> share_link option store_op" where
  "revoke_share_link env share_link_id revoked_at = with_file env (\<lambda>f.
     case hm_get (tf_share_links f) share_link_id of
       None \<Rightarrow> returning None
     | Some l \<Rightarrow> save_returning env
         (f\<lparr>tf_share_links := hm_modify share_link_id (revoked_link revoked_at) (tf_share_links f)\<rparr>)
         (Some (revoked_link revoked_at l)))"

section \<open>Artifacts\<close>

definition artifacts_for_task :: "store_env \<Rightarrow> string \<Rightarrow> artifact_record list store_op" where
  "artifacts_for_task env task_id = with_file env (\<lambda>f. returning
     (sort_by (ascending ar_artifact_id) (filter (\<lambda>a. ar_task_id a = task_id) (hm_values (tf_artifacts f)))))"

text \<open>The loops that insert the new records stop at the first blank id; the file in memory is then dropped.\<close>

fun insert_all :: "('v \<Rightarrow> string) \<Rightarrow> string \<Rightarrow> 'v list \<Rightarrow> 'v hash_map \<Rightarrow> store_error + 'v hash_map" where
  "insert_all key field [] m = Ok m"
| "insert_all key field (v # vs) m =
     (if blank (key v) then Err (BlankField field) else insert_all key field vs (hm_insert (key v) v m))"

definition replace_artifacts_for_step ::
  "store_env \<Rightarrow> string \<Rightarrow> string option \<Rightarrow> artifact_record list \<Rightarrow> unit store_op" where
  "replace_artifacts_for_step env task_id step_id artifacts = with_file env (\<lambda>f.
     case insert_all ar_artifact_id ''artifact_id'' artifacts
            (hm_retain (\<lambda>_ a. \<not> (ar_task_id a = task_id \<and> ar_step_id a = step_id)) (tf_artifacts f)) of
       Inl e \<Rightarrow> failing e
     | Inr m \<Rightarrow> save_file env (f\<lparr>tf_artifacts := m\<rparr>))"

section \<open>Approvals\<close>

definition approvals_for_task :: "store_env \<Rightarrow> string \<Rightarrow> approval_ticket list store_op" where
  "approvals_for_task env task_id = with_file env (\<lambda>f. returning
     (sort_by (ascending (\<lambda>a. (at_requested_at a, at_approval_id a)))
       (filter (\<lambda>a. at_task_id a = task_id) (hm_values (tf_approvals f)))))"

definition pending_approvals :: "store_env \<Rightarrow> approval_ticket list store_op" where
  "pending_approvals env = with_file env (\<lambda>f. returning
     (sort_by (ascending (\<lambda>a. (at_requested_at a, at_approval_id a)))
       (filter (\<lambda>a. at_status a = ApPending) (hm_values (tf_approvals f)))))"

definition load_approval :: "store_env \<Rightarrow> string \<Rightarrow> approval_ticket option store_op" where
  "load_approval env approval_id = with_file env (\<lambda>f. returning (hm_get (tf_approvals f) approval_id))"

definition save_approval :: "store_env \<Rightarrow> approval_ticket \<Rightarrow> unit store_op" where
  "save_approval env a =
     (if blank (at_approval_id a) then failing (BlankField ''approval_id'')
      else with_file env (\<lambda>f. save_file env (f\<lparr>tf_approvals := hm_insert (at_approval_id a) a (tf_approvals f)\<rparr>)))"

definition decided :: "approval_status \<Rightarrow> string option \<Rightarrow> string option \<Rightarrow> approval_ticket \<Rightarrow> approval_ticket" where
  "decided status approver decided_at a =
     (let a1 = a\<lparr>at_status := status\<rparr>;
          a2 = (if approver \<noteq> None then a1\<lparr>at_approver_user_id := approver\<rparr> else a1)
      in if decided_at \<noteq> None then a2\<lparr>at_decided_at := decided_at\<rparr> else a2)"

definition pending_for :: "string \<Rightarrow> approval_ticket \<Rightarrow> bool" where
  "pending_for task_id a \<longleftrightarrow> \<not> (at_task_id a \<noteq> task_id \<or> at_status a \<noteq> ApPending)"

definition resolve_pending_approvals ::
  "store_env \<Rightarrow> string \<Rightarrow> string option \<Rightarrow> string option \<Rightarrow> approval_ticket list store_op" where
  "resolve_pending_approvals env task_id approver decided_at = with_file env (\<lambda>f.
     let resolve = decided ApApproved approver decided_at in
     save_returning env
       (f\<lparr>tf_approvals := map (\<lambda>e. if pending_for task_id (snd e) then (fst e, resolve (snd e)) else e) (tf_approvals f)\<rparr>)
       (map resolve (filter (pending_for task_id) (hm_values (tf_approvals f)))))"

definition update_approval_status ::
  "store_env \<Rightarrow> string \<Rightarrow> approval_status \<Rightarrow> string option \<Rightarrow> string option \<Rightarrow> approval_ticket option store_op" where
  "update_approval_status env approval_id status approver decided_at = with_file env (\<lambda>f.
     case hm_get (tf_approvals f) approval_id of
       None \<Rightarrow> returning None
     | Some a \<Rightarrow> save_returning env
         (f\<lparr>tf_approvals := hm_modify approval_id (decided status approver decided_at) (tf_approvals f)\<rparr>)
         (Some (decided status approver decided_at a)))"

section \<open>Events\<close>

definition events_for_task :: "store_env \<Rightarrow> string \<Rightarrow> event_record list store_op" where
  "events_for_task env task_id = with_file env (\<lambda>f. returning
     (sort_by (ascending (\<lambda>e. (ev_occurred_at e, ev_event_id e)))
       (filter (\<lambda>e. ev_source_id e = task_id) (hm_values (tf_events f)))))"

definition recent_events :: "store_env \<Rightarrow> nat \<Rightarrow> event_record list store_op" where
  "recent_events env limit =
     (if limit = 0 then returning []
      else with_file env (\<lambda>f. returning (keep_last limit
        (sort_by (ascending (\<lambda>e. (ev_occurred_at e, ev_event_id e))) (hm_values (tf_events f))))))"

definition replace_events_for_step ::
  "store_env \<Rightarrow> string \<Rightarrow> string option \<Rightarrow> event_record list \<Rightarrow> unit store_op" where
  "replace_events_for_step env task_id step_id events = with_file env (\<lambda>f.
     case insert_all ev_event_id ''event_id'' events
            (hm_retain (\<lambda>_ e. \<not> (ev_source_id e = task_id \<and> ev_causation_id e = step_id)) (tf_events f)) of
       Inl e \<Rightarrow> failing e
     | Inr m \<Rightarrow> save_file env (f\<lparr>tf_events := m\<rparr>))"

end
