(* ===== verification/Task_Store_Laws.thy ===== *)
theory Task_Store_Laws
  imports Task_Store
begin

text \<open>
  What the task store promises. The view of a file is the tuple of the finite maps its tables stand for;
  the view forgets the order in which a hash map is walked. The operations that write are shown to be
  updates of the view that are read back by the next load, deletion of a session is shown to be a cascade
  over the view, and every file the store writes keeps each record under its own non-blank id.
\<close>

section \<open>Views\<close>

record store_view =
  vw_conversations :: "string \<Rightarrow> task_conversation_state option"
  vw_sessions :: "string \<Rightarrow> conversation_session option"
  vw_task_runs :: "string \<Rightarrow> task_run option"
  vw_task_steps :: "string \<Rightarrow> task_step_run option"
  vw_artifacts :: "string \<Rightarrow> artifact_record option"
  vw_media_assets :: "string \<Rightarrow> media_asset option"
  vw_approvals :: "string \<Rightarrow> approval_ticket option"
  vw_events :: "string \<Rightarrow> event_record option"
  vw_media_sessions :: "string \<Rightarrow> media_session option"
  vw_share_links :: "string \<Rightarrow> share_link option"

definition abs_file :: "task_conversation_file \<Rightarrow> store_view" where
  "abs_file f = \<lparr>vw_conversations = hm_get (tf_conversations f), vw_sessions = hm_get (tf_sessions f),
     vw_task_runs = hm_get (tf_task_runs f), vw_task_steps = hm_get (tf_task_steps f),
     vw_artifacts = hm_get (tf_artifacts f), vw_media_assets = hm_get (tf_media_assets f),
     vw_approvals = hm_get (tf_approvals f), vw_events = hm_get (tf_events f),
     vw_media_sessions = hm_get (tf_media_sessions f), vw_share_links = hm_get (tf_share_links f)\<rparr>"

definition file_inv :: "task_conversation_file \<Rightarrow> bool" where
  "file_inv f \<longleftrightarrow> hm_inv (tf_conversations f) \<and> hm_inv (tf_sessions f) \<and> hm_inv (tf_task_runs f) \<and>
     hm_inv (tf_task_steps f) \<and> hm_inv (tf_artifacts f) \<and> hm_inv (tf_media_assets f) \<and> hm_inv (tf_approvals f) \<and>
     hm_inv (tf_events f) \<and> hm_inv (tf_media_sessions f) \<and> hm_inv (tf_share_links f)"

text \<open>
  What is used of \<^verbatim>\<open>serde_json\<close>: a decoded file has hash maps, so distinct keys, and decoding what was
  encoded gives a file with the same entries. What is used of the file system: a write that fails leaves the old
  content, or content cut short that does not decode.
\<close>

definition codec_law :: "store_env \<Rightarrow> bool" where
  "codec_law env \<longleftrightarrow> (\<forall>t f. se_decode env t = Ok f \<longrightarrow> file_inv f) \<and>
     (\<forall>f t. file_inv f \<longrightarrow> se_encode env f = Ok t \<longrightarrow> (\<exists>f'. se_decode env t = Ok f' \<and> abs_file f' = abs_file f))"

definition write_law :: "store_env \<Rightarrow> bool" where
  "write_law env \<longleftrightarrow> (\<forall>p d e left. se_write_error env p d = Some (e, left) \<longrightarrow>
     left = d \<or> (\<exists>t. left = Some t \<and> (\<forall>f. se_decode env t \<noteq> Ok f)))"

lemma file_inv_empty [simp]: "file_inv empty_file"
  by (simp add: file_inv_def empty_file_def)

lemma load_file_inv: "codec_law env \<Longrightarrow> load_file env d = Ok f \<Longrightarrow> file_inv f"
  by (auto simp: load_file_def codec_law_def split: option.splits sum.splits)

lemma save_file_cases:
  assumes "save_file env f d = (r, d')"
  obtains (ok) t where "r = Ok ()" "d' = Some t" "se_encode env f = Ok t"
  | (early) e where "r = Err e" "d' = d"
  | (broken) e t left where "r = Err (WriteFailed e)" "se_write_error env t d = Some (e, left)" "d' = left"
  using assms by (auto simp: save_file_def split: option.splits sum.splits)

lemma save_file_reload:
  assumes "codec_law env" "se_read_error env = None" "file_inv f" "save_file env f d = (Ok u, d')"
  shows "\<exists>f'. load_file env d' = Ok f' \<and> file_inv f' \<and> abs_file f' = abs_file f"
  using assms(4)
proof (cases rule: save_file_cases)
  case (ok t)
  then obtain f' where "se_decode env t = Ok f'" "abs_file f' = abs_file f" "file_inv f'"
    using assms(1,3) unfolding codec_law_def by metis
  then show ?thesis using ok assms(2) by (simp add: load_file_def)
qed auto

lemma with_file_ok: "load_file env d = Ok f \<Longrightarrow> with_file env k d = k f d"
  by (simp add: with_file_def)

lemma with_file_Ok_iff:
  "with_file env k d = (Ok r, d') \<longleftrightarrow> (\<exists>f. load_file env d = Ok f \<and> k f d = (Ok r, d'))"
  by (auto simp: with_file_def split: sum.split)

lemma save_returning_Ok_iff: "save_returning env f v d = (Ok r, d') \<longleftrightarrow> save_file env f d = (Ok (), d') \<and> r = v"
  by (auto simp: save_returning_def split: prod.split sum.split)

lemma snd_save_returning [simp]: "snd (save_returning env f v d) = snd (save_file env f d)"
  by (auto simp: save_returning_def split: prod.split sum.split)

lemmas store_monad = returning_def failing_def with_file_def

section \<open>One table of the file\<close>

lemma hm_get_modify: "hm_get (hm_modify k g m) k' = (if k' = k then map_option g (hm_get m k) else hm_get m k')"
  by (induction m) (auto simp: hm_get_def hm_modify_def)

lemma hm_inv_modify [simp]: "hm_inv (hm_modify k g m) = hm_inv m"
proof -
  have "map fst (hm_modify k g m) = map fst m" by (auto simp: hm_modify_def)
  then show ?thesis by (simp add: hm_inv_def)
qed

lemma hm_get_funs:
  "hm_get (hm_insert k v m) = (hm_get m)(k \<mapsto> v)" "hm_get (hm_remove k m) = (hm_get m)(k := None)"
  "hm_get (hm_modify k g m) = (hm_get m)(k := map_option g (hm_get m k))"
  by (simp_all add: fun_eq_iff hm_get_insert hm_get_remove hm_get_modify)

text \<open>
  A table of the file seen through the view. A change of the table is a change of one map, and the records that
  the store saves in it are read back by the next load, the other tables being as before.
\<close>

locale file_table =
  fixes tget :: "task_conversation_file \<Rightarrow> 'v hash_map"
    and tset :: "('v hash_map \<Rightarrow> 'v hash_map) \<Rightarrow> task_conversation_file \<Rightarrow> task_conversation_file"
    and vget :: "store_view \<Rightarrow> string \<Rightarrow> 'v option"
    and vset :: "((string \<Rightarrow> 'v option) \<Rightarrow> string \<Rightarrow> 'v option) \<Rightarrow> store_view \<Rightarrow> store_view"
  assumes abs_get: "vget (abs_file f) = hm_get (tget f)"
    and abs_set: "abs_file (tset (\<lambda>_. m) f) = vset (\<lambda>_. hm_get m) (abs_file f)"
    and inv_get: "file_inv f \<Longrightarrow> hm_inv (tget f)"
    and inv_set: "file_inv f \<Longrightarrow> hm_inv m \<Longrightarrow> file_inv (tset (\<lambda>_. m) f)"
begin

lemma abs_insert:
  "abs_file (tset (\<lambda>_. hm_insert k v (tget f)) f) = vset (\<lambda>_. (vget (abs_file f))(k \<mapsto> v)) (abs_file f)"
  by (simp add: abs_set abs_get hm_get_funs)

lemma abs_remove:
  "abs_file (tset (\<lambda>_. hm_remove k (tget f)) f) = vset (\<lambda>_. (vget (abs_file f))(k := None)) (abs_file f)"
  by (simp add: abs_set abs_get hm_get_funs)

lemma abs_modify:
  "abs_file (tset (\<lambda>_. hm_modify k g (tget f)) f) =
     vset (\<lambda>_. (vget (abs_file f))(k := map_option g (vget (abs_file f) k))) (abs_file f)"
  by (simp add: abs_set abs_get hm_get_funs)

lemma inv_insert: "file_inv f \<Longrightarrow> file_inv (tset (\<lambda>_. hm_insert k v (tget f)) f)"
  by (simp add: inv_set inv_get)

lemma inv_remove: "file_inv f \<Longrightarrow> file_inv (tset (\<lambda>_. hm_remove k (tget f)) f)"
  by (simp add: inv_set inv_get)

lemma inv_modify: "file_inv f \<Longrightarrow> file_inv (tset (\<lambda>_. hm_modify k g (tget f)) f)"
  by (simp add: inv_set inv_get)

end

interpretation conversations: file_table tf_conversations tf_conversations_update vw_conversations vw_conversations_update
  by unfold_locales (simp_all add: abs_file_def file_inv_def)

interpretation sessions: file_table tf_sessions tf_sessions_update vw_sessions vw_sessions_update
  by unfold_locales (simp_all add: abs_file_def file_inv_def)

interpretation task_runs: file_table tf_task_runs tf_task_runs_update vw_task_runs vw_task_runs_update
  by unfold_locales (simp_all add: abs_file_def file_inv_def)

interpretation task_steps: file_table tf_task_steps tf_task_steps_update vw_task_steps vw_task_steps_update
  by unfold_locales (simp_all add: abs_file_def file_inv_def)

interpretation artifacts: file_table tf_artifacts tf_artifacts_update vw_artifacts vw_artifacts_update
  by unfold_locales (simp_all add: abs_file_def file_inv_def)

interpretation media_assets: file_table tf_media_assets tf_media_assets_update vw_media_assets vw_media_assets_update
  by unfold_locales (simp_all add: abs_file_def file_inv_def)

interpretation approvals: file_table tf_approvals tf_approvals_update vw_approvals vw_approvals_update
  by unfold_locales (simp_all add: abs_file_def file_inv_def)

interpretation events: file_table tf_events tf_events_update vw_events vw_events_update
  by unfold_locales (simp_all add: abs_file_def file_inv_def)

interpretation media_sessions: file_table tf_media_sessions tf_media_sessions_update vw_media_sessions vw_media_sessions_update
  by unfold_locales (simp_all add: abs_file_def file_inv_def)

interpretation share_links: file_table tf_share_links tf_share_links_update vw_share_links vw_share_links_update
  by unfold_locales (simp_all add: abs_file_def file_inv_def)

lemmas table_inserts =
  conversations.abs_insert sessions.abs_insert task_runs.abs_insert task_steps.abs_insert artifacts.abs_insert
  media_assets.abs_insert approvals.abs_insert events.abs_insert media_sessions.abs_insert share_links.abs_insert
  conversations.inv_insert sessions.inv_insert task_runs.inv_insert task_steps.inv_insert artifacts.inv_insert
  media_assets.inv_insert approvals.inv_insert events.inv_insert media_sessions.inv_insert share_links.inv_insert

section \<open>Writing operations are updates of the view\<close>

text \<open>
  The outcome of an operation on a file is that of writing a file with the given view; if the write succeeds, the
  next load succeeds and has this view.
\<close>

definition writes :: "store_env \<Rightarrow> disk \<Rightarrow> (store_error + unit) \<times> disk \<Rightarrow> store_view \<Rightarrow> bool" where
  "writes env d outcome v \<longleftrightarrow> (\<exists>F. abs_file F = v \<and> outcome = save_file env F d \<and>
     (fst outcome = Ok () \<longrightarrow> (\<exists>f'. load_file env (snd outcome) = Ok f' \<and> abs_file f' = v)))"

lemma writes_save:
  assumes "codec_law env" "se_read_error env = None" "file_inv F" "abs_file F = v"
  shows "writes env d (save_file env F d) v"
  unfolding writes_def
  by (rule exI [of _ F]) (use save_file_reload [OF assms(1,2,3), of d] assms(4) in \<open>cases "save_file env F d"; force\<close>)

text \<open>
  C24. What the store saves is what it loads. On a readable file and for a non-blank id, each save operation has the
  outcome of writing the file in which exactly the entry under the record's own id is replaced (a conversation in
  its migrated form, a share link bundle with both its entries); when it returns \<^verbatim>\<open>Ok\<close>, the next load
  succeeds and returns that file's entries, whatever the order in which the hash maps are walked.
\<close>

theorem store_saves_refine_map_updates:
  assumes "codec_law env" "se_read_error env = None" "load_file env d = Ok f"
  shows
   "(\<not> blank (tc_key c) \<longrightarrow> writes env d (store_save env c d)
       (abs_file f\<lparr>vw_conversations := (vw_conversations (abs_file f))
          (tc_key c \<mapsto> normalize_task_conversation_state (se_codec env) c)\<rparr>)) \<and>
    (\<not> blank (cs_session_id s) \<longrightarrow> writes env d (save_session env s d)
       (abs_file f\<lparr>vw_sessions := (vw_sessions (abs_file f))(cs_session_id s \<mapsto> s)\<rparr>)) \<and>
    (\<not> blank (tr_task_id r) \<longrightarrow> writes env d (save_task_run env r d)
       (abs_file f\<lparr>vw_task_runs := (vw_task_runs (abs_file f))(tr_task_id r \<mapsto> r)\<rparr>)) \<and>
    (\<not> blank (ts_step_id t) \<longrightarrow> writes env d (save_task_step env t d)
       (abs_file f\<lparr>vw_task_steps := (vw_task_steps (abs_file f))(ts_step_id t \<mapsto> t)\<rparr>)) \<and>
    (\<not> blank (ma_asset_id a) \<longrightarrow> writes env d (save_media_asset env a d)
       (abs_file f\<lparr>vw_media_assets := (vw_media_assets (abs_file f))(ma_asset_id a \<mapsto> a)\<rparr>)) \<and>
    (\<not> blank (ms_media_session_id m) \<longrightarrow> writes env d (save_media_session env m d)
       (abs_file f\<lparr>vw_media_sessions := (vw_media_sessions (abs_file f))(ms_media_session_id m \<mapsto> m)\<rparr>)) \<and>
    (\<not> blank (sh_share_link_id l) \<longrightarrow> writes env d (save_share_link env l d)
       (abs_file f\<lparr>vw_share_links := (vw_share_links (abs_file f))(sh_share_link_id l \<mapsto> l)\<rparr>)) \<and>
    (\<not> blank (at_approval_id p) \<longrightarrow> writes env d (save_approval env p d)
       (abs_file f\<lparr>vw_approvals := (vw_approvals (abs_file f))(at_approval_id p \<mapsto> p)\<rparr>)) \<and>
    (\<not> blank (ms_media_session_id m) \<longrightarrow> \<not> blank (sh_share_link_id l) \<longrightarrow>
       sh_media_session_id l = ms_media_session_id m \<longrightarrow> writes env d (save_share_link_bundle env m l d)
       (abs_file f\<lparr>vw_media_sessions := (vw_media_sessions (abs_file f))(ms_media_session_id m \<mapsto> m),
          vw_share_links := (vw_share_links (abs_file f))(sh_share_link_id l \<mapsto> l)\<rparr>))"
proof -
  have inv: "file_inv f" using assms(1,3) by (rule load_file_inv)
  note w = writes_save [OF assms(1,2)]
  have "file_inv (f\<lparr>tf_media_sessions := hm_insert (ms_media_session_id m) m (tf_media_sessions f),
          tf_share_links := hm_insert (sh_share_link_id l) l (tf_share_links f)\<rparr>)"
    using inv by (simp add: file_inv_def)
  moreover have "abs_file (f\<lparr>tf_media_sessions := hm_insert (ms_media_session_id m) m (tf_media_sessions f),
          tf_share_links := hm_insert (sh_share_link_id l) l (tf_share_links f)\<rparr>) =
       abs_file f\<lparr>vw_media_sessions := (vw_media_sessions (abs_file f))(ms_media_session_id m \<mapsto> m),
          vw_share_links := (vw_share_links (abs_file f))(sh_share_link_id l \<mapsto> l)\<rparr>"
    by (simp add: abs_file_def hm_get_funs)
  ultimately show ?thesis
    using inv
    by (intro conjI impI; simp add: store_save_def save_session_def save_task_run_def save_task_step_def
        save_media_asset_def save_media_session_def save_share_link_def save_approval_def save_share_link_bundle_def
        with_file_ok [OF assms(3)] persisted_task_conversation_state_def Let_def; intro w;
        simp only: table_inserts)
qed


section \<open>Records under their own ids\<close>

definition own_key :: "('v \<Rightarrow> string) \<Rightarrow> (string \<Rightarrow> 'v option) \<Rightarrow> bool" where
  "own_key key m \<longleftrightarrow> (\<forall>k v. m k = Some v \<longrightarrow> key v = k \<and> \<not> blank k)"

definition keyed_view :: "store_view \<Rightarrow> bool" where
  "keyed_view v \<longleftrightarrow> own_key tc_key (vw_conversations v) \<and> own_key cs_session_id (vw_sessions v) \<and>
     own_key tr_task_id (vw_task_runs v) \<and> own_key ts_step_id (vw_task_steps v) \<and>
     own_key ar_artifact_id (vw_artifacts v) \<and> own_key ma_asset_id (vw_media_assets v) \<and>
     own_key at_approval_id (vw_approvals v) \<and> own_key ev_event_id (vw_events v) \<and>
     own_key ms_media_session_id (vw_media_sessions v) \<and> own_key sh_share_link_id (vw_share_links v)"

text \<open>A change of the file that keeps distinct keys and records under their own ids.\<close>

definition ok_change :: "task_conversation_file \<Rightarrow> task_conversation_file \<Rightarrow> bool" where
  "ok_change f F \<longleftrightarrow> (file_inv f \<and> keyed_view (abs_file f) \<longrightarrow> file_inv F \<and> keyed_view (abs_file F))"

lemma ok_change_trans: "ok_change f g \<Longrightarrow> ok_change g h \<Longrightarrow> ok_change f h"
  by (simp add: ok_change_def)

lemma ok_change_refl: "ok_change f f"
  by (simp add: ok_change_def)

lemma keyed_empty: "keyed_view (abs_file empty_file)"
  by (simp add: keyed_view_def abs_file_def empty_file_def own_key_def)

lemma own_key_insert: "own_key key (hm_get m) \<Longrightarrow> \<not> blank (key v) \<Longrightarrow> own_key key (hm_get (hm_insert (key v) v m))"
  by (auto simp: own_key_def hm_get_insert)

lemma own_key_remove: "own_key key (hm_get m) \<Longrightarrow> own_key key (hm_get (hm_remove k m))"
  by (auto simp: own_key_def hm_get_remove split: if_splits)

lemma own_key_modify:
  "own_key key (hm_get m) \<Longrightarrow> (\<And>v. key (g v) = key v) \<Longrightarrow> own_key key (hm_get (hm_modify k g m))"
  by (auto simp: own_key_def hm_get_modify)

lemma own_key_retain: "hm_inv m \<Longrightarrow> own_key key (hm_get m) \<Longrightarrow> own_key key (hm_get (hm_retain p m))"
  by (auto simp: own_key_def hm_get_retain opt_filter_Some_iff)

lemma insert_all_keeps:
  "insert_all key field vs m = Ok m' \<Longrightarrow> hm_inv m \<Longrightarrow> own_key key (hm_get m) \<Longrightarrow>
   hm_inv m' \<and> own_key key (hm_get m')"
  by (induction key field vs m rule: insert_all.induct) (auto simp: own_key_insert split: if_splits)

text \<open>A table whose records carry their key.\<close>

locale keyed_table = file_table tget tset vget vset
  for tget :: "task_conversation_file \<Rightarrow> 'v hash_map" and tset vget vset +
  fixes key :: "'v \<Rightarrow> string"
  assumes keyed_get: "keyed_view (abs_file f) \<Longrightarrow> own_key key (vget (abs_file f))"
    and keyed_set: "keyed_view (abs_file f) \<Longrightarrow> own_key key (hm_get m) \<Longrightarrow> keyed_view (abs_file (tset (\<lambda>_. m) f))"
begin

lemma ok_set:
  assumes "hm_inv (tget f) \<Longrightarrow> own_key key (hm_get (tget f)) \<Longrightarrow> hm_inv m \<and> own_key key (hm_get m)"
  shows "ok_change f (tset (\<lambda>_. m) f)"
  using assms inv_get inv_set keyed_get [of f] keyed_set [of f m] by (auto simp: ok_change_def abs_get)

lemma ok_insert: "\<not> blank (key v) \<Longrightarrow> ok_change f (tset (\<lambda>_. hm_insert (key v) v (tget f)) f)"
  by (rule ok_set) (simp add: own_key_insert)

lemma ok_remove: "ok_change f (tset (\<lambda>_. hm_remove k (tget f)) f)"
  by (rule ok_set) (simp add: own_key_remove)

lemma ok_modify: "(\<And>v. key (g v) = key v) \<Longrightarrow> ok_change f (tset (\<lambda>_. hm_modify k g (tget f)) f)"
  by (rule ok_set) (simp add: own_key_modify)

lemma ok_retain: "ok_change f (tset (\<lambda>_. hm_retain p (tget f)) f)"
  by (rule ok_set) (simp add: own_key_retain)

lemma ok_replace:
  "insert_all key field vs (hm_retain p (tget f)) = Ok m \<Longrightarrow> ok_change f (tset (\<lambda>_. m) f)"
  by (rule ok_set) (auto dest: insert_all_keeps simp: own_key_retain)

end

interpretation conversations: keyed_table tf_conversations tf_conversations_update vw_conversations vw_conversations_update tc_key
  by unfold_locales (simp_all add: keyed_view_def abs_file_def)

interpretation sessions: keyed_table tf_sessions tf_sessions_update vw_sessions vw_sessions_update cs_session_id
  by unfold_locales (simp_all add: keyed_view_def abs_file_def)

interpretation task_runs: keyed_table tf_task_runs tf_task_runs_update vw_task_runs vw_task_runs_update tr_task_id
  by unfold_locales (simp_all add: keyed_view_def abs_file_def)

interpretation task_steps: keyed_table tf_task_steps tf_task_steps_update vw_task_steps vw_task_steps_update ts_step_id
  by unfold_locales (simp_all add: keyed_view_def abs_file_def)

interpretation artifacts: keyed_table tf_artifacts tf_artifacts_update vw_artifacts vw_artifacts_update ar_artifact_id
  by unfold_locales (simp_all add: keyed_view_def abs_file_def)

interpretation media_assets: keyed_table tf_media_assets tf_media_assets_update vw_media_assets vw_media_assets_update ma_asset_id
  by unfold_locales (simp_all add: keyed_view_def abs_file_def)

interpretation approvals: keyed_table tf_approvals tf_approvals_update vw_approvals vw_approvals_update at_approval_id
  by unfold_locales (simp_all add: keyed_view_def abs_file_def)

interpretation events: keyed_table tf_events tf_events_update vw_events vw_events_update ev_event_id
  by unfold_locales (simp_all add: keyed_view_def abs_file_def)

interpretation media_sessions: keyed_table tf_media_sessions tf_media_sessions_update vw_media_sessions vw_media_sessions_update
    ms_media_session_id
  by unfold_locales (simp_all add: keyed_view_def abs_file_def)

interpretation share_links: keyed_table tf_share_links tf_share_links_update vw_share_links vw_share_links_update sh_share_link_id
  by unfold_locales (simp_all add: keyed_view_def abs_file_def)

section \<open>Operations write at most once\<close>

fun err_of :: "'e + 'a \<Rightarrow> 'e option" where
  "err_of (Inl e) = Some e"
| "err_of (Inr v) = None"

text \<open>
  Every operation but pruning writes the file at most once, after it has read it, and reports what that write
  reported; without a write the disk is as it was.
\<close>

definition one_write :: "store_env \<Rightarrow> 'a store_op \<Rightarrow> bool" where
  "one_write env q \<longleftrightarrow> (\<forall>d r d'. q d = (r, d') \<longrightarrow> d' = d \<or>
     (\<exists>f F u. load_file env d = Ok f \<and> ok_change f F \<and> save_file env F d = (u, d') \<and> err_of u = err_of r))"

lemma one_write_pure [simp]: "one_write env (failing e)" "one_write env (returning v)"
  by (simp_all add: one_write_def failing_def returning_def)

definition one_write_from :: "store_env \<Rightarrow> task_conversation_file \<Rightarrow> 'a store_op \<Rightarrow> bool" where
  "one_write_from env f q \<longleftrightarrow> (\<forall>d r d'. q d = (r, d') \<longrightarrow> d' = d \<or>
     (\<exists>F u. ok_change f F \<and> save_file env F d = (u, d') \<and> err_of u = err_of r))"

lemma one_write_from_pure [simp]: "one_write_from env f (failing e)" "one_write_from env f (returning v)"
  by (simp_all add: one_write_from_def failing_def returning_def)

lemma one_write_from_save: "ok_change f F \<Longrightarrow> one_write_from env f (save_file env F)"
  by (auto simp: one_write_from_def)

lemma one_write_from_save_returning: "ok_change f F \<Longrightarrow> one_write_from env f (save_returning env F v)"
  by (fastforce simp: one_write_from_def save_returning_def split: prod.splits sum.splits)

lemma one_write_with_file: "(\<And>f. one_write_from env f (k f)) \<Longrightarrow> one_write env (with_file env k)"
  by (fastforce simp: one_write_def one_write_from_def with_file_def split: sum.splits)

lemma one_write_if: "(b \<Longrightarrow> one_write env p) \<Longrightarrow> (\<not> b \<Longrightarrow> one_write env q) \<Longrightarrow> one_write env (if b then p else q)"
  by simp

lemmas one_write_intros =
  one_write_if one_write_pure one_write_with_file one_write_from_pure one_write_from_save one_write_from_save_returning

lemma decided_keeps_id [simp]: "at_approval_id (decided st ap dt a) = at_approval_id a"
  by (simp add: decided_def Let_def)

lemma closed_keeps_id [simp]: "ms_media_session_id (closed_session e m) = ms_media_session_id m"
  by (simp add: closed_session_def Let_def)

lemma revoked_keeps_id [simp]: "sh_share_link_id (revoked_link e l) = sh_share_link_id l"
  by (simp add: revoked_link_def)

lemma one_write_conversations:
  "one_write env (store_save env c)" "one_write env (store_clear env key)"
  "one_write env (save_for_session env s c)" "one_write env (clear_for_session env sid hint)"
proof -
  show "one_write env (store_save env c)"
    unfolding store_save_def Let_def persisted_task_conversation_state_def
    by (intro one_write_intros conversations.ok_insert) simp
  show "one_write env (store_clear env key)"
    unfolding store_clear_def by (intro one_write_intros conversations.ok_remove)
  have "ok_change f (f\<lparr>tf_sessions := hm_insert (cs_session_id s) (s\<lparr>cs_state := v\<rparr>) (tf_sessions f),
      tf_conversations := hm_insert (tc_key c) (normalize_task_conversation_state (se_codec env) c) (tf_conversations f)\<rparr>)"
    if "\<not> blank (cs_session_id s)" "\<not> blank (tc_key c)" for f v
    by (rule ok_change_trans [OF sessions.ok_insert [of "s\<lparr>cs_state := v\<rparr>" f]])
      (use that conversations.ok_insert [of "normalize_task_conversation_state (se_codec env) c"
        "f\<lparr>tf_sessions := hm_insert (cs_session_id s) (s\<lparr>cs_state := v\<rparr>) (tf_sessions f)\<rparr>"] in simp_all)
  then show "one_write env (save_for_session env s c)"
    unfolding save_for_session_def Let_def persisted_task_conversation_state_def
    by (auto intro!: one_write_intros split: sum.split)
  have "ok_change f (let f1 = f\<lparr>tf_sessions := hm_modify sid (\<lambda>s. s\<lparr>cs_state := JNull, cs_resume_token := None\<rparr>) (tf_sessions f)\<rparr>
     in case non_empty_string hint of None \<Rightarrow> f1
        | Some key \<Rightarrow> f1\<lparr>tf_conversations := hm_remove key (tf_conversations f1)\<rparr>)" for f
    unfolding Let_def
    by (rule ok_change_trans [OF sessions.ok_modify
          [of "\<lambda>s. s\<lparr>cs_state := JNull, cs_resume_token := None\<rparr>" f sid]])
      (simp, simp split: option.split add: ok_change_refl conversations.ok_remove [of
          "f\<lparr>tf_sessions := hm_modify sid (\<lambda>s. s\<lparr>cs_state := JNull, cs_resume_token := None\<rparr>) (tf_sessions f)\<rparr>", simplified])
  then show "one_write env (clear_for_session env sid hint)"
    unfolding clear_for_session_def Let_def by (intro one_write_intros) simp
qed

lemma one_write_saves:
  "one_write env (save_session env s)" "one_write env (save_task_run env r)" "one_write env (save_task_step env t)"
  "one_write env (save_media_asset env a)" "one_write env (save_media_session env m)"
  "one_write env (save_share_link env l)" "one_write env (save_approval env p)"
  unfolding save_session_def save_task_run_def save_task_step_def save_media_asset_def save_media_session_def
    save_share_link_def save_approval_def
  by (intro one_write_intros sessions.ok_insert task_runs.ok_insert task_steps.ok_insert media_assets.ok_insert
      media_sessions.ok_insert share_links.ok_insert approvals.ok_insert; assumption)+

lemma one_write_bundle: "one_write env (save_share_link_bundle env m l)"
proof -
  have "ok_change f (f\<lparr>tf_media_sessions := hm_insert (ms_media_session_id m) m (tf_media_sessions f),
          tf_share_links := hm_insert (sh_share_link_id l) l (tf_share_links f)\<rparr>)"
    if "\<not> blank (ms_media_session_id m)" "\<not> blank (sh_share_link_id l)" for f
    by (rule ok_change_trans [OF media_sessions.ok_insert]) 
      (use that share_links.ok_insert
        [of l "f\<lparr>tf_media_sessions := hm_insert (ms_media_session_id m) m (tf_media_sessions f)\<rparr>"] in simp_all)
  then show ?thesis
    unfolding save_share_link_bundle_def by (intro one_write_intros)
qed

lemma one_write_updates:
  "one_write env (close_media_session env i e)" "one_write env (revoke_share_link env i e)"
  "one_write env (update_approval_status env i st ap e)"
  unfolding close_media_session_def revoke_share_link_def update_approval_status_def
  by (auto intro!: one_write_intros media_sessions.ok_modify share_links.ok_modify approvals.ok_modify
      split: option.split)

lemma one_write_replaces:
  "one_write env (replace_artifacts_for_step env task_id step_id as)"
  "one_write env (replace_events_for_step env task_id step_id es)"
  unfolding replace_artifacts_for_step_def replace_events_for_step_def
  by (auto intro!: one_write_intros artifacts.ok_replace events.ok_replace split: sum.split)

text \<open>A map over the entries that keeps the keys: the loop of \<open>resolve_pending_approvals\<close>.\<close>

lemma hm_get_map_values:
  "hm_get (map (\<lambda>e. if p (snd e) then (fst e, g (snd e)) else e) m) k =
     map_option (\<lambda>v. if p v then g v else v) (hm_get m k)"
  by (induction m) (auto simp: hm_get_def)

lemma hm_inv_map_values [simp]: "hm_inv (map (\<lambda>e. if p (snd e) then (fst e, g (snd e)) else e) m) = hm_inv m"
proof -
  have "map fst (map (\<lambda>e. if p (snd e) then (fst e, g (snd e)) else e) m) = map fst m" by auto
  then show ?thesis unfolding hm_inv_def by presburger
qed

lemma one_write_resolve: "one_write env (resolve_pending_approvals env task_id ap e)"
  unfolding resolve_pending_approvals_def Let_def
  by (intro one_write_intros approvals.ok_set) (auto simp: own_key_def hm_get_map_values)

lemma drop_session_ok: "ok_change f (drop_session sid f)"
  by (simp add: ok_change_def drop_session_def Let_def file_inv_def keyed_view_def abs_file_def own_key_retain
      own_key_remove)

lemma one_write_delete: "one_write env (delete_session_with_tasks env sid)"
  unfolding delete_session_with_tasks_def
  by (auto intro!: one_write_intros drop_session_ok)

section \<open>Sequences of calls\<close>

datatype store_command =
    StoreSave task_conversation_state
  | StoreClear string
  | SaveForSession conversation_session task_conversation_state
  | ClearForSession string "string option"
  | SaveSession conversation_session
  | DeleteSession string
  | PruneSessions string string nat
  | SaveTaskRun task_run
  | SaveTaskStep task_step_run
  | SaveMediaAsset media_asset
  | SaveMediaSession media_session
  | CloseMediaSession string "string option"
  | SaveShareLink share_link
  | SaveShareLinkBundle media_session share_link
  | RevokeShareLink string "string option"
  | ReplaceArtifacts string "string option" "artifact_record list"
  | SaveApproval approval_ticket
  | ResolvePending string "string option" "string option"
  | UpdateApproval string approval_status "string option" "string option"
  | ReplaceEvents string "string option" "event_record list"

text \<open>The error a call reports, if any, and the disk it leaves.\<close>

definition outcome :: "'a store_op \<Rightarrow> disk \<Rightarrow> store_error option \<times> disk" where
  "outcome q d = (case q d of (r, d') \<Rightarrow> (err_of r, d'))"

fun run_command :: "store_env \<Rightarrow> store_command \<Rightarrow> disk \<Rightarrow> store_error option \<times> disk" where
  "run_command env (StoreSave c) = outcome (store_save env c)"
| "run_command env (StoreClear k) = outcome (store_clear env k)"
| "run_command env (SaveForSession s c) = outcome (save_for_session env s c)"
| "run_command env (ClearForSession i h) = outcome (clear_for_session env i h)"
| "run_command env (SaveSession s) = outcome (save_session env s)"
| "run_command env (DeleteSession i) = outcome (delete_session_with_tasks env i)"
| "run_command env (PruneSessions u s n) = outcome (prune_sessions_for_user_surface env u s n)"
| "run_command env (SaveTaskRun r) = outcome (save_task_run env r)"
| "run_command env (SaveTaskStep t) = outcome (save_task_step env t)"
| "run_command env (SaveMediaAsset a) = outcome (save_media_asset env a)"
| "run_command env (SaveMediaSession m) = outcome (save_media_session env m)"
| "run_command env (CloseMediaSession i e) = outcome (close_media_session env i e)"
| "run_command env (SaveShareLink l) = outcome (save_share_link env l)"
| "run_command env (SaveShareLinkBundle m l) = outcome (save_share_link_bundle env m l)"
| "run_command env (RevokeShareLink i e) = outcome (revoke_share_link env i e)"
| "run_command env (ReplaceArtifacts t s as) = outcome (replace_artifacts_for_step env t s as)"
| "run_command env (SaveApproval a) = outcome (save_approval env a)"
| "run_command env (ResolvePending t u e) = outcome (resolve_pending_approvals env t u e)"
| "run_command env (UpdateApproval i st u e) = outcome (update_approval_status env i st u e)"
| "run_command env (ReplaceEvents t s es) = outcome (replace_events_for_step env t s es)"

definition prunes :: "store_command \<Rightarrow> bool" where
  "prunes cmd = (case cmd of PruneSessions _ _ _ \<Rightarrow> True | _ \<Rightarrow> False)"

lemma outcome_one_write:
  "one_write env q \<Longrightarrow> outcome q d = (e, d') \<Longrightarrow>
   d' = d \<or> (\<exists>f F u. load_file env d = Ok f \<and> ok_change f F \<and> save_file env F d = (u, d') \<and> err_of u = e)"
  by (fastforce simp: outcome_def one_write_def split: prod.splits)

lemmas command_writes =
  one_write_conversations [THEN outcome_one_write] one_write_saves [THEN outcome_one_write]
  one_write_bundle [THEN outcome_one_write] one_write_updates [THEN outcome_one_write]
  one_write_replaces [THEN outcome_one_write] one_write_resolve [THEN outcome_one_write]
  one_write_delete [THEN outcome_one_write]

lemma command_one_write:
  "\<not> prunes cmd \<Longrightarrow> run_command env cmd d = (e, d') \<Longrightarrow>
   d' = d \<or> (\<exists>f F u. load_file env d = Ok f \<and> ok_change f F \<and> save_file env F d = (u, d') \<and> err_of u = e)"
  by (cases cmd; simp only: run_command.simps; (erule command_writes | simp add: prunes_def))

text \<open>
  C38. A call that fails changes nothing, unless it was the write itself that failed. For every call but pruning,
  which is a sequence of deletions: if an error is reported and it is not a failed write, the file is as it was,
  also when some of the records of the call had already been entered in memory.
\<close>

theorem failed_calls_keep_the_file:
  assumes "\<not> prunes cmd" "run_command env cmd d = (Some e, d')" "\<forall>m. e \<noteq> WriteFailed m"
  shows "d' = d"
  using command_one_write [OF assms(1,2)]
proof (elim disjE exE conjE)
  fix f F u assume "save_file env F d = (u, d')" and u: "err_of u = Some e"
  then show "d' = d" using assms(3) by (cases rule: save_file_cases) auto
qed

subsection \<open>The invariant\<close>

definition disk_keyed :: "(string \<Rightarrow> string + task_conversation_file) \<Rightarrow> disk \<Rightarrow> bool" where
  "disk_keyed dec d \<longleftrightarrow> (\<forall>t f. d = Some t \<longrightarrow> dec t = Ok f \<longrightarrow> keyed_view (abs_file f))"

definition env_ok :: "(string \<Rightarrow> string + task_conversation_file) \<Rightarrow> store_env \<Rightarrow> bool" where
  "env_ok dec env \<longleftrightarrow> se_decode env = dec \<and> codec_law env \<and> write_law env"

inductive store_step :: "(string \<Rightarrow> string + task_conversation_file) \<Rightarrow> disk \<Rightarrow> disk \<Rightarrow> bool" for dec where
  call: "env_ok dec env \<Longrightarrow> run_command env cmd d = (e, d') \<Longrightarrow> store_step dec d d'"

lemma load_keyed:
  "env_ok dec env \<Longrightarrow> disk_keyed dec d \<Longrightarrow> load_file env d = Ok f \<Longrightarrow> file_inv f \<and> keyed_view (abs_file f)"
  by (auto simp: env_ok_def load_file_inv)
    (auto simp: disk_keyed_def load_file_def keyed_empty split: option.splits sum.splits)

lemma save_keyed:
  assumes "env_ok dec env" "disk_keyed dec d" "file_inv F" "keyed_view (abs_file F)" "save_file env F d = (u, d')"
  shows "disk_keyed dec d'"
  using assms(5)
proof (cases rule: save_file_cases)
  case (ok t)
  then obtain f' where "dec t = Ok f'" "abs_file f' = abs_file F"
    using assms(1,3) unfolding codec_law_def env_ok_def by metis
  then show ?thesis using ok assms(4) by (simp add: disk_keyed_def)
next
  case (broken e t left)
  then have "left = d \<or> (\<exists>t. left = Some t \<and> (\<forall>f. dec t \<noteq> Ok f))"
    using assms(1) unfolding env_ok_def write_law_def by blast
  then show ?thesis using broken assms(2) by (auto simp: disk_keyed_def)
qed (use assms(2) in auto)

lemma one_write_keyed:
  assumes "env_ok dec env" "disk_keyed dec d" "one_write env q" "q d = (r, d')"
  shows "disk_keyed dec d'"
  using assms load_keyed [OF assms(1,2)] save_keyed [OF assms(1,2)]
  unfolding one_write_def ok_change_def by blast

lemma prune_loop_keyed:
  "env_ok dec env \<Longrightarrow> disk_keyed dec d \<Longrightarrow> prune_loop env ss removed d = (r, d') \<Longrightarrow> disk_keyed dec d'"
proof (induction ss arbitrary: removed d)
  case (Cons s ss)
  obtain q d1 where q: "delete_session_with_tasks env (cs_session_id s) d = (q, d1)" by fastforce
  then have "disk_keyed dec d1" using one_write_keyed [OF Cons.prems(1,2) one_write_delete] by blast
  then show ?case using Cons q by (cases q) auto
qed simp

lemma sessions_for_user_surface_disk:
  "snd (sessions_for_user_surface env u s d) = d"
  by (simp add: sessions_for_user_surface_def store_monad split: sum.split)

lemma store_step_keyed: "disk_keyed dec d \<Longrightarrow> store_step dec d d' \<Longrightarrow> disk_keyed dec d'"
proof (erule store_step.cases)
  fix env cmd d0 e d1
  assume env: "env_ok dec env" and inv: "disk_keyed dec d" and run: "run_command env cmd d0 = (e, d1)"
    and eq: "d = d0" "d' = d1"
  show "disk_keyed dec d'"
  proof (cases "prunes cmd")
    case False
    then show ?thesis using command_one_write [OF False run] load_keyed [OF env inv] save_keyed [OF env inv] inv eq
      unfolding ok_change_def by blast
  next
    case True
    then obtain u s n where "cmd = PruneSessions u s n" by (cases cmd) (auto simp: prunes_def)
    then show ?thesis
      using run eq inv prune_loop_keyed [OF env inv] sessions_for_user_surface_disk [of env u s d]
      by (auto simp: outcome_def prune_sessions_for_user_surface_def split: prod.splits sum.splits)
  qed
qed

interpretation store: step_invariant "store_step dec" "disk_keyed dec" for dec
  by unfold_locales (rule store_step_keyed)

text \<open>
  C25. Every record stays under its own id. From a missing file, after any sequence of calls, successful or not, whatever
  the reads and writes in between reported: each table of a file that decodes holds each record under the id that the
  record carries, and no record under a blank id.
\<close>

theorem store_keeps_records_under_own_ids:
  assumes "(store_step dec)\<^sup>*\<^sup>* None (Some t)" "dec t = Ok f"
  shows "keyed_view (abs_file f)"
proof -
  have "disk_keyed dec (Some t)"
    using assms(1) by (rule store.inv_steps) (simp add: disk_keyed_def)
  then show ?thesis using assms(2) by (simp add: disk_keyed_def)
qed

end
