(* ===== verification/Task_Store_Sessions.thy ===== *)
theory Task_Store_Sessions
  imports Task_Store_Laws
begin

text \<open>
  Deletion and pruning of sessions, resolution of approvals, listings, and the conversation stored with a
  session: the operations of the task store that look at more than one record.
\<close>

section \<open>Deleting a session\<close>

text \<open>The tasks of a session, and the steps of these tasks.\<close>

definition task_of :: "store_view \<Rightarrow> string \<Rightarrow> string \<Rightarrow> bool" where
  "task_of v sid t \<longleftrightarrow> (\<exists>r. vw_task_runs v t = Some r \<and> tr_session_id r = sid)"

definition step_of :: "store_view \<Rightarrow> string \<Rightarrow> string \<Rightarrow> bool" where
  "step_of v sid i \<longleftrightarrow> (\<exists>s. vw_task_steps v i = Some s \<and> task_of v sid (ts_task_id s))"

text \<open>The ids an event refers to.\<close>

definition refers_to :: "event_record \<Rightarrow> string \<Rightarrow> bool" where
  "refers_to e x \<longleftrightarrow> x = ev_source_id e \<or> ev_correlation_id e = Some x \<or> ev_causation_id e = Some x"

definition session_deleted :: "string \<Rightarrow> store_view \<Rightarrow> store_view" where
  "session_deleted sid v = v\<lparr>
     vw_sessions := (vw_sessions v)(sid := None),
     vw_task_runs := (\<lambda>t. opt_filter (\<lambda>r. tr_session_id r \<noteq> sid) (vw_task_runs v t)),
     vw_task_steps := (\<lambda>i. opt_filter (\<lambda>s. \<not> task_of v sid (ts_task_id s)) (vw_task_steps v i)),
     vw_artifacts := (\<lambda>i. opt_filter (\<lambda>a. \<not> task_of v sid (ar_task_id a)) (vw_artifacts v i)),
     vw_events := (\<lambda>i. opt_filter (\<lambda>e. \<forall>x. refers_to e x \<longrightarrow> \<not> task_of v sid x \<and> \<not> step_of v sid x) (vw_events v i))\<rparr>"

lemma opt_filter_cong:
  "x = y \<Longrightarrow> (\<And>v. y = Some v \<Longrightarrow> p v = q v) \<Longrightarrow> opt_filter p x = opt_filter q y"
  by (auto simp: opt_filter_def split: option.split)

lemma task_ids_of_iff:
  assumes "file_inv f" "keyed_view (abs_file f)"
  shows "t \<in> set (task_ids_of f sid) \<longleftrightarrow> task_of (abs_file f) sid t"
proof -
  have "own_key tr_task_id (hm_get (tf_task_runs f))" "hm_inv (tf_task_runs f)"
    using task_runs.keyed_get [OF assms(2)] assms(1) by (simp_all add: task_runs.abs_get file_inv_def)
  then show ?thesis
    by (auto simp: task_ids_of_def task_of_def task_runs.abs_get hm_values_in_iff own_key_def)
qed

lemma step_ids_of_iff:
  assumes "file_inv f" "keyed_view (abs_file f)"
  shows "i \<in> set (step_ids_of f (task_ids_of f sid)) \<longleftrightarrow> step_of (abs_file f) sid i"
proof -
  have "own_key ts_step_id (hm_get (tf_task_steps f))" "hm_inv (tf_task_steps f)"
    using task_steps.keyed_get [OF assms(2)] assms(1) by (simp_all add: task_steps.abs_get file_inv_def)
  then show ?thesis
    by (auto simp: step_ids_of_def step_of_def task_steps.abs_get hm_values_in_iff own_key_def
        task_ids_of_iff [OF assms])
qed

lemma names_any_iff: "names_any ids x \<longleftrightarrow> (\<exists>i. x = Some i \<and> i \<in> set ids)"
  by (simp add: names_any_def split: option.split)

lemma drop_session_view:
  assumes inv: "file_inv f" and key: "keyed_view (abs_file f)"
  shows "abs_file (drop_session sid f) = session_deleted sid (abs_file f)"
proof -
  note ids = task_ids_of_iff [OF assms] step_ids_of_iff [OF assms]
  let ?T = "task_ids_of f sid" and ?S = "step_ids_of f (task_ids_of f sid)"
  have "hm_get (hm_retain (\<lambda>t _. t \<notin> set ?T) (tf_task_runs f)) =
      (\<lambda>t. opt_filter (\<lambda>r. tr_session_id r \<noteq> sid) (hm_get (tf_task_runs f) t))"
    using inv by (auto simp: file_inv_def hm_get_retain fun_eq_iff ids task_of_def task_runs.abs_get
        intro!: opt_filter_cong)
  moreover have "hm_get (hm_retain (\<lambda>i _. i \<notin> set ?S) (tf_task_steps f)) =
      (\<lambda>i. opt_filter (\<lambda>s. \<not> task_of (abs_file f) sid (ts_task_id s)) (hm_get (tf_task_steps f) i))"
    using inv by (auto simp: file_inv_def hm_get_retain fun_eq_iff ids step_of_def task_steps.abs_get
        intro!: opt_filter_cong)
  moreover have "hm_get (hm_retain (\<lambda>_ a. ar_task_id a \<notin> set ?T) (tf_artifacts f)) =
      (\<lambda>i. opt_filter (\<lambda>a. \<not> task_of (abs_file f) sid (ar_task_id a)) (hm_get (tf_artifacts f) i))"
    using inv by (simp add: file_inv_def hm_get_retain fun_eq_iff ids)
  moreover have "hm_get (hm_retain (\<lambda>_ e. ev_source_id e \<notin> set ?T \<and> ev_source_id e \<notin> set ?S \<and>
          \<not> names_any (?T @ ?S) (ev_correlation_id e) \<and> \<not> names_any (?T @ ?S) (ev_causation_id e)) (tf_events f)) =
      (\<lambda>i. opt_filter (\<lambda>e. \<forall>x. refers_to e x \<longrightarrow> \<not> task_of (abs_file f) sid x \<and> \<not> step_of (abs_file f) sid x)
        (hm_get (tf_events f) i))"
    using inv by (auto simp: file_inv_def hm_get_retain fun_eq_iff ids names_any_iff refers_to_def
        intro!: opt_filter_cong)
  ultimately show ?thesis
    by (simp add: drop_session_def Let_def abs_file_def session_deleted_def hm_get_funs)
qed

text \<open>The outcome of a deletion on a readable file.\<close>

lemma delete_session_outcome:
  assumes "load_file env d = Ok f" "\<not> blank sid"
  shows "delete_session_with_tasks env sid d =
    (if hm_get (tf_sessions f) sid = None then (Ok False, d) else save_returning env (drop_session sid f) True d)"
  using assms by (simp add: delete_session_with_tasks_def with_file_def returning_def)

lemma delete_session_reload:
  assumes "env_ok dec env" "se_read_error env = None" "disk_keyed dec d" "load_file env d = Ok f"
    "delete_session_with_tasks env sid d = (Ok True, d')"
  shows "\<exists>f'. load_file env d' = Ok f' \<and> abs_file f' = session_deleted sid (abs_file f) \<and> vw_sessions (abs_file f) sid \<noteq> None"
proof -
  have law: "codec_law env" using assms(1) by (simp add: env_ok_def)
  have f: "file_inv f" "keyed_view (abs_file f)" using load_keyed [OF assms(1,3,4)] by simp_all
  then have F: "file_inv (drop_session sid f)" "abs_file (drop_session sid f) = session_deleted sid (abs_file f)"
    using drop_session_ok [of f sid] by (simp_all add: ok_change_def drop_session_view)
  have "\<not> blank sid" using assms(5) by (auto simp: delete_session_with_tasks_def returning_def)
  then have "save_file env (drop_session sid f) d = (Ok (), d')" "hm_get (tf_sessions f) sid \<noteq> None"
    using assms(5) delete_session_outcome [OF assms(4)] by (auto simp: save_returning_Ok_iff split: if_splits)
  then show ?thesis
    using save_file_reload [OF law assms(2) F(1)] F(2) by (auto simp: sessions.abs_get)
qed

text \<open>
  C22. Deleting a session is a cascade, and nothing else. When the deletion reports success on a file that the store
  wrote, the session existed and the next load has exactly this view: the session is gone; its task runs, their
  steps and artifacts, and the events that refer to one of these runs or steps are gone; every other entry is as
  before. In particular the approval tickets of the deleted tasks remain, pending ones included.
\<close>

theorem session_deletion_cascades:
  assumes "env_ok dec env" "se_read_error env = None" "(store_step dec)\<^sup>*\<^sup>* None d" "load_file env d = Ok f"
    "delete_session_with_tasks env sid d = (Ok True, d')"
  shows "\<exists>f'. load_file env d' = Ok f' \<and> abs_file f' = session_deleted sid (abs_file f) \<and>
    vw_sessions (abs_file f) sid \<noteq> None \<and> vw_approvals (abs_file f') = vw_approvals (abs_file f) \<and>
    vw_conversations (abs_file f') = vw_conversations (abs_file f)"
proof -
  have "disk_keyed dec d" using assms(3) by (rule store.inv_steps) (simp add: disk_keyed_def)
  from delete_session_reload [OF assms(1,2) this assms(4,5)] show ?thesis
    by (auto simp: session_deleted_def)
qed

section \<open>Listings\<close>

lemma values_keys: "hm_inv m \<Longrightarrow> own_key key (hm_get m) \<Longrightarrow> map key (hm_values m) = map fst m"
  by (auto simp: hm_values_def own_key_def hm_get_eq_Some_iff)

lemma values_distinct:
  assumes "hm_inv m" "own_key key (hm_get m)"
  shows "distinct (hm_values m) \<and> inj_on key (set (hm_values m))"
  using values_keys [OF assms] assms(1) by (simp add: hm_inv_def flip: distinct_map)

lemma max_option_set: "max_option xs = (if xs = [] then None else Some (Max (set xs)))"
proof (cases xs)
  case (Cons y ys)
  show ?thesis by (simp only: Cons max_option.simps Max.set_eq_fold list.distinct if_False)
qed simp

text \<open>The entries of two tables with the same keys and values are listed alike once sorted by a key that holds the id.\<close>

lemma listing_canonical:
  assumes m: "hm_inv m" "hm_inv m'" "hm_get m = hm_get m'" "own_key key (hm_get m)"
    and k: "\<forall>x y. k x = k y \<longrightarrow> key x = key y"
  shows "sort_by (ascending k) (filter p (hm_values m)) = sort_by (ascending k) (filter p (hm_values m'))"
    "sort_by (descending k) (filter p (hm_values m)) = sort_by (descending k) (filter p (hm_values m'))"
proof -
  have d: "distinct (hm_values m)" "inj_on key (set (hm_values m))" "distinct (hm_values m')"
    using values_distinct [of m key] values_distinct [of m' key] m by simp_all
  have eq: "set (hm_values m) = set (hm_values m')"
    using m(1-3) by (auto simp: hm_values_in_iff)
  have "inj_on k (set (filter p (hm_values m)))"
  proof (rule inj_onI)
    fix x y assume xy: "x \<in> set (filter p (hm_values m))" "y \<in> set (filter p (hm_values m))" and "k x = k y"
    then have "key x = key y" using k by blast
    then show "x = y" using inj_onD [OF d(2)] xy by simp
  qed
  then show "sort_by (ascending k) (filter p (hm_values m)) = sort_by (ascending k) (filter p (hm_values m'))"
    "sort_by (descending k) (filter p (hm_values m)) = sort_by (descending k) (filter p (hm_values m'))"
    using d eq by (auto intro!: sort_by_canonical)
qed

lemma latest_start_view:
  assumes "file_inv f" "file_inv f'" "abs_file f = abs_file f'"
  shows "latest_start f sid = latest_start f' sid"
proof -
  have "set (hm_values (tf_task_runs f)) = set (hm_values (tf_task_runs f'))"
    using assms task_runs.abs_get [of f] task_runs.abs_get [of f']
    by (auto simp: hm_values_in_iff file_inv_def)
  then have s: "set (List.map_filter tr_started_at (filter (\<lambda>r. tr_session_id r = sid) (hm_values (tf_task_runs f)))) =
      set (List.map_filter tr_started_at (filter (\<lambda>r. tr_session_id r = sid) (hm_values (tf_task_runs f'))))"
    by (simp add: map_filter_def)
  then show ?thesis
    unfolding latest_start_def max_option_set by (metis set_empty)
qed

text \<open>
  A listing is a function of what is stored. For two loads that return the same entries, walked in whatever order,
  the listings of sessions, runs, steps, media assets, media sessions, share links, artifacts, approvals and events
  are the same lists: the ids break every tie of the timestamps.
\<close>

theorem listings_do_not_depend_on_hash_order:
  assumes "file_inv f" "file_inv f'" "abs_file f = abs_file f'" "keyed_view (abs_file f)"
    "load_file env d = Ok f" "load_file env' d' = Ok f'"
  shows "fst (sessions_for_user_surface env u s d) = fst (sessions_for_user_surface env' u s d') \<and>
    fst (recent_task_runs_for_session env i n d) = fst (recent_task_runs_for_session env' i n d') \<and>
    fst (recent_task_steps env n d) = fst (recent_task_steps env' n d') \<and>
    fst (list_media_assets env d) = fst (list_media_assets env' d') \<and>
    fst (list_media_sessions env d) = fst (list_media_sessions env' d') \<and>
    fst (list_share_links env d) = fst (list_share_links env' d') \<and>
    fst (artifacts_for_task env i d) = fst (artifacts_for_task env' i d') \<and>
    fst (approvals_for_task env i d) = fst (approvals_for_task env' i d') \<and>
    fst (pending_approvals env d) = fst (pending_approvals env' d') \<and>
    fst (events_for_task env i d) = fst (events_for_task env' i d') \<and>
    fst (recent_events env n d) = fst (recent_events env' n d')"
proof -
  have get: "hm_get (tf_sessions f) = hm_get (tf_sessions f')" "hm_get (tf_task_runs f) = hm_get (tf_task_runs f')"
    "hm_get (tf_task_steps f) = hm_get (tf_task_steps f')" "hm_get (tf_media_assets f) = hm_get (tf_media_assets f')"
    "hm_get (tf_media_sessions f) = hm_get (tf_media_sessions f')" "hm_get (tf_share_links f) = hm_get (tf_share_links f')"
    "hm_get (tf_artifacts f) = hm_get (tf_artifacts f')" "hm_get (tf_approvals f) = hm_get (tf_approvals f')"
    "hm_get (tf_events f) = hm_get (tf_events f')"
    using assms(3) by (simp_all add: abs_file_def)
  have keys: "own_key cs_session_id (hm_get (tf_sessions f))" "own_key tr_task_id (hm_get (tf_task_runs f))"
    "own_key ts_step_id (hm_get (tf_task_steps f))" "own_key ma_asset_id (hm_get (tf_media_assets f))"
    "own_key ms_media_session_id (hm_get (tf_media_sessions f))" "own_key sh_share_link_id (hm_get (tf_share_links f))"
    "own_key ar_artifact_id (hm_get (tf_artifacts f))" "own_key at_approval_id (hm_get (tf_approvals f))"
    "own_key ev_event_id (hm_get (tf_events f))"
    using assms(4) by (simp_all add: keyed_view_def abs_file_def)
  have inv: "hm_inv (tf_sessions f)" "hm_inv (tf_task_runs f)" "hm_inv (tf_task_steps f)" "hm_inv (tf_media_assets f)"
    "hm_inv (tf_media_sessions f)" "hm_inv (tf_share_links f)" "hm_inv (tf_artifacts f)" "hm_inv (tf_approvals f)"
    "hm_inv (tf_events f)" "hm_inv (tf_sessions f')" "hm_inv (tf_task_runs f')" "hm_inv (tf_task_steps f')"
    "hm_inv (tf_media_assets f')" "hm_inv (tf_media_sessions f')" "hm_inv (tf_share_links f')"
    "hm_inv (tf_artifacts f')" "hm_inv (tf_approvals f')" "hm_inv (tf_events f')"
    using assms(1,2) by (simp_all add: file_inv_def)
  note c = listing_canonical [OF inv(1,10) get(1) keys(1)] listing_canonical [OF inv(2,11) get(2) keys(2)]
    listing_canonical [OF inv(3,12) get(3) keys(3), where p = "\<lambda>_. True", simplified]
    listing_canonical [OF inv(4,13) get(4) keys(4), where p = "\<lambda>_. True", simplified]
    listing_canonical [OF inv(5,14) get(5) keys(5), where p = "\<lambda>_. True", simplified]
    listing_canonical [OF inv(6,15) get(6) keys(6), where p = "\<lambda>_. True", simplified]
    listing_canonical [OF inv(7,16) get(7) keys(7)] listing_canonical [OF inv(8,17) get(8) keys(8)]
    listing_canonical [OF inv(9,18) get(9) keys(9)]
    listing_canonical [OF inv(9,18) get(9) keys(9), where p = "\<lambda>_. True", simplified]
  show ?thesis
    by (intro conjI; simp add: sessions_for_user_surface_def recent_task_runs_for_session_def recent_task_steps_def
        list_media_assets_def list_media_sessions_def list_share_links_def artifacts_for_task_def approvals_for_task_def
        pending_approvals_def events_for_task_def recent_events_def with_file_ok [OF assms(5)] with_file_ok [OF assms(6)]
        returning_def latest_start_view [OF assms(1-3)] c)
qed

section \<open>Pruning\<close>

lemma session_deleted_sessions [simp]: "vw_sessions (session_deleted sid v) = (vw_sessions v)(sid := None)"
  by (simp add: session_deleted_def)

lemma fold_session_deleted_sessions:
  "vw_sessions (fold session_deleted ids v) i = (if i \<in> set ids then None else vw_sessions v i)"
  by (induction ids arbitrary: v) auto

lemma prune_loop_reload:
  assumes "env_ok dec env" "se_read_error env = None"
  shows "disk_keyed dec d \<Longrightarrow> load_file env d = Ok f \<Longrightarrow> distinct (map cs_session_id ss) \<Longrightarrow>
    \<forall>s \<in> set ss. vw_sessions (abs_file f) (cs_session_id s) \<noteq> None \<Longrightarrow>
    prune_loop env ss removed d = (Ok result, d') \<Longrightarrow>
    result = removed @ map cs_session_id ss \<and>
    (\<exists>f'. load_file env d' = Ok f' \<and> abs_file f' = fold session_deleted (map cs_session_id ss) (abs_file f))"
proof (induction ss arbitrary: d f removed)
  case (Cons s ss)
  let ?sid = "cs_session_id s"
  obtain r d1 where del: "delete_session_with_tasks env ?sid d = (r, d1)" by fastforce
  have "keyed_view (abs_file f)" using load_keyed [OF assms(1) Cons.prems(1,2)] by simp
  then have "\<not> blank ?sid"
    using Cons.prems(4) by (auto simp: keyed_view_def own_key_def)
  moreover have "hm_get (tf_sessions f) ?sid \<noteq> None"
    using Cons.prems(4) by (simp add: sessions.abs_get)
  ultimately have r: "r = Ok True"
    using del delete_session_outcome [OF Cons.prems(2)] Cons.prems(5)
    by (cases r) (auto simp: save_returning_def split: prod.splits sum.splits)
  have keyed: "disk_keyed dec d1"
    using one_write_keyed [OF assms(1) Cons.prems(1) one_write_delete del] .
  obtain f1 where f1: "load_file env d1 = Ok f1" "abs_file f1 = session_deleted ?sid (abs_file f)"
    using delete_session_reload [OF assms Cons.prems(1,2)] del r by blast
  have "prune_loop env ss (removed @ [?sid]) d1 = (Ok result, d')"
    using Cons.prems(5) del r by simp
  moreover have "\<forall>s \<in> set ss. vw_sessions (abs_file f1) (cs_session_id s) \<noteq> None"
    using Cons.prems(3,4) f1(2) by (fastforce simp: image_iff)
  ultimately show ?case
    using Cons.IH [OF keyed f1(1), of "removed @ [?sid]"] Cons.prems(3) f1(2) by simp
qed simp

lemma surface_listing:
  assumes "file_inv f" "keyed_view (abs_file f)" "load_file env d = Ok f"
    "sessions_for_user_surface env u surface d = (Ok L, d1)"
  shows "d1 = d \<and> distinct (map cs_session_id L) \<and>
    sorted_wrt (descending (\<lambda>s. (latest_start f (cs_session_id s), cs_session_id s))) L \<and>
    set L = {s. vw_sessions (abs_file f) (cs_session_id s) = Some s \<and> cs_user_id s = u \<and> cs_surface s = surface}"
proof -
  let ?k = "\<lambda>s. (latest_start f (cs_session_id s), cs_session_id s)"
  let ?xs = "filter (\<lambda>s. cs_user_id s = u \<and> cs_surface s = surface) (hm_values (tf_sessions f))"
  have L: "L = sort_by (descending ?k) ?xs" "d1 = d"
    using assms(4) by (simp_all add: sessions_for_user_surface_def with_file_ok [OF assms(3)] returning_def)
  have m: "hm_inv (tf_sessions f)" "own_key cs_session_id (hm_get (tf_sessions f))"
    using assms(1,2) sessions.keyed_get [of f] by (simp_all add: file_inv_def sessions.abs_get)
  note vd = values_distinct [OF m]
  have "distinct (map cs_session_id L)"
    using vd by (auto simp: L(1) distinct_map inj_on_def)
  moreover have "set L = {s. vw_sessions (abs_file f) (cs_session_id s) = Some s \<and> cs_user_id s = u \<and> cs_surface s = surface}"
    using m by (auto simp: L(1) sessions.abs_get hm_values_in_iff own_key_def)
  ultimately show ?thesis
    using L(2) sorted_sort_by_key(2) [of ?k ?xs] by (simp add: L(1))
qed

lemma in_take_or_drop: "distinct (map key xs) \<Longrightarrow> x \<in> set xs \<Longrightarrow> x \<in> set (take n xs) \<longleftrightarrow> key x \<notin> key ` set (drop n xs)"
proof -
  assume d: "distinct (map key xs)" and x: "x \<in> set xs"
  have "distinct (map key (take n xs) @ map key (drop n xs))"
    using d by (metis append_take_drop_id map_append)
  moreover have "x \<in> set (take n xs) \<or> x \<in> set (drop n xs)"
    using x by (metis append_take_drop_id in_set_conv_decomp set_append Un_iff)
  ultimately show ?thesis by auto
qed

text \<open>
  Pruning keeps the most recent sessions. When pruning a user's sessions on a surface succeeds, at least one and at
  most \<open>max limit 1\<close> (if there are any) of them remain, namely the first of the listing; the ids returned are those
  of the others, each deleted with its cascade; and no removed session is more recent than a remaining one, the
  session id breaking ties.
\<close>

theorem pruning_keeps_most_recent:
  assumes "env_ok dec env" "se_read_error env = None" "(store_step dec)\<^sup>*\<^sup>* None d" "load_file env d = Ok f"
    "sessions_for_user_surface env u surface d = (Ok L, d)"
    "prune_sessions_for_user_surface env u surface limit d = (Ok removed, d')"
  shows "removed = map cs_session_id (drop (max limit 1) L) \<and>
    (\<exists>f'. load_file env d' = Ok f' \<and> abs_file f' = fold session_deleted removed (abs_file f) \<and>
      {s. vw_sessions (abs_file f') (cs_session_id s) = Some s \<and> cs_user_id s = u \<and> cs_surface s = surface}
        = set (take (max limit 1) L)) \<and>
    (\<forall>kept \<in> set (take (max limit 1) L). \<forall>gone \<in> set (drop (max limit 1) L).
      (latest_start f (cs_session_id gone), cs_session_id gone) \<le> (latest_start f (cs_session_id kept), cs_session_id kept))"
proof -
  let ?n = "max limit 1"
  have keyed: "disk_keyed dec d" using assms(3) by (rule store.inv_steps) (simp add: disk_keyed_def)
  then have f: "file_inv f" "keyed_view (abs_file f)" using load_keyed [OF assms(1) _ assms(4)] by blast+
  note L = surface_listing [OF f assms(4,5)]
  have loop: "prune_loop env (drop ?n L) [] d = (Ok removed, d')"
    using assms(5,6) by (simp add: prune_sessions_for_user_surface_def)
  have "distinct (map cs_session_id (drop ?n L))" using L by (simp flip: drop_map)
  moreover have "\<forall>s \<in> set (drop ?n L). vw_sessions (abs_file f) (cs_session_id s) \<noteq> None"
    using L set_drop_subset [of ?n L] by auto
  ultimately obtain f' where res: "removed = map cs_session_id (drop ?n L)" "load_file env d' = Ok f'"
    "abs_file f' = fold session_deleted removed (abs_file f)"
    using prune_loop_reload [OF assms(1,2) keyed assms(4) _ _ loop] by auto
  have "{s. vw_sessions (abs_file f') (cs_session_id s) = Some s \<and> cs_user_id s = u \<and> cs_surface s = surface}
      = {s \<in> set L. cs_session_id s \<notin> cs_session_id ` set (drop ?n L)}"
    using L by (auto simp: res(1,3) fold_session_deleted_sessions split: if_splits)
  also have "\<dots> = set (take ?n L)"
    using L in_take_or_drop [of cs_session_id L _ ?n] set_take_subset [of ?n L] by blast
  finally show ?thesis
    using res L sorted_wrt_take_drop [of _ L _ ?n] unfolding descending_def by blast
qed

section \<open>Approvals\<close>

text \<open>
  Approving a task resolves its pending tickets and no others. When it succeeds on a readable file, the next load has
  the same entries except that each ticket of the task that was pending is approved, with the approver and the
  time that were given; tickets of other tasks and tickets already decided are untouched, the task has no pending
  ticket left, and the returned tickets are the ones that changed, as they are now stored.
\<close>

theorem resolving_approvals_is_exact:
  assumes "codec_law env" "se_read_error env = None" "load_file env d = Ok f"
    "resolve_pending_approvals env task_id approver at_time d = (Ok updated, d')"
  shows "(\<exists>f'. load_file env d' = Ok f' \<and>
      abs_file f' = abs_file f\<lparr>vw_approvals := (\<lambda>i. map_option (\<lambda>a. if at_task_id a = task_id \<and> at_status a = ApPending
        then decided ApApproved approver at_time a else a) (vw_approvals (abs_file f) i))\<rparr> \<and>
      (\<forall>i a. vw_approvals (abs_file f') i = Some a \<longrightarrow> \<not> (at_task_id a = task_id \<and> at_status a = ApPending))) \<and>
    set updated = {decided ApApproved approver at_time a |a. \<exists>i. vw_approvals (abs_file f) i = Some a \<and>
        at_task_id a = task_id \<and> at_status a = ApPending}"
proof -
  let ?g = "decided ApApproved approver at_time"
  let ?F = "f\<lparr>tf_approvals := map (\<lambda>e. if pending_for task_id (snd e) then (fst e, ?g (snd e)) else e) (tf_approvals f)\<rparr>"
  have inv: "file_inv f" using assms(1,3) by (rule load_file_inv)
  have F: "file_inv ?F" using inv by (simp add: file_inv_def)
  have save: "save_file env ?F d = (Ok (), d')"
    and upd: "updated = map ?g (filter (pending_for task_id) (hm_values (tf_approvals f)))"
    using assms(4) by (simp_all add: resolve_pending_approvals_def with_file_ok [OF assms(3)] Let_def save_returning_Ok_iff)
  obtain f' where f': "load_file env d' = Ok f'" "abs_file f' = abs_file ?F"
    using save_file_reload [OF assms(1,2) F save] by blast
  have view: "abs_file ?F = abs_file f\<lparr>vw_approvals := (\<lambda>i. map_option (\<lambda>a. if at_task_id a = task_id \<and> at_status a = ApPending
        then ?g a else a) (vw_approvals (abs_file f) i))\<rparr>"
    by (simp add: abs_file_def fun_eq_iff hm_get_map_values) (simp add: pending_for_def)
  moreover have "at_status (?g a) = ApApproved" for a by (simp add: decided_def Let_def)
  ultimately have pend: "\<forall>i a. vw_approvals (abs_file f') i = Some a \<longrightarrow> \<not> (at_task_id a = task_id \<and> at_status a = ApPending)"
    using f'(2) by (auto split: if_splits) (metis approval_status.distinct(1))
  have upds: "set updated = {?g a |a. \<exists>i. vw_approvals (abs_file f) i = Some a \<and> at_task_id a = task_id \<and> at_status a = ApPending}"
    using inv by (auto simp: upd approvals.abs_get hm_values_in_iff file_inv_def pending_for_def)
  show ?thesis
    by (intro conjI exI [of _ f'] f'(1) trans [OF f'(2) view] pend upds)
qed

section \<open>The conversation stored with a session\<close>

lemma save_for_session_stored:
  assumes "load_file env d = Ok f" "save_for_session env ses s d = (Ok (), d')"
  shows "\<exists>v. session_state_value_from_conversation (se_codec env) s (Some ses) = Ok v \<and>
    save_file env (f\<lparr>tf_sessions := hm_insert (cs_session_id ses) (ses\<lparr>cs_state := v\<rparr>) (tf_sessions f),
      tf_conversations := hm_insert (tc_key s) (normalize_task_conversation_state (se_codec env) s) (tf_conversations f)\<rparr>) d
      = (Ok (), d')"
proof -
  let ?cc = "se_codec env"
  have env: "envelope_from_conversation_state ?cc (normalize_task_conversation_state ?cc s) (Some ses)
      = envelope_from_conversation_state ?cc s (Some ses)"
    by (simp add: envelope_from_conversation_state_def)
  obtain e where e: "envelope_from_conversation_state ?cc s (Some ses) = Ok e"
    using assms(2) by (cases "envelope_from_conversation_state ?cc s (Some ses)")
      (auto simp: save_for_session_def with_file_ok [OF assms(1)] failing_def persisted_task_conversation_state_def env
        split: if_splits)
  obtain v where v: "cc_envelope_to ?cc e = Ok v"
    using assms(2) e by (cases "cc_envelope_to ?cc e")
      (auto simp: save_for_session_def with_file_ok [OF assms(1)] failing_def persisted_task_conversation_state_def env
        split: if_splits)
  show ?thesis
    using assms(2) e v
    by (intro exI [of _ v]) (auto simp: save_for_session_def with_file_ok [OF assms(1)] failing_def
        persisted_task_conversation_state_def env session_state_value_from_conversation_def split: if_splits)
qed

text \<open>
  C37. A conversation saved with its session is loaded back. For a key without surrounding space, when
  \<^verbatim>\<open>save_for_session\<close> succeeds, loading the session with that key as hint gives the migrated state with its key,
  although the key may have been left out of the stored envelope; and the conversation table has it too.
\<close>

theorem session_conversation_round_trip:
  assumes "codec_law env" "se_read_error env = None" "load_file env d = Ok f"
    and "save_for_session env ses s d = (Ok (), d')"
    and "trim (tc_key s) = tc_key s" "tc_key s \<noteq> []"
    and "state_codec_ok (se_codec env) (normalize_task_conversation_state (se_codec env) s)"
    and "\<forall>e. envelope_from_conversation_state (se_codec env) s (Some ses) = Ok e \<longrightarrow> envelope_codec_ok (se_codec env) e"
  shows "load_for_session env (cs_session_id ses) (Some (tc_key s)) d'
      = (Ok (Some (normalize_task_conversation_state (se_codec env) s)), d') \<and>
    store_load env (tc_key s) d' = (Ok (normalize_task_conversation_state (se_codec env) s), d')"
proof -
  let ?cc = "se_codec env" and ?n = "normalize_task_conversation_state (se_codec env) s"
  obtain v where v: "session_state_value_from_conversation ?cc s (Some ses) = Ok v"
    and save: "save_file env (f\<lparr>tf_sessions := hm_insert (cs_session_id ses) (ses\<lparr>cs_state := v\<rparr>) (tf_sessions f),
      tf_conversations := hm_insert (tc_key s) ?n (tf_conversations f)\<rparr>) d = (Ok (), d')"
    using save_for_session_stored [OF assms(3,4)] by blast
  have "file_inv f" using assms(1,3) by (rule load_file_inv)
  then have F: "file_inv (f\<lparr>tf_sessions := hm_insert (cs_session_id ses) (ses\<lparr>cs_state := v\<rparr>) (tf_sessions f),
      tf_conversations := hm_insert (tc_key s) ?n (tf_conversations f)\<rparr>)" by (simp add: file_inv_def)
  obtain f' where f': "load_file env d' = Ok f'"
    "hm_get (tf_sessions f') (cs_session_id ses) = Some (ses\<lparr>cs_state := v\<rparr>)"
    "hm_get (tf_conversations f') (tc_key s) = Some ?n"
    using save_file_reload [OF assms(1,2) F save] by (auto simp: abs_file_def hm_get_funs)
  show ?thesis
    using session_state_round_trip [OF v assms(7,8,5,6)] f'(2,3)
    by (simp add: load_for_session_def store_load_def with_file_ok [OF f'(1)] returning_def)
qed

section \<open>A concrete store\<close>

text \<open>
  Two sessions of one user, in both orders, and an environment whose conversions are exact on the empty file and on
  the files with one or both sessions; encoding any other file fails.
\<close>

definition demo_session2 :: conversation_session where
  "demo_session2 = demo_session\<lparr>cs_session_id := ''s2''\<rparr>"

definition file_one :: task_conversation_file where
  "file_one = empty_file\<lparr>tf_sessions := [(''s1'', demo_session)]\<rparr>"

definition file_two :: task_conversation_file where
  "file_two = empty_file\<lparr>tf_sessions := [(''s1'', demo_session), (''s2'', demo_session2)]\<rparr>"

definition file_two_swapped :: task_conversation_file where
  "file_two_swapped = empty_file\<lparr>tf_sessions := [(''s2'', demo_session2), (''s1'', demo_session)]\<rparr>"

definition file_keep :: task_conversation_file where
  "file_keep = empty_file\<lparr>tf_sessions := [(''s2'', demo_session2)]\<rparr>"

definition demo_decode :: "string \<Rightarrow> string + task_conversation_file" where
  "demo_decode t = (if t = ''0'' then Ok empty_file else if t = ''1'' then Ok file_one
     else if t = ''2'' then Ok file_two else if t = ''3'' then Ok file_keep else Err ''not a task file'')"

definition demo_encode :: "task_conversation_file \<Rightarrow> string + string" where
  "demo_encode f = (if f = empty_file then Ok ''0'' else if f = file_one then Ok ''1''
     else if f = file_two then Ok ''2'' else if f = file_keep then Ok ''3'' else Err ''too large'')"

definition demo_env :: store_env where
  "demo_env = \<lparr>se_codec = demo_codec, se_read_error = None, se_decode = demo_decode, se_mkdir_error = None,
     se_encode = demo_encode, se_write_error = (\<lambda>_ _. None)\<rparr>"

lemmas demo_files = file_one_def file_two_def file_two_swapped_def file_keep_def empty_file_def

lemma demo_files_inv: "file_inv file_one" "file_inv file_two" "file_inv file_two_swapped" "file_inv file_keep"
  by (simp_all add: demo_files file_inv_def hm_inv_def)

lemma demo_env_ok: "env_ok demo_decode demo_env" "codec_law demo_env" "se_read_error demo_env = None"
proof -
  have "demo_decode t = Ok f \<Longrightarrow> file_inv f" for t f
    by (auto simp: demo_decode_def demo_files_inv split: if_splits)
  moreover have "demo_encode f = Ok t \<Longrightarrow> demo_decode t = Ok f" for t f
    by (auto simp: demo_decode_def demo_encode_def split: if_splits)
  ultimately show "env_ok demo_decode demo_env" "codec_law demo_env" "se_read_error demo_env = None"
    by (auto simp: env_ok_def codec_law_def write_law_def demo_env_def)
qed

lemma demo_ids: "\<not> blank ''s1''" "\<not> blank ''s2''"
  by code_simp+

lemma demo_session_ids [simp]: "cs_session_id demo_session = ''s1''" "cs_session_id demo_session2 = ''s2''"
  by (simp_all add: demo_session_def demo_session2_def)

lemma demo_load:
  "load_file demo_env None = Ok empty_file" "load_file demo_env (Some ''1'') = Ok file_one"
  "load_file demo_env (Some ''2'') = Ok file_two"
  by (simp_all add: load_file_def demo_env_def demo_decode_def)

lemma demo_encodes: "demo_encode empty_file = Ok ''0''" "demo_encode file_one = Ok ''1''" "demo_encode file_two = Ok ''2''"
  "demo_encode file_keep = Ok ''3''"
  by (simp_all add: demo_encode_def demo_files)

lemma demo_save_file: "demo_encode f = Ok t \<Longrightarrow> save_file demo_env f d = (Ok (), Some t)"
  by (simp add: save_file_def demo_env_def)

lemma demo_saves:
  "save_session demo_env demo_session None = (Ok (), Some ''1'')"
  "save_session demo_env demo_session2 (Some ''1'') = (Ok (), Some ''2'')"
proof -
  have "empty_file\<lparr>tf_sessions := hm_insert ''s1'' demo_session (tf_sessions empty_file)\<rparr> = file_one"
    "file_one\<lparr>tf_sessions := hm_insert ''s2'' demo_session2 (tf_sessions file_one)\<rparr> = file_two"
    by (simp_all add: demo_files)
  then show "save_session demo_env demo_session None = (Ok (), Some ''1'')"
    "save_session demo_env demo_session2 (Some ''1'') = (Ok (), Some ''2'')"
    by (simp_all add: save_session_def demo_ids with_file_ok [OF demo_load(1)] with_file_ok [OF demo_load(2)]
        demo_save_file demo_encodes)
qed

lemma demo_reach: "(store_step demo_decode)\<^sup>*\<^sup>* None (Some ''1'')" "(store_step demo_decode)\<^sup>*\<^sup>* None (Some ''2'')"
proof -
  have 1: "store_step demo_decode None (Some ''1'')"
    by (rule store_step.call [OF demo_env_ok(1), of "SaveSession demo_session"]) (simp add: outcome_def demo_saves)
  have 2: "store_step demo_decode (Some ''1'') (Some ''2'')"
    by (rule store_step.call [OF demo_env_ok(1), of "SaveSession demo_session2"]) (simp add: outcome_def demo_saves)
  show "(store_step demo_decode)\<^sup>*\<^sup>* None (Some ''1'')" using 1 by blast
  then show "(store_step demo_decode)\<^sup>*\<^sup>* None (Some ''2'')" using 2 by (rule rtranclp.rtrancl_into_rtrancl)
qed

lemma demo_drop: "drop_session ''s1'' file_one = empty_file" "drop_session ''s1'' file_two = file_keep"
  by (simp_all add: drop_session_def demo_files task_ids_of_def step_ids_of_def hm_values_def hm_retain_def hm_remove_def)

lemma demo_delete:
  "delete_session_with_tasks demo_env ''s1'' (Some ''1'') = (Ok True, Some ''0'')"
  "delete_session_with_tasks demo_env ''s1'' (Some ''2'') = (Ok True, Some ''3'')"
  by (simp_all add: delete_session_outcome [OF demo_load(2) demo_ids(1)] delete_session_outcome [OF demo_load(3) demo_ids(1)]
      demo_drop save_returning_def demo_save_file demo_encodes)
    (simp_all add: demo_files hm_get_def)

lemma demo_keyed: "keyed_view (abs_file file_two)"
  using demo_ids by (auto simp: keyed_view_def abs_file_def demo_files own_key_def hm_get_def split: if_splits)

lemma demo_listing:
  "sessions_for_user_surface demo_env ''alice'' ''chat'' (Some ''2'') = (Ok [demo_session2, demo_session], Some ''2'')"
proof -
  have "latest_start file_two i = None" for i
    by (simp add: latest_start_def demo_files hm_values_def map_filter_simps)
  moreover have "hm_values (tf_sessions file_two) = [demo_session, demo_session2]"
    by (simp add: demo_files hm_values_def)
  ultimately show ?thesis
    by (simp add: sessions_for_user_surface_def with_file_ok [OF demo_load(3)] returning_def sort_by_def descending_def
        less_eq_prod_def)
      (simp add: demo_session_def demo_session2_def)
qed

text \<open>An environment that handles two given files.\<close>

definition two_env :: "task_conversation_file \<Rightarrow> task_conversation_file \<Rightarrow> store_env" where
  "two_env A B = demo_env\<lparr>se_decode := (\<lambda>t. if t = ''a'' then Ok A else if t = ''b'' then Ok B else Err []),
     se_encode := (\<lambda>f. if f = A then Ok ''a'' else if f = B then Ok ''b'' else Err [])\<rparr>"

lemma two_env_ok: "file_inv A \<Longrightarrow> file_inv B \<Longrightarrow> codec_law (two_env A B)" "se_read_error (two_env A B) = None"
  "load_file (two_env A B) (Some ''a'') = Ok A" "A \<noteq> B \<Longrightarrow> save_file (two_env A B) B d = (Ok (), Some ''b'')"
  "se_codec (two_env A B) = demo_codec"
  by (auto simp: codec_law_def two_env_def demo_env_def load_file_def save_file_def split: if_splits)

definition demo_ticket :: "string \<Rightarrow> approval_ticket" where
  "demo_ticket i = \<lparr>at_approval_id = i, at_task_id = ''t1'', at_trace_id = [], at_route_key = [], at_policy_ref = ''p'',
     at_requester_user_id = ''alice'', at_approver_user_id = None, at_status = ApPending, at_reason = [],
     at_requested_at = None, at_decided_at = None\<rparr>"

definition other_ticket :: approval_ticket where
  "other_ticket = (demo_ticket ''a2'')\<lparr>at_task_id := ''t2''\<rparr>"

definition tickets_before :: task_conversation_file where
  "tickets_before = empty_file\<lparr>tf_approvals := [(''a1'', demo_ticket ''a1''), (''a2'', other_ticket)]\<rparr>"

definition tickets_after :: task_conversation_file where
  "tickets_after = empty_file\<lparr>tf_approvals :=
     [(''a1'', decided ApApproved (Some ''bob'') None (demo_ticket ''a1'')), (''a2'', other_ticket)]\<rparr>"

lemma tickets_facts: "file_inv tickets_before" "file_inv tickets_after" "tickets_before \<noteq> tickets_after"
  by (simp_all add: tickets_before_def tickets_after_def empty_file_def file_inv_def hm_inv_def demo_ticket_def decided_def)

lemma resolve_demo:
  "resolve_pending_approvals (two_env tickets_before tickets_after) ''t1'' (Some ''bob'') None (Some ''a'')
     = (Ok [decided ApApproved (Some ''bob'') None (demo_ticket ''a1'')], Some ''b'')"
proof -
  let ?env = "two_env tickets_before tickets_after"
  have load: "load_file ?env (Some ''a'') = Ok tickets_before" by (rule two_env_ok)
  have p: "pending_for ''t1'' (demo_ticket ''a1'')" "\<not> pending_for ''t1'' other_ticket"
    by (simp_all add: pending_for_def demo_ticket_def other_ticket_def)
  have "tickets_before\<lparr>tf_approvals := map (\<lambda>e. if pending_for ''t1'' (snd e)
        then (fst e, decided ApApproved (Some ''bob'') None (snd e)) else e) (tf_approvals tickets_before)\<rparr> = tickets_after"
    by (simp add: tickets_before_def tickets_after_def p)
  moreover have "filter (pending_for ''t1'') (hm_values (tf_approvals tickets_before)) = [demo_ticket ''a1'']"
    by (simp add: tickets_before_def hm_values_def p)
  ultimately show ?thesis
    by (simp add: resolve_pending_approvals_def with_file_ok [OF load] Let_def save_returning_def two_env_ok(4) tickets_facts(3))
qed

theorem resolving_approvals_is_exact_witness:
  "set [decided ApApproved (Some ''bob'') None (demo_ticket ''a1'')] = {decided ApApproved (Some ''bob'') None a |a.
     \<exists>i. vw_approvals (abs_file tickets_before) i = Some a \<and> at_task_id a = ''t1'' \<and> at_status a = ApPending}"
  using resolving_approvals_is_exact [OF two_env_ok(1) [OF tickets_facts(1,2)] two_env_ok(2,3) resolve_demo] by blast

definition stored_conversation :: task_conversation_file where
  "stored_conversation = empty_file\<lparr>tf_sessions := [(''s1'', demo_session\<lparr>cs_state := demo_value\<rparr>)],
     tf_conversations := [(''alice'', demo_conversation)]\<rparr>"

lemma stored_facts: "file_inv stored_conversation" "empty_file \<noteq> stored_conversation" "\<not> blank (tc_key demo_conversation)"
proof -
  show "file_inv stored_conversation" "empty_file \<noteq> stored_conversation"
    by (simp_all add: stored_conversation_def empty_file_def file_inv_def hm_inv_def)
  show "\<not> blank (tc_key demo_conversation)" by code_simp
qed

lemma save_for_session_demo:
  "save_for_session (two_env empty_file stored_conversation) demo_session demo_conversation (Some ''a'') = (Ok (), Some ''b'')"
proof -
  let ?env = "two_env empty_file stored_conversation"
  obtain e where e: "envelope_from_conversation_state demo_codec demo_conversation (Some demo_session) = Ok e"
    "cc_envelope_to demo_codec e = Ok demo_value"
    using session_value_OkD [OF demo_value_stored(1)] by metis
  have "empty_file\<lparr>tf_sessions := hm_insert ''s1'' (demo_session\<lparr>cs_state := demo_value\<rparr>) (tf_sessions empty_file),
      tf_conversations := hm_insert (tc_key demo_conversation) demo_conversation (tf_conversations empty_file)\<rparr> = stored_conversation"
    by (simp add: stored_conversation_def empty_file_def demo_conversation_def)
  then show ?thesis
    using e demo_value_stored(2) stored_facts demo_ids
    by (simp add: save_for_session_def with_file_ok [OF two_env_ok(3)] persisted_task_conversation_state_def Let_def
        two_env_ok(5) two_env_ok(4) [OF stored_facts(2)])
qed

theorem session_conversation_round_trip_witness:
  "load_for_session (two_env empty_file stored_conversation) (cs_session_id demo_session) (Some (tc_key demo_conversation)) (Some ''b'')
     = (Ok (Some demo_conversation), Some ''b'')"
  using session_conversation_round_trip [OF two_env_ok(1) [OF file_inv_empty stored_facts(1)] two_env_ok(2,3) save_for_session_demo]
    demo_value_stored(2,3) demo_codec_laws(5,6)
  by (simp add: two_env_ok(5)) (simp add: demo_conversation_def)

theorem session_deletion_cascades_witness:
  "\<exists>f'. load_file demo_env (Some ''0'') = Ok f' \<and> abs_file f' = session_deleted ''s1'' (abs_file file_one)"
  using session_deletion_cascades [OF demo_env_ok(1,3) demo_reach(1) demo_load(2) demo_delete(1)] by blast

theorem listings_do_not_depend_on_hash_order_witness:
  "fst (sessions_for_user_surface demo_env ''alice'' ''chat'' (Some ''2''))
     = fst (sessions_for_user_surface (two_env file_two_swapped empty_file) ''alice'' ''chat'' (Some ''a''))"
proof -
  have "abs_file file_two = abs_file file_two_swapped"
    by (simp add: abs_file_def demo_files hm_get_def fun_eq_iff)
  from listings_do_not_depend_on_hash_order [OF demo_files_inv(2,3) this demo_keyed demo_load(3) two_env_ok(3)]
  show ?thesis by blast
qed

theorem pruning_keeps_most_recent_witness:
  "[''s1''] = map cs_session_id (drop (max 0 1) [demo_session2, demo_session])"
proof -
  have "prune_sessions_for_user_surface demo_env ''alice'' ''chat'' 0 (Some ''2'') = (Ok [''s1''], Some ''3'')"
    by (simp add: prune_sessions_for_user_surface_def demo_listing demo_delete(2))
  from pruning_keeps_most_recent [OF demo_env_ok(1,3) demo_reach(2) demo_load(3) demo_listing this]
  show ?thesis by blast
qed

theorem store_saves_refine_map_updates_witness:
  "writes demo_env None (save_session demo_env demo_session None)
     (abs_file empty_file\<lparr>vw_sessions := (vw_sessions (abs_file empty_file))(cs_session_id demo_session \<mapsto> demo_session)\<rparr>)"
  using store_saves_refine_map_updates [OF demo_env_ok(2,3) demo_load(1)] demo_ids(1) demo_session_ids(1) by metis

theorem store_keeps_records_under_own_ids_witness:
  "keyed_view (abs_file file_one)"
  by (rule store_keeps_records_under_own_ids [OF demo_reach(1)]) (simp add: demo_decode_def)

definition nameless_artifact :: artifact_record where
  "nameless_artifact = \<lparr>ar_artifact_id = '' '', ar_task_id = ''t1'', ar_trace_id = [], ar_step_id = None, ar_route_key = [],
     ar_artifact_kind = ArtText, ar_label = [], ar_mime_type = [], ar_media_asset_id = None, ar_path = None, ar_url = None,
     ar_metadata = JNull\<rparr>"

theorem failed_calls_keep_the_file_witness:
  "snd (run_command demo_env (ReplaceArtifacts ''t1'' None [nameless_artifact]) (Some ''1'')) = Some ''1''"
proof -
  have "blank (ar_artifact_id nameless_artifact)" by code_simp
  then obtain d' where run: "run_command demo_env (ReplaceArtifacts ''t1'' None [nameless_artifact]) (Some ''1'')
      = (Some (BlankField ''artifact_id''), d')"
    by (simp add: outcome_def replace_artifacts_for_step_def with_file_ok [OF demo_load(2)] failing_def)
  have "d' = Some ''1''"
    by (rule failed_calls_keep_the_file [OF _ run]) (simp_all add: prunes_def)
  then show ?thesis using run by simp
qed

end
