(* ===== verification/Text_Words.thy ===== *)
theory Text_Words
  imports Harbor_Prelude
begin

text \<open>
  Words and characters of Rust strings: \<^verbatim>\<open>split_whitespace\<close>, \<^verbatim>\<open>join\<close>, \<^verbatim>\<open>chars().count()\<close> and
  \<^verbatim>\<open>chars().take(n)\<close> on UTF-8 bytes. A byte that is not a continuation byte starts a character. The lemmas say
  what the words of a joined and of a truncated text are.
\<close>

fun take_word :: "string \<Rightarrow> string \<times> string" where
  "take_word [] = ([], [])"
| "take_word (c # cs) =
     (if strip_ws (c # cs) = None then (c # fst (take_word cs), snd (take_word cs)) else ([], c # cs))"

lemma take_word_append: "fst (take_word s) @ snd (take_word s) = s"
  by (induction s rule: take_word.induct) auto

lemma take_word_length: "s \<noteq> [] \<Longrightarrow> strip_ws s = None \<Longrightarrow> length (snd (take_word s)) < length s"
  using arg_cong [OF take_word_append [of "tl s"], of length] by (cases s) auto

function split_whitespace :: "string \<Rightarrow> string list" where
  "split_whitespace s =
     (let t = trim_start s in
      if t = [] then [] else fst (take_word t) # split_whitespace (snd (take_word t)))"
  by pat_completeness auto
termination
proof (relation "measure length", simp)
  fix s t :: string
  assume t: "t = trim_start s" "t \<noteq> []"
  have "length (snd (take_word t)) < length t"
    using t strip_ws_trim_start by (intro take_word_length) auto
  also have "\<dots> \<le> length s" using trim_start_suffix t(1) by (auto dest: suffix_length_le)
  finally show "(snd (take_word t), s) \<in> measure length" by simp
qed

declare split_whitespace.simps [simp del]

fun join :: "string \<Rightarrow> string list \<Rightarrow> string" where
  "join sep [] = []"
| "join sep [x] = x"
| "join sep (x # y # xs) = x @ sep @ join sep (y # xs)"

definition is_continuation :: "char \<Rightarrow> bool" where
  [str_defs]: "is_continuation c \<longleftrightarrow> CHR 0x80 \<le> c \<and> c \<le> CHR 0xBF"

definition chars_count :: "string \<Rightarrow> nat" where
  "chars_count s = length (filter (\<lambda>c. \<not> is_continuation c) s)"

fun chars_take :: "nat \<Rightarrow> string \<Rightarrow> string" where
  "chars_take n [] = []"
| "chars_take n (c # cs) =
     (if is_continuation c then c # chars_take n cs
      else case n of 0 \<Rightarrow> [] | Suc m \<Rightarrow> c # chars_take m cs)"

lemma chars_take_prefix: "prefix (chars_take n s) s"
  by (induction n s rule: chars_take.induct) (auto split: nat.split)

lemma chars_count_take: "chars_count (chars_take n s) \<le> n"
  by (induction n s rule: chars_take.induct) (auto simp: chars_count_def split: nat.split)

lemma chars_take_all: "chars_count s \<le> n \<Longrightarrow> chars_take n s = s"
  by (induction n s rule: chars_take.induct) (auto simp: chars_count_def split: nat.split if_splits)

section \<open>Words\<close>

text \<open>A word: not empty, and no white space at any position.\<close>

definition is_word :: "string \<Rightarrow> bool" where
  "is_word w \<longleftrightarrow> w \<noteq> [] \<and> take_word w = (w, [])"

lemma take_word_idem: "take_word (fst (take_word s)) = (fst (take_word s), [])"
proof (induction s)
  case (Cons c cs)
  show ?case
  proof (cases "strip_ws (c # cs) = None")
    case True
    have "prefix (c # fst (take_word cs)) (c # cs)"
      using take_word_append [of cs] by (metis Cons_prefix_Cons prefixI)
    then have "strip_ws (c # fst (take_word cs)) = None"
      using True by (auto intro: strip_ws_prefix_None)
    then show ?thesis using True Cons by simp
  next
    case False
    then show ?thesis by auto
  qed
qed simp

lemma split_whitespace_words: "w \<in> set (split_whitespace s) \<Longrightarrow> is_word w"
proof (induction s rule: split_whitespace.induct)
  case (1 s)
  let ?t = "trim_start s"
  show ?case
  proof (cases "?t = []")
    case True
    with 1(2) show ?thesis by (simp add: split_whitespace.simps [of s])
  next
    case False
    then have "fst (take_word ?t) \<noteq> []"
      using strip_ws_trim_start [of s] by (cases ?t) auto
    then have "is_word (fst (take_word ?t))" by (simp add: is_word_def take_word_idem)
    then show ?thesis using 1 False by (auto simp: split_whitespace.simps [of s] Let_def)
  qed
qed

lemma is_word_strip: "is_word w \<Longrightarrow> strip_ws w = None"
  by (cases w) (auto simp: is_word_def split: if_splits)

lemma take_word_prefix:
  "take_word w = (w, []) \<Longrightarrow> prefix p w \<Longrightarrow> take_word p = (p, [])"
proof (induction w arbitrary: p)
  case (Cons c w)
  show ?case
  proof (cases p)
    case (Cons d p')
    then have d: "d = c" "prefix p' w" using Cons.prems(2) by simp_all
    have w: "strip_ws (c # w) = None" "take_word w = (w, [])"
      using Cons.prems(1) by (auto simp: prod_eq_iff split: if_splits)
    then have "strip_ws (c # p') = None"
      using d(2) by (auto intro: strip_ws_prefix_None)
    then show ?thesis using Cons.IH [OF w(2) d(2)] Cons d by simp
  qed simp
qed simp

lemma strip_ws_before_space: "u \<noteq> [] \<Longrightarrow> strip_ws u = None \<Longrightarrow> strip_ws (u @ CHR '' '' # r) = None"
proof -
  have s: "\<not> ws2 a (CHR '' '')" "\<not> ws3 a (CHR '' '') c" "\<not> ws3 a b (CHR '' '')" for a b c
    by (simp_all add: ws2_def ws3_def)
  assume "u \<noteq> []" "strip_ws u = None"
  then show ?thesis
    by (cases u rule: strip_ws.cases) (cases r; auto simp: s split: if_splits)+
qed

lemma take_word_space: "take_word w = (w, []) \<Longrightarrow> take_word (w @ CHR '' '' # r) = (w, CHR '' '' # r)"
proof (induction w)
  case Nil
  have "strip_ws (CHR '' '' # r) \<noteq> None" by (cases "CHR '' '' # r" rule: strip_ws.cases) (auto simp: ws1_def)
  then show ?case by auto
next
  case (Cons c w)
  have w: "strip_ws (c # w) = None" "take_word w = (w, [])"
    using Cons.prems by (auto simp: prod_eq_iff split: if_splits)
  then show ?case using Cons.IH strip_ws_before_space [of "c # w" r] by simp
qed

lemma trim_start_word: "strip_ws w = None \<Longrightarrow> trim_start w = w"
  by (rule trim_start_fixed)

lemma split_whitespace_Nil [simp]: "split_whitespace [] = []"
  by (simp add: split_whitespace.simps [of "[]"] trim_start_fixed)

lemma split_whitespace_space: "split_whitespace (CHR '' '' # s) = split_whitespace s"
proof -
  have "trim_start (CHR '' '' # s) = trim_start s"
    by (subst trim_start.simps, cases "CHR '' '' # s" rule: strip_ws.cases) (auto simp: ws1_def)
  then show ?thesis by (simp add: split_whitespace.simps [of "CHR '' '' # s"] split_whitespace.simps [of s])
qed

lemma split_whitespace_word:
  assumes "take_word w = (w, [])"
  shows "split_whitespace w = (if w = [] then [] else [w])"
proof (cases "w = []")
  case False
  then have "trim_start w = w" using assms by (intro trim_start_word is_word_strip) (simp add: is_word_def)
  then show ?thesis using False assms by (simp add: split_whitespace.simps [of w])
qed simp

lemma split_whitespace_word_space:
  assumes "is_word w"
  shows "split_whitespace (w @ CHR '' '' # r) = w # split_whitespace r"
proof -
  have "strip_ws (w @ CHR '' '' # r) = None"
    using assms is_word_strip by (intro strip_ws_before_space) (auto simp: is_word_def)
  then have "trim_start (w @ CHR '' '' # r) = w @ CHR '' '' # r" by (rule trim_start_word)
  then show ?thesis
    using assms take_word_space [of w r]
    by (simp add: split_whitespace.simps [of "w @ CHR '' '' # r"] is_word_def split_whitespace_space)
qed

text \<open>The words of a truncated join are prefixes of the joined words.\<close>

lemma words_of_truncated_join:
  "\<forall>w \<in> set ws. is_word w \<Longrightarrow> prefix p (join '' '' ws) \<Longrightarrow> v \<in> set (split_whitespace p) \<Longrightarrow>
   \<exists>w \<in> set ws. prefix v w"
proof (induction "'' ''" ws arbitrary: p rule: join.induct)
  case 1
  then show ?case by simp
next
  case (2 x)
  then have "take_word p = (p, [])" by (auto simp: is_word_def intro: take_word_prefix)
  then show ?case using 2 split_whitespace_word by (auto split: if_splits)
next
  case (3 x y xs)
  have x: "is_word x" using 3(2) by simp
  from 3(3) have "prefix p (x @ CHR '' '' # join '' '' (y # xs))" by simp
  then consider "prefix p x" | p' where "p = x @ CHR '' '' # p'" "prefix p' (join '' '' (y # xs))"
    unfolding prefix_append by (auto simp: prefix_Cons)
  then show ?case
  proof cases
    case 1
    then have "take_word p = (p, [])" using x by (auto simp: is_word_def intro: take_word_prefix)
    then show ?thesis using 1 3(4) split_whitespace_word by (auto split: if_splits)
  next
    case 2
    then have "v = x \<or> v \<in> set (split_whitespace p')"
      using 3(4) split_whitespace_word_space [OF x] by simp
    then show ?thesis using 3(1) [of p'] 2(2) 3(2) by auto
  qed
qed

lemma words_of_join: "\<forall>w \<in> set ws. is_word w \<Longrightarrow> split_whitespace (join '' '' ws) = ws"
proof (induction "'' ''" ws rule: join.induct)
  case (2 x)
  then show ?case using split_whitespace_word [of x] by (simp add: is_word_def)
next
  case (3 x y xs)
  then show ?case using split_whitespace_word_space [of x] by simp
qed simp

section \<open>Replacing and finding\<close>

definition ascii_upper :: "char \<Rightarrow> char" where
  [str_defs]: "ascii_upper c = (if is_ascii_lowercase c then char_of (of_char c - (32 :: nat)) else c)"

definition to_ascii_uppercase :: "string \<Rightarrow> string" where
  [str_defs]: "to_ascii_uppercase s = map ascii_upper s"

text \<open>\<^verbatim>\<open>s.replace(needle, by)\<close> for a needle that is not empty: from left to right, without overlap.\<close>

function replace_str :: "string \<Rightarrow> string \<Rightarrow> string \<Rightarrow> string" where
  "replace_str needle r [] = []"
| "replace_str needle r (c # s) =
     (if needle \<noteq> [] \<and> prefix needle (c # s) then r @ replace_str needle r (drop (length needle) (c # s))
      else c # replace_str needle r s)"
  by pat_completeness auto
termination by (relation "measure (\<lambda>(_, _, s). length s)") auto

text \<open>\<^verbatim>\<open>s.find(t)\<close>, as a byte index.\<close>

fun str_find :: "string \<Rightarrow> string \<Rightarrow> nat option" where
  "str_find [] t = (if t = [] then Some 0 else None)"
| "str_find (c # s) t = (if prefix t (c # s) then Some 0 else map_option Suc (str_find s t))"

lemma replace_str_absent: "\<not> str_contains s needle \<Longrightarrow> replace_str needle r s = s"
  by (induction s) auto

lemma str_find_None: "str_find s t = None \<longleftrightarrow> \<not> str_contains s t"
  by (induction s) auto

lemma str_find_length: "str_find s t = Some i \<Longrightarrow> i + length t \<le> length s"
  by (induction s arbitrary: i) (auto dest: prefix_length_le split: if_splits)

lemma str_find_prefix: "prefix s' s \<Longrightarrow> str_find s' t = Some i \<Longrightarrow> str_find s t = Some i"
proof (induction s arbitrary: s' i)
  case (Cons c s)
  show ?case
  proof (cases s')
    case (Cons c' r)
    then have r: "c' = c" "prefix r s" using Cons.prems(1) by auto
    show ?thesis
    proof (cases "prefix t (c # r)")
      case True
      moreover have "prefix (c # r) (c # s)" using r by simp
      ultimately have "prefix t (c # s)" by (rule prefix_order.trans)
      then show ?thesis using Cons.prems(2) True Cons r by simp
    next
      case False
      then obtain z where z: "str_find r t = Some z" "i = Suc z" using Cons.prems(2) Cons r by auto
      have "\<not> prefix t (c # s)"
        using False r str_find_length [OF z(1)] prefix_length_prefix [of t "c # s" "c # r"] by auto
      then show ?thesis using Cons.IH [OF r(2) z(1)] z(2) by simp
    qed
  qed (use Cons.prems in \<open>auto split: if_splits\<close>)
qed simp

lemma sublist_lowercase: "sublist s' s \<Longrightarrow> sublist (to_ascii_lowercase s') (to_ascii_lowercase s)"
  unfolding to_ascii_lowercase_def sublist_def by (metis map_append)

lemma str_contains_sublist: "str_contains s' t \<Longrightarrow> sublist s' s \<Longrightarrow> str_contains s t"
  unfolding str_contains_iff sublist_def by (metis append.assoc)

lemma ascii_lower_upper [simp]: "ascii_lower (ascii_upper c) = ascii_lower c"
proof (cases "is_ascii_lowercase c")
  case True
  then have b: "97 \<le> (of_char c :: nat)" "of_char c \<le> (122::nat)"
    by (auto simp: is_ascii_lowercase_def less_eq_char_def)
  then have "is_ascii_uppercase (char_of (of_char c - (32::nat)))" "\<not> is_ascii_uppercase c"
    by (auto simp: is_ascii_uppercase_def less_eq_char_def)
  then show ?thesis using True b by (simp add: ascii_upper_def ascii_lower_def)
qed (simp add: ascii_upper_def)

lemma lowercase_uppercase [simp]: "to_ascii_lowercase (to_ascii_uppercase s) = to_ascii_lowercase s"
  by (simp add: to_ascii_lowercase_def to_ascii_uppercase_def)

lemma str_contains_lowercase: "str_contains s t \<Longrightarrow> str_contains (to_ascii_lowercase s) (to_ascii_lowercase t)"
  by (simp add: str_contains_iff sublist_lowercase)

section \<open>Lines and UTF-8\<close>

definition newline :: char where "newline = CHR 0x0A"

text \<open>\<^verbatim>\<open>split(|b| *b == b'\n')\<close>: one piece more than newlines.\<close>

fun split_newline :: "string \<Rightarrow> string list" where
  "split_newline [] = [[]]"
| "split_newline (c # s) =
     (if c = newline then [] # split_newline s
      else case split_newline s of [] \<Rightarrow> [[c]] | l # ls \<Rightarrow> (c # l) # ls)"

text \<open>\<^verbatim>\<open>std::str::from_utf8\<close>: well-formed byte sequences.\<close>

definition cont_in :: "nat \<Rightarrow> nat \<Rightarrow> char \<Rightarrow> bool" where
  "cont_in lo hi c \<longleftrightarrow> lo \<le> of_char c \<and> of_char c \<le> hi"

fun utf8_ok :: "string \<Rightarrow> bool" where
  "utf8_ok [] = True"
| "utf8_ok (a # s) =
     (if of_char a < (0x80 :: nat) then utf8_ok s
      else if cont_in 0xC2 0xDF a then (case s of b # r \<Rightarrow> cont_in 0x80 0xBF b \<and> utf8_ok r | [] \<Rightarrow> False)
      else if cont_in 0xE0 0xEF a then
        (case s of b # c # r \<Rightarrow>
           cont_in (if of_char a = (0xE0 :: nat) then 0xA0 else 0x80) (if of_char a = (0xED :: nat) then 0x9F else 0xBF) b \<and>
           cont_in 0x80 0xBF c \<and> utf8_ok r
         | _ \<Rightarrow> False)
      else if cont_in 0xF0 0xF4 a then
        (case s of b # c # d # r \<Rightarrow>
           cont_in (if of_char a = (0xF0 :: nat) then 0x90 else 0x80) (if of_char a = (0xF4 :: nat) then 0x8F else 0xBF) b \<and>
           cont_in 0x80 0xBF c \<and> cont_in 0x80 0xBF d \<and> utf8_ok r
         | _ \<Rightarrow> False)
      else False)"

lemma split_newline_not_Nil [simp]: "split_newline s \<noteq> []"
  by (induction s) (auto split: list.splits)

lemma split_newline_append: "split_newline (s @ newline # t) = split_newline s @ split_newline t"
  by (induction s) (auto split: list.splits)

lemma split_newline_single: "newline \<notin> set l \<Longrightarrow> split_newline l = [l]"
  by (induction l) auto

end
