(* ===== verification/Privacy_Gateway.thy ===== *)
theory Privacy_Gateway
  imports Text_Words Model_Routing
begin

text \<open>
  The privacy gateway for cloud-bound model calls, from \<^verbatim>\<open>src/src/runtime/privacy_gateway.rs\<close>: redaction of words,
  classification of information, the decision for each privacy level, the semantic capsule and its prompt, and the
  evaluation of cases. SHA-256 and the clock are arguments; so are the two conversions to JSON text that the
  evaluation of cases searches for leaks. Floating-point scores of citations, which the gateway does not read, are
  rational numbers.
\<close>

section \<open>Data\<close>

record knowledge_search_citation =
  kc_title :: string
  kc_path :: string
  kc_modality :: string
  kc_chunk_id :: "string option"
  kc_parent_id :: "string option"
  kc_matched_child_ids :: "string list"
  kc_line_start :: "nat option"
  kc_line_end :: "nat option"
  kc_matched_terms :: "string list"
  kc_preview :: "string option"
  kc_answer_context :: string
  kc_score :: u32
  kc_lexical_score :: "rat option"
  kc_bm25_score :: "rat option"
  kc_embedding_score :: "rat option"
  kc_hybrid_score :: "rat option"
  kc_rerank_score :: "rat option"
  kc_provenance :: "string option"
  kc_source_path :: "string option"
  kc_modified_unix_millis :: "128 word option"

record privacy_flow_record =
  pf_sender_role :: string
  pf_subject_role :: string
  pf_recipient_kind :: string
  pf_information_types :: "string list"
  pf_purpose :: string
  pf_consent_basis :: string
  pf_destination :: string
  pf_privacy_level :: privacy_level
  pf_decision :: string
  pf_policy_version :: string

record privacy_gateway_decision =
  pd_decision :: string
  pd_cloud_allowed :: bool
  pd_risk_level :: string
  pd_reason :: string
  pd_warnings :: "string list"

record sanitized_citation =
  zc_citation_ref :: nat
  zc_modality :: string
  zc_source_hash :: string
  zc_chunk_hash :: string
  zc_line_range :: "string option"
  zc_fact :: string
  zc_risk_tags :: "string list"

record semantic_capsule =
  cap_capsule_id :: string
  cap_task :: string
  cap_facts :: "sanitized_citation list"
  cap_source_hashes :: "string list"
  cap_transform_steps :: "string list"
  cap_redacted :: bool
  cap_policy_version :: string

record privacy_transform_record =
  ptr_privacy_transform_id :: string
  ptr_workspace_id :: string
  ptr_source_kind :: string
  ptr_source_ref :: string
  ptr_transform_steps :: json
  ptr_output_ref :: json
  ptr_policy_version :: string
  ptr_created_at :: "string option"

record privacy_gateway_evaluation =
  pe_flow :: privacy_flow_record
  pe_decision :: privacy_gateway_decision
  pe_semantic_capsule :: "semantic_capsule option"
  pe_privacy_transform :: privacy_transform_record

definition PRIVACY_GATEWAY_POLICY_VERSION :: string where
  "PRIVACY_GATEWAY_POLICY_VERSION = ''harbor_privacy_gateway_ci_v1''"

definition FACT_MAX_CHARS :: nat where "FACT_MAX_CHARS = 360"
definition TASK_MAX_CHARS :: nat where "TASK_MAX_CHARS = 180"

section \<open>Redaction of words\<close>

definition contains_any :: "string \<Rightarrow> string list \<Rightarrow> bool" where
  "contains_any v needles = list_ex (str_contains v) needles"

definition backslash_char :: char where "backslash_char = CHR 0x5C"

definition should_redact_token :: "string \<Rightarrow> bool" where
  "should_redact_token token =
     (let lower = to_ascii_lowercase token in
      list_ex (starts_with lower) [''http://'', ''https://'', ''rtsp://''] \<or>
      contains_any lower [''token='', ''secret='', ''api_key'', ''apikey'', ''password'', ''passwd'', ''bearer'',
        [backslash_char, backslash_char], ''c:'' @ [backslash_char], ''/mnt/'', ''/home/'', ''.harborbeacon/''])"

definition redact_token :: "string \<Rightarrow> string" where
  "redact_token token = (if should_redact_token token then ''[redacted]'' else token)"

definition sanitize_free_text :: "string \<Rightarrow> nat \<Rightarrow> string option" where
  "sanitize_free_text v max_chars =
     (let text = join '' '' (map redact_token (split_whitespace v)) in
      if blank text then None
      else Some (if max_chars < chars_count text then chars_take max_chars text else text))"

section \<open>Classification\<close>

definition credential_words_zh :: "string list" where
  "credential_words_zh =
    [[CHR 0xE5, CHR 0xAF, CHR 0x86, CHR 0xE7, CHR 0xA0, CHR 0x81],
     [CHR 0xE5, CHR 0x87, CHR 0xAD, CHR 0xE6, CHR 0x8D, CHR 0xAE],
     [CHR 0xE5, CHR 0xAF, CHR 0x86, CHR 0xE9, CHR 0x92, CHR 0xA5]]"

definition child_words_zh :: "string list" where
  "child_words_zh =
    [[CHR 0xE5, CHR 0xAD, CHR 0xA9, CHR 0xE5, CHR 0xAD, CHR 0x90],
     [CHR 0xE5, CHR 0x84, CHR 0xBF, CHR 0xE7, CHR 0xAB, CHR 0xA5]]"

definition place_words_zh :: "string list" where
  "place_words_zh =
    [[CHR 0xE4, CHR 0xBD, CHR 0x8D, CHR 0xE7, CHR 0xBD, CHR 0xAE],
     [CHR 0xE5, CHR 0x9C, CHR 0xA8, CHR 0xE5, CHR 0x93, CHR 0xAA]]"

definition health_words_zh :: "string list" where
  "health_words_zh =
    [[CHR 0xE5, CHR 0x81, CHR 0xA5, CHR 0xE5, CHR 0xBA, CHR 0xB7],
     [CHR 0xE7, CHR 0x94, CHR 0x9F, CHR 0xE7, CHR 0x97, CHR 0x85],
     [CHR 0xE8, CHR 0x8D, CHR 0xAF],
     [CHR 0xE8, CHR 0x80, CHR 0x81, CHR 0xE4, CHR 0xBA, CHR 0xBA]]"

definition security_words_zh :: "string list" where
  "security_words_zh =
    [[CHR 0xE6, CHR 0x91, CHR 0x84, CHR 0xE5, CHR 0x83, CHR 0x8F, CHR 0xE5, CHR 0xA4, CHR 0xB4],
     [CHR 0xE9, CHR 0x97, CHR 0xA8, CHR 0xE9, CHR 0x94, CHR 0x81],
     [CHR 0xE8, CHR 0xAE, CHR 0xBF, CHR 0xE5, CHR 0xAE, CHR 0xA2],
     [CHR 0xE8, CHR 0xBD, CHR 0xA6, CHR 0xE5, CHR 0xBA, CHR 0x93],
     [CHR 0xE9, CHR 0x97, CHR 0xA8, CHR 0xE5, CHR 0x8F, CHR 0xA3]]"

definition identity_words_zh :: "string list" where
  "identity_words_zh =
    [[CHR 0xE6, CHR 0x89, CHR 0x8B, CHR 0xE6, CHR 0x9C, CHR 0xBA, CHR 0xE5, CHR 0x8F, CHR 0xB7],
     [CHR 0xE5, CHR 0x9C, CHR 0xB0, CHR 0xE5, CHR 0x9D, CHR 0x80],
     [CHR 0xE8, CHR 0xBA, CHR 0xAB, CHR 0xE4, CHR 0xBB, CHR 0xBD, CHR 0xE8, CHR 0xAF, CHR 0x81]]"

definition credential_text :: "string \<Rightarrow> bool" where
  "credential_text v \<longleftrightarrow>
     contains_any (to_ascii_lowercase v)
       [''password'', ''passwd'', ''api_key'', ''apikey'', ''token'', ''credential'', ''secret''] \<or>
     contains_any v credential_words_zh"

definition classify_text :: "string \<Rightarrow> string list" where
  "classify_text v =
     (let lower = to_ascii_lowercase v;
          child = contains_any lower [''child'', ''kid'', ''minor'', ''location'']
      in btree_set (
        (if credential_text v then [''credential''] else []) @
        (if child \<or> contains_any v child_words_zh \<or> contains_any v place_words_zh then
           (if child \<or> contains_any v child_words_zh then [''child_location''] else []) else []) @
        (if contains_any lower [''health'', ''medical'', ''medicine'', ''hospital'', ''diagnosis'', ''elderly'']
            \<or> contains_any v health_words_zh then [''health_status''] else []) @
        (if contains_any lower [''camera'', ''lock'', ''unlock'', ''visitor'', ''garage'', ''door'']
            \<or> contains_any v security_words_zh then [''home_security''] else []) @
        (if contains_any lower [''phone'', ''email'', ''address'', ''passport'']
            \<or> contains_any v identity_words_zh then [''personal_identity''] else [])))"

definition classify_information_types ::
  "string \<Rightarrow> knowledge_search_citation list \<Rightarrow> sanitized_citation list \<Rightarrow> string list" where
  "classify_information_types query citations facts =
     (let tags = classify_text query
        @ concat (map (\<lambda>c. classify_text (unwrap_or (kc_preview c) []) @ classify_text (kc_title c)
            @ classify_text (kc_modality c)) citations)
        @ concat (map zc_risk_tags facts)
      in btree_set (if tags = [] then [''knowledge_context''] else tags))"

definition risk_level_for_types :: "string list \<Rightarrow> string" where
  "risk_level_for_types types =
     (if ''credential'' \<in> set types then ''high''
      else if list_ex (\<lambda>k. k \<in> {''child_location'', ''health_status'', ''home_security'', ''personal_identity''}) types
      then ''medium'' else ''low'')"

fun consent_basis_for_level :: "privacy_level \<Rightarrow> string" where
  "consent_basis_for_level StrictLocal = ''none''"
| "consent_basis_for_level AllowRedactedCloud = ''workspace_policy_redacted_cloud''"
| "consent_basis_for_level AllowCloud = ''workspace_policy_cloud''"

fun destination_for_level :: "privacy_level \<Rightarrow> string" where
  "destination_for_level StrictLocal = ''local_only''"
| "destination_for_level AllowRedactedCloud = ''cloud_model''"
| "destination_for_level AllowCloud = ''cloud_model''"

definition normalize_role :: "string \<Rightarrow> string \<Rightarrow> string" where
  "normalize_role v d = (if trim v = [] then d else unwrap_or (sanitize_free_text (trim v) 64) d)"

section \<open>Citations, capsule and decision\<close>

definition hash12 :: "(string \<Rightarrow> u8 list) \<Rightarrow> string \<Rightarrow> string" where
  "hash12 digest input =
     concat (map hex_byte (take 6 (digest input)))"

definition sanitize_citation ::
  "(string \<Rightarrow> u8 list) \<Rightarrow> nat \<Rightarrow> knowledge_search_citation \<Rightarrow> sanitized_citation option" where
  "sanitize_citation digest citation_ref c =
     (let preview = unwrap_or (kc_preview c) [] in
      case sanitize_free_text preview FACT_MAX_CHARS of
        None \<Rightarrow> None
      | Some fct \<Rightarrow>
          if blank fct then None
          else Some
            \<lparr>zc_citation_ref = citation_ref, zc_modality = kc_modality c,
             zc_source_hash = hash12 digest
               (kc_title c @ '':'' @ kc_path c @ '':'' @ unwrap_or (kc_source_path c) []),
             zc_chunk_hash = hash12 digest
               (kc_path c @ '':'' @ unwrap_or (kc_chunk_id c) ''chunk'' @ '':'' @ show_nat citation_ref),
             zc_line_range = (case (kc_line_start c, kc_line_end c) of
                 (Some a, Some b) \<Rightarrow> Some (show_nat a @ ''-'' @ show_nat b)
               | (Some a, None) \<Rightarrow> Some (show_nat a)
               | _ \<Rightarrow> None),
             zc_fact = fct,
             zc_risk_tags = classify_text (preview @ '' '' @ kc_title c @ '' '' @ kc_modality c)\<rparr>)"

definition gateway_facts ::
  "(string \<Rightarrow> u8 list) \<Rightarrow> knowledge_search_citation list \<Rightarrow> sanitized_citation list" where
  "gateway_facts digest citations =
     List.map_filter (\<lambda>(i, c). sanitize_citation digest (i + 1) c) (enumerate 0 citations)"

definition gateway_decision ::
  "privacy_level \<Rightarrow> sanitized_citation list \<Rightarrow> string list \<Rightarrow> privacy_gateway_decision" where
  "gateway_decision level facts types =
     (let risk = risk_level_for_types types in
      case level of
        StrictLocal \<Rightarrow>
          \<lparr>pd_decision = ''blocked_or_degraded'', pd_cloud_allowed = False, pd_risk_level = risk,
           pd_reason = ''strict_local blocks cloud execution'', pd_warnings = []\<rparr>
      | AllowRedactedCloud \<Rightarrow>
          if facts = [] then
            \<lparr>pd_decision = ''blocked_or_degraded'', pd_cloud_allowed = False, pd_risk_level = risk,
             pd_reason = ''semantic capsule has no sanitized facts'',
             pd_warnings = [''privacy gateway did not emit a cloud-safe capsule'']\<rparr>
          else if ''credential'' \<in> set types then
            \<lparr>pd_decision = ''blocked_or_degraded'', pd_cloud_allowed = False, pd_risk_level = ''high'',
             pd_reason = ''credential-like material is not allowed in redacted cloud mode'',
             pd_warnings = [''credential-like material was detected and cloud execution was skipped'']\<rparr>
          else
            \<lparr>pd_decision = ''allow_redacted_cloud'', pd_cloud_allowed = True, pd_risk_level = risk,
             pd_reason = ''redacted semantic capsule generated'', pd_warnings = []\<rparr>
      | AllowCloud \<Rightarrow>
          \<lparr>pd_decision = ''allow_cloud'', pd_cloud_allowed = True, pd_risk_level = risk,
           pd_reason = ''workspace policy allows cloud; contextual integrity evidence recorded'',
           pd_warnings = []\<rparr>)"

definition gateway_task :: "string \<Rightarrow> string" where
  "gateway_task query =
     unwrap_or (opt_filter (\<lambda>v. \<not> blank v) (sanitize_free_text query TASK_MAX_CHARS)) ''answer from provided citations''"

definition jstrs :: "string list \<Rightarrow> json" where
  "jstrs xs = JArr (map JStr xs)"

definition evaluate_rag_answer_cloud_context ::
  "(string \<Rightarrow> u8 list) \<Rightarrow> string \<Rightarrow> string \<Rightarrow> knowledge_search_citation list \<Rightarrow> privacy_level
    \<Rightarrow> string \<Rightarrow> string \<Rightarrow> string \<Rightarrow> privacy_gateway_evaluation" where
  "evaluate_rag_answer_cloud_context digest now query citations level workspace_id source_ref sender_role =
     (let task = gateway_task query;
          facts = gateway_facts digest citations;
          source_hashes = btree_set (map zc_source_hash facts);
          types = classify_information_types query citations facts;
          decision = gateway_decision level facts types;
          capsule = (if facts \<noteq> [] then Some
            \<lparr>cap_capsule_id = ''capsule-'' @ hash12 digest (source_ref @ '':'' @ task), cap_task = task, cap_facts = facts,
             cap_source_hashes = source_hashes,
             cap_transform_steps = [''hash_source_refs'', ''redact_paths_urls_credentials'',
               ''truncate_facts_to_'' @ show_nat FACT_MAX_CHARS @ ''_chars'', ''emit_task_minimal_semantic_capsule''],
             cap_redacted = True, cap_policy_version = PRIVACY_GATEWAY_POLICY_VERSION\<rparr> else None);
          transform_steps = (case capsule of Some c \<Rightarrow> jstrs (cap_transform_steps c)
            | None \<Rightarrow> jstrs [''cloud_blocked_no_capsule'']);
          output_ref = jobj [(''capsule_id'', jopt_str (map_option cap_capsule_id capsule)),
            (''source_hashes'', jstrs source_hashes), (''redacted'', JBool True), (''metadata_only'', JBool True)];
          flow = \<lparr>pf_sender_role = normalize_role sender_role ''user'', pf_subject_role = ''household_context'',
            pf_recipient_kind = ''cloud_model'', pf_information_types = types, pf_purpose = ''retrieval.answer'',
            pf_consent_basis = consent_basis_for_level level, pf_destination = destination_for_level level,
            pf_privacy_level = level, pf_decision = pd_decision decision,
            pf_policy_version = PRIVACY_GATEWAY_POLICY_VERSION\<rparr>
      in \<lparr>pe_flow = flow, pe_decision = decision, pe_semantic_capsule = capsule,
          pe_privacy_transform =
            \<lparr>ptr_privacy_transform_id = ''privacy-transform-'' @ hash12 digest (source_ref @ '':'' @ pf_decision flow),
             ptr_workspace_id = workspace_id, ptr_source_kind = ''rag_answer_context'', ptr_source_ref = source_ref,
             ptr_transform_steps = transform_steps, ptr_output_ref = output_ref,
             ptr_policy_version = PRIVACY_GATEWAY_POLICY_VERSION, ptr_created_at = Some now\<rparr>\<rparr>)"

definition fact_line :: "sanitized_citation \<Rightarrow> string" where
  "fact_line f = ''['' @ show_nat (zc_citation_ref f) @ ''] modality='' @ zc_modality f @ '' chunk_hash='' @ zc_chunk_hash f
     @ '' risk_tags='' @ (if zc_risk_tags f = [] then ''none'' else join '','' (zc_risk_tags f)) @ '' fact='' @ zc_fact f"

definition to_cloud_prompt :: "semantic_capsule \<Rightarrow> string" where
  "to_cloud_prompt c = join [CHR 0x0A]
     ([''Harbor Privacy Gateway capsule: '' @ cap_capsule_id c,
       ''Answer only from the numbered facts below.'',
       ''Do not infer identities, locations, credentials, file paths, or extra household details beyond the facts.'',
       ''Every substantive statement must include a [n] citation marker.'', [], ''Task: '' @ cap_task c, [], ''Facts:'']
      @ map fact_line (cap_facts c))"

definition evidence_value :: "privacy_gateway_evaluation \<Rightarrow> bool \<Rightarrow> json" where
  "evidence_value e capsule_prompt_used = jobj
     [(''kind'', JStr ''privacy_gateway.rag_answer''), (''decision'', JStr (pd_decision (pe_decision e))),
      (''reason'', JStr (pd_reason (pe_decision e))), (''risk_level'', JStr (pd_risk_level (pe_decision e))),
      (''cloud_allowed'', JBool (pd_cloud_allowed (pe_decision e))), (''capsule_prompt_used'', JBool capsule_prompt_used),
      (''policy_version'', JStr (pf_policy_version (pe_flow e))),
      (''privacy_transform_id'', JStr (ptr_privacy_transform_id (pe_privacy_transform e))),
      (''information_types'', jstrs (pf_information_types (pe_flow e))), (''redacted'', JBool True),
      (''metadata_only'', JBool True),
      (''capsule_fact_count'', JInt (int (length (case pe_semantic_capsule e of None \<Rightarrow> [] | Some c \<Rightarrow> cap_facts c)))),
      (''source_hashes'', jstrs (case pe_semantic_capsule e of None \<Rightarrow> [] | Some c \<Rightarrow> cap_source_hashes c)),
      (''warnings'', jstrs (pd_warnings (pe_decision e)))]"

section \<open>What leaves the house\<close>

















text \<open>The modality can carry a private word into the prompt.\<close>

lemma modality_is_not_sanitised:
  "case sanitize_citation digest 1 (c\<lparr>kc_preview := Some ''cat'', kc_modality := ''password=x''\<rparr>) of
     None \<Rightarrow> False
   | Some f \<Rightarrow> sublist ''password=x'' (fact_line f)"
proof -
  have "sanitize_free_text ''cat'' FACT_MAX_CHARS = Some ''cat''" "\<not> blank ''cat''" by code_simp+
  moreover have "sublist (zc_modality f) (fact_line f)" for f
    using sublist_appendI [of "zc_modality f" "''['' @ show_nat (zc_citation_ref f) @ ''] modality=''"
        "'' chunk_hash='' @ zc_chunk_hash f @ '' risk_tags='' @
         (if zc_risk_tags f = [] then ''none'' else join '','' (zc_risk_tags f)) @ '' fact='' @ zc_fact f"]
    by (simp add: fact_line_def)
  moreover obtain f where f: "sanitize_citation digest 1 (c\<lparr>kc_preview := Some ''cat'', kc_modality := ''password=x''\<rparr>) = Some f"
      "zc_modality f = ''password=x''"
    using calculation(1,2) by (simp add: sanitize_citation_def unwrap_or_def Let_def)
  ultimately show ?thesis by (metis f option.simps(5))
qed

lemma credential_classified: "''credential'' \<in> set (classify_text v) \<longleftrightarrow> credential_text v"
  by (simp add: classify_text_def Let_def)

lemma tags_or_context: "''credential'' \<in> set (btree_set (if tags = [] then [''knowledge_context''] else tags)) \<longleftrightarrow> ''credential'' \<in> set tags"
  by simp

text \<open>
  Cloud execution is allowed exactly as the privacy level says. Strict local never allows it; full cloud always
  does; redacted cloud allows it exactly when a sanitised fact exists and neither the query nor the preview, title or
  modality of any citation, nor the tags of a fact, mention a credential.
\<close>

theorem cloud_allowed_iff:
  "pd_cloud_allowed (pe_decision (evaluate_rag_answer_cloud_context digest now query citations level workspace_id source_ref sender_role))
   \<longleftrightarrow> (case level of
        StrictLocal \<Rightarrow> False
      | AllowCloud \<Rightarrow> True
      | AllowRedactedCloud \<Rightarrow> gateway_facts digest citations \<noteq> [] \<and> \<not> credential_text query \<and>
          list_all (\<lambda>c. \<not> credential_text (unwrap_or (kc_preview c) []) \<and> \<not> credential_text (kc_title c) \<and>
            \<not> credential_text (kc_modality c)) citations \<and>
          list_all (\<lambda>f. ''credential'' \<notin> set (zc_risk_tags f)) (gateway_facts digest citations))"
proof -
  have "''credential'' \<in> set (classify_information_types query citations facts) \<longleftrightarrow>
      credential_text query \<or> (\<exists>c \<in> set citations. credential_text (unwrap_or (kc_preview c) []) \<or> credential_text (kc_title c)
        \<or> credential_text (kc_modality c)) \<or> (\<exists>f \<in> set facts. ''credential'' \<in> set (zc_risk_tags f))" for facts
    unfolding classify_information_types_def Let_def tags_or_context by (auto simp: credential_classified)
  then show ?thesis
    by (cases level) (auto simp: evaluate_rag_answer_cloud_context_def Let_def gateway_decision_def list_all_iff)
qed

section \<open>Evaluation of cases\<close>

record privacy_gateway_eval_case =
  gc_case_id :: string
  gc_query :: string
  gc_privacy_level :: privacy_level
  gc_citations :: "knowledge_search_citation list"
  gc_expected_decision :: string
  gc_expected_information_types :: "string list"
  gc_expected_risk_level :: "string option"
  gc_expected_capsule :: "bool option"
  gc_leak_markers :: "string list"

record privacy_gateway_eval_case_result =
  gr_case_id :: string
  gr_passed :: bool
  gr_decision :: string
  gr_expected_decision :: string
  gr_risk_level :: string
  gr_source_leak_count :: nat
  gr_blocked_or_degraded :: bool
  gr_high_risk :: bool
  gr_missing_information_types :: "string list"
  gr_failures :: "string list"

record privacy_gateway_eval_report =
  gp_kind :: string
  gp_policy_version :: string
  gp_total_cases :: nat
  gp_passed_cases :: nat
  gp_failed_cases :: nat
  gp_source_leak_count :: nat
  gp_blocked_or_degraded_count :: nat
  gp_high_risk_count :: nat
  gp_passed :: bool
  gp_cases :: "privacy_gateway_eval_case_result list"

definition show_bool :: "bool \<Rightarrow> string" where
  "show_bool b = (if b then ''true'' else ''false'')"

definition eval_gateway_case ::
  "(string \<Rightarrow> u8 list) \<Rightarrow> string \<Rightarrow> (semantic_capsule option \<Rightarrow> string + string) \<Rightarrow> (json \<Rightarrow> string + string)
    \<Rightarrow> privacy_gateway_eval_case \<Rightarrow> privacy_gateway_eval_case_result" where
  "eval_gateway_case digest now capsule_text value_text c =
     (let e = evaluate_rag_answer_cloud_context digest now (gc_query c) (gc_citations c) (gc_privacy_level c)
                ''home-1'' (gc_case_id c) ''owner'';
          evidence = evidence_value e (unwrap_or (gc_expected_capsule c) False);
          serialized_capsule = (case capsule_text (pe_semantic_capsule e) of Inl _ \<Rightarrow> [] | Inr t \<Rightarrow> t);
          serialized_evidence = (case value_text evidence of Inl _ \<Rightarrow> [] | Inr t \<Rightarrow> t);
          decision = pd_decision (pe_decision e);
          risk = pd_risk_level (pe_decision e);
          has_capsule = is_some (pe_semantic_capsule e);
          missing = filter (\<lambda>t. t \<notin> set (pf_information_types (pe_flow e))) (gc_expected_information_types c);
          leaks = length (filter (\<lambda>m. \<not> blank m \<and>
            (str_contains serialized_capsule m \<or> str_contains serialized_evidence m)) (gc_leak_markers c));
          failures =
            (if decision \<noteq> gc_expected_decision c
             then [''decision expected '' @ gc_expected_decision c @ '' but got '' @ decision] else []) @
            (case gc_expected_risk_level c of None \<Rightarrow> []
             | Some r \<Rightarrow> if risk \<noteq> r then [''risk_level expected '' @ r @ '' but got '' @ risk] else []) @
            (case gc_expected_capsule c of None \<Rightarrow> []
             | Some x \<Rightarrow> if has_capsule \<noteq> x
                 then [''semantic_capsule expected '' @ show_bool x @ '' but got '' @ show_bool has_capsule] else []) @
            (if missing \<noteq> [] then [''missing information_types: '' @ join '','' missing] else []) @
            (if leaks > 0 then [show_nat leaks @ '' source leak marker(s) found''] else [])
      in \<lparr>gr_case_id = gc_case_id c, gr_passed = (failures = []), gr_decision = decision,
          gr_expected_decision = gc_expected_decision c, gr_risk_level = risk, gr_source_leak_count = leaks,
          gr_blocked_or_degraded = (decision = ''blocked_or_degraded''), gr_high_risk = (risk = ''high''),
          gr_missing_information_types = missing, gr_failures = failures\<rparr>)"

definition evaluate_privacy_gateway_cases ::
  "(string \<Rightarrow> u8 list) \<Rightarrow> string \<Rightarrow> (semantic_capsule option \<Rightarrow> string + string) \<Rightarrow> (json \<Rightarrow> string + string)
    \<Rightarrow> privacy_gateway_eval_case list \<Rightarrow> privacy_gateway_eval_report" where
  "evaluate_privacy_gateway_cases digest now capsule_text value_text cases =
     (let results = map (eval_gateway_case digest now capsule_text value_text) cases;
          source_leak_count = sum_list (map gr_source_leak_count results);
          passed_cases = length (filter gr_passed results);
          failed_cases = length results - passed_cases
      in \<lparr>gp_kind = ''privacy_gateway_eval_report'', gp_policy_version = PRIVACY_GATEWAY_POLICY_VERSION,
          gp_total_cases = length results, gp_passed_cases = passed_cases, gp_failed_cases = failed_cases,
          gp_source_leak_count = source_leak_count,
          gp_blocked_or_degraded_count = length (filter gr_blocked_or_degraded results),
          gp_high_risk_count = length (filter gr_high_risk results),
          gp_passed = (failed_cases = 0 \<and> source_leak_count = 0), gp_cases = results\<rparr>)"

lemma passed_case_has_no_leak:
  "gr_passed (eval_gateway_case digest now ct vt c) \<Longrightarrow> gr_source_leak_count (eval_gateway_case digest now ct vt c) = 0"
  by (simp add: eval_gateway_case_def Let_def split: if_splits)

text \<open>A report passes exactly when every case passes; the separate test for leaks adds nothing.\<close>

lemma report_passes_iff:
  "gp_passed (evaluate_privacy_gateway_cases digest now ct vt cases) \<longleftrightarrow>
   list_all gr_passed (gp_cases (evaluate_privacy_gateway_cases digest now ct vt cases))"
proof -
  let ?rs = "map (eval_gateway_case digest now ct vt) cases"
  have "length ?rs - length (filter gr_passed ?rs) = 0 \<longleftrightarrow> list_all gr_passed ?rs"
    using length_filter_le [of gr_passed ?rs] length_filter_eq_iff [of gr_passed ?rs] by linarith
  moreover have "list_all gr_passed ?rs \<Longrightarrow> sum_list (map gr_source_leak_count ?rs) = 0"
    by (auto simp: list_all_iff sum_list_eq_0_iff passed_case_has_no_leak)
  ultimately show ?thesis
    by (auto simp: evaluate_privacy_gateway_cases_def Let_def)
qed

end
