(* ===== verification/Remote_View.thy ===== *)
theory Remote_View
  imports Harbor_Prelude
begin

text \<open>
  Signed share links for live camera pages, from \<^verbatim>\<open>src/src/runtime/remote_view.rs\<close>. HMAC-SHA-256, base64, the JSON
  form of the claims and the clock are the functions of a record \<open>share_env\<close>: \<open>sv_mac\<close> is the tag of a text under a
  secret (or the error of the initialisation) and \<open>sv_verify\<close> the comparison \<^verbatim>\<open>verify_slice\<close>.
\<close>

record camera_share_claims =
  cl_v :: u8
  cl_kind :: string
  cl_device_id :: string
  cl_exp :: u64

record issued_camera_share_token =
  it_token :: string
  it_expires_at_unix_secs :: u64
  it_ttl_minutes :: u32

record share_env =
  sv_now :: u64
  sv_mac :: "string \<Rightarrow> string \<Rightarrow> string + string"
  sv_verify :: "string \<Rightarrow> string \<Rightarrow> string \<Rightarrow> bool"
  sv_b64_encode :: "string \<Rightarrow> string"
  sv_b64_decode :: "string \<Rightarrow> string + string"
  sv_claims_to :: "camera_share_claims \<Rightarrow> string + string"
  sv_claims_from :: "string \<Rightarrow> string + camera_share_claims"

definition map_err :: "string \<Rightarrow> string + 'a \<Rightarrow> string + 'a" where
  "map_err msg r = (case r of Inl e \<Rightarrow> Err (msg @ e) | Inr v \<Rightarrow> Ok v)"

definition sign_payload :: "share_env \<Rightarrow> string \<Rightarrow> string \<Rightarrow> string + string" where
  "sign_payload env secret payload_b64 =
     and_then (map_err ''failed to initialize HMAC: '' (sv_mac env secret payload_b64)) (\<lambda>tag. Ok (sv_b64_encode env tag))"

text \<open>\<^verbatim>\<open>clamp(1, 24 * 60)\<close> and \<^verbatim>\<open>checked_add\<close>.\<close>

definition clamp_ttl :: "u32 \<Rightarrow> u32" where
  "clamp_ttl t = max 1 (min t 1440)"

definition checked_add :: "u64 \<Rightarrow> u64 \<Rightarrow> u64 option" where
  "checked_add a b = (if unat a + unat b < 2 ^ 64 then Some (a + b) else None)"

definition issue_camera_share_token ::
  "share_env \<Rightarrow> string \<Rightarrow> string \<Rightarrow> u32 \<Rightarrow> string + issued_camera_share_token" where
  "issue_camera_share_token env secret device_id ttl_minutes =
     (if blank secret then Err ''share secret is empty''
      else if blank device_id then Err ''device_id is empty''
      else
        let ttl = clamp_ttl ttl_minutes in
        case checked_add (sv_now env) (ucast ttl * 60) of
          None \<Rightarrow> Err ''share token expiration overflowed''
        | Some expires_at \<Rightarrow>
            and_then (map_err ''failed to serialize camera share claims: '' (sv_claims_to env
              \<lparr>cl_v = 1, cl_kind = ''camera_live'', cl_device_id = device_id, cl_exp = expires_at\<rparr>)) (\<lambda>payload.
            let payload_b64 = sv_b64_encode env payload in
            and_then (sign_payload env secret payload_b64) (\<lambda>signature_b64.
            Ok \<lparr>it_token = payload_b64 @ ''.'' @ signature_b64, it_expires_at_unix_secs = expires_at,
                it_ttl_minutes = ttl\<rparr>)))"

text \<open>\<^verbatim>\<open>split_once('.')\<close>: at the first dot.\<close>

fun split_once :: "char \<Rightarrow> string \<Rightarrow> (string \<times> string) option" where
  "split_once sep [] = None"
| "split_once sep (c # cs) = (if c = sep then Some ([], cs) else map_option (map_prod ((#) c) id) (split_once sep cs))"

definition verify_camera_share_token :: "share_env \<Rightarrow> string \<Rightarrow> string \<Rightarrow> string + camera_share_claims" where
  "verify_camera_share_token env secret token =
     (if blank secret then Err ''share secret is empty''
      else case split_once (CHR ''.'') token of
        None \<Rightarrow> Err ''share token format is invalid''
      | Some (payload_b64, signature_b64) \<Rightarrow>
          if payload_b64 = [] \<or> signature_b64 = [] then Err ''share token format is invalid''
          else
            and_then (sign_payload env secret payload_b64) (\<lambda>expected_b64.
            and_then (map_err ''share token signature is invalid: '' (sv_b64_decode env signature_b64)) (\<lambda>provided.
            and_then (map_err ''failed to initialize HMAC: '' (sv_mac env secret payload_b64)) (\<lambda>_.
            and_then (map_err ''expected share signature is invalid: '' (sv_b64_decode env expected_b64)) (\<lambda>expected.
            and_then (ensure (length expected = length provided) ''share token signature mismatch'') (\<lambda>_.
            and_then (ensure (sv_verify env secret payload_b64 provided) ''share token signature mismatch'') (\<lambda>_.
            and_then (map_err ''share token payload is invalid: '' (sv_b64_decode env payload_b64)) (\<lambda>payload.
            and_then (map_err ''share token payload parse failed: '' (sv_claims_from env payload)) (\<lambda>claims.
            and_then (ensure (cl_v claims = 1 \<and> cl_kind claims = ''camera_live'') ''share token scope is invalid'') (\<lambda>_.
            and_then (ensure (\<not> blank (cl_device_id claims)) ''share token missing device_id'') (\<lambda>_.
            and_then (ensure (sv_now env \<le> cl_exp claims) ''share token expired'') (\<lambda>_.
            Ok claims))))))))))))"

definition camera_share_token_hash :: "(string \<Rightarrow> u8 list) \<Rightarrow> string \<Rightarrow> string" where
  "camera_share_token_hash digest token = concat (map hex_byte (digest token))"

section \<open>Laws of the cryptographic and text functions\<close>

text \<open>
  The comparison accepts exactly the tag of the text; base64 text is non-empty for non-empty input, has no dot, and
  decodes to what was encoded; JSON text of claims is non-empty and reads back.
\<close>

definition mac_law :: "share_env \<Rightarrow> bool" where
  "mac_law env \<longleftrightarrow> (\<forall>secret p t. sv_verify env secret p t \<longleftrightarrow> sv_mac env secret p = Ok t) \<and>
     (\<forall>secret p t. sv_mac env secret p = Ok t \<longrightarrow> t \<noteq> [])"

definition b64_law :: "share_env \<Rightarrow> bool" where
  "b64_law env \<longleftrightarrow> (\<forall>s. sv_b64_decode env (sv_b64_encode env s) = Ok s \<and> CHR ''.'' \<notin> set (sv_b64_encode env s) \<and>
     (s \<noteq> [] \<longrightarrow> sv_b64_encode env s \<noteq> []))"

definition claims_law :: "share_env \<Rightarrow> bool" where
  "claims_law env \<longleftrightarrow> (\<forall>c t. sv_claims_to env c = Ok t \<longrightarrow> t \<noteq> [] \<and> sv_claims_from env t = Ok c)"

lemma map_err_Ok_iff [simp]: "map_err m r = Ok v \<longleftrightarrow> r = Ok v"
  by (simp add: map_err_def split: sum.split)

lemma map_err_Ok [simp]: "map_err m (Ok v) = Ok v"
  by (simp add: map_err_def)

lemma ensure_Ok_iff [simp]: "ensure b m = Ok u \<longleftrightarrow> b"
  by (simp add: ensure_def)

lemma ensure_True [simp]: "ensure True m = Ok ()"
  by (simp add: ensure_def)

lemma split_once_append: "c \<notin> set a \<Longrightarrow> split_once c (a @ c # b) = Some (a, b)"
  by (induction a) auto

lemma split_once_Some: "split_once c s = Some (a, b) \<Longrightarrow> s = a @ c # b \<and> c \<notin> set a"
  by (induction s arbitrary: a) (auto split: if_splits)

lemma sign_payload_Ok_iff:
  "sign_payload env secret p = Ok s \<longleftrightarrow> (\<exists>t. sv_mac env secret p = Ok t \<and> s = sv_b64_encode env t)"
  by (auto simp: sign_payload_def and_then_Inr_iff)

text \<open>
  C29. A share token opens only what was signed. When verification succeeds, the token is a payload and a signature
  joined by a dot, the signature decodes to the tag of this payload under the secret, and the claims returned are those
  of the payload: version 1, for a live camera view, of a named device, and not expired.
\<close>

theorem verified_share_token_is_signed:
  assumes "mac_law env" "verify_camera_share_token env secret token = Ok claims"
  shows "\<exists>payload_b64 signature_b64 tag payload. token = payload_b64 @ ''.'' @ signature_b64 \<and>
    sv_b64_decode env signature_b64 = Ok tag \<and> sv_mac env secret payload_b64 = Ok tag \<and>
    sv_b64_decode env payload_b64 = Ok payload \<and> sv_claims_from env payload = Ok claims \<and>
    cl_v claims = 1 \<and> cl_kind claims = ''camera_live'' \<and> \<not> blank (cl_device_id claims) \<and> sv_now env \<le> cl_exp claims"
proof -
  obtain p s where ps: "split_once (CHR ''.'') token = Some (p, s)"
    using assms(2) by (cases "split_once (CHR ''.'') token") (auto simp: verify_camera_share_token_def split: if_splits)
  then have tok: "token = p @ ''.'' @ s" using split_once_Some [OF ps] by simp
  from assms(2) ps obtain tag payload where "sv_b64_decode env s = Ok tag" "sv_verify env secret p tag"
    "sv_b64_decode env p = Ok payload" "sv_claims_from env payload = Ok claims"
    "cl_v claims = 1" "cl_kind claims = ''camera_live''" "\<not> blank (cl_device_id claims)" "sv_now env \<le> cl_exp claims"
    by (auto simp: verify_camera_share_token_def and_then_Inr_iff split: if_splits)
  moreover from this(2) have "sv_mac env secret p = Ok tag" using assms(1) by (simp add: mac_law_def)
  ultimately show ?thesis using tok by blast
qed

lemma ttl_bounds: "unat (ucast (clamp_ttl t) * 60 :: u64) = unat (clamp_ttl t) * 60" "1 \<le> clamp_ttl t" "clamp_ttl t \<le> 1440"
proof -
  show b: "1 \<le> clamp_ttl t" "clamp_ttl t \<le> 1440" by (simp_all add: clamp_ttl_def)
  then have "unat (clamp_ttl t) \<le> 1440" by (simp add: word_le_nat_alt)
  then have "unat (ucast (clamp_ttl t) :: u64) * unat (60 :: u64) < 2 ^ LENGTH(64)"
    by (simp add: unat_ucast_u32)
  then show "unat (ucast (clamp_ttl t) * 60 :: u64) = unat (clamp_ttl t) * 60"
    using unat_mult_lem [of "ucast (clamp_ttl t) :: u64" 60] by (simp add: unat_ucast_u32)
qed

text \<open>
  An issued share token is accepted until it expires. Issuing returns an expiry of at least a minute and at
  most a day after the time of issue, without wrap-around, and verifying the token with the same secret at any time
  up to the expiry returns the claims for the device it was issued for.
\<close>

theorem issued_share_token_verifies:
  assumes "mac_law env" "b64_law env" "claims_law env"
    and "issue_camera_share_token env secret device_id ttl = Ok issued"
    and "later \<le> it_expires_at_unix_secs issued"
  shows "verify_camera_share_token (env\<lparr>sv_now := later\<rparr>) secret (it_token issued) =
      Ok \<lparr>cl_v = 1, cl_kind = ''camera_live'', cl_device_id = device_id, cl_exp = it_expires_at_unix_secs issued\<rparr> \<and>
    unat (it_expires_at_unix_secs issued) = unat (sv_now env) + unat (it_ttl_minutes issued) * 60 \<and>
    1 \<le> it_ttl_minutes issued \<and> it_ttl_minutes issued \<le> 1440"
proof -
  let ?c = "\<lparr>cl_v = 1, cl_kind = ''camera_live'', cl_device_id = device_id, cl_exp = it_expires_at_unix_secs issued\<rparr>"
  have guards: "\<not> blank secret" "\<not> blank device_id" using assms(4) by (auto simp: issue_camera_share_token_def split: if_splits)
  obtain e where e: "checked_add (sv_now env) (ucast (clamp_ttl ttl) * 60) = Some e"
    using assms(4) guards by (cases "checked_add (sv_now env) (ucast (clamp_ttl ttl) * 60)")
      (auto simp: issue_camera_share_token_def Let_def)
  from assms(4) guards e obtain payload tag where
    pt: "sv_claims_to env ?c = Ok payload" "sv_mac env secret (sv_b64_encode env payload) = Ok tag"
    and iss: "it_token issued = sv_b64_encode env payload @ ''.'' @ sv_b64_encode env tag"
      "it_expires_at_unix_secs issued = e" "it_ttl_minutes issued = clamp_ttl ttl"
    by (auto simp: issue_camera_share_token_def Let_def and_then_Inr_iff sign_payload_Ok_iff)
  have b: "sv_b64_decode env (sv_b64_encode env x) = Ok x" "CHR ''.'' \<notin> set (sv_b64_encode env x)"
    "x \<noteq> [] \<Longrightarrow> sv_b64_encode env x \<noteq> []" for x
    using assms(2) by (auto simp: b64_law_def)
  have ne: "payload \<noteq> []" "sv_claims_from env payload = Ok ?c" "tag \<noteq> []" "sv_verify env secret (sv_b64_encode env payload) tag"
    using assms(1,3) pt by (auto simp: claims_law_def mac_law_def)
  have "split_once (CHR ''.'') (it_token issued) = Some (sv_b64_encode env payload, sv_b64_encode env tag)"
    using split_once_append [OF b(2)] by (simp add: iss(1))
  then have "verify_camera_share_token (env\<lparr>sv_now := later\<rparr>) secret (it_token issued) = Ok ?c"
    using guards ne b pt(2) assms(5) by (simp add: verify_camera_share_token_def sign_payload_def)
  moreover have "unat e = unat (sv_now env) + unat (clamp_ttl ttl) * 60"
    using e ttl_bounds(1) [of ttl] unat_add_lem [of "sv_now env" "ucast (clamp_ttl ttl) * 60"]
    by (auto simp: checked_add_def split: if_splits)
  ultimately show ?thesis using ttl_bounds(2,3) [of ttl] iss by simp
qed

section \<open>A concrete environment\<close>

fun demo_escape :: "string \<Rightarrow> string" where
  "demo_escape [] = []"
| "demo_escape (c # cs) =
     (if c = CHR ''.'' then ''~d'' else if c = CHR ''~'' then ''~t'' else [c]) @ demo_escape cs"

fun demo_unescape :: "string \<Rightarrow> string + string" where
  "demo_unescape [] = Ok []"
| "demo_unescape [c] = (if c = CHR ''~'' then Err ''bad escape'' else Ok [c])"
| "demo_unescape (c # d # cs) =
     (if c = CHR ''~''
      then and_then (demo_unescape cs) (\<lambda>r. Ok ((if d = CHR ''d'' then CHR ''.'' else CHR ''~'') # r))
      else and_then (demo_unescape (d # cs)) (\<lambda>r. Ok (c # r)))"

lemma demo_unescape_plain: "c \<noteq> CHR ''~'' \<Longrightarrow> demo_unescape (c # cs) = and_then (demo_unescape cs) (\<lambda>r. Ok (c # r))"
  by (cases cs) auto

lemma demo_escape_law:
  "demo_unescape (demo_escape s) = Ok s \<and> CHR ''.'' \<notin> set (demo_escape s) \<and> (s \<noteq> [] \<longrightarrow> demo_escape s \<noteq> [])"
  by (induction s) (auto simp: demo_unescape_plain)

definition demo_claims :: camera_share_claims where
  "demo_claims = \<lparr>cl_v = 1, cl_kind = ''camera_live'', cl_device_id = ''cam-1'', cl_exp = 1600\<rparr>"

definition demo_share_env :: share_env where
  "demo_share_env = \<lparr>sv_now = 1000, sv_mac = (\<lambda>s p. Ok (''tag:'' @ s @ p)), sv_verify = (\<lambda>s p t. t = ''tag:'' @ s @ p),
     sv_b64_encode = demo_escape, sv_b64_decode = demo_unescape,
     sv_claims_to = (\<lambda>c. if c = demo_claims then Ok ''claims'' else Err ''unsupported''),
     sv_claims_from = (\<lambda>t. if t = ''claims'' then Ok demo_claims else Err ''unsupported'')\<rparr>"

lemma demo_share_laws: "mac_law demo_share_env" "b64_law demo_share_env" "claims_law demo_share_env"
  using demo_escape_law by (auto simp: mac_law_def b64_law_def claims_law_def demo_share_env_def split: if_splits)

definition demo_token :: string where
  "demo_token = ''claims.tag:keyclaims''"

lemma demo_issue:
  "issue_camera_share_token demo_share_env ''key'' ''cam-1'' 10 =
     Ok \<lparr>it_token = demo_token, it_expires_at_unix_secs = 1600, it_ttl_minutes = 10\<rparr>"
proof -
  have "\<not> blank ''key''" "\<not> blank ''cam-1''" by code_simp+
  then show ?thesis
    by (simp add: issue_camera_share_token_def demo_share_env_def clamp_ttl_def checked_add_def demo_claims_def
        sign_payload_def demo_token_def)
qed

theorem issued_share_token_verifies_witness:
  "verify_camera_share_token (demo_share_env\<lparr>sv_now := 1600\<rparr>) ''key'' demo_token = Ok demo_claims"
  using issued_share_token_verifies [OF demo_share_laws demo_issue, of 1600] by (simp add: demo_claims_def)

theorem verified_share_token_is_signed_witness:
  "\<exists>p s tag. demo_token = p @ ''.'' @ s \<and> sv_b64_decode demo_share_env s = Ok tag \<and> sv_mac demo_share_env ''key'' p = Ok tag"
proof -
  have "\<not> blank ''key''" "\<not> blank ''cam-1''" by code_simp+
  then have "verify_camera_share_token demo_share_env ''key'' demo_token = Ok demo_claims"
    by (simp add: verify_camera_share_token_def demo_token_def demo_share_env_def sign_payload_def demo_claims_def)
  from verified_share_token_is_signed [OF demo_share_laws(1) this] show ?thesis by blast
qed

end
