(* ===== verification/Harbor_Apps.thy ===== *)
theory Harbor_Apps
  imports Text_Words
begin

text \<open>
  Harbor apps, from \<^verbatim>\<open>src/src/control_plane/apps.rs\<close> (manifests, their validation, paths and the registry),
  \<^verbatim>\<open>src/src/orchestrator/executors/harbor_apps.rs\<close> (execution plans) and the registry operations of
  \<^verbatim>\<open>src/src/runtime/admin_console.rs\<close>. Parsing of manifests (\<^verbatim>\<open>serde_yaml\<close>) is not modelled; loading and saving
  the console state are arguments of the registry operations.
\<close>

section \<open>Manifests\<close>

definition HARBOR_APP_CONTRACT_VERSION :: string where "HARBOR_APP_CONTRACT_VERSION = ''harbor.app.v1''"
definition DEFAULT_APP_COMPOSE_ROOT :: string where "DEFAULT_APP_COMPOSE_ROOT = ''/var/lib/harbor/apps''"
definition DEFAULT_APP_DATA_ROOT :: string where "DEFAULT_APP_DATA_ROOT = ''/mnt/software/harbor-apps''"
definition DEFAULT_APP_ENV_ROOT :: string where "DEFAULT_APP_ENV_ROOT = ''/etc/harbor/apps''"

definition PLATFORM_CAPABILITY_ENDPOINTS :: "(string \<times> string) list" where
  "PLATFORM_CAPABILITY_ENDPOINTS =
     [(''platform.nsp.plan'', ''POST /api/platform/nsp/plan''),
      (''platform.router.route'', ''POST /api/platform/router/route''),
      (''platform.privacy.redact'', ''POST /api/platform/privacy/redact''),
      (''platform.compliance.evaluate'', ''POST /api/platform/compliance/evaluate''),
      (''platform.models.infer'', ''POST /api/platform/models/infer''),
      (''platform.approval.tickets.create'', ''POST /api/platform/approval/tickets''),
      (''platform.audit.events.read'', ''GET /api/platform/audit/events''),
      (''platform.audit.events.write'', ''POST /api/platform/audit/events'')]"

record harbor_app_build =
  hb_context :: string
  hb_dockerfile :: "string option"

record harbor_app_route =
  hr_path_prefix :: string
  hr_service_port :: u16
  hr_strip_prefix :: bool

record harbor_app_health =
  hh_path :: string
  hh_port :: u16
  hh_interval_seconds :: u64

datatype harbor_app_risk = AppLow | AppMedium | AppHigh | AppCritical

record harbor_app_permission =
  hp_capability :: string
  hp_actions :: "string list"
  hp_risk :: harbor_app_risk

datatype harbor_app_volume_kind = VolData | VolCache | VolConfig | VolSecret

record harbor_app_volume =
  hv_name :: string
  hv_mount_path :: string
  hv_kind :: harbor_app_volume_kind

datatype harbor_app_exposure = ExposureNone | ExposureLan | ExposureTunnel

record harbor_app_manifest =
  hm_contract :: string
  hm_id :: string
  hm_name :: string
  hm_version :: string
  hm_image :: "string option"
  hm_build :: "harbor_app_build option"
  hm_routes :: "harbor_app_route list"
  hm_health :: harbor_app_health
  hm_permissions :: "harbor_app_permission list"
  hm_volumes :: "harbor_app_volume list"
  hm_platform_capabilities :: "string list"
  hm_exposure :: harbor_app_exposure
  hm_metadata :: "string btree_map"

record harbor_app_validation_report =
  rp_ok :: bool
  rp_errors :: "string list"
  rp_warnings :: "string list"
  rp_declared_capabilities :: "string list"

definition supported_platform_capabilities :: "string list" where
  "supported_platform_capabilities = map fst PLATFORM_CAPABILITY_ENDPOINTS"

definition app_id_byte :: "char \<Rightarrow> bool" where
  "app_id_byte c \<longleftrightarrow> is_ascii_lowercase c \<or> is_ascii_digit c"

definition is_safe_app_id :: "string \<Rightarrow> bool" where
  "is_safe_app_id i \<longleftrightarrow> i \<noteq> [] \<and> length i \<le> 64 \<and> list_all (\<lambda>c. app_id_byte c \<or> c = CHR ''-'') i \<and>
     (case i of [] \<Rightarrow> False | c # _ \<Rightarrow> app_id_byte c) \<and> (case rev i of [] \<Rightarrow> False | c # _ \<Rightarrow> app_id_byte c)"

definition is_forbidden_capability :: "string \<Rightarrow> bool" where
  "is_forbidden_capability c \<longleftrightarrow> c \<in> {''harborgate.credentials.raw'', ''harborgate.route_registry.write'',
     ''harborbeacon.state.raw'', ''filesystem.host.write'', ''docker.socket.raw''}"

definition is_safe_volume_mount :: "string \<Rightarrow> bool" where
  "is_safe_volume_mount path = list_ex (starts_with path)
     [''/data'', ''/app/data'', ''/cache'', ''/app/cache'', ''/config'', ''/app/config'', ''/run/secrets'']"

definition push_if :: "bool \<Rightarrow> string \<Rightarrow> string list" where
  "push_if b msg = (if b then [msg] else [])"

definition route_errors :: "string \<Rightarrow> harbor_app_route \<Rightarrow> string list" where
  "route_errors expected_prefix r =
     push_if (\<not> starts_with (hr_path_prefix r) expected_prefix)
       (''route '' @ hr_path_prefix r @ '' must stay under '' @ expected_prefix)
     @ push_if (hr_service_port r = 0) (''route '' @ hr_path_prefix r @ '' has invalid port 0'')"

definition capability_errors :: "string \<Rightarrow> string list" where
  "capability_errors c =
     push_if (c = ''*'') ''wildcard platform capability is not allowed''
     @ push_if (is_forbidden_capability c) (c @ '' is outside Harbor app scope'')"

definition validate_app_manifest :: "harbor_app_manifest \<Rightarrow> harbor_app_validation_report" where
  "validate_app_manifest m =
     (let expected_prefix = ''/apps/'' @ hm_id m @ ''/'';
          seen = btree_set (hm_platform_capabilities m);
          errors =
            push_if (hm_contract m \<noteq> HARBOR_APP_CONTRACT_VERSION)
              (''contract must be '' @ HARBOR_APP_CONTRACT_VERSION @ '', got '' @ hm_contract m)
            @ push_if (\<not> is_safe_app_id (hm_id m)) ''id must be lowercase ascii letters, digits, or hyphen''
            @ push_if (blank (hm_name m)) ''name is required''
            @ push_if (blank (hm_version m)) ''version is required''
            @ (case (hm_image m, hm_build m) of
                 (Some _, Some _) \<Rightarrow> [''only one of image or build may be set'']
               | (None, None) \<Rightarrow> [''one of image or build is required'']
               | _ \<Rightarrow> [])
            @ push_if (hm_routes m = [] \<and> hm_exposure m \<noteq> ExposureNone)
                ''lan or tunnel exposure requires at least one route''
            @ concat (map (route_errors expected_prefix) (hm_routes m))
            @ push_if (\<not> starts_with (hh_path (hm_health m)) ''/'') ''health.path must start with /''
            @ push_if (hh_port (hm_health m) = 0) ''health.port must not be 0''
            @ concat (map capability_errors (hm_platform_capabilities m))
            @ concat (map (\<lambda>p. push_if (is_forbidden_capability (hp_capability p))
                (hp_capability p @ '' is not an app-grantable permission'')) (hm_permissions m))
            @ concat (map (\<lambda>v. push_if (\<not> is_safe_volume_mount (hv_mount_path v))
                (''volume '' @ hv_name v @ '' mount_path '' @ hv_mount_path v @ '' is outside app container scope''))
                (hm_volumes m));
          warnings =
            push_if (hh_interval_seconds (hm_health m) < 5) ''health.interval_seconds below 5s may be noisy''
            @ concat (map (\<lambda>c. push_if (c \<notin> set supported_platform_capabilities)
                (c @ '' is not a known v1 platform capability'')) (hm_platform_capabilities m))
            @ concat (map (\<lambda>p. push_if (hp_capability p \<notin> set seen)
                (''permission '' @ hp_capability p @ '' is not listed in platform_capabilities'')) (hm_permissions m))
            @ push_if (hm_id m = ''home-event-rule-bridge'' \<or> hm_id m = ''ha-bridge'')
                ''HA Bridge is intentionally outside the first Harbor app batch''
      in \<lparr>rp_ok = (errors = []), rp_errors = errors, rp_warnings = warnings, rp_declared_capabilities = seen\<rparr>)"

section \<open>Paths and the registry\<close>

record harbor_app_path_roots =
  rt_compose_root :: string
  rt_data_root :: string
  rt_env_root :: string

record harbor_app_paths =
  pa_app_root :: string
  pa_compose_file :: string
  pa_manifest_file :: string
  pa_data_root :: string
  pa_env_file :: string

definition default_path_roots :: harbor_app_path_roots where
  "default_path_roots = \<lparr>rt_compose_root = DEFAULT_APP_COMPOSE_ROOT, rt_data_root = DEFAULT_APP_DATA_ROOT,
     rt_env_root = DEFAULT_APP_ENV_ROOT\<rparr>"

definition harbor_app_paths_of :: "string \<Rightarrow> harbor_app_path_roots \<Rightarrow> string + harbor_app_paths" where
  "harbor_app_paths_of app_id roots =
     (if \<not> is_safe_app_id app_id then Err ''unsafe app id''
      else let app_root = path_join (rt_compose_root roots) app_id in
        Ok \<lparr>pa_app_root = app_root, pa_compose_file = path_join app_root ''compose.yaml'',
            pa_manifest_file = path_join app_root ''app.manifest.yaml'',
            pa_data_root = path_join (rt_data_root roots) app_id,
            pa_env_file = path_join (rt_env_root roots) (app_id @ ''.env'')\<rparr>)"

record harbor_app_command_preview_snapshot =
  ps_program :: string
  ps_args :: "string list"
  ps_cwd :: "string option"
  ps_requires_approval :: bool
  ps_risk :: string
  ps_reason :: string

record harbor_app_execution_plan_snapshot =
  px_app_id :: string
  px_action :: string
  px_compose_project :: string
  px_route_prefixes :: "string list"
  px_exposure :: harbor_app_exposure
  px_audit_action :: string
  px_commands :: "harbor_app_command_preview_snapshot list"
  px_command_count :: nat
  px_requires_approval :: bool

datatype harbor_app_runtime_status = AppUnknown | AppRegistered | AppPlanReady | AppApprovalRequired | AppBlocked

record harbor_app_registry_entry =
  ae_app_id :: string
  ae_name :: string
  ae_version :: string
  ae_exposure :: harbor_app_exposure
  ae_manifest :: harbor_app_manifest
  ae_paths :: harbor_app_paths
  ae_declared_capabilities :: "string list"
  ae_status :: harbor_app_runtime_status
  ae_last_requested_action :: "string option"
  ae_last_execution_plan :: "harbor_app_execution_plan_snapshot option"
  ae_last_health_status :: "string option"
  ae_last_log_status :: "string option"
  ae_last_audit_id :: "string option"
  ae_registered_at :: string
  ae_updated_at :: string

definition build_harbor_app_registry_entry ::
  "harbor_app_manifest \<Rightarrow> harbor_app_path_roots \<Rightarrow> string \<Rightarrow> string
    \<Rightarrow> string + harbor_app_registry_entry \<times> harbor_app_validation_report" where
  "build_harbor_app_registry_entry m roots registered_at updated_at =
     (let validation = validate_app_manifest m in
      if \<not> rp_ok validation then Err (join ''; '' (rp_errors validation))
      else and_then (harbor_app_paths_of (hm_id m) roots) (\<lambda>paths.
        Ok (\<lparr>ae_app_id = hm_id m, ae_name = hm_name m, ae_version = hm_version m, ae_exposure = hm_exposure m,
             ae_manifest = m, ae_paths = paths, ae_declared_capabilities = rp_declared_capabilities validation,
             ae_status = AppRegistered, ae_last_requested_action = None, ae_last_execution_plan = None,
             ae_last_health_status = None, ae_last_log_status = None, ae_last_audit_id = None,
             ae_registered_at = registered_at, ae_updated_at = updated_at\<rparr>, validation)))"

definition refresh_entry ::
  "harbor_app_paths \<Rightarrow> string list \<Rightarrow> harbor_app_registry_entry \<Rightarrow> harbor_app_registry_entry" where
  "refresh_entry paths capabilities e =
     (let m = ae_manifest e;
          e1 = e\<lparr>ae_app_id := hm_id m, ae_name := hm_name m, ae_version := hm_version m, ae_exposure := hm_exposure m,
                 ae_paths := paths, ae_declared_capabilities := capabilities\<rparr>;
          e2 = (if blank (ae_registered_at e1) then e1\<lparr>ae_registered_at := ae_updated_at e1\<rparr> else e1)
      in if blank (ae_updated_at e2) then e2\<lparr>ae_updated_at := ae_registered_at e2\<rparr> else e2)"

fun sanitize_entries ::
  "harbor_app_path_roots \<Rightarrow> string list \<Rightarrow> harbor_app_registry_entry list \<Rightarrow> harbor_app_registry_entry list" where
  "sanitize_entries roots seen [] = []"
| "sanitize_entries roots seen (e # es) =
     (if ae_app_id e \<in> set seen then sanitize_entries roots seen es
      else
        let rest = sanitize_entries roots (ae_app_id e # seen) es;
            validation = validate_app_manifest (ae_manifest e)
        in if \<not> rp_ok validation then rest
           else case harbor_app_paths_of (hm_id (ae_manifest e)) roots of
             Inl _ \<Rightarrow> rest
           | Inr paths \<Rightarrow> refresh_entry paths (rp_declared_capabilities validation) e # rest)"

definition sanitize_harbor_app_registry ::
  "harbor_app_registry_entry list \<Rightarrow> harbor_app_path_roots \<Rightarrow> harbor_app_registry_entry list" where
  "sanitize_harbor_app_registry entries roots = sanitize_entries roots [] entries"

text \<open>\<open>loaded\<close> is the list of apps in the state that was loaded, or the error; \<open>save\<close> writes the changed list.\<close>

definition upsert_harbor_app ::
  "(string + harbor_app_registry_entry list) \<Rightarrow> (harbor_app_registry_entry list \<Rightarrow> string + unit)
    \<Rightarrow> harbor_app_registry_entry \<Rightarrow> string + harbor_app_registry_entry" where
  "upsert_harbor_app loaded save entry =
     and_then loaded (\<lambda>apps.
       let same = (\<lambda>e. ae_app_id e = ae_app_id entry);
           entry1 = (case find same apps of None \<Rightarrow> entry | Some e \<Rightarrow> entry\<lparr>ae_registered_at := ae_registered_at e\<rparr>);
           apps1 = (if list_ex same apps then update_first same (\<lambda>_. entry1) apps else apps @ [entry1])
       in and_then (save apps1) (\<lambda>_. Ok entry1))"

definition change_harbor_app ::
  "(string + harbor_app_registry_entry list) \<Rightarrow> (harbor_app_registry_entry list \<Rightarrow> string + unit)
    \<Rightarrow> string \<Rightarrow> (harbor_app_registry_entry \<Rightarrow> harbor_app_registry_entry) \<Rightarrow> string + harbor_app_registry_entry" where
  "change_harbor_app loaded save app_id g =
     and_then loaded (\<lambda>apps.
       case find (\<lambda>e. ae_app_id e = app_id) apps of
         None \<Rightarrow> Err (''Harbor app '' @ app_id @ '' is not registered'')
       | Some e \<Rightarrow> and_then (save (update_first (\<lambda>e. ae_app_id e = app_id) g apps)) (\<lambda>_. Ok (g e)))"

definition record_harbor_app_plan ::
  "(string + harbor_app_registry_entry list) \<Rightarrow> (harbor_app_registry_entry list \<Rightarrow> string + unit) \<Rightarrow> string
    \<Rightarrow> harbor_app_runtime_status \<Rightarrow> string \<Rightarrow> harbor_app_execution_plan_snapshot \<Rightarrow> string option \<Rightarrow> string
    \<Rightarrow> string + harbor_app_registry_entry" where
  "record_harbor_app_plan loaded save app_id status requested_action plan audit_id updated_at =
     change_harbor_app loaded save app_id (\<lambda>e. e\<lparr>ae_status := status,
       ae_last_requested_action := Some requested_action, ae_last_execution_plan := Some plan,
       ae_last_audit_id := audit_id, ae_updated_at := updated_at\<rparr>)"

definition exposed_entry ::
  "harbor_app_exposure \<Rightarrow> harbor_app_runtime_status \<Rightarrow> harbor_app_execution_plan_snapshot \<Rightarrow> string option \<Rightarrow> string
    \<Rightarrow> harbor_app_registry_entry \<Rightarrow> harbor_app_registry_entry" where
  "exposed_entry exposure status plan audit_id updated_at e =
     e\<lparr>ae_exposure := exposure, ae_manifest := (ae_manifest e)\<lparr>hm_exposure := exposure\<rparr>, ae_status := status,
       ae_last_requested_action := Some ''exposure'', ae_last_execution_plan := Some plan,
       ae_last_audit_id := audit_id, ae_updated_at := updated_at\<rparr>"

definition update_harbor_app_exposure ::
  "(string + harbor_app_registry_entry list) \<Rightarrow> (harbor_app_registry_entry list \<Rightarrow> string + unit) \<Rightarrow> string
    \<Rightarrow> harbor_app_exposure \<Rightarrow> harbor_app_runtime_status \<Rightarrow> harbor_app_execution_plan_snapshot \<Rightarrow> string option
    \<Rightarrow> string \<Rightarrow> string + harbor_app_registry_entry" where
  "update_harbor_app_exposure loaded save app_id exposure status plan audit_id updated_at =
     change_harbor_app loaded save app_id (exposed_entry exposure status plan audit_id updated_at)"

section \<open>Execution plans\<close>

datatype harbor_app_lifecycle_action =
    Install | Start | Stop | Restart | Health | Logs | EnableExposure | DisableExposure

datatype harbor_app_command_risk = CmdReadOnly | CmdMedium | CmdHigh

record harbor_app_executor_config =
  ec_roots :: harbor_app_path_roots
  ec_compose_project_prefix :: string
  ec_log_tail_lines :: u16

record harbor_app_command_preview =
  hc_program :: string
  hc_args :: "string list"
  hc_cwd :: "string option"
  hc_requires_approval :: bool
  hc_risk :: harbor_app_command_risk
  hc_reason :: string

record harbor_app_execution_plan =
  ep_app_id :: string
  ep_action :: harbor_app_lifecycle_action
  ep_paths :: harbor_app_paths
  ep_compose_project :: string
  ep_commands :: "harbor_app_command_preview list"
  ep_route_prefixes :: "string list"
  ep_exposure :: harbor_app_exposure
  ep_audit_action :: string

definition default_executor_config :: harbor_app_executor_config where
  "default_executor_config = \<lparr>ec_roots = default_path_roots, ec_compose_project_prefix = ''harbor'', ec_log_tail_lines = 200\<rparr>"

definition manager_preview ::
  "string \<Rightarrow> string list \<Rightarrow> string option \<Rightarrow> bool \<Rightarrow> harbor_app_command_risk \<Rightarrow> string \<Rightarrow> harbor_app_command_preview" where
  "manager_preview program args cwd requires_approval risk reason =
     \<lparr>hc_program = program, hc_args = args, hc_cwd = cwd, hc_requires_approval = requires_approval, hc_risk = risk,
      hc_reason = reason\<rparr>"

definition compose_preview ::
  "harbor_app_paths \<Rightarrow> string \<Rightarrow> string list \<Rightarrow> bool \<Rightarrow> harbor_app_command_risk \<Rightarrow> string \<Rightarrow> harbor_app_command_preview" where
  "compose_preview paths compose_project compose_args requires_approval risk reason =
     manager_preview ''docker''
       ([''compose'', ''-f'', pa_compose_file paths, ''--project-name'', compose_project] @ compose_args)
       (Some (pa_app_root paths)) requires_approval risk reason"

definition build_command_previews ::
  "harbor_app_manifest \<Rightarrow> harbor_app_lifecycle_action \<Rightarrow> harbor_app_paths \<Rightarrow> string \<Rightarrow> harbor_app_executor_config
    \<Rightarrow> harbor_app_command_preview list" where
  "build_command_previews m act paths compose_project config =
     (case act of
        Install \<Rightarrow>
          [manager_preview ''harbor-app-manager''
             [''render-compose'', ''--app'', hm_id m, ''--manifest'', pa_manifest_file paths, ''--output'', pa_compose_file paths]
             None True CmdMedium ''render managed compose and route metadata'',
           compose_preview paths compose_project [''up'', ''-d''] True CmdMedium ''start app through managed Docker Compose'']
      | Start \<Rightarrow> [compose_preview paths compose_project [''up'', ''-d''] True CmdMedium
          ''start app through managed Docker Compose'']
      | Stop \<Rightarrow> [compose_preview paths compose_project [''down''] True CmdMedium ''stop only this app compose project'']
      | Restart \<Rightarrow> [compose_preview paths compose_project [''restart''] True CmdMedium
          ''restart only this app compose project'']
      | Health \<Rightarrow> [compose_preview paths compose_project [''ps'', ''--format'', ''json''] False CmdReadOnly
          ''inspect app compose status'']
      | Logs \<Rightarrow> [compose_preview paths compose_project [''logs'', ''--tail'', show_nat (unat (ec_log_tail_lines config))]
          False CmdReadOnly ''read bounded recent app logs'']
      | EnableExposure \<Rightarrow> [manager_preview ''harbor-app-manager'' [''exposure'', ''enable'', ''--app'', hm_id m] None True CmdHigh
          ''enable app route outside the default local scope'']
      | DisableExposure \<Rightarrow> [manager_preview ''harbor-app-manager'' [''exposure'', ''disable'', ''--app'', hm_id m] None False
          CmdReadOnly ''disable optional app tunnel exposure''])"

fun audit_action_for :: "harbor_app_lifecycle_action \<Rightarrow> string" where
  "audit_action_for Install = ''harbor_app.install.plan''"
| "audit_action_for Start = ''harbor_app.start.plan''"
| "audit_action_for Stop = ''harbor_app.stop.plan''"
| "audit_action_for Restart = ''harbor_app.restart.plan''"
| "audit_action_for Health = ''harbor_app.health.inspect''"
| "audit_action_for Logs = ''harbor_app.logs.inspect''"
| "audit_action_for EnableExposure = ''harbor_app.exposure.enable.plan''"
| "audit_action_for DisableExposure = ''harbor_app.exposure.disable.plan''"

fun lifecycle_action_label :: "harbor_app_lifecycle_action \<Rightarrow> string" where
  "lifecycle_action_label Install = ''install''"
| "lifecycle_action_label Start = ''start''"
| "lifecycle_action_label Stop = ''stop''"
| "lifecycle_action_label Restart = ''restart''"
| "lifecycle_action_label Health = ''health''"
| "lifecycle_action_label Logs = ''logs''"
| "lifecycle_action_label EnableExposure = ''enable_exposure''"
| "lifecycle_action_label DisableExposure = ''disable_exposure''"

fun command_risk_label :: "harbor_app_command_risk \<Rightarrow> string" where
  "command_risk_label CmdReadOnly = ''read_only''"
| "command_risk_label CmdMedium = ''medium''"
| "command_risk_label CmdHigh = ''high''"

definition build_harbor_app_execution_plan ::
  "harbor_app_manifest \<Rightarrow> harbor_app_lifecycle_action \<Rightarrow> harbor_app_executor_config \<Rightarrow> string + harbor_app_execution_plan" where
  "build_harbor_app_execution_plan m act config =
     (let validation = validate_app_manifest m in
      if \<not> rp_ok validation then Err (join ''; '' (rp_errors validation))
      else and_then (harbor_app_paths_of (hm_id m) (ec_roots config)) (\<lambda>paths.
        let compose_project = ec_compose_project_prefix config @ ''-'' @ hm_id m in
        Ok \<lparr>ep_app_id = hm_id m, ep_action = act, ep_paths = paths, ep_compose_project = compose_project,
            ep_commands = build_command_previews m act paths compose_project config,
            ep_route_prefixes = map hr_path_prefix (hm_routes m), ep_exposure = hm_exposure m,
            ep_audit_action = audit_action_for act\<rparr>))"

definition preview_snapshot :: "harbor_app_command_preview \<Rightarrow> harbor_app_command_preview_snapshot" where
  "preview_snapshot c = \<lparr>ps_program = hc_program c, ps_args = hc_args c, ps_cwd = hc_cwd c,
     ps_requires_approval = hc_requires_approval c, ps_risk = command_risk_label (hc_risk c), ps_reason = hc_reason c\<rparr>"

definition harbor_app_execution_plan_snapshot_of :: "harbor_app_execution_plan \<Rightarrow> harbor_app_execution_plan_snapshot" where
  "harbor_app_execution_plan_snapshot_of plan =
     (let commands = map preview_snapshot (ep_commands plan) in
      \<lparr>px_app_id = ep_app_id plan, px_action = lifecycle_action_label (ep_action plan),
       px_compose_project = ep_compose_project plan, px_route_prefixes = ep_route_prefixes plan,
       px_exposure = ep_exposure plan, px_audit_action = ep_audit_action plan, px_commands = commands,
       px_command_count = length commands, px_requires_approval = list_ex ps_requires_approval commands\<rparr>)"

section \<open>What validation promises\<close>

definition route_ok :: "string \<Rightarrow> harbor_app_route \<Rightarrow> bool" where
  "route_ok app_id r \<longleftrightarrow> (\<exists>rest. hr_path_prefix r = ''/apps/'' @ app_id @ ''/'' @ rest) \<and> hr_service_port r \<noteq> 0"

definition manifest_ok :: "harbor_app_manifest \<Rightarrow> bool" where
  "manifest_ok m \<longleftrightarrow> hm_contract m = HARBOR_APP_CONTRACT_VERSION \<and> is_safe_app_id (hm_id m) \<and>
     \<not> blank (hm_name m) \<and> \<not> blank (hm_version m) \<and> (hm_image m = None) \<noteq> (hm_build m = None) \<and>
     (hm_exposure m \<noteq> ExposureNone \<longrightarrow> hm_routes m \<noteq> []) \<and> (\<forall>r\<in>set (hm_routes m). route_ok (hm_id m) r) \<and>
     prefix ''/'' (hh_path (hm_health m)) \<and> hh_port (hm_health m) \<noteq> 0 \<and>
     (\<forall>c\<in>set (hm_platform_capabilities m). c \<noteq> ''*'' \<and> \<not> is_forbidden_capability c) \<and>
     (\<forall>p\<in>set (hm_permissions m). \<not> is_forbidden_capability (hp_capability p)) \<and>
     (\<forall>v\<in>set (hm_volumes m). is_safe_volume_mount (hv_mount_path v))"

lemma push_if_Nil [simp]: "push_if b s = [] \<longleftrightarrow> \<not> b"
  by (simp add: push_if_def)

lemma route_errors_Nil [simp]: "route_errors (''/apps/'' @ i @ ''/'') r = [] \<longleftrightarrow> route_ok i r"
  by (auto simp: route_errors_def route_ok_def starts_with_def prefix_def)

lemma capability_errors_Nil [simp]: "capability_errors c = [] \<longleftrightarrow> c \<noteq> ''*'' \<and> \<not> is_forbidden_capability c"
  by (auto simp: capability_errors_def)

lemma validate_app_manifest_iff: "rp_ok (validate_app_manifest m) \<longleftrightarrow> manifest_ok m"
proof -
  have img: "(case (hm_image m, hm_build m) of (Some _, Some _) \<Rightarrow> [''only one of image or build may be set'']
      | (None, None) \<Rightarrow> [''one of image or build is required''] | _ \<Rightarrow> []) = []
      \<longleftrightarrow> (hm_image m = None) \<noteq> (hm_build m = None)"
    by (simp split: option.splits)
  show ?thesis
    by (simp only: validate_app_manifest_def Let_def harbor_app_validation_report.simps append_is_Nil_conv concat_eq_Nil_conv
        set_map ball_simps push_if_Nil route_errors_Nil capability_errors_Nil img manifest_ok_def starts_with_def)
      (auto simp del: append_Cons)
qed

lemma rp_declared: "rp_declared_capabilities (validate_app_manifest m) = btree_set (hm_platform_capabilities m)"
  by (simp add: validate_app_manifest_def Let_def)

lemma rp_ok_errors: "rp_ok (validate_app_manifest m) \<longleftrightarrow> rp_errors (validate_app_manifest m) = []"
  by (simp add: validate_app_manifest_def Let_def)

lemma safe_app_id_chars:
  assumes "is_safe_app_id i"
  shows "i \<noteq> []" "CHR ''/'' \<notin> set i" "CHR ''.'' \<notin> set i"
  using assms by (auto simp: is_safe_app_id_def list_all_iff app_id_byte_def is_ascii_lowercase_def is_ascii_digit_def)

lemma path_join_plain:
  assumes "dir \<noteq> []" "\<not> ends_with dir ''/''" "name \<noteq> []" "CHR ''/'' \<notin> set name"
  shows "path_join dir name = dir @ ''/'' @ name"
  using assms by (cases name) (auto simp: path_join_def starts_with_def)

definition root_ok :: "string \<Rightarrow> bool" where
  "root_ok dir \<longleftrightarrow> dir \<noteq> [] \<and> \<not> ends_with dir ''/''"

definition roots_ok :: "harbor_app_path_roots \<Rightarrow> bool" where
  "roots_ok roots \<longleftrightarrow> root_ok (rt_compose_root roots) \<and> root_ok (rt_data_root roots) \<and> root_ok (rt_env_root roots)"

definition paths_under :: "harbor_app_path_roots \<Rightarrow> string \<Rightarrow> harbor_app_paths" where
  "paths_under roots i = \<lparr>pa_app_root = rt_compose_root roots @ ''/'' @ i,
     pa_compose_file = rt_compose_root roots @ ''/'' @ i @ ''/compose.yaml'',
     pa_manifest_file = rt_compose_root roots @ ''/'' @ i @ ''/app.manifest.yaml'',
     pa_data_root = rt_data_root roots @ ''/'' @ i, pa_env_file = rt_env_root roots @ ''/'' @ i @ ''.env''\<rparr>"

lemma ends_with_tail: "i \<noteq> [] \<Longrightarrow> CHR ''/'' \<notin> set i \<Longrightarrow> \<not> ends_with (d @ i) ''/''"
  by (cases i rule: rev_cases) (auto simp: ends_with_def suffix_def)

lemma harbor_app_paths_of_Ok:
  assumes "is_safe_app_id i" "roots_ok roots"
  shows "harbor_app_paths_of i roots = Ok (paths_under roots i)"
proof -
  have root: "path_join d (i @ x) = d @ ''/'' @ i @ x" if "root_ok d" "CHR ''/'' \<notin> set x" for d x
    using that safe_app_id_chars [OF assms(1)] by (intro path_join_plain) (auto simp: root_ok_def)
  have app: "path_join (d @ ''/'' @ i) n = d @ ''/'' @ i @ ''/'' @ n" if "n \<noteq> []" "CHR ''/'' \<notin> set n" for d n
    using that safe_app_id_chars [OF assms(1)] ends_with_tail [of i "d @ ''/''"]
      path_join_plain [of "d @ ''/'' @ i" n] by simp
  show ?thesis
    using assms root [of _ "[]"] root [of "rt_env_root roots" "''.env''"] app
    by (simp add: harbor_app_paths_of_def paths_under_def roots_ok_def Let_def)
qed

lemma build_entry_Ok_iff:
  assumes "roots_ok roots"
  shows "build_harbor_app_registry_entry m roots r u = Ok (e, v) \<longleftrightarrow> manifest_ok m \<and> v = validate_app_manifest m \<and>
    e = \<lparr>ae_app_id = hm_id m, ae_name = hm_name m, ae_version = hm_version m, ae_exposure = hm_exposure m,
         ae_manifest = m, ae_paths = paths_under roots (hm_id m),
         ae_declared_capabilities = btree_set (hm_platform_capabilities m),
         ae_status = AppRegistered, ae_last_requested_action = None, ae_last_execution_plan = None,
         ae_last_health_status = None, ae_last_log_status = None, ae_last_audit_id = None,
         ae_registered_at = r, ae_updated_at = u\<rparr>"
  using assms harbor_app_paths_of_Ok [of "hm_id m" roots]
  by (auto simp: build_harbor_app_registry_entry_def Let_def validate_app_manifest_iff rp_declared manifest_ok_def)

text \<open>
  C30. An app is registered exactly when its manifest passes every rule, and a registered app stays in its own scope:
  its id has no path separator and no dot, so its compose, data and environment paths lie directly under the three
  roots; every route lies under \<open>/apps/<id>/\<close>; none of its declared capabilities and permissions is a forbidden one,
  and no capability is the wildcard; a route exists when the app is exposed. A refused manifest gives the joined errors.
\<close>

theorem registered_app_stays_in_scope:
  assumes "roots_ok roots"
  shows "case build_harbor_app_registry_entry m roots r u of
      Inl msg \<Rightarrow> \<not> manifest_ok m \<and> rp_errors (validate_app_manifest m) \<noteq> [] \<and>
        msg = join ''; '' (rp_errors (validate_app_manifest m))
    | Inr (e, v) \<Rightarrow> manifest_ok m \<and> rp_errors v = [] \<and> ae_app_id e = hm_id m \<and> ae_manifest e = m \<and>
        CHR ''/'' \<notin> set (ae_app_id e) \<and> CHR ''.'' \<notin> set (ae_app_id e) \<and> ae_paths e = paths_under roots (ae_app_id e) \<and>
        list_all (\<lambda>t. prefix (''/apps/'' @ ae_app_id e @ ''/'') (hr_path_prefix t)) (hm_routes (ae_manifest e)) \<and>
        list_all (\<lambda>c. c \<noteq> ''*'' \<and> \<not> is_forbidden_capability c) (ae_declared_capabilities e) \<and>
        list_all (\<lambda>p. \<not> is_forbidden_capability (hp_capability p)) (hm_permissions (ae_manifest e)) \<and>
        (hm_routes (ae_manifest e) = [] \<longrightarrow> ae_exposure e = ExposureNone)"
proof (cases "build_harbor_app_registry_entry m roots r u")
  case (Inl msg)
  then have "\<not> manifest_ok m" using build_entry_Ok_iff [OF assms, of m r u] by force
  with Inl show ?thesis
    using rp_ok_errors [of m] by (simp add: build_harbor_app_registry_entry_def Let_def validate_app_manifest_iff)
next
  case (Inr ev)
  obtain e v where ev: "ev = (e, v)" by (cases ev)
  from Inr have ok: "manifest_ok m" "v = validate_app_manifest m" and e: "ae_app_id e = hm_id m" "ae_manifest e = m"
    "ae_paths e = paths_under roots (hm_id m)" "ae_declared_capabilities e = btree_set (hm_platform_capabilities m)"
    "ae_exposure e = hm_exposure m"
    by (auto simp: ev build_entry_Ok_iff [OF assms])
  then have "rp_errors v = []" using rp_ok_errors [of m] validate_app_manifest_iff by simp
  moreover from ok have "is_safe_app_id (hm_id m)" by (simp add: manifest_ok_def)
  ultimately show ?thesis
    using ok(1) by (auto simp: Inr ev e safe_app_id_chars list_all_iff manifest_ok_def route_ok_def prefix_def)
qed

section \<open>The registry after sanitising\<close>

definition canonical_entry :: "harbor_app_path_roots \<Rightarrow> harbor_app_registry_entry \<Rightarrow> bool" where
  "canonical_entry roots e \<longleftrightarrow> (let m = ae_manifest e in manifest_ok m \<and> ae_app_id e = hm_id m \<and> ae_name e = hm_name m \<and>
     ae_version e = hm_version m \<and> ae_exposure e = hm_exposure m \<and> ae_paths e = paths_under roots (hm_id m) \<and>
     ae_declared_capabilities e = btree_set (hm_platform_capabilities m))"

definition own_ids :: "harbor_app_registry_entry list \<Rightarrow> bool" where
  "own_ids es \<longleftrightarrow> list_all (\<lambda>e. ae_app_id e = hm_id (ae_manifest e)) es"

definition refreshed :: "harbor_app_path_roots \<Rightarrow> harbor_app_registry_entry \<Rightarrow> harbor_app_registry_entry" where
  "refreshed roots e = refresh_entry (paths_under roots (hm_id (ae_manifest e)))
     (btree_set (hm_platform_capabilities (ae_manifest e))) e"

lemma refreshed_fields [simp]:
  "ae_manifest (refreshed roots e) = ae_manifest e" "ae_app_id (refreshed roots e) = hm_id (ae_manifest e)"
  by (simp_all add: refreshed_def refresh_entry_def Let_def)

lemma refreshed_canonical: "manifest_ok (ae_manifest e) \<Longrightarrow> canonical_entry roots (refreshed roots e)"
  by (simp add: canonical_entry_def refreshed_def refresh_entry_def Let_def)

lemma refreshed_idem: "refreshed roots (refreshed roots e) = refreshed roots e"
proof -
  let ?p = "paths_under roots (hm_id (ae_manifest e))" and ?c = "btree_set (hm_platform_capabilities (ae_manifest e))"
  have m: "ae_manifest (refresh_entry ?p ?c e) = ae_manifest e" by (simp add: refresh_entry_def Let_def)
  have "refresh_entry ?p ?c (refresh_entry ?p ?c e) = refresh_entry ?p ?c e"
    by (cases e) (auto simp: refresh_entry_def Let_def)
  then show ?thesis by (simp add: refreshed_def m)
qed

lemma sanitize_Cons:
  assumes "roots_ok roots"
  shows "sanitize_entries roots seen (e # es) =
    (if ae_app_id e \<in> set seen then sanitize_entries roots seen es
     else (if manifest_ok (ae_manifest e) then [refreshed roots e] else []) @
       sanitize_entries roots (ae_app_id e # seen) es)"
  using harbor_app_paths_of_Ok [of "hm_id (ae_manifest e)" roots] assms
  by (simp add: Let_def validate_app_manifest_iff rp_declared refreshed_def manifest_ok_def)

declare sanitize_entries.simps(2) [simp del]

lemma sanitize_canonical: "roots_ok roots \<Longrightarrow> list_all (canonical_entry roots) (sanitize_entries roots seen es)"
  by (induction es arbitrary: seen) (auto simp: sanitize_Cons refreshed_canonical)

lemma sanitize_ids:
  assumes "roots_ok roots" "own_ids es"
  shows "ae_app_id ` set (sanitize_entries roots seen es) \<subseteq> ae_app_id ` set es - set seen \<and>
    distinct (map ae_app_id (sanitize_entries roots seen es))"
  using assms(2)
proof (induction es arbitrary: seen)
  case (Cons e es)
  then have own: "own_ids es" "hm_id (ae_manifest e) = ae_app_id e" by (simp_all add: own_ids_def)
  show ?case
    using Cons.IH [OF own(1), of seen] Cons.IH [OF own(1), of "ae_app_id e # seen"] own(2)
    by (cases "ae_app_id e \<in> set seen"; cases "manifest_ok (ae_manifest e)") (auto simp: sanitize_Cons [OF assms(1)])
qed simp

lemma sanitize_fixpoint:
  assumes "roots_ok roots" "distinct (map ae_app_id es)" "ae_app_id ` set es \<inter> set seen = {}"
    and "list_all (\<lambda>e. manifest_ok (ae_manifest e) \<and> refreshed roots e = e) es"
  shows "sanitize_entries roots seen es = es"
  using assms(2-) by (induction es arbitrary: seen) (auto simp: sanitize_Cons [OF assms(1)])

lemma sanitize_refreshed:
  "roots_ok roots \<Longrightarrow> list_all (\<lambda>e. manifest_ok (ae_manifest e) \<and> refreshed roots e = e) (sanitize_entries roots seen es)"
  by (induction es arbitrary: seen) (auto simp: sanitize_Cons refreshed_idem)

lemma sanitize_keeps:
  assumes "roots_ok roots" "distinct (map ae_app_id es)" "e \<in> set es" "manifest_ok (ae_manifest e)" "ae_app_id e \<notin> set seen"
  shows "refreshed roots e \<in> set (sanitize_entries roots seen es)"
  using assms(2-)
proof (induction es arbitrary: seen)
  case (Cons a es)
  show ?case
  proof (cases "a = e")
    case True
    with Cons.prems show ?thesis by (simp add: sanitize_Cons [OF assms(1)])
  next
    case False
    with Cons.prems have "ae_app_id a \<noteq> ae_app_id e" by auto
    with Cons False show ?thesis by (simp add: sanitize_Cons [OF assms(1)])
  qed
qed simp

lemma sanitize_origin:
  assumes "roots_ok roots" "x \<in> set (sanitize_entries roots seen es)"
  shows "\<exists>e\<in>set es. manifest_ok (ae_manifest e) \<and> x = refreshed roots e"
  using assms(2) by (induction es arbitrary: seen) (auto simp: sanitize_Cons [OF assms(1)] split: if_splits)

text \<open>
  Sanitising the app registry leaves only entries whose manifest is valid and whose id, name, version, exposure,
  paths and capabilities are those of that manifest. When every stored id is the id of its manifest, the result has one
  entry per id and sanitising it again changes nothing; when the stored ids are also distinct, no valid app is lost.
\<close>

theorem sanitized_registry_is_canonical:
  assumes "roots_ok roots"
  shows "list_all (canonical_entry roots) (sanitize_harbor_app_registry es roots) \<and>
    (own_ids es \<longrightarrow> distinct (map ae_app_id (sanitize_harbor_app_registry es roots)) \<and>
      sanitize_harbor_app_registry (sanitize_harbor_app_registry es roots) roots = sanitize_harbor_app_registry es roots \<and>
      (distinct (map ae_app_id es) \<longrightarrow>
        ae_app_id ` set (sanitize_harbor_app_registry es roots) = {ae_app_id e | e. e \<in> set es \<and> manifest_ok (ae_manifest e)}))"
proof (intro conjI impI)
  let ?s = "sanitize_harbor_app_registry es roots"
  show can: "list_all (canonical_entry roots) ?s"
    using sanitize_canonical [OF assms] by (simp add: sanitize_harbor_app_registry_def)
  assume own: "own_ids es"
  show d: "distinct (map ae_app_id ?s)"
    using sanitize_ids [OF assms own] by (simp add: sanitize_harbor_app_registry_def)
  show "sanitize_harbor_app_registry ?s roots = ?s"
    using sanitize_fixpoint [OF assms d, of "[]"] sanitize_refreshed [OF assms]
    by (simp add: sanitize_harbor_app_registry_def)
  assume de: "distinct (map ae_app_id es)"
  let ?v = "{e \<in> set es. manifest_ok (ae_manifest e)}"
  have "set ?s = refreshed roots ` ?v"
    using sanitize_origin [OF assms, of _ "[]" es] sanitize_keeps [OF assms de, of _ "[]"]
    by (auto simp: sanitize_harbor_app_registry_def)
  then have "ae_app_id ` set ?s = (\<lambda>e. ae_app_id (refreshed roots e)) ` ?v" by (simp add: image_image)
  also have "\<dots> = ae_app_id ` ?v" using own by (intro image_cong) (simp_all add: own_ids_def list_all_iff)
  finally show "ae_app_id ` set ?s = {ae_app_id e | e. e \<in> set es \<and> manifest_ok (ae_manifest e)}" by blast
qed

section \<open>Registry operations and execution plans\<close>

text \<open>
  Registering an app is an upsert by id: the saved list finds the new entry under its id (with the registration
  time of the entry it replaces, if there was one) and every other app as before, the ids stay distinct, and only an
  unknown id adds an entry. Nothing is returned unless the state loads and the changed list is saved.
\<close>

theorem upserted_app_reads_back:
  "case upsert_harbor_app (Ok apps) save entry of
     Inl err \<Rightarrow> (\<exists>apps'. save apps' = Err err)
   | Inr stored \<Rightarrow> \<exists>apps'. save apps' = Ok () \<and> ae_app_id stored = ae_app_id entry \<and>
       find (\<lambda>e. ae_app_id e = ae_app_id entry) apps' = Some stored \<and>
       (\<forall>i. i = ae_app_id entry \<or> find (\<lambda>e. ae_app_id e = i) apps' = find (\<lambda>e. ae_app_id e = i) apps) \<and>
       ae_registered_at stored = (case find (\<lambda>e. ae_app_id e = ae_app_id entry) apps of
         None \<Rightarrow> ae_registered_at entry | Some old \<Rightarrow> ae_registered_at old) \<and>
       distinct (map ae_app_id apps') = distinct (map ae_app_id apps) \<and>
       length apps' = length apps + (if ae_app_id entry \<in> ae_app_id ` set apps then 0 else 1)"
proof -
  let ?i = "ae_app_id entry"
  let ?same = "\<lambda>e. ae_app_id e = ?i"
  define stored where "stored = (case find ?same apps of None \<Rightarrow> entry | Some e \<Rightarrow> entry\<lparr>ae_registered_at := ae_registered_at e\<rparr>)"
  define apps' where "apps' = (if list_ex ?same apps then update_first ?same (\<lambda>_. stored) apps else apps @ [stored])"
  have res: "upsert_harbor_app (Ok apps) save entry = and_then (save apps') (\<lambda>_. Ok stored)"
    by (simp add: upsert_harbor_app_def Let_def stored_def apps'_def)
  have i: "ae_app_id stored = ?i" by (simp add: stored_def split: option.split)
  let ?g = "\<lambda>e. if ae_app_id e = ?i then stored else e"
  have g: "ae_app_id (?g e) = ae_app_id e" for e by (simp add: i)
  have f: "find (\<lambda>e. ae_app_id e = j) apps' = (if j = ?i then Some stored else find (\<lambda>e. ae_app_id e = j) apps)" for j
  proof (cases "find ?same apps")
    case None
    then show ?thesis by (simp add: apps'_def list_ex_find find_append_single i split: option.split)
  next
    case (Some e)
    then have "ae_app_id e = ?i" by (auto simp: find_Some_iff)
    with Some show ?thesis
      by (simp add: apps'_def list_ex_find update_first_const [of ae_app_id ?i stored] update_first_find [of ae_app_id ?g, OF g])
  qed
  have ex: "list_ex ?same apps \<longleftrightarrow> ?i \<in> ae_app_id ` set apps" unfolding list_ex_iff image_iff by metis
  have d: "distinct (map ae_app_id apps') = distinct (map ae_app_id apps)"
    "length apps' = length apps + (if ?i \<in> ae_app_id ` set apps then 0 else 1)"
    using ex by (auto simp: apps'_def update_first_const [of ae_app_id ?i stored] update_first_ids [of ae_app_id ?g, OF g] i)
  have r: "ae_registered_at stored = (case find ?same apps of None \<Rightarrow> ae_registered_at entry | Some old \<Rightarrow> ae_registered_at old)"
    by (simp add: stored_def split: option.split)
  show ?thesis
  proof (cases "save apps'")
    case (Inl err)
    then show ?thesis using res by auto
  next
    case (Inr u)
    then have "save apps' = Ok ()" by simp
    moreover have "\<forall>j. j = ?i \<or> find (\<lambda>e. ae_app_id e = j) apps' = find (\<lambda>e. ae_app_id e = j) apps" "find ?same apps' = Some stored"
      using f by simp_all
    ultimately show ?thesis using res d r i by (simp only: and_then_simps sum.case) blast
  qed
qed

text \<open>
  Exposing an app that has no route takes it out of the registry: the change is accepted and saved, but the saved
  manifest no longer passes validation, so the next sanitising of the state (which every load and save performs) has
  no entry with that id.
\<close>

theorem exposure_without_routes_drops_app:
  assumes "roots_ok roots" "own_ids apps" "find (\<lambda>e. ae_app_id e = i) apps = Some e"
    and "hm_routes (ae_manifest e) = []" "exposure \<noteq> ExposureNone"
  shows "update_harbor_app_exposure (Ok apps) save i exposure status plan audit_id now =
      and_then (save (update_first (\<lambda>e. ae_app_id e = i) (exposed_entry exposure status plan audit_id now) apps))
        (\<lambda>_. Ok (exposed_entry exposure status plan audit_id now e)) \<and>
    i \<notin> ae_app_id ` set (sanitize_harbor_app_registry
        (update_first (\<lambda>e. ae_app_id e = i) (exposed_entry exposure status plan audit_id now) apps) roots)"
proof
  let ?g = "exposed_entry exposure status plan audit_id now"
  show "update_harbor_app_exposure (Ok apps) save i exposure status plan audit_id now =
      and_then (save (update_first (\<lambda>e. ae_app_id e = i) ?g apps)) (\<lambda>_. Ok (?g e))"
    using assms(3) by (simp add: update_harbor_app_exposure_def change_harbor_app_def)
  have bad: "\<not> manifest_ok (ae_manifest (?g e))" using assms(4,5) by (simp add: exposed_entry_def manifest_ok_def)
  have ids: "ae_app_id (?g x) = ae_app_id x" "hm_id (ae_manifest (?g x)) = hm_id (ae_manifest x)" for x
    by (simp_all add: exposed_entry_def)
  have seen: "i \<in> set seen \<Longrightarrow> own_ids es \<Longrightarrow> i \<notin> ae_app_id ` set (sanitize_entries roots seen es)" for seen es
    using sanitize_ids [OF assms(1), of es seen] by auto
  have "i \<notin> set seen \<Longrightarrow> i \<notin> ae_app_id ` set (sanitize_entries roots seen (update_first (\<lambda>e. ae_app_id e = i) ?g apps))" for seen
    using assms(2,3)
  proof (induction apps arbitrary: seen)
    case (Cons a es)
    show ?case
    proof (cases "ae_app_id a = i")
      case True
      then show ?thesis using Cons.prems bad ids seen [of "i # seen" es] by (simp add: sanitize_Cons [OF assms(1)] own_ids_def)
    next
      case False
      then show ?thesis
        using Cons.prems Cons.IH [of seen] Cons.IH [of "ae_app_id a # seen"]
        by (auto simp: sanitize_Cons [OF assms(1)] own_ids_def)
    qed
  qed simp
  then show "i \<notin> ae_app_id ` set (sanitize_harbor_app_registry (update_first (\<lambda>e. ae_app_id e = i) ?g apps) roots)"
    by (simp add: sanitize_harbor_app_registry_def)
qed

text \<open>
  The commands that may be run for an app, with all their arguments: five tasks of \<^verbatim>\<open>docker compose\<close> in the directory,
  on the compose file and under the project of the app, the rendering of the app's manifest into its compose file, and
  the switching of its exposure.
\<close>

definition command_in_scope ::
  "harbor_app_paths \<Rightarrow> string \<Rightarrow> string \<Rightarrow> nat \<Rightarrow> harbor_app_command_preview \<Rightarrow> bool" where
  "command_in_scope paths project app_id lines c \<longleftrightarrow>
     (hc_program c = ''docker'' \<and> hc_cwd c = Some (pa_app_root paths) \<and>
        (\<exists>task \<in> {[''up'', ''-d''], [''down''], [''restart''], [''ps'', ''--format'', ''json''], [''logs'', ''--tail'', show_nat lines]}.
           hc_args c = [''compose'', ''-f'', pa_compose_file paths, ''--project-name'', project] @ task)) \<or>
     (hc_program c = ''harbor-app-manager'' \<and> hc_cwd c = None \<and>
        hc_args c \<in> {[''render-compose'', ''--app'', app_id, ''--manifest'', pa_manifest_file paths, ''--output'', pa_compose_file paths],
          [''exposure'', ''enable'', ''--app'', app_id], [''exposure'', ''disable'', ''--app'', app_id]})"

text \<open>The commands that change nothing, and the one that closes the exposure of an app.\<close>

definition only_inspects :: "harbor_app_command_preview \<Rightarrow> bool" where
  "only_inspects c \<longleftrightarrow> hc_program c = ''docker'' \<and> take 1 (drop 5 (hc_args c)) \<in> {[''ps''], [''logs'']}"

definition closes_exposure :: "harbor_app_command_preview \<Rightarrow> bool" where
  "closes_exposure c \<longleftrightarrow> hc_program c = ''harbor-app-manager'' \<and> take 2 (hc_args c) = [''exposure'', ''disable'']"

lemma command_previews_in_scope:
  "list_all (command_in_scope paths project (hm_id m) (unat (ec_log_tail_lines cfg))) (build_command_previews m act paths project cfg)"
  by (cases act) (simp_all add: build_command_previews_def command_in_scope_def compose_preview_def manager_preview_def)

lemma command_previews_approval:
  "list_all (\<lambda>c. hc_requires_approval c = (\<not> only_inspects c \<and> \<not> closes_exposure c) \<and> (hc_risk c = CmdReadOnly) = (\<not> hc_requires_approval c))
     (build_command_previews m act paths project cfg)"
  "list_ex hc_requires_approval (build_command_previews m act paths project cfg) = (act \<notin> {Health, Logs, DisableExposure})"
  "build_command_previews m act paths project cfg \<noteq> []"
  by (cases act; simp add: build_command_previews_def compose_preview_def manager_preview_def only_inspects_def closes_exposure_def)+

text \<open>
  C31. An execution plan is built exactly for a valid manifest, for every lifecycle action, and touches only its own
  app: each command, with all its arguments, is a task of \<^verbatim>\<open>docker compose\<close> on the compose file, project and directory of
  the app, the rendering of the app's own manifest into its own compose file, or the switching of the exposure of the
  app's id. A command requires approval exactly when it does not only inspect the app and does not close its exposure
  (closing an exposure changes the state, but the code labels it read-only and runs it without approval); the snapshot
  requires approval for install, start, stop, restart and enabling exposure. Plans of apps with different ids have
  different projects and compose files.
\<close>

theorem execution_plan_touches_only_its_app:
  assumes "roots_ok (ec_roots cfg)"
  shows "case build_harbor_app_execution_plan m act cfg of
      Inl msg \<Rightarrow> \<not> manifest_ok m \<and> msg = join ''; '' (rp_errors (validate_app_manifest m))
    | Inr p \<Rightarrow> manifest_ok m \<and> ep_app_id p = hm_id m \<and> ep_commands p \<noteq> [] \<and>
        list_all (command_in_scope (paths_under (ec_roots cfg) (hm_id m)) (ep_compose_project p) (hm_id m) (unat (ec_log_tail_lines cfg)))
          (ep_commands p) \<and>
        list_all (\<lambda>c. hc_requires_approval c = (\<not> only_inspects c \<and> \<not> closes_exposure c) \<and>
          (hc_risk c = CmdReadOnly) = (\<not> hc_requires_approval c)) (ep_commands p) \<and>
        px_requires_approval (harbor_app_execution_plan_snapshot_of p) = (act \<notin> {Health, Logs, DisableExposure}) \<and>
        (\<forall>m' p'. build_harbor_app_execution_plan m' act cfg = Ok p' \<and> ep_compose_project p' = ep_compose_project p
          \<longrightarrow> ep_app_id p' = ep_app_id p) \<and>
        (\<forall>m' p'. build_harbor_app_execution_plan m' act cfg = Ok p' \<and>
            pa_compose_file (ep_paths p') = pa_compose_file (ep_paths p) \<longrightarrow> ep_app_id p' = ep_app_id p)"
proof -
  have plan: "build_harbor_app_execution_plan m act cfg = (if manifest_ok m
      then Ok \<lparr>ep_app_id = hm_id m, ep_action = act, ep_paths = paths_under (ec_roots cfg) (hm_id m),
        ep_compose_project = ec_compose_project_prefix cfg @ ''-'' @ hm_id m,
        ep_commands = build_command_previews m act (paths_under (ec_roots cfg) (hm_id m))
          (ec_compose_project_prefix cfg @ ''-'' @ hm_id m) cfg,
        ep_route_prefixes = map hr_path_prefix (hm_routes m), ep_exposure = hm_exposure m, ep_audit_action = audit_action_for act\<rparr>
      else Err (join ''; '' (rp_errors (validate_app_manifest m))))" for m
  proof (cases "manifest_ok m")
    case True
    then have "is_safe_app_id (hm_id m)" by (simp add: manifest_ok_def)
    with True show ?thesis
      using harbor_app_paths_of_Ok [OF _ assms, of "hm_id m"]
      by (simp add: build_harbor_app_execution_plan_def Let_def validate_app_manifest_iff)
  qed (simp add: build_harbor_app_execution_plan_def Let_def validate_app_manifest_iff)
  have snap: "px_requires_approval (harbor_app_execution_plan_snapshot_of p) = list_ex hc_requires_approval (ep_commands p)" for p
    by (simp add: harbor_app_execution_plan_snapshot_of_def Let_def list_ex_iff preview_snapshot_def)
  show ?thesis
    using command_previews_in_scope command_previews_approval
    by (simp add: plan snap) (auto simp: paths_under_def split: if_splits)
qed

section \<open>A concrete app\<close>

definition demo_app :: harbor_app_manifest where
  "demo_app = \<lparr>hm_contract = ''harbor.app.v1'', hm_id = ''notes'', hm_name = ''Notes'', hm_version = ''1.0'',
     hm_image = Some ''notes:1.0'', hm_build = None, hm_routes = [], hm_health = \<lparr>hh_path = ''/health'', hh_port = 80,
     hh_interval_seconds = 30\<rparr>, hm_permissions = [], hm_volumes = [], hm_platform_capabilities = [],
     hm_exposure = ExposureNone, hm_metadata = []\<rparr>"

definition demo_entry :: harbor_app_registry_entry where
  "demo_entry = \<lparr>ae_app_id = ''notes'', ae_name = ''Notes'', ae_version = ''1.0'', ae_exposure = ExposureNone,
     ae_manifest = demo_app, ae_paths = paths_under default_path_roots ''notes'', ae_declared_capabilities = [],
     ae_status = AppRegistered, ae_last_requested_action = None, ae_last_execution_plan = None,
     ae_last_health_status = None, ae_last_log_status = None, ae_last_audit_id = None,
     ae_registered_at = ''1'', ae_updated_at = ''1''\<rparr>"

lemma default_roots_ok: "roots_ok default_path_roots"
  by code_simp

lemma demo_app_ok: "manifest_ok demo_app"
  unfolding validate_app_manifest_iff [symmetric] by code_simp

theorem registered_app_stays_in_scope_witness:
  "\<exists>e v. build_harbor_app_registry_entry demo_app default_path_roots ''1'' ''1'' = Ok (e, v) \<and>
     ae_paths e = paths_under default_path_roots ''notes'' \<and> rp_errors v = []"
  using registered_app_stays_in_scope [OF default_roots_ok, of demo_app "''1''" "''1''"] demo_app_ok
  by (auto simp: demo_app_def split: sum.splits prod.splits)

theorem sanitized_registry_is_canonical_witness:
  "ae_app_id ` set (sanitize_harbor_app_registry [demo_entry] default_path_roots) = {''notes''}"
proof -
  have o1: "own_ids [demo_entry]" "ae_app_id demo_entry = ''notes''" "ae_manifest demo_entry = demo_app"
    by (simp_all add: own_ids_def demo_entry_def demo_app_def)
  then show ?thesis
    using sanitized_registry_is_canonical [OF default_roots_ok, of "[demo_entry]"] demo_app_ok by auto
qed

theorem exposure_without_routes_drops_app_witness:
  "\<forall>plan. ''notes'' \<notin> ae_app_id ` set (sanitize_harbor_app_registry (update_first (\<lambda>e. ae_app_id e = ''notes'')
     (exposed_entry ExposureLan AppPlanReady plan None ''2'') [demo_entry]) default_path_roots)"
  using exposure_without_routes_drops_app [OF default_roots_ok, of "[demo_entry]" "''notes''" demo_entry ExposureLan]
  by (simp add: own_ids_def demo_entry_def demo_app_def)

theorem execution_plan_touches_only_its_app_witness:
  "\<exists>p. build_harbor_app_execution_plan demo_app Restart default_executor_config = Ok p \<and> ep_app_id p = ''notes'' \<and>
     px_requires_approval (harbor_app_execution_plan_snapshot_of p)"
  using execution_plan_touches_only_its_app [of default_executor_config demo_app Restart] default_roots_ok demo_app_ok
  by (auto simp: default_executor_config_def demo_app_def split: sum.splits)

end
