(* ===== verification/Device_Registry.thy ===== *)
theory Device_Registry
  imports Task_Records
begin

text \<open>
  The device registry: the schemas of \<^verbatim>\<open>src/src/control_plane/devices.rs\<close> and \<^verbatim>\<open>src/src/runtime/registry.rs\<close>. A
  snapshot is seven vectors that refer to each other by identifiers; cameras are read from it and written to it, and
  the entities of Home Assistant are synchronised into it. \<^verbatim>\<open>Url::parse\<close> of \<^verbatim>\<open>reqwest\<close> is the argument \<open>parse_url\<close>.
  The store keeps the snapshot as the text of one file; JSON conversion and the failures of the file system are
  arguments.
\<close>

section \<open>Records of the control plane\<close>

datatype device_kind = DkCamera | DkLight | DkSensor | DkLock | DkGateway | DkNas | DkService | DkUnknown

datatype device_lifecycle_state = DlDiscovered | DlRegistered | DlActive | DlDisabled | DlRetired

record device_record =
  dr_device_id :: string
  dr_workspace_id :: string
  dr_kind :: device_kind
  dr_subtype :: "string option"
  dr_display_name :: string
  dr_aliases :: "string list"
  dr_vendor :: "string option"
  dr_model :: "string option"
  dr_serial_number :: "string option"
  dr_mac_address :: "string option"
  dr_primary_room_id :: "string option"
  dr_lifecycle_state :: device_lifecycle_state
  dr_source :: string
  dr_metadata :: json

datatype device_endpoint_kind = EkIpv4 | EkIpv6 | EkMac | EkRtsp | EkOnvif | EkMatter | EkHttp | EkWebsocket

datatype reachability_status = RsOnline | RsOffline | RsDegraded | RsUnknown

record device_endpoint =
  de_endpoint_id :: string
  de_device_id :: string
  de_endpoint_kind :: device_endpoint_kind
  de_scheme :: string
  de_host :: string
  de_port :: "u16 option"
  de_path :: "string option"
  de_requires_auth :: bool
  de_reachability_status :: reachability_status
  de_last_seen_at :: "string option"
  de_metadata :: json

datatype device_support_mode = SmNative | SmCloud | SmBridge | SmLab | SmUnsupported

datatype provider_binding_status = PbActive | PbInvalid | PbPending | PbRevoked

datatype provider_kind = PkAiCloud | PkVendorCloud | PkVendorLocal | PkBridge | PkHarborOs | PkStandard

record provider_binding =
  pb_binding_id :: string
  pb_device_id :: string
  pb_provider_account_id :: "string option"
  pb_provider_key :: string
  pb_provider_kind :: provider_kind
  pb_remote_device_id :: "string option"
  pb_credential_ref :: "string option"
  pb_binding_status :: provider_binding_status
  pb_support_mode :: device_support_mode
  pb_metadata :: json
  pb_last_sync_at :: "string option"

datatype capability_category = CcState | CcControl | CcStream | CcMedia | CcEvent

datatype capability_access_mode = CaRead | CaWrite | CaInvoke | CaSubscribe

datatype capability_availability = CvAvailable | CvUnavailable | CvDegraded

record capability_record =
  cr_capability_id :: string
  cr_device_id :: string
  cr_capability_code :: string
  cr_category :: capability_category
  cr_access_mode :: capability_access_mode
  cr_support_mode :: device_support_mode
  cr_availability :: capability_availability
  cr_source_binding_id :: "string option"
  cr_metadata :: json

datatype connectivity_state = CsOnline | CsOffline | CsDegraded | CsUnknown

record device_twin =
  dt_device_id :: string
  dt_connectivity_state :: connectivity_state
  dt_reported_state :: json
  dt_desired_state :: json
  dt_health_state :: json
  dt_last_event_id :: "string option"
  dt_last_seen_at :: "string option"

datatype control_stream_transport = CtRtsp | CtHls | CtWebrtc | CtFile | CtUnknown

record stream_profile =
  sp_stream_profile_id :: string
  sp_device_id :: string
  sp_profile_name :: string
  sp_transport :: control_stream_transport
  sp_endpoint_id :: string
  sp_video_codec :: "string option"
  sp_audio_codec :: "string option"
  sp_width :: "u32 option"
  sp_height :: "u32 option"
  sp_fps :: "rat option"
  sp_bitrate_kbps :: "u32 option"
  sp_is_default :: bool

section \<open>Cameras\<close>

datatype legacy_device_kind = LkCamera | LkLight | LkSensor | LkLock | LkGateway | LkUnknown

datatype device_status = StOnline | StOffline | StDegraded | StUnknown

datatype stream_transport = TrRtsp | TrHls | TrWebrtc | TrUnknown

record camera_stream_ref =
  cs_transport :: stream_transport
  cs_url :: string
  cs_requires_auth :: bool

record camera_capabilities =
  cb_snapshot :: bool
  cb_stream :: bool
  cb_ptz :: bool
  cb_audio :: bool

definition no_capabilities :: camera_capabilities where
  "no_capabilities = \<lparr>cb_snapshot = False, cb_stream = False, cb_ptz = False, cb_audio = False\<rparr>"

record camera_device =
  ca_device_id :: string
  ca_name :: string
  ca_kind :: legacy_device_kind
  ca_status :: device_status
  ca_room :: "string option"
  ca_vendor :: "string option"
  ca_model :: "string option"
  ca_ip_address :: "string option"
  ca_mac_address :: "string option"
  ca_discovery_source :: string
  ca_primary_stream :: camera_stream_ref
  ca_snapshot_url :: "string option"
  ca_onvif_device_service_url :: "string option"
  ca_ezviz_device_serial :: "string option"
  ca_ezviz_camera_no :: "u32 option"
  ca_capabilities :: camera_capabilities
  ca_last_seen_at :: "string option"

definition camera_device_new :: "string \<Rightarrow> string \<Rightarrow> string \<Rightarrow> camera_device" where
  "camera_device_new device_id name url =
     \<lparr>ca_device_id = device_id, ca_name = name, ca_kind = LkCamera, ca_status = StUnknown, ca_room = None, ca_vendor = None,
      ca_model = None, ca_ip_address = None, ca_mac_address = None, ca_discovery_source = ''unknown'',
      ca_primary_stream = \<lparr>cs_transport = TrRtsp, cs_url = url, cs_requires_auth = False\<rparr>, ca_snapshot_url = None,
      ca_onvif_device_service_url = None, ca_ezviz_device_serial = None, ca_ezviz_camera_no = None,
      ca_capabilities = no_capabilities, ca_last_seen_at = None\<rparr>"

record camera_target_view =
  rc_device_id' :: string
  rc_display_name :: string
  rc_status :: device_status
  rc_room_name :: "string option"
  rc_vendor :: "string option"
  rc_model :: "string option"
  rc_ip_address :: "string option"
  rc_mac_address :: "string option"
  rc_discovery_source :: string
  rc_primary_stream :: camera_stream_ref
  rc_snapshot_url :: "string option"
  rc_onvif_device_service_url :: "string option"
  rc_ezviz_device_serial :: "string option"
  rc_ezviz_camera_no :: "u32 option"
  rc_capabilities :: camera_capabilities
  rc_last_seen_at :: "string option"

definition camera_of_target :: "camera_target_view \<Rightarrow> camera_device" where
  "camera_of_target t =
     \<lparr>ca_device_id = rc_device_id' t, ca_name = rc_display_name t, ca_kind = LkCamera, ca_status = rc_status t,
      ca_room = rc_room_name t, ca_vendor = rc_vendor t, ca_model = rc_model t, ca_ip_address = rc_ip_address t,
      ca_mac_address = rc_mac_address t, ca_discovery_source = rc_discovery_source t,
      ca_primary_stream = rc_primary_stream t, ca_snapshot_url = rc_snapshot_url t,
      ca_onvif_device_service_url = rc_onvif_device_service_url t, ca_ezviz_device_serial = rc_ezviz_device_serial t,
      ca_ezviz_camera_no = rc_ezviz_camera_no t, ca_capabilities = rc_capabilities t, ca_last_seen_at = rc_last_seen_at t\<rparr>"

record device_registry_snapshot =
  rg_schema_version :: u32
  rg_devices :: "device_record list"
  rg_device_endpoints :: "device_endpoint list"
  rg_provider_bindings :: "provider_binding list"
  rg_capabilities :: "capability_record list"
  rg_device_twins :: "device_twin list"
  rg_camera_profiles :: "camera_profile list"
  rg_stream_profiles :: "stream_profile list"

record home_assistant_registry_entity =
  ha_entity_id :: string
  ha_domain :: string
  ha_display_name :: string
  ha_state :: string
  ha_area_id :: "string option"
  ha_device_class :: "string option"
  ha_last_changed :: "string option"
  ha_last_updated :: "string option"
  ha_attributes :: json

definition default_registry_schema_version :: u32 where "default_registry_schema_version = 1"

definition empty_registry_snapshot :: device_registry_snapshot where
  "empty_registry_snapshot = \<lparr>rg_schema_version = default_registry_schema_version, rg_devices = [], rg_device_endpoints = [],
     rg_provider_bindings = [], rg_capabilities = [], rg_device_twins = [], rg_camera_profiles = [], rg_stream_profiles = []\<rparr>"

section \<open>Conversions\<close>

fun legacy_device_kind_to_control :: "legacy_device_kind \<Rightarrow> device_kind" where
  "legacy_device_kind_to_control LkCamera = DkCamera"
| "legacy_device_kind_to_control LkLight = DkLight"
| "legacy_device_kind_to_control LkSensor = DkSensor"
| "legacy_device_kind_to_control LkLock = DkLock"
| "legacy_device_kind_to_control LkGateway = DkGateway"
| "legacy_device_kind_to_control LkUnknown = DkUnknown"

fun legacy_status_to_connectivity :: "device_status \<Rightarrow> connectivity_state" where
  "legacy_status_to_connectivity StOnline = CsOnline"
| "legacy_status_to_connectivity StOffline = CsOffline"
| "legacy_status_to_connectivity StDegraded = CsDegraded"
| "legacy_status_to_connectivity StUnknown = CsUnknown"

fun connectivity_to_legacy_status :: "connectivity_state \<Rightarrow> device_status" where
  "connectivity_to_legacy_status CsOnline = StOnline"
| "connectivity_to_legacy_status CsOffline = StOffline"
| "connectivity_to_legacy_status CsDegraded = StDegraded"
| "connectivity_to_legacy_status CsUnknown = StUnknown"

fun legacy_status_to_reachability :: "device_status \<Rightarrow> reachability_status" where
  "legacy_status_to_reachability StOnline = RsOnline"
| "legacy_status_to_reachability StOffline = RsOffline"
| "legacy_status_to_reachability StDegraded = RsDegraded"
| "legacy_status_to_reachability StUnknown = RsUnknown"

fun legacy_stream_transport_to_control :: "stream_transport \<Rightarrow> control_stream_transport" where
  "legacy_stream_transport_to_control TrRtsp = CtRtsp"
| "legacy_stream_transport_to_control TrHls = CtHls"
| "legacy_stream_transport_to_control TrWebrtc = CtWebrtc"
| "legacy_stream_transport_to_control TrUnknown = CtUnknown"

fun control_stream_transport_to_legacy :: "control_stream_transport \<Rightarrow> stream_transport" where
  "control_stream_transport_to_legacy CtRtsp = TrRtsp"
| "control_stream_transport_to_legacy CtHls = TrHls"
| "control_stream_transport_to_legacy CtWebrtc = TrWebrtc"
| "control_stream_transport_to_legacy CtFile = TrUnknown"
| "control_stream_transport_to_legacy CtUnknown = TrUnknown"

fun legacy_stream_transport_scheme :: "stream_transport \<Rightarrow> string" where
  "legacy_stream_transport_scheme TrRtsp = ''rtsp''"
| "legacy_stream_transport_scheme TrHls = ''hls''"
| "legacy_stream_transport_scheme TrWebrtc = ''webrtc''"
| "legacy_stream_transport_scheme TrUnknown = ''unknown''"

definition normalize_discovery_source :: "string \<Rightarrow> string" where
  "normalize_discovery_source value = (if value = ''rtspprobe'' then ''rtsp_probe'' else value)"

definition normalize_optional_string :: "string option \<Rightarrow> string option" where
  "normalize_optional_string value = Option.bind value (\<lambda>v. let t = trim v in if t = [] then None else Some t)"

definition normalize_camera_metadata :: "camera_device \<Rightarrow> camera_device" where
  "normalize_camera_metadata d =
     d\<lparr>ca_discovery_source := normalize_discovery_source (ca_discovery_source d),
       ca_primary_stream := (if cs_transport (ca_primary_stream d) = TrUnknown then (ca_primary_stream d)\<lparr>cs_transport := TrRtsp\<rparr>
                             else ca_primary_stream d),
       ca_snapshot_url := normalize_optional_string (ca_snapshot_url d)\<rparr>"

definition is_tp_link_tapo_vendor :: "string option \<Rightarrow> string option \<Rightarrow> bool" where
  "is_tp_link_tapo_vendor vendor model =
     (let v = to_ascii_lowercase (unwrap_or vendor []); m = to_ascii_lowercase (unwrap_or model []) in
      str_contains v ''tapo'' \<or> str_contains v ''tp-link'' \<or> str_contains v ''tplink'' \<or> str_contains m ''tapo'')"

definition merge_tapo_rtsp_path_candidates :: "json option \<Rightarrow> json" where
  "merge_tapo_rtsp_path_candidates existing =
     (let stored = unwrap_or (Option.bind (Option.bind existing (\<lambda>j. json_get j ''rtsp_path_candidates'')) as_array) [] in
      JArr (map JStr (push_new (push_new [] (List.map_filter normalize_rtsp_candidate [''/stream1'', ''/stream2'']))
        (List.map_filter normalize_rtsp_candidate (List.map_filter as_str stored)))))"

definition tapo_vendor_features :: "camera_device \<Rightarrow> json option \<Rightarrow> json" where
  "tapo_vendor_features camera existing =
     (let f0 = unwrap_or (Option.bind existing as_object) [];
          f1 = (if is_tp_link_tapo_vendor (ca_vendor camera) (ca_model camera)
                then bm_insert ''rtsp_path_candidates'' (merge_tapo_rtsp_path_candidates existing)
                       (bm_insert ''profile'' (JStr ''tp-link/tapo'') f0)
                else f0);
          f2 = (case normalize_optional_string (ca_snapshot_url camera) of None \<Rightarrow> f1
                | Some u \<Rightarrow> bm_insert ''native_snapshot_url'' (JStr u) f1)
      in JObj f2)"

definition native_snapshot_url_from_camera_profile :: "camera_profile option \<Rightarrow> string option" where
  "native_snapshot_url_from_camera_profile profile = Option.bind profile native_snapshot_url"

section \<open>Identifiers of managed records\<close>

definition managed_camera_ipv4_endpoint_id :: "string \<Rightarrow> string" where
  "managed_camera_ipv4_endpoint_id device_id = device_id @ ''::endpoint::ipv4''"

definition managed_camera_primary_stream_endpoint_id :: "string \<Rightarrow> string" where
  "managed_camera_primary_stream_endpoint_id device_id = device_id @ ''::endpoint::primary_stream''"

definition managed_camera_primary_stream_profile_id :: "string \<Rightarrow> string" where
  "managed_camera_primary_stream_profile_id device_id = device_id @ ''::stream::primary''"

definition managed_camera_endpoint_ids :: "string \<Rightarrow> string list" where
  "managed_camera_endpoint_ids device_id =
     [managed_camera_ipv4_endpoint_id device_id, managed_camera_primary_stream_endpoint_id device_id]"

definition managed_provider_binding_ids :: "string \<Rightarrow> string list" where
  "managed_provider_binding_ids device_id =
     [device_id @ ''::binding::stream'', device_id @ ''::binding::onvif'', device_id @ ''::binding::ezviz'']"

section \<open>Records of one camera\<close>

record parsed_url =
  ur_scheme :: string
  ur_host_str :: "string option"
  ur_port_or_known_default :: "u16 option"
  ur_path :: string
  ur_query :: "string option"

definition stream_endpoint_from_camera :: "(string \<Rightarrow> parsed_url option) \<Rightarrow> camera_device \<Rightarrow> string \<Rightarrow> device_endpoint" where
  "stream_endpoint_from_camera parse_url camera endpoint_id =
     (let stream = ca_primary_stream camera; parsed = parse_url (cs_url stream) in
      \<lparr>de_endpoint_id = endpoint_id, de_device_id = ca_device_id camera,
       de_endpoint_kind = (case cs_transport stream of TrRtsp \<Rightarrow> EkRtsp | TrHls \<Rightarrow> EkHttp | TrWebrtc \<Rightarrow> EkWebsocket | TrUnknown \<Rightarrow> EkHttp),
       de_scheme = unwrap_or (map_option ur_scheme parsed) (legacy_stream_transport_scheme (cs_transport stream)),
       de_host = unwrap_or (Option.bind parsed ur_host_str) (cs_url stream),
       de_port = Option.bind parsed ur_port_or_known_default,
       de_path = map_option (\<lambda>u. case ur_query u of None \<Rightarrow> ur_path u | Some q \<Rightarrow> ur_path u @ ''?'' @ q) parsed,
       de_requires_auth = cs_requires_auth stream, de_reachability_status = legacy_status_to_reachability (ca_status camera),
       de_last_seen_at = ca_last_seen_at camera, de_metadata = jobj [(''url'', JStr (cs_url stream))]\<rparr>)"

definition ipv4_endpoints :: "camera_device \<Rightarrow> device_endpoint list" where
  "ipv4_endpoints camera = (case ca_ip_address camera of None \<Rightarrow> [] | Some ip \<Rightarrow>
     [\<lparr>de_endpoint_id = managed_camera_ipv4_endpoint_id (ca_device_id camera), de_device_id = ca_device_id camera,
       de_endpoint_kind = EkIpv4, de_scheme = ''ipv4'', de_host = ip, de_port = None, de_path = None, de_requires_auth = False,
       de_reachability_status = legacy_status_to_reachability (ca_status camera), de_last_seen_at = ca_last_seen_at camera,
       de_metadata = jobj []\<rparr>])"

definition primary_stream_profile :: "camera_device \<Rightarrow> stream_profile" where
  "primary_stream_profile camera =
     \<lparr>sp_stream_profile_id = managed_camera_primary_stream_profile_id (ca_device_id camera), sp_device_id = ca_device_id camera,
      sp_profile_name = ''primary'', sp_transport = legacy_stream_transport_to_control (cs_transport (ca_primary_stream camera)),
      sp_endpoint_id = managed_camera_primary_stream_endpoint_id (ca_device_id camera), sp_video_codec = None,
      sp_audio_codec = (if cb_audio (ca_capabilities camera) then Some ''unknown'' else None), sp_width = None, sp_height = None,
      sp_fps = None, sp_bitrate_kbps = None, sp_is_default = True\<rparr>"

fun stream_provider_key :: "stream_transport \<Rightarrow> string" where
  "stream_provider_key TrRtsp = ''rtsp''"
| "stream_provider_key TrHls = ''hls''"
| "stream_provider_key TrWebrtc = ''webrtc''"
| "stream_provider_key TrUnknown = ''stream''"

definition provider_bindings_from_camera :: "camera_device \<Rightarrow> provider_binding list" where
  "provider_bindings_from_camera camera =
     (let base = \<lparr>pb_binding_id = [], pb_device_id = ca_device_id camera, pb_provider_account_id = None, pb_provider_key = [],
            pb_provider_kind = PkStandard, pb_remote_device_id = None, pb_credential_ref = None, pb_binding_status = PbActive,
            pb_support_mode = SmNative, pb_metadata = JNull, pb_last_sync_at = ca_last_seen_at camera\<rparr>;
          transport = cs_transport (ca_primary_stream camera)
      in [base\<lparr>pb_binding_id := ca_device_id camera @ ''::binding::stream'',
            pb_provider_key := stream_provider_key transport,
            pb_metadata := jobj [(''discovery_source'', JStr (ca_discovery_source camera)),
              (''transport'', JStr (legacy_stream_transport_scheme transport)), (''snapshot_url'', jopt_str (ca_snapshot_url camera))]\<rparr>]
         @ (case ca_onvif_device_service_url camera of None \<Rightarrow> [] | Some u \<Rightarrow>
             [base\<lparr>pb_binding_id := ca_device_id camera @ ''::binding::onvif'', pb_provider_key := ''onvif'',
                pb_metadata := jobj [(''device_service_url'', JStr u), (''discovery_source'', JStr (ca_discovery_source camera))]\<rparr>])
         @ (case ca_ezviz_device_serial camera of None \<Rightarrow> [] | Some serial \<Rightarrow>
             [base\<lparr>pb_binding_id := ca_device_id camera @ ''::binding::ezviz'', pb_provider_key := ''ezviz'',
                pb_provider_kind := PkVendorCloud, pb_remote_device_id := Some serial, pb_support_mode := SmCloud,
                pb_metadata := jobj [(''camera_no'', case ca_ezviz_camera_no camera of None \<Rightarrow> JNull | Some n \<Rightarrow> JInt (uint n))]\<rparr>]))"

definition camera_capability :: "camera_device \<Rightarrow> string \<Rightarrow> capability_category \<Rightarrow> capability_record" where
  "camera_capability camera code category =
     \<lparr>cr_capability_id = ca_device_id camera @ ''::capability::'' @ code, cr_device_id = ca_device_id camera,
      cr_capability_code = code, cr_category = category,
      cr_access_mode = (case category of CcState \<Rightarrow> CaRead | CcControl \<Rightarrow> CaInvoke | CcStream \<Rightarrow> CaRead | CcMedia \<Rightarrow> CaRead
                        | CcEvent \<Rightarrow> CaSubscribe),
      cr_support_mode = SmNative, cr_availability = CvAvailable,
      cr_source_binding_id = Some (ca_device_id camera @ ''::binding::stream''), cr_metadata = jobj []\<rparr>"

definition capability_records_from_camera :: "camera_device \<Rightarrow> capability_record list" where
  "capability_records_from_camera camera =
     (let c = ca_capabilities camera in
      (if cb_snapshot c then [camera_capability camera ''snapshot'' CcMedia] else [])
      @ (if cb_stream c then [camera_capability camera ''stream_live'' CcStream] else [])
      @ (if cb_ptz c then [camera_capability camera ''ptz'' CcControl] else [])
      @ (if cb_audio c then [camera_capability camera ''audio'' CcMedia] else []))"

definition record_from_camera :: "string \<Rightarrow> camera_device \<Rightarrow> device_record" where
  "record_from_camera source camera =
     \<lparr>dr_device_id = ca_device_id camera, dr_workspace_id = [], dr_kind = legacy_device_kind_to_control (ca_kind camera),
      dr_subtype = (if cb_ptz (ca_capabilities camera) then Some ''ptz_camera'' else None), dr_display_name = ca_name camera,
      dr_aliases = [], dr_vendor = ca_vendor camera, dr_model = ca_model camera, dr_serial_number = None,
      dr_mac_address = ca_mac_address camera, dr_primary_room_id = ca_room camera, dr_lifecycle_state = DlRegistered,
      dr_source = source, dr_metadata = jobj []\<rparr>"

definition twin_from_camera :: "camera_device \<Rightarrow> device_twin" where
  "twin_from_camera camera =
     \<lparr>dt_device_id = ca_device_id camera, dt_connectivity_state = legacy_status_to_connectivity (ca_status camera),
      dt_reported_state = jobj [], dt_desired_state = jobj [], dt_health_state = jobj [], dt_last_event_id = None,
      dt_last_seen_at = ca_last_seen_at camera\<rparr>"

definition profile_from_camera :: "camera_device \<Rightarrow> camera_profile" where
  "profile_from_camera camera =
     \<lparr>cp_device_id = ca_device_id camera,
      cp_default_stream_profile_id = Some (managed_camera_primary_stream_profile_id (ca_device_id camera)),
      cp_audio_supported = cb_audio (ca_capabilities camera), cp_ptz_supported = cb_ptz (ca_capabilities camera),
      cp_privacy_supported = False, cp_playback_supported = False, cp_recording_policy_id = None,
      cp_vendor_features = tapo_vendor_features camera None\<rparr>"

definition push_camera :: "(string \<Rightarrow> parsed_url option) \<Rightarrow> device_registry_snapshot \<Rightarrow> camera_device \<Rightarrow> device_registry_snapshot" where
  "push_camera parse_url s camera =
     s\<lparr>rg_devices := rg_devices s @ [record_from_camera (ca_discovery_source camera) camera],
       rg_device_twins := rg_device_twins s @ [twin_from_camera camera],
       rg_device_endpoints := rg_device_endpoints s @ ipv4_endpoints camera
         @ [stream_endpoint_from_camera parse_url camera (managed_camera_primary_stream_endpoint_id (ca_device_id camera))],
       rg_stream_profiles := rg_stream_profiles s @ [primary_stream_profile camera],
       rg_camera_profiles := rg_camera_profiles s @ [profile_from_camera camera],
       rg_capabilities := rg_capabilities s @ capability_records_from_camera camera,
       rg_provider_bindings := rg_provider_bindings s @ provider_bindings_from_camera camera\<rparr>"

definition from_camera_devices :: "(string \<Rightarrow> parsed_url option) \<Rightarrow> camera_device list \<Rightarrow> device_registry_snapshot" where
  "from_camera_devices parse_url devices = fold (\<lambda>c s. push_camera parse_url s c) devices empty_registry_snapshot"

section \<open>Reading cameras\<close>

definition preferred_stream_profile :: "stream_profile list \<Rightarrow> string \<Rightarrow> string option \<Rightarrow> stream_profile option" where
  "preferred_stream_profile profiles device_id preferred =
     or_else (Option.bind preferred (\<lambda>i. find (\<lambda>p. sp_stream_profile_id p = i) profiles))
       (or_else (find (\<lambda>p. sp_device_id p = device_id \<and> sp_is_default p) profiles)
         (find (\<lambda>p. sp_device_id p = device_id) profiles))"

definition rebuild_url_from_endpoint :: "device_endpoint \<Rightarrow> string" where
  "rebuild_url_from_endpoint e =
     de_scheme e @ ''://'' @ de_host e
     @ (case de_port e of None \<Rightarrow> [] | Some p \<Rightarrow> '':'' @ show_nat (unat p))
     @ (case de_path e of None \<Rightarrow> [] | Some path \<Rightarrow>
         if path = [] then [] else (if starts_with path ''/'' then [] else ''/'') @ path)"

definition stream_url_from_endpoint :: "device_endpoint \<Rightarrow> string" where
  "stream_url_from_endpoint e = unwrap_or (Option.bind (json_get (de_metadata e) ''url'') as_str) (rebuild_url_from_endpoint e)"

definition add_capability_code :: "string \<Rightarrow> camera_capabilities \<Rightarrow> camera_capabilities" where
  "add_capability_code code c =
     (if code = ''snapshot'' then c\<lparr>cb_snapshot := True\<rparr> else if code = ''stream_live'' then c\<lparr>cb_stream := True\<rparr>
      else if code = ''ptz'' then c\<lparr>cb_ptz := True\<rparr> else if code = ''audio'' then c\<lparr>cb_audio := True\<rparr> else c)"

definition camera_capabilities_from_records :: "capability_record list \<Rightarrow> camera_capabilities" where
  "camera_capabilities_from_records records = fold (\<lambda>r. add_capability_code (cr_capability_code r)) records no_capabilities"

definition infer_discovery_source :: "provider_binding list \<Rightarrow> string" where
  "infer_discovery_source bindings =
     (if list_ex (\<lambda>b. pb_provider_key b = ''onvif'') bindings then ''onvif''
      else case bindings of [] \<Rightarrow> ''unknown'' | b # _ \<Rightarrow> pb_provider_key b)"

definition binding_str :: "provider_binding \<Rightarrow> string \<Rightarrow> string option" where
  "binding_str b key = Option.bind (json_get (pb_metadata b) key) as_str"

definition is_stream_key :: "string \<Rightarrow> bool" where
  "is_stream_key k \<longleftrightarrow> k \<in> {''rtsp'', ''hls'', ''webrtc'', ''stream''}"

definition resolved_camera_target :: "device_registry_snapshot \<Rightarrow> device_record \<Rightarrow> camera_target_view option" where
  "resolved_camera_target s device =
     (if dr_kind device \<noteq> DkCamera then None
      else let i = dr_device_id device; profile = find (\<lambda>p. cp_device_id p = i) (rg_camera_profiles s) in
        Option.bind (preferred_stream_profile (rg_stream_profiles s) i (Option.bind profile cp_default_stream_profile_id))
          (\<lambda>stream.
        Option.bind (find (\<lambda>e. de_endpoint_id e = sp_endpoint_id stream) (rg_device_endpoints s)) (\<lambda>endpoint.
        let twin = find (\<lambda>t. dt_device_id t = i) (rg_device_twins s);
            bindings = filter (\<lambda>b. pb_device_id b = i) (rg_provider_bindings s);
            capabilities = filter (\<lambda>c. cr_device_id c = i) (rg_capabilities s);
            keyed = (\<lambda>k. find (\<lambda>b. pb_provider_key b = k) bindings)
        in Some
          \<lparr>rc_device_id' = i, rc_display_name = dr_display_name device,
           rc_status = (case twin of None \<Rightarrow> StUnknown | Some t \<Rightarrow> connectivity_to_legacy_status (dt_connectivity_state t)),
           rc_room_name = dr_primary_room_id device, rc_vendor = dr_vendor device, rc_model = dr_model device,
           rc_ip_address = map_option de_host
             (find (\<lambda>e. de_device_id e = i \<and> de_endpoint_kind e = EkIpv4) (rg_device_endpoints s)),
           rc_mac_address = dr_mac_address device,
           rc_discovery_source = (if blank (dr_source device) then infer_discovery_source bindings else dr_source device),
           rc_primary_stream = \<lparr>cs_transport = control_stream_transport_to_legacy (sp_transport stream),
             cs_url = stream_url_from_endpoint endpoint, cs_requires_auth = de_requires_auth endpoint\<rparr>,
           rc_snapshot_url = or_else
             (Option.bind (find (\<lambda>b. is_stream_key (pb_provider_key b)) bindings)
               (\<lambda>b. binding_str b ''snapshot_url''))
             (native_snapshot_url_from_camera_profile profile),
           rc_onvif_device_service_url = Option.bind (keyed ''onvif'') (\<lambda>b. binding_str b ''device_service_url''),
           rc_ezviz_device_serial = Option.bind (keyed ''ezviz'') pb_remote_device_id,
           rc_ezviz_camera_no = Option.bind (keyed ''ezviz'') (\<lambda>b.
             map_option word_of_int (Option.bind (json_get (pb_metadata b) ''camera_no'') as_u64)),
           rc_capabilities = camera_capabilities_from_records capabilities,
           rc_last_seen_at = Option.bind twin dt_last_seen_at\<rparr>)))"

definition camera_target :: "device_registry_snapshot \<Rightarrow> string \<Rightarrow> camera_target_view option" where
  "camera_target s device_id =
     Option.bind (find (\<lambda>d. dr_device_id d = device_id \<and> dr_kind d = DkCamera) (rg_devices s)) (resolved_camera_target s)"

definition camera_targets :: "device_registry_snapshot \<Rightarrow> camera_target_view list" where
  "camera_targets s = List.map_filter (resolved_camera_target s) (rg_devices s)"

definition to_camera_devices :: "device_registry_snapshot \<Rightarrow> camera_device list" where
  "to_camera_devices s = map camera_of_target (camera_targets s)"

section \<open>Writing cameras\<close>

definition same_camera_view :: "camera_device \<Rightarrow> camera_device \<Rightarrow> bool" where
  "same_camera_view existing incoming \<longleftrightarrow> ca_device_id existing = ca_device_id incoming \<or>
     cs_url (ca_primary_stream existing) = cs_url (ca_primary_stream incoming)"

definition find_matching_camera_device_id :: "device_registry_snapshot \<Rightarrow> camera_device \<Rightarrow> string option" where
  "find_matching_camera_device_id s incoming =
     map_option ca_device_id (find (\<lambda>e. same_camera_view e incoming) (to_camera_devices s))"

definition change_camera_record :: "camera_device \<Rightarrow> device_record \<Rightarrow> device_record" where
  "change_camera_record camera e =
     e\<lparr>dr_kind := legacy_device_kind_to_control (ca_kind camera),
       dr_display_name := (if blank (ca_name camera) then dr_display_name e else ca_name camera),
       dr_subtype := (if cb_ptz (ca_capabilities camera) \<and> dr_subtype e = None then Some ''ptz_camera'' else dr_subtype e),
       dr_vendor := or_else (ca_vendor camera) (dr_vendor e),
       dr_model := or_else (ca_model camera) (dr_model e),
       dr_mac_address := or_else (ca_mac_address camera) (dr_mac_address e),
       dr_primary_room_id := or_else (ca_room camera) (dr_primary_room_id e),
       dr_lifecycle_state := DlRegistered,
       dr_source := (if blank (ca_discovery_source camera) then dr_source e
                     else normalize_discovery_source (ca_discovery_source camera))\<rparr>"

definition upsert_camera_record :: "camera_device \<Rightarrow> device_registry_snapshot \<Rightarrow> device_registry_snapshot" where
  "upsert_camera_record camera s =
     s\<lparr>rg_devices := vec_upsert dr_device_id (ca_device_id camera) (change_camera_record camera)
         (record_from_camera (normalize_discovery_source (ca_discovery_source camera)) camera) (rg_devices s)\<rparr>"

definition change_camera_twin :: "camera_device \<Rightarrow> device_twin \<Rightarrow> device_twin" where
  "change_camera_twin camera e =
     e\<lparr>dt_connectivity_state := legacy_status_to_connectivity (ca_status camera),
       dt_last_seen_at := or_else (ca_last_seen_at camera) (dt_last_seen_at e)\<rparr>"

definition upsert_camera_twin :: "camera_device \<Rightarrow> device_registry_snapshot \<Rightarrow> device_registry_snapshot" where
  "upsert_camera_twin camera s =
     s\<lparr>rg_device_twins := vec_upsert dt_device_id (ca_device_id camera) (change_camera_twin camera) (twin_from_camera camera)
         (rg_device_twins s)\<rparr>"

definition replace_managed_camera_endpoints ::
  "(string \<Rightarrow> parsed_url option) \<Rightarrow> camera_device \<Rightarrow> device_registry_snapshot \<Rightarrow> device_registry_snapshot" where
  "replace_managed_camera_endpoints parse_url camera s =
     s\<lparr>rg_device_endpoints :=
         filter (\<lambda>e. de_endpoint_id e \<notin> set (managed_camera_endpoint_ids (ca_device_id camera))) (rg_device_endpoints s)
         @ ipv4_endpoints camera
         @ [stream_endpoint_from_camera parse_url camera (managed_camera_primary_stream_endpoint_id (ca_device_id camera))]\<rparr>"

definition replace_managed_camera_stream_profiles :: "camera_device \<Rightarrow> device_registry_snapshot \<Rightarrow> device_registry_snapshot" where
  "replace_managed_camera_stream_profiles camera s =
     s\<lparr>rg_stream_profiles :=
         filter (\<lambda>p. \<not> (sp_device_id p = ca_device_id camera \<and>
           sp_stream_profile_id p = managed_camera_primary_stream_profile_id (ca_device_id camera))) (rg_stream_profiles s)
         @ [primary_stream_profile camera]\<rparr>"

definition change_camera_profile :: "camera_device \<Rightarrow> camera_profile \<Rightarrow> camera_profile" where
  "change_camera_profile camera e =
     e\<lparr>cp_default_stream_profile_id := Some (managed_camera_primary_stream_profile_id (ca_device_id camera)),
       cp_audio_supported := (cp_audio_supported e \<or> cb_audio (ca_capabilities camera)),
       cp_ptz_supported := (cp_ptz_supported e \<or> cb_ptz (ca_capabilities camera)),
       cp_vendor_features := tapo_vendor_features camera (Some (cp_vendor_features e))\<rparr>"

definition upsert_camera_profile :: "camera_device \<Rightarrow> device_registry_snapshot \<Rightarrow> device_registry_snapshot" where
  "upsert_camera_profile camera s =
     s\<lparr>rg_camera_profiles := vec_upsert cp_device_id (ca_device_id camera) (change_camera_profile camera)
         (profile_from_camera camera) (rg_camera_profiles s)\<rparr>"

definition replace_managed_camera_capabilities :: "camera_device \<Rightarrow> device_registry_snapshot \<Rightarrow> device_registry_snapshot" where
  "replace_managed_camera_capabilities camera s =
     s\<lparr>rg_capabilities :=
         filter (\<lambda>c. \<not> (cr_device_id c = ca_device_id camera \<and>
           cr_capability_code c \<in> {''snapshot'', ''stream_live'', ''ptz'', ''audio''})) (rg_capabilities s)
         @ capability_records_from_camera camera\<rparr>"

definition replace_managed_provider_bindings :: "camera_device \<Rightarrow> device_registry_snapshot \<Rightarrow> device_registry_snapshot" where
  "replace_managed_provider_bindings camera s =
     s\<lparr>rg_provider_bindings :=
         filter (\<lambda>b. pb_binding_id b \<notin> set (managed_provider_binding_ids (ca_device_id camera))) (rg_provider_bindings s)
         @ provider_bindings_from_camera camera\<rparr>"

definition upsert_camera_device ::
  "(string \<Rightarrow> parsed_url option) \<Rightarrow> camera_device \<Rightarrow> device_registry_snapshot \<Rightarrow> device_registry_snapshot" where
  "upsert_camera_device parse_url camera s =
     replace_managed_provider_bindings camera
       (replace_managed_camera_capabilities camera
         (upsert_camera_profile camera
           (replace_managed_camera_stream_profiles camera
             (replace_managed_camera_endpoints parse_url camera
               (upsert_camera_twin camera (upsert_camera_record camera s))))))"

definition resolved_id :: "device_registry_snapshot \<Rightarrow> camera_device \<Rightarrow> string" where
  "resolved_id s incoming = unwrap_or (find_matching_camera_device_id s incoming) (ca_device_id incoming)"

fun upsert_each ::
  "(string \<Rightarrow> parsed_url option) \<Rightarrow> camera_device list \<Rightarrow> device_registry_snapshot \<Rightarrow> device_registry_snapshot" where
  "upsert_each parse_url [] s = s"
| "upsert_each parse_url (c # cs) s =
     upsert_each parse_url cs (upsert_camera_device parse_url (c\<lparr>ca_device_id := resolved_id s c\<rparr>) s)"

definition upsert_camera_devices_preserving_platform_records ::
  "(string \<Rightarrow> parsed_url option) \<Rightarrow> camera_device list \<Rightarrow> device_registry_snapshot \<Rightarrow> device_registry_snapshot" where
  "upsert_camera_devices_preserving_platform_records parse_url devices s =
     upsert_each parse_url (map normalize_camera_metadata devices) s"

text \<open>Both prunings remove the records of the chosen devices from the seven vectors.\<close>

definition drop_devices :: "string list \<Rightarrow> device_registry_snapshot \<Rightarrow> device_registry_snapshot" where
  "drop_devices gone s =
     (if gone = [] then s
      else s\<lparr>rg_devices := filter (\<lambda>d. dr_device_id d \<notin> set gone) (rg_devices s),
             rg_device_endpoints := filter (\<lambda>e. de_device_id e \<notin> set gone) (rg_device_endpoints s),
             rg_provider_bindings := filter (\<lambda>b. pb_device_id b \<notin> set gone) (rg_provider_bindings s),
             rg_capabilities := filter (\<lambda>c. cr_device_id c \<notin> set gone) (rg_capabilities s),
             rg_device_twins := filter (\<lambda>t. dt_device_id t \<notin> set gone) (rg_device_twins s),
             rg_camera_profiles := filter (\<lambda>p. cp_device_id p \<notin> set gone) (rg_camera_profiles s),
             rg_stream_profiles := filter (\<lambda>p. sp_device_id p \<notin> set gone) (rg_stream_profiles s)\<rparr>)"

definition prune_missing_camera_devices :: "string list \<Rightarrow> device_registry_snapshot \<Rightarrow> device_registry_snapshot" where
  "prune_missing_camera_devices keep s =
     drop_devices (map dr_device_id (filter (\<lambda>d. dr_kind d = DkCamera \<and> dr_device_id d \<notin> set keep) (rg_devices s))) s"

definition replace_camera_devices_preserving_platform_records ::
  "(string \<Rightarrow> parsed_url option) \<Rightarrow> camera_device list \<Rightarrow> device_registry_snapshot \<Rightarrow> device_registry_snapshot" where
  "replace_camera_devices_preserving_platform_records parse_url devices s =
     (let normalized = map normalize_camera_metadata devices; keep = map (resolved_id s) normalized in
      prune_missing_camera_devices keep (upsert_camera_devices_preserving_platform_records parse_url normalized s))"

section \<open>Home Assistant\<close>

fun slug_push :: "string \<Rightarrow> string \<Rightarrow> string" where
  "slug_push slug [] = slug"
| "slug_push slug (c # cs) =
     slug_push (if is_ascii_alphanumeric c then slug @ [ascii_lower c]
                else if ends_with slug ''-'' then slug else slug @ ''-'') cs"

definition trim_matches_dash :: "string \<Rightarrow> string" where
  "trim_matches_dash s = rev (dropWhile (\<lambda>c. c = CHR ''-'') (rev (dropWhile (\<lambda>c. c = CHR ''-'') s)))"

definition home_assistant_device_id :: "string \<Rightarrow> string" where
  "home_assistant_device_id entity_id =
     (let slug = trim_matches_dash (slug_push [] entity_id) in if slug = [] then ''ha-entity'' else ''ha-'' @ slug)"

definition home_assistant_binding_id :: "string \<Rightarrow> string" where
  "home_assistant_binding_id device_id = device_id @ ''::binding::home_assistant''"

definition home_assistant_device_kind :: "string \<Rightarrow> device_kind" where
  "home_assistant_device_kind domain =
     (if domain = ''camera'' then DkCamera else if domain = ''light'' then DkLight
      else if domain \<in> {''sensor'', ''binary_sensor''} then DkSensor else if domain = ''lock'' then DkLock
      else if domain \<in> {''media_player'', ''scene'', ''script'', ''automation'', ''climate'', ''cover'', ''fan'', ''switch''}
      then DkService else DkUnknown)"

definition home_assistant_connectivity_state :: "string \<Rightarrow> connectivity_state" where
  "home_assistant_connectivity_state state =
     (if state = ''unavailable'' then CsOffline else if state = ''unknown'' then CsUnknown else CsOnline)"

definition home_assistant_capability_availability :: "string \<Rightarrow> capability_availability" where
  "home_assistant_capability_availability state =
     (if state = ''unavailable'' then CvUnavailable else if state = ''unknown'' then CvDegraded else CvAvailable)"

definition home_assistant_metadata :: "home_assistant_registry_entity \<Rightarrow> json" where
  "home_assistant_metadata entity =
     jobj [(''provider_key'', JStr ''home_assistant''), (''provider_kind'', JStr ''bridge''),
       (''remote_device_id'', JStr (ha_entity_id entity)), (''domain'', JStr (ha_domain entity)),
       (''device_class'', jopt_str (ha_device_class entity)), (''read_only_mvp'', JBool True),
       (''camera_role'', JStr (if ha_domain entity = ''camera'' then ''discovery_status_fallback'' else ''state_projection''))]"

definition change_home_assistant_record :: "home_assistant_registry_entity \<Rightarrow> device_record \<Rightarrow> device_record" where
  "change_home_assistant_record entity e =
     e\<lparr>dr_kind := home_assistant_device_kind (ha_domain entity), dr_display_name := ha_display_name entity,
       dr_primary_room_id := ha_area_id entity, dr_lifecycle_state := DlRegistered, dr_source := ''home_assistant'',
       dr_metadata := home_assistant_metadata entity\<rparr>"

definition home_assistant_record :: "string \<Rightarrow> home_assistant_registry_entity \<Rightarrow> device_record" where
  "home_assistant_record device_id entity =
     \<lparr>dr_device_id = device_id, dr_workspace_id = [], dr_kind = home_assistant_device_kind (ha_domain entity),
      dr_subtype = Some (ha_domain entity), dr_display_name = ha_display_name entity, dr_aliases = [],
      dr_vendor = Some ''Home Assistant'', dr_model = ha_device_class entity, dr_serial_number = None, dr_mac_address = None,
      dr_primary_room_id = ha_area_id entity, dr_lifecycle_state = DlRegistered, dr_source = ''home_assistant'',
      dr_metadata = home_assistant_metadata entity\<rparr>"

definition upsert_home_assistant_record ::
  "string \<Rightarrow> home_assistant_registry_entity \<Rightarrow> device_registry_snapshot \<Rightarrow> device_registry_snapshot" where
  "upsert_home_assistant_record device_id entity s =
     s\<lparr>rg_devices := vec_upsert dr_device_id device_id (change_home_assistant_record entity)
         (home_assistant_record device_id entity) (rg_devices s)\<rparr>"

definition change_home_assistant_twin :: "home_assistant_registry_entity \<Rightarrow> device_twin \<Rightarrow> device_twin" where
  "change_home_assistant_twin entity e =
     e\<lparr>dt_connectivity_state := home_assistant_connectivity_state (ha_state entity),
       dt_reported_state := jobj [(''state'', JStr (ha_state entity)), (''attributes'', ha_attributes entity),
         (''domain'', JStr (ha_domain entity)), (''entity_id'', JStr (ha_entity_id entity))],
       dt_last_seen_at := or_else (ha_last_updated entity) (ha_last_changed entity)\<rparr>"

definition home_assistant_twin :: "string \<Rightarrow> home_assistant_registry_entity \<Rightarrow> device_twin" where
  "home_assistant_twin device_id entity =
     change_home_assistant_twin entity
       \<lparr>dt_device_id = device_id, dt_connectivity_state = CsOnline, dt_reported_state = JNull, dt_desired_state = jobj [],
        dt_health_state = jobj [], dt_last_event_id = None, dt_last_seen_at = None\<rparr>"

definition upsert_home_assistant_twin ::
  "string \<Rightarrow> home_assistant_registry_entity \<Rightarrow> device_registry_snapshot \<Rightarrow> device_registry_snapshot" where
  "upsert_home_assistant_twin device_id entity s =
     s\<lparr>rg_device_twins := vec_upsert dt_device_id device_id (change_home_assistant_twin entity)
         (home_assistant_twin device_id entity) (rg_device_twins s)\<rparr>"

definition replace_home_assistant_binding ::
  "string \<Rightarrow> home_assistant_registry_entity \<Rightarrow> string \<Rightarrow> device_registry_snapshot \<Rightarrow> device_registry_snapshot" where
  "replace_home_assistant_binding device_id entity sync_at s =
     s\<lparr>rg_provider_bindings :=
         filter (\<lambda>b. \<not> (pb_device_id b = device_id \<and> pb_provider_key b = ''home_assistant'')) (rg_provider_bindings s)
         @ [\<lparr>pb_binding_id = home_assistant_binding_id device_id, pb_device_id = device_id, pb_provider_account_id = None,
             pb_provider_key = ''home_assistant'', pb_provider_kind = PkBridge,
             pb_remote_device_id = Some (ha_entity_id entity), pb_credential_ref = None, pb_binding_status = PbActive,
             pb_support_mode = SmBridge,
             pb_metadata = jobj [(''domain'', JStr (ha_domain entity)), (''device_class'', jopt_str (ha_device_class entity)),
               (''read_only_mvp'', JBool True), (''service_calls_exposed'', JBool False)],
             pb_last_sync_at = Some sync_at\<rparr>]\<rparr>"

definition replace_home_assistant_capabilities ::
  "string \<Rightarrow> home_assistant_registry_entity \<Rightarrow> device_registry_snapshot \<Rightarrow> device_registry_snapshot" where
  "replace_home_assistant_capabilities device_id entity s =
     s\<lparr>rg_capabilities :=
         filter (\<lambda>c. \<not> (cr_device_id c = device_id \<and> cr_source_binding_id c = Some (home_assistant_binding_id device_id)))
           (rg_capabilities s)
         @ [\<lparr>cr_capability_id = device_id @ ''::capability::ha_state'', cr_device_id = device_id,
             cr_capability_code = ''ha.'' @ ha_domain entity @ ''.state'', cr_category = CcState, cr_access_mode = CaRead,
             cr_support_mode = SmBridge, cr_availability = home_assistant_capability_availability (ha_state entity),
             cr_source_binding_id = Some (home_assistant_binding_id device_id),
             cr_metadata = jobj [(''entity_id'', JStr (ha_entity_id entity)), (''domain'', JStr (ha_domain entity)),
               (''read_only_mvp'', JBool True)]\<rparr>]\<rparr>"

definition upsert_home_assistant_device ::
  "string \<Rightarrow> home_assistant_registry_entity \<Rightarrow> string \<Rightarrow> device_registry_snapshot \<Rightarrow> device_registry_snapshot" where
  "upsert_home_assistant_device device_id entity sync_at s =
     replace_home_assistant_capabilities device_id entity
       (replace_home_assistant_binding device_id entity sync_at
         (upsert_home_assistant_twin device_id entity (upsert_home_assistant_record device_id entity s)))"

definition prune_missing_home_assistant_entities :: "string list \<Rightarrow> device_registry_snapshot \<Rightarrow> device_registry_snapshot" where
  "prune_missing_home_assistant_entities keep s =
     drop_devices (map dr_device_id (filter (\<lambda>d. dr_source d = ''home_assistant'' \<and> dr_device_id d \<notin> set keep) (rg_devices s))) s"

definition upsert_home_assistant_entities ::
  "home_assistant_registry_entity list \<Rightarrow> string \<Rightarrow> device_registry_snapshot \<Rightarrow> device_registry_snapshot" where
  "upsert_home_assistant_entities entities sync_at s =
     prune_missing_home_assistant_entities (map (\<lambda>e. home_assistant_device_id (ha_entity_id e)) entities)
       (fold (\<lambda>e. upsert_home_assistant_device (home_assistant_device_id (ha_entity_id e)) e sync_at) entities s)"

section \<open>The store\<close>

datatype device_registry_payload = PayloadLegacy "camera_device list" | PayloadSnapshot device_registry_snapshot

record registry_env =
  rv_path :: string
  rv_parent :: "string option"
  rv_parse_url :: "string \<Rightarrow> parsed_url option"
  rv_from_json :: "string \<Rightarrow> string + device_registry_payload"
  rv_to_json :: "device_registry_snapshot \<Rightarrow> string + string"
  rv_read :: "string \<Rightarrow> string + string"
  rv_create_dir_all :: "string + unit"
  rv_write :: "string \<Rightarrow> (string + unit) \<times> string option"

definition registry_err :: "string \<Rightarrow> string \<Rightarrow> string + 'a \<Rightarrow> string + 'a" where
  "registry_err what path r = (case r of Inl e \<Rightarrow> Err (''failed to '' @ what @ '' '' @ path @ '': '' @ e) | Inr x \<Rightarrow> Ok x)"

definition ensure_registry_parent :: "registry_env \<Rightarrow> string + unit" where
  "ensure_registry_parent env = (case rv_parent env of None \<Rightarrow> Ok ()
     | Some parent \<Rightarrow> registry_err ''create device registry directory'' parent (rv_create_dir_all env))"

definition load_snapshot :: "registry_env \<Rightarrow> string option \<Rightarrow> string + device_registry_snapshot" where
  "load_snapshot env file =
     (case file of None \<Rightarrow> Ok empty_registry_snapshot
      | Some content \<Rightarrow>
          and_then (registry_err ''read device registry'' (rv_path env) (rv_read env content)) (\<lambda>text.
          and_then (registry_err ''parse device registry'' (rv_path env) (rv_from_json env text)) (\<lambda>payload.
          Ok (case payload of PayloadLegacy devices \<Rightarrow> from_camera_devices (rv_parse_url env) devices
              | PayloadSnapshot snapshot \<Rightarrow> snapshot))))"

text \<open>\<open>rv_write\<close> gives the result of the write and the content of the file after it.\<close>

definition save_snapshot :: "registry_env \<Rightarrow> string option \<Rightarrow> device_registry_snapshot \<Rightarrow> (string + unit) \<times> string option" where
  "save_snapshot env file snapshot =
     (case and_then (ensure_registry_parent env) (\<lambda>_.
           registry_err ''serialize device registry'' (rv_path env) (rv_to_json env snapshot)) of
        Inl e \<Rightarrow> (Err e, file)
      | Inr text \<Rightarrow> (case rv_write env text of (r, file') \<Rightarrow> (registry_err ''write device registry'' (rv_path env) r, file')))"

definition with_schema_version :: "device_registry_snapshot \<Rightarrow> device_registry_snapshot" where
  "with_schema_version s = (if rg_schema_version s = 0 then s\<lparr>rg_schema_version := default_registry_schema_version\<rparr> else s)"

definition load_devices :: "registry_env \<Rightarrow> string option \<Rightarrow> string + camera_device list" where
  "load_devices env file = and_then (load_snapshot env file) (\<lambda>s. Ok (to_camera_devices s))"

definition resolve_camera_target :: "registry_env \<Rightarrow> string option \<Rightarrow> string \<Rightarrow> string + camera_target_view" where
  "resolve_camera_target env file device_id =
     and_then (load_snapshot env file) (\<lambda>s. case camera_target s device_id of
       None \<Rightarrow> Err (''device not found in registry: '' @ device_id) | Some t \<Rightarrow> Ok t)"

definition save_devices :: "registry_env \<Rightarrow> string option \<Rightarrow> camera_device list \<Rightarrow> (string + unit) \<times> string option" where
  "save_devices env file devices =
     (case load_snapshot env file of Inl e \<Rightarrow> (Err e, file)
      | Inr s \<Rightarrow> save_snapshot env file
          (replace_camera_devices_preserving_platform_records (rv_parse_url env) devices (with_schema_version s)))"

definition upsert_devices ::
  "registry_env \<Rightarrow> string option \<Rightarrow> camera_device list \<Rightarrow> (string + device_registry_snapshot) \<times> string option" where
  "upsert_devices env file devices =
     (case load_snapshot env file of Inl e \<Rightarrow> (Err e, file)
      | Inr s \<Rightarrow>
          let s' = upsert_camera_devices_preserving_platform_records (rv_parse_url env) devices (with_schema_version s)
          in case save_snapshot env file s' of (Inl e, file') \<Rightarrow> (Err e, file') | (Inr _, file') \<Rightarrow> (Ok s', file'))"

end
