(* ===== verification/Device_Registry_Laws.thy ===== *)
theory Device_Registry_Laws
  imports Device_Registry
begin

text \<open>
  Properties of the device registry: the five searched-and-changed vectors are keyed vectors, what a camera reads
  back as after it was written, that other devices are left alone, the invariant of the registry under every sequence
  of operations, and the synchronisation of Home Assistant.
\<close>

section \<open>The vectors are keyed\<close>

interpretation cam_record: keyed_vec dr_device_id "ca_device_id c" "change_camera_record c" "record_from_camera src c" for c src
  by unfold_locales (simp_all add: change_camera_record_def record_from_camera_def)

interpretation cam_twin: keyed_vec dt_device_id "ca_device_id c" "change_camera_twin c" "twin_from_camera c" for c
  by unfold_locales (simp_all add: change_camera_twin_def twin_from_camera_def)

interpretation cam_profile: keyed_vec cp_device_id "ca_device_id c" "change_camera_profile c" "profile_from_camera c" for c
  by unfold_locales (simp_all add: change_camera_profile_def profile_from_camera_def)

interpretation ha_record: keyed_vec dr_device_id i "change_home_assistant_record e" "home_assistant_record i e" for i e
  by unfold_locales (simp_all add: change_home_assistant_record_def home_assistant_record_def)

interpretation ha_twin: keyed_vec dt_device_id i "change_home_assistant_twin e" "home_assistant_twin i e" for i e
  by unfold_locales (simp_all add: change_home_assistant_twin_def home_assistant_twin_def)

section \<open>Identifiers\<close>

lemma managed_id_inject [simp]:
  "managed_camera_ipv4_endpoint_id d = managed_camera_ipv4_endpoint_id d' \<longleftrightarrow> d = d'"
  "managed_camera_primary_stream_endpoint_id d = managed_camera_primary_stream_endpoint_id d' \<longleftrightarrow> d = d'"
  "managed_camera_primary_stream_profile_id d = managed_camera_primary_stream_profile_id d' \<longleftrightarrow> d = d'"
  "home_assistant_binding_id d = home_assistant_binding_id d' \<longleftrightarrow> d = d'"
  by (simp_all add: managed_camera_ipv4_endpoint_id_def managed_camera_primary_stream_endpoint_id_def
      managed_camera_primary_stream_profile_id_def home_assistant_binding_id_def)

lemma managed_endpoint_ids_differ [simp]:
  "managed_camera_ipv4_endpoint_id d \<noteq> managed_camera_primary_stream_endpoint_id d'"
  "managed_camera_primary_stream_endpoint_id d \<noteq> managed_camera_ipv4_endpoint_id d'"
proof -
  have "last (managed_camera_ipv4_endpoint_id d) \<noteq> last (managed_camera_primary_stream_endpoint_id d')"
    by (simp add: managed_camera_ipv4_endpoint_id_def managed_camera_primary_stream_endpoint_id_def)
  then show "managed_camera_ipv4_endpoint_id d \<noteq> managed_camera_primary_stream_endpoint_id d'" by metis
  have "last (managed_camera_ipv4_endpoint_id d') \<noteq> last (managed_camera_primary_stream_endpoint_id d)"
    by (simp add: managed_camera_ipv4_endpoint_id_def managed_camera_primary_stream_endpoint_id_def)
  then show "managed_camera_primary_stream_endpoint_id d \<noteq> managed_camera_ipv4_endpoint_id d'" by metis
qed

section \<open>Searching vectors of several owners\<close>

lemma find_filter: "find P (filter Q xs) = find (\<lambda>x. Q x \<and> P x) xs"
  by (induction xs) auto

lemma find_None_notin: "(\<And>x. x \<in> set xs \<Longrightarrow> \<not> P x) \<Longrightarrow> find P xs = None"
  by (simp add: find_None_iff)

lemma find_cong_in: "(\<And>x. x \<in> set xs \<Longrightarrow> P x = Q x) \<Longrightarrow> find P xs = find Q xs"
  by (induction xs) auto

lemma filter_concat_own:
  assumes "distinct (map key cs)" "c \<in> set cs" "\<And>c x. x \<in> set (f c) \<Longrightarrow> own x = key c"
  shows "filter (\<lambda>x. own x = key c) (concat (map f cs)) = f c"
  using assms(1,2)
proof (induction cs)
  case (Cons a cs)
  have none: "filter (\<lambda>x. own x = key c) (concat (map f xs)) = []" if "key c \<notin> key ` set xs" for xs
    using that assms(3) by (auto simp: filter_empty_conv image_iff)
  show ?case
  proof (cases "a = c")
    case True
    then have "filter (\<lambda>x. own x = key c) (f a) = f c" using assms(3) by (simp add: filter_id_conv)
    moreover have "key c \<notin> key ` set cs" using Cons.prems True by auto
    ultimately show ?thesis using none [of cs] by simp
  next
    case False
    then have "key a \<noteq> key c" using Cons.prems by auto
    then have "filter (\<lambda>x. own x = key c) (f a) = []" using assms(3) [of _ a] by (auto simp: filter_empty_conv)
    then show ?thesis using Cons False by simp
  qed
qed simp

lemma find_map_own:
  assumes "distinct (map key cs)" "c \<in> set cs" "\<And>c. own (f c) = key c"
  shows "find (\<lambda>x. own x = key c) (map f cs) = Some (f c)"
  using assms(1,2) by (induction cs) (auto simp: assms(3))

section \<open>What a stored camera reads back as\<close>

lemma transport_round_trip [simp]: "control_stream_transport_to_legacy (legacy_stream_transport_to_control t) = t"
  by (cases t) simp_all

lemma status_round_trip [simp]: "connectivity_to_legacy_status (legacy_status_to_connectivity t) = t"
  by (cases t) simp_all

lemma camera_capabilities_round_trip [simp]:
  "camera_capabilities_from_records (capability_records_from_camera c) = ca_capabilities c"
  by (cases "ca_capabilities c") (simp add: camera_capabilities_from_records_def capability_records_from_camera_def Let_def
      camera_capability_def add_capability_code_def no_capabilities_def)

lemma jobj_url [simp]: "json_get (jobj [(k, v)]) k = Some v"
  by (simp add: jobj_def hm_get_def)

lemma stream_url_round_trip [simp]: "stream_url_from_endpoint (stream_endpoint_from_camera pu c i) = cs_url (ca_primary_stream c)"
  by (simp add: stream_url_from_endpoint_def stream_endpoint_from_camera_def Let_def)

lemma endpoint_fields [simp]:
  "de_endpoint_id (stream_endpoint_from_camera pu c i) = i"
  "de_device_id (stream_endpoint_from_camera pu c i) = ca_device_id c"
  "de_requires_auth (stream_endpoint_from_camera pu c i) = cs_requires_auth (ca_primary_stream c)"
  "de_endpoint_kind (stream_endpoint_from_camera pu c i) \<noteq> EkIpv4"
  by (simp_all add: stream_endpoint_from_camera_def Let_def split: stream_transport.split)

lemma ipv4_endpoint_fields:
  "e \<in> set (ipv4_endpoints c) \<Longrightarrow> de_device_id e = ca_device_id c \<and> de_endpoint_kind e = EkIpv4 \<and>
     de_endpoint_id e = managed_camera_ipv4_endpoint_id (ca_device_id c)"
  by (auto simp: ipv4_endpoints_def split: option.splits)

lemma find_ipv4: "map_option de_host (find (\<lambda>e. de_endpoint_kind e = EkIpv4) (ipv4_endpoints c)) = ca_ip_address c"
  by (simp add: ipv4_endpoints_def split: option.split)

lemma binding_fields:
  "b \<in> set (provider_bindings_from_camera c) \<Longrightarrow> pb_device_id b = ca_device_id c"
  by (auto simp: provider_bindings_from_camera_def Let_def split: option.splits)

lemma capability_fields: "x \<in> set (capability_records_from_camera c) \<Longrightarrow> cr_device_id x = ca_device_id c"
  by (auto simp: capability_records_from_camera_def camera_capability_def Let_def split: if_splits)

lemma stream_key_simps [simp]:
  "is_stream_key (stream_provider_key t)" "\<not> is_stream_key ''onvif''" "\<not> is_stream_key ''ezviz''"
  "\<not> is_stream_key ''home_assistant''" "stream_provider_key t \<noteq> ''onvif''" "stream_provider_key t \<noteq> ''ezviz''"
  by (cases t; simp add: is_stream_key_def)+

lemma camera_no_round_trip [simp]: "map_option word_of_int (as_u64 (JInt (uint (n :: u32)))) = Some n"
proof -
  have "uint n < 2 ^ 64" using uint_bounded [of n] by simp
  then show ?thesis by simp
qed

lemma camera_bindings_read_back:
  fixes c :: camera_device and pu :: "string \<Rightarrow> parsed_url option"
  defines "bs \<equiv> provider_bindings_from_camera c"
  shows "Option.bind (find (\<lambda>b. is_stream_key (pb_provider_key b)) bs)
      (\<lambda>b. binding_str b ''snapshot_url'') = ca_snapshot_url c"
    and "Option.bind (find (\<lambda>b. pb_provider_key b = ''onvif'') bs) (\<lambda>b. binding_str b ''device_service_url'') =
      ca_onvif_device_service_url c"
    and "Option.bind (find (\<lambda>b. pb_provider_key b = ''ezviz'') bs) pb_remote_device_id = ca_ezviz_device_serial c"
    and "Option.bind (find (\<lambda>b. pb_provider_key b = ''ezviz'') bs) (\<lambda>b.
      map_option word_of_int (Option.bind (json_get (pb_metadata b) ''camera_no'') as_u64)) =
      (if ca_ezviz_device_serial c = None then None else ca_ezviz_camera_no c)"
proof -
  show "Option.bind (find (\<lambda>b. is_stream_key (pb_provider_key b)) bs)
      (\<lambda>b. binding_str b ''snapshot_url'') = ca_snapshot_url c"
    by (cases "ca_snapshot_url c"; cases "cs_transport (ca_primary_stream c)")
      (simp_all add: bs_def provider_bindings_from_camera_def Let_def binding_str_def jobj_def hm_get_def is_stream_key_def)
  show "Option.bind (find (\<lambda>b. pb_provider_key b = ''onvif'') bs) (\<lambda>b. binding_str b ''device_service_url'') =
      ca_onvif_device_service_url c"
    by (cases "cs_transport (ca_primary_stream c)"; cases "ca_onvif_device_service_url c"; cases "ca_ezviz_device_serial c")
      (simp_all add: bs_def provider_bindings_from_camera_def Let_def binding_str_def jobj_def hm_get_def)
  show "Option.bind (find (\<lambda>b. pb_provider_key b = ''ezviz'') bs) pb_remote_device_id = ca_ezviz_device_serial c"
    by (cases "cs_transport (ca_primary_stream c)"; cases "ca_onvif_device_service_url c"; cases "ca_ezviz_device_serial c")
      (simp_all add: bs_def provider_bindings_from_camera_def Let_def)
  show "Option.bind (find (\<lambda>b. pb_provider_key b = ''ezviz'') bs) (\<lambda>b.
      map_option word_of_int (Option.bind (json_get (pb_metadata b) ''camera_no'') as_u64)) =
      (if ca_ezviz_device_serial c = None then None else ca_ezviz_camera_no c)"
    by (cases "cs_transport (ca_primary_stream c)"; cases "ca_onvif_device_service_url c"; cases "ca_ezviz_device_serial c";
        cases "ca_ezviz_camera_no c")
      (simp_all add: bs_def provider_bindings_from_camera_def Let_def camera_no_round_trip del: as_u64.simps(1))
qed

section \<open>Legacy registries\<close>

definition camera_endpoints :: "(string \<Rightarrow> parsed_url option) \<Rightarrow> camera_device \<Rightarrow> device_endpoint list" where
  "camera_endpoints pu c =
     ipv4_endpoints c @ [stream_endpoint_from_camera pu c (managed_camera_primary_stream_endpoint_id (ca_device_id c))]"

lemma from_camera_devices_eq:
  "from_camera_devices pu cs = \<lparr>rg_schema_version = default_registry_schema_version,
     rg_devices = map (\<lambda>c. record_from_camera (ca_discovery_source c) c) cs,
     rg_device_endpoints = concat (map (camera_endpoints pu) cs),
     rg_provider_bindings = concat (map provider_bindings_from_camera cs),
     rg_capabilities = concat (map capability_records_from_camera cs), rg_device_twins = map twin_from_camera cs,
     rg_camera_profiles = map profile_from_camera cs, rg_stream_profiles = map primary_stream_profile cs\<rparr>"
proof -
  have "fold (\<lambda>c s. push_camera pu s c) cs s = s\<lparr>
     rg_devices := rg_devices s @ map (\<lambda>c. record_from_camera (ca_discovery_source c) c) cs,
     rg_device_endpoints := rg_device_endpoints s @ concat (map (camera_endpoints pu) cs),
     rg_provider_bindings := rg_provider_bindings s @ concat (map provider_bindings_from_camera cs),
     rg_capabilities := rg_capabilities s @ concat (map capability_records_from_camera cs),
     rg_device_twins := rg_device_twins s @ map twin_from_camera cs,
     rg_camera_profiles := rg_camera_profiles s @ map profile_from_camera cs,
     rg_stream_profiles := rg_stream_profiles s @ map primary_stream_profile cs\<rparr>" for s
    by (induction cs arbitrary: s) (simp_all add: push_camera_def camera_endpoints_def)
  then show ?thesis by (simp add: from_camera_devices_def empty_registry_snapshot_def)
qed

lemma camera_endpoint_owner: "e \<in> set (camera_endpoints pu c) \<Longrightarrow> de_device_id e = ca_device_id c"
  by (auto simp: camera_endpoints_def dest: ipv4_endpoint_fields)

lemma camera_endpoint_primary_id:
  "e \<in> set (camera_endpoints pu c) \<Longrightarrow> de_endpoint_id e = managed_camera_primary_stream_endpoint_id d \<Longrightarrow> ca_device_id c = d"
  by (auto simp: camera_endpoints_def dest: ipv4_endpoint_fields)

lemma find_camera_endpoints:
  "find (\<lambda>e. de_endpoint_id e = managed_camera_primary_stream_endpoint_id (ca_device_id c)) (camera_endpoints pu c) =
     Some (stream_endpoint_from_camera pu c (managed_camera_primary_stream_endpoint_id (ca_device_id c)))"
  "map_option de_host (find (\<lambda>e. de_endpoint_kind e = EkIpv4) (camera_endpoints pu c)) = ca_ip_address c"
  by (simp_all add: camera_endpoints_def find_append ipv4_endpoints_def split: option.split)

lemma native_snapshot_absent:
  "ca_snapshot_url c = None \<Longrightarrow> native_snapshot_url (profile_from_camera c) = None"
  by (simp add: native_snapshot_url_def vendor_feature_str_def profile_from_camera_def tapo_vendor_features_def
      normalize_optional_string_def Let_def hm_get_def)

definition storable :: "camera_device \<Rightarrow> bool" where
  "storable c \<longleftrightarrow> ca_kind c = LkCamera \<and> \<not> blank (ca_discovery_source c) \<and>
     (ca_ezviz_device_serial c = None \<longrightarrow> ca_ezviz_camera_no c = None)"

lemma legacy_camera_resolves:
  assumes "distinct (map ca_device_id cs)" "c \<in> set cs" "storable c"
  shows "map_option camera_of_target
    (resolved_camera_target (from_camera_devices pu cs) (record_from_camera (ca_discovery_source c) c)) = Some c"
proof -
  let ?s = "from_camera_devices pu cs" and ?i = "ca_device_id c"
  have own [simp]: "cp_device_id (profile_from_camera c) = ca_device_id c" "dt_device_id (twin_from_camera c) = ca_device_id c"
    "sp_device_id (primary_stream_profile c) = ca_device_id c" for c
    by (simp_all add: profile_from_camera_def twin_from_camera_def primary_stream_profile_def)
  have prof: "find (\<lambda>p. cp_device_id p = ?i) (rg_camera_profiles ?s) = Some (profile_from_camera c)"
    using find_map_own [OF assms(1,2), of cp_device_id profile_from_camera] by (simp add: from_camera_devices_eq)
  have twin: "find (\<lambda>p. dt_device_id p = ?i) (rg_device_twins ?s) = Some (twin_from_camera c)"
    using find_map_own [OF assms(1,2), of dt_device_id twin_from_camera] by (simp add: from_camera_devices_eq)
  have "find (\<lambda>p. sp_stream_profile_id p = managed_camera_primary_stream_profile_id ?i) (map primary_stream_profile cs) =
      Some (primary_stream_profile c)"
    using assms(1,2) by (induction cs) (auto simp: primary_stream_profile_def)
  then have stream: "preferred_stream_profile (rg_stream_profiles ?s) ?i (cp_default_stream_profile_id (profile_from_camera c)) =
      Some (primary_stream_profile c)"
    by (simp add: from_camera_devices_eq preferred_stream_profile_def profile_from_camera_def)
  have eps: "filter (\<lambda>e. de_device_id e = ?i) (rg_device_endpoints ?s) = camera_endpoints pu c"
    using filter_concat_own [OF assms(1,2), of "camera_endpoints pu" de_device_id] camera_endpoint_owner
    by (simp add: from_camera_devices_eq)
  have "find (\<lambda>e. de_endpoint_id e = managed_camera_primary_stream_endpoint_id ?i) (rg_device_endpoints ?s) =
      find (\<lambda>e. de_device_id e = ?i \<and> de_endpoint_id e = managed_camera_primary_stream_endpoint_id ?i) (rg_device_endpoints ?s)"
    by (intro find_cong_in)
      (auto simp: from_camera_devices_eq camera_endpoint_owner dest: camera_endpoint_primary_id)
  then have ep: "find (\<lambda>e. de_endpoint_id e = managed_camera_primary_stream_endpoint_id ?i) (rg_device_endpoints ?s) =
      Some (stream_endpoint_from_camera pu c (managed_camera_primary_stream_endpoint_id ?i))"
    using find_camera_endpoints(1) by (simp add: find_filter [symmetric] eps)
  have ip: "map_option de_host (find (\<lambda>e. de_device_id e = ?i \<and> de_endpoint_kind e = EkIpv4) (rg_device_endpoints ?s)) = ca_ip_address c"
    using find_camera_endpoints(2) by (simp add: find_filter [symmetric] eps)
  have bs: "filter (\<lambda>b. pb_device_id b = ?i) (rg_provider_bindings ?s) = provider_bindings_from_camera c"
    using filter_concat_own [OF assms(1,2), of provider_bindings_from_camera pb_device_id] binding_fields
    by (simp add: from_camera_devices_eq)
  have caps: "filter (\<lambda>b. cr_device_id b = ?i) (rg_capabilities ?s) = capability_records_from_camera c"
    using filter_concat_own [OF assms(1,2), of capability_records_from_camera cr_device_id] capability_fields
    by (simp add: from_camera_devices_eq)
  have snap: "or_else (ca_snapshot_url c) (native_snapshot_url (profile_from_camera c)) = ca_snapshot_url c"
    using native_snapshot_absent [of c] by (cases "ca_snapshot_url c") simp_all
  have rec: "dr_device_id (record_from_camera src c) = ?i" "dr_source (record_from_camera src c) = src"
    "dr_kind (record_from_camera src c) = DkCamera" "dr_display_name (record_from_camera src c) = ca_name c"
    "dr_primary_room_id (record_from_camera src c) = ca_room c" "dr_vendor (record_from_camera src c) = ca_vendor c"
    "dr_model (record_from_camera src c) = ca_model c" "dr_mac_address (record_from_camera src c) = ca_mac_address c" for src
    using assms(3) by (simp_all add: record_from_camera_def storable_def)
  have sp: "sp_endpoint_id (primary_stream_profile c) = managed_camera_primary_stream_endpoint_id ?i"
    "sp_transport (primary_stream_profile c) = legacy_stream_transport_to_control (cs_transport (ca_primary_stream c))"
    by (simp_all add: primary_stream_profile_def)
  have tw: "dt_connectivity_state (twin_from_camera c) = legacy_status_to_connectivity (ca_status c)"
    "dt_last_seen_at (twin_from_camera c) = ca_last_seen_at c" by (simp_all add: twin_from_camera_def)
  have eta: "\<lparr>cs_transport = cs_transport r, cs_url = cs_url r, cs_requires_auth = cs_requires_auth r\<rparr> = r" for r :: camera_stream_ref
    by simp
  have ez: "(if ca_ezviz_device_serial c = None then None else ca_ezviz_camera_no c) = ca_ezviz_camera_no c" "ca_kind c = LkCamera"
    "\<not> blank (ca_discovery_source c)"
    using assms(3) by (auto simp: storable_def)
  show ?thesis
    by (simp add: resolved_camera_target_def Let_def rec prof stream sp ep twin bs caps ip camera_bindings_read_back
        native_snapshot_url_from_camera_profile_def snap tw camera_of_target_def eta ez)
qed

text \<open>
  A legacy registry file, a list of cameras with distinct ids, is migrated without loss: the cameras read from the
  snapshot built from it are the cameras of the list, in their order, for every way of parsing URLs. A camera must be of
  kind camera, name its discovery source, and have an EZVIZ channel only together with an EZVIZ serial.
\<close>

theorem legacy_registry_round_trip:
  assumes "distinct (map ca_device_id cs)" "list_all storable cs"
  shows "to_camera_devices (from_camera_devices pu cs) = cs"
proof -
  let ?s = "from_camera_devices pu cs"
  have "List.map_filter (\<lambda>c. map_option camera_of_target (resolved_camera_target ?s (record_from_camera (ca_discovery_source c) c))) xs = xs"
    if "set xs \<subseteq> set cs" for xs
    using that
  proof (induction xs)
    case (Cons c xs)
    then show ?case using legacy_camera_resolves [OF assms(1), of c pu] assms(2) by (auto simp: list_all_iff map_filter_simps)
  qed (simp add: map_filter_simps)
  moreover have "map camera_of_target (List.map_filter f (map g xs)) = List.map_filter (\<lambda>c. map_option camera_of_target (f (g c))) xs"
    for f :: "device_record \<Rightarrow> camera_target_view option" and g and xs :: "camera_device list"
    by (induction xs) (auto simp: map_filter_simps split: option.split)
  ultimately show ?thesis
    by (simp add: to_camera_devices_def camera_targets_def) (simp add: from_camera_devices_eq)
qed

section \<open>The invariant\<close>

definition device_ids :: "device_registry_snapshot \<Rightarrow> string set" where
  "device_ids s = dr_device_id ` set (rg_devices s)"

definition endpoint_ok :: "device_endpoint \<Rightarrow> bool" where
  "endpoint_ok e \<longleftrightarrow> (if de_endpoint_kind e = EkIpv4 then de_endpoint_id e = managed_camera_ipv4_endpoint_id (de_device_id e)
     else de_endpoint_id e = managed_camera_primary_stream_endpoint_id (de_device_id e))"

definition binding_ok :: "provider_binding \<Rightarrow> bool" where
  "binding_ok b \<longleftrightarrow> (let d = pb_device_id b; k = pb_provider_key b in pb_binding_id b =
     (if is_stream_key k then d @ ''::binding::stream'' else if k = ''onvif'' then d @ ''::binding::onvif''
      else if k = ''ezviz'' then d @ ''::binding::ezviz'' else d @ ''::binding::home_assistant'') \<and>
     (is_stream_key k \<or> k \<in> {''onvif'', ''ezviz'', ''home_assistant''}))"

definition stream_ok :: "stream_profile \<Rightarrow> bool" where
  "stream_ok p \<longleftrightarrow> sp_stream_profile_id p = managed_camera_primary_stream_profile_id (sp_device_id p) \<and>
     sp_endpoint_id p = managed_camera_primary_stream_endpoint_id (sp_device_id p)"

definition profile_ok :: "camera_profile \<Rightarrow> bool" where
  "profile_ok p \<longleftrightarrow> cp_default_stream_profile_id p = Some (managed_camera_primary_stream_profile_id (cp_device_id p))"

definition registry_wf :: "device_registry_snapshot \<Rightarrow> bool" where
  "registry_wf s \<longleftrightarrow>
     distinct (map dr_device_id (rg_devices s)) \<and> distinct (map dt_device_id (rg_device_twins s)) \<and>
     distinct (map cp_device_id (rg_camera_profiles s)) \<and>
     (\<forall>e\<in>set (rg_device_endpoints s). endpoint_ok e \<and> de_device_id e \<in> device_ids s) \<and>
     (\<forall>b\<in>set (rg_provider_bindings s). binding_ok b \<and> pb_device_id b \<in> device_ids s) \<and>
     (\<forall>p\<in>set (rg_stream_profiles s). stream_ok p \<and> sp_device_id p \<in> device_ids s) \<and>
     (\<forall>p\<in>set (rg_camera_profiles s). profile_ok p \<and> cp_device_id p \<in> device_ids s) \<and>
     (\<forall>c\<in>set (rg_capabilities s). cr_device_id c \<in> device_ids s) \<and>
     (\<forall>t\<in>set (rg_device_twins s). dt_device_id t \<in> device_ids s)"

lemma empty_registry_wf: "registry_wf empty_registry_snapshot"
  by (simp add: registry_wf_def empty_registry_snapshot_def)

lemma update_first_all:
  assumes "\<forall>x\<in>set xs. P x" "\<And>x. P x \<Longrightarrow> p x \<Longrightarrow> P (g x)"
  shows "\<forall>x\<in>set (update_first p g xs). P x"
  using assms(1) by (induction xs) (auto intro: assms(2))

lemma vec_upsert_all:
  assumes "\<forall>x\<in>set xs. P x" "\<And>x. P x \<Longrightarrow> key x = k \<Longrightarrow> P (g x)" "P y"
  shows "\<forall>x\<in>set (vec_upsert key k g y xs). P x"
  using update_first_all [of xs P "\<lambda>e. key e = k" g] assms by (auto simp: vec_upsert_def)

lemma upsert_camera_fields:
  "rg_devices (upsert_camera_device pu c s) = vec_upsert dr_device_id (ca_device_id c) (change_camera_record c)
     (record_from_camera (normalize_discovery_source (ca_discovery_source c)) c) (rg_devices s)"
  "rg_device_twins (upsert_camera_device pu c s) =
     vec_upsert dt_device_id (ca_device_id c) (change_camera_twin c) (twin_from_camera c) (rg_device_twins s)"
  "rg_camera_profiles (upsert_camera_device pu c s) =
     vec_upsert cp_device_id (ca_device_id c) (change_camera_profile c) (profile_from_camera c) (rg_camera_profiles s)"
  "rg_device_endpoints (upsert_camera_device pu c s) =
     filter (\<lambda>e. de_endpoint_id e \<notin> set (managed_camera_endpoint_ids (ca_device_id c))) (rg_device_endpoints s) @ camera_endpoints pu c"
  "rg_stream_profiles (upsert_camera_device pu c s) =
     filter (\<lambda>p. \<not> (sp_device_id p = ca_device_id c \<and>
       sp_stream_profile_id p = managed_camera_primary_stream_profile_id (ca_device_id c))) (rg_stream_profiles s)
     @ [primary_stream_profile c]"
  "rg_capabilities (upsert_camera_device pu c s) =
     filter (\<lambda>x. \<not> (cr_device_id x = ca_device_id c \<and>
       cr_capability_code x \<in> {''snapshot'', ''stream_live'', ''ptz'', ''audio''})) (rg_capabilities s)
     @ capability_records_from_camera c"
  "rg_provider_bindings (upsert_camera_device pu c s) =
     filter (\<lambda>b. pb_binding_id b \<notin> set (managed_provider_binding_ids (ca_device_id c))) (rg_provider_bindings s)
     @ provider_bindings_from_camera c"
  by (simp_all add: upsert_camera_device_def upsert_camera_record_def upsert_camera_twin_def replace_managed_camera_endpoints_def
      replace_managed_camera_stream_profiles_def upsert_camera_profile_def replace_managed_camera_capabilities_def
      replace_managed_provider_bindings_def camera_endpoints_def)

lemma upsert_camera_ids: "device_ids (upsert_camera_device pu c s) = insert (ca_device_id c) (device_ids s)"
  by (simp add: device_ids_def upsert_camera_fields cam_record.upsert_id_set)

lemma new_records_ok:
  "e \<in> set (camera_endpoints pu c) \<Longrightarrow> endpoint_ok e"
  "b \<in> set (provider_bindings_from_camera c) \<Longrightarrow> binding_ok b"
  "stream_ok (primary_stream_profile c)" "profile_ok (profile_from_camera c)"
  "cp_device_id p = ca_device_id c \<Longrightarrow> profile_ok (change_camera_profile c p)"
  by (auto simp: camera_endpoints_def endpoint_ok_def provider_bindings_from_camera_def binding_ok_def Let_def
      stream_ok_def primary_stream_profile_def profile_ok_def profile_from_camera_def change_camera_profile_def
      dest: ipv4_endpoint_fields split: option.splits stream_transport.split)

lemma upsert_camera_wf:
  assumes "registry_wf s"
  shows "registry_wf (upsert_camera_device pu c s)"
proof -
  let ?i = "ca_device_id c" and ?ids = "insert (ca_device_id c) (device_ids s)"
  have "\<forall>p\<in>set (vec_upsert cp_device_id ?i (change_camera_profile c) (profile_from_camera c) (rg_camera_profiles s)).
      profile_ok p \<and> cp_device_id p \<in> ?ids"
    using assms by (intro vec_upsert_all) (auto simp: registry_wf_def new_records_ok cam_profile.key_change cam_profile.key_fresh)
  moreover have "\<forall>t\<in>set (vec_upsert dt_device_id ?i (change_camera_twin c) (twin_from_camera c) (rg_device_twins s)).
      dt_device_id t \<in> ?ids"
    using assms by (intro vec_upsert_all) (auto simp: registry_wf_def cam_twin.key_change cam_twin.key_fresh)
  moreover have "\<forall>e\<in>set (rg_device_endpoints (upsert_camera_device pu c s)). endpoint_ok e \<and> de_device_id e \<in> ?ids"
    using assms by (auto simp: upsert_camera_fields registry_wf_def new_records_ok camera_endpoint_owner)
  moreover have "\<forall>b\<in>set (rg_provider_bindings (upsert_camera_device pu c s)). binding_ok b \<and> pb_device_id b \<in> ?ids"
    using assms by (auto simp: upsert_camera_fields registry_wf_def new_records_ok binding_fields)
  moreover have "\<forall>p\<in>set (rg_stream_profiles (upsert_camera_device pu c s)). stream_ok p \<and> sp_device_id p \<in> ?ids"
    using assms by (auto simp: upsert_camera_fields registry_wf_def new_records_ok) (simp add: primary_stream_profile_def)
  moreover have "\<forall>x\<in>set (rg_capabilities (upsert_camera_device pu c s)). cr_device_id x \<in> ?ids"
    using assms by (auto simp: upsert_camera_fields registry_wf_def capability_fields)
  ultimately show ?thesis
    using assms by (simp add: registry_wf_def upsert_camera_ids upsert_camera_fields(1-3) cam_record.upsert_distinct
        cam_twin.upsert_distinct cam_profile.upsert_distinct)
qed

section \<open>A device is read from its own records\<close>

definition same_slice :: "string \<Rightarrow> device_registry_snapshot \<Rightarrow> device_registry_snapshot \<Rightarrow> bool" where
  "same_slice i s s' \<longleftrightarrow>
     filter (\<lambda>e. de_device_id e = i) (rg_device_endpoints s) = filter (\<lambda>e. de_device_id e = i) (rg_device_endpoints s') \<and>
     filter (\<lambda>b. pb_device_id b = i) (rg_provider_bindings s) = filter (\<lambda>b. pb_device_id b = i) (rg_provider_bindings s') \<and>
     filter (\<lambda>p. sp_device_id p = i) (rg_stream_profiles s) = filter (\<lambda>p. sp_device_id p = i) (rg_stream_profiles s') \<and>
     filter (\<lambda>c. cr_device_id c = i) (rg_capabilities s) = filter (\<lambda>c. cr_device_id c = i) (rg_capabilities s') \<and>
     find (\<lambda>t. dt_device_id t = i) (rg_device_twins s) = find (\<lambda>t. dt_device_id t = i) (rg_device_twins s') \<and>
     find (\<lambda>p. cp_device_id p = i) (rg_camera_profiles s) = find (\<lambda>p. cp_device_id p = i) (rg_camera_profiles s')"

lemma find_in_set: "find P xs = Some x \<Longrightarrow> x \<in> set xs"
  by (induction xs) (auto split: if_splits)

lemma preferred_in_set: "preferred_stream_profile xs i x = Some p \<Longrightarrow> p \<in> set xs"
  by (cases x) (auto simp: preferred_stream_profile_def or_else_def split: option.splits dest: find_in_set)

lemma wf_endpoint_by_id:
  assumes "registry_wf s"
  shows "find (\<lambda>e. de_endpoint_id e = managed_camera_primary_stream_endpoint_id i) (rg_device_endpoints s) =
    find (\<lambda>e. de_endpoint_id e = managed_camera_primary_stream_endpoint_id i)
      (filter (\<lambda>e. de_device_id e = i) (rg_device_endpoints s))"
  unfolding find_filter using assms
  by (intro find_cong_in) (auto simp: registry_wf_def endpoint_ok_def split: if_splits)

lemma wf_preferred_stream:
  assumes "registry_wf s"
  shows "preferred_stream_profile (rg_stream_profiles s) i
      (Option.bind (find (\<lambda>p. cp_device_id p = i) (rg_camera_profiles s)) cp_default_stream_profile_id) =
    preferred_stream_profile (filter (\<lambda>p. sp_device_id p = i) (rg_stream_profiles s)) i
      (Option.bind (find (\<lambda>p. cp_device_id p = i) (rg_camera_profiles s)) cp_default_stream_profile_id)"
proof (cases "find (\<lambda>p. cp_device_id p = i) (rg_camera_profiles s)")
  case None
  then show ?thesis by (simp add: preferred_stream_profile_def find_filter)
next
  case (Some p)
  then have "p \<in> set (rg_camera_profiles s)" "cp_device_id p = i" by (auto simp: find_Some_iff)
  then have d: "cp_default_stream_profile_id p = Some (managed_camera_primary_stream_profile_id i)"
    using assms by (auto simp: registry_wf_def profile_ok_def)
  have "find (\<lambda>p. sp_stream_profile_id p = managed_camera_primary_stream_profile_id i) (rg_stream_profiles s) =
      find (\<lambda>p. sp_device_id p = i \<and> sp_stream_profile_id p = managed_camera_primary_stream_profile_id i) (rg_stream_profiles s)"
    using assms by (intro find_cong_in) (auto simp: registry_wf_def stream_ok_def)
  then show ?thesis using Some d by (simp add: preferred_stream_profile_def find_filter)
qed

lemma wf_preferred_endpoint:
  assumes "registry_wf s" "preferred_stream_profile (filter (\<lambda>p. sp_device_id p = i) (rg_stream_profiles s)) i x = Some p"
  shows "sp_endpoint_id p = managed_camera_primary_stream_endpoint_id i"
proof -
  have "p \<in> set (filter (\<lambda>p. sp_device_id p = i) (rg_stream_profiles s))"
    using assms(2) by (rule preferred_in_set)
  then show ?thesis using assms(1) by (auto simp: registry_wf_def stream_ok_def)
qed

lemma resolved_same_slice:
  assumes "registry_wf s" "registry_wf s'" "same_slice (dr_device_id d) s s'"
  shows "resolved_camera_target s d = resolved_camera_target s' d"
proof -
  let ?i = "dr_device_id d"
  note sl = assms(3) [unfolded same_slice_def]
  define prof where "prof = find (\<lambda>p. cp_device_id p = ?i) (rg_camera_profiles s')"
  define str where "str = preferred_stream_profile (filter (\<lambda>p. sp_device_id p = ?i) (rg_stream_profiles s')) ?i
    (Option.bind prof cp_default_stream_profile_id)"
  have st: "preferred_stream_profile (rg_stream_profiles s) ?i
      (Option.bind (find (\<lambda>p. cp_device_id p = ?i) (rg_camera_profiles s)) cp_default_stream_profile_id) = str"
    "preferred_stream_profile (rg_stream_profiles s') ?i
      (Option.bind (find (\<lambda>p. cp_device_id p = ?i) (rg_camera_profiles s')) cp_default_stream_profile_id) = str"
    using wf_preferred_stream [OF assms(1), of ?i] wf_preferred_stream [OF assms(2), of ?i] sl by (simp_all add: str_def prof_def)
  have ep: "find (\<lambda>e. de_endpoint_id e = sp_endpoint_id p) (rg_device_endpoints s) =
      find (\<lambda>e. de_endpoint_id e = sp_endpoint_id p) (rg_device_endpoints s')" if "str = Some p" for p
    using wf_preferred_endpoint [OF assms(2), of ?i _ p] that wf_endpoint_by_id [OF assms(1), of ?i]
      wf_endpoint_by_id [OF assms(2), of ?i] sl by (simp add: str_def)
  have ip: "find (\<lambda>e. de_device_id e = ?i \<and> de_endpoint_kind e = EkIpv4) (rg_device_endpoints s) =
      find (\<lambda>e. de_device_id e = ?i \<and> de_endpoint_kind e = EkIpv4) (rg_device_endpoints s')"
    using sl by (simp add: find_filter [symmetric])
  show ?thesis
    unfolding resolved_camera_target_def Let_def st using sl ip ep by (cases str) simp_all
qed

lemma suffix_ids_differ:
  assumes "last u \<noteq> last v" "u \<noteq> []" "v \<noteq> []"
  shows "(a :: string) @ u \<noteq> b @ v"
  using assms by (metis last_appendR)

lemma managed_binding_of_other:
  assumes "binding_ok b" "pb_binding_id b \<in> set (managed_provider_binding_ids i)"
  shows "pb_device_id b = i"
proof -
  note ok = assms(1) [unfolded binding_ok_def Let_def]
  have d: "\<And>a b. a @ ''::binding::stream'' \<noteq> b @ ''::binding::onvif''" "\<And>a b. a @ ''::binding::stream'' \<noteq> b @ ''::binding::ezviz''"
    "\<And>a b. a @ ''::binding::onvif'' \<noteq> b @ ''::binding::ezviz''" "\<And>a b. a @ ''::binding::home_assistant'' \<noteq> b @ ''::binding::stream''"
    "\<And>a b. a @ ''::binding::home_assistant'' \<noteq> b @ ''::binding::onvif''" "\<And>a b. a @ ''::binding::home_assistant'' \<noteq> b @ ''::binding::ezviz''"
    by (rule suffix_ids_differ; simp)+
  then show ?thesis using ok assms(2) unfolding managed_provider_binding_ids_def by (auto split: if_splits dest: sym)
qed

lemma upsert_camera_slice:
  assumes "registry_wf s" "j \<noteq> ca_device_id c"
  shows "same_slice j (upsert_camera_device pu c s) s"
proof -
  let ?i = "ca_device_id c"
  have keep: "filter P (filter Q xs @ ys) = filter P xs" if "\<forall>x\<in>set xs. P x \<longrightarrow> Q x" "\<forall>y\<in>set ys. \<not> P y"
    for P Q :: "'a \<Rightarrow> bool" and xs ys
  proof -
    have "filter P ys = []" using that(2) by simp
    then show ?thesis using that(1) by (auto simp: filter_filter intro!: filter_cong)
  qed
  have "filter (\<lambda>e. de_device_id e = j) (rg_device_endpoints (upsert_camera_device pu c s)) =
      filter (\<lambda>e. de_device_id e = j) (rg_device_endpoints s)"
    unfolding upsert_camera_fields using assms
    by (intro keep) (auto simp: registry_wf_def endpoint_ok_def managed_camera_endpoint_ids_def camera_endpoint_owner split: if_splits)
  moreover have "filter (\<lambda>b. pb_device_id b = j) (rg_provider_bindings (upsert_camera_device pu c s)) =
      filter (\<lambda>b. pb_device_id b = j) (rg_provider_bindings s)"
    unfolding upsert_camera_fields using assms
    by (intro keep) (auto simp: registry_wf_def binding_fields dest: managed_binding_of_other)
  moreover have "filter (\<lambda>p. sp_device_id p = j) (rg_stream_profiles (upsert_camera_device pu c s)) =
      filter (\<lambda>p. sp_device_id p = j) (rg_stream_profiles s)"
    unfolding upsert_camera_fields using assms by (intro keep) (auto simp: primary_stream_profile_def)
  moreover have "filter (\<lambda>x. cr_device_id x = j) (rg_capabilities (upsert_camera_device pu c s)) =
      filter (\<lambda>x. cr_device_id x = j) (rg_capabilities s)"
    unfolding upsert_camera_fields using assms by (intro keep) (auto simp: capability_fields)
  ultimately show ?thesis
    using assms(2) by (simp add: same_slice_def upsert_camera_fields(2,3) cam_twin.upsert_find_other cam_profile.upsert_find_other)
qed

section \<open>Writing one camera\<close>

lemma upserted_parts:
  fixes c :: camera_device and pu :: "string \<Rightarrow> parsed_url option"
  assumes wf: "registry_wf s"
  defines "i \<equiv> ca_device_id c" and "s' \<equiv> upsert_camera_device pu c s"
  shows "preferred_stream_profile (rg_stream_profiles s') i
      (Option.bind (find (\<lambda>p. cp_device_id p = i) (rg_camera_profiles s')) cp_default_stream_profile_id) = Some (primary_stream_profile c)"
    and "find (\<lambda>e. de_endpoint_id e = managed_camera_primary_stream_endpoint_id i) (rg_device_endpoints s') =
      Some (stream_endpoint_from_camera pu c (managed_camera_primary_stream_endpoint_id i))"
    and "map_option de_host (find (\<lambda>e. de_device_id e = i \<and> de_endpoint_kind e = EkIpv4) (rg_device_endpoints s')) = ca_ip_address c"
    and "camera_capabilities_from_records (filter (\<lambda>x. cr_device_id x = i) (rg_capabilities s')) = ca_capabilities c"
proof -
  let ?m = "managed_camera_primary_stream_profile_id i"
  have "\<exists>p. find (\<lambda>p. cp_device_id p = i) (rg_camera_profiles s') = Some p \<and> cp_default_stream_profile_id p = Some ?m"
    unfolding s'_def i_def upsert_camera_fields cam_profile.upsert_find_same
    by (simp add: change_camera_profile_def profile_from_camera_def split: option.split)
  moreover have "find (\<lambda>p. sp_stream_profile_id p = ?m) (rg_stream_profiles s') = Some (primary_stream_profile c)"
  proof -
    have "find (\<lambda>p. sp_stream_profile_id p = ?m) (filter (\<lambda>p. \<not> (sp_device_id p = i \<and> sp_stream_profile_id p = ?m)) (rg_stream_profiles s)) = None"
      using wf by (intro find_None_notin) (auto simp: registry_wf_def stream_ok_def)
    then show ?thesis by (simp add: s'_def i_def upsert_camera_fields find_append primary_stream_profile_def)
  qed
  ultimately show "preferred_stream_profile (rg_stream_profiles s') i
      (Option.bind (find (\<lambda>p. cp_device_id p = i) (rg_camera_profiles s')) cp_default_stream_profile_id) = Some (primary_stream_profile c)"
    by (auto simp: preferred_stream_profile_def)
  let ?old = "filter (\<lambda>e. de_endpoint_id e \<notin> set (managed_camera_endpoint_ids i)) (rg_device_endpoints s)"
  have old: "find (\<lambda>e. de_endpoint_id e = managed_camera_primary_stream_endpoint_id i) ?old = None"
    "find (\<lambda>e. de_device_id e = i \<and> de_endpoint_kind e = EkIpv4) ?old = None"
    using wf by (intro find_None_notin; auto simp: registry_wf_def endpoint_ok_def managed_camera_endpoint_ids_def)+
  have eps: "rg_device_endpoints s' = ?old @ camera_endpoints pu c" by (simp add: s'_def i_def upsert_camera_fields)
  show "find (\<lambda>e. de_endpoint_id e = managed_camera_primary_stream_endpoint_id i) (rg_device_endpoints s') =
      Some (stream_endpoint_from_camera pu c (managed_camera_primary_stream_endpoint_id i))"
    using find_camera_endpoints(1) [of c pu] by (simp add: eps find_append old i_def [symmetric])
  have "find (\<lambda>e. de_device_id e = i \<and> de_endpoint_kind e = EkIpv4) (camera_endpoints pu c) =
      find (\<lambda>e. de_endpoint_kind e = EkIpv4) (camera_endpoints pu c)"
    by (intro find_cong_in) (simp add: camera_endpoint_owner i_def)
  then show "map_option de_host (find (\<lambda>e. de_device_id e = i \<and> de_endpoint_kind e = EkIpv4) (rg_device_endpoints s')) = ca_ip_address c"
    using find_camera_endpoints(2) [of pu c] by (simp add: eps find_append old)
  have skip: "fold (\<lambda>r. add_capability_code (cr_capability_code r)) xs x = x"
    if "\<forall>r\<in>set xs. cr_capability_code r \<notin> {''snapshot'', ''stream_live'', ''ptz'', ''audio''}" for xs x
    using that by (induction xs arbitrary: x) (auto simp: add_capability_code_def)
  have "filter (\<lambda>x. cr_device_id x = i) (capability_records_from_camera c) = capability_records_from_camera c"
    by (auto simp: filter_id_conv capability_fields i_def)
  then show "camera_capabilities_from_records (filter (\<lambda>x. cr_device_id x = i) (rg_capabilities s')) = ca_capabilities c"
    using camera_capabilities_round_trip [of c] unfolding camera_capabilities_from_records_def s'_def i_def upsert_camera_fields
    by (simp add: fold_append) (subst skip, auto)
qed

lemma upserted_bindings:
  assumes wf: "registry_wf s" and P: "\<not> P ''home_assistant''"
  shows "find (\<lambda>b. P (pb_provider_key b)) (filter (\<lambda>b. pb_device_id b = ca_device_id c)
      (rg_provider_bindings (upsert_camera_device pu c s))) = find (\<lambda>b. P (pb_provider_key b)) (provider_bindings_from_camera c)"
proof -
  let ?i = "ca_device_id c"
  let ?old = "filter (\<lambda>b. pb_binding_id b \<notin> set (managed_provider_binding_ids ?i)) (rg_provider_bindings s)"
  have "pb_provider_key b = ''home_assistant''" if "b \<in> set ?old" "pb_device_id b = ?i" for b
    using that wf by (auto simp: registry_wf_def binding_ok_def Let_def managed_provider_binding_ids_def split: if_splits)
  then have "find (\<lambda>b. P (pb_provider_key b)) (filter (\<lambda>b. pb_device_id b = ?i) ?old) = None"
    using P by (intro find_None_notin) auto
  moreover have "filter (\<lambda>b. pb_device_id b = ?i) (provider_bindings_from_camera c) = provider_bindings_from_camera c"
    by (auto simp: filter_id_conv binding_fields)
  ultimately show ?thesis by (simp add: upsert_camera_fields find_append)
qed

lemma upserted_camera_resolves:
  fixes c :: camera_device and pu :: "string \<Rightarrow> parsed_url option"
  assumes wf: "registry_wf s" and cam: "ca_kind c = LkCamera"
  defines "i \<equiv> ca_device_id c" and "s' \<equiv> upsert_camera_device pu c s"
  shows "\<exists>t. camera_target s' i = Some t \<and> rc_device_id' t = i \<and> rc_primary_stream t = ca_primary_stream c \<and>
    rc_status t = ca_status c \<and> rc_capabilities t = ca_capabilities c \<and> rc_ip_address t = ca_ip_address c \<and>
    (ca_snapshot_url c \<noteq> None \<longrightarrow> rc_snapshot_url t = ca_snapshot_url c) \<and>
    rc_onvif_device_service_url t = ca_onvif_device_service_url c \<and> rc_ezviz_device_serial t = ca_ezviz_device_serial c \<and>
    rc_ezviz_camera_no t = (if ca_ezviz_device_serial c = None then None else ca_ezviz_camera_no c) \<and>
    (\<not> blank (ca_name c) \<longrightarrow> rc_display_name t = ca_name c) \<and> (ca_vendor c \<noteq> None \<longrightarrow> rc_vendor t = ca_vendor c) \<and>
    (ca_model c \<noteq> None \<longrightarrow> rc_model t = ca_model c) \<and> (ca_room c \<noteq> None \<longrightarrow> rc_room_name t = ca_room c) \<and>
    (ca_last_seen_at c \<noteq> None \<longrightarrow> rc_last_seen_at t = ca_last_seen_at c)"
proof -
  define d where "d = (case find (\<lambda>e. dr_device_id e = i) (rg_devices s) of
      None \<Rightarrow> record_from_camera (normalize_discovery_source (ca_discovery_source c)) c | Some e \<Rightarrow> change_camera_record c e)"
  have fd: "find (\<lambda>e. dr_device_id e = i) (rg_devices s') = Some d"
    by (simp add: s'_def i_def d_def upsert_camera_fields cam_record.upsert_find_same)
  then have id: "dr_device_id d = i" by (auto simp: find_Some_iff)
  have d: "dr_kind d = DkCamera" "\<not> blank (ca_name c) \<longrightarrow> dr_display_name d = ca_name c"
    "ca_vendor c \<noteq> None \<longrightarrow> dr_vendor d = ca_vendor c" "ca_model c \<noteq> None \<longrightarrow> dr_model d = ca_model c"
    "ca_room c \<noteq> None \<longrightarrow> dr_primary_room_id d = ca_room c"
    using cam by (auto simp: d_def record_from_camera_def change_camera_record_def split: option.splits)
  have f2: "find (\<lambda>e. dr_device_id e = i \<and> dr_kind e = DkCamera) xs = Some d"
    if "find (\<lambda>e. dr_device_id e = i) xs = Some d" for xs
    using that d(1) by (induction xs) (auto split: if_splits)
  define t where "t = (case find (\<lambda>e. dt_device_id e = i) (rg_device_twins s) of None \<Rightarrow> twin_from_camera c | Some e \<Rightarrow> change_camera_twin c e)"
  have ft: "find (\<lambda>e. dt_device_id e = i) (rg_device_twins s') = Some t"
    by (simp add: s'_def i_def t_def upsert_camera_fields cam_twin.upsert_find_same)
  have t: "dt_connectivity_state t = legacy_status_to_connectivity (ca_status c)"
    "ca_last_seen_at c \<noteq> None \<longrightarrow> dt_last_seen_at t = ca_last_seen_at c"
    by (auto simp: t_def twin_from_camera_def change_camera_twin_def split: option.splits)
  note parts = upserted_parts [OF wf, where c = c and pu = pu, folded s'_def i_def]
  note bs = upserted_bindings [OF wf, of is_stream_key c pu] upserted_bindings [OF wf, of "\<lambda>k. k = ''onvif''" c pu]
    upserted_bindings [OF wf, of "\<lambda>k. k = ''ezviz''" c pu]
  have sp: "sp_endpoint_id (primary_stream_profile c) = managed_camera_primary_stream_endpoint_id i"
    "sp_transport (primary_stream_profile c) = legacy_stream_transport_to_control (cs_transport (ca_primary_stream c))"
    by (simp_all add: primary_stream_profile_def i_def)
  have "\<exists>x. resolved_camera_target s' d = Some x \<and> rc_device_id' x = i \<and> rc_primary_stream x = ca_primary_stream c \<and>
    rc_status x = ca_status c \<and> rc_capabilities x = ca_capabilities c \<and> rc_ip_address x = ca_ip_address c \<and>
    (ca_snapshot_url c \<noteq> None \<longrightarrow> rc_snapshot_url x = ca_snapshot_url c) \<and>
    rc_onvif_device_service_url x = ca_onvif_device_service_url c \<and> rc_ezviz_device_serial x = ca_ezviz_device_serial c \<and>
    rc_ezviz_camera_no x = (if ca_ezviz_device_serial c = None then None else ca_ezviz_camera_no c) \<and>
    rc_display_name x = dr_display_name d \<and> rc_vendor x = dr_vendor d \<and> rc_model x = dr_model d \<and>
    rc_room_name x = dr_primary_room_id d \<and> rc_last_seen_at x = dt_last_seen_at t"
    using camera_bindings_read_back [of c]
    by (cases "ca_snapshot_url c") (simp_all add: resolved_camera_target_def Let_def d(1) id parts sp ft t(1) bs [folded s'_def i_def])
  then show ?thesis using d(2-) t(2) by (auto simp: camera_target_def f2 [OF fd])
qed

lemma find_other_key:
  assumes "filter (\<lambda>e. key e \<noteq> k) xs = filter (\<lambda>e. key e \<noteq> k) ys" "j \<noteq> k"
  shows "find (\<lambda>e. key e = j \<and> Q e) xs = find (\<lambda>e. key e = j \<and> Q e) ys"
proof -
  have "find (\<lambda>e. key e = j \<and> Q e) zs = find (\<lambda>e. key e = j \<and> Q e) (filter (\<lambda>e. key e \<noteq> k) zs)" for zs
    unfolding find_filter using assms(2) by (intro find_cong_in) auto
  then show ?thesis by (metis assms(1))
qed

lemma camera_target_cong:
  assumes "registry_wf s" "registry_wf s'" "same_slice j s s'"
    and "find (\<lambda>d. dr_device_id d = j \<and> dr_kind d = DkCamera) (rg_devices s) =
      find (\<lambda>d. dr_device_id d = j \<and> dr_kind d = DkCamera) (rg_devices s')"
  shows "camera_target s j = camera_target s' j"
proof (cases "find (\<lambda>d. dr_device_id d = j \<and> dr_kind d = DkCamera) (rg_devices s')")
  case (Some d)
  then have "dr_device_id d = j" by (auto simp: find_Some_iff)
  then show ?thesis using assms Some resolved_same_slice [OF assms(1,2), of d] by (simp add: camera_target_def)
qed (use assms(4) in \<open>simp add: camera_target_def\<close>)

lemma upsert_camera_frame:
  assumes "registry_wf s" "j \<noteq> ca_device_id c"
  shows "camera_target (upsert_camera_device pu c s) j = camera_target s j"
proof (rule camera_target_cong [OF upsert_camera_wf [OF assms(1)] assms(1) upsert_camera_slice [OF assms]])
  show "find (\<lambda>d. dr_device_id d = j \<and> dr_kind d = DkCamera) (rg_devices (upsert_camera_device pu c s)) =
      find (\<lambda>d. dr_device_id d = j \<and> dr_kind d = DkCamera) (rg_devices s)"
    by (rule find_other_key [OF _ assms(2)]) (simp add: upsert_camera_fields cam_record.upsert_others)
qed

text \<open>
  Writing one camera into a well-formed registry keeps it well-formed, the camera then reads back with its stream,
  status, capabilities, address, ONVIF and EZVIZ data and with every name, vendor, model, room and time it states, and
  every other camera of the registry reads back exactly as before.
\<close>

theorem upserted_camera_reads_back:
  assumes "registry_wf s" "ca_kind c = LkCamera"
  shows "registry_wf (upsert_camera_device pu c s) \<and>
    (\<exists>t. camera_target (upsert_camera_device pu c s) (ca_device_id c) = Some t \<and> rc_primary_stream t = ca_primary_stream c \<and>
      rc_status t = ca_status c \<and> rc_capabilities t = ca_capabilities c \<and> rc_ip_address t = ca_ip_address c \<and>
      (ca_snapshot_url c \<noteq> None \<longrightarrow> rc_snapshot_url t = ca_snapshot_url c) \<and>
      rc_onvif_device_service_url t = ca_onvif_device_service_url c \<and> rc_ezviz_device_serial t = ca_ezviz_device_serial c \<and>
      rc_ezviz_camera_no t = (if ca_ezviz_device_serial c = None then None else ca_ezviz_camera_no c) \<and>
      (\<not> blank (ca_name c) \<longrightarrow> rc_display_name t = ca_name c) \<and> (ca_vendor c \<noteq> None \<longrightarrow> rc_vendor t = ca_vendor c) \<and>
      (ca_model c \<noteq> None \<longrightarrow> rc_model t = ca_model c) \<and> (ca_room c \<noteq> None \<longrightarrow> rc_room_name t = ca_room c) \<and>
      (ca_last_seen_at c \<noteq> None \<longrightarrow> rc_last_seen_at t = ca_last_seen_at c)) \<and>
    (\<forall>j. j \<noteq> ca_device_id c \<longrightarrow> camera_target (upsert_camera_device pu c s) j = camera_target s j)"
  using upsert_camera_wf [OF assms(1)] upserted_camera_resolves [OF assms] upsert_camera_frame [OF assms(1)] by blast

section \<open>Removing devices\<close>

lemma drop_devices_fields:
  "rg_devices (drop_devices gone s) = filter (\<lambda>d. dr_device_id d \<notin> set gone) (rg_devices s)"
  "rg_device_endpoints (drop_devices gone s) = filter (\<lambda>e. de_device_id e \<notin> set gone) (rg_device_endpoints s)"
  "rg_provider_bindings (drop_devices gone s) = filter (\<lambda>b. pb_device_id b \<notin> set gone) (rg_provider_bindings s)"
  "rg_capabilities (drop_devices gone s) = filter (\<lambda>c. cr_device_id c \<notin> set gone) (rg_capabilities s)"
  "rg_device_twins (drop_devices gone s) = filter (\<lambda>t. dt_device_id t \<notin> set gone) (rg_device_twins s)"
  "rg_camera_profiles (drop_devices gone s) = filter (\<lambda>p. cp_device_id p \<notin> set gone) (rg_camera_profiles s)"
  "rg_stream_profiles (drop_devices gone s) = filter (\<lambda>p. sp_device_id p \<notin> set gone) (rg_stream_profiles s)"
  by (simp_all add: drop_devices_def)

lemma drop_devices_ids: "device_ids (drop_devices gone s) = device_ids s - set gone"
  by (auto simp: device_ids_def drop_devices_fields)

lemma drop_devices_wf: "registry_wf s \<Longrightarrow> registry_wf (drop_devices gone s)"
  unfolding registry_wf_def drop_devices_ids drop_devices_fields
  by (auto simp: distinct_map_filter)

lemma drop_devices_slice: "j \<notin> set gone \<Longrightarrow> same_slice j (drop_devices gone s) s"
  unfolding same_slice_def drop_devices_fields find_filter filter_filter
  by (intro conjI filter_cong find_cong_in) auto

lemma drop_devices_frame:
  assumes "registry_wf s" "j \<notin> set gone"
  shows "camera_target (drop_devices gone s) j = camera_target s j"
proof (rule camera_target_cong [OF drop_devices_wf [OF assms(1)] assms(1) drop_devices_slice [OF assms(2)]])
  show "find (\<lambda>d. dr_device_id d = j \<and> dr_kind d = DkCamera) (rg_devices (drop_devices gone s)) =
      find (\<lambda>d. dr_device_id d = j \<and> dr_kind d = DkCamera) (rg_devices s)"
    unfolding drop_devices_fields find_filter using assms(2) by (intro find_cong_in) auto
qed

section \<open>Writing a list of cameras\<close>

lemma find_distinct_key:
  "distinct (map key xs) \<Longrightarrow> x \<in> set xs \<Longrightarrow> Q x \<Longrightarrow> find (\<lambda>y. key y = key x \<and> Q y) xs = Some x"
  by (induction xs) auto

lemma set_map_filter_iff: "y \<in> set (List.map_filter f xs) \<longleftrightarrow> (\<exists>x\<in>set xs. f x = Some y)"
  by (induction xs) (auto simp: map_filter_simps split: option.split)

lemma resolved_fields:
  assumes "resolved_camera_target s d = Some t"
  shows "rc_device_id' t = dr_device_id d" "dr_kind d = DkCamera"
  using assms by (auto simp: resolved_camera_target_def Let_def bind_eq_Some_conv split: if_splits)

lemma camera_target_iff:
  assumes "registry_wf s"
  shows "camera_target s i = Some t \<longleftrightarrow> (\<exists>d\<in>set (rg_devices s). dr_device_id d = i \<and> resolved_camera_target s d = Some t)"
proof
  assume "camera_target s i = Some t"
  then obtain d where d: "find (\<lambda>d. dr_device_id d = i \<and> dr_kind d = DkCamera) (rg_devices s) = Some d" "resolved_camera_target s d = Some t"
    by (auto simp: camera_target_def bind_eq_Some_conv)
  then show "\<exists>d\<in>set (rg_devices s). dr_device_id d = i \<and> resolved_camera_target s d = Some t"
    using find_in_set [OF d(1)] by (auto simp: find_Some_iff)
next
  assume "\<exists>d\<in>set (rg_devices s). dr_device_id d = i \<and> resolved_camera_target s d = Some t"
  then obtain d where d: "d \<in> set (rg_devices s)" "dr_device_id d = i" "resolved_camera_target s d = Some t" by blast
  then show "camera_target s i = Some t"
    using find_distinct_key [of dr_device_id "rg_devices s" d "\<lambda>d. dr_kind d = DkCamera"] resolved_fields [OF d(3)] assms
    by (simp add: camera_target_def registry_wf_def)
qed

lemma camera_read_iff:
  assumes "registry_wf s"
  shows "e \<in> set (to_camera_devices s) \<longleftrightarrow> (\<exists>t. camera_target s (ca_device_id e) = Some t \<and> e = camera_of_target t)"
proof -
  have id: "ca_device_id (camera_of_target t) = rc_device_id' t" for t by (simp add: camera_of_target_def)
  have "e \<in> set (to_camera_devices s) \<longleftrightarrow> (\<exists>d\<in>set (rg_devices s). \<exists>t. resolved_camera_target s d = Some t \<and> e = camera_of_target t)"
    unfolding to_camera_devices_def camera_targets_def set_map image_iff Bex_def set_map_filter_iff by blast
  also have "\<dots> \<longleftrightarrow> (\<exists>t. camera_target s (ca_device_id e) = Some t \<and> e = camera_of_target t)"
    unfolding camera_target_iff [OF assms] using id resolved_fields(1) by metis
  finally show ?thesis .
qed

text \<open>No stored camera has the stream URL of an incoming camera under another id.\<close>

definition urls_in_place :: "camera_device list \<Rightarrow> device_registry_snapshot \<Rightarrow> bool" where
  "urls_in_place cs s \<longleftrightarrow> (\<forall>c\<in>set cs. \<forall>i t. camera_target s i = Some t \<longrightarrow>
     cs_url (rc_primary_stream t) = cs_url (ca_primary_stream c) \<longrightarrow> i = ca_device_id c)"

definition cameras_ok :: "camera_device list \<Rightarrow> bool" where
  "cameras_ok cs \<longleftrightarrow> list_all (\<lambda>c. ca_kind c = LkCamera) cs \<and> distinct (map ca_device_id cs) \<and>
     distinct (map (\<lambda>c. cs_url (ca_primary_stream c)) cs)"

lemma resolved_id_in_place:
  assumes "registry_wf s" "urls_in_place cs s" "c \<in> set cs"
  shows "resolved_id s c = ca_device_id c"
proof (cases "find (\<lambda>e. same_camera_view e c) (to_camera_devices s)")
  case None
  then show ?thesis by (simp add: resolved_id_def find_matching_camera_device_id_def)
next
  case (Some e)
  then have e: "e \<in> set (to_camera_devices s)" "same_camera_view e c" by (auto simp: find_Some_iff)
  then obtain t where t: "camera_target s (ca_device_id e) = Some t" "e = camera_of_target t"
    using camera_read_iff [OF assms(1)] by blast
  then have "cs_url (ca_primary_stream e) = cs_url (rc_primary_stream t)" by (simp add: camera_of_target_def)
  then have "ca_device_id e = ca_device_id c"
    using e(2) t(1) assms(2,3) unfolding urls_in_place_def same_camera_view_def by metis
  then show ?thesis using Some by (simp add: resolved_id_def find_matching_camera_device_id_def)
qed

lemma upsert_keeps_urls_in_place:
  assumes "registry_wf s" "urls_in_place (c # cs) s" "cameras_ok (c # cs)"
  shows "urls_in_place cs (upsert_camera_device pu c s)"
  unfolding urls_in_place_def
proof (intro ballI allI impI)
  fix x i t
  assume x: "x \<in> set cs" and t: "camera_target (upsert_camera_device pu c s) i = Some t"
    and u: "cs_url (rc_primary_stream t) = cs_url (ca_primary_stream x)"
  show "i = ca_device_id x"
  proof (cases "i = ca_device_id c")
    case True
    then have "rc_primary_stream t = ca_primary_stream c"
      using upserted_camera_resolves [OF assms(1), of c pu] assms(3) t by (auto simp: cameras_ok_def)
    then show ?thesis using assms(3) x u by (auto simp: cameras_ok_def image_iff)
  next
    case False
    then show ?thesis using upsert_camera_frame [OF assms(1) False] t assms(2) x u by (auto simp: urls_in_place_def)
  qed
qed

definition reads_back :: "device_registry_snapshot \<Rightarrow> camera_device \<Rightarrow> bool" where
  "reads_back s c \<longleftrightarrow> (case camera_target s (ca_device_id c) of None \<Rightarrow> False | Some t \<Rightarrow>
     rc_primary_stream t = ca_primary_stream c \<and> rc_status t = ca_status c \<and> rc_capabilities t = ca_capabilities c \<and>
     rc_ip_address t = ca_ip_address c \<and> (ca_snapshot_url c \<noteq> None \<longrightarrow> rc_snapshot_url t = ca_snapshot_url c) \<and>
     rc_onvif_device_service_url t = ca_onvif_device_service_url c \<and> rc_ezviz_device_serial t = ca_ezviz_device_serial c)"

lemma upsert_each_laws:
  assumes "registry_wf s" "urls_in_place cs s" "cameras_ok cs"
  shows "registry_wf (upsert_each pu cs s) \<and> (\<forall>c\<in>set cs. reads_back (upsert_each pu cs s) c) \<and>
    (\<forall>j. j \<notin> ca_device_id ` set cs \<longrightarrow> camera_target (upsert_each pu cs s) j = camera_target s j) \<and>
    device_ids (upsert_each pu cs s) = device_ids s \<union> ca_device_id ` set cs"
  using assms
proof (induction cs arbitrary: s)
  case (Cons c cs)
  let ?s = "upsert_camera_device pu c s"
  have id: "c\<lparr>ca_device_id := resolved_id s c\<rparr> = c" using resolved_id_in_place [OF Cons.prems(1,2)] by simp
  have ok: "cameras_ok cs" "ca_kind c = LkCamera" "ca_device_id c \<notin> ca_device_id ` set cs"
    using Cons.prems(3) by (simp_all add: cameras_ok_def)
  note ih = Cons.IH [OF upsert_camera_wf [OF Cons.prems(1)] upsert_keeps_urls_in_place [OF Cons.prems] ok(1)]
  have "reads_back ?s c" using upserted_camera_resolves [OF Cons.prems(1) ok(2), of pu] by (auto simp: reads_back_def)
  then have "reads_back (upsert_each pu cs ?s) c" using ih ok(3) by (simp add: reads_back_def)
  then show ?case using ih upsert_camera_frame [OF Cons.prems(1)] id by (auto simp: upsert_camera_ids)
qed simp

end
