(* ===== verification/Device_Registry_Sync.thy ===== *)
theory Device_Registry_Sync
  imports Device_Registry_Laws
begin

text \<open>
  The operations on whole registries: replacing the cameras, the synchronisation with Home Assistant, and the
  invariant of the registry under every sequence of operations, from an empty or a migrated registry.
\<close>

section \<open>Replacing the cameras\<close>

lemma normalize_camera_fields [simp]:
  "ca_device_id (normalize_camera_metadata c) = ca_device_id c" "ca_kind (normalize_camera_metadata c) = ca_kind c"
  "cs_url (ca_primary_stream (normalize_camera_metadata c)) = cs_url (ca_primary_stream c)"
  by (simp_all add: normalize_camera_metadata_def)

lemma normalize_optional_string_idem [simp]: "normalize_optional_string (normalize_optional_string x) = normalize_optional_string x"
  by (cases x) (auto simp: normalize_optional_string_def Let_def)

lemma normalize_camera_idem [simp]: "normalize_camera_metadata (normalize_camera_metadata c) = normalize_camera_metadata c"
  by (simp add: normalize_camera_metadata_def normalize_discovery_source_def)

lemma cameras_ok_normalize: "cameras_ok (map normalize_camera_metadata cs) = cameras_ok cs"
  by (simp add: cameras_ok_def list_all_iff comp_def)

lemma urls_in_place_normalize: "urls_in_place (map normalize_camera_metadata cs) s = urls_in_place cs s"
  by (simp add: urls_in_place_def)

lemma vec_upsert_keeps:
  "x \<in> set xs \<Longrightarrow> key x \<noteq> k \<Longrightarrow> x \<in> set (vec_upsert key k g y xs)"
proof -
  have "x \<in> set (update_first (\<lambda>e. key e = k) g xs)" if "x \<in> set xs" "key x \<noteq> k"
    using that by (induction xs) auto
  then show "x \<in> set xs \<Longrightarrow> key x \<noteq> k \<Longrightarrow> x \<in> set (vec_upsert key k g y xs)" by (simp add: vec_upsert_def)
qed

lemma upsert_each_keeps_records:
  assumes "registry_wf s" "urls_in_place cs s" "cameras_ok cs" "d \<in> set (rg_devices s)" "dr_device_id d \<notin> ca_device_id ` set cs"
  shows "d \<in> set (rg_devices (upsert_each pu cs s))"
  using assms
proof (induction cs arbitrary: s)
  case (Cons c cs)
  have id: "c\<lparr>ca_device_id := resolved_id s c\<rparr> = c" using resolved_id_in_place [OF Cons.prems(1,2)] by simp
  have "d \<in> set (rg_devices (upsert_camera_device pu c s))"
    using Cons.prems(4,5) by (auto simp: upsert_camera_fields intro: vec_upsert_keeps)
  moreover have "cameras_ok cs" using Cons.prems(3) by (simp add: cameras_ok_def)
  ultimately show ?case
    using Cons.IH [OF upsert_camera_wf [OF Cons.prems(1)] upsert_keeps_urls_in_place [OF Cons.prems(1-3)]] Cons.prems(5) id by simp
qed simp

lemma replace_eq:
  assumes "registry_wf s" "urls_in_place cs s"
  shows "replace_camera_devices_preserving_platform_records pu cs s =
    prune_missing_camera_devices (map ca_device_id cs) (upsert_each pu (map normalize_camera_metadata cs) s)"
proof -
  have "map (\<lambda>x. resolved_id s (normalize_camera_metadata x)) cs = map ca_device_id cs"
    using resolved_id_in_place [OF assms(1), of "map normalize_camera_metadata cs"] assms(2) by (simp add: urls_in_place_normalize)
  then show ?thesis
    by (simp add: replace_camera_devices_preserving_platform_records_def upsert_camera_devices_preserving_platform_records_def
        Let_def comp_def del: map_eq_conv)
qed

text \<open>
  Saving a list of cameras replaces the cameras of the registry. When the incoming cameras have distinct ids and
  distinct stream URLs and no stored camera has one of these URLs under another id, the registry has afterwards exactly
  the incoming ids as cameras, every one reads back as it was normalised, the registry is well-formed, and the records of
  devices that are not cameras are still there.
\<close>

theorem saved_cameras_replace_all:
  assumes "registry_wf s" "cameras_ok cs" "urls_in_place cs s"
  shows "registry_wf (replace_camera_devices_preserving_platform_records pu cs s) \<and>
    list_all (reads_back (replace_camera_devices_preserving_platform_records pu cs s)) (map normalize_camera_metadata cs) \<and>
    {dr_device_id d | d. d \<in> set (rg_devices (replace_camera_devices_preserving_platform_records pu cs s)) \<and> dr_kind d = DkCamera} =
      ca_device_id ` set cs \<and>
    {d \<in> set (rg_devices s). dr_kind d \<noteq> DkCamera \<and> dr_device_id d \<notin> ca_device_id ` set cs} \<subseteq>
      set (rg_devices (replace_camera_devices_preserving_platform_records pu cs s))"
proof -
  let ?ns = "map normalize_camera_metadata cs" and ?ids = "ca_device_id ` set cs"
  define u where "u = upsert_each pu ?ns s"
  define gone where "gone = map dr_device_id (filter (\<lambda>d. dr_kind d = DkCamera \<and> dr_device_id d \<notin> ?ids) (rg_devices u))"
  have r: "replace_camera_devices_preserving_platform_records pu cs s = drop_devices gone u"
    unfolding replace_eq [OF assms(1,3)] by (simp add: prune_missing_camera_devices_def u_def gone_def)
  note laws = upsert_each_laws [OF assms(1), of ?ns pu, unfolded urls_in_place_normalize cameras_ok_normalize, OF assms(3,2), folded u_def]
  have wf: "registry_wf u" using laws by simp
  then have dist: "distinct (map dr_device_id (rg_devices u))" by (simp add: registry_wf_def)
  have "set gone \<subseteq> - ?ids" unfolding gone_def by auto
  then have kept: "j \<notin> set gone" if "j \<in> ?ids" for j using that by blast
  have rb: "reads_back (drop_devices gone u) c" if "c \<in> set ?ns" for c
    using laws that kept drop_devices_frame [OF wf, of "ca_device_id c" gone] by (auto simp: reads_back_def)
  have cam: "\<exists>d\<in>set (rg_devices (drop_devices gone u)). dr_device_id d = j \<and> dr_kind d = DkCamera" if j: "j \<in> ?ids" for j
  proof -
    obtain x where x: "x \<in> set cs" "ca_device_id x = j" using j by auto
    define c where "c = normalize_camera_metadata x"
    have c: "c \<in> set ?ns" "ca_device_id c = j" using x by (simp_all add: c_def)
    then obtain t where "camera_target (drop_devices gone u) j = Some t" using rb [OF c(1)] by (auto simp: reads_back_def split: option.splits)
    then show ?thesis using camera_target_iff [OF drop_devices_wf [OF wf]] resolved_fields(2) by metis
  qed
  have ids: "{dr_device_id d | d. d \<in> set (rg_devices (drop_devices gone u)) \<and> dr_kind d = DkCamera} = ?ids"
    using cam by (fastforce simp: drop_devices_fields gone_def)
  have "d \<in> set (rg_devices (drop_devices gone u))"
    if d: "d \<in> set (rg_devices s)" "dr_kind d \<noteq> DkCamera" "dr_device_id d \<notin> ?ids" for d
  proof -
    have du: "d \<in> set (rg_devices u)"
      unfolding u_def using upsert_each_keeps_records [OF assms(1), of ?ns d pu] assms(2,3) d(1,3)
      by (simp add: urls_in_place_normalize cameras_ok_normalize image_image)
    moreover have "dr_device_id d \<notin> set gone"
      using du d(2) dist by (auto simp: gone_def distinct_map inj_on_def)
    ultimately show ?thesis by (simp add: drop_devices_fields)
  qed
  then show ?thesis using drop_devices_wf [OF wf] rb ids unfolding r by (auto simp: list_all_iff)
qed

section \<open>Home Assistant\<close>

lemma ha_fields:
  "rg_devices (upsert_home_assistant_device i e now s) =
     vec_upsert dr_device_id i (change_home_assistant_record e) (home_assistant_record i e) (rg_devices s)"
  "rg_device_twins (upsert_home_assistant_device i e now s) =
     vec_upsert dt_device_id i (change_home_assistant_twin e) (home_assistant_twin i e) (rg_device_twins s)"
  "rg_camera_profiles (upsert_home_assistant_device i e now s) = rg_camera_profiles s"
  "rg_device_endpoints (upsert_home_assistant_device i e now s) = rg_device_endpoints s"
  "rg_stream_profiles (upsert_home_assistant_device i e now s) = rg_stream_profiles s"
  by (simp_all add: upsert_home_assistant_device_def upsert_home_assistant_record_def upsert_home_assistant_twin_def
      replace_home_assistant_binding_def replace_home_assistant_capabilities_def)

lemma ha_bindings:
  obtains b where "rg_provider_bindings (upsert_home_assistant_device i e now s) =
     filter (\<lambda>b. \<not> (pb_device_id b = i \<and> pb_provider_key b = ''home_assistant'')) (rg_provider_bindings s) @ [b]"
    "pb_device_id b = i" "binding_ok b"
  by (auto simp: upsert_home_assistant_device_def upsert_home_assistant_record_def upsert_home_assistant_twin_def
      replace_home_assistant_binding_def replace_home_assistant_capabilities_def binding_ok_def Let_def home_assistant_binding_id_def)

lemma ha_capabilities:
  obtains c where "rg_capabilities (upsert_home_assistant_device i e now s) =
     filter (\<lambda>c. \<not> (cr_device_id c = i \<and> cr_source_binding_id c = Some (home_assistant_binding_id i))) (rg_capabilities s) @ [c]"
    "cr_device_id c = i" "cr_access_mode c = CaRead"
  by (auto simp: upsert_home_assistant_device_def upsert_home_assistant_record_def upsert_home_assistant_twin_def
      replace_home_assistant_binding_def replace_home_assistant_capabilities_def)

lemma ha_upsert_wf:
  assumes "registry_wf s"
  shows "registry_wf (upsert_home_assistant_device i e now s)"
proof -
  let ?s = "upsert_home_assistant_device i e now s" and ?ids = "insert i (device_ids s)"
  have ids: "device_ids ?s = ?ids" by (simp add: device_ids_def ha_fields ha_record.upsert_id_set)
  have "\<forall>t\<in>set (rg_device_twins ?s). dt_device_id t \<in> ?ids"
    unfolding ha_fields using assms
    by (intro vec_upsert_all) (auto simp: registry_wf_def ha_twin.key_change ha_twin.key_fresh)
  moreover have "\<forall>b\<in>set (rg_provider_bindings ?s). binding_ok b \<and> pb_device_id b \<in> ?ids"
    using assms by (rule_tac ha_bindings [of i e now s]) (auto simp: registry_wf_def)
  moreover have "\<forall>c\<in>set (rg_capabilities ?s). cr_device_id c \<in> ?ids"
    using assms by (rule_tac ha_capabilities [of i e now s]) (auto simp: registry_wf_def)
  ultimately show ?thesis
    using assms by (simp add: registry_wf_def ids ha_fields ha_record.upsert_distinct ha_twin.upsert_distinct)
qed

lemma ha_upsert_slice:
  assumes "j \<noteq> i"
  shows "same_slice j (upsert_home_assistant_device i e now s) s"
proof -
  let ?s = "upsert_home_assistant_device i e now s"
  have "filter (\<lambda>b. pb_device_id b = j) (rg_provider_bindings ?s) = filter (\<lambda>b. pb_device_id b = j) (rg_provider_bindings s)"
    by (rule ha_bindings [of i e now s]) (use assms in \<open>auto intro!: filter_cong\<close>)
  moreover have "filter (\<lambda>c. cr_device_id c = j) (rg_capabilities ?s) = filter (\<lambda>c. cr_device_id c = j) (rg_capabilities s)"
    by (rule ha_capabilities [of i e now s]) (use assms in \<open>auto intro!: filter_cong\<close>)
  ultimately show ?thesis using assms by (simp add: same_slice_def ha_fields ha_twin.upsert_find_other)
qed

abbreviation ha_id :: "home_assistant_registry_entity \<Rightarrow> string" where
  "ha_id e \<equiv> home_assistant_device_id (ha_entity_id e)"

definition ha_fold :: "home_assistant_registry_entity list \<Rightarrow> string \<Rightarrow> device_registry_snapshot \<Rightarrow> device_registry_snapshot" where
  "ha_fold es now s = fold (\<lambda>e. upsert_home_assistant_device (ha_id e) e now) es s"

lemma ha_fold_simps [simp]:
  "ha_fold [] now s = s" "ha_fold (e # es) now s = ha_fold es now (upsert_home_assistant_device (ha_id e) e now s)"
  by (simp_all add: ha_fold_def)

lemma ha_fold_wf: "registry_wf s \<Longrightarrow> registry_wf (ha_fold es now s)"
  by (induction es arbitrary: s) (simp_all add: ha_upsert_wf)

lemma ha_fold_other: "j \<notin> ha_id ` set es \<Longrightarrow>
    find (\<lambda>d. dr_device_id d = j) (rg_devices (ha_fold es now s)) = find (\<lambda>d. dr_device_id d = j) (rg_devices s)"
  by (induction es arbitrary: s) (simp_all add: ha_fields ha_record.upsert_find_other)

lemma ha_fold_managed:
  assumes "j \<in> ha_id ` set es"
  shows "\<exists>d. find (\<lambda>d. dr_device_id d = j) (rg_devices (ha_fold es now s)) = Some d \<and> dr_source d = ''home_assistant''"
  using assms
proof (induction es arbitrary: s)
  case (Cons e es)
  show ?case
  proof (cases "j \<in> ha_id ` set es")
    case True
    then show ?thesis using Cons.IH by simp
  next
    case False
    then have "j = ha_id e" using Cons.prems by auto
    then show ?thesis
      using ha_fold_other [OF False] ha_record.upsert_find_same [of "ha_id e" e "rg_devices s"]
      by (auto simp: ha_fields home_assistant_record_def change_home_assistant_record_def split: option.split)
  qed
qed simp

lemma registry_find_iff:
  assumes "registry_wf s"
  shows "find (\<lambda>d. dr_device_id d = j) (rg_devices s) = Some d \<longleftrightarrow> d \<in> set (rg_devices s) \<and> dr_device_id d = j"
proof
  assume "find (\<lambda>d. dr_device_id d = j) (rg_devices s) = Some d"
  then show "d \<in> set (rg_devices s) \<and> dr_device_id d = j" by (auto simp: find_Some_iff)
next
  assume "d \<in> set (rg_devices s) \<and> dr_device_id d = j"
  then show "find (\<lambda>d. dr_device_id d = j) (rg_devices s) = Some d"
    using find_distinct_key [of dr_device_id "rg_devices s" d "\<lambda>_. True"] assms by (simp add: registry_wf_def)
qed

definition ha_devices :: "device_registry_snapshot \<Rightarrow> string set" where
  "ha_devices s = {dr_device_id d | d. d \<in> set (rg_devices s) \<and> dr_source d = ''home_assistant''}"

text \<open>
  Everything a registry holds of one device: its record, twin, profile, endpoints, bindings, streams and capabilities.
\<close>

definition same_device :: "string \<Rightarrow> device_registry_snapshot \<Rightarrow> device_registry_snapshot \<Rightarrow> bool" where
  "same_device j s s' \<longleftrightarrow>
     find (\<lambda>d. dr_device_id d = j) (rg_devices s) = find (\<lambda>d. dr_device_id d = j) (rg_devices s') \<and> same_slice j s s'"

lemma same_device_trans: "same_device j s s' \<Longrightarrow> same_device j s' s'' \<Longrightarrow> same_device j s s''"
  by (simp add: same_device_def same_slice_def)

text \<open>
  A device that mirrors an entity of Home Assistant: the record has the name, the area, the source and the remote id of the entity,
  the twin reports its state and attributes, the one binding to Home Assistant points at the entity with the time of the
  synchronisation, and the one capability of this binding can only be read and is as available as the entity.
\<close>

definition mirrors :: "home_assistant_registry_entity \<Rightarrow> string \<Rightarrow> device_registry_snapshot \<Rightarrow> bool" where
  "mirrors e now s \<longleftrightarrow>
     (case find (\<lambda>d. dr_device_id d = ha_id e) (rg_devices s) of None \<Rightarrow> False | Some d \<Rightarrow>
        dr_display_name d = ha_display_name e \<and> dr_primary_room_id d = ha_area_id e \<and> dr_source d = ''home_assistant'' \<and>
        dr_lifecycle_state d = DlRegistered \<and> (dr_kind d = DkCamera) = (ha_domain e = ''camera'') \<and>
        (dr_kind d = DkLight) = (ha_domain e = ''light'') \<and> (dr_kind d = DkLock) = (ha_domain e = ''lock'') \<and>
        json_get (dr_metadata d) ''remote_device_id'' = Some (JStr (ha_entity_id e)) \<and>
        json_get (dr_metadata d) ''domain'' = Some (JStr (ha_domain e))) \<and>
     (case find (\<lambda>t. dt_device_id t = ha_id e) (rg_device_twins s) of None \<Rightarrow> False | Some t \<Rightarrow>
        json_get (dt_reported_state t) ''state'' = Some (JStr (ha_state e)) \<and>
        json_get (dt_reported_state t) ''attributes'' = Some (ha_attributes e) \<and>
        json_get (dt_reported_state t) ''entity_id'' = Some (JStr (ha_entity_id e)) \<and>
        dt_connectivity_state t = (if ha_state e = ''unavailable'' then CsOffline else if ha_state e = ''unknown'' then CsUnknown else CsOnline) \<and>
        dt_last_seen_at t = (if ha_last_updated e = None then ha_last_changed e else ha_last_updated e)) \<and>
     (\<exists>b. filter (\<lambda>b. pb_provider_key b = ''home_assistant'') (filter (\<lambda>b. pb_device_id b = ha_id e) (rg_provider_bindings s)) = [b] \<and>
        pb_remote_device_id b = Some (ha_entity_id e) \<and> pb_last_sync_at b = Some now \<and> pb_binding_status b = PbActive \<and>
        pb_provider_kind b = PkBridge \<and> pb_credential_ref b = None) \<and>
     (\<exists>c. filter (\<lambda>c. cr_source_binding_id c = Some (ha_id e @ ''::binding::home_assistant''))
           (filter (\<lambda>c. cr_device_id c = ha_id e) (rg_capabilities s)) = [c] \<and>
        cr_capability_code c = ''ha.'' @ ha_domain e @ ''.state'' \<and> cr_access_mode c = CaRead \<and>
        cr_availability c = (if ha_state e = ''unavailable'' then CvUnavailable else if ha_state e = ''unknown'' then CvDegraded
          else CvAvailable))"

lemma mirrors_same_device: "same_device (ha_id e) s s' \<Longrightarrow> mirrors e now s = mirrors e now s'"
  by (simp add: mirrors_def same_device_def same_slice_def)

lemma ha_record_values:
  "(dr_kind (change_home_assistant_record e d) = DkCamera) = (ha_domain e = ''camera'')"
  "(dr_kind (change_home_assistant_record e d) = DkLight) = (ha_domain e = ''light'')"
  "(dr_kind (change_home_assistant_record e d) = DkLock) = (ha_domain e = ''lock'')"
  "dr_kind (home_assistant_record i e) = dr_kind (change_home_assistant_record e d)"
  by (auto simp: change_home_assistant_record_def home_assistant_record_def home_assistant_device_kind_def split: if_splits)

lemma ha_metadata_values:
  "json_get (home_assistant_metadata e) ''remote_device_id'' = Some (JStr (ha_entity_id e))"
  "json_get (home_assistant_metadata e) ''domain'' = Some (JStr (ha_domain e))"
  by (simp_all add: home_assistant_metadata_def jobj_def hm_get_def)

lemma ha_twin_values:
  "json_get (dt_reported_state (change_home_assistant_twin e t)) ''state'' = Some (JStr (ha_state e))"
  "json_get (dt_reported_state (change_home_assistant_twin e t)) ''attributes'' = Some (ha_attributes e)"
  "json_get (dt_reported_state (change_home_assistant_twin e t)) ''entity_id'' = Some (JStr (ha_entity_id e))"
  "dt_connectivity_state (change_home_assistant_twin e t) =
     (if ha_state e = ''unavailable'' then CsOffline else if ha_state e = ''unknown'' then CsUnknown else CsOnline)"
  "dt_last_seen_at (change_home_assistant_twin e t) = (if ha_last_updated e = None then ha_last_changed e else ha_last_updated e)"
  by (simp_all add: change_home_assistant_twin_def jobj_def hm_get_def home_assistant_connectivity_state_def or_else_def split: option.split)

lemma ha_twin_found:
  "\<exists>t. find (\<lambda>t. dt_device_id t = i) (rg_device_twins (upsert_home_assistant_device i e now s)) = Some (change_home_assistant_twin e t)"
  unfolding ha_fields ha_twin.upsert_find_same by (auto simp: home_assistant_twin_def split: option.split)

lemma upserted_mirrors: "mirrors e now (upsert_home_assistant_device (ha_id e) e now s)"
  unfolding mirrors_def
proof (intro conjI)
  let ?s = "upsert_home_assistant_device (ha_id e) e now s"
  show "case find (\<lambda>d. dr_device_id d = ha_id e) (rg_devices ?s) of None \<Rightarrow> False | Some d \<Rightarrow>
      dr_display_name d = ha_display_name e \<and> dr_primary_room_id d = ha_area_id e \<and> dr_source d = ''home_assistant'' \<and>
      dr_lifecycle_state d = DlRegistered \<and> (dr_kind d = DkCamera) = (ha_domain e = ''camera'') \<and>
      (dr_kind d = DkLight) = (ha_domain e = ''light'') \<and> (dr_kind d = DkLock) = (ha_domain e = ''lock'') \<and>
      json_get (dr_metadata d) ''remote_device_id'' = Some (JStr (ha_entity_id e)) \<and>
      json_get (dr_metadata d) ''domain'' = Some (JStr (ha_domain e))"
    using ha_record_values [where e = e] ha_metadata_values [of e]
    by (simp add: ha_fields ha_record.upsert_find_same)
      (simp add: change_home_assistant_record_def home_assistant_record_def split: option.split)
  show "case find (\<lambda>t. dt_device_id t = ha_id e) (rg_device_twins ?s) of None \<Rightarrow> False | Some t \<Rightarrow>
      json_get (dt_reported_state t) ''state'' = Some (JStr (ha_state e)) \<and>
      json_get (dt_reported_state t) ''attributes'' = Some (ha_attributes e) \<and>
      json_get (dt_reported_state t) ''entity_id'' = Some (JStr (ha_entity_id e)) \<and>
      dt_connectivity_state t = (if ha_state e = ''unavailable'' then CsOffline else if ha_state e = ''unknown'' then CsUnknown else CsOnline) \<and>
      dt_last_seen_at t = (if ha_last_updated e = None then ha_last_changed e else ha_last_updated e)"
    using ha_twin_found [of "ha_id e" e now s] ha_twin_values [of e] by (elim exE) (simp only: option.case simp_thms)
qed (simp_all add: upsert_home_assistant_device_def upsert_home_assistant_record_def upsert_home_assistant_twin_def
    replace_home_assistant_binding_def replace_home_assistant_capabilities_def home_assistant_binding_id_def
    home_assistant_capability_availability_def filter_empty_conv)

lemma ha_upsert_same_device: "j \<noteq> i \<Longrightarrow> same_device j (upsert_home_assistant_device i e now s) s"
  by (simp add: same_device_def ha_upsert_slice ha_fields ha_record.upsert_find_other)

lemma ha_fold_same_device: "j \<notin> ha_id ` set es \<Longrightarrow> same_device j (ha_fold es now s) s"
proof (induction es arbitrary: s)
  case (Cons e es)
  then show ?case using ha_upsert_same_device [of j "ha_id e" e now s] same_device_trans by simp blast
qed (simp add: same_device_def same_slice_def)

lemma ha_fold_mirrors:
  assumes "ha_id e \<notin> ha_id ` set later"
  shows "mirrors e now (ha_fold (before @ e # later) now s)"
proof -
  have "ha_fold (before @ e # later) now s = ha_fold later now (upsert_home_assistant_device (ha_id e) e now (ha_fold before now s))"
    by (simp add: ha_fold_def)
  then show ?thesis using mirrors_same_device [OF ha_fold_same_device [OF assms]] upserted_mirrors by simp
qed

lemma drop_same_device: "j \<notin> set gone \<Longrightarrow> same_device j (drop_devices gone s) s"
  unfolding same_device_def drop_devices_fields find_filter
  by (intro conjI drop_devices_slice find_cong_in) auto

text \<open>
  C32. Synchronising with Home Assistant. Afterwards the registry is well-formed, and the devices that come from Home Assistant
  are those with the device id of a reported entity. Each of them mirrors the last reported entity with its device id (entity ids that differ
  only in separators or case share one): name, area, state, attributes, remote id, time of the synchronisation and a read-only capability are those of
  the entity. A device from Home Assistant that was not reported is gone with all its records, and of every other device all
  records, its record, twin, profile, endpoints, bindings, streams and capabilities, are as they were.
\<close>

theorem home_assistant_sync_is_exact:
  assumes "registry_wf s"
  shows "registry_wf (upsert_home_assistant_entities es now s) \<and>
    ha_devices (upsert_home_assistant_entities es now s) = ha_id ` set es \<and>
    (\<forall>before e later. es = before @ e # later \<and> ha_id e \<notin> ha_id ` set later \<longrightarrow>
       mirrors e now (upsert_home_assistant_entities es now s)) \<and>
    (\<forall>j. j \<notin> ha_id ` set es \<longrightarrow>
       (if j \<in> ha_devices s then j \<notin> device_ids (upsert_home_assistant_entities es now s)
        else same_device j (upsert_home_assistant_entities es now s) s))"
proof -
  let ?ids = "ha_id ` set es"
  define u where "u = ha_fold es now s"
  define gone where "gone = map dr_device_id (filter (\<lambda>d. dr_source d = ''home_assistant'' \<and> dr_device_id d \<notin> ?ids) (rg_devices u))"
  have r: "upsert_home_assistant_entities es now s = drop_devices gone u"
    by (simp add: upsert_home_assistant_entities_def prune_missing_home_assistant_entities_def u_def gone_def ha_fold_def)
  have wf: "registry_wf u" using ha_fold_wf [OF assms] by (simp add: u_def)
  have "set gone \<subseteq> - ?ids" unfolding gone_def by auto
  then have kept: "j \<notin> set gone" if "j \<in> ?ids" for j using that by blast
  have here: "find (\<lambda>d. dr_device_id d = j) (rg_devices u) = find (\<lambda>d. dr_device_id d = j) (rg_devices s)" if "j \<notin> ?ids" for j
    using ha_fold_other [OF that] by (simp add: u_def)
  have gone_iff: "j \<in> set gone \<longleftrightarrow> j \<in> ha_devices s" if "j \<notin> ?ids" for j
    using that registry_find_iff [OF wf, of j] registry_find_iff [OF assms, of j] here [OF that]
    by (auto simp: gone_def ha_devices_def)
  have "mirrors e now (drop_devices gone u)" if "es = before @ e # later" "ha_id e \<notin> ha_id ` set later" for before e later
  proof -
    have "same_device (ha_id e) (drop_devices gone u) u" using that(1) by (intro drop_same_device kept) simp
    then show ?thesis using ha_fold_mirrors [OF that(2), of now before s] mirrors_same_device that(1) by (simp add: u_def)
  qed
  moreover have "ha_devices (drop_devices gone u) = ?ids"
  proof (intro set_eqI iffI)
    fix j assume "j \<in> ha_devices (drop_devices gone u)"
    then show "j \<in> ?ids" by (auto simp: ha_devices_def drop_devices_fields gone_def)
  next
    fix j assume j: "j \<in> ?ids"
    then obtain d where d: "find (\<lambda>d. dr_device_id d = j) (rg_devices u) = Some d" "dr_source d = ''home_assistant''"
      using ha_fold_managed [of j es now s] by (auto simp: u_def)
    then show "j \<in> ha_devices (drop_devices gone u)"
      using registry_find_iff [OF wf, of j d] kept [OF j] unfolding ha_devices_def drop_devices_fields by auto
  qed
  moreover have "if j \<in> ha_devices s then j \<notin> device_ids (drop_devices gone u) else same_device j (drop_devices gone u) s"
    if j: "j \<notin> ?ids" for j
    using gone_iff [OF j] same_device_trans [OF drop_same_device ha_fold_same_device [OF j]] by (simp add: u_def drop_devices_ids)
  ultimately show ?thesis unfolding r using drop_devices_wf [OF wf] by blast
qed

section \<open>Every sequence of operations\<close>

datatype registry_command =
    UpsertCameras "camera_device list"
  | ReplaceCameras "camera_device list"
  | SyncHomeAssistant "home_assistant_registry_entity list" string

fun run_registry :: "(string \<Rightarrow> parsed_url option) \<Rightarrow> registry_command \<Rightarrow> device_registry_snapshot \<Rightarrow> device_registry_snapshot" where
  "run_registry pu (UpsertCameras cs) s = upsert_camera_devices_preserving_platform_records pu cs s"
| "run_registry pu (ReplaceCameras cs) s = replace_camera_devices_preserving_platform_records pu cs s"
| "run_registry pu (SyncHomeAssistant es now) s = upsert_home_assistant_entities es now s"

lemma upsert_each_wf: "registry_wf s \<Longrightarrow> registry_wf (upsert_each pu cs s)"
  by (induction cs arbitrary: s) (simp_all add: upsert_camera_wf)

lemma run_registry_wf: "registry_wf s \<Longrightarrow> registry_wf (run_registry pu cmd s)"
  by (cases cmd) (simp_all add: upsert_camera_devices_preserving_platform_records_def Let_def upsert_each_wf drop_devices_wf
      replace_camera_devices_preserving_platform_records_def prune_missing_camera_devices_def upsert_home_assistant_entities_def
      prune_missing_home_assistant_entities_def ha_fold_wf ha_fold_def [symmetric])

lemma stream_profile_owner: "sp_device_id (primary_stream_profile c) = ca_device_id c"
  by (simp add: primary_stream_profile_def)

lemma from_camera_devices_wf: "distinct (map ca_device_id cs) \<Longrightarrow> registry_wf (from_camera_devices pu cs)"
  unfolding registry_wf_def from_camera_devices_eq device_ids_def
  by (auto simp: comp_def cam_record.key_fresh cam_twin.key_fresh cam_profile.key_fresh new_records_ok stream_profile_owner
      camera_endpoint_owner binding_fields capability_fields image_image)

text \<open>
  C33. The registry stays well-formed under every sequence of upserts and replacements of cameras and synchronisations
  with Home Assistant, starting from the migration of any legacy list with distinct ids (the empty list gives the empty
  registry): one record, one twin and one profile per device, every record belongs to a device that exists, and the ids
  of endpoints, bindings and streams are those of their owner, so no device can be read through another one's records.
\<close>

theorem registry_stays_well_formed:
  assumes "distinct (map ca_device_id legacy)"
  shows "registry_wf (fold (run_registry pu) cmds (from_camera_devices pu legacy))"
proof -
  have "registry_wf s \<Longrightarrow> registry_wf (fold (run_registry pu) cmds s)" for s
    by (induction cmds arbitrary: s) (simp_all add: run_registry_wf)
  then show ?thesis using from_camera_devices_wf [OF assms] by blast
qed

section \<open>Concrete registries\<close>

definition demo_url :: "string \<Rightarrow> parsed_url option" where "demo_url _ = None"

definition demo_camera :: "string \<Rightarrow> string \<Rightarrow> camera_device" where
  "demo_camera i url = camera_device_new i ''Door'' url"

definition demo_registry :: device_registry_snapshot where
  "demo_registry = from_camera_devices demo_url [demo_camera ''x'' ''u1'']"

definition demo_entity :: home_assistant_registry_entity where
  "demo_entity = \<lparr>ha_entity_id = ''camera.porch'', ha_domain = ''camera'', ha_display_name = ''Porch'', ha_state = ''idle'',
     ha_area_id = None, ha_device_class = None, ha_last_changed = None, ha_last_updated = None, ha_attributes = JNull\<rparr>"

lemma demo_camera_fields [simp]:
  "ca_device_id (demo_camera i u) = i" "ca_kind (demo_camera i u) = LkCamera"
  "cs_url (ca_primary_stream (demo_camera i u)) = u"
  by (simp_all add: demo_camera_def camera_device_new_def)

lemma demo_registry_wf: "registry_wf demo_registry"
  by (simp add: demo_registry_def from_camera_devices_wf)

theorem legacy_registry_round_trip_witness:
  "to_camera_devices (from_camera_devices demo_url [demo_camera ''x'' ''u1'', demo_camera ''y'' ''u2'']) =
     [demo_camera ''x'' ''u1'', demo_camera ''y'' ''u2'']"
proof (rule legacy_registry_round_trip)
  show "list_all storable [demo_camera ''x'' ''u1'', demo_camera ''y'' ''u2'']" by code_simp
qed simp

theorem upserted_camera_reads_back_witness:
  "\<exists>t. camera_target (upsert_camera_device demo_url (demo_camera ''y'' ''u2'') demo_registry) ''y'' = Some t \<and>
     cs_url (rc_primary_stream t) = ''u2''"
  using upserted_camera_reads_back [OF demo_registry_wf, of "demo_camera ''y'' ''u2''" demo_url] by auto

lemma demo_in_place: "urls_in_place [demo_camera ''y'' ''u2''] demo_registry"
proof -
  have "map (\<lambda>c. cs_url (ca_primary_stream c)) (to_camera_devices demo_registry) = [''u1'']" by code_simp
  then have "\<forall>c\<in>set (to_camera_devices demo_registry). cs_url (ca_primary_stream c) = ''u1''"
    by (metis in_set_conv_nth length_map list.size(3) list.size(4) nth_map One_nat_def Suc_eq_plus1 less_one nth_Cons_0 plus_nat.add_0)
  moreover have "camera_of_target t \<in> set (to_camera_devices demo_registry)" if "camera_target demo_registry i = Some t" for i t
    using that camera_target_iff [OF demo_registry_wf] by (force simp: to_camera_devices_def camera_targets_def set_map_filter_iff)
  ultimately show ?thesis by (fastforce simp: urls_in_place_def camera_of_target_def)
qed

theorem saved_cameras_replace_all_witness:
  "reads_back (replace_camera_devices_preserving_platform_records demo_url [demo_camera ''y'' ''u2''] demo_registry)
     (normalize_camera_metadata (demo_camera ''y'' ''u2''))"
  using saved_cameras_replace_all [OF demo_registry_wf _ demo_in_place, of demo_url] by (simp add: cameras_ok_def)

theorem home_assistant_sync_is_exact_witness:
  "ha_devices (upsert_home_assistant_entities [demo_entity] ''now'' demo_registry) = {''ha-camera-porch''} \<and>
   mirrors demo_entity ''now'' (upsert_home_assistant_entities [demo_entity] ''now'' demo_registry) \<and>
   same_device ''x'' (upsert_home_assistant_entities [demo_entity] ''now'' demo_registry) demo_registry"
proof -
  have i: "ha_id demo_entity = ''ha-camera-porch''" by code_simp
  have "list_all (\<lambda>d. dr_source d \<noteq> ''home_assistant'') (rg_devices demo_registry)" by code_simp
  then have "''x'' \<notin> ha_devices demo_registry" by (auto simp: ha_devices_def list_all_iff)
  note w = home_assistant_sync_is_exact [OF demo_registry_wf, of "[demo_entity]" "''now''"]
  have "ha_devices (upsert_home_assistant_entities [demo_entity] ''now'' demo_registry) = {''ha-camera-porch''}" using w i by simp
  moreover have "mirrors demo_entity ''now'' (upsert_home_assistant_entities [demo_entity] ''now'' demo_registry)"
    using w by (metis append_Nil empty_iff image_empty list.set(1))
  moreover have "''x'' \<notin> ha_id ` set [demo_entity]" using i by simp
  ultimately show ?thesis using w \<open>''x'' \<notin> ha_devices demo_registry\<close> by metis
qed

theorem registry_stays_well_formed_witness:
  "registry_wf (fold (run_registry demo_url) [SyncHomeAssistant [demo_entity] ''now'', ReplaceCameras [demo_camera ''y'' ''u1'']]
     (from_camera_devices demo_url [demo_camera ''x'' ''u1'']))"
  by (rule registry_stays_well_formed) simp

text \<open>
  Without the condition on URLs a camera can be lost: when a stored camera moves to a new URL and a new camera takes its
  old one, the new camera is written but then pruned, because the ids to keep were computed before the first was written.
\<close>

lemma moved_url_loses_camera:
  "cameras_ok [demo_camera ''x'' ''u2'', demo_camera ''y'' ''u1''] \<and>
   map dr_device_id (rg_devices (replace_camera_devices_preserving_platform_records demo_url
     [demo_camera ''x'' ''u2'', demo_camera ''y'' ''u1''] demo_registry)) = [''x'']"
  by (intro conjI) code_simp+

text \<open>
  Saving the cameras that were read removes the cameras of Home Assistant: they have no stream, so they are not among
  the cameras read, and every camera that is not saved is pruned.
\<close>

lemma load_and_save_drops_home_assistant_camera:
  "let s = upsert_home_assistant_entities [demo_entity] ''now'' demo_registry in
   map dr_device_id (rg_devices s) = [''x'', ''ha-camera-porch''] \<and>
   map dr_device_id (rg_devices (replace_camera_devices_preserving_platform_records demo_url (to_camera_devices s) s)) = [''x'']"
  by code_simp

text \<open>Different entities can get the same device id.\<close>

lemma home_assistant_ids_collide:
  "home_assistant_device_id ''light.desk_lamp'' = home_assistant_device_id ''light.desk.lamp''"
  by code_simp

end
