(* ===== verification/Home_Assistant.thy ===== *)
theory Home_Assistant
  imports Text_Words
begin

text \<open>
  Service calls to Home Assistant, from \<^verbatim>\<open>src/src/connectors/home_assistant.rs\<close>: normalisation and validation of a
  requested service action, the allowlist, the check of extra fields, and the call through the HarborLink API. The
  HTTP exchange (\<^verbatim>\<open>post_json\<close>) is the argument \<open>post\<close>, which acts on an arbitrary world; \<open>to_text\<close> stands for
  \<^verbatim>\<open>serde_json::to_string\<close>.
\<close>

record ha_service_request =
  hq_entity_id :: string
  hq_domain :: string
  hq_service :: string
  hq_fields :: json

record ha_service_call_response =
  hx_domain :: string
  hx_service :: string
  hx_entity_id :: string
  hx_ok :: bool
  hx_changed_entity_count :: nat

definition HOME_ASSISTANT_TOKEN_REDACTION :: string where "HOME_ASSISTANT_TOKEN_REDACTION = ''__harbor_redacted__''"

definition token_is_redacted :: "string \<Rightarrow> bool" where
  "token_is_redacted value \<longleftrightarrow> blank value \<or> trim value = HOME_ASSISTANT_TOKEN_REDACTION"

definition redact_home_assistant_token :: "string \<Rightarrow> string" where
  "redact_home_assistant_token value = (if blank value then [] else HOME_ASSISTANT_TOKEN_REDACTION)"

definition normalize_home_assistant_service_fields :: "json \<Rightarrow> json" where
  "normalize_home_assistant_service_fields flds = (if flds = JNull then jobj [] else flds)"

definition normalize_home_assistant_service_action_request :: "ha_service_request \<Rightarrow> ha_service_request" where
  "normalize_home_assistant_service_action_request r =
     \<lparr>hq_entity_id = to_lowercase (trim (hq_entity_id r)), hq_domain = to_lowercase (trim (hq_domain r)),
      hq_service = to_lowercase (trim (hq_service r)), hq_fields = normalize_home_assistant_service_fields (hq_fields r)\<rparr>"

definition home_assistant_service_action_is_allowlisted :: "string \<Rightarrow> string \<Rightarrow> bool" where
  "home_assistant_service_action_is_allowlisted domain service =
     (let d = to_lowercase (trim domain); s = to_lowercase (trim service) in
      (d \<in> {''light'', ''switch'', ''input_boolean''} \<and> s \<in> {''turn_on'', ''turn_off'', ''toggle''}) \<or>
      (d = ''scene'' \<and> s = ''turn_on''))"

definition home_assistant_secret_like_key :: "string \<Rightarrow> bool" where
  "home_assistant_secret_like_key key =
     (let n = to_lowercase (trim key) in
      list_ex (str_contains n) [''token'', ''secret'', ''password'', ''passwd'', ''api_key'', ''apikey'', ''authorization'',
        ''bearer'', ''private_key'', ''access_key'', ''credential''])"

definition home_assistant_secret_like_value :: "string \<Rightarrow> bool" where
  "home_assistant_secret_like_value value =
     (let n = to_lowercase (trim value) in
      list_ex (str_contains n) [''bearer '', ''authorization'', ''api_key'', ''apikey'', ''access_token'', ''private_key'',
        ''-----begin '', ''rtsp://''])"

fun check_service_fields :: "(json \<Rightarrow> string) \<Rightarrow> (string \<times> json) list \<Rightarrow> string + unit" where
  "check_service_fields to_text [] = Ok ()"
| "check_service_fields to_text ((key, value) # rest) =
     (if home_assistant_secret_like_key key then Err ''Home Assistant service fields cannot include secret-like keys''
      else if home_assistant_secret_like_value (to_text value)
      then Err ''Home Assistant service fields cannot include secret-like values''
      else check_service_fields to_text rest)"

fun validate_home_assistant_service_fields :: "(json \<Rightarrow> string) \<Rightarrow> json \<Rightarrow> string + unit" where
  "validate_home_assistant_service_fields to_text JNull = Ok ()"
| "validate_home_assistant_service_fields to_text (JObj m) = check_service_fields to_text m"
| "validate_home_assistant_service_fields to_text _ = Err ''Home Assistant service fields must be a JSON object''"

definition entity_id_char :: "char \<Rightarrow> bool" where
  "entity_id_char c \<longleftrightarrow> is_ascii_lowercase c \<or> is_ascii_digit c \<or> c = CHR ''_'' \<or> c = CHR ''.''"

definition validate_home_assistant_service_action_request ::
  "(json \<Rightarrow> string) \<Rightarrow> ha_service_request \<Rightarrow> bool \<Rightarrow> string list \<Rightarrow> string + unit" where
  "validate_home_assistant_service_action_request to_text r enabled exposed_domains =
     (if \<not> enabled then Err ''Home Assistant integration is disabled''
      else if hq_entity_id r = [] \<or> hq_domain r = [] \<or> hq_service r = []
      then Err ''Home Assistant entity, domain, and service are required''
      else if \<not> list_all entity_id_char (hq_entity_id r)
      then Err ''Home Assistant entity id is outside the safe identifier shape''
      else if \<not> starts_with (hq_entity_id r) (hq_domain r @ ''.'')
      then Err ''Home Assistant entity id must match the requested domain''
      else if exposed_domains \<noteq> [] \<and> \<not> list_ex (\<lambda>d. eq_ignore_ascii_case (trim d) (hq_domain r)) exposed_domains
      then Err ''Home Assistant domain is not in the allowlisted sync scope''
      else if \<not> home_assistant_service_action_is_allowlisted (hq_domain r) (hq_service r)
      then Err ''Home Assistant service is not allowlisted for safe smoke control''
      else validate_home_assistant_service_fields to_text (hq_fields r))"

definition sanitize_service_path_component :: "string \<Rightarrow> string \<Rightarrow> string + string" where
  "sanitize_service_path_component value label =
     (let t = to_lowercase (trim value) in
      if t = [] then Err (''Home Assistant '' @ label @ '' is required'')
      else if \<not> list_all (\<lambda>c. is_ascii_lowercase c \<or> is_ascii_digit c \<or> c = CHR ''_'') t
      then Err (''Home Assistant '' @ label @ '' contains unsupported characters'')
      else Ok t)"

definition call_service ::
  "(string \<Rightarrow> json \<Rightarrow> 'w \<Rightarrow> (string + ha_service_call_response) \<times> 'w) \<Rightarrow> string \<Rightarrow> string \<Rightarrow> string \<Rightarrow> json option
    \<Rightarrow> 'w \<Rightarrow> (string + ha_service_call_response) \<times> 'w" where
  "call_service post domain service entity_id flds w =
     (case and_then (sanitize_service_path_component domain ''domain'') (\<lambda>d.
           and_then (sanitize_service_path_component service ''service'') (\<lambda>s.
           if blank entity_id then Err ''Home Assistant entity id is required'' else Ok (d, s))) of
        Inl e \<Rightarrow> (Err e, w)
      | Inr (d, s) \<Rightarrow>
          post (''/v1/home-assistant/services/'' @ d @ ''/'' @ s)
            (jobj [(''entity_id'', JStr (trim entity_id)),
                   (''fields'', case flds of Some (JObj m) \<Rightarrow> JObj m | _ \<Rightarrow> JObj [])]) w)"

section \<open>What passes\<close>

definition safe_services :: "(string \<times> string) set" where
  "safe_services = {''light'', ''switch'', ''input_boolean''} \<times> {''turn_on'', ''turn_off'', ''toggle''} \<union> {(''scene'', ''turn_on'')}"

lemma safe_component:
  assumes "(d, s) \<in> safe_services"
  shows "to_lowercase (trim d) = d" "to_lowercase (trim s) = s"
    "sanitize_service_path_component d l = Ok d" "sanitize_service_path_component s l = Ok s"
proof -
  have e: "trim ''light'' = ''light''" "trim ''switch'' = ''switch''" "trim ''input_boolean'' = ''input_boolean''"
    "trim ''scene'' = ''scene''" "trim ''turn_on'' = ''turn_on''" "trim ''turn_off'' = ''turn_off''" "trim ''toggle'' = ''toggle''"
    by code_simp+
  have d: "d \<in> {''light'', ''switch'', ''input_boolean'', ''scene''}" and s: "s \<in> {''turn_on'', ''turn_off'', ''toggle''}"
    using assms by (auto simp: safe_services_def)
  show "to_lowercase (trim d) = d" "to_lowercase (trim s) = s" using d s by (auto simp: e str_defs)
  show "sanitize_service_path_component d l = Ok d" "sanitize_service_path_component s l = Ok s"
    using d s by (auto simp: sanitize_service_path_component_def Let_def e str_defs)
qed

lemma allowlisted_safe: "home_assistant_service_action_is_allowlisted d s \<longleftrightarrow> (to_lowercase (trim d), to_lowercase (trim s)) \<in> safe_services"
  by (auto simp: home_assistant_service_action_is_allowlisted_def safe_services_def Let_def)

lemma check_service_fields_iff:
  "check_service_fields to_text m = Ok () \<longleftrightarrow>
     list_all (\<lambda>(k, v). \<not> home_assistant_secret_like_key k \<and> \<not> home_assistant_secret_like_value (to_text v)) m"
  by (induction m rule: check_service_fields.induct) auto

lemma validate_request_iff:
  "validate_home_assistant_service_action_request to_text r enabled exposed = Ok () \<longleftrightarrow>
     enabled \<and> hq_entity_id r \<noteq> [] \<and> hq_domain r \<noteq> [] \<and> hq_service r \<noteq> [] \<and> list_all entity_id_char (hq_entity_id r) \<and>
     prefix (hq_domain r @ ''.'') (hq_entity_id r) \<and>
     (exposed = [] \<or> (\<exists>d\<in>set exposed. eq_ignore_ascii_case (trim d) (hq_domain r))) \<and>
     (to_lowercase (trim (hq_domain r)), to_lowercase (trim (hq_service r))) \<in> safe_services \<and>
     validate_home_assistant_service_fields to_text (hq_fields r) = Ok ()"
  by (auto simp: validate_home_assistant_service_action_request_def allowlisted_safe starts_with_def list_ex_iff)

lemma normalized_safe:
  assumes "r = normalize_home_assistant_service_action_request q"
    and "validate_home_assistant_service_action_request to_text r enabled exposed = Ok ()"
  shows "(hq_domain r, hq_service r) \<in> safe_services"
  using assms(2) by (simp add: validate_request_iff assms(1) normalize_home_assistant_service_action_request_def trim_to_lowercase)

lemma call_service_safe:
  assumes "(d, sv) \<in> safe_services" "\<not> blank e" "trim e = e"
  shows "call_service post d sv e (Some (jobj [])) w =
    post (''/v1/home-assistant/services/'' @ d @ ''/'' @ sv) (jobj [(''entity_id'', JStr e), (''fields'', JObj [])]) w"
  using safe_component(3,4) [OF assms(1)] assms(2,3) by (simp add: call_service_def jobj_def)

lemma validated_entity:
  assumes "r = normalize_home_assistant_service_action_request q"
    and "validate_home_assistant_service_action_request to_text r enabled exposed = Ok ()"
  shows "trim (hq_entity_id r) = hq_entity_id r" "\<not> blank (hq_entity_id r)"
proof -
  show t: "trim (hq_entity_id r) = hq_entity_id r"
    by (simp add: assms(1) normalize_home_assistant_service_action_request_def trim_to_lowercase)
  have "hq_entity_id r \<noteq> []" using assms(2) by (simp add: validate_request_iff)
  then show "\<not> blank (hq_entity_id r)" using t by (simp add: blank_def)
qed

end
