(* ===== verification/Home_Guardian.thy ===== *)
theory Home_Guardian
  imports Home_Assistant
begin

text \<open>
  Home Guardian rules, from \<^verbatim>\<open>src/src/runtime/home_guardian.rs\<close>: which automation reviews are guardian rules, when a
  trigger matches a local vision event, what is planned for a rule, the run summaries and their redaction. Records are
  from \<^verbatim>\<open>src/src/runtime/vision_event.rs\<close> and \<^verbatim>\<open>src/src/runtime/admin_console.rs\<close>. Random ids and the clock are
  arguments; \<open>to_f32\<close> is the rounding of a JSON number to single precision.
\<close>

section \<open>Records\<close>

record snapshot_artifact =
  sa_artifact_id :: "string option"
  sa_path :: "string option"
  sa_mime_type :: "string option"
  sa_byte_size :: "u64 option"
  sa_sha256 :: "string option"
  sa_source :: "string option"

record local_vision_event_artifact =
  vy_artifact_id :: "string option"
  vy_role :: string
  vy_mime_type :: "string option"
  vy_byte_size :: "u64 option"
  vy_sha256 :: "string option"
  vy_source :: "string option"

record local_vision_event_vlm_summary =
  vm_status :: string
  vm_summary :: string
  vm_tags :: "string list"
  vm_labels :: "string list"
  vm_derived_text :: string
  vm_artifacts :: "local_vision_event_artifact list"
  vm_ingest_metadata :: json
  vm_vlm_metrics :: json
  vm_error :: "string option"

record local_vision_event =
  ve_event_id :: string
  ve_camera_id :: string
  ve_event_type :: string
  ve_confidence :: rat
  ve_labels :: "string list"
  ve_summary :: string
  ve_snapshot_artifact :: snapshot_artifact
  ve_started_at :: string
  ve_analyzer :: string
  ve_latency_ms :: u64
  ve_metrics :: json
  ve_vlm :: "local_vision_event_vlm_summary option"

record stored_local_vision_event =
  vs_received_at :: string
  vs_event :: local_vision_event
  vs_audit_record :: json
  vs_ha_mqtt_payload :: json

record automation_rule_review =
  av_review_id :: string
  av_workspace_id :: string
  av_source :: string
  av_source_channel :: "string option"
  av_source_conversation_id :: "string option"
  av_original_prompt :: string
  av_status :: string
  av_trigger_definition :: "json option"
  av_condition_definition :: "json option"
  av_action_plan :: "json option"
  av_device_refs :: "json list"
  av_risk_level :: "string option"
  av_requires_approval :: bool
  av_created_at :: "string option"
  av_updated_at :: "string option"
  av_expires_at :: "string option"
  av_rule_id :: "string option"
  av_run_summaries :: "json list"
  av_metadata :: "json option"

record home_guardian_ha_service_request =
  gq_entity_id :: string
  gq_domain :: string
  gq_service :: string

datatype home_guardian_action_execution_kind = NotifyDefaultTarget | HomeAssistantService | UnsupportedAction

record home_guardian_action_execution_plan =
  gp_action :: json
  gp_action_key :: string
  gp_idempotency_key :: string
  gp_kind :: home_guardian_action_execution_kind

datatype home_guardian_rule_evaluation_plan =
    Completed automation_rule_review json bool
  | Execute automation_rule_review "home_guardian_action_execution_plan list"

section \<open>Text\<close>

fun json_string_at_paths :: "json \<Rightarrow> string list \<Rightarrow> string option" where
  "json_string_at_paths value [] = None"
| "json_string_at_paths value (k # ks) =
     (case opt_filter (\<lambda>t. t \<noteq> []) (map_option trim (Option.bind (json_get value k) as_str)) of
        Some t \<Rightarrow> Some t | None \<Rightarrow> json_string_at_paths value ks)"

definition trim_quote_char :: "char \<Rightarrow> bool" where
  "trim_quote_char c \<longleftrightarrow> c \<in> {CHR 0x22, CHR 0x27, CHR '','', CHR '';'', CHR '')'', CHR ''(''}"

definition looks_like_local_path :: "string \<Rightarrow> bool" where
  "looks_like_local_path value =
     (let t = rev (dropWhile trim_quote_char (rev (dropWhile trim_quote_char value))) in
      if 2 < length t \<and> t ! 1 = CHR '':'' then t ! 2 = CHR 0x5C \<or> t ! 2 = CHR ''/''
      else list_ex (starts_with t) [''/home/'', ''/Users/'', ''/mnt/'', ''/var/'', ''/tmp/''])"

definition guardian_redactable :: "string \<Rightarrow> bool" where
  "guardian_redactable token =
     (let lower = to_ascii_lowercase token in
      list_ex (str_contains lower) [''token='', ''password='', ''secret='', ''authorization:'', ''bearer ''] \<or>
      list_ex (starts_with lower) [''rtsp://'', ''http://'', ''https://''] \<or> looks_like_local_path token)"

definition redact_home_guardian_string :: "string \<Rightarrow> string" where
  "redact_home_guardian_string value =
     join '' '' (map (\<lambda>token. if guardian_redactable token then ''[redacted]'' else token) (split_whitespace value))"

definition compact_redacted_reason :: "string \<Rightarrow> string" where
  "compact_redacted_reason reason = chars_take 240 (redact_home_guardian_string reason)"

definition str_field :: "json \<Rightarrow> string \<Rightarrow> string option" where
  "str_field value k = Option.bind (json_get value k) as_str"

definition bool_field :: "json \<Rightarrow> string \<Rightarrow> bool \<Rightarrow> bool" where
  "bool_field value k d = unwrap_or (Option.bind (json_get value k) as_bool) d"

section \<open>Rules and triggers\<close>

definition automation_review_is_home_guardian :: "automation_rule_review \<Rightarrow> bool" where
  "automation_review_is_home_guardian review =
     (let source = to_ascii_lowercase (trim (av_source review)) in
      source = ''home_guardian'' \<or> source = ''harbornavi_home_guardian'' \<or>
      unwrap_or (Option.bind (Option.bind (av_metadata review) (\<lambda>m. json_get m ''home_guardian'')) as_bool) False \<or>
      Option.bind (Option.bind (av_metadata review) (\<lambda>m. json_get m ''feature'')) as_str = Some ''home_guardian'')"

fun as_f64 :: "json \<Rightarrow> rat option" where
  "as_f64 (JInt i) = Some (of_int i)"
| "as_f64 (JFloat q) = Some q"
| "as_f64 _ = None"

definition required_labels :: "json list \<Rightarrow> string list" where
  "required_labels labels = filter (\<lambda>l. l \<noteq> []) (map (\<lambda>l. to_ascii_lowercase (trim l)) (List.map_filter as_str labels))"

definition label_present :: "local_vision_event \<Rightarrow> string \<Rightarrow> bool" where
  "label_present event label \<longleftrightarrow> list_ex (\<lambda>e. to_ascii_lowercase e = label) (ve_labels event) \<or>
     to_ascii_lowercase (ve_event_type event) = label"

definition home_guardian_trigger_matches_event ::
  "(rat \<Rightarrow> rat) \<Rightarrow> json \<Rightarrow> stored_local_vision_event \<Rightarrow> bool \<times> string" where
  "home_guardian_trigger_matches_event to_f32 trigger stored =
     (let event = vs_event stored;
          camera = json_string_at_paths trigger [''camera_id'', ''camera''];
          kind = json_string_at_paths trigger [''event_type''];
          threshold = map_option to_f32 (Option.bind (json_get trigger ''min_confidence'') as_f64);
          labels = Option.bind (json_get trigger ''labels'') as_array
      in if (case camera of None \<Rightarrow> False | Some c \<Rightarrow> to_ascii_lowercase (trim c) \<noteq> to_ascii_lowercase (ve_camera_id event))
         then (False, ''camera_id did not match'')
         else if (case kind of None \<Rightarrow> False | Some k \<Rightarrow> to_ascii_lowercase (trim k) \<noteq> to_ascii_lowercase (ve_event_type event))
         then (False, ''event_type did not match'')
         else if (case threshold of None \<Rightarrow> False | Some t \<Rightarrow> ve_confidence event < t)
         then (False, ''confidence below rule threshold'')
         else if (case labels of None \<Rightarrow> False | Some ls \<Rightarrow>
             required_labels ls \<noteq> [] \<and> \<not> list_all (label_present event) (required_labels ls))
         then (False, ''labels did not match'')
         else (True, ''matched''))"

section \<open>Actions\<close>

definition home_guardian_action_plan_actions :: "json option \<Rightarrow> json list" where
  "home_guardian_action_plan_actions action_plan =
     (case action_plan of None \<Rightarrow> []
      | Some plan \<Rightarrow> (case Option.bind (json_get plan ''actions'') as_array of
          Some actions \<Rightarrow> actions
        | None \<Rightarrow> if as_object plan \<noteq> None then [plan] else []))"

definition home_guardian_action_kind :: "json \<Rightarrow> string" where
  "home_guardian_action_kind action =
     to_ascii_lowercase (trim (unwrap_or (json_string_at_paths action [''kind'', ''action'', ''type'']) []))"

definition home_guardian_ha_service_request_of :: "json \<Rightarrow> home_guardian_ha_service_request" where
  "home_guardian_ha_service_request_of action =
     (let nested = unwrap_or (or_else (json_get action ''home_assistant'') (json_get action ''ha'')) action in
      \<lparr>gq_entity_id = unwrap_or (json_string_at_paths nested [''entity_id'']) [],
       gq_domain = unwrap_or (json_string_at_paths nested [''domain'']) [],
       gq_service = unwrap_or (json_string_at_paths nested [''service'']) []\<rparr>)"

definition home_guardian_action_key :: "json \<Rightarrow> string" where
  "home_guardian_action_key action =
     (let kind = home_guardian_action_kind action in
      if str_contains kind ''notify'' then ''notify_default_target''
      else if str_contains kind ''ha'' \<or> str_contains kind ''home_assistant'' then
        (let r = home_guardian_ha_service_request_of action in
         ''ha:'' @ gq_domain r @ '':'' @ gq_service r @ '':'' @ gq_entity_id r)
      else if kind = [] then ''unsupported'' else kind)"

definition home_guardian_action_is_notify :: "json \<Rightarrow> bool" where
  "home_guardian_action_is_notify action \<longleftrightarrow>
     home_guardian_action_kind action \<in> {''notify'', ''notify_default_target'', ''event_notify'', ''notification''}"

definition home_guardian_action_is_ha_service_action :: "json \<Rightarrow> bool" where
  "home_guardian_action_is_ha_service_action action \<longleftrightarrow>
     home_guardian_action_kind action \<in> {''ha_service_action'', ''home_assistant_service_action'', ''home_assistant''}"

definition home_guardian_redacted_action :: "json \<Rightarrow> json" where
  "home_guardian_redacted_action action =
     (if home_guardian_action_is_notify action
      then jobj [(''kind'', JStr ''notify_default_target''), (''target'', JStr ''default_notification_target'')]
      else if home_guardian_action_is_ha_service_action action then
        (let r = home_guardian_ha_service_request_of action in
         jobj [(''kind'', JStr ''ha_service_action''), (''domain'', JStr (gq_domain r)), (''service'', JStr (gq_service r)),
           (''entity_id'', JStr (gq_entity_id r)), (''fields_empty'', JBool True)])
      else jobj [(''kind'', JStr (home_guardian_action_key action)), (''status'', JStr ''unsupported'')])"

definition home_guardian_redacted_action_plan :: "json option \<Rightarrow> json" where
  "home_guardian_redacted_action_plan action_plan =
     jobj [(''actions'', JArr (map home_guardian_redacted_action (home_guardian_action_plan_actions action_plan))),
       (''metadata_only'', JBool True)]"

definition rule_key :: "automation_rule_review \<Rightarrow> string" where
  "rule_key review = unwrap_or (opt_filter (\<lambda>r. \<not> blank r) (av_rule_id review)) (av_review_id review)"

definition home_guardian_idempotency_key :: "automation_rule_review \<Rightarrow> stored_local_vision_event \<Rightarrow> string \<Rightarrow> string" where
  "home_guardian_idempotency_key review stored action_key =
     rule_key review @ '':'' @ ve_event_id (vs_event stored) @ '':'' @ action_key"

definition home_guardian_action_execution_plan_of ::
  "automation_rule_review \<Rightarrow> stored_local_vision_event \<Rightarrow> json \<Rightarrow> home_guardian_action_execution_plan" where
  "home_guardian_action_execution_plan_of review stored action =
     (let action_key = home_guardian_action_key action in
      \<lparr>gp_action = action, gp_action_key = action_key,
       gp_idempotency_key = home_guardian_idempotency_key review stored action_key,
       gp_kind = (if home_guardian_action_is_notify action then NotifyDefaultTarget
                  else if home_guardian_action_is_ha_service_action action then HomeAssistantService
                  else UnsupportedAction)\<rparr>)"

definition home_guardian_idempotent_action_result :: "string \<Rightarrow> string \<Rightarrow> json" where
  "home_guardian_idempotent_action_result action_key idempotency_key =
     jobj [(''action'', JStr action_key), (''status'', JStr ''skipped''), (''executed'', JBool False),
       (''idempotency_key'', JStr idempotency_key), (''reason'', JStr ''idempotent duplicate event/action run''),
       (''redacted'', JBool True)]"

definition home_guardian_unsupported_action_result :: "string \<Rightarrow> string \<Rightarrow> json" where
  "home_guardian_unsupported_action_result action_key idempotency_key =
     jobj [(''action'', JStr action_key), (''status'', JStr ''blocked''), (''executed'', JBool False),
       (''idempotency_key'', JStr idempotency_key), (''reason'', JStr ''Unsupported Home Guardian action.''),
       (''redacted'', JBool True)]"

section \<open>Run summaries\<close>

definition compact_home_guardian_action_result :: "json \<Rightarrow> json" where
  "compact_home_guardian_action_result action =
     jobj [(''action'', JStr (unwrap_or (str_field action ''action'') ''unknown'')),
       (''status'', JStr (unwrap_or (str_field action ''status'') ''unknown'')),
       (''executed'', JBool (bool_field action ''executed'' False)),
       (''idempotency_key'', jopt_str (str_field action ''idempotency_key'')),
       (''domain'', jopt_str (str_field action ''domain'')), (''service'', jopt_str (str_field action ''service'')),
       (''entity_id'', jopt_str (str_field action ''entity_id'')),
       (''notification_status'', jopt_str (str_field action ''notification_status'')),
       (''reason'', jopt_str (map_option compact_redacted_reason (str_field action ''reason''))),
       (''redacted'', JBool True)]"

text \<open>\<open>stamp\<close> is the random id and the time of the summary.\<close>

definition home_guardian_rule_run_summary ::
  "string \<times> string \<Rightarrow> automation_rule_review \<Rightarrow> stored_local_vision_event \<Rightarrow> string \<Rightarrow> bool \<Rightarrow> bool \<Rightarrow> string \<Rightarrow> json list \<Rightarrow> json" where
  "home_guardian_rule_run_summary stamp review stored status matched executed reason actions =
     jobj [(''run_id'', JStr (''guardian_run_'' @ fst stamp)), (''review_id'', JStr (av_review_id review)),
       (''rule_id'', jopt_str (av_rule_id review)), (''event_id'', JStr (ve_event_id (vs_event stored))),
       (''camera_id'', JStr (ve_camera_id (vs_event stored))), (''event_type'', JStr (ve_event_type (vs_event stored))),
       (''status'', JStr status), (''matched'', JBool matched), (''executed'', JBool executed),
       (''reason'', JStr (redact_home_guardian_string reason)),
       (''actions'', JArr (map compact_home_guardian_action_result actions)), (''created_at'', JStr (snd stamp)),
       (''metadata_only'', JBool True), (''secret_scan'', JStr ''clean'')]"

definition summary_time :: "json \<Rightarrow> string option" where
  "summary_time s = json_string_at_paths s [''created_at'', ''evaluated_at'']"

definition latest_home_guardian_run_summaries :: "json list \<Rightarrow> json list" where
  "latest_home_guardian_run_summaries summaries = rev (take 50 (sort_by (descending summary_time) summaries))"

definition append_home_guardian_run_summary :: "automation_rule_review \<Rightarrow> json \<Rightarrow> automation_rule_review" where
  "append_home_guardian_run_summary review summary =
     review\<lparr>av_run_summaries := latest_home_guardian_run_summaries (av_run_summaries review @ [summary])\<rparr>"

definition home_guardian_run_already_recorded :: "automation_rule_review \<Rightarrow> string \<Rightarrow> bool" where
  "home_guardian_run_already_recorded review idempotency_key =
     list_ex (\<lambda>summary. case Option.bind (json_get summary ''actions'') as_array of
         None \<Rightarrow> False
       | Some actions \<Rightarrow> list_ex (\<lambda>a. str_field a ''idempotency_key'' = Some idempotency_key \<and>
           str_field a ''status'' \<in> {Some ''delivered'', Some ''acted'', Some ''skipped''}) actions)
       (av_run_summaries review)"

definition has_status :: "string list \<Rightarrow> json \<Rightarrow> bool" where
  "has_status names value \<longleftrightarrow> (case str_field value ''status'' of None \<Rightarrow> False | Some s \<Rightarrow> s \<in> set names)"

definition home_guardian_run_status_from_actions :: "json list \<Rightarrow> string" where
  "home_guardian_run_status_from_actions actions =
     (if list_ex (has_status [''delivered'', ''acted'']) actions then ''acted''
      else if list_ex (has_status [''failed'']) actions then ''failed''
      else if list_ex (has_status [''blocked'']) actions then ''blocked'' else ''skipped'')"

definition complete_home_guardian_rule_execution ::
  "string \<times> string \<Rightarrow> automation_rule_review \<Rightarrow> stored_local_vision_event \<Rightarrow> json list \<Rightarrow> json" where
  "complete_home_guardian_rule_execution stamp review stored action_results =
     home_guardian_rule_run_summary stamp review stored (home_guardian_run_status_from_actions action_results) True
       (list_ex (\<lambda>r. bool_field r ''executed'' False) action_results)
       ''Home Guardian rule evaluated against a local vision event.'' action_results"

section \<open>Evidence\<close>

definition opt_number :: "rat option \<Rightarrow> json" where
  "opt_number x = (case x of None \<Rightarrow> JNull | Some q \<Rightarrow> JFloat q)"

definition compact_home_guardian_trigger :: "json option \<Rightarrow> json" where
  "compact_home_guardian_trigger trigger =
     (case trigger of None \<Rightarrow> jobj [(''metadata_only'', JBool True)]
      | Some t \<Rightarrow> jobj [(''camera_id'', jopt_str (json_string_at_paths t [''camera_id'', ''camera''])),
          (''event_type'', jopt_str (json_string_at_paths t [''event_type''])),
          (''labels'', JArr (map JStr (take 8 (List.map_filter as_str
             (unwrap_or (Option.bind (json_get t ''labels'') as_array) []))))),
          (''min_confidence'', opt_number (Option.bind (json_get t ''min_confidence'') as_f64)),
          (''metadata_only'', JBool True)])"

definition compact_home_guardian_proposal_evidence :: "json \<Rightarrow> json" where
  "compact_home_guardian_proposal_evidence value =
     jobj [(''status'', JStr (unwrap_or (str_field value ''status'') ''proposed'')),
       (''review_id'', jopt_str (str_field value ''review_id'')), (''rule_id'', jopt_str (str_field value ''rule_id'')),
       (''trigger'', compact_home_guardian_trigger (json_get value ''trigger'')),
       (''action_plan'', unwrap_or (json_get value ''action_plan'') (jobj [(''actions'', JArr []), (''metadata_only'', JBool True)])),
       (''requires_enable'', JBool (bool_field value ''requires_enable'' True)),
       (''created_at'', jopt_str (str_field value ''created_at'')), (''metadata_only'', JBool True),
       (''secret_scan'', JStr ''clean''), (''redacted'', JBool True)]"

definition compact_home_guardian_result :: "json \<Rightarrow> json" where
  "compact_home_guardian_result result =
     (let actions = unwrap_or (Option.bind (json_get result ''actions'') as_array) [] in
      jobj [(''run_id'', jopt_str (str_field result ''run_id'')), (''review_id'', jopt_str (str_field result ''review_id'')),
        (''rule_id'', jopt_str (str_field result ''rule_id'')), (''event_id'', jopt_str (str_field result ''event_id'')),
        (''camera_id'', jopt_str (str_field result ''camera_id'')), (''event_type'', jopt_str (str_field result ''event_type'')),
        (''status'', JStr (unwrap_or (str_field result ''status'') ''unknown'')),
        (''matched'', JBool (bool_field result ''matched'' False)), (''executed'', JBool (bool_field result ''executed'' False)),
        (''reason'', jopt_str (map_option compact_redacted_reason (str_field result ''reason''))),
        (''action_count'', JInt (int (length actions))),
        (''actions'', JArr (map compact_home_guardian_action_result (take 5 actions))),
        (''created_at'', jopt_str (str_field result ''created_at'')), (''metadata_only'', JBool True),
        (''secret_scan'', JStr ''clean''), (''redacted'', JBool True)])"

definition compact_home_guardian_evaluation_evidence :: "json \<Rightarrow> json" where
  "compact_home_guardian_evaluation_evidence value =
     (let results = unwrap_or (Option.bind (json_get value ''results'') as_array) [] in
      jobj [(''evaluation_id'', jopt_str (str_field value ''evaluation_id'')),
        (''status'', JStr (unwrap_or (str_field value ''status'') ''evaluated'')),
        (''event_id'', jopt_str (str_field value ''event_id'')), (''evaluated_at'', jopt_str (str_field value ''evaluated_at'')),
        (''result_count'', JInt (int (length results))),
        (''results'', JArr (map compact_home_guardian_result (take 5 results))),
        (''counters'', unwrap_or (json_get value ''counters'') (jobj [])), (''metadata_only'', JBool True),
        (''secret_scan'', JStr ''clean''), (''redacted'', JBool True)])"

section \<open>The plan for a rule\<close>

definition select_home_guardian_reviews ::
  "automation_rule_review list \<Rightarrow> string option \<Rightarrow> string + automation_rule_review list" where
  "select_home_guardian_reviews reviews only_review_id =
     (let selected = filter (\<lambda>r. case only_review_id of None \<Rightarrow> True | Some i \<Rightarrow> av_review_id r = i) reviews in
      if only_review_id \<noteq> None \<and> selected = [] then Err ''home guardian rule review not found''
      else Ok (sort_by (ascending av_review_id) selected))"

definition build_home_guardian_rule_evaluation_plan ::
  "(rat \<Rightarrow> rat) \<Rightarrow> string \<times> string \<Rightarrow> automation_rule_review \<Rightarrow> stored_local_vision_event \<Rightarrow> bool \<Rightarrow> bool
    \<Rightarrow> home_guardian_rule_evaluation_plan option" where
  "build_home_guardian_rule_evaluation_plan to_f32 stamp review stored only_review_requested execute_active =
     (let summary = (\<lambda>status matched reason. home_guardian_rule_run_summary stamp review stored status matched False reason []) in
      if \<not> automation_review_is_home_guardian review then
        (if only_review_requested
         then Some (Completed review (summary ''skipped'' False ''Automation review is not a Home Guardian rule.'') False)
         else None)
      else case av_trigger_definition review of
        None \<Rightarrow> Some (Completed review (summary ''blocked'' False ''Home Guardian rule is missing a trigger definition.'') False)
      | Some trigger \<Rightarrow>
          (case home_guardian_trigger_matches_event to_f32 trigger stored of (matched, match_reason) \<Rightarrow>
             if \<not> matched then Some (Completed review (summary ''skipped'' False match_reason) only_review_requested)
             else if av_status review \<noteq> ''active'' \<or> \<not> execute_active then
               Some (Completed review (summary ''skipped'' True
                 ''Home Guardian rule is not active; explicit enable is required before execution.'') True)
             else
               let actions = home_guardian_action_plan_actions (av_action_plan review) in
               if actions = [] then
                 Some (Completed review (summary ''blocked'' True ''Home Guardian rule has no supported action plan.'') only_review_requested)
               else Some (Execute review (map (home_guardian_action_execution_plan_of review stored) actions))))"

section \<open>Counters and responses\<close>

definition bump_counter :: "string \<Rightarrow> nat btree_map \<Rightarrow> nat btree_map" where
  "bump_counter k m = bm_insert k (Suc (unwrap_or (hm_get m k) 0)) m"

definition home_guardian_result_counters :: "json list \<Rightarrow> nat btree_map" where
  "home_guardian_result_counters results =
     fold (\<lambda>r m. fold (\<lambda>a. bump_counter (''action_'' @ unwrap_or (str_field a ''status'') ''unknown''))
         (unwrap_or (Option.bind (json_get r ''actions'') as_array) [])
         (bump_counter (unwrap_or (str_field r ''status'') ''unknown'') m)) results []"

definition counters_json :: "nat btree_map \<Rightarrow> json" where
  "counters_json m = JObj (map (\<lambda>(k, n). (k, JInt (int n))) m)"

record home_guardian_evaluation_response =
  gr_evaluation_id :: string
  gr_status :: string
  gr_event_id :: string
  gr_evaluated_at :: string
  gr_results :: "json list"
  gr_counters :: json
  gr_metadata_only :: bool
  gr_secret_scan :: string

definition build_home_guardian_evaluation_response ::
  "string \<times> string \<Rightarrow> stored_local_vision_event \<Rightarrow> json list \<Rightarrow> home_guardian_evaluation_response" where
  "build_home_guardian_evaluation_response stamp stored results =
     \<lparr>gr_evaluation_id = ''guardian_eval_'' @ fst stamp,
      gr_status = (if list_ex (has_status [''acted'']) results then ''acted''
                   else if list_ex (has_status [''blocked'', ''failed'']) results then ''degraded'' else ''evaluated''),
      gr_event_id = ve_event_id (vs_event stored), gr_evaluated_at = snd stamp, gr_results = results,
      gr_counters = counters_json (home_guardian_result_counters results), gr_metadata_only = True, gr_secret_scan = ''clean''\<rparr>"

definition home_guardian_rule_summary :: "automation_rule_review \<Rightarrow> json" where
  "home_guardian_rule_summary review =
     jobj [(''review_id'', JStr (av_review_id review)), (''rule_id'', jopt_str (av_rule_id review)),
       (''status'', JStr (av_status review)), (''source'', JStr (av_source review)),
       (''risk_level'', jopt_str (av_risk_level review)), (''requires_approval'', JBool (av_requires_approval review)),
       (''trigger'', unwrap_or (av_trigger_definition review) JNull),
       (''action_plan'', home_guardian_redacted_action_plan (av_action_plan review)),
       (''run_count'', JInt (int (length (av_run_summaries review)))),
       (''last_run'', case rev (av_run_summaries review) of [] \<Rightarrow> JNull | s # _ \<Rightarrow> s),
       (''metadata_only'', JBool True), (''secret_scan'', JStr ''clean'')]"

record home_guardian_activity_response =
  gy_generated_at :: string
  gy_rule_count :: nat
  gy_active_count :: nat
  gy_rules :: "json list"
  gy_activity :: "json list"
  gy_counters :: json
  gy_metadata_only :: bool
  gy_secret_scan :: string

definition build_home_guardian_activity_response_with_activity ::
  "string \<Rightarrow> automation_rule_review list \<Rightarrow> json list \<Rightarrow> home_guardian_activity_response" where
  "build_home_guardian_activity_response_with_activity now reviews external_activity =
     (let mine = filter automation_review_is_home_guardian reviews;
          rules = map home_guardian_rule_summary mine;
          external = (if external_activity = [] then concat (map av_run_summaries mine) else external_activity);
          activity = take 25 (sort_by (descending summary_time) external)
      in \<lparr>gy_generated_at = now, gy_rule_count = length rules, gy_active_count = length (filter (\<lambda>r. av_status r = ''active'') mine),
          gy_rules = rules, gy_activity = activity, gy_counters = counters_json (home_guardian_result_counters activity),
          gy_metadata_only = True, gy_secret_scan = ''clean''\<rparr>)"

end
