(* ===== verification/Guardian_Evaluation.thy ===== *)
theory Guardian_Evaluation
  imports Home_Guardian
begin

text \<open>
  The evaluation of Home Guardian rules for a vision event, from \<^verbatim>\<open>src/src/bin/agent_hub_admin_api.rs\<close>: cooldowns,
  the memory of actions that were run, the cache of active rules, the execution of planned actions, and the recording of
  what happened; with the sanitising and upsert of automation reviews of \<^verbatim>\<open>src/src/runtime/admin_console.rs\<close>. The
  delivery of a notification and the HTTP call to Home Assistant are arguments that act on an arbitrary world; the
  clock, random ids, loading and saving of the console state, and \<^verbatim>\<open>redact_admin_string\<close> are arguments. The locks are
  taken to be free and unpoisoned.
\<close>

section \<open>Cooldowns\<close>

definition HOME_GUARDIAN_AUTO_EVALUATION_MIN_INTERVAL_SECONDS :: u64 where
  "HOME_GUARDIAN_AUTO_EVALUATION_MIN_INTERVAL_SECONDS = 60"
definition HOME_GUARDIAN_ACTION_COOLDOWN_SECONDS :: u64 where "HOME_GUARDIAN_ACTION_COOLDOWN_SECONDS = 300"
definition HOME_GUARDIAN_IDEMPOTENCY_MEMORY_SECONDS :: u64 where "HOME_GUARDIAN_IDEMPOTENCY_MEMORY_SECONDS = 7 * 24 * 60 * 60"
definition HOME_GUARDIAN_ACTIVITY_LIMIT :: nat where "HOME_GUARDIAN_ACTIVITY_LIMIT = 500"

definition forget :: "u64 \<Rightarrow> u64 \<Rightarrow> u64 hash_map \<Rightarrow> u64 hash_map" where
  "forget limit now m = hm_retain (\<lambda>_ t. saturating_sub now t \<le> limit) m"

definition cooling :: "u64 \<Rightarrow> u64 \<Rightarrow> string \<Rightarrow> u64 hash_map \<Rightarrow> bool" where
  "cooling period now key m \<longleftrightarrow> (case hm_get m key of None \<Rightarrow> False | Some t \<Rightarrow> saturating_sub now t < period)"

record rule_cache =
  rh_active_reviews :: "automation_rule_review list"
  rh_loaded_at_epoch :: u64
  rh_fingerprint :: "u64 \<times> nat option"
  rh_refresh_error :: "string option"

record guardian_state =
  gs_runs :: "u64 hash_map"
  gs_cooldowns :: "u64 hash_map"
  gs_auto :: "u64 hash_map"
  gs_cache :: rule_cache
  gs_reviews :: "automation_rule_review list"
  gs_activity :: "json list"

definition guardian_action_run_seen :: "string \<Rightarrow> u64 \<Rightarrow> guardian_state \<Rightarrow> bool \<times> guardian_state" where
  "guardian_action_run_seen key now s =
     (let runs = forget HOME_GUARDIAN_IDEMPOTENCY_MEMORY_SECONDS now (gs_runs s) in
      (hm_contains_key runs key, s\<lparr>gs_runs := runs\<rparr>))"

definition mark_guardian_action_run_seen :: "string \<Rightarrow> u64 \<Rightarrow> guardian_state \<Rightarrow> guardian_state" where
  "mark_guardian_action_run_seen key now s = s\<lparr>gs_runs := hm_insert key now (gs_runs s)\<rparr>"

definition home_guardian_action_cooldown_key :: "automation_rule_review \<Rightarrow> stored_local_vision_event \<Rightarrow> string \<Rightarrow> string" where
  "home_guardian_action_cooldown_key review stored action_key =
     rule_key review @ '':'' @ ve_camera_id (vs_event stored) @ '':'' @ action_key"

definition home_guardian_auto_evaluation_cooldown_key :: "stored_local_vision_event \<Rightarrow> string" where
  "home_guardian_auto_evaluation_cooldown_key stored = ve_camera_id (vs_event stored) @ '':'' @ ve_event_type (vs_event stored)"

definition guardian_action_in_cooldown ::
  "automation_rule_review \<Rightarrow> stored_local_vision_event \<Rightarrow> string \<Rightarrow> u64 \<Rightarrow> guardian_state \<Rightarrow> bool \<times> guardian_state" where
  "guardian_action_in_cooldown review stored action_key now s =
     (let m = forget (HOME_GUARDIAN_ACTION_COOLDOWN_SECONDS * 2) now (gs_cooldowns s) in
      (cooling HOME_GUARDIAN_ACTION_COOLDOWN_SECONDS now (home_guardian_action_cooldown_key review stored action_key) m,
       s\<lparr>gs_cooldowns := m\<rparr>))"

definition mark_guardian_action_cooldown ::
  "automation_rule_review \<Rightarrow> stored_local_vision_event \<Rightarrow> string \<Rightarrow> u64 \<Rightarrow> guardian_state \<Rightarrow> guardian_state" where
  "mark_guardian_action_cooldown review stored action_key now s =
     s\<lparr>gs_cooldowns := hm_insert (home_guardian_action_cooldown_key review stored action_key) now (gs_cooldowns s)\<rparr>"

definition guardian_auto_evaluation_due :: "stored_local_vision_event \<Rightarrow> u64 \<Rightarrow> guardian_state \<Rightarrow> bool \<times> guardian_state" where
  "guardian_auto_evaluation_due stored now s =
     (let key = home_guardian_auto_evaluation_cooldown_key stored;
          m = forget (HOME_GUARDIAN_AUTO_EVALUATION_MIN_INTERVAL_SECONDS * 2) now (gs_auto s)
      in if cooling HOME_GUARDIAN_AUTO_EVALUATION_MIN_INTERVAL_SECONDS now key m then (False, s\<lparr>gs_auto := m\<rparr>)
         else (True, s\<lparr>gs_auto := hm_insert key now m\<rparr>))"

definition latest_home_guardian_activity_summaries :: "json list \<Rightarrow> json list" where
  "latest_home_guardian_activity_summaries summaries =
     rev (take HOME_GUARDIAN_ACTIVITY_LIMIT (sort_by (descending summary_time) summaries))"

section \<open>Automation reviews\<close>

text \<open>Messages of the console, as UTF-8 bytes.\<close>

definition zh_must_not_be_empty :: string where
  "zh_must_not_be_empty =
     [CHR 0xE4, CHR 0xB8, CHR 0x8D, CHR 0xE8, CHR 0x83, CHR 0xBD, CHR 0xE4, CHR 0xB8, CHR 0xBA, CHR 0xE7, CHR 0xA9, 
      CHR 0xBA]"

definition zh_unsupported :: string where
  "zh_unsupported =
     [CHR 0xE4, CHR 0xB8, CHR 0x8D, CHR 0xE6, CHR 0x94, CHR 0xAF, CHR 0xE6, CHR 0x8C, CHR 0x81, CHR 0xE7, CHR 0x9A, 
      CHR 0x84]"

definition zh_not_found :: string where
  "zh_not_found =
     [CHR 0xE6, CHR 0x9C, CHR 0xAA, CHR 0xE6, CHR 0x89, CHR 0xBE, CHR 0xE5, CHR 0x88, CHR 0xB0]"

definition zh_sensitive_rejected :: string where
  "zh_sensitive_rejected =
     [CHR 0xE5, CHR 0x8C, CHR 0x85, CHR 0xE5, CHR 0x90, CHR 0xAB, CHR 0xE6, CHR 0x95, CHR 0x8F, CHR 0xE6, CHR 0x84, 
      CHR 0x9F, CHR 0xE5, CHR 0xAD, CHR 0x97, CHR 0xE6, CHR 0xAE, CHR 0xB5, CHR 0xEF, CHR 0xBC, CHR 0x8C, CHR 0xE5, 
      CHR 0xB7, CHR 0xB2, CHR 0xE6, CHR 0x8B, CHR 0x92, CHR 0xE7, CHR 0xBB, CHR 0x9D, CHR 0xE4, CHR 0xBF, CHR 0x9D, 
      CHR 0xE5, CHR 0xAD, CHR 0x98]"

definition DEFAULT_WORKSPACE_ID :: string where "DEFAULT_WORKSPACE_ID = ''home-1''"

definition sanitize_automation_review_status :: "string \<Rightarrow> string + string" where
  "sanitize_automation_review_status status =
     (let n = to_ascii_lowercase (trim status); n' = (if n = [] then ''draft'' else n) in
      if n' \<in> {''draft'', ''pending'', ''active'', ''paused'', ''discarded'', ''expired''} then Ok n'
      else Err (zh_unsupported @ '' automation review status '' @ status))"

definition automation_review_has_sensitive_payload :: "(automation_rule_review \<Rightarrow> string option) \<Rightarrow> automation_rule_review \<Rightarrow> bool" where
  "automation_review_has_sensitive_payload to_text review =
     (case to_text review of None \<Rightarrow> True
      | Some payload \<Rightarrow> list_ex (str_contains (to_ascii_lowercase payload))
          [''rtsp://'', ''rtsps://'', ''ha_token'', ''home_assistant_token'', ''access_token'', ''api_key'', ''apikey'',
           ''private_key'', ''begin private key'', ''camera credential'', ''camera_credential'', ''upload_url'', ''presigned'',
           ''/var/lib/harboros-beacon'', ''/tmp/harbornavi''])"

definition sanitize_automation_review ::
  "(automation_rule_review \<Rightarrow> string option) \<Rightarrow> string \<Rightarrow> automation_rule_review \<Rightarrow> string + automation_rule_review" where
  "sanitize_automation_review to_text new_id review =
     (let r = review\<lparr>av_review_id := (if trim (av_review_id review) = [] then ''review-'' @ new_id else trim (av_review_id review)),
            av_workspace_id := unwrap_or (non_empty_opt (av_workspace_id review)) DEFAULT_WORKSPACE_ID,
            av_source := unwrap_or (non_empty_opt (av_source review)) ''harbor_assistant'',
            av_source_channel := Option.bind (av_source_channel review) non_empty_opt,
            av_source_conversation_id := Option.bind (av_source_conversation_id review) non_empty_opt,
            av_original_prompt := trim (av_original_prompt review)\<rparr>
      in if av_original_prompt r = [] then Err (''original_prompt '' @ zh_must_not_be_empty)
         else and_then (sanitize_automation_review_status (av_status r)) (\<lambda>status.
           let r' = r\<lparr>av_status := status, av_risk_level := Option.bind (av_risk_level r) non_empty_opt,
                 av_created_at := Option.bind (av_created_at r) non_empty_opt,
                 av_updated_at := Option.bind (av_updated_at r) non_empty_opt,
                 av_expires_at := Option.bind (av_expires_at r) non_empty_opt,
                 av_rule_id := Option.bind (av_rule_id r) non_empty_opt\<rparr>
           in if automation_review_has_sensitive_payload to_text r' then Err (''automation review payload '' @ zh_sensitive_rejected)
              else Ok r'))"

fun sanitize_reviews_from ::
  "(automation_rule_review \<Rightarrow> string option) \<Rightarrow> (nat \<Rightarrow> string) \<Rightarrow> nat \<Rightarrow> string list \<Rightarrow> automation_rule_review list
    \<Rightarrow> automation_rule_review list" where
  "sanitize_reviews_from to_text new_id n seen [] = []"
| "sanitize_reviews_from to_text new_id n seen (r # rs) =
     (case sanitize_automation_review to_text (new_id n) r of
        Inl _ \<Rightarrow> sanitize_reviews_from to_text new_id (Suc n) seen rs
      | Inr r' \<Rightarrow>
          if av_review_id r' \<in> set seen then sanitize_reviews_from to_text new_id (Suc n) seen rs
          else r' # sanitize_reviews_from to_text new_id (Suc n) (av_review_id r' # seen) rs)"

definition sanitize_automation_reviews ::
  "(automation_rule_review \<Rightarrow> string option) \<Rightarrow> (nat \<Rightarrow> string) \<Rightarrow> automation_rule_review list \<Rightarrow> automation_rule_review list" where
  "sanitize_automation_reviews to_text new_id reviews =
     take 100 (sort_by (descending av_updated_at) (sanitize_reviews_from to_text new_id 0 [] reviews))"

text \<open>Loading and saving may fail, and may project the list; both are arguments.\<close>

record review_env =
  rw_load :: "automation_rule_review list \<Rightarrow> string + automation_rule_review list"
  rw_save :: "automation_rule_review list \<Rightarrow> string + automation_rule_review list"
  rw_to_text :: "automation_rule_review \<Rightarrow> string option"
  rw_new_id :: "nat \<Rightarrow> string"
  rw_timestamp :: string

definition upsert_automation_review ::
  "review_env \<Rightarrow> automation_rule_review \<Rightarrow> automation_rule_review list \<Rightarrow> string + automation_rule_review list" where
  "upsert_automation_review env review stored_reviews =
     and_then (rw_load env stored_reviews) (\<lambda>reviews.
     and_then (sanitize_automation_review (rw_to_text env) (rw_new_id env 0) review) (\<lambda>r0.
       let r = r0\<lparr>av_created_at := (case av_created_at r0 of None \<Rightarrow> Some (rw_timestamp env) | Some t \<Rightarrow> Some t),
                  av_updated_at := Some (rw_timestamp env)\<rparr>
       in rw_save env (sanitize_automation_reviews (rw_to_text env) (\<lambda>n. rw_new_id env (Suc n))
            (vec_upsert av_review_id (av_review_id r) (\<lambda>_. r) r reviews))))"

definition set_automation_review_status ::
  "review_env \<Rightarrow> string \<Rightarrow> string \<Rightarrow> automation_rule_review list \<Rightarrow> string + automation_rule_review list" where
  "set_automation_review_status env review_id status stored_reviews =
     (let i = trim review_id in
      if i = [] then Err (''review_id '' @ zh_must_not_be_empty)
      else and_then (sanitize_automation_review_status status) (\<lambda>st.
        and_then (rw_load env stored_reviews) (\<lambda>reviews.
          if \<not> list_ex (\<lambda>r. av_review_id r = i) reviews then Err (zh_not_found @ '' automation review '' @ i)
          else rw_save env (sanitize_automation_reviews (rw_to_text env) (rw_new_id env)
            (update_first (\<lambda>r. av_review_id r = i) (\<lambda>r. r\<lparr>av_status := st, av_updated_at := Some (rw_timestamp env)\<rparr>) reviews)))))"

section \<open>Actions\<close>

record ha_admin_state =
  hs_enabled :: bool
  hs_exposed_domains :: "string list"

record 'w action_env =
  ae_notify :: "stored_local_vision_event \<Rightarrow> string \<Rightarrow> 'w \<Rightarrow> json \<times> 'w"
  ae_ha_state :: "string + ha_admin_state"
  ae_ha_client :: "string + unit"
  ae_post :: "string \<Rightarrow> json \<Rightarrow> 'w \<Rightarrow> (string + ha_service_call_response) \<times> 'w"
  ae_json_text :: "json \<Rightarrow> string"
  ae_redact :: "string \<Rightarrow> string"

definition ha_result :: "string \<Rightarrow> bool \<Rightarrow> string \<Rightarrow> ha_service_request option \<Rightarrow> string option \<Rightarrow> json" where
  "ha_result status executed key request reason =
     jobj ([(''action'', JStr ''ha_service_action''), (''status'', JStr status), (''executed'', JBool executed),
            (''idempotency_key'', JStr key)]
       @ (case request of None \<Rightarrow> [] | Some r \<Rightarrow>
            [(''domain'', JStr (hq_domain r)), (''service'', JStr (hq_service r)), (''entity_id'', JStr (hq_entity_id r))])
       @ (case reason of None \<Rightarrow> [] | Some t \<Rightarrow> [(''reason'', JStr t)])
       @ [(''redacted'', JBool True)])"

definition home_assistant_client_from_state :: "'w action_env \<Rightarrow> ha_admin_state \<Rightarrow> string + unit" where
  "home_assistant_client_from_state env state =
     (if \<not> hs_enabled state then Err ''Home Assistant integration is disabled'' else ae_ha_client env)"

definition guardian_ha_request :: "json \<Rightarrow> ha_service_request" where
  "guardian_ha_request action =
     (let g = home_guardian_ha_service_request_of action in
      normalize_home_assistant_service_action_request
        \<lparr>hq_entity_id = gq_entity_id g, hq_domain = gq_domain g, hq_service = gq_service g, hq_fields = jobj []\<rparr>)"

definition execute_home_guardian_ha_action :: "'w action_env \<Rightarrow> json \<Rightarrow> string \<Rightarrow> 'w \<Rightarrow> json \<times> 'w" where
  "execute_home_guardian_ha_action env action key w =
     (case ae_ha_state env of
        Inl e \<Rightarrow> (ha_result ''failed'' False key None (Some (ae_redact env e)), w)
      | Inr state \<Rightarrow>
          let r = guardian_ha_request action in
          (case validate_home_assistant_service_action_request (ae_json_text env) r (hs_enabled state) (hs_exposed_domains state) of
             Inl e \<Rightarrow> (ha_result ''blocked'' False key (Some r) (Some e), w)
           | Inr _ \<Rightarrow>
               (case home_assistant_client_from_state env state of
                  Inl e \<Rightarrow> (ha_result ''blocked'' False key (Some r) (Some (ae_redact env e)), w)
                | Inr _ \<Rightarrow>
                    (case call_service (ae_post env) (hq_domain r) (hq_service r) (hq_entity_id r) (Some (jobj [])) w of
                       (Inr _, w') \<Rightarrow> (ha_result ''acted'' True key (Some r) None, w')
                     | (Inl e, w') \<Rightarrow> (ha_result ''failed'' False key (Some r) (Some (ae_redact env e)), w')))))"

definition guardian_execute ::
  "'w action_env \<Rightarrow> stored_local_vision_event \<Rightarrow> home_guardian_action_execution_plan \<Rightarrow> 'w \<Rightarrow> json \<times> 'w" where
  "guardian_execute env stored plan w =
     (case gp_kind plan of
        NotifyDefaultTarget \<Rightarrow> ae_notify env stored (gp_idempotency_key plan) w
      | HomeAssistantService \<Rightarrow> execute_home_guardian_ha_action env (gp_action plan) (gp_idempotency_key plan) w
      | UnsupportedAction \<Rightarrow> (home_guardian_unsupported_action_result (gp_action_key plan) (gp_idempotency_key plan), w))"

section \<open>Evaluation\<close>

text \<open>
  \<open>exec\<close> executes one planned action on the world. The result of the loop is the action results, the number of actions
  skipped by the cooldown, the state and the world.
\<close>

fun run_actions ::
  "(stored_local_vision_event \<Rightarrow> home_guardian_action_execution_plan \<Rightarrow> 'w \<Rightarrow> json \<times> 'w) \<Rightarrow> bool \<Rightarrow> automation_rule_review
    \<Rightarrow> stored_local_vision_event \<Rightarrow> u64 \<Rightarrow> home_guardian_action_execution_plan list \<Rightarrow> guardian_state \<Rightarrow> 'w
    \<Rightarrow> json list \<times> nat \<times> guardian_state \<times> 'w" where
  "run_actions exec automatic review stored now [] s w = ([], 0, s, w)"
| "run_actions exec automatic review stored now (p # ps) s w =
     (case (if automatic then guardian_action_in_cooldown review stored (gp_action_key p) now s else (False, s)) of (cold, s1) \<Rightarrow>
      if cold then
        (case run_actions exec automatic review stored now ps s1 w of (rs, n, s', w') \<Rightarrow> (rs, Suc n, s', w'))
      else
        (case guardian_action_run_seen (gp_idempotency_key p) now s1 of (seen, s2) \<Rightarrow>
         if seen \<or> home_guardian_run_already_recorded review (gp_idempotency_key p) then
           (case run_actions exec automatic review stored now ps s2 w of (rs, n, s', w') \<Rightarrow>
              (home_guardian_idempotent_action_result (gp_action_key p) (gp_idempotency_key p) # rs, n, s', w'))
         else
           (case exec stored p w of (r, w1) \<Rightarrow>
            let s3 = (if str_field r ''status'' = Some ''skipped'' then s2
                      else mark_guardian_action_run_seen (gp_idempotency_key p) now
                        (mark_guardian_action_cooldown review stored (gp_action_key p) now s2))
            in case run_actions exec automatic review stored now ps s3 w1 of (rs, n, s', w') \<Rightarrow> (r # rs, n, s', w'))))"

record eval_env =
  ee_to_f32 :: "rat \<Rightarrow> rat"
  ee_stamp :: "nat \<Rightarrow> string \<times> string"
  ee_epoch :: "nat \<Rightarrow> u64"
  ee_reviews :: review_env

definition load_home_guardian_activity_summaries :: "guardian_state \<Rightarrow> json list" where
  "load_home_guardian_activity_summaries s = latest_home_guardian_activity_summaries (gs_activity s)"

definition append_activity :: "json \<Rightarrow> guardian_state \<Rightarrow> guardian_state" where
  "append_activity summary s =
     s\<lparr>gs_activity := latest_home_guardian_activity_summaries (load_home_guardian_activity_summaries s @ [summary])\<rparr>"

text \<open>The loop over the reviews; \<open>n\<close> numbers them, so that every one has its own id, time and clock reading.\<close>

fun evaluate_reviews ::
  "(stored_local_vision_event \<Rightarrow> home_guardian_action_execution_plan \<Rightarrow> 'w \<Rightarrow> json \<times> 'w) \<Rightarrow> eval_env
    \<Rightarrow> stored_local_vision_event \<Rightarrow> string option \<Rightarrow> bool \<Rightarrow> nat \<Rightarrow> automation_rule_review list \<Rightarrow> guardian_state \<Rightarrow> 'w
    \<Rightarrow> (string + json list) \<times> guardian_state \<times> 'w" where
  "evaluate_reviews exec env stored only execute_active n [] s w = (Ok [], s, w)"
| "evaluate_reviews exec env stored only execute_active n (review # rest) s w =
     (let automatic = (only = None);
          continue = (\<lambda>summary s w. case evaluate_reviews exec env stored only execute_active (Suc n) rest s w of
            (r, s', w') \<Rightarrow> (and_then r (\<lambda>rs. Ok (summary # rs)), s', w'));
          store = (\<lambda>review summary s. upsert_automation_review (ee_reviews env)
            (append_home_guardian_run_summary review summary) (gs_reviews s))
      in case build_home_guardian_rule_evaluation_plan (ee_to_f32 env) (ee_stamp env n) review stored (only \<noteq> None) execute_active of
           None \<Rightarrow> evaluate_reviews exec env stored only execute_active (Suc n) rest s w
         | Some (Completed review' summary persist_summary) \<Rightarrow>
             if persist_summary \<and> \<not> automatic then
               (case store review' summary s of
                  Inl e \<Rightarrow> (Err e, s, w)
                | Inr rs \<Rightarrow> continue summary (append_activity summary (s\<lparr>gs_reviews := rs\<rparr>)) w)
             else if persist_summary then continue summary (append_activity summary s) w
             else continue summary s w
         | Some (Execute review' plans) \<Rightarrow>
             (case run_actions exec automatic review' stored (ee_epoch env n) plans s w of (results, cold, s1, w1) \<Rightarrow>
              if results = [] \<and> 0 < cold then
                continue (home_guardian_rule_run_summary (ee_stamp env n) review' stored ''skipped'' True False
                  ''Home Guardian action cooldown is active; automatic evaluation was not persisted.'' []) s1 w1
              else
                let summary = complete_home_guardian_rule_execution (ee_stamp env n) review' stored results in
                if automatic then continue summary (append_activity summary s1) w1
                else (case store review' summary s1 of
                        Inl e \<Rightarrow> (Err e, s1, w1)
                      | Inr rs \<Rightarrow> continue summary (append_activity summary (s1\<lparr>gs_reviews := rs\<rparr>)) w1)))"

section \<open>The cache of active rules\<close>

definition active_guardian_rules :: "automation_rule_review list \<Rightarrow> automation_rule_review list" where
  "active_guardian_rules reviews = filter (\<lambda>r. automation_review_is_home_guardian r \<and> av_status r = ''active'') reviews"

definition refresh_home_guardian_rule_cache ::
  "eval_env \<Rightarrow> u64 \<times> nat option \<Rightarrow> u64 \<Rightarrow> guardian_state \<Rightarrow> (string + unit) \<times> guardian_state" where
  "refresh_home_guardian_rule_cache env fingerprint now s =
     (case rw_load (ee_reviews env) (gs_reviews s) of
        Inl e \<Rightarrow> (Err e, s)
      | Inr reviews \<Rightarrow> (Ok (), s\<lparr>gs_cache := \<lparr>rh_active_reviews = active_guardian_rules reviews, rh_loaded_at_epoch = now,
          rh_fingerprint = fingerprint, rh_refresh_error = None\<rparr>\<rparr>))"

definition cached_home_guardian_reviews_for_auto ::
  "eval_env \<Rightarrow> u64 \<times> nat option \<Rightarrow> u64 \<Rightarrow> guardian_state \<Rightarrow> (string + automation_rule_review list) \<times> guardian_state" where
  "cached_home_guardian_reviews_for_auto env fingerprint now s =
     (let stale = rh_loaded_at_epoch (gs_cache s) = 0 \<or> rh_fingerprint (gs_cache s) \<noteq> fingerprint in
      case (if stale then refresh_home_guardian_rule_cache env fingerprint now s else (Ok (), s)) of
        (Inl e, s') \<Rightarrow> (Err e, s')
      | (Inr _, s') \<Rightarrow>
          (case rh_refresh_error (gs_cache s') of Some e \<Rightarrow> (Err e, s') | None \<Rightarrow> (Ok (rh_active_reviews (gs_cache s')), s')))"

definition evaluate_home_guardian_rules_for_event ::
  "(stored_local_vision_event \<Rightarrow> home_guardian_action_execution_plan \<Rightarrow> 'w \<Rightarrow> json \<times> 'w) \<Rightarrow> eval_env \<Rightarrow> u64 \<times> nat option \<Rightarrow> u64
    \<Rightarrow> stored_local_vision_event \<Rightarrow> string option \<Rightarrow> bool \<Rightarrow> guardian_state \<Rightarrow> 'w
    \<Rightarrow> (string + home_guardian_evaluation_response) \<times> guardian_state \<times> 'w" where
  "evaluate_home_guardian_rules_for_event exec env fingerprint now stored only execute_active s w =
     (case (if only = None then cached_home_guardian_reviews_for_auto env fingerprint now s
            else (and_then (rw_load (ee_reviews env) (gs_reviews s)) (\<lambda>rs. select_home_guardian_reviews rs only), s)) of
        (Inl e, s1) \<Rightarrow> (Err e, s1, w)
      | (Inr reviews, s1) \<Rightarrow>
          (case evaluate_reviews exec env stored only execute_active 1 reviews s1 w of (r, s2, w2) \<Rightarrow>
             (and_then r (\<lambda>results. Ok (build_home_guardian_evaluation_response (ee_stamp env 0) stored results)), s2, w2)))"

end
