(* ===== verification/Guardian_Laws.thy ===== *)
theory Guardian_Laws
  imports Guardian_Evaluation
begin

text \<open>
  Properties of Home Guardian: which service calls can leave the hub, that only active rules whose trigger matches
  have effects, that an action runs once per event, that automatic evaluations keep their distance in time, and what the
  run summaries can contain.
\<close>

section \<open>Service calls\<close>

text \<open>
  A Home Guardian action can reach Home Assistant only with an allowlisted service: the world changes only by one
  request for a light, switch or input boolean to turn on, turn off or toggle, or for a scene to turn on, when the
  integration is enabled, for an entity of that domain with a safe identifier, in an exposed domain, and with empty
  fields. In every other case the world is unchanged and the result says blocked or failed.
\<close>

lemma service_calls_are_allowlisted:
  "case execute_home_guardian_ha_action env action key w of (r, w') \<Rightarrow>
     (w' = w \<and> has_status [''blocked'', ''failed''] r) \<or>
     (\<exists>d sv e st. (d, sv) \<in> safe_services \<and> prefix (d @ ''.'') e \<and> list_all entity_id_char e \<and> ae_ha_state env = Ok st \<and>
        hs_enabled st \<and> (hs_exposed_domains st = [] \<or> list_ex (\<lambda>x. eq_ignore_ascii_case (trim x) d) (hs_exposed_domains st)) \<and>
        w' = snd (ae_post env (''/v1/home-assistant/services/'' @ d @ ''/'' @ sv)
          (jobj [(''entity_id'', JStr e), (''fields'', JObj [])]) w) \<and>
        has_status [''acted'', ''failed''] r)"
proof -
  have st: "has_status names (ha_result status executed key q reason) \<longleftrightarrow> status \<in> set names" for names status executed q reason
    by (cases q; cases reason) (simp_all add: has_status_def ha_result_def str_field_def jobj_def hm_get_def)
  define r where "r = guardian_ha_request action"
  obtain q where rq: "r = normalize_home_assistant_service_action_request q"
    by (simp add: r_def guardian_ha_request_def Let_def)
  note unf = execute_home_guardian_ha_action_def [of env action key w, unfolded Let_def, folded r_def]
  show ?thesis
  proof (cases "ae_ha_state env")
    case (Inl e)
    then show ?thesis by (simp add: unf st)
  next
    case (Inr state)
    show ?thesis
    proof (cases "validate_home_assistant_service_action_request (ae_json_text env) r (hs_enabled state) (hs_exposed_domains state)")
      case (Inl e)
      then show ?thesis by (simp add: unf Inr st)
    next
      case (Inr u)
      then have v: "validate_home_assistant_service_action_request (ae_json_text env) r (hs_enabled state) (hs_exposed_domains state) = Ok ()"
        by simp
      note safe = normalized_safe [OF rq v] and ent = validated_entity [OF rq v]
      note v' = v [unfolded validate_request_iff]
      show ?thesis
      proof (cases "home_assistant_client_from_state env state")
        case (Inl e)
        then show ?thesis by (simp add: unf \<open>ae_ha_state env = Inr state\<close> v st)
      next
        case (Inr x)
        let ?p = "ae_post env (''/v1/home-assistant/services/'' @ hq_domain r @ ''/'' @ hq_service r)
          (jobj [(''entity_id'', JStr (hq_entity_id r)), (''fields'', JObj [])]) w"
        have "execute_home_guardian_ha_action env action key w = (case ?p of
            (Inr _, w') \<Rightarrow> (ha_result ''acted'' True key (Some r) None, w')
          | (Inl e, w') \<Rightarrow> (ha_result ''failed'' False key (Some r) (Some (ae_redact env e)), w'))"
          by (simp add: unf \<open>ae_ha_state env = Inr state\<close> v Inr call_service_safe [OF safe ent(2,1)])
        then have "case execute_home_guardian_ha_action env action key w of (res, w') \<Rightarrow>
            w' = snd ?p \<and> has_status [''acted'', ''failed''] res"
          by (cases ?p; cases "fst ?p") (simp_all add: st)
        moreover have "hs_exposed_domains state = [] \<or>
            list_ex (\<lambda>x. eq_ignore_ascii_case (trim x) (hq_domain r)) (hs_exposed_domains state)"
          using v' by (auto simp: list_ex_iff)
        ultimately show ?thesis
          using safe v' \<open>ae_ha_state env = Inr state\<close> by (auto split: prod.splits)
      qed
    qed
  qed
qed

section \<open>Actions run once\<close>

text \<open>An executor that also writes down the idempotency key of every action it does not report as skipped.\<close>

definition logged ::
  "(stored_local_vision_event \<Rightarrow> home_guardian_action_execution_plan \<Rightarrow> 'w \<Rightarrow> json \<times> 'w) \<Rightarrow> stored_local_vision_event
    \<Rightarrow> home_guardian_action_execution_plan \<Rightarrow> 'w \<times> string list \<Rightarrow> json \<times> 'w \<times> string list" where
  "logged exec stored p wl = (case exec stored p (fst wl) of (r, w') \<Rightarrow> (r, w',
     if str_field r ''status'' = Some ''skipped'' then snd wl else gp_idempotency_key p # snd wl))"

definition within_memory :: "u64 \<Rightarrow> u64 \<Rightarrow> bool" where
  "within_memory t0 t \<longleftrightarrow> t0 \<le> t \<and> t - t0 \<le> HOME_GUARDIAN_IDEMPOTENCY_MEMORY_SECONDS"

definition once_inv :: "u64 \<Rightarrow> guardian_state \<Rightarrow> string list \<Rightarrow> bool" where
  "once_inv t0 s ks \<longleftrightarrow> distinct ks \<and> hm_inv (gs_runs s) \<and> (\<forall>k\<in>set ks. \<exists>t\<ge>t0. hm_get (gs_runs s) k = Some t)"

lemma forget_get: "hm_inv m \<Longrightarrow> hm_get (forget limit now m) k = opt_filter (\<lambda>t. saturating_sub now t \<le> limit) (hm_get m k)"
  by (simp add: forget_def hm_get_retain)

lemma within_memory_remembered:
  assumes "within_memory t0 now" "t0 \<le> t"
  shows "saturating_sub now t \<le> HOME_GUARDIAN_IDEMPOTENCY_MEMORY_SECONDS"
proof (cases "t \<le> now")
  case True
  have "now - t \<le> now - t0" using assms True by (simp add: within_memory_def word_le_nat_alt unat_sub)
  then have "now - t \<le> HOME_GUARDIAN_IDEMPOTENCY_MEMORY_SECONDS" using assms(1) order_trans within_memory_def by blast
  then show ?thesis using True by (simp add: saturating_sub_def)
qed (simp add: saturating_sub_def)

lemma once_inv_seen:
  assumes "once_inv t0 s ks" "within_memory t0 now" "guardian_action_run_seen key now s = (seen, s')"
  shows "once_inv t0 s' ks" "key \<in> set ks \<Longrightarrow> seen"
proof -
  have "\<exists>t\<ge>t0. hm_get (gs_runs s') k = Some t" if k: "k \<in> set ks" for k
  proof -
    obtain t where t: "t0 \<le> t" "hm_get (gs_runs s) k = Some t" using assms(1) k by (auto simp: once_inv_def)
    have "hm_get (gs_runs s') k = Some t"
      using assms(1,3) t within_memory_remembered [OF assms(2) t(1)]
      by (auto simp: once_inv_def guardian_action_run_seen_def forget_get opt_filter_Some_iff Let_def)
    then show ?thesis using t(1) by blast
  qed
  then show "once_inv t0 s' ks"
    using assms(1,3) by (auto simp: once_inv_def guardian_action_run_seen_def forget_def Let_def)
  then show "key \<in> set ks \<Longrightarrow> seen"
    using assms(3) by (auto simp: once_inv_def guardian_action_run_seen_def hm_contains_key_iff Let_def)
qed

lemma once_inv_mark:
  assumes "once_inv t0 s ks" "t0 \<le> now" "key \<notin> set ks"
  shows "once_inv t0 (mark_guardian_action_run_seen key now s) (key # ks)"
  using assms by (auto simp: once_inv_def mark_guardian_action_run_seen_def hm_get_insert)

lemma once_inv_runs: "gs_runs s' = gs_runs s \<Longrightarrow> once_inv t0 s' ks = once_inv t0 s ks"
  by (simp add: once_inv_def)

lemma cooldown_runs: "guardian_action_in_cooldown review stored k now s = (b, s') \<Longrightarrow> gs_runs s' = gs_runs s"
  by (auto simp: guardian_action_in_cooldown_def Let_def)

lemma run_actions_once:
  assumes mem: "within_memory t0 now"
  shows "once_inv t0 s (snd wl) \<Longrightarrow> run_actions (logged exec) automatic review stored now ps s wl = (rs, n, s', wl')
    \<Longrightarrow> once_inv t0 s' (snd wl')"
proof (induction ps arbitrary: s wl rs n s' wl')
  case (Cons p ps)
  obtain cold s1 where c: "(if automatic then guardian_action_in_cooldown review stored (gp_action_key p) now s else (False, s)) = (cold, s1)"
    by (metis surj_pair)
  have i1: "once_inv t0 s1 (snd wl)"
    using Cons.prems(1) c cooldown_runs by (auto split: if_splits simp: once_inv_def)
  show ?case
  proof (cases cold)
    case True
    then show ?thesis using Cons.prems(2) Cons.IH [OF i1] by (auto simp: c split: prod.splits)
  next
    case False
    obtain seen s2 where e: "guardian_action_run_seen (gp_idempotency_key p) now s1 = (seen, s2)" by (metis surj_pair)
    note i2 = once_inv_seen [OF i1 mem e]
    show ?thesis
    proof (cases "seen \<or> home_guardian_run_already_recorded review (gp_idempotency_key p)")
      case True
      then show ?thesis using Cons.prems(2) False Cons.IH [OF i2(1)] by (auto simp: c e split: prod.splits)
    next
      case new: False
      obtain r w1 where x: "exec stored p (fst wl) = (r, w1)" by (metis surj_pair)
      have "once_inv t0 (mark_guardian_action_run_seen (gp_idempotency_key p) now
          (mark_guardian_action_cooldown review stored (gp_action_key p) now s2)) (gp_idempotency_key p # snd wl)"
        using i2 new mem
        by (intro once_inv_mark) (auto simp: within_memory_def once_inv_runs mark_guardian_action_cooldown_def once_inv_def)
      then show ?thesis
        using Cons.prems(2) False new i2(1) Cons.IH [of _ "(w1, gp_idempotency_key p # snd wl)"] Cons.IH [of _ "(w1, snd wl)"]
        by (auto simp: c e x logged_def Let_def split: prod.splits if_splits)
    qed
  qed
qed simp


definition ends :: "(guardian_state \<Rightarrow> 'w \<Rightarrow> bool) \<Rightarrow> 'r \<times> guardian_state \<times> 'w \<Rightarrow> bool" where
  "ends P t \<longleftrightarrow> P (fst (snd t)) (snd (snd t))"

lemma ends_simps [simp]:
  "ends P (r, s, w) = P s w"
  "ends P (case t of (r, s, w) \<Rightarrow> (g r, s, w)) = ends P t"
  by (simp_all add: ends_def split: prod.split)

text \<open>What actions, new run records and stored reviews keep, the evaluation of a list of rules keeps.\<close>

lemma evaluate_reviews_keeps:
  assumes act: "\<And>review k ps s w rs c s' w'. P s w \<Longrightarrow>
      run_actions exec (only = None) review stored (ee_epoch env k) ps s w = (rs, c, s', w') \<Longrightarrow> P s' w'"
    and upd: "\<And>x s w. P s w \<Longrightarrow> P (append_activity x s) w" "\<And>rs s w. P s w \<Longrightarrow> P (s\<lparr>gs_reviews := rs\<rparr>) w"
  shows "P s w \<Longrightarrow> ends P (evaluate_reviews exec env stored only execute_active n reviews s w)"
proof (induction reviews arbitrary: n s w)
  case (Cons review rest)
  note keeps = Cons.IH upd Cons.prems
  show ?case
  proof (cases "build_home_guardian_rule_evaluation_plan (ee_to_f32 env) (ee_stamp env n) review stored (only \<noteq> None) execute_active")
    case None
    then show ?thesis using keeps by simp
  next
    case (Some plan)
    show ?thesis
    proof (cases plan)
      case (Completed review' summary persist)
      show ?thesis
        unfolding evaluate_reviews.simps Let_def Some Completed option.case home_guardian_rule_evaluation_plan.case
        by (simp only: ends_simps split: if_split sum.split) (intro conjI impI allI keeps TrueI; assumption?)
    next
      case (Execute review' plans)
      obtain rs c s1 w1 where run: "run_actions exec (only = None) review' stored (ee_epoch env n) plans s w = (rs, c, s1, w1)"
        by (metis surj_pair)
      have "P s1 w1" by (rule act [OF Cons.prems run])
      then show ?thesis
        unfolding evaluate_reviews.simps Let_def Some Execute option.case home_guardian_rule_evaluation_plan.case run prod.case
        by (simp only: ends_simps split: if_split sum.split) (intro conjI impI allI keeps TrueI; assumption?)
    qed
  qed
qed simp

lemma evaluate_reviews_once:
  assumes "\<And>k. within_memory t0 (ee_epoch env k)" "once_inv t0 s (snd wl)"
  shows "ends (\<lambda>s wl. once_inv t0 s (snd wl)) (evaluate_reviews (logged exec) env stored only execute_active n reviews s wl)"
proof (rule evaluate_reviews_keeps [where P = "\<lambda>s wl. once_inv t0 s (snd wl)", OF _ _ _ assms(2)])
  show "once_inv t0 s (snd wl) \<Longrightarrow> run_actions (logged exec) (only = None) review stored (ee_epoch env k) ps s wl = (rs, c, s', wl')
    \<Longrightarrow> once_inv t0 s' (snd wl')" for review k ps s wl rs c s' wl'
    by (rule run_actions_once [OF assms(1)])
qed (simp_all add: once_inv_def append_activity_def)

text \<open>The log is an observer: a run with it is the run without it, beside the log.\<close>

definition on_world :: "('v \<Rightarrow> 'w) \<Rightarrow> 'a \<times> 'b \<times> 'v \<Rightarrow> 'a \<times> 'b \<times> 'w" where
  "on_world h = apsnd (apsnd h)"

lemma on_world_simps [simp]:
  "on_world h (a, b, v) = (a, b, h v)"
  "on_world h (case t of (r, s, w) \<Rightarrow> (g r, s, w)) = (case on_world h t of (r, s, w) \<Rightarrow> (g r, s, w))"
  by (simp_all add: on_world_def split: prod.split)

lemma run_actions_logged:
  "run_actions exec automatic review stored now ps s (fst wl) =
     apsnd (on_world fst) (run_actions (logged exec) automatic review stored now ps s wl)"
proof (induction ps arbitrary: s wl)
  case (Cons p ps)
  obtain cold s1 where c: "(if automatic then guardian_action_in_cooldown review stored (gp_action_key p) now s else (False, s)) = (cold, s1)"
    by (metis surj_pair)
  obtain seen s2 where e: "guardian_action_run_seen (gp_idempotency_key p) now s1 = (seen, s2)" by (metis surj_pair)
  obtain r w1 where x: "exec stored p (fst wl) = (r, w1)" by (metis surj_pair)
  have l: "logged exec stored p wl = (r, w1, snd (snd (logged exec stored p wl)))" by (simp add: logged_def x)
  show ?case
    unfolding run_actions.simps c e x prod.case Let_def
    by (subst l) (auto simp: Cons.IH Cons.IH [of _ "(w1, snd (snd (logged exec stored p wl)))", simplified] split: prod.split)
qed simp

lemma evaluate_reviews_logged:
  "evaluate_reviews exec env stored only execute_active n reviews s (fst wl) =
     on_world fst (evaluate_reviews (logged exec) env stored only execute_active n reviews s wl)"
proof (induction reviews arbitrary: n s wl)
  case (Cons review rest)
  show ?case
  proof (cases "build_home_guardian_rule_evaluation_plan (ee_to_f32 env) (ee_stamp env n) review stored (only \<noteq> None) execute_active")
    case None
    then show ?thesis by (simp add: Cons.IH)
  next
    case (Some plan)
    show ?thesis
    proof (cases plan)
      case (Completed review' summary persist)
      show ?thesis
        unfolding evaluate_reviews.simps Let_def Some Completed option.case home_guardian_rule_evaluation_plan.case
        by (simp only: if_distrib [of "on_world fst"] sum.case_distrib [of "on_world fst"] on_world_simps Cons.IH)
    next
      case (Execute review' plans)
      obtain rs c s1 wl1 where run: "run_actions (logged exec) (only = None) review' stored (ee_epoch env n) plans s wl = (rs, c, s1, wl1)"
        by (metis surj_pair)
      then have run': "run_actions exec (only = None) review' stored (ee_epoch env n) plans s (fst wl) = (rs, c, s1, fst wl1)"
        by (simp add: run_actions_logged [of exec _ _ _ _ _ _ wl])
      show ?thesis
        unfolding evaluate_reviews.simps Let_def Some Execute option.case home_guardian_rule_evaluation_plan.case run run' prod.case
        by (simp only: if_distrib [of "on_world fst"] sum.case_distrib [of "on_world fst"] on_world_simps Cons.IH)
    qed
  qed
qed simp

text \<open>A sequence of evaluations, each with its own clock, event and mode.\<close>

record evaluation_call =
  el_env :: eval_env
  el_fingerprint :: "u64 \<times> nat option"
  el_now :: u64
  el_stored :: stored_local_vision_event
  el_only :: "string option"
  el_execute_active :: bool

definition evaluate_call ::
  "(stored_local_vision_event \<Rightarrow> home_guardian_action_execution_plan \<Rightarrow> 'w \<Rightarrow> json \<times> 'w) \<Rightarrow> evaluation_call \<Rightarrow> guardian_state
    \<Rightarrow> 'w \<Rightarrow> (string + home_guardian_evaluation_response) \<times> guardian_state \<times> 'w" where
  "evaluate_call exec c = evaluate_home_guardian_rules_for_event exec (el_env c) (el_fingerprint c) (el_now c) (el_stored c)
     (el_only c) (el_execute_active c)"

fun evaluate_calls ::
  "(stored_local_vision_event \<Rightarrow> home_guardian_action_execution_plan \<Rightarrow> 'w \<Rightarrow> json \<times> 'w) \<Rightarrow> evaluation_call list \<Rightarrow> guardian_state
    \<Rightarrow> 'w \<Rightarrow> guardian_state \<times> 'w" where
  "evaluate_calls exec [] s w = (s, w)"
| "evaluate_calls exec (c # cs) s w = (case evaluate_call exec c s w of (_, s', w') \<Rightarrow> evaluate_calls exec cs s' w')"

lemma cached_reviews_state:
  "cached_home_guardian_reviews_for_auto env fingerprint now s = (r, s') \<Longrightarrow>
     gs_runs s' = gs_runs s \<and> (\<forall>rs. r = Ok rs \<longrightarrow> rs = rh_active_reviews (gs_cache s'))"
  by (auto simp: cached_home_guardian_reviews_for_auto_def refresh_home_guardian_rule_cache_def Let_def
      split: if_splits sum.splits option.splits)

text \<open>The rules an evaluation looks at, and the state it starts from.\<close>

definition evaluation_start ::
  "eval_env \<Rightarrow> u64 \<times> nat option \<Rightarrow> u64 \<Rightarrow> string option \<Rightarrow> guardian_state \<Rightarrow> (string + automation_rule_review list) \<times> guardian_state" where
  "evaluation_start env fingerprint now only s =
     (if only = None then cached_home_guardian_reviews_for_auto env fingerprint now s
      else (and_then (rw_load (ee_reviews env) (gs_reviews s)) (\<lambda>rs. select_home_guardian_reviews rs only), s))"

lemma evaluation_start_runs: "gs_runs (snd (evaluation_start env fingerprint now only s)) = gs_runs s"
  using cached_reviews_state by (auto simp: evaluation_start_def) (metis surj_pair snd_conv)

lemma evaluate_rules_cases:
  obtains (err) e s1 where "evaluation_start env fingerprint now only s = (Inl e, s1)"
      "evaluate_home_guardian_rules_for_event exec env fingerprint now stored only execute_active s w = (Err e, s1, w)"
  | (ok) reviews s1 where "evaluation_start env fingerprint now only s = (Inr reviews, s1)"
      "evaluate_home_guardian_rules_for_event exec env fingerprint now stored only execute_active s w =
        (case evaluate_reviews exec env stored only execute_active 1 reviews s1 w of (r, s2, w2) \<Rightarrow>
           (and_then r (\<lambda>results. Ok (build_home_guardian_evaluation_response (ee_stamp env 0) stored results)), s2, w2))"
proof (cases "evaluation_start env fingerprint now only s")
  case (Pair x s1)
  note unf = evaluate_home_guardian_rules_for_event_def evaluation_start_def [symmetric]
  show ?thesis
  proof (cases x)
    case (Inl e)
    then show ?thesis using Pair err [of e s1] by (simp only: unf prod.case sum.case)
  next
    case (Inr reviews)
    then show ?thesis using Pair ok [of reviews s1] by (simp only: unf prod.case sum.case)
  qed
qed

lemma evaluate_call_once:
  assumes "\<forall>k. within_memory t0 (ee_epoch (el_env c) k)" "once_inv t0 s (snd wl)"
  shows "ends (\<lambda>s wl. once_inv t0 s (snd wl)) (evaluate_call (logged exec) c s wl)"
proof (cases rule: evaluate_rules_cases [of "el_env c" "el_fingerprint c" "el_now c" "el_only c" s "logged exec" "el_stored c" "el_execute_active c" wl])
  case (err e s1)
  then show ?thesis
    using evaluation_start_runs [of "el_env c" "el_fingerprint c" "el_now c" "el_only c" s] assms(2)
    by (simp add: evaluate_call_def once_inv_def)
next
  case (ok reviews s1)
  then have "once_inv t0 s1 (snd wl)"
    using evaluation_start_runs [of "el_env c" "el_fingerprint c" "el_now c" "el_only c" s] assms(2)
    by (simp add: once_inv_def)
  then show ?thesis
    using assms(1) by (simp only: evaluate_call_def ok(2) ends_simps) (rule evaluate_reviews_once, simp_all)
qed

lemma evaluate_call_logged:
  "evaluate_call exec c s (fst wl) = on_world fst (evaluate_call (logged exec) c s wl)"
proof (cases "evaluation_start (el_env c) (el_fingerprint c) (el_now c) (el_only c) s")
  case (Pair x s1)
  then show ?thesis
    by (cases x) (simp_all only: evaluate_call_def evaluate_home_guardian_rules_for_event_def evaluation_start_def [symmetric]
      prod.case sum.case on_world_simps evaluate_reviews_logged)
qed

lemma evaluate_calls_logged:
  "evaluate_calls exec cs s (fst wl) = apsnd fst (evaluate_calls (logged exec) cs s wl)"
  by (induction cs arbitrary: s wl) (auto simp: evaluate_call_logged split: prod.split)

lemma evaluate_calls_once:
  assumes "list_all (\<lambda>c. \<forall>k. within_memory t0 (ee_epoch (el_env c) k)) cs" "once_inv t0 s (snd wl)"
  shows "case evaluate_calls (logged exec) cs s wl of (s', wl') \<Rightarrow> once_inv t0 s' (snd wl')"
  using assms
proof (induction cs arbitrary: s wl)
  case (Cons c cs)
  obtain r s1 wl1 where e: "evaluate_call (logged exec) c s wl = (r, s1, wl1)" by (metis surj_pair)
  then have "once_inv t0 s1 (snd wl1)" using evaluate_call_once [of t0 c s wl exec] Cons.prems by simp
  then show ?case using Cons by (simp add: e)
qed simp

text \<open>
  C4. Home Guardian executes an action at most once for a rule, an event and an action key: over any sequence of automatic
  and requested evaluations whose clock readings lie within the seven days of the idempotency memory, from a state
  that has seen no runs, no idempotency key is executed twice, whatever the actions do to the world. The log that says so
  is an observer: the state and the world are those of the run without it.
\<close>

theorem guardian_acts_at_most_once:
  assumes "list_all (\<lambda>c. \<forall>k. within_memory t0 (ee_epoch (el_env c) k)) calls" "gs_runs s = []"
  shows "case evaluate_calls (logged exec) calls s (w, []) of (s', w', executed) \<Rightarrow>
    distinct executed \<and> evaluate_calls exec calls s w = (s', w')"
proof -
  have "once_inv t0 s []" using assms(2) by (simp add: once_inv_def)
  then show ?thesis
    using evaluate_calls_once [OF assms(1), of s "(w, [])" exec] evaluate_calls_logged [of exec calls s "(w, [])"]
    by (auto simp: once_inv_def split: prod.splits)
qed

section \<open>Only firing rules act\<close>

definition rule_fires :: "(rat \<Rightarrow> rat) \<Rightarrow> bool \<Rightarrow> stored_local_vision_event \<Rightarrow> automation_rule_review \<Rightarrow> bool" where
  "rule_fires to_f32 execute_active stored review \<longleftrightarrow>
     automation_review_is_home_guardian review \<and> av_status review = ''active'' \<and> execute_active \<and>
     (case av_trigger_definition review of None \<Rightarrow> False
      | Some trigger \<Rightarrow> fst (home_guardian_trigger_matches_event to_f32 trigger stored))"

lemma plan_executes_iff:
  assumes "build_home_guardian_rule_evaluation_plan to_f32 stamp review stored requested execute_active = Some (Execute review' plans)"
  shows "rule_fires to_f32 execute_active stored review"
  using assms by (auto simp: build_home_guardian_rule_evaluation_plan_def rule_fires_def Let_def
      split: if_splits option.splits prod.splits)

lemma evaluate_reviews_world:
  "\<not> list_ex (rule_fires (ee_to_f32 env) execute_active stored) reviews \<Longrightarrow>
     ends (\<lambda>_ w'. w' = w) (evaluate_reviews exec env stored only execute_active n reviews s w)"
proof (induction reviews arbitrary: n s)
  case (Cons review rest)
  have ih: "ends (\<lambda>_ w'. w' = w) (evaluate_reviews exec env stored only execute_active (Suc n) rest s w)" for s
    using Cons by simp
  show ?case
  proof (cases "build_home_guardian_rule_evaluation_plan (ee_to_f32 env) (ee_stamp env n) review stored (only \<noteq> None) execute_active")
    case None
    then show ?thesis using ih by simp
  next
    case (Some plan)
    show ?thesis
    proof (cases plan)
      case (Completed review' summary persist)
      show ?thesis
        unfolding evaluate_reviews.simps Let_def Some Completed option.case home_guardian_rule_evaluation_plan.case
        by (simp only: ends_simps ih split: if_split sum.split) simp
    next
      case (Execute review' plans)
      then show ?thesis using plan_executes_iff Some Cons.prems by auto
    qed
  qed
qed simp

lemma evaluate_reviews_cache:
  "ends (\<lambda>s' _. gs_cache s' = gs_cache s) (evaluate_reviews exec env stored only execute_active n reviews s w)"
proof -
  have run: "run_actions exec automatic review stored now ps s w = (rs, c, s', w') \<Longrightarrow> gs_cache s' = gs_cache s"
    for automatic review now ps s w rs c s' w'
    by (induction ps arbitrary: s w rs c s' w')
      (fastforce simp: Let_def guardian_action_in_cooldown_def guardian_action_run_seen_def mark_guardian_action_run_seen_def
        mark_guardian_action_cooldown_def split: prod.splits if_splits)+
  show ?thesis
    by (rule evaluate_reviews_keeps) (auto simp: append_activity_def dest: run)
qed

text \<open>
  An evaluation changes the world only when some rule fires: it is a Home Guardian rule, it is active, execution
  was asked for, and its trigger matches the event. An automatic evaluation looks for it among the cached active rules, a
  requested one only among the stored reviews with the requested id.
\<close>

theorem only_firing_rules_act:
  assumes "evaluate_home_guardian_rules_for_event exec env fingerprint now stored only execute_active s w = (r, s', w')"
    and "w' \<noteq> w"
  shows "\<exists>review. rule_fires (ee_to_f32 env) execute_active stored review \<and>
    (case only of None \<Rightarrow> review \<in> set (rh_active_reviews (gs_cache s'))
     | Some i \<Rightarrow> av_review_id review = i \<and> (\<exists>rs. rw_load (ee_reviews env) (gs_reviews s) = Ok rs \<and> review \<in> set rs))"
proof (cases rule: evaluate_rules_cases [of env fingerprint now only s exec stored execute_active w])
  case (err e s1)
  then show ?thesis using assms by simp
next
  case (ok reviews s1)
  let ?e = "evaluate_reviews exec env stored only execute_active 1 reviews s1 w"
  have e: "snd ?e = (s', w')"
    using assms(1) unfolding ok(2) by (simp split: prod.splits)
  have w: "snd (snd ?e) = w'" and c: "gs_cache s' = gs_cache s1"
    using e evaluate_reviews_cache [of s1 exec env stored only execute_active 1 reviews w] by (auto simp: ends_def)
  have "list_ex (rule_fires (ee_to_f32 env) execute_active stored) reviews"
    using evaluate_reviews_world [of env execute_active stored reviews w exec only 1 s1] w assms(2) by (auto simp: ends_def)
  then obtain review where rv: "review \<in> set reviews" "rule_fires (ee_to_f32 env) execute_active stored review"
    by (auto simp: list_ex_iff)
  show ?thesis
  proof (cases only)
    case None
    then have "reviews = rh_active_reviews (gs_cache s1)"
      using ok(1) cached_reviews_state [of env fingerprint now s "Inr reviews" s1] by (simp add: evaluation_start_def)
    then show ?thesis using rv None c by auto
  next
    case (Some i)
    then show ?thesis
      using ok(1) rv by (cases "rw_load (ee_reviews env) (gs_reviews s)") (auto simp: evaluation_start_def select_home_guardian_reviews_def Let_def split: if_splits sum.splits)
  qed
qed


section \<open>Automatic evaluations keep their distance\<close>

text \<open>The automatic evaluations that are accepted, with their key and time, among a sequence of requests.\<close>

fun accepted_evaluations :: "(stored_local_vision_event \<times> u64) list \<Rightarrow> guardian_state \<Rightarrow> (string \<times> u64) list" where
  "accepted_evaluations [] s = []"
| "accepted_evaluations ((stored, now) # rest) s =
     (case guardian_auto_evaluation_due stored now s of (due, s') \<Rightarrow>
        (if due then [(home_guardian_auto_evaluation_cooldown_key stored, now)] else []) @ accepted_evaluations rest s')"

definition apart :: "u64 \<Rightarrow> u64 \<Rightarrow> bool" where
  "apart t t' \<longleftrightarrow> t \<le> t' \<and> HOME_GUARDIAN_AUTO_EVALUATION_MIN_INTERVAL_SECONDS \<le> t' - t"

lemma apart_later: "apart t now \<Longrightarrow> now \<le> t' \<Longrightarrow> apart t t'"
  by (auto simp: apart_def word_le_nat_alt unat_sub)

text \<open>Every key a request remembers is apart from what is accepted later, unless it was accepted later than the memory says.\<close>

definition remembers :: "guardian_state \<Rightarrow> u64 \<Rightarrow> string \<times> u64 \<Rightarrow> bool" where
  "remembers s now kt \<longleftrightarrow> apart (snd kt) now \<or> hm_get (gs_auto s) (fst kt) = Some (snd kt)"

lemma due_step:
  assumes "hm_inv (gs_auto s)" "guardian_auto_evaluation_due stored now s = (due, s')"
  shows "hm_inv (gs_auto s')"
    and "snd kt \<le> now \<Longrightarrow> remembers s now kt \<Longrightarrow> due \<Longrightarrow> fst kt = home_guardian_auto_evaluation_cooldown_key stored \<Longrightarrow> apart (snd kt) now"
    and "snd kt \<le> now \<Longrightarrow> remembers s now kt \<Longrightarrow> remembers s' now kt"
    and "due \<Longrightarrow> remembers s' now (home_guardian_auto_evaluation_cooldown_key stored, now)"
proof -
  let ?k = "home_guardian_auto_evaluation_cooldown_key stored"
  let ?lim = "HOME_GUARDIAN_AUTO_EVALUATION_MIN_INTERVAL_SECONDS * 2"
  let ?m = "forget ?lim now (gs_auto s)"
  have lim: "\<not> apart t now \<Longrightarrow> t \<le> now \<Longrightarrow> saturating_sub now t \<le> ?lim" for t
    by (auto simp: apart_def saturating_sub_def HOME_GUARDIAN_AUTO_EVALUATION_MIN_INTERVAL_SECONDS_def word_le_nat_alt)
  have m: "remembers s now kt \<Longrightarrow> snd kt \<le> now \<Longrightarrow> \<not> apart (snd kt) now \<Longrightarrow> hm_get ?m (fst kt) = Some (snd kt)"
    using lim assms(1) by (auto simp: remembers_def forget_get opt_filter_Some_iff)
  note unf = assms(2) [unfolded guardian_auto_evaluation_due_def Let_def]
  show "hm_inv (gs_auto s')" using assms(1) unf by (auto simp: forget_def split: if_splits)
  show a: "snd kt \<le> now \<Longrightarrow> remembers s now kt \<Longrightarrow> due \<Longrightarrow> fst kt = ?k \<Longrightarrow> apart (snd kt) now"
    using m unf by (cases "apart (snd kt) now") (auto simp: cooling_def saturating_sub_def apart_def not_le split: if_splits)
  show "snd kt \<le> now \<Longrightarrow> remembers s now kt \<Longrightarrow> remembers s' now kt"
    using a m unf by (cases "apart (snd kt) now") (auto simp: remembers_def hm_get_insert split: if_splits)
  show "due \<Longrightarrow> remembers s' now (?k, now)" using unf by (auto simp: remembers_def hm_get_insert split: if_splits)
qed

lemma remembers_later: "remembers s now kt \<Longrightarrow> now \<le> t \<Longrightarrow> remembers s t kt"
  using apart_later by (auto simp: remembers_def)

lemma accepted_apart:
  assumes "hm_inv (gs_auto s)" "sorted (map snd calls)" "\<And>stored now. (stored, now) \<in> set calls \<Longrightarrow> snd kt \<le> now \<and> remembers s now kt"
    "kt' \<in> set (accepted_evaluations calls s)" "fst kt' = fst kt"
  shows "apart (snd kt) (snd kt')"
  using assms
proof (induction calls s rule: accepted_evaluations.induct)
  case (2 stored now rest s)
  obtain due s' where d: "guardian_auto_evaluation_due stored now s = (due, s')" by (metis surj_pair)
  note step = due_step [OF 2(2) d]
  have now: "snd kt \<le> now" "remembers s now kt" using 2(4) [of stored now] by auto
  show ?case
  proof (cases "kt' \<in> set (accepted_evaluations rest s')")
    case True
    have "(stored', now') \<in> set rest \<Longrightarrow> snd kt \<le> now' \<and> remembers s' now' kt" for stored' now'
      using 2(3,4) step(3) [OF now] remembers_later [of s' now kt now'] by force
    then show ?thesis using 2(1) [OF d [symmetric] step(1)] 2(3,6) True by auto
  next
    case False
    then show ?thesis using 2(5,6) step(2) [of kt] now by (auto simp: d split: if_splits)
  qed
qed simp

text \<open>
  Automatic evaluations of the same camera and event type are at least sixty seconds apart: in any sequence of vision
  events with a clock that does not go back, from a state whose map of last evaluations is well formed, an evaluation
  is accepted only when every earlier accepted one with its key is sixty seconds old or more.
\<close>

theorem automatic_evaluations_keep_distance:
  assumes "hm_inv (gs_auto s)" "sorted (map snd calls)"
  shows "sorted_wrt (\<lambda>(k, t) (k', t'). k = k' \<longrightarrow> t \<le> t' \<and> 60 \<le> t' - t) (accepted_evaluations calls s)"
  using assms
proof (induction calls s rule: accepted_evaluations.induct)
  case (2 stored now rest s)
  obtain due s' where d: "guardian_auto_evaluation_due stored now s = (due, s')" by (metis surj_pair)
  note step = due_step [OF 2(2) d]
  let ?kt = "(home_guardian_auto_evaluation_cooldown_key stored, now)"
  have "apart now (snd kt')" if "due" "kt' \<in> set (accepted_evaluations rest s')" "fst kt' = fst ?kt" for kt'
  proof -
    have "now \<le> now' \<and> remembers s' now' ?kt" if "(stored', now') \<in> set rest" for stored' now'
      using that 2(3) remembers_later [OF step(4) [OF \<open>due\<close>]] by force
    then show ?thesis using accepted_apart [of s' rest ?kt kt'] step(1) that 2(3) by auto
  qed
  then show ?case
    using 2(1) [OF d [symmetric] step(1)] 2(3)
    by (auto simp: d apart_def HOME_GUARDIAN_AUTO_EVALUATION_MIN_INTERVAL_SECONDS_def split: if_splits)
qed simp


end
