(* ===== verification/Guardian_Runs.thy ===== *)
theory Guardian_Runs
  imports Guardian_Laws
begin

text \<open>
  Concrete runs of Home Guardian: the witnesses of its properties, and what a failed action and a tie in time do.
\<close>

section \<open>Concrete runs\<close>

definition example_event :: stored_local_vision_event where
  "example_event = \<lparr>vs_received_at = ''t'', vs_event = \<lparr>ve_event_id = ''e1'', ve_camera_id = ''cam'', ve_event_type = ''person'',
     ve_confidence = 0, ve_labels = [], ve_summary = [], ve_snapshot_artifact = \<lparr>sa_artifact_id = None, sa_path = None,
       sa_mime_type = None, sa_byte_size = None, sa_sha256 = None, sa_source = None\<rparr>, ve_started_at = ''t'', ve_analyzer = ''a'',
     ve_latency_ms = 0, ve_metrics = JNull, ve_vlm = None\<rparr>, vs_audit_record = JNull, vs_ha_mqtt_payload = JNull\<rparr>"

definition example_rule :: automation_rule_review where
  "example_rule = \<lparr>av_review_id = ''r1'', av_workspace_id = ''home-1'', av_source = ''home_guardian'', av_source_channel = None,
     av_source_conversation_id = None, av_original_prompt = ''p'', av_status = ''active'',
     av_trigger_definition = Some (jobj [(''camera_id'', JStr ''cam'')]), av_condition_definition = None,
     av_action_plan = Some (jobj [(''kind'', JStr ''notify'')]), av_device_refs = [], av_risk_level = None,
     av_requires_approval = False, av_created_at = None, av_updated_at = None, av_expires_at = None, av_rule_id = None,
     av_run_summaries = [], av_metadata = None\<rparr>"

definition example_env :: eval_env where
  "example_env = \<lparr>ee_to_f32 = id, ee_stamp = (\<lambda>n. (''x'', ''t'')), ee_epoch = (\<lambda>n. 1),
     ee_reviews = \<lparr>rw_load = Inr, rw_save = Inr, rw_to_text = (\<lambda>_. Some []), rw_new_id = (\<lambda>n. ''i''), rw_timestamp = ''t''\<rparr>\<rparr>"

definition example_state :: guardian_state where
  "example_state = \<lparr>gs_runs = [], gs_cooldowns = [], gs_auto = [],
     gs_cache = \<lparr>rh_active_reviews = [], rh_loaded_at_epoch = 0, rh_fingerprint = (0, None), rh_refresh_error = None\<rparr>,
     gs_reviews = [example_rule], gs_activity = []\<rparr>"

definition example_exec :: "stored_local_vision_event \<Rightarrow> home_guardian_action_execution_plan \<Rightarrow> nat \<Rightarrow> json \<times> nat" where
  "example_exec stored p n = (jobj [(''status'', JStr ''delivered'')], Suc n)"

definition example_call :: "string option \<Rightarrow> evaluation_call" where
  "example_call only = \<lparr>el_env = example_env, el_fingerprint = (1, None), el_now = 1, el_stored = example_event, el_only = only,
     el_execute_active = True\<rparr>"

lemma memory_seconds [code]: "HOME_GUARDIAN_IDEMPOTENCY_MEMORY_SECONDS = 604800"
  by (simp add: HOME_GUARDIAN_IDEMPOTENCY_MEMORY_SECONDS_def)

lemma example_executed:
  "snd (snd (evaluate_calls (logged example_exec) [example_call None, example_call (Some ''r1'')] example_state (0, []))) =
     [''r1:e1:notify_default_target'']"
  by code_simp


lemma example_once: "list_all (\<lambda>c. \<forall>k. within_memory 1 (ee_epoch (el_env c) k)) [example_call None, example_call (Some ''r1'')]"
  by (simp add: example_call_def example_env_def within_memory_def)

text \<open>An automatic evaluation acts; the requested one of the same event after it does not act again.\<close>

lemma guardian_acts_at_most_once_witness:
  "case evaluate_calls (logged example_exec) [example_call None, example_call (Some ''r1'')] example_state (0, []) of
     (s', w', executed) \<Rightarrow> distinct executed \<and> executed = [''r1:e1:notify_default_target''] \<and>
       evaluate_calls example_exec [example_call None, example_call (Some ''r1'')] example_state 0 = (s', w')"
  using guardian_acts_at_most_once [OF example_once, of example_state example_exec 0] example_executed
  by (auto simp: example_state_def split: prod.splits)

lemma example_acts:
  "snd (snd (evaluate_call example_exec (example_call (Some ''r1'')) example_state 0)) = 1"
  by code_simp

lemma only_firing_rules_act_witness:
  "\<exists>review. rule_fires id True example_event review \<and> av_review_id review = ''r1'' \<and> review \<in> set [example_rule]"
proof -
  obtain r s' w' where e: "evaluate_call example_exec (example_call (Some ''r1'')) example_state 0 = (r, s', w')" by (metis surj_pair)
  then have "w' \<noteq> 0" using example_acts by simp
  from only_firing_rules_act [OF e [unfolded evaluate_call_def] this] show ?thesis
    by (auto simp: example_call_def example_env_def example_state_def)
qed

lemma automatic_evaluations_keep_distance_witness:
  "accepted_evaluations [(example_event, 1000), (example_event, 1059), (example_event, 1060)] example_state =
     [(''cam:person'', 1000), (''cam:person'', 1060)] \<and> (60 :: u64) \<le> 1060 - 1000"
proof -
  let ?calls = "[(example_event, 1000 :: u64), (example_event, 1059), (example_event, 1060)]"
  have a: "accepted_evaluations ?calls example_state = [(''cam:person'', 1000), (''cam:person'', 1060)]"
    by (simp add: guardian_auto_evaluation_due_def home_guardian_auto_evaluation_cooldown_key_def example_state_def example_event_def
      forget_def hm_retain_def cooling_def hm_get_def saturating_sub_def HOME_GUARDIAN_AUTO_EVALUATION_MIN_INTERVAL_SECONDS_def Let_def)
  have h: "hm_inv (gs_auto example_state)" "sorted (map snd ?calls)" by (simp_all add: example_state_def)
  have "(60 :: u64) \<le> 1060 - 1000"
    using automatic_evaluations_keep_distance [OF h, unfolded a] by (simp only: sorted_wrt.simps list.set ball_simps prod.case simp_thms)
  then show ?thesis using a by simp
qed

section \<open>Where the code differs from its intent\<close>

text \<open>A bearer token is not redacted: the pattern ends in a space, and the words it is looked for in have none.\<close>

lemma bearer_words_stay: "redact_home_guardian_string ''Bearer abc123'' = ''Bearer abc123''"
  by code_simp

text \<open>An executor whose first attempt fails, and whose later attempts succeed.\<close>

definition flaky_exec :: "stored_local_vision_event \<Rightarrow> home_guardian_action_execution_plan \<Rightarrow> nat \<Rightarrow> json \<times> nat" where
  "flaky_exec stored p n = (jobj [(''status'', JStr (if n = 0 then ''failed'' else ''delivered''))], Suc n)"

text \<open>A failed action is marked as run like a delivered one, so that asking for the evaluation again never retries it.\<close>

lemma failed_action_is_not_retried:
  "snd (evaluate_calls flaky_exec [example_call (Some ''r1''), example_call (Some ''r1'')] example_state 0) = 1"
  by code_simp

end
