(* ===== verification/Notifications.thy ===== *)
theory Notifications
  imports Text_Words
begin

text \<open>
  The notification contract of \<^verbatim>\<open>src/src/connectors/notifications.rs\<close>: requests and their JSON form, the configuration
  of the gateway, and delivery. The HTTP client, the token of the sender and parsing of response bodies are arguments.
\<close>

section \<open>Records\<close>

datatype notification_payload_format = PlainText | Markdown | LarkCard | JsonFormat
datatype notification_attachment_kind = AttachImage | AttachVideo | AttachLink | AttachJson
datatype notification_destination_kind = DestConversation | DestRecipient | DestLocalUi
datatype notification_delivery_mode = ModeSend | ModeReply | ModeUpdate
datatype notification_recipient_id_type = ChatId | OpenId | Email
datatype notification_delivery_status = DeliverySent | DeliveryFailed | DeliverySkipped

record notification_recipient =
  nr_recipient_id :: string
  nr_recipient_type :: notification_recipient_id_type

record notification_attachment =
  na_kind :: notification_attachment_kind
  na_label :: string
  na_artifact_id :: "string option"
  na_mime_type :: string
  na_path :: "string option"
  na_url :: "string option"
  na_metadata :: json

record notification_source =
  ns_service :: string
  ns_module :: string
  ns_event_type :: string

record notification_destination =
  nd_kind :: notification_destination_kind
  nd_route_key :: string
  nd_id :: string
  nd_platform :: string
  nd_recipient :: "notification_recipient option"

record notification_content =
  nc_title :: string
  nc_body :: string
  nc_payload_format :: notification_payload_format
  nc_structured_payload :: json
  nc_attachments :: "notification_attachment list"
  nc_delivery_hints :: "json list"

record notification_delivery =
  ny_mode :: notification_delivery_mode
  ny_reply_to_message_id :: string
  ny_update_message_id :: string
  ny_idempotency_key :: string

record notification_metadata =
  nm_correlation_id :: string

record notification_request =
  nq_notification_id :: string
  nq_trace_id :: string
  nq_source :: notification_source
  nq_destination :: notification_destination
  nq_content :: notification_content
  nq_delivery :: notification_delivery
  nq_metadata :: notification_metadata

record notification_error_detail =
  ng_code :: string
  ng_message :: string

record notification_delivery_record =
  nv_delivery_id :: string
  nv_notification_id :: string
  nv_trace_id :: string
  nv_ok :: bool
  nv_status :: notification_delivery_status
  nv_platform :: string
  nv_provider_message_id :: "string option"
  nv_retryable :: bool
  nv_error :: "notification_error_detail option"

record shared_http_error_detail =
  he_code :: string
  he_message :: string

record shared_http_error_envelope =
  hv_ok :: bool
  hv_error :: shared_http_error_detail
  hv_trace_id :: "string option"

record notification_gateway_config =
  gw_base_url :: string
  gw_bearer_token :: string

datatype notification_delivery_error =
    MissingConfiguration string
  | Transport string
  | InvalidResponse string
  | RequestRejected nat shared_http_error_envelope

section \<open>JSON\<close>

fun payload_format_json :: "notification_payload_format \<Rightarrow> json" where
  "payload_format_json PlainText = JStr ''plain_text''"
| "payload_format_json Markdown = JStr ''markdown''"
| "payload_format_json LarkCard = JStr ''lark_card''"
| "payload_format_json JsonFormat = JStr ''json''"

fun attachment_kind_json :: "notification_attachment_kind \<Rightarrow> json" where
  "attachment_kind_json AttachImage = JStr ''image''"
| "attachment_kind_json AttachVideo = JStr ''video''"
| "attachment_kind_json AttachLink = JStr ''link''"
| "attachment_kind_json AttachJson = JStr ''json''"

fun destination_kind_json :: "notification_destination_kind \<Rightarrow> json" where
  "destination_kind_json DestConversation = JStr ''conversation''"
| "destination_kind_json DestRecipient = JStr ''recipient''"
| "destination_kind_json DestLocalUi = JStr ''local_ui''"

fun delivery_mode_json :: "notification_delivery_mode \<Rightarrow> json" where
  "delivery_mode_json ModeSend = JStr ''send''"
| "delivery_mode_json ModeReply = JStr ''reply''"
| "delivery_mode_json ModeUpdate = JStr ''update''"

fun recipient_type_json :: "notification_recipient_id_type \<Rightarrow> json" where
  "recipient_type_json ChatId = JStr ''chat_id''"
| "recipient_type_json OpenId = JStr ''open_id''"
| "recipient_type_json Email = JStr ''email''"

fun delivery_status_json :: "notification_delivery_status \<Rightarrow> json" where
  "delivery_status_json DeliverySent = JStr ''sent''"
| "delivery_status_json DeliveryFailed = JStr ''failed''"
| "delivery_status_json DeliverySkipped = JStr ''skipped''"

definition attachment_json :: "notification_attachment \<Rightarrow> json" where
  "attachment_json a = jobj ([(''kind'', attachment_kind_json (na_kind a)), (''label'', JStr (na_label a))]
     @ (case na_artifact_id a of None \<Rightarrow> [] | Some i \<Rightarrow> [(''artifact_id'', JStr i)])
     @ [(''mime_type'', JStr (na_mime_type a)), (''path'', jopt_str (na_path a)), (''url'', jopt_str (na_url a)),
        (''metadata'', na_metadata a)])"

definition destination_json :: "notification_destination \<Rightarrow> json" where
  "destination_json d = jobj [(''kind'', destination_kind_json (nd_kind d)), (''route_key'', JStr (nd_route_key d)),
     (''id'', JStr (nd_id d)), (''platform'', JStr (nd_platform d)),
     (''recipient'', case nd_recipient d of None \<Rightarrow> JNull | Some r \<Rightarrow>
        jobj [(''recipient_id'', JStr (nr_recipient_id r)), (''recipient_type'', recipient_type_json (nr_recipient_type r))])]"

definition content_json :: "notification_content \<Rightarrow> json" where
  "content_json c = jobj ([(''title'', JStr (nc_title c)), (''body'', JStr (nc_body c)),
     (''payload_format'', payload_format_json (nc_payload_format c)), (''structured_payload'', nc_structured_payload c),
     (''attachments'', JArr (map attachment_json (nc_attachments c)))]
     @ (if nc_delivery_hints c = [] then [] else [(''delivery_hints'', JArr (nc_delivery_hints c))]))"

definition request_json :: "notification_request \<Rightarrow> json" where
  "request_json q = jobj [(''notification_id'', JStr (nq_notification_id q)), (''trace_id'', JStr (nq_trace_id q)),
     (''source'', jobj [(''service'', JStr (ns_service (nq_source q))), (''module'', JStr (ns_module (nq_source q))),
        (''event_type'', JStr (ns_event_type (nq_source q)))]),
     (''destination'', destination_json (nq_destination q)), (''content'', content_json (nq_content q)),
     (''delivery'', jobj [(''mode'', delivery_mode_json (ny_mode (nq_delivery q))),
        (''reply_to_message_id'', JStr (ny_reply_to_message_id (nq_delivery q))),
        (''update_message_id'', JStr (ny_update_message_id (nq_delivery q))),
        (''idempotency_key'', JStr (ny_idempotency_key (nq_delivery q)))]),
     (''metadata'', jobj [(''correlation_id'', JStr (nm_correlation_id (nq_metadata q)))])]"

section \<open>Configuration\<close>

definition CONTRACT_VERSION :: string where "CONTRACT_VERSION = ''2.0''"
definition IM_GATEWAY_BASE_URL_ENV :: string where "IM_GATEWAY_BASE_URL_ENV = ''HARBORGATE_BASE_URL''"
definition LEGACY_IM_GATEWAY_BASE_URL_ENV :: string where "LEGACY_IM_GATEWAY_BASE_URL_ENV = ''HARBOR_IM_GATEWAY_BASE_URL''"
definition DEFAULT_LOCAL_IM_GATEWAY_BASE_URL :: string where "DEFAULT_LOCAL_IM_GATEWAY_BASE_URL = ''http://127.0.0.1:8787''"

definition gateway_env_var :: "(string \<Rightarrow> string option) \<Rightarrow> string \<Rightarrow> string option" where
  "gateway_env_var env name = opt_filter (\<lambda>v. v \<noteq> []) (map_option trim (env name))"

definition env_var_with_legacy_alias :: "(string \<Rightarrow> string option) \<Rightarrow> string \<Rightarrow> string \<Rightarrow> string option" where
  "env_var_with_legacy_alias env primary legacy =
     (case gateway_env_var env primary of Some v \<Rightarrow> Some v | None \<Rightarrow> gateway_env_var env legacy)"

definition gateway_config_new :: "string \<Rightarrow> string \<Rightarrow> string + notification_gateway_config" where
  "gateway_config_new base_url bearer_token =
     and_then (ensure (trim base_url \<noteq> []) ''HarborGate base URL cannot be empty'') (\<lambda>_.
     and_then (ensure (trim bearer_token \<noteq> []) ''HarborGate bearer token cannot be empty'') (\<lambda>_.
       Ok \<lparr>gw_base_url = trim base_url, gw_bearer_token = trim bearer_token\<rparr>))"

definition gateway_config_from_env :: "(string \<Rightarrow> string option) \<Rightarrow> string + string \<Rightarrow> string + notification_gateway_config" where
  "gateway_config_from_env env sender_token =
     (let base_url = unwrap_or (env_var_with_legacy_alias env IM_GATEWAY_BASE_URL_ENV LEGACY_IM_GATEWAY_BASE_URL_ENV)
          DEFAULT_LOCAL_IM_GATEWAY_BASE_URL in
      and_then sender_token (gateway_config_new base_url))"

definition delivery_service_new :: "(string \<Rightarrow> string option) \<Rightarrow> string + string \<Rightarrow> string + notification_gateway_config" where
  "delivery_service_new env sender_token =
     (case gateway_config_from_env env sender_token of
        Inl e \<Rightarrow> Err (''notification delivery configuration error: '' @ e) | Inr c \<Rightarrow> Ok c)"

section \<open>Delivery\<close>

definition notification_endpoint :: "string \<Rightarrow> string" where
  "notification_endpoint base_url =
     (let trimmed = rev (dropWhile (\<lambda>c. c = CHR ''/'') (rev (trim base_url))) in
      if ends_with trimmed ''/api/notifications/deliveries'' then trimmed
      else trimmed @ ''/api/notifications/deliveries'')"

text \<open>
  The HTTP client gets the endpoint, the headers and the body and acts on the world; it gives a status code with the text
  of the response, or the error of one of the two reads.
\<close>

datatype http_outcome = SendFailed string | ReadFailed string | Responded nat string

record 'w http_env =
  ht_post :: "string \<Rightarrow> (string \<times> string) list \<Rightarrow> json \<Rightarrow> 'w \<Rightarrow> http_outcome \<times> 'w"
  ht_record :: "string \<Rightarrow> string + notification_delivery_record"
  ht_envelope :: "string \<Rightarrow> string + shared_http_error_envelope"
  ht_new_id :: string

definition deliver ::
  "'w http_env \<Rightarrow> notification_gateway_config \<Rightarrow> notification_request \<Rightarrow> 'w
    \<Rightarrow> (notification_delivery_error + notification_delivery_record) \<times> 'w" where
  "deliver env config request w =
     (if nd_kind (nq_destination request) = DestLocalUi then
        (Ok \<lparr>nv_delivery_id = ''delivery_'' @ ht_new_id env, nv_notification_id = nq_notification_id request,
             nv_trace_id = nq_trace_id request, nv_ok = True, nv_status = DeliverySent, nv_platform = ''local_ui'',
             nv_provider_message_id = None, nv_retryable = False, nv_error = None\<rparr>, w)
      else case ht_post env (notification_endpoint (gw_base_url config))
          [(''Authorization'', ''Bearer '' @ gw_bearer_token config), (''X-Contract-Version'', CONTRACT_VERSION)]
          (request_json request) w of (outcome, w') \<Rightarrow>
        (case outcome of
           SendFailed e \<Rightarrow> Err (Transport (''notification delivery request failed: '' @ e))
         | ReadFailed e \<Rightarrow> Err (InvalidResponse (''failed to read notification delivery response: '' @ e))
         | Responded status body \<Rightarrow>
             if 200 \<le> status \<and> status < 300 then
               (case ht_record env body of
                  Inl e \<Rightarrow> Err (InvalidResponse (''invalid notification delivery response body: '' @ e))
                | Inr r \<Rightarrow> Ok r)
             else (case ht_envelope env body of
                  Inr v \<Rightarrow> Err (RequestRejected status v)
                | Inl e \<Rightarrow> Err (InvalidResponse (''notification delivery rejected with HTTP '' @ show_nat status
                    @ '', but body was not a shared error envelope: '' @ e))), w'))"

lemma deliver_local_ui: "nd_kind (nq_destination request) = DestLocalUi \<Longrightarrow> snd (deliver env config request w) = w"
  by (simp add: deliver_def)

lemma deliver_posts_once:
  "nd_kind (nq_destination request) \<noteq> DestLocalUi \<Longrightarrow> snd (deliver env config request w) =
     snd (ht_post env (notification_endpoint (gw_base_url config))
       [(''Authorization'', ''Bearer '' @ gw_bearer_token config), (''X-Contract-Version'', CONTRACT_VERSION)] (request_json request) w)"
  by (simp add: deliver_def split: prod.split)

end
