(* ===== verification/Vision_Events.thy ===== *)
theory Vision_Events
  imports Home_Guardian Notifications
begin

text \<open>
  Local vision events, from \<^verbatim>\<open>src/src/runtime/vision_event.rs\<close>: validation, classification of detections, the payload for
  Home Assistant, the family summary, the notification request, and the summary of a vision model. A confidence is a
  rational; \<open>to_f32\<close> is the rounding to single precision. The size of serialised JSON, SHA-256, the clock and random
  ids are arguments. Serialisation of these records cannot fail and has no error branch here.
\<close>

section \<open>Limits\<close>

definition MAX_LOCAL_VISION_EVENT_JSON_BYTES :: nat where "MAX_LOCAL_VISION_EVENT_JSON_BYTES = 256 * 1024"
definition MAX_LOCAL_VISION_TEXT_CHARS :: nat where "MAX_LOCAL_VISION_TEXT_CHARS = 2000"
definition MAX_LOCAL_VISION_MODEL_TEXT_CHARS :: nat where "MAX_LOCAL_VISION_MODEL_TEXT_CHARS = 4000"
definition MAX_LOCAL_VISION_LABELS :: nat where "MAX_LOCAL_VISION_LABELS = 32"
definition MAX_LOCAL_VISION_ARTIFACTS :: nat where "MAX_LOCAL_VISION_ARTIFACTS = 8"
definition MAX_LOCAL_VISION_METRICS_BYTES :: nat where "MAX_LOCAL_VISION_METRICS_BYTES = 64 * 1024"

record local_vision_detection =
  vd_label :: string
  vd_confidence :: rat
  vd_x1 :: rat
  vd_y1 :: rat
  vd_x2 :: rat
  vd_y2 :: rat

record local_vision_analyzer_result =
  vr_detections :: "local_vision_detection list"
  vr_labels :: "string list"
  vr_event_type :: "string option"
  vr_confidence :: "rat option"
  vr_analyzer :: "string option"
  vr_provider :: "string option"
  vr_latency_ms :: "u64 option"
  vr_command_latency_ms :: "u64 option"
  vr_preprocess_ms :: "u64 option"
  vr_inference_ms :: "u64 option"
  vr_postprocess_ms :: "u64 option"
  vr_model_sha256 :: "string option"

record local_vision_notification_intent =
  vi_notification_request :: notification_request
  vi_audit_record :: json

record local_vision_ha_mqtt_contract =
  vh_payload :: json
  vh_audit_record :: json

record family_event_summary =
  fs_event_id :: string
  fs_camera_id :: string
  fs_event_type :: string
  fs_title :: string
  fs_summary :: string
  fs_confidence :: rat
  fs_labels :: "string list"
  fs_source :: string
  fs_vlm_status :: string
  fs_created_at :: string

record local_vision_family_summary =
  vf_summary :: family_event_summary
  vf_audit_record :: json

record local_snapshot_analysis_input =
  li_camera_id :: string
  li_snapshot_path :: string
  li_analyzer :: "string option"
  li_latency_ms :: "u64 option"
  li_analyzer_result :: "local_vision_analyzer_result option"
  li_metrics :: json

text \<open>\<^verbatim>\<open>VlmSummaryExecution\<close> of \<^verbatim>\<open>runtime/model_center.rs\<close>.\<close>

record vlm_summary_execution =
  vx_available :: bool
  vx_status :: string
  vx_summary :: string
  vx_provider_key :: string
  vx_model_endpoint_id :: "string option"
  vx_text :: string
  vx_details :: json

section \<open>Sensitive material\<close>

definition sensitive_needles :: "(string \<times> string) list" where
  "sensitive_needles =
     [(''rtsp_url'', ''rtsp://''), (''ha_token'', ''ha_token''), (''ha_token'', ''home_assistant_token''),
      (''camera_credential'', ''camera_credential''), (''camera_credential'', ''rtsp_username''),
      (''camera_credential'', ''rtsp_password''), (''camera_credential'', ''password=''), (''api_key'', ''api_key''),
      (''api_key'', ''authorization: bearer''), (''api_key'', ''bearer ''), (''api_key'', ''sk-''),
      (''private_key'', ''private key''), (''upload_url'', ''x-amz-signature=''), (''upload_url'', ''presigned''),
      (''raw_image'', ''data:image''), (''raw_image'', '';base64,'')]"

definition tail_has_credentials :: "string \<Rightarrow> bool" where
  "tail_has_credentials tail =
     (case (str_find tail ''@'', str_find tail ''/'') of
        (Some a, Some slash) \<Rightarrow> a < slash | (Some _, None) \<Rightarrow> True | (None, _) \<Rightarrow> False)"

definition scheme_has_credentials :: "string \<Rightarrow> string \<Rightarrow> bool" where
  "scheme_has_credentials text scheme =
     (case str_find text scheme of None \<Rightarrow> False
      | Some index \<Rightarrow> tail_has_credentials (drop (index + length scheme) text))"

definition looks_like_url_with_credentials :: "string \<Rightarrow> bool" where
  "looks_like_url_with_credentials text = list_ex (scheme_has_credentials text) [''http://'', ''https://'', ''rtsp://'']"

definition reject_sensitive_text :: "string \<Rightarrow> string + unit" where
  "reject_sensitive_text text =
     (let lower = to_ascii_lowercase text in
      case find (\<lambda>(code, needle). str_contains lower needle) sensitive_needles of
        Some (code, needle) \<Rightarrow> Err (''local vision event contains sensitive material: '' @ code)
      | None \<Rightarrow> ensure (\<not> looks_like_url_with_credentials lower) ''local vision event contains URL credentials'')"

definition local_path_needles :: "string list" where
  "local_path_needles = [''.harborbeacon/'', ''/tmp/'', ''/var/tmp/'', ''/var/lib/'', ''/home/'', ''/run/'', ''c:/users/'']"

definition reject_local_path_text :: "string \<Rightarrow> string + unit" where
  "reject_local_path_text text =
     (let lower = replace_char (to_ascii_lowercase text) (CHR 0x5C) ''/'' in
      ensure (\<not> list_ex (str_contains lower) local_path_needles) ''local vision notification contains local path material'')"

text \<open>The two traversals of a JSON value stop at the first text that is rejected.\<close>

fun first_err :: "(string + unit) list \<Rightarrow> string + unit" where
  "first_err [] = Ok ()"
| "first_err (r # rs) = and_then r (\<lambda>_. first_err rs)"

fun reject_value :: "(string \<Rightarrow> string + unit) \<Rightarrow> json \<Rightarrow> string + unit" where
  "reject_value reject (JStr text) = reject text"
| "reject_value reject (JArr items) = first_err (map (reject_value reject) items)"
| "reject_value reject (JObj m) = first_err (map (\<lambda>kv. and_then (reject (fst kv)) (\<lambda>_. reject_value reject (snd kv))) m)"
| "reject_value reject JNull = Ok ()"
| "reject_value reject (JBool b) = Ok ()"
| "reject_value reject (JInt i) = Ok ()"
| "reject_value reject (JFloat q) = Ok ()"

definition reject_sensitive_value :: "json \<Rightarrow> string + unit" where
  "reject_sensitive_value = reject_value reject_sensitive_text"

definition reject_local_path_value :: "json \<Rightarrow> string + unit" where
  "reject_local_path_value = reject_value reject_local_path_text"

definition model_text_needles :: "string list" where
  "model_text_needles =
     [''rtsp://'', ''ha_token'', ''home_assistant_token'', ''camera_credential'', ''rtsp_username'', ''rtsp_password'',
      ''api_key'', ''authorization: bearer'', ''bearer '', ''sk-'', ''private key'', ''x-amz-signature='', ''presigned'']"

definition sanitize_model_text :: "string \<Rightarrow> string" where
  "sanitize_model_text text =
     chars_take 500 (fold (\<lambda>needle s. replace_str (to_ascii_uppercase needle) ''[redacted]'' (replace_str needle ''[redacted]'' s))
       model_text_needles text)"

section \<open>Events as JSON\<close>

definition jopt_u64 :: "u64 option \<Rightarrow> json" where
  "jopt_u64 x = (case x of None \<Rightarrow> JNull | Some n \<Rightarrow> JInt (int (unat n)))"

definition jstrs :: "string list \<Rightarrow> json" where
  "jstrs xs = JArr (map JStr xs)"

definition snapshot_json :: "snapshot_artifact \<Rightarrow> json" where
  "snapshot_json a = jobj [(''artifact_id'', jopt_str (sa_artifact_id a)), (''path'', jopt_str (sa_path a)),
     (''mime_type'', jopt_str (sa_mime_type a)), (''byte_size'', jopt_u64 (sa_byte_size a)),
     (''sha256'', jopt_str (sa_sha256 a)), (''source'', jopt_str (sa_source a))]"

definition event_artifact_json :: "local_vision_event_artifact \<Rightarrow> json" where
  "event_artifact_json a = jobj [(''artifact_id'', jopt_str (vy_artifact_id a)), (''role'', JStr (vy_role a)),
     (''mime_type'', jopt_str (vy_mime_type a)), (''byte_size'', jopt_u64 (vy_byte_size a)),
     (''sha256'', jopt_str (vy_sha256 a)), (''source'', jopt_str (vy_source a))]"

definition vlm_json :: "local_vision_event_vlm_summary \<Rightarrow> json" where
  "vlm_json v = jobj ([(''status'', JStr (vm_status v)), (''summary'', JStr (vm_summary v)), (''tags'', jstrs (vm_tags v)),
     (''labels'', jstrs (vm_labels v)), (''derived_text'', JStr (vm_derived_text v)),
     (''artifacts'', JArr (map event_artifact_json (vm_artifacts v))), (''ingest_metadata'', vm_ingest_metadata v),
     (''vlm_metrics'', vm_vlm_metrics v)] @ (case vm_error v of None \<Rightarrow> [] | Some e \<Rightarrow> [(''error'', JStr e)]))"

definition event_json :: "local_vision_event \<Rightarrow> json" where
  "event_json e = jobj ([(''event_id'', JStr (ve_event_id e)), (''camera_id'', JStr (ve_camera_id e)),
     (''event_type'', JStr (ve_event_type e)), (''confidence'', JFloat (ve_confidence e)), (''labels'', jstrs (ve_labels e)),
     (''summary'', JStr (ve_summary e)), (''snapshot_artifact'', snapshot_json (ve_snapshot_artifact e)),
     (''started_at'', JStr (ve_started_at e)), (''analyzer'', JStr (ve_analyzer e)),
     (''latency_ms'', JInt (int (unat (ve_latency_ms e)))), (''metrics'', ve_metrics e)]
     @ (case ve_vlm e of None \<Rightarrow> [] | Some v \<Rightarrow> [(''vlm'', vlm_json v)]))"

definition family_summary_json :: "family_event_summary \<Rightarrow> json" where
  "family_summary_json s = jobj [(''event_id'', JStr (fs_event_id s)), (''camera_id'', JStr (fs_camera_id s)),
     (''event_type'', JStr (fs_event_type s)), (''title'', JStr (fs_title s)), (''summary'', JStr (fs_summary s)),
     (''confidence'', JFloat (fs_confidence s)), (''labels'', jstrs (fs_labels s)), (''source'', JStr (fs_source s)),
     (''vlm_status'', JStr (fs_vlm_status s)), (''created_at'', JStr (fs_created_at s))]"

section \<open>Validation\<close>

definition validate_text_len :: "string \<Rightarrow> string \<Rightarrow> nat \<Rightarrow> string + unit" where
  "validate_text_len name value max_chars =
     ensure (chars_count value \<le> max_chars) (''local vision event '' @ name @ '' exceeds '' @ show_nat max_chars @ '' chars'')"

definition validate_string_vec_len :: "string \<Rightarrow> string list \<Rightarrow> nat \<Rightarrow> nat \<Rightarrow> string + unit" where
  "validate_string_vec_len name values max_items max_chars =
     and_then (ensure (length values \<le> max_items) (''local vision event '' @ name @ '' exceeds '' @ show_nat max_items @ '' entries''))
       (\<lambda>_. first_err (map (\<lambda>v. validate_text_len name v max_chars) values))"

text \<open>\<open>event_bytes\<close> and \<open>json_bytes\<close> are the lengths of the serialised event and of a serialised value.\<close>

record size_env =
  sz_event_bytes :: "local_vision_event \<Rightarrow> nat"
  sz_json_bytes :: "json \<Rightarrow> nat"

definition exceeds_bytes :: "string \<Rightarrow> string \<Rightarrow> nat \<Rightarrow> nat \<Rightarrow> string + unit" where
  "exceeds_bytes what verb n limit = ensure (n \<le> limit) (''local vision event '' @ what @ verb @ show_nat limit @ '' bytes'')"

definition validate_vlm_size :: "size_env \<Rightarrow> local_vision_event_vlm_summary \<Rightarrow> string + unit" where
  "validate_vlm_size env v = first_err
     [validate_text_len ''vlm.status'' (vm_status v) 128,
      validate_text_len ''vlm.summary'' (vm_summary v) MAX_LOCAL_VISION_MODEL_TEXT_CHARS,
      validate_text_len ''vlm.derived_text'' (vm_derived_text v) MAX_LOCAL_VISION_MODEL_TEXT_CHARS,
      (case vm_error v of None \<Rightarrow> Ok () | Some e \<Rightarrow> validate_text_len ''vlm.error'' e MAX_LOCAL_VISION_TEXT_CHARS),
      validate_string_vec_len ''vlm.tags'' (vm_tags v) MAX_LOCAL_VISION_LABELS 128,
      validate_string_vec_len ''vlm.labels'' (vm_labels v) MAX_LOCAL_VISION_LABELS 128,
      ensure (length (vm_artifacts v) \<le> MAX_LOCAL_VISION_ARTIFACTS)
        (''local vision event VLM artifacts exceed '' @ show_nat MAX_LOCAL_VISION_ARTIFACTS @ '' entries''),
      exceeds_bytes ''VLM ingest metadata'' '' exceeds '' (sz_json_bytes env (vm_ingest_metadata v)) MAX_LOCAL_VISION_METRICS_BYTES,
      exceeds_bytes ''VLM metrics'' '' exceed '' (sz_json_bytes env (vm_vlm_metrics v)) MAX_LOCAL_VISION_METRICS_BYTES]"

definition validate_local_vision_event_size :: "size_env \<Rightarrow> local_vision_event \<Rightarrow> string + unit" where
  "validate_local_vision_event_size env e = first_err
     [exceeds_bytes ''JSON'' '' exceeds '' (sz_event_bytes env e) MAX_LOCAL_VISION_EVENT_JSON_BYTES,
      validate_text_len ''summary'' (ve_summary e) MAX_LOCAL_VISION_TEXT_CHARS,
      validate_text_len ''event_type'' (ve_event_type e) 128,
      validate_text_len ''camera_id'' (ve_camera_id e) 128,
      validate_text_len ''analyzer'' (ve_analyzer e) 256,
      validate_string_vec_len ''labels'' (ve_labels e) MAX_LOCAL_VISION_LABELS 128,
      exceeds_bytes ''metrics'' '' exceed '' (sz_json_bytes env (ve_metrics e)) MAX_LOCAL_VISION_METRICS_BYTES,
      (case ve_vlm e of None \<Rightarrow> Ok () | Some v \<Rightarrow> validate_vlm_size env v)]"

definition validate_local_vision_event :: "size_env \<Rightarrow> local_vision_event \<Rightarrow> string + unit" where
  "validate_local_vision_event env e = first_err
     [ensure (\<not> blank (ve_event_id e)) ''local vision event requires event_id'',
      ensure (\<not> blank (ve_camera_id e)) ''local vision event requires camera_id'',
      ensure (\<not> blank (ve_event_type e)) ''local vision event requires event_type'',
      ensure (0 \<le> ve_confidence e \<and> ve_confidence e \<le> 1) ''local vision event confidence must be between 0 and 1'',
      validate_local_vision_event_size env e,
      reject_sensitive_value (event_json e),
      reject_local_path_value (event_json e)]"

section \<open>Texts of an event\<close>

definition local_vision_automation_summary :: "local_vision_event \<Rightarrow> string" where
  "local_vision_automation_summary e =
     (case ve_vlm e of
        Some v \<Rightarrow>
          if vm_status v = ''active'' \<and> \<not> blank (vm_summary v) then sanitize_model_text (trim (vm_summary v))
          else if \<not> blank (vm_derived_text v) then sanitize_model_text (trim (vm_derived_text v))
          else sanitize_model_text (trim (ve_summary e))
      | None \<Rightarrow> sanitize_model_text (trim (ve_summary e)))"

definition local_vision_vlm_status :: "local_vision_event \<Rightarrow> string" where
  "local_vision_vlm_status e =
     (case ve_vlm e of None \<Rightarrow> ''not_sampled''
      | Some v \<Rightarrow> if blank (vm_status v) then ''degraded'' else trim (vm_status v))"

definition vlm_status_or_not_sampled :: "local_vision_event \<Rightarrow> string" where
  "vlm_status_or_not_sampled e = (case ve_vlm e of None \<Rightarrow> ''not_sampled'' | Some v \<Rightarrow> vm_status v)"

section \<open>The payload for Home Assistant\<close>

definition build_ha_mqtt_payload :: "local_vision_event \<Rightarrow> json" where
  "build_ha_mqtt_payload e =
     jobj [(''event_id'', JStr (ve_event_id e)), (''camera_id'', JStr (ve_camera_id e)), (''event_type'', JStr (ve_event_type e)),
       (''confidence'', JFloat (ve_confidence e)), (''labels'', jstrs (ve_labels e)),
       (''summary'', JStr (local_vision_automation_summary e)), (''started_at'', JStr (ve_started_at e)),
       (''latency_ms'', JInt (int (unat (ve_latency_ms e)))), (''analyzer'', JStr (ve_analyzer e)),
       (''vlm_status'', JStr (local_vision_vlm_status e))]"

definition ha_mqtt_required :: "string list" where
  "ha_mqtt_required = [''event_id'', ''camera_id'', ''event_type'', ''confidence'', ''labels'', ''summary'', ''started_at'',
     ''analyzer'', ''latency_ms'', ''vlm_status'']"

definition ha_mqtt_event_types :: "string list" where
  "ha_mqtt_event_types = [''person_detected'', ''pet_detected'', ''vehicle_detected'', ''motion_like_scene'']"

definition validate_ha_mqtt_payload :: "json \<Rightarrow> string + unit" where
  "validate_ha_mqtt_payload payload =
     (case as_object payload of
        None \<Rightarrow> Err ''HA/MQTT local vision payload must be a JSON object''
      | Some m \<Rightarrow> first_err
          (map (\<lambda>k. ensure (hm_contains_key m k) (''HA/MQTT local vision payload missing '' @ k)) ha_mqtt_required
           @ map (\<lambda>kv. ensure (fst kv \<in> set ha_mqtt_required)
               (''HA/MQTT local vision payload contains non-contract field '' @ fst kv)) m
           @ [ensure (case str_field payload ''event_type'' of None \<Rightarrow> False | Some t \<Rightarrow> t \<in> set ha_mqtt_event_types)
                ''HA/MQTT local vision payload has unsupported event_type'',
              reject_sensitive_value payload, reject_local_path_value payload]))"

definition build_local_vision_ha_mqtt_audit :: "stored_local_vision_event \<Rightarrow> json \<Rightarrow> json" where
  "build_local_vision_ha_mqtt_audit stored payload =
     jobj [(''audit_kind'', JStr ''local_vision_event.ha_mqtt_payload_built''), (''event_id'', JStr (ve_event_id (vs_event stored))),
       (''camera_id'', JStr (ve_camera_id (vs_event stored))), (''event_type'', JStr (ve_event_type (vs_event stored))),
       (''classification'', JStr ''p1_ha_mqtt_event_contract''), (''metadata_only'', JBool True), (''secret_scan'', JStr ''clean''),
       (''raw_image_included'', JBool False), (''local_paths_included'', JBool False),
       (''payload_fields'', JArr (map (\<lambda>kv. JStr (fst kv)) (unwrap_or (as_object payload) [])))]"

definition build_local_vision_ha_mqtt_contract ::
  "size_env \<Rightarrow> stored_local_vision_event \<Rightarrow> string + local_vision_ha_mqtt_contract" where
  "build_local_vision_ha_mqtt_contract env stored =
     and_then (validate_local_vision_event env (vs_event stored)) (\<lambda>_.
       let payload = build_ha_mqtt_payload (vs_event stored) in
       and_then (validate_ha_mqtt_payload payload) (\<lambda>_.
         Ok \<lparr>vh_payload = payload, vh_audit_record = build_local_vision_ha_mqtt_audit stored payload\<rparr>))"

section \<open>Detections\<close>

definition push_unique_label :: "string list \<Rightarrow> string \<Rightarrow> string list" where
  "push_unique_label labels label =
     (let n = to_ascii_lowercase (trim label) in if n \<noteq> [] \<and> n \<notin> set labels then labels @ [n] else labels)"

definition detection_label :: "local_vision_detection \<Rightarrow> string" where
  "detection_label d = to_ascii_lowercase (trim (vd_label d))"

text \<open>The loop: the labels, the largest confidence, and whether a person, a pet or a vehicle was seen.\<close>

fun classify_loop ::
  "local_vision_detection list \<Rightarrow> string list \<Rightarrow> rat \<Rightarrow> bool \<Rightarrow> bool \<Rightarrow> bool \<Rightarrow> string list \<times> rat \<times> bool \<times> bool \<times> bool" where
  "classify_loop [] labels conf person pet vehicle = (labels, conf, person, pet, vehicle)"
| "classify_loop (d # ds) labels conf person pet vehicle =
     (let label = detection_label d in
      if label = [] then classify_loop ds labels conf person pet vehicle
      else classify_loop ds (push_unique_label labels label) (max conf (vd_confidence d)) (person \<or> label = ''person'')
        (pet \<or> label \<in> {''cat'', ''dog''}) (vehicle \<or> label \<in> {''car'', ''bus'', ''truck'', ''motorcycle'', ''bicycle''}))"

definition classify_local_vision_event :: "local_vision_detection list \<Rightarrow> string \<times> rat \<times> string list" where
  "classify_local_vision_event detections =
     (case classify_loop detections [] 0 False False False of (labels, conf, person, pet, vehicle) \<Rightarrow>
        (if person then ''person_detected'' else if pet then ''pet_detected'' else if vehicle then ''vehicle_detected''
         else ''motion_like_scene'', conf, labels))"

section \<open>Messages\<close>

text \<open>Texts of the source, as UTF-8 bytes.\<close>

definition zh_title_person :: string where
  "zh_title_person =
     [CHR 0x48, CHR 0x61, CHR 0x72, CHR 0x62, CHR 0x6F, CHR 0x72, CHR 0x4E, CHR 0x61, CHR 0x76, CHR 0x69, CHR 0x20,
      CHR 0xE4, CHR 0xBA, CHR 0xBA, CHR 0xE5, CHR 0x91, CHR 0x98, CHR 0xE4, CHR 0xBA, CHR 0x8B, CHR 0xE4, CHR 0xBB,
      CHR 0xB6]"

definition zh_title_pet :: string where
  "zh_title_pet =
     [CHR 0x48, CHR 0x61, CHR 0x72, CHR 0x62, CHR 0x6F, CHR 0x72, CHR 0x4E, CHR 0x61, CHR 0x76, CHR 0x69, CHR 0x20,
      CHR 0xE5, CHR 0xAE, CHR 0xA0, CHR 0xE7, CHR 0x89, CHR 0xA9, CHR 0xE4, CHR 0xBA, CHR 0x8B, CHR 0xE4, CHR 0xBB,
      CHR 0xB6]"

definition zh_title_vehicle :: string where
  "zh_title_vehicle =
     [CHR 0x48, CHR 0x61, CHR 0x72, CHR 0x62, CHR 0x6F, CHR 0x72, CHR 0x4E, CHR 0x61, CHR 0x76, CHR 0x69, CHR 0x20,
      CHR 0xE8, CHR 0xBD, CHR 0xA6, CHR 0xE8, CHR 0xBE, CHR 0x86, CHR 0xE4, CHR 0xBA, CHR 0x8B, CHR 0xE4, CHR 0xBB,
      CHR 0xB6]"

definition zh_title_home :: string where
  "zh_title_home =
     [CHR 0x48, CHR 0x61, CHR 0x72, CHR 0x62, CHR 0x6F, CHR 0x72, CHR 0x4E, CHR 0x61, CHR 0x76, CHR 0x69, CHR 0x20,
      CHR 0xE5, CHR 0xAE, CHR 0xB6, CHR 0xE5, CHR 0xBA, CHR 0xAD, CHR 0xE4, CHR 0xBA, CHR 0x8B, CHR 0xE4, CHR 0xBB,
      CHR 0xB6]"

definition zh_family_person :: string where
  "zh_family_person =
     [CHR 0xE6, CHR 0x9C, CHR 0x89, CHR 0xE4, CHR 0xBA, CHR 0xBA, CHR 0xE6, CHR 0xB4, CHR 0xBB, CHR 0xE5, CHR 0x8A,
      CHR 0xA8]"

definition zh_family_pet :: string where
  "zh_family_pet =
     [CHR 0xE5, CHR 0xAE, CHR 0xA0, CHR 0xE7, CHR 0x89, CHR 0xA9, CHR 0xE6, CHR 0xB4, CHR 0xBB, CHR 0xE5, CHR 0x8A,
      CHR 0xA8]"

definition zh_family_vehicle :: string where
  "zh_family_vehicle =
     [CHR 0xE8, CHR 0xBD, CHR 0xA6, CHR 0xE8, CHR 0xBE, CHR 0x86, CHR 0xE6, CHR 0xB4, CHR 0xBB, CHR 0xE5, CHR 0x8A,
      CHR 0xA8]"

definition zh_family_motion :: string where
  "zh_family_motion =
     [CHR 0xE7, CHR 0x94, CHR 0xBB, CHR 0xE9, CHR 0x9D, CHR 0xA2, CHR 0xE5, CHR 0x8F, CHR 0x98, CHR 0xE5, CHR 0x8C,
      CHR 0x96]"

definition zh_family_event :: string where
  "zh_family_event =
     [CHR 0xE5, CHR 0xAE, CHR 0xB6, CHR 0xE5, CHR 0xBA, CHR 0xAD, CHR 0xE4, CHR 0xBA, CHR 0x8B, CHR 0xE4, CHR 0xBB,
      CHR 0xB6]"

definition zh_label_person :: string where
  "zh_label_person =
     [CHR 0xE6, CHR 0xA3, CHR 0x80, CHR 0xE6, CHR 0xB5, CHR 0x8B, CHR 0xE5, CHR 0x88, CHR 0xB0, CHR 0xE4, CHR 0xBA,
      CHR 0xBA, CHR 0xE5, CHR 0x91, CHR 0x98, CHR 0xE6, CHR 0xB4, CHR 0xBB, CHR 0xE5, CHR 0x8A, CHR 0xA8]"

definition zh_label_pet :: string where
  "zh_label_pet =
     [CHR 0xE6, CHR 0xA3, CHR 0x80, CHR 0xE6, CHR 0xB5, CHR 0x8B, CHR 0xE5, CHR 0x88, CHR 0xB0, CHR 0xE5, CHR 0xAE,
      CHR 0xA0, CHR 0xE7, CHR 0x89, CHR 0xA9, CHR 0xE6, CHR 0xB4, CHR 0xBB, CHR 0xE5, CHR 0x8A, CHR 0xA8]"

definition zh_label_vehicle :: string where
  "zh_label_vehicle =
     [CHR 0xE6, CHR 0xA3, CHR 0x80, CHR 0xE6, CHR 0xB5, CHR 0x8B, CHR 0xE5, CHR 0x88, CHR 0xB0, CHR 0xE8, CHR 0xBD,
      CHR 0xA6, CHR 0xE8, CHR 0xBE, CHR 0x86, CHR 0xE7, CHR 0x9B, CHR 0xB8, CHR 0xE5, CHR 0x85, CHR 0xB3, CHR 0xE7,
      CHR 0x9B, CHR 0xAE, CHR 0xE6, CHR 0xA0, CHR 0x87]"

definition zh_label_motion :: string where
  "zh_label_motion =
     [CHR 0xE6, CHR 0xA3, CHR 0x80, CHR 0xE6, CHR 0xB5, CHR 0x8B, CHR 0xE5, CHR 0x88, CHR 0xB0, CHR 0xE7, CHR 0x94,
      CHR 0xBB, CHR 0xE9, CHR 0x9D, CHR 0xA2, CHR 0xE5, CHR 0x8F, CHR 0x98, CHR 0xE5, CHR 0x8C, CHR 0x96]"

definition zh_label_event :: string where
  "zh_label_event =
     [CHR 0xE6, CHR 0xA3, CHR 0x80, CHR 0xE6, CHR 0xB5, CHR 0x8B, CHR 0xE5, CHR 0x88, CHR 0xB0, CHR 0xE6, CHR 0x9C,
      CHR 0xAC, CHR 0xE5, CHR 0x9C, CHR 0xB0, CHR 0xE8, CHR 0xA7, CHR 0x86, CHR 0xE8, CHR 0xA7, CHR 0x89, CHR 0xE4,
      CHR 0xBA, CHR 0x8B, CHR 0xE4, CHR 0xBB, CHR 0xB6]"

definition zh_colon :: string where
  "zh_colon =
     [CHR 0xEF, CHR 0xBC, CHR 0x9A]"

definition zh_camera :: string where
  "zh_camera =
     [CHR 0xEF, CHR 0xBC, CHR 0x88, CHR 0xE6, CHR 0x91, CHR 0x84, CHR 0xE5, CHR 0x83, CHR 0x8F, CHR 0xE5, CHR 0xA4,
      CHR 0xB4, CHR 0x20]"

definition zh_confidence :: string where
  "zh_confidence =
     [CHR 0xEF, CHR 0xBC, CHR 0x8C, CHR 0xE7, CHR 0xBD, CHR 0xAE, CHR 0xE4, CHR 0xBF, CHR 0xA1, CHR 0xE5, CHR 0xBA,
      CHR 0xA6, CHR 0x20]"

definition zh_latency :: string where
  "zh_latency =
     [CHR 0x25, CHR 0xEF, CHR 0xBC, CHR 0x8C, CHR 0xE5, CHR 0xBB, CHR 0xB6, CHR 0xE8, CHR 0xBF, CHR 0x9F, CHR 0x20]"

definition zh_ms_end :: string where
  "zh_ms_end =
     [CHR 0x6D, CHR 0x73, CHR 0xEF, CHR 0xBC, CHR 0x89, CHR 0xE3, CHR 0x80, CHR 0x82]"

definition zh_detected_labels :: string where
  "zh_detected_labels =
     [CHR 0x20, CHR 0xE6, CHR 0xA3, CHR 0x80, CHR 0xE6, CHR 0xB5, CHR 0x8B, CHR 0xE6, CHR 0xA0, CHR 0x87, CHR 0xE7,
      CHR 0xAD, CHR 0xBE, CHR 0xEF, CHR 0xBC, CHR 0x9A]"

definition zh_full_stop :: string where
  "zh_full_stop =
     [CHR 0xE3, CHR 0x80, CHR 0x82]"

definition zh_k3_person :: string where
  "zh_k3_person =
     [CHR 0x4B, CHR 0x33, CHR 0x20, CHR 0xE6, CHR 0x9C, CHR 0xAC, CHR 0xE5, CHR 0x9C, CHR 0xB0, CHR 0xE8, CHR 0xA7,
      CHR 0x86, CHR 0xE8, CHR 0xA7, CHR 0x89, CHR 0xE6, CHR 0xA3, CHR 0x80, CHR 0xE6, CHR 0xB5, CHR 0x8B, CHR 0xE5,
      CHR 0x88, CHR 0xB0, CHR 0xE4, CHR 0xBA, CHR 0xBA, CHR 0xE5, CHR 0x91, CHR 0x98, CHR 0xE6, CHR 0xB4, CHR 0xBB,
      CHR 0xE5, CHR 0x8A, CHR 0xA8, CHR 0xE3, CHR 0x80, CHR 0x82]"

definition zh_k3_pet :: string where
  "zh_k3_pet =
     [CHR 0x4B, CHR 0x33, CHR 0x20, CHR 0xE6, CHR 0x9C, CHR 0xAC, CHR 0xE5, CHR 0x9C, CHR 0xB0, CHR 0xE8, CHR 0xA7,
      CHR 0x86, CHR 0xE8, CHR 0xA7, CHR 0x89, CHR 0xE6, CHR 0xA3, CHR 0x80, CHR 0xE6, CHR 0xB5, CHR 0x8B, CHR 0xE5,
      CHR 0x88, CHR 0xB0, CHR 0xE5, CHR 0xAE, CHR 0xA0, CHR 0xE7, CHR 0x89, CHR 0xA9, CHR 0xE6, CHR 0xB4, CHR 0xBB,
      CHR 0xE5, CHR 0x8A, CHR 0xA8, CHR 0xE3, CHR 0x80, CHR 0x82]"

definition zh_k3_vehicle :: string where
  "zh_k3_vehicle =
     [CHR 0x4B, CHR 0x33, CHR 0x20, CHR 0xE6, CHR 0x9C, CHR 0xAC, CHR 0xE5, CHR 0x9C, CHR 0xB0, CHR 0xE8, CHR 0xA7,
      CHR 0x86, CHR 0xE8, CHR 0xA7, CHR 0x89, CHR 0xE6, CHR 0xA3, CHR 0x80, CHR 0xE6, CHR 0xB5, CHR 0x8B, CHR 0xE5,
      CHR 0x88, CHR 0xB0, CHR 0xE8, CHR 0xBD, CHR 0xA6, CHR 0xE8, CHR 0xBE, CHR 0x86, CHR 0xE7, CHR 0x9B, CHR 0xB8,
      CHR 0xE5, CHR 0x85, CHR 0xB3, CHR 0xE7, CHR 0x9B, CHR 0xAE, CHR 0xE6, CHR 0xA0, CHR 0x87, CHR 0xE3, CHR 0x80,
      CHR 0x82]"

definition zh_k3_unclassified :: string where
  "zh_k3_unclassified =
     [CHR 0x4B, CHR 0x33, CHR 0x20, CHR 0xE5, CHR 0xB7, CHR 0xB2, CHR 0xE6, CHR 0x8A, CHR 0x93, CHR 0xE6, CHR 0x8B,
      CHR 0x8D, CHR 0xEF, CHR 0xBC, CHR 0x8C, CHR 0xE4, CHR 0xBD, CHR 0x86, CHR 0xE5, CHR 0x9B, CHR 0xBE, CHR 0xE7,
      CHR 0x89, CHR 0x87, CHR 0xE6, CHR 0xA0, CHR 0xBC, CHR 0xE5, CHR 0xBC, CHR 0x8F, CHR 0xE6, CHR 0x97, CHR 0xA0,
      CHR 0xE6, CHR 0xB3, CHR 0x95, CHR 0xE8, CHR 0xAF, CHR 0x86, CHR 0xE5, CHR 0x88, CHR 0xAB, CHR 0xE3, CHR 0x80,
      CHR 0x82]"

definition zh_k3_fallback :: string where
  "zh_k3_fallback =
     [CHR 0x4B, CHR 0x33, CHR 0x20, CHR 0xE5, CHR 0xB7, CHR 0xB2, CHR 0xE5, CHR 0xAE, CHR 0x8C, CHR 0xE6, CHR 0x88,
      CHR 0x90, CHR 0xE6, CHR 0x9C, CHR 0xAC, CHR 0xE5, CHR 0x9C, CHR 0xB0, CHR 0xE6, CHR 0x8A, CHR 0x93, CHR 0xE6,
      CHR 0x8B, CHR 0x8D, CHR 0xE5, CHR 0xB9, CHR 0xB6, CHR 0xE7, CHR 0x94, CHR 0x9F, CHR 0xE6, CHR 0x88, CHR 0x90,
      CHR 0xE8, CHR 0xBD, CHR 0xBB, CHR 0xE9, CHR 0x87, CHR 0x8F, CHR 0xE8, CHR 0xA7, CHR 0x86, CHR 0xE8, CHR 0xA7,
      CHR 0x89, CHR 0xE4, CHR 0xBA, CHR 0x8B, CHR 0xE4, CHR 0xBB, CHR 0xB6, CHR 0xEF, CHR 0xBC, CHR 0x9B, CHR 0xE5,
      CHR 0xAE, CHR 0x98, CHR 0xE6, CHR 0x96, CHR 0xB9, CHR 0xE8, CHR 0xA7, CHR 0x86, CHR 0xE8, CHR 0xA7, CHR 0x89,
      CHR 0xE6, CHR 0xA3, CHR 0x80, CHR 0xE6, CHR 0xB5, CHR 0x8B, CHR 0x20, CHR 0x72, CHR 0x75, CHR 0x6E, CHR 0x74,
      CHR 0x69, CHR 0x6D, CHR 0x65, CHR 0x20, CHR 0xE5, CHR 0xB0, CHR 0x9A, CHR 0xE6, CHR 0x9C, CHR 0xAA, CHR 0xE5,
      CHR 0xBD, CHR 0xA2, CHR 0xE6, CHR 0x88, CHR 0x90, CHR 0xE5, CHR 0x8F, CHR 0xAF, CHR 0xE7, CHR 0x94, CHR 0xA8,
      CHR 0x20, CHR 0x72, CHR 0x65, CHR 0x63, CHR 0x69, CHR 0x70, CHR 0x65, CHR 0xEF, CHR 0xBC, CHR 0x8C, CHR 0xE5,
      CHR 0xBD, CHR 0x93, CHR 0xE5, CHR 0x89, CHR 0x8D, CHR 0xE4, CHR 0xB8, CHR 0xBA, CHR 0x20, CHR 0x43, CHR 0x50,
      CHR 0x55, CHR 0x20, CHR 0x66, CHR 0x61, CHR 0x6C, CHR 0x6C, CHR 0x62, CHR 0x61, CHR 0x63, CHR 0x6B, CHR 0x20,
      CHR 0xE4, CHR 0xBA, CHR 0x8B, CHR 0xE4, CHR 0xBB, CHR 0xB6, CHR 0xE3, CHR 0x80, CHR 0x82]"

definition zh_k3_event :: string where
  "zh_k3_event =
     [CHR 0x4B, CHR 0x33, CHR 0x20, CHR 0xE5, CHR 0xB7, CHR 0xB2, CHR 0xE5, CHR 0xAE, CHR 0x8C, CHR 0xE6, CHR 0x88,
      CHR 0x90, CHR 0xE6, CHR 0x9C, CHR 0xAC, CHR 0xE5, CHR 0x9C, CHR 0xB0, CHR 0xE6, CHR 0x8A, CHR 0x93, CHR 0xE6,
      CHR 0x8B, CHR 0x8D, CHR 0xE5, CHR 0xB9, CHR 0xB6, CHR 0xE7, CHR 0x94, CHR 0x9F, CHR 0xE6, CHR 0x88, CHR 0x90,
      CHR 0xE6, CHR 0x9C, CHR 0xAC, CHR 0xE5, CHR 0x9C, CHR 0xB0, CHR 0xE8, CHR 0xA7, CHR 0x86, CHR 0xE8, CHR 0xA7,
      CHR 0x89, CHR 0xE4, CHR 0xBA, CHR 0x8B, CHR 0xE4, CHR 0xBB, CHR 0xB6, CHR 0xE3, CHR 0x80, CHR 0x82]"

section \<open>Family summaries\<close>

definition local_vision_family_title :: "string \<Rightarrow> string" where
  "local_vision_family_title event_type =
     (if event_type = ''person_detected'' then zh_family_person else if event_type = ''pet_detected'' then zh_family_pet
      else if event_type = ''vehicle_detected'' then zh_family_vehicle
      else if event_type = ''motion_like_scene'' then zh_family_motion else zh_family_event)"

definition local_vision_family_summary_text :: "local_vision_event \<Rightarrow> string + string \<times> string" where
  "local_vision_family_summary_text e =
     (let checked = (\<lambda>source text. and_then (reject_sensitive_text text) (\<lambda>_. and_then (reject_local_path_text text) (\<lambda>_.
            Ok (source, sanitize_model_text text))))
      in case ve_vlm e of
           Some v \<Rightarrow> if vm_status v = ''active'' \<and> \<not> blank (vm_summary v) then checked ''vlm'' (trim (vm_summary v))
                     else checked ''degraded'' (trim (ve_summary e))
         | None \<Rightarrow> checked ''yolo'' (trim (ve_summary e)))"

definition validate_family_event_summary :: "family_event_summary \<Rightarrow> string + unit" where
  "validate_family_event_summary s = first_err
     [ensure (\<not> blank (fs_event_id s)) ''family event summary requires event_id'',
      ensure (\<not> blank (fs_camera_id s)) ''family event summary requires camera_id'',
      ensure (\<not> blank (fs_event_type s)) ''family event summary requires event_type'',
      ensure (\<not> blank (fs_title s)) ''family event summary requires title'',
      ensure (\<not> blank (fs_summary s)) ''family event summary requires summary'',
      ensure (0 \<le> fs_confidence s \<and> fs_confidence s \<le> 1) ''family event summary confidence must be between 0 and 1'',
      ensure (fs_source s \<in> {''yolo'', ''vlm'', ''degraded''}) ''family event summary has unsupported source'',
      reject_sensitive_value (family_summary_json s), reject_local_path_value (family_summary_json s)]"

definition build_local_vision_family_summary_audit :: "stored_local_vision_event \<Rightarrow> family_event_summary \<Rightarrow> json" where
  "build_local_vision_family_summary_audit stored s =
     jobj [(''audit_kind'', JStr ''local_vision_event.family_summary_built''), (''event_id'', JStr (ve_event_id (vs_event stored))),
       (''camera_id'', JStr (ve_camera_id (vs_event stored))), (''event_type'', JStr (ve_event_type (vs_event stored))),
       (''summary_source'', JStr (fs_source s)), (''metadata_only'', JBool True), (''secret_scan'', JStr ''clean''),
       (''raw_image_included'', JBool False), (''local_paths_included'', JBool False), (''vlm_status'', JStr (fs_vlm_status s)),
       (''classification'', JStr ''p1_family_summary_audit'')]"

definition build_local_vision_family_summary ::
  "size_env \<Rightarrow> string \<Rightarrow> stored_local_vision_event \<Rightarrow> string + local_vision_family_summary" where
  "build_local_vision_family_summary env now stored =
     (let e = vs_event stored in
      and_then (validate_local_vision_event env e) (\<lambda>_.
      and_then (local_vision_family_summary_text e) (\<lambda>(source, text).
        let s = \<lparr>fs_event_id = ve_event_id e, fs_camera_id = ve_camera_id e, fs_event_type = ve_event_type e,
              fs_title = local_vision_family_title (ve_event_type e), fs_summary = text, fs_confidence = ve_confidence e,
              fs_labels = ve_labels e, fs_source = source, fs_vlm_status = local_vision_vlm_status e, fs_created_at = now\<rparr>
        in and_then (validate_family_event_summary s) (\<lambda>_.
             Ok \<lparr>vf_summary = s, vf_audit_record = build_local_vision_family_summary_audit stored s\<rparr>))))"

section \<open>Notifications of an event\<close>

definition local_vision_notification_title :: "local_vision_event \<Rightarrow> string" where
  "local_vision_notification_title e =
     (if ve_event_type e = ''person_detected'' then zh_title_person else if ve_event_type e = ''pet_detected'' then zh_title_pet
      else if ve_event_type e = ''vehicle_detected'' then zh_title_vehicle else zh_title_home)"

definition local_vision_event_type_label :: "string \<Rightarrow> string" where
  "local_vision_event_type_label event_type =
     (if event_type = ''person_detected'' then zh_label_person else if event_type = ''pet_detected'' then zh_label_pet
      else if event_type = ''vehicle_detected'' then zh_label_vehicle
      else if event_type = ''motion_like_scene'' then zh_label_motion else zh_label_event)"

text \<open>\<^verbatim>\<open>(x * 100.0).round() as u32\<close> for a confidence clamped to the unit interval.\<close>

definition confidence_percent :: "(rat \<Rightarrow> rat) \<Rightarrow> rat \<Rightarrow> nat" where
  "confidence_percent to_f32 c = nat \<lfloor>to_f32 (max 0 (min 1 c) * 100) + 1 / 2\<rfloor>"

definition local_vision_notification_body :: "(rat \<Rightarrow> rat) \<Rightarrow> local_vision_event \<Rightarrow> string" where
  "local_vision_notification_body to_f32 e =
     local_vision_event_type_label (ve_event_type e) @ zh_colon @ local_vision_automation_summary e @ zh_camera @ ve_camera_id e
       @ zh_confidence @ show_nat (confidence_percent to_f32 (ve_confidence e)) @ zh_latency @ show_u64 (ve_latency_ms e) @ zh_ms_end"

definition local_vision_notification_metadata :: "stored_local_vision_event \<Rightarrow> json" where
  "local_vision_notification_metadata stored =
     (let e = vs_event stored in
      jobj [(''kind'', JStr ''harbornavi.local_vision_event_notification''),
        (''event'', jobj [(''event_id'', JStr (ve_event_id e)), (''camera_id'', JStr (ve_camera_id e)),
           (''event_type'', JStr (ve_event_type e)), (''confidence'', JFloat (ve_confidence e)), (''labels'', jstrs (ve_labels e)),
           (''summary'', JStr (local_vision_automation_summary e)), (''started_at'', JStr (ve_started_at e)),
           (''received_at'', JStr (vs_received_at stored)), (''analyzer'', JStr (ve_analyzer e)),
           (''latency_ms'', JInt (int (unat (ve_latency_ms e)))), (''vlm_status'', JStr (vlm_status_or_not_sampled e)),
           (''vlm_summary_present'', JBool (case ve_vlm e of None \<Rightarrow> False | Some v \<Rightarrow> \<not> blank (vm_summary v)))]),
        (''privacy'', jobj [(''text_only'', JBool True), (''attachments_included'', JBool False),
           (''raw_image_included'', JBool False), (''local_paths_included'', JBool False)])])"

definition stable_event_notification_digest :: "(string \<Rightarrow> string) \<Rightarrow> local_vision_event \<Rightarrow> string" where
  "stable_event_notification_digest hex_sha256 e =
     hex_sha256 (''harbornavi.local_vision_event.notification:'' @ trim (ve_event_id e))"

definition validate_local_vision_notification_request :: "notification_request \<Rightarrow> string + unit" where
  "validate_local_vision_notification_request q =
     (if nc_attachments (nq_content q) = [] then
        first_err [reject_sensitive_value (request_json q), reject_local_path_value (request_json q)]
      else Err ''local vision notification must be text-only and cannot include attachments'')"

record vision_env =
  vn_sizes :: size_env
  vn_to_f32 :: "rat \<Rightarrow> rat"
  vn_hex_sha256 :: "string \<Rightarrow> string"

definition local_vision_notification_draft :: "vision_env \<Rightarrow> stored_local_vision_event \<Rightarrow> string \<Rightarrow> notification_request" where
  "local_vision_notification_draft env stored route_key =
     (let e = vs_event stored; digest = stable_event_notification_digest (vn_hex_sha256 env) e in
      \<lparr>nq_notification_id = ''notif_'' @ take 24 digest, nq_trace_id = ''trace_'' @ trim (ve_event_id e),
       nq_source = \<lparr>ns_service = ''harborbeacon'', ns_module = ''local_vision_event'',
         ns_event_type = ''harbornavi.local_vision_event''\<rparr>,
       nq_destination = \<lparr>nd_kind = DestConversation, nd_route_key = trim route_key, nd_id = [], nd_platform = [],
         nd_recipient = None\<rparr>,
       nq_content = \<lparr>nc_title = local_vision_notification_title e, nc_body = local_vision_notification_body (vn_to_f32 env) e,
         nc_payload_format = PlainText, nc_structured_payload = local_vision_notification_metadata stored,
         nc_attachments = [], nc_delivery_hints = []\<rparr>,
       nq_delivery = \<lparr>ny_mode = ModeSend, ny_reply_to_message_id = [], ny_update_message_id = [],
         ny_idempotency_key = ''idem_'' @ take 24 digest\<rparr>,
       nq_metadata = \<lparr>nm_correlation_id = ve_event_id e\<rparr>\<rparr>)"

definition build_local_vision_notification_request ::
  "vision_env \<Rightarrow> stored_local_vision_event \<Rightarrow> string \<Rightarrow> string + notification_request" where
  "build_local_vision_notification_request env stored route_key =
     and_then (validate_local_vision_event (vn_sizes env) (vs_event stored)) (\<lambda>_.
     and_then (ensure (trim route_key \<noteq> []) ''local vision notification requires destination.route_key'') (\<lambda>_.
       let q = local_vision_notification_draft env stored route_key in
       and_then (validate_local_vision_notification_request q) (\<lambda>_. Ok q)))"

definition build_local_vision_notification_audit :: "stored_local_vision_event \<Rightarrow> notification_request \<Rightarrow> json" where
  "build_local_vision_notification_audit stored q =
     jobj [(''audit_kind'', JStr ''local_vision_event.notification_intent_built''),
       (''event_id'', JStr (ve_event_id (vs_event stored))), (''camera_id'', JStr (ve_camera_id (vs_event stored))),
       (''event_type'', JStr (ve_event_type (vs_event stored))), (''notification_id'', JStr (nq_notification_id q)),
       (''trace_id'', JStr (nq_trace_id q)), (''delivery_mode'', JStr ''send''),
       (''destination_route_bound'', JBool (\<not> blank (nd_route_key (nq_destination q)))), (''text_only'', JBool True),
       (''attachments_included'', JBool False), (''raw_image_included'', JBool False), (''local_paths_included'', JBool False),
       (''vlm_status'', JStr (vlm_status_or_not_sampled (vs_event stored))),
       (''classification'', JStr ''p1_support_notification_smoke'')]"

definition build_local_vision_notification_intent ::
  "vision_env \<Rightarrow> stored_local_vision_event \<Rightarrow> string \<Rightarrow> string + local_vision_notification_intent" where
  "build_local_vision_notification_intent env stored route_key =
     and_then (build_local_vision_notification_request env stored route_key) (\<lambda>q.
       Ok \<lparr>vi_notification_request = q, vi_audit_record = build_local_vision_notification_audit stored q\<rparr>)"

section \<open>Analysis of a snapshot\<close>

definition infer_image_mime_type :: "string \<Rightarrow> string" where
  "infer_image_mime_type bytes =
     (if starts_with bytes [CHR 0xFF, CHR 0xD8, CHR 0xFF] then ''image/jpeg''
      else if starts_with bytes [CHR 0x89, CHR 0x50, CHR 0x4E, CHR 0x47, CHR 0x0D, CHR 0x0A, CHR 0x1A, CHR 0x0A] then ''image/png''
      else ''application/octet-stream'')"

definition summarize_local_vision_event :: "string \<Rightarrow> local_vision_analyzer_result option \<Rightarrow> string \<Rightarrow> string" where
  "summarize_local_vision_event event_type result analyzer =
     (let detected = (case result of None \<Rightarrow> [] | Some r \<Rightarrow> filter (\<lambda>l. \<not> blank l) (vr_labels r));
          label_text = (if detected = [] then [] else zh_detected_labels @ join '', '' detected @ zh_full_stop)
      in if event_type = ''person_detected'' then zh_k3_person @ label_text
         else if event_type = ''pet_detected'' then zh_k3_pet @ label_text
         else if event_type = ''vehicle_detected'' then zh_k3_vehicle @ label_text
         else if event_type = ''snapshot_unclassified'' then zh_k3_unclassified
         else if str_contains analyzer ''official-vision-runtime-missing'' then zh_k3_fallback
         else zh_k3_event @ label_text)"

definition detection_json :: "local_vision_detection \<Rightarrow> json" where
  "detection_json d = jobj [(''label'', JStr (vd_label d)), (''confidence'', JFloat (vd_confidence d)), (''x1'', JFloat (vd_x1 d)),
     (''y1'', JFloat (vd_y1 d)), (''x2'', JFloat (vd_x2 d)), (''y2'', JFloat (vd_y2 d))]"

definition snapshot_labels :: "bool \<Rightarrow> string \<Rightarrow> local_vision_analyzer_result option \<Rightarrow> string list" where
  "snapshot_labels valid_image analyzer result =
     (let base = [''snapshot'', ''local_vision_event''] @ (if valid_image then [''image_frame''] else [])
            @ (if str_contains analyzer ''official-vision-runtime-missing'' then [''official_vision_runtime_missing''] else [])
      in case result of None \<Rightarrow> base
         | Some r \<Rightarrow>
             let l1 = fold (\<lambda>l ls. push_unique_label ls l) (vr_labels r) base;
                 l2 = fold (\<lambda>d ls. push_unique_label ls (vd_label d)) (vr_detections r) l1
             in (case vr_provider r of None \<Rightarrow> l2 | Some p \<Rightarrow> push_unique_label l2 p))"

definition snapshot_metrics :: "json \<Rightarrow> nat \<Rightarrow> bool \<Rightarrow> string \<Rightarrow> local_vision_analyzer_result option \<Rightarrow> json" where
  "snapshot_metrics metrics byte_count valid_image mime result =
     JObj (fold (\<lambda>kv. bm_insert (fst kv) (snd kv))
       ([(''byte_size'', JInt (int byte_count)), (''valid_image'', JBool valid_image), (''image_mime_type'', JStr mime)]
        @ (case result of None \<Rightarrow> [] | Some r \<Rightarrow>
             [(''detections'', JArr (map detection_json (vr_detections r))), (''detected_labels'', jstrs (vr_labels r)),
              (''detector_provider'', jopt_str (vr_provider r)), (''detector_latency_ms'', jopt_u64 (vr_latency_ms r)),
              (''detector_command_latency_ms'', jopt_u64 (vr_command_latency_ms r)),
              (''detector_preprocess_ms'', jopt_u64 (vr_preprocess_ms r)), (''detector_inference_ms'', jopt_u64 (vr_inference_ms r)),
              (''detector_postprocess_ms'', jopt_u64 (vr_postprocess_ms r)), (''model_sha256'', jopt_str (vr_model_sha256 r))]))
       (unwrap_or (as_object metrics) []))"

text \<open>\<open>read\<close> is the reading of the file; \<open>ids\<close> are two random ids and \<open>now\<close> the time.\<close>

definition analyze_snapshot_file ::
  "vision_env \<Rightarrow> (string \<Rightarrow> string + string) \<Rightarrow> string \<times> string \<Rightarrow> string \<Rightarrow> local_snapshot_analysis_input
    \<Rightarrow> string + local_vision_event" where
  "analyze_snapshot_file env read ids now input =
     (case read (li_snapshot_path input) of
        Inl e \<Rightarrow> Err (''failed to read snapshot '' @ li_snapshot_path input @ '': '' @ e)
      | Inr bytes \<Rightarrow>
          let mime = infer_image_mime_type bytes; valid_image = (mime \<noteq> ''application/octet-stream'');
              result = li_analyzer_result input;
              analyzer = unwrap_or (or_else (Option.bind result vr_analyzer) (li_analyzer input)) ''cpu-snapshot-fallback'';
              event_type = unwrap_or (Option.bind result vr_event_type)
                (if valid_image then ''motion_like_scene'' else ''snapshot_unclassified'');
              confidence = unwrap_or (Option.bind result vr_confidence) (vn_to_f32 env (if valid_image then 55 / 100 else 10 / 100))
          in Ok \<lparr>ve_event_id = ''lve_'' @ fst ids, ve_camera_id = li_camera_id input, ve_event_type = event_type,
               ve_confidence = max 0 (min 1 confidence), ve_labels = snapshot_labels valid_image analyzer result,
               ve_summary = summarize_local_vision_event event_type result analyzer,
               ve_snapshot_artifact = \<lparr>sa_artifact_id = Some (''artifact_'' @ snd ids), sa_path = None, sa_mime_type = Some mime,
                 sa_byte_size = Some (of_nat (length bytes)), sa_sha256 = Some (vn_hex_sha256 env bytes),
                 sa_source = Some ''k3-local-snapshot''\<rparr>,
               ve_started_at = now, ve_analyzer = analyzer, ve_latency_ms = unwrap_or (li_latency_ms input) 0,
               ve_metrics = snapshot_metrics (li_metrics input) (length bytes) valid_image mime result, ve_vlm = None\<rparr>)"

section \<open>The summary of a vision model\<close>

definition insert_members :: "(string \<times> json) list \<Rightarrow> json \<Rightarrow> json" where
  "insert_members kvs v = (case v of JObj m \<Rightarrow> JObj (fold (\<lambda>kv. bm_insert (fst kv) (snd kv)) kvs m) | _ \<Rightarrow> v)"

definition attach_vlm_summary_to_event ::
  "local_vision_event \<Rightarrow> vlm_summary_execution \<Rightarrow> u64 \<Rightarrow> json \<Rightarrow> local_vision_event" where
  "attach_vlm_summary_to_event e v elapsed_ms extra =
     (let metrics = insert_members [(''elapsed_ms'', JInt (int (unat elapsed_ms))), (''provider_key'', JStr (vx_provider_key v)),
            (''model_endpoint_id'', jopt_str (vx_model_endpoint_id v)), (''available'', JBool (vx_available v))]
            (if as_object extra = None then JObj [] else extra);
          text = trim (vx_text v);
          available = (vx_available v \<and> text \<noteq> []);
          status = (if available then ''active'' else if blank (vx_status v) then ''degraded'' else trim (vx_status v));
          summary = (if available then sanitize_model_text text else ve_summary e);
          tags = push_unique_label ([''vlm'', ''sampled_event_frame''] @ (if available then [] else [''vlm_degraded''])) (ve_event_type e);
          labels = push_unique_label (push_unique_label (ve_labels e) ''vlm_summary'')
            (if available then ''visual_semantics'' else ''vlm_degraded'');
          sa = ve_snapshot_artifact e;
          artifact = \<lparr>vy_artifact_id = sa_artifact_id sa, vy_role = ''sampled_event_frame'', vy_mime_type = sa_mime_type sa,
            vy_byte_size = sa_byte_size sa, vy_sha256 = sa_sha256 sa, vy_source = sa_source sa\<rparr>;
          vlm = \<lparr>vm_status = status, vm_summary = summary, vm_tags = tags, vm_labels = labels,
            vm_derived_text = (if available then summary else []), vm_artifacts = [artifact],
            vm_ingest_metadata = jobj [(''source'', JStr ''local_on_demand_vlm''), (''trigger'', JStr ''sampled_event_frame''),
              (''event_id'', JStr (ve_event_id e)), (''camera_id'', JStr (ve_camera_id e)), (''frame_path_redacted'', JBool True),
              (''raw_response_stored'', JBool False)],
            vm_vlm_metrics = metrics, vm_error = (if available then None else Some (sanitize_model_text (vx_summary v)))\<rparr>
      in e\<lparr>ve_summary := summary, ve_labels := labels,
           ve_metrics := insert_members [(''vlm_status'', JStr status), (''vlm_ms'', JInt (int (unat elapsed_ms)))] (ve_metrics e),
           ve_vlm := Some vlm\<rparr>)"

definition build_audit_record :: "local_vision_event \<Rightarrow> json" where
  "build_audit_record e =
     jobj ([(''audit_kind'', JStr ''local_vision_event.ingested''), (''event_id'', JStr (ve_event_id e)),
       (''camera_id'', JStr (ve_camera_id e)), (''event_type'', JStr (ve_event_type e)), (''confidence'', JFloat (ve_confidence e)),
       (''labels'', jstrs (ve_labels e)), (''analyzer'', JStr (ve_analyzer e)), (''latency_ms'', JInt (int (unat (ve_latency_ms e)))),
       (''snapshot_artifact_id'', jopt_str (sa_artifact_id (ve_snapshot_artifact e))),
       (''snapshot_sha256'', jopt_str (sa_sha256 (ve_snapshot_artifact e)))]
       @ (case ve_vlm e of None \<Rightarrow> [] | Some v \<Rightarrow>
            [(''vlm'', jobj [(''status'', JStr (vm_status v)), (''summary'', JStr (vm_summary v)),
               (''model_endpoint_id'', unwrap_or (json_get (vm_vlm_metrics v) ''model_endpoint_id'') JNull),
               (''provider_key'', unwrap_or (json_get (vm_vlm_metrics v) ''provider_key'') JNull),
               (''elapsed_ms'', unwrap_or (json_get (vm_vlm_metrics v) ''elapsed_ms'') JNull),
               (''frame_path_redacted'', JBool True)])]))"

section \<open>Times\<close>

definition parse_epoch_ms :: "string \<Rightarrow> u64 option" where
  "parse_epoch_ms value =
     (let t = trim value;
          digits = trim (if starts_with t ''epoch_ms:'' then drop (length ''epoch_ms:'') t else t)
      in map_option (\<lambda>n. if (9999999999 :: nat) < n then of_nat n else saturating_mul (of_nat n) 1000) (parse_unsigned digits))"

end

