(* ===== verification/Vision_Laws.thy ===== *)
theory Vision_Laws
  imports Vision_Events
begin

text \<open>
  Properties of vision events: which texts leave the hub in a payload or a notification, when the payload for Home Assistant
  is built, and what the classification of detections depends on.
\<close>

section \<open>Clean texts\<close>

definition clean :: "string \<Rightarrow> bool" where
  "clean t \<longleftrightarrow> reject_sensitive_text t = Ok () \<and> reject_local_path_text t = Ok ()"

text \<open>All texts of a JSON value, keys included.\<close>

fun json_texts :: "json \<Rightarrow> string set" where
  "json_texts (JStr t) = {t}"
| "json_texts (JArr items) = \<Union> (set (map json_texts items))"
| "json_texts (JObj m) = \<Union> (set (map (\<lambda>kv. insert (fst kv) (json_texts (snd kv))) m))"
| "json_texts JNull = {}"
| "json_texts (JBool b) = {}"
| "json_texts (JInt i) = {}"
| "json_texts (JFloat q) = {}"

lemma ensure_ok [simp]: "ensure b msg = Ok () \<longleftrightarrow> b"
  by (simp add: ensure_def)

lemma and_then_ok [simp]: "and_then r f = Ok x \<longleftrightarrow> (\<exists>y. r = Ok y \<and> f y = Ok x)"
  by (auto simp: and_then_def split: sum.splits)

lemma first_err_ok [simp]: "first_err rs = Ok () \<longleftrightarrow> (\<forall>r\<in>set rs. r = Ok ())"
  by (induction rs) auto

lemma reject_value_ok: "reject_value reject v = Ok () \<longleftrightarrow> (\<forall>t\<in>json_texts v. reject t = Ok ())"
  by (induction reject v rule: reject_value.induct) fastforce+

lemma reject_both_ok:
  "reject_sensitive_value v = Ok () \<and> reject_local_path_value v = Ok () \<longleftrightarrow> (\<forall>t\<in>json_texts v. clean t)"
  by (auto simp: reject_sensitive_value_def reject_local_path_value_def reject_value_ok clean_def)

lemma sensitive_ok_iff:
  "reject_sensitive_text t = Ok () \<longleftrightarrow>
     (\<forall>n\<in>snd ` set sensitive_needles. \<not> str_contains (to_ascii_lowercase t) n) \<and>
     \<not> looks_like_url_with_credentials (to_ascii_lowercase t)"
proof (cases "find (\<lambda>(code, needle). str_contains (to_ascii_lowercase t) needle) sensitive_needles")
  case None
  then have "\<forall>n\<in>snd ` set sensitive_needles. \<not> str_contains (to_ascii_lowercase t) n"
    by (auto simp: find_None_iff)
  then show ?thesis using None by (simp add: reject_sensitive_text_def Let_def)
next
  case (Some cn)
  then have "cn \<in> set sensitive_needles" "str_contains (to_ascii_lowercase t) (snd cn)"
    by (auto simp: find_Some_iff in_set_conv_nth)
  moreover have "reject_sensitive_text t \<noteq> Ok ()" using Some by (cases cn) (simp add: reject_sensitive_text_def Let_def)
  ultimately show ?thesis by blast
qed

lemma local_path_ok_iff:
  "reject_local_path_text t = Ok () \<longleftrightarrow>
     (\<forall>n\<in>set local_path_needles. \<not> str_contains (replace_char (to_ascii_lowercase t) (CHR 0x5C) ''/'') n)"
  by (simp add: reject_local_path_text_def Let_def list_ex_iff)

section \<open>Parts of clean texts\<close>

lemma lowercase_append [simp]: "to_ascii_lowercase (s @ t) = to_ascii_lowercase s @ to_ascii_lowercase t"
  by (simp add: to_ascii_lowercase_def)

lemma replace_char_append: "replace_char (s @ t) c r = replace_char s c r @ replace_char t c r"
  by (simp add: replace_char_def)

lemma str_contains_append: "str_contains t n \<Longrightarrow> str_contains (s @ t @ u) n"
  by (auto simp: str_contains_iff sublist_appendI intro: sublist_order.order.trans)

lemma str_find_char: "str_find t [c] = Some i \<Longrightarrow> i < length t \<and> t ! i = c"
  by (induction t arbitrary: i) (auto split: if_splits)

lemma tail_credentials_prefix:
  assumes pre: "prefix t' t" and "tail_has_credentials t'"
  shows "tail_has_credentials t"
proof -
  obtain a where a: "str_find t' ''@'' = Some a"
    and m: "str_find t' ''/'' = None \<or> (\<exists>sl. str_find t' ''/'' = Some sl \<and> a < sl)"
    using assms(2) by (auto simp: tail_has_credentials_def split: option.splits)
  have "a < sl" if sl: "str_find t ''/'' = Some sl" for sl
  proof (rule ccontr)
    assume n: "\<not> a < sl"
    then have "sl < length t'" using str_find_length [OF a] by simp
    moreover have "t ! sl = CHR ''/''" using str_find_char [OF sl] by simp
    ultimately have "CHR ''/'' \<in> set t'" using pre by (metis nth_mem nth_append prefixE)
    then have "str_contains t' ''/''" by (auto simp: str_contains_iff sublist_def in_set_conv_decomp)
    then obtain sl' where "str_find t' ''/'' = Some sl'" "a < sl'" using m by (auto simp: str_find_None)
    then show False using str_find_prefix [OF pre] sl n by force
  qed
  then show ?thesis using str_find_prefix [OF pre a] by (auto simp: tail_has_credentials_def split: option.splits)
qed

lemma url_credentials_prefix:
  assumes "prefix s' s" "looks_like_url_with_credentials s'"
  shows "looks_like_url_with_credentials s"
proof -
  have "scheme_has_credentials s scheme" if h: "scheme_has_credentials s' scheme" for scheme
  proof -
    obtain i where i: "str_find s' scheme = Some i" "tail_has_credentials (drop (i + length scheme) s')"
      using h by (auto simp: scheme_has_credentials_def split: option.splits)
    have "prefix (drop (i + length scheme) s') (drop (i + length scheme) s)"
      using assms(1) str_find_length [OF i(1)] by (auto simp: prefix_def)
    then show ?thesis
      using i(2) str_find_prefix [OF assms(1) i(1)] tail_credentials_prefix by (simp add: scheme_has_credentials_def)
  qed
  then show ?thesis using assms(2) by (auto simp: looks_like_url_with_credentials_def)
qed

lemma clean_prefix:
  assumes "clean t" "prefix t' t"
  shows "clean t'"
proof -
  obtain u where u: "t = t' @ u" using assms(2) by (auto simp: prefix_def)
  have "str_contains (to_ascii_lowercase t') n \<Longrightarrow> str_contains (to_ascii_lowercase t) n" for n
    using str_contains_append [of "to_ascii_lowercase t'" n "[]"] by (simp add: u)
  moreover have "str_contains (replace_char (to_ascii_lowercase t') (CHR 0x5C) ''/'') n \<Longrightarrow>
      str_contains (replace_char (to_ascii_lowercase t) (CHR 0x5C) ''/'') n" for n
    using str_contains_append [of "replace_char (to_ascii_lowercase t') (CHR 0x5C) ''/''" n "[]"] by (simp add: u replace_char_append)
  moreover have "prefix (to_ascii_lowercase t') (to_ascii_lowercase t)" by (simp add: u)
  ultimately show ?thesis
    using assms(1) url_credentials_prefix unfolding clean_def sensitive_ok_iff local_path_ok_iff by blast
qed


text \<open>White space has no letters, so that a URL scheme cannot begin inside it.\<close>

definition no_letter :: "char \<Rightarrow> bool" where
  "no_letter c \<longleftrightarrow> (of_char c :: nat) \<le> 32 \<or> 128 \<le> (of_char c :: nat)"

lemma ws_no_letter: "ws1 a \<Longrightarrow> no_letter a" "ws2 a b \<Longrightarrow> no_letter a \<and> no_letter b"
  "ws3 a b c \<Longrightarrow> no_letter a \<and> no_letter b \<and> no_letter c"
  using ascii_no_ws by (auto simp: no_letter_def ws1_def less_eq_char_def not_less [symmetric])

lemma strip_ws_no_letter: "strip_ws s = Some t \<Longrightarrow> \<exists>w. s = w @ t \<and> (\<forall>c\<in>set w. no_letter c)"
proof (induction s rule: strip_ws.induct)
  case (1 a b c s)
  consider "ws1 a" "t = b # c # s" | "\<not> ws1 a" "ws2 a b" "t = c # s" | "\<not> ws1 a" "\<not> ws2 a b" "ws3 a b c" "t = s"
    using 1 by (auto split: if_splits)
  then show ?case
  proof cases
    case 1
    then show ?thesis using ws_no_letter(1) by (intro exI [where x = "[a]"]) auto
  next
    case 2
    then show ?thesis using ws_no_letter(2) by (intro exI [where x = "[a, b]"]) auto
  next
    case 3
    then show ?thesis using ws_no_letter(3) by (intro exI [where x = "[a, b, c]"]) auto
  qed
next
  case (2 a b)
  then show ?case using ws_no_letter(1,2) by (auto split: if_splits intro: exI [where x = "[a]"])
next
  case (3 a)
  then show ?case using ws_no_letter(1) by (auto split: if_splits)
qed simp

lemma trim_start_no_letter: "\<exists>w. s = w @ trim_start s \<and> (\<forall>c\<in>set w. no_letter c)"
proof (induction s rule: trim_start.induct)
  case (1 s)
  show ?case
  proof (cases "strip_ws s")
    case None
    then show ?thesis by (simp add: trim_start.simps)
  next
    case (Some t)
    obtain w where w: "s = w @ t" "\<forall>c\<in>set w. no_letter c" using strip_ws_no_letter [OF Some] by blast
    obtain v where v: "t = v @ trim_start t" "\<forall>c\<in>set v. no_letter c" using 1 [OF Some] by blast
    have "trim_start s = trim_start t" using Some by (simp add: trim_start.simps)
    then have "s = (w @ v) @ trim_start s" using w(1) v(1) by simp
    then show ?thesis using w(2) v(2) by (metis Un_iff set_append)
  qed
qed

lemma str_find_skip:
  assumes "\<forall>c\<in>set w. c \<noteq> x"
  shows "str_find (w @ t) (x # n) = map_option (\<lambda>i. length w + i) (str_find t (x # n))"
  using assms by (induction w; cases "str_find t (x # n)") auto

lemma scheme_credentials_skip:
  assumes "\<forall>c\<in>set w. no_letter c" "\<not> no_letter x"
  shows "scheme_has_credentials (w @ t) (x # n) = scheme_has_credentials t (x # n)"
proof -
  have "str_find (w @ t) (x # n) = map_option (\<lambda>i. length w + i) (str_find t (x # n))"
    using assms by (intro str_find_skip) auto
  then show ?thesis by (simp add: scheme_has_credentials_def add.assoc split: option.split)
qed

lemma url_credentials_trim: "looks_like_url_with_credentials (trim s) \<Longrightarrow> looks_like_url_with_credentials s"
proof -
  assume l: "looks_like_url_with_credentials (trim s)"
  have "prefix (trim s) (trim_start s)" using trim_end_prefix by (simp add: trim_def)
  then have "looks_like_url_with_credentials (trim_start s)" using l url_credentials_prefix by blast
  moreover obtain w where w: "s = w @ trim_start s" "\<forall>c\<in>set w. no_letter c" using trim_start_no_letter by blast
  moreover have "looks_like_url_with_credentials (w @ t) = looks_like_url_with_credentials t" for t
    using scheme_credentials_skip [OF w(2)] by (simp add: looks_like_url_with_credentials_def no_letter_def)
  ultimately show ?thesis by metis
qed

lemma trim_sublist: "sublist (trim s) s"
proof -
  have "sublist (trim s) (trim_start s)" using trim_end_prefix [of "trim_start s"] by (auto simp: trim_def intro: prefix_imp_sublist)
  moreover have "sublist (trim_start s) s" using trim_start_suffix by (auto intro: suffix_imp_sublist)
  ultimately show ?thesis by (rule sublist_order.order.trans)
qed

lemma sublist_replace_char: "sublist s' s \<Longrightarrow> sublist (replace_char s' c r) (replace_char s c r)"
  unfolding sublist_def by (metis replace_char_append)

lemma clean_trim: "clean t \<Longrightarrow> clean (trim t)"
proof -
  assume c: "clean t"
  note s1 = sublist_lowercase [OF trim_sublist [of t]]
  note s2 = sublist_replace_char [OF s1, of "CHR 0x5C" "''/''"]
  show ?thesis
    using c url_credentials_trim [of "to_ascii_lowercase t"] str_contains_sublist [OF _ s1] str_contains_sublist [OF _ s2]
    unfolding clean_def sensitive_ok_iff local_path_ok_iff trim_to_lowercase(2) by blast
qed

text \<open>What the model's text is cleaned of is not in a clean text.\<close>

lemma model_needles_sensitive: "set model_text_needles \<subseteq> snd ` set sensitive_needles"
  by (simp add: model_text_needles_def sensitive_needles_def)

lemma model_needles_lower: "n \<in> set model_text_needles \<Longrightarrow> to_ascii_lowercase n = n"
proof -
  have "list_all (\<lambda>n. to_ascii_lowercase n = n) model_text_needles" by code_simp
  then show "n \<in> set model_text_needles \<Longrightarrow> to_ascii_lowercase n = n" by (simp add: list_all_iff)
qed

lemma sanitize_clean:
  assumes "clean t"
  shows "sanitize_model_text t = chars_take 500 t" "clean (sanitize_model_text t)"
proof -
  have absent: "\<not> str_contains t n" "\<not> str_contains t (to_ascii_uppercase n)" if "n \<in> set model_text_needles" for n
    using that assms model_needles_sensitive model_needles_lower [OF that] str_contains_lowercase [of t n]
      str_contains_lowercase [of t "to_ascii_uppercase n"] unfolding clean_def sensitive_ok_iff by auto
  have "fold (\<lambda>n s. replace_str (to_ascii_uppercase n) ''[redacted]'' (replace_str n ''[redacted]'' s)) ns t = t"
    if "set ns \<subseteq> set model_text_needles" for ns
    using that by (induction ns) (simp_all add: replace_str_absent absent)
  then show s: "sanitize_model_text t = chars_take 500 t" by (simp add: sanitize_model_text_def)
  show "clean (sanitize_model_text t)" using clean_prefix [OF assms chars_take_prefix] s by simp
qed


section \<open>The payload for Home Assistant\<close>

lemma jobj_members:
  assumes "distinct (map fst kvs)"
  obtains m where "jobj kvs = JObj m" "set m = set kvs"
proof -
  have ins: "k \<notin> fst ` set m \<Longrightarrow> set (bm_insert k v m) = insert (k, v) (set m)" for k v and m :: "(string \<times> json) list"
    by (induction k v m rule: bm_insert.induct) auto
  have "distinct (map fst kvs) \<Longrightarrow> fst ` set kvs \<inter> fst ` set m = {} \<Longrightarrow>
      set (fold (\<lambda>kv. bm_insert (fst kv) (snd kv)) kvs m) = set kvs \<union> set m" for m
  proof (induction kvs arbitrary: m)
    case (Cons kv kvs)
    then have "set (bm_insert (fst kv) (snd kv) m) = insert kv (set m)" by (simp add: ins)
    then show ?case using Cons by auto
  qed simp
  then show thesis using that assms by (simp add: jobj_def)
qed

lemma jobj_texts:
  "distinct (map fst kvs) \<Longrightarrow> json_texts (jobj kvs) = (\<Union>kv\<in>set kvs. insert (fst kv) (json_texts (snd kv)))"
  by (rule jobj_members [of kvs]) auto

lemma jstrs_texts [simp]: "json_texts (jstrs xs) = set xs"
  by (auto simp: jstrs_def)

lemma jopt_str_texts [simp]: "json_texts (jopt_str x) = set_option x"
  by (cases x) auto

lemma jopt_u64_texts [simp]: "json_texts (jopt_u64 x) = {}"
  by (simp add: jopt_u64_def split: option.split)

text \<open>The texts of an event that a payload is made of.\<close>

lemma event_texts:
  "{ve_event_id e, ve_camera_id e, ve_event_type e, ve_summary e, ve_started_at e, ve_analyzer e} \<union> set (ve_labels e)
     \<subseteq> json_texts (event_json e)"
  "ve_vlm e = Some v \<Longrightarrow> {vm_status v, vm_summary v, vm_derived_text v} \<subseteq> json_texts (event_json e)"
proof -
  show "{ve_event_id e, ve_camera_id e, ve_event_type e, ve_summary e, ve_started_at e, ve_analyzer e} \<union> set (ve_labels e)
     \<subseteq> json_texts (event_json e)"
    by (cases "ve_vlm e") (auto simp: event_json_def jobj_texts)
  have "{vm_status v, vm_summary v, vm_derived_text v} \<subseteq> json_texts (vlm_json v)"
    by (cases "vm_error v") (simp_all add: vlm_json_def jobj_texts)
  then show "ve_vlm e = Some v \<Longrightarrow> {vm_status v, vm_summary v, vm_derived_text v} \<subseteq> json_texts (event_json e)"
    by (auto simp: event_json_def jobj_texts)
qed

lemma valid_event_clean: "validate_local_vision_event env e = Ok () \<Longrightarrow> t \<in> json_texts (event_json e) \<Longrightarrow> clean t"
  using reject_both_ok [of "event_json e"] by (auto simp: validate_local_vision_event_def)

lemma contract_words_clean: "list_all clean (''not_sampled'' # ''degraded'' # ha_mqtt_required)"
  by code_simp

lemma valid_event_texts_clean:
  assumes "validate_local_vision_event env e = Ok ()"
  shows "clean (local_vision_automation_summary e)" "clean (local_vision_vlm_status e)"
proof -
  note c = valid_event_clean [OF assms]
  have "clean (ve_summary e)" "ve_vlm e = Some v \<Longrightarrow> clean (vm_status v) \<and> clean (vm_summary v) \<and> clean (vm_derived_text v)" for v
    using event_texts c by auto
  then show "clean (local_vision_automation_summary e)" "clean (local_vision_vlm_status e)"
    using contract_words_clean
    by (auto simp: local_vision_automation_summary_def local_vision_vlm_status_def intro!: sanitize_clean clean_trim split: option.split)
qed

text \<open>
  C17. The Home Assistant payload of an event is built exactly when the event is valid and of one of the four supported types,
  and then it has exactly the contract's fields and no text in it, key or value, is sensitive or names a local path;
  a valid event never fails the check of its own payload for another reason.
\<close>

theorem ha_mqtt_contract_iff:
  "build_local_vision_ha_mqtt_contract env stored =
     and_then (validate_local_vision_event env (vs_event stored)) (\<lambda>_.
       if ve_event_type (vs_event stored) \<in> set ha_mqtt_event_types
       then Ok \<lparr>vh_payload = build_ha_mqtt_payload (vs_event stored),
              vh_audit_record = build_local_vision_ha_mqtt_audit stored (build_ha_mqtt_payload (vs_event stored))\<rparr>
       else Err ''HA/MQTT local vision payload has unsupported event_type'') \<and>
   (case build_local_vision_ha_mqtt_contract env stored of Inl _ \<Rightarrow> True
    | Inr c \<Rightarrow> json_texts (vh_payload c) \<subseteq> {t. clean t} \<and> (\<exists>m. vh_payload c = JObj m \<and> fst ` set m = set ha_mqtt_required))"
proof (cases "validate_local_vision_event env (vs_event stored)")
  case (Inl e)
  then show ?thesis by (simp add: build_local_vision_ha_mqtt_contract_def and_then_def)
next
  case (Inr u)
  let ?e = "vs_event stored" and ?p = "build_ha_mqtt_payload (vs_event stored)"
  have v: "validate_local_vision_event env ?e = Ok ()" using Inr by simp
  let ?kvs = "[(''event_id'', JStr (ve_event_id ?e)), (''camera_id'', JStr (ve_camera_id ?e)),
       (''event_type'', JStr (ve_event_type ?e)),
       (''confidence'', JFloat (ve_confidence ?e)), (''labels'', jstrs (ve_labels ?e)),
       (''summary'', JStr (local_vision_automation_summary ?e)), (''started_at'', JStr (ve_started_at ?e)),
       (''latency_ms'', JInt (int (unat (ve_latency_ms ?e)))), (''analyzer'', JStr (ve_analyzer ?e)),
       (''vlm_status'', JStr (local_vision_vlm_status ?e))]"
  have d: "distinct (map fst ?kvs)" by simp
  obtain m where m: "?p = JObj m" "set m = set ?kvs"
    using jobj_members [OF d] unfolding build_ha_mqtt_payload_def by metis
  have keys: "fst ` set m = set ha_mqtt_required" by (auto simp: m(2) ha_mqtt_required_def)
  have texts: "json_texts ?p \<subseteq> {t. clean t}"
    using event_texts(1) [of ?e] valid_event_clean [OF v] valid_event_texts_clean [OF v] contract_words_clean
    by (auto simp: m ha_mqtt_required_def)
  have ty: "str_field ?p ''event_type'' = Some (ve_event_type ?e)"
    by (simp add: build_ha_mqtt_payload_def jobj_def str_field_def hm_get_def)
  have "validate_ha_mqtt_payload ?p = ensure (ve_event_type ?e \<in> set ha_mqtt_event_types)
      ''HA/MQTT local vision payload has unsupported event_type''"
  proof -
    have f: "first_err (map (\<lambda>k. ensure (P k) (f k)) xs @ rs) = first_err rs" if "\<forall>k\<in>set xs. P k"
      for P f rs and xs :: "'a list"
      using that by (induction xs) (simp_all add: and_then_def ensure_def)
    have "reject_sensitive_value ?p = Ok ()" "reject_local_path_value ?p = Ok ()" using reject_both_ok [of ?p] texts by auto
    moreover have "\<forall>k\<in>set ha_mqtt_required. hm_contains_key m k" "\<forall>kv\<in>set m. fst kv \<in> set ha_mqtt_required"
      using keys by (auto simp: hm_contains_key_def)
    ultimately have "validate_ha_mqtt_payload ?p = first_err
        [ensure (ve_event_type ?e \<in> set ha_mqtt_event_types) ''HA/MQTT local vision payload has unsupported event_type'', Ok (), Ok ()]"
      unfolding validate_ha_mqtt_payload_def using ty by (simp only: m(1) as_object.simps option.case f)
    then show ?thesis by (simp add: and_then_def ensure_def)
  qed
  then show ?thesis
    using v m(1) keys texts by (simp add: build_local_vision_ha_mqtt_contract_def and_then_def ensure_def Let_def)
qed

section \<open>Notifications\<close>

text \<open>A notification request that is built for an event carries only clean texts, and nothing but text.\<close>

lemma notification_request_clean:
  assumes "build_local_vision_notification_request env stored route_key = Ok q"
  shows "json_texts (request_json q) \<subseteq> {t. clean t}" "nc_attachments (nq_content q) = []" "nd_kind (nq_destination q) = DestConversation"
    "nd_route_key (nq_destination q) = trim route_key" "\<not> blank route_key"
    "validate_local_vision_event (vn_sizes env) (vs_event stored) = Ok ()"
proof -
  have v: "validate_local_vision_event (vn_sizes env) (vs_event stored) = Ok ()" "trim route_key \<noteq> []"
    "q = local_vision_notification_draft env stored route_key" "validate_local_vision_notification_request q = Ok ()"
    using assms by (auto simp: build_local_vision_notification_request_def Let_def)
  then show "validate_local_vision_event (vn_sizes env) (vs_event stored) = Ok ()" "\<not> blank route_key"
    "nc_attachments (nq_content q) = []" "nd_kind (nq_destination q) = DestConversation" "nd_route_key (nq_destination q) = trim route_key"
    by (simp_all add: local_vision_notification_draft_def Let_def blank_def)
  then show "json_texts (request_json q) \<subseteq> {t. clean t}"
    using v(4) reject_both_ok [of "request_json q"] by (auto simp: validate_local_vision_notification_request_def)
qed

text \<open>Only the first URL of each scheme is inspected: credentials in a second one pass.\<close>

lemma second_url_credentials_pass: "clean ''see http://host/ or http://user:pw@host/''"
  by code_simp

section \<open>Detections\<close>

definition some_label :: "string list \<Rightarrow> local_vision_detection list \<Rightarrow> bool" where
  "some_label names detections \<longleftrightarrow> list_ex (\<lambda>d. detection_label d \<in> set names) detections"

lemma push_unique_label_set: "set (push_unique_label labels l) = set labels \<union> ({to_ascii_lowercase (trim l)} - {[]})"
  by (auto simp: push_unique_label_def Let_def)

lemma push_unique_label_distinct: "distinct labels \<Longrightarrow> distinct (push_unique_label labels l)"
  by (simp add: push_unique_label_def Let_def)

lemma detection_label_fixed: "to_ascii_lowercase (trim (detection_label d)) = detection_label d"
  by (simp add: detection_label_def trim_to_lowercase)

lemma classify_flags:
  "snd (snd (classify_loop ds labels conf person pet vehicle)) =
     (person \<or> some_label [''person''] ds, pet \<or> some_label [''cat'', ''dog''] ds,
      vehicle \<or> some_label [''car'', ''bus'', ''truck'', ''motorcycle'', ''bicycle''] ds)"
proof (induction ds arbitrary: labels conf person pet vehicle)
  case (Cons d ds)
  show ?case by (cases "detection_label d = []") (simp_all add: Cons.IH some_label_def Let_def disj_assoc)
qed (simp add: some_label_def)

lemma classify_labels:
  "set (fst (classify_loop ds labels conf person pet vehicle)) = set labels \<union> (detection_label ` set ds - {[]})"
  "distinct labels \<Longrightarrow> distinct (fst (classify_loop ds labels conf person pet vehicle))"
proof (induction ds arbitrary: labels conf person pet vehicle)
  case (Cons d ds)
  {
    case 1
    show ?case
      by (cases "detection_label d = []") (auto simp: Cons.IH(1) Let_def push_unique_label_set detection_label_fixed)
  next
    case 2
    then show ?case by (simp add: Cons.IH(2) Let_def push_unique_label_distinct)
  }
qed simp_all

lemma classify_confidence:
  "fst (snd (classify_loop ds labels conf person pet vehicle)) =
     fold max (map vd_confidence (filter (\<lambda>d. detection_label d \<noteq> []) ds)) conf"
proof (induction ds arbitrary: labels conf person pet vehicle)
  case (Cons d ds)
  show ?case by (cases "detection_label d = []") (simp_all add: Cons.IH Let_def max.commute)
qed simp

text \<open>
  The classification of detections does not depend on their order: the event is a person's when some label is a person,
  else a pet's when some label is a cat or a dog, else a vehicle's, else motion; the confidence is the largest one of the
  named detections, or zero; and the labels are the different lower-case names.
\<close>

theorem classification_is_order_independent:
  "case classify_local_vision_event detections of (event_type, confidence, labels) \<Rightarrow>
     event_type =
       (if some_label [''person''] detections then ''person_detected''
        else if some_label [''cat'', ''dog''] detections then ''pet_detected''
        else if some_label [''car'', ''bus'', ''truck'', ''motorcycle'', ''bicycle''] detections then ''vehicle_detected''
        else ''motion_like_scene'') \<and>
     confidence = Max (insert 0 (vd_confidence ` {d \<in> set detections. detection_label d \<noteq> []})) \<and>
     distinct labels \<and> set labels = detection_label ` set detections - {[]}"
proof -
  obtain labels conf person pet vehicle where
    c: "classify_loop detections [] 0 False False False = (labels, conf, person, pet, vehicle)" by (metis surj_pair)
  note f = classify_flags [of detections "[]" 0 False False False, unfolded c, simplified]
    and l = classify_labels [where ds = detections and labels = "[]" and conf = 0 and person = False and pet = False and vehicle = False,
      unfolded c, simplified]
    and k = classify_confidence [of detections "[]" 0 False False False, unfolded c, simplified]
  have "fold max xs a = Max (insert a (set xs))" for xs and a :: rat
    using Max.set_eq_fold [of a xs] by simp
  then have "conf = Max (insert 0 (vd_confidence ` {d \<in> set detections. detection_label d \<noteq> []}))"
    by (simp add: k)
  then show ?thesis using f l by (auto simp: classify_local_vision_event_def c)
qed

end
