(* ===== verification/Guardian_Notify.thy ===== *)
theory Guardian_Notify
  imports Guardian_Laws Vision_Laws
begin

text \<open>
  The notification action of Home Guardian, from \<^verbatim>\<open>src/src/bin/agent_hub_admin_api.rs\<close>: the choice of the default
  target, the responses, and the delivery through the gateway. It composes the vision events, the notifications and the
  guardian's evaluation. The world of an action is the record of the last attempt with the world outside the hub.
\<close>

section \<open>Targets and responses\<close>

record notification_target_record =
  nt_target_id :: string
  nt_label :: string
  nt_route_key :: string
  nt_platform_hint :: string
  nt_is_default :: bool

definition default_notification_target_record :: "notification_target_record list \<Rightarrow> notification_target_record option" where
  "default_notification_target_record targets =
     or_else (find (\<lambda>t. nt_is_default t \<and> \<not> blank (nt_route_key t)) targets) (find (\<lambda>t. \<not> blank (nt_route_key t)) targets)"

record local_vision_event_notification_response =
  ln_event_id :: string
  ln_status :: string
  ln_notification_id :: "string option"
  ln_delivery_id :: "string option"
  ln_target_label :: "string option"
  ln_platform_hint :: "string option"
  ln_message :: string
  ln_delivery_record :: "json option"
  ln_audit_record :: json

text \<open>The environment: loading of the targets, the gateway, the redaction of messages and the clock.\<close>

record 'w notify_env =
  ne_targets :: "string + notification_target_record list"
  ne_vision :: vision_env
  ne_getenv :: "string \<Rightarrow> string option"
  ne_sender_token :: "string + string"
  ne_http :: "'w http_env"
  ne_redact :: "string \<Rightarrow> string"
  ne_now :: string

definition notification_response ::
  "'w notify_env \<Rightarrow> stored_local_vision_event \<Rightarrow> notification_target_record option \<Rightarrow> string \<Rightarrow> string option \<Rightarrow> string option
    \<Rightarrow> json option \<Rightarrow> string \<Rightarrow> string \<Rightarrow> local_vision_event_notification_response" where
  "notification_response env stored target status notification_id delivery_id delivery_record message audit_kind =
     \<lparr>ln_event_id = ve_event_id (vs_event stored), ln_status = status, ln_notification_id = notification_id,
      ln_delivery_id = delivery_id, ln_target_label = map_option nt_label target,
      ln_platform_hint = Option.bind target (\<lambda>t. non_empty_opt (nt_platform_hint t)), ln_message = ne_redact env message,
      ln_delivery_record = delivery_record,
      ln_audit_record = jobj [(''audit_kind'', JStr audit_kind), (''status'', JStr status), (''metadata_only'', JBool True),
        (''secret_scan'', JStr ''clean''), (''event_id'', JStr (ve_event_id (vs_event stored))),
        (''camera_id'', JStr (ve_camera_id (vs_event stored))), (''event_type'', JStr (ve_event_type (vs_event stored))),
        (''target_bound'', JBool (target \<noteq> None)), (''text_only'', JBool True), (''attachments_included'', JBool False),
        (''raw_image_included'', JBool False), (''local_paths_included'', JBool False), (''created_at'', JStr (ne_now env))]\<rparr>"

definition blocked_response ::
  "'w notify_env \<Rightarrow> stored_local_vision_event \<Rightarrow> notification_target_record option \<Rightarrow> string \<Rightarrow> local_vision_event_notification_response" where
  "blocked_response env stored target message =
     notification_response env stored target ''blocked'' None None None message ''local_vision_event.notification_blocked''"

definition notification_delivery_record_summary :: "'w notify_env \<Rightarrow> notification_delivery_record \<Rightarrow> json" where
  "notification_delivery_record_summary env r =
     jobj [(''delivery_id'', JStr (nv_delivery_id r)), (''notification_id'', JStr (nv_notification_id r)),
       (''trace_id'', JStr (nv_trace_id r)), (''ok'', JBool (nv_ok r)), (''status'', delivery_status_json (nv_status r)),
       (''platform'', JStr (nv_platform r)), (''retryable'', JBool (nv_retryable r)),
       (''error'', case nv_error r of None \<Rightarrow> JNull
          | Some e \<Rightarrow> jobj [(''code'', JStr (ng_code e)), (''message'', JStr (ne_redact env (ng_message e)))]),
       (''redacted'', JBool True)]"

definition failed_response ::
  "'w notify_env \<Rightarrow> stored_local_vision_event \<Rightarrow> notification_target_record option \<Rightarrow> notification_delivery_record option
    \<Rightarrow> string option \<Rightarrow> string \<Rightarrow> local_vision_event_notification_response" where
  "failed_response env stored target record notification_id message =
     notification_response env stored target ''failed'' (or_else notification_id (map_option nv_notification_id record))
       (map_option nv_delivery_id record) (map_option (notification_delivery_record_summary env) record) message
       ''local_vision_event.notification_failed''"

definition delivered_response ::
  "'w notify_env \<Rightarrow> stored_local_vision_event \<Rightarrow> notification_target_record \<Rightarrow> notification_delivery_record \<Rightarrow> json
    \<Rightarrow> local_vision_event_notification_response" where
  "delivered_response env stored target record intent_audit =
     (let r = notification_response env stored (Some target) ''delivered'' (Some (nv_notification_id record))
        (Some (nv_delivery_id record)) (Some (notification_delivery_record_summary env record))
        ''Local vision event notification delivered to the default target.'' ''local_vision_event.notification_delivered''
      in r\<lparr>ln_audit_record := insert_members [(''intent_audit_record'', intent_audit)] (ln_audit_record r)\<rparr>)"

definition classify_notification_delivery_error ::
  "'w notify_env \<Rightarrow> notification_delivery_error \<Rightarrow> string \<times> string \<times> string" where
  "classify_notification_delivery_error env e =
     (case e of
        MissingConfiguration m \<Rightarrow> (''blocked'', ne_redact env m, ''missing_configuration'')
      | Transport m \<Rightarrow> (''failed'', ne_redact env m, ''gateway_unreachable'')
      | InvalidResponse m \<Rightarrow> (''failed'', ne_redact env m, ''invalid_response'')
      | RequestRejected status v \<Rightarrow>
          (''failed'', ne_redact env (''HarborGate rejected the notification with HTTP '' @ show_nat status @ '': ''
             @ he_message (hv_error v) @ '' ('' @ he_code (hv_error v) @ '')''), ''request_rejected''))"

definition delivery_error_response ::
  "'w notify_env \<Rightarrow> stored_local_vision_event \<Rightarrow> notification_target_record \<Rightarrow> notification_delivery_error
    \<Rightarrow> local_vision_event_notification_response" where
  "delivery_error_response env stored target e =
     (case classify_notification_delivery_error env e of (status, message, kind) \<Rightarrow>
        let r = notification_response env stored (Some target) status None None
              (Some (jobj [(''error_kind'', JStr kind), (''message'', JStr message), (''redacted'', JBool True)])) message
              (if status = ''blocked'' then ''local_vision_event.notification_blocked'' else ''local_vision_event.notification_failed'')
        in r\<lparr>ln_audit_record := insert_members [(''delivery_error_kind'', JStr kind)] (ln_audit_record r)\<rparr>)"

definition response_json :: "local_vision_event_notification_response \<Rightarrow> json" where
  "response_json r =
     (let opt = (\<lambda>k v. case v of None \<Rightarrow> [] | Some s \<Rightarrow> [(k, JStr s)]) in
      jobj ([(''event_id'', JStr (ln_event_id r)), (''status'', JStr (ln_status r))]
        @ opt ''notification_id'' (ln_notification_id r) @ opt ''delivery_id'' (ln_delivery_id r)
        @ opt ''target_label'' (ln_target_label r) @ opt ''platform_hint'' (ln_platform_hint r)
        @ [(''message'', JStr (ln_message r))]
        @ (case ln_delivery_record r of None \<Rightarrow> [] | Some d \<Rightarrow> [(''delivery_record'', d)])
        @ [(''audit_record'', ln_audit_record r)]))"

section \<open>The action\<close>

definition notify_result :: "string \<Rightarrow> string \<Rightarrow> (string \<times> json) list \<Rightarrow> json" where
  "notify_result status key extra =
     jobj ([(''action'', JStr ''notify_default_target''), (''status'', JStr status), (''executed'', JBool (status = ''delivered'')),
       (''idempotency_key'', JStr key)] @ extra @ [(''redacted'', JBool True)])"

definition status_and_reason :: "local_vision_event_notification_response \<Rightarrow> (string \<times> json) list" where
  "status_and_reason r = [(''notification_status'', JStr (ln_status r)), (''reason'', JStr (ln_message r))]"

definition execute_home_guardian_notify_action ::
  "'w notify_env \<Rightarrow> stored_local_vision_event \<Rightarrow> string \<Rightarrow> json option \<times> 'w \<Rightarrow> json \<times> json option \<times> 'w" where
  "execute_home_guardian_notify_action env stored key world =
     (let last_attempt = (\<lambda>r. Some (response_json r)); w = snd world in
      case ne_targets env of
        Inl e \<Rightarrow> (notify_result ''failed'' key [(''reason'', JStr (ne_redact env e))], world)
      | Inr targets \<Rightarrow>
          (case default_notification_target_record targets of
             None \<Rightarrow>
               let r = blocked_response env stored None ''No default notification target is configured.'' in
               (notify_result ''blocked'' key (status_and_reason r), last_attempt r, w)
           | Some target \<Rightarrow>
               (case build_local_vision_notification_intent (ne_vision env) stored (nt_route_key target) of
                  Inl e \<Rightarrow>
                    let r = failed_response env stored (Some target) None None e in
                    (notify_result ''failed'' key (status_and_reason r), last_attempt r, w)
                | Inr intent \<Rightarrow>
                    (case delivery_service_new (ne_getenv env) (ne_sender_token env) of
                       Inl e \<Rightarrow>
                         let r = blocked_response env stored (Some target) (ne_redact env e) in
                         (notify_result ''blocked'' key (status_and_reason r), last_attempt r, w)
                     | Inr config \<Rightarrow>
                         (case deliver (ne_http env) config (vi_notification_request intent) w of
                            (Inr record, w') \<Rightarrow>
                              if nv_ok record then
                                let r = delivered_response env stored target record (vi_audit_record intent) in
                                (notify_result ''delivered'' key
                                   [(''notification_id'', jopt_str (ln_notification_id r)), (''delivery_id'', jopt_str (ln_delivery_id r)),
                                    (''target_label'', jopt_str (ln_target_label r))], last_attempt r, w')
                              else
                                let r = failed_response env stored (Some target) (Some record) None
                                  ''HarborGate returned a failed delivery record.'' in
                                (notify_result ''failed'' key (status_and_reason r), last_attempt r, w')
                          | (Inl e, w') \<Rightarrow>
                              let r = delivery_error_response env stored target e in
                              (notify_result (ln_status r) key [(''reason'', JStr (ln_message r))], last_attempt r, w'))))))"

section \<open>What leaves the hub\<close>

text \<open>One request of the gateway client, with the token of the sender and clean texts only.\<close>

definition notification_post :: "'w notify_env \<Rightarrow> stored_local_vision_event \<Rightarrow> 'w \<Rightarrow> 'w \<Rightarrow> bool" where
  "notification_post env stored w w' \<longleftrightarrow>
     (\<exists>q config target targets. ne_targets env = Ok targets \<and> default_notification_target_record targets = Some target \<and>
        build_local_vision_notification_request (ne_vision env) stored (nt_route_key target) = Ok q \<and>
        gateway_config_from_env (ne_getenv env) (ne_sender_token env) = Ok config \<and>
        json_texts (request_json q) \<subseteq> {t. clean t} \<and> nc_attachments (nq_content q) = [] \<and>
        nd_route_key (nq_destination q) = trim (nt_route_key target) \<and> \<not> blank (nt_route_key target) \<and>
        w' = snd (ht_post (ne_http env) (notification_endpoint (gw_base_url config))
          [(''Authorization'', ''Bearer '' @ gw_bearer_token config), (''X-Contract-Version'', CONTRACT_VERSION)] (request_json q) w))"

lemma notify_status: "str_field (notify_result status key extra) ''status'' = Some status"
  if "''status'' \<notin> fst ` set extra"
proof -
  have g: "hm_get (fold (\<lambda>kv. bm_insert (fst kv) (snd kv)) kvs m) k = (case map_of (rev kvs) k of None \<Rightarrow> hm_get m k | Some v \<Rightarrow> Some v)"
    for kvs k and m :: "(string \<times> json) list"
    by (induction kvs arbitrary: m) (auto simp: bm_get_insert map_add_Some_iff map_add_def split: option.splits)
  moreover have "map_of (rev extra) ''status'' = None" using that by (simp add: map_of_eq_None_iff)
  ultimately show ?thesis
    by (simp add: notify_result_def jobj_def str_field_def bm_get_insert) (simp add: hm_get_def)
qed

lemma notify_action_effect:
  assumes "execute_home_guardian_notify_action env stored key (last_attempt, w) = (r, last_attempt', w')"
  shows "w' = w \<and> str_field r ''status'' \<in> {Some ''blocked'', Some ''failed''} \<or>
    notification_post env stored w w' \<and> str_field r ''status'' \<in> {Some ''delivered'', Some ''failed'', Some ''blocked''}"
proof (cases "ne_targets env")
  case (Inl e)
  then show ?thesis using assms by (auto simp: execute_home_guardian_notify_action_def notify_status)
next
  case targets: (Inr targets)
  show ?thesis
  proof (cases "default_notification_target_record targets")
    case None
    then show ?thesis using assms targets
      by (auto simp: execute_home_guardian_notify_action_def notify_status status_and_reason_def Let_def)
  next
    case target: (Some target)
    show ?thesis
    proof (cases "build_local_vision_notification_intent (ne_vision env) stored (nt_route_key target)")
      case (Inl e)
      then show ?thesis using assms targets target
        by (auto simp: execute_home_guardian_notify_action_def notify_status status_and_reason_def Let_def)
    next
      case intent: (Inr intent)
      then have q: "build_local_vision_notification_request (ne_vision env) stored (nt_route_key target) = Ok (vi_notification_request intent)"
        by (auto simp: build_local_vision_notification_intent_def)
      note clean = notification_request_clean [OF q]
      show ?thesis
      proof (cases "delivery_service_new (ne_getenv env) (ne_sender_token env)")
        case (Inl e)
        then show ?thesis using assms targets target intent
          by (auto simp: execute_home_guardian_notify_action_def notify_status status_and_reason_def Let_def)
      next
        case config: (Inr config)
        then have c: "gateway_config_from_env (ne_getenv env) (ne_sender_token env) = Ok config"
          by (auto simp: delivery_service_new_def split: sum.splits)
        obtain res v where d: "deliver (ne_http env) config (vi_notification_request intent) w = (res, v)" by (metis surj_pair)
        have v: "v = snd (ht_post (ne_http env) (notification_endpoint (gw_base_url config))
            [(''Authorization'', ''Bearer '' @ gw_bearer_token config), (''X-Contract-Version'', CONTRACT_VERSION)]
            (request_json (vi_notification_request intent)) w)"
          using deliver_posts_once [of "vi_notification_request intent" "ne_http env" config w] clean(3) d by simp
        note unf = assms [unfolded execute_home_guardian_notify_action_def, simplified targets target intent config sum.case option.case snd_conv Let_def d]
        have w': "w' = v" using unf by (auto split: sum.splits if_splits)
        have "str_field r ''status'' \<in> {Some ''delivered'', Some ''failed'', Some ''blocked''}"
          using unf by (cases res)
            (auto simp: notify_status status_and_reason_def delivery_error_response_def notification_response_def
              classify_notification_delivery_error_def Let_def split: if_splits notification_delivery_error.splits)
        moreover have "notification_post env stored w v"
          unfolding notification_post_def using targets target q c clean v by blast
        ultimately show ?thesis using w' by blast
      qed
    qed
  qed
qed


section \<open>The guardian as a whole\<close>

text \<open>The executor of the hub: notifications and service calls, on the world outside and the record of the last attempt.\<close>

definition hub_actions ::
  "'w notify_env \<Rightarrow> 'w action_env \<Rightarrow> (json option \<times> 'w) action_env" where
  "hub_actions env ha =
     \<lparr>ae_notify = (\<lambda>stored key world. execute_home_guardian_notify_action env stored key world),
      ae_ha_state = ae_ha_state ha, ae_ha_client = ae_ha_client ha,
      ae_post = (\<lambda>path body world. case ae_post ha path body (snd world) of (r, w') \<Rightarrow> (r, fst world, w')),
      ae_json_text = ae_json_text ha, ae_redact = ae_redact ha\<rparr>"

lemma hub_actions_simps:
  "ae_ha_state (hub_actions env ha) = ae_ha_state ha"
  "snd (snd (ae_post (hub_actions env ha) path body x)) = snd (ae_post ha path body (snd x))"
  by (simp_all add: hub_actions_def split: prod.split)

definition safe_service_post :: "'w action_env \<Rightarrow> 'w \<Rightarrow> 'w \<Rightarrow> bool" where
  "safe_service_post ha w w' \<longleftrightarrow>
     (\<exists>d sv e st. (d, sv) \<in> safe_services \<and> prefix (d @ ''.'') e \<and> list_all entity_id_char e \<and> ae_ha_state ha = Ok st \<and>
        hs_enabled st \<and> (hs_exposed_domains st = [] \<or> list_ex (\<lambda>x. eq_ignore_ascii_case (trim x) d) (hs_exposed_domains st)) \<and>
        w' = snd (ae_post ha (''/v1/home-assistant/services/'' @ d @ ''/'' @ sv) (jobj [(''entity_id'', JStr e), (''fields'', JObj [])]) w))"

text \<open>What an executor does to the world, a whole evaluation does to it action by action.\<close>

lemma run_actions_steps:
  assumes step: "\<And>stored p w r w'. exec stored p w = (r, w') \<Longrightarrow> Q w w'" and Q: "\<And>w. Q w w" "\<And>u v w. Q u v \<Longrightarrow> Q v w \<Longrightarrow> Q u w"
  shows "run_actions exec automatic review stored now ps s w = (rs, n, s', w') \<Longrightarrow> Q w w'"
proof (induction ps arbitrary: s w rs n s' w')
  case (Cons p ps)
  obtain cold s1 where c: "(if automatic then guardian_action_in_cooldown review stored (gp_action_key p) now s else (False, s)) = (cold, s1)"
    by (metis surj_pair)
  obtain seen s2 where e: "guardian_action_run_seen (gp_idempotency_key p) now s1 = (seen, s2)" by (metis surj_pair)
  obtain r w1 where x: "exec stored p w = (r, w1)" by (metis surj_pair)
  show ?case
    using Cons.prems Cons.IH Q(2) [OF step [OF x]]
    by (auto simp: c e x Let_def split: if_splits prod.splits)
qed (use Q(1) in simp)

lemma evaluate_rules_steps:
  assumes step: "\<And>stored p w r w'. exec stored p w = (r, w') \<Longrightarrow> Q w w'" and Q: "\<And>w. Q w w" "\<And>u v w. Q u v \<Longrightarrow> Q v w \<Longrightarrow> Q u w"
  shows "ends (\<lambda>_. Q w) (evaluate_home_guardian_rules_for_event exec env fingerprint now stored only execute_active s w)"
proof (cases rule: evaluate_rules_cases [of env fingerprint now only s exec stored execute_active w])
  case (ok reviews s1)
  have "ends (\<lambda>_. Q w) (evaluate_reviews exec env stored only execute_active 1 reviews s1 w)"
  proof (rule evaluate_reviews_keeps [where P = "\<lambda>_. Q w", OF _ _ _ Q(1)])
    show "Q w v \<Longrightarrow> run_actions exec (only = None) review stored (ee_epoch env k) ps s v = (rs, c, s', v') \<Longrightarrow> Q w v'"
      for review k ps s v rs c s' v'
    proof (erule Q(2), rule run_actions_steps [where exec = exec and Q = Q])
      show "exec stored p w = (r, w') \<Longrightarrow> Q w w'" for stored p w r w' by (rule step)
      show "Q u v \<Longrightarrow> Q v w \<Longrightarrow> Q u w" for u v w by (rule Q(2))
    qed (rule Q(1))
  qed
  then show ?thesis by (simp only: ok(2) ends_simps)
qed (simp add: Q(1))

text \<open>
  C5. Whatever rules, events and configuration the guardian has, an evaluation reaches the world outside the hub only through
  two kinds of requests, one after the other: an allowlisted Home Assistant service call with empty fields on an entity
  of its domain, when the integration is enabled and the domain exposed, and a text-only notification of the event whose every text, key or value, passed the checks for
  sensitive material and local paths, sent with the configured token to the route of the default target.
\<close>

theorem guardian_reaches_out_only_safely:
  "case evaluate_home_guardian_rules_for_event (guardian_execute (hub_actions env ha)) ev fingerprint now stored only execute_active
      s (last_attempt, w) of
     (_, _, _, w') \<Rightarrow> (\<lambda>v v'. safe_service_post ha v v' \<or> (\<exists>e. notification_post env e v v'))\<^sup>*\<^sup>* w w'"
proof -
  let ?R = "\<lambda>v v'. safe_service_post ha v v' \<or> (\<exists>e. notification_post env e v v')"
  let ?S = "\<lambda>x y :: json option \<times> 'a. ?R (snd x) (snd y)"
  have one: "?R\<^sup>*\<^sup>* (snd x) (snd y)" if "guardian_execute (hub_actions env ha) stored p x = (r, y)" for stored p x r y
  proof (cases "gp_kind p")
    case NotifyDefaultTarget
    then have "execute_home_guardian_notify_action env stored (gp_idempotency_key p) (fst x, snd x) = (r, fst y, snd y)"
      using that by (simp add: guardian_execute_def hub_actions_def)
    from notify_action_effect [OF this] show ?thesis by auto
  next
    case HomeAssistantService
    then have e: "execute_home_guardian_ha_action (hub_actions env ha) (gp_action p) (gp_idempotency_key p) x = (r, y)"
      using that by (simp add: guardian_execute_def)
    have "snd y = snd x \<or> safe_service_post ha (snd x) (snd y)"
      using service_calls_are_allowlisted [where env = "hub_actions env ha" and action = "gp_action p" and key = "gp_idempotency_key p" and w = x]
      unfolding e prod.case safe_service_post_def hub_actions_simps(1) by (metis hub_actions_simps(2))
    then show ?thesis by auto
  next
    case UnsupportedAction
    then show ?thesis using that by (simp add: guardian_execute_def)
  qed
  have "ends (\<lambda>_. (\<lambda>x y. ?R\<^sup>*\<^sup>* (snd x) (snd y)) (last_attempt, w))
    (evaluate_home_guardian_rules_for_event (guardian_execute (hub_actions env ha)) ev fingerprint now stored only execute_active s (last_attempt, w))"
    by (rule evaluate_rules_steps) (auto dest: one intro: rtranclp_trans)
  then show ?thesis by (auto simp: ends_def split: prod.splits)
qed

end
