(* ===== verification/Family_Timeline.thy ===== *)
theory Family_Timeline
  imports Vision_Laws "HOL-Library.Multiset"
begin

text \<open>
  The family timeline, from \<^verbatim>\<open>src/src/runtime/family_timeline.rs\<close>: the projection of stored vision events without images
  and paths, the query with its window, filters, order and limit, buckets by camera, and the digest. The clock is an
  argument: the milliseconds \<open>now_ms\<close>, and \<open>now\<close> the text of the moment a response is made.
\<close>

section \<open>Records\<close>

record family_timeline_artifact_metadata =
  fm_artifact_id :: "string option"
  fm_mime_type :: "string option"
  fm_byte_size :: "u64 option"
  fm_sha256_present :: bool
  fm_local_path_redacted :: bool
  fm_raw_image_included :: bool

record family_timeline_event =
  ft_event_id :: string
  ft_camera_id :: string
  ft_event_type :: string
  ft_summary :: string
  ft_confidence :: rat
  ft_labels :: "string list"
  ft_started_at :: string
  ft_received_at :: string
  ft_latency_ms :: u64
  ft_vlm_status :: string
  ft_artifact :: family_timeline_artifact_metadata

record family_timeline_bucket =
  fb_bucket_id :: string
  fb_camera_id :: string
  fb_started_at :: string
  fb_ended_at :: string
  fb_event_count :: nat
  fb_event_types :: "string list"
  fb_top_labels :: "string list"
  fb_event_ids :: "string list"

record family_timeline_response =
  fr_generated_at :: string
  fr_window_seconds :: u64
  fr_event_count :: nat
  fr_metadata_only :: bool
  fr_buckets :: "family_timeline_bucket list"
  fr_events :: "family_timeline_event list"

record family_timeline_vlm_coverage =
  fc_total :: nat
  fc_active :: nat
  fc_degraded :: nat
  fc_not_sampled :: nat

record family_timeline_digest =
  fd_generated_at :: string
  fd_status :: string
  fd_window_seconds :: u64
  fd_event_count :: nat
  fd_headline :: string
  fd_bullets :: "string list"
  fd_top_labels :: "string list"
  fd_cameras :: "string list"
  fd_latest_event_id :: "string option"
  fd_metadata_only :: bool
  fd_secret_scan :: string
  fd_vlm_coverage :: family_timeline_vlm_coverage

record family_timeline_query_options =
  fq_window_seconds :: u64
  fq_camera_filter :: "string option"
  fq_label_filter :: "string option"
  fq_limit :: nat

definition default_query_options :: family_timeline_query_options where
  "default_query_options = \<lparr>fq_window_seconds = 24 * 60 * 60, fq_camera_filter = None, fq_label_filter = None, fq_limit = 50\<rparr>"

definition normalize_optional_filter :: "string option \<Rightarrow> string option" where
  "normalize_optional_filter value = opt_filter (\<lambda>v. v \<noteq> []) (map_option trim value)"

definition clamp_limit :: "nat \<Rightarrow> nat" where
  "clamp_limit limit = max 1 (min 100 limit)"

definition query_options_new :: "u64 \<Rightarrow> string option \<Rightarrow> string option \<Rightarrow> nat \<Rightarrow> family_timeline_query_options" where
  "query_options_new window_seconds camera_filter label_filter limit =
     \<lparr>fq_window_seconds = max 60 (min (7 * 24 * 60 * 60) window_seconds), fq_camera_filter = normalize_optional_filter camera_filter,
      fq_label_filter = normalize_optional_filter label_filter, fq_limit = clamp_limit limit\<rparr>"

section \<open>Projection\<close>

definition family_timeline_event_of :: "stored_local_vision_event \<Rightarrow> family_timeline_event" where
  "family_timeline_event_of stored =
     (let e = vs_event stored; a = ve_snapshot_artifact e in
      \<lparr>ft_event_id = ve_event_id e, ft_camera_id = ve_camera_id e, ft_event_type = ve_event_type e,
       ft_summary = local_vision_automation_summary e, ft_confidence = ve_confidence e, ft_labels = ve_labels e,
       ft_started_at = ve_started_at e, ft_received_at = vs_received_at stored, ft_latency_ms = ve_latency_ms e,
       ft_vlm_status = local_vision_vlm_status e,
       ft_artifact = \<lparr>fm_artifact_id = sa_artifact_id a, fm_mime_type = sa_mime_type a, fm_byte_size = sa_byte_size a,
         fm_sha256_present = (sa_sha256 a \<noteq> None), fm_local_path_redacted = True, fm_raw_image_included = False\<rparr>\<rparr>)"

definition started_ms :: "family_timeline_event \<Rightarrow> u64" where
  "started_ms e = unwrap_or (parse_epoch_ms (ft_started_at e)) 0"

text \<open>The most frequent normalised strings: by falling count, then by name.\<close>

definition count_string :: "string \<Rightarrow> nat btree_map \<Rightarrow> nat btree_map" where
  "count_string value counts =
     (let n = to_ascii_lowercase (trim value) in
      if n = [] then counts else bm_insert n (unwrap_or (hm_get counts n) 0 + 1) counts)"

definition count_before :: "string \<times> nat \<Rightarrow> string \<times> nat \<Rightarrow> bool" where
  "count_before l r \<longleftrightarrow> snd r < snd l \<or> snd l = snd r \<and> fst l \<le> fst r"

definition counted_strings :: "string list \<Rightarrow> nat \<Rightarrow> string list" where
  "counted_strings values limit = map fst (take (max limit 1) (sort_by count_before (fold count_string values [])))"

section \<open>Buckets\<close>

definition group_event :: "family_timeline_event \<Rightarrow> family_timeline_event list btree_map \<Rightarrow> family_timeline_event list btree_map" where
  "group_event e grouped = bm_insert (ft_camera_id e) (unwrap_or (hm_get grouped (ft_camera_id e)) [] @ [e]) grouped"

definition bucket_of :: "string \<times> family_timeline_event list \<Rightarrow> family_timeline_bucket" where
  "bucket_of grp =
     (let camera_id = fst grp; events = sort_by (ascending started_ms) (snd grp);
          started_at = (case events of [] \<Rightarrow> [] | e # _ \<Rightarrow> ft_started_at e)
      in \<lparr>fb_bucket_id = ''family_timeline_'' @ camera_id, fb_camera_id = camera_id, fb_started_at = started_at,
          fb_ended_at = (case rev events of [] \<Rightarrow> started_at | e # _ \<Rightarrow> ft_started_at e),
          fb_event_count = length (map ft_event_id events), fb_event_types = counted_strings (map ft_event_type events) 6,
          fb_top_labels = counted_strings (concat (map ft_labels events)) 8, fb_event_ids = map ft_event_id events\<rparr>)"

definition ended_ms :: "family_timeline_bucket \<Rightarrow> u64" where
  "ended_ms b = unwrap_or (parse_epoch_ms (fb_ended_at b)) 0"

definition bucket_before :: "family_timeline_bucket \<Rightarrow> family_timeline_bucket \<Rightarrow> bool" where
  "bucket_before l r \<longleftrightarrow> ended_ms r < ended_ms l \<or> ended_ms l = ended_ms r \<and> fb_event_count r \<le> fb_event_count l"

definition build_family_timeline_buckets :: "family_timeline_event list \<Rightarrow> family_timeline_bucket list" where
  "build_family_timeline_buckets events = sort_by bucket_before (map bucket_of (fold group_event events []))"

section \<open>JSON\<close>

definition artifact_metadata_json :: "family_timeline_artifact_metadata \<Rightarrow> json" where
  "artifact_metadata_json a =
     jobj ((case fm_artifact_id a of None \<Rightarrow> [] | Some i \<Rightarrow> [(''artifact_id'', JStr i)])
       @ (case fm_mime_type a of None \<Rightarrow> [] | Some m \<Rightarrow> [(''mime_type'', JStr m)])
       @ (case fm_byte_size a of None \<Rightarrow> [] | Some n \<Rightarrow> [(''byte_size'', JInt (int (unat n)))])
       @ [(''sha256_present'', JBool (fm_sha256_present a)), (''local_path_redacted'', JBool (fm_local_path_redacted a)),
          (''raw_image_included'', JBool (fm_raw_image_included a))])"

definition timeline_event_members :: "family_timeline_event \<Rightarrow> (string \<times> json) list" where
  "timeline_event_members e =
     [(''event_id'', JStr (ft_event_id e)), (''camera_id'', JStr (ft_camera_id e)), (''event_type'', JStr (ft_event_type e)),
      (''summary'', JStr (ft_summary e)), (''confidence'', JFloat (ft_confidence e)), (''labels'', jstrs (ft_labels e)),
      (''started_at'', JStr (ft_started_at e)), (''received_at'', JStr (ft_received_at e)),
      (''latency_ms'', JInt (int (unat (ft_latency_ms e)))), (''vlm_status'', JStr (ft_vlm_status e)),
      (''artifact'', artifact_metadata_json (ft_artifact e))]"

definition bucket_json :: "family_timeline_bucket \<Rightarrow> json" where
  "bucket_json b =
     jobj [(''bucket_id'', JStr (fb_bucket_id b)), (''camera_id'', JStr (fb_camera_id b)), (''started_at'', JStr (fb_started_at b)),
       (''ended_at'', JStr (fb_ended_at b)), (''event_count'', JInt (int (fb_event_count b))),
       (''event_types'', jstrs (fb_event_types b)), (''top_labels'', jstrs (fb_top_labels b)), (''event_ids'', jstrs (fb_event_ids b))]"

definition timeline_response_json :: "family_timeline_response \<Rightarrow> json" where
  "timeline_response_json r =
     jobj [(''generated_at'', JStr (fr_generated_at r)), (''window_seconds'', JInt (int (unat (fr_window_seconds r)))),
       (''event_count'', JInt (int (fr_event_count r))), (''metadata_only'', JBool (fr_metadata_only r)),
       (''buckets'', JArr (map bucket_json (fr_buckets r))),
       (''events'', JArr (map (\<lambda>e. jobj (timeline_event_members e)) (fr_events r)))]"

definition coverage_json :: "family_timeline_vlm_coverage \<Rightarrow> json" where
  "coverage_json c = jobj [(''total'', JInt (int (fc_total c))), (''active'', JInt (int (fc_active c))),
     (''degraded'', JInt (int (fc_degraded c))), (''not_sampled'', JInt (int (fc_not_sampled c)))]"

definition digest_json :: "family_timeline_digest \<Rightarrow> json" where
  "digest_json d =
     jobj ([(''generated_at'', JStr (fd_generated_at d)), (''status'', JStr (fd_status d)),
       (''window_seconds'', JInt (int (unat (fd_window_seconds d)))), (''event_count'', JInt (int (fd_event_count d))),
       (''headline'', JStr (fd_headline d)), (''bullets'', jstrs (fd_bullets d)), (''top_labels'', jstrs (fd_top_labels d)),
       (''cameras'', jstrs (fd_cameras d))]
       @ (case fd_latest_event_id d of None \<Rightarrow> [] | Some i \<Rightarrow> [(''latest_event_id'', JStr i)])
       @ [(''metadata_only'', JBool (fd_metadata_only d)), (''secret_scan'', JStr (fd_secret_scan d)),
          (''vlm_coverage'', coverage_json (fd_vlm_coverage d))])"

definition reject_payload :: "json \<Rightarrow> string + unit" where
  "reject_payload payload = first_err [reject_sensitive_value payload, reject_local_path_value payload]"

definition validate_family_timeline_response :: "family_timeline_response \<Rightarrow> string + unit" where
  "validate_family_timeline_response r = reject_payload (timeline_response_json r)"

definition validate_family_timeline_digest :: "family_timeline_digest \<Rightarrow> string + unit" where
  "validate_family_timeline_digest d = reject_payload (digest_json d)"

section \<open>The query\<close>

definition label_matches :: "string \<Rightarrow> local_vision_event \<Rightarrow> bool" where
  "label_matches filter_text e \<longleftrightarrow>
     list_ex (\<lambda>l. to_ascii_lowercase l = filter_text) (ve_labels e) \<or> to_ascii_lowercase (ve_event_type e) = filter_text"

definition timeline_admits :: "family_timeline_query_options \<Rightarrow> u64 \<Rightarrow> stored_local_vision_event \<Rightarrow> bool" where
  "timeline_admits options now_ms stored =
     (let e = vs_event stored; window_seconds = max 1 (fq_window_seconds options);
          cutoff_ms = saturating_sub now_ms (saturating_mul window_seconds 1000)
      in (case fq_camera_filter options of None \<Rightarrow> True | Some c \<Rightarrow> to_ascii_lowercase (ve_camera_id e) = to_ascii_lowercase c) \<and>
         (case fq_label_filter options of None \<Rightarrow> True | Some l \<Rightarrow> label_matches (to_ascii_lowercase l) e) \<and>
         (case or_else (parse_epoch_ms (ve_started_at e)) (parse_epoch_ms (vs_received_at stored)) of
            None \<Rightarrow> True | Some t \<Rightarrow> cutoff_ms \<le> t))"

definition timeline_before :: "family_timeline_event \<Rightarrow> family_timeline_event \<Rightarrow> bool" where
  "timeline_before l r \<longleftrightarrow> started_ms r < started_ms l \<or> started_ms l = started_ms r \<and> ft_event_id r \<le> ft_event_id l"

definition build_family_timeline_from_query ::
  "u64 \<Rightarrow> string \<Rightarrow> stored_local_vision_event list \<Rightarrow> family_timeline_query_options \<Rightarrow> string + family_timeline_response" where
  "build_family_timeline_from_query now_ms now events options =
     (let timeline_events = take (clamp_limit (fq_limit options)) (sort_by timeline_before
            (map family_timeline_event_of (filter (timeline_admits options now_ms) events)));
          response = \<lparr>fr_generated_at = now, fr_window_seconds = max 1 (fq_window_seconds options),
            fr_event_count = length timeline_events, fr_metadata_only = True,
            fr_buckets = build_family_timeline_buckets timeline_events, fr_events = timeline_events\<rparr>
      in and_then (validate_family_timeline_response response) (\<lambda>_. Ok response))"

definition build_family_timeline ::
  "u64 \<Rightarrow> string \<Rightarrow> stored_local_vision_event list \<Rightarrow> u64 \<Rightarrow> string option \<Rightarrow> string option \<Rightarrow> nat \<Rightarrow> string + family_timeline_response" where
  "build_family_timeline now_ms now events window_seconds camera_filter label_filter limit =
     build_family_timeline_from_query now_ms now events (query_options_new window_seconds camera_filter label_filter limit)"

section \<open>The digest\<close>

definition zh_hours :: string where
  "zh_hours =
     [CHR 0x20, CHR 0xE5, CHR 0xB0, CHR 0x8F, CHR 0xE6, CHR 0x97, CHR 0xB6]"

definition zh_days :: string where
  "zh_days =
     [CHR 0x20, CHR 0xE5, CHR 0xA4, CHR 0xA9]"

definition zh_minutes :: string where
  "zh_minutes =
     [CHR 0x20, CHR 0xE5, CHR 0x88, CHR 0x86, CHR 0xE9, CHR 0x92, CHR 0x9F]"

definition zh_seconds :: string where
  "zh_seconds =
     [CHR 0x20, CHR 0xE7, CHR 0xA7, CHR 0x92]"

definition zh_recent :: string where
  "zh_recent =
     [CHR 0xE6, CHR 0x9C, CHR 0x80, CHR 0xE8, CHR 0xBF, CHR 0x91, CHR 0x20]"

definition zh_no_events :: string where
  "zh_no_events =
     [CHR 0x20, CHR 0xE6, CHR 0xB2, CHR 0xA1, CHR 0xE6, CHR 0x9C, CHR 0x89, CHR 0xE5, CHR 0x8F, CHR 0xAF, CHR 0xE7,
      CHR 0x94, CHR 0xA8, CHR 0xE7, CHR 0x9A, CHR 0x84, CHR 0xE5, CHR 0xAE, CHR 0xB6, CHR 0xE5, CHR 0xBA, CHR 0xAD,
      CHR 0xE8, CHR 0xA7, CHR 0x86, CHR 0xE8, CHR 0xA7, CHR 0x89, CHR 0xE4, CHR 0xBA, CHR 0x8B, CHR 0xE4, CHR 0xBB,
      CHR 0xB6, CHR 0xE3, CHR 0x80, CHR 0x82]"

definition zh_recorded :: string where
  "zh_recorded =
     [CHR 0x20, CHR 0xE8, CHR 0xAE, CHR 0xB0, CHR 0xE5, CHR 0xBD, CHR 0x95, CHR 0xE5, CHR 0x88, CHR 0xB0, CHR 0x20]"

definition zh_events_covering :: string where
  "zh_events_covering =
     [CHR 0x20, CHR 0xE6, CHR 0x9D, CHR 0xA1, CHR 0xE5, CHR 0xAE, CHR 0xB6, CHR 0xE5, CHR 0xBA, CHR 0xAD, CHR 0xE8,
      CHR 0xA7, CHR 0x86, CHR 0xE8, CHR 0xA7, CHR 0x89, CHR 0xE4, CHR 0xBA, CHR 0x8B, CHR 0xE4, CHR 0xBB, CHR 0xB6,
      CHR 0xEF, CHR 0xBC, CHR 0x8C, CHR 0xE8, CHR 0xA6, CHR 0x86, CHR 0xE7, CHR 0x9B, CHR 0x96, CHR 0x20]"

definition zh_cameras :: string where
  "zh_cameras =
     [CHR 0x20, CHR 0xE4, CHR 0xB8, CHR 0xAA, CHR 0xE6, CHR 0x91, CHR 0x84, CHR 0xE5, CHR 0x83, CHR 0x8F, CHR 0xE5,
      CHR 0xA4, CHR 0xB4, CHR 0xE3, CHR 0x80, CHR 0x82]"

definition zh_no_labels :: string where
  "zh_no_labels =
     [CHR 0xE6, CHR 0x97, CHR 0xA0, CHR 0xE4, CHR 0xB8, CHR 0xBB, CHR 0xE8, CHR 0xA6, CHR 0x81, CHR 0xE6, CHR 0xA0,
      CHR 0x87, CHR 0xE7, CHR 0xAD, CHR 0xBE]"

definition zh_bucket_events :: string where
  "zh_bucket_events =
     [CHR 0x20, CHR 0xE6, CHR 0x9D, CHR 0xA1, CHR 0xE4, CHR 0xBA, CHR 0x8B, CHR 0xE4, CHR 0xBB, CHR 0xB6, CHR 0xEF,
      CHR 0xBC, CHR 0x8C, CHR 0xE4, CHR 0xB8, CHR 0xBB, CHR 0xE8, CHR 0xA6, CHR 0x81, CHR 0xE6, CHR 0xA0, CHR 0x87,
      CHR 0xE7, CHR 0xAD, CHR 0xBE, CHR 0x20]"

definition zh_nothing :: string where
  "zh_nothing =
     [CHR 0xE6, CHR 0x9A, CHR 0x82, CHR 0xE6, CHR 0x97, CHR 0xA0, CHR 0xE5, CHR 0x8F, CHR 0xAF, CHR 0xE6, CHR 0xB1,
      CHR 0x87, CHR 0xE6, CHR 0x80, CHR 0xBB, CHR 0xE4, CHR 0xBA, CHR 0x8B, CHR 0xE4, CHR 0xBB, CHR 0xB6, CHR 0xE3,
      CHR 0x80, CHR 0x82]"

definition zh_vlm_coverage :: string where
  "zh_vlm_coverage =
     [CHR 0x56, CHR 0x4C, CHR 0x4D, CHR 0x20, CHR 0xE8, CHR 0xA6, CHR 0x86, CHR 0xE7, CHR 0x9B, CHR 0x96, CHR 0xEF,
      CHR 0xBC, CHR 0x9A]"

definition zh_vlm_active :: string where
  "zh_vlm_active =
     [CHR 0x20, CHR 0xE6, CHR 0x9D, CHR 0xA1, CHR 0x20, CHR 0x61, CHR 0x63, CHR 0x74, CHR 0x69, CHR 0x76, CHR 0x65,
      CHR 0xEF, CHR 0xBC, CHR 0x8C]"

definition zh_vlm_degraded :: string where
  "zh_vlm_degraded =
     [CHR 0x20, CHR 0xE6, CHR 0x9D, CHR 0xA1, CHR 0x20, CHR 0x64, CHR 0x65, CHR 0x67, CHR 0x72, CHR 0x61, CHR 0x64,
      CHR 0x65, CHR 0x64, CHR 0xEF, CHR 0xBC, CHR 0x8C]"

definition zh_vlm_not_sampled :: string where
  "zh_vlm_not_sampled =
     [CHR 0x20, CHR 0xE6, CHR 0x9D, CHR 0xA1, CHR 0xE6, CHR 0x9C, CHR 0xAA, CHR 0xE6, CHR 0x8A, CHR 0xBD, CHR 0xE6,
      CHR 0xA0, CHR 0xB7, CHR 0xE3, CHR 0x80, CHR 0x82]"

definition family_timeline_window_label :: "u64 \<Rightarrow> string" where
  "family_timeline_window_label w =
     (if w mod (24 * 60 * 60) = 0 then
        (let days = w div (24 * 60 * 60) in if days = 1 then ''24'' @ zh_hours else show_u64 days @ zh_days)
      else if w mod (60 * 60) = 0 then show_u64 (w div (60 * 60)) @ zh_hours
      else if w mod 60 = 0 then show_u64 (w div 60) @ zh_minutes
      else show_u64 w @ zh_seconds)"

definition observe_coverage :: "family_timeline_event \<Rightarrow> family_timeline_vlm_coverage \<Rightarrow> family_timeline_vlm_coverage" where
  "observe_coverage e c =
     (let status = to_ascii_lowercase (trim (ft_vlm_status e)) in
      if status \<in> {''active'', ''completed'', ''ready''} then c\<lparr>fc_active := fc_active c + 1\<rparr>
      else if status \<in> {[], ''not_sampled'', ''not-sampled'', ''none'', ''not_available'', ''unavailable''}
      then c\<lparr>fc_not_sampled := fc_not_sampled c + 1\<rparr>
      else c\<lparr>fc_degraded := fc_degraded c + 1\<rparr>)"

definition family_timeline_vlm_coverage_of :: "family_timeline_event list \<Rightarrow> family_timeline_vlm_coverage" where
  "family_timeline_vlm_coverage_of events =
     fold observe_coverage events \<lparr>fc_total = length events, fc_active = 0, fc_degraded = 0, fc_not_sampled = 0\<rparr>"

definition bucket_bullet :: "family_timeline_bucket \<Rightarrow> string" where
  "bucket_bullet b = fb_camera_id b @ '': '' @ show_nat (fb_event_count b) @ zh_bucket_events
     @ (if fb_top_labels b = [] then zh_no_labels else join '', '' (fb_top_labels b)) @ zh_full_stop"

definition build_family_timeline_digest_from_query ::
  "u64 \<Rightarrow> string \<Rightarrow> stored_local_vision_event list \<Rightarrow> family_timeline_query_options \<Rightarrow> string + family_timeline_digest" where
  "build_family_timeline_digest_from_query now_ms now events options =
     and_then (build_family_timeline_from_query now_ms now events options) (\<lambda>timeline.
       let cameras = counted_strings (map ft_camera_id (fr_events timeline)) 5;
           top_labels = counted_strings (concat (map ft_labels (fr_events timeline))) 8;
           window_label = family_timeline_window_label (fr_window_seconds timeline);
           coverage = family_timeline_vlm_coverage_of (fr_events timeline);
           bullets = map bucket_bullet (take 5 (fr_buckets timeline));
           digest = \<lparr>fd_generated_at = now, fd_status = (if fr_event_count timeline = 0 then ''quiet'' else ''available''),
             fd_window_seconds = fr_window_seconds timeline, fd_event_count = fr_event_count timeline,
             fd_headline = (if fr_event_count timeline = 0 then zh_recent @ window_label @ zh_no_events
               else zh_recent @ window_label @ zh_recorded @ show_nat (fr_event_count timeline) @ zh_events_covering
                 @ show_nat (max (length cameras) 1) @ zh_cameras),
             fd_bullets = (if bullets = [] then [zh_nothing] else bullets)
               @ (if 0 < fc_active coverage \<or> 0 < fc_degraded coverage
                  then [zh_vlm_coverage @ show_nat (fc_active coverage) @ zh_vlm_active @ show_nat (fc_degraded coverage)
                    @ zh_vlm_degraded @ show_nat (fc_not_sampled coverage) @ zh_vlm_not_sampled] else []),
             fd_top_labels = top_labels, fd_cameras = cameras,
             fd_latest_event_id = (case fr_events timeline of [] \<Rightarrow> None | e # _ \<Rightarrow> Some (ft_event_id e)),
             fd_metadata_only = True, fd_secret_scan = ''clean'', fd_vlm_coverage = coverage\<rparr>
       in and_then (validate_family_timeline_digest digest) (\<lambda>_. Ok digest))"

definition build_family_timeline_digest ::
  "u64 \<Rightarrow> string \<Rightarrow> stored_local_vision_event list \<Rightarrow> u64 \<Rightarrow> string + family_timeline_digest" where
  "build_family_timeline_digest now_ms now events window_seconds =
     build_family_timeline_digest_from_query now_ms now events (query_options_new window_seconds None None 50)"

section \<open>What a timeline shows\<close>

lemma timeline_before_order:
  "timeline_before x y \<or> timeline_before y x" "timeline_before x y \<Longrightarrow> timeline_before y z \<Longrightarrow> timeline_before x z"
  by (auto simp: timeline_before_def)

lemma mset_insert_by: "mset (insert_by le x ys) = add_mset x (mset ys)"
  by (induction le x ys rule: insert_by.induct) auto

lemma mset_sort_by [simp]: "mset (sort_by le xs) = mset xs"
  by (induction xs) (simp_all add: sort_by_def mset_insert_by)

lemma group_event_mset:
  "bm_inv m \<Longrightarrow> mset (concat (map snd (group_event e m))) = add_mset e (mset (concat (map snd m)))"
proof -
  have "bm_inv m \<Longrightarrow> mset (concat (map snd (bm_insert k (unwrap_or (hm_get m k) [] @ [e]) m))) = add_mset e (mset (concat (map snd m)))"
    for k and m :: "family_timeline_event list btree_map"
  proof (induction m)
    case (Cons kv m)
    obtain k' v' where kv: "kv = (k', v')" by (cases kv)
    show ?case
    proof (cases "k < k'")
      case True
      then have "hm_get (kv # m) k = None" using Cons.prems
        by (auto simp: kv hm_get_def bm_inv_def map_of_eq_None_iff)
      then show ?thesis using True by (simp add: kv unwrap_or_def)
    next
      case False
      then show ?thesis
        using Cons by (auto simp: kv hm_get_def bm_inv_def unwrap_or_def)
    qed
  qed (simp add: hm_get_def unwrap_or_def)
  then show "bm_inv m \<Longrightarrow> mset (concat (map snd (group_event e m))) = add_mset e (mset (concat (map snd m)))"
    by (simp add: group_event_def)
qed

lemma bm_inv_group [simp]: "bm_inv m \<Longrightarrow> bm_inv (group_event e m)"
  by (simp add: group_event_def)

lemma fold_group_event:
  assumes "bm_inv m"
  shows "bm_inv (fold group_event es m)" "mset (concat (map snd (fold group_event es m))) = mset es + mset (concat (map snd m))"
proof -
  have "bm_inv (fold group_event es m) \<and> mset (concat (map snd (fold group_event es m))) = mset es + mset (concat (map snd m))"
    using assms by (induction es arbitrary: m) (simp_all add: group_event_mset)
  then show "bm_inv (fold group_event es m)" "mset (concat (map snd (fold group_event es m))) = mset es + mset (concat (map snd m))"
    by auto
qed

text \<open>The buckets share out the events: one bucket for every camera, and every event in one of them.\<close>

lemma buckets_partition:
  "mset (concat (map fb_event_ids (build_family_timeline_buckets es))) = mset (map ft_event_id es)"
  "distinct (map fb_camera_id (build_family_timeline_buckets es))"
proof -
  let ?g = "fold group_event es []"
  have perm: "mset (concat (map fb_event_ids xs)) = mset (concat (map fb_event_ids ys))" if "mset xs = mset ys" for xs ys :: "family_timeline_bucket list"
    using that by (simp add: mset_concat) (metis mset_map sum_mset_sum_list)
  have ids: "mset (fb_event_ids (bucket_of g)) = mset (map ft_event_id (snd g))" for g
    by (simp add: bucket_of_def Let_def)
  have "mset (concat (map fb_event_ids (build_family_timeline_buckets es))) = mset (concat (map fb_event_ids (map bucket_of ?g)))"
    by (rule perm) (simp add: build_family_timeline_buckets_def)
  also have "\<dots> = mset (map ft_event_id (concat (map snd ?g)))"
    using ids by (simp add: mset_concat o_def map_concat)
  also have "\<dots> = mset (map ft_event_id es)" using fold_group_event(2) [of "[]" es] by (metis (no_types, lifting) add.right_neutral bm_inv_Nil concat.simps(1) list.simps(8) mset.simps(1) mset_map)
  finally show "mset (concat (map fb_event_ids (build_family_timeline_buckets es))) = mset (map ft_event_id es)" .
  have "distinct (map fst ?g)" using fold_group_event(1) [of "[]" es] by (simp add: bm_inv_def strict_sorted_iff)
  then have "distinct (map fb_camera_id (map bucket_of ?g))" by (simp add: o_def bucket_of_def Let_def)
  then show "distinct (map fb_camera_id (build_family_timeline_buckets es))"
    by (metis build_family_timeline_buckets_def mset_eq_imp_distinct_iff mset_map mset_sort_by)
qed


text \<open>
  C18. A family timeline shows the most recent admitted events and nothing else: the events are in falling order of their
  time, then of their id; as many as the limit (one to a hundred) allows; they and the rest make up the admitted events,
  and each comes before every one of the rest. The buckets have different cameras and share out exactly these events.
  No text in the response, key or value, is sensitive or names a local path.
\<close>

theorem timeline_shows_latest_admitted_events:
  "case build_family_timeline_from_query now_ms now events options of
     Inl _ \<Rightarrow> True
   | Inr r \<Rightarrow>
       sorted_wrt timeline_before (fr_events r) \<and> fr_event_count r = length (fr_events r) \<and>
       length (fr_events r) = min (max 1 (min 100 (fq_limit options))) (length (filter (timeline_admits options now_ms) events)) \<and>
       (\<exists>rest. mset (fr_events r @ rest) = mset (map family_timeline_event_of (filter (timeline_admits options now_ms) events)) \<and>
          list_all (\<lambda>e. list_all (timeline_before e) rest) (fr_events r)) \<and>
       mset (concat (map fb_event_ids (fr_buckets r))) = mset (map ft_event_id (fr_events r)) \<and>
       distinct (map fb_camera_id (fr_buckets r)) \<and> json_texts (timeline_response_json r) \<subseteq> {t. clean t}"
proof (cases "build_family_timeline_from_query now_ms now events options")
  case (Inr r)
  define adm where "adm = map family_timeline_event_of (filter (timeline_admits options now_ms) events)"
  define n where "n = clamp_limit (fq_limit options)"
  have r: "fr_events r = take n (sort_by timeline_before adm)" "fr_buckets r = build_family_timeline_buckets (fr_events r)"
    "fr_event_count r = length (fr_events r)" and ok: "reject_payload (timeline_response_json r) = Ok ()"
    using Inr by (auto simp: build_family_timeline_from_query_def Let_def adm_def n_def validate_family_timeline_response_def)
  have s: "sorted_wrt timeline_before (sort_by timeline_before adm)"
    by (rule sorted_sort_by) (use timeline_before_order in blast)+
  then have p: "sorted_wrt timeline_before (take n (sort_by timeline_before adm) @ drop n (sort_by timeline_before adm))" by simp
  have "mset (fr_events r @ drop n (sort_by timeline_before adm)) = mset adm"
    by (simp add: r(1) flip: mset_append)
  moreover have "list_all (\<lambda>e. list_all (timeline_before e) (drop n (sort_by timeline_before adm))) (fr_events r)"
    using p [unfolded sorted_wrt_append] by (simp add: r(1) list_all_iff)
  moreover have "sorted_wrt timeline_before (fr_events r)" using p [unfolded sorted_wrt_append] by (simp add: r(1))
  moreover have "json_texts (timeline_response_json r) \<subseteq> {t. clean t}"
    using ok reject_both_ok [of "timeline_response_json r"] by (auto simp: reject_payload_def)
  moreover have "length (fr_events r) = min n (length (filter (timeline_admits options now_ms) events))"
    by (simp add: r(1) adm_def)
  ultimately show ?thesis
    using Inr r(2,3) buckets_partition [of "fr_events r"] unfolding n_def clamp_limit_def adm_def by auto
qed simp

text \<open>The coverage of a digest counts every event once.\<close>

lemma coverage_adds_up:
  "fc_active (family_timeline_vlm_coverage_of es) + fc_degraded (family_timeline_vlm_coverage_of es)
     + fc_not_sampled (family_timeline_vlm_coverage_of es) = length es" "fc_total (family_timeline_vlm_coverage_of es) = length es"
proof -
  have "fc_active (fold observe_coverage es c) + fc_degraded (fold observe_coverage es c) + fc_not_sampled (fold observe_coverage es c) =
      length es + (fc_active c + fc_degraded c + fc_not_sampled c) \<and> fc_total (fold observe_coverage es c) = fc_total c" for c
    by (induction es arbitrary: c) (auto simp: observe_coverage_def Let_def)
  then show "fc_active (family_timeline_vlm_coverage_of es) + fc_degraded (family_timeline_vlm_coverage_of es)
     + fc_not_sampled (family_timeline_vlm_coverage_of es) = length es" "fc_total (family_timeline_vlm_coverage_of es) = length es"
    by (simp_all add: family_timeline_vlm_coverage_of_def)
qed

end
