(* ===== verification/Vision_Event_Store.thy ===== *)
theory Vision_Event_Store
  imports Vision_Events
begin

text \<open>
  The store of local vision events, from \<^verbatim>\<open>src/src/runtime/vision_event.rs\<close>: a file of JSON lines that is appended to and
  read backwards in chunks. The file is its bytes, or \<open>None\<close> when it does not exist. Serialisation of a line and its
  parsing are arguments, as are the errors of the file system; a failed write leaves a prefix of what it was given.
\<close>

section \<open>Lines\<close>

definition MAX_STORED_VISION_EVENT_LINE_BYTES :: nat where "MAX_STORED_VISION_EVENT_LINE_BYTES = 512 * 1024"
definition MAX_LOCAL_VISION_RECENT_LIMIT :: nat where "MAX_LOCAL_VISION_RECENT_LIMIT = 500"
definition MAX_LOCAL_VISION_REVERSE_SCAN_BYTES :: nat where "MAX_LOCAL_VISION_REVERSE_SCAN_BYTES = 32 * 1024 * 1024"
definition LOCAL_VISION_REVERSE_READ_CHUNK_BYTES :: nat where "LOCAL_VISION_REVERSE_READ_CHUNK_BYTES = 64 * 1024"

definition is_ascii_whitespace :: "char \<Rightarrow> bool" where
  "is_ascii_whitespace c \<longleftrightarrow> c \<in> {CHR 0x20, CHR 0x09, CHR 0x0A, CHR 0x0C, CHR 0x0D}"

definition trim_ascii_whitespace :: "string \<Rightarrow> string" where
  "trim_ascii_whitespace value = rev (dropWhile is_ascii_whitespace (rev (dropWhile is_ascii_whitespace value)))"

text \<open>What follows the first newline, if there is one.\<close>

fun after_newline :: "string \<Rightarrow> string option" where
  "after_newline [] = None"
| "after_newline (c # s) = (if c = newline then Some s else after_newline s)"

section \<open>The store\<close>

record store_env =
  se_path :: string
  se_vision :: vision_env
  se_now :: string
  se_to_line :: "stored_local_vision_event \<Rightarrow> string"
  se_parse :: "string \<Rightarrow> stored_local_vision_event option"
  se_is_json :: "string \<Rightarrow> bool"
  se_create_dir :: "string option"
  se_open :: "string option"
  se_stat :: "string option"
  se_write :: "(nat \<times> string) option"
  se_seek :: "nat \<Rightarrow> string option"
  se_read :: "nat \<Rightarrow> string option"

definition io :: "string option \<Rightarrow> string \<Rightarrow> string + unit" where
  "io outcome msg = (case outcome of None \<Rightarrow> Ok () | Some e \<Rightarrow> Err (msg @ '': '' @ e))"

definition stored_of :: "store_env \<Rightarrow> local_vision_event \<Rightarrow> stored_local_vision_event" where
  "stored_of env event = \<lparr>vs_received_at = se_now env, vs_event = event, vs_audit_record = build_audit_record event,
     vs_ha_mqtt_payload = build_ha_mqtt_payload event\<rparr>"

definition ingest_local_vision_event ::
  "store_env \<Rightarrow> local_vision_event \<Rightarrow> string option \<Rightarrow> (string + stored_local_vision_event) \<times> string option" where
  "ingest_local_vision_event env event file =
     (case and_then (validate_local_vision_event (vn_sizes (se_vision env)) event) (\<lambda>_.
        and_then (io (se_create_dir env) (''failed to create vision event store directory '' @ se_path env)) (\<lambda>_.
          io (se_open env) (''failed to open vision event store '' @ se_path env))) of
        Inl e \<Rightarrow> (Err e, file)
      | Inr _ \<Rightarrow>
          let stored = stored_of env event; line = se_to_line env stored @ [newline]; old = unwrap_or file [] in
          (case se_write env of
             None \<Rightarrow> (Ok stored, Some (old @ line))
           | Some (n, e) \<Rightarrow> (Err (''failed to append local vision event: '' @ e), Some (old @ take n line))))"

definition parse_stored_line :: "store_env \<Rightarrow> string \<Rightarrow> stored_local_vision_event option" where
  "parse_stored_line env raw_line =
     (let trimmed = trim_ascii_whitespace raw_line in
      if trimmed = [] \<or> length trimmed > MAX_STORED_VISION_EVENT_LINE_BYTES \<or> \<not> utf8_ok trimmed then None
      else se_parse env trimmed)"

abbreviation stored_event_id :: "stored_local_vision_event \<Rightarrow> string" where
  "stored_event_id stored \<equiv> ve_event_id (vs_event stored)"

fun collect_recent ::
  "store_env \<Rightarrow> nat \<Rightarrow> string list \<Rightarrow> stored_local_vision_event list \<Rightarrow> string list \<Rightarrow> stored_local_vision_event list" where
  "collect_recent env target seen events [] = events"
| "collect_recent env target seen events (raw # rest) =
     (case parse_stored_line env raw of
        None \<Rightarrow> collect_recent env target seen events rest
      | Some event \<Rightarrow>
          if stored_event_id event \<in> set seen then collect_recent env target seen events rest
          else if length (events @ [event]) = target then events @ [event]
          else collect_recent env target (stored_event_id event # seen) (events @ [event]) rest)"

definition parse_recent_events_from_tail :: "store_env \<Rightarrow> string \<Rightarrow> bool \<Rightarrow> nat \<Rightarrow> stored_local_vision_event list" where
  "parse_recent_events_from_tail env tail starts_mid_line target_limit =
     (let slice = (if starts_mid_line then unwrap_or (after_newline tail) [] else tail) in
      collect_recent env target_limit [] [] (rev (split_newline slice)))"

function recent_loop ::
  "store_env \<Rightarrow> string \<Rightarrow> nat \<Rightarrow> nat \<Rightarrow> nat \<Rightarrow> string \<Rightarrow> stored_local_vision_event list
    \<Rightarrow> string + stored_local_vision_event list" where
  "recent_loop env file target position scanned tail events =
     (if 0 < position \<and> length events < target \<and> scanned < MAX_LOCAL_VISION_REVERSE_SCAN_BYTES then
        let read_size = min (min position LOCAL_VISION_REVERSE_READ_CHUNK_BYTES) (MAX_LOCAL_VISION_REVERSE_SCAN_BYTES - scanned);
            position' = position - read_size
        in case and_then (io (se_seek env position') ''failed to seek vision event store'') (\<lambda>_.
             io (se_read env position') ''failed to read vision event store tail'') of
             Inl e \<Rightarrow> Err e
           | Inr _ \<Rightarrow>
               let tail' = take read_size (drop position' file) @ tail in
               recent_loop env file target position' (scanned + read_size) tail'
                 (parse_recent_events_from_tail env tail' (0 < position') target)
      else Ok events)"
  by pat_completeness auto
termination
  by (relation "measure (\<lambda>(_, _, _, position, _). position)") (auto simp: LOCAL_VISION_REVERSE_READ_CHUNK_BYTES_def)

declare recent_loop.simps [simp del]

definition recent_target :: "nat \<Rightarrow> nat" where
  "recent_target limit = min (max limit 1) MAX_LOCAL_VISION_RECENT_LIMIT"

definition list_recent_local_vision_events ::
  "store_env \<Rightarrow> nat \<Rightarrow> string option \<Rightarrow> string + stored_local_vision_event list" where
  "list_recent_local_vision_events env limit file =
     (case file of None \<Rightarrow> Ok []
      | Some bytes \<Rightarrow>
          and_then (io (se_open env) (''failed to open vision event store '' @ se_path env)) (\<lambda>_.
          and_then (io (se_stat env) ''failed to stat vision event store'') (\<lambda>_.
            recent_loop env bytes (recent_target limit) (length bytes) 0 [] [])))"

section \<open>Statistics\<close>

record local_vision_event_store_stats =
  sx_exists :: bool
  sx_file_bytes :: nat
  sx_line_count :: nat
  sx_line_count_exact :: bool
  sx_bounded :: bool
  sx_scanned_bytes :: nat
  sx_largest_line_bytes :: nat
  sx_skipped_malformed_count :: nat
  sx_skipped_oversized_count :: nat
  sx_max_line_bytes :: nat
  sx_metadata_only :: bool

definition observe_vision_event_store_stats_line ::
  "store_env \<Rightarrow> string \<Rightarrow> local_vision_event_store_stats \<Rightarrow> local_vision_event_store_stats" where
  "observe_vision_event_store_stats_line env raw_line stats =
     (let trimmed = trim_ascii_whitespace raw_line in
      if trimmed = [] then stats
      else
        let stats' = stats\<lparr>sx_line_count := sx_line_count stats + 1,
              sx_largest_line_bytes := max (sx_largest_line_bytes stats) (length trimmed)\<rparr>
        in if length trimmed > MAX_STORED_VISION_EVENT_LINE_BYTES
           then stats'\<lparr>sx_skipped_oversized_count := sx_skipped_oversized_count stats' + 1\<rparr>
           else if \<not> utf8_ok trimmed \<or> \<not> se_is_json env trimmed
           then stats'\<lparr>sx_skipped_malformed_count := sx_skipped_malformed_count stats' + 1\<rparr>
           else stats')"

definition empty_stats :: local_vision_event_store_stats where
  "empty_stats = \<lparr>sx_exists = False, sx_file_bytes = 0, sx_line_count = 0, sx_line_count_exact = True, sx_bounded = False,
     sx_scanned_bytes = 0, sx_largest_line_bytes = 0, sx_skipped_malformed_count = 0, sx_skipped_oversized_count = 0,
     sx_max_line_bytes = MAX_STORED_VISION_EVENT_LINE_BYTES, sx_metadata_only = True\<rparr>"

text \<open>\<^verbatim>\<open>BufRead::lines\<close> fails at the first line that is not UTF-8, and drops a carriage return at the end of a line.\<close>

fun observe_lines :: "store_env \<Rightarrow> string list \<Rightarrow> local_vision_event_store_stats \<Rightarrow> string + local_vision_event_store_stats" where
  "observe_lines env [] stats = Ok stats"
| "observe_lines env (l # ls) stats =
     (if \<not> utf8_ok l then Err ''failed to read vision event store: stream did not contain valid UTF-8''
      else observe_lines env ls (observe_vision_event_store_stats_line env
        (trim (unwrap_or (strip_suffix_char l (CHR 0x0D)) l)) stats))"

definition local_vision_event_store_stats_of ::
  "store_env \<Rightarrow> string option \<Rightarrow> string + local_vision_event_store_stats" where
  "local_vision_event_store_stats_of env file =
     (case file of None \<Rightarrow> Ok empty_stats
      | Some bytes \<Rightarrow>
          let n = length bytes; big = (MAX_LOCAL_VISION_REVERSE_SCAN_BYTES < n) in
          and_then (io (se_stat env) (''failed to stat vision event store '' @ se_path env)) (\<lambda>_.
          and_then (io (se_open env) (''failed to open vision event store '' @ se_path env)) (\<lambda>_.
            let stats = empty_stats\<lparr>sx_exists := True, sx_file_bytes := n, sx_line_count_exact := \<not> big, sx_bounded := big\<rparr> in
            if \<not> big then observe_lines env (split_newline bytes) (stats\<lparr>sx_scanned_bytes := n\<rparr>)
            else
              let start = n - MAX_LOCAL_VISION_REVERSE_SCAN_BYTES in
              and_then (io (se_seek env start) ''failed to seek vision event store stats tail'') (\<lambda>_.
              and_then (io (se_read env start) ''failed to read vision event store stats tail'') (\<lambda>_.
                Ok (fold (observe_vision_event_store_stats_line env)
                  (split_newline (unwrap_or (after_newline (drop start bytes)) []))
                  (stats\<lparr>sx_scanned_bytes := MAX_LOCAL_VISION_REVERSE_SCAN_BYTES\<rparr>)))))))"

section \<open>Reading backwards is reading forwards\<close>

text \<open>The newest record of every event, newest first.\<close>

fun newest_by_id :: "string list \<Rightarrow> stored_local_vision_event list \<Rightarrow> stored_local_vision_event list" where
  "newest_by_id seen [] = []"
| "newest_by_id seen (e # es) =
     (if stored_event_id e \<in> set seen then newest_by_id seen es else e # newest_by_id (stored_event_id e # seen) es)"

definition recent_events :: "store_env \<Rightarrow> string \<Rightarrow> stored_local_vision_event list" where
  "recent_events env bytes = newest_by_id [] (List.map_filter (parse_stored_line env) (rev (split_newline bytes)))"

text \<open>The part of the file that is read: all of it, or the whole lines of its last 32 megabytes.\<close>

definition scan_window :: "string \<Rightarrow> string" where
  "scan_window bytes =
     (if length bytes \<le> MAX_LOCAL_VISION_REVERSE_SCAN_BYTES then bytes
      else unwrap_or (after_newline (drop (length bytes - MAX_LOCAL_VISION_REVERSE_SCAN_BYTES) bytes)) [])"

lemma after_newline_Some: "after_newline s = Some r \<Longrightarrow> \<exists>p. s = p @ newline # r"
proof (induction s)
  case (Cons c s)
  then show ?case by (cases "c = newline") (auto intro: exI [where x = "[]"] exI [where x = "c # _"] simp: append_eq_Cons_conv)
qed simp

lemma collect_recent_eq:
  assumes "length events < target"
  shows "collect_recent env target seen events raws =
    take target (events @ newest_by_id seen (List.map_filter (parse_stored_line env) raws))"
  using assms
proof (induction raws arbitrary: seen events)
  case (Cons raw rest)
  then show ?case by (auto simp: List.map_filter_simps take_Cons' split: option.split)
qed (simp add: List.map_filter_simps)

lemma newest_by_id_append_prefix: "\<exists>zs. newest_by_id seen (xs @ ys) = newest_by_id seen xs @ zs"
  by (induction xs arbitrary: seen) auto

lemma parse_tail_eq:
  "0 < target \<Longrightarrow> parse_recent_events_from_tail env tail mid target =
     take target (recent_events env (if mid then unwrap_or (after_newline tail) [] else tail))"
  by (simp add: parse_recent_events_from_tail_def collect_recent_eq recent_events_def Let_def)

lemma recent_events_suffix:
  assumes "bytes = p @ newline # r"
  shows "\<exists>zs. recent_events env bytes = recent_events env r @ zs"
proof -
  have "List.map_filter f (xs @ ys) = List.map_filter f xs @ List.map_filter f ys"
    for f :: "string \<Rightarrow> stored_local_vision_event option" and xs ys
    by (simp add: List.map_filter_def)
  then show ?thesis
    by (simp add: recent_events_def assms split_newline_append newest_by_id_append_prefix)
qed

lemma recent_events_Nil [simp]: "recent_events env [] = []"
  by (simp add: recent_events_def parse_stored_line_def trim_ascii_whitespace_def List.map_filter_simps)

lemma after_newline_append: "after_newline (q @ t) = (case after_newline q of None \<Rightarrow> after_newline t | Some r \<Rightarrow> Some (r @ t))"
  by (induction q) auto

text \<open>The whole lines from any position inside the window are lines of the window.\<close>

lemma window_lines:
  assumes "length bytes - MAX_LOCAL_VISION_REVERSE_SCAN_BYTES \<le> position"
  shows "\<exists>zs. recent_events env (scan_window bytes) = recent_events env (unwrap_or (after_newline (drop position bytes)) []) @ zs"
proof (cases "after_newline (drop position bytes)")
  case (Some r)
  let ?n = "length bytes - MAX_LOCAL_VISION_REVERSE_SCAN_BYTES"
  obtain p where p: "drop position bytes = p @ newline # r" using after_newline_Some [OF Some] by blast
  have split: "drop ?n bytes = take (position - ?n) (drop ?n bytes) @ p @ newline # r"
    using p assms by (metis append_take_drop_id drop_drop le_add_diff_inverse2)
  have "scan_window bytes = r \<or> (\<exists>q. scan_window bytes = q @ newline # r)"
  proof (cases "length bytes \<le> MAX_LOCAL_VISION_REVERSE_SCAN_BYTES")
    case True
    then show ?thesis using split by (metis append_assoc diff_is_0_eq drop0 scan_window_def)
  next
    case False
    have "after_newline (drop ?n bytes) = Some r \<or> (\<exists>q. after_newline (drop ?n bytes) = Some (q @ newline # r))"
      using Some by (subst split, subst (2) split)
        (auto simp: after_newline_append p split: option.splits intro: exI [where x = "_ @ p"])
    then show ?thesis using False by (auto simp: scan_window_def)
  qed
  then show ?thesis using Some recent_events_suffix by fastforce
qed simp

text \<open>The loop reads chunk after chunk before the part it has, until it has enough.\<close>

lemma recent_loop_correct:
  assumes io: "\<forall>p. se_seek env p = None \<and> se_read env p = None" and target: "0 < target"
    and "position + scanned = length bytes" "tail = drop position bytes" "scanned \<le> MAX_LOCAL_VISION_REVERSE_SCAN_BYTES"
    and "events = parse_recent_events_from_tail env tail (0 < position) target"
  shows "recent_loop env bytes target position scanned tail events = Ok (take target (recent_events env (scan_window bytes)))"
  using assms
proof (induction env bytes target position scanned tail events rule: recent_loop.induct)
  case (1 env bytes target position scanned tail events)
  let ?cond = "0 < position \<and> length events < target \<and> scanned < MAX_LOCAL_VISION_REVERSE_SCAN_BYTES"
  have ev: "events = take target (recent_events env (if 0 < position then unwrap_or (after_newline (drop position bytes)) [] else bytes))"
    using "1.prems" by (simp add: parse_tail_eq)
  show ?case
  proof (cases ?cond)
    case True
    define read_size where "read_size = min (min position LOCAL_VISION_REVERSE_READ_CHUNK_BYTES) (MAX_LOCAL_VISION_REVERSE_SCAN_BYTES - scanned)"
    have rs: "read_size \<le> position" "scanned + read_size \<le> MAX_LOCAL_VISION_REVERSE_SCAN_BYTES"
      using True by (auto simp: read_size_def)
    have tail: "take read_size (drop (position - read_size) bytes) @ tail = drop (position - read_size) bytes"
      using rs(1) "1.prems"(4) by (metis append_take_drop_id drop_drop le_add_diff_inverse)
    have "position - read_size + (scanned + read_size) = length bytes" using rs(1) "1.prems"(3) by simp
    note ih = "1.IH" [OF True read_size_def refl, of "()" , OF _ refl "1.prems"(1,2) this tail rs(2) refl]
    show ?thesis
      using ih "1.prems"(1) True by (subst recent_loop.simps) (simp add: io_def read_size_def [symmetric] Let_def)
  next
    case False
    have "events = take target (recent_events env (scan_window bytes))"
    proof (cases "position = 0")
      case True
      then show ?thesis using ev "1.prems"(3,5) by (simp add: scan_window_def)
    next
      case pos: False
      then obtain zs where zs: "recent_events env (scan_window bytes) =
          recent_events env (unwrap_or (after_newline (drop position bytes)) []) @ zs"
        using window_lines [of bytes position env] "1.prems"(3,5) by fastforce
      show ?thesis
      proof (cases "length events < target")
        case False
        then show ?thesis using ev pos zs by simp
      next
        case True
        then have "scanned = MAX_LOCAL_VISION_REVERSE_SCAN_BYTES" using \<open>\<not> ?cond\<close> pos "1.prems"(5) by simp
        then have "position = length bytes - MAX_LOCAL_VISION_REVERSE_SCAN_BYTES" using "1.prems"(3) by simp
        then have "scan_window bytes = unwrap_or (after_newline (drop position bytes)) []"
          using pos by (auto simp: scan_window_def)
        then show ?thesis using ev pos by simp
      qed
    qed
    then show ?thesis using False by (subst recent_loop.simps) auto
  qed
qed

definition io_ok :: "store_env \<Rightarrow> bool" where
  "io_ok env \<longleftrightarrow> se_open env = None \<and> se_stat env = None \<and> (\<forall>p. se_seek env p = None \<and> se_read env p = None)"

lemma recent_target_pos [simp]: "0 < recent_target limit"
  by (simp add: recent_target_def MAX_LOCAL_VISION_RECENT_LIMIT_def)

lemma list_recent_eq:
  assumes "io_ok env"
  shows "list_recent_local_vision_events env limit (Some bytes) =
    Ok (take (recent_target limit) (recent_events env (scan_window bytes)))"
proof -
  have "parse_recent_events_from_tail env [] True (recent_target limit) = []"
    by (simp add: parse_tail_eq)
  moreover have "parse_recent_events_from_tail env [] False (recent_target limit) = []"
    by (simp add: parse_tail_eq)
  ultimately have "parse_recent_events_from_tail env [] (0 < length bytes) (recent_target limit) = []"
    by (cases "0 < length bytes") auto
  moreover have "recent_loop env bytes (recent_target limit) (length bytes) 0 []
      (parse_recent_events_from_tail env [] (0 < length bytes) (recent_target limit)) =
      Ok (take (recent_target limit) (recent_events env (scan_window bytes)))"
    using assms by (intro recent_loop_correct) (auto simp: io_ok_def)
  ultimately show ?thesis
    using assms by (simp add: list_recent_local_vision_events_def io_def io_ok_def)
qed

text \<open>
  C16. Reading the event store backwards in chunks of 64 kilobytes gives what reading it forwards would: when no read fails,
  the result is the newest record of every event, newest first, cut to the limit (from one to five hundred), of
  the lines of the file, or of the whole lines in its last 32 megabytes when it is larger. Where the chunks end
  inside a line or a character does not matter, and the events of the result have different ids.
\<close>

theorem reverse_scan_matches_forward_reading:
  assumes "io_ok env"
  shows "\<exists>events. list_recent_local_vision_events env limit (Some bytes) = Ok events \<and>
    events = take (recent_target limit) (recent_events env (scan_window bytes)) \<and>
    distinct (map stored_event_id events) \<and> 1 \<le> recent_target limit \<and> recent_target limit \<le> 500 \<and>
    (length bytes \<le> 32 * 1024 * 1024 \<longrightarrow> scan_window bytes = bytes)"
proof -
  have d: "distinct (map stored_event_id (newest_by_id seen es)) \<and>
      set (map stored_event_id (newest_by_id seen es)) \<inter> set seen = {}" for seen es
  proof (induction es arbitrary: seen)
    case (Cons e es)
    then show ?case using Cons.IH [of seen] Cons.IH [of "stored_event_id e # seen"] by auto
  qed simp
  have "distinct (map stored_event_id (recent_events env (scan_window bytes)))"
    using d by (simp add: recent_events_def)
  then have "distinct (map stored_event_id (take (recent_target limit) (recent_events env (scan_window bytes))))"
    by (simp add: take_map [symmetric])
  then show ?thesis
    using list_recent_eq [OF assms] recent_target_pos [of limit]
    by (simp add: scan_window_def recent_target_def MAX_LOCAL_VISION_RECENT_LIMIT_def MAX_LOCAL_VISION_REVERSE_SCAN_BYTES_def)
qed

section \<open>Appending and reading back\<close>

text \<open>What the format of a line promises: it is one line without surrounding white space, and it parses to what it was.\<close>

definition line_round_trips :: "store_env \<Rightarrow> stored_local_vision_event \<Rightarrow> bool" where
  "line_round_trips env stored \<longleftrightarrow>
     (let line = se_to_line env stored in
      line \<noteq> [] \<and> newline \<notin> set line \<and> trim_ascii_whitespace line = line \<and> utf8_ok line \<and> se_parse env line = Some stored)"

lemma newest_by_id_cong: "set seen = set seen' \<Longrightarrow> newest_by_id seen es = newest_by_id seen' es"
proof (induction es arbitrary: seen seen')
  case (Cons e es)
  show ?case
    using Cons.prems Cons.IH [of seen seen'] Cons.IH [of "stored_event_id e # seen" "stored_event_id e # seen'"] by simp
qed simp

lemma newest_by_id_seen: "newest_by_id (i # seen) es = filter (\<lambda>e. stored_event_id e \<noteq> i) (newest_by_id seen es)"
proof (induction es arbitrary: seen)
  case (Cons e es)
  have "newest_by_id (stored_event_id e # i # seen) es = newest_by_id (i # stored_event_id e # seen) es"
    by (rule newest_by_id_cong) auto
  then show ?case by (auto simp: Cons.IH)
qed simp

text \<open>
  An ingested event is the first of the recent events: when the store ends with a complete line, its line
  parses back, and the line is not oversized, then after a successful ingest reading the store gives the
  stored event first, followed by the earlier events except an older record of the same event, cut to the limit.
\<close>

theorem ingested_event_is_listed_first:
  assumes ing: "ingest_local_vision_event env event file = (Ok stored, Some bytes)" and fmt: "line_round_trips env stored" and io: "io_ok env"
    and old: "unwrap_or file [] = [] \<or> last (unwrap_or file []) = newline"
    and small: "length bytes \<le> MAX_LOCAL_VISION_REVERSE_SCAN_BYTES" "length (se_to_line env stored) \<le> MAX_STORED_VISION_EVENT_LINE_BYTES"
  shows "vs_event stored = event \<and> list_recent_local_vision_events env limit (Some bytes) =
    Ok (take (recent_target limit)
      (stored # filter (\<lambda>e. stored_event_id e \<noteq> ve_event_id event) (recent_events env (unwrap_or file []))))"
proof -
  let ?l = "se_to_line env stored"
  have b: "bytes = unwrap_or file [] @ ?l @ [newline]" and st: "stored = stored_of env event"
    using ing by (auto simp: ingest_local_vision_event_def Let_def split: sum.splits option.splits)
  note f = fmt [unfolded line_round_trips_def Let_def]
  have p: "parse_stored_line env ?l = Some stored" "parse_stored_line env [] = None"
    using f small(2) by (simp_all add: parse_stored_line_def trim_ascii_whitespace_def)
  have l: "split_newline (?l @ [newline]) = [?l, []]"
    using split_newline_append [of ?l "[]"] split_newline_single [of ?l] f by simp
  have "recent_events env bytes = stored # filter (\<lambda>e. stored_event_id e \<noteq> ve_event_id event) (recent_events env (unwrap_or file []))"
  proof (cases "unwrap_or file [] = []")
    case True
    then show ?thesis using b l p by (simp add: recent_events_def List.map_filter_simps)
  next
    case False
    then obtain q where q: "unwrap_or file [] = q @ [newline]" using old by (metis append_butlast_last_id)
    have "split_newline bytes = split_newline q @ [?l, []]"
      using b q l split_newline_append [of q "?l @ [newline]"] by simp
    moreover have "split_newline (unwrap_or file []) = split_newline q @ [[]]"
      using q split_newline_append [of q "[]"] by simp
    ultimately show ?thesis
      using p st by (simp add: recent_events_def List.map_filter_simps newest_by_id_seen stored_of_def)
  qed
  then show ?thesis using list_recent_eq [OF io] small(1) st by (simp add: scan_window_def stored_of_def)
qed

text \<open>
  The store does not look at how the file ends: after a write that was cut short, the next event is appended to the torn
  line, its ingest succeeds, and it is not among the recent events.
\<close>

lemma event_after_torn_write_is_lost:
  assumes "ingest_local_vision_event env event (Some (old @ newline # torn)) = (Ok stored, Some bytes)" "io_ok env"
    and "newline \<notin> set torn" "newline \<notin> set (se_to_line env stored)" "parse_stored_line env (torn @ se_to_line env stored) = None"
    and "length bytes \<le> MAX_LOCAL_VISION_REVERSE_SCAN_BYTES"
  shows "list_recent_local_vision_events env limit (Some bytes) = list_recent_local_vision_events env limit (Some (old @ [newline]))"
proof -
  let ?l = "torn @ se_to_line env stored"
  have b: "bytes = old @ newline # ?l @ [newline]"
    using assms(1) by (auto simp: ingest_local_vision_event_def Let_def unwrap_or_def split: sum.splits option.splits)
  have "split_newline (?l @ [newline]) = [?l, []]"
    using split_newline_append [of ?l "[]"] split_newline_single [of ?l] assms(3,4) by simp
  then have "split_newline bytes = split_newline old @ [?l, []]" using b split_newline_append [of old "?l @ [newline]"] by simp
  moreover have "split_newline (old @ [newline]) = split_newline old @ [[]]" using split_newline_append [of old "[]"] by simp
  moreover have "parse_stored_line env [] = None" by (simp add: parse_stored_line_def trim_ascii_whitespace_def)
  ultimately have "recent_events env bytes = recent_events env (old @ [newline])"
    using assms(5) by (simp add: recent_events_def List.map_filter_simps)
  moreover have "scan_window bytes = bytes" "scan_window (old @ [newline]) = old @ [newline]"
    using assms(6) b by (simp_all add: scan_window_def)
  ultimately show ?thesis using list_recent_eq [OF assms(2)] by simp
qed

section \<open>A concrete store\<close>

definition sample_event :: local_vision_event where
  "sample_event = \<lparr>ve_event_id = ''e1'', ve_camera_id = ''cam'', ve_event_type = ''person_detected'', ve_confidence = 1 / 2,
     ve_labels = [''person''], ve_summary = ''ok'', ve_snapshot_artifact = \<lparr>sa_artifact_id = None, sa_path = None,
       sa_mime_type = None, sa_byte_size = None, sa_sha256 = None, sa_source = None\<rparr>, ve_started_at = ''t'', ve_analyzer = ''a'',
     ve_latency_ms = 0, ve_metrics = JNull, ve_vlm = None\<rparr>"

definition sample_vision_env :: vision_env where
  "sample_vision_env = \<lparr>vn_sizes = \<lparr>sz_event_bytes = (\<lambda>_. 100), sz_json_bytes = (\<lambda>_. 4)\<rparr>, vn_to_f32 = id,
     vn_hex_sha256 = (\<lambda>_. replicate 64 (CHR ''a''))\<rparr>"

definition sample_stored :: stored_local_vision_event where
  "sample_stored = \<lparr>vs_received_at = ''now'', vs_event = sample_event, vs_audit_record = build_audit_record sample_event,
     vs_ha_mqtt_payload = build_ha_mqtt_payload sample_event\<rparr>"

definition sample_store :: store_env where
  "sample_store = \<lparr>se_path = ''events.jsonl'', se_vision = sample_vision_env, se_now = ''now'', se_to_line = (\<lambda>_. ''x''),
     se_parse = (\<lambda>l. if l = ''x'' then Some sample_stored else None), se_is_json = (\<lambda>_. True), se_create_dir = None,
     se_open = None, se_stat = None, se_write = None, se_seek = (\<lambda>_. None), se_read = (\<lambda>_. None)\<rparr>"

lemma sample_valid: "validate_local_vision_event (vn_sizes sample_vision_env) sample_event = Ok ()"
proof -
  have "reject_sensitive_value (event_json sample_event) = Ok ()" "reject_local_path_value (event_json sample_event) = Ok ()"
    by code_simp+
  moreover have "validate_local_vision_event_size (vn_sizes sample_vision_env) sample_event = Ok ()"
    by (simp add: validate_local_vision_event_size_def exceeds_bytes_def validate_text_len_def validate_string_vec_len_def
      sample_event_def sample_vision_env_def chars_count_def is_continuation_def and_then_def ensure_def
      MAX_LOCAL_VISION_EVENT_JSON_BYTES_def MAX_LOCAL_VISION_TEXT_CHARS_def MAX_LOCAL_VISION_LABELS_def MAX_LOCAL_VISION_METRICS_BYTES_def)
  moreover have "\<not> blank ''e1''" "\<not> blank ''cam''" "\<not> blank ''person_detected''"
    by code_simp+
  ultimately show ?thesis
    by (simp add: validate_local_vision_event_def and_then_def ensure_def) (simp add: sample_event_def)
qed

lemma sample_io: "io_ok sample_store"
  by (simp add: io_ok_def sample_store_def)

lemma sample_ingest: "ingest_local_vision_event sample_store sample_event None = (Ok sample_stored, Some [CHR ''x'', newline])"
  using sample_valid
  by (simp add: ingest_local_vision_event_def sample_store_def and_then_def io_def stored_of_def sample_stored_def unwrap_or_def Let_def)

lemma ingested_event_is_listed_first_witness:
  "vs_event sample_stored = sample_event \<and>
   list_recent_local_vision_events sample_store 5 (Some [CHR ''x'', newline]) = Ok [sample_stored]"
proof -
  have t: "line_round_trips sample_store sample_stored"
    by (simp add: line_round_trips_def sample_store_def trim_ascii_whitespace_def is_ascii_whitespace_def newline_def)
  have "recent_events sample_store [] = []" by simp
  then show ?thesis
    using ingested_event_is_listed_first [OF sample_ingest t sample_io, of 5]
    by (simp add: unwrap_or_def sample_store_def MAX_LOCAL_VISION_REVERSE_SCAN_BYTES_def MAX_STORED_VISION_EVENT_LINE_BYTES_def
      recent_target_def MAX_LOCAL_VISION_RECENT_LIMIT_def)
qed

lemma reverse_scan_matches_forward_reading_witness:
  "list_recent_local_vision_events sample_store 3 (Some [CHR ''x'', newline, CHR ''x'', newline]) = Ok [sample_stored]"
proof -
  have "recent_events sample_store [CHR ''x'', newline, CHR ''x'', newline] = [sample_stored]"
    by (simp add: recent_events_def List.map_filter_simps parse_stored_line_def sample_store_def trim_ascii_whitespace_def
      is_ascii_whitespace_def newline_def MAX_STORED_VISION_EVENT_LINE_BYTES_def)
  then show ?thesis
    using reverse_scan_matches_forward_reading [OF sample_io, of 3 "[CHR ''x'', newline, CHR ''x'', newline]"]
    by (simp add: recent_target_def MAX_LOCAL_VISION_RECENT_LIMIT_def)
qed

end
