(* ===== verification/Family_Memory.thy ===== *)
theory Family_Memory
  imports Family_Timeline Vision_Event_Store
begin

text \<open>
  The family memory, from \<^verbatim>\<open>src/src/runtime/family_memory.rs\<close>: feedback on vision events in a file of JSON lines,
  the overlays computed from it, their application to events and timelines, and the compaction of the file. The file
  is its bytes, or \<open>None\<close> when it does not exist; clock, fresh ids, the format of a line and the outcomes of the file
  system are fields of the environment.
\<close>

section \<open>Records\<close>

definition DEFAULT_FAMILY_MEMORY_FEEDBACK_LIMIT :: nat where "DEFAULT_FAMILY_MEMORY_FEEDBACK_LIMIT = 5000"
definition FAMILY_MEMORY_COMPACT_AFTER_RECORDS :: nat where
  "FAMILY_MEMORY_COMPACT_AFTER_RECORDS = DEFAULT_FAMILY_MEMORY_FEEDBACK_LIMIT + 500"
definition MAX_FAMILY_MEMORY_LINE_BYTES :: nat where "MAX_FAMILY_MEMORY_LINE_BYTES = 32 * 1024"
definition MAX_CORRECTED_SUMMARY_CHARS :: nat where "MAX_CORRECTED_SUMMARY_CHARS = 500"
definition MAX_CORRECTED_LABELS :: nat where "MAX_CORRECTED_LABELS = 16"
definition MAX_CORRECTED_LABEL_CHARS :: nat where "MAX_CORRECTED_LABEL_CHARS = 64"
definition MAX_FEEDBACK_NOTE_CHARS :: nat where "MAX_FEEDBACK_NOTE_CHARS = 500"

datatype family_memory_feedback_action = ConfirmUseful | Favorite | Hide | Restore | CorrectSummary | CorrectLabels

fun feedback_action_str :: "family_memory_feedback_action \<Rightarrow> string" where
  "feedback_action_str ConfirmUseful = ''confirm_useful''"
| "feedback_action_str Favorite = ''favorite''"
| "feedback_action_str Hide = ''hide''"
| "feedback_action_str Restore = ''restore''"
| "feedback_action_str CorrectSummary = ''correct_summary''"
| "feedback_action_str CorrectLabels = ''correct_labels''"

record family_memory_feedback_request =
  mq_action :: string
  mq_corrected_summary :: "string option"
  mq_corrected_labels :: "string list option"
  mq_note :: "string option"

record family_memory_feedback_record =
  mr_feedback_id :: string
  mr_event_id :: string
  mr_action :: family_memory_feedback_action
  mr_created_at :: string
  mr_source :: string
  mr_corrected_summary :: "string option"
  mr_corrected_labels :: "string list option"
  mr_note :: "string option"
  mr_metadata_only :: bool
  mr_secret_scan :: string

record family_memory_overlay =
  mo_event_id :: string
  mo_confirmed_useful :: bool
  mo_favorite :: bool
  mo_hidden :: bool
  mo_corrected_summary :: "string option"
  mo_corrected_labels :: "string list option"
  mo_corrected_at :: "string option"
  mo_updated_at :: "string option"
  mo_feedback_count :: nat

definition corrected :: "family_memory_overlay \<Rightarrow> bool" where
  "corrected overlay \<longleftrightarrow> mo_corrected_summary overlay \<noteq> None \<or> mo_corrected_labels overlay \<noteq> None"

record family_memory_stats =
  mt_generated_at :: string
  mt_total_feedback_records :: nat
  mt_event_count :: nat
  mt_confirmed_count :: nat
  mt_favorite_count :: nat
  mt_hidden_count :: nat
  mt_corrected_count :: nat
  mt_bounded_limit :: nat
  mt_metadata_only :: bool
  mt_secret_scan :: string

record family_memory_event_view =
  mv_event :: family_timeline_event
  mv_overlay :: family_memory_overlay

record family_memory_event_filter =
  mf_include_hidden :: bool
  mf_favorites_only :: bool
  mf_hidden_only :: bool
  mf_corrected_only :: bool
  mf_limit :: nat

definition default_event_filter :: family_memory_event_filter where
  "default_event_filter = \<lparr>mf_include_hidden = False, mf_favorites_only = False, mf_hidden_only = False,
     mf_corrected_only = False, mf_limit = 50\<rparr>"

definition empty_overlay :: "string \<Rightarrow> family_memory_overlay" where
  "empty_overlay event_id = \<lparr>mo_event_id = event_id, mo_confirmed_useful = False, mo_favorite = False, mo_hidden = False,
     mo_corrected_summary = None, mo_corrected_labels = None, mo_corrected_at = None, mo_updated_at = None, mo_feedback_count = 0\<rparr>"

definition jskip_str :: "string \<Rightarrow> string option \<Rightarrow> (string \<times> json) list" where
  "jskip_str key value = (case value of None \<Rightarrow> [] | Some s \<Rightarrow> [(key, JStr s)])"

definition jskip_strs :: "string \<Rightarrow> string list option \<Rightarrow> (string \<times> json) list" where
  "jskip_strs key value = (case value of None \<Rightarrow> [] | Some ss \<Rightarrow> [(key, jstrs ss)])"

definition feedback_json :: "family_memory_feedback_record \<Rightarrow> json" where
  "feedback_json r = jobj ([(''feedback_id'', JStr (mr_feedback_id r)), (''event_id'', JStr (mr_event_id r)),
     (''action'', JStr (feedback_action_str (mr_action r))), (''created_at'', JStr (mr_created_at r)), (''source'', JStr (mr_source r))]
     @ jskip_str ''corrected_summary'' (mr_corrected_summary r) @ jskip_strs ''corrected_labels'' (mr_corrected_labels r)
     @ jskip_str ''note'' (mr_note r)
     @ [(''metadata_only'', JBool (mr_metadata_only r)), (''secret_scan'', JStr (mr_secret_scan r))])"

definition overlay_json :: "family_memory_overlay \<Rightarrow> json" where
  "overlay_json v = jobj ([(''event_id'', JStr (mo_event_id v)), (''confirmed_useful'', JBool (mo_confirmed_useful v)),
     (''favorite'', JBool (mo_favorite v)), (''hidden'', JBool (mo_hidden v))]
     @ jskip_str ''corrected_summary'' (mo_corrected_summary v) @ jskip_strs ''corrected_labels'' (mo_corrected_labels v)
     @ jskip_str ''corrected_at'' (mo_corrected_at v) @ jskip_str ''updated_at'' (mo_updated_at v)
     @ [(''feedback_count'', JInt (int (mo_feedback_count v)))])"

definition event_view_json :: "family_memory_event_view \<Rightarrow> json" where
  "event_view_json v = jobj (timeline_event_members (mv_event v) @ [(''overlay'', overlay_json (mv_overlay v))])"

section \<open>Sanitising feedback\<close>

definition parse_family_memory_feedback_action :: "string \<Rightarrow> string + family_memory_feedback_action" where
  "parse_family_memory_feedback_action value =
     (let v = to_ascii_lowercase (trim value) in
      if v \<in> {''confirm_useful'', ''confirm'', ''useful''} then Ok ConfirmUseful
      else if v \<in> {''favorite'', ''favourite''} then Ok Favorite
      else if v = ''hide'' then Ok Hide
      else if v \<in> {''restore'', ''unhide''} then Ok Restore
      else if v \<in> {''correct_summary'', ''summary''} then Ok CorrectSummary
      else if v \<in> {''correct_labels'', ''labels''} then Ok CorrectLabels
      else Err ''unsupported family memory feedback action'')"

definition sanitize_corrected_summary :: "string \<Rightarrow> string + string" where
  "sanitize_corrected_summary value =
     (let summary = trim value; clipped = chars_take MAX_CORRECTED_SUMMARY_CHARS summary in
      if summary = [] then Err ''corrected summary cannot be empty''
      else and_then (reject_payload (jobj [(''corrected_summary'', JStr clipped)])) (\<lambda>_. Ok clipped))"

fun corrected_labels_loop :: "string list \<Rightarrow> string list \<Rightarrow> string + string list" where
  "corrected_labels_loop labels [] = Ok labels"
| "corrected_labels_loop labels (value # rest) =
     (let label = chars_take MAX_CORRECTED_LABEL_CHARS (to_ascii_lowercase (trim value)) in
      if label = [] \<or> label \<in> set labels then corrected_labels_loop labels rest
      else and_then (reject_payload (jobj [(''label'', JStr label)])) (\<lambda>_. corrected_labels_loop (labels @ [label]) rest))"

definition sanitize_corrected_labels :: "string list \<Rightarrow> string + string list" where
  "sanitize_corrected_labels values =
     and_then (corrected_labels_loop [] (take MAX_CORRECTED_LABELS values)) (\<lambda>labels.
       if labels = [] then Err ''corrected labels cannot be empty'' else Ok labels)"

definition sanitize_feedback_note :: "string \<Rightarrow> string + string" where
  "sanitize_feedback_note value =
     (let note = chars_take MAX_FEEDBACK_NOTE_CHARS (trim value) in
      and_then (reject_payload (jobj [(''note'', JStr note)])) (\<lambda>_. Ok note))"

text \<open>\<^verbatim>\<open>option.map(f).transpose()?\<close>: no value, or the value of a call that may fail.\<close>

definition transpose_map :: "('a \<Rightarrow> string + 'b) \<Rightarrow> 'a option \<Rightarrow> string + 'b option" where
  "transpose_map f value = (case value of None \<Rightarrow> Ok None | Some x \<Rightarrow> and_then (f x) (\<lambda>y. Ok (Some y)))"

record memory_env =
  me_path :: string
  me_now :: string
  me_uuid :: string
  me_to_line :: "family_memory_feedback_record \<Rightarrow> string"
  me_parse :: "string \<Rightarrow> family_memory_feedback_record option"
  me_create_dir :: "string option"
  me_open_append :: "string option"
  me_append :: "(nat \<times> string) option"
  me_open :: "string option"
  me_read :: "nat \<Rightarrow> string option"
  me_create :: "string option"
  me_rewrite :: "(nat \<times> string) option"

definition sanitize_family_memory_feedback ::
  "memory_env \<Rightarrow> string \<Rightarrow> family_memory_feedback_request \<Rightarrow> string \<Rightarrow> string + family_memory_feedback_record" where
  "sanitize_family_memory_feedback env raw_event_id request raw_source =
     (let event_id = trim raw_event_id; source = trim raw_source in
      and_then (ensure (event_id \<noteq> [] \<and> length event_id \<le> 128) ''family memory feedback requires a valid event_id'') (\<lambda>_.
      and_then (parse_family_memory_feedback_action (mq_action request)) (\<lambda>action.
      and_then (if action = CorrectSummary
          then and_then (sanitize_corrected_summary (unwrap_or (or_else (mq_corrected_summary request) (mq_note request)) [])) (\<lambda>s. Ok (Some s))
          else transpose_map sanitize_corrected_summary (opt_filter (\<lambda>v. \<not> blank v) (mq_corrected_summary request))) (\<lambda>corrected_summary.
      and_then (if action = CorrectLabels
          then and_then (sanitize_corrected_labels (unwrap_or (mq_corrected_labels request) [])) (\<lambda>ls. Ok (Some ls))
          else transpose_map sanitize_corrected_labels (mq_corrected_labels request)) (\<lambda>corrected_labels.
      and_then (transpose_map sanitize_feedback_note (opt_filter (\<lambda>v. \<not> blank v) (mq_note request))) (\<lambda>note.
        let rec = \<lparr>mr_feedback_id = ''fmfb_'' @ me_uuid env, mr_event_id = event_id, mr_action = action, mr_created_at = me_now env,
              mr_source = (if source = [] then ''unknown'' else chars_take 64 source), mr_corrected_summary = corrected_summary,
              mr_corrected_labels = corrected_labels, mr_note = note, mr_metadata_only = True, mr_secret_scan = ''clean''\<rparr>
        in and_then (reject_payload (feedback_json rec)) (\<lambda>_. Ok rec)))))))"

section \<open>The file\<close>

text \<open>
  The lines of the file, one after the other: blank, oversized and unreadable ones are skipped, the last
  \<open>target\<close> records are kept. A line that is not UTF-8, or a failed read, ends the listing with an error.
\<close>

fun feedback_lines :: "memory_env \<Rightarrow> nat \<Rightarrow> family_memory_feedback_record list \<Rightarrow> string list \<Rightarrow> string + family_memory_feedback_record list" where
  "feedback_lines env target records [] = Ok records"
| "feedback_lines env target records (line # rest) =
     (case me_read env (length rest) of
        Some e \<Rightarrow> Err (''failed to read family memory overlay: '' @ e)
      | None \<Rightarrow>
          if \<not> utf8_ok line then Err ''failed to read family memory overlay: stream did not contain valid UTF-8''
          else
            let trimmed = trim line in
            if trimmed = [] \<or> length trimmed > MAX_FAMILY_MEMORY_LINE_BYTES then feedback_lines env target records rest
            else case me_parse env trimmed of
                None \<Rightarrow> feedback_lines env target records rest
              | Some rec \<Rightarrow>
                  feedback_lines env target ((if length records = target then tl records else records) @ [rec]) rest)"

definition feedback_target :: "nat \<Rightarrow> nat" where
  "feedback_target limit = min (max limit 1) DEFAULT_FAMILY_MEMORY_FEEDBACK_LIMIT"

definition list_family_memory_feedback :: "memory_env \<Rightarrow> nat \<Rightarrow> string option \<Rightarrow> string + family_memory_feedback_record list" where
  "list_family_memory_feedback env limit file =
     (case file of None \<Rightarrow> Ok []
      | Some bytes \<Rightarrow>
          and_then (io (me_open env) (''failed to open family memory overlay '' @ me_path env)) (\<lambda>_.
            feedback_lines env (feedback_target limit) [] (split_newline bytes)))"

definition compact_family_memory_feedback_if_needed :: "memory_env \<Rightarrow> string option \<Rightarrow> (string + unit) \<times> string option" where
  "compact_family_memory_feedback_if_needed env file =
     (case list_family_memory_feedback env FAMILY_MEMORY_COMPACT_AFTER_RECORDS file of
        Inl e \<Rightarrow> (Err e, file)
      | Inr records \<Rightarrow>
          if length records < FAMILY_MEMORY_COMPACT_AFTER_RECORDS then (Ok (), file)
          else
            let keep = rev (take DEFAULT_FAMILY_MEMORY_FEEDBACK_LIMIT (rev records));
                text = concat (map (\<lambda>r. me_to_line env r @ [newline]) keep)
            in case me_create env of
                 Some e \<Rightarrow> (Err (''failed to compact family memory overlay '' @ me_path env @ '': '' @ e), file)
               | None \<Rightarrow>
                   (case me_rewrite env of
                      None \<Rightarrow> (Ok (), Some text)
                    | Some (n, e) \<Rightarrow> (Err (''failed to write compacted feedback: '' @ e), Some (take n text))))"

definition append_family_memory_feedback ::
  "memory_env \<Rightarrow> string \<Rightarrow> family_memory_feedback_request \<Rightarrow> string \<Rightarrow> string option
    \<Rightarrow> (string + family_memory_feedback_record) \<times> string option" where
  "append_family_memory_feedback env event_id request source file =
     (case and_then (sanitize_family_memory_feedback env event_id request source) (\<lambda>rec.
        and_then (io (me_create_dir env) (''failed to create family memory overlay directory '' @ me_path env)) (\<lambda>_.
        and_then (io (me_open_append env) (''failed to open family memory overlay '' @ me_path env)) (\<lambda>_. Ok rec))) of
        Inl e \<Rightarrow> (Err e, file)
      | Inr rec \<Rightarrow>
          let old = unwrap_or file []; line = me_to_line env rec @ [newline] in
          (case me_append env of
             Some (n, e) \<Rightarrow> (Err (''failed to append family memory feedback: '' @ e), Some (old @ take n line))
           | None \<Rightarrow>
               (case compact_family_memory_feedback_if_needed env (Some (old @ line)) of
                  (Inl e, file') \<Rightarrow> (Err e, file')
                | (Inr _, file') \<Rightarrow> (Ok rec, file'))))"

section \<open>Overlays\<close>

definition apply_feedback :: "family_memory_feedback_record \<Rightarrow> family_memory_overlay \<Rightarrow> family_memory_overlay" where
  "apply_feedback r v0 =
     (let v = v0\<lparr>mo_feedback_count := mo_feedback_count v0 + 1, mo_updated_at := Some (mr_created_at r)\<rparr> in
      case mr_action r of
        ConfirmUseful \<Rightarrow> v\<lparr>mo_confirmed_useful := True\<rparr>
      | Favorite \<Rightarrow> v\<lparr>mo_favorite := True\<rparr>
      | Hide \<Rightarrow> v\<lparr>mo_hidden := True\<rparr>
      | Restore \<Rightarrow> v\<lparr>mo_hidden := False\<rparr>
      | CorrectSummary \<Rightarrow>
          (case mr_corrected_summary r of None \<Rightarrow> v
           | Some s \<Rightarrow> v\<lparr>mo_corrected_summary := Some s, mo_corrected_at := Some (mr_created_at r)\<rparr>)
      | CorrectLabels \<Rightarrow>
          (case mr_corrected_labels r of None \<Rightarrow> v
           | Some ls \<Rightarrow> v\<lparr>mo_corrected_labels := Some ls, mo_corrected_at := Some (mr_created_at r)\<rparr>))"

definition overlay_step :: "family_memory_feedback_record \<Rightarrow> family_memory_overlay btree_map \<Rightarrow> family_memory_overlay btree_map" where
  "overlay_step r overlays =
     bm_insert (mr_event_id r) (apply_feedback r (unwrap_or (hm_get overlays (mr_event_id r)) (empty_overlay (mr_event_id r)))) overlays"

definition build_family_memory_overlays :: "family_memory_feedback_record list \<Rightarrow> family_memory_overlay btree_map" where
  "build_family_memory_overlays records = fold overlay_step records []"

definition build_family_memory_stats_from_overlays :: "string \<Rightarrow> nat \<Rightarrow> family_memory_overlay btree_map \<Rightarrow> family_memory_stats" where
  "build_family_memory_stats_from_overlays now total_records overlays =
     \<lparr>mt_generated_at = now, mt_total_feedback_records = total_records, mt_event_count = length overlays,
      mt_confirmed_count = length (filter mo_confirmed_useful (hm_values overlays)),
      mt_favorite_count = length (filter mo_favorite (hm_values overlays)),
      mt_hidden_count = length (filter mo_hidden (hm_values overlays)),
      mt_corrected_count = length (filter corrected (hm_values overlays)),
      mt_bounded_limit = DEFAULT_FAMILY_MEMORY_FEEDBACK_LIMIT, mt_metadata_only = True, mt_secret_scan = ''clean''\<rparr>"

definition build_family_memory_stats :: "string \<Rightarrow> family_memory_feedback_record list \<Rightarrow> family_memory_stats" where
  "build_family_memory_stats now records =
     build_family_memory_stats_from_overlays now (length records) (build_family_memory_overlays records)"

definition family_memory_overlays_default :: "memory_env \<Rightarrow> string option \<Rightarrow> string + family_memory_overlay btree_map" where
  "family_memory_overlays_default env file =
     and_then (list_family_memory_feedback env DEFAULT_FAMILY_MEMORY_FEEDBACK_LIMIT file) (\<lambda>records.
       Ok (build_family_memory_overlays records))"

definition family_memory_stats_default :: "memory_env \<Rightarrow> string option \<Rightarrow> string + family_memory_stats" where
  "family_memory_stats_default env file =
     and_then (list_family_memory_feedback env DEFAULT_FAMILY_MEMORY_FEEDBACK_LIMIT file) (\<lambda>records.
       Ok (build_family_memory_stats (me_now env) records))"

section \<open>Events under overlays\<close>

definition apply_family_memory_overlay_to_event ::
  "stored_local_vision_event \<Rightarrow> family_memory_overlay option \<Rightarrow> stored_local_vision_event" where
  "apply_family_memory_overlay_to_event stored overlay =
     (case overlay of None \<Rightarrow> stored
      | Some v \<Rightarrow>
          let e = vs_event stored;
              e' = (case mo_corrected_summary v of None \<Rightarrow> e
                | Some s \<Rightarrow> e\<lparr>ve_summary := s, ve_vlm := map_option (\<lambda>m. m\<lparr>vm_summary := s, vm_derived_text := s\<rparr>) (ve_vlm e)\<rparr>);
              e'' = (case mo_corrected_labels v of None \<Rightarrow> e' | Some ls \<Rightarrow> e'\<lparr>ve_labels := ls\<rparr>)
          in stored\<lparr>vs_event := e''\<rparr>)"

definition apply_family_memory_overlays_to_events ::
  "stored_local_vision_event list \<Rightarrow> family_memory_overlay btree_map \<Rightarrow> bool \<Rightarrow> stored_local_vision_event list" where
  "apply_family_memory_overlays_to_events events overlays include_hidden =
     List.map_filter (\<lambda>stored.
       let overlay = hm_get overlays (stored_event_id stored) in
       if \<not> include_hidden \<and> (case overlay of None \<Rightarrow> False | Some v \<Rightarrow> mo_hidden v) then None
       else Some (apply_family_memory_overlay_to_event stored overlay)) events"

definition family_timeline_event_matches_query :: "family_timeline_event \<Rightarrow> family_timeline_query_options \<Rightarrow> bool" where
  "family_timeline_event_matches_query event options \<longleftrightarrow>
     (case fq_camera_filter options of None \<Rightarrow> True
      | Some c \<Rightarrow> to_ascii_lowercase (ft_camera_id event) = to_ascii_lowercase c) \<and>
     (case fq_label_filter options of None \<Rightarrow> True
      | Some l \<Rightarrow> list_ex (\<lambda>label. to_ascii_lowercase label = to_ascii_lowercase l) (ft_labels event) \<or>
          to_ascii_lowercase (ft_event_type event) = to_ascii_lowercase l)"

definition memory_view ::
  "family_memory_overlay btree_map \<Rightarrow> family_memory_event_filter \<Rightarrow> family_timeline_query_options \<Rightarrow> stored_local_vision_event
    \<Rightarrow> family_memory_event_view option" where
  "memory_view overlays flt options stored =
     (let overlay = unwrap_or (hm_get overlays (stored_event_id stored)) (empty_overlay (stored_event_id stored)) in
      if mf_hidden_only flt \<and> \<not> mo_hidden overlay then None
      else if \<not> mf_include_hidden flt \<and> mo_hidden overlay then None
      else if mf_favorites_only flt \<and> \<not> mo_favorite overlay then None
      else if mf_corrected_only flt \<and> \<not> corrected overlay then None
      else
        let event = family_timeline_event_of (apply_family_memory_overlay_to_event stored (Some overlay)) in
        if \<not> family_timeline_event_matches_query event options then None
        else Some \<lparr>mv_event = event, mv_overlay = overlay\<rparr>)"

definition build_family_memory_event_views ::
  "stored_local_vision_event list \<Rightarrow> family_memory_overlay btree_map \<Rightarrow> family_memory_event_filter \<Rightarrow> family_timeline_query_options
    \<Rightarrow> string + family_memory_event_view list" where
  "build_family_memory_event_views events overlays flt options =
     (let views = take (clamp_limit (mf_limit flt)) (List.map_filter (memory_view overlays flt options) events) in
      and_then (reject_payload (JArr (map event_view_json views))) (\<lambda>_. Ok views))"

definition compact_family_memory_feedback_evidence :: "family_memory_feedback_record \<Rightarrow> json" where
  "compact_family_memory_feedback_evidence r =
     jobj [(''feedback_id'', JStr (mr_feedback_id r)), (''event_id'', JStr (mr_event_id r)),
       (''action'', JStr (feedback_action_str (mr_action r))), (''has_corrected_summary'', JBool (mr_corrected_summary r \<noteq> None)),
       (''corrected_label_count'', JInt (int (unwrap_or (map_option length (mr_corrected_labels r)) 0))),
       (''source'', JStr (mr_source r)), (''created_at'', JStr (mr_created_at r)), (''metadata_only'', JBool True),
       (''secret_scan'', JStr ''clean'')]"

section \<open>Overlays are summaries of the feedback on their event\<close>

text \<open>What an overlay promises: a summary of the feedback on one event, in the order it was given.\<close>

definition last_opt :: "'a list \<Rightarrow> 'a option" where
  "last_opt xs = (case rev xs of [] \<Rightarrow> None | x # _ \<Rightarrow> Some x)"

definition corrects :: "family_memory_feedback_record \<Rightarrow> bool" where
  "corrects r \<longleftrightarrow> mr_action r = CorrectSummary \<and> mr_corrected_summary r \<noteq> None \<or>
     mr_action r = CorrectLabels \<and> mr_corrected_labels r \<noteq> None"

definition overlay_summary :: "string \<Rightarrow> family_memory_feedback_record list \<Rightarrow> family_memory_overlay" where
  "overlay_summary event_id rs = \<lparr>mo_event_id = event_id,
     mo_confirmed_useful = (ConfirmUseful \<in> mr_action ` set rs), mo_favorite = (Favorite \<in> mr_action ` set rs),
     mo_hidden = (last_opt (filter (\<lambda>a. a = Hide \<or> a = Restore) (map mr_action rs)) = Some Hide),
     mo_corrected_summary = last_opt (List.map_filter (\<lambda>r. if mr_action r = CorrectSummary then mr_corrected_summary r else None) rs),
     mo_corrected_labels = last_opt (List.map_filter (\<lambda>r. if mr_action r = CorrectLabels then mr_corrected_labels r else None) rs),
     mo_corrected_at = map_option mr_created_at (last_opt (filter corrects rs)),
     mo_updated_at = map_option mr_created_at (last_opt rs), mo_feedback_count = length rs\<rparr>"

lemma last_opt_simps [simp]: "last_opt [] = None" "last_opt (xs @ [x]) = Some x"
  by (simp_all add: last_opt_def)

lemma map_filter_snoc: "List.map_filter f (xs @ [x]) = List.map_filter f xs @ (case f x of None \<Rightarrow> [] | Some y \<Rightarrow> [y])"
  by (cases "f x") (simp_all add: List.map_filter_def)

lemma apply_feedback_summary: "apply_feedback r (overlay_summary i rs) = overlay_summary i (rs @ [r])"
  by (cases "mr_action r")
    (auto simp: apply_feedback_def overlay_summary_def corrects_def map_filter_snoc Let_def split: option.split)

definition feedback_on :: "string \<Rightarrow> family_memory_feedback_record list \<Rightarrow> family_memory_feedback_record list" where
  "feedback_on i rs = filter (\<lambda>r. mr_event_id r = i) rs"

lemma feedback_on_snoc: "feedback_on i (rs @ [r]) = feedback_on i rs @ (if mr_event_id r = i then [r] else [])"
  by (simp add: feedback_on_def)

lemma empty_overlay_summary: "empty_overlay i = overlay_summary i []"
  by (simp add: empty_overlay_def overlay_summary_def List.map_filter_simps)

lemma build_overlays_snoc: "build_family_memory_overlays (rs @ [r]) = overlay_step r (build_family_memory_overlays rs)"
  by (simp add: build_family_memory_overlays_def)

lemma overlays_get:
  "hm_get (build_family_memory_overlays rs) i =
     (if feedback_on i rs = [] then None else Some (overlay_summary i (feedback_on i rs)))"
proof (induction rs rule: rev_induct)
  case Nil
  show ?case by (simp add: build_family_memory_overlays_def feedback_on_def hm_get_def)
next
  case (snoc r rs)
  have "unwrap_or (hm_get (build_family_memory_overlays rs) i) (empty_overlay i) = overlay_summary i (feedback_on i rs)"
    by (auto simp: snoc.IH unwrap_or_def empty_overlay_summary)
  then show ?case
    by (cases "i = mr_event_id r")
      (simp_all add: build_overlays_snoc overlay_step_def bm_get_insert apply_feedback_summary feedback_on_snoc snoc.IH)
qed

lemma overlays_inv: "bm_inv (build_family_memory_overlays rs)"
proof (induction rs rule: rev_induct)
  case (snoc r rs)
  then show ?case by (simp add: build_overlays_snoc overlay_step_def)
qed (simp add: build_family_memory_overlays_def)

lemma overlays_keys: "map fst (build_family_memory_overlays rs) = sorted_list_of_set (mr_event_id ` set rs)"
proof -
  have "fst ` set (build_family_memory_overlays rs) = mr_event_id ` set rs"
    by (induction rs rule: rev_induct)
      (auto simp: build_overlays_snoc overlay_step_def set_fst_bm_insert, simp_all add: build_family_memory_overlays_def)
  then show ?thesis using overlays_inv [of rs]
    by (metis bm_inv_def list.set_map sorted_list_of_set.idem_if_sorted_distinct strict_sorted_iff)
qed

text \<open>
  C19. The overlay computed for an event is the summary of the feedback on that event alone, in its order: confirmed and favourite
  when such feedback was ever given, hidden exactly when the last hide or restore is a hide, with the
  last corrected summary and labels, the time of the last correction and of the last feedback, and the number of
  feedback records; there is one overlay for every event with feedback, in the order of the event ids, and the
  statistics count these events.
\<close>

theorem overlays_summarise_feedback:
  "build_family_memory_overlays rs =
     map (\<lambda>i. (i, overlay_summary i (feedback_on i rs))) (sorted_list_of_set (mr_event_id ` set rs)) \<and>
   mt_event_count (build_family_memory_stats now rs) = card (mr_event_id ` set rs) \<and>
   mt_hidden_count (build_family_memory_stats now rs) =
     card {i \<in> mr_event_id ` set rs. mo_hidden (overlay_summary i (feedback_on i rs))}"
proof -
  let ?m = "build_family_memory_overlays rs"
  have d: "distinct (map fst ?m)" using overlays_inv by (simp add: bm_inv_def strict_sorted_iff)
  have e: "?m = map (\<lambda>i. (i, overlay_summary i (feedback_on i rs))) (map fst ?m)"
  proof (rule nth_equalityI)
    fix j assume j: "j < length ?m"
    then have "hm_get ?m (fst (?m ! j)) = Some (snd (?m ! j))" using d by (auto simp: hm_get_def)
    then show "?m ! j = map (\<lambda>i. (i, overlay_summary i (feedback_on i rs))) (map fst ?m) ! j"
      using j by (simp add: overlays_get split: if_splits)
  qed simp
  have "length (filter mo_hidden (hm_values ?m)) =
      length (filter (\<lambda>i. mo_hidden (overlay_summary i (feedback_on i rs))) (map fst ?m))"
    by (subst e) (simp add: hm_values_def filter_map o_def)
  also have "\<dots> = card (set (filter (\<lambda>i. mo_hidden (overlay_summary i (feedback_on i rs))) (map fst ?m)))"
    using d by (simp only: distinct_card distinct_filter)
  also have "\<dots> = card {i \<in> mr_event_id ` set rs. mo_hidden (overlay_summary i (feedback_on i rs))}"
    by (simp only: overlays_keys set_filter set_sorted_list_of_set finite_imageI finite_set)
  finally show ?thesis
    using e distinct_card [OF d] overlays_keys [of rs]
    by (simp add: build_family_memory_stats_def build_family_memory_stats_from_overlays_def)
qed

section \<open>Views\<close>

text \<open>
  C20. The views of the family memory: at most as many as the limit (one to a hundred) and in the order of the events; every
  view shows the overlay of its event and no hidden event unless hidden ones are asked for; its labels, when they were
  corrected, are the corrected ones; and no text in the payload is sensitive or names a local path.
\<close>

theorem memory_views_respect_overlays:
  "case build_family_memory_event_views events (build_family_memory_overlays rs) flt options of
     Inl _ \<Rightarrow> True
   | Inr views \<Rightarrow> length views \<le> max 1 (min 100 (mf_limit flt)) \<and>
       subseq (map (\<lambda>v. ft_event_id (mv_event v)) views) (map stored_event_id events) \<and>
       list_all (\<lambda>v. mv_overlay v = overlay_summary (ft_event_id (mv_event v)) (feedback_on (ft_event_id (mv_event v)) rs) \<and>
         (if mf_include_hidden flt then True else last_opt (filter (\<lambda>a. a = Hide \<or> a = Restore)
            (map mr_action (feedback_on (ft_event_id (mv_event v)) rs))) \<noteq> Some Hide) \<and>
         ft_labels (mv_event v) \<in> (case mo_corrected_labels (mv_overlay v) of Some ls \<Rightarrow> {ls}
           | None \<Rightarrow> (\<lambda>e. ve_labels (vs_event e)) ` {e \<in> set events. stored_event_id e = ft_event_id (mv_event v)})) views \<and>
       json_texts (JArr (map event_view_json views)) \<subseteq> {t. clean t}"
proof (cases "build_family_memory_event_views events (build_family_memory_overlays rs) flt options")
  case (Inr views)
  let ?view = "memory_view (build_family_memory_overlays rs) flt options"
  have v: "views = take (clamp_limit (mf_limit flt)) (List.map_filter ?view events)"
    and ok: "reject_payload (JArr (map event_view_json views)) = Ok ()"
    using Inr by (auto simp: build_family_memory_event_views_def Let_def)
  have ov: "unwrap_or (hm_get (build_family_memory_overlays rs) i) (empty_overlay i) = overlay_summary i (feedback_on i rs)" for i
    by (simp add: overlays_get unwrap_or_def empty_overlay_summary)
  have id: "ft_event_id (mv_event w) = stored_event_id e" if "?view e = Some w" for e w
    using that by (auto simp: memory_view_def Let_def family_timeline_event_of_def apply_family_memory_overlay_to_event_def
      split: if_splits option.splits)
  have one: "mv_overlay w = overlay_summary (stored_event_id e) (feedback_on (stored_event_id e) rs)"
    "mf_include_hidden flt \<or> \<not> mo_hidden (mv_overlay w)"
    "ft_labels (mv_event w) = (case mo_corrected_labels (mv_overlay w) of Some ls \<Rightarrow> ls | None \<Rightarrow> ve_labels (vs_event e))"
    if "?view e = Some w" for e w
    using that by (auto simp: memory_view_def Let_def ov family_timeline_event_of_def apply_family_memory_overlay_to_event_def
      split: if_splits option.splits)
  have sub: "subseq (map (\<lambda>v. ft_event_id (mv_event v)) (List.map_filter ?view es)) (map stored_event_id es)" for es
    by (induction es) (auto simp: List.map_filter_simps id split: option.split)
  have "subseq (map (\<lambda>v. ft_event_id (mv_event v)) views) (map stored_event_id events)"
    using sub [of events] by (simp add: v take_map [symmetric]) (meson prefix_imp_subseq subseq_order.trans take_is_prefix)
  moreover have "list_all (\<lambda>v. mv_overlay v = overlay_summary (ft_event_id (mv_event v)) (feedback_on (ft_event_id (mv_event v)) rs) \<and>
      (if mf_include_hidden flt then True else last_opt (filter (\<lambda>a. a = Hide \<or> a = Restore)
        (map mr_action (feedback_on (ft_event_id (mv_event v)) rs))) \<noteq> Some Hide) \<and>
      ft_labels (mv_event v) \<in> (case mo_corrected_labels (mv_overlay v) of Some ls \<Rightarrow> {ls}
        | None \<Rightarrow> (\<lambda>e. ve_labels (vs_event e)) ` {e \<in> set events. stored_event_id e = ft_event_id (mv_event v)})) views"
    unfolding list_all_iff
  proof
    fix w assume "w \<in> set views"
    then obtain e where e: "e \<in> set events" "?view e = Some w"
      by (auto simp: v map_filter_def dest!: in_set_takeD)
    show "mv_overlay w = overlay_summary (ft_event_id (mv_event w)) (feedback_on (ft_event_id (mv_event w)) rs) \<and>
      (if mf_include_hidden flt then True else last_opt (filter (\<lambda>a. a = Hide \<or> a = Restore)
        (map mr_action (feedback_on (ft_event_id (mv_event w)) rs))) \<noteq> Some Hide) \<and>
      ft_labels (mv_event w) \<in> (case mo_corrected_labels (mv_overlay w) of Some ls \<Rightarrow> {ls}
        | None \<Rightarrow> (\<lambda>e. ve_labels (vs_event e)) ` {e \<in> set events. stored_event_id e = ft_event_id (mv_event w)})"
      using one [OF e(2)] e(1) by (auto simp: id [OF e(2)] overlay_summary_def split: option.splits)
  qed
  moreover have "json_texts (JArr (map event_view_json views)) \<subseteq> {t. clean t}"
    using ok reject_both_ok [of "JArr (map event_view_json views)"] by (auto simp: reject_payload_def)
  ultimately show ?thesis using Inr by (simp add: v clamp_limit_def)
qed simp

section \<open>The file\<close>

definition lastn :: "nat \<Rightarrow> 'a list \<Rightarrow> 'a list" where
  "lastn n xs = drop (length xs - n) xs"

definition parse_feedback_line :: "memory_env \<Rightarrow> string \<Rightarrow> family_memory_feedback_record option" where
  "parse_feedback_line env line =
     (if trim line = [] \<or> length (trim line) > MAX_FAMILY_MEMORY_LINE_BYTES then None else me_parse env (trim line))"

fun line_error :: "memory_env \<Rightarrow> string list \<Rightarrow> string option" where
  "line_error env [] = None"
| "line_error env (line # rest) =
     (case me_read env (length rest) of
        Some e \<Rightarrow> Some (''failed to read family memory overlay: '' @ e)
      | None \<Rightarrow> if \<not> utf8_ok line then Some ''failed to read family memory overlay: stream did not contain valid UTF-8''
          else line_error env rest)"

lemma lastn_push:
  "0 < n \<Longrightarrow> length xs \<le> n \<Longrightarrow> lastn n (((if length xs = n then tl xs else xs) @ [x]) @ ys) = lastn n (xs @ x # ys)"
proof (cases "length xs = n")
  case True
  then show "0 < n \<Longrightarrow> ?thesis" by (cases xs) (auto simp: lastn_def Suc_diff_le)
qed simp

text \<open>The listing keeps the last records of the file: the queue drops its front when it is full.\<close>

lemma feedback_lines_eq:
  assumes "0 < target" "length records \<le> target"
  shows "feedback_lines env target records lines =
    (case line_error env lines of Some e \<Rightarrow> Err e
     | None \<Rightarrow> Ok (lastn target (records @ List.map_filter (parse_feedback_line env) lines)))"
  using assms(2)
proof (induction lines arbitrary: records)
  case Nil
  then show ?case by (simp add: lastn_def List.map_filter_simps)
next
  case (Cons line rest)
  let ?push = "\<lambda>r. (if length records = target then tl records else records) @ [r]"
  have len: "length (?push r) \<le> target" for r using Cons.prems assms(1) by auto
  have ih: "feedback_lines env target (?push r) rest =
      (case line_error env rest of Some e \<Rightarrow> Err e
       | None \<Rightarrow> Ok (lastn target (records @ r # List.map_filter (parse_feedback_line env) rest)))" for r
    using Cons.IH [OF len] lastn_push [OF assms(1) Cons.prems] by presburger
  show ?case
  proof (cases "trim line = [] \<or> length (trim line) > MAX_FAMILY_MEMORY_LINE_BYTES \<or> me_parse env (trim line) = None")
    case True
    then have "parse_feedback_line env line = None" by (auto simp: parse_feedback_line_def)
    then show ?thesis using True Cons.IH [OF Cons.prems]
      by (auto simp: List.map_filter_simps Let_def split: option.split)
  next
    case False
    then obtain r where "me_parse env (trim line) = Some r" "parse_feedback_line env line = Some r"
      by (auto simp: parse_feedback_line_def)
    then show ?thesis using False ih [of r]
      by (cases "length records = target") (simp_all add: List.map_filter_simps Let_def split: option.split)
  qed
qed

lemma feedback_target_bounds [simp]: "0 < feedback_target limit" "feedback_target limit \<le> 5000"
  by (auto simp: feedback_target_def DEFAULT_FAMILY_MEMORY_FEEDBACK_LIMIT_def)

lemma list_feedback_eq:
  "list_family_memory_feedback env limit (Some bytes) =
     (case me_open env of Some e \<Rightarrow> Err (''failed to open family memory overlay '' @ me_path env @ '': '' @ e)
      | None \<Rightarrow> (case line_error env (split_newline bytes) of Some e \<Rightarrow> Err e
          | None \<Rightarrow> Ok (lastn (feedback_target limit) (List.map_filter (parse_feedback_line env) (split_newline bytes)))))"
  by (simp add: list_family_memory_feedback_def io_def and_then_def feedback_lines_eq split: option.split)

lemma length_lastn: "length (lastn n xs) \<le> n"
  by (simp add: lastn_def)

lemma listed_feedback_bound: "list_family_memory_feedback env limit file = Ok rs \<Longrightarrow> length rs \<le> 5000"
  using le_trans [OF length_lastn feedback_target_bounds(2)]
  by (cases "file") (auto simp: list_feedback_eq list_family_memory_feedback_def [of _ _ None] split: option.splits)

text \<open>
  Compaction asks for 5500 records from a listing that never returns more than 5000, so its condition never holds: the
  file is never rewritten, and appending feedback only ever makes it longer.
\<close>

lemma compaction_never_runs: "snd (compact_family_memory_feedback_if_needed env file) = file"
  using listed_feedback_bound [of env FAMILY_MEMORY_COMPACT_AFTER_RECORDS "file"]
  by (auto simp: compact_family_memory_feedback_if_needed_def FAMILY_MEMORY_COMPACT_AFTER_RECORDS_def
    DEFAULT_FAMILY_MEMORY_FEEDBACK_LIMIT_def split: sum.split)

lemma append_only_grows: "\<exists>more_bytes. unwrap_or (snd (append_family_memory_feedback env i request source file)) [] = unwrap_or file [] @ more_bytes"
proof -
  have "snd p = file' \<Longrightarrow> snd (case p of (Inl e, f) \<Rightarrow> (Err e, f) | (Inr _, f) \<Rightarrow> (Ok r, f)) = file'"
    for p :: "(string + unit) \<times> string option" and r :: family_memory_feedback_record and file'
    by (cases p) (auto split: sum.split)
  note keep = this [OF compaction_never_runs]
  show ?thesis
    by (auto simp: append_family_memory_feedback_def Let_def keep unwrap_or_def split: sum.split option.split)
qed

text \<open>What the format of a line promises: one line of UTF-8 without surrounding white space that parses to what it was.\<close>

definition feedback_line_round_trips :: "memory_env \<Rightarrow> family_memory_feedback_record \<Rightarrow> bool" where
  "feedback_line_round_trips env r \<longleftrightarrow>
     (let line = me_to_line env r in line \<noteq> [] \<and> newline \<notin> set line \<and> trim line = line \<and> me_parse env line = Some r \<and>
        length line \<le> MAX_FAMILY_MEMORY_LINE_BYTES)"

lemma lines_after_append:
  assumes "old = [] \<or> last old = newline" "newline \<notin> set line"
  shows "split_newline (old @ line @ [newline]) = butlast (split_newline old) @ [line, []]"
    "last (split_newline old) = []"
proof -
  have l: "split_newline (line @ [newline]) = [line, []]"
    using split_newline_append [of line "[]"] split_newline_single [OF assms(2)] by simp
  have "split_newline (old @ line @ [newline]) = butlast (split_newline old) @ [line, []] \<and> last (split_newline old) = []"
  proof (cases "old = []")
    case False
    then obtain q where q: "old = q @ [newline]" using assms(1) by (metis append_butlast_last_id)
    show ?thesis using q l split_newline_append [of q "line @ [newline]"] split_newline_append [of q "[]"] by simp
  qed (simp add: l)
  then show "split_newline (old @ line @ [newline]) = butlast (split_newline old) @ [line, []]" "last (split_newline old) = []"
    by auto
qed

lemma append_ok:
  assumes "append_family_memory_feedback env i request source file = (Ok r, file')"
  shows "sanitize_family_memory_feedback env i request source = Ok r" "file' = Some (unwrap_or file [] @ me_to_line env r @ [newline])"
    "me_open env = None" "line_error env (split_newline (unwrap_or file [] @ me_to_line env r @ [newline])) = None"
proof -
  have s: "sanitize_family_memory_feedback env i request source = Ok r"
    using assms by (auto simp: append_family_memory_feedback_def Let_def split: sum.splits option.splits prod.splits)
  let ?f = "Some (unwrap_or file [] @ me_to_line env r @ [newline])"
  have c: "compact_family_memory_feedback_if_needed env ?f = (Ok (), file')"
    using assms s by (auto simp: append_family_memory_feedback_def Let_def split: sum.splits option.splits prod.splits)
  show "sanitize_family_memory_feedback env i request source = Ok r" by (rule s)
  show "file' = ?f" using compaction_never_runs [of env ?f] c by simp
  have "is_ok (list_family_memory_feedback env FAMILY_MEMORY_COMPACT_AFTER_RECORDS ?f)"
    using c by (auto simp: compact_family_memory_feedback_if_needed_def is_ok_def split: sum.splits)
  then show "me_open env = None" "line_error env (split_newline (unwrap_or file [] @ me_to_line env r @ [newline])) = None"
    by (auto simp: list_feedback_eq is_ok_def split: option.splits)
qed

text \<open>
  C21. Feedback that was accepted is read back: when the file was empty or ended with a complete line, and the line of the record
  parses back, then after a successful append the listing gives the records that were readable before followed by the
  new one, cut to the last records within the limit (from one to 5000), and the overlay of the event counts it.
\<close>

theorem appended_feedback_is_listed_last:
  assumes ap: "append_family_memory_feedback env i request source file = (Ok r, file')" and fmt: "feedback_line_round_trips env r"
    and old: "unwrap_or file [] = [] \<or> last (unwrap_or file []) = newline"
  shows "mr_event_id r = trim i \<and> list_family_memory_feedback env limit file' =
    Ok (lastn (feedback_target limit) (List.map_filter (parse_feedback_line env) (split_newline (unwrap_or file [])) @ [r]))"
proof -
  note f = fmt [unfolded feedback_line_round_trips_def Let_def]
  note l = lines_after_append [OF old, of "me_to_line env r"]
  have p: "parse_feedback_line env (me_to_line env r) = Some r" "parse_feedback_line env [] = None"
    using f trim_Nil by (simp_all add: parse_feedback_line_def)
  have "split_newline (unwrap_or file []) = butlast (split_newline (unwrap_or file [])) @ [[]]"
    using l(2) f by (metis append_butlast_last_id split_newline_not_Nil)
  then have same: "List.map_filter (parse_feedback_line env) (split_newline (unwrap_or file [])) =
      List.map_filter (parse_feedback_line env) (butlast (split_newline (unwrap_or file [])))"
    using p(2) by (metis append.right_neutral map_filter_snoc option.case(1))
  have "List.map_filter (parse_feedback_line env) (split_newline (unwrap_or file [] @ me_to_line env r @ [newline])) =
      List.map_filter (parse_feedback_line env) (split_newline (unwrap_or file [])) @ [r]"
    unfolding same using l(1) f p by (simp add: List.map_filter_def)
  moreover have "mr_event_id r = trim i"
    using append_ok(1) [OF ap] by (auto simp: sanitize_family_memory_feedback_def Let_def)
  ultimately show ?thesis
    using append_ok [OF ap] by (simp add: list_feedback_eq)
qed

text \<open>
  One line that is not UTF-8, left by a write that was cut inside a character, disables the memory: every listing fails, and every
  later append reports an error although its record was written.
\<close>

lemma line_error_bad: "line \<in> set lines \<Longrightarrow> \<not> utf8_ok line \<Longrightarrow> line_error env lines \<noteq> None"
  by (induction lines) (auto split: option.split)

lemma unreadable_line_blocks_memory:
  assumes "line \<in> set (split_newline old)" "\<not> utf8_ok line"
  shows "\<not> is_ok (list_family_memory_feedback env limit (Some (old @ [newline])))"
    "\<not> is_ok (fst (append_family_memory_feedback env i request source (Some (old @ [newline]))))"
proof -
  have bad: "line_error env (split_newline (old @ newline # t)) \<noteq> None" for t
    by (rule line_error_bad) (use assms split_newline_append [of old t] in auto)
  show "\<not> is_ok (list_family_memory_feedback env limit (Some (old @ [newline])))"
    using bad [of "[]"] by (auto simp: list_feedback_eq is_ok_def split: option.splits)
  show "\<not> is_ok (fst (append_family_memory_feedback env i request source (Some (old @ [newline]))))"
  proof
    assume "is_ok (fst (append_family_memory_feedback env i request source (Some (old @ [newline]))))"
    then obtain r f where "append_family_memory_feedback env i request source (Some (old @ [newline])) = (Ok r, f)"
      by (metis (no_types, lifting) is_ok_def prod.collapse sum.case_eq_if sum.collapse(2))
    from append_ok(4) [OF this] bad show False by (simp add: unwrap_or_def)
  qed
qed

section \<open>A concrete memory\<close>

definition sample_request :: family_memory_feedback_request where
  "sample_request = \<lparr>mq_action = ''Hide '', mq_corrected_summary = None, mq_corrected_labels = None, mq_note = None\<rparr>"

definition sample_feedback :: family_memory_feedback_record where
  "sample_feedback = \<lparr>mr_feedback_id = ''fmfb_1'', mr_event_id = ''e1'', mr_action = Hide, mr_created_at = ''7'', mr_source = ''im'',
     mr_corrected_summary = None, mr_corrected_labels = None, mr_note = None, mr_metadata_only = True, mr_secret_scan = ''clean''\<rparr>"

definition sample_memory :: memory_env where
  "sample_memory = \<lparr>me_path = ''feedback.jsonl'', me_now = ''7'', me_uuid = ''1'', me_to_line = (\<lambda>_. ''x''),
     me_parse = (\<lambda>l. if l = ''x'' then Some sample_feedback else None), me_create_dir = None, me_open_append = None,
     me_append = None, me_open = None, me_read = (\<lambda>_. None), me_create = None, me_rewrite = None\<rparr>"

lemma sample_sanitize: "sanitize_family_memory_feedback sample_memory '' e1 '' sample_request ''im'' = Ok sample_feedback"
  by code_simp

lemma sample_append:
  "append_family_memory_feedback sample_memory '' e1 '' sample_request ''im'' None = (Ok sample_feedback, Some [CHR ''x'', newline])"
proof -
  have "trim ''x'' = ''x''" by code_simp
  then have "list_family_memory_feedback sample_memory FAMILY_MEMORY_COMPACT_AFTER_RECORDS (Some [CHR ''x'', newline]) = Ok [sample_feedback]"
    by (simp add: list_feedback_eq sample_memory_def List.map_filter_simps parse_feedback_line_def trim_Nil newline_def lastn_def
      MAX_FAMILY_MEMORY_LINE_BYTES_def feedback_target_def FAMILY_MEMORY_COMPACT_AFTER_RECORDS_def DEFAULT_FAMILY_MEMORY_FEEDBACK_LIMIT_def)
  then have "compact_family_memory_feedback_if_needed sample_memory (Some [CHR ''x'', newline]) = (Ok (), Some [CHR ''x'', newline])"
    by (simp add: compact_family_memory_feedback_if_needed_def FAMILY_MEMORY_COMPACT_AFTER_RECORDS_def DEFAULT_FAMILY_MEMORY_FEEDBACK_LIMIT_def)
  then show ?thesis
    using sample_sanitize by (simp add: append_family_memory_feedback_def and_then_def io_def Let_def unwrap_or_def)
     (simp add: sample_memory_def)
qed

lemma appended_feedback_is_listed_last_witness:
  "mr_event_id sample_feedback = trim '' e1 '' \<and>
   list_family_memory_feedback sample_memory 3 (Some [CHR ''x'', newline]) = Ok [sample_feedback]"
proof -
  have "trim ''x'' = ''x''" by code_simp
  then have "feedback_line_round_trips sample_memory sample_feedback"
    by (simp add: feedback_line_round_trips_def sample_memory_def newline_def MAX_FAMILY_MEMORY_LINE_BYTES_def)
  then show ?thesis
    using appended_feedback_is_listed_last [OF sample_append, of 3]
    by (simp add: unwrap_or_def List.map_filter_simps parse_feedback_line_def trim_Nil lastn_def feedback_target_def
      DEFAULT_FAMILY_MEMORY_FEEDBACK_LIMIT_def)
qed

end
