(* ===== verification/Message_Text.thy ===== *)
theory Message_Text
  imports Text_Words
begin

text \<open>
  The words of a message, from \<^verbatim>\<open>src/src/runtime/task_api.rs\<close> and \<^verbatim>\<open>src/src/runtime/evt_readiness.rs\<close>: normalisation, the
  phrase tables by which a request is recognised, the Home Assistant action and the search query read from a message.
  Phrases are UTF-8 literals, as in the source.
\<close>

section \<open>Scalars\<close>

text \<open>One scalar of a set at the front of a string; \<open>ws\<close> says whether white space belongs to the set.\<close>

definition strip_one :: "bool \<Rightarrow> string list \<Rightarrow> string \<Rightarrow> string option" where
  "strip_one ws seps s =
     (case (if ws then strip_ws s else None) of Some t \<Rightarrow> Some t
      | None \<Rightarrow> map_option (\<lambda>p. drop (length p) s) (find (\<lambda>p. p \<noteq> [] \<and> prefix p s) seps))"

lemma strip_one_length: "strip_one ws seps s = Some t \<Longrightarrow> length t < length s"
  by (auto simp: strip_one_def find_Some_iff strip_ws_length dest: prefix_length_le split: option.splits if_splits)
    (metis diff_less length_greater_0_conv nth_mem order_less_le_trans prefix_length_le)+

text \<open>\<^verbatim>\<open>chars().filter(..).collect()\<close> and \<^verbatim>\<open>trim_matches\<close> for such a set.\<close>

function remove_scalars :: "bool \<Rightarrow> string list \<Rightarrow> string \<Rightarrow> string" where
  "remove_scalars ws seps s =
     (case strip_one ws seps s of Some t \<Rightarrow> remove_scalars ws seps t
      | None \<Rightarrow> (case s of [] \<Rightarrow> [] | c # r \<Rightarrow> c # remove_scalars ws seps r))"
  by pat_completeness auto
termination by (relation "measure (\<lambda>(_, _, s). length s)") (auto dest: strip_one_length)

function trim_matches_start :: "bool \<Rightarrow> string list \<Rightarrow> string \<Rightarrow> string" where
  "trim_matches_start ws seps s =
     (case strip_one ws seps s of Some t \<Rightarrow> trim_matches_start ws seps t | None \<Rightarrow> s)"
  by pat_completeness auto
termination by (relation "measure (\<lambda>(_, _, s). length s)") (auto dest: strip_one_length)

text \<open>The end of a string is trimmed on the reversed bytes; \<open>strip_ws_rev\<close> knows the reversed encodings of white space.\<close>

definition strip_one_rev :: "bool \<Rightarrow> string list \<Rightarrow> string \<Rightarrow> string option" where
  "strip_one_rev ws seps s =
     (case (if ws then strip_ws_rev s else None) of Some t \<Rightarrow> Some t
      | None \<Rightarrow> map_option (\<lambda>p. drop (length p) s) (find (\<lambda>p. p \<noteq> [] \<and> prefix p s) (map rev seps)))"

lemma strip_one_rev_length: "strip_one_rev ws seps s = Some t \<Longrightarrow> length t < length s"
  using strip_one_length [of False "map rev seps" s t] strip_ws_rev_length [of s t]
  by (auto simp: strip_one_rev_def strip_one_def split: option.splits if_splits)

function trim_matches_rev :: "bool \<Rightarrow> string list \<Rightarrow> string \<Rightarrow> string" where
  "trim_matches_rev ws seps s =
     (case strip_one_rev ws seps s of Some t \<Rightarrow> trim_matches_rev ws seps t | None \<Rightarrow> s)"
  by pat_completeness auto
termination by (relation "measure (\<lambda>(_, _, s). length s)") (auto dest: strip_one_rev_length)

declare remove_scalars.simps [simp del] trim_matches_start.simps [simp del] trim_matches_rev.simps [simp del]

definition trim_matches :: "bool \<Rightarrow> string list \<Rightarrow> string \<Rightarrow> string" where
  "trim_matches ws seps s = rev (trim_matches_rev ws seps (rev (trim_matches_start ws seps s)))"

section \<open>Normalisation and phrases\<close>

definition command_punctuation :: "string list" where
  "command_punctuation =
     [[CHR 0xEF, CHR 0xBC, CHR 0x8C], [CHR 0xE3, CHR 0x80, CHR 0x82], '','', ''.'', [CHR 0xEF, CHR 0xBC, CHR 0x9F], ''?'',
      [CHR 0xEF, CHR 0xBC, CHR 0x81], ''!'']"


definition normalize_command_text :: "string \<Rightarrow> string" where
  "normalize_command_text text = remove_scalars True command_punctuation (to_lowercase text)"

definition matches_any :: "string \<Rightarrow> string list \<Rightarrow> bool" where
  "matches_any normalized candidates \<longleftrightarrow> list_ex (\<lambda>c. str_contains normalized (normalize_command_text c)) candidates"

definition evt_stress_words :: "string list" where
  "evt_stress_words =
     [[CHR 0xE5, CHR 0x8E, CHR 0x8B, CHR 0xE6, CHR 0xB5, CHR 0x8B], ''stress'', ''burnin'', ''burn-in'', ''soak'']"


definition evt_start_words :: "string list" where
  "evt_start_words =
     [[CHR 0xE5, CHR 0xBC, CHR 0x80, CHR 0xE5, CHR 0xA7, CHR 0x8B], [CHR 0xE5, CHR 0x90, CHR 0xAF, CHR 0xE5, CHR 0x8A,
      CHR 0xA8], [CHR 0xE8, CHR 0xBF, CHR 0x90, CHR 0xE8, CHR 0xA1, CHR 0x8C], ''run'', ''start'', [CHR 0xE6, CHR 0x89,
      CHR 0xA7, CHR 0xE8, CHR 0xA1, CHR 0x8C]]"


definition evt_long_words :: "string list" where
  "evt_long_words =
     [[CHR 0x37, CHR 0x32, CHR 0xE5, CHR 0xB0, CHR 0x8F, CHR 0xE6, CHR 0x97, CHR 0xB6], ''72h'', [CHR 0x34, CHR 0xE5,
      CHR 0xB0, CHR 0x8F, CHR 0xE6, CHR 0x97, CHR 0xB6], ''4h'', [CHR 0xE9, CHR 0x95, CHR 0xBF, CHR 0xE8, CHR 0xB7,
      CHR 0x91], [CHR 0xE9, CHR 0x95, CHR 0xBF, CHR 0xE6, CHR 0x9C, CHR 0x9F]]"


definition evt_long_run_request_boundary :: "string \<Rightarrow> bool" where
  "evt_long_run_request_boundary raw_text =
     (let normalized = to_ascii_lowercase (remove_scalars True [] raw_text);
          asks = (\<lambda>keywords. list_ex (str_contains normalized) keywords)
      in asks evt_stress_words \<and> asks evt_start_words \<and> asks evt_long_words)"

definition vision_notify_phrases :: "string list" where
  "vision_notify_phrases =
     [[CHR 0xE9, CHR 0x80, CHR 0x9A, CHR 0xE7, CHR 0x9F, CHR 0xA5, CHR 0xE6, CHR 0x9C, CHR 0x80, CHR 0xE6, CHR 0x96,
      CHR 0xB0, CHR 0xE4, CHR 0xBA, CHR 0x8B, CHR 0xE4, CHR 0xBB, CHR 0xB6], [CHR 0xE9, CHR 0x80, CHR 0x9A, CHR 0xE7,
      CHR 0x9F, CHR 0xA5, CHR 0xE6, CHR 0x9C, CHR 0x80, CHR 0xE8, CHR 0xBF, CHR 0x91, CHR 0xE4, CHR 0xBA, CHR 0x8B,
      CHR 0xE4, CHR 0xBB, CHR 0xB6], [CHR 0xE5, CHR 0x8F, CHR 0x91, CHR 0xE9, CHR 0x80, CHR 0x81, CHR 0xE6, CHR 0x9C,
      CHR 0x80, CHR 0xE6, CHR 0x96, CHR 0xB0, CHR 0xE4, CHR 0xBA, CHR 0x8B, CHR 0xE4, CHR 0xBB, CHR 0xB6], [CHR 0xE8,
      CHR 0xBD, CHR 0xAC, CHR 0xE5, CHR 0x8F, CHR 0x91, CHR 0xE6, CHR 0x9C, CHR 0x80, CHR 0xE6, CHR 0x96, CHR 0xB0,
      CHR 0xE4, CHR 0xBA, CHR 0x8B, CHR 0xE4, CHR 0xBB, CHR 0xB6], [CHR 0xE6, CHR 0x8A, CHR 0x8A, CHR 0xE6, CHR 0x9C,
      CHR 0x80, CHR 0xE6, CHR 0x96, CHR 0xB0, CHR 0xE4, CHR 0xBA, CHR 0x8B, CHR 0xE4, CHR 0xBB, CHR 0xB6, CHR 0xE5,
      CHR 0x8F, CHR 0x91, CHR 0xE5, CHR 0x87, CHR 0xBA, CHR 0xE5, CHR 0x8E, CHR 0xBB], [CHR 0xE5, CHR 0x8F, CHR 0x91,
      CHR 0xE6, CHR 0x9C, CHR 0x80, CHR 0xE6, CHR 0x96, CHR 0xB0, CHR 0xE6, CHR 0x91, CHR 0x84, CHR 0xE5, CHR 0x83,
      CHR 0x8F, CHR 0xE5, CHR 0xA4, CHR 0xB4, CHR 0xE4, CHR 0xBA, CHR 0x8B, CHR 0xE4, CHR 0xBB, CHR 0xB6]]"


definition looks_like_vision_event_notify_request :: "string \<Rightarrow> bool" where
  "looks_like_vision_event_notify_request normalized = matches_any normalized vision_notify_phrases"

definition vision_summary_phrases :: "string list" where
  "vision_summary_phrases =
     [[CHR 0xE6, CHR 0x9C, CHR 0x80, CHR 0xE8, CHR 0xBF, CHR 0x91, CHR 0xE4, CHR 0xBA, CHR 0x8B, CHR 0xE4, CHR 0xBB,
      CHR 0xB6], [CHR 0xE6, CHR 0x9C, CHR 0x80, CHR 0xE6, CHR 0x96, CHR 0xB0, CHR 0xE4, CHR 0xBA, CHR 0x8B, CHR 0xE4,
      CHR 0xBB, CHR 0xB6], [CHR 0xE6, CHR 0x9C, CHR 0x80, CHR 0xE6, CHR 0x96, CHR 0xB0, CHR 0xE6, CHR 0x91, CHR 0x84,
      CHR 0xE5, CHR 0x83, CHR 0x8F, CHR 0xE5, CHR 0xA4, CHR 0xB4, CHR 0xE4, CHR 0xBA, CHR 0x8B, CHR 0xE4, CHR 0xBB,
      CHR 0xB6], [CHR 0xE6, CHR 0x91, CHR 0x84, CHR 0xE5, CHR 0x83, CHR 0x8F, CHR 0xE5, CHR 0xA4, CHR 0xB4, CHR 0xE4,
      CHR 0xBA, CHR 0x8B, CHR 0xE4, CHR 0xBB, CHR 0xB6], [CHR 0xE9, CHR 0x97, CHR 0xA8, CHR 0xE5, CHR 0x8F, CHR 0xA3,
      CHR 0xE6, CHR 0x9C, CHR 0x80, CHR 0xE8, CHR 0xBF, CHR 0x91, CHR 0xE4, CHR 0xBA, CHR 0x8B, CHR 0xE4, CHR 0xBB,
      CHR 0xB6], [CHR 0xE6, CHR 0x9C, CHR 0x89, CHR 0xE4, CHR 0xBB, CHR 0x80, CHR 0xE4, CHR 0xB9, CHR 0x88, CHR 0xE4,
      CHR 0xBA, CHR 0x8B, CHR 0xE4, CHR 0xBB, CHR 0xB6]]"


definition looks_like_vision_event_summary_request :: "string \<Rightarrow> bool" where
  "looks_like_vision_event_summary_request normalized = matches_any normalized vision_summary_phrases"

definition system_readiness_phrases :: "string list" where
  "system_readiness_phrases =
     [[CHR 0xE7, CHR 0x8A, CHR 0xB6, CHR 0xE6, CHR 0x80, CHR 0x81], [CHR 0xE8, CHR 0xAF, CHR 0x8A, CHR 0xE6, CHR 0x96,
      CHR 0xAD], [CHR 0xE5, CHR 0xBE, CHR 0xAE, CHR 0xE4, CHR 0xBF, CHR 0xA1, CHR 0xE7, CHR 0x8A, CHR 0xB6, CHR 0xE6,
      CHR 0x80, CHR 0x81], [CHR 0xE7, CHR 0xB3, CHR 0xBB, CHR 0xE7, CHR 0xBB, CHR 0x9F, CHR 0xE7, CHR 0x8A, CHR 0xB6,
      CHR 0xE6, CHR 0x80, CHR 0x81], [CHR 0xE5, CHR 0xBD, CHR 0x93, CHR 0xE5, CHR 0x89, CHR 0x8D, CHR 0xE7, CHR 0x8A,
      CHR 0xB6, CHR 0xE6, CHR 0x80, CHR 0x81], [CHR 0xE6, CHR 0x9F, CHR 0xA5, CHR 0xE7, CHR 0x9C, CHR 0x8B, CHR 0xE7,
      CHR 0x8A, CHR 0xB6, CHR 0xE6, CHR 0x80, CHR 0x81], [CHR 0xE5, CHR 0x81, CHR 0xA5, CHR 0xE5, CHR 0xBA, CHR 0xB7,
      CHR 0xE7, CHR 0x8A, CHR 0xB6, CHR 0xE6, CHR 0x80, CHR 0x81]]"


definition looks_like_system_readiness_request :: "string \<Rightarrow> bool" where
  "looks_like_system_readiness_request normalized = matches_any normalized system_readiness_phrases"

definition rag_context_phrases :: "string list" where
  "rag_context_phrases =
     [[CHR 0xE6, CHR 0xA0, CHR 0xB9, CHR 0xE6, CHR 0x8D, CHR 0xAE, CHR 0xE8, CHR 0xB5, CHR 0x84, CHR 0xE6, CHR 0x96,
      CHR 0x99], [CHR 0xE6, CHR 0xA0, CHR 0xB9, CHR 0xE6, CHR 0x8D, CHR 0xAE, CHR 0xE6, CHR 0x96, CHR 0x87, CHR 0xE6,
      CHR 0xA1, CHR 0xA3], [CHR 0xE6, CHR 0xA0, CHR 0xB9, CHR 0xE6, CHR 0x8D, CHR 0xAE, CHR 0xE7, CHR 0x9F, CHR 0xA5,
      CHR 0xE8, CHR 0xAF, CHR 0x86, CHR 0xE5, CHR 0xBA, CHR 0x93], [CHR 0xE5, CHR 0x9F, CHR 0xBA, CHR 0xE4, CHR 0xBA,
      CHR 0x8E, CHR 0xE8, CHR 0xB5, CHR 0x84, CHR 0xE6, CHR 0x96, CHR 0x99], [CHR 0xE5, CHR 0x9F, CHR 0xBA, CHR 0xE4,
      CHR 0xBA, CHR 0x8E, CHR 0xE6, CHR 0x96, CHR 0x87, CHR 0xE6, CHR 0xA1, CHR 0xA3], [CHR 0xE7, CHR 0x9F, CHR 0xA5,
      CHR 0xE8, CHR 0xAF, CHR 0x86, CHR 0xE5, CHR 0xBA, CHR 0x93], [CHR 0xE8, CHR 0xB5, CHR 0x84, CHR 0xE6, CHR 0x96,
      CHR 0x99], [CHR 0xE6, CHR 0x96, CHR 0x87, CHR 0xE6, CHR 0xA1, CHR 0xA3], [CHR 0xE8, CHR 0xAE, CHR 0xB0, CHR 0xE5,
      CHR 0xBD, CHR 0x95], [CHR 0xE5, CHR 0xB7, CHR 0xB2, CHR 0xE4, CHR 0xBF, CHR 0x9D, CHR 0xE5, CHR 0xAD, CHR 0x98],
      [CHR 0xE4, CHR 0xBF, CHR 0x9D, CHR 0xE5, CHR 0xAD, CHR 0x98, CHR 0xE7, CHR 0x9A, CHR 0x84, CHR 0xE5, CHR 0x86,
      CHR 0x85, CHR 0xE5, CHR 0xAE, CHR 0xB9], [CHR 0xE6, CHR 0x9C, CHR 0xAC, CHR 0xE5, CHR 0x9C, CHR 0xB0, CHR 0xE5,
      CHR 0x86, CHR 0x85, CHR 0xE5, CHR 0xAE, CHR 0xB9]]"


definition rag_answer_phrases :: "string list" where
  "rag_answer_phrases =
     [[CHR 0xE5, CHR 0x9B, CHR 0x9E, CHR 0xE7, CHR 0xAD, CHR 0x94], [CHR 0xE6, CHR 0x80, CHR 0xBB, CHR 0xE7, CHR 0xBB,
      CHR 0x93], [CHR 0xE6, CHR 0xA6, CHR 0x82, CHR 0xE6, CHR 0x8B, CHR 0xAC], [CHR 0xE8, CHR 0xAF, CHR 0xB4, CHR 0xE6,
      CHR 0x98, CHR 0x8E], [CHR 0xE6, CHR 0x98, CHR 0xAF, CHR 0xE4, CHR 0xBB, CHR 0x80, CHR 0xE4, CHR 0xB9, CHR 0x88],
      [CHR 0xE6, CHR 0x9C, CHR 0x89, CHR 0xE5, CHR 0x93, CHR 0xAA, CHR 0xE4, CHR 0xBA, CHR 0x9B], [CHR 0xE4, CHR 0xB8,
      CHR 0xBA, CHR 0xE4, CHR 0xBB, CHR 0x80, CHR 0xE4, CHR 0xB9, CHR 0x88], [CHR 0xE6, CHR 0x80, CHR 0x8E, CHR 0xE4,
      CHR 0xB9, CHR 0x88], [CHR 0xE5, CHR 0xA6, CHR 0x82, CHR 0xE4, CHR 0xBD, CHR 0x95]]"


definition looks_like_rag_answer_request :: "string \<Rightarrow> bool" where
  "looks_like_rag_answer_request normalized \<longleftrightarrow>
     matches_any normalized rag_context_phrases \<and> matches_any normalized rag_answer_phrases"

definition video_words :: "string list" where
  "video_words =
     [[CHR 0xE8, CHR 0xA7, CHR 0x86, CHR 0xE9, CHR 0xA2, CHR 0x91], [CHR 0xE5, CHR 0xBD, CHR 0x95, CHR 0xE5, CHR 0x83,
      CHR 0x8F], [CHR 0xE5, CHR 0x9B, CHR 0x9E, CHR 0xE6, CHR 0x94, CHR 0xBE], [CHR 0xE7, CHR 0x89, CHR 0x87, CHR 0xE6,
      CHR 0xAE, CHR 0xB5], ''video'', ''videos'', ''clip'', ''clips'']"


definition video_search_words :: "string list" where
  "video_search_words =
     [[CHR 0xE6, CHR 0x89, CHR 0xBE], [CHR 0xE6, CHR 0x9F, CHR 0xA5], [CHR 0xE6, CHR 0x90, CHR 0x9C], [CHR 0xE6, CHR 0xA3,
      CHR 0x80, CHR 0xE7, CHR 0xB4, CHR 0xA2], [CHR 0xE6, CHR 0x90, CHR 0x9C, CHR 0xE7, CHR 0xB4, CHR 0xA2], [CHR 0xE5,
      CHR 0xB7, CHR 0xB2, CHR 0xE6, CHR 0x9C, CHR 0x89], [CHR 0xE4, CHR 0xBF, CHR 0x9D, CHR 0xE5, CHR 0xAD, CHR 0x98],
      [CHR 0xE5, CHR 0x8E, CHR 0x86, CHR 0xE5, CHR 0x8F, CHR 0xB2], [CHR 0xE6, CHR 0x9C, CHR 0xAC, CHR 0xE5, CHR 0x9C,
      CHR 0xB0], [CHR 0xE5, CHR 0x8F, CHR 0xAA, CHR 0xE7, CHR 0x9C, CHR 0x8B], [CHR 0xE4, CHR 0xBB, CHR 0x85, CHR 0xE7,
      CHR 0x9C, CHR 0x8B], [CHR 0xE7, CHR 0xAD, CHR 0x9B, CHR 0xE9, CHR 0x80, CHR 0x89], [CHR 0xE6, CHR 0x8E, CHR 0x92,
      CHR 0xE9, CHR 0x99, CHR 0xA4], [CHR 0xE4, CHR 0xB8, CHR 0x8D, CHR 0xE8, CHR 0xA6, CHR 0x81], [CHR 0xE4, CHR 0xB8,
      CHR 0x8D, CHR 0xE7, CHR 0x9C, CHR 0x8B]]"


definition looks_like_video_search_request :: "string \<Rightarrow> bool" where
  "looks_like_video_search_request normalized \<longleftrightarrow>
     (if \<not> matches_any normalized video_words then False else matches_any normalized video_search_words)"

definition contextual_follow_up_phrases :: "string list" where
  "contextual_follow_up_phrases =
     [[CHR 0xE5, CHR 0x8F, CHR 0xAA, CHR 0xE7, CHR 0x9C, CHR 0x8B, CHR 0xE8, CHR 0xA7, CHR 0x86, CHR 0xE9, CHR 0xA2,
      CHR 0x91], [CHR 0xE5, CHR 0x8F, CHR 0xAA, CHR 0xE7, CHR 0x9C, CHR 0x8B, CHR 0xE8, CHR 0xA7, CHR 0x86, CHR 0xE9,
      CHR 0xA2, CHR 0x91, CHR 0xE7, CHR 0xBB, CHR 0x93, CHR 0xE6, CHR 0x9E, CHR 0x9C], [CHR 0xE4, CHR 0xBB, CHR 0x85,
      CHR 0xE7, CHR 0x9C, CHR 0x8B, CHR 0xE8, CHR 0xA7, CHR 0x86, CHR 0xE9, CHR 0xA2, CHR 0x91], [CHR 0xE6, CHR 0x8E,
      CHR 0x92, CHR 0xE9, CHR 0x99, CHR 0xA4, CHR 0xE5, CHR 0x9B, CHR 0xBE, CHR 0xE7, CHR 0x89, CHR 0x87, CHR 0xE5,
      CHR 0x92, CHR 0x8C, CHR 0xE6, CHR 0x96, CHR 0x87, CHR 0xE6, CHR 0xA1, CHR 0xA3], [CHR 0xE4, CHR 0xB8, CHR 0x8D,
      CHR 0xE8, CHR 0xA6, CHR 0x81, CHR 0xE5, CHR 0x9B, CHR 0xBE, CHR 0xE7, CHR 0x89, CHR 0x87, CHR 0xE5, CHR 0x92,
      CHR 0x8C, CHR 0xE6, CHR 0x96, CHR 0x87, CHR 0xE6, CHR 0xA1, CHR 0xA3], [CHR 0xE4, CHR 0xB8, CHR 0x8D, CHR 0xE7,
      CHR 0x9C, CHR 0x8B, CHR 0xE5, CHR 0x9B, CHR 0xBE, CHR 0xE7, CHR 0x89, CHR 0x87, CHR 0xE5, CHR 0x92, CHR 0x8C,
      CHR 0xE6, CHR 0x96, CHR 0x87, CHR 0xE6, CHR 0xA1, CHR 0xA3], [CHR 0xE5, CHR 0x8F, CHR 0xAA, CHR 0xE7, CHR 0x9C,
      CHR 0x8B, CHR 0xE7, CHR 0xAC, CHR 0xAC, CHR 0xE4, CHR 0xB8, CHR 0x80, CHR 0xE4, CHR 0xB8, CHR 0xAA, CHR 0xE8,
      CHR 0xA7, CHR 0x86, CHR 0xE9, CHR 0xA2, CHR 0x91], [CHR 0xE7, CHR 0xAC, CHR 0xAC, CHR 0xE4, CHR 0xB8, CHR 0x80,
      CHR 0xE4, CHR 0xB8, CHR 0xAA, CHR 0xE8, CHR 0xA7, CHR 0x86, CHR 0xE9, CHR 0xA2, CHR 0x91], [CHR 0xE5, CHR 0x90,
      CHR 0x8C, CHR 0xE4, CHR 0xB8, CHR 0x80, CHR 0xE6, CHR 0xAE, CHR 0xB5], [CHR 0xE7, CHR 0x9B, CHR 0xB8, CHR 0xE9,
      CHR 0x82, CHR 0xBB, CHR 0xE7, CHR 0x89, CHR 0x87, CHR 0xE6, CHR 0xAE, CHR 0xB5], [CHR 0xE5, CHR 0x89, CHR 0x8D,
      CHR 0xE5, CHR 0x90, CHR 0x8E, CHR 0xE7, CHR 0x89, CHR 0x87, CHR 0xE6, CHR 0xAE, CHR 0xB5], [CHR 0xE5, CHR 0x89,
      CHR 0x8D, CHR 0xE5, CHR 0x90, CHR 0x8E, CHR 0xE4, CHR 0xB8, CHR 0x80, CHR 0xE6, CHR 0xAE, CHR 0xB5], [CHR 0xE5,
      CHR 0x86, CHR 0x8D, CHR 0xE6, CHR 0x90, CHR 0x9C, CHR 0xE4, CHR 0xB8, CHR 0x80, CHR 0xE4, CHR 0xB8, CHR 0x8B],
      [CHR 0xE5, CHR 0x86, CHR 0x8D, CHR 0xE6, CHR 0x9F, CHR 0xA5, CHR 0xE4, CHR 0xB8, CHR 0x80, CHR 0xE4, CHR 0xB8,
      CHR 0x8B], [CHR 0xE5, CHR 0x86, CHR 0x8D, CHR 0xE6, CHR 0x89, CHR 0xBE, CHR 0xE6, CHR 0x89, CHR 0xBE], [CHR 0xE6,
      CHR 0x90, CHR 0x9C, CHR 0xE5, CHR 0xB7, CHR 0xB2, CHR 0xE6, CHR 0x9C, CHR 0x89, CHR 0xE5, CHR 0x86, CHR 0x85,
      CHR 0xE5, CHR 0xAE, CHR 0xB9]]"


definition knowledge_search_contextual_follow_up :: "string \<Rightarrow> bool" where
  "knowledge_search_contextual_follow_up normalized = matches_any normalized contextual_follow_up_phrases"

definition playback_phrases :: "string list" where
  "playback_phrases =
     [[CHR 0xE5, CHR 0xAE, CHR 0x8C, CHR 0xE6, CHR 0x95, CHR 0xB4, CHR 0xE5, CHR 0x9B, CHR 0x9E, CHR 0xE6, CHR 0x94,
      CHR 0xBE], [CHR 0xE5, CHR 0x9B, CHR 0x9E, CHR 0xE6, CHR 0x94, CHR 0xBE], [CHR 0xE5, CHR 0x9B, CHR 0x9E, CHR 0xE6,
      CHR 0x94, CHR 0xBE, CHR 0xE4, CHR 0xB8, CHR 0x80, CHR 0xE4, CHR 0xB8, CHR 0x8B], [CHR 0xE5, CHR 0x9B, CHR 0x9E,
      CHR 0xE6, CHR 0x94, CHR 0xBE, CHR 0xE4, CHR 0xB8, CHR 0x80, CHR 0xE6, CHR 0xAE, CHR 0xB5], [CHR 0xE5, CHR 0x9B,
      CHR 0x9E, CHR 0xE7, CHR 0x9C, CHR 0x8B], [CHR 0xE6, CHR 0x92, CHR 0xAD, CHR 0xE6, CHR 0x94, CHR 0xBE], [CHR 0xE6,
      CHR 0x92, CHR 0xAD, CHR 0xE6, CHR 0x94, CHR 0xBE, CHR 0xE4, CHR 0xB8, CHR 0x80, CHR 0xE4, CHR 0xB8, CHR 0x8B],
      [CHR 0xE6, CHR 0x92, CHR 0xAD, CHR 0xE4, CHR 0xB8, CHR 0x80, CHR 0xE4, CHR 0xB8, CHR 0x8B], [CHR 0xE6, CHR 0x92,
      CHR 0xAD, CHR 0xE5, CHR 0x87, CHR 0xBA, CHR 0xE6, CHR 0x9D, CHR 0xA5], [CHR 0xE6, CHR 0x94, CHR 0xBE, CHR 0xE4,
      CHR 0xB8, CHR 0x80, CHR 0xE4, CHR 0xB8, CHR 0x8B], [CHR 0xE6, CHR 0x94, CHR 0xBE, CHR 0xE5, CHR 0x87, CHR 0xBA,
      CHR 0xE6, CHR 0x9D, CHR 0xA5], [CHR 0xE5, CHR 0x8F, CHR 0x91, CHR 0xE4, CHR 0xB8, CHR 0x80, CHR 0xE4, CHR 0xB8,
      CHR 0x8B, CHR 0xE8, CHR 0xA7, CHR 0x86, CHR 0xE9, CHR 0xA2, CHR 0x91], [CHR 0xE6, CHR 0x8A, CHR 0x8A, CHR 0xE8,
      CHR 0xA7, CHR 0x86, CHR 0xE9, CHR 0xA2, CHR 0x91, CHR 0xE5, CHR 0x8F, CHR 0x91, CHR 0xE6, CHR 0x88, CHR 0x91]]"


definition playback_verbs :: "string list" where
  "playback_verbs =
     [[CHR 0xE5, CHR 0x9B, CHR 0x9E, CHR 0xE6, CHR 0x94, CHR 0xBE], [CHR 0xE5, CHR 0x9B, CHR 0x9E, CHR 0xE7, CHR 0x9C,
      CHR 0x8B], [CHR 0xE6, CHR 0x92, CHR 0xAD, CHR 0xE6, CHR 0x94, CHR 0xBE], [CHR 0xE6, CHR 0x92, CHR 0xAD], [CHR 0xE6,
      CHR 0x94, CHR 0xBE]]"


definition delivery_targets :: "string list" where
  "delivery_targets =
     [[CHR 0xE4, CHR 0xB8, CHR 0x80, CHR 0xE4, CHR 0xB8, CHR 0x8B], [CHR 0xE7, CHR 0xBB, CHR 0x99, CHR 0xE6, CHR 0x88,
      CHR 0x91], [CHR 0xE5, CHR 0x87, CHR 0xBA, CHR 0xE6, CHR 0x9D, CHR 0xA5], [CHR 0xE5, CHR 0xAE, CHR 0x8C, CHR 0xE6,
      CHR 0x95, CHR 0xB4], [CHR 0xE8, CHR 0xA7, CHR 0x86, CHR 0xE9, CHR 0xA2, CHR 0x91], [CHR 0xE7, CHR 0x89, CHR 0x87,
      CHR 0xE6, CHR 0xAE, CHR 0xB5], [CHR 0xE5, CHR 0x9B, CHR 0x9E, CHR 0xE6, CHR 0x94, CHR 0xBE]]"


definition watch_verbs :: "string list" where
  "watch_verbs =
     [[CHR 0xE7, CHR 0x9C, CHR 0x8B], [CHR 0xE5, CHR 0x8F, CHR 0x91]]"


definition watch_targets :: "string list" where
  "watch_targets =
     [[CHR 0xE5, CHR 0xAE, CHR 0x8C, CHR 0xE6, CHR 0x95, CHR 0xB4], [CHR 0xE5, CHR 0x9B, CHR 0x9E, CHR 0xE6, CHR 0x94,
      CHR 0xBE], [CHR 0xE8, CHR 0xA7, CHR 0x86, CHR 0xE9, CHR 0xA2, CHR 0x91], [CHR 0xE7, CHR 0x89, CHR 0x87, CHR 0xE6,
      CHR 0xAE, CHR 0xB5]]"


definition recent_clip_playback_request_from_normalized :: "string \<Rightarrow> bool" where
  "recent_clip_playback_request_from_normalized normalized \<longleftrightarrow>
     (if normalized = [] then False
      else if matches_any normalized playback_phrases then True
      else if matches_any normalized playback_verbs \<and> matches_any normalized delivery_targets then True
      else list_ex (str_contains normalized) watch_verbs \<and> matches_any normalized watch_targets)"

section \<open>Home Assistant actions\<close>

record home_assistant_natural_action_request =
  hn_domain :: string
  hn_service :: string
  hn_entity_hint :: "string option"

datatype home_assistant_natural_action =
    NaturalRequest home_assistant_natural_action_request
  | NaturalBlocked string

definition zh_not_low_risk :: string where
  "zh_not_low_risk =
     [CHR 0xE8, CHR 0xBF, CHR 0x99, CHR 0xE7, CHR 0xB1, CHR 0xBB, CHR 0x20, CHR 0x48, CHR 0x6F, CHR 0x6D, CHR 0x65,
      CHR 0x20, CHR 0x41, CHR 0x73, CHR 0x73, CHR 0x69, CHR 0x73, CHR 0x74, CHR 0x61, CHR 0x6E, CHR 0x74, CHR 0x20,
      CHR 0xE5, CHR 0x8A, CHR 0xA8, CHR 0xE4, CHR 0xBD, CHR 0x9C, CHR 0xE4, CHR 0xB8, CHR 0x8D, CHR 0xE5, CHR 0x9C,
      CHR 0xA8, CHR 0xE4, CHR 0xBD, CHR 0x8E, CHR 0xE9, CHR 0xA3, CHR 0x8E, CHR 0xE9, CHR 0x99, CHR 0xA9, CHR 0x20,
      CHR 0x61, CHR 0x6C, CHR 0x6C, CHR 0x6F, CHR 0x77, CHR 0x6C, CHR 0x69, CHR 0x73, CHR 0x74, CHR 0x20, CHR 0xE4,
      CHR 0xB8, CHR 0xAD, CHR 0xEF, CHR 0xBC, CHR 0x8C, CHR 0xE6, CHR 0x9C, CHR 0xAC, CHR 0xE6, CHR 0xAC, CHR 0xA1,
      CHR 0xE6, CHR 0xB2, CHR 0xA1, CHR 0xE6, CHR 0x9C, CHR 0x89, CHR 0xE6, CHR 0x89, CHR 0xA7, CHR 0xE8, CHR 0xA1,
      CHR 0x8C, CHR 0xE3, CHR 0x80, CHR 0x82]"


definition unsafe_ha_phrases :: "string list" where
  "unsafe_ha_phrases =
     [[CHR 0xE9, CHR 0x87, CHR 0x8D, CHR 0xE5, CHR 0x90, CHR 0xAF, CHR 0x68, CHR 0x6F, CHR 0x6D, CHR 0x65, CHR 0x61,
      CHR 0x73, CHR 0x73, CHR 0x69, CHR 0x73, CHR 0x74, CHR 0x61, CHR 0x6E, CHR 0x74], [CHR 0xE9, CHR 0x87, CHR 0x8D,
      CHR 0xE5, CHR 0x90, CHR 0xAF, CHR 0x68, CHR 0x61], [CHR 0xE9, CHR 0x87, CHR 0x8D, CHR 0xE5, CHR 0x90, CHR 0xAF,
      CHR 0xE7, CHR 0xB3, CHR 0xBB, CHR 0xE7, CHR 0xBB, CHR 0x9F], [CHR 0xE9, CHR 0x87, CHR 0x8D, CHR 0xE5, CHR 0x90,
      CHR 0xAF, CHR 0xE7, CHR 0xBD, CHR 0x91, CHR 0xE5, CHR 0x85, CHR 0xB3], [CHR 0xE8, CHR 0xA7, CHR 0xA3, CHR 0xE9,
      CHR 0x94, CHR 0x81], [CHR 0xE5, CHR 0xBC, CHR 0x80, CHR 0xE9, CHR 0x94, CHR 0x81], [CHR 0xE5, CHR 0xBC, CHR 0x80,
      CHR 0xE9, CHR 0x97, CHR 0xA8], [CHR 0xE6, CHR 0x89, CHR 0x93, CHR 0xE5, CHR 0xBC, CHR 0x80, CHR 0xE9, CHR 0x97,
      CHR 0xA8, CHR 0xE9, CHR 0x94, CHR 0x81], [CHR 0xE8, CHR 0xAE, CHR 0xBE, CHR 0xE7, CHR 0xBD, CHR 0xAE, CHR 0xE6,
      CHR 0xB8, CHR 0xA9, CHR 0xE5, CHR 0xBA, CHR 0xA6], [CHR 0xE8, CHR 0xAE, CHR 0xBE, CHR 0xE6, CHR 0xB8, CHR 0xA9,
      CHR 0xE5, CHR 0xBA, CHR 0xA6], [CHR 0xE8, CHR 0xB0, CHR 0x83, CHR 0xE6, CHR 0xB8, CHR 0xA9, CHR 0xE5, CHR 0xBA,
      CHR 0xA6], [CHR 0xE6, CHR 0x89, CHR 0x93, CHR 0xE5, CHR 0xBC, CHR 0x80, CHR 0xE7, CHR 0xA9, CHR 0xBA, CHR 0xE8,
      CHR 0xB0, CHR 0x83], [CHR 0xE5, CHR 0x85, CHR 0xB3, CHR 0xE9, CHR 0x97, CHR 0xAD, CHR 0xE7, CHR 0xA9, CHR 0xBA,
      CHR 0xE8, CHR 0xB0, CHR 0x83], [CHR 0xE5, CHR 0xBC, CHR 0x80, CHR 0xE7, CHR 0xA9, CHR 0xBA, CHR 0xE8, CHR 0xB0,
      CHR 0x83], [CHR 0xE5, CHR 0x85, CHR 0xB3, CHR 0xE7, CHR 0xA9, CHR 0xBA, CHR 0xE8, CHR 0xB0, CHR 0x83], [CHR 0xE6,
      CHR 0x89, CHR 0x93, CHR 0xE5, CHR 0xBC, CHR 0x80, CHR 0xE9, CHR 0x98, CHR 0x80, CHR 0xE9, CHR 0x97, CHR 0xA8],
      [CHR 0xE5, CHR 0x85, CHR 0xB3, CHR 0xE9, CHR 0x97, CHR 0xAD, CHR 0xE9, CHR 0x98, CHR 0x80, CHR 0xE9, CHR 0x97,
      CHR 0xA8]]"


definition looks_like_unsafe_home_assistant_request :: "string \<Rightarrow> bool" where
  "looks_like_unsafe_home_assistant_request normalized = matches_any normalized unsafe_ha_phrases"

definition entity_hint_tokens :: "string list" where
  "entity_hint_tokens =
     [[CHR 0xE9, CHR 0x97, CHR 0xA8, CHR 0xE5, CHR 0x8F, CHR 0xA3], [CHR 0xE7, CHR 0x8E, CHR 0x84, CHR 0xE5, CHR 0x85,
      CHR 0xB3], [CHR 0xE5, CHR 0xAE, CHR 0xA2, CHR 0xE5, CHR 0x8E, CHR 0x85], [CHR 0xE5, CHR 0x8E, CHR 0xA8, CHR 0xE6,
      CHR 0x88, CHR 0xBF], [CHR 0xE5, CHR 0x8D, CHR 0xA7, CHR 0xE5, CHR 0xAE, CHR 0xA4], [CHR 0xE4, CHR 0xB9, CHR 0xA6,
      CHR 0xE6, CHR 0x88, CHR 0xBF], [CHR 0xE9, CHR 0x98, CHR 0xB3, CHR 0xE5, CHR 0x8F, CHR 0xB0], [CHR 0xE8, CHR 0xBD,
      CHR 0xA6, CHR 0xE5, CHR 0xBA, CHR 0x93], [CHR 0xE6, CHR 0xB5, CHR 0x8B, CHR 0xE8, CHR 0xAF, CHR 0x95], [CHR 0xE9,
      CHR 0xA4, CHR 0x90, CHR 0xE5, CHR 0x8E, CHR 0x85], ''kitchen'', ''livingroom'', ''frontdoor'', ''porch'', ''test'']"


definition zh_test_scene :: string where
  "zh_test_scene =
     [CHR 0xE6, CHR 0xB5, CHR 0x8B, CHR 0xE8, CHR 0xAF, CHR 0x95, CHR 0xE5, CHR 0x9C, CHR 0xBA, CHR 0xE6, CHR 0x99,
      CHR 0xAF]"

definition zh_test :: string where
  "zh_test =
     [CHR 0xE6, CHR 0xB5, CHR 0x8B, CHR 0xE8, CHR 0xAF, CHR 0x95]"


definition infer_home_assistant_entity_hint :: "string \<Rightarrow> string \<Rightarrow> string option" where
  "infer_home_assistant_entity_hint normalized domain =
     or_else (find (str_contains normalized) entity_hint_tokens)
       (if domain = ''scene'' \<and> str_contains normalized zh_test_scene then Some zh_test else None)"

definition toggle_phrases :: "string list" where
  "toggle_phrases =
     [[CHR 0xE5, CHR 0x88, CHR 0x87, CHR 0xE6, CHR 0x8D, CHR 0xA2], ''toggle'', [CHR 0xE5, CHR 0x8F, CHR 0x8D, CHR 0xE8,
      CHR 0xBD, CHR 0xAC]]"


definition turn_off_phrases :: "string list" where
  "turn_off_phrases =
     [[CHR 0xE5, CHR 0x85, CHR 0xB3, CHR 0xE9, CHR 0x97, CHR 0xAD], [CHR 0xE5, CHR 0x85, CHR 0xB3, CHR 0xE6, CHR 0x8E,
      CHR 0x89], [CHR 0xE5, CHR 0x85, CHR 0xB3, CHR 0xE7, CHR 0x81, CHR 0xAF], [CHR 0xE5, CHR 0x85, CHR 0xB3, CHR 0xE5,
      CHR 0xBC, CHR 0x80, CHR 0xE5, CHR 0x85, CHR 0xB3], ''turnoff'']"


definition turn_on_phrases :: "string list" where
  "turn_on_phrases =
     [[CHR 0xE6, CHR 0x89, CHR 0x93, CHR 0xE5, CHR 0xBC, CHR 0x80], [CHR 0xE5, CHR 0xBC, CHR 0x80, CHR 0xE5, CHR 0x90,
      CHR 0xAF], [CHR 0xE5, CHR 0xBC, CHR 0x80, CHR 0xE7, CHR 0x81, CHR 0xAF], [CHR 0xE6, CHR 0x89, CHR 0x93, CHR 0xE5,
      CHR 0xBC, CHR 0x80, CHR 0xE5, CHR 0xBC, CHR 0x80, CHR 0xE5, CHR 0x85, CHR 0xB3], [CHR 0xE5, CHR 0xBC, CHR 0x80,
      CHR 0xE5, CHR 0xBC, CHR 0x80, CHR 0xE5, CHR 0x85, CHR 0xB3], ''turnon'']"


definition natural_request :: "string \<Rightarrow> string \<Rightarrow> string \<Rightarrow> home_assistant_natural_action" where
  "natural_request normalized domain service = NaturalRequest
     \<lparr>hn_domain = domain, hn_service = service, hn_entity_hint = infer_home_assistant_entity_hint normalized domain\<rparr>"

definition power_home_assistant_action :: "string \<Rightarrow> string \<Rightarrow> home_assistant_natural_action option" where
  "power_home_assistant_action normalized domain =
     (if matches_any normalized toggle_phrases then Some (natural_request normalized domain ''toggle'')
      else if matches_any normalized turn_off_phrases then Some (natural_request normalized domain ''turn_off'')
      else if matches_any normalized turn_on_phrases then Some (natural_request normalized domain ''turn_on'')
      else None)"

definition scene_words :: "string list" where
  "scene_words =
     [[CHR 0xE5, CHR 0x9C, CHR 0xBA, CHR 0xE6, CHR 0x99, CHR 0xAF], ''scene'']"


definition input_boolean_words :: "string list" where
  "input_boolean_words =
     [''inputboolean'', ''input_boolean'', [CHR 0xE5, CHR 0xB8, CHR 0x83, CHR 0xE5, CHR 0xB0, CHR 0x94], [CHR 0xE8,
      CHR 0xBE, CHR 0x93, CHR 0xE5, CHR 0x85, CHR 0xA5, CHR 0xE5, CHR 0xB8, CHR 0x83, CHR 0xE5, CHR 0xB0, CHR 0x94]]"


definition light_words :: "string list" where
  "light_words =
     [[CHR 0xE7, CHR 0x81, CHR 0xAF], [CHR 0xE7, CHR 0x94, CHR 0xB5, CHR 0xE7, CHR 0x81, CHR 0xAF], [CHR 0xE7, CHR 0x81,
      CHR 0xAF, CHR 0xE5, CHR 0x85, CHR 0x89], ''light'']"


definition switch_words :: "string list" where
  "switch_words =
     [[CHR 0xE5, CHR 0xBC, CHR 0x80, CHR 0xE5, CHR 0x85, CHR 0xB3], ''switch'']"


definition infer_home_assistant_natural_action :: "string \<Rightarrow> home_assistant_natural_action option" where
  "infer_home_assistant_natural_action raw_text =
     (let normalized = normalize_command_text raw_text in
      if normalized = [] then None
      else if looks_like_unsafe_home_assistant_request normalized then Some (NaturalBlocked zh_not_low_risk)
      else if matches_any normalized scene_words then Some (natural_request normalized ''scene'' ''turn_on'')
      else if matches_any normalized input_boolean_words then power_home_assistant_action normalized ''input_boolean''
      else if matches_any normalized light_words then power_home_assistant_action normalized ''light''
      else if matches_any normalized switch_words then power_home_assistant_action normalized ''switch''
      else None)"

definition is_low_risk_home_assistant_service_action :: "home_assistant_natural_action_request \<Rightarrow> bool" where
  "is_low_risk_home_assistant_service_action action \<longleftrightarrow>
     hn_domain action \<in> {''light'', ''switch'', ''input_boolean''} \<and> hn_service action \<in> {''turn_on'', ''turn_off'', ''toggle''} \<or>
     hn_domain action = ''scene'' \<and> hn_service action = ''turn_on''"

section \<open>The search query of a message\<close>

definition query_edges :: "string list" where
  "query_edges =
     [[CHR 0xEF, CHR 0xBC, CHR 0x8C], [CHR 0xE3, CHR 0x80, CHR 0x82], '','', ''.'', [CHR 0xEF, CHR 0xBC, CHR 0x9F], ''?'',
      [CHR 0xEF, CHR 0xBC, CHR 0x81], ''!'', [CHR 0xEF, CHR 0xBC, CHR 0x9A], '':'']"


definition query_patterns :: "string list" where
  "query_patterns =
     [[CHR 0xE8, CHR 0xAF, CHR 0xB7, CHR 0xE5, CHR 0xB8, CHR 0xAE, CHR 0xE6, CHR 0x88, CHR 0x91], [CHR 0xE5, CHR 0xB8,
      CHR 0xAE, CHR 0xE6, CHR 0x88, CHR 0x91], [CHR 0xE6, CHR 0x89, CHR 0xBE, CHR 0xE5, CHR 0x88, CHR 0xB0], [CHR 0xE6,
      CHR 0x89, CHR 0xBE, CHR 0xE4, CHR 0xB8, CHR 0x80, CHR 0xE4, CHR 0xB8, CHR 0x8B], [CHR 0xE6, CHR 0x89, CHR 0xBE,
      CHR 0xE5, CHR 0x87, CHR 0xBA], [CHR 0xE6, CHR 0x89, CHR 0xBE], [CHR 0xE6, CHR 0x9F, CHR 0xA5, CHR 0xE4, CHR 0xB8,
      CHR 0x80, CHR 0xE4, CHR 0xB8, CHR 0x8B], [CHR 0xE6, CHR 0x9F, CHR 0xA5, CHR 0xE6, CHR 0x89, CHR 0xBE], [CHR 0xE6,
      CHR 0x9F, CHR 0xA5], [CHR 0xE6, CHR 0x90, CHR 0x9C, CHR 0xE7, CHR 0xB4, CHR 0xA2], [CHR 0xE6, CHR 0x90, CHR 0x9C,
      CHR 0xE4, CHR 0xB8, CHR 0x80, CHR 0xE4, CHR 0xB8, CHR 0x8B], [CHR 0xE6, CHR 0x90, CHR 0x9C], [CHR 0xE6, CHR 0xA3,
      CHR 0x80, CHR 0xE7, CHR 0xB4, CHR 0xA2], [CHR 0xE5, CHR 0x92, CHR 0x8C], [CHR 0xE6, CHR 0xA0, CHR 0xB9, CHR 0xE6,
      CHR 0x8D, CHR 0xAE], [CHR 0xE5, CHR 0x9F, CHR 0xBA, CHR 0xE4, CHR 0xBA, CHR 0x8E], [CHR 0xE5, CHR 0x85, CHR 0xB3,
      CHR 0xE4, CHR 0xBA, CHR 0x8E], [CHR 0xE6, CHR 0x9C, CHR 0x89, CHR 0xE5, CHR 0x85, CHR 0xB3, CHR 0xE7, CHR 0x9A,
      CHR 0x84], [CHR 0xE7, CHR 0x9B, CHR 0xB8, CHR 0xE5, CHR 0x85, CHR 0xB3, CHR 0xE7, CHR 0x9A, CHR 0x84], [CHR 0xE6,
      CHR 0x9C, CHR 0x89, CHR 0xE5, CHR 0x85, CHR 0xB3], [CHR 0xE5, CHR 0x8F, CHR 0xAA, CHR 0xE7, CHR 0x9C, CHR 0x8B],
      [CHR 0xE4, CHR 0xBB, CHR 0x85, CHR 0xE7, CHR 0x9C, CHR 0x8B], [CHR 0xE5, CHR 0x8F, CHR 0xAA, CHR 0xE8, CHR 0xA6,
      CHR 0x81], [CHR 0xE7, CHR 0xBB, CHR 0x93, CHR 0xE6, CHR 0x9E, CHR 0x9C], [CHR 0xE6, CHR 0x8E, CHR 0x92, CHR 0xE9,
      CHR 0x99, CHR 0xA4], [CHR 0xE4, CHR 0xB8, CHR 0x8D, CHR 0xE8, CHR 0xA6, CHR 0x81], [CHR 0xE4, CHR 0xB8, CHR 0x8D,
      CHR 0xE7, CHR 0x9C, CHR 0x8B], [CHR 0xE5, CHR 0x87, CHR 0xBA, CHR 0xE7, CHR 0x8E, CHR 0xB0], [CHR 0xE5, CHR 0x9B,
      CHR 0x9E, CHR 0xE7, CHR 0xAD, CHR 0x94], [CHR 0xE6, CHR 0x80, CHR 0xBB, CHR 0xE7, CHR 0xBB, CHR 0x93], [CHR 0xE6,
      CHR 0xA6, CHR 0x82, CHR 0xE6, CHR 0x8B, CHR 0xAC], [CHR 0xE8, CHR 0xAF, CHR 0xB4, CHR 0xE6, CHR 0x98, CHR 0x8E],
      [CHR 0xE6, CHR 0x98, CHR 0xAF, CHR 0xE4, CHR 0xBB, CHR 0x80, CHR 0xE4, CHR 0xB9, CHR 0x88], [CHR 0xE6, CHR 0x9C,
      CHR 0x89, CHR 0xE5, CHR 0x93, CHR 0xAA, CHR 0xE4, CHR 0xBA, CHR 0x9B], [CHR 0xE4, CHR 0xB8, CHR 0xBA, CHR 0xE4,
      CHR 0xBB, CHR 0x80, CHR 0xE4, CHR 0xB9, CHR 0x88], [CHR 0xE6, CHR 0x80, CHR 0x8E, CHR 0xE4, CHR 0xB9, CHR 0x88],
      [CHR 0xE5, CHR 0xA6, CHR 0x82, CHR 0xE4, CHR 0xBD, CHR 0x95], [CHR 0xE6, CHR 0x96, CHR 0x87, CHR 0xE4, CHR 0xBB,
      CHR 0xB6], [CHR 0xE6, CHR 0x96, CHR 0x87, CHR 0xE6, CHR 0xA1, CHR 0xA3], [CHR 0xE5, CHR 0x9B, CHR 0xBE, CHR 0xE7,
      CHR 0x89, CHR 0x87], [CHR 0xE7, CHR 0x85, CHR 0xA7, CHR 0xE7, CHR 0x89, CHR 0x87], [CHR 0xE8, CHR 0xA7, CHR 0x86,
      CHR 0xE9, CHR 0xA2, CHR 0x91, CHR 0xE9, CHR 0x87, CHR 0x8C], [CHR 0xE5, CHR 0xBD, CHR 0x95, CHR 0xE5, CHR 0x83,
      CHR 0x8F, CHR 0xE9, CHR 0x87, CHR 0x8C], [CHR 0xE7, CHR 0x89, CHR 0x87, CHR 0xE6, CHR 0xAE, CHR 0xB5, CHR 0xE9,
      CHR 0x87, CHR 0x8C], [CHR 0xE8, CHR 0xA7, CHR 0x86, CHR 0xE9, CHR 0xA2, CHR 0x91], [CHR 0xE5, CHR 0xBD, CHR 0x95,
      CHR 0xE5, CHR 0x83, CHR 0x8F], [CHR 0xE5, CHR 0x9B, CHR 0x9E, CHR 0xE6, CHR 0x94, CHR 0xBE], [CHR 0xE7, CHR 0x89,
      CHR 0x87, CHR 0xE6, CHR 0xAE, CHR 0xB5], [CHR 0xE7, CHR 0x9B, CHR 0xB8, CHR 0xE9, CHR 0x82, CHR 0xBB], [CHR 0xE5,
      CHR 0x90, CHR 0x8C, CHR 0xE4, CHR 0xB8, CHR 0x80, CHR 0xE6, CHR 0xAE, CHR 0xB5], [CHR 0xE7, CHR 0xAC, CHR 0xAC,
      CHR 0xE4, CHR 0xB8, CHR 0x80, CHR 0xE4, CHR 0xB8, CHR 0xAA], [CHR 0xE5, CHR 0x89, CHR 0x8D, CHR 0xE5, CHR 0x90,
      CHR 0x8E], [CHR 0xE8, CHR 0xB5, CHR 0x84, CHR 0xE6, CHR 0x96, CHR 0x99], [CHR 0xE5, CHR 0x86, CHR 0x85, CHR 0xE5,
      CHR 0xAE, CHR 0xB9], ''file'', ''files'', ''document'', ''documents'', ''image'', ''images'', ''photo'', ''photos'',
      ''picture'', ''pictures'', ''search for'', ''search'', ''find'', ''lookup'', ''look up'']"


definition query_particles :: "string list" where
  "query_particles =
     [[CHR 0xE7, CHR 0x9A, CHR 0x84], [CHR 0xE4, CHR 0xBA, CHR 0x86]]"


definition infer_query_from_raw_text :: "string \<Rightarrow> string option" where
  "infer_query_from_raw_text raw_text =
     (let trimmed = trim_matches True query_edges (trim raw_text) in
      if trimmed = [] then None
      else
        let replaced = fold (\<lambda>pattern candidate. replace_str pattern '' '' candidate) query_patterns trimmed;
            candidate = trim (trim_matches False query_particles (join '' '' (split_whitespace replaced)))
        in Some (if candidate = [] then trimmed else candidate))"

section \<open>Fields\<close>

definition normalize_optional_general_message_plan_field :: "string option \<Rightarrow> string option" where
  "normalize_optional_general_message_plan_field value =
     opt_filter (\<lambda>v. v \<noteq> [] \<and> to_ascii_lowercase v \<notin> {''null'', ''none'', ''n/a''}) (map_option trim value)"

text \<open>\<^verbatim>\<open>Value::pointer\<close> for pointers of member names, the kind the source uses here.\<close>

fun json_pointer :: "json \<Rightarrow> string list \<Rightarrow> json option" where
  "json_pointer value [] = Some value"
| "json_pointer value (k # ks) = (case json_get value k of None \<Rightarrow> None | Some v \<Rightarrow> json_pointer v ks)"

fun string_at_paths :: "json \<Rightarrow> string list list \<Rightarrow> string option" where
  "string_at_paths value [] = None"
| "string_at_paths value (path # paths) =
     (case opt_filter (\<lambda>t. t \<noteq> []) (map_option trim (Option.bind (json_pointer value path) as_str)) of
        Some t \<Rightarrow> Some t | None \<Rightarrow> string_at_paths value paths)"

fun recent_search_query_from_recap :: "json list \<Rightarrow> string option" where
  "recent_search_query_from_recap [] = None"
| "recent_search_query_from_recap (entry # rest) =
     (case or_else (string_at_paths entry [[''query'']]) (string_at_paths entry [[''search'', ''query''], [''data'', ''query'']]) of
        Some q \<Rightarrow> Some q | None \<Rightarrow> recent_search_query_from_recap rest)"

section \<open>JSON in the text of a model\<close>

text \<open>
  The first balanced object: depth of braces, whether the position is inside a string or after a backslash, and the bytes since
  the opening brace. All characters that matter are ASCII, so the scan of bytes is the scan of scalars.
\<close>

fun balanced_scan :: "nat \<Rightarrow> bool \<Rightarrow> bool \<Rightarrow> string \<Rightarrow> string \<Rightarrow> string option" where
  "balanced_scan depth in_string escaped acc [] = None"
| "balanced_scan depth in_string escaped acc (c # s) =
     (let acc' = (if 0 < depth then acc @ [c] else acc) in
      if escaped then balanced_scan depth in_string False acc' s
      else if c = CHR 0x5C \<and> in_string then balanced_scan depth in_string True acc' s
      else if c = CHR 0x22 then balanced_scan depth (\<not> in_string) False acc' s
      else if c = CHR ''{'' \<and> \<not> in_string then balanced_scan (depth + 1) in_string False (if depth = 0 then [c] else acc') s
      else if c = CHR ''}'' \<and> \<not> in_string then
        (if depth = 0 then balanced_scan depth in_string False acc' s
         else if depth = 1 then Some acc'
         else balanced_scan (depth - 1) in_string False acc' s)
      else balanced_scan depth in_string False acc' s)"

definition extract_first_balanced_json_object :: "string \<Rightarrow> string option" where
  "extract_first_balanced_json_object text = balanced_scan 0 False False [] text"

text \<open>\<^verbatim>\<open>split(needle)\<close>: the pieces between the occurrences, from left to right.\<close>

function split_str :: "string \<Rightarrow> string \<Rightarrow> string \<Rightarrow> string list" where
  "split_str needle acc [] = [acc]"
| "split_str needle acc (c # s) =
     (if needle \<noteq> [] \<and> prefix needle (c # s) then acc # split_str needle [] (drop (length needle) (c # s))
      else split_str needle (acc @ [c]) s)"
  by pat_completeness auto
termination by (relation "measure (\<lambda>(_, _, s). length s)") auto

definition code_fence :: string where "code_fence = [CHR 0x60, CHR 0x60, CHR 0x60]"

fun first_parsed :: "(string \<Rightarrow> json option) \<Rightarrow> string list \<Rightarrow> json option" where
  "first_parsed from_str [] = None"
| "first_parsed from_str (piece # rest) =
     (let candidate = (if starts_with piece ''json'' then trim (drop 4 piece) else piece) in
      case from_str candidate of Some v \<Rightarrow> Some v | None \<Rightarrow> first_parsed from_str rest)"

definition parse_json_object_from_text :: "(string \<Rightarrow> json option) \<Rightarrow> string \<Rightarrow> json option" where
  "parse_json_object_from_text from_str text =
     (let trimmed = trim text in
      case from_str trimmed of Some v \<Rightarrow> Some v
      | None \<Rightarrow>
          (case first_parsed from_str (filter (\<lambda>p. p \<noteq> []) (map trim (split_str code_fence [] trimmed))) of Some v \<Rightarrow> Some v
           | None \<Rightarrow> Option.bind (extract_first_balanced_json_object trimmed) from_str))"

section \<open>What is recognised\<close>

text \<open>A Home Assistant action read from a message is one of the low-risk services, or it is blocked.\<close>

lemma power_action_low_risk:
  "power_home_assistant_action normalized domain = Some (NaturalRequest r) \<Longrightarrow> domain \<in> {''light'', ''switch'', ''input_boolean''} \<Longrightarrow>
     is_low_risk_home_assistant_service_action r"
  by (auto simp: power_home_assistant_action_def natural_request_def is_low_risk_home_assistant_service_action_def split: if_splits)

lemma inferred_action_low_risk:
  assumes "infer_home_assistant_natural_action raw_text = Some (NaturalRequest r)"
  shows "is_low_risk_home_assistant_service_action r" "\<not> looks_like_unsafe_home_assistant_request (normalize_command_text raw_text)"
proof -
  show "is_low_risk_home_assistant_service_action r"
    using assms power_action_low_risk [of "normalize_command_text raw_text"]
    by (auto simp: infer_home_assistant_natural_action_def Let_def natural_request_def is_low_risk_home_assistant_service_action_def
      split: if_splits)
  show "\<not> looks_like_unsafe_home_assistant_request (normalize_command_text raw_text)"
    using assms by (auto simp: infer_home_assistant_natural_action_def Let_def split: if_splits)
qed

text \<open>The extracted object is a piece of the text that starts and ends with its braces.\<close>

lemma balanced_scan_step:
  assumes "balanced_scan depth in_string escaped acc (c # s) = Some r"
  shows "depth = 1 \<and> c = CHR ''}'' \<and> r = acc @ [c] \<or>
    (\<exists>d i e. balanced_scan d i e (if 0 < depth then acc @ [c] else if 0 < d then [c] else acc) s = Some r \<and>
       (0 < d \<longleftrightarrow> 0 < depth \<or> c = CHR ''{'' \<and> \<not> escaped \<and> \<not> in_string))"
proof -
  let ?acc = "if 0 < depth then acc @ [c] else acc"
  consider "escaped" | "\<not> escaped" "c = CHR 0x5C" "in_string" | "\<not> escaped" "c = CHR 0x22"
    | "\<not> escaped" "c = CHR ''{''" "\<not> in_string" | "\<not> escaped" "c = CHR ''}''" "\<not> in_string"
    | "\<not> escaped" "c \<noteq> CHR 0x22" "c = CHR 0x5C \<longrightarrow> \<not> in_string" "c \<in> {CHR ''{'', CHR ''}''} \<longrightarrow> in_string" by blast
  then show ?thesis
  proof cases
    case 1
    then have "balanced_scan depth in_string False ?acc s = Some r" using assms by (cases "0 < depth") (simp_all add: Let_def)
    then show ?thesis using 1 by (cases "0 < depth") force+
  next
    case 2
    then have "balanced_scan depth in_string True ?acc s = Some r" using assms by (cases "0 < depth") (simp_all add: Let_def)
    then show ?thesis using 2 by (cases "0 < depth") force+
  next
    case 3
    then have "balanced_scan depth (\<not> in_string) False ?acc s = Some r" using assms by (cases "0 < depth") (simp_all add: Let_def)
    then show ?thesis using 3 by (cases "0 < depth") force+
  next
    case 4
    then have "balanced_scan (depth + 1) in_string False (if depth = 0 then [c] else ?acc) s = Some r" using assms by (cases "0 < depth") (simp_all add: Let_def)
    then show ?thesis using 4 by (cases "0 < depth") force+
  next
    case 5
    then consider "depth = 1" | "depth = 0" | "1 < depth" by linarith
    then show ?thesis
    proof cases
      case 1
      then show ?thesis using 5 assms by (simp add: Let_def)
    next
      case 2
      then have "balanced_scan 0 in_string False acc s = Some r" using 5 assms by (simp add: Let_def)
      then show ?thesis using 2 5 by force
    next
      case 3
      then have "balanced_scan (depth - 1) in_string False (acc @ [c]) s = Some r" using 5 assms by (simp add: Let_def)
      then show ?thesis using 3
        by (intro disjI2 exI [of _ "depth - 1"] exI [of _ in_string] exI [of _ False]) simp
    qed
  next
    case 6
    then have "balanced_scan depth in_string False ?acc s = Some r" using assms by (cases "0 < depth") (auto simp: Let_def)
    then show ?thesis using 6 by (cases "0 < depth") force+
  qed
qed

lemma balanced_scan_shape:
  "balanced_scan depth in_string escaped acc s = Some r \<Longrightarrow> (0 < depth \<longrightarrow> acc \<noteq> [] \<and> hd acc = CHR ''{'') \<Longrightarrow>
     r \<noteq> [] \<and> hd r = CHR ''{'' \<and> last r = CHR ''}'' \<and> sublist r ((if 0 < depth then acc else []) @ s)"
proof (induction s arbitrary: depth in_string escaped acc)
  case (Cons c s)
  consider "depth = 1" "c = CHR ''}''" "r = acc @ [c]"
    | d i e where "balanced_scan d i e (if 0 < depth then acc @ [c] else if 0 < d then [c] else acc) s = Some r"
        "0 < d \<longleftrightarrow> 0 < depth \<or> c = CHR ''{'' \<and> \<not> escaped \<and> \<not> in_string"
    using balanced_scan_step [OF Cons.prems(1)] by blast
  then show ?case
  proof cases
    case 1
    then show ?thesis using Cons.prems(2) by simp
  next
    case 2
    from Cons.IH [OF 2(1)] 2(2) Cons.prems(2) show ?thesis
      by (cases "0 < depth"; cases "0 < d") (auto simp: sublist_Cons_right)
  qed
qed simp

lemma extracted_object_is_part: "extract_first_balanced_json_object t = Some r \<Longrightarrow>
  r \<noteq> [] \<and> hd r = CHR ''{'' \<and> last r = CHR ''}'' \<and> sublist r t"
  using balanced_scan_shape [of 0 False False "[]" t r] by (simp add: extract_first_balanced_json_object_def)

end

