(* ===== verification/Message_Plan.thy ===== *)
theory Message_Plan
  imports Conversation_State Message_Text
begin

text \<open>
  Plans for a message and how they are found without a model, from \<^verbatim>\<open>src/src/runtime/task_api/general_message_plan.rs\<close> and
  \<^verbatim>\<open>general_message_router.rs\<close>: signals, candidates with their confidence, the deterministic choice and the
  fallback rules. Confidences are bytes in the source; every candidate has at most 100, so the additions do not overflow.
\<close>

section \<open>Plans\<close>

datatype general_message_plan_kind =
    GmCapabilitySummary | GmClarify | GmConversationAct | GmCameraReplayRecentClip | GmCameraLiveView | GmCameraSnapshot
  | GmCameraSnapshotAndRecordClip | GmCameraRecordClip | GmCatActivityQuery | GmKnowledgeSearch | GmRagAnswer
  | GmHomeAssistantServiceAction | GmVisionEventSummary | GmVisionEventNotifyLatest | GmVlmDescribeLatestEvent | GmVlmDescribeEvent
  | GmFamilyMemorySummary | GmSystemReadiness | GmEvtReadiness | GmEvtPreflight | GmEvtEvidenceBundle | GmFamilyTimelineSummary
  | GmFamilyTimelineQuery | GmGuardianRuleProposal | GmGuardianRuleList | GmGuardianRuleEnable | GmGuardianRulePause | GmGuardianStatus
  | GmFamilyMemoryConfirm | GmFamilyMemoryFavorite | GmFamilyMemoryHide | GmFamilyMemoryCorrectSummary | GmFamilyMemoryCorrectLabels
  | GmFamilyMemoryShowFavorites | GmUnsupported

definition CAT_ACTIVITY_DEFAULT_BATCH_LIMIT :: nat where "CAT_ACTIVITY_DEFAULT_BATCH_LIMIT = 3"
definition CAT_ACTIVITY_MAX_BATCH_LIMIT :: nat where "CAT_ACTIVITY_MAX_BATCH_LIMIT = 5"

datatype cat_activity_time_scope = ScopeInherit | ScopeToday | ScopeMorning | ScopeAfternoon | ScopeEvening | ScopeRecent

fun cat_time_scope_str :: "cat_activity_time_scope \<Rightarrow> string" where
  "cat_time_scope_str ScopeInherit = ''inherit''"
| "cat_time_scope_str ScopeToday = ''today''"
| "cat_time_scope_str ScopeMorning = ''morning''"
| "cat_time_scope_str ScopeAfternoon = ''afternoon''"
| "cat_time_scope_str ScopeEvening = ''evening''"
| "cat_time_scope_str ScopeRecent = ''recent''"

definition cat_time_scope_parse :: "string \<Rightarrow> cat_activity_time_scope option" where
  "cat_time_scope_parse value =
     (let v = to_ascii_lowercase (trim value) in
      if v \<in> {''inherit'', ''same'', ''previous''} then Some ScopeInherit
      else if v = ''today'' then Some ScopeToday
      else if v = ''morning'' then Some ScopeMorning
      else if v = ''afternoon'' then Some ScopeAfternoon
      else if v \<in> {''evening'', ''night''} then Some ScopeEvening
      else if v \<in> {''recent'', ''just_now''} then Some ScopeRecent
      else None)"

datatype cat_activity_selection = SelBatch | SelLatest | SelRemaining | SelResendLast

fun cat_selection_str :: "cat_activity_selection \<Rightarrow> string" where
  "cat_selection_str SelBatch = ''batch''"
| "cat_selection_str SelLatest = ''latest''"
| "cat_selection_str SelRemaining = ''remaining''"
| "cat_selection_str SelResendLast = ''resend_last''"

definition cat_selection_parse :: "string \<Rightarrow> cat_activity_selection option" where
  "cat_selection_parse value =
     (let v = to_ascii_lowercase (trim value) in
      if v \<in> {''batch'', ''all''} then Some SelBatch
      else if v = ''latest'' then Some SelLatest
      else if v \<in> {''remaining'', ''more''} then Some SelRemaining
      else if v \<in> {''resend_last'', ''resend''} then Some SelResendLast
      else None)"

record cat_activity_query_options =
  cq_time_scope :: cat_activity_time_scope
  cq_selection :: cat_activity_selection
  cq_limit :: nat

definition default_cat_activity :: cat_activity_query_options where
  "default_cat_activity = \<lparr>cq_time_scope = ScopeInherit, cq_selection = SelBatch, cq_limit = CAT_ACTIVITY_DEFAULT_BATCH_LIMIT\<rparr>"

datatype general_message_conversation_act = ActContinue | ActBoundary | ActRepair | ActCancel | ActClarifyContinue

fun act_label :: "general_message_conversation_act \<Rightarrow> string" where
  "act_label ActContinue = ''continue''"
| "act_label ActBoundary = ''boundary''"
| "act_label ActRepair = ''repair''"
| "act_label ActCancel = ''cancel''"
| "act_label ActClarifyContinue = ''clarify_continue''"

definition reply_pack_kind :: "general_message_conversation_act \<Rightarrow> string" where
  "reply_pack_kind act = ''conversation_'' @ act_label act"

record general_message_plan =
  gmp_kind :: general_message_plan_kind
  gmp_conversation_act :: "general_message_conversation_act option"
  gmp_reply_text :: "string option"
  gmp_canonical_phrase :: "string option"
  gmp_camera_hint :: "string option"
  gmp_query :: "string option"
  gmp_cat_activity :: cat_activity_query_options
  gmp_home_assistant_action :: "home_assistant_natural_action option"
  gmp_guardian_rule :: "json option"
  gmp_event_id :: "string option"
  gmp_corrected_summary :: "string option"
  gmp_corrected_labels :: "string list option"
  gmp_confidence :: "nat option"
  gmp_recent_clip :: "recent_clip_playback_state option"
  gmp_reason :: "string option"

definition plain_plan :: "general_message_plan_kind \<Rightarrow> string \<Rightarrow> general_message_plan" where
  "plain_plan kind reason = \<lparr>gmp_kind = kind, gmp_conversation_act = None, gmp_reply_text = None, gmp_canonical_phrase = None,
     gmp_camera_hint = None, gmp_query = None, gmp_cat_activity = default_cat_activity, gmp_home_assistant_action = None,
     gmp_guardian_rule = None, gmp_event_id = None, gmp_corrected_summary = None, gmp_corrected_labels = None, gmp_confidence = None,
     gmp_recent_clip = None, gmp_reason = Some reason\<rparr>"

record general_message_signals =
  sg_normalized :: string
  sg_asks_capability :: bool
  sg_explicit_clip_playback :: bool
  sg_explicit_live_view :: bool
  sg_explicit_snapshot :: bool
  sg_explicit_clip :: bool
  sg_explicit_search :: bool
  sg_explicit_rag_answer :: bool
  sg_explicit_ha_action :: bool
  sg_explicit_event_summary :: bool
  sg_explicit_event_notify :: bool
  sg_explicit_system_readiness :: bool
  sg_mentions_camera_context :: bool
  sg_ambiguous_visual_request :: bool
  sg_recent_camera_context :: bool
  sg_recent_clip_available :: bool
  sg_recent_search_context :: bool

record general_message_candidate =
  gc_kind :: general_message_plan_kind
  gc_confidence :: nat
  gc_camera_hint :: "string option"
  gc_query :: "string option"
  gc_recent_clip :: "recent_clip_playback_state option"
  gc_reason :: string

fun plan_kind_label :: "general_message_plan_kind \<Rightarrow> string" where
  "plan_kind_label GmClarify = ''clarify''"
| "plan_kind_label GmCapabilitySummary = ''capability_summary''"
| "plan_kind_label GmCameraReplayRecentClip = ''camera_replay_recent_clip''"
| "plan_kind_label GmCameraLiveView = ''camera_live_view''"
| "plan_kind_label GmCameraSnapshot = ''camera_snapshot''"
| "plan_kind_label GmCameraSnapshotAndRecordClip = ''camera_snapshot_and_record_clip''"
| "plan_kind_label GmCameraRecordClip = ''camera_record_clip''"
| "plan_kind_label GmCatActivityQuery = ''cat_activity_query''"
| "plan_kind_label GmKnowledgeSearch = ''knowledge_search''"
| "plan_kind_label GmRagAnswer = ''rag_answer''"
| "plan_kind_label GmHomeAssistantServiceAction = ''ha_service_action''"
| "plan_kind_label GmVisionEventSummary = ''vision_event_summary''"
| "plan_kind_label GmVisionEventNotifyLatest = ''vision_event_notify_latest''"
| "plan_kind_label GmVlmDescribeLatestEvent = ''vlm_describe_latest_event''"
| "plan_kind_label GmVlmDescribeEvent = ''vlm_describe_event''"
| "plan_kind_label GmFamilyMemorySummary = ''family_memory_summary''"
| "plan_kind_label GmSystemReadiness = ''system_readiness''"
| "plan_kind_label GmEvtReadiness = ''evt_readiness''"
| "plan_kind_label GmEvtPreflight = ''evt_preflight''"
| "plan_kind_label GmEvtEvidenceBundle = ''evt_evidence_bundle''"
| "plan_kind_label GmFamilyTimelineSummary = ''family_timeline_summary''"
| "plan_kind_label GmFamilyTimelineQuery = ''family_timeline_query''"
| "plan_kind_label GmGuardianRuleProposal = ''guardian_rule_proposal''"
| "plan_kind_label GmGuardianRuleList = ''guardian_rule_list''"
| "plan_kind_label GmGuardianRuleEnable = ''guardian_rule_enable''"
| "plan_kind_label GmGuardianRulePause = ''guardian_rule_pause''"
| "plan_kind_label GmGuardianStatus = ''guardian_status''"
| "plan_kind_label GmFamilyMemoryConfirm = ''family_memory_confirm''"
| "plan_kind_label GmFamilyMemoryFavorite = ''family_memory_favorite''"
| "plan_kind_label GmFamilyMemoryHide = ''family_memory_hide''"
| "plan_kind_label GmFamilyMemoryCorrectSummary = ''family_memory_correct_summary''"
| "plan_kind_label GmFamilyMemoryCorrectLabels = ''family_memory_correct_labels''"
| "plan_kind_label GmFamilyMemoryShowFavorites = ''family_memory_show_favorites''"
| "plan_kind_label GmConversationAct = ''conversation_continue''"
| "plan_kind_label GmUnsupported = ''unsupported''"

definition general_message_plan_decision_label :: "general_message_plan \<Rightarrow> string" where
  "general_message_plan_decision_label plan =
     (case (gmp_kind plan, gmp_conversation_act plan) of
        (GmConversationAct, Some act) \<Rightarrow> reply_pack_kind act | (kind, _) \<Rightarrow> plan_kind_label kind)"

section \<open>What a message asks for\<close>

definition help_words :: "string list" where
  "help_words =
     [[CHR 0xE5, CHR 0xB8, CHR 0xAE, CHR 0xE5, CHR 0x8A, CHR 0xA9], [CHR 0xE5, CHR 0xB8, CHR 0xAE, CHR 0xE5, CHR 0x8A,
      CHR 0xA9, CHR 0xE4, CHR 0xB8, CHR 0x80, CHR 0xE4, CHR 0xB8, CHR 0x8B], ''help'', ''helpme'']"


definition capability_phrases :: "string list" where
  "capability_phrases =
     [[CHR 0xE4, CHR 0xBD, CHR 0xA0, CHR 0xE8, CHR 0x83, CHR 0xBD, CHR 0xE5, CHR 0x81, CHR 0x9A, CHR 0xE4, CHR 0xBB,
      CHR 0x80, CHR 0xE4, CHR 0xB9, CHR 0x88], [CHR 0xE4, CHR 0xBD, CHR 0xA0, CHR 0xE8, CHR 0xBF, CHR 0x98, CHR 0xE8,
      CHR 0x83, CHR 0xBD, CHR 0xE5, CHR 0x81, CHR 0x9A, CHR 0xE4, CHR 0xBB, CHR 0x80, CHR 0xE4, CHR 0xB9, CHR 0x88],
      [CHR 0xE4, CHR 0xBD, CHR 0xA0, CHR 0xE5, CHR 0x8F, CHR 0xAF, CHR 0xE4, CHR 0xBB, CHR 0xA5, CHR 0xE5, CHR 0x81,
      CHR 0x9A, CHR 0xE4, CHR 0xBB, CHR 0x80, CHR 0xE4, CHR 0xB9, CHR 0x88], [CHR 0xE4, CHR 0xBD, CHR 0xA0, CHR 0xE4,
      CHR 0xBC, CHR 0x9A, CHR 0xE5, CHR 0x81, CHR 0x9A, CHR 0xE4, CHR 0xBB, CHR 0x80, CHR 0xE4, CHR 0xB9, CHR 0x88],
      [CHR 0xE4, CHR 0xBD, CHR 0xA0, CHR 0xE8, CHR 0x83, CHR 0xBD, CHR 0xE5, CHR 0xB9, CHR 0xB2, CHR 0xE4, CHR 0xBB,
      CHR 0x80, CHR 0xE4, CHR 0xB9, CHR 0x88], [CHR 0xE4, CHR 0xBD, CHR 0xA0, CHR 0xE5, CHR 0x8F, CHR 0xAF, CHR 0xE4,
      CHR 0xBB, CHR 0xA5, CHR 0xE5, CHR 0xB9, CHR 0xB2, CHR 0xE4, CHR 0xBB, CHR 0x80, CHR 0xE4, CHR 0xB9, CHR 0x88],
      [CHR 0xE4, CHR 0xBD, CHR 0xA0, CHR 0xE8, CHR 0x83, CHR 0xBD, CHR 0xE5, CHR 0xB8, CHR 0xAE, CHR 0xE6, CHR 0x88,
      CHR 0x91, CHR 0xE5, CHR 0x81, CHR 0x9A, CHR 0xE4, CHR 0xBB, CHR 0x80, CHR 0xE4, CHR 0xB9, CHR 0x88], [CHR 0xE4,
      CHR 0xBD, CHR 0xA0, CHR 0xE8, CHR 0xBF, CHR 0x98, CHR 0xE8, CHR 0x83, CHR 0xBD, CHR 0xE5, CHR 0xB8, CHR 0xAE,
      CHR 0xE6, CHR 0x88, CHR 0x91, CHR 0xE5, CHR 0x81, CHR 0x9A, CHR 0xE4, CHR 0xBB, CHR 0x80, CHR 0xE4, CHR 0xB9,
      CHR 0x88], [CHR 0xE6, CHR 0x91, CHR 0x84, CHR 0xE5, CHR 0x83, CHR 0x8F, CHR 0xE5, CHR 0xA4, CHR 0xB4, CHR 0xE8,
      CHR 0x83, CHR 0xBD, CHR 0xE5, CHR 0x81, CHR 0x9A, CHR 0xE4, CHR 0xBB, CHR 0x80, CHR 0xE4, CHR 0xB9, CHR 0x88],
      [CHR 0xE6, CHR 0x91, CHR 0x84, CHR 0xE5, CHR 0x83, CHR 0x8F, CHR 0xE5, CHR 0xA4, CHR 0xB4, CHR 0xE5, CHR 0x8F,
      CHR 0xAF, CHR 0xE4, CHR 0xBB, CHR 0xA5, CHR 0xE5, CHR 0x81, CHR 0x9A, CHR 0xE4, CHR 0xBB, CHR 0x80, CHR 0xE4,
      CHR 0xB9, CHR 0x88], [CHR 0xE6, CHR 0x91, CHR 0x84, CHR 0xE5, CHR 0x83, CHR 0x8F, CHR 0xE5, CHR 0xA4, CHR 0xB4,
      CHR 0xE8, CHR 0x83, CHR 0xBD, CHR 0xE5, CHR 0xB9, CHR 0xB2, CHR 0xE4, CHR 0xBB, CHR 0x80, CHR 0xE4, CHR 0xB9,
      CHR 0x88], [CHR 0xE6, CHR 0x91, CHR 0x84, CHR 0xE5, CHR 0x83, CHR 0x8F, CHR 0xE5, CHR 0xA4, CHR 0xB4, CHR 0xE5,
      CHR 0x8F, CHR 0xAF, CHR 0xE4, CHR 0xBB, CHR 0xA5, CHR 0xE5, CHR 0xB9, CHR 0xB2, CHR 0xE4, CHR 0xBB, CHR 0x80,
      CHR 0xE4, CHR 0xB9, CHR 0x88], [CHR 0xE7, CHR 0x9B, CHR 0x91, CHR 0xE6, CHR 0x8E, CHR 0xA7, CHR 0xE8, CHR 0x83,
      CHR 0xBD, CHR 0xE5, CHR 0x81, CHR 0x9A, CHR 0xE4, CHR 0xBB, CHR 0x80, CHR 0xE4, CHR 0xB9, CHR 0x88], [CHR 0xE7,
      CHR 0x9B, CHR 0x91, CHR 0xE6, CHR 0x8E, CHR 0xA7, CHR 0xE5, CHR 0x8F, CHR 0xAF, CHR 0xE4, CHR 0xBB, CHR 0xA5,
      CHR 0xE5, CHR 0x81, CHR 0x9A, CHR 0xE4, CHR 0xBB, CHR 0x80, CHR 0xE4, CHR 0xB9, CHR 0x88], [CHR 0xE7, CHR 0x9B,
      CHR 0x91, CHR 0xE6, CHR 0x8E, CHR 0xA7, CHR 0xE8, CHR 0x83, CHR 0xBD, CHR 0xE5, CHR 0xB9, CHR 0xB2, CHR 0xE4,
      CHR 0xBB, CHR 0x80, CHR 0xE4, CHR 0xB9, CHR 0x88], [CHR 0xE7, CHR 0x9B, CHR 0x91, CHR 0xE6, CHR 0x8E, CHR 0xA7,
      CHR 0xE5, CHR 0x8F, CHR 0xAF, CHR 0xE4, CHR 0xBB, CHR 0xA5, CHR 0xE5, CHR 0xB9, CHR 0xB2, CHR 0xE4, CHR 0xBB,
      CHR 0x80, CHR 0xE4, CHR 0xB9, CHR 0x88]]"


definition harbor_core_words :: "string list" where
  "harbor_core_words =
     [''harborbeacon'', ''harborgate'']"


definition policy_words :: "string list" where
  "policy_words =
     [''fallback'', [CHR 0xE5, CHR 0x9B, CHR 0x9E, CHR 0xE9, CHR 0x80, CHR 0x80], [CHR 0xE4, CHR 0xBA, CHR 0x91, CHR 0xE7,
      CHR 0xAB, CHR 0xAF], ''privacy'', ''resource'', ''policy'', [CHR 0xE7, CHR 0xAD, CHR 0x96, CHR 0xE7, CHR 0x95,
      CHR 0xA5]]"


definition local_first_words :: "string list" where
  "local_first_words =
     [''local-first'', ''localfirst'', [CHR 0xE6, CHR 0x9C, CHR 0xAC, CHR 0xE5, CHR 0x9C, CHR 0xB0, CHR 0xE4, CHR 0xBC,
      CHR 0x98, CHR 0xE5, CHR 0x85, CHR 0x88], [CHR 0xE6, CHR 0x9C, CHR 0xAC, CHR 0xE5, CHR 0x9C, CHR 0xB0, CHR 0xE4,
      CHR 0xBC, CHR 0x98, CHR 0xE5, CHR 0x85, CHR 0x88, CHR 0xE7, CHR 0xAD, CHR 0x96, CHR 0xE7, CHR 0x95, CHR 0xA5],
      [CHR 0xE4, CHR 0xBA, CHR 0x91, CHR 0xE7, CHR 0xAB, CHR 0xAF, CHR 0x66, CHR 0x61, CHR 0x6C, CHR 0x6C, CHR 0x62,
      CHR 0x61, CHR 0x63, CHR 0x6B], [CHR 0xE5, CHR 0x8F, CHR 0x97, CHR 0xE6, CHR 0x8E, CHR 0xA7, CHR 0x66, CHR 0x61,
      CHR 0x6C, CHR 0x6C, CHR 0x62, CHR 0x61, CHR 0x63, CHR 0x6B], [CHR 0xE5, CHR 0x8F, CHR 0x97, CHR 0xE6, CHR 0x8E,
      CHR 0xA7, CHR 0xE5, CHR 0x9B, CHR 0x9E, CHR 0xE9, CHR 0x80, CHR 0x80]]"


definition architecture_words :: "string list" where
  "architecture_words =
     [[CHR 0xE6, CHR 0x9E, CHR 0xB6, CHR 0xE6, CHR 0x9E, CHR 0x84], [CHR 0xE6, CHR 0x80, CHR 0x8E, CHR 0xE4, CHR 0xB9,
      CHR 0x88, CHR 0xE5, CHR 0x8F, CHR 0x97, CHR 0xE6, CHR 0x8E, CHR 0xA7], [CHR 0xE6, CHR 0x80, CHR 0x8E, CHR 0xE4,
      CHR 0xB9, CHR 0x88, CHR 0xE5, CHR 0xB7, CHR 0xA5, CHR 0xE4, CHR 0xBD, CHR 0x9C], [CHR 0xE5, CHR 0xA6, CHR 0x82,
      CHR 0xE4, CHR 0xBD, CHR 0x95, CHR 0xE5, CHR 0xB7, CHR 0xA5, CHR 0xE4, CHR 0xBD, CHR 0x9C], [CHR 0xE8, CHR 0xA7,
      CHR 0xA3, CHR 0xE9, CHR 0x87, CHR 0x8A, CHR 0xE4, CHR 0xB8, CHR 0x80, CHR 0xE4, CHR 0xB8, CHR 0x8B], [CHR 0xE8,
      CHR 0xAF, CHR 0xB4, CHR 0xE6, CHR 0x98, CHR 0x8E, CHR 0xE4, CHR 0xB8, CHR 0x80, CHR 0xE4, CHR 0xB8, CHR 0x8B],
      [CHR 0xE8, CHR 0xAE, CHR 0xB2, CHR 0xE4, CHR 0xB8, CHR 0x80, CHR 0xE4, CHR 0xB8, CHR 0x8B]]"


definition general_message_requests_local_first_architecture_summary :: "string \<Rightarrow> bool" where
  "general_message_requests_local_first_architecture_summary raw_text =
     (let normalized = normalize_command_text raw_text in
      if normalized = [] then False
      else matches_any normalized architecture_words \<and>
        (matches_any normalized local_first_words \<or> matches_any normalized harbor_core_words \<or> matches_any normalized policy_words))"

definition general_message_requests_capability_summary :: "string \<Rightarrow> bool" where
  "general_message_requests_capability_summary raw_text =
     (let normalized = normalize_command_text raw_text in
      if normalized = [] then False
      else if general_message_requests_local_first_architecture_summary raw_text then True
      else if list_ex (\<lambda>c. normalized = normalize_command_text c) help_words then True
      else matches_any normalized capability_phrases)"

definition cancel_phrases :: "string list" where
  "cancel_phrases =
     [[CHR 0xE7, CHR 0xAE, CHR 0x97, CHR 0xE4, CHR 0xBA, CHR 0x86], [CHR 0xE4, CHR 0xB8, CHR 0x8D, CHR 0xE7, CHR 0x94,
      CHR 0xA8, CHR 0xE4, CHR 0xBA, CHR 0x86], [CHR 0xE5, CHR 0x85, CHR 0x88, CHR 0xE4, CHR 0xB8, CHR 0x8D, CHR 0xE7,
      CHR 0x94, CHR 0xA8], [CHR 0xE4, CHR 0xB8, CHR 0x8D, CHR 0xE8, CHR 0xA6, CHR 0x81, CHR 0xE4, CHR 0xBA, CHR 0x86],
      [CHR 0xE5, CHR 0x88, CHR 0xAB, CHR 0xE5, CHR 0xA4, CHR 0x84, CHR 0xE7, CHR 0x90, CHR 0x86], [CHR 0xE5, CHR 0x8F,
      CHR 0x96, CHR 0xE6, CHR 0xB6, CHR 0x88]]"


definition zh_dont :: string where
  "zh_dont =
     [CHR 0xE4, CHR 0xB8, CHR 0x8D, CHR 0xE8, CHR 0xA6, CHR 0x81]"


definition repair_phrases :: "string list" where
  "repair_phrases =
     [[CHR 0xE4, CHR 0xB8, CHR 0x8D, CHR 0xE5, CHR 0xAF, CHR 0xB9], [CHR 0xE4, CHR 0xB8, CHR 0x8D, CHR 0xE6, CHR 0x98,
      CHR 0xAF], [CHR 0xE4, CHR 0xB8, CHR 0x8D, CHR 0xE6, CHR 0x98, CHR 0xAF, CHR 0xE8, CHR 0xBF, CHR 0x99, CHR 0xE4,
      CHR 0xB8, CHR 0xAA], [CHR 0xE9, CHR 0x94, CHR 0x99, CHR 0xE4, CHR 0xBA, CHR 0x86], [CHR 0xE7, CHR 0x90, CHR 0x86,
      CHR 0xE8, CHR 0xA7, CHR 0xA3, CHR 0xE9, CHR 0x94, CHR 0x99, CHR 0xE4, CHR 0xBA, CHR 0x86], [CHR 0xE9, CHR 0x87,
      CHR 0x8D, CHR 0xE6, CHR 0x96, CHR 0xB0, CHR 0xE6, CHR 0x9D, CHR 0xA5]]"


definition boundary_phrases :: "string list" where
  "boundary_phrases =
     [[CHR 0xE5, CHR 0xA4, CHR 0xA9, CHR 0xE6, CHR 0xB0, CHR 0x94], [CHR 0xE6, CHR 0xB8, CHR 0xA9, CHR 0xE5, CHR 0xBA,
      CHR 0xA6], [CHR 0xE4, CHR 0xB8, CHR 0x8B, CHR 0xE9, CHR 0x9B, CHR 0xA8], [CHR 0xE6, CHR 0x96, CHR 0xB0, CHR 0xE9,
      CHR 0x97, CHR 0xBB], [CHR 0xE8, CHR 0x82, CHR 0xA1, CHR 0xE4, CHR 0xBB, CHR 0xB7], [CHR 0xE8, CHR 0x82, CHR 0xA1,
      CHR 0xE7, CHR 0xA5, CHR 0xA8], [CHR 0xE6, CHR 0xB1, CHR 0x87, CHR 0xE7, CHR 0x8E, CHR 0x87], [CHR 0xE5, CHR 0xA4,
      CHR 0x96, CHR 0xE5, CHR 0x8D, CHR 0x96], [CHR 0xE6, CHR 0x89, CHR 0x93, CHR 0xE8, CHR 0xBD, CHR 0xA6], [CHR 0xE8,
      CHR 0xAE, CHR 0xB2, CHR 0xE4, CHR 0xB8, CHR 0xAA, CHR 0xE7, CHR 0xAC, CHR 0x91, CHR 0xE8, CHR 0xAF, CHR 0x9D],
      [CHR 0xE5, CHR 0x94, CHR 0xB1, CHR 0xE6, CHR 0xAD, CHR 0x8C], [CHR 0xE6, CHR 0x92, CHR 0xAD, CHR 0xE6, CHR 0x94,
      CHR 0xBE, CHR 0xE9, CHR 0x9F, CHR 0xB3, CHR 0xE4, CHR 0xB9, CHR 0x90]]"


definition infer_general_message_conversation_act ::
  "string \<Rightarrow> pending_task_general_message_loop option \<Rightarrow> general_message_conversation_act" where
  "infer_general_message_conversation_act raw_text pending_loop =
     (let normalized = normalize_command_text raw_text in
      if matches_any normalized cancel_phrases \<or> normalized = normalize_command_text zh_dont then ActCancel
      else if matches_any normalized repair_phrases then ActRepair
      else if pending_loop \<noteq> None then ActClarifyContinue
      else if matches_any normalized boundary_phrases then ActBoundary
      else ActContinue)"

definition snapshot_phrases :: "string list" where
  "snapshot_phrases =
     [[CHR 0xE6, CHR 0x8A, CHR 0x93, CHR 0xE6, CHR 0x8B, CHR 0x8D], [CHR 0xE6, CHR 0x8B, CHR 0x8D, CHR 0xE7, CHR 0x85,
      CHR 0xA7], [CHR 0xE6, CHR 0x8B, CHR 0x8D, CHR 0xE4, CHR 0xB8, CHR 0x80, CHR 0xE5, CHR 0xBC, CHR 0xA0], [CHR 0xE6,
      CHR 0x9D, CHR 0xA5, CHR 0xE4, CHR 0xB8, CHR 0x80, CHR 0xE5, CHR 0xBC, CHR 0xA0], [CHR 0xE5, CHR 0xBF, CHR 0xAB,
      CHR 0xE7, CHR 0x85, CHR 0xA7], [CHR 0xE6, CHR 0x88, CHR 0xAA, CHR 0xE5, CHR 0x9B, CHR 0xBE], [CHR 0xE6, CHR 0x88,
      CHR 0xAA, CHR 0xE4, CHR 0xB8, CHR 0x80, CHR 0xE5, CHR 0xBC, CHR 0xA0]]"


definition live_view_phrases :: "string list" where
  "live_view_phrases =
     [[CHR 0xE5, CHR 0xAE, CHR 0x9E, CHR 0xE6, CHR 0x97, CHR 0xB6, CHR 0xE7, CHR 0x9B, CHR 0xB4, CHR 0xE6, CHR 0x92,
      CHR 0xAD], [CHR 0xE5, CHR 0xAE, CHR 0x9E, CHR 0xE6, CHR 0x97, CHR 0xB6, CHR 0xE7, CHR 0x94, CHR 0xBB, CHR 0xE9,
      CHR 0x9D, CHR 0xA2], [CHR 0xE5, CHR 0xAE, CHR 0x9E, CHR 0xE6, CHR 0x97, CHR 0xB6, CHR 0xE8, CHR 0xA7, CHR 0x86,
      CHR 0xE9, CHR 0xA2, CHR 0x91], [CHR 0xE6, CHR 0x89, CHR 0x93, CHR 0xE5, CHR 0xBC, CHR 0x80, CHR 0xE7, CHR 0x9B,
      CHR 0xB4, CHR 0xE6, CHR 0x92, CHR 0xAD], [CHR 0xE6, CHR 0x9F, CHR 0xA5, CHR 0xE7, CHR 0x9C, CHR 0x8B, CHR 0xE7,
      CHR 0x9B, CHR 0xB4, CHR 0xE6, CHR 0x92, CHR 0xAD], ''liveview'', ''livestream'']"


definition clip_phrases :: "string list" where
  "clip_phrases =
     [[CHR 0xE5, CHR 0xBD, CHR 0x95, CHR 0xE4, CHR 0xB8, CHR 0x80, CHR 0xE6, CHR 0xAE, CHR 0xB5], [CHR 0xE5, CHR 0xBD,
      CHR 0x95, CHR 0xE4, CHR 0xB8, CHR 0x80, CHR 0xE4, CHR 0xB8, CHR 0x8B], [CHR 0xE5, CHR 0xBD, CHR 0x95, CHR 0xE4,
      CHR 0xB8, CHR 0xAA], [CHR 0xE5, CHR 0xBD, CHR 0x95, CHR 0xE5, CHR 0x83, CHR 0x8F], [CHR 0xE5, CHR 0xBD, CHR 0x95,
      CHR 0xE8, CHR 0xA7, CHR 0x86, CHR 0xE9, CHR 0xA2, CHR 0x91], [CHR 0xE6, CHR 0x8B, CHR 0x8D, CHR 0xE8, CHR 0xA7,
      CHR 0x86, CHR 0xE9, CHR 0xA2, CHR 0x91], [CHR 0xE7, CHR 0x9F, CHR 0xAD, CHR 0xE8, CHR 0xA7, CHR 0x86, CHR 0xE9,
      CHR 0xA2, CHR 0x91], [CHR 0xE4, CHR 0xB8, CHR 0x80, CHR 0xE6, CHR 0xAE, CHR 0xB5, CHR 0xE8, CHR 0xA7, CHR 0x86,
      CHR 0xE9, CHR 0xA2, CHR 0x91]]"


definition search_phrases :: "string list" where
  "search_phrases =
     [[CHR 0xE6, CHR 0x89, CHR 0xBE, CHR 0xE4, CHR 0xB8, CHR 0x80, CHR 0xE4, CHR 0xB8, CHR 0x8B], [CHR 0xE6, CHR 0x89,
      CHR 0xBE, CHR 0xE5, CHR 0x88, CHR 0xB0], [CHR 0xE6, CHR 0x9F, CHR 0xA5, CHR 0xE4, CHR 0xB8, CHR 0x80, CHR 0xE4,
      CHR 0xB8, CHR 0x8B], [CHR 0xE6, CHR 0x9F, CHR 0xA5, CHR 0xE6, CHR 0x89, CHR 0xBE], [CHR 0xE6, CHR 0x90, CHR 0x9C,
      CHR 0xE7, CHR 0xB4, CHR 0xA2], [CHR 0xE6, CHR 0x90, CHR 0x9C, CHR 0xE4, CHR 0xB8, CHR 0x80, CHR 0xE4, CHR 0xB8,
      CHR 0x8B], [CHR 0xE6, CHR 0x90, CHR 0x9C, CHR 0xE6, CHR 0x90, CHR 0x9C], [CHR 0xE6, CHR 0xA3, CHR 0x80, CHR 0xE7,
      CHR 0xB4, CHR 0xA2], [CHR 0xE6, CHR 0x89, CHR 0xBE, CHR 0xE8, CHR 0xA7, CHR 0x86, CHR 0xE9, CHR 0xA2, CHR 0x91],
      [CHR 0xE6, CHR 0x89, CHR 0xBE, CHR 0xE5, CHR 0xBD, CHR 0x95, CHR 0xE5, CHR 0x83, CHR 0x8F], [CHR 0xE6, CHR 0x89,
      CHR 0xBE, CHR 0xE7, CHR 0x89, CHR 0x87, CHR 0xE6, CHR 0xAE, CHR 0xB5], [CHR 0xE6, CHR 0x89, CHR 0xBE, CHR 0xE5,
      CHR 0x9B, CHR 0x9E, CHR 0xE6, CHR 0x94, CHR 0xBE], [CHR 0xE6, CHR 0x9F, CHR 0xA5, CHR 0xE5, CHR 0xBD, CHR 0x95,
      CHR 0xE5, CHR 0x83, CHR 0x8F], [CHR 0xE6, CHR 0x90, CHR 0x9C, CHR 0xE7, CHR 0xB4, CHR 0xA2, CHR 0xE5, CHR 0xBD,
      CHR 0x95, CHR 0xE5, CHR 0x83, CHR 0x8F], [CHR 0xE6, CHR 0x89, CHR 0xBE, CHR 0xE7, CHR 0x85, CHR 0xA7, CHR 0xE7,
      CHR 0x89, CHR 0x87], [CHR 0xE6, CHR 0x89, CHR 0xBE, CHR 0xE5, CHR 0x9B, CHR 0xBE, CHR 0xE7, CHR 0x89, CHR 0x87],
      [CHR 0xE5, CHR 0x8F, CHR 0xAA, CHR 0xE7, CHR 0x9C, CHR 0x8B, CHR 0xE8, CHR 0xA7, CHR 0x86, CHR 0xE9, CHR 0xA2,
      CHR 0x91], [CHR 0xE5, CHR 0x8F, CHR 0xAA, CHR 0xE7, CHR 0x9C, CHR 0x8B, CHR 0xE8, CHR 0xA7, CHR 0x86, CHR 0xE9,
      CHR 0xA2, CHR 0x91, CHR 0xE7, CHR 0xBB, CHR 0x93, CHR 0xE6, CHR 0x9E, CHR 0x9C], [CHR 0xE6, CHR 0x8E, CHR 0x92,
      CHR 0xE9, CHR 0x99, CHR 0xA4, CHR 0xE5, CHR 0x9B, CHR 0xBE, CHR 0xE7, CHR 0x89, CHR 0x87, CHR 0xE5, CHR 0x92,
      CHR 0x8C, CHR 0xE6, CHR 0x96, CHR 0x87, CHR 0xE6, CHR 0xA1, CHR 0xA3], [CHR 0xE6, CHR 0x90, CHR 0x9C, CHR 0xE7,
      CHR 0xB4, CHR 0xA2, CHR 0xE5, CHR 0xB7, CHR 0xB2, CHR 0xE6, CHR 0x9C, CHR 0x89, CHR 0xE5, CHR 0x86, CHR 0x85,
      CHR 0xE5, CHR 0xAE, CHR 0xB9]]"


definition camera_words :: "string list" where
  "camera_words =
     [[CHR 0xE6, CHR 0x91, CHR 0x84, CHR 0xE5, CHR 0x83, CHR 0x8F, CHR 0xE5, CHR 0xA4, CHR 0xB4], [CHR 0xE7, CHR 0x9B,
      CHR 0x91, CHR 0xE6, CHR 0x8E, CHR 0xA7], [CHR 0xE7, CHR 0x94, CHR 0xBB, CHR 0xE9, CHR 0x9D, CHR 0xA2], [CHR 0xE9,
      CHR 0x97, CHR 0xA8, CHR 0xE5, CHR 0x8F, CHR 0xA3], [CHR 0xE5, CHR 0xAE, CHR 0xA2, CHR 0xE5, CHR 0x8E, CHR 0x85],
      [CHR 0xE5, CHR 0x8D, CHR 0xA7, CHR 0xE5, CHR 0xAE, CHR 0xA4], [CHR 0xE8, CHR 0xBD, CHR 0xA6, CHR 0xE5, CHR 0xBA,
      CHR 0x93], [CHR 0xE9, CHR 0x99, CHR 0xA2, CHR 0xE5, CHR 0xAD, CHR 0x90], [CHR 0xE9, CHR 0x98, CHR 0xB3, CHR 0xE5,
      CHR 0x8F, CHR 0xB0]]"


definition look_phrases :: "string list" where
  "look_phrases =
     [[CHR 0xE7, CHR 0x9C, CHR 0x8B, CHR 0xE4, CHR 0xB8, CHR 0x80, CHR 0xE4, CHR 0xB8, CHR 0x8B], [CHR 0xE7, CHR 0x9C,
      CHR 0x8B, CHR 0xE4, CHR 0xB8, CHR 0x80, CHR 0xE7, CHR 0x9C, CHR 0xBC], [CHR 0xE7, CHR 0x9C, CHR 0x8B, CHR 0xE4,
      CHR 0xB8, CHR 0x8B], [CHR 0xE7, CHR 0x9C, CHR 0x8B, CHR 0xE7, CHR 0x9C, CHR 0x8B], [CHR 0xE7, CHR 0x9E, CHR 0x85,
      CHR 0xE4, CHR 0xB8, CHR 0x80, CHR 0xE7, CHR 0x9C, CHR 0xBC], [CHR 0xE7, CHR 0x9E, CHR 0x85, CHR 0xE7, CHR 0x9E,
      CHR 0x85]]"


definition look_words :: "string list" where
  "look_words =
     [[CHR 0xE7, CHR 0x9C, CHR 0x8B], [CHR 0xE7, CHR 0x9E, CHR 0x85]]"


definition KNOWLEDGE_DOMAIN :: string where "KNOWLEDGE_DOMAIN = ''knowledge''"
definition KNOWLEDGE_OP_SEARCH :: string where "KNOWLEDGE_OP_SEARCH = ''search''"

definition recap_is_camera :: "json \<Rightarrow> bool" where
  "recap_is_camera entry =
     (case Option.bind (json_get entry ''domain'') as_str of None \<Rightarrow> False | Some v \<Rightarrow> eq_ignore_ascii_case v ''camera'')"

definition recap_is_search :: "json \<Rightarrow> bool" where
  "recap_is_search entry \<longleftrightarrow>
     (case Option.bind (json_get entry ''domain'') as_str of None \<Rightarrow> False | Some v \<Rightarrow> eq_ignore_ascii_case v KNOWLEDGE_DOMAIN) \<or>
     (case Option.bind (json_get entry ''data_kind'') as_str of None \<Rightarrow> False
      | Some v \<Rightarrow> v \<in> {''knowledge.search'', ''rag.answer''} \<or> eq_ignore_ascii_case v KNOWLEDGE_OP_SEARCH) \<or>
     Option.bind (json_get entry ''query'') as_str \<noteq> None"

definition extract_general_message_signals ::
  "string \<Rightarrow> json list \<Rightarrow> pending_task_general_message_loop option \<Rightarrow> recent_clip_playback_state option \<Rightarrow> general_message_signals" where
  "extract_general_message_signals raw_text session_recap pending_loop recent_clip =
     (let normalized = normalize_command_text raw_text;
          explicit_snapshot = matches_any normalized snapshot_phrases;
          explicit_live_view = matches_any normalized live_view_phrases;
          explicit_video_search = looks_like_video_search_request normalized;
          explicit_clip = (\<not> explicit_live_view \<and> \<not> explicit_video_search \<and> matches_any normalized clip_phrases);
          explicit_search = (explicit_video_search \<or> matches_any normalized search_phrases);
          asks_capability = general_message_requests_capability_summary raw_text;
          explicit_event_notify = looks_like_vision_event_notify_request normalized;
          mentions_camera_context = (matches_any normalized camera_words \<or>
            (case pending_loop of None \<Rightarrow> False | Some p \<Rightarrow> pl_camera_hint p \<noteq> None))
      in \<lparr>sg_normalized = normalized, sg_asks_capability = asks_capability,
          sg_explicit_clip_playback = (recent_clip \<noteq> None \<and> recent_clip_playback_request_from_normalized normalized),
          sg_explicit_live_view = explicit_live_view, sg_explicit_snapshot = explicit_snapshot, sg_explicit_clip = explicit_clip,
          sg_explicit_search = explicit_search,
          sg_explicit_rag_answer = (looks_like_rag_answer_request normalized \<and> \<not> asks_capability),
          sg_explicit_ha_action = (infer_home_assistant_natural_action raw_text \<noteq> None),
          sg_explicit_event_summary = (\<not> explicit_event_notify \<and> looks_like_vision_event_summary_request normalized),
          sg_explicit_event_notify = explicit_event_notify,
          sg_explicit_system_readiness = looks_like_system_readiness_request normalized,
          sg_mentions_camera_context = mentions_camera_context,
          sg_ambiguous_visual_request = (\<not> asks_capability \<and> \<not> explicit_snapshot \<and> \<not> explicit_clip \<and> \<not> explicit_live_view \<and>
            \<not> explicit_search \<and> (matches_any normalized look_phrases \<or> mentions_camera_context \<and> matches_any normalized look_words)),
          sg_recent_camera_context = list_ex recap_is_camera session_recap, sg_recent_clip_available = (recent_clip \<noteq> None),
          sg_recent_search_context = list_ex recap_is_search session_recap\<rparr>)"

definition cat_words :: "string list" where
  "cat_words =
     [[CHR 0xE7, CHR 0x8C, CHR 0xAB]]"


definition cat_day_words :: "string list" where
  "cat_day_words =
     [[CHR 0xE4, CHR 0xBB, CHR 0x8A, CHR 0xE5, CHR 0xA4, CHR 0xA9], [CHR 0xE4, CHR 0xBB, CHR 0x8A, CHR 0xE6, CHR 0x97,
      CHR 0xA5], [CHR 0xE6, CHR 0x9C, CHR 0x80, CHR 0xE8, CHR 0xBF, CHR 0x91]]"


definition cat_activity_words :: "string list" where
  "cat_activity_words =
     [[CHR 0xE5, CHR 0xB9, CHR 0xB2, CHR 0xE4, CHR 0xBA, CHR 0x86, CHR 0xE4, CHR 0xBB, CHR 0x80, CHR 0xE4, CHR 0xB9,
      CHR 0x88], [CHR 0xE5, CHR 0x81, CHR 0x9A, CHR 0xE4, CHR 0xBA, CHR 0x86, CHR 0xE4, CHR 0xBB, CHR 0x80, CHR 0xE4,
      CHR 0xB9, CHR 0x88], [CHR 0xE6, CHR 0xB4, CHR 0xBB, CHR 0xE5, CHR 0x8A, CHR 0xA8], [CHR 0xE5, CHR 0x8E, CHR 0xBB,
      CHR 0xE5, CHR 0x93, CHR 0xAA, CHR 0xE4, CHR 0xBA, CHR 0x86], [CHR 0xE5, CHR 0x87, CHR 0xBA, CHR 0xE7, CHR 0x8E,
      CHR 0xB0, CHR 0xE8, CHR 0xBF, CHR 0x87], [CHR 0xE6, CHR 0x9D, CHR 0xA5, CHR 0xE8, CHR 0xBF, CHR 0x87], [CHR 0xE7,
      CHR 0x9C, CHR 0x8B, CHR 0xE8, CHR 0xA7, CHR 0x81]]"


definition cat_question_words :: "string list" where
  "cat_question_words =
     [[CHR 0xE5, CHR 0xB9, CHR 0xB2, CHR 0xE4, CHR 0xBA, CHR 0x86, CHR 0xE4, CHR 0xBB, CHR 0x80, CHR 0xE4, CHR 0xB9,
      CHR 0x88], [CHR 0xE5, CHR 0x81, CHR 0x9A, CHR 0xE4, CHR 0xBA, CHR 0x86, CHR 0xE4, CHR 0xBB, CHR 0x80, CHR 0xE4,
      CHR 0xB9, CHR 0x88], [CHR 0xE6, CHR 0xB4, CHR 0xBB, CHR 0xE5, CHR 0x8A, CHR 0xA8], [CHR 0xE8, CHR 0xA7, CHR 0x86,
      CHR 0xE9, CHR 0xA2, CHR 0x91], [CHR 0xE5, CHR 0xBD, CHR 0x95, CHR 0xE5, CHR 0x83, CHR 0x8F], [CHR 0xE5, CHR 0x8E,
      CHR 0xBB, CHR 0xE5, CHR 0x93, CHR 0xAA, CHR 0xE4, CHR 0xBA, CHR 0x86], [CHR 0xE7, CHR 0x9C, CHR 0x8B, CHR 0xE7,
      CHR 0x9C, CHR 0x8B], [CHR 0xE5, CHR 0x87, CHR 0xBA, CHR 0xE7, CHR 0x8E, CHR 0xB0, CHR 0xE8, CHR 0xBF, CHR 0x87],
      [CHR 0xE6, CHR 0x9D, CHR 0xA5, CHR 0xE8, CHR 0xBF, CHR 0x87], [CHR 0xE7, CHR 0x9C, CHR 0x8B, CHR 0xE8, CHR 0xA7,
      CHR 0x81], [CHR 0xE6, CHR 0x80, CHR 0x8E, CHR 0xE4, CHR 0xB9, CHR 0x88, CHR 0xE6, CHR 0xA0, CHR 0xB7]]"


definition requests_cat_activity_today :: "string \<Rightarrow> bool" where
  "requests_cat_activity_today normalized \<longleftrightarrow> list_ex (str_contains normalized) cat_words \<and>
     (matches_any normalized cat_day_words \<or> matches_any normalized cat_activity_words) \<and> matches_any normalized cat_question_words"

definition front_door_words :: "string list" where
  "front_door_words =
     [[CHR 0xE9, CHR 0x97, CHR 0xA8, CHR 0xE5, CHR 0x8F, CHR 0xA3], [CHR 0xE9, CHR 0x97, CHR 0xA8, CHR 0xE5, CHR 0x89,
      CHR 0x8D], [CHR 0xE5, CHR 0x89, CHR 0x8D, CHR 0xE9, CHR 0x97, CHR 0xA8], [CHR 0xE7, CHR 0x8E, CHR 0x84, CHR 0xE5,
      CHR 0x85, CHR 0xB3]]"


definition living_room_words :: "string list" where
  "living_room_words =
     [[CHR 0xE5, CHR 0xAE, CHR 0xA2, CHR 0xE5, CHR 0x8E, CHR 0x85]]"


definition bedroom_words :: "string list" where
  "bedroom_words =
     [[CHR 0xE5, CHR 0x8D, CHR 0xA7, CHR 0xE5, CHR 0xAE, CHR 0xA4]]"


definition garage_words :: "string list" where
  "garage_words =
     [[CHR 0xE8, CHR 0xBD, CHR 0xA6, CHR 0xE5, CHR 0xBA, CHR 0x93]]"


definition yard_words :: "string list" where
  "yard_words =
     [[CHR 0xE9, CHR 0x99, CHR 0xA2, CHR 0xE5, CHR 0xAD, CHR 0x90], [CHR 0xE9, CHR 0x99, CHR 0xA2, CHR 0xE9, CHR 0x97,
      CHR 0xA8]]"


definition balcony_words :: "string list" where
  "balcony_words =
     [[CHR 0xE9, CHR 0x98, CHR 0xB3, CHR 0xE5, CHR 0x8F, CHR 0xB0]]"


definition camera_hint_table :: "(string \<times> string list) list" where
  "camera_hint_table = [(''front-door'', front_door_words), (''living-room'', living_room_words), (''bedroom'', bedroom_words),
     (''garage'', garage_words), (''yard'', yard_words), (''balcony'', balcony_words)]"

definition infer_camera_hint_from_general_message :: "string \<Rightarrow> string option \<Rightarrow> string option" where
  "infer_camera_hint_from_general_message raw_text default_camera_hint =
     (case opt_filter (\<lambda>v. v \<noteq> []) (map_option trim default_camera_hint) of Some h \<Rightarrow> Some h
      | None \<Rightarrow> map_option fst (find (\<lambda>(hint, tokens). matches_any (normalize_command_text raw_text) tokens) camera_hint_table))"

section \<open>Candidates\<close>

text \<open>One candidate for a kind: a more confident one replaces it, another one fills its gaps.\<close>

definition merge_candidate :: "general_message_candidate \<Rightarrow> general_message_candidate \<Rightarrow> general_message_candidate" where
  "merge_candidate candidate existing =
     (if gc_confidence existing < gc_confidence candidate then candidate
      else existing\<lparr>gc_camera_hint := or_else (gc_camera_hint existing) (gc_camera_hint candidate),
        gc_query := or_else (gc_query existing) (gc_query candidate),
        gc_recent_clip := or_else (gc_recent_clip existing) (gc_recent_clip candidate),
        gc_reason := (if blank (gc_reason existing) then gc_reason candidate else gc_reason existing)\<rparr>)"

definition push_general_message_candidate :: "general_message_candidate list \<Rightarrow> general_message_candidate \<Rightarrow> general_message_candidate list" where
  "push_general_message_candidate candidates candidate =
     (if list_ex (\<lambda>i. gc_kind i = gc_kind candidate) candidates
      then update_first (\<lambda>i. gc_kind i = gc_kind candidate) (merge_candidate candidate) candidates
      else candidates @ [candidate])"

definition cand :: "general_message_plan_kind \<Rightarrow> nat \<Rightarrow> string option \<Rightarrow> string option \<Rightarrow> recent_clip_playback_state option \<Rightarrow> string
    \<Rightarrow> general_message_candidate" where
  "cand kind confidence camera_hint query recent_clip reason =
     \<lparr>gc_kind = kind, gc_confidence = confidence, gc_camera_hint = camera_hint, gc_query = query, gc_recent_clip = recent_clip,
      gc_reason = reason\<rparr>"

definition again_snapshot_phrases :: "string list" where
  "again_snapshot_phrases =
     [[CHR 0xE5, CHR 0x86, CHR 0x8D, CHR 0xE6, CHR 0x9D, CHR 0xA5, CHR 0xE4, CHR 0xB8, CHR 0x80, CHR 0xE5, CHR 0xBC,
      CHR 0xA0], [CHR 0xE5, CHR 0x86, CHR 0x8D, CHR 0xE6, CHR 0x8B, CHR 0x8D, CHR 0xE4, CHR 0xB8, CHR 0x80, CHR 0xE5,
      CHR 0xBC, CHR 0xA0], [CHR 0xE5, CHR 0x86, CHR 0x8D, CHR 0xE7, CHR 0x9C, CHR 0x8B, CHR 0xE4, CHR 0xB8, CHR 0x80,
      CHR 0xE7, CHR 0x9C, CHR 0xBC]]"


definition again_clip_phrases :: "string list" where
  "again_clip_phrases =
     [[CHR 0xE5, CHR 0x86, CHR 0x8D, CHR 0xE6, CHR 0x9D, CHR 0xA5, CHR 0xE4, CHR 0xB8, CHR 0x80, CHR 0xE6, CHR 0xAE,
      CHR 0xB5], [CHR 0xE5, CHR 0x86, CHR 0x8D, CHR 0xE5, CHR 0xBD, CHR 0x95, CHR 0xE4, CHR 0xB8, CHR 0x80, CHR 0xE6,
      CHR 0xAE, CHR 0xB5], [CHR 0xE5, CHR 0x86, CHR 0x8D, CHR 0xE5, CHR 0xBD, CHR 0x95, CHR 0xE4, CHR 0xB8, CHR 0x80,
      CHR 0xE4, CHR 0xB8, CHR 0x8B]]"


definition again_playback_phrases :: "string list" where
  "again_playback_phrases =
     [[CHR 0xE5, CHR 0x86, CHR 0x8D, CHR 0xE6, CHR 0x94, CHR 0xBE, CHR 0xE4, CHR 0xB8, CHR 0x80, CHR 0xE4, CHR 0xB8,
      CHR 0x8B], [CHR 0xE5, CHR 0x86, CHR 0x8D, CHR 0xE5, CHR 0x9B, CHR 0x9E, CHR 0xE6, CHR 0x94, CHR 0xBE, CHR 0xE4,
      CHR 0xB8, CHR 0x80, CHR 0xE4, CHR 0xB8, CHR 0x8B], [CHR 0xE5, CHR 0x86, CHR 0x8D, CHR 0xE6, CHR 0x92, CHR 0xAD,
      CHR 0xE4, CHR 0xB8, CHR 0x80, CHR 0xE4, CHR 0xB8, CHR 0x8B]]"


definition again_search_phrases :: "string list" where
  "again_search_phrases =
     [[CHR 0xE5, CHR 0x86, CHR 0x8D, CHR 0xE6, CHR 0x90, CHR 0x9C, CHR 0xE4, CHR 0xB8, CHR 0x80, CHR 0xE4, CHR 0xB8,
      CHR 0x8B], [CHR 0xE5, CHR 0x86, CHR 0x8D, CHR 0xE6, CHR 0x9F, CHR 0xA5, CHR 0xE4, CHR 0xB8, CHR 0x80, CHR 0xE4,
      CHR 0xB8, CHR 0x8B], [CHR 0xE5, CHR 0x86, CHR 0x8D, CHR 0xE6, CHR 0x89, CHR 0xBE, CHR 0xE6, CHR 0x89, CHR 0xBE],
      [CHR 0xE6, CHR 0x90, CHR 0x9C, CHR 0xE5, CHR 0xB7, CHR 0xB2, CHR 0xE6, CHR 0x9C, CHR 0x89, CHR 0xE5, CHR 0x86,
      CHR 0x85, CHR 0xE5, CHR 0xAE, CHR 0xB9]]"


definition candidate_rules ::
  "string \<Rightarrow> general_message_signals \<Rightarrow> string option \<Rightarrow> pending_task_general_message_loop option \<Rightarrow> json list
    \<Rightarrow> recent_clip_playback_state option \<Rightarrow> (bool \<times> general_message_candidate) list" where
  "candidate_rules raw_text s default_camera_hint pending_loop session_recap recent_clip =
     (let pending_hint = Option.bind pending_loop pl_camera_hint;
          camera_hint = or_else pending_hint (infer_camera_hint_from_general_message raw_text default_camera_hint);
          recent_query = recent_search_query_from_recap session_recap;
          follow_up = knowledge_search_contextual_follow_up (sg_normalized s);
          query = or_else (or_else (Option.bind pending_loop pl_query) (if follow_up then recent_query else None))
            (infer_query_from_raw_text raw_text);
          again_hint = or_else pending_hint default_camera_hint
      in [(sg_asks_capability s, cand GmCapabilitySummary 100 None None None ''structured_signal_capability_summary''),
          (sg_explicit_clip_playback s, cand GmCameraReplayRecentClip 98 None None recent_clip ''structured_signal_recent_clip_playback''),
          (sg_explicit_live_view s, cand GmCameraLiveView 100 camera_hint None None ''structured_signal_live_view''),
          (sg_explicit_event_notify s, cand GmVisionEventNotifyLatest 99 None None None ''structured_signal_vision_event_notify''),
          (sg_explicit_event_summary s, cand GmVisionEventSummary 98 None None None ''structured_signal_vision_event_summary''),
          (sg_explicit_system_readiness s, cand GmSystemReadiness 98 None None None ''structured_signal_system_readiness''),
          (sg_explicit_ha_action s, cand GmHomeAssistantServiceAction 98 None None None ''structured_signal_home_assistant_service_action''),
          (sg_explicit_snapshot s \<and> sg_explicit_clip s,
             cand GmCameraSnapshotAndRecordClip 100 camera_hint None None ''structured_signal_snapshot_and_clip''),
          (sg_explicit_snapshot s \<and> \<not> sg_explicit_clip s, cand GmCameraSnapshot 95 camera_hint None None ''structured_signal_snapshot''),
          (sg_explicit_clip s \<and> \<not> sg_explicit_snapshot s, cand GmCameraRecordClip 95 camera_hint None None ''structured_signal_clip''),
          (requests_cat_activity_today (sg_normalized s),
             cand GmCatActivityQuery 100 camera_hint None None ''structured_signal_cat_activity_today''),
          (sg_explicit_search s \<and> \<not> sg_explicit_rag_answer s, cand GmKnowledgeSearch 95 None query None ''structured_signal_search''),
          (\<not> sg_explicit_search s \<and> sg_recent_search_context s \<and> follow_up,
             cand GmKnowledgeSearch 90 None query None ''recent_search_context_filter''),
          (sg_explicit_rag_answer s, cand GmRagAnswer 95 None query None ''structured_signal_rag_answer''),
          (sg_ambiguous_visual_request s, cand GmClarify 90 camera_hint query None ''ambiguous_visual_request''),
          (sg_ambiguous_visual_request s, cand GmCameraSnapshot 55 camera_hint None None ''plausible_visual_snapshot''),
          (sg_ambiguous_visual_request s, cand GmCameraRecordClip 55 camera_hint None None ''plausible_visual_clip''),
          (\<not> sg_explicit_snapshot s \<and> \<not> sg_explicit_clip s \<and> sg_recent_camera_context s \<and>
             matches_any (sg_normalized s) again_snapshot_phrases,
             cand GmCameraSnapshot 85 again_hint None None ''recent_camera_context_snapshot''),
          (\<not> sg_explicit_clip s \<and> sg_recent_camera_context s \<and> matches_any (sg_normalized s) again_clip_phrases,
             cand GmCameraRecordClip 85 again_hint None None ''recent_camera_context_clip''),
          (\<not> sg_explicit_clip_playback s \<and> sg_recent_clip_available s \<and> matches_any (sg_normalized s) again_playback_phrases,
             cand GmCameraReplayRecentClip 85 None None recent_clip ''recent_clip_context_playback''),
          (\<not> sg_explicit_search s \<and> sg_recent_search_context s \<and> matches_any (sg_normalized s) again_search_phrases,
             cand GmKnowledgeSearch 85 None query None ''recent_search_context_search'')])"

definition build_general_message_candidates ::
  "string \<Rightarrow> general_message_signals \<Rightarrow> string option \<Rightarrow> pending_task_general_message_loop option \<Rightarrow> json list
    \<Rightarrow> recent_clip_playback_state option \<Rightarrow> general_message_candidate list" where
  "build_general_message_candidates raw_text s default_camera_hint pending_loop session_recap recent_clip =
     fold (\<lambda>(applies, c) candidates. if applies then push_general_message_candidate candidates c else candidates)
       (candidate_rules raw_text s default_camera_hint pending_loop session_recap recent_clip) []"

section \<open>The deterministic choice\<close>

definition plan_from_general_message_candidate :: "general_message_candidate \<Rightarrow> general_message_plan" where
  "plan_from_general_message_candidate c = (plain_plan (gc_kind c) (gc_reason c))
     \<lparr>gmp_camera_hint := gc_camera_hint c, gmp_query := gc_query c, gmp_confidence := Some (gc_confidence c), gmp_recent_clip := gc_recent_clip c\<rparr>"

definition resend_phrases :: "string list" where
  "resend_phrases =
     [[CHR 0xE5, CHR 0x86, CHR 0x8D, CHR 0xE5, CHR 0x8F, CHR 0x91, CHR 0xE4, CHR 0xB8, CHR 0x80, CHR 0xE6, CHR 0xAC,
      CHR 0xA1], [CHR 0xE9, CHR 0x87, CHR 0x8D, CHR 0xE5, CHR 0x8F, CHR 0x91], [CHR 0xE5, CHR 0x86, CHR 0x8D, CHR 0xE5,
      CHR 0x8F, CHR 0x91, CHR 0xE4, CHR 0xB8, CHR 0x80, CHR 0xE9, CHR 0x81, CHR 0x8D], [CHR 0xE5, CHR 0x88, CHR 0x9A,
      CHR 0xE6, CHR 0x89, CHR 0x8D, CHR 0xE9, CHR 0x82, CHR 0xA3, CHR 0xE6, CHR 0xAE, CHR 0xB5]]"


definition remaining_phrases :: "string list" where
  "remaining_phrases =
     [[CHR 0xE8, CHR 0xBF, CHR 0x98, CHR 0xE6, CHR 0x9C, CHR 0x89, CHR 0xE5, CHR 0x90, CHR 0x97], [CHR 0xE8, CHR 0xBF,
      CHR 0x98, CHR 0xE6, CHR 0x9C, CHR 0x89, CHR 0xE5, CHR 0x91, CHR 0xA2], [CHR 0xE8, CHR 0xBF, CHR 0x98, CHR 0xE6,
      CHR 0x9C, CHR 0x89, CHR 0xE6, CHR 0xB2, CHR 0xA1, CHR 0xE6, CHR 0x9C, CHR 0x89], [CHR 0xE5, CHR 0x88, CHR 0xAB,
      CHR 0xE7, CHR 0x9A, CHR 0x84, CHR 0xE5, CHR 0x91, CHR 0xA2], [CHR 0xE5, CHR 0x85, CHR 0xB6, CHR 0xE4, CHR 0xBB,
      CHR 0x96, CHR 0xE7, CHR 0x9A, CHR 0x84, CHR 0xE5, CHR 0x91, CHR 0xA2]]"


definition latest_phrases :: "string list" where
  "latest_phrases =
     [[CHR 0xE6, CHR 0x9C, CHR 0x80, CHR 0xE6, CHR 0x96, CHR 0xB0, CHR 0xE4, CHR 0xB8, CHR 0x80, CHR 0xE6, CHR 0xAE,
      CHR 0xB5], [CHR 0xE6, CHR 0x9C, CHR 0x80, CHR 0xE8, CHR 0xBF, CHR 0x91, CHR 0xE4, CHR 0xB8, CHR 0x80, CHR 0xE6,
      CHR 0xAE, CHR 0xB5], [CHR 0xE5, CHR 0x8F, CHR 0xAA, CHR 0xE5, CHR 0x8F, CHR 0x91, CHR 0xE4, CHR 0xB8, CHR 0x80,
      CHR 0xE6, CHR 0xAE, CHR 0xB5], [CHR 0xE6, CHR 0x9C, CHR 0x80, CHR 0xE5, CHR 0x90, CHR 0x8E, CHR 0xE4, CHR 0xB8,
      CHR 0x80, CHR 0xE6, CHR 0xAE, CHR 0xB5]]"


definition morning_words :: "string list" where
  "morning_words =
     [[CHR 0xE4, CHR 0xB8, CHR 0x8A, CHR 0xE5, CHR 0x8D, CHR 0x88], [CHR 0xE6, CHR 0x97, CHR 0xA9, CHR 0xE4, CHR 0xB8,
      CHR 0x8A], [CHR 0xE6, CHR 0xB8, CHR 0x85, CHR 0xE6, CHR 0x99, CHR 0xA8]]"


definition afternoon_words :: "string list" where
  "afternoon_words =
     [[CHR 0xE4, CHR 0xB8, CHR 0x8B, CHR 0xE5, CHR 0x8D, CHR 0x88]]"


definition evening_words :: "string list" where
  "evening_words =
     [[CHR 0xE6, CHR 0x99, CHR 0x9A, CHR 0xE4, CHR 0xB8, CHR 0x8A], [CHR 0xE4, CHR 0xBB, CHR 0x8A, CHR 0xE6, CHR 0x99,
      CHR 0x9A], [CHR 0xE5, CHR 0xA4, CHR 0x9C, CHR 0xE9, CHR 0x87, CHR 0x8C]]"


definition just_now_words :: "string list" where
  "just_now_words =
     [[CHR 0xE5, CHR 0x88, CHR 0x9A, CHR 0xE6, CHR 0x89, CHR 0x8D], [CHR 0xE6, CHR 0x9C, CHR 0x80, CHR 0xE8, CHR 0xBF,
      CHR 0x91]]"


definition today_words :: "string list" where
  "today_words =
     [[CHR 0xE4, CHR 0xBB, CHR 0x8A, CHR 0xE5, CHR 0xA4, CHR 0xA9], [CHR 0xE4, CHR 0xBB, CHR 0x8A, CHR 0xE6, CHR 0x97,
      CHR 0xA5]]"


definition infer_cat_activity_query_options :: "string \<Rightarrow> cat_activity_query_options" where
  "infer_cat_activity_query_options raw_text =
     (let n = normalize_command_text raw_text;
          selection = (if matches_any n resend_phrases then SelResendLast else if matches_any n remaining_phrases then SelRemaining
            else if matches_any n latest_phrases then SelLatest else SelBatch);
          time_scope = (if matches_any n morning_words then ScopeMorning
            else if list_ex (str_contains n) afternoon_words then ScopeAfternoon
            else if matches_any n evening_words then ScopeEvening
            else if selection = SelRemaining \<or> selection = SelResendLast then ScopeInherit
            else if matches_any n just_now_words then ScopeRecent
            else if selection = SelLatest \<and> \<not> matches_any n today_words then ScopeInherit
            else ScopeToday)
      in \<lparr>cq_time_scope = time_scope, cq_selection = selection,
          cq_limit = (if selection = SelLatest then 1 else CAT_ACTIVITY_DEFAULT_BATCH_LIMIT)\<rparr>)"

definition zh_long_run_reply :: string where
  "zh_long_run_reply =
     [CHR 0x34, CHR 0x68, CHR 0x2F, CHR 0x37, CHR 0x32, CHR 0x68, CHR 0x20, CHR 0xE9, CHR 0x95, CHR 0xBF, CHR 0xE5,
      CHR 0x8E, CHR 0x8B, CHR 0xE6, CHR 0xB5, CHR 0x8B, CHR 0xE5, CHR 0xBF, CHR 0x85, CHR 0xE9, CHR 0xA1, CHR 0xBB,
      CHR 0xE8, CHR 0xB5, CHR 0xB0, CHR 0x20, CHR 0x6F, CHR 0x70, CHR 0x65, CHR 0x72, CHR 0x61, CHR 0x74, CHR 0x6F,
      CHR 0x72, CHR 0x20, CHR 0x73, CHR 0x75, CHR 0x70, CHR 0x65, CHR 0x72, CHR 0x76, CHR 0x69, CHR 0x73, CHR 0x6F,
      CHR 0x72, CHR 0xEF, CHR 0xBC, CHR 0x8C, CHR 0xE6, CHR 0x88, CHR 0x91, CHR 0xE4, CHR 0xB8, CHR 0x8D, CHR 0xE8,
      CHR 0x83, CHR 0xBD, CHR 0xE4, CHR 0xBB, CHR 0x8E, CHR 0xE5, CHR 0xBE, CHR 0xAE, CHR 0xE4, CHR 0xBF, CHR 0xA1,
      CHR 0xE6, CHR 0x88, CHR 0x96, CHR 0x20, CHR 0x57, CHR 0x65, CHR 0x62, CHR 0x55, CHR 0x49, CHR 0x20, CHR 0xE5,
      CHR 0x90, CHR 0xAF, CHR 0xE5, CHR 0x8A, CHR 0xA8, CHR 0xEF, CHR 0xBC, CHR 0x9B, CHR 0xE6, CHR 0x88, CHR 0x91,
      CHR 0xE5, CHR 0x8F, CHR 0xAF, CHR 0xE4, CHR 0xBB, CHR 0xA5, CHR 0xE5, CHR 0xB8, CHR 0xAE, CHR 0xE4, CHR 0xBD,
      CHR 0xA0, CHR 0xE6, CHR 0x9F, CHR 0xA5, CHR 0xE7, CHR 0x9C, CHR 0x8B, CHR 0x20, CHR 0x45, CHR 0x56, CHR 0x54,
      CHR 0x20, CHR 0xE5, CHR 0xB0, CHR 0xB1, CHR 0xE7, CHR 0xBB, CHR 0xAA, CHR 0xE7, CHR 0x8A, CHR 0xB6, CHR 0xE6,
      CHR 0x80, CHR 0x81, CHR 0xE6, CHR 0x88, CHR 0x96, CHR 0xE7, CHR 0x94, CHR 0x9F, CHR 0xE6, CHR 0x88, CHR 0x90,
      CHR 0xE8, CHR 0x84, CHR 0xB1, CHR 0xE6, CHR 0x95, CHR 0x8F, CHR 0xE8, CHR 0xAF, CHR 0x81, CHR 0xE6, CHR 0x8D,
      CHR 0xAE, CHR 0xE5, CHR 0x8C, CHR 0x85, CHR 0xE3, CHR 0x80, CHR 0x82]"


definition zh_long_run_refused :: string where
  "zh_long_run_refused =
     [CHR 0xE9, CHR 0x95, CHR 0xBF, CHR 0xE5, CHR 0x8E, CHR 0x8B, CHR 0xE6, CHR 0xB5, CHR 0x8B, CHR 0xE5, CHR 0x90,
      CHR 0xAF, CHR 0xE5, CHR 0x8A, CHR 0xA8, CHR 0xE6, CHR 0x8B, CHR 0x92, CHR 0xE7, CHR 0xBB, CHR 0x9D]"


definition glance_phrases :: "string list" where
  "glance_phrases =
     [[CHR 0xE7, CHR 0x9C, CHR 0x8B, CHR 0xE4, CHR 0xB8, CHR 0x80, CHR 0xE7, CHR 0x9C, CHR 0xBC]]"


definition fallback_search_phrases :: "string list" where
  "fallback_search_phrases =
     [[CHR 0xE6, CHR 0x89, CHR 0xBE, CHR 0xE4, CHR 0xB8, CHR 0x80, CHR 0xE4, CHR 0xB8, CHR 0x8B], [CHR 0xE6, CHR 0x89,
      CHR 0xBE, CHR 0xE5, CHR 0x88, CHR 0xB0], [CHR 0xE6, CHR 0x9F, CHR 0xA5, CHR 0xE4, CHR 0xB8, CHR 0x80, CHR 0xE4,
      CHR 0xB8, CHR 0x8B], [CHR 0xE6, CHR 0x90, CHR 0x9C, CHR 0xE7, CHR 0xB4, CHR 0xA2], [CHR 0xE6, CHR 0xA3, CHR 0x80,
      CHR 0xE7, CHR 0xB4, CHR 0xA2], [CHR 0xE6, CHR 0x89, CHR 0xBE, CHR 0xE7, CHR 0x85, CHR 0xA7, CHR 0xE7, CHR 0x89,
      CHR 0x87], [CHR 0xE6, CHR 0x89, CHR 0xBE, CHR 0xE8, CHR 0xA7, CHR 0x86, CHR 0xE9, CHR 0xA2, CHR 0x91], [CHR 0xE6,
      CHR 0x89, CHR 0xBE, CHR 0xE5, CHR 0xBD, CHR 0x95, CHR 0xE5, CHR 0x83, CHR 0x8F], [CHR 0xE6, CHR 0x89, CHR 0xBE,
      CHR 0xE7, CHR 0x89, CHR 0x87, CHR 0xE6, CHR 0xAE, CHR 0xB5], [CHR 0xE6, CHR 0x89, CHR 0xBE, CHR 0xE5, CHR 0x9B,
      CHR 0x9E, CHR 0xE6, CHR 0x94, CHR 0xBE], [CHR 0xE5, CHR 0x8F, CHR 0xAA, CHR 0xE7, CHR 0x9C, CHR 0x8B, CHR 0xE8,
      CHR 0xA7, CHR 0x86, CHR 0xE9, CHR 0xA2, CHR 0x91], [CHR 0xE6, CHR 0x8E, CHR 0x92, CHR 0xE9, CHR 0x99, CHR 0xA4,
      CHR 0xE5, CHR 0x9B, CHR 0xBE, CHR 0xE7, CHR 0x89, CHR 0x87, CHR 0xE5, CHR 0x92, CHR 0x8C, CHR 0xE6, CHR 0x96,
      CHR 0x87, CHR 0xE6, CHR 0xA1, CHR 0xA3]]"


definition fallback_general_message_plan :: "string \<Rightarrow> string option \<Rightarrow> general_message_plan option" where
  "fallback_general_message_plan raw_text default_camera_hint =
     (let n = normalize_command_text raw_text;
          explicit_snapshot = matches_any n snapshot_phrases;
          explicit_clip = (\<not> looks_like_video_search_request n \<and> matches_any n clip_phrases)
      in if n = [] then None
      else if evt_long_run_request_boundary raw_text then
        Some ((plain_plan GmConversationAct ''evt_long_run_requires_operator_supervisor'')
          \<lparr>gmp_conversation_act := Some ActBoundary, gmp_reply_text := Some zh_long_run_reply,
           gmp_canonical_phrase := Some zh_long_run_refused, gmp_confidence := Some 100\<rparr>)
      else if general_message_requests_capability_summary raw_text then
        Some (plain_plan GmCapabilitySummary ''fallback rule inferred a capability summary request'')
      else if looks_like_vision_event_notify_request n then
        Some (plain_plan GmVisionEventNotifyLatest ''fallback rule inferred a latest event notification request'')
      else if looks_like_vision_event_summary_request n then
        Some (plain_plan GmVisionEventSummary ''fallback rule inferred a recent event summary request'')
      else if looks_like_system_readiness_request n then
        Some (plain_plan GmSystemReadiness ''fallback rule inferred a system readiness request'')
      else if infer_home_assistant_natural_action raw_text \<noteq> None then
        Some (plain_plan GmHomeAssistantServiceAction ''fallback rule inferred a Home Assistant service action'')
      else if requests_cat_activity_today n then
        Some ((plain_plan GmCatActivityQuery ''fallback rule inferred today's cat activity query'')
          \<lparr>gmp_camera_hint := default_camera_hint, gmp_cat_activity := infer_cat_activity_query_options raw_text\<rparr>)
      else if explicit_snapshot \<and> explicit_clip then
        Some ((plain_plan GmCameraSnapshotAndRecordClip ''fallback rule inferred a snapshot and clip request'')
          \<lparr>gmp_camera_hint := default_camera_hint\<rparr>)
      else if matches_any n live_view_phrases then
        Some ((plain_plan GmCameraLiveView ''fallback rule inferred a live camera request'')\<lparr>gmp_camera_hint := default_camera_hint\<rparr>)
      else if explicit_clip then
        Some ((plain_plan GmCameraRecordClip ''fallback rule inferred a short clip request'')\<lparr>gmp_camera_hint := default_camera_hint\<rparr>)
      else if explicit_snapshot \<or> matches_any n glance_phrases then
        Some ((plain_plan GmCameraSnapshot ''fallback rule inferred a snapshot request'')\<lparr>gmp_camera_hint := default_camera_hint\<rparr>)
      else if looks_like_rag_answer_request n then
        Some ((plain_plan GmRagAnswer ''fallback rule inferred a RAG answer request'')\<lparr>gmp_query := infer_query_from_raw_text raw_text\<rparr>)
      else if matches_any n fallback_search_phrases then
        Some ((plain_plan GmKnowledgeSearch ''fallback rule inferred a knowledge search request'')
          \<lparr>gmp_query := infer_query_from_raw_text raw_text\<rparr>)
      else None)"

definition is_actionable_kind :: "general_message_plan_kind \<Rightarrow> bool" where
  "is_actionable_kind kind \<longleftrightarrow> kind \<notin> {GmClarify, GmConversationAct, GmUnsupported}"

definition candidate_before :: "general_message_candidate \<Rightarrow> general_message_candidate \<Rightarrow> bool" where
  "candidate_before l r \<longleftrightarrow> gc_confidence r < gc_confidence l \<or> gc_confidence l = gc_confidence r \<and> gc_reason l \<le> gc_reason r"

text \<open>\<^verbatim>\<open>max_by_key\<close>: the last of the greatest elements.\<close>

definition max_by_confidence :: "general_message_candidate list \<Rightarrow> general_message_candidate option" where
  "max_by_confidence cs = fold (\<lambda>c best. case best of None \<Rightarrow> Some c
     | Some b \<Rightarrow> if gc_confidence b \<le> gc_confidence c then Some c else Some b) cs None"

definition resolve_deterministic_general_message_plan ::
  "string \<Rightarrow> general_message_candidate list \<Rightarrow> pending_task_general_message_loop option \<Rightarrow> general_message_plan option" where
  "resolve_deterministic_general_message_plan raw_text candidates pending_loop =
     (if candidates = [] then None
      else
        let actionable = sort_by candidate_before (filter (\<lambda>c. is_actionable_kind (gc_kind c)) candidates);
            clear_choice = (case actionable of [] \<Rightarrow> None
              | primary # others \<Rightarrow>
                  if 90 \<le> gc_confidence primary \<and> filter (\<lambda>c. gc_confidence primary \<le> gc_confidence c + 15) others = []
                  then Some primary else None);
            clarify = (case max_by_confidence (filter (\<lambda>c. gc_kind c = GmClarify) candidates) of None \<Rightarrow> None
              | Some c \<Rightarrow> if 80 \<le> gc_confidence c \<or> 2 \<le> length (filter (\<lambda>a. 50 \<le> gc_confidence a) actionable) then Some c else None);
            ahead = (case actionable of [] \<Rightarrow> None
              | primary # others \<Rightarrow>
                  if 80 \<le> gc_confidence primary \<and> (case others of [] \<Rightarrow> 0 | c # _ \<Rightarrow> gc_confidence c) + 20 \<le> gc_confidence primary
                  then Some primary else None)
        in case or_else clear_choice (or_else clarify ahead) of
             Some c \<Rightarrow> Some (plan_from_general_message_candidate c)
           | None \<Rightarrow> (case pending_loop of None \<Rightarrow> None
               | Some p \<Rightarrow> fallback_general_message_plan raw_text (pl_camera_hint p)))"

definition deterministic_stage_for_plan :: "general_message_plan \<Rightarrow> string" where
  "deterministic_stage_for_plan plan =
     (if gmp_kind plan = GmClarify then ''deterministic_clarify''
      else if gmp_kind plan = GmConversationAct then ''deterministic_conversation_act''
      else ''deterministic_single_candidate'')"

end

