(* ===== verification/Model_Center.thy ===== *)
theory Model_Center
  imports Model_Routing Text_Words
begin

text \<open>
  The model center (\<^verbatim>\<open>src/src/runtime/model_center.rs\<close>) up to the choice of an endpoint: token budgets of texts, the metadata
  of endpoints, redaction of their secrets, the built-in endpoints (\<^verbatim>\<open>default_model_endpoints\<close> of
  \<^verbatim>\<open>src/src/runtime/admin_console.rs\<close>), the probe of the local runtime with its cache, the overlay of its truth, the
  local-only state of the semantic router and the list of candidates of a route. The environment, the clock, URL parsing
  (the \<^verbatim>\<open>url\<close> crate), tokenizers and the health request are arguments.
\<close>

section \<open>Token budgets\<close>

text \<open>The Unicode scalars of a UTF-8 text.\<close>

function scalars :: "string \<Rightarrow> string list" where
  "scalars [] = []"
| "scalars (c # cs) = (c # takeWhile is_continuation cs) # scalars (dropWhile is_continuation cs)"
  by pat_completeness auto
termination
  by (relation "measure length") (auto simp: length_dropWhile_le le_imp_less_Suc)

definition is_alnum_scalar :: "string \<Rightarrow> bool" where
  "is_alnum_scalar sc \<longleftrightarrow> (case sc of [c] \<Rightarrow> is_ascii_alphanumeric c | _ \<Rightarrow> False)"

definition is_ws_scalar :: "string \<Rightarrow> bool" where
  "is_ws_scalar sc \<longleftrightarrow> strip_ws sc = Some []"

definition div_ceil3 :: "nat \<Rightarrow> nat" where
  "div_ceil3 n = (n + 2) div 3"

fun token_scan :: "nat \<Rightarrow> nat \<Rightarrow> string list \<Rightarrow> nat" where
  "token_scan count ascii_run [] = count + div_ceil3 ascii_run"
| "token_scan count ascii_run (sc # rest) =
     (if is_alnum_scalar sc then token_scan count (ascii_run + 1) rest
      else token_scan (count + div_ceil3 ascii_run + (if is_ws_scalar sc then 0 else 1)) 0 rest)"

definition conservative_text_token_count :: "string \<Rightarrow> nat" where
  "conservative_text_token_count text = token_scan 0 0 (scalars text)"

text \<open>\<^verbatim>\<open>tokenizer\<close> is the tokenizer of the process, if one is configured and can be loaded; it may refuse a text.\<close>

definition llm_text_token_count :: "(string \<Rightarrow> nat option) option \<Rightarrow> string \<Rightarrow> nat" where
  "llm_text_token_count tokenizer text =
     unwrap_or (Option.bind tokenizer (\<lambda>encode. encode text)) (conservative_text_token_count text)"

function truncate_search :: "(nat \<Rightarrow> bool) \<Rightarrow> nat \<Rightarrow> nat \<Rightarrow> nat" where
  "truncate_search fits low high =
     (if low < high then let mid = (low + high + 1) div 2 in
        if fits mid then truncate_search fits mid high else truncate_search fits low (mid - 1)
      else low)"
  by pat_completeness auto
termination
  by (relation "measure (\<lambda>(fits, low, high). high - low)") (auto simp: Let_def)

declare truncate_search.simps [simp del]

text \<open>\<^verbatim>\<open>String::pop\<close> on a list of scalars.\<close>

function pop_until_fits :: "(string \<Rightarrow> bool) \<Rightarrow> string list \<Rightarrow> string list" where
  "pop_until_fits fits scs = (if scs \<noteq> [] \<and> \<not> fits (concat scs) then pop_until_fits fits (butlast scs) else scs)"
  by pat_completeness auto
termination
  by (relation "measure (length \<circ> snd)") auto

declare pop_until_fits.simps [simp del]

definition zh_ellipsis :: string where
  "zh_ellipsis =
     [CHR 0xE2, CHR 0x80, CHR 0xA6]"


definition truncate_llm_text_to_tokens :: "(string \<Rightarrow> nat option) option \<Rightarrow> string \<Rightarrow> nat \<Rightarrow> string" where
  "truncate_llm_text_to_tokens tokenizer text max_tokens =
     (let count = llm_text_token_count tokenizer; chars = scalars text in
      if max_tokens = 0 then []
      else if count text \<le> max_tokens then text
      else let low = truncate_search (\<lambda>mid. count (concat (take mid chars)) \<le> max_tokens - 1) 0 (length chars)
           in concat (pop_until_fits (\<lambda>t. count t \<le> max_tokens) (take low chars @ [zh_ellipsis])))"

section \<open>Endpoints and their metadata\<close>

record model_capability_binding_record =
  cb_capability_id :: string
  cb_desired_model_id :: string
  cb_active_model_id :: "string option"
  cb_transition_status :: string
  cb_last_error :: "string option"
  cb_updated_at :: string

record model_runtime_record =
  mt_runtime_id :: string
  mt_display_name :: string
  mt_runtime_kind :: string
  mt_provider_key :: string
  mt_status :: string
  mt_managed :: bool
  mt_installable :: bool
  mt_enabled :: bool
  mt_capabilities :: "string list"
  mt_runtime_profiles :: "string list"
  mt_bind_url :: "string option"
  mt_healthz_url :: "string option"
  mt_model_store_path :: string
  mt_message :: string
  mt_installed_at :: "string option"
  mt_updated_at :: "string option"
  mt_metadata :: json

record admin_model_center_state =
  am_endpoints :: "model_endpoint list"
  am_route_policies :: "model_route_policy list"
  am_model_store_root :: string
  am_capability_bindings :: "model_capability_binding_record list"
  am_runtimes :: "model_runtime_record list"

definition metadata_string :: "json \<Rightarrow> string \<Rightarrow> string option" where
  "metadata_string metadata key = opt_filter (\<lambda>v. v \<noteq> []) (map_option trim (Option.bind (json_get metadata key) as_str))"

definition metadata_bool :: "json \<Rightarrow> string \<Rightarrow> bool" where
  "metadata_bool metadata key = unwrap_or (Option.bind (json_get metadata key) as_bool) False"

definition metadata_string_list :: "json \<Rightarrow> string \<Rightarrow> string list" where
  "metadata_string_list metadata key =
     (case Option.bind (json_get metadata key) as_array of None \<Rightarrow> []
      | Some values \<Rightarrow> filter (\<lambda>v. v \<noteq> []) (map trim (List.map_filter as_str values)))"

definition metadata_missing_or_empty :: "json \<Rightarrow> string \<Rightarrow> bool" where
  "metadata_missing_or_empty metadata key \<longleftrightarrow> metadata_string metadata key = None"

definition as_members :: "json \<Rightarrow> (string \<times> json) list" where
  "as_members metadata = unwrap_or (as_object metadata) []"

definition set_metadata_string :: "string \<Rightarrow> string \<Rightarrow> json \<Rightarrow> json" where
  "set_metadata_string key v metadata = (if blank v then metadata else JObj (bm_insert key (JStr v) (as_members metadata)))"

definition set_metadata_bool :: "string \<Rightarrow> bool \<Rightarrow> json \<Rightarrow> json" where
  "set_metadata_bool key v metadata = JObj (bm_insert key (JBool v) (as_members metadata))"

text \<open>\<^verbatim>\<open>trim_end_matches('/')\<close>.\<close>

definition trim_end_slashes :: "string \<Rightarrow> string" where
  "trim_end_slashes s = rev (dropWhile (\<lambda>c. c = CHR ''/'') (rev s))"

definition infer_healthz_url :: "string \<Rightarrow> string" where
  "infer_healthz_url base_url =
     (let trimmed = trim_end_slashes (trim base_url) in
      if trimmed = [] then []
      else if ends_with trimmed ''/v1'' then take (length trimmed - 3) trimmed @ ''/healthz''
      else trimmed @ ''/healthz'')"

definition is_legacy_model_api_url :: "string \<Rightarrow> bool" where
  "is_legacy_model_api_url v =
     (let normalized = to_ascii_lowercase (trim v) in
      str_contains normalized ''127.0.0.1:4176'' \<or> str_contains normalized ''localhost:4176'')"

definition openai_profile :: "string \<Rightarrow> bool" where
  "openai_profile profile =
     (let normalized = replace_char (to_ascii_lowercase (trim profile)) (CHR ''_'') ''-'' in
      str_contains normalized ''openai-compatible'' \<or> normalized \<in> {''harbor-candle'', ''harbor-model-api-candle''})"

definition endpoint_uses_openai_compatible_api :: "model_endpoint \<Rightarrow> bool" where
  "endpoint_uses_openai_compatible_api e \<longleftrightarrow>
     eq_ignore_ascii_case (me_provider_key e) ''openai_compatible'' \<or>
     list_ex openai_profile (metadata_string_list (me_metadata e) ''runtime_profiles'')"

definition is_builtin_local_openai_endpoint :: "model_endpoint \<Rightarrow> bool" where
  "is_builtin_local_openai_endpoint e \<longleftrightarrow>
     me_model_kind e \<in> {KLlm, KEmbedder, KVlm} \<and> me_endpoint_kind e = EpLocal \<and>
     endpoint_uses_openai_compatible_api e \<and> metadata_bool (me_metadata e) ''builtin''"

definition model_name_or_none :: "model_endpoint \<Rightarrow> string option" where
  "model_name_or_none e = (if blank (me_model_name e) then None else Some (me_model_name e))"

definition embedding_model_name_from_endpoint :: "model_endpoint \<Rightarrow> string option" where
  "embedding_model_name_from_endpoint e =
     or_else (metadata_string (me_metadata e) ''runtime_embedding_model'')
       (or_else (metadata_string (me_metadata e) ''model'') (model_name_or_none e))"

record openai_compatible_config =
  oc_base_url :: string
  oc_api_key :: string
  oc_model :: string

definition openai_compatible_config_from_endpoint :: "model_endpoint \<Rightarrow> openai_compatible_config option" where
  "openai_compatible_config_from_endpoint e =
     Option.bind (metadata_string (me_metadata e) ''base_url'') (\<lambda>base_url.
       let api_key = unwrap_or (metadata_string (me_metadata e) ''api_key'') [];
           api_key_required = me_endpoint_kind e = EpCloud \<or> metadata_bool (me_metadata e) ''api_key_required''
       in if api_key_required \<and> blank api_key then None
          else map_option (\<lambda>model. \<lparr>oc_base_url = trim_end_slashes base_url, oc_api_key = api_key, oc_model = model\<rparr>)
            (if me_model_kind e = KEmbedder then embedding_model_name_from_endpoint e
             else or_else (metadata_string (me_metadata e) ''model'') (model_name_or_none e)))"

record rerank_compatible_config =
  rk_base_url :: string
  rk_api_key :: string
  rk_model :: string
  rk_rerank_path :: string

definition rerank_compatible_config_from_endpoint :: "model_endpoint \<Rightarrow> rerank_compatible_config option" where
  "rerank_compatible_config_from_endpoint e =
     Option.bind (metadata_string (me_metadata e) ''base_url'') (\<lambda>base_url.
       if me_endpoint_kind e = EpCloud then None
       else map_option (\<lambda>model. \<lparr>rk_base_url = trim_end_slashes base_url,
            rk_api_key = unwrap_or (metadata_string (me_metadata e) ''api_key'') [], rk_model = model,
            rk_rerank_path = unwrap_or (metadata_string (me_metadata e) ''rerank_path'') ''/rerank''\<rparr>)
          (or_else (metadata_string (me_metadata e) ''model'') (model_name_or_none e)))"

section \<open>Redaction\<close>

definition is_secret_key :: "string \<Rightarrow> bool" where
  "is_secret_key key \<longleftrightarrow> key \<in> {''api_key'', ''token'', ''secret'', ''password'', ''authorization'', ''bearer_token''}"

fun secret_present :: "json \<Rightarrow> bool" where
  "secret_present JNull = False"
| "secret_present (JStr t) = (\<not> blank t)"
| "secret_present (JArr items) = (items \<noteq> [])"
| "secret_present (JObj m) = (m \<noteq> [])"
| "secret_present _ = True"

definition or_insert :: "string \<Rightarrow> json \<Rightarrow> (string \<times> json) list \<Rightarrow> (string \<times> json) list" where
  "or_insert key v m = (if hm_contains_key m key then m else bm_insert key v m)"

definition configured_flags :: "(string \<times> json) list \<Rightarrow> (string \<times> json) list" where
  "configured_flags m = map (\<lambda>kv. (fst kv @ ''_configured'', JBool (secret_present (snd kv)))) (filter (is_secret_key \<circ> fst) m)"

fun redact_secret_value :: "json \<Rightarrow> json" where
  "redact_secret_value (JObj m) =
     JObj (fold (\<lambda>kv. or_insert (fst kv) (snd kv)) (configured_flags m)
       (map (\<lambda>(key, nested). (key, if is_secret_key key then JStr [] else redact_secret_value nested)) m))"
| "redact_secret_value (JArr items) = JArr (map redact_secret_value items)"
| "redact_secret_value v = v"

definition redact_model_endpoint :: "model_endpoint \<Rightarrow> model_endpoint" where
  "redact_model_endpoint e = e\<lparr>me_metadata := redact_secret_value (me_metadata e)\<rparr>"

definition redact_model_center_state :: "admin_model_center_state \<Rightarrow> admin_model_center_state" where
  "redact_model_center_state s = s\<lparr>am_endpoints := map redact_model_endpoint (am_endpoints s)\<rparr>"

section \<open>The environment and the built-in endpoints\<close>

datatype env_var = NotPresent | NotUnicode | Present string

text \<open>What the \<^verbatim>\<open>url\<close> crate says of a text.\<close>

record http_url =
  pu_scheme :: string
  pu_host :: "string option"
  pu_port_or_known_default :: "nat option"
  pu_username :: string
  pu_password :: "string option"
  pu_path :: string
  pu_query :: "string option"
  pu_fragment :: "string option"
  pu_text :: string

record center_env =
  ce_var :: "string \<Rightarrow> env_var"
  ce_parse_url :: "string \<Rightarrow> http_url option"
  ce_set_path :: "http_url \<Rightarrow> string \<Rightarrow> http_url"

definition center_env_ok :: "env_var \<Rightarrow> string option" where
  "center_env_ok v = (case v of Present s \<Rightarrow> Some s | _ \<Rightarrow> None)"

definition env_trimmed :: "center_env \<Rightarrow> string \<Rightarrow> string option" where
  "env_trimmed env key = opt_filter (\<lambda>v. v \<noteq> []) (map_option trim (center_env_ok (ce_var env key)))"

definition MODEL_API_BASE_URL_ENV :: string where "MODEL_API_BASE_URL_ENV = ''HARBOR_MODEL_API_BASE_URL''"
definition CENTER_MODEL_API_TOKEN_ENV :: string where "CENTER_MODEL_API_TOKEN_ENV = ''HARBOR_MODEL_API_TOKEN''"
definition SEMANTIC_ROUTER_BASE_URL_ENV :: string where "SEMANTIC_ROUTER_BASE_URL_ENV = ''HARBOR_SEMANTIC_ROUTER_BASE_URL''"
definition SEMANTIC_ROUTER_HEALTHZ_URL_ENV :: string where "SEMANTIC_ROUTER_HEALTHZ_URL_ENV = ''HARBOR_SEMANTIC_ROUTER_HEALTHZ_URL''"
definition SEMANTIC_ROUTER_TOKEN_ENV :: string where "SEMANTIC_ROUTER_TOKEN_ENV = ''HARBOR_SEMANTIC_ROUTER_TOKEN''"
definition SEMANTIC_ROUTER_TOPOLOGY_ENV :: string where "SEMANTIC_ROUTER_TOPOLOGY_ENV = ''HARBOR_SEMANTIC_ROUTER_TOPOLOGY''"
definition EMBEDDED_MODEL_API_PATH :: string where "EMBEDDED_MODEL_API_PATH = ''/api/inference/v1''"
definition DEFAULT_EMBEDDED_MODEL_API_BASE_URL :: string where
  "DEFAULT_EMBEDDED_MODEL_API_BASE_URL = ''http://127.0.0.1:4174/api/inference/v1''"
definition DEFAULT_SEMANTIC_ROUTER_BASE_URL :: string where "DEFAULT_SEMANTIC_ROUTER_BASE_URL = ''http://127.0.0.1:4176/v1''"
definition DEFAULT_SEMANTIC_ROUTER_MODEL :: string where "DEFAULT_SEMANTIC_ROUTER_MODEL = ''Qwen/Qwen2.5-0.5B-Instruct''"
definition SEMANTIC_ROUTER_POLICY_ID :: string where "SEMANTIC_ROUTER_POLICY_ID = ''semantic.router''"
definition LLM_POLICY_ID :: string where "LLM_POLICY_ID = ''retrieval.answer''"

definition local_model_api_base_url :: "center_env \<Rightarrow> string" where
  "local_model_api_base_url env =
     unwrap_or (opt_filter (\<lambda>v. v \<noteq> []) (map_option (\<lambda>v. trim_end_slashes (trim v)) (center_env_ok (ce_var env MODEL_API_BASE_URL_ENV))))
       DEFAULT_EMBEDDED_MODEL_API_BASE_URL"

definition local_model_api_healthz_url :: "string \<Rightarrow> string" where
  "local_model_api_healthz_url base_url =
     (let trimmed = trim_end_slashes (trim base_url) in
      if ends_with trimmed ''/v1'' then take (length trimmed - 3) trimmed @ ''/healthz'' else trimmed @ ''/healthz'')"

definition local_model_api_token :: "center_env \<Rightarrow> string" where
  "local_model_api_token env = unwrap_or (env_trimmed env CENTER_MODEL_API_TOKEN_ENV) []"

text \<open>The metadata that the built-in local endpoints share.\<close>

definition builtin_local_metadata :: "center_env \<Rightarrow> (string \<times> json) list \<Rightarrow> json" where
  "builtin_local_metadata env extra =
     (let base = local_model_api_base_url env; token = local_model_api_token env in
      jobj ([(''builtin'', JBool True), (''base_url'', JStr base), (''healthz_url'', JStr (local_model_api_healthz_url base)),
        (''api_key'', JStr token), (''api_key_configured'', JBool (token \<noteq> [])), (''api_key_required'', JBool True)] @ extra))"

definition builtin_endpoint ::
  "string \<Rightarrow> model_kind \<Rightarrow> model_endpoint_kind \<Rightarrow> string \<Rightarrow> string \<Rightarrow> string list \<Rightarrow> json \<Rightarrow> model_endpoint_status \<Rightarrow> json \<Rightarrow> model_endpoint" where
  "builtin_endpoint i kind ekind provider name tags cost status metadata =
     \<lparr>me_model_endpoint_id = i, me_workspace_id = Some ''home-1'', me_provider_account_id = None, me_model_kind = kind,
      me_endpoint_kind = ekind, me_provider_key = provider, me_model_name = name, me_capability_tags = tags,
      me_cost_policy = cost, me_status = status, me_metadata = metadata\<rparr>"

definition default_model_endpoints :: "center_env \<Rightarrow> model_endpoint list" where
  "default_model_endpoints env =
     (let cost = jobj [(''cost_hint'', JStr ''local_or_sidecar'')] in
      [builtin_endpoint ''ocr-local-tesseract'' KOcr EpLocal ''tesseract'' ''tesseract-cli'' [''image'', ''local_first'', ''ocr'']
         (jobj [(''cost_hint'', JStr ''local_cpu'')]) EpDegraded
         (jobj [(''builtin'', JBool True), (''binary_path'', JStr []), (''languages'', JStr ''chi_sim+eng''), (''secret_configured'', JBool False)]),
       builtin_endpoint ''embed-local-openai-compatible'' KEmbedder EpLocal ''openai_compatible'' ''harbor-local-embed''
         [''embeddings'', ''local_first''] cost EpDegraded (builtin_local_metadata env []),
       builtin_endpoint ''rerank-local-compatible'' KReranker EpLocal ''rerank_compatible'' ''local-reranker''
         [''local_first'', ''rerank''] cost EpDisabled
         (builtin_local_metadata env [(''rerank_path'', JStr ''/rerank''), (''cloud_fallback_allowed'', JBool False)]),
       builtin_endpoint ''llm-local-openai-compatible'' KLlm EpLocal ''openai_compatible'' ''Qwen/Qwen2.5-0.5B-Instruct''
         [''assistant_input_parser'', ''chat'', ''k3_nsp'', ''local_first'', ''semantic_router''] cost EpDegraded
         (builtin_local_metadata env [(''semantic_router'', JBool True), (''local_only'', JBool True), (''cloud_fallback_allowed'', JBool False)]),
       builtin_endpoint ''llm-cloud-siliconflow'' KLlm EpCloud ''openai_compatible'' ''deepseek-ai/DeepSeek-V4-Flash''
         [''chat'', ''cloud_fallback'', ''openai_compatible'']
         (jobj [(''cost_hint'', JStr ''cloud_metered''), (''provider'', JStr ''siliconflow'')]) EpDisabled
         (jobj [(''builtin'', JBool True), (''provider_label'', JStr ''SiliconFlow''), (''base_url'', JStr ''https://api.siliconflow.cn/v1''),
           (''healthz_url'', JStr ''https://api.siliconflow.cn/v1/models''), (''api_key'', JStr []), (''api_key_configured'', JBool False),
           (''model'', JStr ''deepseek-ai/DeepSeek-V4-Flash''), (''fallback_scope'', JArr [JStr ''retrieval.answer'']),
           (''secret_redaction'', JStr ''endpoint_metadata'')]),
       builtin_endpoint ''vlm-local-openai-compatible'' KVlm EpLocal ''openai_compatible'' ''vision''
         [''image'', ''local_first'', ''multimodal''] cost EpDisabled (builtin_local_metadata env [])])"

section \<open>The semantic router\<close>

datatype semantic_router_topology = TopoEmbedded | TopoStandalone

definition semantic_router_topology_of :: "center_env \<Rightarrow> string + semantic_router_topology" where
  "semantic_router_topology_of env =
     (case ce_var env SEMANTIC_ROUTER_TOPOLOGY_ENV of
        Present v \<Rightarrow>
          if blank v then Ok TopoEmbedded
          else if eq_ignore_ascii_case (trim v) ''embedded'' then Ok TopoEmbedded
          else if eq_ignore_ascii_case (trim v) ''standalone'' then Ok TopoStandalone
          else Err (SEMANTIC_ROUTER_TOPOLOGY_ENV @ '' must be embedded or standalone, got '' @ trim v)
      | NotPresent \<Rightarrow> Ok TopoEmbedded
      | NotUnicode \<Rightarrow> Err (SEMANTIC_ROUTER_TOPOLOGY_ENV @ '' must contain valid UTF-8''))"

definition embedded_model_api_url_error :: string where
  "embedded_model_api_url_error = MODEL_API_BASE_URL_ENV
     @ '' must use Beacon'' @ [CHR 0x27] @ ''s HTTP loopback facade on port 4174 with path '' @ EMBEDDED_MODEL_API_PATH
     @ '' and no credentials, query, or fragment''"

definition facade_url :: "string \<Rightarrow> http_url \<Rightarrow> bool" where
  "facade_url configured url \<longleftrightarrow>
     pu_scheme url = ''http'' \<and> pu_host url = Some ''127.0.0.1'' \<and> starts_with configured ''http://127.0.0.1:'' \<and>
     pu_port_or_known_default url = Some 4174 \<and> pu_username url = [] \<and> pu_password url = None \<and>
     pu_path url = EMBEDDED_MODEL_API_PATH \<and> pu_query url = None \<and> pu_fragment url = None"

definition validate_embedded_model_api_base_url :: "center_env \<Rightarrow> string \<Rightarrow> string + string" where
  "validate_embedded_model_api_base_url env configured =
     (case ce_parse_url env configured of
        None \<Rightarrow> Err embedded_model_api_url_error
      | Some url \<Rightarrow> if \<not> facade_url configured url then Err embedded_model_api_url_error
          else Ok (trim_end_slashes (pu_text (ce_set_path env url EMBEDDED_MODEL_API_PATH))))"

definition canonical_embedded_model_api_base_url :: "center_env \<Rightarrow> string + string" where
  "canonical_embedded_model_api_base_url env =
     (case ce_var env MODEL_API_BASE_URL_ENV of
        Present v \<Rightarrow> validate_embedded_model_api_base_url env (if blank v then DEFAULT_EMBEDDED_MODEL_API_BASE_URL else trim v)
      | NotPresent \<Rightarrow> validate_embedded_model_api_base_url env DEFAULT_EMBEDDED_MODEL_API_BASE_URL
      | NotUnicode \<Rightarrow> Err (MODEL_API_BASE_URL_ENV @ '' must contain valid UTF-8''))"

definition mock_keys :: "string list" where
  "mock_keys = [''mock_text'', ''mock_embedding'', ''mock_embeddings'', ''mock_embedding_dimensions'', ''mock_rerank_scores'']"

definition remove_metadata_keys :: "string list \<Rightarrow> json \<Rightarrow> json" where
  "remove_metadata_keys keys metadata =
     (case metadata of JObj m \<Rightarrow> JObj (fold hm_remove keys m) | _ \<Rightarrow> metadata)"

definition facade_metadata :: "string \<Rightarrow> string \<Rightarrow> json \<Rightarrow> json" where
  "facade_metadata base_url api_key metadata =
     remove_metadata_keys mock_keys
       (set_metadata_bool ''semantic_router_embedded_facade'' True
       (set_metadata_bool ''cloud_fallback_allowed'' False
       (set_metadata_bool ''local_only'' True
       (set_metadata_bool ''api_key_required'' True
       (set_metadata_bool ''api_key_configured'' True
       (set_metadata_string ''api_key'' api_key
       (set_metadata_string ''healthz_url'' (infer_healthz_url base_url)
       (set_metadata_string ''base_url'' base_url metadata))))))))"

definition canonical_embedded_semantic_router_endpoint :: "center_env \<Rightarrow> string + model_endpoint" where
  "canonical_embedded_semantic_router_endpoint env =
     and_then (canonical_embedded_model_api_base_url env) (\<lambda>base_url.
       case env_trimmed env CENTER_MODEL_API_TOKEN_ENV of
         None \<Rightarrow> Err (CENTER_MODEL_API_TOKEN_ENV @ '' is not configured'')
       | Some api_key \<Rightarrow>
           (case find (\<lambda>e. me_model_endpoint_id e = ''llm-local-openai-compatible'') (default_model_endpoints env) of
              None \<Rightarrow> Err ''embedded semantic router model endpoint is unavailable''
            | Some e \<Rightarrow> Ok (e\<lparr>me_metadata := facade_metadata base_url api_key (me_metadata e)\<rparr>)))"

definition matches_semantic_router_tag :: "string \<Rightarrow> bool" where
  "matches_semantic_router_tag tag \<longleftrightarrow>
     to_ascii_lowercase (trim tag) \<in> {''semantic_router'', ''assistant_input_parser'', ''k3_nsp''}"

definition is_explicit_router :: "model_endpoint \<Rightarrow> bool" where
  "is_explicit_router e \<longleftrightarrow> list_ex matches_semantic_router_tag (me_capability_tags e) \<or> metadata_bool (me_metadata e) ''semantic_router''"

text \<open>\<^verbatim>\<open>sort\<close> and \<^verbatim>\<open>dedup\<close> of a vector of strings.\<close>

definition sort_dedup :: "string list \<Rightarrow> string list" where
  "sort_dedup xs = remdups_adj (sort xs)"

definition mark_semantic_router_resident_endpoint :: "string \<Rightarrow> string \<Rightarrow> string \<Rightarrow> model_endpoint \<Rightarrow> model_endpoint" where
  "mark_semantic_router_resident_endpoint base_url healthz_url api_key e =
     (let tags = fold (\<lambda>tag ts. if tag \<in> set ts then ts else ts @ [tag])
            [''chat'', ''local_first'', ''semantic_router'', ''assistant_input_parser'', ''k3_nsp''] (me_capability_tags e);
          marked = set_metadata_bool ''semantic_router_resident_endpoint'' True
            (set_metadata_bool ''cloud_fallback_allowed'' False
            (set_metadata_bool ''local_only'' True
            (set_metadata_bool ''semantic_router'' True
            (set_metadata_string ''healthz_url'' healthz_url
            (set_metadata_string ''base_url'' base_url (me_metadata e))))))
      in e\<lparr>me_capability_tags := sort_dedup tags,
           me_metadata := (if blank api_key then marked
             else set_metadata_bool ''api_key_configured'' True (set_metadata_string ''api_key'' api_key marked))\<rparr>)"

definition resident_endpoint_base :: model_endpoint where
  "resident_endpoint_base = builtin_endpoint ''llm-local-semantic-router'' KLlm EpLocal ''openai_compatible''
     DEFAULT_SEMANTIC_ROUTER_MODEL [] (jobj [(''cost_hint'', JStr ''local_candle'')]) EpDegraded (jobj [(''builtin'', JBool True)])"

definition wire_semantic_router_resident_endpoint :: "center_env \<Rightarrow> admin_model_center_state \<Rightarrow> admin_model_center_state" where
  "wire_semantic_router_resident_endpoint env state =
     (let base_url = unwrap_or (map_option trim_end_slashes (env_trimmed env SEMANTIC_ROUTER_BASE_URL_ENV)) DEFAULT_SEMANTIC_ROUTER_BASE_URL;
          healthz_url = unwrap_or (env_trimmed env SEMANTIC_ROUTER_HEALTHZ_URL_ENV) (infer_healthz_url base_url);
          api_key = unwrap_or (or_else (env_trimmed env SEMANTIC_ROUTER_TOKEN_ENV) (env_trimmed env CENTER_MODEL_API_TOKEN_ENV)) [];
          usable = (\<lambda>e. me_model_kind e = KLlm \<and> me_endpoint_kind e = EpLocal \<and> me_status e \<noteq> EpDisabled);
          has_explicit_router = list_ex (\<lambda>e. usable e \<and> is_explicit_router e) (am_endpoints state);
          wired = (\<lambda>e. usable e \<and> endpoint_uses_openai_compatible_api e \<and>
            (is_explicit_router e \<or> (me_model_endpoint_id e = ''llm-local-openai-compatible'' \<and> \<not> has_explicit_router)));
          mark = mark_semantic_router_resident_endpoint base_url healthz_url api_key
      in state\<lparr>am_endpoints := map (\<lambda>e. if wired e then mark e else e) (am_endpoints state)
           @ (if list_ex wired (am_endpoints state) then [] else [mark resident_endpoint_base])\<rparr>)"

definition local_only_router_policy :: "model_route_policy \<Rightarrow> model_route_policy" where
  "local_only_router_policy p =
     (if mr_route_policy_id p = SEMANTIC_ROUTER_POLICY_ID then
        let order = filter (\<lambda>kind. \<not> eq_ignore_ascii_case kind ''cloud'') (mr_fallback_order p) in
        p\<lparr>mr_privacy_level := StrictLocal,
          mr_fallback_order := (if order = [] then [''local'', ''sidecar''] else order),
          mr_metadata := (case mr_metadata p of
              JObj m \<Rightarrow> JObj (bm_insert ''cloud_fallback_allowed'' (JBool False) (bm_insert ''local_only'' (JBool True) m))
            | v \<Rightarrow> v)\<rparr>
      else p)"

definition semantic_router_local_only_model_state :: "center_env \<Rightarrow> admin_model_center_state \<Rightarrow> string + admin_model_center_state" where
  "semantic_router_local_only_model_state env state =
     (let local_state = state\<lparr>am_endpoints := filter (\<lambda>e. me_endpoint_kind e \<noteq> EpCloud) (am_endpoints state)\<rparr> in
      and_then (semantic_router_topology_of env) (\<lambda>topology.
      and_then (case topology of
          TopoEmbedded \<Rightarrow> and_then (canonical_embedded_semantic_router_endpoint env) (\<lambda>e. Ok (local_state\<lparr>am_endpoints := [e]\<rparr>))
        | TopoStandalone \<Rightarrow> Ok (wire_semantic_router_resident_endpoint env local_state)) (\<lambda>s.
      Ok (s\<lparr>am_route_policies := map local_only_router_policy (am_route_policies s)\<rparr>))))"

section \<open>The local runtime\<close>

record local_runtime_projection =
  lp_base_url :: string
  lp_healthz_url :: string
  lp_api_key :: string
  lp_api_key_configured :: bool
  lp_ready :: bool
  lp_backend_ready :: bool
  lp_chat_model :: "string option"
  lp_embedding_model :: "string option"

definition default_projection :: local_runtime_projection where
  "default_projection = \<lparr>lp_base_url = [], lp_healthz_url = [], lp_api_key = [], lp_api_key_configured = False, lp_ready = False,
     lp_backend_ready = False, lp_chat_model = None, lp_embedding_model = None\<rparr>"

record local_runtime_probe_target =
  pt_cache_key :: string
  pt_base_url :: string
  pt_healthz_url :: string
  pt_api_key :: string
  pt_api_key_configured :: bool
  pt_redirects_disabled :: bool

definition bool_string :: "bool \<Rightarrow> string" where
  "bool_string b = (if b then ''true'' else ''false'')"

definition resolve_local_runtime_probe_target :: "center_env \<Rightarrow> model_endpoint list \<Rightarrow> local_runtime_probe_target option" where
  "resolve_local_runtime_probe_target env endpoints =
     (let builtin_defaults = default_model_endpoints env in
      map_option (\<lambda>template.
        let fallback = or_else (find (\<lambda>e. me_model_endpoint_id e = me_model_endpoint_id template) builtin_defaults)
              (find is_builtin_local_openai_endpoint builtin_defaults);
            of_fallback = (\<lambda>key. Option.bind fallback (\<lambda>e. metadata_string (me_metadata e) key));
            template_is_builtin = is_builtin_local_openai_endpoint template;
            current = (\<lambda>key. opt_filter (\<lambda>v. \<not> (template_is_builtin \<and> is_legacy_model_api_url v)) (metadata_string (me_metadata template) key));
            base_url = unwrap_or (or_else (current ''base_url'') (of_fallback ''base_url'')) [];
            healthz_url = unwrap_or (opt_filter (\<lambda>v. \<not> blank v) (or_else (current ''healthz_url'') (of_fallback ''healthz_url'')))
              (infer_healthz_url base_url);
            api_key = unwrap_or (or_else (metadata_string (me_metadata template) ''api_key'') (of_fallback ''api_key'')) [];
            redirects_disabled = metadata_bool (me_metadata template) ''semantic_router_embedded_facade''
        in \<lparr>pt_cache_key = me_model_endpoint_id template @ ''|'' @ base_url @ ''|'' @ healthz_url @ ''|'' @ api_key @ ''|'' @ bool_string redirects_disabled,
            pt_base_url = base_url, pt_healthz_url = healthz_url, pt_api_key = api_key,
            pt_api_key_configured = (metadata_bool (me_metadata template) ''api_key_configured'' \<or> \<not> blank api_key \<or>
              (case fallback of None \<Rightarrow> False | Some e \<Rightarrow> metadata_bool (me_metadata e) ''api_key_configured'')),
            pt_redirects_disabled = redirects_disabled\<rparr>)
       (or_else (find is_builtin_local_openai_endpoint endpoints) (find is_builtin_local_openai_endpoint builtin_defaults)))"

text \<open>
  The cache of the process and the world outside. \<^verbatim>\<open>health\<close> is one GET of a health URL: the JSON body of a successful answer, if
  there is one.
\<close>

record cached_local_runtime_projection =
  cp_target_cache_key :: string
  cp_expires_at :: nat
  cp_projection :: local_runtime_projection

record 'w center_world =
  cw_now :: "'w \<Rightarrow> nat"
  cw_health :: "bool \<Rightarrow> string \<Rightarrow> 'w \<Rightarrow> json option \<times> 'w"

type_synonym 'w center_state = "cached_local_runtime_projection option \<times> 'w"

definition LOCAL_RUNTIME_PROJECTION_CACHE_TTL :: nat where "LOCAL_RUNTIME_PROJECTION_CACHE_TTL = 30000"

definition nonblank_member :: "json \<Rightarrow> string \<Rightarrow> string option" where
  "nonblank_member payload key = opt_filter (\<lambda>v. v \<noteq> []) (map_option trim (Option.bind (json_get payload key) as_str))"

definition probe_local_runtime_target :: "'w center_world \<Rightarrow> local_runtime_probe_target \<Rightarrow> 'w \<Rightarrow> local_runtime_projection \<times> 'w" where
  "probe_local_runtime_target cw target w =
     (let failed = \<lparr>lp_base_url = pt_base_url target, lp_healthz_url = pt_healthz_url target, lp_api_key = pt_api_key target,
            lp_api_key_configured = pt_api_key_configured target, lp_ready = False, lp_backend_ready = False, lp_chat_model = None,
            lp_embedding_model = None\<rparr>
      in if blank (pt_healthz_url target) then (failed, w)
         else case cw_health cw (pt_redirects_disabled target) (pt_healthz_url target) w of
             (None, w') \<Rightarrow> (failed, w')
           | (Some payload, w') \<Rightarrow>
               (failed\<lparr>lp_ready := unwrap_or (Option.bind (json_get payload ''ready'') as_bool) False,
                  lp_backend_ready := unwrap_or (Option.bind (Option.bind (json_get payload ''backend'') (\<lambda>v. json_get v ''ready'')) as_bool) False,
                  lp_chat_model := nonblank_member payload ''chat_model'',
                  lp_embedding_model := nonblank_member payload ''embedding_model''\<rparr>, w'))"

definition probe_local_runtime ::
  "center_env \<Rightarrow> 'w center_world \<Rightarrow> model_endpoint list \<Rightarrow> 'w center_state \<Rightarrow> local_runtime_projection \<times> 'w center_state" where
  "probe_local_runtime env cw endpoints s =
     (case resolve_local_runtime_probe_target env endpoints of
        None \<Rightarrow> (default_projection, s)
      | Some target \<Rightarrow>
          (case opt_filter (\<lambda>c. cp_target_cache_key c = pt_cache_key target \<and> cw_now cw (snd s) < cp_expires_at c) (fst s) of
             Some cached \<Rightarrow> (cp_projection cached, s)
           | None \<Rightarrow>
               (case probe_local_runtime_target cw target (snd s) of (projection, w') \<Rightarrow>
                  (projection, (Some \<lparr>cp_target_cache_key = pt_cache_key target,
                     cp_expires_at = cw_now cw w' + LOCAL_RUNTIME_PROJECTION_CACHE_TTL, cp_projection = projection\<rparr>, w')))))"

definition if_empty_then :: "string \<Rightarrow> string option \<Rightarrow> string option" where
  "if_empty_then s fallback = (if blank s then fallback else Some s)"

text \<open>One of the two URLs of a built-in endpoint: a missing or legacy value is replaced.\<close>

definition migrate_url :: "string \<Rightarrow> string \<Rightarrow> json \<Rightarrow> json" where
  "migrate_url key replacement metadata =
     (let resident = metadata_bool metadata ''semantic_router_resident_endpoint'';
          legacy = (case metadata_string metadata key of None \<Rightarrow> False | Some v \<Rightarrow> is_legacy_model_api_url v \<and> \<not> resident)
      in if metadata_missing_or_empty metadata key \<or> legacy then
           let m = set_metadata_string key replacement metadata in
           if legacy then set_metadata_bool ''legacy_model_api_migrated'' True m else m
         else metadata)"

definition overlay_endpoint :: "model_endpoint \<Rightarrow> local_runtime_projection \<Rightarrow> model_endpoint \<Rightarrow> model_endpoint" where
  "overlay_endpoint default_endpoint runtime e =
     (let dm = me_metadata default_endpoint;
          m1 = migrate_url ''base_url''
            (unwrap_or (or_else (metadata_string dm ''base_url'') (if_empty_then (lp_base_url runtime) None)) []) (me_metadata e);
          m2 = migrate_url ''healthz_url''
            (unwrap_or (or_else (metadata_string dm ''healthz_url'') (if_empty_then (lp_healthz_url runtime) None))
              (infer_healthz_url (lp_base_url runtime))) m1;
          m3 = (if metadata_missing_or_empty m2 ''api_key''
            then set_metadata_string ''api_key'' (unwrap_or (if_empty_then (lp_api_key runtime) (metadata_string dm ''api_key'')) []) m2 else m2);
          m4 = (if \<not> metadata_bool m3 ''api_key_configured'' \<and> lp_api_key_configured runtime
            then set_metadata_bool ''api_key_configured'' True m3 else m3);
          available = (case me_model_kind e of KLlm \<Rightarrow> lp_chat_model runtime \<noteq> None | KEmbedder \<Rightarrow> lp_embedding_model runtime \<noteq> None | _ \<Rightarrow> False);
          status = (if me_model_kind e \<in> {KLlm, KEmbedder} then
              (if lp_ready runtime \<and> lp_backend_ready runtime \<and> available then EpActive
               else if me_status e = EpActive then EpDegraded else me_status e)
            else me_status e)
      in e\<lparr>me_metadata := m4, me_status := status\<rparr>)"

definition overlay_endpoints_with_runtime_truth ::
  "center_env \<Rightarrow> local_runtime_projection \<Rightarrow> model_endpoint list \<Rightarrow> model_endpoint list" where
  "overlay_endpoints_with_runtime_truth env runtime endpoints =
     map (\<lambda>e. case find (\<lambda>d. me_model_endpoint_id d = me_model_endpoint_id e) (default_model_endpoints env) of
         Some d \<Rightarrow> if is_builtin_local_openai_endpoint d then overlay_endpoint d runtime e else e
       | None \<Rightarrow> e) endpoints"

definition runtime_wired_model_center_state ::
  "center_env \<Rightarrow> 'w center_world \<Rightarrow> admin_model_center_state \<Rightarrow> 'w center_state \<Rightarrow> admin_model_center_state \<times> 'w center_state" where
  "runtime_wired_model_center_state env cw state s =
     (case probe_local_runtime env cw (am_endpoints state) s of (runtime, s') \<Rightarrow>
        (state\<lparr>am_endpoints := overlay_endpoints_with_runtime_truth env runtime (am_endpoints state)\<rparr>, s'))"

section \<open>Candidates\<close>

definition semantic_router_endpoint_priority :: "string \<Rightarrow> model_endpoint \<Rightarrow> nat" where
  "semantic_router_endpoint_priority route_policy_id e =
     (if route_policy_id \<noteq> SEMANTIC_ROUTER_POLICY_ID then 0
      else if is_explicit_router e \<or>
        (metadata_bool (me_metadata e) ''local_only'' \<and> str_contains (to_ascii_lowercase (me_model_endpoint_id e)) ''nsp'') then 0
      else 1)"

definition endpoint_priority :: "string list \<Rightarrow> model_endpoint \<Rightarrow> nat" where
  "endpoint_priority fallback_order e =
     unwrap_or (position (\<lambda>item. eq_ignore_ascii_case item (endpoint_kind_as_str (me_endpoint_kind e))) fallback_order) (length fallback_order)"

fun status_priority :: "model_endpoint_status \<Rightarrow> nat" where
  "status_priority EpActive = 0"
| "status_priority EpDegraded = 1"
| "status_priority EpDisabled = 2"

definition endpoint_rank :: "string \<Rightarrow> string list \<Rightarrow> model_endpoint \<Rightarrow> nat \<times> nat \<times> nat \<times> string" where
  "endpoint_rank route_policy_id fallback_order e =
     (semantic_router_endpoint_priority route_policy_id e, endpoint_priority fallback_order e, status_priority (me_status e), me_model_endpoint_id e)"

text \<open>The candidates of a state that the runtime was laid over.\<close>

definition wired_candidates :: "admin_model_center_state \<Rightarrow> model_kind \<Rightarrow> string \<Rightarrow> model_endpoint list" where
  "wired_candidates state model_kind route_policy_id =
     (let policy = find (\<lambda>p. mr_route_policy_id p = route_policy_id) (am_route_policies state);
          fallback_order = (case policy of Some p \<Rightarrow> mr_fallback_order p | None \<Rightarrow> [''local'', ''sidecar'', ''cloud'']);
          cloud_allowed = (case policy of Some p \<Rightarrow> mr_privacy_level p \<noteq> StrictLocal | None \<Rightarrow> True)
      in sort_key (endpoint_rank route_policy_id fallback_order)
           (filter (\<lambda>e. cloud_allowed \<or> me_endpoint_kind e \<noteq> EpCloud)
             (filter (\<lambda>e. me_model_kind e = model_kind \<and> me_status e \<noteq> EpDisabled) (am_endpoints state))))"

definition resolve_endpoint_candidates ::
  "center_env \<Rightarrow> 'w center_world \<Rightarrow> admin_model_center_state \<Rightarrow> model_kind \<Rightarrow> string \<Rightarrow> 'w center_state \<Rightarrow> model_endpoint list \<times> 'w center_state" where
  "resolve_endpoint_candidates env cw state model_kind route_policy_id s =
     (case runtime_wired_model_center_state env cw state s of (wired, s') \<Rightarrow> (wired_candidates wired model_kind route_policy_id, s'))"

definition resolve_endpoint ::
  "center_env \<Rightarrow> 'w center_world \<Rightarrow> admin_model_center_state \<Rightarrow> model_kind \<Rightarrow> string \<Rightarrow> 'w center_state \<Rightarrow> model_endpoint option \<times> 'w center_state" where
  "resolve_endpoint env cw state model_kind route_policy_id s =
     (case resolve_endpoint_candidates env cw state model_kind route_policy_id s of (candidates, s') \<Rightarrow>
        (case candidates of [] \<Rightarrow> None | e # _ \<Rightarrow> Some e, s'))"

definition semantic_router_endpoint_for_readiness ::
  "center_env \<Rightarrow> 'w center_world \<Rightarrow> admin_model_center_state \<Rightarrow> 'w center_state \<Rightarrow> (string + model_endpoint option) \<times> 'w center_state" where
  "semantic_router_endpoint_for_readiness env cw state s =
     (case and_then (semantic_router_topology_of env) (\<lambda>t. and_then (semantic_router_local_only_model_state env state) (\<lambda>l. Ok (t, l))) of
        Inl e \<Rightarrow> (Err e, s)
      | Inr (TopoEmbedded, local_state) \<Rightarrow>
          (Ok (find (\<lambda>e. me_model_endpoint_id e = ''llm-local-openai-compatible'') (am_endpoints local_state)), s)
      | Inr (TopoStandalone, local_state) \<Rightarrow>
          (case resolve_endpoint_candidates env cw local_state KLlm SEMANTIC_ROUTER_POLICY_ID s of (candidates, s') \<Rightarrow>
             (Ok (case candidates of [] \<Rightarrow> None | e # _ \<Rightarrow> Some e), s')))"

end

