(* ===== verification/Model_Runs.thy ===== *)
theory Model_Runs
  imports Model_Center Scheduler
begin

text \<open>
  Requests to models (\<^verbatim>\<open>src/src/runtime/model_center.rs\<close>): text completion with its fallback over the candidates, OCR, image
  summaries, validation of cat recordings, embeddings and reranking. The HTTP clients of the providers
  (\<^verbatim>\<open>connectors/ai_provider.rs\<close>), the OCR program, files and the lease scheduler are operations on an arbitrary world; floating
  point values are an arbitrary type or rational numbers.
\<close>

section \<open>Requests, answers and the world\<close>

record llm_text_execution =
  lx_available :: bool
  lx_status :: string
  lx_summary :: string
  lx_provider_key :: string
  lx_model_endpoint_id :: "string option"
  lx_text :: string
  lx_details :: json

record llm_text_options =
  lo_purpose :: "string option"
  lo_system_prompt :: "string option"
  lo_temperature :: "rat option"
  lo_max_tokens :: "u32 option"
  lo_timeout_ms :: "nat option"
  lo_json_object_response :: bool

record text_completion_request =
  tq_system_prompt :: "string option"
  tq_user_prompt :: string
  tq_temperature :: "rat option"
  tq_max_tokens :: "u32 option"
  tq_timeout_ms :: "nat option"
  tq_disable_thinking :: bool
  tq_json_object_response :: bool

record vision_summary_request =
  vq_image_data_url :: string
  vq_detection_summary :: string
  vq_user_prompt :: "string option"
  vq_system_prompt :: "string option"
  vq_disable_thinking :: bool

record cat_frame_verification_response =
  cf_cat_present :: bool
  cf_behavior_tags :: "string list"
  cf_summary :: string
  cf_reason_code :: string

record rerank_request =
  rq_query :: string
  rq_documents :: "string list"
  rq_top_n :: nat

text \<open>
  \<^verbatim>\<open>client\<close> is the construction of an HTTP client, which does not touch the network; the second argument of \<^verbatim>\<open>complete\<close> says
  whether redirects are followed. A command gives its exit status, output and error output.
\<close>

record ('w, 'v) run_env =
  ru_env :: center_env
  ru_center :: "'w center_world"
  ru_client :: "string \<Rightarrow> string + unit"
  ru_complete :: "openai_compatible_config \<Rightarrow> bool \<Rightarrow> text_completion_request \<Rightarrow> 'w \<Rightarrow> (string + string \<times> json) \<times> 'w"
  ru_describe :: "openai_compatible_config \<Rightarrow> vision_summary_request \<Rightarrow> 'w \<Rightarrow> (string + string \<times> json) \<times> 'w"
  ru_verify_cat :: "openai_compatible_config \<Rightarrow> string \<Rightarrow> 'w \<Rightarrow> (string + cat_frame_verification_response) \<times> 'w"
  ru_embed :: "openai_compatible_config \<Rightarrow> nat \<Rightarrow> string \<Rightarrow> 'w \<Rightarrow> (string + 'v list \<times> json) \<times> 'w"
  ru_rerank :: "rerank_compatible_config \<Rightarrow> rerank_request \<Rightarrow> 'w \<Rightarrow> (string + (nat \<times> 'v) list \<times> json) \<times> 'w"
  ru_mock_embedding :: "model_endpoint \<Rightarrow> string \<Rightarrow> 'v list option"
  ru_mock_scores :: "model_endpoint \<Rightarrow> nat \<Rightarrow> (nat \<times> 'v) list option"
  ru_acquire :: "ai_workload \<Rightarrow> 'w \<Rightarrow> (ai_lease_error + unit) \<times> 'w"
  ru_release :: "ai_workload \<Rightarrow> 'w \<Rightarrow> 'w"
  ru_image_data_url :: "string \<Rightarrow> 'w \<Rightarrow> string + string"
  ru_path_exists :: "string \<Rightarrow> 'w \<Rightarrow> bool"
  ru_which_tesseract :: "'w \<Rightarrow> string option"
  ru_command :: "string \<Rightarrow> string list \<Rightarrow> 'w \<Rightarrow> (string + bool \<times> string \<times> string) \<times> 'w"

section \<open>Where an endpoint runs\<close>

definition url_is_loopback :: "center_env \<Rightarrow> string \<Rightarrow> bool" where
  "url_is_loopback env raw_url =
     (case ce_parse_url env (trim raw_url) of None \<Rightarrow> False
      | Some url \<Rightarrow> let host = to_ascii_lowercase (unwrap_or (pu_host url) []) in
          host = ''localhost'' \<or> host = ''::1'' \<or> starts_with host ''127.'')"

definition vlm_endpoint_local_only_blocker :: "center_env \<Rightarrow> model_endpoint \<Rightarrow> string option" where
  "vlm_endpoint_local_only_blocker env e =
     (if me_endpoint_kind e \<noteq> EpLocal then Some ''VLM endpoint must be local-only; cloud or remote fallback is blocked.''
      else case metadata_string (me_metadata e) ''base_url'' of None \<Rightarrow> None
        | Some base_url \<Rightarrow>
            if \<not> endpoint_uses_openai_compatible_api e then None
            else if \<not> url_is_loopback env base_url then Some ''VLM endpoint base_url must bind to loopback for K3 local-only execution.''
            else None)"

definition endpoint_uses_loopback_port :: "center_env \<Rightarrow> model_endpoint \<Rightarrow> nat \<Rightarrow> bool" where
  "endpoint_uses_loopback_port env e port =
     (case Option.bind (metadata_string (me_metadata e) ''base_url'') (ce_parse_url env) of None \<Rightarrow> False
      | Some url \<Rightarrow> pu_port_or_known_default url = Some port \<and>
          (case pu_host url of None \<Rightarrow> False | Some host \<Rightarrow> host \<in> {''127.0.0.1'', ''localhost'', ''::1''}))"

definition endpoint_requires_a100_cluster_1 :: "center_env \<Rightarrow> model_endpoint \<Rightarrow> ai_workload \<Rightarrow> bool" where
  "endpoint_requires_a100_cluster_1 env e workload =
     (if me_endpoint_kind e \<noteq> EpLocal then False
      else if (case metadata_string (me_metadata e) ''ai_resource_cluster'' of None \<Rightarrow> False
        | Some cluster \<Rightarrow> eq_ignore_ascii_case cluster ''a100_cluster_1'') then True
      else case workload of
          Llm \<Rightarrow> (case metadata_string (me_metadata e) ''runtime'' of None \<Rightarrow> False
              | Some runtime \<Rightarrow> eq_ignore_ascii_case runtime ''spacemit-llama-server'') \<or> endpoint_uses_loopback_port env e 8091
        | Vlm \<Rightarrow> endpoint_uses_loopback_port env e 8080
        | Yolo \<Rightarrow> False
        | CatRecordingVerifier \<Rightarrow> False)"

text \<open>The lease is held while the rest of the function runs and is dropped at its end.\<close>

definition with_endpoint_lease ::
  "('w, 'v) run_env \<Rightarrow> model_endpoint \<Rightarrow> ai_workload \<Rightarrow> (ai_lease_error \<Rightarrow> 'r) \<Rightarrow> ('w \<Rightarrow> 'r \<times> 'w) \<Rightarrow> 'w \<Rightarrow> 'r \<times> 'w" where
  "with_endpoint_lease ru e workload busy body w =
     (if endpoint_requires_a100_cluster_1 (ru_env ru) e workload then
        (case ru_acquire ru workload w of
           (Inl error, w1) \<Rightarrow> (busy error, w1)
         | (Inr _, w1) \<Rightarrow> (case body w1 of (r, w2) \<Rightarrow> (r, ru_release ru workload w2)))
      else body w)"

section \<open>Text completion\<close>

definition llm_result :: "model_endpoint \<Rightarrow> bool \<Rightarrow> string \<Rightarrow> string \<Rightarrow> string \<Rightarrow> json \<Rightarrow> llm_text_execution" where
  "llm_result e available status summary text details =
     \<lparr>lx_available = available, lx_status = status, lx_summary = summary, lx_provider_key = me_provider_key e,
      lx_model_endpoint_id = Some (me_model_endpoint_id e), lx_text = text, lx_details = details\<rparr>"

definition endpoint_kind_details :: "model_endpoint \<Rightarrow> json" where
  "endpoint_kind_details e = jobj [(''endpoint_kind'', JStr (endpoint_kind_as_str (me_endpoint_kind e)))]"

definition default_system_prompt :: string where
  "default_system_prompt = ''You are a strict HarborBeacon planning translator. Return only valid JSON that follows the requested schema.''"

definition text_request :: "string \<Rightarrow> model_endpoint \<Rightarrow> llm_text_options \<Rightarrow> text_completion_request" where
  "text_request prompt e options =
     \<lparr>tq_system_prompt = or_else (lo_system_prompt options) (or_else (metadata_string (me_metadata e) ''system_prompt'') (Some default_system_prompt)),
      tq_user_prompt = prompt, tq_temperature = or_else (lo_temperature options) (Some (1 / 10)), tq_max_tokens = lo_max_tokens options,
      tq_timeout_ms = lo_timeout_ms options, tq_disable_thinking = metadata_bool (me_metadata e) ''disable_thinking'',
      tq_json_object_response = lo_json_object_response options\<rparr>"

definition jopt :: "('a \<Rightarrow> json) \<Rightarrow> 'a option \<Rightarrow> json" where
  "jopt f v = (case v of None \<Rightarrow> JNull | Some x \<Rightarrow> f x)"

definition complete_details :: "llm_text_options \<Rightarrow> json \<Rightarrow> json" where
  "complete_details options raw_response =
     jobj [(''purpose'', jopt_str (lo_purpose options)), (''max_tokens'', jopt (\<lambda>n. JInt (uint n)) (lo_max_tokens options)),
       (''timeout_ms'', jopt (\<lambda>n. JInt (int (n mod 2 ^ 64))) (lo_timeout_ms options)),
       (''json_object_response'', JBool (lo_json_object_response options)), (''raw_response'', raw_response)]"

definition run_llm_text_on_endpoint ::
  "('w, 'v) run_env \<Rightarrow> string \<Rightarrow> llm_text_options \<Rightarrow> model_endpoint \<Rightarrow> 'w \<Rightarrow> llm_text_execution \<times> 'w" where
  "run_llm_text_on_endpoint ru prompt options e w =
     (case metadata_string (me_metadata e) ''mock_text'' of
        Some mock_text \<Rightarrow> (llm_result e (\<not> blank mock_text) ''active'' ''Mock LLM endpoint resolved.'' mock_text (endpoint_kind_details e), w)
      | None \<Rightarrow>
          if \<not> endpoint_uses_openai_compatible_api e then
            (llm_result e False ''degraded'' (''LLM endpoint '' @ me_model_endpoint_id e @ '' is configured, but provider ''
               @ me_provider_key e @ '' is not implemented yet.'') [] (endpoint_kind_details e), w)
          else case openai_compatible_config_from_endpoint e of
              None \<Rightarrow> (llm_result e False ''degraded'' ''LLM endpoint base_url / api_key / model_name are not configured.'' []
                (endpoint_kind_details e), w)
            | Some config \<Rightarrow>
                (case ru_client ru (oc_base_url config) of
                   Inl error \<Rightarrow> (llm_result e False ''degraded'' (''Failed to build LLM client: '' @ error) [] (jobj []), w)
                 | Inr _ \<Rightarrow>
                     with_endpoint_lease ru e Llm
                       (\<lambda>error. llm_result e False ''busy'' (''LLM A100 resource is busy: '' @ lease_error_display error) []
                          (jobj [(''ai_resource_error'', JStr (lease_error_code (le_kind error))), (''local_only'', JBool True),
                             (''fallback_allowed'', JBool False)]))
                       (\<lambda>w1. case ru_complete ru config (metadata_bool (me_metadata e) ''semantic_router_embedded_facade'')
                            (text_request prompt e options) w1 of
                          (Inr (text, raw), w2) \<Rightarrow>
                            (llm_result e True ''active''
                               (''LLM '' @ unwrap_or (opt_filter (\<lambda>v. \<not> blank v) (lo_purpose options)) ''text completion'' @ '' completed.'')
                               text (complete_details options raw), w2)
                        | (Inl error, w2) \<Rightarrow> (llm_result e False ''degraded'' (''LLM request failed: '' @ error) [] (jobj []), w2)) w))"

definition llm_route_policy_id :: "llm_text_options \<Rightarrow> string" where
  "llm_route_policy_id options =
     (case map_option trim (lo_purpose options) of
        Some p \<Rightarrow> if p \<in> {''router'', ''semantic.router''} then SEMANTIC_ROUTER_POLICY_ID else LLM_POLICY_ID
      | None \<Rightarrow> LLM_POLICY_ID)"

definition merge_llm_execution_details ::
  "string \<Rightarrow> string list \<Rightarrow> string option \<Rightarrow> bool \<Rightarrow> string \<Rightarrow> json list \<Rightarrow> llm_text_execution \<Rightarrow> llm_text_execution" where
  "merge_llm_execution_details route_policy_id attempted fallback_reason fallback_used selected_kind summaries result =
     (let add = (\<lambda>c k v m. if c then bm_insert k v m else m);
          d0 = as_members (lx_details result);
          d1 = bm_insert ''fallback_used'' (JBool fallback_used)
            (bm_insert ''attempted_endpoints'' (JArr (map JStr attempted)) (bm_insert ''route_policy_id'' (JStr route_policy_id) d0));
          d2 = bm_insert ''attempt_summaries'' (JArr summaries) (add (route_policy_id = SEMANTIC_ROUTER_POLICY_ID) ''local_only'' (JBool True) d1);
          d3 = (case opt_filter (\<lambda>v. \<not> blank v) fallback_reason of None \<Rightarrow> d2 | Some reason \<Rightarrow> bm_insert ''fallback_reason'' (JStr reason) d2);
          d4 = (case lx_model_endpoint_id result of None \<Rightarrow> d3 | Some i \<Rightarrow> bm_insert ''selected_endpoint'' (JStr i) d3);
          d5 = add (\<not> blank selected_kind) ''selected_endpoint_kind'' (JStr selected_kind) d4
      in result\<lparr>lx_details := JObj d5\<rparr>)"

definition attempt_summary :: "model_endpoint \<Rightarrow> llm_text_execution \<Rightarrow> json" where
  "attempt_summary e result =
     jobj [(''endpoint'', JStr (me_model_endpoint_id e)), (''endpoint_kind'', JStr (endpoint_kind_as_str (me_endpoint_kind e))),
       (''status'', JStr (lx_status result)), (''available'', JBool (lx_available result)), (''summary'', JStr (lx_summary result))]"

text \<open>The loop over the candidates, with the variables it carries.\<close>

record llm_loop =
  ll_attempted :: "string list"
  ll_summaries :: "json list"
  ll_fallback_reason :: "string option"
  ll_last :: "llm_text_execution option"

definition resource_busy :: "llm_text_execution \<Rightarrow> bool" where
  "resource_busy result \<longleftrightarrow> lx_status result = ''busy'' \<and> json_get (lx_details result) ''ai_resource_error'' \<noteq> None"

definition default_llm_execution :: llm_text_execution where
  "default_llm_execution = \<lparr>lx_available = False, lx_status = [], lx_summary = [], lx_provider_key = [], lx_model_endpoint_id = None,
     lx_text = [], lx_details = JNull\<rparr>"

definition all_failed :: "string \<Rightarrow> llm_loop \<Rightarrow> llm_text_execution" where
  "all_failed route_policy_id l =
     (let r = unwrap_or (ll_last l) default_llm_execution;
          result = r\<lparr>lx_available := False, lx_status := (if blank (lx_status r) then ''degraded'' else lx_status r),
            lx_summary := ''All LLM endpoints failed for route_policy='' @ route_policy_id @ ''; last error: '' @ lx_summary r\<rparr>
      in merge_llm_execution_details route_policy_id (ll_attempted l) (ll_fallback_reason l) (1 < length (ll_attempted l)) [] (ll_summaries l) result)"

fun llm_attempts ::
  "(model_endpoint \<Rightarrow> 'w \<Rightarrow> llm_text_execution \<times> 'w) \<Rightarrow> string \<Rightarrow> string option \<Rightarrow> model_endpoint list \<Rightarrow> llm_loop \<Rightarrow> 'w \<Rightarrow> llm_text_execution \<times> 'w" where
  "llm_attempts run route_policy_id first_id [] l w = (all_failed route_policy_id l, w)"
| "llm_attempts run route_policy_id first_id (e # es) l w =
     (case run e w of (result, w') \<Rightarrow>
        let attempted = ll_attempted l @ [me_model_endpoint_id e]; summaries = ll_summaries l @ [attempt_summary e result];
            kind = endpoint_kind_as_str (me_endpoint_kind e)
        in if resource_busy result then (merge_llm_execution_details route_policy_id attempted None False kind summaries result, w')
           else if lx_available result then
             (merge_llm_execution_details route_policy_id attempted (ll_fallback_reason l)
                (lx_model_endpoint_id result \<noteq> first_id \<or> 1 < length attempted) kind summaries result, w')
           else llm_attempts run route_policy_id first_id es
             \<lparr>ll_attempted = attempted, ll_summaries = summaries,
              ll_fallback_reason = (case ll_fallback_reason l of None \<Rightarrow> Some (lx_summary result) | r \<Rightarrow> r), ll_last = Some result\<rparr> w')"

definition empty_llm_loop :: llm_loop where
  "empty_llm_loop = \<lparr>ll_attempted = [], ll_summaries = [], ll_fallback_reason = None, ll_last = None\<rparr>"

definition disabled_llm :: "string \<Rightarrow> json \<Rightarrow> llm_text_execution" where
  "disabled_llm summary details = \<lparr>lx_available = False, lx_status = ''disabled'', lx_summary = summary, lx_provider_key = [],
     lx_model_endpoint_id = None, lx_text = [], lx_details = details\<rparr>"

text \<open>The candidates of a text request, or the error of the semantic router's configuration.\<close>

definition llm_candidates ::
  "center_env \<Rightarrow> 'w center_world \<Rightarrow> admin_model_center_state \<Rightarrow> llm_text_options \<Rightarrow> 'w center_state \<Rightarrow> (string + model_endpoint list) \<times> 'w center_state" where
  "llm_candidates env cw state options s =
     (let route_policy_id = llm_route_policy_id options in
      case (if route_policy_id = SEMANTIC_ROUTER_POLICY_ID then semantic_router_local_only_model_state env state else Ok state) of
        Inl error \<Rightarrow> (Err error, s)
      | Inr effective \<Rightarrow> (case resolve_endpoint_candidates env cw effective KLlm route_policy_id s of (cs, s') \<Rightarrow> (Ok cs, s')))"

definition run_llm_text_with_state_and_options ::
  "('w, 'v) run_env \<Rightarrow> string \<Rightarrow> admin_model_center_state \<Rightarrow> llm_text_options \<Rightarrow> 'w center_state \<Rightarrow> llm_text_execution \<times> 'w center_state" where
  "run_llm_text_with_state_and_options ru prompt state options s =
     (let route_policy_id = llm_route_policy_id options in
      case llm_candidates (ru_env ru) (ru_center ru) state options s of
        (Inl error, s') \<Rightarrow> (disabled_llm error (jobj [(''route_policy_id'', JStr SEMANTIC_ROUTER_POLICY_ID), (''local_only'', JBool True),
           (''cloud_fallback_allowed'', JBool False), (''configuration_error'', JStr error)]), s')
      | (Inr [], s') \<Rightarrow> (disabled_llm ''No LLM endpoint is enabled.''
           (jobj [(''route_policy_id'', JStr route_policy_id), (''attempted_endpoints'', JArr [])]), s')
      | (Inr (e # es), s') \<Rightarrow>
          (case llm_attempts (run_llm_text_on_endpoint ru prompt options) route_policy_id (Some (me_model_endpoint_id e)) (e # es)
              empty_llm_loop (snd s') of
             (result, w') \<Rightarrow> (result, (fst s', w'))))"

definition default_llm_options :: llm_text_options where
  "default_llm_options = \<lparr>lo_purpose = None, lo_system_prompt = None, lo_temperature = None, lo_max_tokens = None, lo_timeout_ms = None,
     lo_json_object_response = False\<rparr>"

definition run_llm_text_with_state ::
  "('w, 'v) run_env \<Rightarrow> string \<Rightarrow> admin_model_center_state \<Rightarrow> 'w center_state \<Rightarrow> llm_text_execution \<times> 'w center_state" where
  "run_llm_text_with_state ru prompt state s = run_llm_text_with_state_and_options ru prompt state default_llm_options s"

section \<open>OCR\<close>

text \<open>The records of OCR and image summaries have the fields of a text completion.\<close>

definition OCR_POLICY_ID :: string where "OCR_POLICY_ID = ''retrieval.ocr''"
definition VLM_POLICY_ID :: string where "VLM_POLICY_ID = ''retrieval.vision_summary''"
definition EMBED_POLICY_ID :: string where "EMBED_POLICY_ID = ''retrieval.embed''"
definition RERANK_POLICY_ID :: string where "RERANK_POLICY_ID = ''retrieval.rerank''"

definition resolve_tesseract_binary :: "('w, 'v) run_env \<Rightarrow> model_endpoint \<Rightarrow> 'w \<Rightarrow> string option" where
  "resolve_tesseract_binary ru e w =
     or_else (opt_filter (\<lambda>p. ru_path_exists ru p w) (metadata_string (me_metadata e) ''binary_path''))
       (or_else (opt_filter (\<lambda>p. ru_path_exists ru p w) (center_env_ok (ce_var (ru_env ru) ''HARBOR_OCR_TESSERACT_PATH'')))
         (ru_which_tesseract ru w))"

definition resolve_tesseract_languages :: "('w, 'v) run_env \<Rightarrow> model_endpoint \<Rightarrow> string" where
  "resolve_tesseract_languages ru e =
     unwrap_or (or_else (metadata_string (me_metadata e) ''languages'')
       (opt_filter (\<lambda>v. \<not> blank v) (center_env_ok (ce_var (ru_env ru) ''HARBOR_OCR_LANGS'')))) ''chi_sim+eng''"

definition not_implemented_summary :: "string \<Rightarrow> model_endpoint \<Rightarrow> string" where
  "not_implemented_summary what e =
     what @ '' endpoint '' @ me_model_endpoint_id e @ '' is configured, but provider '' @ me_provider_key e @ '' is not implemented yet.''"

definition local_only_flags :: "(string \<times> json) list" where
  "local_only_flags = [(''local_only'', JBool True), (''fallback_allowed'', JBool False)]"

definition ocr_on_endpoint :: "('w, 'v) run_env \<Rightarrow> string \<Rightarrow> model_endpoint \<Rightarrow> 'w \<Rightarrow> llm_text_execution \<times> 'w" where
  "ocr_on_endpoint ru image_path e w =
     (case metadata_string (me_metadata e) ''mock_text'' of
        Some mock_text \<Rightarrow> (llm_result e (\<not> blank mock_text) ''active'' ''Mock OCR endpoint resolved.'' mock_text (endpoint_kind_details e), w)
      | None \<Rightarrow>
          if \<not> eq_ignore_ascii_case (me_provider_key e) ''tesseract'' then
            (llm_result e False ''degraded'' (not_implemented_summary ''OCR'' e) []
               (jobj ((''endpoint_kind'', JStr (endpoint_kind_as_str (me_endpoint_kind e))) # local_only_flags)), w)
          else case resolve_tesseract_binary ru e w of
              None \<Rightarrow> (llm_result e False ''degraded'' ''Tesseract is not available on this host.'' []
                (jobj [(''languages'', JStr (resolve_tesseract_languages ru e))]), w)
            | Some binary \<Rightarrow>
                (case ru_command ru binary [image_path, ''stdout'', ''-l'', resolve_tesseract_languages ru e, ''--psm'', ''3''] w of
                   (Inr (True, out, err), w') \<Rightarrow>
                     if blank out then (llm_result e False ''degraded'' ''OCR completed, but no text was extracted.'' (trim out)
                       (jobj [(''binary_path'', JStr binary)]), w')
                     else (llm_result e True ''active'' ''OCR text extracted from image.'' (trim out)
                       (jobj [(''binary_path'', JStr binary), (''languages'', JStr (resolve_tesseract_languages ru e))]), w')
                 | (Inr (False, out, err), w') \<Rightarrow> (llm_result e False ''degraded'' ''Tesseract command failed.'' []
                     (jobj [(''binary_path'', JStr binary), (''stderr'', JStr (trim err))]), w')
                 | (Inl error, w') \<Rightarrow> (llm_result e False ''degraded'' (''Failed to start tesseract: '' @ error) []
                     (jobj [(''binary_path'', JStr binary)]), w')))"

text \<open>A request to the first candidate of a route, or the answer without one.\<close>

definition on_resolved ::
  "('w, 'v) run_env \<Rightarrow> admin_model_center_state \<Rightarrow> model_kind \<Rightarrow> string \<Rightarrow> 'r \<Rightarrow> (model_endpoint \<Rightarrow> 'w \<Rightarrow> 'r \<times> 'w) \<Rightarrow> 'w center_state \<Rightarrow> 'r \<times> 'w center_state" where
  "on_resolved ru state kind route_policy_id missing run s =
     (case resolve_endpoint (ru_env ru) (ru_center ru) state kind route_policy_id s of
        (None, s') \<Rightarrow> (missing, s')
      | (Some e, s') \<Rightarrow> (case run e (snd s') of (r, w') \<Rightarrow> (r, (fst s', w'))))"

definition run_ocr_with_state ::
  "('w, 'v) run_env \<Rightarrow> string \<Rightarrow> admin_model_center_state \<Rightarrow> 'w center_state \<Rightarrow> llm_text_execution \<times> 'w center_state" where
  "run_ocr_with_state ru image_path state s =
     on_resolved ru state KOcr OCR_POLICY_ID (disabled_llm ''No OCR endpoint is enabled.'' (jobj [])) (ocr_on_endpoint ru image_path) s"

section \<open>Image summaries\<close>

definition zh_vlm_prompt :: string where
  "zh_vlm_prompt =
     [CHR 0xE8, CHR 0xAF, CHR 0xB7, CHR 0xE7, CHR 0x94, CHR 0xA8, CHR 0xE4, CHR 0xB8, CHR 0xAD, CHR 0xE6, CHR 0x96,
      CHR 0x87, CHR 0xE6, CHR 0xA6, CHR 0x82, CHR 0xE6, CHR 0x8B, CHR 0xAC, CHR 0xE8, CHR 0xBF, CHR 0x99, CHR 0xE5,
      CHR 0xBC, CHR 0xA0, CHR 0xE5, CHR 0x9B, CHR 0xBE, CHR 0xE7, CHR 0x89, CHR 0x87, CHR 0xE3, CHR 0x80, CHR 0x81,
      CHR 0xE6, CHR 0x88, CHR 0xAA, CHR 0xE5, CHR 0x9B, CHR 0xBE, CHR 0xE6, CHR 0x88, CHR 0x96, CHR 0xE6, CHR 0x91,
      CHR 0x84, CHR 0xE5, CHR 0x83, CHR 0x8F, CHR 0xE5, CHR 0xA4, CHR 0xB4, CHR 0xE9, CHR 0x9D, CHR 0x99, CHR 0xE5,
      CHR 0xB8, CHR 0xA7, CHR 0xE7, CHR 0x9A, CHR 0x84, CHR 0xE4, CHR 0xB8, CHR 0xBB, CHR 0xE8, CHR 0xA6, CHR 0x81,
      CHR 0xE5, CHR 0x86, CHR 0x85, CHR 0xE5, CHR 0xAE, CHR 0xB9, CHR 0xEF, CHR 0xBC, CHR 0x8C, CHR 0xE6, CHR 0x8F,
      CHR 0x90, CHR 0xE5, CHR 0x8F, CHR 0x96, CHR 0xE4, CHR 0xB8, CHR 0xBB, CHR 0xE4, CHR 0xBD, CHR 0x93, CHR 0xE3,
      CHR 0x80, CHR 0x81, CHR 0xE5, CHR 0x9C, CHR 0xBA, CHR 0xE6, CHR 0x99, CHR 0xAF, CHR 0xE3, CHR 0x80, CHR 0x81,
      CHR 0xE5, CHR 0x8F, CHR 0xAF, CHR 0xE6, CHR 0xA3, CHR 0x80, CHR 0xE7, CHR 0xB4, CHR 0xA2, CHR 0xE6, CHR 0x96,
      CHR 0x87, CHR 0xE6, CHR 0x9C, CHR 0xAC, CHR 0xE7, CHR 0xBA, CHR 0xBF, CHR 0xE7, CHR 0xB4, CHR 0xA2, CHR 0xE5,
      CHR 0x92, CHR 0x8C, CHR 0xE9, CHR 0x9C, CHR 0x80, CHR 0xE8, CHR 0xA6, CHR 0x81, CHR 0xE5, CHR 0x85, CHR 0xB3,
      CHR 0xE6, CHR 0xB3, CHR 0xA8, CHR 0xE7, CHR 0x9A, CHR 0x84, CHR 0xE4, CHR 0xBF, CHR 0xA1, CHR 0xE5, CHR 0x8F,
      CHR 0xB7, CHR 0xEF, CHR 0xBC, CHR 0x8C, CHR 0xE4, CHR 0xBF, CHR 0x9D, CHR 0xE6, CHR 0x8C, CHR 0x81, CHR 0xE5,
      CHR 0x9C, CHR 0xA8, CHR 0x20, CHR 0x38, CHR 0x30, CHR 0x20, CHR 0xE4, CHR 0xB8, CHR 0xAA, CHR 0xE6, CHR 0xB1,
      CHR 0x89, CHR 0xE5, CHR 0xAD, CHR 0x97, CHR 0xE4, CHR 0xBB, CHR 0xA5, CHR 0xE5, CHR 0x86, CHR 0x85, CHR 0xE3,
      CHR 0x80, CHR 0x82]"


definition vlm_system_prompt :: string where
  "vlm_system_prompt =
     ''You create concise Chinese descriptions for ordinary knowledge-base images. Describe visible subjects, scene, season or weather when evident, colors, actions, and useful searchable details. ''
     @ ''Do not assess security risk or focus on people unless they are visibly relevant. Never answer only '' @ [CHR 0x27] @ ''none'' @ [CHR 0x27]
     @ '' or '' @ [CHR 0x27] @ ''unknown'' @ [CHR 0x27] @ ''; describe what is visible. Keep it under 120 Chinese characters.''"

definition vlm_request :: "model_endpoint \<Rightarrow> string \<Rightarrow> vision_summary_request" where
  "vlm_request e image_data_url =
     \<lparr>vq_image_data_url = image_data_url,
      vq_detection_summary = ''This is an ordinary image from a knowledge base, not a security-camera alert.'',
      vq_user_prompt = or_else (metadata_string (me_metadata e) ''prompt'') (Some zh_vlm_prompt),
      vq_system_prompt = Some vlm_system_prompt, vq_disable_thinking = True\<rparr>"

definition vlm_failed :: "model_endpoint \<Rightarrow> string \<Rightarrow> llm_text_execution" where
  "vlm_failed e summary = llm_result e False ''degraded'' summary [] (jobj ((''image_path_redacted'', JBool True) # local_only_flags))"

definition vlm_on_endpoint :: "('w, 'v) run_env \<Rightarrow> string \<Rightarrow> model_endpoint \<Rightarrow> 'w \<Rightarrow> llm_text_execution \<times> 'w" where
  "vlm_on_endpoint ru image_path e w =
     (case vlm_endpoint_local_only_blocker (ru_env ru) e of
        Some reason \<Rightarrow> (llm_result e False ''blocked'' reason [] (jobj [(''endpoint_kind'', JStr (endpoint_kind_as_str (me_endpoint_kind e))),
          (''local_only'', JBool False), (''fallback_allowed'', JBool False)]), w)
      | None \<Rightarrow>
          (case metadata_string (me_metadata e) ''mock_text'' of
             Some mock_text \<Rightarrow> (llm_result e (\<not> blank mock_text) ''active'' ''Mock VLM endpoint resolved.'' mock_text
               (jobj ((''endpoint_kind'', JStr (endpoint_kind_as_str (me_endpoint_kind e))) # local_only_flags)), w)
           | None \<Rightarrow>
               if \<not> endpoint_uses_openai_compatible_api e then
                 (llm_result e False ''degraded'' (not_implemented_summary ''VLM'' e) [] (endpoint_kind_details e), w)
               else case openai_compatible_config_from_endpoint e of
                   None \<Rightarrow> (llm_result e False ''degraded'' ''VLM endpoint base_url / api_key / model_name are not configured.'' []
                     (jobj ((''endpoint_kind'', JStr (endpoint_kind_as_str (me_endpoint_kind e))) # local_only_flags)), w)
                 | Some config \<Rightarrow>
                     (case ru_image_data_url ru image_path w of
                        Inl error \<Rightarrow> (vlm_failed e error, w)
                      | Inr image_data_url \<Rightarrow>
                          (case ru_client ru (oc_base_url config) of
                             Inl error \<Rightarrow> (vlm_failed e (''Failed to build VLM client: '' @ error), w)
                           | Inr _ \<Rightarrow>
                               with_endpoint_lease ru e Vlm
                                 (\<lambda>error. llm_result e False ''busy'' (''VLM A100 resource is busy: '' @ lease_error_display error) []
                                    (jobj ((''ai_resource_error'', JStr (lease_error_code (le_kind error))) # local_only_flags)))
                                 (\<lambda>w1. case ru_describe ru config (vlm_request e image_data_url) w1 of
                                    (Inr (summary, raw), w2) \<Rightarrow> (llm_result e True ''active'' ''VLM summary extracted from image.'' summary
                                       (jobj ((''raw_response'', raw) # local_only_flags)), w2)
                                  | (Inl error, w2) \<Rightarrow> (vlm_failed e (''VLM request failed: '' @ error), w2)) w))))"

definition run_vlm_summary_with_state ::
  "('w, 'v) run_env \<Rightarrow> string \<Rightarrow> admin_model_center_state \<Rightarrow> 'w center_state \<Rightarrow> llm_text_execution \<times> 'w center_state" where
  "run_vlm_summary_with_state ru image_path state s =
     on_resolved ru state KVlm VLM_POLICY_ID (disabled_llm ''No VLM endpoint is enabled.'' (jobj [])) (vlm_on_endpoint ru image_path) s"

section \<open>Validation of cat recordings\<close>

record cat_recording_vlm_execution =
  cx_available :: bool
  cx_status :: string
  cx_summary :: string
  cx_provider_key :: string
  cx_model_endpoint_id :: "string option"
  cx_model_name :: string
  cx_cat_present :: bool
  cx_cat_frame_indices :: "u8 list"
  cx_behavior_tags :: "string list"
  cx_reason_code :: string
  cx_sampled_frame_count :: u8

definition cat_recording_vlm_error :: "string \<Rightarrow> string \<Rightarrow> model_endpoint option \<Rightarrow> cat_recording_vlm_execution" where
  "cat_recording_vlm_error status summary endpoint =
     \<lparr>cx_available = False, cx_status = status, cx_summary = summary,
      cx_provider_key = (case endpoint of None \<Rightarrow> [] | Some e \<Rightarrow> me_provider_key e), cx_model_endpoint_id = map_option me_model_endpoint_id endpoint,
      cx_model_name = (case endpoint of None \<Rightarrow> [] | Some e \<Rightarrow> me_model_name e), cx_cat_present = False, cx_cat_frame_indices = [],
      cx_behavior_tags = [], cx_reason_code = [], cx_sampled_frame_count = 0\<rparr>"

definition zh_sampled :: string where
  "zh_sampled =
     [CHR 0xE6, CHR 0x8A, CHR 0xBD, CHR 0xE6, CHR 0xA0, CHR 0xB7, CHR 0x20]"

definition zh_frames_of_which :: string where
  "zh_frames_of_which =
     [CHR 0x20, CHR 0xE5, CHR 0xB8, CHR 0xA7, CHR 0xEF, CHR 0xBC, CHR 0x8C, CHR 0xE5, CHR 0x85, CHR 0xB6, CHR 0xE4,
      CHR 0xB8, CHR 0xAD, CHR 0x20]"

definition zh_frames_confirmed :: string where
  "zh_frames_confirmed =
     [CHR 0x20, CHR 0xE5, CHR 0xB8, CHR 0xA7, CHR 0xE7, CHR 0xA1, CHR 0xAE, CHR 0xE8, CHR 0xAE, CHR 0xA4, CHR 0xE5,
      CHR 0x87, CHR 0xBA, CHR 0xE7, CHR 0x8E, CHR 0xB0, CHR 0xE7, CHR 0x8C, CHR 0xAB, CHR 0xE3, CHR 0x80, CHR 0x82]"

definition zh_only_frame :: string where
  "zh_only_frame =
     [CHR 0x20, CHR 0xE5, CHR 0xB8, CHR 0xA7, CHR 0xEF, CHR 0xBC, CHR 0x8C, CHR 0xE4, CHR 0xBB, CHR 0x85, CHR 0xE7,
      CHR 0xAC, CHR 0xAC, CHR 0x20]"

definition zh_needs_review :: string where
  "zh_needs_review =
     [CHR 0x20, CHR 0xE5, CHR 0xB8, CHR 0xA7, CHR 0xE7, CHR 0xA1, CHR 0xAE, CHR 0xE8, CHR 0xAE, CHR 0xA4, CHR 0xE5,
      CHR 0x87, CHR 0xBA, CHR 0xE7, CHR 0x8E, CHR 0xB0, CHR 0xE7, CHR 0x8C, CHR 0xAB, CHR 0xEF, CHR 0xBC, CHR 0x8C,
      CHR 0xE9, CHR 0x9C, CHR 0x80, CHR 0xE8, CHR 0xA6, CHR 0x81, CHR 0xE5, CHR 0xA4, CHR 0x8D, CHR 0xE6, CHR 0xA0,
      CHR 0xB8, CHR 0xE3, CHR 0x80, CHR 0x82]"

definition zh_no_conclusion :: string where
  "zh_no_conclusion =
     [CHR 0x20, CHR 0xE5, CHR 0xB8, CHR 0xA7, CHR 0xE6, CHR 0x9C, CHR 0xAA, CHR 0xE5, CHR 0xBD, CHR 0xA2, CHR 0xE6,
      CHR 0x88, CHR 0x90, CHR 0xE6, CHR 0x98, CHR 0x8E, CHR 0xE7, CHR 0xA1, CHR 0xAE, CHR 0xE7, CHR 0xBB, CHR 0x93,
      CHR 0xE8, CHR 0xAE, CHR 0xBA, CHR 0xEF, CHR 0xBC, CHR 0x8C, CHR 0xE9, CHR 0x9C, CHR 0x80, CHR 0xE8, CHR 0xA6,
      CHR 0x81, CHR 0xE5, CHR 0xA4, CHR 0x8D, CHR 0xE6, CHR 0xA0, CHR 0xB8, CHR 0xE3, CHR 0x80, CHR 0x82]"

definition zh_no_cat :: string where
  "zh_no_cat =
     [CHR 0x20, CHR 0xE5, CHR 0xB8, CHR 0xA7, CHR 0xE5, CHR 0x9D, CHR 0x87, CHR 0xE6, CHR 0x9C, CHR 0xAA, CHR 0xE7,
      CHR 0x9C, CHR 0x8B, CHR 0xE8, CHR 0xA7, CHR 0x81, CHR 0xE7, CHR 0x8C, CHR 0xAB, CHR 0xE3, CHR 0x80, CHR 0x82]"


definition sorted_indices :: "u8 list \<Rightarrow> u8 list" where
  "sorted_indices xs = remdups_adj (sort xs)"

definition aggregate_cat_frame_verifications ::
  "model_endpoint \<Rightarrow> (u8 \<times> cat_frame_verification_response) list \<Rightarrow> cat_recording_vlm_execution" where
  "aggregate_cat_frame_verifications e responses =
     (let positive = filter (\<lambda>r. cf_cat_present (snd r)) responses;
          indices = sorted_indices (map fst positive);
          tags = fold (\<lambda>tag ts. if tag \<in> set ts then ts else ts @ [tag]) (concat (map (\<lambda>r. cf_behavior_tags (snd r)) positive)) [];
          summaries = filter (\<lambda>s. s \<noteq> []) (map (\<lambda>r. trim (cf_summary (snd r))) positive);
          uncertain = list_ex (\<lambda>r. \<not> cf_cat_present (snd r) \<and> cf_reason_code (snd r) \<noteq> ''no_cat_visible'') responses;
          sampled = (if length responses \<le> 255 then of_nat (length responses) else 255) :: u8;
          n = show_nat (unat sampled); first = (case summaries of [] \<Rightarrow> [] | s # _ \<Rightarrow> s);
          (summary, reason) =
            (case indices of
               i # j # _ \<Rightarrow> (trim (zh_sampled @ n @ zh_frames_of_which @ show_nat (length indices) @ zh_frames_confirmed @ first), ''cat_visible'')
             | [i] \<Rightarrow> (trim (zh_sampled @ n @ zh_only_frame @ show_nat (unat i) @ zh_needs_review @ first), ''uncertain'')
             | [] \<Rightarrow> if uncertain then (zh_sampled @ n @ zh_no_conclusion, ''uncertain'') else (zh_sampled @ n @ zh_no_cat, ''no_cat_visible''))
      in \<lparr>cx_available = True, cx_status = ''active'', cx_summary = summary, cx_provider_key = me_provider_key e,
          cx_model_endpoint_id = Some (me_model_endpoint_id e), cx_model_name = me_model_name e, cx_cat_present = indices \<noteq> [],
          cx_cat_frame_indices = indices, cx_behavior_tags = tags, cx_reason_code = reason, cx_sampled_frame_count = sampled\<rparr>)"

fun verify_frames ::
  "('w, 'v) run_env \<Rightarrow> openai_compatible_config \<Rightarrow> (u8 \<times> string) list \<Rightarrow> 'w \<Rightarrow> (string + (u8 \<times> cat_frame_verification_response) list) \<times> 'w" where
  "verify_frames ru config [] w = (Ok [], w)"
| "verify_frames ru config ((i, image_path) # frames) w =
     (case ru_image_data_url ru image_path w of
        Inl error \<Rightarrow> (Err error, w)
      | Inr url \<Rightarrow>
          (case ru_verify_cat ru config url w of
             (Inl error, w1) \<Rightarrow> (Err error, w1)
           | (Inr r, w1) \<Rightarrow>
               (case verify_frames ru config frames w1 of
                  (Inl error, w2) \<Rightarrow> (Err error, w2)
                | (Inr rs, w2) \<Rightarrow> (Ok ((i, r) # rs), w2))))"

definition frames_blocker :: "(u8 \<times> string) list \<Rightarrow> string option" where
  "frames_blocker frames =
     (if frames = [] \<or> 5 < length frames then Some ''Cat recording validation requires between one and five sampled frames per round.''
      else let indices = sorted_indices (map fst frames) in
        if length indices \<noteq> length frames \<or> list_ex (\<lambda>i. i < 1 \<or> 10 < i) indices
        then Some ''Cat recording validation sampled frame indices are invalid.'' else None)"

definition cat_validation_on_endpoint ::
  "('w, 'v) run_env \<Rightarrow> (u8 \<times> string) list \<Rightarrow> model_endpoint \<Rightarrow> 'w \<Rightarrow> cat_recording_vlm_execution \<times> 'w" where
  "cat_validation_on_endpoint ru frames e w =
     (let error = (\<lambda>status summary. cat_recording_vlm_error status summary (Some e)) in
      case vlm_endpoint_local_only_blocker (ru_env ru) e of
        Some reason \<Rightarrow> (error ''blocked'' reason, w)
      | None \<Rightarrow>
          if \<not> eq_ignore_ascii_case (me_provider_key e) ''openai_compatible''
          then (error ''degraded'' ''Configured VLM provider does not support cat recording validation.'', w)
          else case openai_compatible_config_from_endpoint e of
              None \<Rightarrow> (error ''degraded'' ''VLM endpoint configuration is incomplete.'', w)
            | Some config \<Rightarrow>
                (case frames_blocker frames of
                   Some reason \<Rightarrow> (error ''degraded'' reason, w)
                 | None \<Rightarrow>
                     (case ru_client ru (oc_base_url config) of
                        Inl reason \<Rightarrow> (error ''degraded'' reason, w)
                      | Inr _ \<Rightarrow>
                          with_endpoint_lease ru e Vlm (\<lambda>l. error ''busy'' (''VLM A100 resource is busy: '' @ lease_error_display l))
                            (\<lambda>w1. case verify_frames ru config frames w1 of
                               (Inl reason, w2) \<Rightarrow> (error ''degraded'' reason, w2)
                             | (Inr responses, w2) \<Rightarrow> (aggregate_cat_frame_verifications e responses, w2)) w)))"

definition run_cat_recording_validation_with_state ::
  "('w, 'v) run_env \<Rightarrow> (u8 \<times> string) list \<Rightarrow> admin_model_center_state \<Rightarrow> 'w center_state \<Rightarrow> cat_recording_vlm_execution \<times> 'w center_state" where
  "run_cat_recording_validation_with_state ru frames state s =
     on_resolved ru state KVlm VLM_POLICY_ID (cat_recording_vlm_error ''disabled'' ''No VLM endpoint is enabled.'' None)
       (cat_validation_on_endpoint ru frames) s"

section \<open>Embeddings and reranking\<close>

text \<open>\<^verbatim>\<open>EmbeddingExecution\<close> and \<^verbatim>\<open>RerankExecution\<close> differ in their values only: a vector of numbers or of scored documents.\<close>

record 'a model_values_execution =
  vx_available :: bool
  vx_status :: string
  vx_summary :: string
  vx_provider_key :: string
  vx_model_endpoint_id :: "string option"
  vx_model_name :: "string option"
  vx_values :: "'a list"
  vx_details :: json

definition disabled_values :: "string \<Rightarrow> json \<Rightarrow> 'a model_values_execution" where
  "disabled_values summary details = \<lparr>vx_available = False, vx_status = ''disabled'', vx_summary = summary, vx_provider_key = [],
     vx_model_endpoint_id = None, vx_model_name = None, vx_values = [], vx_details = details\<rparr>"

definition values_result ::
  "model_endpoint \<Rightarrow> string option \<Rightarrow> string \<Rightarrow> string \<Rightarrow> 'a list \<Rightarrow> json \<Rightarrow> 'a model_values_execution" where
  "values_result e name status summary vs details =
     \<lparr>vx_available = (vs \<noteq> []), vx_status = status, vx_summary = summary, vx_provider_key = me_provider_key e,
      vx_model_endpoint_id = Some (me_model_endpoint_id e), vx_model_name = name, vx_values = vs, vx_details = details\<rparr>"

definition embedding_on_endpoint ::
  "('w, 'v) run_env \<Rightarrow> string \<Rightarrow> nat \<Rightarrow> model_endpoint \<Rightarrow> 'w \<Rightarrow> 'v model_values_execution \<times> 'w" where
  "embedding_on_endpoint ru input timeout_ms e w =
     (case ru_mock_embedding ru e input of
        Some vector \<Rightarrow> (values_result e (Some (me_model_name e)) ''active'' ''Mock embedding endpoint resolved.'' vector (endpoint_kind_details e), w)
      | None \<Rightarrow>
          let name = embedding_model_name_from_endpoint e in
          if \<not> endpoint_uses_openai_compatible_api e then
            (values_result e name ''degraded'' (not_implemented_summary ''Embedding'' e) [] (endpoint_kind_details e), w)
          else case openai_compatible_config_from_endpoint e of
              None \<Rightarrow> (values_result e name ''degraded'' ''Embedding endpoint base_url / api_key / model_name are not configured.'' []
                (endpoint_kind_details e), w)
            | Some config \<Rightarrow>
                (case ru_client ru (oc_base_url config) of
                   Inl error \<Rightarrow> (values_result e (Some (oc_model config)) ''degraded'' (''Failed to build embedding client: '' @ error) [] (jobj []), w)
                 | Inr _ \<Rightarrow>
                     (case ru_embed ru config timeout_ms input w of
                        (Inr (vector, raw), w') \<Rightarrow>
                          (values_result e (or_else (nonblank_member raw ''model'') (Some (oc_model config))) ''active''
                             ''Embedding request completed.'' vector (jobj [(''raw_response'', raw)]), w')
                      | (Inl error, w') \<Rightarrow>
                          (values_result e (Some (oc_model config)) ''degraded'' (''Embedding request failed: '' @ error) [] (jobj []), w'))))"

definition run_embedding_with_state_and_timeout ::
  "('w, 'v) run_env \<Rightarrow> string \<Rightarrow> admin_model_center_state \<Rightarrow> nat \<Rightarrow> 'w center_state \<Rightarrow> 'v model_values_execution \<times> 'w center_state" where
  "run_embedding_with_state_and_timeout ru text state timeout_ms s =
     (if blank text then (disabled_values ''Embedding input is empty.'' (jobj []), s)
      else on_resolved ru state KEmbedder EMBED_POLICY_ID (disabled_values ''No embedding endpoint is enabled.'' (jobj []))
        (embedding_on_endpoint ru (trim text) timeout_ms) s)"

definition run_embedding_with_state ::
  "('w, 'v) run_env \<Rightarrow> string \<Rightarrow> admin_model_center_state \<Rightarrow> 'w center_state \<Rightarrow> 'v model_values_execution \<times> 'w center_state" where
  "run_embedding_with_state ru text state s = run_embedding_with_state_and_timeout ru text state 45000 s"

definition embedding_query_input :: "model_endpoint \<Rightarrow> string \<Rightarrow> string" where
  "embedding_query_input e text =
     (case metadata_string (me_metadata e) ''query_instruction'' of
        Some instruction \<Rightarrow> ''Instruct: '' @ instruction @ [CHR 0x0A] @ ''Query:'' @ trim text
      | None \<Rightarrow> trim text)"

definition run_query_embedding_with_state ::
  "('w, 'v) run_env \<Rightarrow> string \<Rightarrow> admin_model_center_state \<Rightarrow> 'w center_state \<Rightarrow> 'v model_values_execution \<times> 'w center_state" where
  "run_query_embedding_with_state ru text state s =
     (case resolve_endpoint (ru_env ru) (ru_center ru) state KEmbedder EMBED_POLICY_ID s of (endpoint, s') \<Rightarrow>
        run_embedding_with_state ru (case endpoint of Some e \<Rightarrow> embedding_query_input e text | None \<Rightarrow> text) state s')"

definition rerank_flags :: "(string \<times> json) list" where
  "rerank_flags = (''route_policy_id'', JStr RERANK_POLICY_ID) # local_only_flags"

definition rerank_on_endpoint ::
  "('w, 'v) run_env \<Rightarrow> string \<Rightarrow> string list \<Rightarrow> nat \<Rightarrow> model_endpoint \<Rightarrow> 'w \<Rightarrow> (nat \<times> 'v) model_values_execution \<times> 'w" where
  "rerank_on_endpoint ru query documents top_n e w =
     (let result = values_result e (Some (me_model_name e));
          details = jobj ((''endpoint_kind'', JStr (endpoint_kind_as_str (me_endpoint_kind e))) # rerank_flags)
      in if me_endpoint_kind e = EpCloud then
           (result ''blocked'' ''Cloud reranker endpoints are not allowed for retrieval.rerank.'' [] details, w)
         else case ru_mock_scores ru e (length documents) of
             Some scores \<Rightarrow> (result ''active'' ''Mock rerank endpoint resolved.'' scores details, w)
           | None \<Rightarrow>
               if \<not> eq_ignore_ascii_case (me_provider_key e) ''rerank_compatible'' then
                 (result ''degraded'' (not_implemented_summary ''Rerank'' e) [] details, w)
               else case rerank_compatible_config_from_endpoint e of
                   None \<Rightarrow> (result ''degraded'' ''Rerank endpoint base_url / model_name are not configured.'' [] details, w)
                 | Some config \<Rightarrow>
                     (case ru_client ru (rk_base_url config) of
                        Inl error \<Rightarrow> (result ''degraded'' (''Failed to build rerank client: '' @ error) [] (jobj rerank_flags), w)
                      | Inr _ \<Rightarrow>
                          (case ru_rerank ru config \<lparr>rq_query = query, rq_documents = documents, rq_top_n = max top_n 1\<rparr> w of
                             (Inr (scores, raw), w') \<Rightarrow>
                               (result ''active'' ''Rerank request completed.'' (filter (\<lambda>s. fst s < length documents) scores)
                                  (jobj ((''raw_response'', raw) # rerank_flags)), w')
                           | (Inl error, w') \<Rightarrow> (result ''degraded'' (''Rerank request failed: '' @ error) [] (jobj rerank_flags), w'))))"

definition run_rerank_with_state ::
  "('w, 'v) run_env \<Rightarrow> string \<Rightarrow> string list \<Rightarrow> nat \<Rightarrow> admin_model_center_state \<Rightarrow> 'w center_state \<Rightarrow> (nat \<times> 'v) model_values_execution \<times> 'w center_state" where
  "run_rerank_with_state ru query documents top_n state s =
     (let docs = filter (\<lambda>d. d \<noteq> []) (map trim documents) in
      if blank query then (disabled_values ''Rerank query is empty.'' (jobj []), s)
      else if docs = [] then (disabled_values ''Rerank documents are empty.'' (jobj []), s)
      else on_resolved ru state KReranker RERANK_POLICY_ID (disabled_values ''No local rerank endpoint is enabled.'' (jobj rerank_flags))
        (rerank_on_endpoint ru (trim query) docs top_n) s)"

end

