(* ===== verification/Message_Router.thy ===== *)
theory Message_Router
  imports Message_Plan Workflow_Compiler Model_Runs
begin

text \<open>
  The controller of a message, from \<^verbatim>\<open>general_message_router.rs\<close> and \<^verbatim>\<open>general_message_plan\<close> in \<^verbatim>\<open>task_api.rs\<close>: the answer of the
  local semantic parser is read as a plan, guarded and validated; otherwise the deterministic choice, the fallback rules
  or a conversational act decide. The language models, JSON parsing and the clock are fields of the environment; the texts of
  the prompts are theirs.
\<close>

section \<open>Reading the answer of the parser\<close>

definition GENERAL_MESSAGE_TURN_BUDGET_MS :: u64 where "GENERAL_MESSAGE_TURN_BUDGET_MS = 24000"
definition GENERAL_MESSAGE_NSP_MIN_CONFIDENCE :: nat where "GENERAL_MESSAGE_NSP_MIN_CONFIDENCE = 60"
definition GENERAL_MESSAGE_RENDERER_BUDGET_MS :: u64 where "GENERAL_MESSAGE_RENDERER_BUDGET_MS = 1800"

record home_assistant_plan_payload =
  hp_domain :: "string option"
  hp_service :: "string option"
  hp_entity_hint :: "string option"

record cat_activity_plan_payload =
  cp_time_scope :: "string option"
  cp_selection :: "string option"
  cp_limit :: "json option"

record general_message_plan_payload =
  gy_decision :: string
  gy_action :: string
  gy_conversation_act :: "string option"
  gy_reply_text :: "string option"
  gy_canonical_phrase :: "string option"
  gy_confidence :: "json option"
  gy_camera_hint :: "string option"
  gy_query :: "string option"
  gy_cat_activity :: "cat_activity_plan_payload option"
  gy_domain :: "string option"
  gy_service :: "string option"
  gy_entity_hint :: "string option"
  gy_home_assistant :: "home_assistant_plan_payload option"
  gy_ha :: "home_assistant_plan_payload option"
  gy_guardian_rule :: "json option"
  gy_event_id :: "string option"
  gy_corrected_summary :: "string option"
  gy_corrected_labels :: "string list option"
  gy_reason :: "string option"

record message_env =
  mx_from_str :: "string \<Rightarrow> json option"
  mx_payload :: "json \<Rightarrow> general_message_plan_payload option"
  mx_parse_f64 :: "string \<Rightarrow> rat option"
  mx_round_f64 :: "rat \<Rightarrow> rat"
  mx_router :: "string \<Rightarrow> json list \<Rightarrow> pending_task_general_message_loop option \<Rightarrow> llm_text_execution \<times> u64"
  mx_renderer :: "string \<Rightarrow> pending_task_general_message_loop option \<Rightarrow> general_message_plan \<Rightarrow> string \<Rightarrow> u64 \<Rightarrow> llm_text_execution \<times> u64"
  mx_now_ms :: "128 word"

definition parse_general_message_conversation_act_label :: "string \<Rightarrow> general_message_conversation_act option" where
  "parse_general_message_conversation_act_label label =
     (let l = to_ascii_lowercase (trim label) in
      if l \<in> {''continue'', ''conversation'', ''conversation_continue''} then Some ActContinue
      else if l \<in> {''boundary'', ''unsupported'', ''conversation_boundary''} then Some ActBoundary
      else if l \<in> {''repair'', ''conversation_repair''} then Some ActRepair
      else if l \<in> {''cancel'', ''conversation_cancel''} then Some ActCancel
      else if l \<in> {''clarify_continue'', ''conversation_clarify_continue''} then Some ActClarifyContinue
      else None)"

definition tool_decisions :: "(string list \<times> general_message_plan_kind) list" where
  "tool_decisions = [([''clarify''], GmClarify), ([''capability_summary'', ''capability'', ''help''], GmCapabilitySummary),
     ([''camera_snapshot'', ''snapshot''], GmCameraSnapshot), ([''camera_live_view'', ''live_view'', ''live''], GmCameraLiveView),
     ([''camera_snapshot_and_record_clip'', ''snapshot_and_clip''], GmCameraSnapshotAndRecordClip),
     ([''camera_record_clip'', ''record_clip'', ''clip''], GmCameraRecordClip),
     ([''knowledge_search'', ''search''], GmKnowledgeSearch), ([''rag_answer'', ''rag.answer'', ''answer''], GmRagAnswer),
     ([''ha_service_action'', ''home_assistant_service_action'', ''home_assistant_action''], GmHomeAssistantServiceAction),
     ([''vision_event_summary'', ''event_summary'', ''recent_event''], GmVisionEventSummary),
     ([''vision_event_notify_latest'', ''event_notify'', ''notify_latest_event''], GmVisionEventNotifyLatest),
     ([''vlm_describe_latest_event'', ''vlm_describe_latest'', ''describe_latest_event''], GmVlmDescribeLatestEvent),
     ([''vlm_describe_event'', ''describe_event''], GmVlmDescribeEvent),
     ([''family_memory_summary'', ''family_memory''], GmFamilyMemorySummary),
     ([''system_readiness'', ''status'', ''diagnostics''], GmSystemReadiness),
     ([''evt_readiness'', ''evt_status'', ''stress_readiness''], GmEvtReadiness),
     ([''evt_preflight'', ''stress_preflight''], GmEvtPreflight),
     ([''evt_evidence_bundle'', ''evt_evidence'', ''stress_evidence''], GmEvtEvidenceBundle),
     ([''family_timeline_summary'', ''family_timeline'', ''home_timeline''], GmFamilyTimelineSummary),
     ([''family_timeline_query'', ''home_timeline_query''], GmFamilyTimelineQuery),
     ([''guardian_rule_proposal'', ''home_guardian_rule_proposal''], GmGuardianRuleProposal),
     ([''guardian_rule_list'', ''home_guardian_rule_list''], GmGuardianRuleList),
     ([''guardian_rule_enable'', ''home_guardian_rule_enable''], GmGuardianRuleEnable),
     ([''guardian_rule_pause'', ''guardian_rule_cancel'', ''home_guardian_rule_pause''], GmGuardianRulePause),
     ([''guardian_status'', ''home_guardian_status''], GmGuardianStatus)]"

definition plan_only_decisions :: "(string list \<times> general_message_plan_kind) list" where
  "plan_only_decisions = [([''cat_activity_query'', ''cat_activity_today'', ''cat_today''], GmCatActivityQuery),
     ([''family_memory_confirm'', ''memory_confirm''], GmFamilyMemoryConfirm),
     ([''family_memory_favorite'', ''memory_favorite''], GmFamilyMemoryFavorite), ([''family_memory_hide'', ''memory_hide''], GmFamilyMemoryHide),
     ([''family_memory_correct_summary'', ''memory_correct_summary''], GmFamilyMemoryCorrectSummary),
     ([''family_memory_correct_labels'', ''memory_correct_labels''], GmFamilyMemoryCorrectLabels),
     ([''family_memory_show_favorites'', ''memory_show_favorites''], GmFamilyMemoryShowFavorites)]"

definition word_only_decisions :: "(string list \<times> general_message_plan_kind) list" where
  "word_only_decisions = [([''cat_activity_today'', ''cat_today''], GmCatActivityQuery), ([''family_memory_confirm''], GmFamilyMemoryConfirm),
     ([''family_memory_favorite''], GmFamilyMemoryFavorite), ([''family_memory_hide''], GmFamilyMemoryHide),
     ([''family_memory_correct_summary''], GmFamilyMemoryCorrectSummary), ([''family_memory_correct_labels''], GmFamilyMemoryCorrectLabels),
     ([''family_memory_show_favorites''], GmFamilyMemoryShowFavorites)]"

definition conversation_decisions :: "(string list \<times> general_message_conversation_act) list" where
  "conversation_decisions = [([''conversation'', ''conversation_continue'', ''continue''], ActContinue),
     ([''conversation_boundary'', ''boundary'', ''unsupported''], ActBoundary), ([''conversation_repair'', ''repair''], ActRepair),
     ([''conversation_cancel'', ''cancel''], ActCancel), ([''conversation_clarify_continue'', ''clarify_continue''], ActClarifyContinue)]"

definition lookup_decision :: "(string list \<times> 'a) list \<Rightarrow> string \<Rightarrow> 'a option" where
  "lookup_decision table decision = map_option snd (find (\<lambda>entry. decision \<in> set (fst entry)) table)"

definition plan_kind_of_decision ::
  "string \<Rightarrow> general_message_conversation_act option \<Rightarrow> (general_message_plan_kind \<times> general_message_conversation_act option) option" where
  "plan_kind_of_decision decision payload_act =
     (case lookup_decision (tool_decisions @ plan_only_decisions) decision of Some kind \<Rightarrow> Some (kind, None)
      | None \<Rightarrow> map_option (\<lambda>act. (GmConversationAct, Some (unwrap_or payload_act act))) (lookup_decision conversation_decisions decision))"

definition normalize_general_message_nsp_confidence :: "message_env \<Rightarrow> json option \<Rightarrow> nat option" where
  "normalize_general_message_nsp_confidence env value =
     (case (case value of Some (JInt i) \<Rightarrow> Some (mx_round_f64 env (rat_of_int i)) | Some (JFloat q) \<Rightarrow> Some q
        | Some (JStr t) \<Rightarrow> mx_parse_f64 env (trim t) | _ \<Rightarrow> None) of
        None \<Rightarrow> None
      | Some raw \<Rightarrow>
          let percent = (if raw \<le> 1 then mx_round_f64 env (raw * 100) else raw) in
          Some (nat (max 0 (min 100 (round percent)))))"

definition home_assistant_nsp_action_from_plan_payload :: "general_message_plan_payload \<Rightarrow> home_assistant_natural_action option" where
  "home_assistant_nsp_action_from_plan_payload payload =
     (let nested = or_else (gy_home_assistant payload) (gy_ha payload);
          field = (\<lambda>inner outer. normalize_optional_general_message_plan_field (or_else (Option.bind nested inner) outer))
      in case field hp_domain (gy_domain payload) of None \<Rightarrow> None
         | Some domain \<Rightarrow>
             (case field hp_service (gy_service payload) of None \<Rightarrow> None
              | Some service \<Rightarrow>
                  let request = \<lparr>hn_domain = to_ascii_lowercase domain, hn_service = to_ascii_lowercase service,
                        hn_entity_hint = field hp_entity_hint (gy_entity_hint payload)\<rparr>
                  in Some (if is_low_risk_home_assistant_service_action request then NaturalRequest request
                           else NaturalBlocked zh_not_low_risk)))"

definition cat_activity_limit_from_value :: "json \<Rightarrow> nat option" where
  "cat_activity_limit_from_value value =
     or_else (case value of JInt i \<Rightarrow> if 0 \<le> i \<and> i < 2 ^ 64 then Some (nat i) else None | _ \<Rightarrow> None)
       (Option.bind (as_str value) (\<lambda>t. parse_unsigned (trim t)))"

definition cat_activity_query_options_from_payload :: "general_message_plan_payload \<Rightarrow> cat_activity_query_options" where
  "cat_activity_query_options_from_payload payload =
     (case gy_cat_activity payload of None \<Rightarrow> default_cat_activity
      | Some p \<Rightarrow>
          let time_scope = unwrap_or (Option.bind (cp_time_scope p) cat_time_scope_parse) ScopeInherit;
              selection = unwrap_or (Option.bind (cp_selection p) cat_selection_parse) SelBatch;
              limit = (if selection = SelLatest then 1
                else max 1 (min CAT_ACTIVITY_MAX_BATCH_LIMIT
                  (unwrap_or (Option.bind (cp_limit p) cat_activity_limit_from_value) CAT_ACTIVITY_DEFAULT_BATCH_LIMIT)))
          in \<lparr>cq_time_scope = time_scope, cq_selection = selection, cq_limit = limit\<rparr>)"

definition parse_general_message_plan :: "message_env \<Rightarrow> string \<Rightarrow> general_message_plan option" where
  "parse_general_message_plan env text =
     (case Option.bind (parse_json_object_from_text (mx_from_str env) text) (mx_payload env) of None \<Rightarrow> None
      | Some payload \<Rightarrow>
          let decision = to_ascii_lowercase (trim (if blank (gy_decision payload) then gy_action payload else gy_decision payload));
              payload_act = Option.bind (gy_conversation_act payload) parse_general_message_conversation_act_label;
              field = normalize_optional_general_message_plan_field
          in (case plan_kind_of_decision decision payload_act of None \<Rightarrow> None
              | Some (kind, act) \<Rightarrow>
                  Some \<lparr>gmp_kind = kind, gmp_conversation_act = act, gmp_reply_text = field (gy_reply_text payload),
                    gmp_canonical_phrase = field (gy_canonical_phrase payload), gmp_camera_hint = field (gy_camera_hint payload),
                    gmp_query = field (gy_query payload), gmp_cat_activity = cat_activity_query_options_from_payload payload,
                    gmp_home_assistant_action = (if kind = GmHomeAssistantServiceAction
                      then home_assistant_nsp_action_from_plan_payload payload else None),
                    gmp_guardian_rule = gy_guardian_rule payload, gmp_event_id = field (gy_event_id payload),
                    gmp_corrected_summary = field (gy_corrected_summary payload), gmp_corrected_labels = gy_corrected_labels payload,
                    gmp_confidence = normalize_general_message_nsp_confidence env (gy_confidence payload), gmp_recent_clip = None,
                    gmp_reason = field (gy_reason payload)\<rparr>))"

definition decision_edges :: "string list" where
  "decision_edges =
     [[CHR 0x22], [CHR 0x27], [CHR 0x60], '','', ''.'', '';'', [CHR 0xEF, CHR 0xBC, CHR 0x9A], '':'']"


definition decision_of_word ::
  "string \<Rightarrow> (general_message_plan_kind \<times> general_message_conversation_act option) option" where
  "decision_of_word w =
     (case lookup_decision (tool_decisions @ word_only_decisions) w of Some kind \<Rightarrow> Some (kind, None)
      | None \<Rightarrow> map_option (\<lambda>act. (GmConversationAct, Some act)) (lookup_decision conversation_decisions w))"

definition parse_general_message_router_decision ::
  "message_env \<Rightarrow> string \<Rightarrow> (general_message_plan_kind \<times> general_message_conversation_act option) option" where
  "parse_general_message_router_decision env text =
     (case parse_general_message_plan env text of Some plan \<Rightarrow> Some (gmp_kind plan, gmp_conversation_act plan)
      | None \<Rightarrow>
          let first_line = takeWhile (\<lambda>c. c \<noteq> CHR 0x0A) text;
              first_word = (case split_whitespace text of [] \<Rightarrow> [] | w # _ \<Rightarrow> w)
          in or_else (decision_of_word (to_ascii_lowercase (trim text)))
            (or_else (decision_of_word (to_ascii_lowercase (trim first_line)))
              (decision_of_word (to_ascii_lowercase (trim_matches False decision_edges first_word)))))"

section \<open>Guards\<close>

definition general_message_plan_is_actionable_tool :: "general_message_plan_kind \<Rightarrow> bool" where
  "general_message_plan_is_actionable_tool kind \<longleftrightarrow> kind \<notin> {GmCapabilitySummary, GmClarify, GmConversationAct, GmUnsupported}"

definition boundary_keywords :: "string list" where
  "boundary_keywords =
     [[CHR 0xE5, CHR 0xA4, CHR 0xA9, CHR 0xE6, CHR 0xB0, CHR 0x94], [CHR 0xE6, CHR 0xB0, CHR 0x94, CHR 0xE6, CHR 0xB8,
      CHR 0xA9], [CHR 0xE4, CHR 0xB8, CHR 0x8B, CHR 0xE9, CHR 0x9B, CHR 0xA8], [CHR 0xE6, CHR 0x96, CHR 0xB0, CHR 0xE9,
      CHR 0x97, CHR 0xBB], [CHR 0xE8, CHR 0x82, CHR 0xA1, CHR 0xE7, CHR 0xA5, CHR 0xA8], [CHR 0xE8, CHR 0x82, CHR 0xA1,
      CHR 0xE4, CHR 0xBB, CHR 0xB7], [CHR 0xE8, CHR 0xA1, CHR 0x8C, CHR 0xE6, CHR 0x83, CHR 0x85], [CHR 0xE8, CHR 0xA7,
      CHR 0xA3, CHR 0xE9, CHR 0x94, CHR 0x81], [CHR 0xE5, CHR 0xBC, CHR 0x80, CHR 0xE9, CHR 0x94, CHR 0x81], [CHR 0xE9,
      CHR 0x97, CHR 0xA8, CHR 0xE9, CHR 0x94, CHR 0x81], [CHR 0xE7, CHR 0xA9, CHR 0xBA, CHR 0xE8, CHR 0xB0, CHR 0x83],
      [CHR 0xE6, CHR 0x9A, CHR 0x96, CHR 0xE6, CHR 0xB0, CHR 0x94], [CHR 0xE9, CHR 0x98, CHR 0x80, CHR 0xE9, CHR 0x97,
      CHR 0xA8], [CHR 0xE7, CHR 0x87, CHR 0x83, CHR 0xE6, CHR 0xB0, CHR 0x94], [CHR 0xE7, CHR 0x85, CHR 0xA4, CHR 0xE6,
      CHR 0xB0, CHR 0x94], [CHR 0xE6, CHR 0x8F, CHR 0x92, CHR 0xE5, CHR 0xBA, CHR 0xA7, CHR 0xE5, CHR 0xA4, CHR 0xA7,
      CHR 0xE5, CHR 0x8A, CHR 0x9F, CHR 0xE7, CHR 0x8E, CHR 0x87], ''temperature'', ''weather'', ''news'', ''stock'',
      ''unlock'', ''lock'', ''hvac'', ''valve'']"


definition general_message_external_boundary_hard_guard :: "string \<Rightarrow> bool" where
  "general_message_external_boundary_hard_guard raw_text \<longleftrightarrow>
     evt_long_run_request_boundary raw_text \<or>
     list_ex (str_contains (to_ascii_lowercase (normalize_command_text raw_text))) boundary_keywords \<or>
     infer_general_message_conversation_act raw_text None = ActBoundary"

definition general_message_nsp_schema_valid :: "general_message_plan \<Rightarrow> bool" where
  "general_message_nsp_schema_valid plan \<longleftrightarrow>
     (if general_message_plan_is_actionable_tool (gmp_kind plan) \<and> gmp_confidence plan = None then False
      else if gmp_kind plan = GmHomeAssistantServiceAction \<and> gmp_home_assistant_action plan = None then False
      else if gmp_kind plan = GmFamilyMemoryCorrectSummary \<and> gmp_corrected_summary plan = None \<and> gmp_query plan = None then False
      else if gmp_kind plan = GmFamilyMemoryCorrectLabels \<and> (case gmp_corrected_labels plan of None \<Rightarrow> True | Some ls \<Rightarrow> ls = []) then False
      else True)"

definition general_message_nsp_validation_failure :: "string \<Rightarrow> general_message_plan \<Rightarrow> string option" where
  "general_message_nsp_validation_failure raw_text plan =
     (if general_message_external_boundary_hard_guard raw_text \<and> general_message_plan_is_actionable_tool (gmp_kind plan)
      then Some ''nsp_boundary_hard_guard''
      else if \<not> general_message_nsp_schema_valid plan then Some ''nsp_schema_invalid''
      else if general_message_plan_is_actionable_tool (gmp_kind plan) \<and> unwrap_or (gmp_confidence plan) 0 < GENERAL_MESSAGE_NSP_MIN_CONFIDENCE
      then Some ''nsp_low_confidence''
      else None)"

definition zh_boundary_refused :: string where
  "zh_boundary_refused =
     [CHR 0xE8, CHR 0xBE, CHR 0xB9, CHR 0xE7, CHR 0x95, CHR 0x8C, CHR 0xE6, CHR 0x8B, CHR 0x92, CHR 0xE7, CHR 0xBB,
      CHR 0x9D]"


definition enforce_general_message_nsp_hard_guards :: "string \<Rightarrow> general_message_plan \<Rightarrow> general_message_plan" where
  "enforce_general_message_nsp_hard_guards raw_text plan =
     (let long_run_requested = evt_long_run_request_boundary raw_text in
      if \<not> long_run_requested \<and> \<not> general_message_external_boundary_hard_guard raw_text then plan
      else if gmp_kind plan = GmConversationAct \<and> gmp_conversation_act plan = Some ActBoundary \<and> \<not> long_run_requested then plan
      else plan\<lparr>gmp_kind := GmConversationAct, gmp_conversation_act := Some ActBoundary, gmp_home_assistant_action := None,
        gmp_camera_hint := None, gmp_query := None, gmp_cat_activity := default_cat_activity,
        gmp_reply_text := (if long_run_requested then Some zh_long_run_reply else None),
        gmp_canonical_phrase := Some (if long_run_requested then zh_long_run_refused else zh_boundary_refused),
        gmp_confidence := or_else (gmp_confidence plan) (Some 100),
        gmp_reason := Some (if long_run_requested then ''evt_long_run_requires_operator_supervisor'' else ''nsp_boundary_hard_guard'')\<rparr>)"

section \<open>Replies\<close>

definition supported_example_texts :: "string list" where
  "supported_example_texts =
     [[CHR 0xE4, CHR 0xBB, CHR 0x8A, CHR 0xE5, CHR 0xA4, CHR 0xA9, CHR 0xE7, CHR 0x8C, CHR 0xAB, CHR 0xE5, CHR 0xB9,
      CHR 0xB2, CHR 0xE4, CHR 0xBA, CHR 0x86, CHR 0xE4, CHR 0xBB, CHR 0x80, CHR 0xE4, CHR 0xB9, CHR 0x88], [CHR 0xE5,
      CHR 0x8F, CHR 0xAA, CHR 0xE5, CHR 0x8F, CHR 0x91, CHR 0xE6, CHR 0x9C, CHR 0x80, CHR 0xE6, CHR 0x96, CHR 0xB0,
      CHR 0xE4, CHR 0xB8, CHR 0x80, CHR 0xE6, CHR 0xAE, CHR 0xB5, CHR 0xE7, CHR 0x8C, CHR 0xAB, CHR 0xE6, CHR 0xB4,
      CHR 0xBB, CHR 0xE5, CHR 0x8A, CHR 0xA8, CHR 0xE8, CHR 0xA7, CHR 0x86, CHR 0xE9, CHR 0xA2, CHR 0x91], [CHR 0xE6,
      CHR 0x8B, CHR 0x8D, CHR 0xE4, CHR 0xB8, CHR 0x80, CHR 0xE5, CHR 0xBC, CHR 0xA0, CHR 0xE9, CHR 0x97, CHR 0xA8,
      CHR 0xE5, CHR 0x8F, CHR 0xA3], [CHR 0xE5, CHR 0xBD, CHR 0x95, CHR 0xE4, CHR 0xB8, CHR 0x80, CHR 0xE6, CHR 0xAE,
      CHR 0xB5, CHR 0xE9, CHR 0x97, CHR 0xA8, CHR 0xE5, CHR 0x8F, CHR 0xA3], [CHR 0xE6, CHR 0x9C, CHR 0x80, CHR 0xE8,
      CHR 0xBF, CHR 0x91, CHR 0xE4, CHR 0xBA, CHR 0x8B, CHR 0xE4, CHR 0xBB, CHR 0xB6], [CHR 0xE9, CHR 0x80, CHR 0x9A,
      CHR 0xE7, CHR 0x9F, CHR 0xA5, CHR 0xE6, CHR 0x9C, CHR 0x80, CHR 0xE6, CHR 0x96, CHR 0xB0, CHR 0xE4, CHR 0xBA,
      CHR 0x8B, CHR 0xE4, CHR 0xBB, CHR 0xB6], [CHR 0xE5, CHR 0xBC, CHR 0x80, CHR 0xE7, CHR 0x81, CHR 0xAF], [CHR 0xE5,
      CHR 0x85, CHR 0xB3, CHR 0xE7, CHR 0x81, CHR 0xAF], [CHR 0xE5, CHR 0x88, CHR 0x87, CHR 0xE6, CHR 0x8D, CHR 0xA2,
      CHR 0xE5, CHR 0xBC, CHR 0x80, CHR 0xE5, CHR 0x85, CHR 0xB3], [CHR 0xE6, CHR 0x89, CHR 0xA7, CHR 0xE8, CHR 0xA1,
      CHR 0x8C, CHR 0xE6, CHR 0xB5, CHR 0x8B, CHR 0xE8, CHR 0xAF, CHR 0x95, CHR 0xE5, CHR 0x9C, CHR 0xBA, CHR 0xE6,
      CHR 0x99, CHR 0xAF], [CHR 0xE7, CHR 0x8A, CHR 0xB6, CHR 0xE6, CHR 0x80, CHR 0x81], [CHR 0xE5, CHR 0x8E, CHR 0x8B,
      CHR 0xE6, CHR 0xB5, CHR 0x8B, CHR 0xE5, CHR 0x89, CHR 0x8D, CHR 0xE7, CHR 0x8A, CHR 0xB6, CHR 0xE6, CHR 0x80,
      CHR 0x81, CHR 0xE6, CHR 0x80, CHR 0x8E, CHR 0xE4, CHR 0xB9, CHR 0x88, CHR 0xE6, CHR 0xA0, CHR 0xB7], [CHR 0xE5,
      CHR 0xB8, CHR 0xAE, CHR 0xE6, CHR 0x88, CHR 0x91, CHR 0xE5, CHR 0x81, CHR 0x9A, CHR 0xE4, CHR 0xB8, CHR 0x80,
      CHR 0xE4, CHR 0xB8, CHR 0x8B, CHR 0x45, CHR 0x56, CHR 0x54, CHR 0xE9, CHR 0xA2, CHR 0x84, CHR 0xE6, CHR 0xA3,
      CHR 0x80], [CHR 0xE7, CHR 0x94, CHR 0x9F, CHR 0xE6, CHR 0x88, CHR 0x90, CHR 0xE5, CHR 0x8E, CHR 0x8B, CHR 0xE6,
      CHR 0xB5, CHR 0x8B, CHR 0xE8, CHR 0xAF, CHR 0x81, CHR 0xE6, CHR 0x8D, CHR 0xAE], [CHR 0xE4, CHR 0xBB, CHR 0x8A,
      CHR 0xE5, CHR 0xA4, CHR 0xA9, CHR 0xE5, CHR 0xAE, CHR 0xB6, CHR 0xE9, CHR 0x87, CHR 0x8C, CHR 0xE5, CHR 0x8F,
      CHR 0x91, CHR 0xE7, CHR 0x94, CHR 0x9F, CHR 0xE4, CHR 0xBA, CHR 0x86, CHR 0xE4, CHR 0xBB, CHR 0x80, CHR 0xE4,
      CHR 0xB9, CHR 0x88], [CHR 0xE5, CHR 0x88, CHR 0x9A, CHR 0xE6, CHR 0x89, CHR 0x8D, CHR 0xE9, CHR 0x97, CHR 0xA8,
      CHR 0xE5, CHR 0x8F, CHR 0xA3, CHR 0xE5, CHR 0x8F, CHR 0x91, CHR 0xE7, CHR 0x94, CHR 0x9F, CHR 0xE4, CHR 0xBA,
      CHR 0x86, CHR 0xE4, CHR 0xBB, CHR 0x80, CHR 0xE4, CHR 0xB9, CHR 0x88], [CHR 0xE4, CHR 0xBB, CHR 0x8A, CHR 0xE5,
      CHR 0xA4, CHR 0xA9, CHR 0xE5, CHR 0xAE, CHR 0xB6, CHR 0xE9, CHR 0x87, CHR 0x8C, CHR 0xE6, CHR 0x9C, CHR 0x89,
      CHR 0xE4, CHR 0xBB, CHR 0x80, CHR 0xE4, CHR 0xB9, CHR 0x88, CHR 0xE5, CHR 0x80, CHR 0xBC, CHR 0xE5, CHR 0xBE,
      CHR 0x97, CHR 0xE6, CHR 0xB3, CHR 0xA8, CHR 0xE6, CHR 0x84, CHR 0x8F, CHR 0xE7, CHR 0x9A, CHR 0x84], [CHR 0xE4,
      CHR 0xBB, CHR 0xA5, CHR 0xE5, CHR 0x90, CHR 0x8E, CHR 0xE9, CHR 0x97, CHR 0xA8, CHR 0xE5, CHR 0x8F, CHR 0xA3,
      CHR 0xE6, CHR 0x9C, CHR 0x89, CHR 0xE4, CHR 0xBA, CHR 0xBA, CHR 0xE5, CHR 0xB0, CHR 0xB1, CHR 0xE9, CHR 0x80,
      CHR 0x9A, CHR 0xE7, CHR 0x9F, CHR 0xA5, CHR 0xE6, CHR 0x88, CHR 0x91], [CHR 0xE5, CHR 0xAE, CHR 0xB6, CHR 0xE5,
      CHR 0xBA, CHR 0xAD, CHR 0xE5, CHR 0xAE, CHR 0x88, CHR 0xE6, CHR 0x8A, CHR 0xA4, CHR 0xE7, CHR 0x8A, CHR 0xB6,
      CHR 0xE6, CHR 0x80, CHR 0x81], [CHR 0xE5, CHR 0xB8, CHR 0xAE, CHR 0xE6, CHR 0x88, CHR 0x91, CHR 0xE6, CHR 0x89,
      CHR 0xBE, CHR 0xE5, CHR 0x88, CHR 0xB0, CHR 0xE5, CHR 0x92, CHR 0x8C, CHR 0xE6, CHR 0xA8, CHR 0xB1, CHR 0xE8,
      CHR 0x8A, CHR 0xB1, CHR 0xE6, CHR 0x9C, CHR 0x89, CHR 0xE5, CHR 0x85, CHR 0xB3, CHR 0xE7, CHR 0x9A, CHR 0x84,
      CHR 0xE6, CHR 0x96, CHR 0x87, CHR 0xE4, CHR 0xBB, CHR 0xB6], [CHR 0xE6, CHR 0xA0, CHR 0xB9, CHR 0xE6, CHR 0x8D,
      CHR 0xAE, CHR 0xE8, CHR 0xB5, CHR 0x84, CHR 0xE6, CHR 0x96, CHR 0x99, CHR 0xE5, CHR 0x9B, CHR 0x9E, CHR 0xE7,
      CHR 0xAD, CHR 0x94, CHR 0xE6, CHR 0xA8, CHR 0xB1, CHR 0xE8, CHR 0x8A, CHR 0xB1, CHR 0xE8, CHR 0xAE, CHR 0xA1,
      CHR 0xE5, CHR 0x88, CHR 0x92, CHR 0xE6, CHR 0x98, CHR 0xAF, CHR 0xE4, CHR 0xBB, CHR 0x80, CHR 0xE4, CHR 0xB9,
      CHR 0x88]]"


definition general_message_supported_examples :: "string list" where
  "general_message_supported_examples = supported_example_texts"

definition zh_unsupported_head :: string where
  "zh_unsupported_head =
     [CHR 0xE8, CHR 0xBF, CHR 0x99, CHR 0xE7, CHR 0xB1, CHR 0xBB, CHR 0xE8, CHR 0xAF, CHR 0xB7, CHR 0xE6, CHR 0xB1,
      CHR 0x82, CHR 0xE6, CHR 0x88, CHR 0x91, CHR 0xE7, CHR 0x8E, CHR 0xB0, CHR 0xE5, CHR 0x9C, CHR 0xA8, CHR 0xE4,
      CHR 0xB8, CHR 0x8D, CHR 0xE5, CHR 0xA4, CHR 0x84, CHR 0xE7, CHR 0x90, CHR 0x86, CHR 0xEF, CHR 0xBC, CHR 0x9B,
      CHR 0xE6, CHR 0x88, CHR 0x91, CHR 0xE4, CHR 0xB8, CHR 0x8D, CHR 0xE6, CHR 0x8E, CHR 0xA5, CHR 0xE5, CHR 0x85,
      CHR 0xAC, CHR 0xE7, CHR 0xBD, CHR 0x91, CHR 0xE5, CHR 0xA4, CHR 0xA9, CHR 0xE6, CHR 0xB0, CHR 0x94, CHR 0xE3,
      CHR 0x80, CHR 0x81, CHR 0xE6, CHR 0x96, CHR 0xB0, CHR 0xE9, CHR 0x97, CHR 0xBB, CHR 0xE3, CHR 0x80, CHR 0x81,
      CHR 0xE8, CHR 0x82, CHR 0xA1, CHR 0xE7, CHR 0xA5, CHR 0xA8, CHR 0xE7, CHR 0xAD, CHR 0x89, CHR 0xE5, CHR 0xA4,
      CHR 0x96, CHR 0xE9, CHR 0x83, CHR 0xA8, CHR 0xE5, CHR 0xAE, CHR 0x9E, CHR 0xE6, CHR 0x97, CHR 0xB6, CHR 0xE4,
      CHR 0xBF, CHR 0xA1, CHR 0xE6, CHR 0x81, CHR 0xAF, CHR 0xE3, CHR 0x80, CHR 0x82, CHR 0xE4, CHR 0xBD, CHR 0xA0,
      CHR 0xE5, CHR 0x8F, CHR 0xAF, CHR 0xE4, CHR 0xBB, CHR 0xA5, CHR 0xE7, CHR 0x9B, CHR 0xB4, CHR 0xE6, CHR 0x8E,
      CHR 0xA5, CHR 0xE8, CHR 0xAF, CHR 0xB4, CHR 0xEF, CHR 0xBC, CHR 0x9A]"

definition zh_semicolon :: string where
  "zh_semicolon =
     [CHR 0xEF, CHR 0xBC, CHR 0x9B]"

definition zh_stop :: string where
  "zh_stop =
     [CHR 0xE3, CHR 0x80, CHR 0x82]"


definition general_message_unsupported_summary :: string where
  "general_message_unsupported_summary = zh_unsupported_head @ join zh_semicolon general_message_supported_examples @ zh_stop"

definition zh_continue :: string where
  "zh_continue =
     [CHR 0xE6, CHR 0x94, CHR 0xB6, CHR 0xE5, CHR 0x88, CHR 0xB0, CHR 0xEF, CHR 0xBC, CHR 0x8C, CHR 0xE6, CHR 0x9C,
      CHR 0x89, CHR 0xE9, CHR 0x9C, CHR 0x80, CHR 0xE8, CHR 0xA6, CHR 0x81, CHR 0xE4, CHR 0xBD, CHR 0xA0, CHR 0xE7,
      CHR 0x9B, CHR 0xB4, CHR 0xE6, CHR 0x8E, CHR 0xA5, CHR 0xE8, CHR 0xAF, CHR 0xB4, CHR 0xE8, CHR 0xA6, CHR 0x81,
      CHR 0xE7, CHR 0x9C, CHR 0x8B, CHR 0xE4, CHR 0xBB, CHR 0x80, CHR 0xE4, CHR 0xB9, CHR 0x88, CHR 0xE6, CHR 0x88,
      CHR 0x96, CHR 0xE6, CHR 0x89, CHR 0xBE, CHR 0xE4, CHR 0xBB, CHR 0x80, CHR 0xE4, CHR 0xB9, CHR 0x88, CHR 0xE3,
      CHR 0x80, CHR 0x82]"

definition weather_words :: "string list" where
  "weather_words =
     [[CHR 0xE5, CHR 0xA4, CHR 0xA9, CHR 0xE6, CHR 0xB0, CHR 0x94], [CHR 0xE6, CHR 0xB8, CHR 0xA9, CHR 0xE5, CHR 0xBA,
      CHR 0xA6], [CHR 0xE4, CHR 0xB8, CHR 0x8B, CHR 0xE9, CHR 0x9B, CHR 0xA8]]"

definition zh_weather_boundary :: string where
  "zh_weather_boundary =
     [CHR 0xE5, CHR 0xA4, CHR 0xA9, CHR 0xE6, CHR 0xB0, CHR 0x94, CHR 0xE8, CHR 0xBF, CHR 0x99, CHR 0xE7, CHR 0xB1,
      CHR 0xBB, CHR 0xE5, CHR 0x85, CHR 0xAC, CHR 0xE7, CHR 0xBD, CHR 0x91, CHR 0xE5, CHR 0xAE, CHR 0x9E, CHR 0xE6,
      CHR 0x97, CHR 0xB6, CHR 0xE4, CHR 0xBF, CHR 0xA1, CHR 0xE6, CHR 0x81, CHR 0xAF, CHR 0xE6, CHR 0x88, CHR 0x91,
      CHR 0xE7, CHR 0x8E, CHR 0xB0, CHR 0xE5, CHR 0x9C, CHR 0xA8, CHR 0xE4, CHR 0xB8, CHR 0x8D, CHR 0xE5, CHR 0xA4,
      CHR 0x84, CHR 0xE7, CHR 0x90, CHR 0x86, CHR 0xEF, CHR 0xBC, CHR 0x9B, CHR 0xE6, CHR 0x88, CHR 0x91, CHR 0xE5,
      CHR 0x8F, CHR 0xAF, CHR 0xE4, CHR 0xBB, CHR 0xA5, CHR 0xE5, CHR 0xB8, CHR 0xAE, CHR 0xE4, CHR 0xBD, CHR 0xA0,
      CHR 0xE7, CHR 0x9C, CHR 0x8B, CHR 0xE6, CHR 0x91, CHR 0x84, CHR 0xE5, CHR 0x83, CHR 0x8F, CHR 0xE5, CHR 0xA4,
      CHR 0xB4, CHR 0xE3, CHR 0x80, CHR 0x81, CHR 0xE6, CHR 0x9F, CHR 0xA5, CHR 0xE6, CHR 0x9C, CHR 0x80, CHR 0xE8,
      CHR 0xBF, CHR 0x91, CHR 0xE4, CHR 0xBA, CHR 0x8B, CHR 0xE4, CHR 0xBB, CHR 0xB6, CHR 0xE3, CHR 0x80, CHR 0x81,
      CHR 0xE9, CHR 0x80, CHR 0x9A, CHR 0xE7, CHR 0x9F, CHR 0xA5, CHR 0xE9, CHR 0xBB, CHR 0x98, CHR 0xE8, CHR 0xAE,
      CHR 0xA4, CHR 0xE7, CHR 0x9B, CHR 0xAE, CHR 0xE6, CHR 0xA0, CHR 0x87, CHR 0xE3, CHR 0x80, CHR 0x81, CHR 0xE6,
      CHR 0x89, CHR 0xA7, CHR 0xE8, CHR 0xA1, CHR 0x8C, CHR 0xE4, CHR 0xBD, CHR 0x8E, CHR 0xE9, CHR 0xA3, CHR 0x8E,
      CHR 0xE9, CHR 0x99, CHR 0xA9, CHR 0xE5, CHR 0xAE, CHR 0xB6, CHR 0xE5, CHR 0xB1, CHR 0x85, CHR 0xE5, CHR 0x8A,
      CHR 0xA8, CHR 0xE4, CHR 0xBD, CHR 0x9C, CHR 0xE6, CHR 0x88, CHR 0x96, CHR 0xE7, CHR 0x9C, CHR 0x8B, CHR 0xE7,
      CHR 0x8A, CHR 0xB6, CHR 0xE6, CHR 0x80, CHR 0x81, CHR 0xE3, CHR 0x80, CHR 0x82]"

definition zh_boundary :: string where
  "zh_boundary =
     [CHR 0xE8, CHR 0xBF, CHR 0x99, CHR 0xE4, CHR 0xBB, CHR 0xB6, CHR 0xE4, CHR 0xBA, CHR 0x8B, CHR 0xE6, CHR 0x88,
      CHR 0x91, CHR 0xE7, CHR 0x8E, CHR 0xB0, CHR 0xE5, CHR 0x9C, CHR 0xA8, CHR 0xE4, CHR 0xB8, CHR 0x8D, CHR 0xE7,
      CHR 0x9B, CHR 0xB4, CHR 0xE6, CHR 0x8E, CHR 0xA5, CHR 0xE5, CHR 0xA4, CHR 0x84, CHR 0xE7, CHR 0x90, CHR 0x86,
      CHR 0xEF, CHR 0xBC, CHR 0x9B, CHR 0xE6, CHR 0x88, CHR 0x91, CHR 0xE5, CHR 0x8F, CHR 0xAF, CHR 0xE4, CHR 0xBB,
      CHR 0xA5, CHR 0xE5, CHR 0xB8, CHR 0xAE, CHR 0xE4, CHR 0xBD, CHR 0xA0, CHR 0xE7, CHR 0x9C, CHR 0x8B, CHR 0xE6,
      CHR 0x91, CHR 0x84, CHR 0xE5, CHR 0x83, CHR 0x8F, CHR 0xE5, CHR 0xA4, CHR 0xB4, CHR 0xE3, CHR 0x80, CHR 0x81,
      CHR 0xE6, CHR 0x9F, CHR 0xA5, CHR 0xE6, CHR 0x9C, CHR 0x80, CHR 0xE8, CHR 0xBF, CHR 0x91, CHR 0xE4, CHR 0xBA,
      CHR 0x8B, CHR 0xE4, CHR 0xBB, CHR 0xB6, CHR 0xE3, CHR 0x80, CHR 0x81, CHR 0xE9, CHR 0x80, CHR 0x9A, CHR 0xE7,
      CHR 0x9F, CHR 0xA5, CHR 0xE9, CHR 0xBB, CHR 0x98, CHR 0xE8, CHR 0xAE, CHR 0xA4, CHR 0xE7, CHR 0x9B, CHR 0xAE,
      CHR 0xE6, CHR 0xA0, CHR 0x87, CHR 0xE3, CHR 0x80, CHR 0x81, CHR 0xE6, CHR 0x89, CHR 0xA7, CHR 0xE8, CHR 0xA1,
      CHR 0x8C, CHR 0xE4, CHR 0xBD, CHR 0x8E, CHR 0xE9, CHR 0xA3, CHR 0x8E, CHR 0xE9, CHR 0x99, CHR 0xA9, CHR 0xE5,
      CHR 0xAE, CHR 0xB6, CHR 0xE5, CHR 0xB1, CHR 0x85, CHR 0xE5, CHR 0x8A, CHR 0xA8, CHR 0xE4, CHR 0xBD, CHR 0x9C,
      CHR 0xE6, CHR 0x88, CHR 0x96, CHR 0xE7, CHR 0x9C, CHR 0x8B, CHR 0xE7, CHR 0x8A, CHR 0xB6, CHR 0xE6, CHR 0x80,
      CHR 0x81, CHR 0xE3, CHR 0x80, CHR 0x82]"

definition zh_repair :: string where
  "zh_repair =
     [CHR 0xE6, CHR 0x94, CHR 0xB6, CHR 0xE5, CHR 0x88, CHR 0xB0, CHR 0xEF, CHR 0xBC, CHR 0x8C, CHR 0xE6, CHR 0x88,
      CHR 0x91, CHR 0xE9, CHR 0x87, CHR 0x8D, CHR 0xE6, CHR 0x96, CHR 0xB0, CHR 0xE7, CHR 0x90, CHR 0x86, CHR 0xE8,
      CHR 0xA7, CHR 0xA3, CHR 0xEF, CHR 0xBC, CHR 0x9B, CHR 0xE4, CHR 0xBD, CHR 0xA0, CHR 0xE5, CHR 0x8F, CHR 0xAF,
      CHR 0xE4, CHR 0xBB, CHR 0xA5, CHR 0xE6, CHR 0x8D, CHR 0xA2, CHR 0xE4, CHR 0xB8, CHR 0xAA, CHR 0xE8, CHR 0xAF,
      CHR 0xB4, CHR 0xE6, CHR 0xB3, CHR 0x95, CHR 0xE5, CHR 0x91, CHR 0x8A, CHR 0xE8, CHR 0xAF, CHR 0x89, CHR 0xE6,
      CHR 0x88, CHR 0x91, CHR 0xE8, CHR 0xA6, CHR 0x81, CHR 0xE5, CHR 0xA4, CHR 0x84, CHR 0xE7, CHR 0x90, CHR 0x86,
      CHR 0xE4, CHR 0xBB, CHR 0x80, CHR 0xE4, CHR 0xB9, CHR 0x88, CHR 0xE3, CHR 0x80, CHR 0x82]"

definition zh_cancel :: string where
  "zh_cancel =
     [CHR 0xE5, CHR 0xA5, CHR 0xBD, CHR 0xE7, CHR 0x9A, CHR 0x84, CHR 0xEF, CHR 0xBC, CHR 0x8C, CHR 0xE5, CHR 0x85,
      CHR 0x88, CHR 0xE4, CHR 0xB8, CHR 0x8D, CHR 0xE5, CHR 0xA4, CHR 0x84, CHR 0xE7, CHR 0x90, CHR 0x86, CHR 0xE8,
      CHR 0xBF, CHR 0x99, CHR 0xE4, CHR 0xBB, CHR 0xB6, CHR 0xE4, CHR 0xBA, CHR 0x8B, CHR 0xE3, CHR 0x80, CHR 0x82]"

definition zh_received :: string where
  "zh_received =
     [CHR 0xE6, CHR 0x94, CHR 0xB6, CHR 0xE5, CHR 0x88, CHR 0xB0, CHR 0xE3, CHR 0x80, CHR 0x82]"

definition zh_clarify_continue :: string where
  "zh_clarify_continue =
     [CHR 0xE6, CHR 0x94, CHR 0xB6, CHR 0xE5, CHR 0x88, CHR 0xB0, CHR 0xE3, CHR 0x80, CHR 0x82, CHR 0xE4, CHR 0xBD,
      CHR 0xA0, CHR 0xE5, CHR 0x8F, CHR 0xAF, CHR 0xE4, CHR 0xBB, CHR 0xA5, CHR 0xE7, CHR 0xBB, CHR 0xA7, CHR 0xE7,
      CHR 0xBB, CHR 0xAD, CHR 0xE8, CHR 0xA1, CHR 0xA5, CHR 0xE4, CHR 0xB8, CHR 0x80, CHR 0xE5, CHR 0x8F, CHR 0xA5,
      CHR 0xE5, CHR 0x85, CHR 0xB7, CHR 0xE4, CHR 0xBD, CHR 0x93, CHR 0xE8, CHR 0xA6, CHR 0x81, CHR 0xE6, CHR 0x8B,
      CHR 0x8D, CHR 0xE3, CHR 0x80, CHR 0x81, CHR 0xE5, CHR 0xBD, CHR 0x95, CHR 0xE3, CHR 0x80, CHR 0x81, CHR 0xE6,
      CHR 0x9F, CHR 0xA5, CHR 0xE4, CHR 0xBA, CHR 0x8B, CHR 0xE4, CHR 0xBB, CHR 0xB6, CHR 0xE3, CHR 0x80, CHR 0x81,
      CHR 0xE9, CHR 0x80, CHR 0x9A, CHR 0xE7, CHR 0x9F, CHR 0xA5, CHR 0xE3, CHR 0x80, CHR 0x81, CHR 0xE5, CHR 0xBC,
      CHR 0x80, CHR 0xE5, CHR 0x85, CHR 0xB3, CHR 0xE8, CHR 0xAE, CHR 0xBE, CHR 0xE5, CHR 0xA4, CHR 0x87, CHR 0xE8,
      CHR 0xBF, CHR 0x98, CHR 0xE6, CHR 0x98, CHR 0xAF, CHR 0xE7, CHR 0x9C, CHR 0x8B, CHR 0xE7, CHR 0x8A, CHR 0xB6,
      CHR 0xE6, CHR 0x80, CHR 0x81, CHR 0xE3, CHR 0x80, CHR 0x82]"


definition general_message_conversation_summary ::
  "string \<Rightarrow> pending_task_general_message_loop option \<Rightarrow> general_message_conversation_act \<Rightarrow> string" where
  "general_message_conversation_summary raw_text pending_loop act =
     (case act of
        ActContinue \<Rightarrow> zh_continue
      | ActBoundary \<Rightarrow> if matches_any (normalize_command_text raw_text) weather_words then zh_weather_boundary else zh_boundary
      | ActRepair \<Rightarrow> zh_repair
      | ActCancel \<Rightarrow> zh_cancel
      | ActClarifyContinue \<Rightarrow>
          (case pending_loop of None \<Rightarrow> zh_clarify_continue
           | Some p \<Rightarrow> let prompt = trim (pl_last_clarification_prompt p) in
               if prompt \<noteq> [] then zh_received @ prompt else zh_clarify_continue))"

definition visual_words :: "string list" where
  "visual_words =
     [[CHR 0xE7, CHR 0x9C, CHR 0x8B], [CHR 0xE9, CHR 0x97, CHR 0xA8, CHR 0xE5, CHR 0x8F, CHR 0xA3], [CHR 0xE6, CHR 0x91,
      CHR 0x84, CHR 0xE5, CHR 0x83, CHR 0x8F, CHR 0xE5, CHR 0xA4, CHR 0xB4]]"

definition zh_clarify_visual :: string where
  "zh_clarify_visual =
     [CHR 0xE4, CHR 0xBD, CHR 0xA0, CHR 0xE6, CHR 0x98, CHR 0xAF, CHR 0xE6, CHR 0x83, CHR 0xB3, CHR 0xE8, CHR 0xAE,
      CHR 0xA9, CHR 0xE6, CHR 0x88, CHR 0x91, CHR 0xE6, CHR 0x8B, CHR 0x8D, CHR 0xE4, CHR 0xB8, CHR 0x80, CHR 0xE5,
      CHR 0xBC, CHR 0xA0, CHR 0xE6, CHR 0x9C, CHR 0x80, CHR 0xE6, CHR 0x96, CHR 0xB0, CHR 0xE7, CHR 0x94, CHR 0xBB,
      CHR 0xE9, CHR 0x9D, CHR 0xA2, CHR 0xE3, CHR 0x80, CHR 0x81, CHR 0xE5, CHR 0xBD, CHR 0x95, CHR 0xE4, CHR 0xB8,
      CHR 0x80, CHR 0xE6, CHR 0xAE, CHR 0xB5, CHR 0xE7, CHR 0x9F, CHR 0xAD, CHR 0xE8, CHR 0xA7, CHR 0x86, CHR 0xE9,
      CHR 0xA2, CHR 0x91, CHR 0xEF, CHR 0xBC, CHR 0x8C, CHR 0xE8, CHR 0xBF, CHR 0x98, CHR 0xE6, CHR 0x98, CHR 0xAF,
      CHR 0xE6, CHR 0x90, CHR 0x9C, CHR 0xE7, CHR 0xB4, CHR 0xA2, CHR 0xE5, CHR 0xB7, CHR 0xB2, CHR 0xE7, CHR 0xBB,
      CHR 0x8F, CHR 0xE4, CHR 0xBF, CHR 0x9D, CHR 0xE5, CHR 0xAD, CHR 0x98, CHR 0xE7, CHR 0x9A, CHR 0x84, CHR 0xE5,
      CHR 0x86, CHR 0x85, CHR 0xE5, CHR 0xAE, CHR 0xB9, CHR 0xEF, CHR 0xBC, CHR 0x9F]"

definition zh_clarify_default :: string where
  "zh_clarify_default =
     [CHR 0xE4, CHR 0xBD, CHR 0xA0, CHR 0xE6, CHR 0x98, CHR 0xAF, CHR 0xE6, CHR 0x83, CHR 0xB3, CHR 0xE8, CHR 0xAE,
      CHR 0xA9, CHR 0xE6, CHR 0x88, CHR 0x91, CHR 0xE6, CHR 0x8B, CHR 0x8D, CHR 0xE4, CHR 0xB8, CHR 0x80, CHR 0xE5,
      CHR 0xBC, CHR 0xA0, CHR 0xE3, CHR 0x80, CHR 0x81, CHR 0xE5, CHR 0xBD, CHR 0x95, CHR 0xE4, CHR 0xB8, CHR 0x80,
      CHR 0xE6, CHR 0xAE, CHR 0xB5, CHR 0xEF, CHR 0xBC, CHR 0x8C, CHR 0xE8, CHR 0xBF, CHR 0x98, CHR 0xE6, CHR 0x98,
      CHR 0xAF, CHR 0xE6, CHR 0x90, CHR 0x9C, CHR 0xE7, CHR 0xB4, CHR 0xA2, CHR 0xE5, CHR 0xB7, CHR 0xB2, CHR 0xE6,
      CHR 0x9C, CHR 0x89, CHR 0xE5, CHR 0x86, CHR 0x85, CHR 0xE5, CHR 0xAE, CHR 0xB9, CHR 0xEF, CHR 0xBC, CHR 0x9F]"


definition general_message_default_clarification_prompt :: "string \<Rightarrow> string" where
  "general_message_default_clarification_prompt raw_text =
     (if list_ex (str_contains (normalize_command_text raw_text)) visual_words then zh_clarify_visual else zh_clarify_default)"

section \<open>The controller\<close>

record workflow_compiler_shadow_trace =
  ws_workflow_id :: "string option"
  ws_node_id :: "string option"
  ws_candidate_kind :: "string option"
  ws_confidence :: "u8 option"
  ws_matched_current_plan :: bool
  ws_read_only :: bool
  ws_unsafe_action :: bool
  ws_reason :: "string option"

record general_message_controller_trace =
  gt_controller_stage :: string
  gt_router_llm :: bool
  gt_router_latency_ms :: "u64 option"
  gt_renderer_latency_ms :: "u64 option"
  gt_fallback_reason :: "string option"
  gt_candidate_count :: nat
  gt_nsp_schema_valid :: bool
  gt_nsp_local_only :: bool
  gt_nsp_decision :: "string option"
  gt_nsp_confidence :: "nat option"
  gt_nsp_canonical_phrase :: "string option"
  gt_workflow_compiler_shadow :: "workflow_compiler_shadow_trace option"

definition initial_trace :: "nat \<Rightarrow> general_message_controller_trace" where
  "initial_trace candidate_count = \<lparr>gt_controller_stage = ''candidate_builder'', gt_router_llm = False, gt_router_latency_ms = None,
     gt_renderer_latency_ms = None, gt_fallback_reason = None, gt_candidate_count = candidate_count, gt_nsp_schema_valid = False,
     gt_nsp_local_only = False, gt_nsp_decision = None, gt_nsp_confidence = None, gt_nsp_canonical_phrase = None,
     gt_workflow_compiler_shadow = None\<rparr>"

definition record_general_message_nsp_plan_trace ::
  "general_message_plan \<Rightarrow> general_message_controller_trace \<Rightarrow> general_message_controller_trace" where
  "record_general_message_nsp_plan_trace plan trace = trace\<lparr>gt_nsp_decision := Some (general_message_plan_decision_label plan),
     gt_nsp_confidence := gmp_confidence plan, gt_nsp_canonical_phrase := gmp_canonical_phrase plan\<rparr>"

definition record_workflow_compiler_shadow ::
  "workflow_candidate option \<Rightarrow> general_message_plan \<Rightarrow> general_message_controller_trace \<Rightarrow> general_message_controller_trace" where
  "record_workflow_compiler_shadow candidate plan trace = trace\<lparr>gt_workflow_compiler_shadow := Some
     (case candidate of
        Some c \<Rightarrow> \<lparr>ws_workflow_id = Some (wc_workflow_id c), ws_node_id = Some (wc_node_id c),
          ws_candidate_kind = Some (wc_candidate_kind c), ws_confidence = Some (wc_confidence c),
          ws_matched_current_plan = (wc_candidate_kind c = general_message_plan_decision_label plan), ws_read_only = wc_read_only c,
          ws_unsafe_action = has_unsafe_action c, ws_reason = Some (wc_reason c)\<rparr>
      | None \<Rightarrow> \<lparr>ws_workflow_id = None, ws_node_id = None, ws_candidate_kind = None, ws_confidence = None,
          ws_matched_current_plan = False, ws_read_only = True, ws_unsafe_action = False,
          ws_reason = Some ''no workflow compiler candidate''\<rparr>)\<rparr>"

definition rendered_text_ok :: "message_env \<Rightarrow> string \<Rightarrow> bool" where
  "rendered_text_ok env rendered \<longleftrightarrow> rendered \<noteq> [] \<and> parse_general_message_router_decision env rendered = None \<and>
     CHR ''|'' \<notin> set rendered \<and> \<not> starts_with rendered ''{'' \<and>
     \<not> list_all (\<lambda>c. is_ascii_lowercase c \<or> c \<in> {CHR ''_'', CHR ''-'', CHR '' ''}) rendered"

definition maybe_render_general_message_reply ::
  "message_env \<Rightarrow> string \<Rightarrow> pending_task_general_message_loop option \<Rightarrow> general_message_plan \<times> general_message_controller_trace
    \<Rightarrow> general_message_plan \<times> general_message_controller_trace" where
  "maybe_render_general_message_reply env raw_text pending_loop pt =
     (let plan = fst pt; trace = snd pt;
          default_text = (if gmp_kind plan = GmClarify then general_message_default_clarification_prompt raw_text
            else if gmp_kind plan = GmConversationAct then general_message_conversation_summary raw_text pending_loop
              (unwrap_or (gmp_conversation_act plan) (infer_general_message_conversation_act raw_text pending_loop))
            else general_message_unsupported_summary);
          remaining_budget_ms = min (saturating_sub GENERAL_MESSAGE_TURN_BUDGET_MS (unwrap_or (gt_router_latency_ms trace) 0))
            GENERAL_MESSAGE_RENDERER_BUDGET_MS
      in if (case gmp_reply_text plan of None \<Rightarrow> False | Some v \<Rightarrow> \<not> blank v) then pt
         else if gmp_kind plan \<notin> {GmClarify, GmConversationAct, GmUnsupported} then pt
         else if remaining_budget_ms < 600 then pt
         else
           let result = mx_renderer env raw_text pending_loop plan default_text remaining_budget_ms;
               trace' = trace\<lparr>gt_renderer_latency_ms := Some (snd result)\<rparr>; render = fst result
           in if \<not> lx_available render then (plan, trace')
              else (case opt_filter (\<lambda>v. \<not> blank v) (Option.bind (parse_general_message_plan env (lx_text render)) gmp_reply_text) of
                      Some parsed \<Rightarrow> (plan\<lparr>gmp_reply_text := Some parsed\<rparr>, trace')
                    | None \<Rightarrow>
                        let rendered = trim (lx_text render) in
                        if rendered_text_ok env rendered then (plan\<lparr>gmp_reply_text := Some rendered\<rparr>, trace') else (plan, trace')))"

definition should_try_general_message_router_llm :: "general_message_signals \<Rightarrow> bool" where
  "should_try_general_message_router_llm s \<longleftrightarrow>
     sg_normalized s \<noteq> [] \<and> \<not> (sg_explicit_live_view s \<or> sg_explicit_snapshot s \<and> sg_explicit_clip s \<or>
       requests_cat_activity_today (sg_normalized s))"

definition RECENT_CLIP_PLAYBACK_WINDOW_MS :: "128 word" where "RECENT_CLIP_PLAYBACK_WINDOW_MS = 15 * 60 * 1000"

definition recent_clip_playback_is_fresh :: "128 word \<Rightarrow> recent_clip_playback_state \<Rightarrow> bool" where
  "recent_clip_playback_is_fresh now_ms clip \<longleftrightarrow>
     rp_captured_at_epoch_ms clip = 0 \<or>
     (if rp_captured_at_epoch_ms clip \<le> now_ms then now_ms - rp_captured_at_epoch_ms clip else 0) \<le> RECENT_CLIP_PLAYBACK_WINDOW_MS"

text \<open>The attempt with the semantic parser: a plan that passes the guards, or what the trace remembers of the failure.\<close>

definition try_semantic_parser ::
  "message_env \<Rightarrow> string \<Rightarrow> json list \<Rightarrow> pending_task_general_message_loop option \<Rightarrow> general_message_controller_trace
    \<Rightarrow> general_message_plan option \<times> general_message_controller_trace" where
  "try_semantic_parser env raw_text session_recap pending_loop trace =
     (let answer = mx_router env raw_text session_recap pending_loop; result = fst answer;
          trace' = trace\<lparr>gt_router_llm := True, gt_nsp_local_only := True, gt_router_latency_ms := Some (snd answer)\<rparr>
      in if \<not> lx_available result then (None, trace'\<lparr>gt_fallback_reason := Some (lx_summary result)\<rparr>)
         else case parse_general_message_plan env (lx_text result) of
             None \<Rightarrow> (None, trace'\<lparr>gt_nsp_schema_valid := False, gt_fallback_reason := Some ''nsp_invalid_json_or_decision''\<rparr>)
           | Some parsed \<Rightarrow>
               let plan = enforce_general_message_nsp_hard_guards raw_text parsed;
                   trace'' = record_general_message_nsp_plan_trace plan (trace'\<lparr>gt_nsp_schema_valid := general_message_nsp_schema_valid plan\<rparr>)
               in case general_message_nsp_validation_failure raw_text plan of
                    Some reason \<Rightarrow> (None, trace''\<lparr>gt_fallback_reason := Some reason\<rparr>)
                  | None \<Rightarrow> (Some plan, trace''\<lparr>gt_controller_stage := ''nsp_router''\<rparr>))"

definition no_candidate_plan :: "string \<Rightarrow> pending_task_general_message_loop option \<Rightarrow> general_message_plan" where
  "no_candidate_plan raw_text pending_loop = (plain_plan GmConversationAct ''no_supported_candidate'')
     \<lparr>gmp_conversation_act := Some (infer_general_message_conversation_act raw_text pending_loop),
      gmp_camera_hint := Option.bind pending_loop pl_camera_hint,
      gmp_query := or_else (Option.bind pending_loop pl_query) (infer_query_from_raw_text raw_text)\<rparr>"

definition general_message_plan_of ::
  "message_env \<Rightarrow> string + string option \<Rightarrow> task_conversation_state option \<Rightarrow> json list \<Rightarrow> string
    \<Rightarrow> pending_task_general_message_loop option \<Rightarrow> string + general_message_plan \<times> general_message_controller_trace" where
  "general_message_plan_of env admin_state conversation session_recap raw_text pending_loop =
     and_then admin_state (\<lambda>selected_camera.
       let recent_clip = opt_filter (recent_clip_playback_is_fresh (mx_now_ms env)) (Option.bind conversation tc_recent_clip_playback);
           signals = extract_general_message_signals raw_text session_recap pending_loop recent_clip;
           candidates = build_general_message_candidates raw_text signals selected_camera pending_loop session_recap recent_clip;
           shadow = compile_workflow_candidate system_diagnostics_document raw_text;
           attempt = (if should_try_general_message_router_llm signals
             then try_semantic_parser env raw_text session_recap pending_loop (initial_trace (length candidates))
             else (None, initial_trace (length candidates)));
           trace = snd attempt;
           choice = (case fst attempt of Some plan \<Rightarrow> (plan, trace)
             | None \<Rightarrow>
                 (case resolve_deterministic_general_message_plan raw_text candidates pending_loop of
                    Some plan \<Rightarrow> (plan, trace\<lparr>gt_controller_stage := deterministic_stage_for_plan plan\<rparr>)
                  | None \<Rightarrow>
                      (case fallback_general_message_plan raw_text selected_camera of
                         Some plan \<Rightarrow> (plan, trace\<lparr>gt_controller_stage := ''deterministic_fallback'',
                           gt_fallback_reason := or_else (gt_fallback_reason trace) (Some ''deterministic_fallback'')\<rparr>)
                       | None \<Rightarrow> (no_candidate_plan raw_text pending_loop, trace\<lparr>gt_controller_stage := ''conversation_act'',
                           gt_fallback_reason := or_else (gt_fallback_reason trace) (Some ''no_supported_candidate'')\<rparr>))));
           rendered = maybe_render_general_message_reply env raw_text pending_loop choice
       in Ok (fst rendered, record_workflow_compiler_shadow shadow (fst rendered) (snd rendered)))"

end

