(* ===== verification/Message_Laws.thy ===== *)
theory Message_Laws
  imports Message_Router
begin

text \<open>
  Properties of the controller of messages: which tools a message can reach and on which way, how clear a choice must be, and
  the bounds of what a plan carries.
\<close>

section \<open>Candidates\<close>

definition keyword_tools :: "general_message_plan_kind set" where
  "keyword_tools = {GmCameraReplayRecentClip, GmCameraLiveView, GmCameraSnapshot, GmCameraSnapshotAndRecordClip, GmCameraRecordClip,
     GmCatActivityQuery, GmKnowledgeSearch, GmRagAnswer, GmHomeAssistantServiceAction, GmVisionEventSummary, GmVisionEventNotifyLatest,
     GmSystemReadiness}"

definition candidate_ok :: "general_message_candidate \<Rightarrow> bool" where
  "candidate_ok c \<longleftrightarrow> gc_kind c \<in> insert GmCapabilitySummary (insert GmClarify keyword_tools) \<and> gc_confidence c \<le> 100"

lemma set_update_first: "x \<in> set (update_first p g xs) \<Longrightarrow> x \<in> set xs \<or> (\<exists>y\<in>set xs. p y \<and> x = g y)"
  by (induction xs) (auto split: if_splits)

lemma push_candidate_ok:
  assumes "distinct (map gc_kind cs)" "list_all candidate_ok cs" "candidate_ok c"
  shows "distinct (map gc_kind (push_general_message_candidate cs c))" "list_all candidate_ok (push_general_message_candidate cs c)"
proof -
  have k: "gc_kind (if gc_kind e = gc_kind c then merge_candidate c e else e) = gc_kind e" for e
    by (simp add: merge_candidate_def)
  have u: "update_first (\<lambda>i. gc_kind i = gc_kind c) (merge_candidate c) cs =
      update_first (\<lambda>i. gc_kind i = gc_kind c) (\<lambda>e. if gc_kind e = gc_kind c then merge_candidate c e else e) cs"
    by (induction cs) auto
  show "distinct (map gc_kind (push_general_message_candidate cs c))"
    using assms(1) update_first_ids [of gc_kind _ "gc_kind c" cs, OF k]
    by (auto simp: push_general_message_candidate_def u list_ex_iff)
  have "candidate_ok (merge_candidate c e)" if "candidate_ok e" for e
    using that assms(3) by (auto simp: merge_candidate_def candidate_ok_def)
  then show "list_all candidate_ok (push_general_message_candidate cs c)"
    using assms(2,3) by (auto simp: push_general_message_candidate_def list_all_iff dest!: set_update_first)
qed

lemma candidate_rules_ok: "list_all (\<lambda>r. candidate_ok (snd r)) (candidate_rules raw s hint pending recap clip)"
  by (simp add: candidate_rules_def Let_def candidate_ok_def cand_def keyword_tools_def)

lemma built_candidates_ok:
  "distinct (map gc_kind (build_general_message_candidates raw s hint pending recap clip)) \<and>
   list_all candidate_ok (build_general_message_candidates raw s hint pending recap clip)"
proof -
  have "list_all (\<lambda>r. candidate_ok (snd r)) rules \<Longrightarrow> distinct (map gc_kind cs) \<Longrightarrow> list_all candidate_ok cs \<Longrightarrow>
    distinct (map gc_kind (fold (\<lambda>(applies, c) cs. if applies then push_general_message_candidate cs c else cs) rules cs)) \<and>
    list_all candidate_ok (fold (\<lambda>(applies, c) cs. if applies then push_general_message_candidate cs c else cs) rules cs)" for rules cs
    by (induction rules arbitrary: cs) (auto simp: push_candidate_ok)
  from this [OF candidate_rules_ok, of "[]"] show ?thesis by (simp add: build_general_message_candidates_def)
qed

section \<open>Plans without a model\<close>

text \<open>What the keyword rules may put into a plan: no rule, event or correction, and no Home Assistant action of their own.\<close>

definition keyword_plan :: "general_message_plan \<Rightarrow> bool" where
  "keyword_plan plan \<longleftrightarrow> gmp_kind plan \<in> keyword_tools \<union> {GmCapabilitySummary, GmClarify, GmConversationAct} \<and>
     gmp_home_assistant_action plan = None \<and> gmp_guardian_rule plan = None \<and> gmp_event_id plan = None \<and>
     gmp_corrected_summary plan = None \<and> gmp_corrected_labels plan = None \<and>
     1 \<le> cq_limit (gmp_cat_activity plan) \<and> cq_limit (gmp_cat_activity plan) \<le> 5 \<and> pred_option (\<lambda>n. n \<le> 100) (gmp_confidence plan)"

lemmas plan_defs = keyword_plan_def plain_plan_def keyword_tools_def default_cat_activity_def CAT_ACTIVITY_DEFAULT_BATCH_LIMIT_def

lemma inferred_cat_limit: "1 \<le> cq_limit (infer_cat_activity_query_options raw) \<and> cq_limit (infer_cat_activity_query_options raw) \<le> 5"
  by (simp add: infer_cat_activity_query_options_def Let_def CAT_ACTIVITY_DEFAULT_BATCH_LIMIT_def)

lemma fallback_keyword_plan: "fallback_general_message_plan raw hint = Some plan \<Longrightarrow> keyword_plan plan"
proof -
  have "pred_option keyword_plan (fallback_general_message_plan raw hint)"
    unfolding fallback_general_message_plan_def Let_def if_distrib [of "pred_option keyword_plan"]
    using inferred_cat_limit [of raw] by (simp add: plan_defs)
  then show "fallback_general_message_plan raw hint = Some plan \<Longrightarrow> keyword_plan plan" by simp
qed

lemma no_candidate_keyword_plan: "keyword_plan (no_candidate_plan raw pending)"
  by (simp add: no_candidate_plan_def plan_defs)

lemma candidate_keyword_plan: "candidate_ok c \<Longrightarrow> keyword_plan (plan_from_general_message_candidate c)"
  by (auto simp: plan_from_general_message_candidate_def plan_defs candidate_ok_def)

lemma max_by_confidence_in: "max_by_confidence cs = Some c \<Longrightarrow> c \<in> set cs"
proof -
  have "fold (\<lambda>c best. case best of None \<Rightarrow> Some c | Some b \<Rightarrow> if gc_confidence b \<le> gc_confidence c then Some c else Some b) cs best = Some c
      \<Longrightarrow> c \<in> set cs \<or> best = Some c" for best
    by (induction cs arbitrary: best) (fastforce split: option.splits if_splits)+
  then show "max_by_confidence cs = Some c \<Longrightarrow> c \<in> set cs" by (auto simp: max_by_confidence_def)
qed

text \<open>The three ways a candidate is chosen, as functions of their own.\<close>

definition actionable_of :: "general_message_candidate list \<Rightarrow> general_message_candidate list" where
  "actionable_of cs = sort_by candidate_before (filter (\<lambda>c. is_actionable_kind (gc_kind c)) cs)"

definition clear_choice_of :: "general_message_candidate list \<Rightarrow> general_message_candidate option" where
  "clear_choice_of actionable = (case actionable of [] \<Rightarrow> None
     | primary # others \<Rightarrow> if 90 \<le> gc_confidence primary \<and> filter (\<lambda>c. gc_confidence primary \<le> gc_confidence c + 15) others = []
         then Some primary else None)"

definition clarify_of :: "general_message_candidate list \<Rightarrow> general_message_candidate list \<Rightarrow> general_message_candidate option" where
  "clarify_of cs actionable = (case max_by_confidence (filter (\<lambda>c. gc_kind c = GmClarify) cs) of None \<Rightarrow> None
     | Some c \<Rightarrow> if 80 \<le> gc_confidence c \<or> 2 \<le> length (filter (\<lambda>a. 50 \<le> gc_confidence a) actionable) then Some c else None)"

definition ahead_of :: "general_message_candidate list \<Rightarrow> general_message_candidate option" where
  "ahead_of actionable = (case actionable of [] \<Rightarrow> None
     | primary # others \<Rightarrow>
         if 80 \<le> gc_confidence primary \<and> (case others of [] \<Rightarrow> 0 | c # _ \<Rightarrow> gc_confidence c) + 20 \<le> gc_confidence primary
         then Some primary else None)"

lemma resolve_eq:
  "cs \<noteq> [] \<Longrightarrow> resolve_deterministic_general_message_plan raw cs pending =
     (case or_else (clear_choice_of (actionable_of cs)) (or_else (clarify_of cs (actionable_of cs)) (ahead_of (actionable_of cs))) of
        Some c \<Rightarrow> Some (plan_from_general_message_candidate c)
      | None \<Rightarrow> (case pending of None \<Rightarrow> None | Some p \<Rightarrow> fallback_general_message_plan raw (pl_camera_hint p)))"
  by (simp add: resolve_deterministic_general_message_plan_def Let_def actionable_of_def clear_choice_of_def clarify_of_def ahead_of_def)

lemma clear_choice_in: "clear_choice_of xs = Some c \<Longrightarrow> c \<in> set xs"
  by (cases xs) (auto simp: clear_choice_of_def split: if_splits)

lemma ahead_in: "ahead_of xs = Some c \<Longrightarrow> c \<in> set xs"
  by (cases xs) (auto simp: ahead_of_def split: if_splits)

lemma clarify_in: "clarify_of cs xs = Some c \<Longrightarrow> c \<in> set cs \<and> gc_kind c = GmClarify"
  using max_by_confidence_in [of "filter (\<lambda>c. gc_kind c = GmClarify) cs" c]
  by (auto simp: clarify_of_def split: if_splits option.splits)

lemma actionable_set: "set (actionable_of cs) = {c \<in> set cs. is_actionable_kind (gc_kind c)}"
  by (simp add: actionable_of_def)

lemma resolve_cases:
  assumes "resolve_deterministic_general_message_plan raw cs pending = Some plan"
  obtains (candidate) c where "c \<in> set cs" "plan = plan_from_general_message_candidate c"
    "clear_choice_of (actionable_of cs) = Some c \<or> clarify_of cs (actionable_of cs) = Some c \<or> ahead_of (actionable_of cs) = Some c"
  | (fallback) p where "pending = Some p" "fallback_general_message_plan raw (pl_camera_hint p) = Some plan"
proof -
  have ne: "cs \<noteq> []" using assms by (auto simp: resolve_deterministic_general_message_plan_def)
  define choice where
    "choice = or_else (clear_choice_of (actionable_of cs)) (or_else (clarify_of cs (actionable_of cs)) (ahead_of (actionable_of cs)))"
  show thesis
  proof (cases choice)
    case None
    then show thesis using assms that(2) by (auto simp: resolve_eq [OF ne] choice_def [symmetric] split: option.splits)
  next
    case (Some c)
    then have w: "clear_choice_of (actionable_of cs) = Some c \<or> clarify_of cs (actionable_of cs) = Some c \<or> ahead_of (actionable_of cs) = Some c"
      by (auto simp: choice_def or_else_def split: option.splits)
    then have "c \<in> set cs" using clear_choice_in ahead_in clarify_in actionable_set by blast
    then show thesis using assms that(1) w Some by (simp add: resolve_eq [OF ne] choice_def [symmetric])
  qed
qed

lemma resolve_keyword_plan:
  "list_all candidate_ok cs \<Longrightarrow> resolve_deterministic_general_message_plan raw cs pending = Some plan \<Longrightarrow> keyword_plan plan"
  by (erule resolve_cases) (auto simp: list_all_iff candidate_keyword_plan fallback_keyword_plan)

section \<open>The controller\<close>

lemma render_keeps_plan:
  "\<exists>t l. maybe_render_general_message_reply env raw pending (plan, trace) =
     (plan\<lparr>gmp_reply_text := t\<rparr>, trace\<lparr>gt_renderer_latency_ms := l\<rparr>)"
proof -
  define kept where "kept pt \<longleftrightarrow> (\<exists>t l. pt = (plan\<lparr>gmp_reply_text := t\<rparr>, trace\<lparr>gt_renderer_latency_ms := l\<rparr>))" for pt
  have same: "plan = plan\<lparr>gmp_reply_text := gmp_reply_text plan\<rparr>" "trace = trace\<lparr>gt_renderer_latency_ms := gt_renderer_latency_ms trace\<rparr>"
    by simp_all
  have k: "kept (plan\<lparr>gmp_reply_text := t\<rparr>, trace\<lparr>gt_renderer_latency_ms := l\<rparr>)" "kept (plan, trace\<lparr>gt_renderer_latency_ms := l\<rparr>)"
    "kept (plan, trace)" for t l
    unfolding kept_def using same by metis+
  have "kept (maybe_render_general_message_reply env raw pending (plan, trace))"
    unfolding maybe_render_general_message_reply_def Let_def fst_conv snd_conv
    by (simp add: k split: option.split)
  then show ?thesis by (simp add: kept_def)
qed

lemma enforced_plan:
  "general_message_external_boundary_hard_guard raw \<Longrightarrow>
     gmp_kind (enforce_general_message_nsp_hard_guards raw plan) = GmConversationAct \<and>
     gmp_conversation_act (enforce_general_message_nsp_hard_guards raw plan) = Some ActBoundary"
  "\<not> general_message_external_boundary_hard_guard raw \<Longrightarrow> enforce_general_message_nsp_hard_guards raw plan = plan"
  by (auto simp: enforce_general_message_nsp_hard_guards_def Let_def general_message_external_boundary_hard_guard_def)

lemma try_parser_cases:
  assumes "try_semantic_parser env raw recap pending trace = (result, trace')"
  shows "case result of None \<Rightarrow> gt_controller_stage trace' = gt_controller_stage trace
    | Some plan \<Rightarrow> gt_controller_stage trace' = ''nsp_router'' \<and> general_message_nsp_validation_failure raw plan = None \<and>
        (\<exists>t parsed. parse_general_message_plan env t = Some parsed \<and> plan = enforce_general_message_nsp_hard_guards raw parsed)"
  using assms
  by (auto simp: try_semantic_parser_def Let_def record_general_message_nsp_plan_trace_def split: if_splits option.splits)

lemma stage_not_parser: "deterministic_stage_for_plan plan \<noteq> ''nsp_router''"
  by (simp add: deterministic_stage_for_plan_def)

text \<open>A plan comes from the parser and passed its guards, or from the keyword rules.\<close>

lemma controller_cases:
  assumes "general_message_plan_of env admin_state conversation recap raw pending = Ok (plan, trace)"
  obtains (parser) t parsed reply where "gt_controller_stage trace = ''nsp_router''" "parse_general_message_plan env t = Some parsed"
      "plan = enforce_general_message_nsp_hard_guards raw parsed\<lparr>gmp_reply_text := reply\<rparr>"
      "general_message_nsp_validation_failure raw (enforce_general_message_nsp_hard_guards raw parsed) = None"
  | (without_parser) "gt_controller_stage trace \<noteq> ''nsp_router''" "keyword_plan plan"
proof -
  obtain camera where cam: "admin_state = Ok camera"
    using assms by (auto simp: general_message_plan_of_def and_then_def split: sum.splits)
  define clip where "clip = opt_filter (recent_clip_playback_is_fresh (mx_now_ms env)) (Option.bind conversation tc_recent_clip_playback)"
  define s where "s = extract_general_message_signals raw recap pending clip"
  define cs where "cs = build_general_message_candidates raw s camera pending recap clip"
  define attempt where "attempt = (if should_try_general_message_router_llm s
    then try_semantic_parser env raw recap pending (initial_trace (length cs)) else (None, initial_trace (length cs)))"
  define choice where "choice = (case fst attempt of Some plan \<Rightarrow> (plan, snd attempt)
    | None \<Rightarrow> (case resolve_deterministic_general_message_plan raw cs pending of
        Some plan \<Rightarrow> (plan, (snd attempt)\<lparr>gt_controller_stage := deterministic_stage_for_plan plan\<rparr>)
      | None \<Rightarrow> (case fallback_general_message_plan raw camera of
          Some plan \<Rightarrow> (plan, (snd attempt)\<lparr>gt_controller_stage := ''deterministic_fallback'',
            gt_fallback_reason := or_else (gt_fallback_reason (snd attempt)) (Some ''deterministic_fallback'')\<rparr>)
        | None \<Rightarrow> (no_candidate_plan raw pending, (snd attempt)\<lparr>gt_controller_stage := ''conversation_act'',
            gt_fallback_reason := or_else (gt_fallback_reason (snd attempt)) (Some ''no_supported_candidate'')\<rparr>))))"
  obtain reply l where r: "maybe_render_general_message_reply env raw pending choice =
      ((fst choice)\<lparr>gmp_reply_text := reply\<rparr>, (snd choice)\<lparr>gt_renderer_latency_ms := l\<rparr>)"
    using render_keeps_plan [of env raw pending "fst choice" "snd choice"] by auto
  have "general_message_plan_of env admin_state conversation recap raw pending =
      (let rendered = maybe_render_general_message_reply env raw pending choice in
       Ok (fst rendered, record_workflow_compiler_shadow (compile_workflow_candidate system_diagnostics_document raw) (fst rendered) (snd rendered)))"
    unfolding general_message_plan_of_def cam choice_def attempt_def cs_def s_def clip_def Let_def by (simp only: and_then_simps)
  then have e: "plan = (fst choice)\<lparr>gmp_reply_text := reply\<rparr>" "gt_controller_stage trace = gt_controller_stage (snd choice)"
    using assms by (auto simp: r Let_def record_workflow_compiler_shadow_def)
  have kw: "keyword_plan (p\<lparr>gmp_reply_text := t\<rparr>) = keyword_plan p" for p t
    by (simp add: keyword_plan_def)
  show thesis
  proof (cases "fst attempt")
    case (Some p)
    then have "try_semantic_parser env raw recap pending (initial_trace (length cs)) = (Some p, snd attempt)"
      by (auto simp: attempt_def prod_eq_iff split: if_splits)
    from try_parser_cases [OF this] obtain t parsed where pp: "gt_controller_stage (snd attempt) = ''nsp_router''"
        "general_message_nsp_validation_failure raw p = None" "parse_general_message_plan env t = Some parsed"
        "p = enforce_general_message_nsp_hard_guards raw parsed"
      by auto
    have "choice = (p, snd attempt)" using Some by (simp add: choice_def)
    then show thesis using that(1) [of t parsed reply] pp e by simp
  next
    case None
    have "list_all candidate_ok cs" using built_candidates_ok by (simp add: cs_def)
    then have "keyword_plan (fst choice) \<and> gt_controller_stage (snd choice) \<noteq> ''nsp_router''"
      using None by (auto simp: choice_def stage_not_parser no_candidate_keyword_plan
        dest: resolve_keyword_plan fallback_keyword_plan split: option.split)
    then show thesis using that(2) e kw by simp
  qed
qed

text \<open>
  C6. What a message can make the hub do, by the stage that made its plan. A plan taken from the semantic parser is a refusal when
  the message is inside the external boundary (weather, news, locks, heating, valves, long stress runs), and otherwise has a valid
  schema and, when it names a tool, at least 60 percent confidence. Of a plan that does not come from the parser
  nothing is said about the boundary, but it is one of the twelve keyword tools, a clarification, a summary of the abilities or
  a conversational act: no rule of the guardian is proposed, enabled or paused, no memory is changed, no
  preflight is run, and the plan carries no Home Assistant action of its own.
\<close>

theorem message_tools_are_guarded:
  "case general_message_plan_of env admin_state conversation recap raw pending of
     Inl e \<Rightarrow> admin_state = Inl e
   | Inr (plan, trace) \<Rightarrow>
       if gt_controller_stage trace = ''nsp_router''
       then (if general_message_external_boundary_hard_guard raw
             then gmp_kind plan = GmConversationAct \<and> gmp_conversation_act plan = Some ActBoundary
             else general_message_nsp_schema_valid plan \<and>
               (if general_message_plan_is_actionable_tool (gmp_kind plan) then 60 \<le> unwrap_or (gmp_confidence plan) 0 else True))
       else gmp_kind plan \<in> keyword_tools \<union> {GmCapabilitySummary, GmClarify, GmConversationAct} \<and>
         gmp_home_assistant_action plan = None \<and> gmp_guardian_rule plan = None \<and> gmp_event_id plan = None \<and>
         gmp_corrected_summary plan = None \<and> gmp_corrected_labels plan = None"
proof (cases "general_message_plan_of env admin_state conversation recap raw pending")
  case (Inl e)
  then show ?thesis by (auto simp: general_message_plan_of_def and_then_def Let_def split: sum.splits)
next
  case (Inr r)
  obtain plan trace where r: "r = (plan, trace)" by (cases r)
  have "general_message_plan_of env admin_state conversation recap raw pending = Ok (plan, trace)" using Inr r by simp
  then show ?thesis
  proof (cases rule: controller_cases)
    case (parser t parsed reply)
    let ?p = "enforce_general_message_nsp_hard_guards raw parsed"
    have same: "gmp_kind plan = gmp_kind ?p" "gmp_conversation_act plan = gmp_conversation_act ?p" "gmp_confidence plan = gmp_confidence ?p"
      "general_message_nsp_schema_valid plan = general_message_nsp_schema_valid ?p"
      by (simp_all add: parser(3) general_message_nsp_schema_valid_def)
    show ?thesis
    proof (cases "general_message_external_boundary_hard_guard raw")
      case True
      then show ?thesis using enforced_plan(1) [OF True, of parsed] parser(1) by (simp add: Inr r same)
    next
      case False
      have "general_message_nsp_schema_valid ?p" "general_message_plan_is_actionable_tool (gmp_kind ?p) \<Longrightarrow> 60 \<le> unwrap_or (gmp_confidence ?p) 0"
        using parser(4) by (auto simp: general_message_nsp_validation_failure_def GENERAL_MESSAGE_NSP_MIN_CONFIDENCE_def split: if_splits)
      then show ?thesis using False parser(1) by (simp add: Inr r same)
    qed
  next
    case without_parser
    then show ?thesis using Inr r by (simp add: keyword_plan_def)
  qed
qed

text \<open>
  The boundary is a guard of the parser's plans only: a message with the words of a live view is never shown to the
  parser, and its deterministic plan is a camera plan even when the message also asks for the weather.
\<close>

lemma live_view_text_skips_boundary:
  "general_message_external_boundary_hard_guard ''live view weather'' \<and>
   \<not> should_try_general_message_router_llm (extract_general_message_signals ''live view weather'' [] None None)"
  by code_simp

section \<open>What a plan carries\<close>

lemma nsp_action_low_risk:
  "case home_assistant_nsp_action_from_plan_payload payload of Some (NaturalRequest r) \<Rightarrow> is_low_risk_home_assistant_service_action r | _ \<Rightarrow> True"
  by (auto simp: home_assistant_nsp_action_from_plan_payload_def Let_def split: option.splits)

lemma parsed_plan_bounds:
  assumes "parse_general_message_plan env t = Some plan"
  shows "1 \<le> cq_limit (gmp_cat_activity plan)" "cq_limit (gmp_cat_activity plan) \<le> 5" "pred_option (\<lambda>n. n \<le> 100) (gmp_confidence plan)"
    "case gmp_home_assistant_action plan of Some (NaturalRequest r) \<Rightarrow> is_low_risk_home_assistant_service_action r | _ \<Rightarrow> True"
proof -
  obtain payload kind act where p: "gmp_cat_activity plan = cat_activity_query_options_from_payload payload"
      "gmp_confidence plan = normalize_general_message_nsp_confidence env (gy_confidence payload)"
      "gmp_home_assistant_action plan = (if kind = GmHomeAssistantServiceAction then home_assistant_nsp_action_from_plan_payload payload else None)"
    using assms by (auto simp: parse_general_message_plan_def Let_def split: option.splits)
  show "1 \<le> cq_limit (gmp_cat_activity plan)" "cq_limit (gmp_cat_activity plan) \<le> 5"
    by (auto simp: p(1) cat_activity_query_options_from_payload_def default_cat_activity_def Let_def CAT_ACTIVITY_DEFAULT_BATCH_LIMIT_def
      CAT_ACTIVITY_MAX_BATCH_LIMIT_def split: option.split)
  show "pred_option (\<lambda>n. n \<le> 100) (gmp_confidence plan)"
    by (auto simp: p(2) normalize_general_message_nsp_confidence_def Let_def split: option.split)
  show "case gmp_home_assistant_action plan of Some (NaturalRequest r) \<Rightarrow> is_low_risk_home_assistant_service_action r | _ \<Rightarrow> True"
    using nsp_action_low_risk [of payload] by (auto simp: p(3))
qed

text \<open>
  C9. The slots of a plan are bounded whoever filled them: between one and five cat videos, a confidence of at most 100, and a Home
  Assistant action that is one of the low-risk services (switching a light, a switch or an input boolean, or running a scene).
\<close>

theorem plan_slots_are_bounded:
  "case general_message_plan_of env admin_state conversation recap raw pending of
     Inl _ \<Rightarrow> True
   | Inr (plan, trace) \<Rightarrow>
       1 \<le> cq_limit (gmp_cat_activity plan) \<and> cq_limit (gmp_cat_activity plan) \<le> 5 \<and> pred_option (\<lambda>n. n \<le> 100) (gmp_confidence plan) \<and>
       (case gmp_home_assistant_action plan of Some (NaturalRequest r) \<Rightarrow> is_low_risk_home_assistant_service_action r | _ \<Rightarrow> True)"
proof (cases "general_message_plan_of env admin_state conversation recap raw pending")
  case (Inr r)
  obtain plan trace where r: "r = (plan, trace)" by (cases r)
  have "general_message_plan_of env admin_state conversation recap raw pending = Ok (plan, trace)" using Inr r by simp
  then show ?thesis
  proof (cases rule: controller_cases)
    case (parser t parsed reply)
    note b = parsed_plan_bounds [OF parser(2)]
    show ?thesis
    proof (cases "enforce_general_message_nsp_hard_guards raw parsed = parsed")
      case True
      then show ?thesis using b by (simp add: Inr r parser(3))
    next
      case False
      then have "gmp_cat_activity plan = default_cat_activity" "gmp_home_assistant_action plan = None"
          "gmp_confidence plan = or_else (gmp_confidence parsed) (Some 100)"
        by (auto simp: parser(3) enforce_general_message_nsp_hard_guards_def Let_def split: if_splits)
      then show ?thesis using b(3)
        by (cases "gmp_confidence parsed") (simp_all add: Inr r default_cat_activity_def CAT_ACTIVITY_DEFAULT_BATCH_LIMIT_def or_else_def)
    qed
  next
    case without_parser
    then show ?thesis by (simp add: Inr r keyword_plan_def)
  qed
qed simp

section \<open>A clear choice\<close>

text \<open>A tool is clear among the candidates when every tool of another kind is more than fifteen points behind.\<close>

definition clear_tool :: "general_message_candidate list \<Rightarrow> nat \<Rightarrow> general_message_candidate \<Rightarrow> bool" where
  "clear_tool cs least c \<longleftrightarrow> c \<in> set cs \<and> is_actionable_kind (gc_kind c) \<and> least \<le> gc_confidence c \<and>
     list_all (\<lambda>d. gc_kind d = gc_kind c \<or> gc_confidence d + 15 < gc_confidence c) (actionable_of cs)"

lemma candidate_before_order:
  "candidate_before x y \<or> candidate_before y x" "candidate_before x y \<Longrightarrow> candidate_before y z \<Longrightarrow> candidate_before x z"
  by (auto simp: candidate_before_def)

lemma actionable_sorted: "sorted_wrt candidate_before (actionable_of cs)"
  unfolding actionable_of_def by (rule sorted_sort_by) (use candidate_before_order in blast)+

lemma clear_choice_clear: "clear_choice_of (actionable_of cs) = Some c \<Longrightarrow> clear_tool cs 90 c"
  using actionable_set [of cs]
  by (cases "actionable_of cs") (auto simp: clear_choice_of_def clear_tool_def list_all_iff filter_empty_conv not_le split: if_splits)

lemma ahead_clear: "ahead_of (actionable_of cs) = Some c \<Longrightarrow> clear_tool cs 80 c"
proof -
  assume a: "ahead_of (actionable_of cs) = Some c"
  then obtain others where o: "actionable_of cs = c # others" "80 \<le> gc_confidence c"
      "(case others of [] \<Rightarrow> 0 | d # _ \<Rightarrow> gc_confidence d) + 20 \<le> gc_confidence c"
    by (auto simp: ahead_of_def split: list.splits if_splits)
  have "gc_confidence d + 15 < gc_confidence c" if "d \<in> set others" for d
  proof (cases others)
    case (Cons e es)
    then have "gc_confidence d \<le> gc_confidence e"
      using that actionable_sorted [of cs] o(1) by (auto simp: candidate_before_def)
    then show ?thesis using o(3) Cons by simp
  qed (use that in simp)
  moreover have "c \<in> set (actionable_of cs)" using o(1) by simp
  then have "c \<in> set cs" "is_actionable_kind (gc_kind c)" unfolding actionable_set by simp_all
  ultimately show ?thesis using o(1,2) by (simp add: clear_tool_def list_all_iff)
qed

lemma clear_tool_chosen:
  assumes "distinct (map gc_kind cs)" "clear_tool cs 90 c"
  shows "resolve_deterministic_general_message_plan raw cs pending = Some (plan_from_general_message_candidate c)"
proof -
  have c: "c \<in> set (actionable_of cs)" "90 \<le> gc_confidence c" using assms(2) by (auto simp: clear_tool_def actionable_set)
  then obtain p others where po: "actionable_of cs = p # others" by (cases "actionable_of cs") auto
  have inj: "d = e" if "d \<in> set cs" "e \<in> set cs" "gc_kind d = gc_kind e" for d e
    using assms(1) that by (simp add: distinct_map inj_on_def)
  have "gc_confidence c \<le> gc_confidence p"
    using c(1) po actionable_sorted [of cs] by (auto simp: candidate_before_def)
  moreover have "gc_kind p = gc_kind c \<or> gc_confidence p + 15 < gc_confidence c"
    using assms(2) po by (simp add: clear_tool_def)
  ultimately have "p = c" using inj [of p c] c(1) po actionable_set [of cs] by auto
  have "distinct (map gc_kind (actionable_of cs))"
    by (metis (no_types, lifting) actionable_of_def assms(1) distinct_map distinct_filter distinct_sort_by filter_is_subset inj_on_subset set_sort_by)
  then have "filter (\<lambda>d. gc_confidence c \<le> gc_confidence d + 15) others = []"
    using assms(2) po \<open>p = c\<close> unfolding clear_tool_def list_all_iff filter_empty_conv not_le by (metis distinct.simps(2) image_eqI list.set_map list.set_intros(2) list.simps(9))
  then have "clear_choice_of (actionable_of cs) = Some c" using po \<open>p = c\<close> c(2) by (simp add: clear_choice_of_def)
  moreover have "cs \<noteq> []" using c(1) actionable_set [of cs] by auto
  ultimately show ?thesis by (simp add: resolve_eq)
qed

text \<open>
  The keyword rules choose a tool only when it is clear: the candidates have different kinds; the tool of a chosen plan has at
  least 80 points and every other tool is more than fifteen points behind; and a tool with at least 90 points that is clear in
  this sense is chosen.
\<close>

theorem deterministic_choice_is_clear:
  assumes "cs = build_general_message_candidates raw s hint None recap clip"
  shows "distinct (map gc_kind cs) \<and>
    (\<forall>plan. resolve_deterministic_general_message_plan raw cs None = Some plan \<and> is_actionable_kind (gmp_kind plan) \<longrightarrow>
       (\<exists>c. clear_tool cs 80 c \<and> plan = plan_from_general_message_candidate c)) \<and>
    (\<forall>c. clear_tool cs 90 c \<longrightarrow>
       resolve_deterministic_general_message_plan raw cs None = Some (plan_from_general_message_candidate c))"
proof (intro conjI allI impI)
  show d: "distinct (map gc_kind cs)" using built_candidates_ok by (simp add: assms)
  show "resolve_deterministic_general_message_plan raw cs None = Some (plan_from_general_message_candidate c)"
    if "clear_tool cs 90 c" for c by (rule clear_tool_chosen [OF d that])
  fix plan
  assume a: "resolve_deterministic_general_message_plan raw cs None = Some plan \<and> is_actionable_kind (gmp_kind plan)"
  then have "resolve_deterministic_general_message_plan raw cs None = Some plan" by simp
  then show "\<exists>c. clear_tool cs 80 c \<and> plan = plan_from_general_message_candidate c"
  proof (cases rule: resolve_cases)
    case (candidate c)
    have "clarify_of cs (actionable_of cs) \<noteq> Some c"
      using a clarify_in [of cs _ c] candidate(2)
      by (auto simp: plan_from_general_message_candidate_def plain_plan_def is_actionable_kind_def)
    then have "clear_tool cs 80 c"
      using candidate(3) clear_choice_clear [of cs c] ahead_clear [of cs c] by (auto simp: clear_tool_def)
    then show ?thesis using candidate(2) by blast
  qed simp
qed

definition quiet_signals :: general_message_signals where
  "quiet_signals = \<lparr>sg_normalized = [], sg_asks_capability = False, sg_explicit_clip_playback = False, sg_explicit_live_view = False,
     sg_explicit_snapshot = True, sg_explicit_clip = False, sg_explicit_search = False, sg_explicit_rag_answer = False,
     sg_explicit_ha_action = False, sg_explicit_event_summary = False, sg_explicit_event_notify = False, sg_explicit_system_readiness = False,
     sg_mentions_camera_context = False, sg_ambiguous_visual_request = False, sg_recent_camera_context = False,
     sg_recent_clip_available = False, sg_recent_search_context = False\<rparr>"

definition snapshot_candidate :: general_message_candidate where
  "snapshot_candidate = cand GmCameraSnapshot 95 None None None ''structured_signal_snapshot''"

lemma quiet_candidates: "build_general_message_candidates [] quiet_signals None None [] None = [snapshot_candidate]"
  by code_simp

lemma deterministic_choice_is_clear_witness:
  "resolve_deterministic_general_message_plan [] [snapshot_candidate] None = Some (plan_from_general_message_candidate snapshot_candidate)"
proof -
  have "clear_tool [snapshot_candidate] 90 snapshot_candidate" by code_simp
  then show ?thesis using deterministic_choice_is_clear [OF quiet_candidates [symmetric]] by blast
qed

text \<open>
  The reader of a bare decision word does not know \<open>cat_activity_query\<close>, the name the prompt asks for; it knows the legacy names only.
\<close>

lemma bare_cat_query_unknown:
  "decision_of_word ''cat_activity_query'' = None" "decision_of_word ''cat_activity_today'' = Some (GmCatActivityQuery, None)"
  "plan_kind_of_decision ''cat_activity_query'' act = Some (GmCatActivityQuery, None)"
  by (simp_all add: decision_of_word_def plan_kind_of_decision_def lookup_decision_def tool_decisions_def word_only_decisions_def
    plan_only_decisions_def conversation_decisions_def)

end

