(* ===== verification/Message_Home_Actions.thy ===== *)
theory Message_Home_Actions
  imports Message_Plan Home_Assistant
begin

text \<open>
  Home Assistant actions asked for in a message, from \<^verbatim>\<open>src/src/runtime/task_api/home_assistant_actions.rs\<close> and \<^verbatim>\<open>task_api.rs\<close>: the
  entity an action is about, the question when it is not unique, the reply to the question, and the service call. A response
  is the arguments of the function that renders it. The admin state, the client, the entities it fetches and its calls
  are fields of the environment; the conversation is passed along, and saving it may fail.
\<close>

section \<open>Entities\<close>

record home_assistant_entity =
  en_entity_id :: string
  en_domain :: string
  en_state :: string
  en_display_name :: string
  en_area_id :: "string option"
  en_device_class :: "string option"
  en_last_changed :: "string option"
  en_last_updated :: "string option"
  en_attributes :: json

datatype home_assistant_entity_resolution =
    EntityResolved home_assistant_entity
  | EntityClarify "home_assistant_entity list"
  | EntityMissing string

datatype pending_home_assistant_candidate_selection =
    CandidateSelected pending_task_home_assistant_candidate
  | CandidateAmbiguous "pending_task_home_assistant_candidate list"
  | CandidateMissing

definition zh_light :: string where
  "zh_light =
     [CHR 0xE7, CHR 0x81, CHR 0xAF]"

definition zh_switch :: string where
  "zh_switch =
     [CHR 0xE5, CHR 0xBC, CHR 0x80, CHR 0xE5, CHR 0x85, CHR 0xB3]"

definition zh_input_boolean :: string where
  "zh_input_boolean =
     [CHR 0xE8, CHR 0xBE, CHR 0x93, CHR 0xE5, CHR 0x85, CHR 0xA5, CHR 0xE5, CHR 0xB8, CHR 0x83, CHR 0xE5, CHR 0xB0,
      CHR 0x94]"

definition zh_scene :: string where
  "zh_scene =
     [CHR 0xE5, CHR 0x9C, CHR 0xBA, CHR 0xE6, CHR 0x99, CHR 0xAF]"


definition home_assistant_domain_label :: "string \<Rightarrow> string" where
  "home_assistant_domain_label domain =
     (if domain = ''light'' then zh_light else if domain = ''switch'' then zh_switch
      else if domain = ''input_boolean'' then zh_input_boolean else if domain = ''scene'' then zh_scene else ''Home Assistant'')"

definition push_unique_normalized_term :: "string list \<Rightarrow> string \<Rightarrow> string list" where
  "push_unique_normalized_term terms raw =
     (let n = normalize_command_text raw in if n \<noteq> [] \<and> n \<notin> set terms then terms @ [n] else terms)"

definition alias_places :: "string list" where
  "alias_places =
     [[CHR 0xE6, CHR 0xB5, CHR 0x8B, CHR 0xE8, CHR 0xAF, CHR 0x95], [CHR 0xE9, CHR 0x97, CHR 0xA8, CHR 0xE5, CHR 0x8F,
      CHR 0xA3], [CHR 0xE7, CHR 0x8E, CHR 0x84, CHR 0xE5, CHR 0x85, CHR 0xB3], [CHR 0xE5, CHR 0xAE, CHR 0xA2, CHR 0xE5,
      CHR 0x8E, CHR 0x85], [CHR 0xE5, CHR 0x8E, CHR 0xA8, CHR 0xE6, CHR 0x88, CHR 0xBF], [CHR 0xE5, CHR 0x8D, CHR 0xA7,
      CHR 0xE5, CHR 0xAE, CHR 0xA4], [CHR 0xE4, CHR 0xB9, CHR 0xA6, CHR 0xE6, CHR 0x88, CHR 0xBF], [CHR 0xE9, CHR 0x98,
      CHR 0xB3, CHR 0xE5, CHR 0x8F, CHR 0xB0], [CHR 0xE8, CHR 0xBD, CHR 0xA6, CHR 0xE5, CHR 0xBA, CHR 0x93], [CHR 0xE9,
      CHR 0xA4, CHR 0x90, CHR 0xE5, CHR 0x8E, CHR 0x85]]"


definition alias_table :: "(string \<times> string list) list" where
  "alias_table = zip alias_places [[''test'', ''harbordocktest''], [''frontdoor'', ''porch'', ''entry'', ''entrance''],
     [''entry'', ''entrance'', ''foyer'', ''porch''], [''livingroom'', ''living'', ''lounge''], [''kitchen''], [''bedroom''],
     [''study'', ''office''], [''balcony''], [''garage''], [''diningroom'', ''dining'']]"

definition home_assistant_hint_aliases :: "string \<Rightarrow> string list" where
  "home_assistant_hint_aliases normalized = concat (map snd (filter (\<lambda>e. str_contains normalized (fst e)) alias_table))"

definition normalized_home_assistant_hint_terms :: "string \<Rightarrow> string list" where
  "normalized_home_assistant_hint_terms hint =
     (let n = normalize_command_text hint in
      if n = [] then []
      else fold (\<lambda>alias terms. push_unique_normalized_term terms alias) (home_assistant_hint_aliases n) (push_unique_normalized_term [] n))"

definition text_matches_terms :: "string \<Rightarrow> string list \<Rightarrow> bool" where
  "text_matches_terms t terms = list_ex (\<lambda>term. t = term \<or> str_contains t term) terms"

definition home_assistant_entity_matches_terms :: "home_assistant_entity \<Rightarrow> string list \<Rightarrow> bool" where
  "home_assistant_entity_matches_terms e terms = text_matches_terms (normalize_command_text
     (en_entity_id e @ en_display_name e @ unwrap_or (en_area_id e) [] @ unwrap_or (en_device_class e) [])) terms"

definition zh_no_entity :: string where
  "zh_no_entity =
     [CHR 0xE6, CHR 0xB2, CHR 0xA1, CHR 0xE6, CHR 0x9C, CHR 0x89, CHR 0xE6, CHR 0x89, CHR 0xBE, CHR 0xE5, CHR 0x88,
      CHR 0xB0, CHR 0x20]"

definition zh_entity_not_run :: string where
  "zh_entity_not_run =
     [CHR 0x20, CHR 0xE5, CHR 0xAE, CHR 0x9E, CHR 0xE4, CHR 0xBD, CHR 0x93, CHR 0xEF, CHR 0xBC, CHR 0x8C, CHR 0xE6,
      CHR 0x9C, CHR 0xAC, CHR 0xE6, CHR 0xAC, CHR 0xA1, CHR 0xE6, CHR 0xB2, CHR 0xA1, CHR 0xE6, CHR 0x9C, CHR 0x89,
      CHR 0xE6, CHR 0x89, CHR 0xA7, CHR 0xE8, CHR 0xA1, CHR 0x8C, CHR 0xE3, CHR 0x80, CHR 0x82]"

definition zh_not_matching :: string where
  "zh_not_matching =
     [CHR 0xE6, CHR 0xB2, CHR 0xA1, CHR 0xE6, CHR 0x9C, CHR 0x89, CHR 0xE6, CHR 0x89, CHR 0xBE, CHR 0xE5, CHR 0x88,
      CHR 0xB0, CHR 0xE5, CHR 0x8C, CHR 0xB9, CHR 0xE9, CHR 0x85, CHR 0x8D, CHR 0xE2, CHR 0x80, CHR 0x9C]"

definition zh_of :: string where
  "zh_of =
     [CHR 0xE2, CHR 0x80, CHR 0x9D, CHR 0xE7, CHR 0x9A, CHR 0x84, CHR 0x20]"


definition resolve_home_assistant_action_entity ::
  "home_assistant_natural_action_request \<Rightarrow> home_assistant_entity list \<Rightarrow> home_assistant_entity_resolution" where
  "resolve_home_assistant_action_entity action entities =
     (let domain_entities = filter (\<lambda>e. eq_ignore_ascii_case (en_domain e) (hn_domain action)) entities in
      if domain_entities = [] then EntityMissing (zh_no_entity @ home_assistant_domain_label (hn_domain action) @ zh_entity_not_run)
      else
        let matched = (case hn_entity_hint action of None \<Rightarrow> domain_entities
              | Some hint \<Rightarrow> filter (\<lambda>e. home_assistant_entity_matches_terms e (normalized_home_assistant_hint_terms hint)) domain_entities)
        in if length matched = 1 then EntityResolved (hd matched)
           else if matched = [] \<and> length domain_entities = 1 then EntityResolved (hd domain_entities)
           else if matched = [] then EntityMissing (zh_not_matching @ unwrap_or (hn_entity_hint action) [] @ zh_of
             @ home_assistant_domain_label (hn_domain action) @ zh_entity_not_run)
           else EntityClarify matched)"

definition pending_home_assistant_candidates_from_entities :: "home_assistant_entity list \<Rightarrow> pending_task_home_assistant_candidate list" where
  "pending_home_assistant_candidates_from_entities candidates = map (\<lambda>e. \<lparr>hc_entity_id = en_entity_id e, hc_domain = en_domain e,
     hc_display_name = en_display_name e, hc_state = en_state e, hc_area_id = en_area_id e, hc_device_class = en_device_class e\<rparr>)
     (take 5 candidates)"

definition ordinals_1 :: "string list" where
  "ordinals_1 =
     [''1'', [CHR 0xE4, CHR 0xB8, CHR 0x80], [CHR 0xE7, CHR 0xAC, CHR 0xAC, CHR 0xE4, CHR 0xB8, CHR 0x80, CHR 0xE4,
      CHR 0xB8, CHR 0xAA], [CHR 0xE7, CHR 0xAC, CHR 0xAC, CHR 0xE4, CHR 0xB8, CHR 0x80], [CHR 0xE7, CHR 0xAC, CHR 0xAC,
      CHR 0x31, CHR 0xE4, CHR 0xB8, CHR 0xAA], [CHR 0xE7, CHR 0xAC, CHR 0xAC, CHR 0x31], [CHR 0x31, CHR 0xE5, CHR 0x8F,
      CHR 0xB7]]"

definition ordinals_2 :: "string list" where
  "ordinals_2 =
     [''2'', [CHR 0xE4, CHR 0xBA, CHR 0x8C], [CHR 0xE7, CHR 0xAC, CHR 0xAC, CHR 0xE4, CHR 0xBA, CHR 0x8C, CHR 0xE4,
      CHR 0xB8, CHR 0xAA], [CHR 0xE7, CHR 0xAC, CHR 0xAC, CHR 0xE4, CHR 0xBA, CHR 0x8C], [CHR 0xE7, CHR 0xAC, CHR 0xAC,
      CHR 0x32, CHR 0xE4, CHR 0xB8, CHR 0xAA], [CHR 0xE7, CHR 0xAC, CHR 0xAC, CHR 0x32], [CHR 0x32, CHR 0xE5, CHR 0x8F,
      CHR 0xB7]]"

definition ordinals_3 :: "string list" where
  "ordinals_3 =
     [''3'', [CHR 0xE4, CHR 0xB8, CHR 0x89], [CHR 0xE7, CHR 0xAC, CHR 0xAC, CHR 0xE4, CHR 0xB8, CHR 0x89, CHR 0xE4,
      CHR 0xB8, CHR 0xAA], [CHR 0xE7, CHR 0xAC, CHR 0xAC, CHR 0xE4, CHR 0xB8, CHR 0x89], [CHR 0xE7, CHR 0xAC, CHR 0xAC,
      CHR 0x33, CHR 0xE4, CHR 0xB8, CHR 0xAA], [CHR 0xE7, CHR 0xAC, CHR 0xAC, CHR 0x33], [CHR 0x33, CHR 0xE5, CHR 0x8F,
      CHR 0xB7]]"

definition ordinals_4 :: "string list" where
  "ordinals_4 =
     [''4'', [CHR 0xE5, CHR 0x9B, CHR 0x9B], [CHR 0xE7, CHR 0xAC, CHR 0xAC, CHR 0xE5, CHR 0x9B, CHR 0x9B, CHR 0xE4,
      CHR 0xB8, CHR 0xAA], [CHR 0xE7, CHR 0xAC, CHR 0xAC, CHR 0xE5, CHR 0x9B, CHR 0x9B], [CHR 0xE7, CHR 0xAC, CHR 0xAC,
      CHR 0x34, CHR 0xE4, CHR 0xB8, CHR 0xAA], [CHR 0xE7, CHR 0xAC, CHR 0xAC, CHR 0x34], [CHR 0x34, CHR 0xE5, CHR 0x8F,
      CHR 0xB7]]"

definition ordinals_5 :: "string list" where
  "ordinals_5 =
     [''5'', [CHR 0xE4, CHR 0xBA, CHR 0x94], [CHR 0xE7, CHR 0xAC, CHR 0xAC, CHR 0xE4, CHR 0xBA, CHR 0x94, CHR 0xE4,
      CHR 0xB8, CHR 0xAA], [CHR 0xE7, CHR 0xAC, CHR 0xAC, CHR 0xE4, CHR 0xBA, CHR 0x94], [CHR 0xE7, CHR 0xAC, CHR 0xAC,
      CHR 0x35, CHR 0xE4, CHR 0xB8, CHR 0xAA], [CHR 0xE7, CHR 0xAC, CHR 0xAC, CHR 0x35], [CHR 0x35, CHR 0xE5, CHR 0x8F,
      CHR 0xB7]]"


definition parse_home_assistant_candidate_ordinal :: "string \<Rightarrow> nat option" where
  "parse_home_assistant_candidate_ordinal n =
     (if n \<in> set ordinals_1 then Some 1 else if n \<in> set ordinals_2 then Some 2 else if n \<in> set ordinals_3 then Some 3
      else if n \<in> set ordinals_4 then Some 4 else if n \<in> set ordinals_5 then Some 5 else None)"

definition pending_home_assistant_candidate_matches :: "pending_task_home_assistant_candidate \<Rightarrow> string \<Rightarrow> bool" where
  "pending_home_assistant_candidate_matches c normalized_reply = text_matches_terms (normalize_command_text
     (hc_entity_id c @ hc_display_name c @ unwrap_or (hc_area_id c) [] @ unwrap_or (hc_device_class c) []))
     (normalized_home_assistant_hint_terms normalized_reply)"

definition resolve_pending_home_assistant_candidate_selection ::
  "pending_task_home_assistant_clarification \<Rightarrow> string \<Rightarrow> pending_home_assistant_candidate_selection" where
  "resolve_pending_home_assistant_candidate_selection pending raw_text =
     (let n = normalize_command_text raw_text in
      if n = [] then CandidateMissing
      else case parse_home_assistant_candidate_ordinal n of
          Some i \<Rightarrow> if i - 1 < length (ha_candidates pending) then CandidateSelected (ha_candidates pending ! (i - 1)) else CandidateMissing
        | None \<Rightarrow>
            (case filter (\<lambda>c. pending_home_assistant_candidate_matches c n) (ha_candidates pending) of
               [] \<Rightarrow> CandidateMissing | [c] \<Rightarrow> CandidateSelected c | cs \<Rightarrow> CandidateAmbiguous cs))"

definition zh_several_reply :: string where
  "zh_several_reply =
     [CHR 0x20, CHR 0xE6, CHR 0x9C, CHR 0x89, CHR 0xE5, CHR 0xA4, CHR 0x9A, CHR 0xE4, CHR 0xB8, CHR 0xAA, CHR 0xE5,
      CHR 0x8F, CHR 0xAF, CHR 0xE6, CHR 0x93, CHR 0x8D, CHR 0xE4, CHR 0xBD, CHR 0x9C, CHR 0xE5, CHR 0xAE, CHR 0x9E,
      CHR 0xE4, CHR 0xBD, CHR 0x93, CHR 0xEF, CHR 0xBC, CHR 0x8C, CHR 0xE8, CHR 0xAF, CHR 0xB7, CHR 0xE5, CHR 0x9B,
      CHR 0x9E, CHR 0xE5, CHR 0xA4, CHR 0x8D, CHR 0xE6, CHR 0x9B, CHR 0xB4, CHR 0xE5, CHR 0x85, CHR 0xB7, CHR 0xE4,
      CHR 0xBD, CHR 0x93, CHR 0xE7, CHR 0x9A, CHR 0x84, CHR 0xE5, CHR 0x90, CHR 0x8D, CHR 0xE7, CHR 0xA7, CHR 0xB0,
      CHR 0xEF, CHR 0xBC, CHR 0x8C, CHR 0xE6, CHR 0x88, CHR 0x96, CHR 0xE2, CHR 0x80, CHR 0x9C, CHR 0xE5, CHR 0x8F,
      CHR 0x96, CHR 0xE6, CHR 0xB6, CHR 0x88, CHR 0xE2, CHR 0x80, CHR 0x9D, CHR 0xE3, CHR 0x80, CHR 0x82]"

definition zh_several_choose :: string where
  "zh_several_choose =
     [CHR 0x20, CHR 0xE6, CHR 0x9C, CHR 0x89, CHR 0xE5, CHR 0xA4, CHR 0x9A, CHR 0xE4, CHR 0xB8, CHR 0xAA, CHR 0xE5,
      CHR 0x8F, CHR 0xAF, CHR 0xE6, CHR 0x93, CHR 0x8D, CHR 0xE4, CHR 0xBD, CHR 0x9C, CHR 0xE5, CHR 0xAE, CHR 0x9E,
      CHR 0xE4, CHR 0xBD, CHR 0x93, CHR 0xEF, CHR 0xBC, CHR 0x8C, CHR 0xE8, CHR 0xAF, CHR 0xB7, CHR 0xE5, CHR 0x9B,
      CHR 0x9E, CHR 0xE5, CHR 0xA4, CHR 0x8D, CHR 0xEF, CHR 0xBC, CHR 0x9A, CHR 0xE7, CHR 0xAC, CHR 0xAC, CHR 0xE4,
      CHR 0xB8, CHR 0x80, CHR 0xE4, CHR 0xB8, CHR 0xAA, CHR 0x20, CHR 0x2F, CHR 0x20, CHR 0xE5, CHR 0x90, CHR 0x8D,
      CHR 0xE7, CHR 0xA7, CHR 0xB0, CHR 0x20, CHR 0x2F, CHR 0x20, CHR 0xE5, CHR 0x8F, CHR 0x96, CHR 0xE6, CHR 0xB6,
      CHR 0x88, CHR 0xE3, CHR 0x80, CHR 0x82]"

definition zh_list_separator :: string where
  "zh_list_separator =
     [CHR 0xEF, CHR 0xBC, CHR 0x9B]"


definition candidate_lines :: "pending_task_home_assistant_candidate list \<Rightarrow> string" where
  "candidate_lines candidates = join zh_list_separator (map (\<lambda>(i, c). show_nat (i + 1) @ ''. '' @ hc_display_name c @ '' ('' @ hc_entity_id c @ '')'')
     (List.enumerate 0 candidates))"

definition home_assistant_clarification_prompt ::
  "home_assistant_natural_action_request \<Rightarrow> pending_task_home_assistant_candidate list \<Rightarrow> string" where
  "home_assistant_clarification_prompt action candidates =
     home_assistant_domain_label (hn_domain action) @
       (if candidate_lines candidates = [] then zh_several_reply else zh_several_choose @ candidate_lines candidates)"

section \<open>Responses and the environment\<close>

datatype home_action_response =
    HaActionReply string bool bool string ha_service_request string "home_assistant_entity option"
  | HaClarify string "pending_task_home_assistant_candidate list" string string
  | HaCancelled string
  | MessageUnsupported
  | MessageFailed string
  | NotPending

record home_settings =
  hz_enabled :: bool
  hz_exposed_domains :: "string list"

record 'w home_env =
  hv_settings :: "string + home_settings"
  hv_client :: "string + unit"
  hv_fetch_entities :: "'w \<Rightarrow> (string + home_assistant_entity list) \<times> 'w"
  hv_post :: "string \<Rightarrow> json \<Rightarrow> 'w \<Rightarrow> (string + ha_service_call_response) \<times> 'w"
  hv_json_text :: "json \<Rightarrow> string"
  hv_redact :: "string \<Rightarrow> string"
  hv_codec :: conv_codec
  hv_save :: "task_conversation_state \<Rightarrow> string option"
  hv_fresh_token :: string

definition home_assistant_client_from_admin_state :: "'w home_env \<Rightarrow> home_settings \<Rightarrow> string + unit" where
  "home_assistant_client_from_admin_state env state =
     (if \<not> hz_enabled state then Err ''Home Assistant integration is disabled'' else hv_client env)"

definition empty_request :: ha_service_request where
  "empty_request = \<lparr>hq_entity_id = [], hq_domain = [], hq_service = [], hq_fields = JNull\<rparr>"

definition action_request :: "string \<Rightarrow> string \<Rightarrow> ha_service_request" where
  "action_request domain service = \<lparr>hq_entity_id = [], hq_domain = domain, hq_service = service, hq_fields = jobj []\<rparr>"

definition entity_request :: "string \<Rightarrow> string \<Rightarrow> home_assistant_entity \<Rightarrow> ha_service_request" where
  "entity_request domain service entity = normalize_home_assistant_service_action_request
     \<lparr>hq_entity_id = en_entity_id entity, hq_domain = domain, hq_service = service, hq_fields = jobj []\<rparr>"

definition zh_config_failed :: string where
  "zh_config_failed =
     [CHR 0xE8, CHR 0xAF, CHR 0xBB, CHR 0xE5, CHR 0x8F, CHR 0x96, CHR 0x20, CHR 0x48, CHR 0x6F, CHR 0x6D, CHR 0x65,
      CHR 0x20, CHR 0x41, CHR 0x73, CHR 0x73, CHR 0x69, CHR 0x73, CHR 0x74, CHR 0x61, CHR 0x6E, CHR 0x74, CHR 0x20,
      CHR 0xE9, CHR 0x85, CHR 0x8D, CHR 0xE7, CHR 0xBD, CHR 0xAE, CHR 0xE5, CHR 0xA4, CHR 0xB1, CHR 0xE8, CHR 0xB4,
      CHR 0xA5, CHR 0xEF, CHR 0xBC, CHR 0x9A]"

definition zh_entities_failed :: string where
  "zh_entities_failed =
     [CHR 0xE8, CHR 0xAF, CHR 0xBB, CHR 0xE5, CHR 0x8F, CHR 0x96, CHR 0x20, CHR 0x48, CHR 0x6F, CHR 0x6D, CHR 0x65,
      CHR 0x20, CHR 0x41, CHR 0x73, CHR 0x73, CHR 0x69, CHR 0x73, CHR 0x74, CHR 0x61, CHR 0x6E, CHR 0x74, CHR 0x20,
      CHR 0xE5, CHR 0xAE, CHR 0x9E, CHR 0xE4, CHR 0xBD, CHR 0x93, CHR 0xE5, CHR 0xA4, CHR 0xB1, CHR 0xE8, CHR 0xB4,
      CHR 0xA5, CHR 0xEF, CHR 0xBC, CHR 0x9A]"

definition zh_executed :: string where
  "zh_executed =
     [CHR 0xE5, CHR 0xB7, CHR 0xB2, CHR 0xE6, CHR 0x89, CHR 0xA7, CHR 0xE8, CHR 0xA1, CHR 0x8C, CHR 0xEF, CHR 0xBC,
      CHR 0x9A]"

definition zh_end :: string where
  "zh_end =
     [CHR 0xE3, CHR 0x80, CHR 0x82]"

definition zh_action_failed :: string where
  "zh_action_failed =
     [CHR 0x48, CHR 0x6F, CHR 0x6D, CHR 0x65, CHR 0x20, CHR 0x41, CHR 0x73, CHR 0x73, CHR 0x69, CHR 0x73, CHR 0x74,
      CHR 0x61, CHR 0x6E, CHR 0x74, CHR 0x20, CHR 0xE5, CHR 0x8A, CHR 0xA8, CHR 0xE4, CHR 0xBD, CHR 0x9C, CHR 0xE6,
      CHR 0x89, CHR 0xA7, CHR 0xE8, CHR 0xA1, CHR 0x8C, CHR 0xE5, CHR 0xA4, CHR 0xB1, CHR 0xE8, CHR 0xB4, CHR 0xA5,
      CHR 0xEF, CHR 0xBC, CHR 0x9A]"

definition zh_clarify_save_failed :: string where
  "zh_clarify_save_failed =
     [CHR 0xE6, CHR 0x97, CHR 0xA0, CHR 0xE6, CHR 0xB3, CHR 0x95, CHR 0xE4, CHR 0xBF, CHR 0x9D, CHR 0xE5, CHR 0xAD,
      CHR 0x98, CHR 0x20, CHR 0x48, CHR 0x6F, CHR 0x6D, CHR 0x65, CHR 0x20, CHR 0x41, CHR 0x73, CHR 0x73, CHR 0x69,
      CHR 0x73, CHR 0x74, CHR 0x61, CHR 0x6E, CHR 0x74, CHR 0x20, CHR 0xE6, CHR 0xBE, CHR 0x84, CHR 0xE6, CHR 0xB8,
      CHR 0x85, CHR 0xE7, CHR 0x8A, CHR 0xB6, CHR 0xE6, CHR 0x80, CHR 0x81, CHR 0x3A, CHR 0x20]"

definition zh_loop_save_failed :: string where
  "zh_loop_save_failed =
     [CHR 0xE6, CHR 0x97, CHR 0xA0, CHR 0xE6, CHR 0xB3, CHR 0x95, CHR 0xE6, CHR 0x9B, CHR 0xB4, CHR 0xE6, CHR 0x96,
      CHR 0xB0, CHR 0xE8, CHR 0x87, CHR 0xAA, CHR 0xE7, CHR 0x84, CHR 0xB6, CHR 0xE8, CHR 0xAF, CHR 0xAD, CHR 0xE4,
      CHR 0xB9, CHR 0x89, CHR 0xE6, CHR 0xB5, CHR 0x81, CHR 0xE7, CHR 0xA8, CHR 0x8B, CHR 0xE7, CHR 0x8A, CHR 0xB6,
      CHR 0xE6, CHR 0x80, CHR 0x81, CHR 0x3A, CHR 0x20]"

definition zh_cancelled :: string where
  "zh_cancelled =
     [CHR 0xE5, CHR 0xA5, CHR 0xBD, CHR 0xE7, CHR 0x9A, CHR 0x84, CHR 0xEF, CHR 0xBC, CHR 0x8C, CHR 0xE8, CHR 0xBF,
      CHR 0x99, CHR 0xE6, CHR 0xAC, CHR 0xA1, CHR 0x20, CHR 0x48, CHR 0x6F, CHR 0x6D, CHR 0x65, CHR 0x20, CHR 0x41,
      CHR 0x73, CHR 0x73, CHR 0x69, CHR 0x73, CHR 0x74, CHR 0x61, CHR 0x6E, CHR 0x74, CHR 0x20, CHR 0xE5, CHR 0x8A,
      CHR 0xA8, CHR 0xE4, CHR 0xBD, CHR 0x9C, CHR 0xE5, CHR 0x85, CHR 0x88, CHR 0xE4, CHR 0xB8, CHR 0x8D, CHR 0xE6,
      CHR 0x89, CHR 0xA7, CHR 0xE8, CHR 0xA1, CHR 0x8C, CHR 0xE3, CHR 0x80, CHR 0x82]"

definition zh_ambiguous_reply :: string where
  "zh_ambiguous_reply =
     [CHR 0xE6, CHR 0x88, CHR 0x91, CHR 0xE8, CHR 0xBF, CHR 0x98, CHR 0xE4, CHR 0xB8, CHR 0x8D, CHR 0xE8, CHR 0x83,
      CHR 0xBD, CHR 0xE5, CHR 0x94, CHR 0xAF, CHR 0xE4, CHR 0xB8, CHR 0x80, CHR 0xE7, CHR 0xA1, CHR 0xAE, CHR 0xE5,
      CHR 0xAE, CHR 0x9A, CHR 0xE6, CHR 0x98, CHR 0xAF, CHR 0xE5, CHR 0x93, CHR 0xAA, CHR 0xE4, CHR 0xB8, CHR 0x80,
      CHR 0xE4, CHR 0xB8, CHR 0xAA, CHR 0xEF, CHR 0xBC, CHR 0x8C, CHR 0xE8, CHR 0xAF, CHR 0xB7, CHR 0xE5, CHR 0x9B,
      CHR 0x9E, CHR 0xE5, CHR 0xA4, CHR 0x8D, CHR 0xE5, CHR 0xBA, CHR 0x8F, CHR 0xE5, CHR 0x8F, CHR 0xB7, CHR 0xE3,
      CHR 0x80, CHR 0x81, CHR 0xE5, CHR 0xAE, CHR 0x8C, CHR 0xE6, CHR 0x95, CHR 0xB4, CHR 0xE5, CHR 0x90, CHR 0x8D,
      CHR 0xE7, CHR 0xA7, CHR 0xB0, CHR 0xEF, CHR 0xBC, CHR 0x8C, CHR 0xE6, CHR 0x88, CHR 0x96, CHR 0xE2, CHR 0x80,
      CHR 0x9C, CHR 0xE5, CHR 0x8F, CHR 0x96, CHR 0xE6, CHR 0xB6, CHR 0x88, CHR 0xE2, CHR 0x80, CHR 0x9D, CHR 0xE3,
      CHR 0x80, CHR 0x82]"

definition zh_missing_reply :: string where
  "zh_missing_reply =
     [CHR 0xE6, CHR 0x88, CHR 0x91, CHR 0xE6, CHR 0xB2, CHR 0xA1, CHR 0xE6, CHR 0x9C, CHR 0x89, CHR 0xE5, CHR 0x9C,
      CHR 0xA8, CHR 0xE5, CHR 0x80, CHR 0x99, CHR 0xE9, CHR 0x80, CHR 0x89, CHR 0xE9, CHR 0x87, CHR 0x8C, CHR 0xE5,
      CHR 0x8C, CHR 0xB9, CHR 0xE9, CHR 0x85, CHR 0x8D, CHR 0xE5, CHR 0x88, CHR 0xB0, CHR 0xE8, CHR 0xBF, CHR 0x99,
      CHR 0xE4, CHR 0xB8, CHR 0xAA, CHR 0xE5, CHR 0x9B, CHR 0x9E, CHR 0xE5, CHR 0xA4, CHR 0x8D, CHR 0xEF, CHR 0xBC,
      CHR 0x8C, CHR 0xE8, CHR 0xAF, CHR 0xB7, CHR 0xE5, CHR 0x9B, CHR 0x9E, CHR 0xE5, CHR 0xA4, CHR 0x8D, CHR 0xEF,
      CHR 0xBC, CHR 0x9A, CHR 0xE7, CHR 0xAC, CHR 0xAC, CHR 0xE4, CHR 0xB8, CHR 0x80, CHR 0xE4, CHR 0xB8, CHR 0xAA,
      CHR 0x20, CHR 0x2F, CHR 0x20, CHR 0xE5, CHR 0x90, CHR 0x8D, CHR 0xE7, CHR 0xA7, CHR 0xB0, CHR 0x20, CHR 0x2F,
      CHR 0x20, CHR 0xE5, CHR 0x8F, CHR 0x96, CHR 0xE6, CHR 0xB6, CHR 0x88, CHR 0xE3, CHR 0x80, CHR 0x82]"

definition zh_candidates_gone :: string where
  "zh_candidates_gone =
     [CHR 0xE5, CHR 0x80, CHR 0x99, CHR 0xE9, CHR 0x80, CHR 0x89, CHR 0xE5, CHR 0xAE, CHR 0x9E, CHR 0xE4, CHR 0xBD,
      CHR 0x93, CHR 0xE5, CHR 0xB7, CHR 0xB2, CHR 0xE7, CHR 0xBB, CHR 0x8F, CHR 0xE4, CHR 0xB8, CHR 0x8D, CHR 0xE5,
      CHR 0x8F, CHR 0xAF, CHR 0xE7, CHR 0x94, CHR 0xA8, CHR 0xEF, CHR 0xBC, CHR 0x8C, CHR 0xE6, CHR 0x9C, CHR 0xAC,
      CHR 0xE6, CHR 0xAC, CHR 0xA1, CHR 0xE6, CHR 0xB2, CHR 0xA1, CHR 0xE6, CHR 0x9C, CHR 0x89, CHR 0xE6, CHR 0x89,
      CHR 0xA7, CHR 0xE8, CHR 0xA1, CHR 0x8C, CHR 0xE3, CHR 0x80, CHR 0x82]"


definition blocked_reply :: "'w home_env \<Rightarrow> string \<Rightarrow> ha_service_request \<Rightarrow> home_assistant_entity option \<Rightarrow> home_action_response" where
  "blocked_reply env msg r entity = HaActionReply ''blocked'' False False (hv_redact env msg) r ''home_assistant.service_action_blocked'' entity"

definition failed_reply :: "'w home_env \<Rightarrow> string \<Rightarrow> ha_service_request \<Rightarrow> home_action_response" where
  "failed_reply env msg r = HaActionReply ''failed'' False False (hv_redact env msg) r ''home_assistant.service_action_failed'' None"

text \<open>The service call itself, with the reply on its result.\<close>

definition call_and_reply ::
  "'w home_env \<Rightarrow> ha_service_request \<Rightarrow> home_assistant_entity \<Rightarrow> 'w \<Rightarrow> home_action_response \<times> 'w" where
  "call_and_reply env r entity w =
     (case call_service (hv_post env) (hq_domain r) (hq_service r) (hq_entity_id r) (Some (hq_fields r)) w of
        (Inr _, w') \<Rightarrow> (HaActionReply ''succeeded'' True True
          (hv_redact env (zh_executed @ en_display_name entity @ '' '' @ hq_domain r @ ''.'' @ hq_service r @ zh_end)) r
          ''home_assistant.service_action_executed'' (Some entity), w')
      | (Inl e, w') \<Rightarrow> (HaActionReply ''failed'' True False (hv_redact env (zh_action_failed @ hv_redact env e)) r
          ''home_assistant.service_action_failed'' (Some entity), w'))"

definition set_loop ::
  "'w home_env \<Rightarrow> pending_task_general_message_loop option \<Rightarrow> task_conversation_state \<Rightarrow> string + task_conversation_state" where
  "set_loop env loop conv =
     (let conv' = set_general_message_loop (hv_codec env) loop conv in
      case hv_save env conv' of None \<Rightarrow> Ok conv' | Some e \<Rightarrow> Err e)"

definition clear_general_message_loop_if_matches ::
  "'w home_env \<Rightarrow> pending_task_general_message_loop option \<Rightarrow> task_conversation_state \<Rightarrow> home_action_response + task_conversation_state" where
  "clear_general_message_loop_if_matches env pending conv =
     (case pending of None \<Rightarrow> Ok conv
      | Some p \<Rightarrow>
          if (case general_message_loop (hv_codec env) conv of None \<Rightarrow> False | Some current \<Rightarrow> pl_resume_token current = pl_resume_token p)
          then (case set_loop env None conv of Inr conv' \<Rightarrow> Ok conv' | Inl e \<Rightarrow> Err (MessageFailed (zh_loop_save_failed @ e)))
          else Ok conv)"

definition general_message_home_assistant_clarification_response ::
  "'w home_env \<Rightarrow> string \<Rightarrow> home_assistant_natural_action_request \<Rightarrow> home_assistant_entity list \<Rightarrow> string
    \<Rightarrow> pending_task_general_message_loop option \<Rightarrow> task_conversation_state \<Rightarrow> home_action_response \<times> task_conversation_state" where
  "general_message_home_assistant_clarification_response env raw_text action candidates reason prior conv =
     (let pending_candidates = pending_home_assistant_candidates_from_entities candidates;
          message = home_assistant_clarification_prompt action pending_candidates;
          resume_token = unwrap_or (opt_filter (\<lambda>t. \<not> blank t) (map_option pl_resume_token prior)) (hv_fresh_token env);
          loop = \<lparr>pl_resume_token = resume_token,
            pl_original_goal = unwrap_or (opt_filter (\<lambda>v. \<not> blank v) (map_option pl_original_goal prior)) (trim raw_text),
            pl_latest_user_intent_text = trim raw_text, pl_last_clarification_prompt = message, pl_selected_candidate_action = None,
            pl_camera_hint = Option.bind prior pl_camera_hint, pl_query = Option.bind prior pl_query,
            pl_home_assistant = Some \<lparr>ha_domain = hn_domain action, ha_service = hn_service action, ha_entity_hint = hn_entity_hint action,
              ha_candidates = pending_candidates\<rparr>\<rparr>
      in case set_loop env (Some loop) conv of
           Inl e \<Rightarrow> (MessageFailed (zh_clarify_save_failed @ e), conv)
         | Inr conv' \<Rightarrow> (HaClarify reason pending_candidates message resume_token, conv'))"

section \<open>An action\<close>

text \<open>The part of the handler after the entities were fetched.\<close>

definition act_on_entities ::
  "'w home_env \<Rightarrow> string \<Rightarrow> home_assistant_natural_action_request \<Rightarrow> home_settings \<Rightarrow> home_assistant_entity list \<Rightarrow> task_conversation_state
    \<Rightarrow> 'w \<Rightarrow> home_action_response \<times> task_conversation_state \<times> 'w" where
  "act_on_entities env raw_text action state entities conv w =
     (case resolve_home_assistant_action_entity action entities of
        EntityClarify candidates \<Rightarrow>
          (case general_message_home_assistant_clarification_response env raw_text action candidates ''ambiguous_entity'' None conv of
             (reply, conv') \<Rightarrow> (reply, conv', w))
      | EntityMissing msg \<Rightarrow> (blocked_reply env msg (action_request (hn_domain action) (hn_service action)) None, conv, w)
      | EntityResolved entity \<Rightarrow>
          let r = entity_request (hn_domain action) (hn_service action) entity in
          (case validate_home_assistant_service_action_request (hv_json_text env) r (hz_enabled state) (hz_exposed_domains state) of
             Inl e \<Rightarrow> (blocked_reply env e r (Some entity), conv, w)
           | Inr _ \<Rightarrow> (case call_and_reply env r entity w of (reply, w') \<Rightarrow> (reply, conv, w'))))"

definition handle_general_message_home_assistant_action ::
  "'w home_env \<Rightarrow> string \<Rightarrow> home_assistant_natural_action option \<Rightarrow> task_conversation_state \<times> 'w
    \<Rightarrow> home_action_response \<times> task_conversation_state \<times> 'w" where
  "handle_general_message_home_assistant_action env raw_text nsp_action cw =
     (let conv = fst cw; w = snd cw in
      case or_else nsp_action (infer_home_assistant_natural_action raw_text) of
        None \<Rightarrow> (MessageUnsupported, conv, w)
      | Some (NaturalBlocked msg) \<Rightarrow> (blocked_reply env msg empty_request None, conv, w)
      | Some (NaturalRequest action) \<Rightarrow>
          let r0 = action_request (hn_domain action) (hn_service action) in
          (case hv_settings env of
             Inl e \<Rightarrow> (failed_reply env (zh_config_failed @ hv_redact env e) r0, conv, w)
           | Inr state \<Rightarrow>
               (case home_assistant_client_from_admin_state env state of
                  Inl e \<Rightarrow> (blocked_reply env (hv_redact env e) r0 None, conv, w)
                | Inr _ \<Rightarrow>
                    (case hv_fetch_entities env w of
                       (Inl e, w1) \<Rightarrow> (failed_reply env (zh_entities_failed @ hv_redact env e) r0, conv, w1)
                     | (Inr entities, w1) \<Rightarrow> act_on_entities env raw_text action state entities conv w1))))"

section \<open>The reply to a question\<close>

definition active_frame_cancel_requested :: "string \<Rightarrow> bool" where
  "active_frame_cancel_requested raw_text =
     (let n = normalize_command_text raw_text in matches_any n cancel_phrases \<or> n = normalize_command_text zh_dont)"

text \<open>A reply after the question was cleared, or the failure to clear it.\<close>

definition cleared_then ::
  "'w home_env \<Rightarrow> pending_task_general_message_loop \<Rightarrow> task_conversation_state \<Rightarrow> 'w
    \<Rightarrow> (task_conversation_state \<Rightarrow> home_action_response \<times> task_conversation_state \<times> 'w) \<Rightarrow> home_action_response \<times> task_conversation_state \<times> 'w" where
  "cleared_then env pending conv w k =
     (case clear_general_message_loop_if_matches env (Some pending) conv of Inl failed \<Rightarrow> (failed, conv, w) | Inr conv' \<Rightarrow> k conv')"

text \<open>The part of a clarified action after the entities were fetched: the chosen entity must still be there.\<close>

definition clarified_on_entities ::
  "'w home_env \<Rightarrow> string \<Rightarrow> pending_task_general_message_loop \<Rightarrow> pending_task_home_assistant_clarification
    \<Rightarrow> pending_task_home_assistant_candidate \<Rightarrow> home_settings \<Rightarrow> home_assistant_entity list \<Rightarrow> task_conversation_state \<Rightarrow> 'w
    \<Rightarrow> home_action_response \<times> task_conversation_state \<times> 'w" where
  "clarified_on_entities env raw_text pending pending_ha selected state entities conv w =
     (let r0 = action_request (ha_domain pending_ha) (ha_service pending_ha);
          action = \<lparr>hn_domain = ha_domain pending_ha, hn_service = ha_service pending_ha, hn_entity_hint = ha_entity_hint pending_ha\<rparr>
      in case find (\<lambda>e. eq_ignore_ascii_case (en_entity_id e) (hc_entity_id selected)) entities of
           None \<Rightarrow>
             (let refreshed = take 5 (filter (\<lambda>e. eq_ignore_ascii_case (en_domain e) (ha_domain pending_ha)) entities) in
              if refreshed = [] then cleared_then env pending conv w (\<lambda>conv'. (blocked_reply env zh_candidates_gone r0 None, conv', w))
              else (case general_message_home_assistant_clarification_response env raw_text action refreshed ''candidate_stale''
                      (Some pending) conv of (reply, conv') \<Rightarrow> (reply, conv', w)))
         | Some entity \<Rightarrow>
             let r = entity_request (ha_domain pending_ha) (ha_service pending_ha) entity in
             (case validate_home_assistant_service_action_request (hv_json_text env) r (hz_enabled state) (hz_exposed_domains state) of
                Inl e \<Rightarrow> cleared_then env pending conv w (\<lambda>conv'. (blocked_reply env e r (Some entity), conv', w))
              | Inr _ \<Rightarrow> cleared_then env pending conv w (\<lambda>conv'.
                  (case call_and_reply env r entity w of (reply, w') \<Rightarrow> (reply, conv', w')))))"

definition execute_home_assistant_clarified_action ::
  "'w home_env \<Rightarrow> string \<Rightarrow> pending_task_general_message_loop \<Rightarrow> pending_task_home_assistant_clarification
    \<Rightarrow> pending_task_home_assistant_candidate \<Rightarrow> task_conversation_state \<times> 'w \<Rightarrow> home_action_response \<times> task_conversation_state \<times> 'w" where
  "execute_home_assistant_clarified_action env raw_text pending pending_ha selected cw =
     (let conv = fst cw; w = snd cw; r0 = action_request (ha_domain pending_ha) (ha_service pending_ha)
      in case hv_settings env of
           Inl e \<Rightarrow> cleared_then env pending conv w (\<lambda>conv'. (failed_reply env (zh_config_failed @ hv_redact env e) r0, conv', w))
         | Inr state \<Rightarrow>
             (case home_assistant_client_from_admin_state env state of
                Inl e \<Rightarrow> cleared_then env pending conv w (\<lambda>conv'. (blocked_reply env (hv_redact env e) r0 None, conv', w))
              | Inr _ \<Rightarrow>
                  (case hv_fetch_entities env w of
                     (Inl e, w1) \<Rightarrow> cleared_then env pending conv w1 (\<lambda>conv'. (failed_reply env (zh_entities_failed @ hv_redact env e) r0, conv', w1))
                   | (Inr entities, w1) \<Rightarrow> clarified_on_entities env raw_text pending pending_ha selected state entities conv w1)))"

definition handle_home_assistant_clarification_frame ::
  "'w home_env \<Rightarrow> string \<Rightarrow> pending_task_general_message_loop \<Rightarrow> task_conversation_state \<times> 'w
    \<Rightarrow> home_action_response \<times> task_conversation_state \<times> 'w" where
  "handle_home_assistant_clarification_frame env raw_text pending cw =
     (let conv = fst cw; w = snd cw in
      case pl_home_assistant pending of None \<Rightarrow> (NotPending, conv, w)
      | Some pending_ha \<Rightarrow>
          if active_frame_cancel_requested raw_text then cleared_then env pending conv w (\<lambda>conv'. (HaCancelled zh_cancelled, conv', w))
          else if infer_home_assistant_natural_action raw_text \<noteq> None then
            cleared_then env pending conv w (\<lambda>conv'. handle_general_message_home_assistant_action env raw_text None (conv', w))
          else case resolve_pending_home_assistant_candidate_selection pending_ha raw_text of
              CandidateSelected c \<Rightarrow> execute_home_assistant_clarified_action env raw_text pending pending_ha c (conv, w)
            | CandidateAmbiguous cs \<Rightarrow> (HaClarify ''ambiguous_candidate_reply'' cs zh_ambiguous_reply (pl_resume_token pending), conv, w)
            | CandidateMissing \<Rightarrow> (HaClarify ''missing_candidate_reply'' (ha_candidates pending_ha) zh_missing_reply (pl_resume_token pending), conv, w))"

section \<open>What reaches Home Assistant\<close>

text \<open>One request of a low-risk service for one entity, in an exposed domain of an enabled integration.\<close>

definition safe_post :: "'w home_env \<Rightarrow> home_settings \<Rightarrow> home_assistant_entity \<Rightarrow> 'w \<Rightarrow> 'w \<Rightarrow> bool" where
  "safe_post env state entity w w' \<longleftrightarrow>
     (\<exists>d sv. (d, sv) \<in> safe_services \<and> hz_enabled state \<and> prefix (d @ ''.'') (to_lowercase (trim (en_entity_id entity))) \<and>
        list_all entity_id_char (to_lowercase (trim (en_entity_id entity))) \<and>
        (hz_exposed_domains state = [] \<or> list_ex (\<lambda>x. eq_ignore_ascii_case (trim x) d) (hz_exposed_domains state)) \<and>
        w' = snd (hv_post env (''/v1/home-assistant/services/'' @ d @ ''/'' @ sv)
          (jobj [(''entity_id'', JStr (to_lowercase (trim (en_entity_id entity)))), (''fields'', JObj [])]) w))"

lemma validated_call:
  assumes "validate_home_assistant_service_action_request to_text (entity_request domain service entity) (hz_enabled state)
    (hz_exposed_domains state) = Ok ()"
  shows "\<exists>reply w'. call_and_reply env (entity_request domain service entity) entity w = (reply, w') \<and> safe_post env state entity w w' \<and>
    (\<exists>status executed msg r kind e. reply = HaActionReply status True executed msg r kind e)"
proof -
  let ?r = "entity_request domain service entity"
  note norm = entity_request_def [of domain service entity]
  have f: "hq_fields ?r = jobj []" "hq_entity_id ?r = to_lowercase (trim (en_entity_id entity))"
    by (simp_all add: entity_request_def normalize_home_assistant_service_action_request_def normalize_home_assistant_service_fields_def jobj_def)
  note v = assms [unfolded validate_request_iff] and safe = normalized_safe [OF norm assms]
  let ?w = "snd (hv_post env (''/v1/home-assistant/services/'' @ hq_domain ?r @ ''/'' @ hq_service ?r)
    (jobj [(''entity_id'', JStr (hq_entity_id ?r)), (''fields'', JObj [])]) w)"
  have c: "call_service (hv_post env) (hq_domain ?r) (hq_service ?r) (hq_entity_id ?r) (Some (hq_fields ?r)) w =
      hv_post env (''/v1/home-assistant/services/'' @ hq_domain ?r @ ''/'' @ hq_service ?r)
        (jobj [(''entity_id'', JStr (hq_entity_id ?r)), (''fields'', JObj [])]) w"
    unfolding f(1) by (rule call_service_safe [OF safe validated_entity(2,1) [OF norm assms]])
  have "safe_post env state entity w ?w"
    unfolding safe_post_def using safe v f(2) by (intro exI [of _ "hq_domain ?r"] exI [of _ "hq_service ?r"]) (auto simp: list_ex_iff)
  then show ?thesis
    unfolding call_and_reply_def c by (auto split: prod.split sum.split)
qed

lemma one_resolved:
  assumes "(if d = [] then EntityMissing a else if length m = 1 then EntityResolved (hd m)
    else if m = [] \<and> length d = 1 then EntityResolved (hd d) else if m = [] then EntityMissing b else EntityClarify m) = EntityResolved e"
  shows "m = [e] \<or> m = [] \<and> d = [e]"
  using assms by (auto split: if_splits simp: length_Suc_conv)

text \<open>An entity is resolved only when it is the only one that matches the hint, or when nothing matches it and
  the domain has only this one.\<close>

lemma resolved_is_unique:
  assumes "resolve_home_assistant_action_entity action entities = EntityResolved entity"
  shows "entity \<in> set entities" "eq_ignore_ascii_case (en_domain entity) (hn_domain action)"
    "filter (\<lambda>e. eq_ignore_ascii_case (en_domain e) (hn_domain action) \<and> (case hn_entity_hint action of None \<Rightarrow> True
       | Some hint \<Rightarrow> home_assistant_entity_matches_terms e (normalized_home_assistant_hint_terms hint))) entities = [entity] \<or>
     filter (\<lambda>e. eq_ignore_ascii_case (en_domain e) (hn_domain action) \<and> (case hn_entity_hint action of None \<Rightarrow> True
       | Some hint \<Rightarrow> home_assistant_entity_matches_terms e (normalized_home_assistant_hint_terms hint))) entities = [] \<and>
     filter (\<lambda>e. eq_ignore_ascii_case (en_domain e) (hn_domain action)) entities = [entity]"
proof -
  let ?d = "filter (\<lambda>e. eq_ignore_ascii_case (en_domain e) (hn_domain action)) entities"
  let ?m = "filter (\<lambda>e. eq_ignore_ascii_case (en_domain e) (hn_domain action) \<and> (case hn_entity_hint action of None \<Rightarrow> True
       | Some hint \<Rightarrow> home_assistant_entity_matches_terms e (normalized_home_assistant_hint_terms hint))) entities"
  have m: "(case hn_entity_hint action of None \<Rightarrow> ?d
      | Some hint \<Rightarrow> filter (\<lambda>e. home_assistant_entity_matches_terms e (normalized_home_assistant_hint_terms hint)) ?d) = ?m"
    by (auto split: option.split)
  show u: "?m = [entity] \<or> ?m = [] \<and> ?d = [entity]"
    by (rule one_resolved [OF assms [unfolded resolve_home_assistant_action_entity_def Let_def m]])
  then have "entity \<in> set ?m \<or> entity \<in> set ?d"
  proof
    assume "?m = [entity]" then show ?thesis by (simp only: list.set) simp
  next
    assume "?m = [] \<and> ?d = [entity]" then have "?d = [entity]" by (rule conjunct2) then show ?thesis by (simp only: list.set) simp
  qed
  then show "entity \<in> set entities" "eq_ignore_ascii_case (en_domain entity) (hn_domain action)" by auto
qed

definition not_allowed :: "home_action_response \<Rightarrow> bool" where
  "not_allowed reply \<longleftrightarrow> (case reply of HaActionReply _ allowed executed _ _ _ _ \<Rightarrow> allowed = False \<and> executed = False | _ \<Rightarrow> True)"

lemma replies_not_allowed [simp]: "not_allowed (blocked_reply env msg r e)" "not_allowed (failed_reply env msg r)" "not_allowed MessageUnsupported"
  "not_allowed (MessageFailed msg)" "not_allowed (HaClarify a b c d)" "not_allowed (HaCancelled msg)" "not_allowed NotPending"
  by (simp_all add: not_allowed_def blocked_reply_def failed_reply_def)

lemma clarification_not_allowed:
  "not_allowed (fst (general_message_home_assistant_clarification_response env raw_text action es reason prior conv))"
  by (simp add: general_message_home_assistant_clarification_response_def Let_def split: sum.split)

lemma act_on_entities_cases:
  assumes "act_on_entities env raw_text action state entities conv w = (reply, conv', w')"
  obtains (nothing) "w' = w" "not_allowed reply"
  | (called) entity where "conv' = conv" "resolve_home_assistant_action_entity action entities = EntityResolved entity" "safe_post env state entity w w'"
proof (cases "resolve_home_assistant_action_entity action entities")
  case (EntityResolved entity)
  let ?r = "entity_request (hn_domain action) (hn_service action) entity"
  show thesis
  proof (cases "validate_home_assistant_service_action_request (hv_json_text env) ?r (hz_enabled state) (hz_exposed_domains state)")
    case (Inl e)
    then show thesis using assms that(1) EntityResolved by (auto simp: act_on_entities_def)
  next
    case v: (Inr x)
    then show thesis
      using validated_call [of "hv_json_text env" "hn_domain action" "hn_service action" entity state env w]
        assms that(2) EntityResolved by (auto simp: act_on_entities_def)
  qed
next
  case (EntityClarify es)
  then show thesis
    using assms that(1) clarification_not_allowed [of env raw_text action es "''ambiguous_entity''" None conv]
    by (auto simp: act_on_entities_def split: prod.splits)
qed (use assms that(1) in \<open>auto simp: act_on_entities_def\<close>)

text \<open>The handler asks nothing of Home Assistant, fetches the entities, or acts on what it fetched.\<close>

lemma handle_action_cases:
  assumes "handle_general_message_home_assistant_action env raw_text nsp_action (conv, w) = (reply, conv', w')"
  obtains (nothing) "w' \<in> {w, snd (hv_fetch_entities env w)}" "not_allowed reply"
  | (acts) action state entities where
      "or_else nsp_action (infer_home_assistant_natural_action raw_text) = Some (NaturalRequest action)" "hv_settings env = Ok state"
      "fst (hv_fetch_entities env w) = Ok entities"
      "act_on_entities env raw_text action state entities conv (snd (hv_fetch_entities env w)) = (reply, conv', w')"
  using assms unfolding handle_general_message_home_assistant_action_def Let_def
  by (auto split: option.splits home_assistant_natural_action.splits sum.splits prod.splits)

text \<open>
  C7. A message posts at most one request to Home Assistant: either nothing is posted and the reply says that nothing was allowed
  or executed, or one low-risk service is called for one fetched entity of the action's domain, when the integration is enabled
  and the domain exposed. The entity is the only one of the domain that matches the hint (every entity of the domain matches when
  there is no hint), or, when none matches the hint, the only entity of the domain.
\<close>

theorem home_action_calls_are_safe:
  "case handle_general_message_home_assistant_action env raw_text nsp_action (conv, w) of (reply, conv', w') \<Rightarrow>
     w' \<in> {w, snd (hv_fetch_entities env w)} \<and> not_allowed reply \<or>
     (\<exists>action state entities entity. or_else nsp_action (infer_home_assistant_natural_action raw_text) = Some (NaturalRequest action) \<and>
        hv_settings env = Ok state \<and> fst (hv_fetch_entities env w) = Ok entities \<and> entity \<in> set entities \<and> conv' = conv \<and>
        (filter (\<lambda>e. eq_ignore_ascii_case (en_domain e) (hn_domain action) \<and> (case hn_entity_hint action of None \<Rightarrow> True
           | Some hint \<Rightarrow> home_assistant_entity_matches_terms e (normalized_home_assistant_hint_terms hint))) entities = [entity] \<or>
         filter (\<lambda>e. eq_ignore_ascii_case (en_domain e) (hn_domain action) \<and> (case hn_entity_hint action of None \<Rightarrow> True
           | Some hint \<Rightarrow> home_assistant_entity_matches_terms e (normalized_home_assistant_hint_terms hint))) entities = [] \<and>
         filter (\<lambda>e. eq_ignore_ascii_case (en_domain e) (hn_domain action)) entities = [entity]) \<and>
        safe_post env state entity (snd (hv_fetch_entities env w)) w')"
proof -
  obtain reply conv' w' where h: "handle_general_message_home_assistant_action env raw_text nsp_action (conv, w) = (reply, conv', w')"
    by (metis prod_cases3)
  then show ?thesis
  proof (cases rule: handle_action_cases)
    case nothing
    then show ?thesis unfolding h by auto
  next
    case (acts action state entities)
    from acts(4) show ?thesis
    proof (cases rule: act_on_entities_cases)
      case nothing
      then show ?thesis unfolding h by auto
    next
      case (called entity)
      then show ?thesis using resolved_is_unique [OF called(2)] acts(1-3) by (auto simp: h)
    qed
  qed
qed

section \<open>A question is answered once\<close>

definition question_open :: "'w home_env \<Rightarrow> string \<Rightarrow> task_conversation_state \<Rightarrow> bool" where
  "question_open env token conv \<longleftrightarrow>
     (case general_message_loop (hv_codec env) conv of None \<Rightarrow> False | Some current \<Rightarrow> pl_resume_token current = token)"

lemma cleared_is_closed:
  assumes "clear_general_message_loop_if_matches env (Some p) conv = Ok conv'"
  shows "\<not> question_open env (pl_resume_token p) conv'"
proof (cases "question_open env (pl_resume_token p) conv")
  case True
  then have r: "resume_operation_is GENERAL_MESSAGE_LOOP_OPERATION conv"
    by (auto simp: question_open_def general_message_loop_def pending_general_message_loop_from_resume_def resume_operation_is_def
      split: option.splits bind_splits if_splits)
  have "conv' = set_general_message_loop (hv_codec env) None conv"
    using assms True by (auto simp: clear_general_message_loop_if_matches_def question_open_def set_loop_def Let_def split: option.splits if_splits)
  then have "general_message_loop (hv_codec env) conv' = None"
    using r by (simp add: set_general_message_loop_def general_message_loop_def pending_general_message_loop_from_resume_def)
  then show ?thesis by (simp add: question_open_def)
next
  case False
  then have "conv' = conv"
    using assms by (auto simp: clear_general_message_loop_if_matches_def question_open_def split: option.splits if_splits)
  then show ?thesis using False by simp
qed

lemma cleared_then_cases:
  assumes "cleared_then env p conv w k = (reply, conv', w')"
  obtains (failed) "not_allowed reply" "w' = w"
  | (cleared) conv1 where "\<not> question_open env (pl_resume_token p) conv1" "k conv1 = (reply, conv', w')"
proof (cases "clear_general_message_loop_if_matches env (Some p) conv")
  case (Inl e)
  then have "not_allowed e" by (auto simp: clear_general_message_loop_if_matches_def split: option.splits if_splits sum.splits)
  then show thesis using assms that(1) Inl by (simp add: cleared_then_def)
next
  case (Inr conv1)
  then show thesis using assms that(2) [OF cleared_is_closed [OF Inr]] by (simp add: cleared_then_def)
qed

text \<open>A handler that was started on a conversation and a world did nothing, or closed the question and called one service.\<close>

definition asked_or_called :: "'w home_env \<Rightarrow> string \<Rightarrow> 'w \<Rightarrow> home_action_response \<Rightarrow> task_conversation_state \<Rightarrow> 'w \<Rightarrow> bool" where
  "asked_or_called env token w reply conv' w' \<longleftrightarrow>
     w' \<in> {w, snd (hv_fetch_entities env w)} \<and> not_allowed reply \<or>
     \<not> question_open env token conv' \<and>
     (\<exists>state entities entity. hv_settings env = Ok state \<and> fst (hv_fetch_entities env w) = Ok entities \<and> entity \<in> set entities \<and>
        safe_post env state entity (snd (hv_fetch_entities env w)) w')"

lemma fresh_action_asked_or_called:
  assumes "\<not> question_open env token conv" "handle_general_message_home_assistant_action env raw_text nsp_action (conv, w) = (reply, conv', w')"
  shows "asked_or_called env token w reply conv' w'"
  using assms(2)
proof (cases rule: handle_action_cases)
  case nothing
  then show ?thesis unfolding asked_or_called_def by blast
next
  case (acts action state entities)
  from acts(4) show ?thesis
  proof (cases rule: act_on_entities_cases)
    case nothing
    then show ?thesis unfolding asked_or_called_def by blast
  next
    case (called entity)
    then show ?thesis
      using resolved_is_unique(1) [OF called(2)] acts(2,3) assms(1) unfolding asked_or_called_def by blast
  qed
qed

lemma cleared_reply_asked:
  assumes "cleared_then env p conv w1 (\<lambda>conv'. (r, conv', w1)) = (reply, conv', w')" "not_allowed r"
    "w1 \<in> {w, snd (hv_fetch_entities env w)}"
  shows "asked_or_called env token w reply conv' w'"
  using assms(1) by (cases rule: cleared_then_cases) (use assms(2,3) in \<open>auto simp: asked_or_called_def\<close>)

lemma cleared_call_called:
  assumes c: "cleared_then env p conv w1 (\<lambda>conv'. (case call_and_reply env (entity_request domain service entity) entity w1 of
      (reply, w2) \<Rightarrow> (reply, conv', w2))) = (reply, conv', w')"
    and v: "validate_home_assistant_service_action_request to_text (entity_request domain service entity) (hz_enabled state)
      (hz_exposed_domains state) = Ok ()"
    and f: "hv_settings env = Ok state" "hv_fetch_entities env w = (Ok entities, w1)" "entity \<in> set entities"
  shows "asked_or_called env (pl_resume_token p) w reply conv' w'"
  using c
proof (cases rule: cleared_then_cases)
  case failed
  then show ?thesis using f(2) by (simp add: asked_or_called_def)
next
  case (cleared conv1)
  with validated_call [OF v, of env w1] show ?thesis
    using f unfolding asked_or_called_def by (auto split: prod.splits)
qed

lemma clarified_on_entities_asked_or_called:
  assumes "clarified_on_entities env raw_text p pending_ha selected state entities conv w1 = (reply, conv', w')"
    and f: "hv_settings env = Ok state" "hv_fetch_entities env w = (Ok entities, w1)"
  shows "asked_or_called env (pl_resume_token p) w reply conv' w'"
proof -
  note x = assms(1) [unfolded clarified_on_entities_def Let_def]
  have w1: "w1 \<in> {w, snd (hv_fetch_entities env w)}" using f(2) by simp
  note asked = cleared_reply_asked [OF _ _ w1]
  show ?thesis
  proof (cases "find (\<lambda>e. eq_ignore_ascii_case (en_entity_id e) (hc_entity_id selected)) entities")
    case None
    let ?es = "take 5 (filter (\<lambda>e. eq_ignore_ascii_case (en_domain e) (ha_domain pending_ha)) entities)"
    show ?thesis
    proof (cases "?es = []")
      case True
      then show ?thesis using asked x None by simp
    next
      case False
      let ?a = "\<lparr>hn_domain = ha_domain pending_ha, hn_service = ha_service pending_ha, hn_entity_hint = ha_entity_hint pending_ha\<rparr>"
      have "not_allowed reply" "w' = w1"
        using clarification_not_allowed [of env raw_text ?a ?es "''candidate_stale''" "Some p" conv] False x None
        by (auto split: prod.splits)
      then show ?thesis using w1 by (simp add: asked_or_called_def)
    qed
  next
    case (Some entity)
    then have e: "entity \<in> set entities" by (auto simp: find_Some_iff)
    show ?thesis
    proof (cases "validate_home_assistant_service_action_request (hv_json_text env)
        (entity_request (ha_domain pending_ha) (ha_service pending_ha) entity) (hz_enabled state) (hz_exposed_domains state)")
      case (Inl m)
      then show ?thesis using asked x Some by simp
    next
      case (Inr u)
      then show ?thesis using cleared_call_called [OF _ _ f e] x Some by simp
    qed
  qed
qed

lemma clarified_action_asked_or_called:
  assumes "execute_home_assistant_clarified_action env raw_text p pending_ha selected (conv, w) = (reply, conv', w')"
  shows "asked_or_called env (pl_resume_token p) w reply conv' w'"
proof -
  note x = assms [unfolded execute_home_assistant_clarified_action_def Let_def fst_conv snd_conv]
  show ?thesis
  proof (cases "hv_settings env")
    case (Inl e)
    then show ?thesis using x by (intro cleared_reply_asked [where w = w]) auto
  next
    case s: (Inr state)
    show ?thesis
    proof (cases "home_assistant_client_from_admin_state env state")
      case (Inl e)
      then show ?thesis using x s by (intro cleared_reply_asked [where w = w]) auto
    next
      case c: (Inr u)
      obtain res w1 where f: "hv_fetch_entities env w = (res, w1)" by fastforce
      show ?thesis
      proof (cases res)
        case (Inl e)
        then show ?thesis using x s c f by (intro cleared_reply_asked [where w = w and ?w1.0 = w1]) auto
      next
        case r: (Inr entities)
        show ?thesis
          using x s c f r by (intro clarified_on_entities_asked_or_called [OF _ s]) auto
      qed
    qed
  qed
qed

text \<open>
  C8. The reply to a question about a Home Assistant entity runs at most one action, and only after the question is closed:
  either nothing is posted and the reply says so, or the stored question is gone and one low-risk service was called for an
  entity that Home Assistant still lists. A repeated reply therefore finds no question to answer.
\<close>

theorem clarified_action_runs_once:
  "case handle_home_assistant_clarification_frame env raw_text pending (conv, w) of (reply, conv', w') \<Rightarrow>
     w' \<in> {w, snd (hv_fetch_entities env w)} \<and> not_allowed reply \<or>
     \<not> question_open env (pl_resume_token pending) conv' \<and>
     (\<exists>state entities entity. hv_settings env = Ok state \<and> fst (hv_fetch_entities env w) = Ok entities \<and> entity \<in> set entities \<and>
        safe_post env state entity (snd (hv_fetch_entities env w)) w')"
proof -
  obtain reply conv' w' where h: "handle_home_assistant_clarification_frame env raw_text pending (conv, w) = (reply, conv', w')"
    by (metis prod_cases3)
  note x = h [unfolded handle_home_assistant_clarification_frame_def Let_def fst_conv snd_conv]
  have "asked_or_called env (pl_resume_token pending) w reply conv' w'"
  proof (cases "pl_home_assistant pending")
    case None
    then show ?thesis using x by (auto simp: asked_or_called_def)
  next
    case (Some pending_ha)
    consider "active_frame_cancel_requested raw_text"
      | "\<not> active_frame_cancel_requested raw_text" "infer_home_assistant_natural_action raw_text \<noteq> None"
      | "\<not> active_frame_cancel_requested raw_text" "infer_home_assistant_natural_action raw_text = None" by blast
    then show ?thesis
    proof cases
      case 1
      then show ?thesis using cleared_reply_asked [of env pending conv w _ reply conv' w' w] x Some by simp
    next
      case 2
      then have "cleared_then env pending conv w
          (\<lambda>conv'. handle_general_message_home_assistant_action env raw_text None (conv', w)) = (reply, conv', w')"
        using x Some by simp
      then show ?thesis
      proof (cases rule: cleared_then_cases)
        case failed
        then show ?thesis unfolding asked_or_called_def by simp
      qed (rule fresh_action_asked_or_called)
    next
      case 3
      then show ?thesis using x Some clarified_action_asked_or_called [of env raw_text pending]
        by (cases "resolve_pending_home_assistant_candidate_selection pending_ha raw_text") (auto simp: asked_or_called_def)
    qed
  qed
  then show ?thesis unfolding h asked_or_called_def by simp
qed

end
