(* ===== verification/Model_Laws.thy ===== *)
theory Model_Laws
  imports Model_Runs
begin

text \<open>What the model center guarantees: budgets of texts, where prompts and images can go, and which endpoint answers.\<close>

section \<open>Token budgets\<close>

lemma concat_scalars [simp]: "concat (scalars s) = s"
  by (induction s rule: scalars.induct) simp_all

lemma scalars_eq_Nil_iff [simp]: "scalars s = [] \<longleftrightarrow> s = []"
  by (cases s) simp_all

lemma while_idem: "takeWhile p (takeWhile p xs) = takeWhile p xs" "dropWhile p (takeWhile p xs) = []"
  by (induction xs) auto

lemma scalars_append:
  assumes "t = [] \<or> \<not> is_continuation (hd t)"
  shows "scalars (s @ t) = scalars s @ scalars t"
proof (induction s rule: scalars.induct)
  case (2 c cs)
  show ?case
  proof (cases "list_all is_continuation cs")
    case True
    then have all: "\<And>x. x \<in> set cs \<Longrightarrow> is_continuation x" by (simp add: list_all_iff)
    have t: "takeWhile is_continuation t = []" "dropWhile is_continuation t = t" using assms by (cases t; simp)+
    have "takeWhile is_continuation (cs @ t) = cs @ takeWhile is_continuation t"
      "dropWhile is_continuation (cs @ t) = dropWhile is_continuation t"
      using all by (auto intro: takeWhile_append2 dropWhile_append2)
    moreover have "takeWhile is_continuation cs = cs" "dropWhile is_continuation cs = []"
      using all by (auto intro: iffD2 [OF takeWhile_eq_all_conv])
    ultimately show ?thesis by (simp only: t append_Cons append_Nil append_Nil2 scalars.simps)
  next
    case False
    then obtain x where "x \<in> set cs" "\<not> is_continuation x" by (auto simp: list_all_iff)
    then show ?thesis using 2 by (simp add: takeWhile_append1 dropWhile_append1)
  qed
qed simp

lemma hd_concat_scalars: "scalars s = sc # scs \<Longrightarrow> sc \<noteq> [] \<and> hd sc = hd s"
  by (cases s) auto

lemma scalars_take [simp]: "scalars (concat (take n (scalars s))) = take n (scalars s)"
proof (induction s arbitrary: n rule: scalars.induct)
  case (2 c cs)
  show ?case
  proof (cases n)
    case (Suc m)
    let ?r = "dropWhile is_continuation cs"
    let ?y = "concat (take m (scalars ?r))"
    have y: "?y = [] \<or> \<not> is_continuation (hd ?y)"
    proof (cases "scalars ?r")
      case (Cons sc scs)
      then have "?r \<noteq> []" by (metis scalars.simps(1) list.distinct(1))
      moreover have "sc \<noteq> []" "hd sc = hd ?r" using hd_concat_scalars [OF Cons] by simp_all
      moreover have "\<not> is_continuation (hd ?r)" using \<open>?r \<noteq> []\<close> by (rule hd_dropWhile)
      ultimately show ?thesis using Cons by (cases m) auto
    qed (simp del: scalars_eq_Nil_iff)
    have "scalars ((c # takeWhile is_continuation cs) @ ?y) = scalars (c # takeWhile is_continuation cs) @ scalars ?y"
      by (rule scalars_append [OF y])
    also have "scalars (c # takeWhile is_continuation cs) = [c # takeWhile is_continuation cs]"
      by (simp add: while_idem)
    finally show ?thesis using 2 Suc by simp
  qed simp
qed simp

lemma token_scan_ge: "count + div_ceil3 r \<le> token_scan count r scs"
proof (induction count r scs rule: token_scan.induct)
  case (2 count r sc rest)
  have "div_ceil3 r \<le> div_ceil3 (r + 1)" by (simp add: div_ceil3_def div_le_mono)
  with 2 show ?case by (auto simp: div_ceil3_def split: if_splits)
qed simp

lemma token_scan_take: "token_scan count r (take n scs) \<le> token_scan count r scs"
proof (induction count r scs arbitrary: n rule: token_scan.induct)
  case (2 count r sc rest)
  show ?case
  proof (cases n)
    case 0
    then show ?thesis using token_scan_ge [of count r "sc # rest"] by simp
  next
    case (Suc m)
    then show ?thesis using 2 by simp
  qed
qed simp

lemma token_scan_snoc:
  "\<not> is_alnum_scalar sc \<Longrightarrow> \<not> is_ws_scalar sc \<Longrightarrow> token_scan count r (scs @ [sc]) = token_scan count r scs + 1"
  by (induction count r scs rule: token_scan.induct) (simp_all add: div_ceil3_def)

lemma conservative_take_mono:
  "i \<le> j \<Longrightarrow> conservative_text_token_count (concat (take i (scalars s))) \<le> conservative_text_token_count (concat (take j (scalars s)))"
  using token_scan_take [of 0 0 i "take j (scalars s)"] by (simp add: conservative_text_token_count_def min_def)

lemma ellipsis_scalar [simp]: "scalars zh_ellipsis = [zh_ellipsis]" "\<not> is_continuation (hd zh_ellipsis)" "zh_ellipsis \<noteq> []"
  "\<not> is_alnum_scalar zh_ellipsis" "\<not> is_ws_scalar zh_ellipsis"
  by code_simp+

lemma conservative_ellipsis: "conservative_text_token_count (t @ zh_ellipsis) = conservative_text_token_count t + 1"
  by (simp add: conservative_text_token_count_def scalars_append token_scan_snoc)

lemma truncate_search_bounds: "low \<le> high \<Longrightarrow> low \<le> truncate_search fits low high \<and> truncate_search fits low high \<le> high"
proof (induction fits low high rule: truncate_search.induct)
  case (1 fits low high)
  let ?mid = "(low + high + 1) div 2"
  consider "low = high" | "low < high" "fits ?mid" | "low < high" "\<not> fits ?mid" using "1.prems" by linarith
  then show ?case
  proof cases
    case 1
    then show ?thesis by (simp add: truncate_search.simps [of fits high high])
  next
    case 2
    then show ?thesis
      using "1.IH"(1) [OF 2(1) refl 2(2)] by (simp add: truncate_search.simps [of fits low high] Let_def) linarith
  next
    case 3
    then show ?thesis
      using "1.IH"(2) [OF 3(1) refl 3(2)] by (simp add: truncate_search.simps [of fits low high] Let_def) linarith
  qed
qed

lemma truncate_search_longest:
  assumes "\<And>i j. i \<le> j \<Longrightarrow> fits j \<Longrightarrow> fits i" "fits low" "low \<le> high" "\<And>k. high < k \<Longrightarrow> k \<le> n \<Longrightarrow> \<not> fits k"
  shows "fits (truncate_search fits low high) \<and> (\<forall>k. truncate_search fits low high < k \<and> k \<le> n \<longrightarrow> \<not> fits k)"
  using assms
proof (induction fits low high rule: truncate_search.induct)
  case (1 fits low high)
  let ?mid = "(low + high + 1) div 2"
  show ?case
  proof (cases "low < high")
    case True
    show ?thesis
    proof (cases "fits ?mid")
      case f: True
      have "fits (truncate_search fits ?mid high) \<and> (\<forall>k. truncate_search fits ?mid high < k \<and> k \<le> n \<longrightarrow> \<not> fits k)"
        using "1.IH"(1) [OF True refl f "1.prems"(1) f _ "1.prems"(4)] True by simp
      then show ?thesis using True f by (simp add: truncate_search.simps [of fits low high] Let_def)
    next
      case f: False
      have no: "\<not> fits k" if "?mid - 1 < k" for k using "1.prems"(1) [of ?mid k] that f by linarith
      have "fits (truncate_search fits low (?mid - 1)) \<and> (\<forall>k. truncate_search fits low (?mid - 1) < k \<and> k \<le> n \<longrightarrow> \<not> fits k)"
      proof (rule "1.IH"(2) [OF True refl f])
        show "low \<le> ?mid - 1" using True by linarith
      qed (use "1.prems"(1,2) no in blast)+
      then show ?thesis using True f by (simp add: truncate_search.simps [of fits low high] Let_def)
    qed
  next
    case False
    then have "low = high" using "1.prems"(3) by simp
    then have "truncate_search fits low high = high" by (simp add: truncate_search.simps [of fits high high])
    then show ?thesis using "1.prems"(2,4) \<open>low = high\<close> by simp
  qed
qed

lemma pop_until_fits_spec: "(pop_until_fits fits scs = [] \<or> fits (concat (pop_until_fits fits scs))) \<and> (\<exists>k. pop_until_fits fits scs = take k scs)"
proof (induction fits scs rule: pop_until_fits.induct)
  case (1 fits scs)
  show ?case
  proof (cases "scs \<noteq> [] \<and> \<not> fits (concat scs)")
    case True
    then obtain k where "pop_until_fits fits (butlast scs) = take k (butlast scs)" using 1 by blast
    then have "pop_until_fits fits scs = take (min k (length scs - 1)) scs"
      using True by (simp add: pop_until_fits.simps [of fits scs] butlast_conv_take)
    then show ?thesis using True 1 by (auto simp: pop_until_fits.simps [of fits scs])
  next
    case False
    then have "pop_until_fits fits scs = scs" by (subst pop_until_fits.simps) (rule if_not_P)
    then show ?thesis using False by (metis order_refl take_all)
  qed
qed

lemma pop_until_fits_id: "fits (concat scs) \<Longrightarrow> pop_until_fits fits scs = scs"
  by (simp add: pop_until_fits.simps [of fits scs])

lemma take_snoc_cases: "\<exists>j. take k (take n xs @ [y]) = take j xs \<or> take k (take n xs @ [y]) = take j xs @ [y]"
proof (cases "k \<le> length (take n xs)")
  case True
  then show ?thesis by (auto intro: exI [of _ "min k n"])
next
  case False
  then have "take k (take n xs @ [y]) = take n xs @ [y]" by (intro take_all) (simp only: length_append length_Cons list.size(3))
  then show ?thesis by blast
qed

text \<open>Without a tokenizer the search finds the longest prefix, and the ellipsis fits behind it.\<close>

lemma conservative_truncation:
  assumes "0 < n" "n < conservative_text_token_count s"
  obtains k where "k \<le> length (scalars s)" "truncate_llm_text_to_tokens None s n = concat (take k (scalars s)) @ zh_ellipsis"
    "conservative_text_token_count (concat (take k (scalars s))) \<le> n - 1"
    "\<And>j. k < j \<Longrightarrow> j \<le> length (scalars s) \<Longrightarrow> n - 1 < conservative_text_token_count (concat (take j (scalars s)))"
proof -
  let ?f = "\<lambda>mid. conservative_text_token_count (concat (take mid (scalars s))) \<le> n - 1"
  let ?k = "truncate_search ?f 0 (length (scalars s))"
  have count: "llm_text_token_count None = conservative_text_token_count"
    by (rule ext) (simp add: llm_text_token_count_def unwrap_or_def)
  have "?f 0" by (simp add: conservative_text_token_count_def div_ceil3_def)
  then have l: "?f ?k \<and> (\<forall>j. ?k < j \<and> j \<le> length (scalars s) \<longrightarrow> \<not> ?f j)"
    by (intro truncate_search_longest) (auto intro: order_trans [OF conservative_take_mono])
  have b: "?k \<le> length (scalars s)" using truncate_search_bounds [of 0 "length (scalars s)" ?f] by simp
  have "conservative_text_token_count (concat (take ?k (scalars s) @ [zh_ellipsis])) \<le> n"
    using conjunct1 [OF l] assms(1) by (simp add: conservative_ellipsis del: One_nat_def)
  then have "truncate_llm_text_to_tokens None s n = concat (take ?k (scalars s)) @ zh_ellipsis"
    using assms by (simp add: truncate_llm_text_to_tokens_def Let_def count pop_until_fits_id)
  then show thesis using l b that [of ?k] by (auto simp: not_le)
qed

text \<open>
  C14. A truncated text fits its token budget: it is empty or has at most the given number of tokens for whatever tokenizer the
  process has, it is a prefix of the text in whole characters, possibly with an ellipsis, and a text that fits is not changed.
  When no tokenizer is configured, so that tokens are estimated, a text over the budget is cut after the longest prefix that
  leaves room for the ellipsis; with a tokenizer, whose counts need not grow with the text, nothing is said of the length.
\<close>

theorem truncated_text_fits_budget:
  "(truncate_llm_text_to_tokens tok text n = [] \<or> llm_text_token_count tok (truncate_llm_text_to_tokens tok text n) \<le> n) \<and>
   (\<exists>k. truncate_llm_text_to_tokens tok text n \<in> {concat (take k (scalars text)), concat (take k (scalars text)) @ zh_ellipsis}) \<and>
   (if 0 < n \<and> llm_text_token_count tok text \<le> n then truncate_llm_text_to_tokens tok text n = text else True) \<and>
   (if tok = None \<and> 0 < n \<and> n < conservative_text_token_count text
    then \<exists>k. truncate_llm_text_to_tokens tok text n = concat (take k (scalars text)) @ zh_ellipsis \<and>
      conservative_text_token_count (concat (take k (scalars text))) \<le> n - 1 \<and>
      {j \<in> {k<..length (scalars text)}. conservative_text_token_count (concat (take j (scalars text))) \<le> n - 1} = {}
    else True)"
proof (intro conjI)
  let ?t = "truncate_llm_text_to_tokens tok text n"
  let ?c = "llm_text_token_count tok"
  let ?low = "truncate_search (\<lambda>mid. ?c (concat (take mid (scalars text))) \<le> n - 1) 0 (length (scalars text))"
  note p = pop_until_fits_spec [of "\<lambda>t. ?c t \<le> n" "take ?low (scalars text) @ [zh_ellipsis]"]
  show "?t = [] \<or> ?c ?t \<le> n" using p by (auto simp: truncate_llm_text_to_tokens_def Let_def)
  have t: "?t = (if n = 0 then [] else if ?c text \<le> n then text
      else concat (pop_until_fits (\<lambda>t. ?c t \<le> n) (take ?low (scalars text) @ [zh_ellipsis])))"
    by (simp only: truncate_llm_text_to_tokens_def Let_def)
  consider "?t = concat (take 0 (scalars text))" | "?t = concat (take (length (scalars text)) (scalars text))"
    | "?t = concat (pop_until_fits (\<lambda>t. ?c t \<le> n) (take ?low (scalars text) @ [zh_ellipsis]))"
    unfolding t by (cases "n = 0"; cases "?c text \<le> n") simp_all
  then show "\<exists>k. ?t \<in> {concat (take k (scalars text)), concat (take k (scalars text)) @ zh_ellipsis}"
  proof cases
    case 3
    obtain k where "pop_until_fits (\<lambda>t. ?c t \<le> n) (take ?low (scalars text) @ [zh_ellipsis]) = take k (take ?low (scalars text) @ [zh_ellipsis])"
      using p by blast
    then obtain j where "?t = concat (take j (scalars text)) \<or> ?t = concat (take j (scalars text) @ [zh_ellipsis])"
      using 3 take_snoc_cases [of k ?low "scalars text" zh_ellipsis] by metis
    then show ?thesis by (intro exI [of _ j]) simp
  qed blast+
  show "if 0 < n \<and> ?c text \<le> n then ?t = text else True" by (simp add: t)
  show "if tok = None \<and> 0 < n \<and> n < conservative_text_token_count text
    then \<exists>k. ?t = concat (take k (scalars text)) @ zh_ellipsis \<and> conservative_text_token_count (concat (take k (scalars text))) \<le> n - 1 \<and>
      {j \<in> {k<..length (scalars text)}. conservative_text_token_count (concat (take j (scalars text))) \<le> n - 1} = {} else True"
  proof (cases "tok = None \<and> 0 < n \<and> n < conservative_text_token_count text")
    case True
    then obtain k where "truncate_llm_text_to_tokens None text n = concat (take k (scalars text)) @ zh_ellipsis"
      "conservative_text_token_count (concat (take k (scalars text))) \<le> n - 1"
      "\<And>j. k < j \<Longrightarrow> j \<le> length (scalars text) \<Longrightarrow> n - 1 < conservative_text_token_count (concat (take j (scalars text)))"
      using conservative_truncation [of n "text"] by blast
    moreover have "?t = truncate_llm_text_to_tokens None text n" using True by simp
    moreover have "{j \<in> {k<..length (scalars text)}. conservative_text_token_count (concat (take j (scalars text))) \<le> n - 1} = {}"
      using calculation(3) by (force simp: not_le [symmetric])
    ultimately show ?thesis using True by (intro if_bool_eq_conj [THEN iffD2] conjI impI exI [of _ k]) simp_all
  qed (simp only: if_False)
qed

section \<open>Metadata\<close>

lemma json_get_members [simp]: "hm_get (as_members v) k = json_get v k"
  by (cases v) (simp_all add: as_members_def unwrap_or_def hm_get_def)

lemma json_get_set_bool [simp]: "json_get (set_metadata_bool k b v) k' = (if k' = k then Some (JBool b) else json_get v k')"
  by (simp add: set_metadata_bool_def bm_get_insert)

lemma json_get_set_string [simp]:
  "json_get (set_metadata_string k s v) k' = (if k' = k \<and> \<not> blank s then Some (JStr s) else json_get v k')"
  by (simp add: set_metadata_string_def bm_get_insert)

lemma hm_get_fold_remove: "hm_get (fold hm_remove ks m) k = (if k \<in> set ks then None else hm_get m k)"
  by (induction ks arbitrary: m) (auto simp: hm_get_remove)

lemma json_get_remove_keys [simp]: "json_get (remove_metadata_keys ks v) k = (if k \<in> set ks then None else json_get v k)"
  by (cases v) (simp_all add: remove_metadata_keys_def hm_get_fold_remove)

lemma metadata_bool_cong: "json_get v k = json_get v' k' \<Longrightarrow> metadata_bool v k = metadata_bool v' k'"
  by (simp add: metadata_bool_def)

lemma metadata_string_Some: "json_get v k = Some (JStr s) \<Longrightarrow> \<not> blank s \<Longrightarrow> metadata_string v k = Some (trim s)"
  by (simp add: metadata_string_def opt_filter_def blank_def)

lemma metadata_string_None: "json_get v k = None \<Longrightarrow> metadata_string v k = None"
  by (simp add: metadata_string_def opt_filter_def)

section \<open>Candidates respect the privacy of the route\<close>

lemma wired_candidate_iff:
  "e \<in> set (wired_candidates state kind policy_id) \<longleftrightarrow>
     e \<in> set (am_endpoints state) \<and> me_model_kind e = kind \<and> me_status e \<noteq> EpDisabled \<and>
     (me_endpoint_kind e \<noteq> EpCloud \<or>
      (case find (\<lambda>p. mr_route_policy_id p = policy_id) (am_route_policies state) of Some p \<Rightarrow> mr_privacy_level p \<noteq> StrictLocal | None \<Rightarrow> True))"
  by (auto simp: wired_candidates_def Let_def)

lemma overlay_keeps_kinds:
  "map me_endpoint_kind (overlay_endpoints_with_runtime_truth env runtime es) = map me_endpoint_kind es"
  "map me_model_endpoint_id (overlay_endpoints_with_runtime_truth env runtime es) = map me_model_endpoint_id es"
  by (auto simp: overlay_endpoints_with_runtime_truth_def overlay_endpoint_def Let_def split: option.split)

lemma overlay_kinds_set:
  "e \<in> set (overlay_endpoints_with_runtime_truth env runtime es) \<Longrightarrow> me_endpoint_kind e \<in> me_endpoint_kind ` set es"
  using overlay_keeps_kinds(1) [of env runtime es] by (metis image_eqI list.set_map)

definition builtin_llm :: "center_env \<Rightarrow> model_endpoint" where
  "builtin_llm env = default_model_endpoints env ! 3"

lemma builtin_llm_parts [simp]: "me_model_endpoint_id (builtin_llm env) = ''llm-local-openai-compatible''" "me_model_kind (builtin_llm env) = KLlm"
  "me_endpoint_kind (builtin_llm env) = EpLocal" "me_provider_key (builtin_llm env) = ''openai_compatible''"
  "me_status (builtin_llm env) = EpDegraded" "me_model_name (builtin_llm env) = ''Qwen/Qwen2.5-0.5B-Instruct''"
  by (simp_all add: builtin_llm_def default_model_endpoints_def Let_def builtin_endpoint_def)

lemma default_llm_endpoint:
  "find (\<lambda>e. me_model_endpoint_id e = ''llm-local-openai-compatible'') (default_model_endpoints env) = Some (builtin_llm env)"
  by (simp add: builtin_llm_def default_model_endpoints_def Let_def builtin_endpoint_def)

lemma marked_endpoint_kind [simp]: "me_endpoint_kind (mark_semantic_router_resident_endpoint b h k e) = me_endpoint_kind e"
  by (simp add: mark_semantic_router_resident_endpoint_def Let_def)

lemma wired_endpoint_kinds:
  "e \<in> set (am_endpoints (wire_semantic_router_resident_endpoint env state)) \<Longrightarrow>
     me_endpoint_kind e \<in> insert EpLocal (me_endpoint_kind ` set (am_endpoints state))"
  by (auto simp: wire_semantic_router_resident_endpoint_def Let_def resident_endpoint_base_def builtin_endpoint_def split: if_splits)

lemma router_state_local:
  assumes "semantic_router_local_only_model_state env state = Ok local_state" "e \<in> set (am_endpoints local_state)"
  shows "me_endpoint_kind e \<noteq> EpCloud"
proof (cases "semantic_router_topology_of env")
  case (Inr topology)
  show ?thesis
  proof (cases topology)
    case TopoEmbedded
    then obtain c where "canonical_embedded_semantic_router_endpoint env = Ok c" "e = c"
      using assms Inr by (auto simp: semantic_router_local_only_model_state_def and_then_def split: sum.splits)
    then show ?thesis
      by (auto simp: canonical_embedded_semantic_router_endpoint_def and_then_def default_llm_endpoint split: sum.splits option.splits)
  next
    case TopoStandalone
    then have "e \<in> set (am_endpoints (wire_semantic_router_resident_endpoint env
        (state\<lparr>am_endpoints := filter (\<lambda>e. me_endpoint_kind e \<noteq> EpCloud) (am_endpoints state)\<rparr>)))"
      using assms Inr by (auto simp: semantic_router_local_only_model_state_def and_then_def Let_def)
    then show ?thesis using wired_endpoint_kinds by fastforce
  qed
qed (use assms in \<open>simp add: semantic_router_local_only_model_state_def and_then_def\<close>)

text \<open>
  C12. The endpoints a text request may use, whatever the health probe says. The semantic router never gets a cloud endpoint, in
  either topology and whatever is stored; no other route gets one when its policy is strictly local; and a candidate is
  an enabled language model.
\<close>

theorem text_routes_respect_privacy:
  "case llm_candidates env cw state options s of
     (Inl error, s') \<Rightarrow> s' = s
   | (Inr candidates, s') \<Rightarrow>
       me_model_kind ` set candidates \<subseteq> {KLlm} \<and> EpDisabled \<notin> me_status ` set candidates \<and>
       (if llm_route_policy_id options = SEMANTIC_ROUTER_POLICY_ID \<or>
          (\<exists>p. find (\<lambda>p. mr_route_policy_id p = llm_route_policy_id options) (am_route_policies state) = Some p \<and> mr_privacy_level p = StrictLocal)
        then EpCloud \<notin> me_endpoint_kind ` set candidates else True)"
proof (cases "if llm_route_policy_id options = SEMANTIC_ROUTER_POLICY_ID then semantic_router_local_only_model_state env state else Ok state")
  case (Inl error)
  then show ?thesis by (simp add: llm_candidates_def Let_def)
next
  case (Inr effective)
  obtain wired s' where w: "runtime_wired_model_center_state env cw effective s = (wired, s')" by (meson surj_pair)
  then have pol: "am_route_policies wired = am_route_policies effective"
    and kinds: "e \<in> set (am_endpoints wired) \<Longrightarrow> me_endpoint_kind e \<in> me_endpoint_kind ` set (am_endpoints effective)" for e
    by (auto simp: runtime_wired_model_center_state_def split: prod.splits dest!: overlay_kinds_set)
  let ?cs = "wired_candidates wired KLlm (llm_route_policy_id options)"
  have c: "llm_candidates env cw state options s = (Ok ?cs, s')"
    using Inr w by (simp add: llm_candidates_def Let_def resolve_endpoint_candidates_def)
  have "me_endpoint_kind e \<noteq> EpCloud"
    if "llm_route_policy_id options = SEMANTIC_ROUTER_POLICY_ID \<or>
        (\<exists>p. find (\<lambda>p. mr_route_policy_id p = llm_route_policy_id options) (am_route_policies state) = Some p \<and> mr_privacy_level p = StrictLocal)"
      "e \<in> set ?cs" for e
  proof (cases "llm_route_policy_id options = SEMANTIC_ROUTER_POLICY_ID")
    case True
    then have "semantic_router_local_only_model_state env state = Ok effective" using Inr by simp
    then show ?thesis using kinds [of e] that(2) router_state_local by (fastforce simp: wired_candidate_iff)
  next
    case False
    then show ?thesis using that Inr by (auto simp: wired_candidate_iff pol)
  qed
  moreover have "me_model_kind ` set ?cs \<subseteq> {KLlm}" "EpDisabled \<notin> me_status ` set ?cs" by (auto simp: wired_candidate_iff)
  ultimately show ?thesis unfolding c prod.case sum.case by (metis (no_types, lifting) imageE)
qed

section \<open>The first available endpoint answers\<close>

text \<open>The specification of the fallback: the candidates are asked in order until one answers or reports that its accelerator is taken.\<close>

fun first_answer :: "(model_endpoint \<Rightarrow> 'w \<Rightarrow> llm_text_execution \<times> 'w) \<Rightarrow> model_endpoint list \<Rightarrow> 'w \<Rightarrow> llm_text_execution option \<times> 'w" where
  "first_answer run [] w = (None, w)"
| "first_answer run (e # es) w =
     (case run e w of (result, w') \<Rightarrow>
        if resource_busy result \<or> lx_available result then (Some result, w') else first_answer run es w')"

text \<open>What a caller sees of an execution apart from the merged details.\<close>

definition same_answer :: "llm_text_execution \<Rightarrow> llm_text_execution \<Rightarrow> bool" where
  "same_answer r r' \<longleftrightarrow> lx_available r = lx_available r' \<and> lx_status r = lx_status r' \<and> lx_summary r = lx_summary r' \<and>
     lx_provider_key r = lx_provider_key r' \<and> lx_model_endpoint_id r = lx_model_endpoint_id r' \<and> lx_text r = lx_text r'"

lemma same_answer_merged [simp]: "same_answer (merge_llm_execution_details p a f u k s r) r"
  by (simp add: merge_llm_execution_details_def same_answer_def Let_def)

lemma all_failed_unavailable [simp]: "lx_available (all_failed p l) = False"
  by (simp add: all_failed_def merge_llm_execution_details_def Let_def)

lemma llm_attempts_first_answer:
  "case first_answer run es w of
     (Some r, w') \<Rightarrow> same_answer (fst (llm_attempts run p i es l w)) r \<and> snd (llm_attempts run p i es l w) = w'
   | (None, w') \<Rightarrow> \<not> lx_available (fst (llm_attempts run p i es l w)) \<and> snd (llm_attempts run p i es l w) = w'"
proof (induction es arbitrary: l w)
  case (Cons e es)
  obtain r w1 where r: "run e w = (r, w1)" by (meson surj_pair)
  show ?case
  proof (cases "resource_busy r \<or> lx_available r")
    case True
    then show ?thesis using r by (auto simp: Let_def)
  next
    case False
    then obtain l' where "llm_attempts run p i (e # es) l w = llm_attempts run p i es l' w1" "first_answer run (e # es) w = first_answer run es w1"
      using r by (simp add: Let_def)
    then show ?thesis using Cons.IH [of l' w1] by (simp only:)
  qed
qed simp

text \<open>
  C13. A text request is answered by the first candidate that can: the candidates are tried in their order, each at most once, the
  world afterwards is the one that the last candidate tried left, the answer is that candidate's, and when none of them
  answers the result says that it is not available. A busy accelerator ends the search instead of falling back.
\<close>

theorem text_request_is_first_answer:
  "case llm_candidates (ru_env ru) (ru_center ru) state options s of
     (Inl error, s') \<Rightarrow> snd (run_llm_text_with_state_and_options ru prompt state options s) = s' \<and>
       lx_available (fst (run_llm_text_with_state_and_options ru prompt state options s)) = False
   | (Inr candidates, s') \<Rightarrow>
       (case first_answer (run_llm_text_on_endpoint ru prompt options) candidates (snd s') of (answer, w') \<Rightarrow>
          snd (run_llm_text_with_state_and_options ru prompt state options s) = (fst s', w') \<and>
          (case answer of Some r \<Rightarrow> same_answer (fst (run_llm_text_with_state_and_options ru prompt state options s)) r
           | None \<Rightarrow> lx_available (fst (run_llm_text_with_state_and_options ru prompt state options s)) = False))"
proof -
  obtain res s' where c: "llm_candidates (ru_env ru) (ru_center ru) state options s = (res, s')" by (meson surj_pair)
  note run = run_llm_text_with_state_and_options_def [of ru prompt state options s]
  show ?thesis
  proof (cases res)
    case (Inl error)
    then show ?thesis by (simp add: run c Let_def disabled_llm_def)
  next
    case (Inr cs)
    show ?thesis
    proof (cases cs)
      case Nil
      then show ?thesis using Inr by (simp add: run c Let_def disabled_llm_def)
    next
      case (Cons e es)
      let ?run = "run_llm_text_on_endpoint ru prompt options"
      obtain r w' where a: "llm_attempts ?run (llm_route_policy_id options) (Some (me_model_endpoint_id e)) (e # es) empty_llm_loop (snd s') = (r, w')"
        by (meson surj_pair)
      obtain answer w1 where f: "first_answer ?run (e # es) (snd s') = (answer, w1)" by (meson surj_pair)
      have "run_llm_text_with_state_and_options ru prompt state options s = (r, (fst s', w'))"
        using Inr Cons by (simp add: run c Let_def a del: llm_attempts.simps)
      then show ?thesis
        using llm_attempts_first_answer [where run = ?run and es = "e # es" and w = "snd s'" and p = "llm_route_policy_id options"
            and i = "Some (me_model_endpoint_id e)" and l = empty_llm_loop]
          Inr Cons f a by (cases answer) (simp_all add: c del: llm_attempts.simps first_answer.simps)
    qed
  qed
qed

section \<open>Images stay on the machine\<close>

text \<open>
  A world in which the vision client refuses every server but the local ones. A local server is told by the host of its URL,
  as the URL parser gives it: the name \<^verbatim>\<open>localhost\<close>, the address \<^verbatim>\<open>::1\<close> or a host that begins with \<^verbatim>\<open>127.\<close>. Among the
  IPv4 addresses the last are exactly the loopback addresses, but a host name can begin so too.
\<close>

definition local_host_name :: "string \<Rightarrow> bool" where
  "local_host_name host \<longleftrightarrow> host \<in> {''localhost'', ''::1''} \<or> (\<exists>rest. host = ''127.'' @ rest)"

definition local_server :: "center_env \<Rightarrow> openai_compatible_config \<Rightarrow> bool" where
  "local_server env config \<longleftrightarrow> (\<exists>url parsed host. oc_base_url config = trim_end_slashes url \<and>
     ce_parse_url env (trim url) = Some parsed \<and> pu_host parsed = Some host \<and> local_host_name (to_ascii_lowercase host))"

definition local_servers_only :: "('w, 'v) run_env \<Rightarrow> ('w, 'v) run_env" where
  "local_servers_only ru = ru\<lparr>
     ru_describe := (\<lambda>config q w. if local_server (ru_env ru) config then ru_describe ru config q w else (Err ''refused'', w)),
     ru_verify_cat := (\<lambda>config u w. if local_server (ru_env ru) config then ru_verify_cat ru config u w else (Err ''refused'', w))\<rparr>"

lemma unblocked_config_local:
  assumes "vlm_endpoint_local_only_blocker env e = None" "endpoint_uses_openai_compatible_api e"
    "openai_compatible_config_from_endpoint e = Some config"
  shows "local_server env config"
proof -
  from assms(3) obtain url where u: "metadata_string (me_metadata e) ''base_url'' = Some url" "oc_base_url config = trim_end_slashes url"
    by (auto simp: openai_compatible_config_from_endpoint_def Let_def split: bind_splits if_splits)
  then have "url_is_loopback env url"
    using assms(1,2) by (auto simp: vlm_endpoint_local_only_blocker_def split: if_splits)
  then obtain parsed where "ce_parse_url env (trim url) = Some parsed"
      "local_host_name (to_ascii_lowercase (unwrap_or (pu_host parsed) []))"
    by (auto simp: url_is_loopback_def local_host_name_def starts_with_def prefix_def Let_def split: option.splits)
  then show ?thesis
    using u(2) by (cases "pu_host parsed") (auto simp: local_server_def local_host_name_def to_ascii_lowercase_def)
qed

lemma local_servers_only_selectors [simp]:
  "ru_env (local_servers_only ru) = ru_env ru" "ru_center (local_servers_only ru) = ru_center ru" "ru_client (local_servers_only ru) = ru_client ru"
  "ru_acquire (local_servers_only ru) = ru_acquire ru" "ru_release (local_servers_only ru) = ru_release ru"
  "ru_image_data_url (local_servers_only ru) = ru_image_data_url ru"
  "local_server (ru_env ru) config \<Longrightarrow> ru_describe (local_servers_only ru) config = ru_describe ru config"
  "local_server (ru_env ru) config \<Longrightarrow> ru_verify_cat (local_servers_only ru) config = ru_verify_cat ru config"
  by (simp_all add: local_servers_only_def)

lemma local_servers_only_lease: "with_endpoint_lease (local_servers_only ru) e k busy body w = with_endpoint_lease ru e k busy body w"
  by (simp add: with_endpoint_lease_def split: prod.split sum.split)

lemma vlm_on_endpoint_loopback: "vlm_on_endpoint (local_servers_only ru) path e w = vlm_on_endpoint ru path e w"
  using unblocked_config_local [of "ru_env ru" e]
  by (simp add: vlm_on_endpoint_def local_servers_only_lease split: option.split sum.split)

lemma verify_frames_loopback:
  "local_server (ru_env ru) config \<Longrightarrow> verify_frames (local_servers_only ru) config frames w = verify_frames ru config frames w"
  by (induction ru config frames w rule: verify_frames.induct) (auto split: sum.split prod.split)

lemma cat_validation_loopback: "cat_validation_on_endpoint (local_servers_only ru) frames e w = cat_validation_on_endpoint ru frames e w"
proof -
  have "endpoint_uses_openai_compatible_api e" if "eq_ignore_ascii_case (me_provider_key e) ''openai_compatible''"
    using that by (simp add: endpoint_uses_openai_compatible_api_def)
  then show ?thesis
    using unblocked_config_local [of "ru_env ru" e]
    by (simp add: cat_validation_on_endpoint_def local_servers_only_lease verify_frames_loopback Let_def split: option.split sum.split)
qed

lemma dot_not_in_show_nat: "CHR ''.'' \<notin> set (show_nat n)"
proof (induction n rule: show_nat.induct)
  case (1 n)
  have d: "CHR ''.'' \<noteq> digit_char k" if "k < 10" for k
    using that by (auto simp: digit_char_def dest!: arg_cong [where f = "of_char :: char \<Rightarrow> nat"])
  show ?case using 1 d [of n] d [of "n mod 10"] by (subst show_nat.simps) simp
qed

text \<open>A dotted address is local only if its first number is 127.\<close>

lemma local_ipv4_is_loopback:
  assumes "local_host_name (show_nat a @ ''.'' @ rest)"
  shows "a = 127"
proof -
  have "show_nat a @ ''.'' @ rest \<noteq> ''localhost''" "show_nat a @ ''.'' @ rest \<noteq> ''::1''"
    by (auto dest: arg_cong [where f = "\<lambda>s. CHR ''.'' \<in> set s"])
  then obtain r where r: "show_nat a @ ''.'' @ rest = ''127.'' @ r"
    using assms by (auto simp: local_host_name_def)
  have "takeWhile (\<lambda>c. c \<noteq> CHR ''.'') (show_nat a @ ''.'' @ rest) = show_nat a"
    using dot_not_in_show_nat [of a] by (subst takeWhile_append2) auto
  moreover have "takeWhile (\<lambda>c. c \<noteq> CHR ''.'') (''127.'' @ r) = ''127''" by simp
  moreover have "''127'' = show_nat 127" by code_simp
  ultimately have "show_nat a = show_nat 127" using r by simp
  then show ?thesis using show_nat_inject by blast
qed

text \<open>
  C11. Images and frames of recordings go to local servers only, where local means that the host of the server's URL is
  \<^verbatim>\<open>localhost\<close>, \<^verbatim>\<open>::1\<close> or begins with \<^verbatim>\<open>127.\<close> (which a host name such as \<^verbatim>\<open>127.example.org\<close> does too): with a vision client
  that refuses every other server, the summary of an image and the validation of a recording do exactly what they do with
  the real client, whatever endpoints and policies are stored.
\<close>

theorem images_stay_on_local_hosts:
  "run_vlm_summary_with_state (local_servers_only ru) path state s = run_vlm_summary_with_state ru path state s \<and>
   run_cat_recording_validation_with_state (local_servers_only ru) frames state s = run_cat_recording_validation_with_state ru frames state s"
proof
  have f: "vlm_on_endpoint (local_servers_only ru) path = vlm_on_endpoint ru path"
    "cat_validation_on_endpoint (local_servers_only ru) frames = cat_validation_on_endpoint ru frames"
    by (rule ext, rule ext, rule vlm_on_endpoint_loopback) (rule ext, rule ext, rule cat_validation_loopback)
  show "run_vlm_summary_with_state (local_servers_only ru) path state s = run_vlm_summary_with_state ru path state s"
    by (simp add: run_vlm_summary_with_state_def on_resolved_def f)
  show "run_cat_recording_validation_with_state (local_servers_only ru) frames state s = run_cat_recording_validation_with_state ru frames state s"
    by (simp add: run_cat_recording_validation_with_state_def on_resolved_def f)
qed

section \<open>Verdicts on recordings\<close>

lemma remdups_adj_sorted: "sorted xs \<Longrightarrow> distinct (remdups_adj xs)" for xs :: "'a::linorder list"
  by (induction xs rule: remdups_adj.induct) auto

text \<open>
  The verdict on a recording: it shows a cat without doubt when at least two different frames do, one frame or an unclear answer
  asks for a review, and only a recording whose frames all clearly show no cat is dismissed.
\<close>

theorem cat_verdict_counts_frames:
  fixes responses :: "(u8 \<times> cat_frame_verification_response) list"
  defines "cats \<equiv> {i. \<exists>r. (i, r) \<in> set responses \<and> cf_cat_present r}"
  shows "set (cx_cat_frame_indices (aggregate_cat_frame_verifications e responses)) = cats \<and>
    distinct (cx_cat_frame_indices (aggregate_cat_frame_verifications e responses)) \<and>
    cx_reason_code (aggregate_cat_frame_verifications e responses) =
      (if 2 \<le> card cats then ''cat_visible''
       else if cats \<noteq> {} \<or> (\<exists>r \<in> snd ` set responses. cf_reason_code r \<noteq> ''no_cat_visible'') then ''uncertain'' else ''no_cat_visible'')"
proof -
  let ?is = "sorted_indices (map fst (filter (\<lambda>r. cf_cat_present (snd r)) responses))"
  have d: "distinct ?is" using remdups_adj_sorted [of "sort (map fst (filter (\<lambda>r. cf_cat_present (snd r)) responses))"]
    by (simp add: sorted_indices_def)
  have s: "set ?is = cats" by (force simp: sorted_indices_def cats_def)
  have c: "card cats = length ?is" using distinct_card [OF d] s by simp
  have i: "cx_cat_frame_indices (aggregate_cat_frame_verifications e responses) = ?is"
    by (simp add: aggregate_cat_frame_verifications_def Let_def split: prod.split)
  have "cx_reason_code (aggregate_cat_frame_verifications e responses) = (case ?is of i # j # _ \<Rightarrow> ''cat_visible'' | [i] \<Rightarrow> ''uncertain''
     | [] \<Rightarrow> if list_ex (\<lambda>r. \<not> cf_cat_present (snd r) \<and> cf_reason_code (snd r) \<noteq> ''no_cat_visible'') responses then ''uncertain'' else ''no_cat_visible'')"
    by (simp add: aggregate_cat_frame_verifications_def Let_def split: prod.split list.split)
  moreover have "list_ex (\<lambda>r. \<not> cf_cat_present (snd r) \<and> cf_reason_code (snd r) \<noteq> ''no_cat_visible'') responses \<longleftrightarrow>
      (\<exists>r \<in> snd ` set responses. cf_reason_code r \<noteq> ''no_cat_visible'')" if "?is = []"
    using that s by (force simp: list_ex_iff cats_def)
  ultimately show ?thesis using d s c i by (cases ?is rule: remdups_adj.cases) auto
qed

end

