(* ===== verification/Model_Router_Laws.thy ===== *)
theory Model_Router_Laws
  imports Model_Laws
begin

text \<open>
  The embedded semantic router talks to the hub's own facade only. What is used of the \<^verbatim>\<open>url\<close> crate is a named hypothesis: a URL with
  the parts of the facade is written in one way.
\<close>

section \<open>The endpoint of the embedded router\<close>

definition FACADE_HEALTHZ_URL :: string where
  "FACADE_HEALTHZ_URL = ''http://127.0.0.1:4174/api/inference/healthz''"

definition url_serialises :: "center_env \<Rightarrow> bool" where
  "url_serialises env \<longleftrightarrow>
     (\<forall>url. pu_scheme url = ''http'' \<and> pu_host url = Some ''127.0.0.1'' \<and> pu_port_or_known_default url = Some 4174 \<and> pu_username url = [] \<and>
        pu_password url = None \<and> pu_path url = EMBEDDED_MODEL_API_PATH \<and> pu_query url = None \<and> pu_fragment url = None \<longrightarrow>
        pu_text (ce_set_path env url EMBEDDED_MODEL_API_PATH) = ''http://127.0.0.1:4174/api/inference/v1'')"

lemma facade_constants:
  "trim_end_slashes ''http://127.0.0.1:4174/api/inference/v1'' = DEFAULT_EMBEDDED_MODEL_API_BASE_URL"
  "trim DEFAULT_EMBEDDED_MODEL_API_BASE_URL = DEFAULT_EMBEDDED_MODEL_API_BASE_URL"
  "\<not> blank DEFAULT_EMBEDDED_MODEL_API_BASE_URL"
  "infer_healthz_url DEFAULT_EMBEDDED_MODEL_API_BASE_URL = FACADE_HEALTHZ_URL"
  "trim FACADE_HEALTHZ_URL = FACADE_HEALTHZ_URL" "\<not> blank FACADE_HEALTHZ_URL"
  "\<not> is_legacy_model_api_url DEFAULT_EMBEDDED_MODEL_API_BASE_URL" "\<not> is_legacy_model_api_url FACADE_HEALTHZ_URL"
  "trim_end_slashes DEFAULT_EMBEDDED_MODEL_API_BASE_URL = DEFAULT_EMBEDDED_MODEL_API_BASE_URL"
  by code_simp+

lemma facade_base_url:
  assumes "url_serialises env" "canonical_embedded_model_api_base_url env = Ok u"
  shows "u = DEFAULT_EMBEDDED_MODEL_API_BASE_URL"
  using assms facade_constants(1)
  by (auto simp: canonical_embedded_model_api_base_url_def validate_embedded_model_api_base_url_def facade_url_def url_serialises_def
    split: env_var.splits if_splits option.splits)

text \<open>An endpoint that is the facade, apart from its status.\<close>

definition facade_endpoint :: "model_endpoint \<Rightarrow> bool" where
  "facade_endpoint e \<longleftrightarrow>
     me_model_endpoint_id e = ''llm-local-openai-compatible'' \<and> me_model_kind e = KLlm \<and> me_endpoint_kind e = EpLocal \<and>
     me_provider_key e = ''openai_compatible'' \<and>
     metadata_string (me_metadata e) ''base_url'' = Some DEFAULT_EMBEDDED_MODEL_API_BASE_URL \<and>
     metadata_string (me_metadata e) ''healthz_url'' = Some FACADE_HEALTHZ_URL \<and> metadata_string (me_metadata e) ''api_key'' \<noteq> None \<and>
     metadata_string (me_metadata e) ''mock_text'' = None \<and> metadata_bool (me_metadata e) ''builtin'' \<and>
     metadata_bool (me_metadata e) ''api_key_configured'' \<and> metadata_bool (me_metadata e) ''semantic_router_embedded_facade''"

lemma builtin_metadata [simp]: "json_get (me_metadata (builtin_llm env)) ''builtin'' = Some (JBool True)"
  by (simp add: builtin_llm_def default_model_endpoints_def Let_def builtin_endpoint_def builtin_local_metadata_def jobj_def hm_get_def)

lemma builtin_is_local [simp]: "is_builtin_local_openai_endpoint (builtin_llm env)"
proof -
  have "eq_ignore_ascii_case ''openai_compatible'' ''openai_compatible''" by code_simp
  then show ?thesis
    by (simp add: is_builtin_local_openai_endpoint_def endpoint_uses_openai_compatible_api_def metadata_bool_def unwrap_or_def)
qed

lemma canonical_is_facade:
  assumes "url_serialises env" "canonical_embedded_semantic_router_endpoint env = Ok e"
  shows "facade_endpoint e"
proof -
  obtain key where k: "env_trimmed env CENTER_MODEL_API_TOKEN_ENV = Some key"
    and u: "canonical_embedded_model_api_base_url env = Ok DEFAULT_EMBEDDED_MODEL_API_BASE_URL"
    and e: "e = builtin_llm env\<lparr>me_metadata := facade_metadata DEFAULT_EMBEDDED_MODEL_API_BASE_URL key (me_metadata (builtin_llm env))\<rparr>"
    using assms facade_base_url [OF assms(1)]
    by (auto simp: canonical_embedded_semantic_router_endpoint_def and_then_def default_llm_endpoint split: sum.splits option.splits)
  have key: "\<not> blank key" using k by (auto simp: env_trimmed_def opt_filter_def blank_def split: option.splits if_splits)
  let ?m = "facade_metadata DEFAULT_EMBEDDED_MODEL_API_BASE_URL key (me_metadata (builtin_llm env))"
  have s: "json_get ?m ''base_url'' = Some (JStr DEFAULT_EMBEDDED_MODEL_API_BASE_URL)" "json_get ?m ''healthz_url'' = Some (JStr FACADE_HEALTHZ_URL)"
    "json_get ?m ''api_key'' = Some (JStr key)" "json_get ?m ''mock_text'' = None"
    using key facade_constants by (simp_all add: facade_metadata_def mock_keys_def)
  have b: "json_get ?m ''builtin'' = Some (JBool True)" "json_get ?m ''api_key_configured'' = Some (JBool True)"
    "json_get ?m ''semantic_router_embedded_facade'' = Some (JBool True)"
    by (simp_all add: facade_metadata_def mock_keys_def)
  show ?thesis
    unfolding facade_endpoint_def e using metadata_string_Some [OF s(1)] metadata_string_Some [OF s(2)] metadata_string_Some [OF s(3) key]
      metadata_string_None [OF s(4)] b facade_constants
    by (simp add: metadata_bool_def unwrap_or_def)
qed

lemma facade_is_builtin: "facade_endpoint e \<Longrightarrow> is_builtin_local_openai_endpoint e" "facade_endpoint e \<Longrightarrow> endpoint_uses_openai_compatible_api e"
proof -
  have "eq_ignore_ascii_case ''openai_compatible'' ''openai_compatible''" by code_simp
  then show "facade_endpoint e \<Longrightarrow> is_builtin_local_openai_endpoint e" "facade_endpoint e \<Longrightarrow> endpoint_uses_openai_compatible_api e"
    by (simp_all add: facade_endpoint_def is_builtin_local_openai_endpoint_def endpoint_uses_openai_compatible_api_def)
qed

lemma migrate_url_id: "metadata_string m k = Some v \<Longrightarrow> \<not> is_legacy_model_api_url v \<Longrightarrow> migrate_url k r m = m"
  by (simp add: migrate_url_def metadata_missing_or_empty_def Let_def)

lemma overlay_facade:
  assumes "facade_endpoint e"
  shows "facade_endpoint (overlay_endpoint d runtime e)" "me_metadata (overlay_endpoint d runtime e) = me_metadata e"
proof -
  obtain key where key: "metadata_string (me_metadata e) ''api_key'' = Some key" using assms by (auto simp: facade_endpoint_def)
  show m: "me_metadata (overlay_endpoint d runtime e) = me_metadata e"
    using assms key facade_constants by (simp add: overlay_endpoint_def facade_endpoint_def migrate_url_id metadata_missing_or_empty_def Let_def)
  show "facade_endpoint (overlay_endpoint d runtime e)"
    using assms m by (simp add: facade_endpoint_def) (simp add: overlay_endpoint_def Let_def)
qed

lemma overlays_facade:
  assumes "facade_endpoint e" "x \<in> set (overlay_endpoints_with_runtime_truth env runtime [e])"
  shows "facade_endpoint x"
  using assms overlay_facade(1) by (auto simp: overlay_endpoints_with_runtime_truth_def split: option.splits if_splits)

section \<open>A world that only has the facade\<close>

definition facade_health :: "'w center_world \<Rightarrow> 'w center_world" where
  "facade_health cw = cw\<lparr>cw_health := (\<lambda>no_redirects url w.
     if no_redirects \<and> url = FACADE_HEALTHZ_URL then cw_health cw no_redirects url w else (None, w))\<rparr>"

definition facade_only :: "('w, 'v) run_env \<Rightarrow> ('w, 'v) run_env" where
  "facade_only ru = ru\<lparr>ru_center := facade_health (ru_center ru),
     ru_complete := (\<lambda>config no_redirects q w.
       if oc_base_url config = DEFAULT_EMBEDDED_MODEL_API_BASE_URL \<and> no_redirects then ru_complete ru config no_redirects q w
       else (Err ''refused'', w))\<rparr>"

lemma facade_only_selectors [simp]:
  "ru_env (facade_only ru) = ru_env ru" "ru_center (facade_only ru) = facade_health (ru_center ru)" "ru_client (facade_only ru) = ru_client ru"
  "ru_acquire (facade_only ru) = ru_acquire ru" "ru_release (facade_only ru) = ru_release ru"
  "oc_base_url config = DEFAULT_EMBEDDED_MODEL_API_BASE_URL \<Longrightarrow> ru_complete (facade_only ru) config True = ru_complete ru config True"
  by (simp_all add: facade_only_def)

lemma probe_facade:
  assumes "facade_endpoint e"
  shows "probe_local_runtime env (facade_health cw) [e] s = probe_local_runtime env cw [e] s"
proof -
  have "\<exists>t. resolve_local_runtime_probe_target env [e] = Some t \<and> pt_healthz_url t = FACADE_HEALTHZ_URL \<and> pt_redirects_disabled t"
    using assms facade_is_builtin(1) [OF assms] facade_constants
    by (simp add: resolve_local_runtime_probe_target_def facade_endpoint_def or_else_def opt_filter_def unwrap_or_def Let_def)
  then obtain t where t: "resolve_local_runtime_probe_target env [e] = Some t" "pt_healthz_url t = FACADE_HEALTHZ_URL" "pt_redirects_disabled t"
    by blast
  have "probe_local_runtime_target (facade_health cw) t = probe_local_runtime_target cw t"
    using t(2,3) by (intro ext) (simp add: probe_local_runtime_target_def facade_health_def Let_def)
  moreover have "cw_now (facade_health cw) = cw_now cw" by (simp add: facade_health_def)
  ultimately show ?thesis by (simp add: probe_local_runtime_def t(1) split: option.split prod.split)
qed

lemma run_on_facade:
  assumes "facade_endpoint e"
  shows "run_llm_text_on_endpoint (facade_only ru) prompt options e = run_llm_text_on_endpoint ru prompt options e"
proof
  fix w
  have c: "oc_base_url config = DEFAULT_EMBEDDED_MODEL_API_BASE_URL" if "openai_compatible_config_from_endpoint e = Some config" for config
    using that assms facade_constants
    by (auto simp: openai_compatible_config_from_endpoint_def facade_endpoint_def Let_def split: if_splits)
  have l: "with_endpoint_lease (facade_only ru) e k busy body w = with_endpoint_lease ru e k busy body w"
    for k and busy :: "ai_lease_error \<Rightarrow> llm_text_execution" and body
    by (simp add: with_endpoint_lease_def split: prod.split sum.split)
  show "run_llm_text_on_endpoint (facade_only ru) prompt options e w = run_llm_text_on_endpoint ru prompt options e w"
    using assms c by (simp add: run_llm_text_on_endpoint_def l facade_endpoint_def split: option.split sum.split)
qed

lemma llm_attempts_cong:
  "(\<And>e. e \<in> set es \<Longrightarrow> run e = run' e) \<Longrightarrow> llm_attempts run p i es l w = llm_attempts run' p i es l w"
  by (induction es arbitrary: l w) (auto simp: Let_def split: prod.split)

lemma router_candidates_facade:
  assumes "url_serialises env" "semantic_router_topology_of env = Ok TopoEmbedded" "llm_route_policy_id options = SEMANTIC_ROUTER_POLICY_ID"
  shows "llm_candidates env (facade_health cw) state options s = llm_candidates env cw state options s"
    "llm_candidates env cw state options s = (Ok cs, s') \<Longrightarrow> e \<in> set cs \<Longrightarrow> facade_endpoint e"
proof -
  have endpoints: "\<exists>c. am_endpoints l = [c] \<and> facade_endpoint c" if "semantic_router_local_only_model_state env state = Ok l" for l
    using that assms(2) canonical_is_facade [OF assms(1)]
    by (auto simp: semantic_router_local_only_model_state_def and_then_def Let_def split: sum.splits)
  show "llm_candidates env (facade_health cw) state options s = llm_candidates env cw state options s"
  proof (cases "semantic_router_local_only_model_state env state")
    case (Inr l)
    then obtain c where c: "am_endpoints l = [c]" "facade_endpoint c" using endpoints by blast
    show ?thesis
      using Inr assms(3) c probe_facade [OF c(2), of env cw s]
      by (simp add: llm_candidates_def resolve_endpoint_candidates_def runtime_wired_model_center_state_def)
  qed (simp add: llm_candidates_def assms(3))
  assume h: "llm_candidates env cw state options s = (Ok cs, s')" "e \<in> set cs"
  then obtain l where l: "semantic_router_local_only_model_state env state = Ok l"
    using assms(3) by (auto simp: llm_candidates_def split: sum.splits)
  then obtain c where c: "am_endpoints l = [c]" "facade_endpoint c" using endpoints by blast
  show "facade_endpoint e"
    using h l c assms(3) overlays_facade [OF c(2)]
    by (auto simp: llm_candidates_def resolve_endpoint_candidates_def runtime_wired_model_center_state_def wired_candidate_iff split: prod.splits)
qed

text \<open>
  C10. The embedded semantic router reaches the hub's own facade and nothing else: with a world in which text completions are
  refused unless they go to the facade on port 4174 of the loopback address without following redirects, and health probes
  unless they go to its health page, a request to the router gives the same result and has the same effects as with the real world,
  whatever endpoints, URLs, mock answers and policies are stored.
\<close>

theorem embedded_router_reaches_only_facade:
  assumes "url_serialises (ru_env ru)" "semantic_router_topology_of (ru_env ru) = Ok TopoEmbedded"
    "llm_route_policy_id options = SEMANTIC_ROUTER_POLICY_ID"
  shows "run_llm_text_with_state_and_options (facade_only ru) prompt state options s =
    run_llm_text_with_state_and_options ru prompt state options s"
proof -
  obtain res s' where c: "llm_candidates (ru_env ru) (ru_center ru) state options s = (res, s')" by (meson surj_pair)
  have c': "llm_candidates (ru_env ru) (facade_health (ru_center ru)) state options s = (res, s')"
    by (rule trans [OF router_candidates_facade(1) [OF assms] c])
  show ?thesis
  proof (cases res)
    case (Inr cs)
    have "run_llm_text_on_endpoint (facade_only ru) prompt options e = run_llm_text_on_endpoint ru prompt options e" if "e \<in> set cs" for e
      using run_on_facade router_candidates_facade(2) [OF assms, of "ru_center ru" state s cs s' e] c Inr that by simp
    then have "llm_attempts (run_llm_text_on_endpoint (facade_only ru) prompt options) p i cs l w =
        llm_attempts (run_llm_text_on_endpoint ru prompt options) p i cs l w" for p i l w
      by (rule llm_attempts_cong)
    then show ?thesis
      using Inr by (cases cs) (simp_all add: run_llm_text_with_state_and_options_def c c' Let_def del: llm_attempts.simps)
  qed (simp add: run_llm_text_with_state_and_options_def c c' Let_def)
qed

text \<open>A hub with the default settings, a token, and a facade that counts the completions it gives.\<close>

definition facade_parts :: http_url where
  "facade_parts = \<lparr>pu_scheme = ''http'', pu_host = Some ''127.0.0.1'', pu_port_or_known_default = Some 4174, pu_username = [], pu_password = None,
     pu_path = EMBEDDED_MODEL_API_PATH, pu_query = None, pu_fragment = None, pu_text = DEFAULT_EMBEDDED_MODEL_API_BASE_URL\<rparr>"

definition sample_center :: center_env where
  "sample_center = \<lparr>ce_var = (\<lambda>k. if k = CENTER_MODEL_API_TOKEN_ENV then Present ''t0ken'' else NotPresent),
     ce_parse_url = (\<lambda>u. if u = DEFAULT_EMBEDDED_MODEL_API_BASE_URL then Some facade_parts else None),
     ce_set_path = (\<lambda>url p. url\<lparr>pu_text := DEFAULT_EMBEDDED_MODEL_API_BASE_URL\<rparr>)\<rparr>"

definition sample_run :: "(nat, nat) run_env" where
  "sample_run = \<lparr>ru_env = sample_center, ru_center = \<lparr>cw_now = (\<lambda>_. 0), cw_health = (\<lambda>_ _ w. (None, w))\<rparr>, ru_client = (\<lambda>_. Ok ()),
     ru_complete = (\<lambda>_ _ _ w. (Ok (''yes'', JNull), w + 1)), ru_describe = (\<lambda>_ _ w. (Err [], w)), ru_verify_cat = (\<lambda>_ _ w. (Err [], w)),
     ru_embed = (\<lambda>_ _ _ w. (Err [], w)), ru_rerank = (\<lambda>_ _ w. (Err [], w)), ru_mock_embedding = (\<lambda>_ _. None), ru_mock_scores = (\<lambda>_ _. None),
     ru_acquire = (\<lambda>_ w. (Ok (), w)), ru_release = (\<lambda>_ w. w), ru_image_data_url = (\<lambda>_ _. Err []), ru_path_exists = (\<lambda>_ _. False),
     ru_which_tesseract = (\<lambda>_. None), ru_command = (\<lambda>_ _ w. (Err [], w))\<rparr>"

definition sample_state :: admin_model_center_state where
  "sample_state = \<lparr>am_endpoints = [], am_route_policies = [], am_model_store_root = [], am_capability_bindings = [], am_runtimes = []\<rparr>"

definition router_options :: llm_text_options where
  "router_options = default_llm_options\<lparr>lo_purpose := Some ''router''\<rparr>"

lemma sample_serialises: "url_serialises sample_center"
  by (simp add: url_serialises_def sample_center_def DEFAULT_EMBEDDED_MODEL_API_BASE_URL_def)

theorem embedded_router_reaches_only_facade_witness:
  "run_llm_text_with_state_and_options (facade_only sample_run) ''hello'' sample_state router_options (None, 0) =
     run_llm_text_with_state_and_options sample_run ''hello'' sample_state router_options (None, 0) \<and>
   is_ok (semantic_router_local_only_model_state sample_center sample_state) \<and>
   map me_model_endpoint_id (wired_candidates (projr (semantic_router_local_only_model_state sample_center sample_state)) KLlm SEMANTIC_ROUTER_POLICY_ID) =
     [''llm-local-openai-compatible'']"
proof (intro conjI)
  have "ru_env sample_run = sample_center" by (simp add: sample_run_def)
  moreover have "semantic_router_topology_of sample_center = Ok TopoEmbedded" by code_simp
  moreover have "llm_route_policy_id router_options = SEMANTIC_ROUTER_POLICY_ID" by code_simp
  ultimately show "run_llm_text_with_state_and_options (facade_only sample_run) ''hello'' sample_state router_options (None, 0) =
     run_llm_text_with_state_and_options sample_run ''hello'' sample_state router_options (None, 0)"
    using embedded_router_reaches_only_facade [of sample_run router_options "''hello''" sample_state "(None, 0)"] sample_serialises by simp
  show "is_ok (semantic_router_local_only_model_state sample_center sample_state)" by code_simp
  show "map me_model_endpoint_id (wired_candidates (projr (semantic_router_local_only_model_state sample_center sample_state)) KLlm SEMANTIC_ROUTER_POLICY_ID) =
     [''llm-local-openai-compatible'']" by code_simp
qed

end

