(* ===== verification/Model_Settings.thy ===== *)
theory Model_Settings
  imports Model_Center
begin

text \<open>
  The model settings of the admin console (\<^verbatim>\<open>src/src/runtime/admin_console.rs\<close>): sanitising of endpoints, route policies, runtimes and
  capability bindings, the operations that save and patch them, and the download jobs. \<open>loaded\<close> is what was read from the
  admin state, or the error; \<open>save\<close> writes the changed part back. The clock and new identifiers are arguments.
\<close>

section \<open>Endpoints\<close>

definition normalize_json_object :: "json \<Rightarrow> json" where
  "normalize_json_object v = (case v of JObj m \<Rightarrow> v | _ \<Rightarrow> jobj [])"

definition optional_trimmed_string :: "json \<Rightarrow> string option" where
  "optional_trimmed_string v = opt_filter (\<lambda>s. s \<noteq> []) (map_option trim (as_str v))"

definition string_value_or_empty :: "json \<Rightarrow> string" where
  "string_value_or_empty v = unwrap_or (optional_trimmed_string v) []"

definition zh_patch_not_object :: string where
  "zh_patch_not_object =
     [CHR 0x6D, CHR 0x65, CHR 0x74, CHR 0x61, CHR 0x64, CHR 0x61, CHR 0x74, CHR 0x61, CHR 0x20, CHR 0x70, CHR 0x61,
      CHR 0x74, CHR 0x63, CHR 0x68, CHR 0x20, CHR 0xE5, CHR 0xBF, CHR 0x85, CHR 0xE9, CHR 0xA1, CHR 0xBB, CHR 0xE6,
      CHR 0x98, CHR 0xAF, CHR 0x20, CHR 0x4A, CHR 0x53, CHR 0x4F, CHR 0x4E, CHR 0x20, CHR 0x6F, CHR 0x62, CHR 0x6A,
      CHR 0x65, CHR 0x63, CHR 0x74]"


definition merge_json_object :: "json \<Rightarrow> json \<Rightarrow> string + json" where
  "merge_json_object existing patch =
     (case patch of
        JNull \<Rightarrow> Ok (jobj [])
      | JObj pm \<Rightarrow> Ok (JObj (fold (\<lambda>kv. bm_insert (fst kv) (snd kv)) pm (as_members existing)))
      | _ \<Rightarrow> Err zh_patch_not_object)"

fun collapse_dashes :: "string \<Rightarrow> string" where
  "collapse_dashes (c # d # cs) = (if c = CHR ''-'' \<and> d = CHR ''-'' then collapse_dashes (d # cs) else c # collapse_dashes (d # cs))"
| "collapse_dashes cs = cs"

definition trim_dashes :: "string \<Rightarrow> string" where
  "trim_dashes s = rev (dropWhile (\<lambda>c. c = CHR ''-'') (rev (dropWhile (\<lambda>c. c = CHR ''-'') s)))"

text \<open>Replacing double dashes until there are none leaves one dash for each run of them.\<close>

definition slugify_identity_component :: "string \<Rightarrow> string" where
  "slugify_identity_component v =
     trim_dashes (collapse_dashes (List.map_filter (\<lambda>c. if is_ascii_alphanumeric c then Some (ascii_lower c)
       else if c \<in> {CHR ''-'', CHR ''_'', CHR ''.''} then Some (CHR ''-'') else None) (trim v)))"

definition set_model_endpoint_metadata_string :: "string \<Rightarrow> string \<Rightarrow> json \<Rightarrow> json" where
  "set_model_endpoint_metadata_string key v metadata = (case metadata of JObj m \<Rightarrow> JObj (bm_insert key (JStr v) m) | _ \<Rightarrow> metadata)"

definition set_model_endpoint_metadata_bool :: "string \<Rightarrow> bool \<Rightarrow> json \<Rightarrow> json" where
  "set_model_endpoint_metadata_bool key v metadata = (case metadata of JObj m \<Rightarrow> JObj (bm_insert key (JBool v) m) | _ \<Rightarrow> metadata)"

definition ensure_model_endpoint_tag :: "string \<Rightarrow> string list \<Rightarrow> string list" where
  "ensure_model_endpoint_tag tag tags = (if tag \<in> set tags then tags else sort_dedup (tags @ [tag]))"

definition model_api_endpoint_ids :: "string list" where
  "model_api_endpoint_ids = [''embed-local-openai-compatible'', ''rerank-local-compatible'', ''llm-local-openai-compatible'', ''vlm-local-openai-compatible'']"

text \<open>The URLs of an endpoint that still names the standalone model service are replaced by those of the default endpoint.\<close>

definition migrate_legacy_urls :: "model_endpoint \<Rightarrow> json \<Rightarrow> json" where
  "migrate_legacy_urls default_endpoint metadata =
     (let legacy = (\<lambda>key. opt_filter is_legacy_model_api_url (metadata_string metadata key));
          legacy_base_url = legacy ''base_url''; legacy_healthz_url = legacy ''healthz_url'';
          set_opt = (\<lambda>key v m. case v of None \<Rightarrow> m | Some s \<Rightarrow> set_model_endpoint_metadata_string key s m)
      in if legacy_base_url = None \<and> legacy_healthz_url = None then metadata
         else set_opt ''legacy_model_api_migrated_from_healthz_url'' legacy_healthz_url
           (set_opt ''legacy_model_api_migrated_from_base_url'' legacy_base_url
           (set_model_endpoint_metadata_string ''legacy_model_api_migrated_reason''
              ''4176 standalone model API is not part of the release inference path''
           (set_model_endpoint_metadata_bool ''legacy_model_api_migrated'' True
           (set_opt ''healthz_url'' (metadata_string (me_metadata default_endpoint) ''healthz_url'')
           (set_opt ''base_url'' (metadata_string (me_metadata default_endpoint) ''base_url'') metadata))))))"

definition normalize_builtin_local_model_api_endpoint :: "center_env \<Rightarrow> model_endpoint \<Rightarrow> model_endpoint" where
  "normalize_builtin_local_model_api_endpoint env e =
     (if me_model_endpoint_id e \<notin> set model_api_endpoint_ids \<or> \<not> metadata_bool (me_metadata e) ''builtin'' then e
      else case find (\<lambda>d. me_model_endpoint_id d = me_model_endpoint_id e) (default_model_endpoints env) of
          None \<Rightarrow> e
        | Some d \<Rightarrow>
            let api_key = unwrap_or (Option.bind (json_get (me_metadata d) ''api_key'') as_str) [];
                m1 = set_model_endpoint_metadata_bool ''api_key_required'' True
                  (set_model_endpoint_metadata_bool ''api_key_configured'' (metadata_bool (me_metadata d) ''api_key_configured'')
                  (set_model_endpoint_metadata_string ''api_key'' api_key (me_metadata e)));
                e1 = (if me_model_endpoint_id e = ''llm-local-openai-compatible''
                  then e\<lparr>me_capability_tags := ensure_model_endpoint_tag ''semantic_router'' (ensure_model_endpoint_tag ''k3_nsp''
                           (ensure_model_endpoint_tag ''assistant_input_parser'' (me_capability_tags e))),
                         me_metadata := set_model_endpoint_metadata_bool ''cloud_fallback_allowed'' False
                           (set_model_endpoint_metadata_bool ''local_only'' True (set_model_endpoint_metadata_bool ''semantic_router'' True m1))\<rparr>
                  else e\<lparr>me_metadata := m1\<rparr>)
            in e1\<lparr>me_metadata := migrate_legacy_urls d (me_metadata e1)\<rparr>)"

definition align_embedding_endpoint_identity_with_runtime :: "model_endpoint \<Rightarrow> model_endpoint" where
  "align_embedding_endpoint_identity_with_runtime e =
     (if me_model_endpoint_id e \<noteq> ''embed-local-openai-compatible'' \<or> me_model_kind e \<noteq> KEmbedder \<or> \<not> metadata_bool (me_metadata e) ''runtime_ready''
      then e
      else case (metadata_string (me_metadata e) ''runtime_model_id'', metadata_string (me_metadata e) ''runtime_embedding_model'',
          metadata_string (me_metadata e) ''model'') of
          (Some runtime_model_id, Some runtime_embedding_model, Some served_model) \<Rightarrow>
            (let normalized = to_ascii_lowercase runtime_model_id;
                 provider = (if str_contains normalized ''qwen'' then Some ''qwen'' else if str_contains normalized ''bge'' then Some ''bge''
                   else if str_contains normalized ''jina'' then Some ''jina'' else None)
             in if runtime_model_id \<noteq> runtime_embedding_model \<or> runtime_model_id \<noteq> served_model then e
                else case provider of None \<Rightarrow> e
                  | Some provider_key \<Rightarrow> e\<lparr>me_provider_key := provider_key, me_model_name := runtime_model_id,
                      me_metadata := fold (\<lambda>key. set_model_endpoint_metadata_string key runtime_model_id)
                        [''catalog_model_id'', ''model'', ''runtime_model_id'', ''runtime_embedding_model''] (me_metadata e)\<rparr>)
        | _ \<Rightarrow> e)"

definition zh_not_be_empty :: string where
  "zh_not_be_empty =
     [CHR 0x20, CHR 0xE4, CHR 0xB8, CHR 0x8D, CHR 0xE8, CHR 0x83, CHR 0xBD, CHR 0xE4, CHR 0xB8, CHR 0xBA, CHR 0xE7,
      CHR 0xA9, CHR 0xBA]"


definition sanitize_model_endpoint :: "center_env \<Rightarrow> model_endpoint \<Rightarrow> string + model_endpoint" where
  "sanitize_model_endpoint env e =
     (let given = trim (me_model_endpoint_id e);
          i = (if given = [] then trim_dashes (model_kind_as_str (me_model_kind e) @ ''-'' @ slugify_identity_component (me_provider_key e)
            @ ''-'' @ slugify_identity_component (me_model_name e)) else given);
          provider = trim (me_provider_key e); provider' = (if provider = [] then ''custom'' else provider); name = trim (me_model_name e)
      in if i = [] then Err (''model_endpoint_id'' @ zh_not_be_empty)
         else Ok (align_embedding_endpoint_identity_with_runtime (normalize_builtin_local_model_api_endpoint env
           (e\<lparr>me_model_endpoint_id := i, me_workspace_id := Option.bind (me_workspace_id e) non_empty_opt,
              me_provider_account_id := Option.bind (me_provider_account_id e) non_empty_opt, me_provider_key := provider',
              me_model_name := (if name = [] then provider' else name),
              me_capability_tags := sort_dedup (filter (\<lambda>v. v \<noteq> []) (map trim (me_capability_tags e))),
              me_cost_policy := normalize_json_object (me_cost_policy e), me_metadata := normalize_json_object (me_metadata e)\<rparr>))))"

definition secret_keys :: "string list" where
  "secret_keys = [''api_key'', ''token'', ''secret'', ''password'', ''authorization'', ''bearer_token'']"

definition preserve_secret :: "(string \<times> json) list \<Rightarrow> string \<Rightarrow> (string \<times> json) list \<Rightarrow> (string \<times> json) list" where
  "preserve_secret existing key incoming =
     (let incoming_value = unwrap_or (map_option trim (Option.bind (hm_get incoming key) as_str)) [] in
      case opt_filter (\<lambda>v. v \<noteq> []) (map_option trim (Option.bind (hm_get existing key) as_str)) of
        None \<Rightarrow> incoming
      | Some v \<Rightarrow> if incoming_value = [] then bm_insert (key @ ''_configured'') (JBool True) (bm_insert key (JStr v) incoming) else incoming)"

definition preserve_model_endpoint_secret_metadata :: "json \<Rightarrow> json \<Rightarrow> json" where
  "preserve_model_endpoint_secret_metadata existing incoming =
     (case existing of
        JObj existing_metadata \<Rightarrow> JObj (fold (preserve_secret existing_metadata) secret_keys (as_members incoming))
      | _ \<Rightarrow> incoming)"

definition same_endpoint :: "string \<Rightarrow> model_endpoint \<Rightarrow> bool" where
  "same_endpoint i e \<longleftrightarrow> me_model_endpoint_id e = i"

definition store_endpoint :: "model_endpoint \<Rightarrow> model_endpoint list \<Rightarrow> model_endpoint list" where
  "store_endpoint e endpoints =
     vec_upsert me_model_endpoint_id (me_model_endpoint_id e)
       (\<lambda>existing. e\<lparr>me_metadata := preserve_model_endpoint_secret_metadata (me_metadata existing) (me_metadata e)\<rparr>) e endpoints"

type_synonym model_loader = "string + admin_model_center_state"
type_synonym model_saver = "admin_model_center_state \<Rightarrow> string + admin_model_center_state"

definition save_model_endpoint :: "center_env \<Rightarrow> model_loader \<Rightarrow> model_saver \<Rightarrow> model_endpoint \<Rightarrow> string + admin_model_center_state" where
  "save_model_endpoint env loaded save endpoint =
     and_then loaded (\<lambda>state.
     and_then (sanitize_model_endpoint env endpoint) (\<lambda>e.
       save (state\<lparr>am_endpoints := store_endpoint e (am_endpoints state)\<rparr>)))"

definition zh_endpoint_id_empty :: string where
  "zh_endpoint_id_empty =
     [CHR 0x6D, CHR 0x6F, CHR 0x64, CHR 0x65, CHR 0x6C, CHR 0x20, CHR 0x65, CHR 0x6E, CHR 0x64, CHR 0x70, CHR 0x6F,
      CHR 0x69, CHR 0x6E, CHR 0x74, CHR 0x20, CHR 0x69, CHR 0x64, CHR 0x20, CHR 0xE4, CHR 0xB8, CHR 0x8D, CHR 0xE8,
      CHR 0x83, CHR 0xBD, CHR 0xE4, CHR 0xB8, CHR 0xBA, CHR 0xE7, CHR 0xA9, CHR 0xBA]"

definition zh_endpoint_patch_not_object :: string where
  "zh_endpoint_patch_not_object =
     [CHR 0xE6, CHR 0xA8, CHR 0xA1, CHR 0xE5, CHR 0x9E, CHR 0x8B, CHR 0xE7, CHR 0xAB, CHR 0xAF, CHR 0xE7, CHR 0x82,
      CHR 0xB9, CHR 0x20, CHR 0x70, CHR 0x61, CHR 0x74, CHR 0x63, CHR 0x68, CHR 0x20, CHR 0xE5, CHR 0xBF, CHR 0x85,
      CHR 0xE9, CHR 0xA1, CHR 0xBB, CHR 0xE6, CHR 0x98, CHR 0xAF, CHR 0x20, CHR 0x4A, CHR 0x53, CHR 0x4F, CHR 0x4E,
      CHR 0x20, CHR 0x6F, CHR 0x62, CHR 0x6A, CHR 0x65, CHR 0x63, CHR 0x74]"

definition zh_endpoint_not_found :: string where
  "zh_endpoint_not_found =
     [CHR 0xE6, CHR 0x9C, CHR 0xAA, CHR 0xE6, CHR 0x89, CHR 0xBE, CHR 0xE5, CHR 0x88, CHR 0xB0, CHR 0xE6, CHR 0xA8,
      CHR 0xA1, CHR 0xE5, CHR 0x9E, CHR 0x8B, CHR 0xE7, CHR 0xAB, CHR 0xAF, CHR 0xE7, CHR 0x82, CHR 0xB9, CHR 0x20]"


text \<open>Conversion of JSON values to the enumerations is the work of the derived deserialisers.\<close>

record model_codec =
  mc_kind :: "json \<Rightarrow> string + model_kind"
  mc_endpoint_kind :: "json \<Rightarrow> string + model_endpoint_kind"
  mc_status :: "json \<Rightarrow> string + model_endpoint_status"

definition map_error :: "('e \<Rightarrow> 'f) \<Rightarrow> 'e + 'a \<Rightarrow> 'f + 'a" where
  "map_error f r = (case r of Inl e \<Rightarrow> Err (f e) | Inr v \<Rightarrow> Ok v)"

definition patch_member :: "json \<Rightarrow> string \<Rightarrow> (json \<Rightarrow> 's \<Rightarrow> string + 's) \<Rightarrow> 's \<Rightarrow> string + 's" where
  "patch_member patch key change s = (case json_get patch key of None \<Rightarrow> Ok s | Some v \<Rightarrow> change v s)"

definition patched_endpoint :: "model_codec \<Rightarrow> json \<Rightarrow> model_endpoint \<Rightarrow> string + model_endpoint" where
  "patched_endpoint codec patch e0 =
     and_then (patch_member patch ''workspace_id'' (\<lambda>v e. Ok (e\<lparr>me_workspace_id := optional_trimmed_string v\<rparr>)) e0) (\<lambda>e.
     and_then (patch_member patch ''provider_account_id'' (\<lambda>v e. Ok (e\<lparr>me_provider_account_id := optional_trimmed_string v\<rparr>)) e) (\<lambda>e.
     and_then (patch_member patch ''model_kind'' (\<lambda>v e. and_then (map_error (\<lambda>x. ''invalid model_kind: '' @ x) (mc_kind codec v)) (\<lambda>k.
       Ok (e\<lparr>me_model_kind := k\<rparr>))) e) (\<lambda>e.
     and_then (patch_member patch ''endpoint_kind'' (\<lambda>v e. and_then (map_error (\<lambda>x. ''invalid endpoint_kind: '' @ x) (mc_endpoint_kind codec v)) (\<lambda>k.
       Ok (e\<lparr>me_endpoint_kind := k\<rparr>))) e) (\<lambda>e.
     and_then (patch_member patch ''provider_key'' (\<lambda>v e. Ok (e\<lparr>me_provider_key := string_value_or_empty v\<rparr>)) e) (\<lambda>e.
     and_then (patch_member patch ''model_name'' (\<lambda>v e. Ok (e\<lparr>me_model_name := string_value_or_empty v\<rparr>)) e) (\<lambda>e.
     and_then (patch_member patch ''capability_tags'' (\<lambda>v e. Ok (e\<lparr>me_capability_tags := (case as_array v of None \<Rightarrow> []
       | Some vs \<Rightarrow> filter (\<lambda>s. s \<noteq> []) (map trim (List.map_filter as_str vs)))\<rparr>)) e) (\<lambda>e.
     and_then (patch_member patch ''cost_policy'' (\<lambda>v e. Ok (e\<lparr>me_cost_policy := v\<rparr>)) e) (\<lambda>e.
     and_then (patch_member patch ''status'' (\<lambda>v e. and_then (map_error (\<lambda>x. ''invalid status: '' @ x) (mc_status codec v)) (\<lambda>k.
       Ok (e\<lparr>me_status := k\<rparr>))) e) (\<lambda>e.
     patch_member patch ''metadata'' (\<lambda>v e. and_then (merge_json_object (me_metadata e) v) (\<lambda>m. Ok (e\<lparr>me_metadata := m\<rparr>))) e)))))))))"

text \<open>An operation on the endpoint with a given id.\<close>

definition change_model_endpoint ::
  "model_loader \<Rightarrow> model_saver \<Rightarrow> string \<Rightarrow> (model_endpoint \<Rightarrow> string + model_endpoint) \<Rightarrow> string + admin_model_center_state" where
  "change_model_endpoint loaded save endpoint_id change =
     and_then loaded (\<lambda>state.
       case find (same_endpoint endpoint_id) (am_endpoints state) of
         None \<Rightarrow> Err (zh_endpoint_not_found @ endpoint_id)
       | Some e \<Rightarrow> and_then (change e) (\<lambda>e'.
           save (state\<lparr>am_endpoints := update_first (same_endpoint endpoint_id) (\<lambda>_. e') (am_endpoints state)\<rparr>)))"

definition patch_model_endpoint ::
  "center_env \<Rightarrow> model_codec \<Rightarrow> model_loader \<Rightarrow> model_saver \<Rightarrow> string \<Rightarrow> json \<Rightarrow> string + admin_model_center_state" where
  "patch_model_endpoint env codec loaded save endpoint_id patch =
     (if blank endpoint_id then Err zh_endpoint_id_empty
      else if as_object patch = None then Err zh_endpoint_patch_not_object
      else change_model_endpoint loaded save (trim endpoint_id) (\<lambda>e.
        and_then (patched_endpoint codec patch e) (\<lambda>e'.
          sanitize_model_endpoint env (e'\<lparr>me_metadata := preserve_model_endpoint_secret_metadata (me_metadata e) (me_metadata e')\<rparr>))))"

definition tested_endpoint :: "string \<Rightarrow> bool \<Rightarrow> string \<Rightarrow> string \<Rightarrow> json \<Rightarrow> model_endpoint \<Rightarrow> model_endpoint" where
  "tested_endpoint now ok observed summary details e =
     (let status = (if observed = ''active'' \<and> me_status e \<noteq> EpDisabled then EpActive
            else if observed \<in> {''degraded'', ''disabled''} \<and> me_status e \<noteq> EpDisabled then EpDegraded else me_status e);
          report = jobj [(''ok'', JBool ok), (''status'', JStr observed), (''summary'', JStr (trim summary)), (''details'', details), (''tested_at'', JStr now)]
      in e\<lparr>me_status := status,
           me_metadata := JObj (bm_insert ''health_status'' (JStr observed) (bm_insert ''last_test'' report (as_members (me_metadata e))))\<rparr>)"

definition record_model_endpoint_test_result ::
  "center_env \<Rightarrow> string \<Rightarrow> model_loader \<Rightarrow> model_saver \<Rightarrow> string \<Rightarrow> bool \<Rightarrow> string \<Rightarrow> string \<Rightarrow> json \<Rightarrow> string + admin_model_center_state" where
  "record_model_endpoint_test_result env now loaded save endpoint_id ok observed_status summary details =
     (if blank endpoint_id then Err zh_endpoint_id_empty
      else change_model_endpoint loaded save (trim endpoint_id) (\<lambda>e.
        sanitize_model_endpoint env (tested_endpoint now ok (to_lowercase (trim observed_status)) summary details e)))"

section \<open>Route policies\<close>

definition trimmed_or :: "string \<Rightarrow> string \<Rightarrow> string" where
  "trimmed_or s d = (if blank s then d else trim s)"

definition sanitize_model_route_policy :: "model_route_policy \<Rightarrow> string + model_route_policy" where
  "sanitize_model_route_policy p =
     (let order = filter (\<lambda>v. v \<noteq> []) (map trim (mr_fallback_order p)) in
      if blank (mr_route_policy_id p) then Err (''route_policy_id'' @ zh_not_be_empty)
      else Ok (p\<lparr>mr_route_policy_id := trim (mr_route_policy_id p), mr_workspace_id := trimmed_or (mr_workspace_id p) ''home-1'',
        mr_domain_scope := trimmed_or (mr_domain_scope p) ''retrieval'', mr_modality := trimmed_or (mr_modality p) ''text'',
        mr_status := trimmed_or (mr_status p) ''active'',
        mr_fallback_order := (if order = [] then [''local'', ''sidecar'', ''cloud''] else order),
        mr_metadata := normalize_json_object (mr_metadata p)\<rparr>))"

definition builtin_policy :: "string \<Rightarrow> string \<Rightarrow> string \<Rightarrow> privacy_level \<Rightarrow> string list \<Rightarrow> string \<Rightarrow> (string \<times> json) list \<Rightarrow> model_route_policy" where
  "builtin_policy i scope modality privacy order status metadata =
     \<lparr>mr_route_policy_id = i, mr_workspace_id = ''home-1'', mr_domain_scope = scope, mr_modality = modality, mr_privacy_level = privacy,
      mr_local_preferred = True, mr_max_cost_per_run = None, mr_fallback_order = order, mr_status = status, mr_metadata = jobj metadata\<rparr>"

definition default_model_route_policies :: "model_route_policy list" where
  "default_model_route_policies =
     (let all = [''local'', ''sidecar'', ''cloud'']; on_site = [''local'', ''sidecar''];
          flags = [(''local_only'', JBool True), (''cloud_fallback_allowed'', JBool False)] in
      [builtin_policy ''retrieval.ocr'' ''retrieval'' ''image'' StrictLocal all ''active'' [(''capability'', JStr ''ocr'')],
       builtin_policy ''retrieval.embed'' ''retrieval'' ''text'' StrictLocal all ''active'' [(''capability'', JStr ''embed'')],
       builtin_policy ''retrieval.rerank'' ''retrieval'' ''text'' StrictLocal on_site ''active'' ((''capability'', JStr ''rerank'') # flags),
       builtin_policy ''semantic.router'' ''semantic'' ''text'' StrictLocal on_site ''active'' ((''capability'', JStr ''router'') # flags),
       builtin_policy ''retrieval.answer'' ''retrieval'' ''text'' AllowRedactedCloud all ''active'' [(''capability'', JStr ''answer'')],
       builtin_policy ''retrieval.vision_summary'' ''retrieval'' ''multimodal'' StrictLocal on_site ''degraded''
         [(''capability'', JStr ''vision_summary''), (''cloud_fallback'', JBool False)]])"

fun sanitize_policies :: "model_route_policy list \<Rightarrow> string + model_route_policy list" where
  "sanitize_policies [] = Ok []"
| "sanitize_policies (p # ps) = and_then (sanitize_model_route_policy p) (\<lambda>p'. and_then (sanitize_policies ps) (\<lambda>ps'. Ok (p' # ps')))"

definition save_model_route_policies :: "model_loader \<Rightarrow> model_saver \<Rightarrow> model_route_policy list \<Rightarrow> string + admin_model_center_state" where
  "save_model_route_policies loaded save policies =
     and_then loaded (\<lambda>state.
     and_then (if policies = [] then Ok default_model_route_policies else sanitize_policies policies) (\<lambda>ps.
       save (state\<lparr>am_route_policies := ps\<rparr>)))"

section \<open>Runtimes and bindings\<close>

definition builtin_runtime ::
  "string \<Rightarrow> string \<Rightarrow> string \<Rightarrow> string \<Rightarrow> bool \<Rightarrow> string list \<Rightarrow> string list \<Rightarrow> string option \<Rightarrow> string option \<Rightarrow> string \<Rightarrow> string \<Rightarrow> json \<Rightarrow> model_runtime_record" where
  "builtin_runtime i name kind status bundled capabilities profiles bind health store message metadata =
     \<lparr>mt_runtime_id = i, mt_display_name = name, mt_runtime_kind = kind, mt_provider_key = ''harbor'', mt_status = status, mt_managed = True,
      mt_installable = bundled, mt_enabled = bundled, mt_capabilities = capabilities, mt_runtime_profiles = profiles, mt_bind_url = bind,
      mt_healthz_url = health, mt_model_store_path = store, mt_message = message, mt_installed_at = None, mt_updated_at = None, mt_metadata = metadata\<rparr>"

definition model_runtime_store_path :: "string \<Rightarrow> string \<Rightarrow> string" where
  "model_runtime_store_path store_root runtime_id = path_join (path_join store_root ''runtimes'') runtime_id"

definition candle_metadata :: "(string \<times> json) list" where
  "candle_metadata = [(''install_mode'', JStr ''bundled_embedded_runtime''), (''owns_model_store'', JBool True), (''external_endpoint'', JBool False),
     (''default_enabled'', JBool True), (''lazy_load_models'', JBool True), (''bootstrap_model_id'', JStr ''Qwen/Qwen2.5-0.5B-Instruct'')]"

definition default_model_runtimes_for_store_root :: "center_env \<Rightarrow> string \<Rightarrow> model_runtime_record list" where
  "default_model_runtimes_for_store_root env store_root =
     (let base = local_model_api_base_url env; store = model_runtime_store_path store_root;
          slot = (\<lambda>mode. jobj [(''install_mode'', JStr mode), (''external_endpoint'', JBool False)]) in
      [builtin_runtime ''harbor-candle'' ''Harbor Candle Runtime'' ''embedded_candle'' ''idle'' True [''llm'', ''embedding'']
         [''harbor-candle'', ''harbor-model-api-candle''] (Some base) (Some (local_model_api_healthz_url base)) (store ''harbor-candle'')
         ''Harbor-managed Candle is enabled by default and lazy-loads Harbor-owned local models without using a user Ollama instance.''
         (jobj candle_metadata),
       builtin_runtime ''harbor-vlm-sidecar'' ''Harbor Vision Runtime'' ''managed_sidecar'' ''not_available'' False [''vlm''] [''harbor-vlm-sidecar'']
         None None (store ''harbor-vlm-sidecar'')
         ''Harbor Vision Runtime is reserved for managed VLM packages; use advanced OpenAI-compatible endpoint until the package is available.''
         (slot ''managed_sidecar_package''),
       builtin_runtime ''harbor-ocr-runtime'' ''Harbor OCR Runtime'' ''managed_system_tool'' ''not_available'' False [''ocr''] [''harbor-ocr-runtime'']
         None None (store ''harbor-ocr-runtime'') ''Harbor OCR Runtime slot is managed separately from custom OCR endpoints.''
         (slot ''managed_system_tool''),
       builtin_runtime ''harbor-asr-runtime'' ''Harbor Speech Runtime'' ''managed_sidecar'' ''not_available'' False [''asr''] [''harbor-asr-runtime'']
         None None (store ''harbor-asr-runtime'')
         ''Harbor Speech Runtime is reserved for managed ASR packages; use advanced external endpoints until available.''
         (slot ''managed_sidecar_package'')])"

definition default_runtime :: "center_env \<Rightarrow> string \<Rightarrow> string \<Rightarrow> model_runtime_record option" where
  "default_runtime env default_root runtime_id = find (\<lambda>r. mt_runtime_id r = runtime_id) (default_model_runtimes_for_store_root env default_root)"

definition runtime_capabilities_for_id :: "center_env \<Rightarrow> string \<Rightarrow> string \<Rightarrow> string list" where
  "runtime_capabilities_for_id env store_root i = (case default_runtime env store_root i of None \<Rightarrow> [] | Some r \<Rightarrow> mt_capabilities r)"

definition runtime_profiles_for_id :: "center_env \<Rightarrow> string \<Rightarrow> string \<Rightarrow> string list" where
  "runtime_profiles_for_id env store_root i = (case default_runtime env store_root i of None \<Rightarrow> [] | Some r \<Rightarrow> mt_runtime_profiles r)"

definition default_model_runtime_message :: "center_env \<Rightarrow> string \<Rightarrow> string \<Rightarrow> string \<Rightarrow> string" where
  "default_model_runtime_message env store_root i status = (case default_runtime env store_root i of None \<Rightarrow> ''runtime status: '' @ status | Some r \<Rightarrow> mt_message r)"

definition sanitize_string_list :: "string list \<Rightarrow> string list" where
  "sanitize_string_list vs = fold (\<lambda>v out. if v \<noteq> [] \<and> v \<notin> set out then out @ [v] else out) (map trim vs) []"

definition or_insert_all :: "(string \<times> json) list \<Rightarrow> json \<Rightarrow> json" where
  "or_insert_all kvs v = (case v of JObj m \<Rightarrow> JObj (fold (\<lambda>kv. or_insert (fst kv) (snd kv)) kvs m) | _ \<Rightarrow> v)"

text \<open>\<open>default_root\<close> is the default model store, from the environment.\<close>

definition sanitize_model_runtime :: "center_env \<Rightarrow> string \<Rightarrow> string \<Rightarrow> model_runtime_record \<Rightarrow> string + model_runtime_record" where
  "sanitize_model_runtime env default_root store_root r =
     (let i = trim (mt_runtime_id r);
          status = unwrap_or (non_empty_opt (mt_status r)) ''not_installed'';
          caps = sanitize_string_list (mt_capabilities r); profiles = sanitize_string_list (mt_runtime_profiles r);
          r1 = r\<lparr>mt_runtime_id := i, mt_display_name := unwrap_or (non_empty_opt (mt_display_name r)) (replace_char i (CHR ''-'') '' ''),
            mt_runtime_kind := unwrap_or (non_empty_opt (mt_runtime_kind r)) ''managed_runtime'',
            mt_provider_key := unwrap_or (non_empty_opt (mt_provider_key r)) ''harbor'', mt_status := status,
            mt_capabilities := (if caps = [] then runtime_capabilities_for_id env default_root i else caps),
            mt_runtime_profiles := (if profiles = [] then runtime_profiles_for_id env default_root i else profiles),
            mt_bind_url := Option.bind (mt_bind_url r) non_empty_opt, mt_healthz_url := Option.bind (mt_healthz_url r) non_empty_opt,
            mt_model_store_path := unwrap_or (non_empty_opt (mt_model_store_path r)) (model_runtime_store_path store_root i),
            mt_message := unwrap_or (non_empty_opt (mt_message r)) (default_model_runtime_message env default_root i status),
            mt_installed_at := Option.bind (mt_installed_at r) non_empty_opt, mt_updated_at := Option.bind (mt_updated_at r) non_empty_opt,
            mt_metadata := normalize_json_object (mt_metadata r)\<rparr>
      in if i = [] then Err (''runtime_id'' @ zh_not_be_empty)
         else if i = ''harbor-candle'' then Ok (r1\<lparr>mt_enabled := True, mt_status := (if status = ''not_installed'' then ''idle'' else status),
           mt_metadata := or_insert_all candle_metadata (mt_metadata r1)\<rparr>)
         else Ok r1)"

definition save_model_runtime ::
  "center_env \<Rightarrow> string \<Rightarrow> model_loader \<Rightarrow> model_saver \<Rightarrow> model_runtime_record \<Rightarrow> string + admin_model_center_state" where
  "save_model_runtime env default_root loaded save runtime =
     and_then loaded (\<lambda>state.
     and_then (sanitize_model_runtime env default_root (am_model_store_root state) runtime) (\<lambda>r.
       save (state\<lparr>am_runtimes := vec_upsert mt_runtime_id (mt_runtime_id r) (\<lambda>_. r) r (am_runtimes state)\<rparr>)))"

definition zh_runtime_not_found :: string where
  "zh_runtime_not_found =
     [CHR 0xE6, CHR 0x9C, CHR 0xAA, CHR 0xE6, CHR 0x89, CHR 0xBE, CHR 0xE5, CHR 0x88, CHR 0xB0, CHR 0x20, CHR 0x72,
      CHR 0x75, CHR 0x6E, CHR 0x74, CHR 0x69, CHR 0x6D, CHR 0x65, CHR 0x20]"

definition zh_not_managed :: string where
  "zh_not_managed =
     [CHR 0x20, CHR 0xE4, CHR 0xB8, CHR 0x8D, CHR 0xE6, CHR 0x98, CHR 0xAF, CHR 0x20, CHR 0x48, CHR 0x61, CHR 0x72,
      CHR 0x62, CHR 0x6F, CHR 0x72, CHR 0x2D, CHR 0x6D, CHR 0x61, CHR 0x6E, CHR 0x61, CHR 0x67, CHR 0x65, CHR 0x64,
      CHR 0x20, CHR 0x72, CHR 0x75, CHR 0x6E, CHR 0x74, CHR 0x69, CHR 0x6D, CHR 0x65]"

definition zh_not_installable :: string where
  "zh_not_installable =
     [CHR 0x20, CHR 0xE5, CHR 0xBD, CHR 0x93, CHR 0xE5, CHR 0x89, CHR 0x8D, CHR 0xE5, CHR 0x8C, CHR 0x85, CHR 0xE6,
      CHR 0x9C, CHR 0xAA, CHR 0xE6, CHR 0x8F, CHR 0x90, CHR 0xE4, CHR 0xBE, CHR 0x9B, CHR 0xE4, CHR 0xB8, CHR 0x80,
      CHR 0xE9, CHR 0x94, CHR 0xAE, CHR 0xE5, CHR 0xAE, CHR 0x89, CHR 0xE8, CHR 0xA3, CHR 0x85]"

definition zh_enabled_by_assistant :: string where
  "zh_enabled_by_assistant =
     [CHR 0x20, CHR 0xE5, CHR 0xB7, CHR 0xB2, CHR 0xE7, CHR 0x94, CHR 0xB1, CHR 0x20, CHR 0x48, CHR 0x61, CHR 0x72,
      CHR 0x62, CHR 0x6F, CHR 0x72, CHR 0x20, CHR 0x41, CHR 0x73, CHR 0x73, CHR 0x69, CHR 0x73, CHR 0x74, CHR 0x61,
      CHR 0x6E, CHR 0x74, CHR 0x20, CHR 0xE5, CHR 0x90, CHR 0xAF, CHR 0xE7, CHR 0x94, CHR 0xA8, CHR 0xE3, CHR 0x80,
      CHR 0x82]"


definition install_model_runtime ::
  "center_env \<Rightarrow> string \<Rightarrow> string \<Rightarrow> model_loader \<Rightarrow> model_saver \<Rightarrow> string \<Rightarrow> string + model_runtime_record" where
  "install_model_runtime env default_root now loaded save runtime_id =
     (case non_empty_opt runtime_id of
        None \<Rightarrow> Err (''runtime_id'' @ zh_not_be_empty)
      | Some i \<Rightarrow> and_then loaded (\<lambda>state.
          case find (\<lambda>r. mt_runtime_id r = i) (am_runtimes state) of
            None \<Rightarrow> Err (zh_runtime_not_found @ i)
          | Some r \<Rightarrow>
              if \<not> mt_managed r then Err (''runtime '' @ mt_display_name r @ zh_not_managed)
              else if \<not> mt_installable r then Err (''runtime '' @ mt_display_name r @ zh_not_installable)
              else let r' = r\<lparr>mt_status := ''installed'', mt_enabled := True, mt_installed_at := or_else (mt_installed_at r) (Some now),
                     mt_updated_at := Some now, mt_message := mt_display_name r @ zh_enabled_by_assistant\<rparr>
                in and_then (sanitize_model_runtime env default_root (am_model_store_root state) r') (\<lambda>stored.
                   and_then (save (state\<lparr>am_runtimes := update_first (\<lambda>x. mt_runtime_id x = i) (\<lambda>_. stored) (am_runtimes state)\<rparr>)) (\<lambda>_. Ok r'))))"

definition zh_store_root_empty :: string where
  "zh_store_root_empty =
     [CHR 0xE6, CHR 0xA8, CHR 0xA1, CHR 0xE5, CHR 0x9E, CHR 0x8B, CHR 0xE4, CHR 0xBF, CHR 0x9D, CHR 0xE5, CHR 0xAD,
      CHR 0x98, CHR 0xE4, CHR 0xBD, CHR 0x8D, CHR 0xE7, CHR 0xBD, CHR 0xAE, CHR 0xE4, CHR 0xB8, CHR 0x8D, CHR 0xE8,
      CHR 0x83, CHR 0xBD, CHR 0xE4, CHR 0xB8, CHR 0xBA, CHR 0xE7, CHR 0xA9, CHR 0xBA]"

definition zh_store_root_relative :: string where
  "zh_store_root_relative =
     [CHR 0xE6, CHR 0xA8, CHR 0xA1, CHR 0xE5, CHR 0x9E, CHR 0x8B, CHR 0xE4, CHR 0xBF, CHR 0x9D, CHR 0xE5, CHR 0xAD,
      CHR 0x98, CHR 0xE4, CHR 0xBD, CHR 0x8D, CHR 0xE7, CHR 0xBD, CHR 0xAE, CHR 0xE5, CHR 0xBF, CHR 0x85, CHR 0xE9,
      CHR 0xA1, CHR 0xBB, CHR 0xE6, CHR 0x98, CHR 0xAF, CHR 0x20, CHR 0x48, CHR 0x61, CHR 0x72, CHR 0x62, CHR 0x6F,
      CHR 0x72, CHR 0x4F, CHR 0x53, CHR 0x20, CHR 0xE4, CHR 0xB8, CHR 0x8A, CHR 0xE7, CHR 0x9A, CHR 0x84, CHR 0xE7,
      CHR 0xBB, CHR 0x9D, CHR 0xE5, CHR 0xAF, CHR 0xB9, CHR 0xE8, CHR 0xB7, CHR 0xAF, CHR 0xE5, CHR 0xBE, CHR 0x84]"


definition save_model_store_root :: "model_loader \<Rightarrow> model_saver \<Rightarrow> string \<Rightarrow> string + admin_model_center_state" where
  "save_model_store_root loaded save store_root =
     (case non_empty_opt store_root of
        None \<Rightarrow> Err zh_store_root_empty
      | Some r \<Rightarrow> if \<not> starts_with r ''/'' then Err zh_store_root_relative
          else and_then loaded (\<lambda>state. save (state\<lparr>am_model_store_root := r\<rparr>)))"

definition save_model_capability_assignment ::
  "string \<Rightarrow> model_loader \<Rightarrow> model_saver \<Rightarrow> string \<Rightarrow> string \<Rightarrow> string option \<Rightarrow> string \<Rightarrow> string option \<Rightarrow> string + model_capability_binding_record" where
  "save_model_capability_assignment now loaded save capability_id desired_model_id active_model_id transition_status last_error =
     (case non_empty_opt capability_id of
        None \<Rightarrow> Err (''capability_id'' @ zh_not_be_empty)
      | Some c \<Rightarrow> (case non_empty_opt desired_model_id of
          None \<Rightarrow> Err (''desired_model_id'' @ zh_not_be_empty)
        | Some d \<Rightarrow> and_then loaded (\<lambda>state.
            let record = \<lparr>cb_capability_id = c, cb_desired_model_id = d, cb_active_model_id = Option.bind active_model_id non_empty_opt,
                  cb_transition_status = unwrap_or (non_empty_opt transition_status) ''ready'', cb_last_error = Option.bind last_error non_empty_opt,
                  cb_updated_at = now\<rparr>
            in and_then (save (state\<lparr>am_capability_bindings := vec_upsert cb_capability_id c (\<lambda>_. record) record (am_capability_bindings state)\<rparr>))
                 (\<lambda>_. Ok record))))"

section \<open>The whole state\<close>

definition oks :: "('e + 'a) list \<Rightarrow> 'a list" where
  "oks rs = List.map_filter (\<lambda>r. case r of Inl _ \<Rightarrow> None | Inr v \<Rightarrow> Some v) rs"

text \<open>The default entries whose key is not among the sanitised ones are added.\<close>

definition with_defaults :: "('a \<Rightarrow> string) \<Rightarrow> ('a \<Rightarrow> string + 'a) \<Rightarrow> 'a list \<Rightarrow> 'a list \<Rightarrow> 'a list" where
  "with_defaults key sanitize defaults xs = xs @ oks (map sanitize (filter (\<lambda>d. key d \<notin> key ` set xs) defaults))"

definition sanitize_router_policy :: "model_route_policy \<Rightarrow> model_route_policy" where
  "sanitize_router_policy p =
     (if mr_route_policy_id p = ''semantic.router'' then
        let order = filter (\<lambda>kind. \<not> eq_ignore_ascii_case kind ''cloud'') (mr_fallback_order p) in
        p\<lparr>mr_privacy_level := StrictLocal, mr_fallback_order := (if order = [] then [''local'', ''sidecar''] else order),
          mr_metadata := (case mr_metadata p of
              JObj m \<Rightarrow> JObj (bm_insert ''cloud_fallback_allowed'' (JBool False) (bm_insert ''local_only'' (JBool True)
                (hm_remove ''redaction_required'' (hm_remove ''cloud_fallback_scope'' m))))
            | _ \<Rightarrow> jobj [(''capability'', JStr ''router''), (''local_only'', JBool True), (''cloud_fallback_allowed'', JBool False)])\<rparr>
      else p)"

definition sanitize_binding :: "string \<Rightarrow> model_capability_binding_record \<Rightarrow> model_capability_binding_record option" where
  "sanitize_binding now b =
     Option.bind (non_empty_opt (cb_capability_id b)) (\<lambda>c. map_option (\<lambda>d.
       \<lparr>cb_capability_id = c, cb_desired_model_id = d, cb_active_model_id = Option.bind (cb_active_model_id b) non_empty_opt,
        cb_transition_status = unwrap_or (non_empty_opt (cb_transition_status b)) ''ready'',
        cb_last_error = Option.bind (cb_last_error b) non_empty_opt, cb_updated_at = unwrap_or (non_empty_opt (cb_updated_at b)) now\<rparr>)
       (non_empty_opt (cb_desired_model_id b)))"

definition sanitize_bindings :: "string \<Rightarrow> model_capability_binding_record list \<Rightarrow> model_capability_binding_record list" where
  "sanitize_bindings now bs =
     fold (\<lambda>b out. if cb_capability_id b \<in> cb_capability_id ` set out then out else out @ [b]) (List.map_filter (sanitize_binding now) bs) []"

definition sanitize_model_center_state :: "center_env \<Rightarrow> string \<Rightarrow> string \<Rightarrow> admin_model_center_state \<Rightarrow> admin_model_center_state" where
  "sanitize_model_center_state env default_root now state =
     (let endpoints = with_defaults me_model_endpoint_id (sanitize_model_endpoint env) (default_model_endpoints env)
            (oks (map (sanitize_model_endpoint env) (am_endpoints state)));
          given = oks (map sanitize_model_route_policy (am_route_policies state));
          policies = (if given = [] then default_model_route_policies
            else with_defaults mr_route_policy_id sanitize_model_route_policy default_model_route_policies given);
          store_root = unwrap_or (non_empty_opt (am_model_store_root state)) default_root;
          runtimes = with_defaults mt_runtime_id (sanitize_model_runtime env default_root store_root) (default_model_runtimes_for_store_root env store_root)
            (oks (map (sanitize_model_runtime env default_root store_root) (am_runtimes state)))
      in \<lparr>am_endpoints = sort_key (\<lambda>e. (model_kind_as_str (me_model_kind e), me_model_endpoint_id e)) endpoints,
          am_route_policies = sort_key mr_route_policy_id (map sanitize_router_policy policies),
          am_model_store_root = store_root,
          am_capability_bindings = sort_key cb_capability_id (sanitize_bindings now (am_capability_bindings state)),
          am_runtimes = sort_key mt_runtime_id runtimes\<rparr>)"

section \<open>Download jobs\<close>

record model_download_job_record =
  jb_job_id :: string
  jb_model_id :: string
  jb_display_name :: string
  jb_provider_key :: string
  jb_status :: string
  jb_requested_at :: string
  jb_updated_at :: string
  jb_target_path :: "string option"
  jb_progress_percent :: "u8 option"
  jb_bytes_downloaded :: "u64 option"
  jb_total_bytes :: "u64 option"
  jb_started_at :: "string option"
  jb_completed_at :: "string option"
  jb_error_message :: "string option"
  jb_message :: string
  jb_metadata :: json

definition model_download_job_record_timestamp :: "string \<Rightarrow> nat" where
  "model_download_job_record_timestamp v = unwrap_or (parse_unsigned (trim v)) 0"

definition model_download_job_record_sort_key :: "model_download_job_record \<Rightarrow> nat \<times> nat \<times> string" where
  "model_download_job_record_sort_key j =
     (model_download_job_record_timestamp (jb_updated_at j), model_download_job_record_timestamp (jb_requested_at j), jb_job_id j)"

definition model_download_job_record_is_active :: "model_download_job_record \<Rightarrow> bool" where
  "model_download_job_record_is_active j \<longleftrightarrow> jb_status j \<in> {''queued'', ''running'', ''downloading'', ''installing''}"

text \<open>\<^verbatim>\<open>max_by\<close> keeps the last of several greatest elements.\<close>

definition latest_model_download_job_index :: "string \<Rightarrow> model_download_job_record list \<Rightarrow> nat option" where
  "latest_model_download_job_index model_id jobs =
     fold (\<lambda>i best. case best of None \<Rightarrow> Some i
         | Some b \<Rightarrow> if model_download_job_record_sort_key (jobs ! b) \<le> model_download_job_record_sort_key (jobs ! i) then Some i else Some b)
       (filter (\<lambda>i. jb_model_id (jobs ! i) = model_id) [0..<length jobs]) None"

type_synonym job_loader = "string + model_download_job_record list"
type_synonym job_saver = "model_download_job_record list \<Rightarrow> string + unit"

definition queued_job ::
  "string \<Rightarrow> string \<Rightarrow> string \<Rightarrow> string \<Rightarrow> string \<Rightarrow> string option \<Rightarrow> json \<Rightarrow> model_download_job_record" where
  "queued_job job_id model_id now display_name provider_key target_path metadata =
     \<lparr>jb_job_id = job_id, jb_model_id = model_id, jb_display_name = trim display_name, jb_provider_key = trim provider_key, jb_status = ''queued'',
      jb_requested_at = now, jb_updated_at = now, jb_target_path = target_path, jb_progress_percent = Some 0, jb_bytes_downloaded = Some 0,
      jb_total_bytes = None, jb_started_at = None, jb_completed_at = None, jb_error_message = None,
      jb_message = ''download job queued by explicit admin action'', jb_metadata = metadata\<rparr>"

text \<open>The result says whether a worker has to be started.\<close>

definition create_or_update_model_download_job ::
  "string \<Rightarrow> string \<Rightarrow> job_loader \<Rightarrow> job_saver \<Rightarrow> string \<Rightarrow> string \<Rightarrow> string \<Rightarrow> string option \<Rightarrow> json \<Rightarrow> string + (model_download_job_record \<times> bool)" where
  "create_or_update_model_download_job now new_id loaded save model_id display_name provider_key target_path metadata =
     (if blank model_id then Err (''model_id'' @ zh_not_be_empty)
      else and_then loaded (\<lambda>jobs.
        case latest_model_download_job_index (trim model_id) jobs of
          Some i \<Rightarrow>
            if model_download_job_record_is_active (jobs ! i) then Ok (jobs ! i, False)
            else let job = queued_job (jb_job_id (jobs ! i)) (jb_model_id (jobs ! i)) now display_name provider_key target_path metadata
              in and_then (save (jobs[i := job])) (\<lambda>_. Ok (job, True))
        | None \<Rightarrow>
            let job = queued_job (''model-download-'' @ new_id) (trim model_id) now display_name provider_key target_path metadata
            in and_then (save (jobs @ [job])) (\<lambda>_. Ok (job, True))))"

definition cancelled_job :: "string \<Rightarrow> model_download_job_record \<Rightarrow> model_download_job_record" where
  "cancelled_job now j =
     (if jb_status j \<in> {''completed'', ''failed'', ''cancelled'', ''canceled''} then j
      else j\<lparr>jb_status := ''canceled'', jb_updated_at := now, jb_completed_at := Some now,
        jb_message := ''download job canceled by explicit admin action''\<rparr>)"

definition cancel_model_download_job ::
  "string \<Rightarrow> job_loader \<Rightarrow> job_saver \<Rightarrow> string \<Rightarrow> string + model_download_job_record option" where
  "cancel_model_download_job now loaded save job_id =
     (if blank job_id then Ok None
      else and_then loaded (\<lambda>jobs.
        case find (\<lambda>j. jb_job_id j = trim job_id) jobs of
          None \<Rightarrow> Ok None
        | Some j \<Rightarrow> and_then (save (update_first (\<lambda>j. jb_job_id j = trim job_id) (cancelled_job now) jobs)) (\<lambda>_. Ok (Some (cancelled_job now j)))))"

definition zh_job_not_found :: string where
  "zh_job_not_found =
     [CHR 0xE6, CHR 0x9C, CHR 0xAA, CHR 0xE6, CHR 0x89, CHR 0xBE, CHR 0xE5, CHR 0x88, CHR 0xB0, CHR 0xE6, CHR 0xA8,
      CHR 0xA1, CHR 0xE5, CHR 0x9E, CHR 0x8B, CHR 0xE4, CHR 0xB8, CHR 0x8B, CHR 0xE8, CHR 0xBD, CHR 0xBD, CHR 0xE4,
      CHR 0xBB, CHR 0xBB, CHR 0xE5, CHR 0x8A, CHR 0xA1, CHR 0x20]"


definition save_model_download_job :: "job_loader \<Rightarrow> job_saver \<Rightarrow> model_download_job_record \<Rightarrow> string + model_download_job_record" where
  "save_model_download_job loaded save job =
     (if blank (jb_job_id job) then Err (''job_id'' @ zh_not_be_empty)
      else and_then loaded (\<lambda>jobs.
        if \<not> list_ex (\<lambda>j. jb_job_id j = trim (jb_job_id job)) jobs then Err (zh_job_not_found @ trim (jb_job_id job))
        else and_then (save (update_first (\<lambda>j. jb_job_id j = trim (jb_job_id job)) (\<lambda>_. job) jobs)) (\<lambda>_. Ok job)))"

definition model_download_job :: "job_loader \<Rightarrow> string \<Rightarrow> string + model_download_job_record option" where
  "model_download_job loaded job_id =
     (if blank job_id then Ok None else and_then loaded (\<lambda>jobs. Ok (find (\<lambda>j. jb_job_id j = trim job_id) jobs)))"

end

