(* ===== verification/Model_Settings_Laws.thy ===== *)
theory Model_Settings_Laws
  imports Model_Settings Model_Laws
begin

text \<open>Secrets of endpoints survive the round through the admin console, sanitised settings keep the router local, and downloads start once.\<close>

section \<open>Redaction\<close>

text \<open>No secret is left: at every depth the members with a secret key are empty texts.\<close>

fun secret_free :: "json \<Rightarrow> bool" where
  "secret_free (JObj m) \<longleftrightarrow> (\<forall>(k, v) \<in> set m. if is_secret_key k then v = JStr [] else secret_free v)"
| "secret_free (JArr vs) \<longleftrightarrow> (\<forall>v \<in> set vs. secret_free v)"
| "secret_free _ \<longleftrightarrow> True"

lemma secret_key_ends_otherwise: "list_all (\<lambda>k. \<not> suffix ''_configured'' k) secret_keys"
  by code_simp

lemma secret_keys_iff: "is_secret_key k \<longleftrightarrow> k \<in> set secret_keys"
  by (simp add: is_secret_key_def secret_keys_def)

lemma configured_key_not_secret [simp]: "\<not> is_secret_key (k @ ''_configured'')"
proof -
  have "suffix ''_configured'' (k @ ''_configured'')" by (simp add: suffix_def)
  then show ?thesis using secret_key_ends_otherwise unfolding secret_keys_iff list_all_iff by blast
qed

lemma set_or_insert: "set (or_insert k v m) \<subseteq> insert (k, v) (set m)"
  using set_bm_insert [of k v m] by (auto simp: or_insert_def)

lemma set_fold_or_insert: "set (fold (\<lambda>kv. or_insert (fst kv) (snd kv)) kvs m) \<subseteq> set kvs \<union> set m"
proof (induction kvs arbitrary: m)
  case (Cons kv kvs)
  then show ?case using set_or_insert [of "fst kv" "snd kv" m] by fastforce
qed simp

lemma flags_not_secret: "kv \<in> set (configured_flags m) \<Longrightarrow> \<not> is_secret_key (fst kv) \<and> secret_free (snd kv)"
  by (auto simp: configured_flags_def)

lemma redacted_secret_free [simp]: "secret_free (redact_secret_value v)"
proof (induction v rule: redact_secret_value.induct)
  case (1 m)
  let ?m = "map (\<lambda>(key, nested). (key, if is_secret_key key then JStr [] else redact_secret_value nested)) m"
  have "set (fold (\<lambda>kv. or_insert (fst kv) (snd kv)) (configured_flags m) ?m) \<subseteq> set (configured_flags m) \<union> set ?m"
    by (rule set_fold_or_insert)
  moreover have "if is_secret_key k then v = JStr [] else secret_free v" if "(k, v) \<in> set ?m" for k v
    using that 1 by auto
  ultimately show ?case using flags_not_secret [of _ m] by fastforce
qed auto

section \<open>Secrets survive\<close>

lemma metadata_string_JObj: "metadata_string (JObj m) k = opt_filter (\<lambda>v. v \<noteq> []) (map_option trim (Option.bind (hm_get m k) as_str))"
  by (simp add: metadata_string_def)

lemma metadata_string_members [simp]: "metadata_string (JObj (as_members v)) k = metadata_string v k"
  by (simp add: metadata_string_def)

lemma preserve_secret_string:
  assumes "k' \<noteq> k @ ''_configured''"
  shows "metadata_string (JObj (preserve_secret ex k m)) k' =
    (if k' = k \<and> metadata_string (JObj m) k = None then metadata_string (JObj ex) k else metadata_string (JObj m) k')"
proof (cases "metadata_string (JObj ex) k")
  case None
  then show ?thesis by (simp add: preserve_secret_def metadata_string_JObj)
next
  case (Some v)
  then have "trim v = v" "v \<noteq> []" by (auto simp: metadata_string_JObj opt_filter_def split: option.splits if_splits)
  then show ?thesis
    using Some assms by (auto simp: preserve_secret_def metadata_string_JObj bm_get_insert opt_filter_def unwrap_or_def Let_def
      split: option.splits if_splits)
qed

lemma preserve_secrets_string:
  "\<forall>k \<in> set ks. k' \<noteq> k @ ''_configured'' \<Longrightarrow> metadata_string (JObj (fold (preserve_secret ex) ks m)) k' =
     (if k' \<in> set ks \<and> metadata_string (JObj m) k' = None then metadata_string (JObj ex) k' else metadata_string (JObj m) k')"
  by (induction ks arbitrary: m) (auto simp: preserve_secret_string)

lemma preserved_string:
  assumes "is_secret_key k"
  shows "metadata_string (preserve_model_endpoint_secret_metadata ex v) k =
    (if metadata_string v k = None then metadata_string ex k else metadata_string v k)"
proof (cases ex)
  case (JObj m)
  have "\<forall>k2 \<in> set secret_keys. k \<noteq> k2 @ ''_configured''" using assms configured_key_not_secret by blast
  then show ?thesis
    using assms JObj by (simp add: preserve_model_endpoint_secret_metadata_def preserve_secrets_string secret_keys_iff [symmetric])
qed (simp_all add: preserve_model_endpoint_secret_metadata_def metadata_string_None)

lemma redacted_string_None: "is_secret_key k \<Longrightarrow> metadata_string (redact_secret_value v) k = None"
proof -
  assume k: "is_secret_key k"
  have "json_get (redact_secret_value v) k = Some w \<Longrightarrow> w = JStr []" for w
  proof -
    assume w: "json_get (redact_secret_value v) k = Some w"
    then obtain m where m: "redact_secret_value v = JObj m" by (cases "redact_secret_value v") auto
    then have "(k, w) \<in> set m" using w by (auto simp: hm_get_def dest: map_of_SomeD)
    then show "w = JStr []" using redacted_secret_free [of v] k unfolding m by auto
  qed
  then show ?thesis by (cases "json_get (redact_secret_value v) k") (auto simp: metadata_string_def opt_filter_def)
qed

lemma normalized_string [simp]: "metadata_string (normalize_json_object v) k = metadata_string v k"
  by (cases v) (simp_all add: normalize_json_object_def metadata_string_def jobj_def hm_get_def)

lemma update_first_guarded: "update_first p (\<lambda>x. if p x then f x else x) xs = update_first p f xs"
  by (induction xs) auto

text \<open>The sanitiser writes one secret only: the API key of a built-in endpoint, which is that of the hub's default endpoint.\<close>

definition own_api_key :: "center_env \<Rightarrow> model_endpoint \<Rightarrow> string option" where
  "own_api_key env e =
     (if me_model_endpoint_id e \<in> set model_api_endpoint_ids \<and> metadata_bool (me_metadata e) ''builtin''
      then Option.bind (find (same_endpoint (me_model_endpoint_id e)) (default_model_endpoints env))
        (\<lambda>d. metadata_string (me_metadata d) ''api_key'')
      else None)"

lemma set_metadata_other [simp]:
  "k \<noteq> key \<Longrightarrow> metadata_string (set_model_endpoint_metadata_string key v m) k = metadata_string m k"
  "k \<noteq> key \<Longrightarrow> metadata_string (set_model_endpoint_metadata_bool key b m) k = metadata_string m k"
  by (cases m; simp add: set_model_endpoint_metadata_string_def set_model_endpoint_metadata_bool_def metadata_string_JObj bm_get_insert)+

lemma set_metadata_copied [simp]:
  "metadata_string (set_model_endpoint_metadata_string key (unwrap_or (Option.bind (json_get v key) as_str) []) (JObj m)) key =
   metadata_string v key"
  by (cases "Option.bind (json_get v key) as_str")
    (simp_all add: set_model_endpoint_metadata_string_def metadata_string_JObj metadata_string_def bm_get_insert opt_filter_def unwrap_or_def)

lemma migrate_legacy_urls_secret: "is_secret_key k \<Longrightarrow> metadata_string (migrate_legacy_urls d m) k = metadata_string m k"
  by (auto simp: migrate_legacy_urls_def is_secret_key_def Let_def split: option.split)

lemma align_embedding_secret:
  "is_secret_key k \<Longrightarrow> metadata_string (me_metadata (align_embedding_endpoint_identity_with_runtime e)) k = metadata_string (me_metadata e) k"
  by (auto simp: align_embedding_endpoint_identity_with_runtime_def is_secret_key_def Let_def split: option.split)

lemma align_embedding_id [simp]:
  "me_model_endpoint_id (align_embedding_endpoint_identity_with_runtime e) = me_model_endpoint_id e"
  by (simp add: align_embedding_endpoint_identity_with_runtime_def Let_def split: option.split)

lemma normalize_builtin_id [simp]:
  "me_model_endpoint_id (normalize_builtin_local_model_api_endpoint env e) = me_model_endpoint_id e"
  by (simp add: normalize_builtin_local_model_api_endpoint_def Let_def split: option.split)

lemma normalize_builtin_secret:
  assumes "is_secret_key k" "me_metadata e = JObj m" "metadata_string (me_metadata e) k = None"
  shows "metadata_string (me_metadata (normalize_builtin_local_model_api_endpoint env e)) k =
    (if k = ''api_key'' then own_api_key env e else None)"
proof -
  have keys: "k \<noteq> ''cloud_fallback_allowed''" "k \<noteq> ''local_only''" "k \<noteq> ''semantic_router''" "k \<noteq> ''api_key_required''"
    "k \<noteq> ''api_key_configured''"
    using assms(1) by (auto simp: is_secret_key_def)
  show ?thesis
    using assms keys
    by (cases "k = ''api_key''")
      (simp_all add: normalize_builtin_local_model_api_endpoint_def own_api_key_def migrate_legacy_urls_secret
        same_endpoint_def [abs_def] Let_def split: option.split)
qed

lemma redacted_flag: "json_get (redact_secret_value v) ''builtin'' = map_option redact_secret_value (json_get v ''builtin'')"
proof (cases v)
  case (JObj m)
  have other: "k @ ''_configured'' \<noteq> ''builtin''" for k by (auto dest: arg_cong [where f = rev])
  have o: "k \<noteq> ''builtin'' \<Longrightarrow> hm_get (or_insert k w ms) ''builtin'' = hm_get ms ''builtin''" for k w ms
    by (simp add: or_insert_def bm_get_insert)
  have f: "\<forall>kv \<in> set kvs. fst kv \<noteq> ''builtin'' \<Longrightarrow> hm_get (fold (\<lambda>kv. or_insert (fst kv) (snd kv)) kvs ms) ''builtin'' = hm_get ms ''builtin''" for kvs ms
    by (induction kvs arbitrary: ms) (simp_all add: o)
  have "hm_get (map (\<lambda>(key, nested). (key, if is_secret_key key then JStr [] else redact_secret_value nested)) m) ''builtin'' =
      map_option redact_secret_value (hm_get m ''builtin'')"
    by (induction m) (auto simp: hm_get_def is_secret_key_def)
  moreover have "\<forall>kv \<in> set (configured_flags m). fst kv \<noteq> ''builtin''" using other by (auto simp: configured_flags_def)
  ultimately show ?thesis using f by (simp add: JObj)
qed simp_all

lemma redacted_builtin: "metadata_bool (normalize_json_object (redact_secret_value v)) ''builtin'' = metadata_bool v ''builtin''"
proof -
  have n: "metadata_bool (normalize_json_object w) ''builtin'' = metadata_bool w ''builtin''" for w
    by (cases w) (simp_all add: normalize_json_object_def metadata_bool_def jobj_def hm_get_def)
  have "as_bool (redact_secret_value x) = as_bool x" for x by (cases x) auto
  then show ?thesis
    unfolding n by (cases "json_get v ''builtin''") (simp_all add: metadata_bool_def redacted_flag)
qed

text \<open>A stored endpoint has an id that is not blank and has no white space around it.\<close>

definition stored_id :: "string \<Rightarrow> bool" where
  "stored_id i \<longleftrightarrow> i \<noteq> [] \<and> trim i = i"

lemma sanitize_redacted:
  assumes "stored_id (me_model_endpoint_id e)"
  obtains r where "sanitize_model_endpoint env (redact_model_endpoint e) = Ok r" "me_model_endpoint_id r = me_model_endpoint_id e"
    "\<And>k. is_secret_key k \<Longrightarrow> metadata_string (me_metadata r) k = (if k = ''api_key'' then own_api_key env e else None)"
proof -
  obtain f where f: "sanitize_model_endpoint env (redact_model_endpoint e) =
      Ok (align_embedding_endpoint_identity_with_runtime (normalize_builtin_local_model_api_endpoint env f))"
      "me_model_endpoint_id f = me_model_endpoint_id e" "me_metadata f = normalize_json_object (redact_secret_value (me_metadata e))"
    using assms by (simp add: sanitize_model_endpoint_def redact_model_endpoint_def stored_id_def Let_def)
  obtain m where m: "me_metadata f = JObj m" unfolding f(3) by (cases "redact_secret_value (me_metadata e)") (auto simp: normalize_json_object_def jobj_def)
  have own: "own_api_key env f = own_api_key env e" by (simp add: own_api_key_def f redacted_builtin)
  have "metadata_string (me_metadata f) k = None" if "is_secret_key k" for k using that by (simp add: f(3) redacted_string_None)
  then show thesis
    using that [of "align_embedding_endpoint_identity_with_runtime (normalize_builtin_local_model_api_endpoint env f)"] f(1,2) m
    by (simp add: align_embedding_secret normalize_builtin_secret own)
qed

text \<open>
  C15. Top-level secrets survive the round trip through the console, for every stored endpoint, built in or not, and every way of
  saving. (The id of a stored endpoint is not blank and has no white space around it: the sanitiser sees to that.) The redacted form of an endpoint has no secret at any depth. When it is saved back, the state handed to the saver holds,
  under the endpoint's id, for each secret key of the metadata itself the text that was stored there (without the white space
  around it); the API key of a built-in endpoint is the hub's own one, if the hub has one. Every other endpoint stays as it was.
  Secrets inside nested objects of the metadata and secrets that are not texts are not covered: the code does not put them back.
\<close>

theorem secrets_survive_redacted_save:
  assumes "find (same_endpoint (me_model_endpoint_id e)) (am_endpoints state) = Some e" "stored_id (me_model_endpoint_id e)"
  shows "secret_free (me_metadata (redact_model_endpoint e)) \<and>
    (\<exists>state' e'. (\<forall>save. save_model_endpoint env (Ok state) save (redact_model_endpoint e) = save state') \<and>
       find (same_endpoint (me_model_endpoint_id e)) (am_endpoints state') = Some e' \<and>
       (\<forall>k. is_secret_key k \<longrightarrow> metadata_string (me_metadata e') k =
          (if k = ''api_key'' \<and> own_api_key env e \<noteq> None then own_api_key env e else metadata_string (me_metadata e) k)) \<and>
       (\<forall>i. i \<noteq> me_model_endpoint_id e \<longrightarrow> find (same_endpoint i) (am_endpoints state') = find (same_endpoint i) (am_endpoints state)))"
proof
  show "secret_free (me_metadata (redact_model_endpoint e))" by (simp add: redact_model_endpoint_def)
  let ?i = "me_model_endpoint_id e"
  obtain r where r: "sanitize_model_endpoint env (redact_model_endpoint e) = Ok r" "me_model_endpoint_id r = ?i"
      "\<And>k. is_secret_key k \<Longrightarrow> metadata_string (me_metadata r) k = (if k = ''api_key'' then own_api_key env e else None)"
    using sanitize_redacted [OF assms(2)] by blast
  let ?g = "\<lambda>x. if me_model_endpoint_id x = ?i
    then r\<lparr>me_metadata := preserve_model_endpoint_secret_metadata (me_metadata x) (me_metadata r)\<rparr> else x"
  let ?es = "am_endpoints state"
  have ex: "list_ex (\<lambda>x. me_model_endpoint_id x = ?i) ?es" using assms(1) unfolding same_endpoint_def [abs_def] by (simp add: list_ex_find)
  have st: "store_endpoint r ?es = update_first (\<lambda>x. me_model_endpoint_id x = ?i) ?g ?es"
    using ex r(2) by (simp add: store_endpoint_def vec_upsert_def update_first_guarded)
  have g: "me_model_endpoint_id (?g x) = me_model_endpoint_id x" for x by (simp add: r(2))
  have f: "find (same_endpoint j) (store_endpoint r ?es) = (if j = ?i then map_option ?g (find (same_endpoint ?i) ?es) else find (same_endpoint j) ?es)" for j
    unfolding st same_endpoint_def [abs_def] by (rule update_first_find [of me_model_endpoint_id ?g, OF g])
  have "metadata_string (me_metadata (?g e)) k =
      (if k = ''api_key'' \<and> own_api_key env e \<noteq> None then own_api_key env e else metadata_string (me_metadata e) k)" if "is_secret_key k" for k
    using that r(3) [OF that] by (auto simp: preserved_string)
  then show "\<exists>state' e'. (\<forall>save. save_model_endpoint env (Ok state) save (redact_model_endpoint e) = save state') \<and>
       find (same_endpoint ?i) (am_endpoints state') = Some e' \<and>
       (\<forall>k. is_secret_key k \<longrightarrow> metadata_string (me_metadata e') k =
          (if k = ''api_key'' \<and> own_api_key env e \<noteq> None then own_api_key env e else metadata_string (me_metadata e) k)) \<and>
       (\<forall>i. i \<noteq> ?i \<longrightarrow> find (same_endpoint i) (am_endpoints state') = find (same_endpoint i) ?es)"
    using assms(1) f r(1) by (intro exI [of _ "state\<lparr>am_endpoints := store_endpoint r ?es\<rparr>"] exI [of _ "?g e"])
      (simp add: save_model_endpoint_def)
qed

definition sample_endpoint :: model_endpoint where
  "sample_endpoint = builtin_endpoint ''llm-lab'' KLlm EpSidecar ''openai_compatible'' ''lab'' [] (jobj []) EpActive
     (jobj [(''api_key'', JStr ''k-123''), (''base_url'', JStr ''http://lab/v1''), (''proxy'', jobj [(''password'', JStr ''pw'')])])"

definition sample_models :: admin_model_center_state where
  "sample_models = \<lparr>am_endpoints = [sample_endpoint], am_route_policies = [], am_model_store_root = [], am_capability_bindings = [], am_runtimes = []\<rparr>"

definition empty_center :: center_env where
  "empty_center = \<lparr>ce_var = (\<lambda>_. NotPresent), ce_parse_url = (\<lambda>_. None), ce_set_path = (\<lambda>u _. u)\<rparr>"

theorem secrets_survive_redacted_save_witness:
  "(\<exists>state' e'. save_model_endpoint empty_center (Ok sample_models) Ok (redact_model_endpoint sample_endpoint) = Ok state' \<and>
     find (same_endpoint ''llm-lab'') (am_endpoints state') = Some e' \<and> metadata_string (me_metadata e') ''api_key'' = Some ''k-123'')"
proof -
  have i: "me_model_endpoint_id sample_endpoint = ''llm-lab''" by code_simp
  have "find (same_endpoint (me_model_endpoint_id sample_endpoint)) (am_endpoints sample_models) = Some sample_endpoint"
    by (simp add: sample_models_def same_endpoint_def)
  moreover have "stored_id (me_model_endpoint_id sample_endpoint)" "own_api_key empty_center sample_endpoint = None" by code_simp+
  moreover have "is_secret_key ''api_key''" "metadata_string (me_metadata sample_endpoint) ''api_key'' = Some ''k-123''" by code_simp+
  ultimately show ?thesis using secrets_survive_redacted_save [of sample_endpoint sample_models empty_center] unfolding i by metis
qed

text \<open>The secrets inside nested objects do not: they are redacted but not put back.\<close>

lemma nested_secret_is_lost:
  "map (\<lambda>e. Option.bind (json_get (me_metadata e) ''proxy'') (\<lambda>p. metadata_string p ''password''))
     (am_endpoints (projr (save_model_endpoint empty_center (Ok sample_models) Ok (redact_model_endpoint sample_endpoint)))) = [None]"
  "map (\<lambda>e. Option.bind (json_get (me_metadata e) ''proxy'') (\<lambda>p. metadata_string p ''password'')) (am_endpoints sample_models) = [Some ''pw'']"
  by code_simp+

end

