(* ===== verification/Spec2Isabelle.thy ===== *)
theory Spec2Isabelle
  imports Plan_Runtime Tool_Loop Approval Router Scheduler_Queue Access Service_Auth Control_Audit Model_Routing Dvr
    Workflow_Evaluation Task_Store_Sessions Privacy_Gateway Remote_View Harbor_Apps Device_Registry_Sync Guardian_Runs Guardian_Notify
    Family_Memory Message_Laws Message_Home_Actions Model_Router_Laws Model_Settings_Laws
begin

text \<open>
  HarborBeacon: a verification library of the core of the hub.

  HarborBeacon is a home hub. Requests from messaging channels and from the admin console become plans of
  actions; a policy gate decides which actions may run; a router runs them on executors; the control
  plane keeps users, permissions, credentials, audit records, model routes, tasks and conversations; and a
  scheduler shares the AI accelerator between workloads. The library models the parts of the Rust crate under
  \<^verbatim>\<open>src/src\<close> that carry these decisions and this state. Each theory translates one part, definition
  by definition, with the names of the source, and proves what makes it correct.

  \<^bold>\<open>Theories and sources\<close>

  \<^item> \<open>Harbor_Prelude\<close>: Rust strings as UTF-8 bytes with \<^verbatim>\<open>trim\<close> and case folding, \<^verbatim>\<open>HashMap\<close> and
    \<^verbatim>\<open>BTreeMap\<close> as association lists behind the locale \<open>string_map\<close>, JSON values, stable sorting by a comparator,
    \<^verbatim>\<open>Option\<close> and \<^verbatim>\<open>Result\<close> combinators, and the locales \<open>step_invariant\<close> and \<open>relative_invariant\<close>.
  \<^item> \<open>Contracts\<close>, \<open>Policy\<close>, \<open>Approval\<close>, \<open>Router\<close>, \<open>Plan_Runtime\<close>, \<open>Tool_Loop\<close>: \<^verbatim>\<open>orchestrator/contracts.rs\<close>,
    \<^verbatim>\<open>policy.rs\<close>, \<^verbatim>\<open>approval.rs\<close>, \<^verbatim>\<open>router.rs\<close> with \<^verbatim>\<open>planner/mod.rs\<close>, \<^verbatim>\<open>runtime.rs\<close> with \<^verbatim>\<open>audit.rs\<close>,
    \<^verbatim>\<open>tool_loop.rs\<close>. Executors, tools and the model callback act on an arbitrary world and are arguments. The
    lemmas characterise the gate, show that the router is first success over its candidates and that executing a
    plan has the effects of its admitted actions only, and that the audit log is complete.
  \<^item> \<open>Scheduler\<close>, \<open>Scheduler_System\<close>, \<open>Scheduler_Queue\<close>: \<^verbatim>\<open>runtime/ai_resource_scheduler.rs\<close>. Every critical
    section of the lock is one function on the scheduler state; threads, leases and the condition variable are a
    step relation. The lemmas give mutual exclusion, permanence of quarantine, accounting, bounds of the queue, order
    of service, progress and the absence of lost wake-ups.
  \<^item> \<open>Access\<close>: \<^verbatim>\<open>control_plane/access.rs\<close>, \<^verbatim>\<open>users.rs\<close>, \<^verbatim>\<open>auth.rs\<close>, \<^verbatim>\<open>runtime/access_control.rs\<close> and the permission
    functions of \<^verbatim>\<open>runtime/admin_console.rs\<close>. Who a request comes from, who may do what, and the default table of roles.
  \<^item> \<open>Service_Auth\<close>: \<^verbatim>\<open>service_auth.rs\<close>. Which credentials a process accepts and sends.
  \<^item> \<open>Control_Audit\<close>: \<^verbatim>\<open>control_plane/audit.rs\<close>. Redaction, the bounded stream, paging.
  \<^item> \<open>Model_Routing\<close>: \<^verbatim>\<open>control_plane/models.rs\<close>, \<^verbatim>\<open>routing.rs\<close>. Choice of model endpoints.
  \<^item> \<open>Dvr\<close>: \<^verbatim>\<open>runtime/dvr.rs\<close>. Recording settings and storage estimates on 32 and 64 bit words.
  \<^item> \<open>Workflow_Compiler\<close>, \<open>Workflow_Evaluation\<close>: \<^verbatim>\<open>orchestrator/workflow_compiler.rs\<close> with its embedded document
    and evaluation cases, evaluated in the kernel.
  \<^item> \<open>Conversation_State\<close>, \<open>Task_Records\<close>, \<open>Task_Store\<close>, \<open>Task_Store_Laws\<close>, \<open>Task_Store_Sessions\<close>:
    \<^verbatim>\<open>runtime/task_session.rs\<close> and the records of \<^verbatim>\<open>control_plane/tasks.rs\<close>, \<^verbatim>\<open>approvals.rs\<close>, \<^verbatim>\<open>events.rs\<close> and
    \<^verbatim>\<open>media.rs\<close>. The store is the content of one file; the operations are functions on it with all their error
    branches. The locales \<open>file_table\<close> and \<open>keyed_table\<close> state what a table of the file promises and are interpreted
    on all ten tables; the operations refine updates of finite maps.
  \<^item> \<open>Text_Words\<close>, \<open>Privacy_Gateway\<close>: \<^verbatim>\<open>split_whitespace\<close> and \<^verbatim>\<open>join\<close>; \<^verbatim>\<open>runtime/privacy_gateway.rs\<close>. What a
    capsule for a cloud model may contain (its task and facts are cleaned, the modality is not) and when it may be sent.
  \<^item> \<open>Remote_View\<close>: \<^verbatim>\<open>runtime/remote_view.rs\<close>. Signed share tokens; HMAC, base64 and JSON are arguments.
  \<^item> \<open>Harbor_Apps\<close>: \<^verbatim>\<open>control_plane/apps.rs\<close>, \<^verbatim>\<open>orchestrator/executors/harbor_apps.rs\<close> and the registry operations of
    \<^verbatim>\<open>runtime/admin_console.rs\<close>. Validation of manifests, the registry, scope of execution plans with
    all arguments of their commands.

  \<^item> \<open>Device_Registry\<close>, \<open>Device_Registry_Laws\<close>, \<open>Device_Registry_Sync\<close>: \<^verbatim>\<open>runtime/registry.rs\<close> with the records of
    \<^verbatim>\<open>control_plane/devices.rs\<close>. The platform records of devices, the legacy camera view as a projection of them, upserts,
    replacement and Home Assistant synchronisation. The vectors are searched by key behind the locale \<open>keyed_vec\<close> of the
    prelude. The lemmas show that the two views round-trip, what reads back after an upsert,
    that synchronised devices mirror their entities while all records of the others stay, and well-formedness.
  \<^item> \<open>Home_Assistant\<close>, \<open>Home_Guardian\<close>, \<open>Guardian_Evaluation\<close>, \<open>Guardian_Laws\<close>, \<open>Guardian_Runs\<close>:
    \<^verbatim>\<open>connectors/home_assistant.rs\<close>, \<^verbatim>\<open>runtime/home_guardian.rs\<close>, and the evaluation of guardian rules in
    \<^verbatim>\<open>bin/agent_hub_admin_api.rs\<close> with the automation reviews of \<^verbatim>\<open>runtime/admin_console.rs\<close>. Which service calls
    can leave the hub, that only firing rules act, that an action runs at most once per event, and the rate of automatic
    evaluations.
  \<^item> \<open>Notifications\<close>, \<open>Vision_Events\<close>, \<open>Vision_Laws\<close>, \<open>Vision_Event_Store\<close>, \<open>Guardian_Notify\<close>:
    \<^verbatim>\<open>connectors/notifications.rs\<close>, \<^verbatim>\<open>runtime/vision_event.rs\<close> and the notify action of the guardian. Which texts of
    an event may leave the hub, when the payload for Home Assistant is built, that the backward scan of the event file
    reads what a forward reading would, and that every request of an evaluation is safe.
  \<^item> \<open>Family_Timeline\<close>, \<open>Family_Memory\<close>: \<^verbatim>\<open>runtime/family_timeline.rs\<close> and \<^verbatim>\<open>runtime/family_memory.rs\<close>. The query,
    buckets and digest of the timeline; feedback on events, its file, and the overlays as summaries of the feedback.
  \<^item> \<open>Message_Text\<close>, \<open>Message_Plan\<close>, \<open>Message_Router\<close>, \<open>Message_Laws\<close>, \<open>Message_Home_Actions\<close>: the general messages of
    \<^verbatim>\<open>runtime/task_api.rs\<close> with \<^verbatim>\<open>task_api/general_message_plan.rs\<close>, \<^verbatim>\<open>general_message_router.rs\<close>,
    \<^verbatim>\<open>home_assistant_actions.rs\<close> and the boundary of \<^verbatim>\<open>runtime/evt_readiness.rs\<close>. How a text becomes a plan (signals, weighted
    candidates, deterministic choice, semantic parser with its guards, fallback), which tools a message can reach, and what
    the Home Assistant handler sends, also after a clarification. The model is an argument: the theorems hold whatever it
    answers.
  \<^item> \<open>Model_Center\<close>, \<open>Model_Runs\<close>, \<open>Model_Laws\<close>, \<open>Model_Router_Laws\<close>: \<^verbatim>\<open>runtime/model_center.rs\<close> with the requests
    of \<^verbatim>\<open>connectors/ai_provider.rs\<close> and the built-in endpoints of \<^verbatim>\<open>runtime/admin_console.rs\<close>. Which endpoint serves a
    text, an image, a recording, an embedding or a rerank request, how a text request falls back from one candidate to the
    next, and the token budget of texts. The servers, the health probe and the processes are arguments; the theorems compare the real
    world with one that refuses everything that is not allowed, and show that the requests cannot tell the difference.
  \<^item> \<open>Model_Settings\<close>, \<open>Model_Settings_Laws\<close>: the model settings of \<^verbatim>\<open>runtime/admin_console.rs\<close>: sanitising, endpoints,
    route policies, runtimes, capability bindings, download jobs, and the redaction of secrets, of which
    a save puts back those at the top level of the metadata.

  \<^bold>\<open>Conventions\<close>

  Rust errors are values of sum types, \<^verbatim>\<open>None\<close> is \<open>None\<close>, unsigned machine integers are words where their width
  matters. Third-party code is an argument: JSON conversion (\<^verbatim>\<open>serde_json\<close>), random identifiers (\<^verbatim>\<open>uuid\<close>), hashing
  (\<^verbatim>\<open>sha2\<close>), comparison in constant time (\<^verbatim>\<open>constant_time_eq\<close>), the file system, the environment and the clock.
  What a theorem uses of them is a hypothesis named where it is used. What a theorem allows is written out apart from the
  code it judges: the local hosts of \<open>Model_Laws\<close>, the private words of \<open>Privacy_Gateway\<close>, the commands of \<open>Harbor_Apps\<close>, the
  requester of \<open>Access\<close> and the mirrored devices of \<open>Device_Registry_Sync\<close> are predicates of their own. The recursion of the models is structural or
  comes with a measure; no fuel is used except the iteration budget that the tool loop itself has.

  \<^bold>\<open>Not modelled\<close>

  The HTTP services and command-line tools of \<^verbatim>\<open>bin\<close> except the guardian evaluation, the other connectors,
  adapters and executors (network and process I/O), the search indexes (\<^verbatim>\<open>knowledge\<close>, \<^verbatim>\<open>lexical_index\<close>, \<^verbatim>\<open>vector_index\<close>: tantivy and HNSW), speech and video
  processing, device discovery, the download worker and the streaming of model answers, and of \<^verbatim>\<open>runtime/task_api.rs\<close> the model prompts, the handlers of the domain tools and
  the rendering of their responses.
\<close>

end
